(* ===== verification/Go_Prelude.thy ===== *)
theory Go_Prelude
  imports Main
begin

text \<open>
  The Go runtime as the rest of the development sees it: error values, the results of a call
  (a value, an error, a panic, or no return at all), programs that thread a state, the loops of
  the language, and the functions of the packages \<open>strings\<close> and \<open>strconv\<close> that the provider
  calls. The lemma collections \<open>go_simps\<close> (evaluation of the combinators), \<open>frame_intros\<close> and
  \<open>post_intros\<close> (compositional rules for what a program keeps and what it establishes) carry the
  proofs of the component theories.
\<close>

named_theorems go_simps \<open>evaluation rules of the program combinators\<close>
named_theorems frame_intros \<open>compositional rules for relations between the state before and after\<close>
named_theorems post_intros \<open>compositional rules for postconditions\<close>

section \<open>Errors\<close>

text \<open>
  The error values of the provider, by what the code observes of them: \<open>errors.New\<close> and
  \<open>errors.Errorf\<close> carry a message; \<open>errors.Wrap\<close> adds a message in front of another error; a
  service error of the OCI SDK has an HTTP status code, a message and the text its \<open>Error\<close>
  method renders.
\<close>

datatype goerr =
    ErrNew string
  | ErrWrap string goerr
  | ServiceErr (GetHTTPStatusCode: int) (GetMessage: string) (svc_text: string)

fun Error :: "goerr \<Rightarrow> string" where
  "Error (ErrNew msg) = msg"
| "Error (ErrWrap msg e) = msg @ '': '' @ Error e"
| "Error (ServiceErr _ _ txt) = txt"

fun Cause :: "goerr \<Rightarrow> goerr" where
  "Cause (ErrWrap _ e) = Cause e"
| "Cause e = e"

fun IsServiceError :: "goerr \<Rightarrow> bool" where
  "IsServiceError (ServiceErr _ _ _) = True"
| "IsServiceError _ = False"

lemma Cause_not_wrap: "Cause e \<noteq> ErrWrap m e'"
  by (induction e) auto

lemma Cause_idem [simp]: "Cause (Cause e) = Cause e"
  by (induction e) auto

section \<open>Programs\<close>

text \<open>
  A call ends with a value, with a non-nil error, with a run-time panic (a nil dereference, an
  index out of range), or it never returns. A program of state type \<open>'s\<close> maps the state before
  the call to the result and the state after it; effects made before an error or a panic stay.
\<close>

datatype 'a res = Ret 'a | Err goerr | Panic | Diverge

type_synonym ('s, 'a) go = "'s \<Rightarrow> 'a res \<times> 's"

definition go_ret :: "'a \<Rightarrow> ('s, 'a) go" where
  "go_ret a = (\<lambda>s. (Ret a, s))"

definition go_throw :: "goerr \<Rightarrow> ('s, 'a) go" where
  "go_throw e = (\<lambda>s. (Err e, s))"

definition go_panic :: "('s, 'a) go" where
  "go_panic = (\<lambda>s. (Panic, s))"

definition go_get :: "('s, 's) go" where
  "go_get = (\<lambda>s. (Ret s, s))"

definition go_modify :: "('s \<Rightarrow> 's) \<Rightarrow> ('s, unit) go" where
  "go_modify f = (\<lambda>s. (Ret (), f s))"

definition go_bind :: "('s, 'a) go \<Rightarrow> ('a \<Rightarrow> ('s, 'b) go) \<Rightarrow> ('s, 'b) go" where
  "go_bind m f = (\<lambda>s. case m s of
      (Ret a, t) \<Rightarrow> f a t
    | (Err e, t) \<Rightarrow> (Err e, t)
    | (Panic, t) \<Rightarrow> (Panic, t)
    | (Diverge, t) \<Rightarrow> (Diverge, t))"

text \<open>Sequencing of two statements; \<open>go_try\<close> hands the error of a call to the caller
  (\<open>v, err := f()\<close> where \<open>err\<close> is examined by something else than \<open>if err != nil { return err }\<close>);
  \<open>go_wrap\<close> is \<open>return errors.Wrap(err, msg)\<close>.\<close>

definition go_seq :: "('s, 'a) go \<Rightarrow> ('s, 'b) go \<Rightarrow> ('s, 'b) go" where
  "go_seq m n = go_bind m (\<lambda>_. n)"

definition go_try :: "('s, 'a) go \<Rightarrow> ('s, goerr + 'a) go" where
  "go_try m = (\<lambda>s. case m s of
      (Ret a, t) \<Rightarrow> (Ret (Inr a), t)
    | (Err e, t) \<Rightarrow> (Ret (Inl e), t)
    | (Panic, t) \<Rightarrow> (Panic, t)
    | (Diverge, t) \<Rightarrow> (Diverge, t))"

definition go_wrap :: "string \<Rightarrow> ('s, 'a) go \<Rightarrow> ('s, 'a) go" where
  "go_wrap msg m = (\<lambda>s. case m s of
      (Err e, t) \<Rightarrow> (Err (ErrWrap msg e), t)
    | r \<Rightarrow> r)"

text \<open>The dereference \<open>*p\<close>.\<close>

definition go_deref :: "'a option \<Rightarrow> ('s, 'a) go" where
  "go_deref p = (case p of None \<Rightarrow> go_panic | Some a \<Rightarrow> go_ret a)"

text \<open>\<open>for _, x := range xs { body }\<close> where the body either goes on with the next element or
  leaves the function with an error.\<close>

fun go_for :: "'a list \<Rightarrow> ('a \<Rightarrow> ('s, unit) go) \<Rightarrow> ('s, unit) go" where
  "go_for [] body = go_ret ()"
| "go_for (x # xs) body = go_bind (body x) (\<lambda>_. go_for xs body)"

text \<open>A loop that appends one element per iteration.\<close>

fun go_map :: "'a list \<Rightarrow> ('a \<Rightarrow> ('s, 'b) go) \<Rightarrow> ('s, 'b list) go" where
  "go_map [] f = go_ret []"
| "go_map (x # xs) f = go_bind (f x) (\<lambda>y. go_bind (go_map xs f) (\<lambda>ys. go_ret (y # ys)))"

text \<open>\<open>for { body }\<close> with the loop's own variables as a value: the body answers \<open>Inl l\<close> to go round
  again with \<open>l\<close> and \<open>Inr b\<close> to leave the loop with \<open>b\<close>. A loop that never leaves diverges.\<close>

partial_function (option) loop_opt ::
  "('l \<Rightarrow> ('s, 'l + 'b) go) \<Rightarrow> 'l \<Rightarrow> 's \<Rightarrow> ('b res \<times> 's) option" where
  "loop_opt body l s = (case body l s of
      (Ret (Inl l'), t) \<Rightarrow> loop_opt body l' t
    | (Ret (Inr b), t) \<Rightarrow> Some (Ret b, t)
    | (Err e, t) \<Rightarrow> Some (Err e, t)
    | (Panic, t) \<Rightarrow> Some (Panic, t)
    | (Diverge, t) \<Rightarrow> Some (Diverge, t))"

definition go_loop :: "('l \<Rightarrow> ('s, 'l + 'b) go) \<Rightarrow> 'l \<Rightarrow> ('s, 'b) go" where
  "go_loop body l = (\<lambda>s. case loop_opt body l s of
      None \<Rightarrow> (Diverge, s)
    | Some r \<Rightarrow> r)"

subsection \<open>Evaluation\<close>

lemma go_ret_apply [go_simps]: "go_ret a s = (Ret a, s)"
  by (simp add: go_ret_def)

lemma go_throw_apply [go_simps]: "go_throw e s = (Err e, s)"
  by (simp add: go_throw_def)

lemma go_panic_apply [go_simps]: "go_panic s = (Panic, s)"
  by (simp add: go_panic_def)

lemma go_get_apply [go_simps]: "go_get s = (Ret s, s)"
  by (simp add: go_get_def)

lemma go_modify_apply [go_simps]: "go_modify f s = (Ret (), f s)"
  by (simp add: go_modify_def)

lemma go_bind_apply [go_simps]:
  "go_bind m f s = (case m s of
      (Ret a, t) \<Rightarrow> f a t
    | (Err e, t) \<Rightarrow> (Err e, t)
    | (Panic, t) \<Rightarrow> (Panic, t)
    | (Diverge, t) \<Rightarrow> (Diverge, t))"
  by (simp add: go_bind_def)

lemma go_seq_apply [go_simps]:
  "go_seq m n s = (case m s of
      (Ret a, t) \<Rightarrow> n t
    | (Err e, t) \<Rightarrow> (Err e, t)
    | (Panic, t) \<Rightarrow> (Panic, t)
    | (Diverge, t) \<Rightarrow> (Diverge, t))"
  by (simp add: go_seq_def go_bind_def)

lemma go_try_apply [go_simps]:
  "go_try m s = (case m s of
      (Ret a, t) \<Rightarrow> (Ret (Inr a), t)
    | (Err e, t) \<Rightarrow> (Ret (Inl e), t)
    | (Panic, t) \<Rightarrow> (Panic, t)
    | (Diverge, t) \<Rightarrow> (Diverge, t))"
  by (simp add: go_try_def)

lemma go_wrap_apply [go_simps]:
  "go_wrap msg m s = (case m s of
      (Ret a, t) \<Rightarrow> (Ret a, t)
    | (Err e, t) \<Rightarrow> (Err (ErrWrap msg e), t)
    | (Panic, t) \<Rightarrow> (Panic, t)
    | (Diverge, t) \<Rightarrow> (Diverge, t))"
  by (auto simp: go_wrap_def split: res.splits prod.splits)

lemma go_deref_apply [go_simps]:
  "go_deref p s = (case p of None \<Rightarrow> (Panic, s) | Some a \<Rightarrow> (Ret a, s))"
  by (simp add: go_deref_def go_panic_def go_ret_def split: option.split)

lemma go_bind_ret [simp]: "go_bind (go_ret a) f = f a"
  by (simp add: go_bind_def go_ret_def)

lemma go_bind_assoc: "go_bind (go_bind m f) g = go_bind m (\<lambda>a. go_bind (f a) g)"
  by (rule ext) (simp add: go_simps split: res.splits prod.splits)

lemma go_for_append: "go_for (xs @ ys) body = go_seq (go_for xs body) (go_for ys body)"
proof (induction xs)
  case Nil
  show ?case by (simp add: go_seq_def)
next
  case (Cons x xs)
  then show ?case by (simp add: go_seq_def go_bind_assoc)
qed

lemma go_map_pure: "(\<And>x. x \<in> set xs \<Longrightarrow> f x s = (Ret (g x), s)) \<Longrightarrow> go_map xs f s = (Ret (map g xs), s)"
  by (induction xs) (simp_all add: go_simps)

lemma go_loop_unfold:
  "go_loop body l s = (case body l s of
      (Ret (Inl l'), t) \<Rightarrow> (case loop_opt body l' t of None \<Rightarrow> (Diverge, s) | Some r \<Rightarrow> r)
    | (Ret (Inr b), t) \<Rightarrow> (Ret b, t)
    | (Err e, t) \<Rightarrow> (Err e, t)
    | (Panic, t) \<Rightarrow> (Panic, t)
    | (Diverge, t) \<Rightarrow> (Diverge, t))"
  unfolding go_loop_def by (subst loop_opt.simps) (auto split: res.splits prod.splits sum.splits)

subsection \<open>What a program keeps\<close>

text \<open>\<open>keeps R m\<close>: whatever the result, the states before and after the program are related by
  \<open>R\<close>. For a reflexive and transitive \<open>R\<close> the combinators are closed under it.\<close>

definition keeps :: "('s \<Rightarrow> 's \<Rightarrow> bool) \<Rightarrow> ('s, 'a) go \<Rightarrow> bool" where
  "keeps R m \<longleftrightarrow> (\<forall>s. R s (snd (m s)))"

lemma keepsI: "(\<And>s r t. m s = (r, t) \<Longrightarrow> R s t) \<Longrightarrow> keeps R m"
  by (simp add: keeps_def) (metis prod.collapse)

lemma keepsD: "keeps R m \<Longrightarrow> m s = (r, t) \<Longrightarrow> R s t"
  unfolding keeps_def by (metis snd_conv)

lemma keeps_pure [frame_intros]:
  assumes "reflp R"
  shows "keeps R (go_ret a)" and "keeps R (go_throw e)" and "keeps R go_panic"
    and "keeps R go_get" and "keeps R (go_deref p)"
  using assms by (auto simp: keeps_def go_simps reflp_def split: option.split)

lemma keeps_modify [frame_intros]: "(\<And>s. R s (f s)) \<Longrightarrow> keeps R (go_modify f)"
  by (simp add: keeps_def go_simps)

lemma keeps_bind [frame_intros]:
  assumes "transp R" and m: "keeps R m" and f: "\<And>a. keeps R (f a)"
  shows "keeps R (go_bind m f)"
proof (rule keepsI)
  fix s r t assume run: "go_bind m f s = (r, t)"
  obtain x u where mx: "m s = (x, u)" by (cases "m s")
  from m mx have su: "R s u" by (rule keepsD)
  show "R s t"
  proof (cases x)
    case (Ret a)
    with run mx have "f a u = (r, t)" by (simp add: go_simps)
    then have "R u t" by (rule keepsD [OF f])
    with su show ?thesis using \<open>transp R\<close> by (auto dest: transpD)
  qed (use run mx su in \<open>auto simp: go_simps\<close>)
qed

lemma keeps_seq [frame_intros]:
  "transp R \<Longrightarrow> keeps R m \<Longrightarrow> keeps R n \<Longrightarrow> keeps R (go_seq m n)"
  unfolding go_seq_def by (rule keeps_bind)

lemma keeps_try [frame_intros]: "keeps R m \<Longrightarrow> keeps R (go_try m)"
  by (auto simp: keeps_def go_simps split: res.splits prod.splits) (metis snd_conv)+

lemma keeps_wrap [frame_intros]: "keeps R m \<Longrightarrow> keeps R (go_wrap msg m)"
  by (auto simp: keeps_def go_simps split: res.splits prod.splits) (metis snd_conv)+

lemma keeps_if [frame_intros]:
  "(b \<Longrightarrow> keeps R m) \<Longrightarrow> (\<not> b \<Longrightarrow> keeps R n) \<Longrightarrow> keeps R (if b then m else n)"
  by simp

lemma keeps_option [frame_intros]:
  "(x = None \<Longrightarrow> keeps R m) \<Longrightarrow> (\<And>a. x = Some a \<Longrightarrow> keeps R (f a)) \<Longrightarrow>
   keeps R (case x of None \<Rightarrow> m | Some a \<Rightarrow> f a)"
  by (cases x) simp_all

lemma keeps_sum [frame_intros]:
  "(\<And>e. x = Inl e \<Longrightarrow> keeps R (m e)) \<Longrightarrow> (\<And>a. x = Inr a \<Longrightarrow> keeps R (f a)) \<Longrightarrow>
   keeps R (case x of Inl e \<Rightarrow> m e | Inr a \<Rightarrow> f a)"
  by (cases x) simp_all

lemma keeps_for [frame_intros]:
  assumes "reflp R" and "transp R" and "\<And>x. x \<in> set xs \<Longrightarrow> keeps R (body x)"
  shows "keeps R (go_for xs body)"
  using assms(3)
proof (induction xs)
  case Nil
  show ?case by (simp add: keeps_pure [OF \<open>reflp R\<close>])
next
  case (Cons x xs)
  then show ?case by (auto intro: keeps_bind [OF \<open>transp R\<close>])
qed

lemma keeps_map [frame_intros]:
  assumes "reflp R" and "transp R" and "\<And>x. x \<in> set xs \<Longrightarrow> keeps R (f x)"
  shows "keeps R (go_map xs f)"
  using assms(3)
proof (induction xs)
  case Nil
  show ?case by (simp add: keeps_pure [OF \<open>reflp R\<close>])
next
  case (Cons x xs)
  then show ?case by (auto intro!: keeps_bind [OF \<open>transp R\<close>] keeps_pure [OF \<open>reflp R\<close>])
qed

lemma loop_opt_keeps:
  fixes R :: "'s \<Rightarrow> 's \<Rightarrow> bool" and body :: "'l \<Rightarrow> ('s, 'l + 'b) go"
  assumes "transp R" and k: "\<And>l. keeps R (body l)" and ret: "loop_opt body l s = Some r"
  shows "R s (snd r)"
proof -
  have "(\<forall>l. keeps R (body l)) \<longrightarrow> R s (snd r)"
  proof (rule loop_opt.raw_induct [where P = "\<lambda>b l s r. (\<forall>l. keeps R (b l)) \<longrightarrow> R s (snd r)",
        OF _ ret], rule impI)
    fix f and b :: "'l \<Rightarrow> ('s, 'l + 'b) go" and l s r
    assume IH: "\<And>b l s r. f b l s = Some r \<Longrightarrow> (\<forall>l. keeps R (b l)) \<longrightarrow> R s (snd r)"
      and eq: "(case b l s of
        (Ret (Inl l'), t) \<Rightarrow> f b l' t
      | (Ret (Inr c), t) \<Rightarrow> Some (Ret c, t)
      | (Err e, t) \<Rightarrow> Some (Err e, t)
      | (Panic, t) \<Rightarrow> Some (Panic, t)
      | (Diverge, t) \<Rightarrow> Some (Diverge, t)) = Some r"
      and kb: "\<forall>l. keeps R (b l)"
    obtain x u where bx: "b l s = (x, u)" by (cases "b l s")
    with kb have su: "R s u" by (auto dest: keepsD)
    show "R s (snd r)"
    proof (cases "\<exists>l'. x = Ret (Inl l')")
      case True
      with eq bx obtain l' where "f b l' u = Some r" by auto
      then have "R u (snd r)" using IH kb by blast
      with su show ?thesis using \<open>transp R\<close> by (auto dest: transpD)
    next
      case False
      with eq bx su show ?thesis by (auto split: res.splits sum.splits)
    qed
  qed
  with k show ?thesis by blast
qed

lemma keeps_loop [frame_intros]:
  assumes "reflp R" and "transp R" and "\<And>l. keeps R (body l)"
  shows "keeps R (go_loop body l)"
  unfolding keeps_def go_loop_def
  using assms loop_opt_keeps [OF assms(2,3)]
  by (auto split: option.splits dest: reflpD)

subsection \<open>Loops that return and loops that do not\<close>

text \<open>A loop whose variable decreases with every round returns.\<close>

lemma loop_opt_returns:
  fixes body :: "'l \<Rightarrow> ('s, 'l + 'b) go" and rank :: "'l \<Rightarrow> nat"
  assumes dec: "\<And>l s l' t. body l s = (Ret (Inl l'), t) \<Longrightarrow> rank l' < rank l"
    and fin: "\<And>l s t. body l s \<noteq> (Diverge, t)"
  shows "\<exists>r. loop_opt body l s = Some r \<and> fst r \<noteq> Diverge"
proof (induction "rank l" arbitrary: l s rule: less_induct)
  case less
  obtain x t where b: "body l s = (x, t)" by (cases "body l s")
  show ?case
  proof (cases "\<exists>l'. x = Ret (Inl l')")
    case True
    then obtain l' where x: "x = Ret (Inl l')" ..
    with dec b have "rank l' < rank l" by blast
    from less [OF this, of t] show ?thesis by (subst loop_opt.simps) (simp add: b x)
  next
    case False
    with b fin show ?thesis
      by (subst loop_opt.simps) (auto split: res.splits sum.splits)
  qed
qed

lemma go_loop_returns:
  fixes body :: "'l \<Rightarrow> ('s, 'l + 'b) go" and rank :: "'l \<Rightarrow> nat"
  assumes "\<And>l s l' t. body l s = (Ret (Inl l'), t) \<Longrightarrow> rank l' < rank l"
    and "\<And>l s t. body l s \<noteq> (Diverge, t)"
  shows "fst (go_loop body l s) \<noteq> Diverge"
proof -
  have "\<exists>r. loop_opt body l s = Some r \<and> fst r \<noteq> Diverge"
    by (rule loop_opt_returns [where rank = rank]) (use assms in blast)+
  then show ?thesis by (auto simp: go_loop_def)
qed

text \<open>A loop that comes round to a state of a set of states it cannot leave never returns.\<close>

lemma go_loop_diverges:
  fixes body :: "'l \<Rightarrow> ('s, 'l + 'b) go"
  assumes stuck: "\<And>l. I l \<Longrightarrow> \<exists>l'. body l s = (Ret (Inl l'), s) \<and> I l'" and "I l"
  shows "go_loop body l s = (Diverge, s)"
proof -
  have False if "loop_opt body l s = Some r" for r
  proof -
    have "b = body \<longrightarrow> q = s \<longrightarrow> I m \<longrightarrow> False" if "loop_opt b m q = Some r" for b m q r
    proof (rule loop_opt.raw_induct [where P = "\<lambda>b m q r. b = body \<longrightarrow> q = s \<longrightarrow> I m \<longrightarrow> False", OF _ that])
      fix f and b :: "'l \<Rightarrow> ('s, 'l + 'b) go" and m q r
      assume IH: "\<And>b m q r. f b m q = Some r \<Longrightarrow> b = body \<longrightarrow> q = s \<longrightarrow> I m \<longrightarrow> False"
        and eq: "(case b m q of
          (Ret (Inl l'), t) \<Rightarrow> f b l' t
        | (Ret (Inr c), t) \<Rightarrow> Some (Ret c, t)
        | (Err e, t) \<Rightarrow> Some (Err e, t)
        | (Panic, t) \<Rightarrow> Some (Panic, t)
        | (Diverge, t) \<Rightarrow> Some (Diverge, t)) = Some r"
      show "b = body \<longrightarrow> q = s \<longrightarrow> I m \<longrightarrow> False"
      proof (intro impI)
        assume "b = body" "q = s" "I m"
        with stuck obtain l' where "b m q = (Ret (Inl l'), s)" "I l'" by blast
        with eq IH \<open>b = body\<close> show False by fastforce
      qed
    qed
    with that \<open>I l\<close> show False by blast
  qed
  then show ?thesis by (cases "loop_opt body l s") (auto simp: go_loop_def)
qed

text \<open>A loop that returns a value was left by a round of its body that answered the value.\<close>

lemma go_loop_ret:
  fixes body :: "'l \<Rightarrow> ('s, 'l + 'b) go"
  assumes "go_loop body l s = (Ret b, t)"
  shows "\<exists>l' u. body l' u = (Ret (Inr b), t)"
proof -
  have "c = body \<longrightarrow> fst r = Ret b \<longrightarrow> (\<exists>l' u. body l' u = (Ret (Inr b), snd r))" if "loop_opt c m q = Some r" for c m q r
  proof (rule loop_opt.raw_induct [where P = "\<lambda>c m q r. c = body \<longrightarrow> fst r = Ret b \<longrightarrow>
      (\<exists>l' u. body l' u = (Ret (Inr b), snd r))", OF _ that])
    fix f and c :: "'l \<Rightarrow> ('s, 'l + 'b) go" and m q r
    assume IH: "\<And>c m q r. f c m q = Some r \<Longrightarrow> c = body \<longrightarrow> fst r = Ret b \<longrightarrow>
        (\<exists>l' u. body l' u = (Ret (Inr b), snd r))"
      and eq: "(case c m q of
        (Ret (Inl l'), t) \<Rightarrow> f c l' t
      | (Ret (Inr c), t) \<Rightarrow> Some (Ret c, t)
      | (Err e, t) \<Rightarrow> Some (Err e, t)
      | (Panic, t) \<Rightarrow> Some (Panic, t)
      | (Diverge, t) \<Rightarrow> Some (Diverge, t)) = Some r"
    obtain x u where cx: "c m q = (x, u)" by (cases "c m q")
    show "c = body \<longrightarrow> fst r = Ret b \<longrightarrow> (\<exists>l' u. body l' u = (Ret (Inr b), snd r))"
    proof (cases "\<exists>l'. x = Ret (Inl l')")
      case True
      with eq cx obtain l' where "f c l' u = Some r" by auto
      then show ?thesis by (rule IH)
    next
      case False
      with eq cx show ?thesis by (auto split: res.splits sum.splits) blast
    qed
  qed
  then show ?thesis
    using assms by (auto simp: go_loop_def split: option.splits)
qed

subsection \<open>What a program establishes\<close>

text \<open>\<open>post P m Q\<close>: from a state satisfying \<open>P\<close>, if the program returns a value then the value and
  the state after it satisfy \<open>Q\<close>.\<close>

definition post :: "('s \<Rightarrow> bool) \<Rightarrow> ('s, 'a) go \<Rightarrow> ('a \<Rightarrow> 's \<Rightarrow> bool) \<Rightarrow> bool" where
  "post P m Q \<longleftrightarrow> (\<forall>s a t. P s \<longrightarrow> m s = (Ret a, t) \<longrightarrow> Q a t)"

lemma postI: "(\<And>s a t. P s \<Longrightarrow> m s = (Ret a, t) \<Longrightarrow> Q a t) \<Longrightarrow> post P m Q"
  by (simp add: post_def)

lemma postD: "post P m Q \<Longrightarrow> P s \<Longrightarrow> m s = (Ret a, t) \<Longrightarrow> Q a t"
  by (simp add: post_def)

lemma post_bind [post_intros]:
  assumes "post P m M" and "\<And>a. post (M a) (f a) Q"
  shows "post P (go_bind m f) Q"
  using assms unfolding post_def
  by (fastforce simp: go_simps split: res.splits prod.splits)

lemma post_for:
  assumes "\<And>x. x \<in> set xs \<Longrightarrow> post I (body x) (\<lambda>_. I)"
  shows "post I (go_for xs body) (\<lambda>_. I)"
  using assms
proof (induction xs)
  case Nil
  show ?case by (simp add: post_def go_simps)
next
  case (Cons x xs)
  then show ?case by (auto intro!: post_bind)
qed

section \<open>Strings and numbers of the standard library\<close>

text \<open>A Go string is a sequence of bytes, as a HOL \<open>string\<close> is. Case conversion and white space
  are those of ASCII: the strings the provider converts (region keys, protocol names) are ASCII.\<close>

definition HasPrefix :: "string \<Rightarrow> string \<Rightarrow> bool" where
  "HasPrefix s p \<longleftrightarrow> take (length p) s = p"

definition HasSuffix :: "string \<Rightarrow> string \<Rightarrow> bool" where
  "HasSuffix s t \<longleftrightarrow> length t \<le> length s \<and> drop (length s - length t) s = t"

definition char_lower :: "char \<Rightarrow> char" where
  "char_lower c = (if 65 \<le> (of_char c :: nat) \<and> (of_char c :: nat) \<le> 90
     then char_of ((of_char c :: nat) + 32) else c)"

definition char_upper :: "char \<Rightarrow> char" where
  "char_upper c = (if 97 \<le> (of_char c :: nat) \<and> (of_char c :: nat) \<le> 122
     then char_of ((of_char c :: nat) - 32) else c)"

definition ToLower :: "string \<Rightarrow> string" where
  "ToLower s = map char_lower s"

definition ToUpper :: "string \<Rightarrow> string" where
  "ToUpper s = map char_upper s"

definition is_space :: "char \<Rightarrow> bool" where
  "is_space c \<longleftrightarrow> (of_char c :: nat) \<in> {9, 10, 11, 12, 13, 32}"

definition TrimSpace :: "string \<Rightarrow> string" where
  "TrimSpace s = rev (dropWhile is_space (rev (dropWhile is_space s)))"

fun Contains :: "string \<Rightarrow> string \<Rightarrow> bool" where
  "Contains [] sub = (sub = [])"
| "Contains (c # cs) sub = (take (length sub) (c # cs) = sub \<or> Contains cs sub)"

fun nat_digits :: "nat \<Rightarrow> string" where
  "nat_digits n = (if n < 10 then [char_of (48 + n)]
     else nat_digits (n div 10) @ [char_of (48 + n mod 10)])"

declare nat_digits.simps [simp del]

definition Itoa :: "int \<Rightarrow> string" where
  "Itoa i = (if i < 0 then ''-'' @ nat_digits (nat (- i)) else nat_digits (nat i))"

definition is_digit :: "char \<Rightarrow> bool" where
  "is_digit c \<longleftrightarrow> 48 \<le> (of_char c :: nat) \<and> (of_char c :: nat) \<le> 57"

definition digits_val :: "string \<Rightarrow> int" where
  "digits_val ds = foldl (\<lambda>acc c. 10 * acc + (int (of_char c) - 48)) 0 ds"

text \<open>\<open>strconv.Atoi\<close>: an optional sign, at least one digit, and a value of 64 bits.\<close>

definition Atoi :: "string \<Rightarrow> int option" where
  "Atoi s = (let (neg, ds) = (case s of
        [] \<Rightarrow> (False, [])
      | c # cs \<Rightarrow> (if c = CHR ''-'' then (True, cs) else if c = CHR ''+'' then (False, cs) else (False, s)));
      v = (if neg then - digits_val ds else digits_val ds)
    in if ds \<noteq> [] \<and> list_all is_digit ds \<and> - (2 ^ 63) \<le> v \<and> v < 2 ^ 63 then Some v else None)"

text \<open>\<open>strings.LastIndexAny(s, chars)\<close> for one byte: the suffix after its last occurrence, if any.\<close>

definition after_last :: "char \<Rightarrow> string \<Rightarrow> string option" where
  "after_last c s = (if c \<in> set s then Some (rev (takeWhile (\<lambda>x. x \<noteq> c) (rev s))) else None)"

text \<open>\<open>strings.Split(s, sep)\<close> for a one-byte separator, and \<open>strings.Join\<close>.\<close>

fun Split :: "char \<Rightarrow> string \<Rightarrow> string list" where
  "Split c [] = [[]]"
| "Split c (x # xs) = (if x = c then [] # Split c xs
     else (case Split c xs of [] \<Rightarrow> [[x]] | w # ws \<Rightarrow> (x # w) # ws))"

fun Join :: "string list \<Rightarrow> string \<Rightarrow> string" where
  "Join [] sep = []"
| "Join [w] sep = w"
| "Join (w # ws) sep = w @ sep @ Join ws sep"

lemma HasSuffix_iff: "HasSuffix s t \<longleftrightarrow> (\<exists>p. s = p @ t)"
proof
  assume "HasSuffix s t"
  then have "s = take (length s - length t) s @ t"
    by (metis HasSuffix_def append_take_drop_id)
  then show "\<exists>p. s = p @ t" by blast
qed (auto simp: HasSuffix_def)

lemma length_ToLower [simp]: "length (ToLower s) = length s"
  by (simp add: ToLower_def)

lemma Split_not_Nil [simp]: "Split c s \<noteq> []"
  by (induction s) (auto split: list.splits)

lemma Join_Split: "Join (Split c s) [c] = s"
proof (induction s)
  case (Cons x xs)
  then show ?case
    by (cases "Split c xs"; cases "tl (Split c xs)") auto
qed simp

lemma after_last_append:
  assumes "c \<notin> set t"
  shows "after_last c (p @ c # t) = Some t"
proof -
  from assms have eq: "takeWhile (\<lambda>x. x \<noteq> c) (rev t) = rev t"
    by (auto simp: takeWhile_eq_all_conv)
  show ?thesis by (simp add: after_last_def takeWhile_tail eq)
qed

lemma after_last_None: "after_last c s = None \<longleftrightarrow> c \<notin> set s"
  by (simp add: after_last_def)

section \<open>Lists\<close>

lemma map_upt_nth: "map (\<lambda>i. xs ! i) [0..<length xs] = xs"
  by (rule map_nth)

lemma find_Some_mem: "find P xs = Some x \<Longrightarrow> x \<in> set xs \<and> P x"
  by (auto simp: find_Some_iff)

end
