(* ===== verification/API_Types.thy ===== *)
theory API_Types
  imports Go_Prelude
begin

text \<open>
  The data of the network part of the v1beta2 API (src/api/v1beta2/types.go and
  ocicluster_types.go): one record per struct, one field per field, named
  \<open><Struct>_<Field>\<close> because field names repeat across structs. A pointer is an option, a slice a
  list, a map a partial function; a slice or map that the code compares with nil is an option of
  the list or map. Go's \<open>int\<close> is \<open>int\<close>: no operation of the modelled code can leave its range.
\<close>

type_synonym Role = string
type_synonym SubnetType = string

abbreviation ControlPlaneRole :: Role where "ControlPlaneRole \<equiv> ''control-plane''"
abbreviation ControlPlaneEndpointRole :: Role where "ControlPlaneEndpointRole \<equiv> ''control-plane-endpoint''"
abbreviation WorkerRole :: Role where "WorkerRole \<equiv> ''worker''"
abbreviation ServiceLoadBalancerRole :: Role where "ServiceLoadBalancerRole \<equiv> ''service-lb''"
abbreviation PodRole :: Role where "PodRole \<equiv> ''pod''"
abbreviation Private :: SubnetType where "Private \<equiv> ''private''"
abbreviation Public :: SubnetType where "Public \<equiv> ''public''"
abbreviation Custom :: Role where "Custom \<equiv> ''custom''"

definition OCIClusterSubnetRoles :: "Role list" where
  "OCIClusterSubnetRoles =
     [ControlPlaneRole, ControlPlaneEndpointRole, WorkerRole, ServiceLoadBalancerRole, Custom]"

definition OCIManagedClusterSubnetRoles :: "Role list" where
  "OCIManagedClusterSubnetRoles =
     [PodRole, ControlPlaneEndpointRole, WorkerRole, ServiceLoadBalancerRole, Custom]"

section \<open>Security rules\<close>

record PortRange =
  PortRange_Max :: "int option"
  PortRange_Min :: "int option"

record IcmpOptions =
  IcmpOptions_Type :: "int option"
  IcmpOptions_Code :: "int option"

record TcpOptions =
  TcpOptions_DestinationPortRange :: "PortRange option"
  TcpOptions_SourcePortRange :: "PortRange option"

record UdpOptions =
  UdpOptions_DestinationPortRange :: "PortRange option"
  UdpOptions_SourcePortRange :: "PortRange option"

abbreviation CidrBlockType :: string where "CidrBlockType \<equiv> ''CIDR_BLOCK''"
abbreviation ServiceCidrBlockType :: string where "ServiceCidrBlockType \<equiv> ''SERVICE_CIDR_BLOCK''"
abbreviation NSGType :: string where "NSGType \<equiv> ''NETWORK_SECURITY_GROUP''"

record EgressSecurityRule =
  Egress_Destination :: "string option"
  Egress_Protocol :: "string option"
  Egress_DestinationType :: string
  Egress_IcmpOptions :: "IcmpOptions option"
  Egress_IsStateless :: "bool option"
  Egress_TcpOptions :: "TcpOptions option"
  Egress_UdpOptions :: "UdpOptions option"
  Egress_Description :: "string option"

record IngressSecurityRule =
  Ingress_Protocol :: "string option"
  Ingress_Source :: "string option"
  Ingress_IcmpOptions :: "IcmpOptions option"
  Ingress_IsStateless :: "bool option"
  Ingress_SourceType :: string
  Ingress_TcpOptions :: "TcpOptions option"
  Ingress_UdpOptions :: "UdpOptions option"
  Ingress_Description :: "string option"

text \<open>The NSG variants \<open>IngressSecurityRuleForNSG\<close> and \<open>EgressSecurityRuleForNSG\<close> embed the plain
  rule as their only field.\<close>

type_synonym IngressSecurityRuleForNSG = IngressSecurityRule
type_synonym EgressSecurityRuleForNSG = EgressSecurityRule

record SecurityList =
  SecurityList_ID :: "string option"
  SecurityList_Name :: string
  SecurityList_EgressRules :: "EgressSecurityRule list"
  SecurityList_IngressRules :: "IngressSecurityRule list"

section \<open>Subnets, network security groups, gateways, route tables, the VCN\<close>

record Subnet =
  Subnet_Role :: Role
  Subnet_ID :: "string option"
  Subnet_Name :: string
  Subnet_Skip :: bool
  Subnet_CIDR :: string
  Subnet_Type :: SubnetType
  Subnet_SecurityList :: "SecurityList option"
  Subnet_DnsLabel :: "string option"
  Subnet_Ipv6CidrBlockHextet :: "string option"

record NSG =
  NSG_ID :: "string option"
  NSG_Name :: string
  NSG_Role :: Role
  NSG_EgressRules :: "EgressSecurityRuleForNSG list"
  NSG_IngressRules :: "IngressSecurityRuleForNSG list"

record InternetGateway =
  InternetGateway_Skip :: bool
  InternetGateway_Id :: "string option"

record NATGateway =
  NATGateway_Skip :: bool
  NATGateway_Id :: "string option"

record ServiceGateway =
  ServiceGateway_Skip :: bool
  ServiceGateway_Id :: "string option"

record RouteTable =
  RouteTable_Skip :: bool
  RouteTable_PrivateRouteTableId :: "string option"
  RouteTable_PublicRouteTableId :: "string option"

record NetworkSecurityGroup =
  NetworkSecurityGroup_Skip :: bool
  NetworkSecurityGroup_List :: "NSG option list"

record VCN =
  VCN_ID :: "string option"
  VCN_Name :: string
  VCN_Skip :: bool
  VCN_CIDR :: string
  VCN_CIDRS :: "string list"
  VCN_Subnets :: "Subnet option list"
  VCN_InternetGateway :: InternetGateway
  VCN_NATGateway :: NATGateway
  VCN_ServiceGateway :: ServiceGateway
  VCN_RouteTable :: RouteTable
  VCN_NetworkSecurityGroup :: NetworkSecurityGroup
  VCN_DnsLabel :: "string option"
  VCN_IsOracleGuaAllocationEnabled :: "bool option"
  VCN_IsIpv6Enabled :: "bool option"

section \<open>The API server load balancer\<close>

type_synonym LoadBalancerType = string
type_synonym LBNetworkVisibility = string

abbreviation LoadBalancerTypeNLB :: LoadBalancerType where "LoadBalancerTypeNLB \<equiv> ''nlb''"
abbreviation LoadBalancerTypeLB :: LoadBalancerType where "LoadBalancerTypeLB \<equiv> ''lb''"
abbreviation LBNetworkVisibilityPublic :: LBNetworkVisibility where
  "LBNetworkVisibilityPublic \<equiv> ''Public''"
abbreviation LBNetworkVisibilityPrivate :: LBNetworkVisibility where
  "LBNetworkVisibilityPrivate \<equiv> ''Private''"
abbreviation LBNetworkVisibilityInherited :: LBNetworkVisibility where
  "LBNetworkVisibilityInherited \<equiv> ''Inherited''"

record HealthChecker =
  HealthChecker_Protocol :: "string option"
  HealthChecker_Port :: "int option"
  HealthChecker_IntervalInMillis :: "int option"
  HealthChecker_TimeoutInMillis :: "int option"
  HealthChecker_Retries :: "int option"
  HealthChecker_UrlPath :: "string option"
  HealthChecker_ReturnCode :: "int option"
  HealthChecker_ResponseBodyRegex :: "string option"
  HealthChecker_RequestData :: "string option"
  HealthChecker_ResponseData :: "string option"

record BackendSetDetails =
  BackendSetDetails_IsPreserveSource :: "bool option"
  BackendSetDetails_IsFailOpen :: "bool option"
  BackendSetDetails_IsInstantFailoverEnabled :: "bool option"
  BackendSetDetails_HealthChecker :: HealthChecker

record NLBSpec =
  NLBSpec_BackendSetDetails :: BackendSetDetails
  NLBSpec_ReservedIpIds :: "string list"

record LoadBalancer =
  LoadBalancer_Name :: string
  LoadBalancer_LoadBalancerId :: "string option"
  LoadBalancer_LoadBalancerType :: LoadBalancerType
  LoadBalancer_NLBSpec :: NLBSpec
  LoadBalancer_NetworkVisibility :: LBNetworkVisibility

section \<open>VCN peering\<close>

record DRG =
  DRG_Manage :: bool
  DRG_Name :: string
  DRG_ID :: "string option"
  DRG_VcnAttachmentId :: "string option"

record PeerRouteRule =
  PeerRouteRule_VCNCIDRRange :: string

record RemotePeeringConnection =
  RPC_ManagePeerRPC :: bool
  RPC_Name :: string
  RPC_PeerRegionName :: string
  RPC_PeerDRGId :: "string option"
  RPC_PeerRPCConnectionId :: "string option"
  RPC_RPCConnectionId :: "string option"

record VCNPeering =
  VCNPeering_DRG :: "DRG option"
  VCNPeering_PeerRouteRules :: "PeerRouteRule list"
  VCNPeering_RemotePeeringConnections :: "RemotePeeringConnection list"

record NetworkSpec =
  NetworkSpec_SkipNetworkManagement :: bool
  NetworkSpec_Vcn :: VCN
  NetworkSpec_APIServerLB :: LoadBalancer
  NetworkSpec_VCNPeering :: "VCNPeering option"

section \<open>The cluster object\<close>

type_synonym tags = "string \<rightharpoonup> string"
type_synonym defined_tags = "string \<rightharpoonup> tags"

record APIEndpoint =
  APIEndpoint_Host :: string
  APIEndpoint_Port :: int

record OCIAvailabilityDomain =
  AD_Name :: string
  AD_FaultDomains :: "string list"

record FailureDomainSpec =
  FD_ControlPlane :: bool
  FD_Attributes :: tags

text \<open>A map that is iterated over is an association list with distinct keys.\<close>

record OCIClusterSpec =
  Spec_OCIResourceIdentifier :: string
  Spec_NetworkSpec :: NetworkSpec
  Spec_FreeformTags :: tags
  Spec_DefinedTags :: "defined_tags option"
  Spec_CompartmentId :: string
  Spec_Region :: string
  Spec_ControlPlaneEndpoint :: APIEndpoint
  Spec_AvailabilityDomains :: "(string \<times> OCIAvailabilityDomain) list option"

record Condition =
  Condition_Type :: string
  Condition_Status :: bool
  Condition_Severity :: string
  Condition_Reason :: string

record OCIClusterStatus =
  Status_FailureDomains :: "(string \<rightharpoonup> FailureDomainSpec) option"
  Status_Ready :: bool
  Status_Conditions :: "Condition list"

text \<open>Of the object metadata the provider reads the name, namespace, annotations, finalizers and
  whether a deletion timestamp is set.\<close>

record OCICluster =
  Cluster_Name :: string
  Cluster_Namespace :: string
  Cluster_Annotations :: tags
  Cluster_Finalizers :: "string list"
  Cluster_Deleted :: bool
  Cluster_Spec :: OCIClusterSpec
  Cluster_Status :: OCIClusterStatus

abbreviation ClusterFinalizer :: string where
  "ClusterFinalizer \<equiv> ''ocicluster.infrastructure.cluster.x-k8s.io''"

end
