(* ===== verification/OCI_SDK.thy ===== *)
theory OCI_SDK
  imports API_Types
begin

text \<open>
  The OCI SDK as a parameter of the model. The provider reaches the cloud through the interfaces of
  src/cloud/services (vcn/client.go, loadbalancer/client.go, networkloadbalancer/client.go,
  identity/client.go), whose implementation is the SDK and the service behind it. An interface is a
  record of operations over an arbitrary type \<open>'w\<close> of cloud states, grouped by resource; nothing is
  fixed about what an operation does. The SDK's structs carry the fields the provider reads or writes.
  An enumeration of the SDK has the values the provider compares with and a constructor for the rest.
\<close>

section \<open>Resources\<close>

record SdkResource =
  Res_Id :: "string option"
  Res_DisplayName :: "string option"
  Res_FreeformTags :: tags

text \<open>The part of a creation request that is common to all network resources.\<close>

record CreateDetails =
  CD_CompartmentId :: string
  CD_DisplayName :: string
  CD_FreeformTags :: tags
  CD_DefinedTags :: defined_tags

record CreateInVcnDetails = CreateDetails +
  CD_VcnId :: "string option"

subsection \<open>VCN\<close>

record SdkVcn = SdkResource +
  Vcn_Ipv6CidrBlocks :: "string list option"

record CreateVcnDetails = CreateDetails +
  CV_CidrBlocks :: "string list"
  CV_DnsLabel :: "string option"
  CV_IsIpv6Enabled :: "bool option"
  CV_IsOracleGuaAllocationEnabled :: "bool option"

record 'w VcnApi =
  api_ListVcns :: "string \<Rightarrow> string \<Rightarrow> ('w, SdkVcn list) go"
  api_GetVcn :: "string option \<Rightarrow> ('w, SdkVcn) go"
  api_CreateVcn :: "CreateVcnDetails \<Rightarrow> string \<Rightarrow> ('w, SdkVcn) go"
  api_UpdateVcn :: "string option \<Rightarrow> string \<Rightarrow> ('w, SdkVcn) go"
  api_DeleteVcn :: "string option \<Rightarrow> ('w, unit) go"

subsection \<open>Gateways\<close>

record CreateInternetGatewayDetails = CreateInVcnDetails +
  CIG_IsEnabled :: bool

record 'w IgwApi =
  api_ListInternetGateways :: "string \<Rightarrow> string option \<Rightarrow> string \<Rightarrow> ('w, SdkResource list) go"
  api_GetInternetGateway :: "string option \<Rightarrow> ('w, SdkResource) go"
  api_CreateInternetGateway :: "CreateInternetGatewayDetails \<Rightarrow> ('w, SdkResource) go"
  api_DeleteInternetGateway :: "string option \<Rightarrow> ('w, unit) go"

record 'w NatApi =
  api_ListNatGateways :: "string \<Rightarrow> string option \<Rightarrow> string \<Rightarrow> ('w, SdkResource list) go"
  api_GetNatGateway :: "string option \<Rightarrow> ('w, SdkResource) go"
  api_CreateNatGateway :: "CreateInVcnDetails \<Rightarrow> ('w, SdkResource) go"
  api_UpdateNatGateway :: "string option \<Rightarrow> tags \<Rightarrow> defined_tags \<Rightarrow> ('w, SdkResource) go"
  api_DeleteNatGateway :: "string option \<Rightarrow> ('w, unit) go"

record SdkService =
  Service_Id :: "string option"
  Service_CidrBlock :: "string option"

record CreateServiceGatewayDetails = CreateInVcnDetails +
  CSG_Services :: "string list"

record 'w SgwApi =
  api_ListServiceGateways :: "string \<Rightarrow> string option \<Rightarrow> ('w, SdkResource list) go"
  api_GetServiceGateway :: "string option \<Rightarrow> ('w, SdkResource) go"
  api_CreateServiceGateway :: "CreateServiceGatewayDetails \<Rightarrow> ('w, SdkResource) go"
  api_DeleteServiceGateway :: "string option \<Rightarrow> ('w, unit) go"
  api_ListServices :: "('w, SdkService list) go"

subsection \<open>Route tables\<close>

datatype RouteRuleDestinationType = RouteCidrBlock | RouteServiceCidrBlock

record RouteRule =
  RouteRule_DestinationType :: RouteRuleDestinationType
  RouteRule_Destination :: string
  RouteRule_NetworkEntityId :: "string option"
  RouteRule_Description :: string

record CreateRouteTableDetails = CreateInVcnDetails +
  CRT_RouteRules :: "RouteRule list"

record 'w RtApi =
  api_ListRouteTables :: "string \<Rightarrow> string option \<Rightarrow> string \<Rightarrow> ('w, SdkResource list) go"
  api_GetRouteTable :: "string option \<Rightarrow> ('w, SdkResource) go"
  api_CreateRouteTable :: "CreateRouteTableDetails \<Rightarrow> ('w, SdkResource) go"
  api_DeleteRouteTable :: "string option \<Rightarrow> ('w, unit) go"

subsection \<open>Security lists and network security groups\<close>

record SdkPortRange =
  SdkPortRange_Max :: "int option"
  SdkPortRange_Min :: "int option"

record SdkIcmpOptions =
  SdkIcmp_Type :: "int option"
  SdkIcmp_Code :: "int option"

record SdkTcpOptions =
  SdkTcp_DestinationPortRange :: "SdkPortRange option"
  SdkTcp_SourcePortRange :: "SdkPortRange option"

record SdkUdpOptions =
  SdkUdp_DestinationPortRange :: "SdkPortRange option"
  SdkUdp_SourcePortRange :: "SdkPortRange option"

record SdkIngressRule =
  SIR_Protocol :: "string option"
  SIR_Source :: "string option"
  SIR_IcmpOptions :: "SdkIcmpOptions option"
  SIR_IsStateless :: "bool option"
  SIR_SourceType :: string
  SIR_TcpOptions :: "SdkTcpOptions option"
  SIR_UdpOptions :: "SdkUdpOptions option"
  SIR_Description :: "string option"

record SdkEgressRule =
  SER_Protocol :: "string option"
  SER_Destination :: "string option"
  SER_IcmpOptions :: "SdkIcmpOptions option"
  SER_IsStateless :: "bool option"
  SER_DestinationType :: string
  SER_TcpOptions :: "SdkTcpOptions option"
  SER_UdpOptions :: "SdkUdpOptions option"
  SER_Description :: "string option"

record SdkSecurityList = SdkResource +
  SL_IngressSecurityRules :: "SdkIngressRule list"
  SL_EgressSecurityRules :: "SdkEgressRule list"

record CreateSecurityListDetails = CreateInVcnDetails +
  CSL_EgressSecurityRules :: "SdkEgressRule list"
  CSL_IngressSecurityRules :: "SdkIngressRule list"

record UpdateSecurityListDetails =
  USL_DisplayName :: string
  USL_EgressSecurityRules :: "SdkEgressRule list"
  USL_IngressSecurityRules :: "SdkIngressRule list"

record 'w SecListApi =
  api_ListSecurityLists :: "string \<Rightarrow> string option \<Rightarrow> string \<Rightarrow> ('w, SdkSecurityList list) go"
  api_GetSecurityList :: "string option \<Rightarrow> ('w, SdkSecurityList) go"
  api_CreateSecurityList :: "CreateSecurityListDetails \<Rightarrow> ('w, SdkSecurityList) go"
  api_UpdateSecurityList :: "string \<Rightarrow> UpdateSecurityListDetails \<Rightarrow> ('w, SdkSecurityList) go"
  api_DeleteSecurityList :: "string option \<Rightarrow> ('w, unit) go"

datatype RuleDirection = DirIngress | DirEgress | DirOther string

record SecurityRuleBody =
  SR_Direction :: RuleDirection
  SR_Protocol :: "string option"
  SR_Description :: "string option"
  SR_IcmpOptions :: "SdkIcmpOptions option"
  SR_IsStateless :: "bool option"
  SR_Source :: "string option"
  SR_SourceType :: string
  SR_Destination :: "string option"
  SR_DestinationType :: string
  SR_TcpOptions :: "SdkTcpOptions option"
  SR_UdpOptions :: "SdkUdpOptions option"

text \<open>A rule to be added has no id yet; a listed rule has one.\<close>

type_synonym AddSecurityRuleDetails = SecurityRuleBody

record SecurityRule = SecurityRuleBody +
  SR_Id :: "string option"

record 'w NsgApi =
  api_ListNetworkSecurityGroups :: "string \<Rightarrow> string option \<Rightarrow> string \<Rightarrow> ('w, SdkResource list) go"
  api_GetNetworkSecurityGroup :: "string option \<Rightarrow> ('w, SdkResource) go"
  api_CreateNetworkSecurityGroup :: "CreateInVcnDetails \<Rightarrow> ('w, SdkResource) go"
  api_UpdateNetworkSecurityGroup :: "string option \<Rightarrow> string \<Rightarrow> ('w, SdkResource) go"
  api_DeleteNetworkSecurityGroup :: "string option \<Rightarrow> ('w, unit) go"
  api_ListNetworkSecurityGroupSecurityRules :: "string option \<Rightarrow> ('w, SecurityRule list) go"
  api_AddNetworkSecurityGroupSecurityRules ::
    "string option \<Rightarrow> AddSecurityRuleDetails list \<Rightarrow> ('w, unit) go"
  api_RemoveNetworkSecurityGroupSecurityRules :: "string option \<Rightarrow> string list \<Rightarrow> ('w, unit) go"

subsection \<open>Subnets\<close>

record SdkSubnet = SdkResource +
  SdkSubnet_CidrBlock :: "string option"
  SdkSubnet_SecurityListIds :: "string list"

record CreateSubnetDetails = CreateInVcnDetails +
  CSN_CidrBlock :: string
  CSN_ProhibitInternetIngress :: bool
  CSN_ProhibitPublicIpOnVnic :: bool
  CSN_RouteTableId :: "string option"
  CSN_DnsLabel :: "string option"
  CSN_Ipv6CidrBlock :: "string option"
  CSN_SecurityListIds :: "string list"

record UpdateSubnetDetails =
  USN_DisplayName :: string
  USN_CidrBlock :: string
  USN_SecurityListIds :: "string list"

record 'w SubnetApi =
  api_ListSubnets :: "string \<Rightarrow> string option \<Rightarrow> string \<Rightarrow> ('w, SdkSubnet list) go"
  api_GetSubnet :: "string option \<Rightarrow> ('w, SdkSubnet) go"
  api_CreateSubnet :: "CreateSubnetDetails \<Rightarrow> ('w, SdkSubnet) go"
  api_UpdateSubnet :: "string option \<Rightarrow> UpdateSubnetDetails \<Rightarrow> ('w, SdkSubnet) go"
  api_DeleteSubnet :: "string option \<Rightarrow> ('w, unit) go"

subsection \<open>Dynamic routing gateways\<close>

text \<open>A paged list request takes the page token and answers the items and the next token.\<close>

record CreateDrgAttachmentDetails =
  CDA_DisplayName :: string
  CDA_DrgId :: "string option"
  CDA_VcnId :: "string option"
  CDA_FreeformTags :: tags
  CDA_DefinedTags :: defined_tags

record ListDrgAttachmentsRequest =
  LDA_DisplayName :: string
  LDA_DrgId :: "string option"
  LDA_NetworkId :: "string option"
  LDA_CompartmentId :: string

record 'w DrgApi =
  api_GetDrg :: "string option \<Rightarrow> ('w, SdkResource) go"
  api_ListDrgs :: "string \<Rightarrow> string option \<Rightarrow> ('w, SdkResource list \<times> string option) go"
  api_CreateDrg :: "CreateDetails \<Rightarrow> string \<Rightarrow> ('w, SdkResource) go"
  api_DeleteDrg :: "string option \<Rightarrow> ('w, unit) go"
  api_GetDrgAttachment :: "string option \<Rightarrow> ('w, SdkResource) go"
  api_ListDrgAttachments :: "ListDrgAttachmentsRequest \<Rightarrow> ('w, SdkResource list) go"
  api_CreateDrgAttachment :: "CreateDrgAttachmentDetails \<Rightarrow> ('w, SdkResource) go"
  api_UpdateDrgAttachment :: "string option \<Rightarrow> tags \<Rightarrow> defined_tags \<Rightarrow> ('w, SdkResource) go"
  api_DeleteDrgAttachment :: "string option \<Rightarrow> ('w, unit) go"

datatype RpcLifecycleState = RpcAvailable | RpcTerminating | RpcTerminated | RpcLifecycleOther string

datatype PeeringStatus =
  PeeringNew | PeeringPeered | PeeringPending | PeeringRevoked | PeeringInvalid | PeeringOther string

record SdkRPC = SdkResource +
  SdkRPC_LifecycleState :: RpcLifecycleState
  SdkRPC_PeeringStatus :: PeeringStatus

record CreateRpcDetails = CreateDetails +
  CRPC_DrgId :: "string option"

record ConnectRpcRequest =
  CON_RemotePeeringConnectionId :: "string option"
  CON_PeerId :: "string option"
  CON_PeerRegionName :: string

record 'w RpcApi =
  api_GetRemotePeeringConnection :: "string option \<Rightarrow> ('w, SdkRPC) go"
  api_ListRemotePeeringConnections ::
    "string option \<Rightarrow> string \<Rightarrow> string option \<Rightarrow> ('w, SdkRPC list \<times> string option) go"
  api_CreateRemotePeeringConnection :: "CreateRpcDetails \<Rightarrow> ('w, SdkRPC) go"
  api_UpdateRemotePeeringConnection :: "string option \<Rightarrow> tags \<Rightarrow> defined_tags \<Rightarrow> ('w, SdkRPC) go"
  api_DeleteRemotePeeringConnection :: "string option \<Rightarrow> ('w, unit) go"
  api_ConnectRemotePeeringConnections :: "ConnectRpcRequest \<Rightarrow> ('w, unit) go"

section \<open>Load balancers\<close>

record SdkIpAddress =
  Ip_IpAddress :: "string option"
  Ip_IsPublic :: "bool option"

record SdkBackend =
  Backend_Name :: "string option"
  Backend_IpAddress :: "string option"
  Backend_Port :: "int option"

record SdkListenerDetails =
  Listener_Protocol :: string
  Listener_Port :: int
  Listener_DefaultBackendSetName :: string

datatype LBLifecycleState = LBActive | LBStateOther string

datatype WorkRequestState = WRSucceeded | WRFailed | WRStateOther string

subsection \<open>Load balancer service\<close>

record LBBackendSet =
  LBBackendSet_Name :: "string option"
  LBBackendSet_Backends :: "SdkBackend list"

record SdkLB = SdkResource +
  LB_LifecycleState :: LBLifecycleState
  LB_IsPrivate :: "bool option"
  LB_IpAddresses :: "SdkIpAddress list"
  LB_BackendSets :: "string \<rightharpoonup> LBBackendSet"

record LBBackendSetDetails =
  LBBSD_Policy :: string
  LBBSD_HealthCheckerPort :: int
  LBBSD_HealthCheckerProtocol :: string
  LBBSD_Backends :: "SdkBackend list"

record CreateLBDetails = CreateDetails +
  CLB_ShapeName :: string
  CLB_MinimumBandwidthInMbps :: int
  CLB_MaximumBandwidthInMbps :: int
  CLB_SubnetIds :: "string list"
  CLB_IsPrivate :: bool
  CLB_Listeners :: "string \<rightharpoonup> SdkListenerDetails"
  CLB_BackendSets :: "string \<rightharpoonup> LBBackendSetDetails"
  CLB_NetworkSecurityGroupIds :: "string list"

record UpdateLBDetails =
  ULB_DisplayName :: string
  ULB_FreeformTags :: tags
  ULB_DefinedTags :: defined_tags

record LBWorkRequest =
  LBWR_LifecycleState :: WorkRequestState
  LBWR_LoadBalancerId :: "string option"
  LBWR_ErrorDetails :: "(string \<times> string option) list"

text \<open>Requests that change a load balancer answer the id of a work request.\<close>

record 'w LbApi =
  api_ListLoadBalancers :: "string \<Rightarrow> string \<Rightarrow> string option \<Rightarrow> ('w, SdkLB list \<times> string option) go"
  api_GetLoadBalancer :: "string option \<Rightarrow> ('w, SdkLB) go"
  api_CreateLoadBalancer :: "CreateLBDetails \<Rightarrow> string \<Rightarrow> ('w, string option) go"
  api_UpdateLoadBalancer :: "string option \<Rightarrow> UpdateLBDetails \<Rightarrow> ('w, string option) go"
  api_DeleteLoadBalancer :: "string option \<Rightarrow> ('w, string option) go"
  api_GetLBWorkRequest :: "string option \<Rightarrow> ('w, LBWorkRequest) go"
  api_CreateLBBackend ::
    "string option \<Rightarrow> string option \<Rightarrow> SdkBackend \<Rightarrow> string \<Rightarrow> ('w, string option) go"
  api_DeleteLBBackend :: "string option \<Rightarrow> string option \<Rightarrow> string \<Rightarrow> ('w, string option) go"

subsection \<open>Network load balancer service\<close>

datatype HealthCheckProtocols = HCHttp | HCHttps | HCTcp | HCUdp | HCOther string

record NLBHealthChecker =
  NHC_Protocol :: HealthCheckProtocols
  NHC_Port :: "int option"
  NHC_IntervalInMillis :: "int option"
  NHC_TimeoutInMillis :: "int option"
  NHC_Retries :: "int option"
  NHC_UrlPath :: "string option"
  NHC_ReturnCode :: "int option"
  NHC_ResponseBodyRegex :: "string option"
  NHC_RequestData :: "string option"
  NHC_ResponseData :: "string option"

record NLBBackendSet =
  NLBBackendSet_Name :: "string option"
  NLBBackendSet_HealthChecker :: "NLBHealthChecker option"
  NLBBackendSet_Backends :: "SdkBackend list"

record SdkNLB = SdkResource +
  NLB_LifecycleState :: LBLifecycleState
  NLB_IsPrivate :: "bool option"
  NLB_IpAddresses :: "SdkIpAddress list"
  NLB_BackendSets :: "string \<rightharpoonup> NLBBackendSet"

record NLBBackendSetDetails =
  NBSD_Policy :: string
  NBSD_IsPreserveSource :: bool
  NBSD_IsFailOpen :: "bool option"
  NBSD_IsInstantFailoverEnabled :: "bool option"
  NBSD_HealthChecker :: NLBHealthChecker
  NBSD_Backends :: "SdkBackend list"

record CreateNLBDetails = CreateDetails +
  CNLB_SubnetId :: string
  CNLB_IsPrivate :: bool
  CNLB_Listeners :: "string \<rightharpoonup> SdkListenerDetails"
  CNLB_BackendSets :: "string \<rightharpoonup> NLBBackendSetDetails"
  CNLB_ReservedIps :: "string list"
  CNLB_NetworkSecurityGroupIds :: "string list"

record NLBWorkRequest =
  NLBWR_Status :: WorkRequestState
  NLBWR_CompartmentId :: "string option"

text \<open>The creation answers the id of the load balancer and the id of the work request.\<close>

record 'w NlbApi =
  api_ListNetworkLoadBalancers :: "string \<Rightarrow> string \<Rightarrow> ('w, SdkNLB list) go"
  api_GetNetworkLoadBalancer :: "string option \<Rightarrow> ('w, SdkNLB) go"
  api_CreateNetworkLoadBalancer ::
    "CreateNLBDetails \<Rightarrow> string \<Rightarrow> ('w, string option \<times> string option) go"
  api_UpdateNetworkLoadBalancer :: "string option \<Rightarrow> string \<Rightarrow> ('w, string option) go"
  api_UpdateHealthChecker :: "string option \<Rightarrow> string \<Rightarrow> NLBHealthChecker \<Rightarrow> ('w, string option) go"
  api_DeleteNetworkLoadBalancer :: "string option \<Rightarrow> ('w, string option) go"
  api_GetNLBWorkRequest :: "string option \<Rightarrow> ('w, NLBWorkRequest) go"
  api_ListNLBWorkRequestErrors ::
    "string option \<Rightarrow> string option \<Rightarrow> ('w, (string option \<times> string option) list) go"
  api_CreateNLBBackend ::
    "string option \<Rightarrow> string option \<Rightarrow> SdkBackend \<Rightarrow> string \<Rightarrow> ('w, string option) go"
  api_DeleteNLBBackend :: "string option \<Rightarrow> string option \<Rightarrow> string \<Rightarrow> ('w, string option) go"

section \<open>Identity\<close>

record SdkRegion =
  Region_Name :: "string option"
  Region_Key :: "string option"

record 'w IdentityApi =
  api_ListAvailabilityDomains :: "string \<Rightarrow> ('w, string option list) go"
  api_ListFaultDomains :: "string \<Rightarrow> string option \<Rightarrow> ('w, string option list) go"
  api_ListRegions :: "('w, SdkRegion list) go"

section \<open>Polling\<close>

text \<open>
  \<open>wait.PollUntilContextTimeout\<close> and \<open>wait.PollWithContext\<close> of k8s.io/apimachinery are parameters
  too: a poller takes the condition, a program that answers whether to stop. The documented contract
  is that a nil error means that the condition was evaluated some number of times answering false
  without error and then answered true.
\<close>

type_synonym 't poller = "('t, bool) go \<Rightarrow> ('t, unit) go"

inductive polled :: "('t, bool) go \<Rightarrow> 't \<Rightarrow> 't \<Rightarrow> bool" for cond where
  polled_done: "cond s = (Ret True, t) \<Longrightarrow> polled cond s t"
| polled_again: "cond s = (Ret False, u) \<Longrightarrow> polled cond u t \<Longrightarrow> polled cond s t"

definition lawful_poller :: "'t poller \<Rightarrow> bool" where
  "lawful_poller poll \<longleftrightarrow> (\<forall>cond s t. poll cond s = (Ret (), t) \<longrightarrow> polled cond s t)"

text \<open>A bounded poller: at most \<open>n\<close> evaluations, then the timeout error of the library. It is the
  instance that witnesses use.\<close>

fun poll_n :: "nat \<Rightarrow> 't poller" where
  "poll_n 0 cond = go_throw (ErrNew ''context deadline exceeded'')"
| "poll_n (Suc n) cond = go_bind (cond) (\<lambda>done. if done then go_ret () else poll_n n cond)"

lemma polledD: "polled cond s t \<Longrightarrow> \<exists>u. cond u = (Ret True, t)"
  by (induction rule: polled.induct) auto

lemma lawful_poll_n: "lawful_poller (poll_n n)"
proof -
  have "poll_n n cond s = (Ret (), t) \<Longrightarrow> polled cond s t" for cond :: "('t, bool) go" and s t
    by (induction n arbitrary: s)
      (auto simp: go_simps split: res.splits prod.splits if_splits intro: polled.intros)
  then show ?thesis by (auto simp: lawful_poller_def)
qed

lemma lawful_pollerD:
  "lawful_poller poll \<Longrightarrow> poll cond s = (Ret (), t) \<Longrightarrow> \<exists>u. cond u = (Ret True, t)"
  unfolding lawful_poller_def by (blast dest: polledD)

end
