(* ===== verification/OCI_Util.thy ===== *)
theory OCI_Util
  imports OCI_SDK
begin

text \<open>
  The helpers of src/cloud/ociutil: classification of SDK errors, retry tokens, the ownership tags,
  and the pointer helpers of src/cloud/ociutil/ptr.
\<close>

section \<open>Errors of the service\<close>

definition ErrNotFound :: goerr where
  "ErrNotFound = ErrNew ''not found''"

text \<open>\<open>IsNotFound\<close> and \<open>IsOutOfHostCapacity\<close> take an error that may be nil.\<close>

definition IsNotFound :: "goerr option \<Rightarrow> bool" where
  "IsNotFound err = (case err of
      None \<Rightarrow> False
    | Some e \<Rightarrow>
        if Error e = Error ErrNotFound then True
        else (let c = Cause e in IsServiceError c \<and> GetHTTPStatusCode c = 404))"

definition OutOfHostCapacityErr :: string where
  "OutOfHostCapacityErr = ''Out of host capacity''"

definition IsOutOfHostCapacity :: "goerr option \<Rightarrow> bool" where
  "IsOutOfHostCapacity err = (case err of
      None \<Rightarrow> False
    | Some e \<Rightarrow>
        (let c = Cause e in
         if IsServiceError c
         then GetHTTPStatusCode c = 500 \<and> Contains (ToLower (GetMessage c)) (ToLower OutOfHostCapacityErr)
         else False))"

section \<open>Retry tokens\<close>

definition MaxOPCRetryTokenBytes :: nat where
  "MaxOPCRetryTokenBytes = 64"

definition truncateOPCRetryToken :: "string \<Rightarrow> string" where
  "truncateOPCRetryToken str =
     (if length str > MaxOPCRetryTokenBytes then take MaxOPCRetryTokenBytes str else str)"

text \<open>\<open>fmt.Sprintf\<close> for formats whose only verb is \<open>%s\<close>.\<close>

fun Sprintf :: "string \<Rightarrow> string list \<Rightarrow> string" where
  "Sprintf [] args = []"
| "Sprintf [c] args = [c]"
| "Sprintf (c # d # cs) args =
     (if c = CHR ''%'' \<and> d = CHR ''s''
      then (case args of [] \<Rightarrow> ''%!s(MISSING)'' @ Sprintf cs [] | a # as \<Rightarrow> a @ Sprintf cs as)
      else c # Sprintf (d # cs) args)"

definition GetOPCRetryToken :: "string \<Rightarrow> string list \<Rightarrow> string" where
  "GetOPCRetryToken fmt values = truncateOPCRetryToken (Sprintf fmt values)"

section \<open>Ownership tags\<close>

definition CreatedBy :: string where "CreatedBy = ''CreatedBy''"
definition OCIClusterAPIProvider :: string where "OCIClusterAPIProvider = ''OCIClusterAPIProvider''"
definition ClusterResourceIdentifier :: string where
  "ClusterResourceIdentifier = ''ClusterResourceIdentifier''"

definition GetDefaultClusterTags :: tags where
  "GetDefaultClusterTags = Map.empty(CreatedBy \<mapsto> OCIClusterAPIProvider)"

definition BuildClusterTags :: "string \<Rightarrow> tags" where
  "BuildClusterTags ClusterResourceUID =
     GetDefaultClusterTags(ClusterResourceIdentifier \<mapsto> ClusterResourceUID)"

text \<open>Reading a Go map at an absent key gives the zero value.\<close>

definition tag_at :: "tags \<Rightarrow> string \<Rightarrow> string" where
  "tag_at m k = (case m k of None \<Rightarrow> '''' | Some v \<Rightarrow> v)"

section \<open>Enumerations\<close>

text \<open>\<open>GetBaseLineOcpuOptimizationEnum\<close> and \<open>GetInstanceConfigBaseLineOcpuOptimizationEnum\<close> search the
  SDK's list of values, which is the parameter \<open>values\<close>.\<close>

definition GetBaseLineOcpuOptimizationEnum :: "string list \<Rightarrow> string \<Rightarrow> goerr + string" where
  "GetBaseLineOcpuOptimizationEnum values baseLineOcpuOptmimizationString =
     (case find (\<lambda>e. e = baseLineOcpuOptmimizationString) values of
        Some e \<Rightarrow> Inr e
      | None \<Rightarrow> Inl (ErrNew ''invalid baseline cpu optimization parameter''))"

definition GetInstanceConfigBaseLineOcpuOptimizationEnum :: "string list \<Rightarrow> string \<Rightarrow> goerr + string" where
  "GetInstanceConfigBaseLineOcpuOptimizationEnum values baseLineOcpuOptmimizationString =
     (case find (\<lambda>e. e = baseLineOcpuOptmimizationString) values of
        Some e \<Rightarrow> Inr e
      | None \<Rightarrow> Inl (ErrNew ''invalid baseline cpu optimization parameter''))"

section \<open>Pointers\<close>

definition DerefString :: "string option \<Rightarrow> string" where
  "DerefString s = (case s of Some v \<Rightarrow> v | None \<Rightarrow> '''')"

definition ToString :: "string option \<Rightarrow> string" where
  "ToString p = (case p of None \<Rightarrow> '''' | Some v \<Rightarrow> v)"

definition StringEquals :: "string option \<Rightarrow> string \<Rightarrow> bool" where
  "StringEquals p value = (case p of None \<Rightarrow> False | Some v \<Rightarrow> v = value)"

definition StringEqual :: "string option \<Rightarrow> string option \<Rightarrow> bool" where
  "StringEqual a b =
     (if a = None \<and> b = None then True
      else if a = None \<or> b = None then False
      else the a = the b)"

definition IntEqual :: "int option \<Rightarrow> int option \<Rightarrow> bool" where
  "IntEqual a b =
     (if a = None \<and> b = None then True
      else if a = None \<or> b = None then False
      else the a = the b)"

definition ToBool :: "bool option \<Rightarrow> bool" where
  "ToBool p = (case p of None \<Rightarrow> False | Some v \<Rightarrow> v)"

definition ToStringSlice :: "string option list \<Rightarrow> string list" where
  "ToStringSlice vs = map ToString vs"

text \<open>\<open>ToNSGSlice\<close> and \<open>ToSubnetSlice\<close> put the zero value of the struct where the pointer is nil.\<close>

definition zero_NSG :: NSG where
  "zero_NSG = \<lparr>NSG_ID = None, NSG_Name = '''', NSG_Role = '''', NSG_EgressRules = [],
     NSG_IngressRules = []\<rparr>"

definition zero_Subnet :: Subnet where
  "zero_Subnet = \<lparr>Subnet_Role = '''', Subnet_ID = None, Subnet_Name = '''', Subnet_Skip = False,
     Subnet_CIDR = '''', Subnet_Type = '''', Subnet_SecurityList = None, Subnet_DnsLabel = None,
     Subnet_Ipv6CidrBlockHextet = None\<rparr>"

definition ToNSGSlice :: "NSG option list \<Rightarrow> NSG list" where
  "ToNSGSlice vs = map (\<lambda>v. case v of None \<Rightarrow> zero_NSG | Some n \<Rightarrow> n) vs"

definition ToSubnetSlice :: "Subnet option list \<Rightarrow> Subnet list" where
  "ToSubnetSlice vs = map (\<lambda>v. case v of None \<Rightarrow> zero_Subnet | Some n \<Rightarrow> n) vs"

section \<open>Properties\<close>

lemma IsNotFound_None [simp]: "\<not> IsNotFound None"
  by (simp add: IsNotFound_def)

text \<open>Wrapping keeps the classification of a service error, unless the rendered text happens to be
  the text of the simulated error.\<close>

lemma IsNotFound_service:
  "IsNotFound (Some (ServiceErr code msg txt)) \<longleftrightarrow> txt = ''not found'' \<or> code = 404"
  by (simp add: IsNotFound_def ErrNotFound_def)

lemma Error_wrap_not_simulated: "Error (ErrWrap msg e) = ''not found'' \<Longrightarrow> CHR '':'' \<in> set ''not found''"
  by (metis Error.simps(2) UnCI list.set_intros(1) set_append)

lemma IsNotFound_wrap:
  "IsNotFound (Some (ErrWrap msg e)) \<longleftrightarrow> IsServiceError (Cause e) \<and> GetHTTPStatusCode (Cause e) = 404"
proof -
  have "Error (ErrWrap msg e) \<noteq> ''not found''"
    using Error_wrap_not_simulated [of msg e] by auto
  then show ?thesis by (simp add: IsNotFound_def ErrNotFound_def Let_def)
qed

text \<open>The cluster name regex and OCID checks aside, a token never exceeds what the service accepts.\<close>

lemma truncate_length: "length (truncateOPCRetryToken str) = min (length str) 64"
  by (simp add: truncateOPCRetryToken_def MaxOPCRetryTokenBytes_def)

lemma truncate_prefix: "take (length (truncateOPCRetryToken str)) str = truncateOPCRetryToken str"
  by (simp add: truncateOPCRetryToken_def MaxOPCRetryTokenBytes_def)

lemma BuildClusterTags_eq:
  "BuildClusterTags uid = [CreatedBy \<mapsto> OCIClusterAPIProvider, ClusterResourceIdentifier \<mapsto> uid]"
  by (simp add: BuildClusterTags_def GetDefaultClusterTags_def)

lemma tag_keys_distinct [simp]:
  "CreatedBy \<noteq> ClusterResourceIdentifier" "ClusterResourceIdentifier \<noteq> CreatedBy"
  by (simp_all add: CreatedBy_def ClusterResourceIdentifier_def)

lemma StringEqual_iff [simp]: "StringEqual a b \<longleftrightarrow> a = b"
  by (cases a; cases b) (simp_all add: StringEqual_def)

lemma IntEqual_iff [simp]: "IntEqual a b \<longleftrightarrow> a = b"
  by (cases a; cases b) (simp_all add: IntEqual_def)

lemma StringEquals_iff [simp]: "StringEquals p v \<longleftrightarrow> p = Some v"
  by (cases p) (auto simp: StringEquals_def)

lemma set_ToSubnetSlice:
  "set (ToSubnetSlice vs) = {n. Some n \<in> set vs} \<union> (if None \<in> set vs then {zero_Subnet} else {})"
  by (force simp: ToSubnetSlice_def split: option.splits)

lemma set_ToNSGSlice:
  "set (ToNSGSlice vs) = {n. Some n \<in> set vs} \<union> (if None \<in> set vs then {zero_NSG} else {})"
  by (force simp: ToNSGSlice_def split: option.splits)

end
