(* ===== verification/Cluster_Scope.thy ===== *)
theory Cluster_Scope
  imports OCI_Util "HOL-Library.AList"
begin

text \<open>
  The cluster scope (src/cloud/scope/cluster.go) over the self-managed accessor
  (src/cloud/scope/oci_selfmanaged_cluster.go). The scope's state is the cluster object it mutates
  in place, the region, and the API server port of the owning Cluster; a program of the scope runs
  over that state and the cloud.
\<close>

section \<open>State\<close>

record ClusterScope =
  CS_OCICluster :: OCICluster
  CS_RegionIdentifier :: string
  CS_RegionKey :: string
  CS_ClusterNetworkAPIServerPort :: int

type_synonym 'w st = "ClusterScope \<times> 'w"
type_synonym ('w, 'a) scope_go = "('w st, 'a) go"

definition get_scope :: "('s \<times> 'w, 's) go" where
  "get_scope = (\<lambda>(s, w). (Ret s, (s, w)))"

definition mod_scope :: "('s \<Rightarrow> 's) \<Rightarrow> ('s \<times> 'w, unit) go" where
  "mod_scope f = (\<lambda>(s, w). (Ret (), (f s, w)))"

text \<open>A call of a client acts on the cloud and leaves the scope alone. The three operations are the same for the scope of
  a machine.\<close>

definition api :: "('w, 'a) go \<Rightarrow> ('s \<times> 'w, 'a) go" where
  "api m = (\<lambda>(s, w). case m w of (r, w') \<Rightarrow> (r, (s, w')))"

text \<open>\<open>NewClusterScope\<close>: the Cluster and the accessor must not be nil.\<close>

definition NewClusterScope ::
  "int option \<Rightarrow> OCICluster option \<Rightarrow> string \<Rightarrow> string \<Rightarrow> goerr + ClusterScope" where
  "NewClusterScope cluster accessor regionIdentifier regionKey =
     (case cluster of
        None \<Rightarrow> Inl (ErrNew ''failed to generate new scope from nil Cluster'')
      | Some port \<Rightarrow> (case accessor of
          None \<Rightarrow> Inl (ErrNew ''failed to generate new scope from nil OCIClusterAccessor'')
        | Some c \<Rightarrow> Inr \<lparr>CS_OCICluster = c, CS_RegionIdentifier = regionIdentifier,
            CS_RegionKey = regionKey, CS_ClusterNetworkAPIServerPort = port\<rparr>))"

section \<open>The accessor\<close>

definition GetNameSpace :: "ClusterScope \<Rightarrow> string" where
  "GetNameSpace s = Cluster_Namespace (CS_OCICluster s)"

definition GetName :: "ClusterScope \<Rightarrow> string" where
  "GetName s = Cluster_Name (CS_OCICluster s)"

definition GetRegion :: "ClusterScope \<Rightarrow> string" where
  "GetRegion s = Spec_Region (Cluster_Spec (CS_OCICluster s))"

definition GetOCIResourceIdentifier :: "ClusterScope \<Rightarrow> string" where
  "GetOCIResourceIdentifier s = Spec_OCIResourceIdentifier (Cluster_Spec (CS_OCICluster s))"

definition GetCompartmentId :: "ClusterScope \<Rightarrow> string" where
  "GetCompartmentId s = Spec_CompartmentId (Cluster_Spec (CS_OCICluster s))"

definition accessor_GetFreeformTags :: "ClusterScope \<Rightarrow> tags" where
  "accessor_GetFreeformTags s = Spec_FreeformTags (Cluster_Spec (CS_OCICluster s))"

definition accessor_GetDefinedTags :: "ClusterScope \<Rightarrow> defined_tags option" where
  "accessor_GetDefinedTags s = Spec_DefinedTags (Cluster_Spec (CS_OCICluster s))"

definition GetNetworkSpec :: "ClusterScope \<Rightarrow> NetworkSpec" where
  "GetNetworkSpec s = Spec_NetworkSpec (Cluster_Spec (CS_OCICluster s))"

abbreviation GetVcnSpec :: "ClusterScope \<Rightarrow> VCN" where
  "GetVcnSpec s \<equiv> NetworkSpec_Vcn (GetNetworkSpec s)"

definition upd_Spec :: "(OCIClusterSpec \<Rightarrow> OCIClusterSpec) \<Rightarrow> ClusterScope \<Rightarrow> ClusterScope" where
  "upd_Spec f s = s\<lparr>CS_OCICluster := (CS_OCICluster s)\<lparr>Cluster_Spec := f (Cluster_Spec (CS_OCICluster s))\<rparr>\<rparr>"

text \<open>\<open>GetNetworkSpec()\<close> answers a pointer into the cluster object: an assignment through it updates
  the object.\<close>

definition upd_NetworkSpec :: "(NetworkSpec \<Rightarrow> NetworkSpec) \<Rightarrow> ClusterScope \<Rightarrow> ClusterScope" where
  "upd_NetworkSpec f = upd_Spec (\<lambda>sp. sp\<lparr>Spec_NetworkSpec := f (Spec_NetworkSpec sp)\<rparr>)"

definition upd_Vcn :: "(VCN \<Rightarrow> VCN) \<Rightarrow> ClusterScope \<Rightarrow> ClusterScope" where
  "upd_Vcn f = upd_NetworkSpec (\<lambda>n. n\<lparr>NetworkSpec_Vcn := f (NetworkSpec_Vcn n)\<rparr>)"

definition SetControlPlaneEndpoint :: "APIEndpoint \<Rightarrow> ClusterScope \<Rightarrow> ClusterScope" where
  "SetControlPlaneEndpoint e = upd_Spec (\<lambda>sp. sp\<lparr>Spec_ControlPlaneEndpoint := e\<rparr>)"

definition GetControlPlaneEndpoint :: "ClusterScope \<Rightarrow> APIEndpoint" where
  "GetControlPlaneEndpoint s = Spec_ControlPlaneEndpoint (Cluster_Spec (CS_OCICluster s))"

definition GetFailureDomains :: "ClusterScope \<Rightarrow> (string \<rightharpoonup> FailureDomainSpec) option" where
  "GetFailureDomains s = Status_FailureDomains (Cluster_Status (CS_OCICluster s))"

definition SetFailureDomain :: "string \<Rightarrow> FailureDomainSpec \<Rightarrow> ClusterScope \<Rightarrow> ClusterScope" where
  "SetFailureDomain fid spec s =
     (let fds = (case GetFailureDomains s of None \<Rightarrow> Map.empty | Some m \<Rightarrow> m);
          c = CS_OCICluster s
      in s\<lparr>CS_OCICluster := c\<lparr>Cluster_Status :=
             (Cluster_Status c)\<lparr>Status_FailureDomains := Some (fds(fid \<mapsto> spec))\<rparr>\<rparr>\<rparr>)"

definition GetAvailabilityDomains :: "ClusterScope \<Rightarrow> (string \<times> OCIAvailabilityDomain) list option" where
  "GetAvailabilityDomains s = Spec_AvailabilityDomains (Cluster_Spec (CS_OCICluster s))"

definition SetAvailabilityDomains ::
  "(string \<times> OCIAvailabilityDomain) list \<Rightarrow> ClusterScope \<Rightarrow> ClusterScope" where
  "SetAvailabilityDomains ads = upd_Spec (\<lambda>sp. sp\<lparr>Spec_AvailabilityDomains := Some ads\<rparr>)"

definition GetProviderID :: "string \<Rightarrow> string" where
  "GetProviderID instanceId = ''oci://'' @ instanceId"

section \<open>Tags\<close>

definition cluster_tag_keys :: "string list" where
  "cluster_tag_keys = [CreatedBy, ClusterResourceIdentifier]"

text \<open>The loop of \<open>IsResourceCreatedByClusterAPI\<close> ranges over the keys of \<open>BuildClusterTags\<close>
  (lemma \<open>dom_BuildClusterTags\<close>) in some order and stops at the first difference.\<close>

definition IsResourceCreatedByClusterAPI :: "ClusterScope \<Rightarrow> tags \<Rightarrow> bool" where
  "IsResourceCreatedByClusterAPI s resourceFreeFormTags =
     (let tagsAddedByClusterAPI = BuildClusterTags (GetOCIResourceIdentifier s)
      in list_all (\<lambda>k. tag_at resourceFreeFormTags k = tag_at tagsAddedByClusterAPI k) cluster_tag_keys)"

definition GetFreeFormTags :: "ClusterScope \<Rightarrow> tags" where
  "GetFreeFormTags s = accessor_GetFreeformTags s ++ BuildClusterTags (GetOCIResourceIdentifier s)"

definition GetDefinedTags :: "ClusterScope \<Rightarrow> defined_tags" where
  "GetDefinedTags s = (case accessor_GetDefinedTags s of None \<Rightarrow> Map.empty | Some t \<Rightarrow> t)"

definition ApiServerPort :: int where "ApiServerPort = 6443"

definition APIServerPort :: "ClusterScope \<Rightarrow> int" where
  "APIServerPort s =
     (if CS_ClusterNetworkAPIServerPort s \<noteq> 0 then CS_ClusterNetworkAPIServerPort s else ApiServerPort)"

definition isPeeringEnabled :: "ClusterScope \<Rightarrow> bool" where
  "isPeeringEnabled s \<longleftrightarrow> NetworkSpec_VCNPeering (GetNetworkSpec s) \<noteq> None"

text \<open>\<open>getDRG\<close> and \<open>getDrgID\<close> dereference the peering spec and, the second, the DRG.\<close>

definition getDRG :: "ClusterScope \<Rightarrow> ('s, DRG option) go" where
  "getDRG s = go_bind (go_deref (NetworkSpec_VCNPeering (GetNetworkSpec s))) (\<lambda>p. go_ret (VCNPeering_DRG p))"

definition getDrgID :: "ClusterScope \<Rightarrow> ('s, string option) go" where
  "getDrgID s = go_bind (getDRG s) (\<lambda>d. go_bind (go_deref d) (\<lambda>drg. go_ret (DRG_ID drg)))"

definition getVcnId :: "ClusterScope \<Rightarrow> string option" where
  "getVcnId s = VCN_ID (GetVcnSpec s)"

section \<open>Regions\<close>

definition GetRegionCodeFromRegion :: "'w IdentityApi \<Rightarrow> string \<Rightarrow> ('w, string) go" where
  "GetRegionCodeFromRegion ic region =
     go_bind (go_wrap ''failed to list oci regions'' (api_ListRegions ic)) (\<lambda>items.
     case find (\<lambda>r. StringEquals (Region_Name r) region) items of
       Some r \<Rightarrow> go_deref (Region_Key r)
     | None \<Rightarrow> go_throw (ErrNew ''unable to get region code from region name''))"

definition SetRegionKey :: "'w IdentityApi \<Rightarrow> ('w, unit) scope_go" where
  "SetRegionKey ic =
     go_bind get_scope (\<lambda>s.
     go_bind (api (GetRegionCodeFromRegion ic (CS_RegionIdentifier s))) (\<lambda>code.
     mod_scope (\<lambda>s. s\<lparr>CS_RegionKey := code\<rparr>)))"

section \<open>Failure domains\<close>

fun deref_all :: "string option list \<Rightarrow> ('s, string list) go" where
  "deref_all [] = go_ret []"
| "deref_all (p # ps) = go_bind (go_deref p) (\<lambda>x. go_bind (deref_all ps) (\<lambda>xs. go_ret (x # xs)))"

text \<open>The loop of \<open>setAvailabiltyDomainSpec\<close> over the listed availability domains.\<close>

fun adSpecLoop :: "'w IdentityApi \<Rightarrow> string \<Rightarrow> string option list \<Rightarrow>
    (string \<times> OCIAvailabilityDomain) list \<Rightarrow> ('w, (string \<times> OCIAvailabilityDomain) list) go" where
  "adSpecLoop ic cid [] clusterAds = go_ret clusterAds"
| "adSpecLoop ic cid (ad # ads) clusterAds =
     go_bind (api_ListFaultDomains ic cid ad) (\<lambda>fds.
     go_bind (deref_all fds) (\<lambda>faultDomains.
     go_bind (go_deref ad) (\<lambda>adName.
     adSpecLoop ic cid ads
       (AList.update adName \<lparr>AD_Name = adName, AD_FaultDomains = faultDomains\<rparr> clusterAds))))"

definition setAvailabiltyDomainSpec ::
  "'w IdentityApi \<Rightarrow> string option list \<Rightarrow> ('w, (string \<times> OCIAvailabilityDomain) list) scope_go" where
  "setAvailabiltyDomainSpec ic ads =
     go_bind get_scope (\<lambda>s.
     go_bind (api (adSpecLoop ic (GetCompartmentId s) ads [])) (\<lambda>clusterAds.
     go_bind (mod_scope (SetAvailabilityDomains clusterAds)) (\<lambda>_.
     go_ret clusterAds)))"

abbreviation AvailabilityDomainKey :: string where "AvailabilityDomainKey \<equiv> ''AvailabilityDomain''"
abbreviation FaultDomainKey :: string where "FaultDomainKey \<equiv> ''FaultDomain''"

text \<open>The body of the loop over three availability domains.\<close>

definition setADFailureDomain :: "string \<Rightarrow> ('w, unit) scope_go" where
  "setADFailureDomain k = (case after_last (CHR ''-'') k of
      None \<Rightarrow> go_throw (ErrNew (''could not infer ad number from availability domain '' @ k))
    | Some adNumber \<Rightarrow> (case Atoi adNumber of
        None \<Rightarrow> go_throw (ErrNew (''availability domain is not a valid integer: availability domain '' @ k))
      | Some _ \<Rightarrow> mod_scope (SetFailureDomain adNumber
          \<lparr>FD_ControlPlane = True, FD_Attributes = [AvailabilityDomainKey \<mapsto> k]\<rparr>)))"

text \<open>The loop over the fault domains of the only availability domain.\<close>

definition setFDFailureDomain :: "string \<Rightarrow> nat \<times> string \<Rightarrow> ('w, unit) scope_go" where
  "setFDFailureDomain k = (\<lambda>(i, fd). mod_scope (SetFailureDomain (Itoa (int i + 1))
      \<lparr>FD_ControlPlane = True,
       FD_Attributes = [AvailabilityDomainKey \<mapsto> k, FaultDomainKey \<mapsto> fd]\<rparr>))"

text \<open>The order in which Go ranges over a map is not determined: \<open>iter\<close> is the order of this run,
  a permutation of the map's entries.\<close>

type_synonym ('k, 'v) map_order = "('k \<times> 'v) list \<Rightarrow> ('k \<times> 'v) list"

definition setFailureDomains ::
  "(string, OCIAvailabilityDomain) map_order \<Rightarrow> 'w IdentityApi \<Rightarrow> ('w, unit) scope_go" where
  "setFailureDomains iter ic =
     go_bind get_scope (\<lambda>s.
     go_bind (case GetAvailabilityDomains s of
         Some adMap \<Rightarrow> go_ret adMap
       | None \<Rightarrow> go_bind (api (api_ListAvailabilityDomains ic (GetCompartmentId s)))
                   (setAvailabiltyDomainSpec ic)) (\<lambda>adMap.
     if length adMap \<noteq> 1 \<and> length adMap \<noteq> 3
     then go_throw (ErrNew (''invalid number of Availability Domains, should be either 1 or 3, but got ''
            @ Itoa (int (length adMap))))
     else if length adMap = 3 then go_for (map fst (iter adMap)) setADFailureDomain
     else (case iter adMap of
         [] \<Rightarrow> go_ret ()
       | (k, ad) # _ \<Rightarrow> go_for (enumerate 0 (AD_FaultDomains ad)) (setFDFailureDomain k))))"

definition ReconcileFailureDomains ::
  "(string, OCIAvailabilityDomain) map_order \<Rightarrow> 'w IdentityApi \<Rightarrow> ('w, unit) scope_go" where
  "ReconcileFailureDomains iter ic =
     go_bind get_scope (\<lambda>s.
     if GetFailureDomains s = None then setFailureDomains iter ic else go_ret ())"

section \<open>Evaluation and frame rules\<close>

lemma get_scope_apply [go_simps]: "get_scope (s, w) = (Ret s, (s, w))"
  by (simp add: get_scope_def)

lemma mod_scope_apply [go_simps]: "mod_scope f (s, w) = (Ret (), (f s, w))"
  by (simp add: mod_scope_def)

lemma getDRG_apply [go_simps]:
  "getDRG s x = (case NetworkSpec_VCNPeering (GetNetworkSpec s) of
     None \<Rightarrow> (Panic, x) | Some p \<Rightarrow> (Ret (VCNPeering_DRG p), x))"
  by (simp add: getDRG_def go_simps split: option.split)

lemma getDrgID_apply [go_simps]:
  "getDrgID s x = (case NetworkSpec_VCNPeering (GetNetworkSpec s) of
     None \<Rightarrow> (Panic, x)
   | Some p \<Rightarrow> (case VCNPeering_DRG p of None \<Rightarrow> (Panic, x) | Some d \<Rightarrow> (Ret (DRG_ID d), x)))"
  by (simp add: getDrgID_def go_simps split: option.split)

lemma keeps_getDRG [frame_intros]:
  "reflp R \<Longrightarrow> keeps R (getDRG s)" "reflp R \<Longrightarrow> keeps R (getDrgID s)"
  by (auto simp: keeps_def go_simps reflp_def split: option.split)

lemma api_apply [go_simps]: "api m (s, w) = (fst (m w), (s, snd (m w)))"
  by (simp add: api_def split: prod.splits)

text \<open>What identifies the cluster to the cloud, and the part of the object that belongs to the controller
  (finalizers, readiness, conditions): no reconciler of the scope writes any of it.\<close>

definition same_identity :: "ClusterScope \<Rightarrow> ClusterScope \<Rightarrow> bool" where
  "same_identity s t \<longleftrightarrow>
     GetName t = GetName s \<and> GetNameSpace t = GetNameSpace s \<and>
     GetOCIResourceIdentifier t = GetOCIResourceIdentifier s \<and>
     GetCompartmentId t = GetCompartmentId s \<and>
     accessor_GetFreeformTags t = accessor_GetFreeformTags s \<and>
     accessor_GetDefinedTags t = accessor_GetDefinedTags s \<and>
     Cluster_Annotations (CS_OCICluster t) = Cluster_Annotations (CS_OCICluster s) \<and>
     Cluster_Finalizers (CS_OCICluster t) = Cluster_Finalizers (CS_OCICluster s) \<and>
     Cluster_Deleted (CS_OCICluster t) = Cluster_Deleted (CS_OCICluster s) \<and>
     Status_Ready (Cluster_Status (CS_OCICluster t)) = Status_Ready (Cluster_Status (CS_OCICluster s)) \<and>
     Status_Conditions (Cluster_Status (CS_OCICluster t)) = Status_Conditions (Cluster_Status (CS_OCICluster s)) \<and>
     CS_ClusterNetworkAPIServerPort t = CS_ClusterNetworkAPIServerPort s"

abbreviation same_id :: "'w st \<Rightarrow> 'w st \<Rightarrow> bool" where
  "same_id \<equiv> (\<lambda>x y. same_identity (fst x) (fst y))"

lemma same_identity_refl [simp]: "same_identity s s"
  by (simp add: same_identity_def)

lemma same_identity_trans: "same_identity s t \<Longrightarrow> same_identity t u \<Longrightarrow> same_identity s u"
  by (simp add: same_identity_def)

lemma reflp_same_id [simp]: "reflp same_id"
  by (simp add: reflp_def)

lemma transp_same_id [simp]: "transp same_id"
  by (auto simp: transp_def same_identity_def)

lemmas accessor_defs = GetName_def GetNameSpace_def GetOCIResourceIdentifier_def GetCompartmentId_def
  accessor_GetFreeformTags_def accessor_GetDefinedTags_def GetNetworkSpec_def upd_Spec_def
  GetControlPlaneEndpoint_def GetFailureDomains_def GetAvailabilityDomains_def GetRegion_def

lemma GetNetworkSpec_upd [simp]:
  "GetNetworkSpec (upd_NetworkSpec f s) = f (GetNetworkSpec s)"
  "GetNetworkSpec (upd_Vcn g s) = (GetNetworkSpec s)\<lparr>NetworkSpec_Vcn := g (GetVcnSpec s)\<rparr>"
  "GetNetworkSpec (SetControlPlaneEndpoint e s) = GetNetworkSpec s"
  "GetNetworkSpec (SetAvailabilityDomains ads s) = GetNetworkSpec s"
  "GetNetworkSpec (SetFailureDomain i fd s) = GetNetworkSpec s"
  by (simp_all add: accessor_defs upd_NetworkSpec_def upd_Vcn_def SetControlPlaneEndpoint_def
      SetAvailabilityDomains_def SetFailureDomain_def Let_def)

lemma same_identity_upd [simp]:
  "same_identity s (upd_NetworkSpec f s)" "same_identity s (upd_Vcn g s)"
  "same_identity s (SetControlPlaneEndpoint e s)" "same_identity s (SetAvailabilityDomains ads s)"
  "same_identity s (SetFailureDomain i fd s)" "same_identity s (s\<lparr>CS_RegionKey := k\<rparr>)"
  by (simp_all add: same_identity_def accessor_defs upd_NetworkSpec_def upd_Vcn_def
      SetControlPlaneEndpoint_def SetAvailabilityDomains_def SetFailureDomain_def Let_def)

lemma same_identityD:
  assumes "same_identity s t"
  shows "GetName t = GetName s" "GetOCIResourceIdentifier t = GetOCIResourceIdentifier s"
    "GetCompartmentId t = GetCompartmentId s" "GetFreeFormTags t = GetFreeFormTags s"
    "GetDefinedTags t = GetDefinedTags s" "APIServerPort t = APIServerPort s"
    "IsResourceCreatedByClusterAPI t = IsResourceCreatedByClusterAPI s"
  using assms
  by (simp_all add: same_identity_def GetFreeFormTags_def GetDefinedTags_def APIServerPort_def
      IsResourceCreatedByClusterAPI_def [abs_def])

lemma keeps_scope [frame_intros]: "(\<And>s w. R (s, w) (s, w)) \<Longrightarrow> keeps R get_scope"
  by (auto simp: keeps_def get_scope_def)

lemma keeps_api_same_id [frame_intros]: "keeps same_id (api m)"
  by (auto simp: keeps_def api_def split: prod.splits)

abbreviation same_scope :: "'w st \<Rightarrow> 'w st \<Rightarrow> bool" where
  "same_scope \<equiv> (\<lambda>x y. fst y = fst x)"

lemma reflp_same_scope [simp]: "reflp same_scope"
  by (simp add: reflp_def)

lemma transp_same_scope [simp]: "transp same_scope"
  by (simp add: transp_def)

lemma keeps_api_same_scope [frame_intros]: "keeps same_scope (api m)"
  by (auto simp: keeps_def api_def split: prod.splits)

lemma keeps_same_scopeD: "keeps same_scope m \<Longrightarrow> m (s, w) = (x, t) \<Longrightarrow> fst t = s"
  using keepsD [of same_scope m "(s, w)" x t] by simp

lemma keeps_mod_scope [frame_intros]:
  "(\<And>s. same_identity s (f s)) \<Longrightarrow> keeps same_id (mod_scope f)"
  by (auto simp: keeps_def mod_scope_def)

section \<open>Ownership\<close>

lemma dom_BuildClusterTags: "dom (BuildClusterTags uid) = set cluster_tag_keys"
  by (auto simp: BuildClusterTags_eq cluster_tag_keys_def)

lemma owned_eq:
  "IsResourceCreatedByClusterAPI s m \<longleftrightarrow>
     tag_at m CreatedBy = OCIClusterAPIProvider \<and>
     tag_at m ClusterResourceIdentifier = GetOCIResourceIdentifier s"
  by (simp add: IsResourceCreatedByClusterAPI_def cluster_tag_keys_def BuildClusterTags_eq tag_at_def)

lemma tag_at_nonempty: "v \<noteq> [] \<Longrightarrow> tag_at m k = v \<longleftrightarrow> m k = Some v"
  by (auto simp: tag_at_def split: option.splits)

lemma GetFreeFormTags_owned: "IsResourceCreatedByClusterAPI s (GetFreeFormTags s)"
  by (simp add: owned_eq GetFreeFormTags_def BuildClusterTags_eq tag_at_def map_add_def)

lemma owned_iff_tags:
  assumes "GetOCIResourceIdentifier s \<noteq> []"
  shows "IsResourceCreatedByClusterAPI s m \<longleftrightarrow>
     m CreatedBy = Some OCIClusterAPIProvider \<and>
     m ClusterResourceIdentifier = Some (GetOCIResourceIdentifier s)"
  using assms by (simp add: owned_eq tag_at_nonempty OCIClusterAPIProvider_def)

section \<open>Failure domains\<close>

lemma GetFailureDomains_SetADs [simp]:
  "GetFailureDomains (SetAvailabilityDomains ads s) = GetFailureDomains s"
  by (simp add: SetAvailabilityDomains_def accessor_defs)

definition fd_map :: "ClusterScope \<Rightarrow> string \<rightharpoonup> FailureDomainSpec" where
  "fd_map s = (case GetFailureDomains s of None \<Rightarrow> Map.empty | Some m \<Rightarrow> m)"

lemma GetFailureDomains_Set [simp]:
  "GetFailureDomains (SetFailureDomain i fd s) = Some ((fd_map s)(i \<mapsto> fd))"
  by (simp add: SetFailureDomain_def Let_def GetFailureDomains_def fd_map_def)

lemma fd_map_Set [simp]: "fd_map (SetFailureDomain i fd s) = (fd_map s)(i \<mapsto> fd)"
  by (simp add: fd_map_def)

definition ad_failure_domain :: "string \<Rightarrow> FailureDomainSpec" where
  "ad_failure_domain k = \<lparr>FD_ControlPlane = True, FD_Attributes = [AvailabilityDomainKey \<mapsto> k]\<rparr>"

text \<open>The number of an availability domain: what follows the last hyphen of its name, when that is
  an integer.\<close>

definition ad_number :: "string \<Rightarrow> string option" where
  "ad_number k = (case after_last (CHR ''-'') k of
      None \<Rightarrow> None | Some n \<Rightarrow> if Atoi n = None then None else Some n)"

lemma setADFailureDomain_ret:
  "setADFailureDomain k (s, w) = (Ret (), t) \<longleftrightarrow>
     (\<exists>n. ad_number k = Some n \<and> t = (SetFailureDomain n (ad_failure_domain k) s, w))"
  by (auto simp: setADFailureDomain_def ad_failure_domain_def ad_number_def go_simps
      split: option.splits)

text \<open>The loop over availability domains, from the point of view of the failure-domain map.\<close>

definition ad_entries :: "string list \<Rightarrow> (string \<times> FailureDomainSpec) list" where
  "ad_entries ks = map (\<lambda>k. (the (ad_number k), ad_failure_domain k)) ks"

lemma for_setAD_ret:
  assumes "go_for ks setADFailureDomain (s, w) = (Ret (), t)" and "distinct (map ad_number ks)"
  shows "(\<forall>k \<in> set ks. ad_number k \<noteq> None) \<and>
    fd_map (fst t) = fd_map s ++ map_of (ad_entries ks) \<and> snd t = w"
  using assms
proof (induction ks arbitrary: s)
  case Nil
  then show ?case by (auto simp: go_simps ad_entries_def)
next
  case (Cons k ks)
  then obtain n where n: "ad_number k = Some n"
    and rest: "go_for ks setADFailureDomain (SetFailureDomain n (ad_failure_domain k) s, w) = (Ret (), t)"
    by (auto simp: go_simps setADFailureDomain_ret split: res.splits prod.splits)
  from Cons.prems(2) have "distinct (map ad_number ks)" by simp
  note IH = Cons.IH [OF rest this]
  have "n \<notin> dom (map_of (ad_entries ks))"
  proof
    assume "n \<in> dom (map_of (ad_entries ks))"
    then obtain k' where "k' \<in> set ks" "n = the (ad_number k')"
      by (auto simp: dom_map_of_conv_image_fst ad_entries_def)
    with IH n have "ad_number k' = ad_number k" by force
    with \<open>k' \<in> set ks\<close> Cons.prems(2) show False by (simp add: image_iff) metis
  qed
  then have "(fd_map s)(n \<mapsto> ad_failure_domain k) ++ map_of (ad_entries ks) =
      fd_map s ++ (map_of (ad_entries ks))(n \<mapsto> ad_failure_domain k)"
    by (auto simp: map_add_def fun_eq_iff domIff split: option.splits)
  moreover have "map_of (ad_entries (k # ks)) = (map_of (ad_entries ks))(n \<mapsto> ad_failure_domain k)"
    by (simp only: ad_entries_def list.map map_of.simps fst_conv snd_conv n option.sel)
  ultimately show ?case using IH n by (metis fd_map_Set option.discI set_ConsD)
qed

text \<open>The entries do not depend on the order in which the map is ranged over.\<close>

lemma map_of_ad_entries:
  assumes "distinct (map ad_number ks)" and "\<forall>k \<in> set ks. ad_number k \<noteq> None"
  shows "map_of (ad_entries ks) n = Some fd \<longleftrightarrow>
    (\<exists>k \<in> set ks. ad_number k = Some n \<and> fd = ad_failure_domain k)"
proof -
  have "map (Some \<circ> fst) (ad_entries ks) = map ad_number ks"
    using assms(2) by (auto simp: ad_entries_def)
  then have "distinct (map fst (ad_entries ks))"
    using assms(1) by (metis distinct_map list.map_comp)
  then have "map_of (ad_entries ks) n = Some fd \<longleftrightarrow> (n, fd) \<in> set (ad_entries ks)"
    by simp
  also have "\<dots> \<longleftrightarrow> (\<exists>k \<in> set ks. ad_number k = Some n \<and> fd = ad_failure_domain k)"
    using assms(2) by (force simp: ad_entries_def)
  finally show ?thesis .
qed

end
