(* ===== verification/Resource_Contract.thy ===== *)
theory Resource_Contract
  imports Cluster_Scope
begin

text \<open>
  The contract the resource reconcilers of the scope share, stated once. \<open>tagged_lookup\<close> is how a
  resource is found (by the id in the spec, else by a list request, accepting only resources that
  carry this cluster's tags); it is a special case of \<open>owned_lookup\<close>, which promises only that what
  is found is owned. \<open>owned_delete\<close> is deletion over such a lookup, \<open>tagged_resource\<close> the
  find-or-create reconciliation. The component theories interpret these on their definitions.
  The last part states what is assumed of the cloud where a theorem needs it.
\<close>

section \<open>Shared steps\<close>

definition tags_modified :: goerr where
  "tags_modified = ErrNew ''cluster api tags have been modified out of context''"

text \<open>\<open>if s.IsResourceCreatedByClusterAPI(r.FreeformTags) \<lbrace> return &r, nil \<rbrace> else \<lbrace> return nil, errors.New(...) \<rbrace>\<close>\<close>

definition accept_owned :: "ClusterScope \<Rightarrow> 'z SdkResource_scheme \<Rightarrow> ('s, 'z SdkResource_scheme option) go" where
  "accept_owned s r =
     (if IsResourceCreatedByClusterAPI s (Res_FreeformTags r) then go_ret (Some r) else go_throw tags_modified)"

text \<open>\<open>for _, r := range items \<lbrace> if s.IsResourceCreatedByClusterAPI(r.FreeformTags) \<lbrace> return &r, nil \<rbrace> \<rbrace>; return nil, nil\<close>\<close>

definition find_owned :: "ClusterScope \<Rightarrow> 'z SdkResource_scheme list \<Rightarrow> 'z SdkResource_scheme option" where
  "find_owned s items = find (\<lambda>r. IsResourceCreatedByClusterAPI s (Res_FreeformTags r)) items"

text \<open>The end of every deletion: an error of the lookup other than not-found is returned, a missing
  resource is nothing to do, an existing one is deleted by its id.\<close>

definition delete_found :: "('w, 'r option) scope_go \<Rightarrow> ('r \<Rightarrow> ('w, unit) go) \<Rightarrow> ('w, unit) scope_go" where
  "delete_found lookup del =
     go_bind (go_try lookup) (\<lambda>x. case x of
        Inl err \<Rightarrow> if \<not> IsNotFound (Some err) then go_throw err else go_ret ()
      | Inr None \<Rightarrow> go_ret ()
      | Inr (Some r) \<Rightarrow> api (del r))"

section \<open>Contracts\<close>

locale owned_lookup =
  fixes lookup :: "('w, 'r option) scope_go" and rtags :: "'r \<Rightarrow> tags"
  assumes lookup_scope: "lookup (s, w) = (x, t) \<Longrightarrow> fst t = s"
    and lookup_owned: "lookup (s, w) = (Ret (Some r), t) \<Longrightarrow> IsResourceCreatedByClusterAPI s (rtags r)"

locale owned_delete = owned_lookup lookup rtags
  for lookup :: "('w, 'r option) scope_go" and rtags :: "'r \<Rightarrow> tags" +
  fixes skip :: "ClusterScope \<Rightarrow> bool" and del :: "'r \<Rightarrow> ('w, unit) go"
    and delete :: "('w, unit) scope_go"
  assumes delete_skip: "skip s \<Longrightarrow> delete (s, w) = (Ret (), (s, w))"
    and delete_eq: "\<not> skip s \<Longrightarrow> delete (s, w) = delete_found lookup del (s, w)"
begin

text \<open>A deletion reaches the cloud only through the lookup and, if the lookup found an owned resource,
  one delete request for that resource.\<close>

lemma delete_cases:
  assumes "delete (s, w) = (x, t)" and "\<not> skip s"
  obtains (failed) e where "lookup (s, w) = (Err e, t)" "\<not> IsNotFound (Some e)" "x = Err e"
  | (gone) e where "lookup (s, w) = (Err e, t)" "IsNotFound (Some e)" "x = Ret ()"
  | (absent) "lookup (s, w) = (Ret None, t)" "x = Ret ()"
  | (found) r w1 where "lookup (s, w) = (Ret (Some r), (s, w1))"
      "IsResourceCreatedByClusterAPI s (rtags r)" "t = (s, snd (del r w1))" "x = fst (del r w1)"
  | (stuck) y where "lookup (s, w) = (y, t)" "y = Panic \<and> x = Panic \<or> y = Diverge \<and> x = Diverge"
proof -
  obtain y u where l: "lookup (s, w) = (y, u)" by (cases "lookup (s, w)")
  then have u: "u = (s, snd u)" by (metis lookup_scope prod.collapse)
  have run: "delete_found lookup del (s, w) = (x, t)"
    using assms by (simp add: delete_eq)
  show thesis
  proof (cases y)
    case (Ret o')
    show thesis
    proof (cases o')
      case None
      with Ret l run show thesis
        by (auto simp: delete_found_def go_simps intro: absent)
    next
      case (Some r)
      with Ret l have "lookup (s, w) = (Ret (Some r), (s, snd u))" using u by metis
      moreover from this have "IsResourceCreatedByClusterAPI s (rtags r)" by (rule lookup_owned)
      moreover have "t = (s, snd (del r (snd u)))" "x = fst (del r (snd u))"
        using Ret Some l run u by (simp_all add: delete_found_def go_simps api_def split: prod.splits)
      ultimately show thesis by (rule found)
    qed
  qed (use l run in \<open>auto simp: delete_found_def go_simps split: if_splits intro: failed gone stuck\<close>)
qed

lemma delete_keeps_scope: "delete (s, w) = (x, t) \<Longrightarrow> fst t = s"
proof (cases "skip s")
  case True
  then show "delete (s, w) = (x, t) \<Longrightarrow> fst t = s" by (auto simp: delete_skip)
next
  case False
  assume run: "delete (s, w) = (x, t)"
  from run False show "fst t = s"
    by (cases rule: delete_cases) (auto dest: lookup_scope)
qed

text \<open>The contract for cleaning up: unless skipped, a deletion that returns nil has found nothing to
  delete or has deleted what it found.\<close>

lemma delete_done:
  assumes "delete (s, w) = (Ret (), t)" and "\<not> skip s"
  shows "(\<exists>e. lookup (s, w) = (Err e, t) \<and> IsNotFound (Some e)) \<or> lookup (s, w) = (Ret None, t) \<or>
    (\<exists>r w1. lookup (s, w) = (Ret (Some r), (s, w1)) \<and> IsResourceCreatedByClusterAPI s (rtags r) \<and>
      del r w1 = (Ret (), snd t))"
  using assms by (cases rule: delete_cases) (auto simp: prod_eq_iff)

end

locale tagged_lookup =
  fixes idof :: "ClusterScope \<Rightarrow> string option"
    and getop :: "string option \<Rightarrow> ('w, 'z SdkResource_scheme) go"
    and listop :: "ClusterScope \<Rightarrow> ('w, 'z SdkResource_scheme list) go"
    and sel :: "ClusterScope \<Rightarrow> 'z SdkResource_scheme \<Rightarrow> bool"
    and lookup :: "('w, 'z SdkResource_scheme option) scope_go"
  assumes lookup_eq: "lookup (s, w) = (case idof s of
      Some i \<Rightarrow> go_bind (api (getop (Some i))) (accept_owned s) (s, w)
    | None \<Rightarrow> go_bind (api (listop s)) (\<lambda>items.
        go_ret (find (\<lambda>r. sel s r \<and> IsResourceCreatedByClusterAPI s (Res_FreeformTags r)) items)) (s, w))"
begin

lemma lookup_by_id:
  "idof s = Some i \<Longrightarrow> lookup (s, w) = (case getop (Some i) w of
      (Ret r, w') \<Rightarrow> (if IsResourceCreatedByClusterAPI s (Res_FreeformTags r) then Ret (Some r)
                     else Err tags_modified, (s, w'))
    | (Err e, w') \<Rightarrow> (Err e, (s, w'))
    | (Panic, w') \<Rightarrow> (Panic, (s, w'))
    | (Diverge, w') \<Rightarrow> (Diverge, (s, w')))"
  by (auto simp: lookup_eq go_simps accept_owned_def split: res.splits prod.splits)

lemma lookup_by_list:
  "idof s = None \<Longrightarrow> lookup (s, w) = (case listop s w of
      (Ret items, w') \<Rightarrow>
        (Ret (find (\<lambda>r. sel s r \<and> IsResourceCreatedByClusterAPI s (Res_FreeformTags r)) items), (s, w'))
    | (Err e, w') \<Rightarrow> (Err e, (s, w'))
    | (Panic, w') \<Rightarrow> (Panic, (s, w'))
    | (Diverge, w') \<Rightarrow> (Diverge, (s, w')))"
  by (auto simp: lookup_eq go_simps split: res.splits prod.splits)

lemma lookup_absent_no_id: "lookup (s, w) = (Ret None, t) \<Longrightarrow> idof s = None"
  by (cases "idof s") (auto simp: lookup_by_id split: res.splits prod.splits if_splits)

end

sublocale tagged_lookup \<subseteq> owned_lookup lookup Res_FreeformTags
proof unfold_locales
  fix s w x t assume run: "lookup (s, w) = (x, t)"
  show "fst t = s"
  proof (cases "idof s")
    case None
    with run show ?thesis by (auto simp: lookup_by_list split: res.splits prod.splits)
  next
    case (Some i)
    with run show ?thesis by (auto simp: lookup_by_id split: res.splits prod.splits if_splits)
  qed
next
  fix s w r t assume run: "lookup (s, w) = (Ret (Some r), t)"
  show "IsResourceCreatedByClusterAPI s (Res_FreeformTags r)"
  proof (cases "idof s")
    case None
    with run show ?thesis by (auto simp: lookup_by_list find_Some_iff split: res.splits prod.splits)
  next
    case (Some i)
    with run show ?thesis by (auto simp: lookup_by_id split: res.splits prod.splits if_splits)
  qed
qed

section \<open>What is assumed of the cloud\<close>

text \<open>A theorem that needs more of the cloud than that it exists takes these as hypotheses. \<open>tbl w\<close> is
  the table of one kind of resource in cloud state \<open>w\<close>, from OCIDs to resources. A get or list request
  changes nothing and reports what is in the table, or fails; a successful creation adds one resource
  under a fresh OCID with the name and tags of the request. Any request may fail.\<close>

definition answers :: "('w, 'a) go \<Rightarrow> bool" where
  "answers m \<longleftrightarrow> (\<forall>w. (\<exists>x. fst (m w) = Ret x) \<or> (\<exists>e. fst (m w) = Err e))"

definition read_only :: "('w, 'a) go \<Rightarrow> bool" where
  "read_only m \<longleftrightarrow> answers m \<and> (\<forall>w. snd (m w) = w)"

type_synonym ('w, 'r) table = "'w \<Rightarrow> string \<Rightarrow> 'r option"

definition keyed_by_id :: "('w, 'z SdkResource_scheme) table \<Rightarrow> bool" where
  "keyed_by_id tbl \<longleftrightarrow> (\<forall>w k r. tbl w k = Some r \<longrightarrow> Res_Id r = Some k \<and> Res_DisplayName r \<noteq> None)"

definition lawful_get :: "('w, 'r) table \<Rightarrow> (string option \<Rightarrow> ('w, 'r) go) \<Rightarrow> bool" where
  "lawful_get tbl getop \<longleftrightarrow> (\<forall>i. read_only (getop i) \<and>
     (\<forall>w r. fst (getop i w) = Ret r \<longrightarrow> (\<exists>k. i = Some k \<and> tbl w k = Some r)))"

definition lawful_list :: "('w, 'r) table \<Rightarrow> ('w, 'r list) go \<Rightarrow> bool" where
  "lawful_list tbl listop \<longleftrightarrow> read_only listop \<and>
     (\<forall>w rs. fst (listop w) = Ret rs \<longrightarrow> (\<forall>r \<in> set rs. \<exists>k. tbl w k = Some r))"

definition lawful_create ::
  "('w, 'z SdkResource_scheme) table \<Rightarrow> tags \<Rightarrow> string \<Rightarrow> ('w, 'z SdkResource_scheme) go \<Rightarrow> bool" where
  "lawful_create tbl tg nm create \<longleftrightarrow> answers create \<and>
     (\<forall>w r w'. create w = (Ret r, w') \<longrightarrow>
        (\<exists>k. tbl w k = None \<and> tbl w' = (tbl w)(k \<mapsto> r) \<and> Res_Id r = Some k \<and>
           Res_FreeformTags r = tg \<and> Res_DisplayName r = Some nm))"

definition lawful_rename ::
  "('w, 'z SdkResource_scheme) table \<Rightarrow> (string option \<Rightarrow> string \<Rightarrow> ('w, 'z SdkResource_scheme) go) \<Rightarrow> bool" where
  "lawful_rename tbl upd \<longleftrightarrow> (\<forall>i nm. answers (upd i nm) \<and>
     (\<forall>w r w'. upd i nm w = (Ret r, w') \<longrightarrow>
        (\<exists>k r0. i = Some k \<and> tbl w k = Some r0 \<and> tbl w' = (tbl w)(k \<mapsto> r) \<and> Res_Id r = Some k \<and>
           Res_FreeformTags r = Res_FreeformTags r0 \<and> Res_DisplayName r = Some nm)))"

definition lawful_delete :: "('w, 'r) table \<Rightarrow> (string option \<Rightarrow> ('w, unit) go) \<Rightarrow> bool" where
  "lawful_delete tbl del \<longleftrightarrow> (\<forall>i. answers (del i) \<and>
     (\<forall>w x w'. del i w = (x, w') \<longrightarrow>
        x \<noteq> Ret () \<and> tbl w' = tbl w \<or> (\<exists>k. i = Some k \<and> tbl w' = (tbl w)(k := None))))"

text \<open>An answer of not-found to a get request means that the resource does not exist.\<close>

definition honest_get :: "('w, 'r) table \<Rightarrow> (string option \<Rightarrow> ('w, 'r) go) \<Rightarrow> bool" where
  "honest_get tbl getop \<longleftrightarrow>
     (\<forall>k w e. fst (getop (Some k) w) = Err e \<longrightarrow> IsNotFound (Some e) \<longrightarrow> tbl w k = None)"

text \<open>A creation of the scope that puts a resource of this cluster into the table and answers its id.\<close>

definition creates_owned ::
  "('w, 'z SdkResource_scheme) table \<Rightarrow> ('w, string option) scope_go \<Rightarrow> bool" where
  "creates_owned tbl create \<longleftrightarrow> (\<forall>s w i t. create (s, w) = (Ret i, t) \<longrightarrow>
     (\<exists>k r. i = Some k \<and> tbl (snd t) k = Some r \<and> IsResourceCreatedByClusterAPI s (Res_FreeformTags r)))"

lemma creates_ownedI:
  assumes "\<And>s w i t. create (s, w) = (Ret i, t) \<Longrightarrow>
    \<exists>nm cr r w1. lawful_create tbl (GetFreeFormTags s) nm cr \<and> cr w1 = (Ret r, snd t) \<and> i = Res_Id r"
  shows "creates_owned tbl create"
  unfolding creates_owned_def
proof (intro allI impI)
  fix s w i t assume "create (s, w) = (Ret i, t)"
  from assms [OF this] obtain nm cr r w1 where
    "lawful_create tbl (GetFreeFormTags s) nm cr" "cr w1 = (Ret r, snd t)" "i = Res_Id r" by blast
  then show "\<exists>k r. i = Some k \<and> tbl (snd t) k = Some r \<and>
      IsResourceCreatedByClusterAPI s (Res_FreeformTags r)"
    unfolding lawful_create_def by (metis GetFreeFormTags_owned fun_upd_same)
qed

lemma answersD: "answers m \<Longrightarrow> m w = (Panic, t) \<Longrightarrow> False" "answers m \<Longrightarrow> m w = (Diverge, t) \<Longrightarrow> False"
  unfolding answers_def by (metis fst_conv res.distinct)+

lemma read_only_eqD: "read_only m \<Longrightarrow> m w = (x, w') \<Longrightarrow> w' = w"
  unfolding read_only_def by (metis snd_conv)

lemma read_only_answers: "read_only m \<Longrightarrow> answers m"
  by (simp add: read_only_def)

lemma read_only_wrap: "read_only m \<Longrightarrow> read_only (go_wrap msg m)"
  unfolding read_only_def answers_def
  by (auto simp: go_simps split: res.splits prod.splits)
    (metis fst_conv res.distinct snd_conv)+

lemma lawful_list_wrap: "lawful_list tbl m \<Longrightarrow> lawful_list tbl (go_wrap msg m)"
  unfolding lawful_list_def
  by (auto simp: read_only_wrap) (force simp: go_simps split: res.splits prod.splits)

lemma lawful_getD:
  "lawful_get tbl g \<Longrightarrow> g i w = (Ret r, w') \<Longrightarrow> w' = w \<and> (\<exists>k. i = Some k \<and> tbl w k = Some r)"
  unfolding lawful_get_def read_only_def by (metis fst_conv snd_conv)

lemma lawful_listD:
  "lawful_list tbl l \<Longrightarrow> l w = (Ret rs, w') \<Longrightarrow> w' = w \<and> (\<forall>r \<in> set rs. \<exists>k. tbl w k = Some r)"
  unfolding lawful_list_def read_only_def by (metis fst_conv snd_conv)

lemma lawful_createD:
  "lawful_create tbl tg nm c \<Longrightarrow> c w = (Ret r, w') \<Longrightarrow>
   \<exists>k. tbl w k = None \<and> tbl w' = (tbl w)(k \<mapsto> r) \<and> Res_Id r = Some k \<and>
     Res_FreeformTags r = tg \<and> Res_DisplayName r = Some nm"
  by (auto simp: lawful_create_def)

lemma lawful_renameD:
  "lawful_rename tbl upd \<Longrightarrow> upd i nm w = (Ret r, w') \<Longrightarrow>
   \<exists>k r0. i = Some k \<and> tbl w k = Some r0 \<and> tbl w' = (tbl w)(k \<mapsto> r) \<and> Res_Id r = Some k \<and>
     Res_FreeformTags r = Res_FreeformTags r0 \<and> Res_DisplayName r = Some nm"
  unfolding lawful_rename_def by blast

lemma lawful_deleteD:
  "lawful_delete tbl del \<Longrightarrow> del i w = (x, w') \<Longrightarrow>
   x \<noteq> Ret () \<and> tbl w' = tbl w \<or> (\<exists>k. i = Some k \<and> tbl w' = (tbl w)(k := None))"
  unfolding lawful_delete_def by blast

lemma answers_wrap: "answers m \<Longrightarrow> answers (go_wrap msg m)"
  unfolding answers_def by (auto simp: go_simps split: res.splits prod.splits) (metis fst_conv res.distinct)+

lemma go_wrap_state: "snd (go_wrap msg m w) = snd (m w)"
  by (simp add: go_simps split: res.splits prod.splits)

lemma go_wrap_RetD: "go_wrap msg m w = (Ret a, w') \<Longrightarrow> m w = (Ret a, w')"
  by (simp add: go_simps split: res.splits prod.splits)

lemma keyed_by_idD:
  "keyed_by_id tbl \<Longrightarrow> tbl w k = Some r \<Longrightarrow> Res_Id r = Some k"
  "keyed_by_id tbl \<Longrightarrow> tbl w k = Some r \<Longrightarrow> \<exists>n. Res_DisplayName r = Some n"
  unfolding keyed_by_id_def by blast+

context tagged_lookup begin

text \<open>Over a lawful service a lookup changes nothing, and what it finds is in the table.\<close>

lemma lookup_in_table:
  assumes get: "lawful_get tbl getop" and lst: "lawful_list tbl (listop s)" and ids: "keyed_by_id tbl"
    and run: "lookup (s, w) = (Ret (Some r), t)"
  shows "t = (s, w) \<and> (\<exists>k. tbl w k = Some r \<and> Res_Id r = Some k)"
proof (cases "idof s")
  case (Some i)
  with run obtain w' where g: "getop (Some i) w = (Ret r, w')" and t: "t = (s, w')"
    by (auto simp: lookup_by_id split: res.splits prod.splits if_splits)
  from lawful_getD [OF get g] t keyed_by_idD [OF ids] show ?thesis by blast
next
  case None
  with run obtain items w' where l: "listop s w = (Ret items, w')" and r: "r \<in> set items" and t: "t = (s, w')"
    by (auto simp: lookup_by_list split: res.splits prod.splits dest: find_Some_mem)
  from lawful_listD [OF lst l] r t keyed_by_idD [OF ids] show ?thesis by blast
qed

lemma lookup_lawful_cases:
  assumes get: "lawful_get tbl getop" and lst: "lawful_list tbl (listop s)"
    and run: "lookup (s, w) = (x, t)"
  shows "t = (s, w) \<and> ((\<exists>r. x = Ret r) \<or> (\<exists>e. x = Err e))"
proof (cases "idof s")
  case (Some i)
  from get have ro: "read_only (getop (Some i))" by (simp add: lawful_get_def)
  obtain y w' where g: "getop (Some i) w = (y, w')" by (cases "getop (Some i) w")
  with ro have "w' = w" by (auto dest: read_only_eqD)
  with run g Some read_only_answers [OF ro] show ?thesis
    by (cases y) (auto simp: lookup_by_id split: if_splits dest: answersD)
next
  case None
  from lst have ro: "read_only (listop s)" by (simp add: lawful_list_def)
  obtain y w' where g: "listop s w = (y, w')" by (cases "listop s w")
  with ro have "w' = w" by (auto dest: read_only_eqD)
  with run g None read_only_answers [OF ro] show ?thesis
    by (cases y) (auto simp: lookup_by_list dest: answersD)
qed

end

section \<open>Find or create\<close>

text \<open>The body the find-or-create reconcilers share. On an error of the creation the id is set to nil; it
  is nil already, because the lookup found nothing.\<close>

definition find_or_create ::
  "(ClusterScope \<Rightarrow> bool) \<Rightarrow> ('w, 'z SdkResource_scheme option) scope_go \<Rightarrow>
   (string option \<Rightarrow> ClusterScope \<Rightarrow> ClusterScope) \<Rightarrow> ('w, string option) scope_go \<Rightarrow> ('w, unit) scope_go" where
  "find_or_create needed lookup setid create =
     go_bind get_scope (\<lambda>s.
     if \<not> needed s then go_ret ()
     else go_bind lookup (\<lambda>found. case found of
         Some r \<Rightarrow> mod_scope (setid (Res_Id r))
       | None \<Rightarrow>
           go_bind (go_try create) (\<lambda>x. case x of
             Inl err \<Rightarrow> go_seq (mod_scope (setid None)) (go_throw err)
           | Inr i \<Rightarrow> mod_scope (setid i))))"

locale tagged_resource = tagged_lookup idof getop listop sel lookup
  for idof :: "ClusterScope \<Rightarrow> string option"
    and getop :: "string option \<Rightarrow> ('w, 'z SdkResource_scheme) go"
    and listop :: "ClusterScope \<Rightarrow> ('w, 'z SdkResource_scheme list) go"
    and sel :: "ClusterScope \<Rightarrow> 'z SdkResource_scheme \<Rightarrow> bool"
    and lookup :: "('w, 'z SdkResource_scheme option) scope_go" +
  fixes setid :: "string option \<Rightarrow> ClusterScope \<Rightarrow> ClusterScope"
    and needed :: "ClusterScope \<Rightarrow> bool"
    and create :: "('w, string option) scope_go"
    and reconcile :: "('w, unit) scope_go"
  assumes idof_setid: "idof (setid i s) = i"
    and setid_idof: "setid (idof s) s = s"
    and needed_setid: "needed (setid i s) = needed s"
    and owned_setid: "IsResourceCreatedByClusterAPI (setid i s) = IsResourceCreatedByClusterAPI s"
    and create_scope: "create (s, w) = (x, t) \<Longrightarrow> fst t = s"
    and rec_eq: "reconcile (s, w) = find_or_create needed lookup setid create (s, w)"
begin

lemma rec_unneeded: "\<not> needed s \<Longrightarrow> reconcile (s, w) = (Ret (), (s, w))"
  by (simp add: rec_eq find_or_create_def go_simps)

lemma rec_error: "needed s \<Longrightarrow> lookup (s, w) = (Err e, t) \<Longrightarrow> reconcile (s, w) = (Err e, t)"
  by (simp add: rec_eq find_or_create_def go_simps)

lemma rec_found:
  "needed s \<Longrightarrow> lookup (s, w) = (Ret (Some r), (s, w1)) \<Longrightarrow>
   reconcile (s, w) = (Ret (), (setid (Res_Id r) s, w1))"
  by (simp add: rec_eq find_or_create_def go_simps)

lemma rec_created:
  "needed s \<Longrightarrow> lookup (s, w) = (Ret None, (s, w1)) \<Longrightarrow> create (s, w1) = (Ret i, (s, w2)) \<Longrightarrow>
   reconcile (s, w) = (Ret (), (setid i s, w2))"
  by (simp add: rec_eq find_or_create_def go_simps)

lemma rec_create_error:
  assumes "needed s" and l: "lookup (s, w) = (Ret None, (s, w1))" and "create (s, w1) = (Err e, (s, w2))"
  shows "reconcile (s, w) = (Err e, (s, w2))"
proof -
  from l have "idof s = None" by (rule lookup_absent_no_id)
  then have "setid None s = s" by (metis setid_idof)
  with assms show ?thesis by (simp add: rec_eq find_or_create_def go_simps)
qed

lemma rec_stuck:
  assumes "needed s"
    and "lookup (s, w) = (Panic, t) \<or> lookup (s, w) = (Diverge, t) \<or>
      (\<exists>w1. lookup (s, w) = (Ret None, (s, w1)) \<and>
        (create (s, w1) = (Panic, t) \<or> create (s, w1) = (Diverge, t)))"
  shows "reconcile (s, w) \<noteq> (Ret (), u)"
  using assms by (auto simp: rec_eq find_or_create_def go_simps)

text \<open>A reconciliation that returns nil found the resource or created it.\<close>

lemma reconcile_retE:
  assumes run: "reconcile (s, w) = (Ret (), t)" and "needed s"
  obtains (found) r w1 where "lookup (s, w) = (Ret (Some r), (s, w1))" "t = (setid (Res_Id r) s, w1)"
  | (created) w1 i w2 where "lookup (s, w) = (Ret None, (s, w1))" "create (s, w1) = (Ret i, (s, w2))"
      "t = (setid i s, w2)"
proof -
  obtain y w1 where l: "lookup (s, w) = (y, (s, w1))"
    by (metis lookup_scope prod.collapse surj_pair)
  show thesis
  proof (cases y)
    case (Ret o')
    show thesis
    proof (cases o')
      case (Some r)
      with l Ret rec_found [OF \<open>needed s\<close>] run show thesis by (auto intro: found)
    next
      case None
      obtain z w2 where c: "create (s, w1) = (z, (s, w2))"
        by (metis create_scope prod.collapse surj_pair)
      show thesis
      proof (cases z)
        case (Ret i)
        with l c None \<open>y = Ret o'\<close> rec_created [OF \<open>needed s\<close>] run show thesis by (auto intro: created)
      next
        case (Err e)
        with l c None \<open>y = Ret o'\<close> rec_create_error [OF \<open>needed s\<close>] run show thesis by auto
      qed (use l c None \<open>y = Ret o'\<close> rec_stuck [OF \<open>needed s\<close>] run in blast)+
    qed
  next
    case (Err e)
    with l rec_error [OF \<open>needed s\<close>] run show thesis by auto
  qed (use l rec_stuck [OF \<open>needed s\<close>] run in blast)+
qed

lemma reconcile_sets_id: "reconcile (s, w) = (Ret (), t) \<Longrightarrow> \<exists>i. fst t = setid i s"
proof (cases "needed s")
  case True
  then show "reconcile (s, w) = (Ret (), t) \<Longrightarrow> ?thesis" by (auto elim!: reconcile_retE)
next
  case False
  then show "reconcile (s, w) = (Ret (), t) \<Longrightarrow> ?thesis" by (auto simp: rec_unneeded) (metis setid_idof)
qed

text \<open>What the recorded id points to after a successful reconciliation.\<close>

lemma reconcile_recorded:
  assumes run: "reconcile (s, w) = (Ret (), t)" and "needed s"
    and get: "lawful_get tbl getop" and lst: "\<And>s. lawful_list tbl (listop s)"
    and ids: "keyed_by_id tbl"
    and crt: "creates_owned tbl create"
  shows "\<exists>k r. idof (fst t) = Some k \<and> tbl (snd t) k = Some r \<and>
    IsResourceCreatedByClusterAPI (fst t) (Res_FreeformTags r)"
  using run \<open>needed s\<close>
proof (cases rule: reconcile_retE)
  case (found r w1)
  have own: "IsResourceCreatedByClusterAPI s (Res_FreeformTags r)"
    using found(1) by (rule lookup_owned)
  from lookup_in_table [OF get lst ids found(1)] have "\<exists>k. tbl w1 k = Some r" by auto
  with ids found(2) own show ?thesis by (auto simp: keyed_by_id_def idof_setid owned_setid)
next
  case (created w1 i w2)
  with crt show ?thesis by (fastforce simp: creates_owned_def idof_setid owned_setid)
qed

text \<open>Reconciling again changes nothing: neither the spec nor, since all it does is one get request,
  the cloud; in particular no second resource is created. It fails only if that request does.\<close>

lemma reconcile_idempotent:
  assumes run: "reconcile (s, w) = (Ret (), (s1, w1))" and "needed s"
    and get: "lawful_get tbl getop" and lst: "\<And>s. lawful_list tbl (listop s)"
    and ids: "keyed_by_id tbl"
    and crt: "creates_owned tbl create"
  shows "reconcile (s1, w1) = (Ret (), (s1, w1)) \<or> (\<exists>e. reconcile (s1, w1) = (Err e, (s1, w1)))"
proof -
  obtain k r where k: "idof s1 = Some k" "tbl w1 k = Some r"
      "IsResourceCreatedByClusterAPI s1 (Res_FreeformTags r)"
    using reconcile_recorded [OF run \<open>needed s\<close> get lst ids crt] by auto
  from run \<open>needed s\<close> have n1: "needed s1"
    by (cases rule: reconcile_retE) (auto simp: needed_setid \<open>needed s\<close>)
  obtain y w2 where g: "getop (Some k) w1 = (y, w2)" by (cases "getop (Some k) w1")
  from get have ro: "read_only (getop (Some k))" by (simp add: lawful_get_def)
  with g have "w2 = w1" by (auto dest: read_only_eqD)
  show ?thesis
  proof (cases y)
    case (Ret r')
    with g get k have "r' = r" unfolding lawful_get_def by (metis fst_conv option.inject)
    with Ret g k \<open>w2 = w1\<close> have "lookup (s1, w1) = (Ret (Some r), (s1, w1))"
      by (simp add: lookup_by_id)
    then have "reconcile (s1, w1) = (Ret (), (setid (Res_Id r) s1, w1))"
      by (rule rec_found [OF n1])
    moreover have "setid (Res_Id r) s1 = s1"
      using ids k by (metis keyed_by_id_def setid_idof)
    ultimately show ?thesis by simp
  next
    case (Err e)
    with g k \<open>w2 = w1\<close> have "lookup (s1, w1) = (Err e, (s1, w1))" by (simp add: lookup_by_id)
    then have "reconcile (s1, w1) = (Err e, (s1, w1))" by (rule rec_error [OF n1])
    then show ?thesis by blast
  qed (use g ro in \<open>auto dest!: read_only_answers dest: answersD\<close>)
qed

lemma reconcile_again:
  assumes run: "reconcile (s, w) = (Ret (), (s1, w1))"
    and "lawful_get tbl getop" and "\<And>s. lawful_list tbl (listop s)" and "keyed_by_id tbl"
    and "creates_owned tbl create"
  shows "reconcile (s1, w1) = (Ret (), (s1, w1)) \<or> (\<exists>e. reconcile (s1, w1) = (Err e, (s1, w1)))"
proof (cases "needed s")
  case True
  show ?thesis by (rule reconcile_idempotent [OF run True assms(2-)])
next
  case False
  with run have "s1 = s" "w1 = w" by (simp_all add: rec_unneeded)
  with False show ?thesis by (simp add: rec_unneeded)
qed

text \<open>A resource of this cluster that the list request reports is adopted: nothing is created.\<close>

lemma reconcile_adopts:
  assumes "needed s" and "idof s = None" and "listop s w = (Ret items, w)"
    and "r \<in> set items" and "sel s r" and "IsResourceCreatedByClusterAPI s (Res_FreeformTags r)"
  shows "\<exists>r' \<in> set items. IsResourceCreatedByClusterAPI s (Res_FreeformTags r') \<and>
    reconcile (s, w) = (Ret (), (setid (Res_Id r') s, w))"
proof -
  let ?P = "\<lambda>r. sel s r \<and> IsResourceCreatedByClusterAPI s (Res_FreeformTags r)"
  obtain r' where f: "find ?P items = Some r'"
    using assms(4,5,6) by (cases "find ?P items") (auto simp: find_None_iff)
  then have "lookup (s, w) = (Ret (Some r'), (s, w))"
    using assms(2,3) by (simp add: lookup_by_list)
  with rec_found [OF \<open>needed s\<close>] f show ?thesis by (blast dest: find_Some_mem)
qed

end

section \<open>Delete\<close>

text \<open>What a deletion may do to a table of the cloud: remove resources of this cluster, nothing else.\<close>

definition only_owned :: "('w, 'z SdkResource_scheme) table \<Rightarrow> 'w st \<Rightarrow> 'w st \<Rightarrow> bool" where
  "only_owned tbl x y \<longleftrightarrow> fst y = fst x \<and> (\<forall>k. tbl (snd y) k \<noteq> tbl (snd x) k \<longrightarrow>
     tbl (snd y) k = None \<and>
     (\<exists>r. tbl (snd x) k = Some r \<and> IsResourceCreatedByClusterAPI (fst x) (Res_FreeformTags r)))"

lemma reflp_only_owned [simp]: "reflp (only_owned tbl)"
  by (simp add: reflp_def only_owned_def)

lemma transp_only_owned [simp]: "transp (only_owned tbl)"
  unfolding transp_def only_owned_def by (metis option.distinct(1))

lemma keeps_scope_only_owned [frame_intros]: "keeps (only_owned tbl) get_scope"
  by (auto simp: keeps_def get_scope_def only_owned_def)

lemma keeps_api_unrelated:
  "(\<And>w. tbl (snd (m w)) = tbl w) \<Longrightarrow> keeps (only_owned tbl) (api m)"
  by (auto simp: keeps_def api_def only_owned_def split: prod.splits) (metis snd_conv)+

text \<open>Deletion of a resource that is found by id or by a list request.\<close>

locale managed_delete = tagged_lookup idof getop listop sel lookup +
  owned_delete lookup Res_FreeformTags skip del delete
  for idof :: "ClusterScope \<Rightarrow> string option"
    and getop :: "string option \<Rightarrow> ('w, 'z SdkResource_scheme) go"
    and listop :: "ClusterScope \<Rightarrow> ('w, 'z SdkResource_scheme list) go"
    and sel :: "ClusterScope \<Rightarrow> 'z SdkResource_scheme \<Rightarrow> bool"
    and lookup :: "('w, 'z SdkResource_scheme option) scope_go"
    and skip :: "ClusterScope \<Rightarrow> bool"
    and del :: "'z SdkResource_scheme \<Rightarrow> ('w, unit) go"
    and delete :: "('w, unit) scope_go" +
  fixes delop :: "string option \<Rightarrow> ('w, unit) go"
  assumes del_delop: "snd (del r w) = snd (delop (Res_Id r) w)"
    and del_ret: "del r w = (Ret (), w') \<Longrightarrow> delop (Res_Id r) w = (Ret (), w')"
begin

text \<open>Whatever the outcome, a deletion changes at most entries of the cluster's own resources, and
  those it removes.\<close>

lemma delete_only_owned:
  assumes get: "lawful_get tbl getop" and lst: "\<And>s. lawful_list tbl (listop s)" and ids: "keyed_by_id tbl"
    and law: "lawful_delete tbl delop"
    and run: "delete (s, w) = (x, (s', w'))" and diff: "tbl w' k \<noteq> tbl w k"
  shows "\<not> skip s \<and> tbl w' k = None \<and>
    (\<exists>r. tbl w k = Some r \<and> IsResourceCreatedByClusterAPI s (Res_FreeformTags r))"
proof (cases "skip s")
  case True
  with run diff show ?thesis by (auto simp: delete_skip)
next
  case False
  have same: "w' = w" if "lookup (s, w) = (y, (s', w'))" for y
    using lookup_lawful_cases [OF get lst that] by simp
  from run False show ?thesis
  proof (cases rule: delete_cases)
    case (found r w1)
    from lookup_in_table [OF get lst ids found(1)] obtain j where
      j: "w1 = w" "tbl w j = Some r" "Res_Id r = Some j" by auto
    obtain y v where d: "delop (Res_Id r) w = (y, v)" by (cases "delop (Res_Id r) w")
    with found(3) j del_delop [of r w] have "w' = v" by simp
    with lawful_deleteD [OF law d] diff j have "tbl w' = (tbl w)(j := None)" by auto
    with diff j found(2) False show ?thesis by (cases "k = j") auto
  qed (use same diff in auto)
qed

lemma keeps_only_owned:
  assumes "lawful_get tbl getop" and "\<And>s. lawful_list tbl (listop s)" and "keyed_by_id tbl"
    and "lawful_delete tbl delop"
  shows "keeps (only_owned tbl) delete"
proof (rule keepsI)
  fix x y :: "ClusterScope \<times> 'w" and r assume run: "delete x = (r, y)"
  then have run': "delete (fst x, snd x) = (r, (fst y, snd y))" by simp
  have "fst y = fst x" using delete_keeps_scope [OF run'] by simp
  with delete_only_owned [OF assms run'] show "only_owned tbl x y" by (simp add: only_owned_def)
qed

text \<open>A deletion that returns nil leaves nothing under the recorded id.\<close>

lemma delete_clears:
  assumes get: "lawful_get tbl getop" "honest_get tbl getop" and lst: "\<And>s. lawful_list tbl (listop s)"
    and ids: "keyed_by_id tbl" and law: "lawful_delete tbl delop"
    and run: "delete (s, w) = (Ret (), (s', w'))" and "\<not> skip s" and k: "idof s = Some k"
  shows "tbl w' k = None"
proof -
  from delete_done [OF run \<open>\<not> skip s\<close>]
  consider (gone) e where "lookup (s, w) = (Err e, (s', w'))" "IsNotFound (Some e)"
    | (absent) "lookup (s, w) = (Ret None, (s', w'))"
    | (found) r w1 where "lookup (s, w) = (Ret (Some r), (s, w1))" "del r w1 = (Ret (), w')"
    by auto
  then show ?thesis
  proof cases
    case gone
    from lookup_lawful_cases [OF get(1) lst gone(1)] have "w' = w" by simp
    from gone k have "fst (getop (Some k) w) = Err e"
      by (auto simp: lookup_by_id tags_modified_def IsNotFound_def ErrNotFound_def Let_def
          split: res.splits prod.splits if_splits)
    with get(2) gone(2) \<open>w' = w\<close> show ?thesis by (auto simp: honest_get_def)
  next
    case absent
    then have "idof s = None" by (rule lookup_absent_no_id)
    with k show ?thesis by simp
  next
    case found
    with k obtain w2 where g: "getop (Some k) w = (Ret r, w2)"
      by (auto simp: lookup_by_id split: res.splits prod.splits if_splits)
    from lawful_getD [OF get(1) g] keyed_by_idD [OF ids] have "Res_Id r = Some k" by auto
    with lawful_deleteD [OF law del_ret [OF found(2)]] show ?thesis by auto
  qed
qed

end

end
