(* ===== verification/Slot_Cloud.thy ===== *)
theory Slot_Cloud
  imports Resource_Contract
begin

text \<open>
  A small cloud that satisfies the laws of \<open>Resource_Contract\<close>: an account with a quota of one resource
  of each kind, so that its state is that resource, if it exists. Theorems that assume a lawful cloud
  are witnessed on it.
\<close>

definition slot_id :: string where "slot_id = ''ocid1''"

definition not_found_err :: goerr where "not_found_err = ServiceErr 404 ''NotAuthorizedOrNotFound'' ''404''"
definition quota_err :: goerr where "quota_err = ServiceErr 400 ''LimitExceeded'' ''400''"

text \<open>The resource in the slot is always well formed: requests see only such resources.\<close>

definition slot_ok :: "'z SdkResource_scheme \<Rightarrow> bool" where
  "slot_ok r \<longleftrightarrow> Res_Id r = Some slot_id \<and> Res_DisplayName r \<noteq> None"

definition ok_tbl :: "('z SdkResource_scheme option, 'z SdkResource_scheme) table" where
  "ok_tbl w k = (case w of Some r \<Rightarrow> if k = slot_id \<and> slot_ok r then Some r else None | None \<Rightarrow> None)"

definition slot_get :: "string option \<Rightarrow> ('z SdkResource_scheme option, 'z SdkResource_scheme) go" where
  "slot_get i w = (case w of
      Some r \<Rightarrow> (if i = Some slot_id \<and> slot_ok r then Ret r else Err not_found_err, w)
    | None \<Rightarrow> (Err not_found_err, w))"

definition slot_list :: "string \<Rightarrow> ('z SdkResource_scheme option, 'z SdkResource_scheme list) go" where
  "slot_list nm w = (case w of
      Some r \<Rightarrow> (Ret (if Res_DisplayName r = Some nm \<and> slot_ok r then [r] else []), w)
    | None \<Rightarrow> (Ret [], w))"

definition slot_create :: "'z SdkResource_scheme \<Rightarrow> ('z SdkResource_scheme option, 'z SdkResource_scheme) go" where
  "slot_create r w = (case w of
      None \<Rightarrow> if slot_ok r then (Ret r, Some r) else (Err quota_err, w)
    | Some _ \<Rightarrow> (Err quota_err, w))"

definition slot_rename :: "string option \<Rightarrow> string \<Rightarrow> ('z SdkResource_scheme option, 'z SdkResource_scheme) go" where
  "slot_rename i nm w = (case w of
      Some r \<Rightarrow> if i = Some slot_id \<and> slot_ok r
        then (Ret (r\<lparr>Res_DisplayName := Some nm\<rparr>), Some (r\<lparr>Res_DisplayName := Some nm\<rparr>))
        else (Err not_found_err, w)
    | None \<Rightarrow> (Err not_found_err, w))"

definition slot_delete :: "string option \<Rightarrow> ('z SdkResource_scheme option, unit) go" where
  "slot_delete i w = (case w of
      Some r \<Rightarrow> if i = Some slot_id \<and> slot_ok r then (Ret (), None) else (Err not_found_err, w)
    | None \<Rightarrow> (Err not_found_err, w))"

lemmas slot_defs = ok_tbl_def slot_get_def slot_list_def slot_create_def slot_rename_def slot_delete_def
  answers_def read_only_def

lemma slot_keyed: "keyed_by_id ok_tbl"
  by (auto simp: keyed_by_id_def ok_tbl_def slot_ok_def split: option.splits if_splits)

lemma slot_get_lawful: "lawful_get ok_tbl slot_get"
  by (auto simp: lawful_get_def slot_defs split: option.splits if_splits)

lemma slot_list_lawful: "lawful_list ok_tbl (slot_list nm)"
  by (auto simp: lawful_list_def slot_defs split: option.splits if_splits)

lemma slot_create_lawful:
  "Res_FreeformTags r = tg \<Longrightarrow> Res_DisplayName r = Some nm \<Longrightarrow> lawful_create ok_tbl tg nm (slot_create r)"
  by (auto simp: lawful_create_def slot_defs slot_ok_def fun_eq_iff split: option.splits if_splits)

lemma slot_rename_lawful: "lawful_rename ok_tbl slot_rename"
  by (auto simp: lawful_rename_def slot_defs slot_ok_def fun_eq_iff split: option.splits if_splits)

lemma slot_honest: "honest_get ok_tbl slot_get"
  by (auto simp: honest_get_def slot_defs split: option.splits if_splits)

lemma slot_delete_lawful: "lawful_delete ok_tbl slot_delete"
  by (auto simp: lawful_delete_def slot_defs fun_eq_iff split: option.splits if_splits)

text \<open>The resource a creation request makes, and what such a request promises.\<close>

definition slot_resource :: "'z CreateDetails_scheme \<Rightarrow> SdkResource" where
  "slot_resource d = \<lparr>Res_Id = Some slot_id, Res_DisplayName = Some (CD_DisplayName d),
     Res_FreeformTags = CD_FreeformTags d\<rparr>"

lemma slot_resource_ok: "slot_ok (slot_resource d)" "Res_Id (slot_resource d) = Some slot_id"
  "Res_DisplayName (slot_resource d) = Some (CD_DisplayName d)"
  "Res_FreeformTags (slot_resource d) = CD_FreeformTags d"
  by (simp_all add: slot_resource_def slot_ok_def)

lemma slot_create_resource_lawful:
  "lawful_create ok_tbl (CD_FreeformTags d) (CD_DisplayName d) (slot_create (slot_resource d))"
  by (rule slot_create_lawful) (simp_all add: slot_resource_def)

lemmas slot_lawful = slot_keyed slot_get_lawful slot_honest slot_list_lawful slot_create_resource_lawful
  slot_rename_lawful slot_delete_lawful

section \<open>A sample cluster\<close>

definition sample_vcn :: VCN where
  "sample_vcn = \<lparr>VCN_ID = None, VCN_Name = [], VCN_Skip = False, VCN_CIDR = [], VCN_CIDRS = [],
     VCN_Subnets = [], VCN_InternetGateway = \<lparr>InternetGateway_Skip = False, InternetGateway_Id = None\<rparr>,
     VCN_NATGateway = \<lparr>NATGateway_Skip = False, NATGateway_Id = None\<rparr>,
     VCN_ServiceGateway = \<lparr>ServiceGateway_Skip = False, ServiceGateway_Id = None\<rparr>,
     VCN_RouteTable = \<lparr>RouteTable_Skip = False, RouteTable_PrivateRouteTableId = None,
       RouteTable_PublicRouteTableId = None\<rparr>,
     VCN_NetworkSecurityGroup = \<lparr>NetworkSecurityGroup_Skip = False, NetworkSecurityGroup_List = []\<rparr>,
     VCN_DnsLabel = None, VCN_IsOracleGuaAllocationEnabled = None, VCN_IsIpv6Enabled = None\<rparr>"

definition sample_hc :: HealthChecker where
  "sample_hc = \<lparr>HealthChecker_Protocol = None, HealthChecker_Port = None,
     HealthChecker_IntervalInMillis = None, HealthChecker_TimeoutInMillis = None,
     HealthChecker_Retries = None, HealthChecker_UrlPath = None, HealthChecker_ReturnCode = None,
     HealthChecker_ResponseBodyRegex = None, HealthChecker_RequestData = None,
     HealthChecker_ResponseData = None\<rparr>"

definition sample_network :: NetworkSpec where
  "sample_network = \<lparr>NetworkSpec_SkipNetworkManagement = False, NetworkSpec_Vcn = sample_vcn,
     NetworkSpec_APIServerLB = \<lparr>LoadBalancer_Name = [], LoadBalancer_LoadBalancerId = None,
       LoadBalancer_LoadBalancerType = [],
       LoadBalancer_NLBSpec = \<lparr>NLBSpec_BackendSetDetails = \<lparr>BackendSetDetails_IsPreserveSource = None,
         BackendSetDetails_IsFailOpen = None, BackendSetDetails_IsInstantFailoverEnabled = None,
         BackendSetDetails_HealthChecker = sample_hc\<rparr>, NLBSpec_ReservedIpIds = []\<rparr>,
       LoadBalancer_NetworkVisibility = []\<rparr>,
     NetworkSpec_VCNPeering = None\<rparr>"

definition sample_cluster :: OCICluster where
  "sample_cluster = \<lparr>Cluster_Name = ''prod'', Cluster_Namespace = ''default'',
     Cluster_Annotations = Map.empty, Cluster_Finalizers = [], Cluster_Deleted = False,
     Cluster_Spec = \<lparr>Spec_OCIResourceIdentifier = ''uid'', Spec_NetworkSpec = sample_network,
       Spec_FreeformTags = Map.empty, Spec_DefinedTags = None, Spec_CompartmentId = ''comp'',
       Spec_Region = ''us-phoenix-1'',
       Spec_ControlPlaneEndpoint = \<lparr>APIEndpoint_Host = [], APIEndpoint_Port = 0\<rparr>,
       Spec_AvailabilityDomains = None\<rparr>,
     Cluster_Status = \<lparr>Status_FailureDomains = None, Status_Ready = False, Status_Conditions = []\<rparr>\<rparr>"

definition sample_scope :: ClusterScope where
  "sample_scope = \<lparr>CS_OCICluster = sample_cluster, CS_RegionIdentifier = ''us-phoenix-1'',
     CS_RegionKey = ''PHX'', CS_ClusterNetworkAPIServerPort = 0\<rparr>"

lemmas sample_defs = sample_scope_def sample_cluster_def sample_network_def sample_vcn_def sample_hc_def

lemma sample_simps [simp]:
  "GetNetworkSpec sample_scope = sample_network" "GetName sample_scope = ''prod''"
  "GetOCIResourceIdentifier sample_scope = ''uid''" "GetCompartmentId sample_scope = ''comp''"
  "APIServerPort sample_scope = 6443" "GetFailureDomains sample_scope = None"
  "NetworkSpec_Vcn sample_network = sample_vcn" "getVcnId sample_scope = None"
  by (simp_all add: sample_defs accessor_defs APIServerPort_def ApiServerPort_def getVcnId_def)

lemma sample_vcn_simps [simp]:
  "VCN_ID sample_vcn = None" "VCN_Name sample_vcn = []" "\<not> VCN_Skip sample_vcn"
  "VCN_CIDR sample_vcn = []" "VCN_CIDRS sample_vcn = []" "VCN_Subnets sample_vcn = []"
  "VCN_InternetGateway sample_vcn = \<lparr>InternetGateway_Skip = False, InternetGateway_Id = None\<rparr>"
  "VCN_NATGateway sample_vcn = \<lparr>NATGateway_Skip = False, NATGateway_Id = None\<rparr>"
  "VCN_ServiceGateway sample_vcn = \<lparr>ServiceGateway_Skip = False, ServiceGateway_Id = None\<rparr>"
  "VCN_RouteTable sample_vcn = \<lparr>RouteTable_Skip = False, RouteTable_PrivateRouteTableId = None,
       RouteTable_PublicRouteTableId = None\<rparr>"
  "VCN_NetworkSecurityGroup sample_vcn = \<lparr>NetworkSecurityGroup_Skip = False, NetworkSecurityGroup_List = []\<rparr>"
  "VCN_IsIpv6Enabled sample_vcn = None" "VCN_Skip sample_vcn = False"
  by (simp_all add: sample_vcn_def)

end
