(* ===== verification/VCN_Reconciler.thy ===== *)
theory VCN_Reconciler
  imports Slot_Cloud
begin

text \<open>
  The virtual cloud network (src/cloud/scope/vcn_reconciler.go): lookup, creation, update, deletion
  and reconciliation, as instances of the contracts of \<open>Resource_Contract\<close>, and the idempotence of
  reconciliation over a lawful VCN service.
\<close>

section \<open>Model\<close>

abbreviation VcnDefaultCidr :: string where "VcnDefaultCidr \<equiv> ''10.0.0.0/16''"

definition GetVcnName :: "ClusterScope \<Rightarrow> string" where
  "GetVcnName s = (if VCN_Name (GetVcnSpec s) \<noteq> [] then VCN_Name (GetVcnSpec s) else GetName s)"

definition GetVcnCidrs :: "ClusterScope \<Rightarrow> string list" where
  "GetVcnCidrs s =
     (if length (VCN_CIDRS (GetVcnSpec s)) > 0 then VCN_CIDRS (GetVcnSpec s)
      else if VCN_CIDR (GetVcnSpec s) \<noteq> [] then [VCN_CIDR (GetVcnSpec s)]
      else [VcnDefaultCidr])"

definition IsVcnEquals :: "ClusterScope \<Rightarrow> SdkVcn \<Rightarrow> ('s, bool) go" where
  "IsVcnEquals s actual =
     go_bind (go_deref (Res_DisplayName actual)) (\<lambda>n.
     if n \<noteq> GetVcnName s then go_ret False else go_ret True)"

definition setVcnId :: "string option \<Rightarrow> ClusterScope \<Rightarrow> ClusterScope" where
  "setVcnId i = upd_Vcn (\<lambda>v. v\<lparr>VCN_ID := i\<rparr>)"

definition GetVCN :: "'w VcnApi \<Rightarrow> ('w, SdkVcn option) scope_go" where
  "GetVCN a =
     go_bind get_scope (\<lambda>s.
     case getVcnId s of
       Some i \<Rightarrow> go_bind (api (api_GetVcn a (Some i))) (accept_owned s)
     | None \<Rightarrow>
         go_bind (api (go_wrap ''failed to list vcn by name''
             (api_ListVcns a (GetCompartmentId s) (GetVcnName s)))) (\<lambda>items.
         go_ret (find_owned s items)))"

definition UpdateVCN :: "'w VcnApi \<Rightarrow> ('w, unit) scope_go" where
  "UpdateVCN a =
     go_bind get_scope (\<lambda>s.
     go_bind (api (go_wrap ''failed to reconcile the vcn, failed to update''
         (api_UpdateVcn a (getVcnId s) (GetVcnName s)))) (\<lambda>resp.
     go_bind (go_deref (Res_Id resp)) (\<lambda>_. go_ret ())))"

text \<open>\<open>spec.IsIpv6Enabled == common.Bool(true)\<close> compares two pointers, the second of which
  \<open>common.Bool\<close> has just allocated: it is never true.\<close>

definition ptr_eq_fresh :: "'a option \<Rightarrow> bool" where
  "ptr_eq_fresh p = False"

definition createVcnDetails :: "ClusterScope \<Rightarrow> VCN \<Rightarrow> CreateVcnDetails" where
  "createVcnDetails s spec =
     \<lparr>CD_CompartmentId = GetCompartmentId s, CD_DisplayName = GetVcnName s,
      CD_FreeformTags = GetFreeFormTags s, CD_DefinedTags = GetDefinedTags s,
      CV_CidrBlocks = GetVcnCidrs s, CV_DnsLabel = VCN_DnsLabel spec,
      CV_IsIpv6Enabled = VCN_IsIpv6Enabled spec,
      CV_IsOracleGuaAllocationEnabled =
        (if VCN_IsIpv6Enabled spec \<noteq> None \<and> ptr_eq_fresh (VCN_IsIpv6Enabled spec)
         then Some True else None)\<rparr>"

definition CreateVCN :: "'w VcnApi \<Rightarrow> VCN \<Rightarrow> ('w, string option) scope_go" where
  "CreateVCN a spec =
     go_bind get_scope (\<lambda>s.
     go_bind (api (go_wrap ''failed create vcn''
         (api_CreateVcn a (createVcnDetails s spec)
            (GetOPCRetryToken ''%s-%s'' [''create-vcn'', GetOCIResourceIdentifier s])))) (\<lambda>resp.
     go_bind (go_deref (Res_Id resp)) (\<lambda>_.
     go_ret (Res_Id resp))))"

definition ReconcileVCN :: "'w VcnApi \<Rightarrow> ('w, unit) scope_go" where
  "ReconcileVCN a =
     go_bind get_scope (\<lambda>s.
     if VCN_Skip (GetVcnSpec s) then go_ret ()
     else
       go_bind (GetVCN a) (\<lambda>vcn. case vcn of
         Some v \<Rightarrow>
           go_bind (mod_scope (setVcnId (Res_Id v))) (\<lambda>_.
           go_bind (IsVcnEquals s v) (\<lambda>eq.
           if eq then go_ret () else UpdateVCN a))
       | None \<Rightarrow>
           go_bind (go_try (CreateVCN a (GetVcnSpec s))) (\<lambda>x. case x of
             Inl err \<Rightarrow> go_seq (mod_scope (setVcnId None)) (go_throw err)
           | Inr vcnId \<Rightarrow> mod_scope (setVcnId vcnId))))"

definition DeleteVCN :: "'w VcnApi \<Rightarrow> ('w, unit) scope_go" where
  "DeleteVCN a =
     go_bind get_scope (\<lambda>s.
     if VCN_Skip (GetVcnSpec s) then go_ret ()
     else delete_found (GetVCN a) (\<lambda>v. go_wrap ''failed to delete vcn'' (api_DeleteVcn a (Res_Id v))))"

section \<open>Instances of the contracts\<close>

interpretation vcn: tagged_lookup getVcnId "api_GetVcn a"
  "\<lambda>s. go_wrap ''failed to list vcn by name'' (api_ListVcns a (GetCompartmentId s) (GetVcnName s))"
  "\<lambda>_ _. True" "GetVCN a" for a :: "'w VcnApi"
  by unfold_locales (simp add: GetVCN_def find_owned_def go_simps split: option.split)

interpretation vcn_del: managed_delete getVcnId "api_GetVcn a"
  "\<lambda>s. go_wrap ''failed to list vcn by name'' (api_ListVcns a (GetCompartmentId s) (GetVcnName s))"
  "\<lambda>_ _. True" "GetVCN a" "\<lambda>s. VCN_Skip (GetVcnSpec s)"
  "\<lambda>v. go_wrap ''failed to delete vcn'' (api_DeleteVcn a (Res_Id v))" "DeleteVCN a" "api_DeleteVcn a"
  for a :: "'w VcnApi"
  by unfold_locales (rule go_wrap_state | erule go_wrap_RetD | simp add: DeleteVCN_def go_simps)+

section \<open>Lemmas\<close>

lemma setVcnId_simps [simp]:
  "getVcnId (setVcnId i s) = i" "GetVcnName (setVcnId i s) = GetVcnName s"
  "VCN_Skip (GetVcnSpec (setVcnId i s)) = VCN_Skip (GetVcnSpec s)"
  "same_identity s (setVcnId i s)"
  "IsResourceCreatedByClusterAPI (setVcnId i s) = IsResourceCreatedByClusterAPI s"
  by (auto simp: setVcnId_def getVcnId_def GetVcnName_def dest: same_identityD
      intro: same_identityD(1,7))

lemma setVcnId_same: "getVcnId s = i \<Longrightarrow> setVcnId i s = s"
  by (auto simp: setVcnId_def getVcnId_def upd_Vcn_def upd_NetworkSpec_def accessor_defs)

lemma keeps_GetVCN: "keeps same_id (GetVCN a)"
  by (rule keepsI) (metis fst_conv same_identity_refl surj_pair vcn.lookup_scope)

lemma keeps_ReconcileVCN: "keeps same_id (ReconcileVCN a)"
  unfolding ReconcileVCN_def UpdateVCN_def CreateVCN_def IsVcnEquals_def
  by (intro frame_intros keeps_GetVCN) simp_all

section \<open>Idempotence\<close>

definition lawful_vcn_api :: "('w, SdkVcn) table \<Rightarrow> 'w VcnApi \<Rightarrow> bool" where
  "lawful_vcn_api tbl a \<longleftrightarrow> keyed_by_id tbl \<and> lawful_get tbl (api_GetVcn a) \<and>
     (\<forall>c n. lawful_list tbl (api_ListVcns a c n)) \<and>
     (\<forall>d tok. lawful_create tbl (CD_FreeformTags d) (CD_DisplayName d) (api_CreateVcn a d tok)) \<and>
     lawful_rename tbl (api_UpdateVcn a) \<and> honest_get tbl (api_GetVcn a) \<and>
     lawful_delete tbl (api_DeleteVcn a)"

lemmas lawful_vcn_apiD = lawful_vcn_api_def [THEN iffD1]

lemma GetVCN_in_table:
  assumes law: "lawful_vcn_api tbl a" and run: "GetVCN a (s, w) = (Ret (Some v), t)"
  shows "t = (s, w) \<and> (\<exists>k. tbl w k = Some v \<and> Res_Id v = Some k) \<and>
    IsResourceCreatedByClusterAPI s (Res_FreeformTags v)"
proof -
  from lawful_vcn_apiD [OF law] have "lawful_get tbl (api_GetVcn a)" "keyed_by_id tbl"
    "lawful_list tbl (go_wrap ''failed to list vcn by name'' (api_ListVcns a (GetCompartmentId s) (GetVcnName s)))"
    by (auto intro: lawful_list_wrap)
  then show ?thesis
    using vcn.lookup_in_table [OF _ _ _ run] vcn.lookup_owned [OF run] by blast
qed

text \<open>After a reconciliation the spec records a VCN of this cluster that has the desired name.\<close>

lemma ReconcileVCN_recorded:
  assumes law: "lawful_vcn_api tbl a" and run: "ReconcileVCN a (s, w) = (Ret (), (s1, w1))"
    and ns: "\<not> VCN_Skip (GetVcnSpec s)"
  shows "(\<exists>k r. getVcnId s1 = Some k \<and> tbl w1 k = Some r \<and> Res_DisplayName r = Some (GetVcnName s1) \<and>
    IsResourceCreatedByClusterAPI s1 (Res_FreeformTags r)) \<and> (\<exists>i. s1 = setVcnId i s)"
proof -
  obtain o' t where g: "GetVCN a (s, w) = (Ret o', t)"
    using run ns by (auto simp: ReconcileVCN_def go_simps split: res.splits prod.splits)
  show ?thesis
  proof (cases o')
    case (Some v)
    from GetVCN_in_table [OF law] g Some obtain k where
      t: "t = (s, w)" and k: "tbl w k = Some v" "Res_Id v = Some k"
        "IsResourceCreatedByClusterAPI s (Res_FreeformTags v)" by blast
    from lawful_vcn_apiD [OF law] k obtain n where n: "Res_DisplayName v = Some n"
      by (metis keyed_by_idD(2))
    show ?thesis
    proof (cases "n = GetVcnName s")
      case True
      with run ns g t k n Some show ?thesis
        by (auto simp: ReconcileVCN_def IsVcnEquals_def go_simps)
    next
      case False
      with run ns g t k n Some obtain r where
        u: "api_UpdateVcn a (Some k) (GetVcnName s) w = (Ret r, w1)" and s1: "s1 = setVcnId (Some k) s"
        by (auto simp: ReconcileVCN_def IsVcnEquals_def UpdateVCN_def go_simps
            split: res.splits prod.splits option.splits)
      from law u k have "tbl w1 k = Some r" "Res_DisplayName r = Some (GetVcnName s)"
        "Res_FreeformTags r = Res_FreeformTags v"
        using lawful_renameD [of tbl "api_UpdateVcn a", OF _ u] by (auto simp: lawful_vcn_api_def)
      with s1 k show ?thesis by auto
    qed
  next
    case None
    with g have t: "t = (s, snd t)" by (metis prod.collapse vcn.lookup_scope)
    with run ns g None obtain r where
      c: "api_CreateVcn a (createVcnDetails s (GetVcnSpec s))
            (GetOPCRetryToken ''%s-%s'' [''create-vcn'', GetOCIResourceIdentifier s]) (snd t) = (Ret r, w1)"
      and s1: "s1 = setVcnId (Res_Id r) s"
      by (cases t) (auto simp: ReconcileVCN_def CreateVCN_def go_simps
          split: res.splits prod.splits option.splits; metis prod.collapse)
    from law have "lawful_create tbl (GetFreeFormTags s) (GetVcnName s)
        (api_CreateVcn a (createVcnDetails s (GetVcnSpec s))
            (GetOPCRetryToken ''%s-%s'' [''create-vcn'', GetOCIResourceIdentifier s]))"
      unfolding lawful_vcn_api_def createVcnDetails_def
      by (metis CreateDetails.select_convs(2,3))
    with c obtain k where "tbl w1 k = Some r" "Res_Id r = Some k"
      "Res_DisplayName r = Some (GetVcnName s)" "Res_FreeformTags r = GetFreeFormTags s"
      unfolding lawful_create_def by (metis fun_upd_same)
    with s1 show ?thesis by (auto simp: GetFreeFormTags_owned)
  qed
qed

text \<open>C2. Reconciling the VCN is idempotent. Over a VCN service that keeps to its contract (requests may
  fail), if \<open>ReconcileVCN\<close> returned nil then running it again from the resulting spec and cloud leaves
  both exactly as they are: no second VCN is created and none is renamed. It returns nil again, or the
  error of a failed get request. This covers all branches: skipped, adopted, renamed and created.\<close>

theorem ReconcileVCN_idempotent:
  assumes law: "lawful_vcn_api tbl a" and run: "ReconcileVCN a (s, w) = (Ret (), (s1, w1))"
  shows "ReconcileVCN a (s1, w1) = (Ret (), (s1, w1)) \<or>
    (\<exists>e. ReconcileVCN a (s1, w1) = (Err e, (s1, w1)))"
proof (cases "VCN_Skip (GetVcnSpec s)")
  case True
  with run have "s1 = s" by (simp add: ReconcileVCN_def go_simps)
  with True show ?thesis by (simp add: ReconcileVCN_def go_simps)
next
  case False
  from ReconcileVCN_recorded [OF law run False] obtain k r i where
    k: "getVcnId s1 = Some k" "tbl w1 k = Some r" "Res_DisplayName r = Some (GetVcnName s1)"
      "IsResourceCreatedByClusterAPI s1 (Res_FreeformTags r)" and "s1 = setVcnId i s" by blast
  with False have ns1: "\<not> VCN_Skip (GetVcnSpec s1)" by simp
  obtain y w2 where g: "api_GetVcn a (Some k) w1 = (y, w2)" by (cases "api_GetVcn a (Some k) w1")
  from law have ro: "read_only (api_GetVcn a (Some k))" by (simp add: lawful_vcn_api_def lawful_get_def)
  with g have "w2 = w1" by (auto dest: read_only_eqD)
  show ?thesis
  proof (cases y)
    case (Ret r')
    with g law k have "r' = r"
      unfolding lawful_vcn_api_def lawful_get_def by (metis fst_conv option.inject)
    with Ret g k \<open>w2 = w1\<close> have "GetVCN a (s1, w1) = (Ret (Some r), (s1, w1))"
      by (simp add: vcn.lookup_by_id)
    moreover from law k have "Res_Id r = Some k" by (auto simp: lawful_vcn_api_def keyed_by_id_def)
    ultimately show ?thesis using ns1 k
      by (simp add: ReconcileVCN_def IsVcnEquals_def go_simps setVcnId_same)
  next
    case (Err e)
    with g k \<open>w2 = w1\<close> have "GetVCN a (s1, w1) = (Err e, (s1, w1))" by (simp add: vcn.lookup_by_id)
    with ns1 show ?thesis by (simp add: ReconcileVCN_def go_simps)
  qed (use g ro in \<open>auto dest!: read_only_answers dest: answersD\<close>)
qed

definition slot_vcn :: "CreateVcnDetails \<Rightarrow> SdkVcn" where
  "slot_vcn d = \<lparr>Res_Id = Some slot_id, Res_DisplayName = Some (CD_DisplayName d),
     Res_FreeformTags = CD_FreeformTags d, Vcn_Ipv6CidrBlocks = None\<rparr>"

definition slot_vcn_api :: "SdkVcn option VcnApi" where
  "slot_vcn_api = \<lparr>api_ListVcns = (\<lambda>_. slot_list), api_GetVcn = slot_get,
     api_CreateVcn = (\<lambda>d _. slot_create (slot_vcn d)), api_UpdateVcn = slot_rename,
     api_DeleteVcn = slot_delete\<rparr>"

lemma slot_vcn_api_lawful: "lawful_vcn_api ok_tbl slot_vcn_api"
  by (simp add: lawful_vcn_api_def slot_vcn_api_def slot_keyed slot_get_lawful slot_list_lawful
      slot_rename_lawful slot_create_lawful slot_honest slot_delete_lawful slot_vcn_def)

lemma slot_vcn_run:
  "ReconcileVCN slot_vcn_api (sample_scope, None) =
     (Ret (), (setVcnId (Some slot_id) sample_scope,
        Some (slot_vcn (createVcnDetails sample_scope sample_vcn))))"
  by (simp add: ReconcileVCN_def GetVCN_def CreateVCN_def go_simps slot_vcn_api_def slot_list_def
      slot_create_def slot_vcn_def slot_ok_def find_owned_def)

theorem ReconcileVCN_idempotent_witness:
  "let (s1, w1) = snd (ReconcileVCN slot_vcn_api (sample_scope, None)) in
     getVcnId s1 = Some slot_id \<and>
     (ReconcileVCN slot_vcn_api (s1, w1) = (Ret (), (s1, w1)) \<or>
      (\<exists>e. ReconcileVCN slot_vcn_api (s1, w1) = (Err e, (s1, w1))))"
  using ReconcileVCN_idempotent [OF slot_vcn_api_lawful slot_vcn_run] by (simp add: slot_vcn_run)

section \<open>Deletion\<close>

text \<open>C3. \<open>DeleteVCN\<close> touches nothing but the VCN of this cluster: whatever it returns, an entry of the
  service's table that differs afterwards was a VCN with this cluster's tags and is gone, and the
  spec does not ask to skip the VCN.\<close>

theorem DeleteVCN_only_owned:
  assumes law: "lawful_vcn_api tbl a" and run: "DeleteVCN a (s, w) = (x, (s', w'))"
    and diff: "tbl w' k \<noteq> tbl w k"
  shows "\<not> VCN_Skip (GetVcnSpec s) \<and> tbl w' k = None \<and>
    (\<exists>r. tbl w k = Some r \<and> IsResourceCreatedByClusterAPI s (Res_FreeformTags r))"
  by (rule vcn_del.delete_only_owned [where tbl = tbl, OF _ _ _ _ run diff])
    (use lawful_vcn_apiD [OF law] in \<open>auto intro: lawful_list_wrap\<close>)

text \<open>Deletion undoes reconciliation. If \<open>ReconcileVCN\<close> returned nil and, from whatever the cloud
  has become since, \<open>DeleteVCN\<close> returned nil, then the VCN that the spec records, which existed
  after the reconciliation, does not exist any more.\<close>

theorem DeleteVCN_undoes_ReconcileVCN:
  assumes law: "lawful_vcn_api tbl a" and ns: "\<not> VCN_Skip (GetVcnSpec s)"
    and rec: "ReconcileVCN a (s, w) = (Ret (), (s1, w1))"
    and del: "DeleteVCN a (s1, w2) = (Ret (), (s2, w3))"
  shows "\<exists>k. getVcnId s1 = Some k \<and> tbl w1 k \<noteq> None \<and> tbl w3 k = None"
proof -
  from ReconcileVCN_recorded [OF law rec ns] obtain k i where
    k: "getVcnId s1 = Some k" "tbl w1 k \<noteq> None" and s1: "s1 = setVcnId i s" by blast
  have "tbl w3 k = None"
    by (rule vcn_del.delete_clears [where tbl = tbl, OF _ _ _ _ _ del _ k(1)])
      (use lawful_vcn_apiD [OF law] ns s1 in \<open>auto intro: lawful_list_wrap\<close>)
  with k show ?thesis by blast
qed

definition slot_vcn_scope :: ClusterScope where
  "slot_vcn_scope = setVcnId (Some slot_id) sample_scope"

definition slot_vcn_made :: SdkVcn where
  "slot_vcn_made = slot_vcn (createVcnDetails sample_scope sample_vcn)"

lemma slot_vcn_owned: "IsResourceCreatedByClusterAPI slot_vcn_scope (Res_FreeformTags slot_vcn_made)"
  by (simp add: slot_vcn_scope_def slot_vcn_made_def slot_vcn_def createVcnDetails_def GetFreeFormTags_owned)

lemma slot_vcn_made_ok: "slot_ok slot_vcn_made" "Res_Id slot_vcn_made = Some slot_id"
  by (simp_all add: slot_vcn_made_def slot_vcn_def slot_ok_def)

lemma slot_vcn_scope_simps:
  "getVcnId slot_vcn_scope = Some slot_id" "\<not> VCN_Skip (GetVcnSpec slot_vcn_scope)"
  by (simp_all add: slot_vcn_scope_def)

lemma slot_vcn_delete:
  "DeleteVCN slot_vcn_api (slot_vcn_scope, Some slot_vcn_made) = (Ret (), (slot_vcn_scope, None))"
  using slot_vcn_owned
  by (simp add: DeleteVCN_def delete_found_def GetVCN_def accept_owned_def go_simps slot_vcn_api_def
      slot_get_def slot_delete_def slot_vcn_made_ok slot_vcn_scope_simps)

theorem DeleteVCN_only_owned_witness:
  "\<exists>r. ok_tbl (Some slot_vcn_made) slot_id = Some r \<and>
     IsResourceCreatedByClusterAPI slot_vcn_scope (Res_FreeformTags r)"
  using DeleteVCN_only_owned [OF slot_vcn_api_lawful slot_vcn_delete, of slot_id]
  by (simp add: ok_tbl_def slot_vcn_made_ok)

theorem DeleteVCN_undoes_ReconcileVCN_witness:
  "\<exists>k. getVcnId slot_vcn_scope = Some k \<and> ok_tbl (Some slot_vcn_made) k \<noteq> None \<and> ok_tbl (None :: SdkVcn option) k = None"
  using DeleteVCN_undoes_ReconcileVCN [OF slot_vcn_api_lawful _ slot_vcn_run
      slot_vcn_delete [unfolded slot_vcn_scope_def]]
  by (simp add: slot_vcn_scope_def slot_vcn_made_def)

text \<open>The test \<open>spec.IsIpv6Enabled == common.Bool(true)\<close> compares addresses, so the request never asks for
  an Oracle-allocated global unicast prefix, IPv6 enabled or not.\<close>

lemma createVcnDetails_no_gua: "CV_IsOracleGuaAllocationEnabled (createVcnDetails s spec) = None"
  by (simp add: createVcnDetails_def ptr_eq_fresh_def)

end
