(* ===== verification/Subnet_Spec.thy ===== *)
theory Subnet_Spec
  imports Cluster_Scope "HOL-Library.Multiset"
begin

text \<open>
  The functions of src/cloud/scope/subnet_reconciler.go that only read the spec: the subnets by role,
  their CIDR blocks, and the classification of the cluster's subnets as all private or all public that
  decides which gateways and route tables exist. Also the visibility of the API server load balancer,
  the name tables of src/cloud/scope/util.go and the role queries of the NSG and security list files.
\<close>

section \<open>Subnets by role\<close>

definition GetSubnetsSpec :: "ClusterScope \<Rightarrow> Subnet option list" where
  "GetSubnetsSpec s = VCN_Subnets (GetVcnSpec s)"

text \<open>A pointer into the list of subnets; \<open>find\<close> returns \<open>Some (Some x)\<close> at the first hit.\<close>

definition subnet_with_role :: "Role \<Rightarrow> Subnet option list \<Rightarrow> Subnet option" where
  "subnet_with_role role subnets =
     (case find (\<lambda>p. case p of None \<Rightarrow> False | Some x \<Rightarrow> Subnet_Role x = role) subnets of
        None \<Rightarrow> None | Some p \<Rightarrow> p)"

definition GetControlPlaneEndpointSubnet :: "ClusterScope \<Rightarrow> Subnet option" where
  "GetControlPlaneEndpointSubnet s = subnet_with_role ControlPlaneEndpointRole (GetSubnetsSpec s)"

definition GetControlPlaneMachineSubnet :: "ClusterScope \<Rightarrow> Subnet option" where
  "GetControlPlaneMachineSubnet s = subnet_with_role ControlPlaneRole (GetSubnetsSpec s)"

definition GetServiceLoadBalancerSubnet :: "ClusterScope \<Rightarrow> Subnet option" where
  "GetServiceLoadBalancerSubnet s = subnet_with_role ServiceLoadBalancerRole (GetSubnetsSpec s)"

definition GetNodeSubnet :: "ClusterScope \<Rightarrow> Subnet option list" where
  "GetNodeSubnet s =
     filter (\<lambda>p. case p of None \<Rightarrow> False | Some x \<Rightarrow> Subnet_Role x = WorkerRole) (GetSubnetsSpec s)"

section \<open>CIDR blocks\<close>

abbreviation ControlPlaneEndpointSubnetDefaultCIDR :: string where
  "ControlPlaneEndpointSubnetDefaultCIDR \<equiv> ''10.0.0.8/29''"
abbreviation ControlPlaneMachineSubnetDefaultCIDR :: string where
  "ControlPlaneMachineSubnetDefaultCIDR \<equiv> ''10.0.0.0/29''"
abbreviation WorkerSubnetDefaultCIDR :: string where "WorkerSubnetDefaultCIDR \<equiv> ''10.0.64.0/20''"
abbreviation ServiceLoadBalancerDefaultCIDR :: string where
  "ServiceLoadBalancerDefaultCIDR \<equiv> ''10.0.0.32/27''"

definition cidr_of_role :: "Role \<Rightarrow> string \<Rightarrow> Subnet option list \<Rightarrow> string" where
  "cidr_of_role role dflt subnets =
     (case find (\<lambda>x. Subnet_Role x = role \<and> Subnet_CIDR x \<noteq> []) (ToSubnetSlice subnets) of
        Some x \<Rightarrow> Subnet_CIDR x | None \<Rightarrow> dflt)"

definition GetControlPlaneEndpointSubnetCidr :: "ClusterScope \<Rightarrow> string" where
  "GetControlPlaneEndpointSubnetCidr s =
     cidr_of_role ControlPlaneEndpointRole ControlPlaneEndpointSubnetDefaultCIDR (GetSubnetsSpec s)"

definition GetServiceLoadBalancerSubnetCidr :: "ClusterScope \<Rightarrow> string" where
  "GetServiceLoadBalancerSubnetCidr s =
     cidr_of_role ServiceLoadBalancerRole ServiceLoadBalancerDefaultCIDR (GetSubnetsSpec s)"

text \<open>The loop of \<open>NodeSubnetCidr\<close> appends the subnet's block when it has one and then, for every
  subnet, the default block.\<close>

fun nodeCidrLoop :: "Subnet list \<Rightarrow> string list" where
  "nodeCidrLoop [] = []"
| "nodeCidrLoop (x # xs) =
     (if Subnet_CIDR x \<noteq> [] then [Subnet_CIDR x] else []) @ [WorkerSubnetDefaultCIDR] @ nodeCidrLoop xs"

definition NodeSubnetCidr :: "ClusterScope \<Rightarrow> string list" where
  "NodeSubnetCidr s =
     (let nodeCIDR = nodeCidrLoop (ToSubnetSlice (GetNodeSubnet s))
      in if length nodeCIDR = 0 then [WorkerSubnetDefaultCIDR] else nodeCIDR)"

definition GetControlPlaneMachineSubnetCidr :: "ClusterScope \<Rightarrow> string" where
  "GetControlPlaneMachineSubnetCidr s = (case GetControlPlaneMachineSubnet s of
      Some x \<Rightarrow> if Subnet_CIDR x \<noteq> [] then Subnet_CIDR x else ControlPlaneMachineSubnetDefaultCIDR
    | None \<Rightarrow> ControlPlaneMachineSubnetDefaultCIDR)"

section \<open>Private and public\<close>

definition IsAllSubnetsPrivate :: "ClusterScope \<Rightarrow> bool" where
  "IsAllSubnetsPrivate s =
     (if list_ex (\<lambda>x. Subnet_Type x = Public) (ToSubnetSlice (GetSubnetsSpec s)) then False
      else if GetControlPlaneEndpointSubnet s = None \<or> GetServiceLoadBalancerSubnet s = None then False
      else True)"

definition IsAllSubnetsPublic :: "ClusterScope \<Rightarrow> bool" where
  "IsAllSubnetsPublic s =
     (if list_ex (\<lambda>x. Subnet_Type x = Private) (ToSubnetSlice (GetSubnetsSpec s)) then False
      else if GetControlPlaneMachineSubnet s = None \<or> length (GetNodeSubnet s) = 0 then False
      else True)"

definition isControlPlaneEndpointSubnetPrivate :: "ClusterScope \<Rightarrow> bool" where
  "isControlPlaneEndpointSubnetPrivate s \<longleftrightarrow>
     list_ex (\<lambda>x. Subnet_Role x = ControlPlaneEndpointRole \<and> Subnet_Type x = Private)
       (ToSubnetSlice (GetSubnetsSpec s))"

definition isAPIServerLBPrivate :: "ClusterScope \<Rightarrow> bool" where
  "isAPIServerLBPrivate s =
     (let visibility = LoadBalancer_NetworkVisibility (NetworkSpec_APIServerLB (GetNetworkSpec s))
      in if visibility = LBNetworkVisibilityPrivate then True
         else if visibility = LBNetworkVisibilityPublic then False
         else isControlPlaneEndpointSubnetPrivate s)"

section \<open>Network security groups and security lists by role\<close>

definition GetNSGSpec :: "ClusterScope \<Rightarrow> NSG option list" where
  "GetNSGSpec s = NetworkSecurityGroup_List (VCN_NetworkSecurityGroup (GetVcnSpec s))"

text \<open>\<open>nsg.Role\<close> dereferences the pointer: a nil entry before the first hit panics.\<close>

fun nsgRoleLoop :: "Role \<Rightarrow> NSG option list \<Rightarrow> bool res" where
  "nsgRoleLoop role [] = Ret False"
| "nsgRoleLoop role (None # ns) = Panic"
| "nsgRoleLoop role (Some n # ns) = (if role = NSG_Role n then Ret True else nsgRoleLoop role ns)"

definition IsNSGExitsByRole :: "ClusterScope \<Rightarrow> Role \<Rightarrow> bool res" where
  "IsNSGExitsByRole s role = nsgRoleLoop role (GetNSGSpec s)"

definition IsSecurityListExitsByRole :: "ClusterScope \<Rightarrow> Role \<Rightarrow> bool" where
  "IsSecurityListExitsByRole s role \<longleftrightarrow>
     list_ex (\<lambda>x. role = Subnet_Role x \<and> Subnet_SecurityList x \<noteq> None) (ToSubnetSlice (GetSubnetsSpec s))"

section \<open>Names and ids\<close>

definition GetNsgNamesFromId :: "string list \<Rightarrow> NSG option list \<Rightarrow> string list" where
  "GetNsgNamesFromId ids nsgs =
     (if length ids = 0 then []
      else concat (map (\<lambda>i. map NSG_Name (filter (\<lambda>n. i = ToString (NSG_ID n)) (ToNSGSlice nsgs))) ids))"

definition GetSubnetNameFromId :: "string option \<Rightarrow> Subnet option list \<Rightarrow> string" where
  "GetSubnetNameFromId i subnets =
     (case find (\<lambda>x. ToString i = ToString (Subnet_ID x)) (ToSubnetSlice subnets) of
        Some x \<Rightarrow> Subnet_Name x | None \<Rightarrow> [])"

definition GetSubnetNamesFromId :: "string list \<Rightarrow> Subnet option list \<Rightarrow> string list" where
  "GetSubnetNamesFromId ids subnets =
     concat (map (\<lambda>i. map Subnet_Name (filter (\<lambda>x. i = ToString (Subnet_ID x)) (ToSubnetSlice subnets))) ids)"

text \<open>\<open>sameStringSet\<close>: the counts of \<open>a\<close>, then a decrement per element of \<open>b\<close> that must not go below
  zero. A map from strings to counts is the function of its values, zero where absent.\<close>

definition incCount :: "(string \<Rightarrow> int) \<Rightarrow> string \<Rightarrow> (string \<Rightarrow> int)" where
  "incCount counts value = counts(value := counts value + 1)"

fun decLoop :: "(string \<Rightarrow> int) \<Rightarrow> string list \<Rightarrow> bool" where
  "decLoop counts [] = True"
| "decLoop counts (value # vs) =
     (let counts' = counts(value := counts value - 1)
      in if counts' value < 0 then False else decLoop counts' vs)"

definition sameStringSet :: "string list \<Rightarrow> string list \<Rightarrow> bool" where
  "sameStringSet a b =
     (if length a \<noteq> length b then False else decLoop (foldl incCount (\<lambda>_. 0) a) b)"

section \<open>Properties\<close>

lemma foldl_incCount: "foldl incCount f xs v = f v + int (count (mset xs) v)"
  by (induction xs arbitrary: f) (auto simp: incCount_def)

lemma decLoop_iff: "decLoop c ys \<longleftrightarrow> (\<forall>v \<in> set ys. int (count (mset ys) v) \<le> c v)"
proof (induction ys arbitrary: c)
  case Nil
  show ?case by simp
next
  case (Cons y ys)
  have "decLoop c (y # ys) \<longleftrightarrow> 1 \<le> c y \<and>
      (\<forall>v \<in> set ys. int (count (mset ys) v) \<le> (c(y := c y - 1)) v)"
    by (auto simp: Let_def Cons.IH)
  also have "\<dots> \<longleftrightarrow> (\<forall>v \<in> set (y # ys). int (count (mset (y # ys)) v) \<le> c v)"
  proof (cases "y \<in> set ys")
    case True
    then show ?thesis by (auto simp: le_diff_eq)
  next
    case False
    then have c0: "count (mset ys) y = 0" by (simp add: count_mset_0_iff)
    from False show ?thesis by (auto simp: c0)
  qed
  finally show ?case .
qed

text \<open>\<open>sameStringSet\<close> (src/cloud/scope/util.go) decides equality of the two slices as multisets:
  the order does not matter and duplicates are counted.\<close>

theorem sameStringSet_iff_mset: "sameStringSet a b \<longleftrightarrow> mset a = mset b"
proof (cases "length a = length b")
  case True
  have "sameStringSet a b \<longleftrightarrow> (\<forall>v \<in> set b. count (mset b) v \<le> count (mset a) v)"
    using True by (simp add: sameStringSet_def decLoop_iff foldl_incCount)
  also have "\<dots> \<longleftrightarrow> mset b \<subseteq># mset a"
    by (auto simp: subseteq_mset_def) (metis count_mset_0_iff zero_le)
  also have "\<dots> \<longleftrightarrow> mset a = mset b"
    using True by (metis mset_subset_size nless_le size_mset subset_mset.nless_le subset_mset.order_refl)
  finally show ?thesis .
next
  case False
  then show ?thesis by (auto simp: sameStringSet_def dest: mset_eq_length)
qed

lemma subnet_with_role_None:
  "subnet_with_role role ps = None \<longleftrightarrow> (\<forall>x. Some x \<in> set ps \<longrightarrow> Subnet_Role x \<noteq> role)"
  by (auto simp: subnet_with_role_def find_None_iff find_Some_iff split: option.splits)
    (metis option.distinct(1) nth_mem option.case_eq_if option.sel)+

lemma subnet_with_role_Some:
  "subnet_with_role role ps = Some x \<Longrightarrow> Some x \<in> set ps \<and> Subnet_Role x = role"
  by (auto simp: subnet_with_role_def split: option.splits dest!: find_Some_mem)

lemma GetNodeSubnet_Nil: "GetNodeSubnet s = [] \<longleftrightarrow> (\<forall>x. Some x \<in> set (GetSubnetsSpec s) \<longrightarrow> Subnet_Role x \<noteq> WorkerRole)"
  by (auto simp: GetNodeSubnet_def filter_empty_conv split: option.splits)

end
