(* ===== verification/Gateways.thy ===== *)
theory Gateways
  imports VCN_Reconciler Subnet_Spec
begin

text \<open>
  The internet, NAT and service gateways (src/cloud/scope/internet_gateway_reconciler.go,
  nat_gateway_reconciler.go, service_gateway_reconciler.go). Each is an instance of
  \<open>tagged_resource\<close> (find or create) and of \<open>managed_delete\<close>; idempotence and the effect of
  deletion follow from the contracts.
\<close>

section \<open>Internet gateway\<close>

abbreviation InternetGatewayName :: string where "InternetGatewayName \<equiv> ''internet-gateway''"
abbreviation NatGatewayName :: string where "NatGatewayName \<equiv> ''nat-gateway''"
abbreviation ServiceGatewayName :: string where "ServiceGatewayName \<equiv> ''service-gateway''"
abbreviation SGWServiceSuffix :: string where
  "SGWServiceSuffix \<equiv> ''-services-in-oracle-services-network''"

definition igwId :: "ClusterScope \<Rightarrow> string option" where
  "igwId s = InternetGateway_Id (VCN_InternetGateway (GetVcnSpec s))"

definition setIgwId :: "string option \<Rightarrow> ClusterScope \<Rightarrow> ClusterScope" where
  "setIgwId i = upd_Vcn (\<lambda>v. v\<lparr>VCN_InternetGateway := (VCN_InternetGateway v)\<lparr>InternetGateway_Id := i\<rparr>\<rparr>)"

definition GetInternetGateway :: "'w IgwApi \<Rightarrow> ('w, SdkResource option) scope_go" where
  "GetInternetGateway a =
     go_bind get_scope (\<lambda>s.
     case igwId s of
       Some i \<Rightarrow> go_bind (api (api_GetInternetGateway a (Some i))) (accept_owned s)
     | None \<Rightarrow>
         go_bind (api (go_wrap ''failed to list internet gateways''
             (api_ListInternetGateways a (GetCompartmentId s) (getVcnId s) InternetGatewayName))) (\<lambda>items.
         go_ret (find_owned s items)))"

definition CreateInternetGateway :: "'w IgwApi \<Rightarrow> ('w, string option) scope_go" where
  "CreateInternetGateway a =
     go_bind get_scope (\<lambda>s.
     go_bind (api (go_wrap ''failed create internet gateway''
         (api_CreateInternetGateway a
            \<lparr>CD_CompartmentId = GetCompartmentId s, CD_DisplayName = InternetGatewayName,
             CD_FreeformTags = GetFreeFormTags s, CD_DefinedTags = GetDefinedTags s,
             CD_VcnId = getVcnId s, CIG_IsEnabled = True\<rparr>))) (\<lambda>resp.
     go_bind (go_deref (Res_Id resp)) (\<lambda>_.
     go_ret (Res_Id resp))))"

definition ReconcileInternetGateway :: "'w IgwApi \<Rightarrow> ('w, unit) scope_go" where
  "ReconcileInternetGateway a =
     go_bind get_scope (\<lambda>s.
     if InternetGateway_Skip (VCN_InternetGateway (GetVcnSpec s)) then go_ret ()
     else if IsAllSubnetsPrivate s then go_ret ()
     else
       go_bind (GetInternetGateway a) (\<lambda>igw. case igw of
         Some g \<Rightarrow> mod_scope (setIgwId (Res_Id g))
       | None \<Rightarrow>
           go_bind (CreateInternetGateway a) (\<lambda>internetGateway.
           mod_scope (setIgwId internetGateway))))"

text \<open>The guard of the deletion reads the flag of the route table.\<close>

definition DeleteInternetGateway :: "'w IgwApi \<Rightarrow> ('w, unit) scope_go" where
  "DeleteInternetGateway a =
     go_bind get_scope (\<lambda>s.
     if RouteTable_Skip (VCN_RouteTable (GetVcnSpec s)) then go_ret ()
     else delete_found (GetInternetGateway a)
       (\<lambda>igw. go_wrap ''failed to delete InternetGateway'' (api_DeleteInternetGateway a (Res_Id igw))))"

section \<open>NAT gateway\<close>

definition natId :: "ClusterScope \<Rightarrow> string option" where
  "natId s = NATGateway_Id (VCN_NATGateway (GetVcnSpec s))"

definition setNatId :: "string option \<Rightarrow> ClusterScope \<Rightarrow> ClusterScope" where
  "setNatId i = upd_Vcn (\<lambda>v. v\<lparr>VCN_NATGateway := (VCN_NATGateway v)\<lparr>NATGateway_Id := i\<rparr>\<rparr>)"

definition GetNatGateway :: "'w NatApi \<Rightarrow> ('w, SdkResource option) scope_go" where
  "GetNatGateway a =
     go_bind get_scope (\<lambda>s.
     case natId s of
       Some i \<Rightarrow> go_bind (api (api_GetNatGateway a (Some i))) (accept_owned s)
     | None \<Rightarrow>
         go_bind (api (go_wrap ''failed to list NAT gateways''
             (api_ListNatGateways a (GetCompartmentId s) (getVcnId s) NatGatewayName))) (\<lambda>items.
         go_ret (find_owned s items)))"

definition UpdateNatGateway :: "'w NatApi \<Rightarrow> ('w, unit) scope_go" where
  "UpdateNatGateway a =
     go_bind get_scope (\<lambda>s.
     go_bind (api (go_wrap ''failed to reconcile the nat gateway, failed to update''
         (api_UpdateNatGateway a (natId s) (GetFreeFormTags s) (GetDefinedTags s)))) (\<lambda>resp.
     go_bind (go_deref (Res_Id resp)) (\<lambda>_. go_ret ())))"

definition CreateNatGateway :: "'w NatApi \<Rightarrow> ('w, string option) scope_go" where
  "CreateNatGateway a =
     go_bind get_scope (\<lambda>s.
     go_bind (api (go_wrap ''failed create nat gateway''
         (api_CreateNatGateway a
            \<lparr>CD_CompartmentId = GetCompartmentId s, CD_DisplayName = NatGatewayName,
             CD_FreeformTags = GetFreeFormTags s, CD_DefinedTags = GetDefinedTags s,
             CD_VcnId = getVcnId s\<rparr>))) (\<lambda>resp.
     go_bind (go_deref (Res_Id resp)) (\<lambda>_.
     go_ret (Res_Id resp))))"

text \<open>The id is assigned before the error is returned; with an error it is nil.\<close>

definition ReconcileNatGateway :: "'w NatApi \<Rightarrow> ('w, unit) scope_go" where
  "ReconcileNatGateway a =
     go_bind get_scope (\<lambda>s.
     if NATGateway_Skip (VCN_NATGateway (GetVcnSpec s)) then go_ret ()
     else if IsAllSubnetsPublic s then go_ret ()
     else
       go_bind (GetNatGateway a) (\<lambda>ngw. case ngw of
         Some g \<Rightarrow> mod_scope (setNatId (Res_Id g))
       | None \<Rightarrow>
           go_bind (go_try (CreateNatGateway a)) (\<lambda>x. case x of
             Inl err \<Rightarrow> go_seq (mod_scope (setNatId None)) (go_throw err)
           | Inr natGateway \<Rightarrow> mod_scope (setNatId natGateway))))"

definition DeleteNatGateway :: "'w NatApi \<Rightarrow> ('w, unit) scope_go" where
  "DeleteNatGateway a =
     go_bind get_scope (\<lambda>s.
     if NATGateway_Skip (VCN_NATGateway (GetVcnSpec s)) then go_ret ()
     else delete_found (GetNatGateway a)
       (\<lambda>ngw. go_wrap ''failed to delete NatGateway'' (api_DeleteNatGateway a (Res_Id ngw))))"

section \<open>Service gateway\<close>

definition sgwId :: "ClusterScope \<Rightarrow> string option" where
  "sgwId s = ServiceGateway_Id (VCN_ServiceGateway (GetVcnSpec s))"

definition setSgwId :: "string option \<Rightarrow> ClusterScope \<Rightarrow> ClusterScope" where
  "setSgwId i = upd_Vcn (\<lambda>v. v\<lparr>VCN_ServiceGateway := (VCN_ServiceGateway v)\<lparr>ServiceGateway_Id := i\<rparr>\<rparr>)"

definition GetServiceGateway :: "'w SgwApi \<Rightarrow> ('w, SdkResource option) scope_go" where
  "GetServiceGateway a =
     go_bind get_scope (\<lambda>s.
     case sgwId s of
       Some i \<Rightarrow> go_bind (api (api_GetServiceGateway a (Some i))) (accept_owned s)
     | None \<Rightarrow>
         go_bind (api (go_wrap ''failed to list Service gateways''
             (api_ListServiceGateways a (GetCompartmentId s) (getVcnId s)))) (\<lambda>items.
         go_ret (find (\<lambda>sgw. StringEquals (Res_DisplayName sgw) ServiceGatewayName \<and>
             IsResourceCreatedByClusterAPI s (Res_FreeformTags sgw)) items)))"

text \<open>The loop that looks for the service of the region: it dereferences the CIDR block of every
  service up to the first hit, and the id of that one.\<close>

fun findServiceOcid :: "SdkService list \<Rightarrow> ('s, string option) go" where
  "findServiceOcid [] = go_ret None"
| "findServiceOcid (service # services) =
     go_bind (go_deref (Service_CidrBlock service)) (\<lambda>cidr.
     if HasSuffix cidr SGWServiceSuffix
     then go_bind (go_deref (Service_Id service)) (\<lambda>serviceOcid. go_ret (Some serviceOcid))
     else findServiceOcid services)"

text \<open>When no service is found \<open>err\<close> is nil, and so is \<open>errors.Wrap(err, ...)\<close>: the function answers
  a nil id and a nil error.\<close>

definition CreateServiceGateway :: "'w SgwApi \<Rightarrow> ('w, string option) scope_go" where
  "CreateServiceGateway a =
     go_bind get_scope (\<lambda>s.
     go_bind (api (go_wrap ''failed to get the list of services'' (api_ListServices a))) (\<lambda>items.
     go_bind (findServiceOcid items) (\<lambda>found. case found of
       None \<Rightarrow> go_ret None
     | Some serviceOcid \<Rightarrow>
         go_bind (api (go_wrap ''failed create service gateway''
             (api_CreateServiceGateway a
                \<lparr>CD_CompartmentId = GetCompartmentId s, CD_DisplayName = ServiceGatewayName,
                 CD_FreeformTags = GetFreeFormTags s, CD_DefinedTags = GetDefinedTags s,
                 CD_VcnId = getVcnId s, CSG_Services = [serviceOcid]\<rparr>))) (\<lambda>resp.
         go_bind (go_deref (Res_Id resp)) (\<lambda>_.
         go_ret (Res_Id resp))))))"

definition ReconcileServiceGateway :: "'w SgwApi \<Rightarrow> ('w, unit) scope_go" where
  "ReconcileServiceGateway a =
     go_bind get_scope (\<lambda>s.
     if ServiceGateway_Skip (VCN_ServiceGateway (GetVcnSpec s)) then go_ret ()
     else if IsAllSubnetsPublic s then go_ret ()
     else
       go_bind (GetServiceGateway a) (\<lambda>sgw. case sgw of
         Some g \<Rightarrow> mod_scope (setSgwId (Res_Id g))
       | None \<Rightarrow>
           go_bind (go_try (CreateServiceGateway a)) (\<lambda>x. case x of
             Inl err \<Rightarrow> go_seq (mod_scope (setSgwId None)) (go_throw err)
           | Inr serviceGateway \<Rightarrow> mod_scope (setSgwId serviceGateway))))"

definition deleteSgw :: "'w SgwApi \<Rightarrow> SdkResource \<Rightarrow> ('w, unit) go" where
  "deleteSgw a sgw =
     go_bind (go_wrap ''failed to delete ServiceGateways'' (api_DeleteServiceGateway a (Res_Id sgw))) (\<lambda>_.
     go_bind (go_deref (Res_Id sgw)) (\<lambda>_. go_ret ()))"

definition DeleteServiceGateway :: "'w SgwApi \<Rightarrow> ('w, unit) scope_go" where
  "DeleteServiceGateway a =
     go_bind get_scope (\<lambda>s.
     if ServiceGateway_Skip (VCN_ServiceGateway (GetVcnSpec s)) then go_ret ()
     else delete_found (GetServiceGateway a) (deleteSgw a))"

section \<open>The ids in the spec\<close>

lemma setIgwId_simps [simp]:
  "igwId (setIgwId i s) = i" "setIgwId (igwId s) s = s" "GetSubnetsSpec (setIgwId i s) = GetSubnetsSpec s"
  "InternetGateway_Skip (VCN_InternetGateway (GetVcnSpec (setIgwId i s))) =
     InternetGateway_Skip (VCN_InternetGateway (GetVcnSpec s))"
  "same_identity s (setIgwId i s)"
  by (simp_all add: setIgwId_def igwId_def GetSubnetsSpec_def)
    (simp add: upd_Vcn_def upd_NetworkSpec_def accessor_defs)

lemma setNatId_simps [simp]:
  "natId (setNatId i s) = i" "setNatId (natId s) s = s" "GetSubnetsSpec (setNatId i s) = GetSubnetsSpec s"
  "NATGateway_Skip (VCN_NATGateway (GetVcnSpec (setNatId i s))) =
     NATGateway_Skip (VCN_NATGateway (GetVcnSpec s))"
  "same_identity s (setNatId i s)"
  by (simp_all add: setNatId_def natId_def GetSubnetsSpec_def)
    (simp add: upd_Vcn_def upd_NetworkSpec_def accessor_defs)

lemma setSgwId_simps [simp]:
  "sgwId (setSgwId i s) = i" "setSgwId (sgwId s) s = s" "GetSubnetsSpec (setSgwId i s) = GetSubnetsSpec s"
  "ServiceGateway_Skip (VCN_ServiceGateway (GetVcnSpec (setSgwId i s))) =
     ServiceGateway_Skip (VCN_ServiceGateway (GetVcnSpec s))"
  "same_identity s (setSgwId i s)"
  by (simp_all add: setSgwId_def sgwId_def GetSubnetsSpec_def)
    (simp add: upd_Vcn_def upd_NetworkSpec_def accessor_defs)

text \<open>The classification of the subnets depends on the list of subnets only.\<close>

lemma all_subnets_cong:
  assumes "GetSubnetsSpec t = GetSubnetsSpec s"
  shows "IsAllSubnetsPrivate t = IsAllSubnetsPrivate s" and "IsAllSubnetsPublic t = IsAllSubnetsPublic s"
  using assms by (simp_all add: IsAllSubnetsPrivate_def IsAllSubnetsPublic_def
      GetControlPlaneEndpointSubnet_def GetServiceLoadBalancerSubnet_def
      GetControlPlaneMachineSubnet_def GetNodeSubnet_def)

lemma set_gateway_ids_simps [simp]:
  "IsAllSubnetsPrivate (setIgwId i s) = IsAllSubnetsPrivate s"
  "IsAllSubnetsPublic (setNatId i s) = IsAllSubnetsPublic s"
  "IsAllSubnetsPublic (setSgwId i s) = IsAllSubnetsPublic s"
  "IsResourceCreatedByClusterAPI (setIgwId i s) = IsResourceCreatedByClusterAPI s"
  "IsResourceCreatedByClusterAPI (setNatId i s) = IsResourceCreatedByClusterAPI s"
  "IsResourceCreatedByClusterAPI (setSgwId i s) = IsResourceCreatedByClusterAPI s"
  by (rule all_subnets_cong same_identityD(7); simp)+

section \<open>Instances of the contracts\<close>

interpretation igw_get: tagged_lookup igwId "api_GetInternetGateway a"
  "\<lambda>s. go_wrap ''failed to list internet gateways''
     (api_ListInternetGateways a (GetCompartmentId s) (getVcnId s) InternetGatewayName)"
  "\<lambda>_ _. True" "GetInternetGateway a" for a :: "'w IgwApi"
  by unfold_locales (simp add: GetInternetGateway_def find_owned_def go_simps split: option.split)

interpretation nat_get: tagged_lookup natId "api_GetNatGateway a"
  "\<lambda>s. go_wrap ''failed to list NAT gateways''
     (api_ListNatGateways a (GetCompartmentId s) (getVcnId s) NatGatewayName)"
  "\<lambda>_ _. True" "GetNatGateway a" for a :: "'w NatApi"
  by unfold_locales (simp add: GetNatGateway_def find_owned_def go_simps split: option.split)

interpretation sgw_get: tagged_lookup sgwId "api_GetServiceGateway a"
  "\<lambda>s. go_wrap ''failed to list Service gateways''
     (api_ListServiceGateways a (GetCompartmentId s) (getVcnId s))"
  "\<lambda>_ sgw. Res_DisplayName sgw = Some ServiceGatewayName" "GetServiceGateway a" for a :: "'w SgwApi"
  by unfold_locales (simp add: GetServiceGateway_def go_simps split: option.split)

lemma keeps_findServiceOcid [frame_intros]: "reflp R \<Longrightarrow> transp R \<Longrightarrow> keeps R (findServiceOcid items)"
  by (induction items) (auto intro!: frame_intros)

lemma gateway_create_scope:
  "keeps same_scope (CreateInternetGateway a)" "keeps same_scope (CreateNatGateway b)"
  "keeps same_scope (CreateServiceGateway c)"
  unfolding CreateInternetGateway_def CreateNatGateway_def CreateServiceGateway_def
  by (intro frame_intros; simp)+

lemma ReconcileInternetGateway_eq:
  "ReconcileInternetGateway a (s, w) = find_or_create
     (\<lambda>s. \<not> InternetGateway_Skip (VCN_InternetGateway (GetVcnSpec s)) \<and> \<not> IsAllSubnetsPrivate s)
     (GetInternetGateway a) setIgwId (CreateInternetGateway a) (s, w)"
proof (cases "\<exists>w1. GetInternetGateway a (s, w) = (Ret None, (s, w1))")
  case True
  then obtain w1 where l: "GetInternetGateway a (s, w) = (Ret None, (s, w1))" by blast
  then have "igwId s = None" by (rule igw_get.lookup_absent_no_id)
  then have "setIgwId None s = s" by (metis setIgwId_simps(2))
  moreover obtain y w2 where "CreateInternetGateway a (s, w1) = (y, (s, w2))"
    using keeps_same_scopeD [OF gateway_create_scope(1)] by (metis prod.collapse surj_pair)
  ultimately show ?thesis using l
    by (cases y) (simp_all add: ReconcileInternetGateway_def find_or_create_def go_simps)
next
  case False
  then have "GetInternetGateway a (s, w) \<noteq> (Ret None, t)" for t
    by (metis igw_get.lookup_scope prod.collapse)
  then show ?thesis
    by (cases "GetInternetGateway a (s, w)"; cases "fst (GetInternetGateway a (s, w))")
      (auto simp: ReconcileInternetGateway_def find_or_create_def go_simps split: option.splits)
qed

interpretation igw: tagged_resource igwId "api_GetInternetGateway a"
  "\<lambda>s. go_wrap ''failed to list internet gateways''
     (api_ListInternetGateways a (GetCompartmentId s) (getVcnId s) InternetGatewayName)"
  "\<lambda>_ _. True" "GetInternetGateway a" setIgwId
  "\<lambda>s. \<not> InternetGateway_Skip (VCN_InternetGateway (GetVcnSpec s)) \<and> \<not> IsAllSubnetsPrivate s"
  "CreateInternetGateway a" "ReconcileInternetGateway a" for a :: "'w IgwApi"
  by unfold_locales
    (erule keeps_same_scopeD [OF gateway_create_scope(1)] | rule ReconcileInternetGateway_eq | simp)+

interpretation nat: tagged_resource natId "api_GetNatGateway a"
  "\<lambda>s. go_wrap ''failed to list NAT gateways''
     (api_ListNatGateways a (GetCompartmentId s) (getVcnId s) NatGatewayName)"
  "\<lambda>_ _. True" "GetNatGateway a" setNatId
  "\<lambda>s. \<not> NATGateway_Skip (VCN_NATGateway (GetVcnSpec s)) \<and> \<not> IsAllSubnetsPublic s"
  "CreateNatGateway a" "ReconcileNatGateway a" for a :: "'w NatApi"
  by unfold_locales
    (erule keeps_same_scopeD [OF gateway_create_scope(2)] |
      simp add: ReconcileNatGateway_def find_or_create_def get_scope_apply go_bind_apply)+

interpretation sgw: tagged_resource sgwId "api_GetServiceGateway a"
  "\<lambda>s. go_wrap ''failed to list Service gateways''
     (api_ListServiceGateways a (GetCompartmentId s) (getVcnId s))"
  "\<lambda>_ sgw. Res_DisplayName sgw = Some ServiceGatewayName" "GetServiceGateway a" setSgwId
  "\<lambda>s. \<not> ServiceGateway_Skip (VCN_ServiceGateway (GetVcnSpec s)) \<and> \<not> IsAllSubnetsPublic s"
  "CreateServiceGateway a" "ReconcileServiceGateway a" for a :: "'w SgwApi"
  by unfold_locales
    (erule keeps_same_scopeD [OF gateway_create_scope(3)] |
      simp add: ReconcileServiceGateway_def find_or_create_def get_scope_apply go_bind_apply)+

interpretation igw_del: managed_delete igwId "api_GetInternetGateway a"
  "\<lambda>s. go_wrap ''failed to list internet gateways''
     (api_ListInternetGateways a (GetCompartmentId s) (getVcnId s) InternetGatewayName)"
  "\<lambda>_ _. True" "GetInternetGateway a" "\<lambda>s. RouteTable_Skip (VCN_RouteTable (GetVcnSpec s))"
  "\<lambda>igw. go_wrap ''failed to delete InternetGateway'' (api_DeleteInternetGateway a (Res_Id igw))"
  "DeleteInternetGateway a" "api_DeleteInternetGateway a" for a :: "'w IgwApi"
  by unfold_locales (rule go_wrap_state | erule go_wrap_RetD | simp add: DeleteInternetGateway_def go_simps)+

interpretation nat_del: managed_delete natId "api_GetNatGateway a"
  "\<lambda>s. go_wrap ''failed to list NAT gateways''
     (api_ListNatGateways a (GetCompartmentId s) (getVcnId s) NatGatewayName)"
  "\<lambda>_ _. True" "GetNatGateway a" "\<lambda>s. NATGateway_Skip (VCN_NATGateway (GetVcnSpec s))"
  "\<lambda>ngw. go_wrap ''failed to delete NatGateway'' (api_DeleteNatGateway a (Res_Id ngw))"
  "DeleteNatGateway a" "api_DeleteNatGateway a" for a :: "'w NatApi"
  by unfold_locales (rule go_wrap_state | erule go_wrap_RetD | simp add: DeleteNatGateway_def go_simps)+

lemma deleteSgw_delop:
  "snd (deleteSgw a r w) = snd (api_DeleteServiceGateway a (Res_Id r) w)"
  "deleteSgw a r w = (Ret (), w') \<Longrightarrow> api_DeleteServiceGateway a (Res_Id r) w = (Ret (), w')"
  by (auto simp: deleteSgw_def go_simps split: res.splits prod.splits option.splits)

interpretation sgw_del: managed_delete sgwId "api_GetServiceGateway a"
  "\<lambda>s. go_wrap ''failed to list Service gateways''
     (api_ListServiceGateways a (GetCompartmentId s) (getVcnId s))"
  "\<lambda>_ sgw. Res_DisplayName sgw = Some ServiceGatewayName" "GetServiceGateway a"
  "\<lambda>s. ServiceGateway_Skip (VCN_ServiceGateway (GetVcnSpec s))"
  "deleteSgw a" "DeleteServiceGateway a" "api_DeleteServiceGateway a" for a :: "'w SgwApi"
  by unfold_locales
    (rule deleteSgw_delop(1) | erule deleteSgw_delop(2) | simp add: DeleteServiceGateway_def go_simps)+

section \<open>Idempotence\<close>

definition lawful_igw_api :: "('w, SdkResource) table \<Rightarrow> 'w IgwApi \<Rightarrow> bool" where
  "lawful_igw_api tbl a \<longleftrightarrow> keyed_by_id tbl \<and> lawful_get tbl (api_GetInternetGateway a) \<and>
     honest_get tbl (api_GetInternetGateway a) \<and>
     (\<forall>c v n. lawful_list tbl (api_ListInternetGateways a c v n)) \<and>
     (\<forall>d. lawful_create tbl (CD_FreeformTags d) (CD_DisplayName d) (api_CreateInternetGateway a d)) \<and>
     lawful_delete tbl (api_DeleteInternetGateway a)"

definition lawful_nat_api :: "('w, SdkResource) table \<Rightarrow> 'w NatApi \<Rightarrow> bool" where
  "lawful_nat_api tbl a \<longleftrightarrow> keyed_by_id tbl \<and> lawful_get tbl (api_GetNatGateway a) \<and>
     honest_get tbl (api_GetNatGateway a) \<and>
     (\<forall>c v n. lawful_list tbl (api_ListNatGateways a c v n)) \<and>
     (\<forall>d. lawful_create tbl (CD_FreeformTags d) (CD_DisplayName d) (api_CreateNatGateway a d)) \<and>
     lawful_delete tbl (api_DeleteNatGateway a)"

definition lawful_sgw_api :: "('w, SdkResource) table \<Rightarrow> 'w SgwApi \<Rightarrow> bool" where
  "lawful_sgw_api tbl a \<longleftrightarrow> keyed_by_id tbl \<and> lawful_get tbl (api_GetServiceGateway a) \<and>
     honest_get tbl (api_GetServiceGateway a) \<and>
     (\<forall>c v. lawful_list tbl (api_ListServiceGateways a c v)) \<and>
     (\<forall>d. lawful_create tbl (CD_FreeformTags d) (CD_DisplayName d) (api_CreateServiceGateway a d)) \<and>
     lawful_delete tbl (api_DeleteServiceGateway a)"

text \<open>The service list of the region contains the services network.\<close>

definition regional_service :: "SdkService \<Rightarrow> bool" where
  "regional_service x \<longleftrightarrow> (case Service_CidrBlock x of
     Some cidr \<Rightarrow> HasSuffix cidr SGWServiceSuffix | None \<Rightarrow> False)"

definition serves_region :: "'w SgwApi \<Rightarrow> bool" where
  "serves_region a \<longleftrightarrow>
     (\<forall>w items. fst (api_ListServices a w) = Ret items \<longrightarrow> list_ex regional_service items)"

lemma findServiceOcid_Some:
  "list_ex regional_service items \<Longrightarrow> findServiceOcid items s \<noteq> (Ret None, t)"
  by (induction items) (auto simp: go_simps regional_service_def split: option.splits if_splits)

lemma findServiceOcid_None:
  "\<not> list_ex regional_service items \<Longrightarrow> \<forall>x \<in> set items. Service_CidrBlock x \<noteq> None \<Longrightarrow>
   findServiceOcid items s = (Ret None, s)"
  by (induction items) (auto simp: go_simps regional_service_def split: option.splits if_splits)

lemma igw_creates_owned: "lawful_igw_api tbl a \<Longrightarrow> creates_owned tbl (CreateInternetGateway a)"
proof (rule creates_ownedI)
  fix s :: ClusterScope and w :: 'a and i t
  let ?d = "\<lparr>CD_CompartmentId = GetCompartmentId s, CD_DisplayName = InternetGatewayName,
    CD_FreeformTags = GetFreeFormTags s, CD_DefinedTags = GetDefinedTags s,
    CD_VcnId = getVcnId s, CIG_IsEnabled = True\<rparr>"
  assume law: "lawful_igw_api tbl a" and "CreateInternetGateway a (s, w) = (Ret i, t)"
  then obtain r where "api_CreateInternetGateway a ?d w = (Ret r, snd t)" "i = Res_Id r"
    by (auto simp: CreateInternetGateway_def go_simps split: res.splits prod.splits option.splits)
  moreover from law have "lawful_create tbl (GetFreeFormTags s) InternetGatewayName (api_CreateInternetGateway a ?d)"
    unfolding lawful_igw_api_def by (metis CreateDetails.select_convs(2,3))
  ultimately show "\<exists>nm cr r w1. lawful_create tbl (GetFreeFormTags s) nm cr \<and> cr w1 = (Ret r, snd t) \<and> i = Res_Id r"
    by blast
qed

lemma nat_creates_owned: "lawful_nat_api tbl a \<Longrightarrow> creates_owned tbl (CreateNatGateway a)"
proof (rule creates_ownedI)
  fix s :: ClusterScope and w :: 'a and i t
  let ?d = "\<lparr>CD_CompartmentId = GetCompartmentId s, CD_DisplayName = NatGatewayName,
    CD_FreeformTags = GetFreeFormTags s, CD_DefinedTags = GetDefinedTags s, CD_VcnId = getVcnId s\<rparr>"
  assume law: "lawful_nat_api tbl a" and "CreateNatGateway a (s, w) = (Ret i, t)"
  then obtain r where "api_CreateNatGateway a ?d w = (Ret r, snd t)" "i = Res_Id r"
    by (auto simp: CreateNatGateway_def go_simps split: res.splits prod.splits option.splits)
  moreover from law have "lawful_create tbl (GetFreeFormTags s) NatGatewayName (api_CreateNatGateway a ?d)"
    unfolding lawful_nat_api_def by (metis CreateDetails.select_convs(2,3))
  ultimately show "\<exists>nm cr r w1. lawful_create tbl (GetFreeFormTags s) nm cr \<and> cr w1 = (Ret r, snd t) \<and> i = Res_Id r"
    by blast
qed

lemma CreateServiceGateway_cases:
  assumes "CreateServiceGateway a (s, w) = (Ret i, t)" and "serves_region a"
  obtains ocid r w1 where
    "api_CreateServiceGateway a \<lparr>CD_CompartmentId = GetCompartmentId s, CD_DisplayName = ServiceGatewayName,
       CD_FreeformTags = GetFreeFormTags s, CD_DefinedTags = GetDefinedTags s, CD_VcnId = getVcnId s,
       CSG_Services = [ocid]\<rparr> w1 = (Ret r, snd t)" "i = Res_Id r"
proof -
  obtain y w1 where l: "api_ListServices a w = (y, w1)" by (cases "api_ListServices a w")
  with assms obtain items where y: "y = Ret items"
    by (cases y) (auto simp: CreateServiceGateway_def go_simps)
  with assms(2) l have "list_ex regional_service items" by (metis fst_conv serves_region_def)
  then have some: "findServiceOcid items u \<noteq> (Ret None, v)" for u v :: "ClusterScope \<times> 'a"
    by (rule findServiceOcid_Some)
  have "\<exists>ocid. findServiceOcid items (s, w1) = (Ret (Some ocid), (s, w1))"
    using assms(1) l y some [of "(s, w1)"] keepsD [OF keeps_findServiceOcid [of "(=)" items], of "(s, w1)"]
    by (cases "findServiceOcid items (s, w1)"; cases "fst (findServiceOcid items (s, w1))")
      (auto simp: CreateServiceGateway_def go_simps reflp_def transp_def)
  then obtain ocid where "findServiceOcid items (s, w1) = (Ret (Some ocid), (s, w1))" ..
  with assms(1) l y show thesis
    by (auto simp: CreateServiceGateway_def go_simps split: res.splits prod.splits option.splits intro!: that)
qed

lemma sgw_creates_owned:
  "lawful_sgw_api tbl a \<Longrightarrow> serves_region a \<Longrightarrow> creates_owned tbl (CreateServiceGateway a)"
proof (rule creates_ownedI)
  fix s :: ClusterScope and w :: 'a and i t
  assume law: "lawful_sgw_api tbl a" and "serves_region a" and "CreateServiceGateway a (s, w) = (Ret i, t)"
  from this(3,2) show "\<exists>nm cr r w1. lawful_create tbl (GetFreeFormTags s) nm cr \<and> cr w1 = (Ret r, snd t) \<and> i = Res_Id r"
  proof (cases rule: CreateServiceGateway_cases)
    case (1 ocid r w1)
    let ?d = "\<lparr>CD_CompartmentId = GetCompartmentId s, CD_DisplayName = ServiceGatewayName,
      CD_FreeformTags = GetFreeFormTags s, CD_DefinedTags = GetDefinedTags s, CD_VcnId = getVcnId s,
      CSG_Services = [ocid]\<rparr>"
    from law have "lawful_create tbl (GetFreeFormTags s) ServiceGatewayName (api_CreateServiceGateway a ?d)"
      unfolding lawful_sgw_api_def by (metis CreateDetails.select_convs(2,3))
    with 1 show ?thesis by blast
  qed
qed

text \<open>Reconciling the internet gateway is idempotent over a lawful service: after a reconciliation
  that returned nil, a second one leaves spec and cloud as they are and returns nil, or the error of
  its get request.\<close>

theorem ReconcileInternetGateway_idempotent:
  assumes law: "lawful_igw_api tbl a" and run: "ReconcileInternetGateway a (s, w) = (Ret (), (s1, w1))"
  shows "ReconcileInternetGateway a (s1, w1) = (Ret (), (s1, w1)) \<or>
    (\<exists>e. ReconcileInternetGateway a (s1, w1) = (Err e, (s1, w1)))"
  by (rule igw.reconcile_again [OF run, where tbl = tbl])
    (use law in \<open>auto simp: lawful_igw_api_def intro: lawful_list_wrap igw_creates_owned [unfolded lawful_igw_api_def]\<close>)

text \<open>Reconciling the NAT gateway is idempotent over a lawful service.\<close>

theorem ReconcileNatGateway_idempotent:
  assumes law: "lawful_nat_api tbl a" and run: "ReconcileNatGateway a (s, w) = (Ret (), (s1, w1))"
  shows "ReconcileNatGateway a (s1, w1) = (Ret (), (s1, w1)) \<or>
    (\<exists>e. ReconcileNatGateway a (s1, w1) = (Err e, (s1, w1)))"
  by (rule nat.reconcile_again [OF run, where tbl = tbl])
    (use law in \<open>auto simp: lawful_nat_api_def intro: lawful_list_wrap nat_creates_owned [unfolded lawful_nat_api_def]\<close>)

text \<open>Reconciling the service gateway is idempotent over a lawful service in a region whose service
  list contains the services network.\<close>

theorem ReconcileServiceGateway_idempotent:
  assumes law: "lawful_sgw_api tbl a" and "serves_region a"
    and run: "ReconcileServiceGateway a (s, w) = (Ret (), (s1, w1))"
  shows "ReconcileServiceGateway a (s1, w1) = (Ret (), (s1, w1)) \<or>
    (\<exists>e. ReconcileServiceGateway a (s1, w1) = (Err e, (s1, w1)))"
  by (rule sgw.reconcile_again [OF run, where tbl = tbl])
    (use law \<open>serves_region a\<close> in \<open>auto simp: lawful_sgw_api_def
      intro: lawful_list_wrap sgw_creates_owned [unfolded lawful_sgw_api_def]\<close>)

text \<open>Where the service list has no such entry, \<open>ReconcileServiceGateway\<close> returns nil although it
  found no gateway and created none: the spec still records no gateway.\<close>

theorem ReconcileServiceGateway_silent:
  assumes "\<not> ServiceGateway_Skip (VCN_ServiceGateway (GetVcnSpec s))" and "\<not> IsAllSubnetsPublic s"
    and "GetServiceGateway a (s, w) = (Ret None, (s, w1))"
    and "api_ListServices a w1 = (Ret items, w2)"
    and "\<not> list_ex regional_service items" and "\<forall>x \<in> set items. Service_CidrBlock x \<noteq> None"
  shows "\<exists>s1. ReconcileServiceGateway a (s, w) = (Ret (), (s1, w2)) \<and> sgwId s1 = None"
proof -
  from findServiceOcid_None [OF assms(5,6), of "(s, w2)"] assms(4)
  have "CreateServiceGateway a (s, w1) = (Ret None, (s, w2))"
    by (simp add: CreateServiceGateway_def go_simps)
  then have "ReconcileServiceGateway a (s, w) = (Ret (), (setSgwId None s, w2))"
    by (intro sgw.rec_created [OF _ assms(3)]) (use assms(1,2) in simp_all)
  then show ?thesis by simp
qed

section \<open>Deletion\<close>

text \<open>Deletion undoes reconciliation for the NAT gateway: after both returned nil, the gateway the spec
  records is gone, whatever happened to the cloud in between.\<close>

theorem DeleteNatGateway_undoes_Reconcile:
  assumes law: "lawful_nat_api tbl a"
    and need: "\<not> NATGateway_Skip (VCN_NATGateway (GetVcnSpec s))" "\<not> IsAllSubnetsPublic s"
    and rec: "ReconcileNatGateway a (s, w) = (Ret (), (s1, w1))"
    and del: "DeleteNatGateway a (s1, w2) = (Ret (), (s2, w3))"
  shows "\<exists>k. natId s1 = Some k \<and> tbl w1 k \<noteq> None \<and> tbl w3 k = None"
proof -
  note laws = law [unfolded lawful_nat_api_def]
  from laws have lst: "lawful_list tbl (go_wrap msg (api_ListNatGateways a c v n))" for msg c v n
    by (simp add: lawful_list_wrap)
  from nat.reconcile_recorded [where tbl = tbl, OF rec] need laws lst nat_creates_owned [OF law]
  obtain k r where k: "natId s1 = Some k" "tbl w1 k = Some r" by auto
  from nat.reconcile_sets_id [OF rec] need have "\<not> NATGateway_Skip (VCN_NATGateway (GetVcnSpec s1))"
    by auto
  then have "tbl w3 k = None"
    by (intro nat_del.delete_clears [where tbl = tbl, OF _ _ _ _ _ del _ k(1)])
      (use laws in \<open>auto intro: lawful_list_wrap\<close>)
  with k show ?thesis by blast
qed

text \<open>\<open>DeleteInternetGateway\<close> is guarded by the skip flag of the route table, not by that of the internet
  gateway: an internet gateway that the spec asks to leave alone is deleted all the same.\<close>

theorem DeleteInternetGateway_wrong_guard:
  assumes "InternetGateway_Skip (VCN_InternetGateway (GetVcnSpec s))"
    and "\<not> RouteTable_Skip (VCN_RouteTable (GetVcnSpec s))"
    and "GetInternetGateway a (s, w) = (Ret (Some g), (s, w1))"
    and "api_DeleteInternetGateway a (Res_Id g) w1 = (Ret (), w2)"
  shows "DeleteInternetGateway a (s, w) = (Ret (), (s, w2))"
  using assms by (simp add: igw_del.delete_eq delete_found_def go_simps)

section \<open>Witnesses\<close>

definition slot_igw_api :: "SdkResource option IgwApi" where
  "slot_igw_api = \<lparr>api_ListInternetGateways = (\<lambda>_ _. slot_list), api_GetInternetGateway = slot_get,
     api_CreateInternetGateway = (\<lambda>d. slot_create (slot_resource d)),
     api_DeleteInternetGateway = slot_delete\<rparr>"

definition slot_nat_api :: "SdkResource option NatApi" where
  "slot_nat_api = \<lparr>api_ListNatGateways = (\<lambda>_ _. slot_list), api_GetNatGateway = slot_get,
     api_CreateNatGateway = (\<lambda>d. slot_create (slot_resource d)),
     api_UpdateNatGateway = (\<lambda>i _ _. slot_get i), api_DeleteNatGateway = slot_delete\<rparr>"

definition slot_sgw_api :: "SdkService list \<Rightarrow> SdkResource option SgwApi" where
  "slot_sgw_api services = \<lparr>api_ListServiceGateways = (\<lambda>_ _. slot_list ServiceGatewayName),
     api_GetServiceGateway = slot_get, api_CreateServiceGateway = (\<lambda>d. slot_create (slot_resource d)),
     api_DeleteServiceGateway = slot_delete, api_ListServices = go_ret services\<rparr>"

definition sample_service :: SdkService where
  "sample_service = \<lparr>Service_Id = Some ''svc'',
     Service_CidrBlock = Some ''all-phx-services-in-oracle-services-network''\<rparr>"

lemma slot_igw_lawful: "lawful_igw_api ok_tbl slot_igw_api"
  by (simp add: lawful_igw_api_def slot_igw_api_def slot_lawful)

lemma slot_nat_lawful: "lawful_nat_api ok_tbl slot_nat_api"
  by (simp add: lawful_nat_api_def slot_nat_api_def slot_lawful)

lemma slot_sgw_lawful: "lawful_sgw_api ok_tbl (slot_sgw_api services)"
  by (simp add: lawful_sgw_api_def slot_sgw_api_def slot_lawful)

lemma sample_service_regional: "serves_region (slot_sgw_api [sample_service])"
  by (simp add: serves_region_def slot_sgw_api_def go_simps regional_service_def sample_service_def HasSuffix_def)

lemma sample_subnets [simp]:
  "\<not> IsAllSubnetsPrivate sample_scope" "\<not> IsAllSubnetsPublic sample_scope"
  by (simp_all add: IsAllSubnetsPrivate_def IsAllSubnetsPublic_def GetControlPlaneEndpointSubnet_def
      GetControlPlaneMachineSubnet_def GetSubnetsSpec_def subnet_with_role_def)

lemma sample_ids [simp]: "igwId sample_scope = None" "natId sample_scope = None" "sgwId sample_scope = None"
  by (simp_all add: igwId_def natId_def sgwId_def)

lemma slot_igw_run:
  "\<exists>w1. ReconcileInternetGateway slot_igw_api (sample_scope, None) =
     (Ret (), (setIgwId (Some slot_id) sample_scope, w1))"
  by (simp add: ReconcileInternetGateway_def GetInternetGateway_def CreateInternetGateway_def go_simps
      slot_igw_api_def slot_list_def slot_create_def slot_resource_ok find_owned_def)

lemma slot_nat_run:
  "ReconcileNatGateway slot_nat_api (sample_scope, None) =
     (Ret (), (setNatId (Some slot_id) sample_scope, Some (slot_resource
        \<lparr>CD_CompartmentId = ''comp'', CD_DisplayName = NatGatewayName,
         CD_FreeformTags = GetFreeFormTags sample_scope, CD_DefinedTags = GetDefinedTags sample_scope,
         CD_VcnId = None\<rparr>)))"
  by (simp add: ReconcileNatGateway_def GetNatGateway_def CreateNatGateway_def go_simps
      slot_nat_api_def slot_list_def slot_create_def slot_resource_ok find_owned_def)

lemma slot_sgw_run:
  "\<exists>w1. ReconcileServiceGateway (slot_sgw_api [sample_service]) (sample_scope, None) =
     (Ret (), (setSgwId (Some slot_id) sample_scope, w1))"
  by (simp add: ReconcileServiceGateway_def GetServiceGateway_def CreateServiceGateway_def go_simps
      slot_sgw_api_def slot_list_def slot_create_def slot_resource_ok sample_service_def HasSuffix_def)

lemma slot_nat_delete:
  "DeleteNatGateway slot_nat_api (setNatId (Some slot_id) sample_scope, None) =
     (Ret (), (setNatId (Some slot_id) sample_scope, None))"
  by (simp add: DeleteNatGateway_def delete_found_def GetNatGateway_def go_simps slot_nat_api_def
      slot_get_def not_found_err_def IsNotFound_service)

theorem ReconcileInternetGateway_idempotent_witness:
  "\<exists>w1. ReconcileInternetGateway slot_igw_api (setIgwId (Some slot_id) sample_scope, w1) =
      (Ret (), (setIgwId (Some slot_id) sample_scope, w1)) \<or>
    (\<exists>e. ReconcileInternetGateway slot_igw_api (setIgwId (Some slot_id) sample_scope, w1) =
      (Err e, (setIgwId (Some slot_id) sample_scope, w1)))"
  using slot_igw_run ReconcileInternetGateway_idempotent [OF slot_igw_lawful] by blast

theorem ReconcileNatGateway_idempotent_witness:
  "let (s1, w1) = snd (ReconcileNatGateway slot_nat_api (sample_scope, None)) in
     natId s1 = Some slot_id \<and>
     (ReconcileNatGateway slot_nat_api (s1, w1) = (Ret (), (s1, w1)) \<or>
      (\<exists>e. ReconcileNatGateway slot_nat_api (s1, w1) = (Err e, (s1, w1))))"
  using ReconcileNatGateway_idempotent [OF slot_nat_lawful slot_nat_run] by (simp add: slot_nat_run)

theorem ReconcileServiceGateway_idempotent_witness:
  "\<exists>w1. ReconcileServiceGateway (slot_sgw_api [sample_service]) (setSgwId (Some slot_id) sample_scope, w1) =
      (Ret (), (setSgwId (Some slot_id) sample_scope, w1)) \<or>
    (\<exists>e. ReconcileServiceGateway (slot_sgw_api [sample_service]) (setSgwId (Some slot_id) sample_scope, w1) =
      (Err e, (setSgwId (Some slot_id) sample_scope, w1)))"
  using slot_sgw_run ReconcileServiceGateway_idempotent [OF slot_sgw_lawful sample_service_regional] by blast

theorem ReconcileServiceGateway_silent_witness:
  "\<exists>s1. ReconcileServiceGateway (slot_sgw_api []) (sample_scope, None) = (Ret (), (s1, None)) \<and>
     sgwId s1 = None"
  by (rule ReconcileServiceGateway_silent [where items = "[]"])
    (simp_all add: GetServiceGateway_def go_simps slot_sgw_api_def slot_list_def)

theorem DeleteNatGateway_undoes_Reconcile_witness:
  "\<exists>k. natId (setNatId (Some slot_id) sample_scope) = Some k \<and> ok_tbl (None :: SdkResource option) k = None"
  using DeleteNatGateway_undoes_Reconcile [OF slot_nat_lawful _ _ slot_nat_run slot_nat_delete] by auto

definition igw_skip_scope :: ClusterScope where
  "igw_skip_scope = upd_Vcn (\<lambda>v. v\<lparr>VCN_InternetGateway :=
     \<lparr>InternetGateway_Skip = True, InternetGateway_Id = Some slot_id\<rparr>\<rparr>) sample_scope"

lemma igw_skip_owned: "IsResourceCreatedByClusterAPI igw_skip_scope (BuildClusterTags ''uid'')"
proof -
  have "IsResourceCreatedByClusterAPI igw_skip_scope = IsResourceCreatedByClusterAPI sample_scope"
    unfolding igw_skip_scope_def by (rule same_identityD(7)) simp
  then show ?thesis by (simp add: owned_eq BuildClusterTags_eq tag_at_def)
qed

definition igw_made :: SdkResource where
  "igw_made = \<lparr>Res_Id = Some slot_id, Res_DisplayName = Some InternetGatewayName,
     Res_FreeformTags = BuildClusterTags ''uid''\<rparr>"

lemma igw_skip_found:
  "GetInternetGateway slot_igw_api (igw_skip_scope, Some igw_made) =
     (Ret (Some igw_made), (igw_skip_scope, Some igw_made))"
proof -
  have "igwId igw_skip_scope = Some slot_id" by (simp add: igw_skip_scope_def igwId_def)
  then show ?thesis
    using igw_skip_owned by (simp add: igw_get.lookup_by_id slot_igw_api_def slot_get_def slot_ok_def igw_made_def)
qed

theorem DeleteInternetGateway_wrong_guard_witness:
  "InternetGateway_Skip (VCN_InternetGateway (GetVcnSpec igw_skip_scope)) \<and>
   DeleteInternetGateway slot_igw_api (igw_skip_scope, Some igw_made) = (Ret (), (igw_skip_scope, None))"
  using DeleteInternetGateway_wrong_guard [OF _ _ igw_skip_found]
  by (simp add: igw_skip_scope_def slot_igw_api_def slot_delete_def slot_ok_def igw_made_def)

end
