(* ===== verification/Route_Tables.thy ===== *)
theory Route_Tables
  imports Gateways
begin

text \<open>
  The route tables (src/cloud/scope/route_table_reconciler.go): which ones are desired, lookup,
  creation with their rules, reconciliation and deletion. The lookup of one type of table is an
  instance of \<open>tagged_lookup\<close>. The last part relates the desired tables to the subnets that use them
  and to the gateways that their rules point to.
\<close>

section \<open>Model\<close>

abbreviation PublicRouteTableName :: string where "PublicRouteTableName \<equiv> ''public-route-table''"
abbreviation PrivateRouteTableName :: string where "PrivateRouteTableName \<equiv> ''private-route-table''"

definition GetDesiredRouteTables :: "ClusterScope \<Rightarrow> string list" where
  "GetDesiredRouteTables s =
     (if IsAllSubnetsPrivate s then [Private]
      else if IsAllSubnetsPublic s then [Public]
      else [Private, Public])"

definition getRouteTableId :: "ClusterScope \<Rightarrow> string \<Rightarrow> string option" where
  "getRouteTableId s routeTableType =
     (if routeTableType = Private then RouteTable_PrivateRouteTableId (VCN_RouteTable (GetVcnSpec s))
      else RouteTable_PublicRouteTableId (VCN_RouteTable (GetVcnSpec s)))"

definition setRTStatus :: "string option \<Rightarrow> string \<Rightarrow> ClusterScope \<Rightarrow> ClusterScope" where
  "setRTStatus i routeTableType = upd_Vcn (\<lambda>v. v\<lparr>VCN_RouteTable :=
     (if routeTableType = Private then (VCN_RouteTable v)\<lparr>RouteTable_PrivateRouteTableId := i\<rparr>
      else (VCN_RouteTable v)\<lparr>RouteTable_PublicRouteTableId := i\<rparr>)\<rparr>)"

definition routeTableName :: "string \<Rightarrow> string" where
  "routeTableName routeTableType =
     (if routeTableType = Private then PrivateRouteTableName else PublicRouteTableName)"

definition getRouteTable :: "'w RtApi \<Rightarrow> string \<Rightarrow> ('w, SdkResource option) scope_go" where
  "getRouteTable a routeTableType =
     go_bind get_scope (\<lambda>s.
     case getRouteTableId s routeTableType of
       Some i \<Rightarrow> go_bind (api (api_GetRouteTable a (Some i))) (accept_owned s)
     | None \<Rightarrow>
         go_bind (api (go_wrap ''failed to list route tables''
             (api_ListRouteTables a (GetCompartmentId s) (getVcnId s) (routeTableName routeTableType)))) (\<lambda>items.
         go_ret (find_owned s items)))"

definition privateRouteRules :: "ClusterScope \<Rightarrow> RouteRule list" where
  "privateRouteRules s =
     [\<lparr>RouteRule_DestinationType = RouteCidrBlock, RouteRule_Destination = ''0.0.0.0/0'',
       RouteRule_NetworkEntityId = natId s, RouteRule_Description = ''traffic to the internet''\<rparr>,
      \<lparr>RouteRule_DestinationType = RouteServiceCidrBlock,
       RouteRule_Destination = Sprintf ''all-%s-services-in-oracle-services-network'' [ToLower (CS_RegionKey s)],
       RouteRule_NetworkEntityId = sgwId s, RouteRule_Description = ''traffic to OCI services''\<rparr>]"

definition peerRouteRules :: "VCNPeering \<Rightarrow> string option \<Rightarrow> RouteRule list" where
  "peerRouteRules vcnPeering drgId =
     map (\<lambda>rule. \<lparr>RouteRule_DestinationType = RouteCidrBlock,
        RouteRule_Destination = PeerRouteRule_VCNCIDRRange rule,
        RouteRule_NetworkEntityId = drgId, RouteRule_Description = ''traffic to peer DRG''\<rparr>)
       (VCNPeering_PeerRouteRules vcnPeering)"

definition publicRouteRules :: "ClusterScope \<Rightarrow> SdkVcn \<Rightarrow> RouteRule list" where
  "publicRouteRules s vcn =
     [\<lparr>RouteRule_DestinationType = RouteCidrBlock, RouteRule_Destination = ''0.0.0.0/0'',
       RouteRule_NetworkEntityId = igwId s, RouteRule_Description = ''traffic to/from internet''\<rparr>] @
     (if Vcn_Ipv6CidrBlocks vcn \<noteq> None
      then [\<lparr>RouteRule_DestinationType = RouteCidrBlock, RouteRule_Destination = ''::/0'',
        RouteRule_NetworkEntityId = igwId s, RouteRule_Description = ''ipv6 traffic to/from internet''\<rparr>]
      else [])"

text \<open>The rules that \<open>CreateRouteTable\<close> puts into its request.\<close>

definition routeRulesFor :: "'w VcnApi \<Rightarrow> string \<Rightarrow> ('w, RouteRule list) scope_go" where
  "routeRulesFor va routeTableType =
     go_bind get_scope (\<lambda>s.
     if routeTableType = Private then
       (case NetworkSpec_VCNPeering (GetNetworkSpec s) of
          None \<Rightarrow> go_ret (privateRouteRules s)
        | Some vcnPeering \<Rightarrow>
            go_bind (getDRG s) (\<lambda>drg.
            if drg = None then go_throw (ErrNew ''Create Route Table: DRG has not been specified'')
            else
              go_bind (getDrgID s) (\<lambda>drgId.
              if drgId = None then go_throw (ErrNew ''Create Route Table: DRG ID has not been set'')
              else go_ret (privateRouteRules s @ peerRouteRules vcnPeering drgId))))
     else
       go_bind (api (go_wrap ''failed to get VCN for route table creation'' (api_GetVcn va (getVcnId s)))) (\<lambda>vcn.
       go_ret (publicRouteRules s vcn)))"

definition CreateRouteTable :: "'w VcnApi \<Rightarrow> 'w RtApi \<Rightarrow> string \<Rightarrow> ('w, string option) scope_go" where
  "CreateRouteTable va a routeTableType =
     go_bind get_scope (\<lambda>s.
     go_bind (routeRulesFor va routeTableType) (\<lambda>routeRules.
     go_bind (api (go_wrap ''failed create route table''
         (api_CreateRouteTable a
            \<lparr>CD_CompartmentId = GetCompartmentId s, CD_DisplayName = routeTableName routeTableType,
             CD_FreeformTags = GetFreeFormTags s, CD_DefinedTags = GetDefinedTags s,
             CD_VcnId = getVcnId s, CRT_RouteRules = routeRules\<rparr>))) (\<lambda>resp.
     go_bind (go_deref (Res_Id resp)) (\<lambda>_.
     go_ret (Res_Id resp)))))"

text \<open>The body of the loop over the desired tables.\<close>

definition reconcileRouteTable :: "'w VcnApi \<Rightarrow> 'w RtApi \<Rightarrow> string \<Rightarrow> ('w, unit) scope_go" where
  "reconcileRouteTable va a rt =
     go_bind (getRouteTable a rt) (\<lambda>routeTable. case routeTable of
       Some r \<Rightarrow> mod_scope (setRTStatus (Res_Id r) rt)
     | None \<Rightarrow>
         go_bind (CreateRouteTable va a rt) (\<lambda>rtId.
         mod_scope (setRTStatus rtId rt)))"

definition ReconcileRouteTable :: "'w VcnApi \<Rightarrow> 'w RtApi \<Rightarrow> ('w, unit) scope_go" where
  "ReconcileRouteTable va a =
     go_bind get_scope (\<lambda>s.
     if RouteTable_Skip (VCN_RouteTable (GetVcnSpec s)) then go_ret ()
     else go_for (GetDesiredRouteTables s) (reconcileRouteTable va a))"

definition deleteRt :: "'w RtApi \<Rightarrow> SdkResource \<Rightarrow> ('w, unit) go" where
  "deleteRt a rt =
     go_bind (go_wrap ''failed to delete route table'' (api_DeleteRouteTable a (Res_Id rt))) (\<lambda>_.
     go_bind (go_deref (Res_Id rt)) (\<lambda>_. go_ret ()))"

definition DeleteRouteTables :: "'w RtApi \<Rightarrow> ('w, unit) scope_go" where
  "DeleteRouteTables a =
     go_bind get_scope (\<lambda>s.
     if RouteTable_Skip (VCN_RouteTable (GetVcnSpec s)) then go_ret ()
     else go_for (GetDesiredRouteTables s) (\<lambda>rt. delete_found (getRouteTable a rt) (deleteRt a)))"

section \<open>Instances of the contracts\<close>

interpretation rt: tagged_lookup "\<lambda>s. getRouteTableId s ty" "api_GetRouteTable a"
  "\<lambda>s. go_wrap ''failed to list route tables''
     (api_ListRouteTables a (GetCompartmentId s) (getVcnId s) (routeTableName ty))"
  "\<lambda>_ _. True" "getRouteTable a ty" for a :: "'w RtApi" and ty
  by unfold_locales (simp add: getRouteTable_def find_owned_def go_simps split: option.split)

lemma deleteRt_delop:
  "snd (deleteRt a r w) = snd (api_DeleteRouteTable a (Res_Id r) w)"
  "deleteRt a r w = (Ret (), w') \<Longrightarrow> api_DeleteRouteTable a (Res_Id r) w = (Ret (), w')"
  by (auto simp: deleteRt_def go_simps split: res.splits prod.splits option.splits)

text \<open>Deletion of one type of table, the body of the loop of \<open>DeleteRouteTables\<close>.\<close>

interpretation rt_del: managed_delete "\<lambda>s. getRouteTableId s ty" "api_GetRouteTable a"
  "\<lambda>s. go_wrap ''failed to list route tables''
     (api_ListRouteTables a (GetCompartmentId s) (getVcnId s) (routeTableName ty))"
  "\<lambda>_ _. True" "getRouteTable a ty" "\<lambda>_. False" "deleteRt a"
  "delete_found (getRouteTable a ty) (deleteRt a)" "api_DeleteRouteTable a" for a :: "'w RtApi" and ty
  by unfold_locales (rule deleteRt_delop(1) | erule deleteRt_delop(2) | simp)+

section \<open>Desired tables, subnets and gateways\<close>

lemma desired_types: "set (GetDesiredRouteTables s) \<subseteq> {Private, Public}"
  by (auto simp: GetDesiredRouteTables_def)

lemma not_all_public: "Some x \<in> set (GetSubnetsSpec s) \<Longrightarrow> Subnet_Type x = Private \<Longrightarrow> \<not> IsAllSubnetsPublic s"
  by (auto simp: IsAllSubnetsPublic_def set_ToSubnetSlice list_ex_iff)

lemma not_all_private: "Some x \<in> set (GetSubnetsSpec s) \<Longrightarrow> Subnet_Type x = Public \<Longrightarrow> \<not> IsAllSubnetsPrivate s"
  by (auto simp: IsAllSubnetsPrivate_def set_ToSubnetSlice list_ex_iff)

lemma subnet_type_desired:
  assumes "Some x \<in> set (GetSubnetsSpec s)" and "Subnet_Type x \<in> {Private, Public}"
  shows "Subnet_Type x \<in> set (GetDesiredRouteTables s)"
  using assms not_all_public not_all_private by (auto simp: GetDesiredRouteTables_def)

text \<open>All subnets private and all subnets public exclude each other once every subnet has one of the two
  types: the first requires a subnet to exist.\<close>

lemma private_public_exclusive:
  assumes "\<And>x. Some x \<in> set (GetSubnetsSpec s) \<Longrightarrow> Subnet_Type x \<in> {Private, Public}"
  shows "\<not> (IsAllSubnetsPrivate s \<and> IsAllSubnetsPublic s)"
proof
  assume both: "IsAllSubnetsPrivate s \<and> IsAllSubnetsPublic s"
  then obtain x where "GetControlPlaneEndpointSubnet s = Some x"
    by (auto simp: IsAllSubnetsPrivate_def split: if_splits)
  then have x: "Some x \<in> set (GetSubnetsSpec s)"
    unfolding GetControlPlaneEndpointSubnet_def by (blast dest: subnet_with_role_Some)
  with assms have "Subnet_Type x = Private \<or> Subnet_Type x = Public" by blast
  with both x not_all_private not_all_public show False by blast
qed

text \<open>The desired route tables match the gateways. If every subnet is private or public, the private
  table, whose rules point to the NAT and service gateways, is desired exactly when these gateways are
  (\<open>ReconcileNatGateway\<close> and \<open>ReconcileServiceGateway\<close> return early when all subnets are public), and the
  public table exactly when the internet gateway is.\<close>

theorem desired_tables_match_gateways:
  assumes "\<And>x. Some x \<in> set (GetSubnetsSpec s) \<Longrightarrow> Subnet_Type x \<in> {Private, Public}"
  shows "(Private \<in> set (GetDesiredRouteTables s) \<longleftrightarrow> \<not> IsAllSubnetsPublic s) \<and>
    (Public \<in> set (GetDesiredRouteTables s) \<longleftrightarrow> \<not> IsAllSubnetsPrivate s)"
  using private_public_exclusive [OF assms] by (auto simp: GetDesiredRouteTables_def)

section \<open>What a reconciliation records\<close>

definition lawful_rt_api :: "('w, SdkResource) table \<Rightarrow> 'w VcnApi \<Rightarrow> 'w RtApi \<Rightarrow> bool" where
  "lawful_rt_api tbl va a \<longleftrightarrow> keyed_by_id tbl \<and> lawful_get tbl (api_GetRouteTable a) \<and>
     honest_get tbl (api_GetRouteTable a) \<and>
     (\<forall>c v n. lawful_list tbl (api_ListRouteTables a c v n)) \<and>
     (\<forall>d. lawful_create tbl (CD_FreeformTags d) (CD_DisplayName d) (api_CreateRouteTable a d)) \<and>
     lawful_delete tbl (api_DeleteRouteTable a) \<and>
     (\<forall>i w. tbl (snd (api_GetVcn va i w)) = tbl w)"

lemma setRTStatus_simps [simp]:
  "getRouteTableId (setRTStatus i ty s) ty = i"
  "ty \<in> {Private, Public} \<Longrightarrow> ty' \<in> {Private, Public} \<Longrightarrow> ty' \<noteq> ty \<Longrightarrow>
     getRouteTableId (setRTStatus i ty s) ty' = getRouteTableId s ty'"
  "same_identity s (setRTStatus i ty s)" "GetSubnetsSpec (setRTStatus i ty s) = GetSubnetsSpec s"
  "IsResourceCreatedByClusterAPI (setRTStatus i ty s) = IsResourceCreatedByClusterAPI s"
  by (auto simp: setRTStatus_def getRouteTableId_def GetSubnetsSpec_def intro!: same_identityD(7))

lemma routeRulesFor_state:
  assumes "lawful_rt_api tbl va a" and "routeRulesFor va ty (s, w) = (x, (s1, w1))"
  shows "s1 = s \<and> tbl w1 = tbl w"
proof -
  from assms(1) have v: "tbl (snd (api_GetVcn va i w)) = tbl w" for i by (simp add: lawful_rt_api_def)
  from assms(2) show ?thesis using v [of "getVcnId s"]
    by (auto simp: routeRulesFor_def go_simps split: if_splits option.splits res.splits prod.splits)
qed

lemma CreateRouteTable_made:
  assumes law: "lawful_rt_api tbl va a" and run: "CreateRouteTable va a ty (s, w) = (Ret i, t)"
  shows "\<exists>k r. i = Some k \<and> fst t = s \<and> tbl w k = None \<and> tbl (snd t) = (tbl w)(k \<mapsto> r) \<and>
    IsResourceCreatedByClusterAPI s (Res_FreeformTags r)"
proof -
  let ?d = "\<lambda>rules. \<lparr>CD_CompartmentId = GetCompartmentId s, CD_DisplayName = routeTableName ty,
    CD_FreeformTags = GetFreeFormTags s, CD_DefinedTags = GetDefinedTags s,
    CD_VcnId = getVcnId s, CRT_RouteRules = rules\<rparr>"
  from run obtain rules s1 w1 where rr: "routeRulesFor va ty (s, w) = (Ret rules, (s1, w1))"
    by (auto simp: CreateRouteTable_def go_simps split: res.splits prod.splits)
  with routeRulesFor_state [OF law rr] run obtain r where s1: "tbl w1 = tbl w" "fst t = s"
    and c: "api_CreateRouteTable a (?d rules) w1 = (Ret r, snd t)" "i = Res_Id r"
    by (auto simp: CreateRouteTable_def go_simps split: res.splits prod.splits option.splits)
  from law have "lawful_create tbl (GetFreeFormTags s) (routeTableName ty) (api_CreateRouteTable a (?d rules))"
    unfolding lawful_rt_api_def by (metis CreateDetails.select_convs(2,3))
  from lawful_createD [OF this c(1)] obtain k where "tbl w1 k = None" "tbl (snd t) = (tbl w1)(k \<mapsto> r)"
    "Res_Id r = Some k" "Res_FreeformTags r = GetFreeFormTags s" by blast
  with s1 c(2) GetFreeFormTags_owned [of s] show ?thesis by metis
qed

lemma reconcileRouteTable_step:
  assumes law: "lawful_rt_api tbl va a"
    and run: "reconcileRouteTable va a ty (s, w) = (Ret (), (s1, w1))"
  shows "(\<exists>k r. s1 = setRTStatus (Some k) ty s \<and> tbl w1 k = Some r \<and>
      IsResourceCreatedByClusterAPI s (Res_FreeformTags r)) \<and> tbl w \<subseteq>\<^sub>m tbl w1"
proof -
  note laws = law [unfolded lawful_rt_api_def]
  from laws have lst: "lawful_list tbl (go_wrap msg (api_ListRouteTables a c v n))" for msg c v n
    by (simp add: lawful_list_wrap)
  from run obtain o' t where l: "getRouteTable a ty (s, w) = (Ret o', t)"
    by (auto simp: reconcileRouteTable_def go_simps split: res.splits prod.splits)
  show ?thesis
  proof (cases o')
    case (Some r)
    with rt.lookup_in_table [where tbl = tbl, OF _ lst _ l [unfolded Some]] laws
    obtain k where "t = (s, w)" "tbl w k = Some r" "Res_Id r = Some k" by auto
    with run l Some rt.lookup_owned [OF l [unfolded Some]] show ?thesis
      by (auto simp: reconcileRouteTable_def go_simps)
  next
    case None
    from rt.lookup_lawful_cases [where tbl = tbl, OF _ lst l] laws have t: "t = (s, w)" by simp
    with run l None obtain i u where c: "CreateRouteTable va a ty (s, w) = (Ret i, u)"
      and s1: "s1 = setRTStatus i ty (fst u)" "w1 = snd u"
      by (auto simp: reconcileRouteTable_def go_simps mod_scope_def split: res.splits prod.splits)
    from CreateRouteTable_made [OF law c] obtain k r where
      "i = Some k" "fst u = s" "tbl w k = None" "tbl w1 = (tbl w)(k \<mapsto> r)"
      "IsResourceCreatedByClusterAPI s (Res_FreeformTags r)" using s1 by auto
    with s1 show ?thesis by (auto simp: map_le_def)
  qed
qed

lemma reconcileRouteTables_loop:
  assumes law: "lawful_rt_api tbl va a" and "distinct tys" and "set tys \<subseteq> {Private, Public}"
    and "go_for tys (reconcileRouteTable va a) (s, w) = (Ret (), (s1, w1))"
  shows "(\<forall>ty \<in> set tys. \<exists>k r. getRouteTableId s1 ty = Some k \<and> tbl w1 k = Some r \<and>
      IsResourceCreatedByClusterAPI s (Res_FreeformTags r)) \<and>
    (\<forall>ty \<in> {Private, Public} - set tys. getRouteTableId s1 ty = getRouteTableId s ty) \<and>
    tbl w \<subseteq>\<^sub>m tbl w1 \<and> same_identity s s1"
  using assms(2-)
proof (induction tys arbitrary: s w)
  case Nil
  then show ?case by (auto simp: go_simps)
next
  case (Cons ty tys)
  then obtain s2 w2 where r: "reconcileRouteTable va a ty (s, w) = (Ret (), (s2, w2))"
    and rest: "go_for tys (reconcileRouteTable va a) (s2, w2) = (Ret (), (s1, w1))"
    by (auto simp: go_simps split: res.splits prod.splits)
  from reconcileRouteTable_step [OF law r] obtain k x where s2: "s2 = setRTStatus (Some k) ty s"
    and k: "tbl w2 k = Some x" "IsResourceCreatedByClusterAPI s (Res_FreeformTags x)"
    and le: "tbl w \<subseteq>\<^sub>m tbl w2" by blast
  from Cons.prems have d: "distinct tys" "set tys \<subseteq> {Private, Public}" "ty \<in> {Private, Public}" "ty \<notin> set tys"
    by auto
  note IH = Cons.IH [OF d(1,2) rest]
  from IH s2 d have ty: "getRouteTableId s1 ty = Some k" by auto
  from IH k(1) have "tbl w1 k = Some x" by (auto simp: map_le_def dom_def)
  moreover have "same_identity s s1"
    using IH s2 same_identity_trans setRTStatus_simps(3) by blast
  moreover from IH le have "tbl w \<subseteq>\<^sub>m tbl w1" by (blast intro: map_le_trans)
  ultimately show ?case using IH ty k(2) s2 d by auto
qed

text \<open>C35. Route tables for all subnets. When \<open>ReconcileRouteTable\<close> returns nil and the route tables are not to be skipped, every subnet of the
  spec that is private or public finds the route table of its type recorded in the spec, and the recorded table exists and carries this
  cluster's tags. (\<open>CreateSubnet\<close> attaches the subnet to \<open>getRouteTableId(spec.Type)\<close>.) If they are to be skipped, neither the
  spec nor the cloud has changed.\<close>

theorem ReconcileRouteTable_serves_subnets:
  assumes law: "lawful_rt_api tbl va a" and run: "ReconcileRouteTable va a (s, w) = (Ret (), (s1, w1))"
    and sub: "Some x \<in> set (GetSubnetsSpec s)" "Subnet_Type x \<in> {Private, Public}"
  shows "if RouteTable_Skip (VCN_RouteTable (GetVcnSpec s)) then s1 = s \<and> w1 = w
    else \<exists>k r. getRouteTableId s1 (Subnet_Type x) = Some k \<and> tbl w1 k = Some r \<and>
      IsResourceCreatedByClusterAPI s1 (Res_FreeformTags r)"
proof (cases "RouteTable_Skip (VCN_RouteTable (GetVcnSpec s))")
  case True
  with run show ?thesis by (simp add: ReconcileRouteTable_def go_simps)
next
  case False
  from run False have loop: "go_for (GetDesiredRouteTables s) (reconcileRouteTable va a) (s, w) = (Ret (), (s1, w1))"
    by (simp add: ReconcileRouteTable_def go_simps)
  have "distinct (GetDesiredRouteTables s)" by (simp add: GetDesiredRouteTables_def)
  from reconcileRouteTables_loop [OF law this desired_types loop] subnet_type_desired [OF sub]
  show ?thesis using same_identityD(7) False by metis
qed

section \<open>Witnesses\<close>

definition sample_subnet :: "Role \<Rightarrow> SubnetType \<Rightarrow> Subnet" where
  "sample_subnet role ty = zero_Subnet\<lparr>Subnet_Role := role, Subnet_Type := ty, Subnet_Name := role\<rparr>"

definition private_scope :: ClusterScope where
  "private_scope = upd_Vcn (\<lambda>v. v\<lparr>VCN_Subnets :=
     [Some (sample_subnet ControlPlaneEndpointRole Private), Some (sample_subnet ServiceLoadBalancerRole Private)]\<rparr>)
     sample_scope"

lemma private_scope_simps [simp]:
  "GetSubnetsSpec private_scope =
     [Some (sample_subnet ControlPlaneEndpointRole Private), Some (sample_subnet ServiceLoadBalancerRole Private)]"
  "VCN_RouteTable (GetVcnSpec private_scope) = VCN_RouteTable sample_vcn"
  "NetworkSpec_VCNPeering (GetNetworkSpec private_scope) = None"
  "getRouteTableId private_scope Private = None"
  by (simp_all add: private_scope_def GetSubnetsSpec_def getRouteTableId_def sample_network_def)

lemma private_scope_private: "IsAllSubnetsPrivate private_scope"
  by (simp add: IsAllSubnetsPrivate_def GetControlPlaneEndpointSubnet_def GetServiceLoadBalancerSubnet_def
      subnet_with_role_def ToSubnetSlice_def sample_subnet_def)

definition slot_rt_api :: "SdkResource option RtApi" where
  "slot_rt_api = \<lparr>api_ListRouteTables = (\<lambda>_ _. slot_list), api_GetRouteTable = slot_get,
     api_CreateRouteTable = (\<lambda>d. slot_create (slot_resource d)), api_DeleteRouteTable = slot_delete\<rparr>"

definition no_vcn_api :: "'w VcnApi" where
  "no_vcn_api = \<lparr>api_ListVcns = (\<lambda>_ _. go_ret []), api_GetVcn = (\<lambda>_. go_throw not_found_err),
     api_CreateVcn = (\<lambda>_ _. go_throw quota_err), api_UpdateVcn = (\<lambda>_ _. go_throw not_found_err),
     api_DeleteVcn = (\<lambda>_. go_throw not_found_err)\<rparr>"

lemma slot_rt_lawful: "lawful_rt_api ok_tbl no_vcn_api slot_rt_api"
  by (simp add: lawful_rt_api_def slot_rt_api_def no_vcn_api_def slot_lawful go_simps)

lemma slot_rt_run:
  "\<exists>w1. ReconcileRouteTable no_vcn_api slot_rt_api (private_scope, None) =
     (Ret (), (setRTStatus (Some slot_id) Private private_scope, w1))"
  by (simp add: ReconcileRouteTable_def GetDesiredRouteTables_def private_scope_private reconcileRouteTable_def
      getRouteTable_def CreateRouteTable_def routeRulesFor_def go_simps slot_rt_api_def slot_list_def
      slot_create_def slot_resource_ok find_owned_def)

theorem desired_tables_match_gateways_witness:
  "Private \<in> set (GetDesiredRouteTables private_scope) \<longleftrightarrow> \<not> IsAllSubnetsPublic private_scope"
  by (rule desired_tables_match_gateways [THEN conjunct1]) (auto simp: sample_subnet_def)

theorem ReconcileRouteTable_serves_subnets_witness:
  "\<exists>s1 w1 k r. ReconcileRouteTable no_vcn_api slot_rt_api (private_scope, None) = (Ret (), (s1, w1)) \<and>
     getRouteTableId s1 Private = Some k \<and> ok_tbl w1 k = Some r"
proof -
  from slot_rt_run obtain s1 w1 where
    run: "ReconcileRouteTable no_vcn_api slot_rt_api (private_scope, None) = (Ret (), (s1, w1))" by blast
  from ReconcileRouteTable_serves_subnets [OF slot_rt_lawful run, of "sample_subnet ControlPlaneEndpointRole Private"]
  have "\<exists>k r. getRouteTableId s1 Private = Some k \<and> ok_tbl w1 k = Some r"
    by (auto simp: sample_subnet_def split: if_splits)
  with run show ?thesis by blast
qed

end
