(* ===== verification/Security_Rules.thy ===== *)
theory Security_Rules
  imports Gateways
begin

text \<open>
  Security lists (src/cloud/scope/security_list_reconciler.go) and the conversions between the rules of
  the spec and those of the SDK, in both directions (\<open>getProtocolOptions\<close> and, from nsg_reconciler.go,
  \<open>getProtocolOptionsForSpec\<close>).
\<close>

section \<open>Protocol options\<close>

definition sdkPortRange :: "PortRange \<Rightarrow> SdkPortRange" where
  "sdkPortRange r = \<lparr>SdkPortRange_Max = PortRange_Max r, SdkPortRange_Min = PortRange_Min r\<rparr>"

definition sdkIcmp :: "IcmpOptions \<Rightarrow> SdkIcmpOptions" where
  "sdkIcmp o' = \<lparr>SdkIcmp_Type = IcmpOptions_Type o', SdkIcmp_Code = IcmpOptions_Code o'\<rparr>"

definition sdkTcp :: "TcpOptions \<Rightarrow> SdkTcpOptions" where
  "sdkTcp o' = \<lparr>SdkTcp_DestinationPortRange = map_option sdkPortRange (TcpOptions_DestinationPortRange o'),
     SdkTcp_SourcePortRange = map_option sdkPortRange (TcpOptions_SourcePortRange o')\<rparr>"

definition sdkUdp :: "UdpOptions \<Rightarrow> SdkUdpOptions" where
  "sdkUdp o' = \<lparr>SdkUdp_DestinationPortRange = map_option sdkPortRange (UdpOptions_DestinationPortRange o'),
     SdkUdp_SourcePortRange = map_option sdkPortRange (UdpOptions_SourcePortRange o')\<rparr>"

definition getProtocolOptions ::
  "IcmpOptions option \<Rightarrow> TcpOptions option \<Rightarrow> UdpOptions option \<Rightarrow>
   SdkIcmpOptions option \<times> SdkTcpOptions option \<times> SdkUdpOptions option" where
  "getProtocolOptions icmp tcp udp = (map_option sdkIcmp icmp, map_option sdkTcp tcp, map_option sdkUdp udp)"

definition specPortRange :: "SdkPortRange \<Rightarrow> PortRange" where
  "specPortRange r = \<lparr>PortRange_Max = SdkPortRange_Max r, PortRange_Min = SdkPortRange_Min r\<rparr>"

definition specIcmp :: "SdkIcmpOptions \<Rightarrow> IcmpOptions" where
  "specIcmp o' = \<lparr>IcmpOptions_Type = SdkIcmp_Type o', IcmpOptions_Code = SdkIcmp_Code o'\<rparr>"

definition specTcp :: "SdkTcpOptions \<Rightarrow> TcpOptions" where
  "specTcp o' = \<lparr>TcpOptions_DestinationPortRange = map_option specPortRange (SdkTcp_DestinationPortRange o'),
     TcpOptions_SourcePortRange = map_option specPortRange (SdkTcp_SourcePortRange o')\<rparr>"

definition specUdp :: "SdkUdpOptions \<Rightarrow> UdpOptions" where
  "specUdp o' = \<lparr>UdpOptions_DestinationPortRange = map_option specPortRange (SdkUdp_DestinationPortRange o'),
     UdpOptions_SourcePortRange = map_option specPortRange (SdkUdp_SourcePortRange o')\<rparr>"

definition getProtocolOptionsForSpec ::
  "SdkIcmpOptions option \<Rightarrow> SdkTcpOptions option \<Rightarrow> SdkUdpOptions option \<Rightarrow>
   IcmpOptions option \<times> TcpOptions option \<times> UdpOptions option" where
  "getProtocolOptionsForSpec icmp tcp udp =
     (map_option specIcmp icmp, map_option specTcp tcp, map_option specUdp udp)"

lemma port_range_inverse [simp]:
  "specPortRange (sdkPortRange r) = r" "sdkPortRange (specPortRange q) = q"
  by (simp_all add: specPortRange_def sdkPortRange_def)

lemma options_inverse [simp]:
  "specIcmp (sdkIcmp i) = i" "specTcp (sdkTcp t) = t" "specUdp (sdkUdp u) = u"
  "sdkIcmp (specIcmp j) = j" "sdkTcp (specTcp v) = v" "sdkUdp (specUdp y) = y"
  by (simp_all add: specIcmp_def sdkIcmp_def specTcp_def sdkTcp_def specUdp_def sdkUdp_def
      option.map_comp comp_def option.map_ident)

lemma map_options_inverse [simp]:
  "map_option (specIcmp \<circ> sdkIcmp) i = i" "map_option (specTcp \<circ> sdkTcp) t = t"
  "map_option (specUdp \<circ> sdkUdp) u = u"
  by (simp_all add: comp_def option.map_ident)

text \<open>The protocol options survive the round trip through the SDK's types in both directions, so that
  comparing a rule read from the cloud with a rule of the spec compares what was written.\<close>

theorem protocol_options_roundtrip:
  "(case getProtocolOptions icmp tcp udp of (i, t, u) \<Rightarrow> getProtocolOptionsForSpec i t u) = (icmp, tcp, udp) \<and>
   (case getProtocolOptionsForSpec icmp' tcp' udp' of (i, t, u) \<Rightarrow> getProtocolOptions i t u) = (icmp', tcp', udp')"
  by (simp add: getProtocolOptions_def getProtocolOptionsForSpec_def option.map_comp comp_def option.map_ident)

section \<open>Security lists\<close>

definition statelessOrFalse :: "bool option \<Rightarrow> bool option" where
  "statelessOrFalse b = (case b of None \<Rightarrow> Some False | Some _ \<Rightarrow> b)"

definition convertSecurityListIngressRule :: "IngressSecurityRule \<Rightarrow> SdkIngressRule" where
  "convertSecurityListIngressRule rule =
     (let (icmpOptions, tcpOptions, udpOptions) =
        getProtocolOptions (Ingress_IcmpOptions rule) (Ingress_TcpOptions rule) (Ingress_UdpOptions rule)
      in \<lparr>SIR_Protocol = Ingress_Protocol rule, SIR_Source = Ingress_Source rule,
          SIR_IcmpOptions = icmpOptions, SIR_IsStateless = statelessOrFalse (Ingress_IsStateless rule),
          SIR_SourceType = Ingress_SourceType rule, SIR_TcpOptions = tcpOptions,
          SIR_UdpOptions = udpOptions, SIR_Description = Ingress_Description rule\<rparr>)"

definition convertSecurityListEgressRule :: "EgressSecurityRule \<Rightarrow> SdkEgressRule" where
  "convertSecurityListEgressRule rule =
     (let (icmpOptions, tcpOptions, udpOptions) =
        getProtocolOptions (Egress_IcmpOptions rule) (Egress_TcpOptions rule) (Egress_UdpOptions rule)
      in \<lparr>SER_Protocol = Egress_Protocol rule, SER_Destination = Egress_Destination rule,
          SER_IcmpOptions = icmpOptions, SER_IsStateless = statelessOrFalse (Egress_IsStateless rule),
          SER_DestinationType = Egress_DestinationType rule, SER_TcpOptions = tcpOptions,
          SER_UdpOptions = udpOptions, SER_Description = Egress_Description rule\<rparr>)"

definition GetSecurityList :: "'w SecListApi \<Rightarrow> SecurityList \<Rightarrow> ('w, SdkSecurityList option) scope_go" where
  "GetSecurityList a spec =
     go_bind get_scope (\<lambda>s.
     case SecurityList_ID spec of
       Some i \<Rightarrow> go_bind (api (api_GetSecurityList a (Some i))) (accept_owned s)
     | None \<Rightarrow>
         go_bind (api (go_wrap ''failed to list security lists''
             (api_ListSecurityLists a (GetCompartmentId s) (getVcnId s) (SecurityList_Name spec)))) (\<lambda>items.
         go_ret (find_owned s items)))"

definition CreateSecurityList :: "'w SecListApi \<Rightarrow> SecurityList \<Rightarrow> ('w, string option) scope_go" where
  "CreateSecurityList a secList =
     go_bind get_scope (\<lambda>s.
     go_bind (api (go_wrap ''failed create security list''
         (api_CreateSecurityList a
            \<lparr>CD_CompartmentId = GetCompartmentId s, CD_DisplayName = SecurityList_Name secList,
             CD_FreeformTags = GetFreeFormTags s, CD_DefinedTags = GetDefinedTags s, CD_VcnId = getVcnId s,
             CSL_EgressSecurityRules = map convertSecurityListEgressRule (SecurityList_EgressRules secList),
             CSL_IngressSecurityRules = map convertSecurityListIngressRule (SecurityList_IngressRules secList)\<rparr>))) (\<lambda>resp.
     go_bind (go_deref (Res_Id resp)) (\<lambda>_.
     go_ret (Res_Id resp))))"

text \<open>The searches of \<open>IsSecurityListEqual\<close>: every desired rule is among the actual ones.\<close>

definition rulesFound :: "('r \<Rightarrow> 'q) \<Rightarrow> 'r list \<Rightarrow> 'q list \<Rightarrow> bool" where
  "rulesFound conv desired actual = list_all (\<lambda>rule. list_ex (\<lambda>existing. existing = conv rule) actual) desired"

definition IsSecurityListEqual :: "SdkSecurityList \<Rightarrow> SecurityList \<Rightarrow> ('s, bool) go" where
  "IsSecurityListEqual actual desired =
     go_bind (go_deref (Res_DisplayName actual)) (\<lambda>name.
     go_ret (
       if name \<noteq> SecurityList_Name desired then False
       else if length (SL_IngressSecurityRules actual) \<noteq> length (SecurityList_IngressRules desired) then False
       else if length (SL_EgressSecurityRules actual) \<noteq> length (SecurityList_EgressRules desired) then False
       else if \<not> rulesFound convertSecurityListIngressRule (SecurityList_IngressRules desired)
                  (SL_IngressSecurityRules actual) then False
       else rulesFound convertSecurityListEgressRule (SecurityList_EgressRules desired)
              (SL_EgressSecurityRules actual)))"

definition UpdateSecurityList :: "'w SecListApi \<Rightarrow> SecurityList \<Rightarrow> ('w, unit) scope_go" where
  "UpdateSecurityList a spec = (case SecurityList_ID spec of
      None \<Rightarrow> go_throw (ErrNew ''Update Security List failed: unable to update with a nil ID'')
    | Some i \<Rightarrow>
        go_bind (api (go_wrap ''failed to reconcile the security list, failed to update''
            (api_UpdateSecurityList a i
               \<lparr>USL_DisplayName = SecurityList_Name spec,
                USL_EgressSecurityRules = map convertSecurityListEgressRule (SecurityList_EgressRules spec),
                USL_IngressSecurityRules = map convertSecurityListIngressRule (SecurityList_IngressRules spec)\<rparr>))) (\<lambda>resp.
        go_bind (go_deref (Res_Id resp)) (\<lambda>_. go_ret ())))"

definition deleteSecList :: "'w SecListApi \<Rightarrow> SdkSecurityList \<Rightarrow> ('w, unit) go" where
  "deleteSecList a l = go_wrap ''failed to delete security list'' (api_DeleteSecurityList a (Res_Id l))"

definition DeleteSecurityLists :: "'w SecListApi \<Rightarrow> ('w, unit) scope_go" where
  "DeleteSecurityLists a =
     go_bind get_scope (\<lambda>s.
     go_for (ToSubnetSlice (GetSubnetsSpec s)) (\<lambda>desiredSubnet. case Subnet_SecurityList desiredSubnet of
       None \<Rightarrow> go_ret ()
     | Some l \<Rightarrow> delete_found (GetSecurityList a l) (deleteSecList a)))"

interpretation seclist: tagged_lookup "\<lambda>_. SecurityList_ID spec" "api_GetSecurityList a"
  "\<lambda>s. go_wrap ''failed to list security lists''
     (api_ListSecurityLists a (GetCompartmentId s) (getVcnId s) (SecurityList_Name spec))"
  "\<lambda>_ _. True" "GetSecurityList a spec" for a :: "'w SecListApi" and spec
  by unfold_locales (simp add: GetSecurityList_def find_owned_def go_simps split: option.split)

interpretation seclist_del: managed_delete "\<lambda>_. SecurityList_ID spec" "api_GetSecurityList a"
  "\<lambda>s. go_wrap ''failed to list security lists''
     (api_ListSecurityLists a (GetCompartmentId s) (getVcnId s) (SecurityList_Name spec))"
  "\<lambda>_ _. True" "GetSecurityList a spec" "\<lambda>_. False" "deleteSecList a"
  "delete_found (GetSecurityList a spec) (deleteSecList a)" "api_DeleteSecurityList a"
  for a :: "'w SecListApi" and spec
  by unfold_locales
    (simp_all add: deleteSecList_def go_wrap_state, erule go_wrap_RetD)

section \<open>Equality of security lists\<close>

lemma rulesFound_iff: "rulesFound conv ds as \<longleftrightarrow> conv ` set ds \<subseteq> set as"
  by (auto simp: rulesFound_def list_all_iff list_ex_iff)

lemma rulesFound_mset:
  assumes "distinct (map conv ds)" and "length as = length ds"
  shows "rulesFound conv ds as \<longleftrightarrow> mset as = mset (map conv ds)"
proof
  assume "rulesFound conv ds as"
  then have sub: "set (map conv ds) \<subseteq> set as" by (simp add: rulesFound_iff)
  have "mset (map conv ds) \<subseteq># mset as"
    unfolding subseteq_mset_def
  proof
    fix x
    show "count (mset (map conv ds)) x \<le> count (mset as) x"
      using sub assms(1) distinct_count_atmost_1 [of "map conv ds"]
      by (cases "x \<in> set (map conv ds)") (auto simp: Suc_le_eq count_greater_zero_iff subset_iff)
  qed
  with assms(2) show "mset as = mset (map conv ds)"
    by (metis length_map mset_subset_size nless_le size_mset subset_mset.nless_le)
next
  assume "mset as = mset (map conv ds)"
  then show "rulesFound conv ds as" by (metis list.set_map mset_eq_setD rulesFound_iff subset_refl)
qed

text \<open>\<open>IsSecurityListEqual\<close> is exact for a spec without duplicate rules: it holds if and only if the
  name matches and the actual ingress and egress rules are the converted rules of the spec, in any
  order.\<close>

theorem IsSecurityListEqual_iff:
  assumes "distinct (map convertSecurityListIngressRule (SecurityList_IngressRules desired))"
    and "distinct (map convertSecurityListEgressRule (SecurityList_EgressRules desired))"
    and "Res_DisplayName actual = Some name"
  shows "IsSecurityListEqual actual desired st = (Ret (name = SecurityList_Name desired \<and>
     mset (SL_IngressSecurityRules actual) = mset (map convertSecurityListIngressRule (SecurityList_IngressRules desired)) \<and>
     mset (SL_EgressSecurityRules actual) = mset (map convertSecurityListEgressRule (SecurityList_EgressRules desired))), st)"
proof -
  have len: "length as \<noteq> length ds \<Longrightarrow> mset as \<noteq> mset (map conv ds)"
    for as :: "'q list" and ds and conv :: "'r \<Rightarrow> 'q" by (metis length_map mset_eq_length)
  show ?thesis using assms(3)
    by (auto simp: IsSecurityListEqual_def go_simps dest: len
        simp: rulesFound_mset [OF assms(1)] rulesFound_mset [OF assms(2)])
qed

text \<open>With a duplicate in the spec the comparison by length and inclusion can miss an actual rule that the
  spec does not have.\<close>

lemma IsSecurityListEqual_duplicates:
  "IsSecurityListEqual
     \<lparr>Res_Id = i, Res_DisplayName = Some n, Res_FreeformTags = tg,
      SL_IngressSecurityRules = [convertSecurityListIngressRule r, q], SL_EgressSecurityRules = []\<rparr>
     \<lparr>SecurityList_ID = j, SecurityList_Name = n, SecurityList_EgressRules = [], SecurityList_IngressRules = [r, r]\<rparr> st
   = (Ret True, st)"
  by (simp add: IsSecurityListEqual_def go_simps rulesFound_def)

definition lawful_seclist_update :: "('w, SdkSecurityList) table \<Rightarrow> 'w SecListApi \<Rightarrow> bool" where
  "lawful_seclist_update tbl a \<longleftrightarrow> (\<forall>i d w r w'. api_UpdateSecurityList a i d w = (Ret r, w') \<longrightarrow>
     tbl w' = (tbl w)(i \<mapsto> r) \<and> Res_DisplayName r = Some (USL_DisplayName d) \<and>
     SL_IngressSecurityRules r = USL_IngressSecurityRules d \<and> SL_EgressSecurityRules r = USL_EgressSecurityRules d)"

lemma rulesFound_refl: "rulesFound conv ds (map conv ds)"
  by (simp add: rulesFound_iff)

text \<open>An update of a security list converges: over a service that stores what an update request says,
  after \<open>UpdateSecurityList\<close> returns nil the stored list is equal to the spec according to
  \<open>IsSecurityListEqual\<close>, so that the next reconciliation does not update again.\<close>

theorem UpdateSecurityList_converges:
  assumes "lawful_seclist_update tbl a" and "UpdateSecurityList a spec (s, w) = (Ret (), (s1, w1))"
  shows "\<exists>i r. SecurityList_ID spec = Some i \<and> tbl w1 i = Some r \<and>
    IsSecurityListEqual r spec st = (Ret True, st)"
proof -
  let ?d = "\<lparr>USL_DisplayName = SecurityList_Name spec,
    USL_EgressSecurityRules = map convertSecurityListEgressRule (SecurityList_EgressRules spec),
    USL_IngressSecurityRules = map convertSecurityListIngressRule (SecurityList_IngressRules spec)\<rparr>"
  from assms(2) obtain i r where i: "SecurityList_ID spec = Some i"
    and u: "api_UpdateSecurityList a i ?d w = (Ret r, w1)"
    by (auto simp: UpdateSecurityList_def go_simps split: option.splits res.splits prod.splits)
  from assms(1) u have "tbl w1 i = Some r" "Res_DisplayName r = Some (SecurityList_Name spec)"
    "SL_IngressSecurityRules r = USL_IngressSecurityRules ?d" "SL_EgressSecurityRules r = USL_EgressSecurityRules ?d"
    unfolding lawful_seclist_update_def by (metis UpdateSecurityListDetails.select_convs(1) fun_upd_same)+
  with i show ?thesis
    by (auto simp: IsSecurityListEqual_def go_simps rulesFound_refl)
qed

definition sample_ingress :: "string \<Rightarrow> IngressSecurityRule" where
  "sample_ingress src = \<lparr>Ingress_Protocol = Some ''6'', Ingress_Source = Some src, Ingress_IcmpOptions = None,
     Ingress_IsStateless = None, Ingress_SourceType = CidrBlockType,
     Ingress_TcpOptions = Some \<lparr>TcpOptions_DestinationPortRange =
       Some \<lparr>PortRange_Max = Some 6443, PortRange_Min = Some 6443\<rparr>, TcpOptions_SourcePortRange = None\<rparr>,
     Ingress_UdpOptions = None, Ingress_Description = None\<rparr>"

definition sample_seclist :: SecurityList where
  "sample_seclist = \<lparr>SecurityList_ID = Some slot_id, SecurityList_Name = ''ep'', SecurityList_EgressRules = [],
     SecurityList_IngressRules = [sample_ingress ''10.0.0.0/16'', sample_ingress ''0.0.0.0/0'']\<rparr>"

definition sample_sdk_seclist :: SdkSecurityList where
  "sample_sdk_seclist = \<lparr>Res_Id = Some slot_id, Res_DisplayName = Some ''ep'', Res_FreeformTags = Map.empty,
     SL_IngressSecurityRules = map convertSecurityListIngressRule
       [sample_ingress ''0.0.0.0/0'', sample_ingress ''10.0.0.0/16''],
     SL_EgressSecurityRules = []\<rparr>"

text \<open>A service with one security list: its state is the list.\<close>

definition slot_seclist_api :: "SdkSecurityList SecListApi" where
  "slot_seclist_api = \<lparr>api_ListSecurityLists = (\<lambda>_ _ _ l. (Ret [l], l)), api_GetSecurityList = (\<lambda>_ l. (Ret l, l)),
     api_CreateSecurityList = (\<lambda>_ l. (Err quota_err, l)),
     api_UpdateSecurityList = (\<lambda>i d l. if i = slot_id
       then (let l' = l\<lparr>Res_Id := Some i, Res_DisplayName := Some (USL_DisplayName d),
               SL_IngressSecurityRules := USL_IngressSecurityRules d,
               SL_EgressSecurityRules := USL_EgressSecurityRules d\<rparr> in (Ret l', l'))
       else (Err not_found_err, l)),
     api_DeleteSecurityList = (\<lambda>_ l. (Err quota_err, l))\<rparr>"

theorem IsSecurityListEqual_iff_witness:
  "IsSecurityListEqual sample_sdk_seclist sample_seclist () = (Ret True, ())"
  using IsSecurityListEqual_iff [of sample_seclist sample_sdk_seclist "''ep''" "()"]
  by (simp add: sample_seclist_def sample_sdk_seclist_def sample_ingress_def convertSecurityListIngressRule_def
      getProtocolOptions_def add_mset_commute)

theorem UpdateSecurityList_converges_witness:
  "\<exists>w1 r. UpdateSecurityList slot_seclist_api sample_seclist (sample_scope, sample_sdk_seclist) =
      (Ret (), (sample_scope, w1)) \<and> IsSecurityListEqual r sample_seclist () = (Ret True, ())"
proof -
  have law: "lawful_seclist_update (\<lambda>w i. if i = slot_id then Some w else None) slot_seclist_api"
    by (auto simp: lawful_seclist_update_def slot_seclist_api_def Let_def fun_eq_iff split: if_splits)
  obtain w1 where
    run: "UpdateSecurityList slot_seclist_api sample_seclist (sample_scope, sample_sdk_seclist) = (Ret (), (sample_scope, w1))"
    by (simp add: UpdateSecurityList_def sample_seclist_def slot_seclist_api_def go_simps Let_def)
  from UpdateSecurityList_converges [OF law run, of "()"] run show ?thesis by blast
qed

end
