(* ===== verification/NSG_Reconciler.thy ===== *)
theory NSG_Reconciler
  imports Security_Rules
begin

text \<open>
  Network security groups (src/cloud/scope/nsg_reconciler.go): the groups themselves, and the difference
  between the rules of the spec and those of the cloud that \<open>UpdateNSGSecurityRulesIfNeeded\<close> computes
  and removes. The rules of the spec name other groups, those of the cloud carry their ids.
\<close>

section \<open>Model\<close>

text \<open>An assignment through the \<open>i\<close>-th pointer of the list of groups.\<close>

definition updNsg :: "nat \<Rightarrow> (NSG \<Rightarrow> NSG) \<Rightarrow> ClusterScope \<Rightarrow> ClusterScope" where
  "updNsg i f = upd_Vcn (\<lambda>v. v\<lparr>VCN_NetworkSecurityGroup := (VCN_NetworkSecurityGroup v)\<lparr>NetworkSecurityGroup_List :=
     (NetworkSecurityGroup_List (VCN_NetworkSecurityGroup v))
       [i := map_option f (NetworkSecurityGroup_List (VCN_NetworkSecurityGroup v) ! i)]\<rparr>\<rparr>)"

definition GetNSG :: "'w NsgApi \<Rightarrow> NSG \<Rightarrow> ('w, SdkResource option) scope_go" where
  "GetNSG a spec =
     go_bind get_scope (\<lambda>s.
     case NSG_ID spec of
       Some i \<Rightarrow> go_bind (api (api_GetNetworkSecurityGroup a (Some i))) (accept_owned s)
     | None \<Rightarrow>
         go_bind (api (go_wrap ''failed to list network security groups''
             (api_ListNetworkSecurityGroups a (GetCompartmentId s) (getVcnId s) (NSG_Name spec)))) (\<lambda>items.
         go_ret (find_owned s items)))"

definition IsNSGEqual :: "SdkResource \<Rightarrow> NSG \<Rightarrow> ('s, bool) go" where
  "IsNSGEqual actual desired =
     go_bind (go_deref (Res_DisplayName actual)) (\<lambda>n.
     if n \<noteq> NSG_Name desired then go_ret False else go_ret True)"

definition UpdateNSG :: "'w NsgApi \<Rightarrow> NSG \<Rightarrow> ('w, unit) scope_go" where
  "UpdateNSG a spec =
     go_bind (api (go_wrap ''failed to reconcile the network security group, failed to update''
         (api_UpdateNetworkSecurityGroup a (NSG_ID spec) (NSG_Name spec)))) (\<lambda>resp.
     go_bind (go_deref (Res_Id resp)) (\<lambda>_. go_ret ()))"

definition CreateNSG :: "'w NsgApi \<Rightarrow> NSG \<Rightarrow> ('w, string option) scope_go" where
  "CreateNSG a nsg =
     go_bind get_scope (\<lambda>s.
     go_bind (api (go_wrap ''failed create nsg''
         (api_CreateNetworkSecurityGroup a
            \<lparr>CD_CompartmentId = GetCompartmentId s, CD_DisplayName = NSG_Name nsg,
             CD_FreeformTags = GetFreeFormTags s, CD_DefinedTags = GetDefinedTags s,
             CD_VcnId = getVcnId s\<rparr>))) (\<lambda>resp.
     go_bind (go_deref (Res_Id resp)) (\<lambda>_.
     go_ret (Res_Id resp))))"

subsection \<open>Names and ids\<close>

text \<open>\<open>*nsgName\<close> is evaluated once per element of the list.\<close>

definition getNsgIdFromName :: "string option \<Rightarrow> NSG option list \<Rightarrow> ('s, string option) go" where
  "getNsgIdFromName nsgName list =
     (if list = [] then go_ret None
      else go_bind (go_deref nsgName) (\<lambda>n.
        go_ret (case find (\<lambda>x. NSG_Name x = n) (ToNSGSlice list) of Some x \<Rightarrow> NSG_ID x | None \<Rightarrow> None)))"

definition getNsgNameFromId :: "string option \<Rightarrow> NSG option list \<Rightarrow> string option" where
  "getNsgNameFromId nsgId list = (case nsgId of
      None \<Rightarrow> None
    | Some i \<Rightarrow> map_option NSG_Name (find (\<lambda>x. NSG_ID x = Some i) (ToNSGSlice list)))"

subsection \<open>Rules\<close>

definition serviceCidr :: "ClusterScope \<Rightarrow> string" where
  "serviceCidr s = Sprintf ''all-%s-services-in-oracle-services-network'' [ToLower (CS_RegionKey s)]"

definition adjustNSGRulesSpec :: "ClusterScope \<Rightarrow> NSG \<Rightarrow> NSG" where
  "adjustNSGRulesSpec s nsg = nsg\<lparr>
     NSG_IngressRules := map (\<lambda>r. if Ingress_SourceType r = ServiceCidrBlockType
       then r\<lparr>Ingress_Source := Some (serviceCidr s)\<rparr> else r) (NSG_IngressRules nsg),
     NSG_EgressRules := map (\<lambda>r. if Egress_DestinationType r = ServiceCidrBlockType
       then r\<lparr>Egress_Destination := Some (serviceCidr s)\<rparr> else r) (NSG_EgressRules nsg)\<rparr>"

definition addIngressRule :: "ClusterScope \<Rightarrow> IngressSecurityRuleForNSG \<Rightarrow> ('s, AddSecurityRuleDetails) go" where
  "addIngressRule s r =
     (let (icmpOptions, tcpOptions, udpOptions) =
        getProtocolOptions (Ingress_IcmpOptions r) (Ingress_TcpOptions r) (Ingress_UdpOptions r);
        secRule = \<lparr>SR_Direction = DirIngress, SR_Protocol = Ingress_Protocol r,
          SR_Description = Ingress_Description r, SR_IcmpOptions = icmpOptions,
          SR_IsStateless = statelessOrFalse (Ingress_IsStateless r),
          SR_Source = Ingress_Source r, SR_SourceType = Ingress_SourceType r,
          SR_Destination = None, SR_DestinationType = [],
          SR_TcpOptions = tcpOptions, SR_UdpOptions = udpOptions\<rparr>
      in if Ingress_SourceType r = NSGType
         then go_bind (getNsgIdFromName (Ingress_Source r) (GetNSGSpec s)) (\<lambda>i. go_ret (secRule\<lparr>SR_Source := i\<rparr>))
         else go_ret secRule)"

definition addEgressRule :: "ClusterScope \<Rightarrow> EgressSecurityRuleForNSG \<Rightarrow> ('s, AddSecurityRuleDetails) go" where
  "addEgressRule s r =
     (let (icmpOptions, tcpOptions, udpOptions) =
        getProtocolOptions (Egress_IcmpOptions r) (Egress_TcpOptions r) (Egress_UdpOptions r);
        secRule = \<lparr>SR_Direction = DirEgress, SR_Protocol = Egress_Protocol r,
          SR_Description = Egress_Description r, SR_IcmpOptions = icmpOptions,
          SR_IsStateless = statelessOrFalse (Egress_IsStateless r),
          SR_Source = None, SR_SourceType = [],
          SR_Destination = Egress_Destination r, SR_DestinationType = Egress_DestinationType r,
          SR_TcpOptions = tcpOptions, SR_UdpOptions = udpOptions\<rparr>
      in if Egress_DestinationType r = NSGType
         then go_bind (getNsgIdFromName (Egress_Destination r) (GetNSGSpec s)) (\<lambda>i. go_ret (secRule\<lparr>SR_Destination := i\<rparr>))
         else go_ret secRule)"

definition generateAddSecurityRuleFromSpec ::
  "ClusterScope \<Rightarrow> IngressSecurityRuleForNSG list \<Rightarrow> EgressSecurityRuleForNSG list \<Rightarrow>
   ('s, AddSecurityRuleDetails list) go" where
  "generateAddSecurityRuleFromSpec s ingressRules egressRules =
     go_bind (go_map ingressRules (addIngressRule s)) (\<lambda>is.
     go_bind (go_map egressRules (addEgressRule s)) (\<lambda>es.
     go_ret (is @ es)))"

definition AddNSGSecurityRules ::
  "'w NsgApi \<Rightarrow> string option \<Rightarrow> IngressSecurityRuleForNSG list \<Rightarrow> EgressSecurityRuleForNSG list \<Rightarrow>
   ('w, unit) scope_go" where
  "AddNSGSecurityRules a nsgId ingress egress =
     go_bind get_scope (\<lambda>s.
     go_bind (generateAddSecurityRuleFromSpec s ingress egress) (\<lambda>securityRules.
     api (go_wrap ''failed add nsg security rules''
       (api_AddNetworkSecurityGroupSecurityRules a nsgId securityRules))))"

text \<open>A rule of the cloud as a rule of the spec.\<close>

definition ingressOfRule :: "ClusterScope \<Rightarrow> 'z SecurityRuleBody_scheme \<Rightarrow> IngressSecurityRuleForNSG" where
  "ingressOfRule s rule =
     (let (icmpOptions, tcpOptions, udpOptions) =
        getProtocolOptionsForSpec (SR_IcmpOptions rule) (SR_TcpOptions rule) (SR_UdpOptions rule)
      in \<lparr>Ingress_Protocol = SR_Protocol rule,
          Ingress_Source = (if SR_SourceType rule = NSGType then getNsgNameFromId (SR_Source rule) (GetNSGSpec s)
            else SR_Source rule),
          Ingress_IcmpOptions = icmpOptions, Ingress_IsStateless = statelessOrFalse (SR_IsStateless rule),
          Ingress_SourceType = SR_SourceType rule, Ingress_TcpOptions = tcpOptions,
          Ingress_UdpOptions = udpOptions, Ingress_Description = SR_Description rule\<rparr>)"

definition egressOfRule :: "ClusterScope \<Rightarrow> 'z SecurityRuleBody_scheme \<Rightarrow> EgressSecurityRuleForNSG" where
  "egressOfRule s rule =
     (let (icmpOptions, tcpOptions, udpOptions) =
        getProtocolOptionsForSpec (SR_IcmpOptions rule) (SR_TcpOptions rule) (SR_UdpOptions rule)
      in \<lparr>Egress_Destination = (if SR_DestinationType rule = NSGType
            then getNsgNameFromId (SR_Destination rule) (GetNSGSpec s) else SR_Destination rule),
          Egress_Protocol = SR_Protocol rule, Egress_DestinationType = SR_DestinationType rule,
          Egress_IcmpOptions = icmpOptions, Egress_IsStateless = statelessOrFalse (SR_IsStateless rule),
          Egress_TcpOptions = tcpOptions, Egress_UdpOptions = udpOptions,
          Egress_Description = SR_Description rule\<rparr>)"

type_synonym rule_maps =
  "(string \<times> IngressSecurityRuleForNSG) list \<times> (string \<times> EgressSecurityRuleForNSG) list"

fun specRulesLoop :: "ClusterScope \<Rightarrow> SecurityRule list \<Rightarrow> rule_maps \<Rightarrow> ('s, rule_maps) go" where
  "specRulesLoop s [] acc = go_ret acc"
| "specRulesLoop s (rule # rules) (is, es) = (case SR_Direction rule of
      DirIngress \<Rightarrow> go_bind (go_deref (SR_Id rule)) (\<lambda>i.
        specRulesLoop s rules (AList.update i (ingressOfRule s rule) is, es))
    | DirEgress \<Rightarrow> go_bind (go_deref (SR_Id rule)) (\<lambda>i.
        specRulesLoop s rules (is, AList.update i (egressOfRule s rule) es))
    | DirOther _ \<Rightarrow> specRulesLoop s rules (is, es))"

definition generateSpecFromSecurityRules :: "ClusterScope \<Rightarrow> SecurityRule list \<Rightarrow> ('s, rule_maps) go" where
  "generateSpecFromSecurityRules s rules = specRulesLoop s rules ([], [])"

subsection \<open>Reconciliation of the rules\<close>

definition defaultStateless :: "NSG \<Rightarrow> NSG" where
  "defaultStateless nsg = nsg\<lparr>
     NSG_IngressRules := map (\<lambda>r. r\<lparr>Ingress_IsStateless := statelessOrFalse (Ingress_IsStateless r)\<rparr>) (NSG_IngressRules nsg),
     NSG_EgressRules := map (\<lambda>r. r\<lparr>Egress_IsStateless := statelessOrFalse (Egress_IsStateless r)\<rparr>) (NSG_EgressRules nsg)\<rparr>"

definition rulesToAdd :: "'r list \<Rightarrow> (string \<times> 'r) list \<Rightarrow> 'r list" where
  "rulesToAdd desired actual = filter (\<lambda>r. \<not> list_ex (\<lambda>(_, x). r = x) actual) desired"

definition rulesToRemove :: "'r list \<Rightarrow> (string \<times> 'r) list \<Rightarrow> string list" where
  "rulesToRemove desired actual = map fst (filter (\<lambda>(_, x). \<not> list_ex (\<lambda>r. r = x) desired) actual)"

text \<open>\<open>desired\<close> is a copy of the \<open>idx\<close>-th group of the spec that shares its slices of rules, so the
  assignments to \<open>IsStateless\<close> are seen in the spec. \<open>iterI\<close> and \<open>iterE\<close> are the orders in which this run
  ranges over the two maps.\<close>

definition UpdateNSGSecurityRulesIfNeeded ::
  "(string, IngressSecurityRuleForNSG) map_order \<Rightarrow> (string, EgressSecurityRuleForNSG) map_order \<Rightarrow>
   'w NsgApi \<Rightarrow> nat \<Rightarrow> NSG \<Rightarrow> string option \<Rightarrow> ('w, bool) scope_go" where
  "UpdateNSGSecurityRulesIfNeeded iterI iterE a idx desired nsgId =
     go_bind get_scope (\<lambda>s.
     go_bind (api (go_wrap ''failed to reconcile the network security group, failed to list security rules''
         (api_ListNetworkSecurityGroupSecurityRules a nsgId))) (\<lambda>items.
     go_bind (generateSpecFromSecurityRules s items) (\<lambda>(ingressRules, egressRules).
     go_bind (mod_scope (updNsg idx defaultStateless)) (\<lambda>_.
     let desired' = defaultStateless desired;
         ingressRulesToAdd = rulesToAdd (NSG_IngressRules desired') ingressRules;
         egressRulesToAdd = rulesToAdd (NSG_EgressRules desired') egressRules;
         securityRulesToRemove = rulesToRemove (NSG_IngressRules desired') (iterI ingressRules) @
           rulesToRemove (NSG_EgressRules desired') (iterE egressRules)
     in
       go_bind (if length ingressRulesToAdd > 0 \<or> length egressRulesToAdd > 0
         then go_bind (AddNSGSecurityRules a (NSG_ID desired') ingressRulesToAdd egressRulesToAdd) (\<lambda>_.
              go_bind (go_deref nsgId) (\<lambda>_. go_ret True))
         else go_ret False) (\<lambda>isNSGUpdated.
       if length securityRulesToRemove > 0
       then go_bind (api (api_RemoveNetworkSecurityGroupSecurityRules a (NSG_ID desired') securityRulesToRemove)) (\<lambda>_.
            go_bind (go_deref nsgId) (\<lambda>_. go_ret True))
       else go_ret isNSGUpdated)))))"

subsection \<open>Reconciliation and deletion of the groups\<close>

definition reconcileNSGAt :: "'w NsgApi \<Rightarrow> nat \<Rightarrow> ('w, unit) scope_go" where
  "reconcileNSGAt a i =
     go_bind get_scope (\<lambda>s. case GetNSGSpec s ! i of
       None \<Rightarrow> go_ret ()
     | Some spec \<Rightarrow>
         go_bind (GetNSG a spec) (\<lambda>nsg. case nsg of
           Some g \<Rightarrow>
             go_bind (mod_scope (updNsg i (\<lambda>n. n\<lparr>NSG_ID := Res_Id g\<rparr>))) (\<lambda>_.
             go_bind (IsNSGEqual g spec) (\<lambda>eq. if \<not> eq then UpdateNSG a spec else go_ret ()))
         | None \<Rightarrow>
             go_bind (CreateNSG a spec) (\<lambda>nsgID.
             mod_scope (updNsg i (\<lambda>n. n\<lparr>NSG_ID := nsgID\<rparr>)))))"

definition reconcileNSGRulesAt ::
  "(string, IngressSecurityRuleForNSG) map_order \<Rightarrow> (string, EgressSecurityRuleForNSG) map_order \<Rightarrow>
   'w NsgApi \<Rightarrow> nat \<Rightarrow> ('w, unit) scope_go" where
  "reconcileNSGRulesAt iterI iterE a i =
     go_bind get_scope (\<lambda>s. case GetNSGSpec s ! i of
       None \<Rightarrow> go_ret ()
     | Some spec \<Rightarrow>
         let adjusted = adjustNSGRulesSpec s spec in
         go_bind (mod_scope (updNsg i (\<lambda>_. adjusted))) (\<lambda>_.
         go_bind (UpdateNSGSecurityRulesIfNeeded iterI iterE a i adjusted (NSG_ID adjusted)) (\<lambda>isNSGUpdated.
         if \<not> isNSGUpdated then go_bind (go_deref (NSG_ID adjusted)) (\<lambda>_. go_ret ()) else go_ret ())))"

definition ReconcileNSG ::
  "(string, IngressSecurityRuleForNSG) map_order \<Rightarrow> (string, EgressSecurityRuleForNSG) map_order \<Rightarrow>
   'w NsgApi \<Rightarrow> ('w, unit) scope_go" where
  "ReconcileNSG iterI iterE a =
     go_bind get_scope (\<lambda>s.
     if NetworkSecurityGroup_Skip (VCN_NetworkSecurityGroup (GetVcnSpec s)) then go_ret ()
     else go_seq (go_for [0..<length (GetNSGSpec s)] (reconcileNSGAt a))
                 (go_for [0..<length (GetNSGSpec s)] (reconcileNSGRulesAt iterI iterE a)))"

definition deleteNsg :: "'w NsgApi \<Rightarrow> SdkResource \<Rightarrow> ('w, unit) go" where
  "deleteNsg a nsg = go_wrap ''failed to delete nsg'' (api_DeleteNetworkSecurityGroup a (Res_Id nsg))"

definition DeleteNSGs :: "'w NsgApi \<Rightarrow> ('w, unit) scope_go" where
  "DeleteNSGs a =
     go_bind get_scope (\<lambda>s.
     if NetworkSecurityGroup_Skip (VCN_NetworkSecurityGroup (GetVcnSpec s)) then go_ret ()
     else go_for (GetNSGSpec s) (\<lambda>p.
       go_bind (go_deref p) (\<lambda>desiredNSG. delete_found (GetNSG a desiredNSG) (deleteNsg a))))"

section \<open>Instances of the contracts\<close>

interpretation nsg: tagged_lookup "\<lambda>_. NSG_ID spec" "api_GetNetworkSecurityGroup a"
  "\<lambda>s. go_wrap ''failed to list network security groups''
     (api_ListNetworkSecurityGroups a (GetCompartmentId s) (getVcnId s) (NSG_Name spec))"
  "\<lambda>_ _. True" "GetNSG a spec" for a :: "'w NsgApi" and spec
  by unfold_locales (simp add: GetNSG_def find_owned_def go_simps split: option.split)

interpretation nsg_del: managed_delete "\<lambda>_. NSG_ID spec" "api_GetNetworkSecurityGroup a"
  "\<lambda>s. go_wrap ''failed to list network security groups''
     (api_ListNetworkSecurityGroups a (GetCompartmentId s) (getVcnId s) (NSG_Name spec))"
  "\<lambda>_ _. True" "GetNSG a spec" "\<lambda>_. False" "deleteNsg a"
  "delete_found (GetNSG a spec) (deleteNsg a)" "api_DeleteNetworkSecurityGroup a"
  for a :: "'w NsgApi" and spec
  by unfold_locales (simp_all add: deleteNsg_def go_wrap_state, erule go_wrap_RetD)

section \<open>Rules survive the round trip\<close>

text \<open>What a reference to another group needs: the name is that of a group of the spec that has an id, and
  an id belongs to one name only.\<close>

definition nsg_resolves :: "NSG option list \<Rightarrow> string option \<Rightarrow> bool" where
  "nsg_resolves list src = (case src of None \<Rightarrow> False | Some n \<Rightarrow>
     (case find (\<lambda>x. NSG_Name x = n) (ToNSGSlice list) of None \<Rightarrow> False | Some x \<Rightarrow> NSG_ID x \<noteq> None))"

definition nsg_ids_unique :: "NSG option list \<Rightarrow> bool" where
  "nsg_ids_unique list \<longleftrightarrow> (\<forall>x \<in> set (ToNSGSlice list). \<forall>y \<in> set (ToNSGSlice list).
     NSG_ID x \<noteq> None \<longrightarrow> NSG_ID x = NSG_ID y \<longrightarrow> NSG_Name x = NSG_Name y)"

lemma nsg_name_id_roundtrip:
  assumes "nsg_resolves list src" and "nsg_ids_unique list"
  shows "\<exists>i. getNsgIdFromName src list st = (Ret (Some i), st) \<and> getNsgNameFromId (Some i) list = src"
proof -
  from assms(1) obtain n x i where src: "src = Some n" and i: "NSG_ID x = Some i"
    and f: "find (\<lambda>x. NSG_Name x = n) (ToNSGSlice list) = Some x"
    by (auto simp: nsg_resolves_def split: option.splits)
  then have x: "x \<in> set (ToNSGSlice list)" "NSG_Name x = n" by (auto dest: find_Some_mem)
  then obtain y where y: "find (\<lambda>x. NSG_ID x = Some i) (ToNSGSlice list) = Some y"
    using i by (cases "find (\<lambda>x. NSG_ID x = Some i) (ToNSGSlice list)") (auto simp: find_None_iff)
  then have "y \<in> set (ToNSGSlice list)" "NSG_ID y = Some i" by (auto dest: find_Some_mem)
  with assms(2) x i have "NSG_Name y = n" unfolding nsg_ids_unique_def by (metis option.distinct(1))
  moreover from f have "list \<noteq> []" by (auto simp: ToNSGSlice_def)
  ultimately show ?thesis using src f i y
    by (simp add: getNsgIdFromName_def getNsgNameFromId_def go_simps)
qed

definition ingress_ok :: "NSG option list \<Rightarrow> IngressSecurityRuleForNSG \<Rightarrow> bool" where
  "ingress_ok list r \<longleftrightarrow> (Ingress_SourceType r = NSGType \<longrightarrow> nsg_resolves list (Ingress_Source r))"

definition egress_ok :: "NSG option list \<Rightarrow> EgressSecurityRuleForNSG \<Rightarrow> bool" where
  "egress_ok list r \<longleftrightarrow> (Egress_DestinationType r = NSGType \<longrightarrow> nsg_resolves list (Egress_Destination r))"

lemma statelessOrFalse_idem [simp]: "statelessOrFalse (statelessOrFalse b) = statelessOrFalse b"
  by (cases b) (simp_all add: statelessOrFalse_def)

lemma ingress_roundtrip:
  assumes "ingress_ok (GetNSGSpec s) r" and "nsg_ids_unique (GetNSGSpec s)"
    and "statelessOrFalse (Ingress_IsStateless r) = Ingress_IsStateless r"
  shows "\<exists>b. (\<forall>st. addIngressRule s r st = (Ret b, st)) \<and> SR_Direction b = DirIngress \<and> ingressOfRule s b = r"
proof (cases "Ingress_SourceType r = NSGType")
  case True
  with assms(1) have res: "nsg_resolves (GetNSGSpec s) (Ingress_Source r)" by (simp add: ingress_ok_def)
  let ?i = "case find (\<lambda>x. NSG_Name x = the (Ingress_Source r)) (ToNSGSlice (GetNSGSpec s)) of
    Some x \<Rightarrow> NSG_ID x | None \<Rightarrow> None"
  have i: "getNsgIdFromName (Ingress_Source r) (GetNSGSpec s) st = (Ret ?i, st)" for st :: 'a
    using res by (auto simp: getNsgIdFromName_def nsg_resolves_def ToNSGSlice_def go_simps split: option.splits)
  from nsg_name_id_roundtrip [OF res assms(2), of "undefined :: 'a"] i [of undefined]
  have nm: "getNsgNameFromId ?i (GetNSGSpec s) = Ingress_Source r" by auto
  show ?thesis
    using assms(3) True nm
    by (simp add: addIngressRule_def getProtocolOptions_def go_simps i Let_def)
      (simp add: ingressOfRule_def getProtocolOptionsForSpec_def option.map_comp)
next
  case False
  with assms(3) show ?thesis
    by (simp add: addIngressRule_def getProtocolOptions_def go_simps Let_def)
      (simp add: ingressOfRule_def getProtocolOptionsForSpec_def option.map_comp)
qed

lemma egress_roundtrip:
  assumes "egress_ok (GetNSGSpec s) r" and "nsg_ids_unique (GetNSGSpec s)"
    and "statelessOrFalse (Egress_IsStateless r) = Egress_IsStateless r"
  shows "\<exists>b. (\<forall>st. addEgressRule s r st = (Ret b, st)) \<and> SR_Direction b = DirEgress \<and> egressOfRule s b = r"
proof (cases "Egress_DestinationType r = NSGType")
  case True
  with assms(1) have res: "nsg_resolves (GetNSGSpec s) (Egress_Destination r)" by (simp add: egress_ok_def)
  let ?i = "case find (\<lambda>x. NSG_Name x = the (Egress_Destination r)) (ToNSGSlice (GetNSGSpec s)) of
    Some x \<Rightarrow> NSG_ID x | None \<Rightarrow> None"
  have i: "getNsgIdFromName (Egress_Destination r) (GetNSGSpec s) st = (Ret ?i, st)" for st :: 'a
    using res by (auto simp: getNsgIdFromName_def nsg_resolves_def ToNSGSlice_def go_simps split: option.splits)
  from nsg_name_id_roundtrip [OF res assms(2), of "undefined :: 'a"] i [of undefined]
  have nm: "getNsgNameFromId ?i (GetNSGSpec s) = Egress_Destination r" by auto
  show ?thesis
    using assms(3) True nm
    by (simp add: addEgressRule_def getProtocolOptions_def go_simps i Let_def)
      (simp add: egressOfRule_def getProtocolOptionsForSpec_def option.map_comp)
next
  case False
  with assms(3) show ?thesis
    by (simp add: addEgressRule_def getProtocolOptions_def go_simps Let_def)
      (simp add: egressOfRule_def getProtocolOptionsForSpec_def option.map_comp)
qed

section \<open>The rules of the cloud\<close>

text \<open>\<open>rules w n\<close> maps the ids of the rules of group \<open>n\<close> to the rules. A list request reports all of them, an
  add request adds rules under fresh ids, a remove request removes the named ones.\<close>

type_synonym 'w rule_table = "'w \<Rightarrow> string \<Rightarrow> string \<rightharpoonup> SecurityRuleBody"

definition rule_body :: "SecurityRule \<Rightarrow> SecurityRuleBody" where
  "rule_body r = SecurityRuleBody.truncate r"

text \<open>The request for the rules of a group answers with a page of at most \<open>limit\<close> rules; the source reads no further page.\<close>

definition lists_rules :: "nat \<Rightarrow> 'w rule_table \<Rightarrow> 'w NsgApi \<Rightarrow> bool" where
  "lists_rules limit rules a \<longleftrightarrow>
     (\<forall>n w items w'. api_ListNetworkSecurityGroupSecurityRules a (Some n) w = (Ret items, w') \<longrightarrow>
        w' = w \<and> (\<forall>r \<in> set items. \<exists>i. SR_Id r = Some i \<and> rules w n i = Some (rule_body r)) \<and> distinct (map SR_Id items) \<and>
        finite (dom (rules w n)) \<and> length items = min limit (card (dom (rules w n))))"

definition adds_rules :: "'w rule_table \<Rightarrow> 'w NsgApi \<Rightarrow> bool" where
  "adds_rules rules a \<longleftrightarrow>
     (\<forall>n rs w w'. api_AddNetworkSecurityGroupSecurityRules a (Some n) rs w = (Ret (), w') \<longrightarrow>
        (\<exists>new. dom new \<inter> dom (rules w n) = {} \<and> ran new = set rs \<and> rules w' n = rules w n ++ new))"

definition removes_rules :: "'w rule_table \<Rightarrow> 'w NsgApi \<Rightarrow> bool" where
  "removes_rules rules a \<longleftrightarrow>
     (\<forall>n ids w w'. api_RemoveNetworkSecurityGroupSecurityRules a (Some n) ids w = (Ret (), w') \<longrightarrow>
        rules w' n = rules w n |` (- set ids))"

definition lawful_rules :: "nat \<Rightarrow> 'w rule_table \<Rightarrow> 'w NsgApi \<Rightarrow> bool" where
  "lawful_rules limit rules a \<longleftrightarrow> lists_rules limit rules a \<and> adds_rules rules a \<and> removes_rules rules a"

text \<open>A group that fits into one page is listed completely.\<close>

lemma lists_rulesD:
  assumes law: "lists_rules limit rules a"
    and l: "api_ListNetworkSecurityGroupSecurityRules a (Some n) w = (Ret items, w')"
    and fits: "card (dom (rules w n)) \<le> limit"
  shows "w' = w" "\<forall>r \<in> set items. SR_Id r \<noteq> None" "distinct (map SR_Id items)"
    "\<And>i b. rules w n i = Some b \<longleftrightarrow> (\<exists>r \<in> set items. SR_Id r = Some i \<and> rule_body r = b)"
proof -
  from law l have facts: "w' = w" "\<And>r. r \<in> set items \<Longrightarrow> \<exists>i. SR_Id r = Some i \<and> rules w n i = Some (rule_body r)" "distinct (map SR_Id items)"
      "finite (dom (rules w n))" "length items = card (dom (rules w n))"
    using fits unfolding lists_rules_def by (metis, metis, metis, metis, metis min.absorb2)
  show "w' = w" "\<forall>r \<in> set items. SR_Id r \<noteq> None" "distinct (map SR_Id items)" using facts(1-3) by auto
  have sub: "SR_Id ` set items \<subseteq> Some ` dom (rules w n)" using facts(2) by force
  have "card (SR_Id ` set items) = card (Some ` dom (rules w n))"
    using distinct_card [OF facts(3)] facts(5) by (simp add: card_image)
  with sub facts(4) have "SR_Id ` set items = Some ` dom (rules w n)" by (simp add: card_subset_eq)
  then have "i \<in> dom (rules w n) \<longleftrightarrow> (\<exists>r \<in> set items. SR_Id r = Some i)" for i
    by (metis (no_types, lifting) image_iff option.inject)
  with facts(2) show "rules w n i = Some b \<longleftrightarrow> (\<exists>r \<in> set items. SR_Id r = Some i \<and> rule_body r = b)" for i b
    by (metis domI option.inject)
qed

text \<open>The rules of a group as the spec would write them.\<close>

definition ingress_view :: "ClusterScope \<Rightarrow> (string \<rightharpoonup> SecurityRuleBody) \<Rightarrow> IngressSecurityRuleForNSG set" where
  "ingress_view s m = {ingressOfRule s b | i b. m i = Some b \<and> SR_Direction b = DirIngress}"

definition egress_view :: "ClusterScope \<Rightarrow> (string \<rightharpoonup> SecurityRuleBody) \<Rightarrow> EgressSecurityRuleForNSG set" where
  "egress_view s m = {egressOfRule s b | i b. m i = Some b \<and> SR_Direction b = DirEgress}"

lemma rule_body_simps [simp]:
  "SR_Direction (rule_body r) = SR_Direction r" "ingressOfRule s (rule_body r) = ingressOfRule s r"
  "egressOfRule s (rule_body r) = egressOfRule s r"
  by (simp_all add: rule_body_def SecurityRuleBody.defs ingressOfRule_def egressOfRule_def)

lemma update_fresh: "k \<notin> fst ` set al \<Longrightarrow> AList.update k v al = al @ [(k, v)]"
  by (induction al) auto

text \<open>The two maps of \<open>generateSpecFromSecurityRules\<close>, for rules with distinct ids.\<close>

lemma specRulesLoop_ret:
  assumes "distinct (map SR_Id rules)" and "\<forall>r \<in> set rules. SR_Id r \<noteq> None"
    and "\<forall>r \<in> set rules. the (SR_Id r) \<notin> fst ` set is \<and> the (SR_Id r) \<notin> fst ` set es"
  shows "specRulesLoop s rules (is, es) st =
    (Ret (is @ map (\<lambda>r. (the (SR_Id r), ingressOfRule s r)) (filter (\<lambda>r. SR_Direction r = DirIngress) rules),
          es @ map (\<lambda>r. (the (SR_Id r), egressOfRule s r)) (filter (\<lambda>r. SR_Direction r = DirEgress) rules)), st)"
  using assms
proof (induction rules arbitrary: "is" es)
  case Nil
  then show ?case by (simp add: go_simps)
next
  case (Cons r rules)
  from Cons.prems obtain i where i: "SR_Id r = Some i" by auto
  have fresh: "\<forall>q \<in> set rules. the (SR_Id q) \<noteq> i"
  proof
    fix q assume "q \<in> set rules"
    with Cons.prems i have "SR_Id q \<noteq> Some i" "SR_Id q \<noteq> None" by (auto simp: image_iff)
    then show "the (SR_Id q) \<noteq> i" by auto
  qed
  from Cons.prems have d: "distinct (map SR_Id rules)" "\<forall>q \<in> set rules. SR_Id q \<noteq> None" by auto
  show ?case
  proof (cases "SR_Direction r")
    case DirIngress
    have "specRulesLoop s rules (is @ [(i, ingressOfRule s r)], es) st =
        (Ret ((is @ [(i, ingressOfRule s r)]) @ map (\<lambda>r. (the (SR_Id r), ingressOfRule s r))
            (filter (\<lambda>r. SR_Direction r = DirIngress) rules),
          es @ map (\<lambda>r. (the (SR_Id r), egressOfRule s r)) (filter (\<lambda>r. SR_Direction r = DirEgress) rules)), st)"
      by (rule Cons.IH [OF d]) (use Cons.prems fresh in auto)
    with DirIngress i Cons.prems show ?thesis by (simp add: go_simps update_fresh)
  next
    case DirEgress
    have "specRulesLoop s rules (is, es @ [(i, egressOfRule s r)]) st =
        (Ret (is @ map (\<lambda>r. (the (SR_Id r), ingressOfRule s r))
            (filter (\<lambda>r. SR_Direction r = DirIngress) rules),
          (es @ [(i, egressOfRule s r)]) @ map (\<lambda>r. (the (SR_Id r), egressOfRule s r))
            (filter (\<lambda>r. SR_Direction r = DirEgress) rules)), st)"
      by (rule Cons.IH [OF d]) (use Cons.prems fresh in auto)
    with DirEgress i Cons.prems show ?thesis by (simp add: go_simps update_fresh)
  next
    case (DirOther x)
    with Cons.IH [OF d] Cons.prems show ?thesis by simp
  qed
qed

lemma generateSpec_lawful:
  assumes law: "lists_rules limit rules a"
    and l: "api_ListNetworkSecurityGroupSecurityRules a (Some n) w = (Ret items, w')"
    and fits: "card (dom (rules w n)) \<le> limit"
  obtains ai ae where "\<And>st. generateSpecFromSecurityRules s items st = (Ret (ai, ae), st)"
    and "\<And>i r. (i, r) \<in> set ai \<longleftrightarrow> (\<exists>b. rules w n i = Some b \<and> SR_Direction b = DirIngress \<and> r = ingressOfRule s b)"
    and "\<And>i r. (i, r) \<in> set ae \<longleftrightarrow> (\<exists>b. rules w n i = Some b \<and> SR_Direction b = DirEgress \<and> r = egressOfRule s b)"
proof -
  let ?ai = "map (\<lambda>r. (the (SR_Id r), ingressOfRule s r)) (filter (\<lambda>r. SR_Direction r = DirIngress) items)"
  let ?ae = "map (\<lambda>r. (the (SR_Id r), egressOfRule s r)) (filter (\<lambda>r. SR_Direction r = DirEgress) items)"
  note facts = lists_rulesD(2,3) [OF law l fits]
  have tab: "(\<exists>b. rules w n i = Some b \<and> P b) \<longleftrightarrow> (\<exists>x \<in> set items. SR_Id x = Some i \<and> P (rule_body x))" for i P
    using lists_rulesD(4) [OF law l fits] by auto
  have id: "x \<in> set items \<Longrightarrow> the (SR_Id x) = i \<longleftrightarrow> SR_Id x = Some i" for x i
    using facts(1) by auto
  have "generateSpecFromSecurityRules s items st = (Ret (?ai, ?ae), st)" for st
    unfolding generateSpecFromSecurityRules_def
    by (subst specRulesLoop_ret [OF facts(2,1)]) simp_all
  moreover have "(i, r) \<in> set ?ai \<longleftrightarrow> (\<exists>b. rules w n i = Some b \<and> SR_Direction b = DirIngress \<and> r = ingressOfRule s b)"
    for i r using facts(1) unfolding tab by (auto simp: image_iff id)
  moreover have "(i, r) \<in> set ?ae \<longleftrightarrow> (\<exists>b. rules w n i = Some b \<and> SR_Direction b = DirEgress \<and> r = egressOfRule s b)"
    for i r using facts(1) unfolding tab by (auto simp: image_iff id)
  ultimately show thesis by (rule that)
qed

section \<open>Convergence of the rules\<close>

text \<open>The lookups by name and by id see the names and ids only.\<close>

definition nsg_keys :: "NSG option list \<Rightarrow> (string \<times> string option) list" where
  "nsg_keys list = map (\<lambda>x. (NSG_Name x, NSG_ID x)) (ToNSGSlice list)"

lemma find_map: "find P (map f xs) = map_option f (find (\<lambda>x. P (f x)) xs)"
  by (induction xs) auto

lemma nsg_lookup_keys:
  "getNsgNameFromId i l = (case i of None \<Rightarrow> None | Some j \<Rightarrow> map_option fst (find (\<lambda>p. snd p = Some j) (nsg_keys l)))"
  "nsg_resolves l src = (case src of None \<Rightarrow> False | Some n \<Rightarrow>
     (case find (\<lambda>p. fst p = n) (nsg_keys l) of None \<Rightarrow> False | Some p \<Rightarrow> snd p \<noteq> None))"
  "nsg_ids_unique l \<longleftrightarrow> (\<forall>p \<in> set (nsg_keys l). \<forall>q \<in> set (nsg_keys l). snd p \<noteq> None \<longrightarrow> snd p = snd q \<longrightarrow> fst p = fst q)"
  by (auto simp: getNsgNameFromId_def nsg_resolves_def nsg_ids_unique_def nsg_keys_def find_map
      option.map_comp comp_def split: option.split)

lemma nsg_keys_defaultStateless: "nsg_keys (GetNSGSpec (updNsg i defaultStateless s)) = nsg_keys (GetNSGSpec s)"
proof (rule nth_equalityI)
  show "length (nsg_keys (GetNSGSpec (updNsg i defaultStateless s))) = length (nsg_keys (GetNSGSpec s))"
    by (simp add: nsg_keys_def ToNSGSlice_def updNsg_def GetNSGSpec_def)
  fix j assume "j < length (nsg_keys (GetNSGSpec (updNsg i defaultStateless s)))"
  then show "nsg_keys (GetNSGSpec (updNsg i defaultStateless s)) ! j = nsg_keys (GetNSGSpec s) ! j"
    by (cases "i = j") (auto simp: nsg_keys_def ToNSGSlice_def updNsg_def GetNSGSpec_def defaultStateless_def
        split: option.split)
qed

lemma rule_views_cong:
  assumes "nsg_keys (GetNSGSpec t) = nsg_keys (GetNSGSpec s)"
  shows "ingressOfRule t b = ingressOfRule s b" "egressOfRule t b = egressOfRule s b"
    "ingress_ok (GetNSGSpec t) = ingress_ok (GetNSGSpec s)" "egress_ok (GetNSGSpec t) = egress_ok (GetNSGSpec s)"
    "nsg_ids_unique (GetNSGSpec t) = nsg_ids_unique (GetNSGSpec s)"
  unfolding ingressOfRule_def egressOfRule_def ingress_ok_def [abs_def] egress_ok_def [abs_def]
    nsg_lookup_keys assms by (rule refl)+

text \<open>What the spec must satisfy for its rules to be expressible.\<close>

definition rules_ok :: "ClusterScope \<Rightarrow> NSG \<Rightarrow> bool" where
  "rules_ok s nsg \<longleftrightarrow> nsg_ids_unique (GetNSGSpec s) \<and>
     list_all (ingress_ok (GetNSGSpec s)) (NSG_IngressRules nsg) \<and>
     list_all (egress_ok (GetNSGSpec s)) (NSG_EgressRules nsg)"

lemma rules_ok_defaultStateless: "rules_ok s (defaultStateless nsg) = rules_ok s nsg"
  by (auto simp: rules_ok_def defaultStateless_def list_all_iff ingress_ok_def egress_ok_def)

lemma made_view:
  assumes "\<And>x. x \<in> set xs \<Longrightarrow> dir (f x) \<and> v (f x) = x" and "\<And>y. y \<in> set ys \<Longrightarrow> \<not> dir (g y)"
  shows "v ` {b \<in> set (map f xs @ map g ys). dir b} = set xs"
proof -
  have "{b \<in> set (map f xs @ map g ys). dir b} = f ` set xs" using assms by auto
  moreover have "v ` f ` set xs = id ` set xs"
    unfolding image_image by (rule image_cong) (use assms(1) in auto)
  ultimately show ?thesis by simp
qed

lemma map_append_swap: "set (map f xs @ map g ys) = set (map g ys @ map f xs)"
  by (simp add: Un_commute)

text \<open>The request that adds rules: the bodies read back as the rules they were made from.\<close>

lemma generateAdd_bodies:
  assumes ok: "nsg_ids_unique (GetNSGSpec s)" "\<forall>r \<in> set is. ingress_ok (GetNSGSpec s) r"
      "\<forall>r \<in> set es. egress_ok (GetNSGSpec s) r"
    and st: "\<forall>r \<in> set is. statelessOrFalse (Ingress_IsStateless r) = Ingress_IsStateless r"
      "\<forall>r \<in> set es. statelessOrFalse (Egress_IsStateless r) = Egress_IsStateless r"
  shows "\<exists>bs. (\<forall>x :: 'st. generateAddSecurityRuleFromSpec s is es x = (Ret bs, x)) \<and>
    ingressOfRule s ` {b \<in> set bs. SR_Direction b = DirIngress} = set is \<and>
    egressOfRule s ` {b \<in> set bs. SR_Direction b = DirEgress} = set es"
proof -
  from ingress_roundtrip [OF _ ok(1)] ok(2) st(1)
  have "\<forall>r \<in> set is. \<exists>b. (\<forall>x :: 'st. addIngressRule s r x = (Ret b, x)) \<and> SR_Direction b = DirIngress \<and> ingressOfRule s b = r"
    by blast
  then obtain f where f: "\<forall>r \<in> set is. (\<forall>x :: 'st. addIngressRule s r x = (Ret (f r), x)) \<and>
      SR_Direction (f r) = DirIngress \<and> ingressOfRule s (f r) = r" by metis
  from egress_roundtrip [OF _ ok(1)] ok(3) st(2)
  have "\<forall>r \<in> set es. \<exists>b. (\<forall>x :: 'st. addEgressRule s r x = (Ret b, x)) \<and> SR_Direction b = DirEgress \<and> egressOfRule s b = r"
    by blast
  then obtain g where g: "\<forall>r \<in> set es. (\<forall>x :: 'st. addEgressRule s r x = (Ret (g r), x)) \<and>
      SR_Direction (g r) = DirEgress \<and> egressOfRule s (g r) = r" by metis
  have "go_map is (addIngressRule s) x = (Ret (map f is), x)" for x :: 'st
    using f by (intro go_map_pure) simp
  moreover have "go_map es (addEgressRule s) x = (Ret (map g es), x)" for x :: 'st
    using g by (intro go_map_pure) simp
  ultimately have "generateAddSecurityRuleFromSpec s is es x = (Ret (map f is @ map g es), x)" for x :: 'st
    by (simp add: generateAddSecurityRuleFromSpec_def go_simps)
  moreover have "ingressOfRule s ` {b \<in> set (map f is @ map g es). SR_Direction b = DirIngress} = set is"
    by (rule made_view) (use f g in auto)
  moreover have "egressOfRule s ` {b \<in> set (map f is @ map g es). SR_Direction b = DirEgress} = set es"
    by (subst map_append_swap, rule made_view) (use f g in auto)
  ultimately show ?thesis by blast
qed

text \<open>The effect on one direction of adding the missing rules and removing the superfluous ones.\<close>

lemma view_after_diff:
  assumes new: "dom new \<inter> dom old = {}" "v ` {b \<in> ran new. dir b} = set (rulesToAdd desired actual)"
    and act: "\<And>i r. (i, r) \<in> set actual \<longleftrightarrow> (\<exists>b. old i = Some b \<and> dir b \<and> r = v b)"
    and ids: "\<And>i b. old i = Some b \<Longrightarrow> dir b \<Longrightarrow> i \<in> ids \<longleftrightarrow> v b \<notin> set desired"
    and sub: "ids \<subseteq> dom old"
  shows "{v b | i b. ((old ++ new) |` (- ids)) i = Some b \<and> dir b} = set desired"
proof (rule set_eqI, rule iffI)
  fix r assume "r \<in> {v b | i b. ((old ++ new) |` (- ids)) i = Some b \<and> dir b}"
  then obtain i b where i: "i \<notin> ids" "new i = Some b \<or> old i = Some b" "dir b" "r = v b"
    by (auto simp: restrict_map_def map_add_Some_iff split: if_splits)
  then show "r \<in> set desired"
  proof (cases "new i = Some b")
    case True
    with i new(2) have "r \<in> set (rulesToAdd desired actual)" by (auto simp: ran_def)
    then show ?thesis by (simp add: rulesToAdd_def)
  qed (use i ids in auto)
next
  fix r assume r: "r \<in> set desired"
  show "r \<in> {v b | i b. ((old ++ new) |` (- ids)) i = Some b \<and> dir b}"
  proof (cases "\<exists>i. (i, r) \<in> set actual")
    case True
    then obtain i b where b: "old i = Some b" "dir b" "r = v b" using act by blast
    with new(1) have "new i = None" by auto
    moreover from b r ids have "i \<notin> ids" by auto
    ultimately have "((old ++ new) |` (- ids)) i = Some b"
      using b by (simp add: map_add_def)
    with b show ?thesis by blast
  next
    case False
    with r have "r \<in> set (rulesToAdd desired actual)" by (auto simp: rulesToAdd_def list_ex_iff)
    with new(2) have "r \<in> v ` {b \<in> ran new. dir b}" by simp
    then obtain b i where b: "new i = Some b" "dir b" "r = v b" by (auto simp: ran_def)
    with new(1) sub have "i \<notin> ids" by blast
    with b have "((old ++ new) |` (- ids)) i = Some b" by simp
    with b show ?thesis by blast
  qed
qed

lemma AddNSGSecurityRules_effect:
  assumes add: "adds_rules rules a"
    and ok: "nsg_ids_unique (GetNSGSpec s)" "\<forall>r \<in> set is. ingress_ok (GetNSGSpec s) r"
      "\<forall>r \<in> set es. egress_ok (GetNSGSpec s) r"
      "\<forall>r \<in> set is. statelessOrFalse (Ingress_IsStateless r) = Ingress_IsStateless r"
      "\<forall>r \<in> set es. statelessOrFalse (Egress_IsStateless r) = Egress_IsStateless r"
    and run: "AddNSGSecurityRules a (Some n) is es (s, w) = (Ret (), t)"
  shows "fst t = s \<and> (\<exists>new. dom new \<inter> dom (rules w n) = {} \<and> rules (snd t) n = rules w n ++ new \<and>
    ingressOfRule s ` {b \<in> ran new. SR_Direction b = DirIngress} = set is \<and>
    egressOfRule s ` {b \<in> ran new. SR_Direction b = DirEgress} = set es)"
proof -
  from generateAdd_bodies [OF ok] obtain bs where
    bs: "\<forall>x :: ClusterScope \<times> 'a. generateAddSecurityRuleFromSpec s is es x = (Ret bs, x)"
      "ingressOfRule s ` {b \<in> set bs. SR_Direction b = DirIngress} = set is"
      "egressOfRule s ` {b \<in> set bs. SR_Direction b = DirEgress} = set es" by blast
  with run have t: "fst t = s" and
    "api_AddNetworkSecurityGroupSecurityRules a (Some n) bs w = (Ret (), snd t)"
    by (auto simp: AddNSGSecurityRules_def go_simps prod_eq_iff split: res.splits prod.splits)
  with add obtain new where "dom new \<inter> dom (rules w n) = {}" "ran new = set bs" "rules (snd t) n = rules w n ++ new"
    unfolding adds_rules_def by blast
  with t bs(2,3) show ?thesis by (intro conjI exI [of _ new]) simp_all
qed

lemma set_rulesToRemove: "set (rulesToRemove desired actual) = {i. \<exists>r. (i, r) \<in> set actual \<and> r \<notin> set desired}"
  by (auto simp: rulesToRemove_def list_ex_iff image_iff)

lemma rulesToAdd_subset: "set (rulesToAdd desired actual) \<subseteq> set desired"
  by (auto simp: rulesToAdd_def)

text \<open>The add step of \<open>UpdateNSGSecurityRulesIfNeeded\<close>, skipped when there is nothing to add.\<close>

definition addStep ::
  "'w NsgApi \<Rightarrow> NSG \<Rightarrow> string option \<Rightarrow> IngressSecurityRuleForNSG list \<Rightarrow> EgressSecurityRuleForNSG list \<Rightarrow>
   ('w, bool) scope_go" where
  "addStep a desired nsgId is es =
     (if length is > 0 \<or> length es > 0
      then go_bind (AddNSGSecurityRules a (NSG_ID desired) is es) (\<lambda>_. go_bind (go_deref nsgId) (\<lambda>_. go_ret True))
      else go_ret False)"

definition removeStep :: "'w NsgApi \<Rightarrow> NSG \<Rightarrow> string option \<Rightarrow> string list \<Rightarrow> bool \<Rightarrow> ('w, bool) scope_go" where
  "removeStep a desired nsgId ids isNSGUpdated =
     (if length ids > 0
      then go_bind (api (api_RemoveNetworkSecurityGroupSecurityRules a (NSG_ID desired) ids)) (\<lambda>_.
           go_bind (go_deref nsgId) (\<lambda>_. go_ret True))
      else go_ret isNSGUpdated)"

lemma UpdateNSG_steps:
  "UpdateNSGSecurityRulesIfNeeded iterI iterE a idx desired nsgId =
     go_bind get_scope (\<lambda>s.
     go_bind (api (go_wrap ''failed to reconcile the network security group, failed to list security rules''
         (api_ListNetworkSecurityGroupSecurityRules a nsgId))) (\<lambda>items.
     go_bind (generateSpecFromSecurityRules s items) (\<lambda>(ai, ae).
     go_bind (mod_scope (updNsg idx defaultStateless)) (\<lambda>_.
     go_bind (addStep a (defaultStateless desired) nsgId
         (rulesToAdd (NSG_IngressRules (defaultStateless desired)) ai)
         (rulesToAdd (NSG_EgressRules (defaultStateless desired)) ae)) (\<lambda>u.
     removeStep a (defaultStateless desired) nsgId
       (rulesToRemove (NSG_IngressRules (defaultStateless desired)) (iterI ai) @
        rulesToRemove (NSG_EgressRules (defaultStateless desired)) (iterE ae)) u)))))"
  unfolding UpdateNSGSecurityRulesIfNeeded_def addStep_def removeStep_def Let_def ..

lemma addStep_effect:
  assumes add: "adds_rules rules a"
    and ok: "nsg_ids_unique (GetNSGSpec s)" "\<forall>r \<in> set is. ingress_ok (GetNSGSpec s) r"
      "\<forall>r \<in> set es. egress_ok (GetNSGSpec s) r"
      "\<forall>r \<in> set is. statelessOrFalse (Ingress_IsStateless r) = Ingress_IsStateless r"
      "\<forall>r \<in> set es. statelessOrFalse (Egress_IsStateless r) = Egress_IsStateless r"
    and n: "NSG_ID desired = Some n" and run: "addStep a desired (Some n) is es (s, w) = (Ret u, t)"
  shows "fst t = s \<and> (\<exists>new. dom new \<inter> dom (rules w n) = {} \<and> rules (snd t) n = rules w n ++ new \<and>
    ingressOfRule s ` {b \<in> ran new. SR_Direction b = DirIngress} = set is \<and>
    egressOfRule s ` {b \<in> ran new. SR_Direction b = DirEgress} = set es)"
proof (cases "is = [] \<and> es = []")
  case True
  with run have "t = (s, w)" by (simp add: addStep_def go_simps)
  with True show ?thesis by (intro conjI exI [of _ Map.empty]) simp_all
next
  case False
  with run n have "AddNSGSecurityRules a (Some n) is es (s, w) = (Ret (), t)"
    by (auto simp: addStep_def go_simps split: res.splits prod.splits)
  then show ?thesis by (rule AddNSGSecurityRules_effect [OF add ok])
qed

lemma removeStep_effect:
  assumes "removes_rules rules a" and n: "NSG_ID desired = Some n"
    and run: "removeStep a desired (Some n) ids u (s, w) = (Ret v, t)"
  shows "fst t = s \<and> rules (snd t) n = rules w n |` (- set ids)"
proof (cases "ids = []")
  case True
  with run have "t = (s, w)" by (simp add: removeStep_def go_simps)
  with True show ?thesis by (simp add: restrict_map_def)
next
  case False
  with run n have "fst t = s" "api_RemoveNetworkSecurityGroupSecurityRules a (Some n) ids w = (Ret (), snd t)"
    by (auto simp: removeStep_def go_simps prod_eq_iff split: res.splits prod.splits)
  with assms(1) show ?thesis unfolding removes_rules_def by blast
qed

lemma defaultStateless_rules:
  "r \<in> set (NSG_IngressRules (defaultStateless d)) \<Longrightarrow> statelessOrFalse (Ingress_IsStateless r) = Ingress_IsStateless r"
  "q \<in> set (NSG_EgressRules (defaultStateless d)) \<Longrightarrow> statelessOrFalse (Egress_IsStateless q) = Egress_IsStateless q"
  "NSG_ID (defaultStateless d) = NSG_ID d"
  by (auto simp: defaultStateless_def)

text \<open>A run that returns: the maps read from the cloud, then the two steps.\<close>

lemma UpdateNSG_runE:
  assumes law: "lists_rules limit rules a" and fits: "card (dom (rules w n)) \<le> limit"
    and run: "UpdateNSGSecurityRulesIfNeeded iterI iterE a idx desired (Some n) (s, w) = (Ret u, (s1, w1))"
  obtains ai ae v t where
    "\<And>i r. (i, r) \<in> set ai \<longleftrightarrow> (\<exists>b. rules w n i = Some b \<and> SR_Direction b = DirIngress \<and> r = ingressOfRule s b)"
    and "\<And>i r. (i, r) \<in> set ae \<longleftrightarrow> (\<exists>b. rules w n i = Some b \<and> SR_Direction b = DirEgress \<and> r = egressOfRule s b)"
    and "addStep a (defaultStateless desired) (Some n)
      (rulesToAdd (NSG_IngressRules (defaultStateless desired)) ai)
      (rulesToAdd (NSG_EgressRules (defaultStateless desired)) ae)
      (updNsg idx defaultStateless s, w) = (Ret v, t)"
    and "removeStep a (defaultStateless desired) (Some n)
      (rulesToRemove (NSG_IngressRules (defaultStateless desired)) (iterI ai) @
       rulesToRemove (NSG_EgressRules (defaultStateless desired)) (iterE ae)) v t = (Ret u, (s1, w1))"
proof -
  from run obtain items w' where l: "api_ListNetworkSecurityGroupSecurityRules a (Some n) w = (Ret items, w')"
    unfolding UpdateNSG_steps by (auto simp: go_simps split: res.splits prod.splits)
  note w' = lists_rulesD(1) [OF law l fits]
  obtain ai ae where g: "\<And>st :: ClusterScope \<times> 'a. generateSpecFromSecurityRules s items st = (Ret (ai, ae), st)"
    and m: "\<And>i r. (i, r) \<in> set ai \<longleftrightarrow> (\<exists>b. rules w n i = Some b \<and> SR_Direction b = DirIngress \<and> r = ingressOfRule s b)"
      "\<And>i r. (i, r) \<in> set ae \<longleftrightarrow> (\<exists>b. rules w n i = Some b \<and> SR_Direction b = DirEgress \<and> r = egressOfRule s b)"
    by (rule generateSpec_lawful [OF law l fits, of s]) blast
  from run obtain v t where
    "addStep a (defaultStateless desired) (Some n)
      (rulesToAdd (NSG_IngressRules (defaultStateless desired)) ai)
      (rulesToAdd (NSG_EgressRules (defaultStateless desired)) ae)
      (updNsg idx defaultStateless s, w) = (Ret v, t)"
    "removeStep a (defaultStateless desired) (Some n)
      (rulesToRemove (NSG_IngressRules (defaultStateless desired)) (iterI ai) @
       rulesToRemove (NSG_EgressRules (defaultStateless desired)) (iterE ae)) v t = (Ret u, (s1, w1))"
    unfolding UpdateNSG_steps by (auto simp: go_simps l w' g split: res.splits prod.splits)
  with m show thesis by (rule that)
qed

lemma rules_ok_toAdd:
  assumes "rules_ok s desired" and keys: "nsg_keys (GetNSGSpec t) = nsg_keys (GetNSGSpec s)"
  shows "nsg_ids_unique (GetNSGSpec t)"
    "\<forall>r \<in> set (rulesToAdd (NSG_IngressRules (defaultStateless desired)) ai). ingress_ok (GetNSGSpec t) r"
    "\<forall>r \<in> set (rulesToAdd (NSG_EgressRules (defaultStateless desired)) ae). egress_ok (GetNSGSpec t) r"
    "\<forall>r \<in> set (rulesToAdd (NSG_IngressRules (defaultStateless desired)) ai).
       statelessOrFalse (Ingress_IsStateless r) = Ingress_IsStateless r"
    "\<forall>r \<in> set (rulesToAdd (NSG_EgressRules (defaultStateless desired)) ae).
       statelessOrFalse (Egress_IsStateless r) = Egress_IsStateless r"
proof -
  from assms(1) have "rules_ok s (defaultStateless desired)" by (simp add: rules_ok_defaultStateless)
  then show "nsg_ids_unique (GetNSGSpec t)"
    "\<forall>r \<in> set (rulesToAdd (NSG_IngressRules (defaultStateless desired)) ai). ingress_ok (GetNSGSpec t) r"
    "\<forall>r \<in> set (rulesToAdd (NSG_EgressRules (defaultStateless desired)) ae). egress_ok (GetNSGSpec t) r"
    by (auto simp: rules_ok_def list_all_iff rule_views_cong [OF keys] dest: subsetD [OF rulesToAdd_subset])
qed (auto dest!: subsetD [OF rulesToAdd_subset] intro: defaultStateless_rules)

text \<open>C4. \<open>UpdateNSGSecurityRulesIfNeeded\<close> converges. For a group whose rules fit into the one page that the source reads, and whose
  spec names its groups unambiguously and refers in its rules only to groups that resolve (\<open>rules_ok\<close>),
  over a lawful rule service and for any order of iteration over Go's maps: when it returns without
  error, the ingress rules of the group in the cloud, read back as rules of the spec, are exactly the
  ingress rules of the spec (with \<open>IsStateless\<close> defaulted), and likewise for the egress rules.\<close>

theorem UpdateNSGSecurityRules_converges:
  assumes law: "lawful_rules limit rules a" and fits: "card (dom (rules w n)) \<le> limit"
    and iter: "\<And>xs. set (iterI xs) = set xs" "\<And>xs. set (iterE xs) = set xs"
    and ok: "rules_ok s desired" and n: "NSG_ID desired = Some n"
    and run: "UpdateNSGSecurityRulesIfNeeded iterI iterE a idx desired (Some n) (s, w) = (Ret u, (s1, w1))"
  shows "ingress_view s1 (rules w1 n) = set (NSG_IngressRules (defaultStateless desired)) \<and>
    egress_view s1 (rules w1 n) = set (NSG_EgressRules (defaultStateless desired))"
proof -
  let ?t = "updNsg idx defaultStateless s" and ?d = "defaultStateless desired"
  from law have laws: "lists_rules limit rules a" "adds_rules rules a" "removes_rules rules a"
    by (simp_all add: lawful_rules_def)
  from n have n': "NSG_ID ?d = Some n" by (simp add: defaultStateless_rules)
  obtain ai ae v t where
    ai: "\<And>i r. (i, r) \<in> set ai \<longleftrightarrow> (\<exists>b. rules w n i = Some b \<and> SR_Direction b = DirIngress \<and> r = ingressOfRule s b)"
    and ae: "\<And>i r. (i, r) \<in> set ae \<longleftrightarrow> (\<exists>b. rules w n i = Some b \<and> SR_Direction b = DirEgress \<and> r = egressOfRule s b)"
    and add: "addStep a ?d (Some n) (rulesToAdd (NSG_IngressRules ?d) ai) (rulesToAdd (NSG_EgressRules ?d) ae)
      (?t, w) = (Ret v, t)"
    and rem: "removeStep a ?d (Some n) (rulesToRemove (NSG_IngressRules ?d) (iterI ai) @
       rulesToRemove (NSG_EgressRules ?d) (iterE ae)) v t = (Ret u, (s1, w1))"
    by (rule UpdateNSG_runE [OF laws(1) fits run]) blast
  let ?ids = "set (rulesToRemove (NSG_IngressRules ?d) (iterI ai) @ rulesToRemove (NSG_EgressRules ?d) (iterE ae))"
  note keys = nsg_keys_defaultStateless [of idx s]
  from addStep_effect [OF laws(2) rules_ok_toAdd [OF ok keys] n' add] obtain new where
    t: "fst t = ?t" "rules (snd t) n = rules w n ++ new"
    and new: "dom new \<inter> dom (rules w n) = {}"
      "ingressOfRule s ` {b \<in> ran new. SR_Direction b = DirIngress} = set (rulesToAdd (NSG_IngressRules ?d) ai)"
      "egressOfRule s ` {b \<in> ran new. SR_Direction b = DirEgress} = set (rulesToAdd (NSG_EgressRules ?d) ae)"
    unfolding rule_views_cong [OF keys] by blast
  from rem have "removeStep a ?d (Some n) (rulesToRemove (NSG_IngressRules ?d) (iterI ai) @
       rulesToRemove (NSG_EgressRules ?d) (iterE ae)) v (fst t, snd t) = (Ret u, (s1, w1))" by simp
  from removeStep_effect [OF laws(3) n' this] t
  have s1: "s1 = ?t" and w1: "rules w1 n = (rules w n ++ new) |` (- ?ids)" by auto
  have ids: "i \<in> ?ids \<longleftrightarrow> (\<exists>r. (i, r) \<in> set ai \<and> r \<notin> set (NSG_IngressRules ?d)) \<or>
      (\<exists>r. (i, r) \<in> set ae \<and> r \<notin> set (NSG_EgressRules ?d))" for i
    by (simp add: set_rulesToRemove iter)
  have sub: "?ids \<subseteq> dom (rules w n)" using ids ai ae by blast
  have "{ingressOfRule s b | i b. rules w1 n i = Some b \<and> SR_Direction b = DirIngress} = set (NSG_IngressRules ?d)"
    unfolding w1 by (rule view_after_diff [OF new(1,2) ai _ sub])
      (auto simp: set_rulesToRemove iter ai ae)
  moreover have "{egressOfRule s b | i b. rules w1 n i = Some b \<and> SR_Direction b = DirEgress} = set (NSG_EgressRules ?d)"
    unfolding w1 by (rule view_after_diff [OF new(1,3) ae _ sub])
      (auto simp: set_rulesToRemove iter ai ae)
  ultimately show ?thesis
    unfolding s1 ingress_view_def egress_view_def rule_views_cong [OF keys] by blast
qed

lemma rules_diff_empty:
  assumes act: "\<And>i r. (i, r) \<in> set actual \<longleftrightarrow> (\<exists>b. old i = Some b \<and> dir b \<and> r = v b)"
    and "{v b | i b. old i = Some b \<and> dir b} = set desired" and "set ys = set actual"
  shows "rulesToAdd desired actual = [] \<and> rulesToRemove desired ys = []"
proof
  show "rulesToAdd desired actual = []"
    unfolding rulesToAdd_def filter_empty_conv list_ex_iff using act assms(2) by blast
  have "set (rulesToRemove desired ys) = {}"
    unfolding set_rulesToRemove assms(3) using act assms(2) by blast
  then show "rulesToRemove desired ys = []" by simp
qed

text \<open>Once the rules have converged nothing is sent: a further run over the spec that the first run left
  (\<open>IsStateless\<close> defaulted), if its list request is answered, reports that no update was needed and leaves
  the cloud unchanged.\<close>

theorem UpdateNSGSecurityRules_idempotent:
  assumes law: "lawful_rules limit rules a" and fits: "card (dom (rules w n)) \<le> limit"
    and iter: "\<And>xs. set (iterI xs) = set xs" "\<And>xs. set (iterE xs) = set xs"
    and conv: "ingress_view s (rules w n) = set (NSG_IngressRules (defaultStateless desired))"
      "egress_view s (rules w n) = set (NSG_EgressRules (defaultStateless desired))"
    and l: "api_ListNetworkSecurityGroupSecurityRules a (Some n) w = (Ret items, w')"
  shows "UpdateNSGSecurityRulesIfNeeded iterI iterE a idx desired (Some n) (s, w) =
    (Ret False, (updNsg idx defaultStateless s, w))"
proof -
  from law have law': "lists_rules limit rules a" by (simp add: lawful_rules_def)
  note w' = lists_rulesD(1) [OF law' l fits]
  obtain ai ae where g: "\<And>st :: ClusterScope \<times> 'a. generateSpecFromSecurityRules s items st = (Ret (ai, ae), st)"
    and ai: "\<And>i r. (i, r) \<in> set ai \<longleftrightarrow> (\<exists>b. rules w n i = Some b \<and> SR_Direction b = DirIngress \<and> r = ingressOfRule s b)"
    and ae: "\<And>i r. (i, r) \<in> set ae \<longleftrightarrow> (\<exists>b. rules w n i = Some b \<and> SR_Direction b = DirEgress \<and> r = egressOfRule s b)"
    by (rule generateSpec_lawful [OF law' l fits, of s]) blast
  note i = rules_diff_empty [OF ai conv(1) [unfolded ingress_view_def] iter(1)]
  note e = rules_diff_empty [OF ae conv(2) [unfolded egress_view_def] iter(2)]
  show ?thesis unfolding UpdateNSG_steps
    by (simp add: go_simps l w' g i e addStep_def removeStep_def)
qed

section \<open>Witnesses\<close>

text \<open>A rule service for one group that may hold one rule; its state is the list of its rules.\<close>

definition slot_rule :: "SecurityRuleBody \<Rightarrow> SecurityRule" where
  "slot_rule b = SecurityRuleBody.extend b (SecurityRule.fields (Some ''r1''))"

definition slot_rules :: "SecurityRule list rule_table" where
  "slot_rules w n i = (if n = slot_id then map_option rule_body (find (\<lambda>r. SR_Id r = Some i) w) else None)"

definition slot_nsg_api :: "SecurityRule list NsgApi" where
  "slot_nsg_api = \<lparr>api_ListNetworkSecurityGroups = (\<lambda>_ _ _. go_ret []),
     api_GetNetworkSecurityGroup = (\<lambda>_. go_throw not_found_err),
     api_CreateNetworkSecurityGroup = (\<lambda>_. go_throw quota_err),
     api_UpdateNetworkSecurityGroup = (\<lambda>_ _. go_throw not_found_err),
     api_DeleteNetworkSecurityGroup = (\<lambda>_. go_throw not_found_err),
     api_ListNetworkSecurityGroupSecurityRules = (\<lambda>n w. if n = Some slot_id \<and>
       (w = [] \<or> (\<exists>r. w = [r] \<and> SR_Id r \<noteq> None)) then (Ret w, w) else (Err not_found_err, w)),
     api_AddNetworkSecurityGroupSecurityRules = (\<lambda>n rs w. if n = Some slot_id \<and> w = [] \<and> length rs = 1
       then (Ret (), map slot_rule rs) else (Err quota_err, w)),
     api_RemoveNetworkSecurityGroupSecurityRules = (\<lambda>n ids w. if n = Some slot_id
       then (Ret (), filter (\<lambda>r. SR_Id r \<notin> Some ` set ids) w) else (Err not_found_err, w))\<rparr>"

lemma slot_rule_simps [simp]: "SR_Id (slot_rule b) = Some ''r1''" "rule_body (slot_rule b) = b"
  by (simp_all add: slot_rule_def rule_body_def SecurityRuleBody.defs SecurityRule.defs)

lemma find_filter_ids:
  "find (\<lambda>r. SR_Id r = Some i) (filter (\<lambda>r. SR_Id r \<notin> Some ` ids) w) =
     (if i \<in> ids then None else find (\<lambda>r. SR_Id r = Some i) w)"
  by (induction w) auto

lemma slot_rules_lawful: "lawful_rules 1 slot_rules slot_nsg_api"
proof -
  have "dom (slot_rules [r] slot_id) = {i}" if "SR_Id r = Some i" for r i
    using that by (auto simp: slot_rules_def split: if_splits)
  moreover have "dom (slot_rules [] slot_id) = {}" by (simp add: slot_rules_def dom_def)
  ultimately have "lists_rules 1 slot_rules slot_nsg_api"
    by (auto simp: lists_rules_def slot_nsg_api_def slot_rules_def split: if_splits)
  moreover have "adds_rules slot_rules slot_nsg_api"
    unfolding adds_rules_def
  proof (intro allI impI)
    fix n rs w w' assume "api_AddNetworkSecurityGroupSecurityRules slot_nsg_api (Some n) rs w = (Ret (), w')"
    then obtain b where "n = slot_id" "w = []" "rs = [b]" "w' = [slot_rule b]"
      by (auto simp: slot_nsg_api_def length_Suc_conv split: if_splits)
    then show "\<exists>new. dom new \<inter> dom (slot_rules w n) = {} \<and> ran new = set rs \<and> slot_rules w' n = slot_rules w n ++ new"
      by (intro exI [of _ "[''r1'' \<mapsto> b]"]) (auto simp: slot_rules_def fun_eq_iff)
  qed
  moreover have "removes_rules slot_rules slot_nsg_api"
    by (auto simp: removes_rules_def slot_nsg_api_def slot_rules_def restrict_map_def fun_eq_iff find_filter_ids
        split: if_splits)
  ultimately show ?thesis by (simp add: lawful_rules_def)
qed

definition sample_nsg :: NSG where
  "sample_nsg = \<lparr>NSG_ID = Some slot_id, NSG_Name = ''ep'', NSG_Role = ControlPlaneEndpointRole, NSG_EgressRules = [],
     NSG_IngressRules = [sample_ingress ''0.0.0.0/0'']\<rparr>"

definition sample_rule_body :: SecurityRuleBody where
  "sample_rule_body = \<lparr>SR_Direction = DirIngress, SR_Protocol = Some ''6'', SR_Description = None,
     SR_IcmpOptions = None, SR_IsStateless = Some False, SR_Source = Some ''0.0.0.0/0'', SR_SourceType = CidrBlockType,
     SR_Destination = None, SR_DestinationType = [],
     SR_TcpOptions = Some \<lparr>SdkTcp_DestinationPortRange =
       Some \<lparr>SdkPortRange_Max = Some 6443, SdkPortRange_Min = Some 6443\<rparr>, SdkTcp_SourcePortRange = None\<rparr>,
     SR_UdpOptions = None\<rparr>"

lemma sample_nsg_ok: "rules_ok sample_scope sample_nsg"
  by (simp add: rules_ok_def sample_nsg_def ingress_ok_def sample_ingress_def nsg_ids_unique_def
      GetNSGSpec_def ToNSGSlice_def)

lemma sample_nsg_run:
  "UpdateNSGSecurityRulesIfNeeded (\<lambda>x. x) (\<lambda>x. x) slot_nsg_api 0 sample_nsg (Some slot_id) (sample_scope, []) =
     (Ret True, (updNsg 0 defaultStateless sample_scope, [slot_rule sample_rule_body]))"
  by (simp add: UpdateNSG_steps go_simps slot_nsg_api_def generateSpecFromSecurityRules_def addStep_def
      removeStep_def rulesToAdd_def rulesToRemove_def AddNSGSecurityRules_def generateAddSecurityRuleFromSpec_def
      addIngressRule_def getProtocolOptions_def sample_nsg_def defaultStateless_def sample_ingress_def
      statelessOrFalse_def sdkTcp_def sdkPortRange_def sample_rule_body_def)

theorem UpdateNSGSecurityRules_converges_witness:
  "ingress_view (updNsg 0 defaultStateless sample_scope) (slot_rules [slot_rule sample_rule_body] slot_id) =
     set (NSG_IngressRules (defaultStateless sample_nsg))"
  using UpdateNSGSecurityRules_converges [OF slot_rules_lawful _ _ _ sample_nsg_ok _ sample_nsg_run]
  by (simp add: sample_nsg_def slot_rules_def dom_def)

lemma sample_nsg_converged:
  "ingress_view sample_scope (slot_rules [slot_rule sample_rule_body] slot_id) =
     set (NSG_IngressRules (defaultStateless sample_nsg))"
  "egress_view sample_scope (slot_rules [slot_rule sample_rule_body] slot_id) =
     set (NSG_EgressRules (defaultStateless sample_nsg))"
  by (auto simp: ingress_view_def egress_view_def slot_rules_def sample_nsg_def defaultStateless_def
      sample_rule_body_def ingressOfRule_def getProtocolOptionsForSpec_def sample_ingress_def statelessOrFalse_def
      specTcp_def specPortRange_def split: if_splits)

theorem UpdateNSGSecurityRules_idempotent_witness:
  "UpdateNSGSecurityRulesIfNeeded (\<lambda>x. x) (\<lambda>x. x) slot_nsg_api 0 sample_nsg (Some slot_id)
     (sample_scope, [slot_rule sample_rule_body]) =
   (Ret False, (updNsg 0 defaultStateless sample_scope, [slot_rule sample_rule_body]))"
  by (rule UpdateNSGSecurityRules_idempotent [OF slot_rules_lawful _ _ _ sample_nsg_converged])
    (simp_all add: slot_nsg_api_def slot_rules_def dom_def)

end
