(* ===== verification/Go_Net.thy ===== *)
theory Go_Net
  imports Go_Prelude
begin

text \<open>
  The part of Go's packages \<open>net\<close>, \<open>net/netip\<close> and \<open>fmt\<close> that the subnet reconciler uses:
  \<open>net.ParseCIDR\<close>, \<open>net.IP.String\<close> and the verb \<open>%04s\<close>. An address is the list of its eight 16-bit
  groups; an IPv4 address is held in its IPv4-mapped form, as \<open>net.IP\<close> does.
\<close>

section \<open>Parsing\<close>

definition hex_val :: "char \<Rightarrow> nat option" where
  "hex_val c = (let n = (of_char c :: nat) in
     if 48 \<le> n \<and> n \<le> 57 then Some (n - 48)
     else if 97 \<le> n \<and> n \<le> 102 then Some (n - 87)
     else if 65 \<le> n \<and> n \<le> 70 then Some (n - 55)
     else None)"

definition is_hex :: "char \<Rightarrow> bool" where
  "is_hex c \<longleftrightarrow> hex_val c \<noteq> None"

definition hex_num :: "string \<Rightarrow> nat" where
  "hex_num ds = foldl (\<lambda>acc c. 16 * acc + (case hex_val c of Some v \<Rightarrow> v | None \<Rightarrow> 0)) 0 ds"

text \<open>A field of a dotted address: one to three digits, no leading zero, at most 255.\<close>

definition parse_octet :: "string \<Rightarrow> nat option" where
  "parse_octet ds =
     (if ds = [] \<or> \<not> list_all is_digit ds \<or> (length ds > 1 \<and> hd ds = CHR ''0'') \<or> digits_val ds > 255
      then None else Some (nat (digits_val ds)))"

definition parseIPv4Fields :: "string \<Rightarrow> (nat \<times> nat) option" where
  "parseIPv4Fields s = (case map parse_octet (Split (CHR ''.'') s) of
      [Some a, Some b, Some c, Some d] \<Rightarrow> Some (256 * a + b, 256 * c + d)
    | _ \<Rightarrow> None)"

text \<open>The loop of \<open>parseIPv6\<close>: the groups parsed so far, the position of the ellipsis, the rest of the
  string. The loop ends when the string is used up, when eight groups are there, or on an error.\<close>

function parseGroups :: "nat list \<Rightarrow> nat option \<Rightarrow> string \<Rightarrow> (nat list \<times> nat option \<times> string) option" where
  "parseGroups gs ell s =
     (if length gs \<ge> 8 then Some (gs, ell, s)
      else
        let ds = takeWhile is_hex s; rest = dropWhile is_hex s in
        if ds = [] \<or> length ds > 4 then None
        else (case rest of
            [] \<Rightarrow> Some (gs @ [hex_num ds], ell, [])
          | c # cs \<Rightarrow>
              if c = CHR ''.'' then
                (if ell = None \<and> length gs \<noteq> 6 \<or> length gs > 6 then None
                 else (case parseIPv4Fields s of None \<Rightarrow> None | Some (h, l) \<Rightarrow> Some (gs @ [h, l], ell, [])))
              else if c \<noteq> CHR '':'' then None
              else (case cs of
                  [] \<Rightarrow> None
                | d # ds' \<Rightarrow>
                    if d = CHR '':'' then
                      (if ell \<noteq> None then None
                       else if ds' = [] then Some (gs @ [hex_num ds], Some (length gs + 1), [])
                       else parseGroups (gs @ [hex_num ds]) (Some (length gs + 1)) ds')
                    else parseGroups (gs @ [hex_num ds]) ell cs)))"
  by pat_completeness auto

termination
  by (relation "measure (\<lambda>(gs, _, _). 8 - length gs)") auto

declare parseGroups.simps [simp del]

definition parseIPv6 :: "string \<Rightarrow> nat list option" where
  "parseIPv6 s =
     (let (ell0, s0) = (if take 2 s = ''::'' then (Some 0, drop 2 s) else (None, s)) in
      if ell0 \<noteq> None \<and> s0 = [] then Some (replicate 8 0)
      else (case parseGroups [] ell0 s0 of
          None \<Rightarrow> None
        | Some (gs, ell, rest) \<Rightarrow>
            if rest \<noteq> [] then None
            else if length gs < 8 then
              (case ell of
                 None \<Rightarrow> None
               | Some e \<Rightarrow> Some (take e gs @ replicate (8 - length gs) 0 @ drop e gs))
            else if ell \<noteq> None then None
            else Some gs))"

text \<open>\<open>netip.ParseAddr\<close> decides by the first of \<open>.\<close>, \<open>:\<close> and \<open>%\<close>; \<open>ParseCIDR\<close> refuses a zone.\<close>

definition parseAddr :: "string \<Rightarrow> (bool \<times> nat list) option" where
  "parseAddr s = (case dropWhile (\<lambda>c. c \<noteq> CHR ''.'' \<and> c \<noteq> CHR '':'' \<and> c \<noteq> CHR ''%'') s of
      [] \<Rightarrow> None
    | c # _ \<Rightarrow>
        if c = CHR ''.'' then
          map_option (\<lambda>(h, l). (True, [0, 0, 0, 0, 0, 65535, h, l])) (parseIPv4Fields s)
        else if c = CHR '':'' then
          (if CHR ''%'' \<in> set s then None else map_option (\<lambda>gs. (False, gs)) (parseIPv6 s))
        else None)"

text \<open>The address part of \<open>net.ParseCIDR\<close>'s results.\<close>

definition ParseCIDR :: "string \<Rightarrow> nat list option" where
  "ParseCIDR s =
     (let addr = takeWhile (\<lambda>c. c \<noteq> CHR ''/'') s; rest = dropWhile (\<lambda>c. c \<noteq> CHR ''/'') s in
      if rest = [] then None
      else (case parseAddr addr of
          None \<Rightarrow> None
        | Some (v4, gs) \<Rightarrow>
            let mask = tl rest in
            if mask = [] \<or> \<not> list_all is_digit mask \<or> digits_val mask > (if v4 then 32 else 128) then None
            else Some gs))"

section \<open>Printing\<close>

definition hex_digit :: "nat \<Rightarrow> char" where
  "hex_digit n = (if n < 10 then char_of (48 + n) else char_of (87 + n))"

fun hex_string :: "nat \<Rightarrow> string" where
  "hex_string n = (if n < 16 then [hex_digit n] else hex_string (n div 16) @ [hex_digit (n mod 16)])"

declare hex_string.simps [simp del]

definition zero_run :: "nat list \<Rightarrow> nat \<Rightarrow> nat" where
  "zero_run gs i = length (takeWhile (\<lambda>g. g = 0) (drop i gs))"

text \<open>The first longest run of at least two zero groups.\<close>

definition longest_zeros :: "nat list \<Rightarrow> (nat \<times> nat) option" where
  "longest_zeros gs = foldl (\<lambda>best i.
     let l = zero_run gs i; b = (case best of None \<Rightarrow> 0 | Some (st, en) \<Rightarrow> en - st) in
     if l \<ge> 2 \<and> l > b then Some (i, i + l) else best) None [0..<8]"

definition ip_string :: "nat list \<Rightarrow> string" where
  "ip_string gs =
     (if take 6 gs = [0, 0, 0, 0, 0, 65535] then
        Join [nat_digits (gs ! 6 div 256), nat_digits (gs ! 6 mod 256),
              nat_digits (gs ! 7 div 256), nat_digits (gs ! 7 mod 256)] ''.''
      else (case longest_zeros gs of
          None \<Rightarrow> Join (map hex_string gs) '':''
        | Some (st, en) \<Rightarrow>
            Join (map hex_string (take st gs)) '':'' @ ''::'' @ Join (map hex_string (drop en gs)) '':''))"

text \<open>\<open>%04s\<close> pads on the left with zeros to four bytes.\<close>

definition pad4 :: "string \<Rightarrow> string" where
  "pad4 s = replicate (4 - length s) (CHR ''0'') @ s"

section \<open>Lemmas\<close>

lemma pad4_length: "length s \<le> 4 \<Longrightarrow> length (pad4 s) = 4"
  by (simp add: pad4_def)

lemma Split_not_mem: "w \<in> set (Split c s) \<Longrightarrow> c \<notin> set w"
  by (induction s arbitrary: w) (auto split: list.splits if_splits)

lemma Split_single: "c \<notin> set s \<Longrightarrow> Split c s = [s]"
  by (induction s) auto

lemma Split_append: "c \<notin> set p \<Longrightarrow> Split c (p @ c # s) = p # Split c s"
  by (induction p) auto

lemma Split_Join: "ws \<noteq> [] \<Longrightarrow> \<forall>w \<in> set ws. c \<notin> set w \<Longrightarrow> Split c (Join ws [c]) = ws"
proof (induction ws "[c]" rule: Join.induct)
  case (3 w v ws)
  then show ?case by (simp add: Split_append)
qed (simp_all add: Split_single)

lemma hex_digit_not_colon: "n < 16 \<Longrightarrow> hex_digit n \<noteq> CHR '':''"
proof
  assume "n < 16" and "hex_digit n = CHR '':''"
  then have "(of_char (hex_digit n) :: nat) = of_char (CHR '':'')" by simp
  with \<open>n < 16\<close> show False by (auto simp: hex_digit_def split: if_splits)
qed

lemma hex_string_no_colon: "CHR '':'' \<notin> set (hex_string n)"
proof (induction n rule: hex_string.induct)
  case (1 n)
  show ?case
    using 1 hex_digit_not_colon [of n] hex_digit_not_colon [of "n mod 16"]
    by (subst hex_string.simps) (auto dest: sym)
qed

lemma hex_string_length: "n < 16 ^ (Suc k) \<Longrightarrow> length (hex_string n) \<le> Suc k"
proof (induction k arbitrary: n)
  case 0
  then show ?case by (subst hex_string.simps) simp
next
  case (Suc k)
  then have "n div 16 < 16 ^ Suc k" by (simp add: less_mult_imp_div_less mult.commute)
  with Suc.IH show ?case by (subst hex_string.simps) simp
qed

lemma hex_string_not_Nil: "hex_string n \<noteq> []"
  by (subst hex_string.simps) simp

text \<open>Evaluation on concrete texts and addresses.\<close>

lemma replicate_4: "replicate 4 x = [x, x, x, x]"
  by (simp add: eval_nat_numeral)

lemmas cidr_eval = ParseCIDR_def parseAddr_def parseIPv6_def parseGroups.simps is_hex_def hex_val_def
  hex_num_def is_digit_def digits_val_def Let_def replicate_4

lemmas ip_string_eval = ip_string_def longest_zeros_def zero_run_def upt_conv_Cons hex_string.simps hex_digit_def
  char_of_def bit_iff_odd

lemma Join_append_single: "ws \<noteq> [] \<Longrightarrow> Join (ws @ [v]) sep = Join ws sep @ sep @ v"
proof (induction ws sep rule: Join.induct)
  case (3 w v' ws sep)
  then show ?case by simp
qed simp_all

end
