(* ===== verification/Subnet_Reconciler.thy ===== *)
theory Subnet_Reconciler
  imports Route_Tables Security_Rules Go_Net
begin

text \<open>
  The subnets (src/cloud/scope/subnet_reconciler.go): lookup, creation with the IPv6 block of the
  subnet, update, reconciliation together with the subnet's security list, deletion.
\<close>

section \<open>Model\<close>

definition updSubnet :: "nat \<Rightarrow> (Subnet \<Rightarrow> Subnet) \<Rightarrow> ClusterScope \<Rightarrow> ClusterScope" where
  "updSubnet i f = upd_Vcn (\<lambda>v. v\<lparr>VCN_Subnets := (VCN_Subnets v)[i := map_option f (VCN_Subnets v ! i)]\<rparr>)"

definition GetSubnet :: "'w SubnetApi \<Rightarrow> Subnet \<Rightarrow> ('w, SdkSubnet option) scope_go" where
  "GetSubnet a spec =
     go_bind get_scope (\<lambda>s.
     case Subnet_ID spec of
       Some i \<Rightarrow> go_bind (api (api_GetSubnet a (Some i))) (accept_owned s)
     | None \<Rightarrow>
         go_bind (api (go_wrap ''failed to list subnets''
             (api_ListSubnets a (GetCompartmentId s) (getVcnId s) (Subnet_Name spec)))) (\<lambda>items.
         go_ret (find_owned s items)))"

definition IsSubnetsEqual :: "SdkSubnet \<Rightarrow> Subnet \<Rightarrow> bool" where
  "IsSubnetsEqual actual desired =
     (if Subnet_Name desired \<noteq> ToString (Res_DisplayName actual) then False
      else if Subnet_CIDR desired \<noteq> ToString (SdkSubnet_CidrBlock actual) then False
      else (case Subnet_SecurityList desired of
          Some l \<Rightarrow>
            if SecurityList_ID l = None then False
            else ToString (SecurityList_ID l) \<in> set (SdkSubnet_SecurityListIds actual)
        | None \<Rightarrow> True))"

text \<open>The IPv6 block of the subnet: the first block of the VCN with the last two digits of its fourth
  hextet replaced by those of the spec.\<close>

definition ipv6SubnetCidr :: "string list option \<Rightarrow> string option \<Rightarrow> ('s, string option) go" where
  "ipv6SubnetCidr blocks hextet = (case blocks of
      None \<Rightarrow> go_ret None
    | Some [] \<Rightarrow> go_ret None
    | Some (vcnCIDR # _) \<Rightarrow>
        (case ParseCIDR vcnCIDR of
           None \<Rightarrow> go_throw (ErrWrap ''failed to parse IPv6 CIDR block'' (ErrNew (''invalid CIDR address: '' @ vcnCIDR)))
         | Some ip \<Rightarrow>
             let hextets = Split (CHR '':'') (ip_string ip) in
             if length hextets \<ge> 4 then
               (let originalHextet = (if length (hextets ! 3) < 4 then pad4 (hextets ! 3) else hextets ! 3) in
                go_bind (go_deref hextet) (\<lambda>h.
                go_ret (Some (Join (hextets[3 := take 2 originalHextet @ h]) '':'' @ ''/64''))))
             else go_ret None))"

text \<open>The error of the \<open>GetVcn\<close> request is not examined; the response of a failed request is the zero value.\<close>

definition CreateSubnet :: "'w VcnApi \<Rightarrow> 'w SubnetApi \<Rightarrow> Subnet \<Rightarrow> ('w, string option) scope_go" where
  "CreateSubnet va a spec =
     go_bind get_scope (\<lambda>s.
     let isPrivate = (Subnet_Type spec = Private);
         routeTable = (if isPrivate then getRouteTableId s Private else getRouteTableId s Public) in
     go_bind (go_try (api (api_GetVcn va (getVcnId s)))) (\<lambda>resp.
     go_bind (ipv6SubnetCidr (case resp of Inl _ \<Rightarrow> None | Inr vcn \<Rightarrow> Vcn_Ipv6CidrBlocks vcn)
         (Subnet_Ipv6CidrBlockHextet spec)) (\<lambda>ipv6.
     go_bind (case Subnet_SecurityList spec of
         None \<Rightarrow> go_ret []
       | Some l \<Rightarrow> go_bind (go_deref (SecurityList_ID l)) (\<lambda>i. go_ret [i])) (\<lambda>secLists.
     go_bind (api (go_wrap ''failed create subnet''
         (api_CreateSubnet a
            \<lparr>CD_CompartmentId = GetCompartmentId s, CD_DisplayName = Subnet_Name spec,
             CD_FreeformTags = GetFreeFormTags s, CD_DefinedTags = GetDefinedTags s, CD_VcnId = getVcnId s,
             CSN_CidrBlock = Subnet_CIDR spec, CSN_ProhibitInternetIngress = isPrivate,
             CSN_ProhibitPublicIpOnVnic = isPrivate, CSN_RouteTableId = routeTable,
             CSN_DnsLabel = Subnet_DnsLabel spec, CSN_Ipv6CidrBlock = ipv6, CSN_SecurityListIds = secLists\<rparr>))) (\<lambda>resp.
     go_bind (go_deref (Res_Id resp)) (\<lambda>_.
     go_ret (Res_Id resp)))))))"

definition UpdateSubnet :: "'w SubnetApi \<Rightarrow> Subnet \<Rightarrow> ('w, unit) scope_go" where
  "UpdateSubnet a spec =
     go_bind (case Subnet_SecurityList spec of
         None \<Rightarrow> go_ret []
       | Some l \<Rightarrow> (case SecurityList_ID l of
           None \<Rightarrow> go_throw (ErrNew ''SecurityListID required'')
         | Some i \<Rightarrow> go_ret [i])) (\<lambda>secLists.
     go_bind (api (go_wrap ''failed to reconcile the subnet, failed to update''
         (api_UpdateSubnet a (Subnet_ID spec)
            \<lparr>USN_DisplayName = Subnet_Name spec, USN_CidrBlock = Subnet_CIDR spec, USN_SecurityListIds = secLists\<rparr>))) (\<lambda>resp.
     go_bind (go_deref (Res_Id resp)) (\<lambda>_. go_ret ())))"

definition setSecListId :: "nat \<Rightarrow> string option \<Rightarrow> ClusterScope \<Rightarrow> ClusterScope" where
  "setSecListId i sid = updSubnet i (\<lambda>n. n\<lparr>Subnet_SecurityList :=
     map_option (\<lambda>l. l\<lparr>SecurityList_ID := sid\<rparr>) (Subnet_SecurityList n)\<rparr>)"

definition setSubnetId :: "nat \<Rightarrow> string option \<Rightarrow> ClusterScope \<Rightarrow> ClusterScope" where
  "setSubnetId i sid = updSubnet i (\<lambda>n. n\<lparr>Subnet_ID := sid\<rparr>)"

text \<open>The security list of an existing subnet.\<close>

definition reconcileSecListOf :: "'w SecListApi \<Rightarrow> nat \<Rightarrow> SecurityList \<Rightarrow> ('w, unit) scope_go" where
  "reconcileSecListOf la i l =
     go_bind (GetSecurityList la l) (\<lambda>securityList. case securityList of
       None \<Rightarrow>
         go_bind (CreateSecurityList la l) (\<lambda>seclistId.
         mod_scope (setSecListId i seclistId))
     | Some sl \<Rightarrow>
         go_bind (IsSecurityListEqual sl l) (\<lambda>eq.
         if eq then go_ret () else UpdateSecurityList la l))"

text \<open>\<open>*desiredSubnet\<close> for the \<open>i\<close>-th pointer of the list, at the moment of the call.\<close>

definition currentSubnet :: "nat \<Rightarrow> ('w, Subnet) scope_go" where
  "currentSubnet i = go_bind get_scope (\<lambda>s. go_deref (GetSubnetsSpec s ! i))"

definition reconcileFoundSubnet ::
  "'w SecListApi \<Rightarrow> 'w SubnetApi \<Rightarrow> nat \<Rightarrow> SdkSubnet \<Rightarrow> Subnet \<Rightarrow> ('w, unit) scope_go" where
  "reconcileFoundSubnet la a i subnet spec =
     go_bind (mod_scope (setSubnetId i (Res_Id subnet))) (\<lambda>_.
     go_bind (case Subnet_SecurityList spec of None \<Rightarrow> go_ret () | Some l \<Rightarrow> reconcileSecListOf la i l) (\<lambda>_.
     go_bind (currentSubnet i) (\<lambda>desired.
     if IsSubnetsEqual subnet desired then go_ret () else UpdateSubnet a desired)))"

definition createMissingSubnet ::
  "'w VcnApi \<Rightarrow> 'w SecListApi \<Rightarrow> 'w SubnetApi \<Rightarrow> nat \<Rightarrow> Subnet \<Rightarrow> ('w, unit) scope_go" where
  "createMissingSubnet va la a i spec =
     go_bind (case Subnet_SecurityList spec of
         None \<Rightarrow> go_ret ()
       | Some l \<Rightarrow> go_bind (CreateSecurityList la l) (\<lambda>seclistId. mod_scope (setSecListId i seclistId))) (\<lambda>_.
     go_bind (currentSubnet i) (\<lambda>desired.
     go_bind (CreateSubnet va a desired) (\<lambda>subnetId.
     mod_scope (setSubnetId i subnetId))))"

definition reconcileSubnetAt ::
  "'w VcnApi \<Rightarrow> 'w SecListApi \<Rightarrow> 'w SubnetApi \<Rightarrow> nat \<Rightarrow> ('w, unit) scope_go" where
  "reconcileSubnetAt va la a i =
     go_bind get_scope (\<lambda>s. case GetSubnetsSpec s ! i of
       None \<Rightarrow> go_throw (ErrNew ''Skipping Subnet reconciliation: Subnet can't be nil'')
     | Some spec \<Rightarrow>
         if Subnet_Skip spec then go_ret ()
         else go_bind (GetSubnet a spec) (\<lambda>subnet. case subnet of
           Some n \<Rightarrow> reconcileFoundSubnet la a i n spec
         | None \<Rightarrow> createMissingSubnet va la a i spec))"

definition ReconcileSubnet :: "'w VcnApi \<Rightarrow> 'w SecListApi \<Rightarrow> 'w SubnetApi \<Rightarrow> ('w, unit) scope_go" where
  "ReconcileSubnet va la a =
     go_bind get_scope (\<lambda>s. go_for [0..<length (GetSubnetsSpec s)] (reconcileSubnetAt va la a))"

definition deleteSubnetOp :: "'w SubnetApi \<Rightarrow> SdkSubnet \<Rightarrow> ('w, unit) go" where
  "deleteSubnetOp a n = go_wrap ''failed to delete subnet'' (api_DeleteSubnet a (Res_Id n))"

definition DeleteSubnets :: "'w SubnetApi \<Rightarrow> ('w, unit) scope_go" where
  "DeleteSubnets a =
     go_bind get_scope (\<lambda>s.
     go_for (GetSubnetsSpec s) (\<lambda>p.
       go_bind (go_deref p) (\<lambda>desiredSubnet.
       if Subnet_Skip desiredSubnet then go_ret ()
       else delete_found (GetSubnet a desiredSubnet) (deleteSubnetOp a))))"

section \<open>Instances of the contracts\<close>

interpretation subnet: tagged_lookup "\<lambda>_. Subnet_ID spec" "api_GetSubnet a"
  "\<lambda>s. go_wrap ''failed to list subnets''
     (api_ListSubnets a (GetCompartmentId s) (getVcnId s) (Subnet_Name spec))"
  "\<lambda>_ _. True" "GetSubnet a spec" for a :: "'w SubnetApi" and spec
  by unfold_locales (simp add: GetSubnet_def find_owned_def go_simps split: option.split)

interpretation subnet_del: managed_delete "\<lambda>_. Subnet_ID spec" "api_GetSubnet a"
  "\<lambda>s. go_wrap ''failed to list subnets''
     (api_ListSubnets a (GetCompartmentId s) (getVcnId s) (Subnet_Name spec))"
  "\<lambda>_ _. True" "GetSubnet a spec" "\<lambda>_. Subnet_Skip spec" "deleteSubnetOp a"
  "if Subnet_Skip spec then go_ret () else delete_found (GetSubnet a spec) (deleteSubnetOp a)"
  "api_DeleteSubnet a" for a :: "'w SubnetApi" and spec
  by unfold_locales (simp_all add: deleteSubnetOp_def go_wrap_state go_simps(1), erule go_wrap_RetD)

section \<open>The IPv6 block\<close>

text \<open>When the canonical text of the VCN's first IPv6 block has four groups before its \<open>::\<close>, the subnet's
  block is that prefix with the last two digits of the fourth group, padded to four digits, replaced by the
  hextet of the spec.\<close>

theorem ipv6SubnetCidr_fourth_group:
  assumes "ParseCIDR cidr = Some ip"
    and "ip_string ip = h0 @ '':'' @ h1 @ '':'' @ h2 @ '':'' @ h3 @ ''::''"
    and "\<forall>h \<in> {h0, h1, h2, h3}. CHR '':'' \<notin> set h" and "length h3 \<le> 4"
  shows "ipv6SubnetCidr (Some (cidr # blocks)) (Some hx) st =
    (Ret (Some (h0 @ '':'' @ h1 @ '':'' @ h2 @ '':'' @ take 2 (pad4 h3) @ hx @ ''::/64'')), st)"
proof -
  have pad: "(if length h3 < 4 then pad4 h3 else h3) = pad4 h3"
    using assms(4) by (auto simp: pad4_def)
  have "Split (CHR '':'') (ip_string ip) = [h0, h1, h2, h3, [], []]"
    using assms(3) by (simp add: assms(2) Split_append)
  then show ?thesis
    by (simp only: ipv6SubnetCidr_def assms(1) Let_def option.case list.case nth_Cons_Suc nth_Cons_0
        numeral_3_eq_3 pad) (simp add: go_simps)
qed

theorem ipv6SubnetCidr_fourth_group_witness:
  "ipv6SubnetCidr (Some [''2603:c020:4:1100::/56'']) (Some ''01'') () = (Ret (Some ''2603:c020:4:1101::/64''), ())"
proof -
  have ip: "ParseCIDR ''2603:c020:4:1100::/56'' = Some [9731, 49184, 4, 4352, 0, 0, 0, 0]"
    by (simp add: cidr_eval)
  have "ip_string [9731, 49184, 4, 4352, 0, 0, 0, 0] = ''2603'' @ '':'' @ ''c020'' @ '':'' @ ''4'' @ '':'' @ ''1100'' @ ''::''"
    by (simp add: ip_string_eval)
  from ipv6SubnetCidr_fourth_group [OF ip this, of "[]" "''01''" "()"] show ?thesis by (simp add: pad4_def)
qed

text \<open>When the fourth group lies in the run of zeros that the canonical text abbreviates, the fourth element of
  the split is not the fourth group: for the prefix 2001:db8:0:0::/56 and the hextet 01 the request asks
  for an address with non-zero interface bits instead of 2001:db8:0:1::/64.\<close>

lemma ipv6SubnetCidr_abbreviated:
  "ipv6SubnetCidr (Some [''2001:db8:0:0::/56'']) (Some ''01'') () = (Ret (Some ''2001:db8::0001/64''), ())"
proof -
  have ip: "ParseCIDR ''2001:db8:0:0::/56'' = Some [8193, 3512, 0, 0, 0, 0, 0, 0]" by (simp add: cidr_eval)
  have "ip_string [8193, 3512, 0, 0, 0, 0, 0, 0] = ''2001:db8::''" by (simp add: ip_string_eval)
  with ip show ?thesis by (simp add: ipv6SubnetCidr_def pad4_def go_simps numeral_2_eq_2)
qed

section \<open>Security lists adopted by name\<close>

lemma updSubnet_nth:
  "i < length (GetSubnetsSpec s) \<Longrightarrow> GetSubnetsSpec (updSubnet i f s) ! i = map_option f (GetSubnetsSpec s ! i)"
  "j \<noteq> i \<Longrightarrow> GetSubnetsSpec (updSubnet i f s) ! j = GetSubnetsSpec s ! j"
  "length (GetSubnetsSpec (updSubnet i f s)) = length (GetSubnetsSpec s)"
  by (simp_all add: updSubnet_def GetSubnetsSpec_def)

lemma updSubnet_identity [simp]:
  "same_identity s (updSubnet i f s)"
  "IsResourceCreatedByClusterAPI (updSubnet i f s) = IsResourceCreatedByClusterAPI s"
  by (auto simp: updSubnet_def intro: same_identityD(7))

text \<open>A security list that is found by its name (the spec has no id for it, as after the object was
  restored or the id was lost) is never recorded: whether it equals the spec or not, reconciling the
  subnet then ends with an error, on every attempt.\<close>

theorem adopted_security_list_fails:
  assumes "i < length (GetSubnetsSpec s)" and "GetSubnetsSpec s ! i = Some spec" and "\<not> Subnet_Skip spec"
    and "Subnet_SecurityList spec = Some l" and "SecurityList_ID l = None"
    and "GetSubnet a spec (s, w) = (Ret (Some n), (s, w1))"
    and "GetSecurityList la l (setSubnetId i (Res_Id n) s, w1) = (Ret (Some sl), (setSubnetId i (Res_Id n) s, w2))"
    and "Res_DisplayName sl \<noteq> None"
  shows "\<exists>e. reconcileSubnetAt va la a i (s, w) = (Err e, (setSubnetId i (Res_Id n) s, w2))"
proof -
  let ?s = "setSubnetId i (Res_Id n) s"
  obtain eq where eq: "IsSecurityListEqual sl l (?s, w2) = (Ret eq, (?s, w2))"
    using assms(8) by (auto simp: IsSecurityListEqual_def go_simps)
  have cur: "GetSubnetsSpec ?s ! i = Some (spec\<lparr>Subnet_ID := Res_Id n\<rparr>)"
    using assms(1,2) by (simp add: setSubnetId_def updSubnet_nth)
  show ?thesis
    using assms(2-7) eq cur
    by (cases eq) (simp_all add: reconcileSubnetAt_def reconcileFoundSubnet_def reconcileSecListOf_def
        currentSubnet_def UpdateSecurityList_def UpdateSubnet_def IsSubnetsEqual_def go_simps)
qed

section \<open>Deletion\<close>

definition lawful_subnet_api :: "('w, SdkSubnet) table \<Rightarrow> 'w SubnetApi \<Rightarrow> bool" where
  "lawful_subnet_api tbl a \<longleftrightarrow> keyed_by_id tbl \<and> lawful_get tbl (api_GetSubnet a) \<and>
     honest_get tbl (api_GetSubnet a) \<and>
     (\<forall>c v n. lawful_list tbl (api_ListSubnets a c v n)) \<and>
     (\<forall>d. lawful_create tbl (CD_FreeformTags d) (CD_DisplayName d) (api_CreateSubnet a d)) \<and>
     (\<forall>d. lawful_rename tbl (\<lambda>i nm. api_UpdateSubnet a i (d\<lparr>USN_DisplayName := nm\<rparr>))) \<and>
     (\<forall>i d w e w'. api_UpdateSubnet a i d w = (Err e, w') \<longrightarrow> tbl w' = tbl w) \<and>
     lawful_delete tbl (api_DeleteSubnet a)"

text \<open>\<open>DeleteSubnets\<close> removes nothing but subnets of this cluster: whatever it returns, panics included, every
  entry of the service's table that differs afterwards was a subnet with this cluster's tags and is gone,
  and the spec is unchanged.\<close>

theorem DeleteSubnets_only_owned:
  assumes law: "lawful_subnet_api tbl a"
  shows "keeps (only_owned tbl) (DeleteSubnets a)"
proof -
  note laws = law [unfolded lawful_subnet_api_def]
  have del: "keeps (only_owned tbl) (if Subnet_Skip d then go_ret () else delete_found (GetSubnet a d) (deleteSubnetOp a))" for d
    by (rule subnet_del.keeps_only_owned) (use laws in \<open>auto intro: lawful_list_wrap\<close>)
  show ?thesis unfolding DeleteSubnets_def
    by (intro keeps_bind keeps_for keeps_scope_only_owned keeps_pure del) simp_all
qed

section \<open>What a reconciliation records\<close>

definition owned_in :: "ClusterScope \<Rightarrow> ('w, 'z SdkResource_scheme) table \<Rightarrow> 'w \<Rightarrow> string \<Rightarrow> bool" where
  "owned_in s tbl w k \<longleftrightarrow> (\<exists>r. tbl w k = Some r \<and> IsResourceCreatedByClusterAPI s (Res_FreeformTags r))"

definition subnet_keys :: "ClusterScope \<Rightarrow> (string option \<times> bool) option list" where
  "subnet_keys s = map (map_option (\<lambda>n. (Subnet_ID n, Subnet_Skip n))) (GetSubnetsSpec s)"

text \<open>What the steps between the assignments of subnet ids keep: the identity of the cluster, the ids and skip
  flags of all subnets, and the subnets of the cluster in the cloud.\<close>

definition subnet_frame :: "('w, SdkSubnet) table \<Rightarrow> 'w st \<Rightarrow> 'w st \<Rightarrow> bool" where
  "subnet_frame tbl x y \<longleftrightarrow> same_identity (fst x) (fst y) \<and> subnet_keys (fst y) = subnet_keys (fst x) \<and>
     (\<forall>k. owned_in (fst x) tbl (snd x) k \<longrightarrow> owned_in (fst x) tbl (snd y) k)"

definition unrelated_apis :: "('w, SdkSubnet) table \<Rightarrow> 'w VcnApi \<Rightarrow> 'w SecListApi \<Rightarrow> bool" where
  "unrelated_apis tbl va la \<longleftrightarrow> (\<forall>i w. tbl (snd (api_GetVcn va i w)) = tbl w) \<and>
     (\<forall>i w. tbl (snd (api_GetSecurityList la i w)) = tbl w) \<and>
     (\<forall>c v n w. tbl (snd (api_ListSecurityLists la c v n w)) = tbl w) \<and>
     (\<forall>d w. tbl (snd (api_CreateSecurityList la d w)) = tbl w) \<and>
     (\<forall>i d w. tbl (snd (api_UpdateSecurityList la i d w)) = tbl w)"

lemma owned_in_cong: "same_identity s t \<Longrightarrow> owned_in t tbl w k = owned_in s tbl w k"
  using same_identityD(7) [of s t] by (simp add: owned_in_def)

lemma reflp_subnet_frame [simp]: "reflp (subnet_frame tbl)"
  by (simp add: reflp_def subnet_frame_def)

lemma transp_subnet_frame [simp]: "transp (subnet_frame tbl)"
  unfolding transp_def subnet_frame_def using same_identity_trans owned_in_cong by metis

lemma keeps_frame_scope [frame_intros]: "keeps (subnet_frame tbl) get_scope"
  by (auto simp: keeps_def get_scope_def subnet_frame_def)

lemma keeps_frame_api: "(\<And>w. tbl (snd (m w)) = tbl w) \<Longrightarrow> keeps (subnet_frame tbl) (api m)"
  by (auto simp: keeps_def api_def subnet_frame_def owned_in_def split: prod.splits) (metis snd_conv)+

lemma keeps_frame_mod:
  "(\<And>s. same_identity s (f s) \<and> subnet_keys (f s) = subnet_keys s) \<Longrightarrow> keeps (subnet_frame tbl) (mod_scope f)"
  by (auto simp: keeps_def mod_scope_def subnet_frame_def)

lemma length_subnet_keys [simp]: "length (subnet_keys s) = length (GetSubnetsSpec s)"
  by (simp add: subnet_keys_def)

lemma subnet_keys_setSecListId [simp]: "subnet_keys (setSecListId i sid s) = subnet_keys s"
proof (rule nth_equalityI)
  fix j assume "j < length (subnet_keys (setSecListId i sid s))"
  then show "subnet_keys (setSecListId i sid s) ! j = subnet_keys s ! j"
    by (cases "j = i") (auto simp: subnet_keys_def setSecListId_def updSubnet_nth option.map_comp comp_def)
qed (simp add: setSecListId_def updSubnet_nth)

lemma set_subnet_identity [simp]: "same_identity s (setSecListId i sid s)" "same_identity s (setSubnetId i sid s)"
  by (simp_all add: setSecListId_def setSubnetId_def)

lemma keeps_frame_seclist:
  assumes un: "unrelated_apis tbl va la"
  shows "keeps (subnet_frame tbl) (CreateSecurityList la l)"
    and "keeps (subnet_frame tbl) (mod_scope (setSecListId i sid))"
    and "keeps (subnet_frame tbl) (reconcileSecListOf la i l)"
proof -
  have api: "keeps (subnet_frame tbl) (api (go_wrap msg (api_CreateSecurityList la d)))"
    "keeps (subnet_frame tbl) (api (go_wrap msg (api_ListSecurityLists la c v n)))"
    "keeps (subnet_frame tbl) (api (go_wrap msg (api_UpdateSecurityList la k u)))"
    "keeps (subnet_frame tbl) (api (api_GetSecurityList la q))" for msg d c v n k u q
    using un by (auto intro!: keeps_frame_api simp: unrelated_apis_def go_wrap_state)
  show create: "keeps (subnet_frame tbl) (CreateSecurityList la l)"
    unfolding CreateSecurityList_def by (intro keeps_bind api frame_intros) simp_all
  show set: "keeps (subnet_frame tbl) (mod_scope (setSecListId i sid))" for sid
    by (rule keeps_frame_mod) simp
  show "keeps (subnet_frame tbl) (reconcileSecListOf la i l)"
    unfolding reconcileSecListOf_def GetSecurityList_def IsSecurityListEqual_def UpdateSecurityList_def accept_owned_def
    by (intro keeps_bind keeps_option keeps_if api create set frame_intros) simp_all
qed

lemma updateSubnet_owned:
  assumes law: "lawful_subnet_api tbl a" and u: "api_UpdateSubnet a i d w = (z, v)"
    and k: "owned_in s tbl w k"
  shows "owned_in s tbl v k"
proof (cases z)
  case (Ret r)
  have d: "d\<lparr>USN_DisplayName := USN_DisplayName d\<rparr> = d" by simp
  from law have rn: "lawful_rename tbl (\<lambda>i nm. api_UpdateSubnet a i (d\<lparr>USN_DisplayName := nm\<rparr>))"
    by (simp add: lawful_subnet_api_def)
  from lawful_renameD [OF rn, of i "USN_DisplayName d" w r v] u Ret obtain j r0 where
    "tbl w j = Some r0" "tbl v = (tbl w)(j \<mapsto> r)" "Res_FreeformTags r = Res_FreeformTags r0" by auto
  with k show ?thesis by (auto simp: owned_in_def)
next
  case (Err e)
  with law u have "tbl v = tbl w" unfolding lawful_subnet_api_def by blast
  with k show ?thesis by (simp add: owned_in_def)
qed (use law u in \<open>auto simp: lawful_subnet_api_def lawful_rename_def dest!: spec [of _ d] spec [of _ i]
      spec [of _ "USN_DisplayName d"] dest: answersD\<close>)

lemma keeps_frame_update:
  assumes law: "lawful_subnet_api tbl a"
  shows "keeps (subnet_frame tbl) (UpdateSubnet a spec)"
proof -
  have api: "keeps (subnet_frame tbl) (api (go_wrap msg (api_UpdateSubnet a i d)))" for msg i d
  proof (rule keepsI)
    fix x y :: "ClusterScope \<times> 'a" and r
    assume "api (go_wrap msg (api_UpdateSubnet a i d)) x = (r, y)"
    then have y: "fst y = fst x" "snd y = snd (api_UpdateSubnet a i d (snd x))"
      by (cases x, auto simp: api_apply go_wrap_state)+
    obtain z v where u: "api_UpdateSubnet a i d (snd x) = (z, v)" by (cases "api_UpdateSubnet a i d (snd x)")
    have "owned_in (fst x) tbl v k" if k: "owned_in (fst x) tbl (snd x) k" for k
      using updateSubnet_owned [OF law u k] .
    with y u show "subnet_frame tbl x y" by (simp add: subnet_frame_def)
  qed
  show ?thesis unfolding UpdateSubnet_def by (intro keeps_bind keeps_option api frame_intros) simp_all
qed

lemma subnet_keys_setSubnetId:
  "i < length (GetSubnetsSpec s) \<Longrightarrow>
   subnet_keys (setSubnetId i sid s) ! i = map_option (\<lambda>(_, sk). (sid, sk)) (subnet_keys s ! i)"
  "j \<noteq> i \<Longrightarrow> j < length (GetSubnetsSpec s) \<Longrightarrow> subnet_keys (setSubnetId i sid s) ! j = subnet_keys s ! j"
  "length (GetSubnetsSpec (setSubnetId i sid s)) = length (GetSubnetsSpec s)"
  by (simp_all add: subnet_keys_def setSubnetId_def updSubnet_nth option.map_comp comp_def)

text \<open>The effect of reconciling the \<open>i\<close>-th subnet: its id is set to that of a subnet of the cluster, the others
  keep theirs, and no subnet of the cluster disappears.\<close>

definition subnet_step :: "('w, SdkSubnet) table \<Rightarrow> nat \<Rightarrow> 'w st \<Rightarrow> 'w st \<Rightarrow> bool" where
  "subnet_step tbl i x y \<longleftrightarrow> same_identity (fst x) (fst y) \<and>
     length (GetSubnetsSpec (fst y)) = length (GetSubnetsSpec (fst x)) \<and>
     (\<forall>j < length (GetSubnetsSpec (fst x)). j \<noteq> i \<longrightarrow> subnet_keys (fst y) ! j = subnet_keys (fst x) ! j) \<and>
     (\<exists>sid sk. subnet_keys (fst y) ! i = Some (sid, sk) \<and>
        (sk \<or> (\<exists>k. sid = Some k \<and> owned_in (fst x) tbl (snd y) k))) \<and>
     (\<forall>k. owned_in (fst x) tbl (snd x) k \<longrightarrow> owned_in (fst x) tbl (snd y) k)"

lemma subnet_stepI:
  assumes i: "i < length (GetSubnetsSpec s)" "GetSubnetsSpec s ! i = Some spec"
    and x: "subnet_frame tbl (s, w) x" and k: "owned_in s tbl (snd x) k"
    and y: "subnet_frame tbl (setSubnetId i (Some k) (fst x), snd x) y"
  shows "subnet_step tbl i (s, w) y"
proof -
  let ?t = "setSubnetId i (Some k) (fst x)"
  from x have keys: "subnet_keys (fst x) = subnet_keys s" and sx: "same_identity s (fst x)"
    and kx: "\<And>j. owned_in s tbl w j \<Longrightarrow> owned_in s tbl (snd x) j" by (auto simp: subnet_frame_def)
  then have len: "length (GetSubnetsSpec (fst x)) = length (GetSubnetsSpec s)" by (metis length_subnet_keys)
  have st: "same_identity s ?t" using sx same_identity_trans set_subnet_identity(2) by blast
  from y have keysy: "subnet_keys (fst y) = subnet_keys ?t" and "same_identity ?t (fst y)"
    and ky: "\<And>j. owned_in s tbl (snd x) j \<Longrightarrow> owned_in s tbl (snd y) j"
    by (auto simp: subnet_frame_def owned_in_cong [OF st])
  moreover have "length (GetSubnetsSpec (fst y)) = length (GetSubnetsSpec s)"
    using keysy len by (metis length_subnet_keys subnet_keys_setSubnetId(3))
  moreover have "subnet_keys (fst y) ! i = Some (Some k, Subnet_Skip spec)"
    unfolding keysy using i len keys by (simp add: subnet_keys_setSubnetId) (simp add: subnet_keys_def)
  moreover have "subnet_keys (fst y) ! j = subnet_keys s ! j"
    if "j \<noteq> i" "j < length (GetSubnetsSpec s)" for j
    unfolding keysy using that len keys by (simp add: subnet_keys_setSubnetId)
  moreover have "same_identity s (fst y)" using st \<open>same_identity ?t (fst y)\<close> by (rule same_identity_trans)
  ultimately show ?thesis using k kx ky by (auto simp: subnet_step_def)
qed

lemma CreateSubnet_made:
  assumes law: "lawful_subnet_api tbl a" and un: "unrelated_apis tbl va la"
    and run: "CreateSubnet va a spec (s, w) = (Ret i, t)"
  shows "\<exists>k. i = Some k \<and> fst t = s \<and> owned_in s tbl (snd t) k \<and> tbl w \<subseteq>\<^sub>m tbl (snd t)"
proof -
  from un have v: "tbl (snd (api_GetVcn va j w)) = tbl w" for j by (simp add: unrelated_apis_def)
  obtain y w1 where g: "api_GetVcn va (getVcnId s) w = (y, w1)" by (cases "api_GetVcn va (getVcnId s) w")
  with v [of "getVcnId s"] have w1: "tbl w1 = tbl w" by simp
  from run g obtain d r where c: "api_CreateSubnet a d w1 = (Ret r, snd t)" "i = Res_Id r" "fst t = s"
    "CD_FreeformTags d = GetFreeFormTags s"
    by (auto simp: CreateSubnet_def go_simps ipv6SubnetCidr_def Let_def split: res.splits prod.splits
        option.splits list.splits if_splits)
  from law have "lawful_create tbl (CD_FreeformTags d) (CD_DisplayName d) (api_CreateSubnet a d)"
    by (simp add: lawful_subnet_api_def)
  from lawful_createD [OF this c(1)] obtain k where "tbl w1 k = None" "tbl (snd t) = (tbl w1)(k \<mapsto> r)"
    "Res_Id r = Some k" "Res_FreeformTags r = GetFreeFormTags s" using c(4) by auto
  with c w1 GetFreeFormTags_owned [of s] show ?thesis by (auto simp: owned_in_def map_le_def)
qed

lemma keeps_frame_current: "keeps (subnet_frame tbl) (currentSubnet i)"
  unfolding currentSubnet_def by (intro frame_intros) simp_all

lemma foundSubnet_step:
  assumes law: "lawful_subnet_api tbl a" and un: "unrelated_apis tbl va la"
    and i: "i < length (GetSubnetsSpec s)" "GetSubnetsSpec s ! i = Some spec"
    and n: "Res_Id n = Some k" "owned_in s tbl w k"
    and run: "reconcileFoundSubnet la a i n spec (s, w) = (Ret (), t)"
  shows "subnet_step tbl i (s, w) t"
proof -
  let ?rest = "go_bind (case Subnet_SecurityList spec of None \<Rightarrow> go_ret () | Some l \<Rightarrow> reconcileSecListOf la i l) (\<lambda>_.
    go_bind (currentSubnet i) (\<lambda>desired. if IsSubnetsEqual n desired then go_ret () else UpdateSubnet a desired))"
  have "keeps (subnet_frame tbl) ?rest"
    by (intro keeps_bind keeps_option keeps_if keeps_frame_seclist [OF un] keeps_frame_update [OF law]
        keeps_frame_current keeps_pure) simp_all
  moreover from run n have "?rest (setSubnetId i (Some k) s, w) = (Ret (), t)"
    by (simp add: reconcileFoundSubnet_def go_simps)
  ultimately have "subnet_frame tbl (setSubnetId i (Some k) s, w) t" by (rule keepsD)
  then show ?thesis
    by (intro subnet_stepI [OF i, of tbl w "(s, w)" k]) (use n in \<open>auto simp: subnet_frame_def\<close>)
qed

lemma missingSubnet_step:
  assumes law: "lawful_subnet_api tbl a" and un: "unrelated_apis tbl va la"
    and i: "i < length (GetSubnetsSpec s)" "GetSubnetsSpec s ! i = Some spec"
    and run: "createMissingSubnet va la a i spec (s, w) = (Ret (), t)"
  shows "subnet_step tbl i (s, w) t"
proof -
  let ?sl = "case Subnet_SecurityList spec of None \<Rightarrow> go_ret ()
    | Some l \<Rightarrow> go_bind (CreateSecurityList la l) (\<lambda>seclistId. mod_scope (setSecListId i seclistId))"
  have "keeps (subnet_frame tbl) ?sl"
    by (intro keeps_bind keeps_option keeps_frame_seclist [OF un] keeps_pure) simp_all
  moreover from run obtain sx wx where sl: "?sl (s, w) = (Ret (), (sx, wx))"
    by (auto simp: createMissingSubnet_def go_bind_apply split: res.splits prod.splits)
  ultimately have x: "subnet_frame tbl (s, w) (sx, wx)" by (rule keepsD)
  from run sl obtain d sid u where c: "CreateSubnet va a d (sx, wx) = (Ret sid, u)"
    and t: "t = (setSubnetId i sid (fst u), snd u)"
    by (auto simp: createMissingSubnet_def go_bind_apply currentSubnet_def get_scope_apply go_deref_apply mod_scope_def
        split: res.splits prod.splits option.splits)
  from CreateSubnet_made [OF law un c] obtain k where
    k: "sid = Some k" "fst u = sx" "owned_in sx tbl (snd u) k" "tbl wx \<subseteq>\<^sub>m tbl (snd u)" by blast
  from k(4) have "owned_in s tbl wx j \<Longrightarrow> owned_in s tbl (snd u) j" for j
    by (auto simp: owned_in_def map_le_def dom_def)
  with x k(2) have u: "subnet_frame tbl (s, w) u" by (simp add: subnet_frame_def)
  from x have "same_identity s sx" by (simp add: subnet_frame_def)
  with k(3) have "owned_in s tbl (snd u) k" by (simp add: owned_in_cong)
  then show ?thesis
    by (intro subnet_stepI [OF i u]) (use t k in \<open>auto simp: subnet_frame_def\<close>)
qed

lemma reconcileSubnetAt_step:
  assumes law: "lawful_subnet_api tbl a" and un: "unrelated_apis tbl va la"
    and i: "i < length (GetSubnetsSpec s)"
    and run: "reconcileSubnetAt va la a i (s, w) = (Ret (), t)"
  shows "subnet_step tbl i (s, w) t"
proof -
  note laws = law [unfolded lawful_subnet_api_def]
  from laws have lst: "lawful_list tbl (go_wrap msg (api_ListSubnets a c v n))" for msg c v n
    by (simp add: lawful_list_wrap)
  from run obtain spec where spec: "GetSubnetsSpec s ! i = Some spec"
    by (auto simp: reconcileSubnetAt_def go_simps split: option.splits)
  show ?thesis
  proof (cases "Subnet_Skip spec")
    case True
    with run spec have "t = (s, w)" by (simp add: reconcileSubnetAt_def go_simps)
    with True spec i show ?thesis by (simp add: subnet_step_def) (auto simp: subnet_keys_def)
  next
    case False
    with run spec obtain o' u where g: "GetSubnet a spec (s, w) = (Ret o', u)"
      by (auto simp: reconcileSubnetAt_def go_simps split: res.splits prod.splits)
    from subnet.lookup_lawful_cases [where tbl = tbl, OF _ lst g] laws have u: "u = (s, w)" by simp
    show ?thesis
    proof (cases o')
      case None
      with False run spec g u have "createMissingSubnet va la a i spec (s, w) = (Ret (), t)"
        by (simp add: reconcileSubnetAt_def go_simps)
      then show ?thesis by (rule missingSubnet_step [OF law un i spec])
    next
      case (Some n)
      from subnet.lookup_in_table [where tbl = tbl, OF _ lst _ g [unfolded Some]] laws
        subnet.lookup_owned [OF g [unfolded Some]]
      obtain k where k: "Res_Id n = Some k" "owned_in s tbl w k" by (auto simp: owned_in_def)
      from Some False run spec g u have "reconcileFoundSubnet la a i n spec (s, w) = (Ret (), t)"
        by (simp add: reconcileSubnetAt_def go_simps)
      then show ?thesis by (rule foundSubnet_step [OF law un i spec k])
    qed
  qed
qed

definition subnet_done :: "ClusterScope \<Rightarrow> ('w, SdkSubnet) table \<Rightarrow> 'w \<Rightarrow> nat \<Rightarrow> bool" where
  "subnet_done s tbl w i \<longleftrightarrow> (\<exists>sid sk. subnet_keys s ! i = Some (sid, sk) \<and>
     (sk \<or> (\<exists>k. sid = Some k \<and> owned_in s tbl w k)))"

lemma subnet_step_done:
  assumes "subnet_step tbl i (s, w) (s2, w2)" and "j < length (GetSubnetsSpec s)"
    and "j \<noteq> i \<Longrightarrow> subnet_done s tbl w j"
  shows "subnet_done s2 tbl w2 j"
proof -
  from assms(1) have own: "owned_in s2 tbl w2 k = owned_in s tbl w2 k" for k
    by (intro owned_in_cong) (simp add: subnet_step_def)
  show ?thesis
  proof (cases "j = i")
    case True
    with assms(1) show ?thesis by (simp add: subnet_done_def subnet_step_def own)
  next
    case False
    with assms have "subnet_keys s2 ! j = subnet_keys s ! j" "\<And>k. owned_in s tbl w k \<Longrightarrow> owned_in s tbl w2 k"
      by (simp_all add: subnet_step_def)
    with assms(3) [OF False] show ?thesis unfolding subnet_done_def own by metis
  qed
qed

lemma reconcileSubnets_loop:
  assumes law: "lawful_subnet_api tbl a" and un: "unrelated_apis tbl va la"
    and "go_for is (reconcileSubnetAt va la a) (s, w) = (Ret (), (s1, w1))"
    and "\<forall>i \<in> set is. i < length (GetSubnetsSpec s)"
    and "\<forall>i < length (GetSubnetsSpec s). i \<notin> set is \<longrightarrow> subnet_done s tbl w i"
  shows "length (GetSubnetsSpec s1) = length (GetSubnetsSpec s) \<and>
    (\<forall>i < length (GetSubnetsSpec s). subnet_done s1 tbl w1 i)"
  using assms(3-)
proof (induction "is" arbitrary: s w)
  case Nil
  then show ?case by (simp add: go_simps)
next
  case (Cons i "is")
  then obtain s2 w2 where r: "reconcileSubnetAt va la a i (s, w) = (Ret (), (s2, w2))"
    and rest: "go_for is (reconcileSubnetAt va la a) (s2, w2) = (Ret (), (s1, w1))"
    by (auto simp: go_simps split: res.splits prod.splits)
  from Cons.prems have i: "i < length (GetSubnetsSpec s)" by simp
  note step = reconcileSubnetAt_step [OF law un i r]
  then have len: "length (GetSubnetsSpec s2) = length (GetSubnetsSpec s)" by (simp add: subnet_step_def)
  have "\<forall>j < length (GetSubnetsSpec s2). j \<notin> set is \<longrightarrow> subnet_done s2 tbl w2 j"
    using Cons.prems(3) subnet_step_done [OF step] by (simp add: len)
  with Cons.IH [OF rest] Cons.prems(2) show ?case by (simp add: len)
qed

text \<open>C5. After \<open>ReconcileSubnet\<close> returns nil, every subnet of the spec is non-nil and, unless it is to be
  skipped, has an id under which the cloud holds a subnet with this cluster's tags. This covers subnets
  that were found by id, adopted by name, renamed, or created, with or without security lists.\<close>

theorem ReconcileSubnet_recorded:
  assumes law: "lawful_subnet_api tbl a" and un: "unrelated_apis tbl va la"
    and run: "ReconcileSubnet va la a (s, w) = (Ret (), (s1, w1))" and p: "p \<in> set (GetSubnetsSpec s1)"
  shows "\<exists>n. p = Some n \<and> (Subnet_Skip n \<or> (\<exists>k r. Subnet_ID n = Some k \<and> tbl w1 k = Some r \<and>
    IsResourceCreatedByClusterAPI s1 (Res_FreeformTags r)))"
proof -
  from run have loop: "go_for [0..<length (GetSubnetsSpec s)] (reconcileSubnetAt va la a) (s, w) = (Ret (), (s1, w1))"
    by (simp add: ReconcileSubnet_def go_simps)
  note fin = reconcileSubnets_loop [OF law un loop, simplified]
  from p obtain i where i: "i < length (GetSubnetsSpec s1)" "p = GetSubnetsSpec s1 ! i" by (metis in_set_conv_nth)
  with fin have "subnet_done s1 tbl w1 i" by simp
  with i show ?thesis by (auto simp: subnet_done_def subnet_keys_def owned_in_def)
qed

section \<open>Witnesses\<close>

definition slot_subnet :: SdkSubnet where
  "slot_subnet = \<lparr>Res_Id = Some slot_id, Res_DisplayName = Some ''ep'', Res_FreeformTags = BuildClusterTags ''uid'',
     SdkSubnet_CidrBlock = Some [], SdkSubnet_SecurityListIds = []\<rparr>"

definition slot_subnet_of :: "CreateSubnetDetails \<Rightarrow> SdkSubnet" where
  "slot_subnet_of d = \<lparr>Res_Id = Some slot_id, Res_DisplayName = Some (CD_DisplayName d),
     Res_FreeformTags = CD_FreeformTags d, SdkSubnet_CidrBlock = Some (CSN_CidrBlock d),
     SdkSubnet_SecurityListIds = CSN_SecurityListIds d\<rparr>"

definition slot_subnet_api :: "SdkSubnet option SubnetApi" where
  "slot_subnet_api = \<lparr>api_ListSubnets = (\<lambda>_ _. slot_list), api_GetSubnet = slot_get,
     api_CreateSubnet = (\<lambda>d. slot_create (slot_subnet_of d)),
     api_UpdateSubnet = (\<lambda>i d. slot_rename i (USN_DisplayName d)), api_DeleteSubnet = slot_delete\<rparr>"

lemma slot_subnet_lawful: "lawful_subnet_api ok_tbl slot_subnet_api"
  by (simp add: lawful_subnet_api_def slot_subnet_api_def slot_lawful slot_create_lawful slot_subnet_of_def)
    (simp add: slot_rename_def split: option.splits if_splits)

definition endpoint_subnet :: Subnet where
  "endpoint_subnet = zero_Subnet\<lparr>Subnet_Role := ControlPlaneEndpointRole, Subnet_Name := ''ep'',
     Subnet_SecurityList := Some \<lparr>SecurityList_ID = None, SecurityList_Name = ''ep'',
       SecurityList_EgressRules = [], SecurityList_IngressRules = []\<rparr>\<rparr>"

definition endpoint_scope :: ClusterScope where
  "endpoint_scope = upd_Vcn (\<lambda>v. v\<lparr>VCN_Subnets := [Some endpoint_subnet]\<rparr>) sample_scope"

text \<open>A service whose only security list carries the cluster's tags.\<close>

definition tagged_seclist :: SdkSecurityList where
  "tagged_seclist = \<lparr>Res_Id = Some slot_id, Res_DisplayName = Some ''ep'', Res_FreeformTags = BuildClusterTags ''uid'',
     SL_IngressSecurityRules = [], SL_EgressSecurityRules = []\<rparr>"

definition tagged_seclist_api :: "'w SecListApi" where
  "tagged_seclist_api = \<lparr>api_ListSecurityLists = (\<lambda>_ _ _. go_ret [tagged_seclist]),
     api_GetSecurityList = (\<lambda>_. go_ret tagged_seclist), api_CreateSecurityList = (\<lambda>_. go_throw quota_err),
     api_UpdateSecurityList = (\<lambda>_ _. go_ret tagged_seclist), api_DeleteSecurityList = (\<lambda>_. go_throw quota_err)\<rparr>"

lemma endpoint_scope_simps [simp]:
  "GetSubnetsSpec endpoint_scope = [Some endpoint_subnet]" "\<not> Subnet_Skip endpoint_subnet"
  "IsResourceCreatedByClusterAPI endpoint_scope (BuildClusterTags ''uid'')"
proof -
  show "GetSubnetsSpec endpoint_scope = [Some endpoint_subnet]" by (simp add: endpoint_scope_def GetSubnetsSpec_def)
  show "\<not> Subnet_Skip endpoint_subnet" by (simp add: endpoint_subnet_def zero_Subnet_def)
  have "IsResourceCreatedByClusterAPI endpoint_scope = IsResourceCreatedByClusterAPI sample_scope"
    unfolding endpoint_scope_def by (rule same_identityD(7)) simp
  then show "IsResourceCreatedByClusterAPI endpoint_scope (BuildClusterTags ''uid'')"
    by (simp add: owned_eq BuildClusterTags_eq tag_at_def)
qed

theorem adopted_security_list_fails_witness:
  "\<exists>e. reconcileSubnetAt no_vcn_api tagged_seclist_api slot_subnet_api 0 (endpoint_scope, Some slot_subnet) =
     (Err e, (setSubnetId 0 (Res_Id slot_subnet) endpoint_scope, Some slot_subnet))"
proof (rule adopted_security_list_fails)
  show "Subnet_SecurityList endpoint_subnet = Some \<lparr>SecurityList_ID = None, SecurityList_Name = ''ep'',
       SecurityList_EgressRules = [], SecurityList_IngressRules = []\<rparr>"
    by (simp add: endpoint_subnet_def)
  show "GetSubnet slot_subnet_api endpoint_subnet (endpoint_scope, Some slot_subnet) =
      (Ret (Some slot_subnet), (endpoint_scope, Some slot_subnet))"
    by (simp add: GetSubnet_def endpoint_subnet_def zero_Subnet_def slot_subnet_api_def go_simps slot_list_def
        slot_ok_def slot_subnet_def find_owned_def)
  show "GetSecurityList tagged_seclist_api \<lparr>SecurityList_ID = None, SecurityList_Name = ''ep'',
       SecurityList_EgressRules = [], SecurityList_IngressRules = []\<rparr>
       (setSubnetId 0 (Res_Id slot_subnet) endpoint_scope, Some slot_subnet) =
      (Ret (Some tagged_seclist), (setSubnetId 0 (Res_Id slot_subnet) endpoint_scope, Some slot_subnet))"
    by (simp add: GetSecurityList_def tagged_seclist_api_def tagged_seclist_def go_simps find_owned_def setSubnetId_def)
  show "Res_DisplayName tagged_seclist \<noteq> None" by (simp add: tagged_seclist_def)
qed simp_all

theorem DeleteSubnets_only_owned_witness:
  "only_owned ok_tbl (endpoint_scope, Some slot_subnet) (snd (DeleteSubnets slot_subnet_api (endpoint_scope, Some slot_subnet)))"
  using DeleteSubnets_only_owned [OF slot_subnet_lawful] by (simp add: keeps_def)

definition plain_scope :: ClusterScope where
  "plain_scope = upd_Vcn (\<lambda>v. v\<lparr>VCN_Subnets := [Some (endpoint_subnet\<lparr>Subnet_SecurityList := None\<rparr>)]\<rparr>) sample_scope"

lemma plain_scope_subnets: "GetSubnetsSpec plain_scope = [Some (endpoint_subnet\<lparr>Subnet_SecurityList := None\<rparr>)]"
  by (simp add: plain_scope_def GetSubnetsSpec_def)

lemma plain_unrelated: "unrelated_apis tbl no_vcn_api tagged_seclist_api"
  by (simp add: unrelated_apis_def no_vcn_api_def tagged_seclist_api_def go_simps)

lemma plain_run:
  "\<exists>w1. ReconcileSubnet no_vcn_api tagged_seclist_api slot_subnet_api (plain_scope, None) =
     (Ret (), (setSubnetId 0 (Some slot_id) plain_scope, w1))"
  by (simp add: ReconcileSubnet_def reconcileSubnetAt_def createMissingSubnet_def currentSubnet_def CreateSubnet_def
      ipv6SubnetCidr_def GetSubnet_def plain_scope_subnets endpoint_subnet_def zero_Subnet_def go_simps
      slot_subnet_api_def slot_list_def slot_create_def slot_ok_def slot_subnet_of_def find_owned_def no_vcn_api_def)

theorem ReconcileSubnet_recorded_witness:
  "\<exists>s1 w1. ReconcileSubnet no_vcn_api tagged_seclist_api slot_subnet_api (plain_scope, None) = (Ret (), (s1, w1)) \<and>
     (\<forall>p. p \<in> set (GetSubnetsSpec s1) \<longrightarrow> (\<exists>n. p = Some n \<and> (Subnet_Skip n \<or> (\<exists>k r. Subnet_ID n = Some k \<and>
        ok_tbl w1 k = Some r \<and> IsResourceCreatedByClusterAPI s1 (Res_FreeformTags r)))))"
proof -
  from plain_run obtain s1 w1 where
    run: "ReconcileSubnet no_vcn_api tagged_seclist_api slot_subnet_api (plain_scope, None) = (Ret (), (s1, w1))" by blast
  from ReconcileSubnet_recorded [OF slot_subnet_lawful plain_unrelated run] run show ?thesis by blast
qed

end
