(* ===== verification/Paged_Lookup.thy ===== *)
theory Paged_Lookup
  imports Slot_Cloud
begin

text \<open>
  Searching a paged list request, as the lookups of the DRG and of the load balancer do it, and deletion
  over any lookup that reports what is in the cloud (the lookup of \<open>Resource_Contract\<close> is one request; the
  ones here are a loop, or a list request with a check of its length).
\<close>

section \<open>Searching page by page\<close>

definition page_step :: "(string option \<Rightarrow> ('w, 'i list \<times> string option) go) \<Rightarrow>
    ('i list \<Rightarrow> ('s \<times> 'w, 'r option) go) \<Rightarrow> string option \<Rightarrow> ('s \<times> 'w, string option + 'r option) go" where
  "page_step listop scan page =
     go_bind (api (listop page)) (\<lambda>(items, opcNextPage).
     go_bind (scan items) (\<lambda>found. case found of
       Some r \<Rightarrow> go_ret (Inr (Some r))
     | None \<Rightarrow> (case opcNextPage of
         None \<Rightarrow> go_ret (Inr None)
       | Some p \<Rightarrow> go_ret (Inl (Some p)))))"

definition search_pages :: "(string option \<Rightarrow> ('w, 'i list \<times> string option) go) \<Rightarrow>
    ('i list \<Rightarrow> ('s \<times> 'w, 'r option) go) \<Rightarrow> ('s \<times> 'w, 'r option) go" where
  "search_pages listop scan = go_loop (page_step listop scan) None"

text \<open>What the search relies on: every answer is about resources of the table, and the tokens lead through
  the pages without coming back (\<open>rank\<close> counts the pages left).\<close>

definition lawful_pages :: "('w, 'r) table \<Rightarrow> (string option \<Rightarrow> ('w, 'r list \<times> string option) go) \<Rightarrow> bool" where
  "lawful_pages tbl listop \<longleftrightarrow> (\<forall>p. read_only (listop p) \<and>
     (\<forall>w rs np. fst (listop p w) = Ret (rs, np) \<longrightarrow> (\<forall>r \<in> set rs. \<exists>k. tbl w k = Some r)))"

definition pages_end :: "(string option \<Rightarrow> nat) \<Rightarrow> (string option \<Rightarrow> ('w, 'i list \<times> string option) go) \<Rightarrow> bool" where
  "pages_end rank listop \<longleftrightarrow>
     (\<forall>p w rs q. fst (listop p w) = Ret (rs, Some q) \<longrightarrow> rank (Some q) < rank p)"

text \<open>The program leaves scope and cloud as they are.\<close>

abbreviation (input) same_state :: "'s \<Rightarrow> 's \<Rightarrow> bool" where
  "same_state \<equiv> (\<lambda>x y. y = x)"

lemma reflp_same_state [simp]: "reflp same_state" and transp_same_state [simp]: "transp same_state"
  by (simp_all add: reflp_def transp_def)

lemma keeps_api_read_only: "read_only m \<Longrightarrow> keeps same_state (api m)"
  by (auto simp: keeps_def api_def read_only_def split: prod.splits) (metis snd_conv)

lemma keeps_accept_owned [frame_intros]: "reflp R \<Longrightarrow> keeps R (accept_owned s r)"
  unfolding accept_owned_def by (intro frame_intros)

lemma keeps_page_step:
  assumes "reflp R" and "transp R" and "\<And>p. keeps R (api (listop p))" and "\<And>items. keeps R (scan items)"
  shows "keeps R (page_step listop scan page)"
  unfolding page_step_def
  by (rule keeps_bind [OF assms(2)])
    (auto intro!: frame_intros assms(1,2) assms(3,4) split: prod.splits)

lemma keeps_search_pages:
  assumes "reflp R" and "transp R" and "\<And>p. keeps R (api (listop p))" and "\<And>items. keeps R (scan items)"
  shows "keeps R (search_pages listop scan)"
  unfolding search_pages_def by (intro keeps_loop keeps_page_step assms)

text \<open>What the search answers is what the scan of one page answered.\<close>

lemma search_pages_ret:
  assumes "search_pages listop scan x = (Ret r, y)"
  shows "\<exists>p s w items np w1. listop p w = (Ret (items, np), w1) \<and> scan items (s, w1) = (Ret r, y)"
proof -
  from go_loop_ret [OF assms [unfolded search_pages_def]] obtain p s w where
    step: "page_step listop scan p (s, w) = (Ret (Inr r), y)" by auto
  obtain l w1 where l: "listop p w = (l, w1)" by (cases "listop p w")
  from step l obtain items np where "l = Ret (items, np)"
    by (cases l) (auto simp: page_step_def go_simps)
  with step l show ?thesis
    by (fastforce simp: page_step_def go_simps split: res.splits prod.splits option.splits)
qed

lemma search_pages_returns:
  fixes listop :: "string option \<Rightarrow> ('w, 'i list \<times> string option) go"
    and scan :: "'i list \<Rightarrow> ('s \<times> 'w, 'r option) go"
  assumes "pages_end rank listop" and "\<And>p. answers (listop p)"
    and "\<And>items x y. scan items x \<noteq> (Diverge, y)"
  shows "fst (search_pages listop scan x) \<noteq> Diverge"
  unfolding search_pages_def
proof (rule go_loop_returns [where rank = rank])
  fix p p' and x y :: "'s \<times> 'w" assume step: "page_step listop scan p x = (Ret (Inl p'), y)"
  obtain s w where x: "x = (s, w)" by (cases x)
  obtain l w1 where l: "listop p w = (l, w1)" by (cases "listop p w")
  from step l x obtain items q where "l = Ret (items, Some q)" "p' = Some q"
    by (cases l) (auto simp: page_step_def go_simps split: res.splits prod.splits option.splits)
  with assms(1) l show "rank p' < rank p" unfolding pages_end_def by (metis fst_conv)
next
  fix p and x y :: "'s \<times> 'w"
  obtain s w where x: "x = (s, w)" by (cases x)
  obtain l w1 where l: "listop p w = (l, w1)" by (cases "listop p w")
  with assms(2) [of p] have "l \<noteq> Diverge" by (auto dest: answersD)
  then show "page_step listop scan p x \<noteq> (Diverge, y)"
    using l x assms(3)
    by (cases l) (auto simp: page_step_def go_simps split: res.splits prod.splits option.splits)
qed

lemma lawful_search_pages:
  assumes "lawful_pages tbl listop" and "keyed_by_id tbl" and "\<And>items. keeps same_state (scan items)"
    and found: "\<And>items x r y. scan items x = (Ret (Some r), y) \<Longrightarrow> r \<in> set items"
    and run: "search_pages listop scan (s, w) = (Ret (Some r), y)"
  shows "\<exists>k. tbl w k = Some r \<and> Res_Id r = Some k"
proof -
  have ro: "\<And>p. read_only (listop p)" using assms(1) by (simp add: lawful_pages_def)
  have "keeps same_state (search_pages listop scan)"
    by (intro keeps_search_pages keeps_api_read_only ro assms(3)) simp_all
  with run have y: "y = (s, w)" by (auto dest: keepsD)
  from search_pages_ret [OF run] obtain p s' w' items np w1 where
    l: "listop p w' = (Ret (items, np), w1)" and sc: "scan items (s', w1) = (Ret (Some r), y)" by blast
  from keepsD [OF assms(3) sc] y have "w1 = w" by simp
  moreover from read_only_eqD [OF ro l] have "w1 = w'" .
  ultimately have "fst (listop p w) = Ret (items, np)" using l by simp
  with assms(1) found [OF sc] have "\<exists>k. tbl w k = Some r" unfolding lawful_pages_def by blast
  with keyed_by_idD(1) [OF assms(2)] show ?thesis by blast
qed

section \<open>Deletion\<close>

definition lawful_lookup ::
  "('w, 'z SdkResource_scheme) table \<Rightarrow> ('w, 'z SdkResource_scheme option) scope_go \<Rightarrow> bool" where
  "lawful_lookup tbl lookup \<longleftrightarrow> keeps same_state lookup \<and>
     (\<forall>x r y. lookup x = (Ret (Some r), y) \<longrightarrow> (\<exists>k. tbl (snd x) k = Some r \<and> Res_Id r = Some k))"

locale resource_delete = owned_delete lookup Res_FreeformTags skip del delete
  for lookup :: "('w, 'z SdkResource_scheme option) scope_go"
    and skip :: "ClusterScope \<Rightarrow> bool"
    and del :: "'z SdkResource_scheme \<Rightarrow> ('w, unit) go"
    and delete :: "('w, unit) scope_go" +
  fixes delop :: "string option \<Rightarrow> ('w, unit) go"
  assumes del_delop: "snd (del r w) = snd (delop (Res_Id r) w)"
begin

lemma delete_only_owned:
  assumes look: "lawful_lookup tbl lookup" and law: "lawful_delete tbl delop"
  shows "keeps (only_owned tbl) delete"
proof (rule keepsI)
  fix x y r assume run: "delete x = (r, y)"
  obtain s w where x: "x = (s, w)" by (cases x)
  show "only_owned tbl x y"
  proof (cases "skip s")
    case True
    with run x show ?thesis by (simp add: delete_skip only_owned_def)
  next
    case False
    have same: "y = (s, w)" if "lookup (s, w) = (z, y)" for z
      using look that by (auto simp: lawful_lookup_def dest: keepsD)
    from run [unfolded x] False show ?thesis
    proof (cases rule: delete_cases)
      case (found d w1)
      with look obtain k where k: "tbl w k = Some d" "Res_Id d = Some k"
        by (force simp: lawful_lookup_def)
      from found(1) look have "w1 = w" by (auto simp: lawful_lookup_def dest: keepsD)
      obtain z v where dv: "delop (Res_Id d) w = (z, v)" by (cases "delop (Res_Id d) w")
      with found(3) \<open>w1 = w\<close> del_delop [of d w] have "y = (s, v)" by simp
      with lawful_deleteD [OF law dv] k found(2) show ?thesis
        by (auto simp: only_owned_def x split: if_splits)
    qed (auto simp: only_owned_def x dest!: same)
  qed
qed

end

end
