(* ===== verification/DRG_Reconciler.thy ===== *)
theory DRG_Reconciler
  imports Gateways Paged_Lookup
begin

text \<open>
  VCN peering: the dynamic routing gateway (src/cloud/scope/drg_reconciler.go), its attachment to the VCN
  (drg_vcn_attachment_reconciler.go) and the remote peering connections
  (drg_rpc_attachment_reconciler.go) with their polling. The client of a peer region and the pollers of
  k8s.io/apimachinery are parameters.
\<close>

section \<open>The gateway\<close>

text \<open>An assignment through \<open>s.getDRG()\<close>.\<close>

definition updDrg :: "(DRG \<Rightarrow> DRG) \<Rightarrow> ClusterScope \<Rightarrow> ClusterScope" where
  "updDrg f = upd_NetworkSpec (\<lambda>n. n\<lparr>NetworkSpec_VCNPeering :=
     map_option (\<lambda>p. p\<lparr>VCNPeering_DRG := map_option f (VCNPeering_DRG p)\<rparr>) (NetworkSpec_VCNPeering n)\<rparr>)"

text \<open>\<open>*s.getDRG()\<close>, used where a field of the DRG is read.\<close>

definition theDRG :: "ClusterScope \<Rightarrow> ('s, DRG) go" where
  "theDRG s = go_bind (getDRG s) go_deref"

definition GetDRGName :: "ClusterScope \<Rightarrow> ('s, string) go" where
  "GetDRGName s = go_bind (theDRG s) (\<lambda>drg.
     go_ret (if DRG_Name drg \<noteq> [] then DRG_Name drg else GetName s))"

text \<open>One page: the first DRG with the name is the answer, or an error if its tags are not the cluster's.\<close>

fun scanDrgs :: "ClusterScope \<Rightarrow> string \<Rightarrow> SdkResource list \<Rightarrow> ('s, SdkResource option) go" where
  "scanDrgs s name [] = go_ret None"
| "scanDrgs s name (drg # drgs) =
     (if StringEquals (Res_DisplayName drg) name then accept_owned s drg else scanDrgs s name drgs)"

definition drgPage :: "'w DrgApi \<Rightarrow> ClusterScope \<Rightarrow> string \<Rightarrow> string option \<Rightarrow>
    ('w, string option + SdkResource option) scope_go" where
  "drgPage a s name page =
     go_bind (api (api_ListDrgs a (GetCompartmentId s) page)) (\<lambda>(items, opcNextPage).
     go_bind (scanDrgs s name items) (\<lambda>found. case found of
       Some drg \<Rightarrow> go_ret (Inr (Some drg))
     | None \<Rightarrow> (case opcNextPage of
         None \<Rightarrow> go_ret (Inr None)
       | Some p \<Rightarrow> go_ret (Inl (Some p)))))"

definition GetDRG :: "'w DrgApi \<Rightarrow> ('w, SdkResource option) scope_go" where
  "GetDRG a =
     go_bind get_scope (\<lambda>s.
     go_bind (theDRG s) (\<lambda>drg. case DRG_ID drg of
       Some i \<Rightarrow> go_bind (api (api_GetDrg a (Some i))) (accept_owned s)
     | None \<Rightarrow> go_loop (drgPage a s (DRG_Name drg)) None))"

definition createDRG :: "'w DrgApi \<Rightarrow> ('w, SdkResource) scope_go" where
  "createDRG a =
     go_bind get_scope (\<lambda>s.
     go_bind (GetDRGName s) (\<lambda>name.
     api (api_CreateDrg a
       \<lparr>CD_CompartmentId = GetCompartmentId s, CD_DisplayName = name,
        CD_FreeformTags = GetFreeFormTags s, CD_DefinedTags = GetDefinedTags s\<rparr>
       (GetOPCRetryToken ''%s-%s'' [''create-drg'', GetOCIResourceIdentifier s]))))"

definition ReconcileDRG :: "'w DrgApi \<Rightarrow> ('w, unit) scope_go" where
  "ReconcileDRG a =
     go_bind get_scope (\<lambda>s.
     if \<not> isPeeringEnabled s then go_ret ()
     else go_bind (getDRG s) (\<lambda>p. case p of
       None \<Rightarrow> go_ret ()
     | Some drgSpec \<Rightarrow>
         if \<not> DRG_Manage drgSpec then go_ret ()
         else go_bind (GetDRG a) (\<lambda>drg. case drg of
           Some d \<Rightarrow> mod_scope (updDrg (\<lambda>x. x\<lparr>DRG_ID := Res_Id d\<rparr>))
         | None \<Rightarrow>
             go_bind (createDRG a) (\<lambda>d.
             go_bind (mod_scope (updDrg (\<lambda>x. x\<lparr>DRG_ID := Res_Id d\<rparr>))) (\<lambda>_.
             go_bind (go_deref (Res_Id d)) (\<lambda>_. go_ret ()))))))"

definition drgManaged :: "ClusterScope \<Rightarrow> bool" where
  "drgManaged s = (case NetworkSpec_VCNPeering (GetNetworkSpec s) of
      None \<Rightarrow> False
    | Some p \<Rightarrow> (case VCNPeering_DRG p of None \<Rightarrow> False | Some d \<Rightarrow> DRG_Manage d))"

definition DeleteDRG :: "'w DrgApi \<Rightarrow> ('w, unit) scope_go" where
  "DeleteDRG a =
     go_bind get_scope (\<lambda>s.
     if \<not> isPeeringEnabled s then go_ret ()
     else go_bind (getDRG s) (\<lambda>p. case p of
       None \<Rightarrow> go_ret ()
     | Some drgSpec \<Rightarrow>
         if \<not> DRG_Manage drgSpec then go_ret ()
         else delete_found (GetDRG a) (\<lambda>d. api_DeleteDrg a (Res_Id d))))"

section \<open>The attachment to the VCN\<close>

definition GetDRGAttachment :: "'w DrgApi \<Rightarrow> ('w, SdkResource option) scope_go" where
  "GetDRGAttachment a =
     go_bind get_scope (\<lambda>s.
     go_bind (getDRG s) (\<lambda>p. case p of
       None \<Rightarrow> go_throw (ErrNew ''DRG is nil'')
     | Some drg \<Rightarrow> (case DRG_VcnAttachmentId drg of
         Some i \<Rightarrow> go_bind (api (api_GetDrgAttachment a (Some i))) (accept_owned s)
       | None \<Rightarrow>
           go_bind (api (api_ListDrgAttachments a
             \<lparr>LDA_DisplayName = GetName s, LDA_DrgId = DRG_ID drg, LDA_NetworkId = VCN_ID (GetVcnSpec s),
              LDA_CompartmentId = GetCompartmentId s\<rparr>)) (\<lambda>items. case items of
             [] \<Rightarrow> go_ret None
           | [attachment] \<Rightarrow> accept_owned s attachment
           | _ \<Rightarrow> go_throw (ErrNew ''found more than one DRG VCN attachment to same VCN, please remove any DRG VCN attachments which has been created outside Cluster API for Oracle for the VCN'')))))"

definition ReconcileDRGVCNAttachment :: "'w DrgApi \<Rightarrow> ('w, unit) scope_go" where
  "ReconcileDRGVCNAttachment a =
     go_bind get_scope (\<lambda>s.
     if \<not> isPeeringEnabled s then go_ret ()
     else go_bind (getDRG s) (\<lambda>p. case p of
       None \<Rightarrow> go_throw (ErrNew ''DRG is nil'')
     | Some drg \<Rightarrow>
         go_bind (GetDRGAttachment a) (\<lambda>attachment. case attachment of
           Some x \<Rightarrow> mod_scope (updDrg (\<lambda>d. d\<lparr>DRG_VcnAttachmentId := Res_Id x\<rparr>))
         | None \<Rightarrow>
             go_bind (api (api_CreateDrgAttachment a
               \<lparr>CDA_DisplayName = GetName s, CDA_DrgId = DRG_ID drg, CDA_VcnId = VCN_ID (GetVcnSpec s),
                CDA_FreeformTags = GetFreeFormTags s, CDA_DefinedTags = GetDefinedTags s\<rparr>)) (\<lambda>x.
             mod_scope (updDrg (\<lambda>d. d\<lparr>DRG_VcnAttachmentId := Res_Id x\<rparr>))))))"

definition UpdateDRGAttachment :: "'w DrgApi \<Rightarrow> ('w, SdkResource) scope_go" where
  "UpdateDRGAttachment a =
     go_bind get_scope (\<lambda>s.
     go_bind (theDRG s) (\<lambda>drg.
     api (api_UpdateDrgAttachment a (DRG_VcnAttachmentId drg) (GetFreeFormTags s) (GetDefinedTags s))))"

definition DeleteDRGVCNAttachment :: "'w DrgApi \<Rightarrow> ('w, unit) scope_go" where
  "DeleteDRGVCNAttachment a =
     go_bind get_scope (\<lambda>s.
     if \<not> isPeeringEnabled s then go_ret ()
     else delete_found (GetDRGAttachment a) (\<lambda>x. api_DeleteDrgAttachment a (Res_Id x)))"

section \<open>Remote peering connections\<close>

definition createRPC :: "'w RpcApi \<Rightarrow> string option \<Rightarrow> string \<Rightarrow> ('w, SdkRPC) scope_go" where
  "createRPC a drgId displayName =
     go_bind get_scope (\<lambda>s.
     api (api_CreateRemotePeeringConnection a
       \<lparr>CD_CompartmentId = GetCompartmentId s, CD_DisplayName = displayName,
        CD_FreeformTags = GetFreeFormTags s, CD_DefinedTags = GetDefinedTags s, CRPC_DrgId = drgId\<rparr>))"

definition getRPC :: "'w RpcApi \<Rightarrow> string option \<Rightarrow> ('w, SdkRPC) scope_go" where
  "getRPC a rpcId = api (api_GetRemotePeeringConnection a rpcId)"

definition updateDRGRpc :: "'w RpcApi \<Rightarrow> string option \<Rightarrow> ('w, SdkRPC) scope_go" where
  "updateDRGRpc a rpcId =
     go_bind get_scope (\<lambda>s.
     api (api_UpdateRemotePeeringConnection a rpcId (GetFreeFormTags s) (GetDefinedTags s)))"

text \<open>The loop over the items of a page appends the connections with the cluster's name.\<close>

fun scanRpcs :: "ClusterScope \<Rightarrow> SdkRPC list \<Rightarrow> SdkRPC list \<Rightarrow> ('s, SdkRPC list) go" where
  "scanRpcs s [] rpcs = go_ret rpcs"
| "scanRpcs s (rpc # items) rpcs =
     (if StringEquals (Res_DisplayName rpc) (GetName s) then
        (if IsResourceCreatedByClusterAPI s (Res_FreeformTags rpc) then scanRpcs s items (rpcs @ [rpc])
         else go_throw tags_modified)
      else scanRpcs s items rpcs)"

text \<open>\<open>page\<close> is declared inside the loop: every round asks for the first page.\<close>

definition rpcPage :: "'w RpcApi \<Rightarrow> ClusterScope \<Rightarrow> string option \<Rightarrow> SdkRPC list \<Rightarrow>
    ('w, SdkRPC list + SdkRPC list) scope_go" where
  "rpcPage a s drgId rpcs =
     go_bind (api (api_ListRemotePeeringConnections a drgId (GetCompartmentId s) None)) (\<lambda>(items, opcNextPage).
     go_bind (scanRpcs s items rpcs) (\<lambda>rpcs'.
     case opcNextPage of
       None \<Rightarrow> go_ret (Inr rpcs')
     | Some _ \<Rightarrow> go_ret (Inl rpcs')))"

definition lookupRPC :: "'w RpcApi \<Rightarrow> string option \<Rightarrow> string option \<Rightarrow> ('w, SdkRPC option) scope_go" where
  "lookupRPC a drgId rpcId =
     go_bind get_scope (\<lambda>s. case rpcId of
       Some i \<Rightarrow> go_bind (getRPC a (Some i)) (accept_owned s)
     | None \<Rightarrow>
         go_bind (go_loop (rpcPage a s drgId) []) (\<lambda>rpcs. case rpcs of
           [] \<Rightarrow> go_ret None
         | [rpc] \<Rightarrow> go_ret (Some rpc)
         | _ \<Rightarrow> go_throw (ErrNew ''found more than one attachment with same display name'')))"

definition invalid_lifecycle :: goerr where
  "invalid_lifecycle = ErrNew ''invalid RPC lifecycle state''"

definition provisionedCond :: "'w RpcApi \<Rightarrow> string option \<Rightarrow> ('w, bool) scope_go" where
  "provisionedCond a rpcId =
     go_bind (getRPC a rpcId) (\<lambda>rpc. case SdkRPC_LifecycleState rpc of
       RpcAvailable \<Rightarrow> go_ret True
     | RpcTerminating \<Rightarrow> go_throw invalid_lifecycle
     | RpcTerminated \<Rightarrow> go_throw invalid_lifecycle
     | RpcLifecycleOther _ \<Rightarrow> go_ret False)"

definition waitForRPCToBeProvisioned :: "'w st poller \<Rightarrow> 'w RpcApi \<Rightarrow> SdkRPC \<Rightarrow> ('w, unit) scope_go" where
  "waitForRPCToBeProvisioned poll a rpc = (case SdkRPC_LifecycleState rpc of
      RpcAvailable \<Rightarrow> go_ret ()
    | RpcTerminating \<Rightarrow> go_throw invalid_lifecycle
    | RpcTerminated \<Rightarrow> go_throw invalid_lifecycle
    | RpcLifecycleOther _ \<Rightarrow> poll (provisionedCond a (Res_Id rpc)))"

definition deletedCond :: "'w RpcApi \<Rightarrow> string option \<Rightarrow> ('w, bool) scope_go" where
  "deletedCond a rpcId =
     go_bind (go_try (getRPC a rpcId)) (\<lambda>x. case x of
       Inl err \<Rightarrow> if IsNotFound (Some err) then go_ret True else go_throw err
     | Inr rpc \<Rightarrow> go_ret (SdkRPC_LifecycleState rpc = RpcTerminated))"

definition waitForRPCToBeDeleted :: "'w st poller \<Rightarrow> 'w RpcApi \<Rightarrow> string option \<Rightarrow> ('w, unit) scope_go" where
  "waitForRPCToBeDeleted poll a rpcId = poll (deletedCond a rpcId)"

definition deleteRPC :: "'w st poller \<Rightarrow> 'w RpcApi \<Rightarrow> string option \<Rightarrow> ('w, unit) scope_go" where
  "deleteRPC poll a rpcId =
     go_bind (api (api_DeleteRemotePeeringConnection a rpcId)) (\<lambda>_. waitForRPCToBeDeleted poll a rpcId)"

definition peeringText :: "PeeringStatus \<Rightarrow> string" where
  "peeringText st = (case st of PeeringNew \<Rightarrow> ''NEW'' | PeeringPeered \<Rightarrow> ''PEERED'' | PeeringPending \<Rightarrow> ''PENDING''
    | PeeringRevoked \<Rightarrow> ''REVOKED'' | PeeringInvalid \<Rightarrow> ''INVALID'' | PeeringOther t \<Rightarrow> t)"

definition peeredCond :: "'w RpcApi \<Rightarrow> string option \<Rightarrow> ('w, bool) scope_go" where
  "peeredCond a rpcId =
     go_bind (getRPC a rpcId) (\<lambda>rpc.
     let bad = go_bind (go_deref (Res_Id rpc)) (\<lambda>i. go_throw (ErrNew
           (''invalid peering status '' @ peeringText (SdkRPC_PeeringStatus rpc) @ '' of RPC '' @ i))) in
     case SdkRPC_PeeringStatus rpc of
       PeeringPeered \<Rightarrow> go_ret True
     | PeeringRevoked \<Rightarrow> bad
     | PeeringInvalid \<Rightarrow> bad
     | PeeringNew \<Rightarrow> bad
     | PeeringPending \<Rightarrow> go_ret False
     | PeeringOther _ \<Rightarrow> go_ret False)"

text \<open>Find or create a connection and wait until it is provisioned: the two halves of the loop body.\<close>

definition ensureRPC :: "'w st poller \<Rightarrow> 'w RpcApi \<Rightarrow> string option \<Rightarrow> string option \<Rightarrow> ('w, SdkRPC) scope_go" where
  "ensureRPC poll a drgId rpcId =
     go_bind get_scope (\<lambda>s.
     go_bind (lookupRPC a drgId rpcId) (\<lambda>found.
     go_bind (case found of Some rpc \<Rightarrow> go_ret rpc | None \<Rightarrow> createRPC a drgId (GetName s)) (\<lambda>rpc.
     go_bind (waitForRPCToBeProvisioned poll a rpc) (\<lambda>_.
     go_ret rpc))))"

text \<open>The body of the loop. The loop variable \<open>rpcSpec\<close> is a copy of the element of the slice: the ids assigned
  to it are used below, but not stored in the spec.\<close>

definition reconcileRPC :: "'w st poller \<Rightarrow> (string \<Rightarrow> ('w, 'w RpcApi) go) \<Rightarrow> 'w RpcApi \<Rightarrow>
    RemotePeeringConnection \<Rightarrow> ('w, unit) scope_go" where
  "reconcileRPC poll GetOrBuildClient a rpcSpec =
     go_bind get_scope (\<lambda>s.
     go_bind (getDrgID s) (\<lambda>drgId.
     go_bind (ensureRPC poll a drgId (RPC_RPCConnectionId rpcSpec)) (\<lambda>localRpc.
     if RPC_PeerDRGId rpcSpec = None then go_throw (ErrNew ''peer DRG ID has not been specified'')
     else
       go_bind (if RPC_ManagePeerRPC rpcSpec
         then go_bind (api (GetOrBuildClient (RPC_PeerRegionName rpcSpec))) (\<lambda>peer.
              go_bind (ensureRPC poll peer (RPC_PeerDRGId rpcSpec) (RPC_PeerRPCConnectionId rpcSpec)) (\<lambda>remoteRpc.
              go_ret (Res_Id remoteRpc)))
         else go_ret (RPC_PeerRPCConnectionId rpcSpec)) (\<lambda>peerId.
       go_bind (if SdkRPC_PeeringStatus localRpc = PeeringNew
         then (if peerId = None then go_throw (ErrNew ''peer RPC Connection ID is empty'')
               else api (api_ConnectRemotePeeringConnections a
                 \<lparr>CON_RemotePeeringConnectionId = Res_Id localRpc, CON_PeerId = peerId,
                  CON_PeerRegionName = RPC_PeerRegionName rpcSpec\<rparr>))
         else go_ret ()) (\<lambda>_.
       if SdkRPC_PeeringStatus localRpc \<noteq> PeeringPeered then poll (peeredCond a (Res_Id localRpc))
       else go_ret ())))))"

definition rpcSpecs :: "ClusterScope \<Rightarrow> RemotePeeringConnection list" where
  "rpcSpecs s = (case NetworkSpec_VCNPeering (GetNetworkSpec s) of
     None \<Rightarrow> [] | Some p \<Rightarrow> VCNPeering_RemotePeeringConnections p)"

definition ReconcileDRGRPCAttachment ::
  "'w st poller \<Rightarrow> (string \<Rightarrow> ('w, 'w RpcApi) go) \<Rightarrow> 'w RpcApi \<Rightarrow> ('w, unit) scope_go" where
  "ReconcileDRGRPCAttachment poll GetOrBuildClient a =
     go_bind get_scope (\<lambda>s.
     if \<not> isPeeringEnabled s then go_ret ()
     else go_bind (getDRG s) (\<lambda>drg.
       if drg = None then go_throw (ErrNew ''DRG has not been specified'')
       else go_bind (getDrgID s) (\<lambda>drgId.
         if drgId = None then go_throw (ErrNew ''DRG ID has not been set'')
         else go_for (rpcSpecs s) (reconcileRPC poll GetOrBuildClient a))))"

text \<open>The loop of the deletion: a missing connection ends the function with nil.\<close>

fun deleteRPCs :: "'w st poller \<Rightarrow> (string \<Rightarrow> ('w, 'w RpcApi) go) \<Rightarrow> 'w RpcApi \<Rightarrow> string option \<Rightarrow>
    RemotePeeringConnection list \<Rightarrow> ('w, unit) scope_go" where
  "deleteRPCs poll GetOrBuildClient a drgId [] = go_ret ()"
| "deleteRPCs poll GetOrBuildClient a drgId (rpcSpec # rest) =
     go_bind (go_try (lookupRPC a drgId (RPC_RPCConnectionId rpcSpec))) (\<lambda>x. case x of
       Inl err \<Rightarrow> if \<not> IsNotFound (Some err) then go_throw err else go_ret ()
     | Inr None \<Rightarrow> go_ret ()
     | Inr (Some localRpc) \<Rightarrow>
         go_bind (deleteRPC poll a (Res_Id localRpc)) (\<lambda>_.
         if RPC_ManagePeerRPC rpcSpec then
           go_bind (api (GetOrBuildClient (RPC_PeerRegionName rpcSpec))) (\<lambda>peer.
           go_bind (go_try (lookupRPC peer (RPC_PeerDRGId rpcSpec) (RPC_PeerRPCConnectionId rpcSpec))) (\<lambda>y. case y of
             Inl err \<Rightarrow> if \<not> IsNotFound (Some err) then go_throw err else go_ret ()
           | Inr None \<Rightarrow> go_ret ()
           | Inr (Some remoteRpc) \<Rightarrow>
               go_bind (deleteRPC poll peer (Res_Id remoteRpc)) (\<lambda>_.
               deleteRPCs poll GetOrBuildClient a drgId rest)))
         else deleteRPCs poll GetOrBuildClient a drgId rest))"

definition DeleteDRGRPCAttachment ::
  "'w st poller \<Rightarrow> (string \<Rightarrow> ('w, 'w RpcApi) go) \<Rightarrow> 'w RpcApi \<Rightarrow> ('w, unit) scope_go" where
  "DeleteDRGRPCAttachment poll GetOrBuildClient a =
     go_bind get_scope (\<lambda>s.
     if \<not> isPeeringEnabled s then go_ret ()
     else go_bind (getDRG s) (\<lambda>drg.
       if drg = None then go_ret ()
       else go_bind (getDrgID s) (\<lambda>drgId.
         if drgId = None then go_ret ()
         else deleteRPCs poll GetOrBuildClient a drgId (rpcSpecs s))))"


section \<open>Lookups\<close>

lemma theDRG_apply [go_simps]:
  "theDRG s x = (case NetworkSpec_VCNPeering (GetNetworkSpec s) of
     None \<Rightarrow> (Panic, x)
   | Some p \<Rightarrow> (case VCNPeering_DRG p of None \<Rightarrow> (Panic, x) | Some d \<Rightarrow> (Ret d, x)))"
  by (simp add: theDRG_def go_simps split: option.split)

lemma keeps_theDRG [frame_intros]: "reflp R \<Longrightarrow> keeps R (theDRG s)"
  by (auto simp: keeps_def go_simps reflp_def split: option.split)

lemma keeps_scanDrgs [frame_intros]: "reflp R \<Longrightarrow> keeps R (scanDrgs s name items)"
  by (induction items) (auto intro!: frame_intros)

lemma scanDrgs_found:
  "scanDrgs s name items x = (Ret (Some d), y) \<Longrightarrow>
   d \<in> set items \<and> Res_DisplayName d = Some name \<and> IsResourceCreatedByClusterAPI s (Res_FreeformTags d)"
  by (induction items) (auto simp: go_simps accept_owned_def split: if_splits)

lemma drgPage_eq: "drgPage a s name = page_step (api_ListDrgs a (GetCompartmentId s)) (scanDrgs s name)"
  by (simp add: drgPage_def page_step_def fun_eq_iff)

lemma GetDRG_eq:
  "GetDRG a = go_bind get_scope (\<lambda>s. go_bind (theDRG s) (\<lambda>drg. case DRG_ID drg of
       Some i \<Rightarrow> go_bind (api (api_GetDrg a (Some i))) (accept_owned s)
     | None \<Rightarrow> search_pages (api_ListDrgs a (GetCompartmentId s)) (scanDrgs s (DRG_Name drg))))"
  by (simp only: GetDRG_def drgPage_eq search_pages_def)

lemma GetDRG_keeps_scope: "keeps same_scope (GetDRG a)"
  unfolding GetDRG_eq
  by (intro frame_intros keeps_search_pages reflp_same_scope transp_same_scope keeps_api_same_scope) simp_all

lemma GetDRG_cases:
  assumes "GetDRG a (s, w) = (Ret (Some d), y)"
  obtains (id) i w1 where "api_GetDrg a (Some i) w = (Ret d, w1)" "y = (s, w1)"
      "IsResourceCreatedByClusterAPI s (Res_FreeformTags d)"
  | (page) name where
      "search_pages (api_ListDrgs a (GetCompartmentId s)) (scanDrgs s name) (s, w) = (Ret (Some d), y)"
      "IsResourceCreatedByClusterAPI s (Res_FreeformTags d)"
proof -
  from assms obtain drg where t: "theDRG s (s, w) = (Ret drg, (s, w))"
    by (auto simp: GetDRG_eq go_simps split: option.splits)
  have drg: "(case DRG_ID drg of
       Some i \<Rightarrow> go_bind (api (api_GetDrg a (Some i))) (accept_owned s) (s, w)
     | None \<Rightarrow> search_pages (api_ListDrgs a (GetCompartmentId s)) (scanDrgs s (DRG_Name drg)) (s, w))
       = (Ret (Some d), y)"
    using assms unfolding GetDRG_eq
    by (simp add: go_bind_apply get_scope_apply t split: option.splits)
  show thesis
  proof (cases "DRG_ID drg")
    case None
    with drg have r: "search_pages (api_ListDrgs a (GetCompartmentId s)) (scanDrgs s (DRG_Name drg)) (s, w)
        = (Ret (Some d), y)" by simp
    from search_pages_ret [OF this] have "IsResourceCreatedByClusterAPI s (Res_FreeformTags d)"
      by (auto dest: scanDrgs_found)
    with r show thesis by (rule page)
  next
    case (Some i)
    with drg show thesis
      by (cases "api_GetDrg a (Some i) w")
        (auto simp: go_simps accept_owned_def split: res.splits if_splits intro: id)
  qed
qed

lemma peering_unmanaged:
  "\<not> drgManaged s \<Longrightarrow> DeleteDRG a (s, w) = (Ret (), (s, w))"
  "drgManaged s \<Longrightarrow> DeleteDRG a (s, w) = delete_found (GetDRG a) (\<lambda>d. api_DeleteDrg a (Res_Id d)) (s, w)"
  by (auto simp: drgManaged_def DeleteDRG_def isPeeringEnabled_def go_simps split: option.splits)

interpretation drg_del: resource_delete "GetDRG a" "\<lambda>s. \<not> drgManaged s" "\<lambda>d. api_DeleteDrg a (Res_Id d)"
    "DeleteDRG a" "api_DeleteDrg a" for a :: "'w DrgApi"
  by unfold_locales
    (auto simp: peering_unmanaged dest: keeps_same_scopeD [OF GetDRG_keeps_scope] elim: GetDRG_cases)

lemma GetDRG_lawful:
  assumes get: "lawful_get tbl (api_GetDrg a)" and pages: "\<And>c. lawful_pages tbl (api_ListDrgs a c)"
    and ids: "keyed_by_id tbl"
  shows "lawful_lookup tbl (GetDRG a)"
  unfolding lawful_lookup_def
proof (intro conjI allI impI)
  have ro: "\<And>c p. read_only (api_ListDrgs a c p)" using pages by (simp add: lawful_pages_def)
  have rg: "\<And>i. read_only (api_GetDrg a i)" using get by (simp add: lawful_get_def)
  show "keeps same_state (GetDRG a)"
    unfolding GetDRG_eq
    by (intro frame_intros keeps_search_pages keeps_api_read_only ro rg) simp_all
  fix x r y assume run: "GetDRG a x = (Ret (Some r), y)"
  obtain s w where x: "x = (s, w)" by (cases x)
  from run [unfolded x] show "\<exists>k. tbl (snd x) k = Some r \<and> Res_Id r = Some k"
  proof (cases rule: GetDRG_cases)
    case (id i w1)
    from lawful_getD [OF get id(1)] keyed_by_idD(1) [OF ids] show ?thesis by (auto simp: x)
  next
    case (page name)
    show ?thesis unfolding x snd_conv
      by (rule lawful_search_pages [OF pages ids _ _ page(1)])
        (auto intro: frame_intros dest: scanDrgs_found)
  qed
qed


text \<open>The attachment.\<close>

lemma GetDRGAttachment_keeps_scope: "keeps same_scope (GetDRGAttachment a)"
  unfolding GetDRGAttachment_def
  by (intro frame_intros reflp_same_scope transp_same_scope keeps_api_same_scope)
    (auto intro!: frame_intros split: list.split)

lemma GetDRGAttachment_owned:
  "GetDRGAttachment a (s, w) = (Ret (Some r), t) \<Longrightarrow> IsResourceCreatedByClusterAPI s (Res_FreeformTags r)"
  by (auto simp: GetDRGAttachment_def go_simps accept_owned_def
      split: option.splits res.splits list.splits if_splits)

interpretation drg_att_del: resource_delete "GetDRGAttachment a" "\<lambda>s. \<not> isPeeringEnabled s"
    "\<lambda>x. api_DeleteDrgAttachment a (Res_Id x)" "DeleteDRGVCNAttachment a" "api_DeleteDrgAttachment a"
    for a :: "'w DrgApi"
  by unfold_locales
    (auto simp: DeleteDRGVCNAttachment_def go_simps GetDRGAttachment_owned
      dest: keeps_same_scopeD [OF GetDRGAttachment_keeps_scope])

section \<open>Properties of the gateway\<close>

text \<open>Deletion of the DRG. Over a lawful service, whatever \<open>DeleteDRG\<close> returns, it changes the DRGs of
  the tenancy only if the spec asks for a managed DRG, and all it does then is remove resources that carry
  this cluster's tags; a DRG the user supplied is never touched.\<close>

theorem DeleteDRG_only_managed_owned:
  assumes get: "lawful_get tbl (api_GetDrg a)" and pages: "\<And>c. lawful_pages tbl (api_ListDrgs a c)"
    and ids: "keyed_by_id tbl" and del: "lawful_delete tbl (api_DeleteDrg a)"
    and run: "DeleteDRG a (s, w) = (x, (s', w'))" and diff: "tbl w' k \<noteq> tbl w k"
  shows "drgManaged s \<and> s' = s \<and> tbl w' k = None \<and>
    (\<exists>r. tbl w k = Some r \<and> IsResourceCreatedByClusterAPI s (Res_FreeformTags r))"
proof -
  have "only_owned tbl (s, w) (s', w')"
    by (rule keepsD [OF drg_del.delete_only_owned run]) (use GetDRG_lawful get pages ids del in blast)+
  moreover from run diff have "drgManaged s" by (cases "drgManaged s") (auto simp: peering_unmanaged)
  ultimately show ?thesis using diff by (auto simp: only_owned_def)
qed

text \<open>A DRG service with one DRG, on the slot cloud; the list has one page.\<close>

definition slot_drg_api :: "SdkResource option DrgApi" where
  "slot_drg_api = \<lparr>api_GetDrg = slot_get,
     api_ListDrgs = (\<lambda>c p. go_bind (slot_list ''prod'') (\<lambda>rs. go_ret (rs, None))),
     api_CreateDrg = (\<lambda>d t. slot_create (slot_resource d)), api_DeleteDrg = slot_delete,
     api_GetDrgAttachment = slot_get, api_ListDrgAttachments = (\<lambda>r. slot_list (LDA_DisplayName r)),
     api_CreateDrgAttachment = (\<lambda>d. go_throw quota_err), api_UpdateDrgAttachment = (\<lambda>i t d. slot_get i),
     api_DeleteDrgAttachment = slot_delete\<rparr>"

lemma slot_drg_simps [simp]:
  "api_GetDrg slot_drg_api = slot_get" "api_DeleteDrg slot_drg_api = slot_delete"
  "api_ListDrgs slot_drg_api = (\<lambda>c p. go_bind (slot_list ''prod'') (\<lambda>rs. go_ret (rs, None)))"
  by (simp_all add: slot_drg_api_def)

lemma slot_drg_pages: "lawful_pages ok_tbl (api_ListDrgs slot_drg_api c)"
proof -
  have l: "lawful_list ok_tbl (slot_list ''prod'')" by (rule slot_list_lawful)
  show ?thesis
    unfolding lawful_pages_def read_only_def answers_def slot_drg_simps
    by (auto simp: go_simps slot_defs split: option.splits if_splits)
qed

definition peered_scope :: "bool \<Rightarrow> RemotePeeringConnection list \<Rightarrow> ClusterScope" where
  "peered_scope manage rpcs = upd_NetworkSpec (\<lambda>n. n\<lparr>NetworkSpec_VCNPeering :=
     Some \<lparr>VCNPeering_DRG = Some \<lparr>DRG_Manage = manage, DRG_Name = ''prod'', DRG_ID = Some slot_id,
       DRG_VcnAttachmentId = None\<rparr>, VCNPeering_PeerRouteRules = [],
       VCNPeering_RemotePeeringConnections = rpcs\<rparr>\<rparr>) sample_scope"

lemma peered_simps [simp]:
  "NetworkSpec_VCNPeering (GetNetworkSpec (peered_scope m rpcs)) =
     Some \<lparr>VCNPeering_DRG = Some \<lparr>DRG_Manage = m, DRG_Name = ''prod'', DRG_ID = Some slot_id,
       DRG_VcnAttachmentId = None\<rparr>, VCNPeering_PeerRouteRules = [],
       VCNPeering_RemotePeeringConnections = rpcs\<rparr>"
  "drgManaged (peered_scope m rpcs) = m" "isPeeringEnabled (peered_scope m rpcs)"
  "rpcSpecs (peered_scope m rpcs) = rpcs"
  "IsResourceCreatedByClusterAPI (peered_scope m rpcs) = IsResourceCreatedByClusterAPI sample_scope"
  "GetName (peered_scope m rpcs) = ''prod''" "GetCompartmentId (peered_scope m rpcs) = ''comp''"
  using same_identityD [OF same_identity_upd(1) [of sample_scope]]
  by (simp_all add: peered_scope_def drgManaged_def isPeeringEnabled_def rpcSpecs_def)

definition owned_drg :: SdkResource where
  "owned_drg = \<lparr>Res_Id = Some slot_id, Res_DisplayName = Some ''prod'',
     Res_FreeformTags = GetFreeFormTags sample_scope\<rparr>"

lemma owned_drg_deleted:
  "DeleteDRG slot_drg_api (peered_scope True [], Some owned_drg) = (Ret (), (peered_scope True [], None))"
  by (simp add: peering_unmanaged delete_found_def GetDRG_def go_simps slot_defs slot_ok_def owned_drg_def
      accept_owned_def GetFreeFormTags_owned)

lemma owned_drg_in_table: "ok_tbl (Some owned_drg) slot_id = Some owned_drg" "ok_tbl None k = None"
  by (simp_all add: slot_defs slot_ok_def owned_drg_def)

theorem DeleteDRG_only_managed_owned_witness:
  "DeleteDRG slot_drg_api (peered_scope True [], Some owned_drg) = (Ret (), (peered_scope True [], None)) \<and>
   ok_tbl (None :: SdkResource option) slot_id = None"
  using DeleteDRG_only_managed_owned [OF _ slot_drg_pages slot_keyed _ owned_drg_deleted, of slot_id]
  by (simp add: slot_lawful owned_drg_deleted owned_drg_in_table)

text \<open>The lookup of the DRG returns. If every request is answered and the page tokens lead through
  finitely many pages, \<open>GetDRG\<close> ends, whatever the pages hold: the loop over the pages is not infinite.\<close>

theorem GetDRG_returns:
  assumes "\<And>c p. answers (api_ListDrgs a c p)" and "\<And>i. answers (api_GetDrg a i)"
    and "\<And>c. pages_end rank (api_ListDrgs a c)"
  shows "fst (GetDRG a (s, w)) \<noteq> Diverge"
proof -
  have scan: "scanDrgs s n items x \<noteq> (Diverge, y)" for n items x y
    by (induction items) (auto simp: go_simps accept_owned_def)
  have "fst (search_pages (api_ListDrgs a c) (scanDrgs s n) (s, w)) \<noteq> Diverge" for c n
    by (rule search_pages_returns [OF assms(3) assms(1) scan])
  moreover have "fst (api_GetDrg a i w) \<noteq> Diverge" for i
    using assms(2) [of i] unfolding answers_def by (metis res.distinct(5) res.distinct(9))
  ultimately show ?thesis
    by (auto simp: GetDRG_eq go_simps accept_owned_def split: option.splits res.splits)
qed

theorem GetDRG_returns_witness: "fst (GetDRG slot_drg_api (peered_scope True [], None)) \<noteq> Diverge"
  by (rule GetDRG_returns [where rank = "\<lambda>_. 0"])
    (auto simp: answers_def pages_end_def go_simps slot_defs split: option.splits)


section \<open>Properties of the remote peering connections\<close>

lemma keeps_scanRpcs [frame_intros]: "reflp R \<Longrightarrow> keeps R (scanRpcs s items rpcs)"
  by (induction items arbitrary: rpcs) (auto intro!: frame_intros)

text \<open>A connection with the name of the cluster that this cluster did not make.\<close>

definition foreign_rpc :: "ClusterScope \<Rightarrow> SdkRPC \<Rightarrow> bool" where
  "foreign_rpc s rpc \<longleftrightarrow> StringEquals (Res_DisplayName rpc) (GetName s) \<and> \<not> IsResourceCreatedByClusterAPI s (Res_FreeformTags rpc)"

lemma scanRpcs_total:
  "if list_ex (foreign_rpc s) items then scanRpcs s items rpcs x = (Err tags_modified, x) else \<exists>rs. scanRpcs s items rpcs x = (Ret rs, x)"
  by (induction items arbitrary: rpcs) (auto simp: go_simps foreign_rpc_def)

text \<open>C36. The lookup of a peering connection by name when the connections of the DRG need more than one page. If the first page has
  a connection with the name of this cluster and without its tags, the lookup fails; in all other cases, whatever other connections the page has, it does
  not end: the page token is declared inside the loop, so every round asks for the first page again, which again says that there is
  a next one. (The request that lists the connections changes nothing in the cloud.)\<close>

theorem lookupRPC_never_returns:
  assumes first: "api_ListRemotePeeringConnections a drgId (GetCompartmentId s) None w = (Ret (items, Some next_page), w)"
  shows "lookupRPC a drgId None (s, w) = (if list_ex (foreign_rpc s) items then Err tags_modified else Diverge, (s, w))"
proof (cases "list_ex (foreign_rpc s) items")
  case True
  with scanRpcs_total [of s items "[]" "(s, w)"] have "rpcPage a s drgId [] (s, w) = (Err tags_modified, (s, w))"
    by (simp add: rpcPage_def go_simps first)
  with True show ?thesis by (simp add: lookupRPC_def go_simps go_loop_unfold [of "rpcPage a s drgId"])
next
  case False
  have "go_loop (rpcPage a s drgId) [] (s, w) = (Diverge, (s, w))"
  proof (rule go_loop_diverges [where I = "\<lambda>_. True"])
    fix rpcs
    from scanRpcs_total [of s items rpcs "(s, w)"] False obtain rs where "scanRpcs s items rpcs (s, w) = (Ret rs, (s, w))" by auto
    then show "\<exists>l'. rpcPage a s drgId rpcs (s, w) = (Ret (Inl l'), (s, w)) \<and> True"
      by (simp add: rpcPage_def go_simps first)
  qed simp
  with False show ?thesis by (simp add: lookupRPC_def go_simps)
qed

text \<open>A service with two connections on the first page, that of this cluster and one of somebody else, and a second page.\<close>

definition sample_rpc :: "string \<Rightarrow> (string \<rightharpoonup> string) \<Rightarrow> SdkRPC" where
  "sample_rpc name tgs = \<lparr>Res_Id = Some slot_id, Res_DisplayName = Some name, Res_FreeformTags = tgs,
     SdkRPC_LifecycleState = RpcAvailable, SdkRPC_PeeringStatus = PeeringNew\<rparr>"

definition paged_rpc_api :: "nat RpcApi" where
  "paged_rpc_api = \<lparr>api_GetRemotePeeringConnection = (\<lambda>i. go_throw not_found_err),
     api_ListRemotePeeringConnections = (\<lambda>d c p. go_ret (if p = None
       then ([sample_rpc ''other'' Map.empty, sample_rpc (GetName sample_scope) (GetFreeFormTags sample_scope)], Some ''page2'') else ([], None))),
     api_CreateRemotePeeringConnection = (\<lambda>d. go_throw quota_err),
     api_UpdateRemotePeeringConnection = (\<lambda>i t d. go_throw not_found_err),
     api_DeleteRemotePeeringConnection = (\<lambda>i. go_modify Suc),
     api_ConnectRemotePeeringConnections = (\<lambda>r. go_ret ())\<rparr>"

theorem lookupRPC_never_returns_witness:
  "lookupRPC paged_rpc_api (Some slot_id) None (sample_scope, 0) = (Diverge, (sample_scope, 0))"
  by (subst lookupRPC_never_returns [where next_page = "''page2''"], simp add: paged_rpc_api_def go_simps)
    (simp add: foreign_rpc_def sample_rpc_def accessor_defs sample_scope_def sample_cluster_def StringEquals_iff GetFreeFormTags_owned)

text \<open>A poller that returned nil went through a state in which the condition answered true.\<close>

lemma poll_peered:
  assumes "lawful_poller poll" and "poll (peeredCond a i) x = (Ret (), y)"
  shows "\<exists>w rpc. api_GetRemotePeeringConnection a i w = (Ret rpc, snd y) \<and> SdkRPC_PeeringStatus rpc = PeeringPeered"
proof -
  from lawful_pollerD [OF assms] obtain s w where "peeredCond a i (s, w) = (Ret True, y)" by auto
  moreover obtain r v where "api_GetRemotePeeringConnection a i w = (r, v)"
    by (cases "api_GetRemotePeeringConnection a i w")
  ultimately show ?thesis
    by (auto simp: peeredCond_def getRPC_def go_simps Let_def split: res.splits PeeringStatus.splits option.splits) blast
qed

text \<open>Success means peered. When the body of the reconciliation loop returns nil for a peering connection,
  then the local connection was found or created with the status PEERED, or the service has reported that
  status for it in the last request that was made. The wait for the peering status cannot end otherwise: a
  revoked, invalid or unconnected peering is an error.\<close>

theorem reconcileRPC_peered:
  assumes poll: "lawful_poller poll"
    and run: "reconcileRPC poll GetOrBuildClient a rpcSpec (s, w) = (Ret (), y)"
  shows "\<exists>drgId localRpc z. getDrgID s (s, w) = (Ret drgId, (s, w)) \<and>
    ensureRPC poll a drgId (RPC_RPCConnectionId rpcSpec) (s, w) = (Ret localRpc, z) \<and>
    (SdkRPC_PeeringStatus localRpc = PeeringPeered \<or>
     (\<exists>w1 rpc. api_GetRemotePeeringConnection a (Res_Id localRpc) w1 = (Ret rpc, snd y) \<and>
        SdkRPC_PeeringStatus rpc = PeeringPeered))"
proof -
  from run obtain drgId localRpc z where
    d: "getDrgID s (s, w) = (Ret drgId, (s, w))"
    and e: "ensureRPC poll a drgId (RPC_RPCConnectionId rpcSpec) (s, w) = (Ret localRpc, z)"
    by (auto simp: reconcileRPC_def go_bind_apply get_scope_apply getDrgID_apply
        split: res.splits prod.splits option.splits)
  have "SdkRPC_PeeringStatus localRpc = PeeringPeered \<or> (\<exists>u. poll (peeredCond a (Res_Id localRpc)) u = (Ret (), y))"
    using run d e
    by (auto simp: reconcileRPC_def go_bind_apply get_scope_apply go_ret_apply go_throw_apply
        split: res.splits prod.splits if_splits)
  with poll_peered [OF poll] d e show ?thesis by blast
qed

definition peered_rpc :: SdkRPC where
  "peered_rpc = \<lparr>Res_Id = Some slot_id, Res_DisplayName = Some ''prod'', Res_FreeformTags = GetFreeFormTags sample_scope,
     SdkRPC_LifecycleState = RpcAvailable, SdkRPC_PeeringStatus = PeeringPeered\<rparr>"

definition new_rpc :: SdkRPC where "new_rpc = peered_rpc\<lparr>SdkRPC_PeeringStatus := PeeringNew\<rparr>"

definition sample_rpcSpec :: RemotePeeringConnection where
  "sample_rpcSpec = \<lparr>RPC_ManagePeerRPC = False, RPC_Name = ''to-b'', RPC_PeerRegionName = ''us-ashburn-1'',
     RPC_PeerDRGId = Some ''drg-b'', RPC_PeerRPCConnectionId = Some ''rpc-b'', RPC_RPCConnectionId = None\<rparr>"

text \<open>A service whose one connection becomes PEERED (state 1) when it is connected.\<close>

definition connect_api :: "nat RpcApi" where
  "connect_api = paged_rpc_api\<lparr>
     api_GetRemotePeeringConnection := (\<lambda>i w. (Ret (if w = 0 then new_rpc else peered_rpc), w)),
     api_ListRemotePeeringConnections := (\<lambda>d c p w. (Ret ([if w = 0 then new_rpc else peered_rpc], None), w)),
     api_ConnectRemotePeeringConnections := (\<lambda>r. go_modify Suc)\<rparr>"

lemma connect_run:
  "reconcileRPC (poll_n 1) (\<lambda>_. go_throw quota_err) connect_api sample_rpcSpec
     (peered_scope True [sample_rpcSpec], 0) = (Ret (), (peered_scope True [sample_rpcSpec], 1))"
proof -
  have "rpcPage connect_api (peered_scope True [sample_rpcSpec]) (Some slot_id) []
      (peered_scope True [sample_rpcSpec], 0) = (Ret (Inr [new_rpc]), (peered_scope True [sample_rpcSpec], 0))"
    by (simp add: rpcPage_def connect_api_def go_simps new_rpc_def peered_rpc_def GetFreeFormTags_owned)
  then show ?thesis
    by (simp add: reconcileRPC_def ensureRPC_def lookupRPC_def go_loop_unfold go_simps
        sample_rpcSpec_def waitForRPCToBeProvisioned_def peeredCond_def getRPC_def Let_def
        connect_api_def paged_rpc_api_def new_rpc_def peered_rpc_def)
qed

theorem reconcileRPC_peered_witness:
  "\<exists>localRpc z. ensureRPC (poll_n 1) connect_api (Some slot_id) None (peered_scope True [sample_rpcSpec], 0)
      = (Ret localRpc, z) \<and>
    (SdkRPC_PeeringStatus localRpc = PeeringPeered \<or>
     (\<exists>w1 rpc. api_GetRemotePeeringConnection connect_api (Res_Id localRpc) w1 = (Ret rpc, 1) \<and>
        SdkRPC_PeeringStatus rpc = PeeringPeered))"
  using reconcileRPC_peered [OF lawful_poll_n connect_run]
  by (auto simp: go_simps sample_rpcSpec_def)


text \<open>A pass over the connections ends with nil at the first one that is already gone: those after it stay.\<close>

lemma DeleteDRGRPCAttachment_stops_early:
  assumes "getDrgID s (s, w) = (Ret (Some drgId), (s, w))" and "rpcSpecs s = rpcSpec # rest"
    and "lookupRPC a (Some drgId) (RPC_RPCConnectionId rpcSpec) (s, w) = (Ret None, y)"
  shows "DeleteDRGRPCAttachment poll GetOrBuildClient a (s, w) = (Ret (), y)"
  using assms
  by (auto simp: DeleteDRGRPCAttachment_def go_simps isPeeringEnabled_def split: option.splits)

text \<open>The ids of the connections never reach the spec: a reconciliation writes nothing of the scope.\<close>

lemma keeps_rpc_scope:
  assumes poll: "\<And>cond. keeps same_scope cond \<Longrightarrow> keeps same_scope (poll cond)"
  shows "keeps same_scope (ReconcileDRGRPCAttachment poll GetOrBuildClient a)"
proof -
  note intros = frame_intros reflp_same_scope transp_same_scope keeps_api_same_scope
  have look: "keeps same_scope (lookupRPC b d i)" for b :: "'a RpcApi" and d i
    unfolding lookupRPC_def rpcPage_def getRPC_def
    by (intro intros) (auto intro!: intros split: prod.split list.split)
  have prov: "keeps same_scope (waitForRPCToBeProvisioned poll b r)" for b r
    unfolding waitForRPCToBeProvisioned_def provisionedCond_def getRPC_def
    by (auto intro!: intros poll split: RpcLifecycleState.split)
  have ens: "keeps same_scope (ensureRPC poll b d i)" for b d i
    unfolding ensureRPC_def createRPC_def by (intro intros look prov) simp_all
  have peer: "keeps same_scope (poll (peeredCond b i))" for b i
    unfolding peeredCond_def getRPC_def Let_def
    by (intro poll intros) (auto intro!: intros split: PeeringStatus.split)
  show ?thesis
    unfolding ReconcileDRGRPCAttachment_def reconcileRPC_def
    by (intro intros ens peer) simp_all
qed

end
