(* ===== verification/Work_Requests.thy ===== *)
theory Work_Requests
  imports OCI_Util
begin

text \<open>
  Waiting for the work requests of the two load balancer services (\<open>AwaitLBWorkRequest\<close> and
  \<open>AwaitNLBWorkRequest\<close> of src/cloud/ociutil/ociutil.go). The condition handed to the poller assigns the
  captured variable \<open>wr\<close>: it runs over the cloud and that variable.
\<close>

text \<open>Run a program on the first component of the state, here the cloud beside the captured variable; assign the
  variable.\<close>

definition on_fst :: "('w, 'a) go \<Rightarrow> ('w \<times> 'v, 'a) go" where
  "on_fst m = (\<lambda>(w, v). case m w of (r, w') \<Rightarrow> (r, (w', v)))"

definition set_wr :: "'v \<Rightarrow> ('w \<times> 'v option, unit) go" where
  "set_wr v = go_modify (\<lambda>(w, _). (w, Some v))"

text \<open>\<open>var wr; err := wait.PollUntilContextTimeout(...); return wr, err\<close>: on an error the caller does not use
  \<open>wr\<close>.\<close>

definition with_wr :: "('w \<times> 'v option, unit) go \<Rightarrow> ('w, 'v option) go" where
  "with_wr m = (\<lambda>w. case m (w, None) of
      (Ret _, (w', v)) \<Rightarrow> (Ret v, w')
    | (Err e, (w', v)) \<Rightarrow> (Err e, w')
    | (Panic, (w', v)) \<Rightarrow> (Panic, w')
    | (Diverge, (w', v)) \<Rightarrow> (Diverge, w'))"

fun wrap_lb_errors :: "goerr \<Rightarrow> (string \<times> string option) list \<Rightarrow> ('s, goerr) go" where
  "wrap_lb_errors final_err [] = go_ret final_err"
| "wrap_lb_errors final_err ((code, msg) # details) =
     go_bind (go_deref msg) (\<lambda>m. wrap_lb_errors (ErrWrap (code @ '': '' @ m) final_err) details)"

definition lbWorkRequestCond ::
  "'w LbApi \<Rightarrow> string option \<Rightarrow> ('w \<times> LBWorkRequest option, bool) go" where
  "lbWorkRequestCond a workRequestId =
     go_bind (go_wrap ''failed create poll lb workrequest'' (on_fst (api_GetLBWorkRequest a workRequestId))) (\<lambda>twr.
     case LBWR_LifecycleState twr of
       WRSucceeded \<Rightarrow> go_bind (set_wr twr) (\<lambda>_. go_ret True)
     | WRFailed \<Rightarrow>
         go_bind (go_deref workRequestId) (\<lambda>i.
         go_bind (wrap_lb_errors (ErrNew (''WorkRequest '' @ i @ '' failed'')) (LBWR_ErrorDetails twr)) go_throw)
     | WRStateOther _ \<Rightarrow> go_ret False)"

definition AwaitLBWorkRequest ::
  "('w \<times> LBWorkRequest option) poller \<Rightarrow> 'w LbApi \<Rightarrow> string option \<Rightarrow> ('w, LBWorkRequest option) go" where
  "AwaitLBWorkRequest poll a workRequestId = with_wr (poll (lbWorkRequestCond a workRequestId))"

fun wrap_nlb_errors :: "goerr \<Rightarrow> (string option \<times> string option) list \<Rightarrow> ('s, goerr) go" where
  "wrap_nlb_errors final_err [] = go_ret final_err"
| "wrap_nlb_errors final_err ((code, msg) # items) =
     go_bind (go_deref code) (\<lambda>c. go_bind (go_deref msg) (\<lambda>m.
     wrap_nlb_errors (ErrWrap (c @ '': '' @ m) final_err) items))"

definition nlbWorkRequestCond ::
  "'w NlbApi \<Rightarrow> string option \<Rightarrow> ('w \<times> NLBWorkRequest option, bool) go" where
  "nlbWorkRequestCond a workRequestId =
     go_bind (go_wrap ''failed create poll nlb workrequest'' (on_fst (api_GetNLBWorkRequest a workRequestId))) (\<lambda>twr.
     case NLBWR_Status twr of
       WRSucceeded \<Rightarrow> go_bind (set_wr twr) (\<lambda>_. go_ret True)
     | WRFailed \<Rightarrow>
         go_bind (go_deref workRequestId) (\<lambda>i.
         let final_err = ErrNew (''WorkRequest '' @ i @ '' failed'') in
         go_bind (go_try (on_fst (api_ListNLBWorkRequestErrors a workRequestId (NLBWR_CompartmentId twr)))) (\<lambda>x.
         case x of
           Inl err \<Rightarrow> go_throw (ErrWrap ''Failed to fetch the work-request-errors using nlb client'' final_err)
         | Inr items \<Rightarrow> go_bind (wrap_nlb_errors final_err items) go_throw))
     | WRStateOther _ \<Rightarrow> go_ret False)"

definition AwaitNLBWorkRequest ::
  "('w \<times> NLBWorkRequest option) poller \<Rightarrow> 'w NlbApi \<Rightarrow> string option \<Rightarrow> ('w, NLBWorkRequest option) go" where
  "AwaitNLBWorkRequest poll a workRequestId = with_wr (poll (nlbWorkRequestCond a workRequestId))"

section \<open>What a wait that returns nil has seen\<close>

lemma on_fst_apply [go_simps]: "on_fst m (w, v) = (fst (m w), (snd (m w), v))"
  by (simp add: on_fst_def split: prod.splits)

lemma set_wr_apply [go_simps]: "set_wr v (w, u) = (Ret (), (w, Some v))"
  by (simp add: set_wr_def go_simps)

lemma with_wr_ret: "with_wr m w = (Ret v, w') \<longleftrightarrow> m (w, None) = (Ret (), (w', v))"
proof -
  obtain r w1 v1 where m: "m (w, None) = (r, (w1, v1))" by (cases "m (w, None)") auto
  show ?thesis by (cases r) (auto simp: with_wr_def m)
qed

text \<open>A wait that returns nil has the work request that succeeded, and the last request that was made
  reported it.\<close>

lemma AwaitLBWorkRequest_succeeded:
  assumes "lawful_poller poll" and "AwaitLBWorkRequest poll a i w = (Ret wr, w')"
  shows "\<exists>twr u. wr = Some twr \<and> LBWR_LifecycleState twr = WRSucceeded \<and>
    api_GetLBWorkRequest a i u = (Ret twr, w')"
proof -
  from assms(2) have "poll (lbWorkRequestCond a i) (w, None) = (Ret (), (w', wr))"
    by (simp add: AwaitLBWorkRequest_def with_wr_ret)
  from lawful_pollerD [OF assms(1) this] obtain u v where
    "lbWorkRequestCond a i (u, v) = (Ret True, (w', wr))" by auto
  moreover obtain r t where "api_GetLBWorkRequest a i u = (r, t)" by (cases "api_GetLBWorkRequest a i u")
  ultimately show ?thesis
    by (auto simp: lbWorkRequestCond_def go_simps split: res.splits WorkRequestState.splits option.splits prod.splits)
qed

lemma AwaitNLBWorkRequest_succeeded:
  assumes "lawful_poller poll" and "AwaitNLBWorkRequest poll a i w = (Ret wr, w')"
  shows "\<exists>twr u. wr = Some twr \<and> NLBWR_Status twr = WRSucceeded \<and> api_GetNLBWorkRequest a i u = (Ret twr, w')"
proof -
  from assms(2) have "poll (nlbWorkRequestCond a i) (w, None) = (Ret (), (w', wr))"
    by (simp add: AwaitNLBWorkRequest_def with_wr_ret)
  from lawful_pollerD [OF assms(1) this] obtain u v where
    "nlbWorkRequestCond a i (u, v) = (Ret True, (w', wr))" by auto
  moreover obtain r t where "api_GetNLBWorkRequest a i u = (r, t)" by (cases "api_GetNLBWorkRequest a i u")
  ultimately show ?thesis
    by (auto simp: nlbWorkRequestCond_def go_simps Let_def
        split: res.splits WorkRequestState.splits option.splits prod.splits)
qed

end
