(* ===== verification/Load_Balancer.thy ===== *)
theory Load_Balancer
  imports Work_Requests Subnet_Spec Paged_Lookup
begin

text \<open>
  The API server load balancer of the load balancer service (src/cloud/scope/load_balancer_reconciler.go).
  The contract it shares with the network load balancer (theory \<open>Network_Load_Balancer\<close>), that a successful
  reconciliation publishes the address of the load balancer as the control plane endpoint, is the locale
  \<open>apiserver_lb\<close>.
\<close>

section \<open>Model\<close>

abbreviation APIServerLBBackendSetName :: string where "APIServerLBBackendSetName \<equiv> ''apiserver-lb-backendset''"
abbreviation APIServerLBListener :: string where "APIServerLBListener \<equiv> ''apiserver-lb-listener''"

text \<open>An assignment to \<open>GetNetworkSpec().APIServerLB.LoadBalancerId\<close>.\<close>

definition setLoadBalancerId :: "string option \<Rightarrow> ClusterScope \<Rightarrow> ClusterScope" where
  "setLoadBalancerId i = upd_NetworkSpec (\<lambda>n. n\<lparr>NetworkSpec_APIServerLB :=
     (NetworkSpec_APIServerLB n)\<lparr>LoadBalancer_LoadBalancerId := i\<rparr>\<rparr>)"

abbreviation APIServerLBSpec :: "ClusterScope \<Rightarrow> LoadBalancer" where
  "APIServerLBSpec s \<equiv> NetworkSpec_APIServerLB (GetNetworkSpec s)"

definition GetControlPlaneLoadBalancerName :: "ClusterScope \<Rightarrow> string" where
  "GetControlPlaneLoadBalancerName s =
     (if LoadBalancer_Name (APIServerLBSpec s) \<noteq> [] then LoadBalancer_Name (APIServerLBSpec s)
      else GetName s @ ''-'' @ ''apiserver'')"

text \<open>A copy of the function in load_balancer_reconciler.go, which nothing calls.\<close>

definition GetControlPlaneLbsLoadBalancerName :: "ClusterScope \<Rightarrow> string" where
  "GetControlPlaneLbsLoadBalancerName s =
     (if LoadBalancer_Name (APIServerLBSpec s) \<noteq> [] then LoadBalancer_Name (APIServerLBSpec s)
      else GetName s @ ''-'' @ ''apiserver'')"

text \<open>\<open>LBSpec\<close> answers a \<open>LoadBalancer\<close> with only the name set.\<close>

definition LBSpec :: "ClusterScope \<Rightarrow> string" where
  "LBSpec s = GetControlPlaneLoadBalancerName s"

text \<open>The last public address wins.\<close>

fun lastPublicIp :: "SdkIpAddress list \<Rightarrow> string option \<Rightarrow> ('s, string option) go" where
  "lastPublicIp [] lbIp = go_ret lbIp"
| "lastPublicIp (ip # ips) lbIp =
     go_bind (go_deref (Ip_IsPublic ip)) (\<lambda>pub. lastPublicIp ips (if pub then Ip_IpAddress ip else lbIp))"

definition chooseIp :: "string \<Rightarrow> string \<Rightarrow> bool option \<Rightarrow> SdkIpAddress list \<Rightarrow> ('s, string option) go" where
  "chooseIp no_ip no_public isPrivate ips = (case ips of
      [] \<Rightarrow> go_throw (ErrNew no_ip)
    | first # _ \<Rightarrow>
        go_bind (if ToBool isPrivate then go_ret (Ip_IpAddress first) else lastPublicIp ips None) (\<lambda>lbIp.
        if lbIp = None then go_throw (ErrNew no_public) else go_ret lbIp))"

definition getLoadbalancerIp :: "SdkLB \<Rightarrow> ('s, string option) go" where
  "getLoadbalancerIp lb =
     chooseIp ''lb does not have valid ip addresses'' ''lb does not have valid public ip address''
       (LB_IsPrivate lb) (LB_IpAddresses lb)"

definition IsLBEqual :: "SdkLB \<Rightarrow> string \<Rightarrow> ('s, bool) go" where
  "IsLBEqual actual desired = go_bind (go_deref (Res_DisplayName actual)) (\<lambda>n. go_ret (desired = n))"

text \<open>One page: the first load balancer of this cluster is read again by its id.\<close>

fun scanLbs :: "'w LbApi \<Rightarrow> ClusterScope \<Rightarrow> SdkLB list \<Rightarrow> ('w, SdkLB option) scope_go" where
  "scanLbs a s [] = go_ret None"
| "scanLbs a s (lb # lbs) =
     (if IsResourceCreatedByClusterAPI s (Res_FreeformTags lb)
      then go_bind (api (api_GetLoadBalancer a (Res_Id lb))) (\<lambda>r. go_ret (Some r))
      else scanLbs a s lbs)"

definition GetLoadBalancers :: "'w LbApi \<Rightarrow> ('w, SdkLB option) scope_go" where
  "GetLoadBalancers a =
     go_bind get_scope (\<lambda>s. case LoadBalancer_LoadBalancerId (APIServerLBSpec s) of
       Some i \<Rightarrow> go_bind (api (api_GetLoadBalancer a (Some i))) (accept_owned s)
     | None \<Rightarrow> search_pages
         (\<lambda>page. go_wrap ''failed to list lb by name''
           (api_ListLoadBalancers a (GetCompartmentId s) (GetControlPlaneLoadBalancerName s) page))
         (scanLbs a s))"

definition endpointSubnetIds :: "ClusterScope \<Rightarrow> string list" where
  "endpointSubnetIds s = map (\<lambda>sn. ToString (Subnet_ID sn))
     (filter (\<lambda>sn. Subnet_ID sn \<noteq> None \<and> Subnet_Role sn = ControlPlaneEndpointRole)
       (ToSubnetSlice (VCN_Subnets (GetVcnSpec s))))"

definition endpointNsgIds :: "ClusterScope \<Rightarrow> string list" where
  "endpointNsgIds s = map (\<lambda>n. ToString (NSG_ID n))
     (filter (\<lambda>n. NSG_Role n = ControlPlaneEndpointRole \<and> NSG_ID n \<noteq> None)
       (ToNSGSlice (NetworkSecurityGroup_List (VCN_NetworkSecurityGroup (GetVcnSpec s)))))"

definition createLBDetails :: "ClusterScope \<Rightarrow> string \<Rightarrow> CreateLBDetails" where
  "createLBDetails s name =
     \<lparr>CD_CompartmentId = GetCompartmentId s, CD_DisplayName = name,
      CD_FreeformTags = GetFreeFormTags s, CD_DefinedTags = GetDefinedTags s,
      CLB_ShapeName = ''flexible'', CLB_MinimumBandwidthInMbps = 10, CLB_MaximumBandwidthInMbps = 100,
      CLB_SubnetIds = endpointSubnetIds s, CLB_IsPrivate = isAPIServerLBPrivate s,
      CLB_Listeners = [APIServerLBListener \<mapsto>
        \<lparr>Listener_Protocol = ''TCP'', Listener_Port = APIServerPort s,
         Listener_DefaultBackendSetName = APIServerLBBackendSetName\<rparr>],
      CLB_BackendSets = [APIServerLBBackendSetName \<mapsto>
        \<lparr>LBBSD_Policy = ''ROUND_ROBIN'', LBBSD_HealthCheckerPort = APIServerPort s,
         LBBSD_HealthCheckerProtocol = ''TCP'', LBBSD_Backends = []\<rparr>],
      CLB_NetworkSecurityGroupIds = endpointNsgIds s\<rparr>"

type_synonym 'w lb_poller = "('w \<times> LBWorkRequest option) poller"

definition CreateLB :: "'w lb_poller \<Rightarrow> 'w LbApi \<Rightarrow> string \<Rightarrow> ('w, string option \<times> string option) scope_go" where
  "CreateLB poll a name =
     go_bind get_scope (\<lambda>s.
     if endpointSubnetIds s = [] then go_throw (ErrNew ''control plane endpoint subnet not provided'')
     else
       go_bind (api (go_wrap ''failed to create apiserver lb, failed to create work request''
         (api_CreateLoadBalancer a (createLBDetails s name)
           (GetOPCRetryToken ''%s-%s'' [''create-lb'', GetOCIResourceIdentifier s])))) (\<lambda>wrId.
       go_bind (api (go_wrap ''awaiting load balancer'' (AwaitLBWorkRequest poll a wrId))) (\<lambda>p.
       go_bind (go_deref p) (\<lambda>wr.
       go_bind (api (go_wrap ''failed to get apiserver lb after creation''
         (api_GetLoadBalancer a (LBWR_LoadBalancerId wr)))) (\<lambda>lb.
       go_bind (getLoadbalancerIp lb) (\<lambda>lbIp.
       go_ret (Res_Id lb, lbIp)))))))"

definition UpdateLB :: "'w lb_poller \<Rightarrow> 'w LbApi \<Rightarrow> string \<Rightarrow> ('w, unit) scope_go" where
  "UpdateLB poll a name =
     go_bind get_scope (\<lambda>s.
     go_bind (api (go_wrap ''failed to reconcile the apiserver LB, failed to generate update lb workrequest''
       (api_UpdateLoadBalancer a (LoadBalancer_LoadBalancerId (APIServerLBSpec s))
         \<lparr>ULB_DisplayName = name, ULB_FreeformTags = GetFreeFormTags s, ULB_DefinedTags = GetDefinedTags s\<rparr>))) (\<lambda>wrId.
     go_bind (api (go_wrap ''failed to reconcile the apiserver LB, failed to update lb''
       (AwaitLBWorkRequest poll a wrId))) (\<lambda>_.
     go_ret ())))"

definition stateText :: "LBLifecycleState \<Rightarrow> string" where
  "stateText st = (case st of LBActive \<Rightarrow> ''ACTIVE'' | LBStateOther t \<Rightarrow> t)"

text \<open>\<open>networkSpec.APIServerLB.LoadBalancerId = lb.Id; SetControlPlaneEndpoint(APIEndpoint{Host: *lbIP, ...})\<close>\<close>

definition publish :: "string option \<Rightarrow> string option \<Rightarrow> ('w, unit) scope_go" where
  "publish lbId lbIP =
     go_bind (mod_scope (setLoadBalancerId lbId)) (\<lambda>_.
     go_bind (go_deref lbIP) (\<lambda>ip.
     go_bind get_scope (\<lambda>s.
     mod_scope (SetControlPlaneEndpoint \<lparr>APIEndpoint_Host = ip, APIEndpoint_Port = APIServerPort s\<rparr>))))"

definition ReconcileApiServerLB :: "'w lb_poller \<Rightarrow> 'w LbApi \<Rightarrow> ('w, unit) scope_go" where
  "ReconcileApiServerLB poll a =
     go_bind get_scope (\<lambda>s.
     go_bind (GetLoadBalancers a) (\<lambda>p. case p of
       Some lb \<Rightarrow>
         if LB_LifecycleState lb \<noteq> LBActive
         then go_throw (ErrNew (''load balancer is in '' @ stateText (LB_LifecycleState lb) @
                '' state. Waiting for ACTIVE state.''))
         else
           go_bind (getLoadbalancerIp lb) (\<lambda>lbIP.
           go_bind (publish (Res_Id lb) lbIP) (\<lambda>_.
           go_bind (IsLBEqual lb (LBSpec s)) (\<lambda>eq.
           if eq then go_ret () else UpdateLB poll a (LBSpec s))))
     | None \<Rightarrow>
         go_bind (CreateLB poll a (LBSpec s)) (\<lambda>(lbID, lbIP). publish lbID lbIP)))"

definition DeleteApiServerLB :: "'w lb_poller \<Rightarrow> 'w LbApi \<Rightarrow> ('w, unit) scope_go" where
  "DeleteApiServerLB poll a =
     delete_found (GetLoadBalancers a) (\<lambda>lb.
       go_bind (go_wrap ''failed to delete apiserver lb'' (api_DeleteLoadBalancer a (Res_Id lb))) (\<lambda>wrId.
       go_bind (go_wrap ''work request to delete lb failed'' (AwaitLBWorkRequest poll a wrId)) (\<lambda>_.
       go_ret ())))"


section \<open>Addresses\<close>

lemma keeps_lastPublicIp [frame_intros]: "reflp R \<Longrightarrow> transp R \<Longrightarrow> keeps R (lastPublicIp ips lbIp)"
  by (induction ips arbitrary: lbIp) (auto intro!: frame_intros)

lemma keeps_chooseIp [frame_intros]: "reflp R \<Longrightarrow> transp R \<Longrightarrow> keeps R (chooseIp e1 e2 priv ips)"
  unfolding chooseIp_def by (auto intro!: frame_intros split: list.split)

lemma lastPublicIp_ret:
  "lastPublicIp ips lbIp x = (Ret (Some ip), y) \<Longrightarrow>
   lbIp = Some ip \<or> (\<exists>a \<in> set ips. Ip_IpAddress a = Some ip \<and> Ip_IsPublic a = Some True)"
proof (induction ips arbitrary: lbIp)
  case Nil
  then show ?case by (simp add: go_simps)
next
  case (Cons a ips)
  then obtain pub where "Ip_IsPublic a = Some pub"
    "lastPublicIp ips (if pub then Ip_IpAddress a else lbIp) x = (Ret (Some ip), y)"
    by (auto simp: go_simps split: option.splits)
  with Cons.IH show ?case by (fastforce split: if_splits)
qed

text \<open>The address that is chosen is one of the load balancer, and a public one unless it is private.\<close>

definition address_of :: "bool option \<Rightarrow> SdkIpAddress list \<Rightarrow> string \<Rightarrow> bool" where
  "address_of isPrivate ips ip \<longleftrightarrow> (\<exists>a \<in> set ips. Ip_IpAddress a = Some ip \<and>
     (\<not> ToBool isPrivate \<longrightarrow> Ip_IsPublic a = Some True))"

lemma chooseIp_ret:
  assumes "chooseIp e1 e2 priv ips x = (Ret p, y)"
  shows "\<exists>ip. p = Some ip \<and> address_of priv ips ip"
proof -
  from assms obtain a ips' where ips: "ips = a # ips'" by (cases ips) (auto simp: chooseIp_def go_simps)
  show ?thesis
  proof (cases "ToBool priv")
    case True
    with assms ips show ?thesis by (auto simp: chooseIp_def go_simps address_of_def split: if_splits)
  next
    case False
    obtain r z where l: "lastPublicIp ips None x = (r, z)" by (cases "lastPublicIp ips None x")
    have "go_bind (lastPublicIp ips None) (\<lambda>lbIp. if lbIp = None then go_throw (ErrNew e2) else go_ret lbIp) x = (Ret p, y)"
      using assms False unfolding chooseIp_def ips by simp
    then have "r = Ret p \<and> p \<noteq> None"
      unfolding go_bind_apply l by (cases r) (simp_all add: go_ret_apply go_throw_apply split: if_splits)
    then obtain ip where "p = Some ip" "r = Ret (Some ip)" by auto
    with l have "lastPublicIp ips None x = (Ret (Some ip), z)" by simp
    from lastPublicIp_ret [OF this] \<open>p = Some ip\<close> show ?thesis by (auto simp: address_of_def)
  qed
qed

section \<open>The contract of the API server load balancers\<close>

definition lb_reconcile ::
  "('w, 'z SdkResource_scheme option) scope_go \<Rightarrow> ('z SdkResource_scheme \<Rightarrow> goerr option) \<Rightarrow>
   ('z SdkResource_scheme \<Rightarrow> ('w, string option) scope_go) \<Rightarrow>
   (ClusterScope \<Rightarrow> 'z SdkResource_scheme \<Rightarrow> ('w, unit) scope_go) \<Rightarrow>
   (ClusterScope \<Rightarrow> ('w, string option \<times> string option) scope_go) \<Rightarrow> ('w, unit) scope_go" where
  "lb_reconcile lookup pending getip align create =
     go_bind get_scope (\<lambda>s.
     go_bind lookup (\<lambda>p. case p of
       Some lb \<Rightarrow> (case pending lb of
           Some e \<Rightarrow> go_throw e
         | None \<Rightarrow>
             go_bind (getip lb) (\<lambda>lbIP.
             go_bind (publish (Res_Id lb) lbIP) (\<lambda>_.
             align s lb)))
     | None \<Rightarrow> go_bind (create s) (\<lambda>(lbID, lbIP). publish lbID lbIP)))"

lemma publish_apply [go_simps]:
  "publish i ip (s, w) = (case ip of
     None \<Rightarrow> (Panic, (setLoadBalancerId i s, w))
   | Some h \<Rightarrow> (Ret (), (SetControlPlaneEndpoint
       \<lparr>APIEndpoint_Host = h, APIEndpoint_Port = APIServerPort s\<rparr> (setLoadBalancerId i s), w)))"
  using same_identityD(6) [OF same_identity_upd(1), of _ s]
  by (simp add: publish_def go_simps setLoadBalancerId_def split: option.split)

text \<open>\<open>pending\<close> is the error for a load balancer that is not active, \<open>align\<close> compares with the spec and updates.
  \<open>address\<close> says which addresses may be published for a load balancer the service has reported.\<close>

locale apiserver_lb =
  fixes lookup :: "('w, 'z SdkResource_scheme option) scope_go"
    and pending :: "'z SdkResource_scheme \<Rightarrow> goerr option"
    and getip :: "'z SdkResource_scheme \<Rightarrow> ('w, string option) scope_go"
    and align :: "ClusterScope \<Rightarrow> 'z SdkResource_scheme \<Rightarrow> ('w, unit) scope_go"
    and create :: "ClusterScope \<Rightarrow> ('w, string option \<times> string option) scope_go"
    and address :: "'z SdkResource_scheme \<Rightarrow> string \<Rightarrow> bool"
    and reported :: "'z SdkResource_scheme \<Rightarrow> bool"
    and reconcile :: "('w, unit) scope_go"
  assumes rec_eq: "reconcile = lb_reconcile lookup pending getip align create"
    and lookup_scope: "keeps same_scope lookup"
    and align_scope: "keeps same_scope (align s lb)"
    and create_scope: "keeps same_scope (create s)"
    and getip_state: "keeps same_state (getip lb)"
    and getip_address: "getip lb x = (Ret p, y) \<Longrightarrow> \<exists>ip. p = Some ip \<and> address lb ip"
    and lookup_reported: "lookup x = (Ret (Some lb), y) \<Longrightarrow> reported lb"
    and create_address: "create s x = (Ret (i, p), y) \<Longrightarrow>
      \<exists>lb ip. reported lb \<and> i = Res_Id lb \<and> p = Some ip \<and> address lb ip"
begin

text \<open>A successful reconciliation has published an address of a load balancer of the service, and changed
  nothing else of the scope.\<close>

lemma reconcile_publishes:
  assumes run: "reconcile (s, w) = (Ret (), t)"
  shows "\<exists>lb ip. reported lb \<and> address lb ip \<and> fst t = SetControlPlaneEndpoint
    \<lparr>APIEndpoint_Host = ip, APIEndpoint_Port = APIServerPort s\<rparr> (setLoadBalancerId (Res_Id lb) s)"
proof -
  from run obtain p x where look: "lookup (s, w) = (Ret p, x)"
    by (auto simp: rec_eq lb_reconcile_def go_bind_apply get_scope_apply split: res.splits prod.splits)
  from keeps_same_scopeD [OF lookup_scope look] have x: "x = (s, snd x)" by (simp add: prod_eq_iff)
  show ?thesis
  proof (cases p)
    case None
    with run look obtain i q y where cr: "create s x = (Ret (i, q), y)" and pub: "publish i q y = (Ret (), t)"
      by (auto simp: rec_eq lb_reconcile_def go_bind_apply get_scope_apply split: res.splits prod.splits)
    from create_address [OF cr] obtain lb ip where
      lb: "reported lb" "i = Res_Id lb" "q = Some ip" "address lb ip" by blast
    from keepsD [OF create_scope cr] x have "y = (s, snd y)" by (metis fst_conv prod.collapse)
    with pub lb have "fst t = SetControlPlaneEndpoint
        \<lparr>APIEndpoint_Host = ip, APIEndpoint_Port = APIServerPort s\<rparr> (setLoadBalancerId (Res_Id lb) s)"
      by (metis (no_types, lifting) fst_conv option.simps(5) prod.inject publish_apply)
    with lb show ?thesis by blast
  next
    case (Some lb)
    with run look obtain q y where ip: "getip lb x = (Ret q, y)"
      and rest: "go_bind (publish (Res_Id lb) q) (\<lambda>_. align s lb) y = (Ret (), t)"
      by (auto simp: rec_eq lb_reconcile_def go_bind_apply get_scope_apply go_throw_apply
          split: res.splits prod.splits option.splits)
    from getip_address [OF ip] obtain h where h: "q = Some h" "address lb h" by blast
    from keepsD [OF getip_state ip] x have "y = (s, snd y)" by simp
    then have "publish (Res_Id lb) q y = (Ret (), (SetControlPlaneEndpoint
        \<lparr>APIEndpoint_Host = h, APIEndpoint_Port = APIServerPort s\<rparr> (setLoadBalancerId (Res_Id lb) s), snd y))"
      using h by (metis option.simps(5) publish_apply)
    with rest have "align s lb (SetControlPlaneEndpoint
        \<lparr>APIEndpoint_Host = h, APIEndpoint_Port = APIServerPort s\<rparr> (setLoadBalancerId (Res_Id lb) s), snd y) = (Ret (), t)"
      by (simp add: go_bind_apply)
    from keeps_same_scopeD [OF align_scope this] lookup_reported [OF look [unfolded Some]] h
    show ?thesis by blast
  qed
qed

text \<open>A load balancer that is not active yet is an error and nothing is published.\<close>

lemma reconcile_pending:
  "lookup (s, w) = (Ret (Some lb), t) \<Longrightarrow> pending lb = Some e \<Longrightarrow> reconcile (s, w) = (Err e, t)"
  by (simp add: rec_eq lb_reconcile_def go_simps)

end


section \<open>The load balancer service keeps the contract\<close>

lemma keeps_scanLbs: "keeps same_scope (scanLbs a s lbs)"
  by (induction lbs) (auto intro!: frame_intros)

lemma GetLoadBalancers_scope: "keeps same_scope (GetLoadBalancers a)"
  unfolding GetLoadBalancers_def
  by (intro frame_intros keeps_search_pages keeps_scanLbs reflp_same_scope transp_same_scope
      keeps_api_same_scope) simp_all

lemma UpdateLB_scope: "keeps same_scope (UpdateLB poll a n)"
  unfolding UpdateLB_def by (intro frame_intros reflp_same_scope transp_same_scope keeps_api_same_scope) simp_all

lemma CreateLB_scope: "keeps same_scope (CreateLB poll a n)"
  unfolding CreateLB_def getLoadbalancerIp_def
  by (intro frame_intros reflp_same_scope transp_same_scope keeps_api_same_scope) simp_all

text \<open>The service has reported the load balancer.\<close>

definition lb_reported :: "'w LbApi \<Rightarrow> SdkLB \<Rightarrow> bool" where
  "lb_reported a lb \<longleftrightarrow> (\<exists>i w w'. api_GetLoadBalancer a i w = (Ret lb, w'))"

lemma lb_reportedI: "api_GetLoadBalancer a i w = (Ret lb, w') \<Longrightarrow> lb_reported a lb"
  by (auto simp: lb_reported_def)

lemma api_get_reported: "api (api_GetLoadBalancer a i) x = (Ret lb, y) \<Longrightarrow> lb_reported a lb"
  by (cases x) (auto simp: api_def split: prod.splits intro: lb_reportedI)

lemma scanLbs_reported: "scanLbs a s lbs x = (Ret (Some lb), y) \<Longrightarrow> lb_reported a lb"
  by (induction lbs) (auto simp: go_bind_apply go_ret_apply split: if_splits res.splits prod.splits
      dest: api_get_reported)

lemma GetLoadBalancers_reported:
  assumes "GetLoadBalancers a x = (Ret (Some lb), y)"
  shows "lb_reported a lb"
proof -
  obtain s w where x: "x = (s, w)" by (cases x)
  show ?thesis
  proof (cases "LoadBalancer_LoadBalancerId (APIServerLBSpec s)")
    case None
    with assms show ?thesis
      by (auto simp: GetLoadBalancers_def x go_simps dest!: search_pages_ret scanLbs_reported)
  next
    case (Some i)
    with assms show ?thesis
      by (auto simp: GetLoadBalancers_def x go_bind_apply get_scope_apply accept_owned_def go_ret_apply
          go_throw_apply split: res.splits prod.splits if_splits dest: api_get_reported)
  qed
qed

lemma CreateLB_address:
  assumes "CreateLB poll a n x = (Ret (i, p), y)"
  shows "\<exists>lb ip. lb_reported a lb \<and> i = Res_Id lb \<and> p = Some ip \<and> address_of (LB_IsPrivate lb) (LB_IpAddresses lb) ip"
proof -
  from assms obtain j lb u v where g: "api (go_wrap ''failed to get apiserver lb after creation''
      (api_GetLoadBalancer a j)) u = (Ret lb, v)"
    and ip: "getLoadbalancerIp lb v = (Ret p, y)" and i: "i = Res_Id lb"
    by (cases x) (auto simp: CreateLB_def go_bind_apply get_scope_apply go_ret_apply go_throw_apply
        split: if_splits res.splits prod.splits)
  from g have "lb_reported a lb"
    by (cases u) (auto simp: api_def split: prod.splits dest!: go_wrap_RetD intro: lb_reportedI)
  with chooseIp_ret [OF ip [unfolded getLoadbalancerIp_def]] i show ?thesis by blast
qed

definition lb_pending :: "SdkLB \<Rightarrow> goerr option" where
  "lb_pending lb = (if LB_LifecycleState lb \<noteq> LBActive
     then Some (ErrNew (''load balancer is in '' @ stateText (LB_LifecycleState lb) @
            '' state. Waiting for ACTIVE state.'')) else None)"

definition lb_align :: "'w lb_poller \<Rightarrow> 'w LbApi \<Rightarrow> ClusterScope \<Rightarrow> SdkLB \<Rightarrow> ('w, unit) scope_go" where
  "lb_align poll a s lb =
     go_bind (IsLBEqual lb (LBSpec s)) (\<lambda>eq. if eq then go_ret () else UpdateLB poll a (LBSpec s))"

lemma ReconcileApiServerLB_eq:
  "ReconcileApiServerLB poll a = lb_reconcile (GetLoadBalancers a) lb_pending getLoadbalancerIp
     (lb_align poll a) (\<lambda>s. CreateLB poll a (LBSpec s))"
proof -
  have "(if LB_LifecycleState lb \<noteq> LBActive
         then go_throw (ErrNew (''load balancer is in '' @ stateText (LB_LifecycleState lb) @
                '' state. Waiting for ACTIVE state.''))
         else
           go_bind (getLoadbalancerIp lb) (\<lambda>lbIP.
           go_bind (publish (Res_Id lb) lbIP) (\<lambda>_.
           go_bind (IsLBEqual lb (LBSpec s)) (\<lambda>eq.
           if eq then go_ret () else UpdateLB poll a (LBSpec s))))) =
      (case lb_pending lb of
           Some e \<Rightarrow> go_throw e
         | None \<Rightarrow>
             go_bind (getLoadbalancerIp lb) (\<lambda>lbIP.
             go_bind (publish (Res_Id lb) lbIP) (\<lambda>_.
             lb_align poll a s lb)))" for lb s
    by (simp add: lb_pending_def lb_align_def)
  then show ?thesis by (simp only: ReconcileApiServerLB_def lb_reconcile_def)
qed

interpretation lb: apiserver_lb "GetLoadBalancers a" lb_pending getLoadbalancerIp "lb_align poll a"
    "\<lambda>s. CreateLB poll a (LBSpec s)" "\<lambda>lb. address_of (LB_IsPrivate lb) (LB_IpAddresses lb)" "lb_reported a"
    "ReconcileApiServerLB poll a" for poll :: "'w lb_poller" and a :: "'w LbApi"
proof unfold_locales
  show "ReconcileApiServerLB poll a = lb_reconcile (GetLoadBalancers a) lb_pending getLoadbalancerIp
     (lb_align poll a) (\<lambda>s. CreateLB poll a (LBSpec s))" by (rule ReconcileApiServerLB_eq)
  show "keeps same_scope (lb_align poll a s lb)" for s lb
    unfolding lb_align_def IsLBEqual_def
    by (intro frame_intros UpdateLB_scope reflp_same_scope transp_same_scope)
  show "keeps same_state (getLoadbalancerIp lb)" for lb
    unfolding getLoadbalancerIp_def by (intro frame_intros) simp_all
  show "\<exists>ip. p = Some ip \<and> address_of (LB_IsPrivate lb) (LB_IpAddresses lb) ip"
    if "getLoadbalancerIp lb x = (Ret p, y)" for lb p and x y :: "'w st"
    using that unfolding getLoadbalancerIp_def by (rule chooseIp_ret)
qed (fact GetLoadBalancers_scope CreateLB_scope GetLoadBalancers_reported CreateLB_address)+

text \<open>C28. The control plane endpoint of a cluster with a load balancer. When \<open>ReconcileApiServerLB\<close> returns nil,
  the endpoint of the cluster is an address of a load balancer that the service has reported, with the port of
  the API server; the address is public unless the load balancer is private; the id of that load balancer is
  recorded, and nothing else of the scope has changed.\<close>

theorem ReconcileApiServerLB_publishes:
  assumes "ReconcileApiServerLB poll a (s, w) = (Ret (), t)"
  shows "\<exists>i u v lb addr ip. api_GetLoadBalancer a i u = (Ret lb, v) \<and>
    addr \<in> set (LB_IpAddresses lb) \<and> Ip_IpAddress addr = Some ip \<and>
    (ToBool (LB_IsPrivate lb) \<or> Ip_IsPublic addr = Some True) \<and>
    fst t = SetControlPlaneEndpoint \<lparr>APIEndpoint_Host = ip, APIEndpoint_Port = APIServerPort s\<rparr>
      (setLoadBalancerId (Res_Id lb) s)"
  using lb.reconcile_publishes [OF assms] unfolding lb_reported_def address_of_def by blast

text \<open>A service with one load balancer with a private and a public address.\<close>

definition sample_lb :: SdkLB where
  "sample_lb = \<lparr>Res_Id = Some slot_id, Res_DisplayName = Some ''prod-apiserver'',
     Res_FreeformTags = GetFreeFormTags sample_scope, LB_LifecycleState = LBActive, LB_IsPrivate = Some False,
     LB_IpAddresses = [\<lparr>Ip_IpAddress = Some ''10.0.0.5'', Ip_IsPublic = Some False\<rparr>,
       \<lparr>Ip_IpAddress = Some ''203.0.113.7'', Ip_IsPublic = Some True\<rparr>],
     LB_BackendSets = Map.empty\<rparr>"

definition sample_lb_api :: "unit LbApi" where
  "sample_lb_api = \<lparr>api_ListLoadBalancers = (\<lambda>c n p. go_ret ([sample_lb], None)),
     api_GetLoadBalancer = (\<lambda>i. go_ret sample_lb), api_CreateLoadBalancer = (\<lambda>d t. go_throw quota_err),
     api_UpdateLoadBalancer = (\<lambda>i d. go_ret None), api_DeleteLoadBalancer = (\<lambda>i. go_ret None),
     api_GetLBWorkRequest = (\<lambda>i. go_throw not_found_err),
     api_CreateLBBackend = (\<lambda>i n b t. go_ret None), api_DeleteLBBackend = (\<lambda>i n b. go_ret None)\<rparr>"

lemma sample_lb_run:
  "ReconcileApiServerLB (poll_n 1) sample_lb_api (sample_scope, ()) =
     (Ret (), (SetControlPlaneEndpoint \<lparr>APIEndpoint_Host = ''203.0.113.7'', APIEndpoint_Port = 6443\<rparr>
       (setLoadBalancerId (Some slot_id) sample_scope), ()))"
proof -
  have n: "LBSpec sample_scope = ''prod-apiserver''"
    by (simp add: LBSpec_def GetControlPlaneLoadBalancerName_def sample_network_def)
  have "page_step (\<lambda>page. go_wrap ''failed to list lb by name''
           (api_ListLoadBalancers sample_lb_api (GetCompartmentId sample_scope)
             (GetControlPlaneLoadBalancerName sample_scope) page)) (scanLbs sample_lb_api sample_scope) None
        (sample_scope, ()) = (Ret (Inr (Some sample_lb)), (sample_scope, ()))"
    by (simp add: page_step_def sample_lb_api_def go_simps sample_lb_def GetFreeFormTags_owned)
  then have "GetLoadBalancers sample_lb_api (sample_scope, ()) = (Ret (Some sample_lb), (sample_scope, ()))"
    by (simp add: GetLoadBalancers_def search_pages_def go_loop_unfold go_simps sample_network_def)
  then show ?thesis
    by (simp add: ReconcileApiServerLB_def go_bind_apply get_scope_apply n)
      (simp add: sample_lb_def getLoadbalancerIp_def chooseIp_def ToBool_def IsLBEqual_def go_simps)
qed

theorem ReconcileApiServerLB_publishes_witness:
  "\<exists>(lb :: SdkLB) addr. addr \<in> set (LB_IpAddresses lb) \<and> (ToBool (LB_IsPrivate lb) \<or> Ip_IsPublic addr = Some True) \<and>
    GetControlPlaneEndpoint (fst (snd (ReconcileApiServerLB (poll_n 1) sample_lb_api (sample_scope, ())))) =
      \<lparr>APIEndpoint_Host = the (Ip_IpAddress addr), APIEndpoint_Port = 6443\<rparr>"
proof -
  have ep: "GetControlPlaneEndpoint (SetControlPlaneEndpoint e s) = e" for e s
    by (simp add: SetControlPlaneEndpoint_def accessor_defs)
  let ?t = "SetControlPlaneEndpoint \<lparr>APIEndpoint_Host = ''203.0.113.7'', APIEndpoint_Port = 6443\<rparr>
       (setLoadBalancerId (Some slot_id) sample_scope)"
  from ReconcileApiServerLB_publishes [OF sample_lb_run] obtain lb :: SdkLB and addr :: SdkIpAddress and ip where
    a: "addr \<in> set (LB_IpAddresses lb)" "Ip_IpAddress addr = Some ip"
      "ToBool (LB_IsPrivate lb) \<or> Ip_IsPublic addr = Some True"
    and t: "?t = SetControlPlaneEndpoint \<lparr>APIEndpoint_Host = ip, APIEndpoint_Port = 6443\<rparr>
      (setLoadBalancerId (Res_Id lb) sample_scope)"
    unfolding fst_conv sample_simps by blast
  from arg_cong [OF t, of GetControlPlaneEndpoint] have "ip = ''203.0.113.7''" by (simp add: ep)
  with a show ?thesis unfolding sample_lb_run snd_conv fst_conv ep by force
qed

end
