(* ===== verification/Go_Base64.thy ===== *)
theory Go_Base64
  imports Go_Prelude
begin

text \<open>
  \<open>base64.StdEncoding\<close> of the Go standard library. \<open>DecodeString\<close> skips carriage returns and line feeds,
  wants groups of four characters of the standard alphabet with padding in the last group, and does not look
  at the unused bits of a padded group. \<open>EncodeToString\<close> is what the provider encodes user data with, and
  the reference for the round trip.
\<close>

definition b64_val :: "char \<Rightarrow> nat option" where
  "b64_val c = (let n = of_char c :: nat in
     if 65 \<le> n \<and> n \<le> 90 then Some (n - 65)
     else if 97 \<le> n \<and> n \<le> 122 then Some (n - 97 + 26)
     else if 48 \<le> n \<and> n \<le> 57 then Some (n - 48 + 52)
     else if n = 43 then Some 62
     else if n = 47 then Some 63
     else None)"

definition b64_char :: "nat \<Rightarrow> char" where
  "b64_char v = (char_of :: nat \<Rightarrow> char) (if v < 26 then v + 65
     else if v < 52 then v - 26 + 97
     else if v < 62 then v - 52 + 48
     else if v = 62 then 43 else 47)"

abbreviation pad :: char where "pad \<equiv> CHR ''=''"

text \<open>The bytes of a group of 24 bits.\<close>

definition byte_of :: "nat \<Rightarrow> char" where
  "byte_of n = char_of (n mod 256)"

fun b64_groups :: "string \<Rightarrow> string option" where
  "b64_groups [] = Some []"
| "b64_groups (a # b # c # d # rest) =
     (case (b64_val a, b64_val b) of
        (Some x, Some y) \<Rightarrow>
          if c = pad then
            (if d = pad \<and> rest = [] then Some [byte_of (x * 4 + y div 16)] else None)
          else (case b64_val c of
              None \<Rightarrow> None
            | Some z \<Rightarrow>
                if d = pad then
                  (if rest = [] then Some [byte_of (x * 4 + y div 16), byte_of (y mod 16 * 16 + z div 4)] else None)
                else (case (b64_val d, b64_groups rest) of
                    (Some u, Some bs) \<Rightarrow> Some (byte_of (x * 4 + y div 16) # byte_of (y mod 16 * 16 + z div 4) #
                        byte_of (z mod 4 * 64 + u) # bs)
                  | _ \<Rightarrow> None))
      | _ \<Rightarrow> None)"
| "b64_groups _ = None"

definition DecodeString :: "string \<Rightarrow> string option" where
  "DecodeString s = b64_groups (filter (\<lambda>c. c \<noteq> CHR 0x0A \<and> c \<noteq> CHR 0x0D) s)"

fun EncodeToString :: "string \<Rightarrow> string" where
  "EncodeToString [] = []"
| "EncodeToString [a] =
     (let x = of_char a in [b64_char (x div 4), b64_char (x mod 4 * 16), pad, pad])"
| "EncodeToString [a, b] =
     (let x = of_char a; y = of_char b in
      [b64_char (x div 4), b64_char (x mod 4 * 16 + y div 16), b64_char (y mod 16 * 4), pad])"
| "EncodeToString (a # b # c # rest) =
     (let x = of_char a; y = of_char b; z = of_char c in
      b64_char (x div 4) # b64_char (x mod 4 * 16 + y div 16) # b64_char (y mod 16 * 4 + z div 64) #
      b64_char (z mod 64) # EncodeToString rest)"

section \<open>Round trip\<close>

lemma b64_char_code:
  "v < 64 \<Longrightarrow> (of_char (b64_char v) :: nat) = (if v < 26 then v + 65
     else if v < 52 then v - 26 + 97 else if v < 62 then v - 52 + 48 else if v = 62 then 43 else 47)"
  unfolding b64_char_def by (subst of_char_of) (simp split: if_splits)

lemma b64_val_char [simp]: "v < 64 \<Longrightarrow> b64_val (b64_char v) = Some v"
  by (cases "v < 26"; cases "v < 52"; cases "v < 62"; cases "v = 62") (auto simp: b64_val_def Let_def b64_char_code)

text \<open>No character of the alphabet is the padding, a line break or white space.\<close>

lemma b64_char_range:
  assumes "v < 64"
  shows "(of_char (b64_char v) :: nat) \<in> {43, 47} \<union> {48..57} \<union> {65..90} \<union> {97..122}"
  using assms by (auto simp: b64_char_code)

lemma b64_char_plain:
  assumes "v < 64"
  shows "b64_char v \<noteq> pad" "b64_char v \<noteq> CHR 0x0A" "b64_char v \<noteq> CHR 0x0D" "\<not> is_space (b64_char v)"
proof -
  note r = b64_char_range [OF assms]
  show "b64_char v \<noteq> pad" using r by auto
  show "b64_char v \<noteq> CHR 0x0A" using r by auto
  show "b64_char v \<noteq> CHR 0x0D" using r by auto
  show "\<not> is_space (b64_char v)" using r by (auto simp: is_space_def)
qed

lemma byte_of_code [simp]: "n = of_char c \<Longrightarrow> byte_of n = c"
  by (simp add: byte_of_def)

lemma of_char_lt: "(of_char (c :: char) :: nat) < 256"
  by (rule nat_of_char_less_256)

lemma sextets:
  fixes x y z :: nat assumes "x < 256" "y < 256" "z < 256"
  shows "x div 4 < 64" "x mod 4 * 16 < 64" "x mod 4 * 16 + y div 16 < 64" "y mod 16 * 4 < 64"
    "y mod 16 * 4 + z div 64 < 64" "z mod 64 < 64"
    "x div 4 * 4 + x mod 4 * 16 div 16 = x" "x div 4 * 4 + (x mod 4 * 16 + y div 16) div 16 = x"
    "(x mod 4 * 16 + y div 16) mod 16 * 16 + y mod 16 * 4 div 4 = y"
    "(x mod 4 * 16 + y div 16) mod 16 * 16 + (y mod 16 * 4 + z div 64) div 4 = y"
    "(y mod 16 * 4 + z div 64) mod 4 * 64 + z mod 64 = z"
proof -
  have b: "y div 16 < 16" "z div 64 < 4" "x mod 4 < 4" "y mod 16 < 16" using assms by simp_all
  show "x div 4 < 64" "z mod 64 < 64" using assms by simp_all
  show "x mod 4 * 16 < 64" "x mod 4 * 16 + y div 16 < 64" "y mod 16 * 4 < 64" "y mod 16 * 4 + z div 64 < 64"
    using b by linarith+
  have d: "(x mod 4 * 16 + y div 16) div 16 = x mod 4" "(x mod 4 * 16 + y div 16) mod 16 = y div 16"
    "(y mod 16 * 4 + z div 64) div 4 = y mod 16" "(y mod 16 * 4 + z div 64) mod 4 = z div 64"
    using b by simp_all
  show "x div 4 * 4 + x mod 4 * 16 div 16 = x" by simp
  show "x div 4 * 4 + (x mod 4 * 16 + y div 16) div 16 = x" unfolding d by simp
  show "(x mod 4 * 16 + y div 16) mod 16 * 16 + y mod 16 * 4 div 4 = y" unfolding d by simp
  show "(x mod 4 * 16 + y div 16) mod 16 * 16 + (y mod 16 * 4 + z div 64) div 4 = y" unfolding d by simp
  show "(y mod 16 * 4 + z div 64) mod 4 * 64 + z mod 64 = z" unfolding d by simp
qed

text \<open>The facts for the codes of three bytes.\<close>

lemmas char_sextets = sextets [where x = "of_char a" and y = "of_char b" and z = "of_char c" for a b c :: char,
  OF of_char_lt of_char_lt of_char_lt]

lemma set_EncodeToString: "c \<in> set (EncodeToString bs) \<Longrightarrow> c = pad \<or> (\<exists>v < 64. c = b64_char v)"
  by (induction bs rule: EncodeToString.induct)
    (auto simp: Let_def intro: char_sextets(1-6) simp del: mult_less_cancel2)

lemma b64_groups_encode: "b64_groups (EncodeToString bs) = Some bs"
  by (induction bs rule: EncodeToString.induct) (simp_all only: EncodeToString.simps Let_def b64_groups.simps
      char_sextets b64_val_char b64_char_plain byte_of_code option.case prod.case if_True if_False simp_thms)

lemma EncodeToString_plain:
  "c \<in> set (EncodeToString bs) \<Longrightarrow> c \<noteq> CHR 0x0A \<and> c \<noteq> CHR 0x0D \<and> \<not> is_space c"
  using b64_char_plain by (auto dest!: set_EncodeToString) (simp add: is_space_def)

lemma DecodeString_encode: "DecodeString (EncodeToString bs) = Some bs"
proof -
  have "filter (\<lambda>c. c \<noteq> CHR 0x0A \<and> c \<noteq> CHR 0x0D) (EncodeToString bs) = EncodeToString bs"
    by (rule filter_True) (auto dest: EncodeToString_plain)
  then show ?thesis by (simp add: DecodeString_def b64_groups_encode)
qed

lemma TrimSpace_encode: "TrimSpace (EncodeToString bs) = EncodeToString bs"
proof -
  have "dropWhile is_space xs = xs" if "\<forall>c \<in> set xs. \<not> is_space c" for xs
    using that by (cases xs) auto
  from this [of "EncodeToString bs"] this [of "rev (EncodeToString bs)"]
  have "dropWhile is_space (EncodeToString bs) = EncodeToString bs"
    "dropWhile is_space (rev (EncodeToString bs)) = rev (EncodeToString bs)"
    using EncodeToString_plain by auto
  then show ?thesis by (simp add: TrimSpace_def)
qed


lemma TrimSpace_padded:
  assumes "\<forall>c \<in> set ws. is_space c" and us: "\<forall>c \<in> set us. is_space c"
  shows "TrimSpace (ws @ x @ us) = TrimSpace x"
proof (cases "\<forall>c \<in> set x. is_space c")
  case True
  with assms have "dropWhile is_space (ws @ x @ us) = []" "dropWhile is_space x = []"
    by (auto simp: dropWhile_eq_Nil_conv)
  then show ?thesis by (simp only: TrimSpace_def)
next
  case False
  then obtain c where "c \<in> set x" "\<not> is_space c" by blast
  then have "dropWhile is_space (x @ us) = dropWhile is_space x @ us" by (rule dropWhile_append1)
  moreover have "dropWhile is_space (ws @ x @ us) = dropWhile is_space (x @ us)"
    by (rule dropWhile_append2) (use assms(1) in auto)
  moreover have "dropWhile is_space (rev us @ y) = dropWhile is_space y" for y
    by (rule dropWhile_append2) (use us in auto)
  ultimately show ?thesis by (simp add: TrimSpace_def)
qed

end
