(* ===== verification/Network_Load_Balancer.thy ===== *)
theory Network_Load_Balancer
  imports Load_Balancer Go_Base64
begin

text \<open>
  The API server network load balancer (src/cloud/scope/network_load_balancer_reconciler.go), the default kind,
  with the health checker that is built from the spec and compared with the one the service reports. The SDK's
  \<open>GetMappingHealthCheckProtocolsEnum\<close> is a parameter.
\<close>

section \<open>Health checkers\<close>

type_synonym protocol_mapping = "string \<Rightarrow> HealthCheckProtocols option"

abbreviation HealthCheckerDefaultURLPath :: string where "HealthCheckerDefaultURLPath \<equiv> ''/healthz''"

text \<open>The offset in the text of \<open>base64.CorruptInputError\<close> is left out.\<close>

definition corrupt_base64 :: goerr where "corrupt_base64 = ErrNew ''illegal base64 data at input byte''"

definition decodeHealthCheckerPayload :: "string \<Rightarrow> string option \<Rightarrow> goerr + string option" where
  "decodeHealthCheckerPayload fieldName value = (case value of
      None \<Rightarrow> Inr None
    | Some v \<Rightarrow> (case DecodeString (TrimSpace v) of
        None \<Rightarrow> Inl (ErrWrap (''failed to decode health checker '' @ fieldName) corrupt_base64)
      | Some data \<Rightarrow> Inr (Some data)))"

text \<open>\<open>p != nil && strings.TrimSpace(*p) != ""\<close>, with the trimmed text.\<close>

definition trimmed :: "string option \<Rightarrow> string option" where
  "trimmed p = (case p of None \<Rightarrow> None | Some v \<Rightarrow> if TrimSpace v = [] then None else Some (TrimSpace v))"

definition or_default :: "'a option \<Rightarrow> 'a \<Rightarrow> 'a" where
  "or_default p d = (case p of None \<Rightarrow> d | Some v \<Rightarrow> v)"

definition healthCheckProtocol :: "protocol_mapping \<Rightarrow> string option \<Rightarrow> goerr + HealthCheckProtocols" where
  "healthCheckProtocol mapping p = (case trimmed p of
      None \<Rightarrow> Inr HCHttps
    | Some t \<Rightarrow> (case mapping (ToUpper t) of
        Some enum \<Rightarrow> Inr enum
      | None \<Rightarrow> Inl (ErrNew (''unsupported health checker protocol '' @ [CHR 0x22] @ ToUpper t @ [CHR 0x22]))))"

definition buildNLBHealthChecker :: "protocol_mapping \<Rightarrow> ClusterScope \<Rightarrow> HealthChecker \<Rightarrow> goerr + NLBHealthChecker" where
  "buildNLBHealthChecker mapping s spec =
     (case healthCheckProtocol mapping (HealthChecker_Protocol spec) of
        Inl e \<Rightarrow> Inl e
      | Inr protocol \<Rightarrow>
          let port = or_default (HealthChecker_Port spec) (APIServerPort s) in
          if port < 1 \<or> port > 65535
          then Inl (ErrNew (''health checker port '' @ Itoa port @ '' is out of range 1-65535''))
          else
            let healthChecker =
              \<lparr>NHC_Protocol = protocol, NHC_Port = Some port,
               NHC_IntervalInMillis = Some (or_default (HealthChecker_IntervalInMillis spec) 10000),
               NHC_TimeoutInMillis = Some (or_default (HealthChecker_TimeoutInMillis spec) 3000),
               NHC_Retries = Some (or_default (HealthChecker_Retries spec) 3),
               NHC_UrlPath = None, NHC_ReturnCode = None, NHC_ResponseBodyRegex = None,
               NHC_RequestData = None, NHC_ResponseData = None\<rparr> in
            if protocol = HCHttp \<or> protocol = HCHttps then
              if HealthChecker_RequestData spec \<noteq> None \<or> HealthChecker_ResponseData spec \<noteq> None
              then Inl (ErrNew ''requestData and responseData are not supported for HTTP/HTTPS health checks'')
              else Inr (healthChecker
                \<lparr>NHC_UrlPath := Some (or_default (trimmed (HealthChecker_UrlPath spec)) HealthCheckerDefaultURLPath),
                 NHC_ReturnCode := Some (or_default (HealthChecker_ReturnCode spec) 200),
                 NHC_ResponseBodyRegex := trimmed (HealthChecker_ResponseBodyRegex spec)\<rparr>)
            else if protocol = HCTcp \<or> protocol = HCUdp then
              if HealthChecker_UrlPath spec \<noteq> None \<or> HealthChecker_ReturnCode spec \<noteq> None \<or>
                 HealthChecker_ResponseBodyRegex spec \<noteq> None
              then Inl (ErrNew ''urlPath, returnCode, and responseBodyRegex are only supported for HTTP/HTTPS health checks'')
              else (case decodeHealthCheckerPayload ''requestData'' (HealthChecker_RequestData spec) of
                  Inl e \<Rightarrow> Inl e
                | Inr request \<Rightarrow> (case decodeHealthCheckerPayload ''responseData'' (HealthChecker_ResponseData spec) of
                    Inl e \<Rightarrow> Inl e
                  | Inr response \<Rightarrow> Inr (healthChecker\<lparr>NHC_RequestData := request, NHC_ResponseData := response\<rparr>)))
            else Inr healthChecker)"

text \<open>\<open>bytes.Equal\<close> does not tell nil from empty.\<close>

definition bytes_Equal :: "string option \<Rightarrow> string option \<Rightarrow> bool" where
  "bytes_Equal a b \<longleftrightarrow> or_default a [] = or_default b []"

definition isHealthCheckerEqual :: "NLBHealthChecker option \<Rightarrow> NLBHealthChecker option \<Rightarrow> bool" where
  "isHealthCheckerEqual actual desired = (case (actual, desired) of
      (Some a, Some d) \<Rightarrow>
        NHC_Protocol a = NHC_Protocol d \<and> IntEqual (NHC_Port a) (NHC_Port d) \<and>
        IntEqual (NHC_IntervalInMillis a) (NHC_IntervalInMillis d) \<and>
        IntEqual (NHC_TimeoutInMillis a) (NHC_TimeoutInMillis d) \<and>
        IntEqual (NHC_Retries a) (NHC_Retries d) \<and> StringEqual (NHC_UrlPath a) (NHC_UrlPath d) \<and>
        IntEqual (NHC_ReturnCode a) (NHC_ReturnCode d) \<and>
        StringEqual (NHC_ResponseBodyRegex a) (NHC_ResponseBodyRegex d) \<and>
        bytes_Equal (NHC_RequestData a) (NHC_RequestData d) \<and>
        bytes_Equal (NHC_ResponseData a) (NHC_ResponseData d)
    | _ \<Rightarrow> actual = None \<and> desired = None)"

section \<open>The load balancer\<close>

definition scope_NLBSpec :: "ClusterScope \<Rightarrow> LoadBalancer" where
  "scope_NLBSpec s = \<lparr>LoadBalancer_Name = GetControlPlaneLoadBalancerName s, LoadBalancer_LoadBalancerId = None,
     LoadBalancer_LoadBalancerType = [], LoadBalancer_NLBSpec = LoadBalancer_NLBSpec (APIServerLBSpec s),
     LoadBalancer_NetworkVisibility = []\<rparr>"

abbreviation specHealthChecker :: "LoadBalancer \<Rightarrow> HealthChecker" where
  "specHealthChecker lb \<equiv> BackendSetDetails_HealthChecker (NLBSpec_BackendSetDetails (LoadBalancer_NLBSpec lb))"

definition getNetworkLoadbalancerIp :: "SdkNLB \<Rightarrow> ('s, string option) go" where
  "getNetworkLoadbalancerIp nlb =
     chooseIp ''nlb does not have valid ip addresses'' ''nlb does not have valid public ip address''
       (NLB_IsPrivate nlb) (NLB_IpAddresses nlb)"

text \<open>When the desired health checker cannot be built the two count as equal, so that no update is tried.\<close>

definition IsNLBEqual :: "protocol_mapping \<Rightarrow> ClusterScope \<Rightarrow> SdkNLB \<Rightarrow> LoadBalancer \<Rightarrow> ('s, bool) go" where
  "IsNLBEqual mapping s actual desired =
     go_bind (go_deref (Res_DisplayName actual)) (\<lambda>n.
     if LoadBalancer_Name desired \<noteq> n then go_ret False
     else (case buildNLBHealthChecker mapping s (specHealthChecker desired) of
         Inl _ \<Rightarrow> go_ret True
       | Inr desiredHC \<Rightarrow> (case NLB_BackendSets actual APIServerLBBackendSetName of
           None \<Rightarrow> go_ret False
         | Some bs \<Rightarrow> go_ret (isHealthCheckerEqual (NLBBackendSet_HealthChecker bs) (Some desiredHC)))))"

definition GetNetworkLoadBalancers :: "'w NlbApi \<Rightarrow> ('w, SdkNLB option) scope_go" where
  "GetNetworkLoadBalancers a =
     go_bind get_scope (\<lambda>s. case LoadBalancer_LoadBalancerId (APIServerLBSpec s) of
       Some i \<Rightarrow> go_bind (api (api_GetNetworkLoadBalancer a (Some i))) (accept_owned s)
     | None \<Rightarrow>
         go_bind (api (go_wrap ''failed to list nlb by name''
           (api_ListNetworkLoadBalancers a (GetCompartmentId s) (GetControlPlaneLoadBalancerName s)))) (\<lambda>items.
         case find_owned s items of
           None \<Rightarrow> go_ret None
         | Some nlb \<Rightarrow> go_bind (api (api_GetNetworkLoadBalancer a (Res_Id nlb))) (\<lambda>r. go_ret (Some r))))"

definition createNLBDetails :: "ClusterScope \<Rightarrow> LoadBalancer \<Rightarrow> NLBHealthChecker \<Rightarrow> string \<Rightarrow> CreateNLBDetails" where
  "createNLBDetails s lb healthChecker subnetId =
     (let bsd = NLBSpec_BackendSetDetails (LoadBalancer_NLBSpec lb) in
     \<lparr>CD_CompartmentId = GetCompartmentId s, CD_DisplayName = LoadBalancer_Name lb,
      CD_FreeformTags = GetFreeFormTags s, CD_DefinedTags = GetDefinedTags s,
      CNLB_SubnetId = subnetId, CNLB_IsPrivate = isAPIServerLBPrivate s,
      CNLB_Listeners = [APIServerLBListener \<mapsto>
        \<lparr>Listener_Protocol = ''TCP'', Listener_Port = APIServerPort s,
         Listener_DefaultBackendSetName = APIServerLBBackendSetName\<rparr>],
      CNLB_BackendSets = [APIServerLBBackendSetName \<mapsto>
        \<lparr>NBSD_Policy = ''FIVE_TUPLE'', NBSD_IsPreserveSource = or_default (BackendSetDetails_IsPreserveSource bsd) False,
         NBSD_IsFailOpen = BackendSetDetails_IsFailOpen bsd,
         NBSD_IsInstantFailoverEnabled = BackendSetDetails_IsInstantFailoverEnabled bsd,
         NBSD_HealthChecker = healthChecker, NBSD_Backends = []\<rparr>],
      CNLB_ReservedIps = take 1 (NLBSpec_ReservedIpIds (LoadBalancer_NLBSpec lb)),
      CNLB_NetworkSecurityGroupIds = endpointNsgIds s\<rparr>)"

type_synonym 'w nlb_poller = "('w \<times> NLBWorkRequest option) poller"

definition CreateNLB :: "protocol_mapping \<Rightarrow> 'w nlb_poller \<Rightarrow> 'w NlbApi \<Rightarrow> LoadBalancer \<Rightarrow>
    ('w, string option \<times> string option) scope_go" where
  "CreateNLB mapping poll a lb =
     go_bind get_scope (\<lambda>s.
     case buildNLBHealthChecker mapping s (specHealthChecker lb) of
       Inl err \<Rightarrow> go_throw (ErrWrap ''failed to build health checker for nlb creation'' err)
     | Inr healthChecker \<Rightarrow> (case endpointSubnetIds s of
         [] \<Rightarrow> go_throw (ErrNew ''control plane endpoint subnet not provided'')
       | [subnetId] \<Rightarrow>
           go_bind (api (go_wrap ''failed to create apiserver nlb, failed to create work request''
             (api_CreateNetworkLoadBalancer a (createNLBDetails s lb healthChecker subnetId)
               (GetOPCRetryToken ''%s-%s'' [''create-nlb'', GetOCIResourceIdentifier s])))) (\<lambda>(nlbId, wrId).
           go_bind (api (go_wrap ''awaiting network load balancer'' (AwaitNLBWorkRequest poll a wrId))) (\<lambda>_.
           go_bind (api (go_wrap ''failed to get apiserver lb after creation''
             (api_GetNetworkLoadBalancer a nlbId))) (\<lambda>nlb.
           go_bind (getNetworkLoadbalancerIp nlb) (\<lambda>nlbIp.
           go_ret (Res_Id nlb, nlbIp)))))
       | _ \<Rightarrow> go_throw (ErrNew ''cannot have more than 1 control plane endpoint subnet'')))"

definition UpdateNLB :: "protocol_mapping \<Rightarrow> 'w nlb_poller \<Rightarrow> 'w NlbApi \<Rightarrow> LoadBalancer \<Rightarrow> ('w, unit) scope_go" where
  "UpdateNLB mapping poll a nlb =
     go_bind get_scope (\<lambda>s.
     let nlbId = LoadBalancer_LoadBalancerId (APIServerLBSpec s) in
     go_bind (api (go_wrap ''failed to reconcile the apiserver NLB, failed to generate update nlb workrequest''
       (api_UpdateNetworkLoadBalancer a nlbId (LoadBalancer_Name nlb)))) (\<lambda>wrId.
     go_bind (api (go_wrap ''failed to reconcile the apiserver NLB, failed to update nlb''
       (AwaitNLBWorkRequest poll a wrId))) (\<lambda>_.
     case buildNLBHealthChecker mapping s (specHealthChecker nlb) of
       Inl err \<Rightarrow> go_throw (ErrWrap ''failed to build health checker for nlb update'' err)
     | Inr healthChecker \<Rightarrow>
         go_bind (api (go_wrap ''failed to reconcile the apiserver NLB, failed to generate update health checker workrequest''
           (api_UpdateHealthChecker a nlbId APIServerLBBackendSetName healthChecker))) (\<lambda>hcId.
         go_bind (api (go_wrap ''failed to reconcile the apiserver NLB, failed to update health checker''
           (AwaitNLBWorkRequest poll a hcId))) (\<lambda>_.
         go_ret ())))))"

definition ReconcileApiServerNLB :: "protocol_mapping \<Rightarrow> 'w nlb_poller \<Rightarrow> 'w NlbApi \<Rightarrow> ('w, unit) scope_go" where
  "ReconcileApiServerNLB mapping poll a =
     go_bind get_scope (\<lambda>s.
     go_bind (GetNetworkLoadBalancers a) (\<lambda>p. case p of
       Some nlb \<Rightarrow>
         if NLB_LifecycleState nlb \<noteq> LBActive
         then go_throw (ErrNew (''network load balancer is in '' @ stateText (NLB_LifecycleState nlb) @
                '' state. Waiting for ACTIVE state.''))
         else
           go_bind (getNetworkLoadbalancerIp nlb) (\<lambda>lbIP.
           go_bind (publish (Res_Id nlb) lbIP) (\<lambda>_.
           go_bind (IsNLBEqual mapping s nlb (scope_NLBSpec s)) (\<lambda>eq.
           if eq then go_ret () else UpdateNLB mapping poll a (scope_NLBSpec s))))
     | None \<Rightarrow>
         go_bind (CreateNLB mapping poll a (scope_NLBSpec s)) (\<lambda>(nlbID, nlbIP). publish nlbID nlbIP)))"

definition DeleteApiServerNLB :: "'w nlb_poller \<Rightarrow> 'w NlbApi \<Rightarrow> ('w, unit) scope_go" where
  "DeleteApiServerNLB poll a =
     delete_found (GetNetworkLoadBalancers a) (\<lambda>nlb.
       go_bind (go_wrap ''failed to delete apiserver nlb'' (api_DeleteNetworkLoadBalancer a (Res_Id nlb))) (\<lambda>wrId.
       go_bind (go_wrap ''work request to delete nlb failed'' (AwaitNLBWorkRequest poll a wrId)) (\<lambda>_.
       go_ret ())))"


section \<open>The endpoint\<close>

lemma GetNetworkLoadBalancers_scope: "keeps same_scope (GetNetworkLoadBalancers a)"
  unfolding GetNetworkLoadBalancers_def
  by (intro frame_intros reflp_same_scope transp_same_scope keeps_api_same_scope) simp_all

lemma keeps_case_sum_scope:
  "(\<And>e. keeps same_scope (f e)) \<Longrightarrow> (\<And>v. keeps same_scope (g v)) \<Longrightarrow>
   keeps same_scope (case x of Inl e \<Rightarrow> f e | Inr v \<Rightarrow> g v)"
  by (cases x) simp_all

lemma UpdateNLB_scope: "keeps same_scope (UpdateNLB mapping poll a n)"
  unfolding UpdateNLB_def Let_def
  by (intro frame_intros reflp_same_scope transp_same_scope keeps_api_same_scope) simp_all

lemma CreateNLB_scope: "keeps same_scope (CreateNLB mapping poll a n)"
  unfolding CreateNLB_def getNetworkLoadbalancerIp_def
  by (intro frame_intros reflp_same_scope transp_same_scope keeps_api_same_scope keeps_case_sum_scope)
    (auto intro!: frame_intros split: list.split prod.split)

lemma IsNLBEqual_state: "reflp R \<Longrightarrow> transp R \<Longrightarrow> keeps R (IsNLBEqual mapping s lb d)"
  unfolding IsNLBEqual_def by (intro frame_intros)

definition nlb_reported :: "'w NlbApi \<Rightarrow> SdkNLB \<Rightarrow> bool" where
  "nlb_reported a nlb \<longleftrightarrow> (\<exists>i w w'. api_GetNetworkLoadBalancer a i w = (Ret nlb, w'))"

lemma nlb_reportedI: "api_GetNetworkLoadBalancer a i w = (Ret nlb, w') \<Longrightarrow> nlb_reported a nlb"
  by (auto simp: nlb_reported_def)

lemma api_get_nlb_reported: "api (api_GetNetworkLoadBalancer a i) x = (Ret nlb, y) \<Longrightarrow> nlb_reported a nlb"
  by (cases x) (auto simp: api_def split: prod.splits intro: nlb_reportedI)

lemma GetNetworkLoadBalancers_reported:
  assumes "GetNetworkLoadBalancers a x = (Ret (Some nlb), y)"
  shows "nlb_reported a nlb"
  using assms
  by (cases x) (auto simp: GetNetworkLoadBalancers_def go_bind_apply get_scope_apply accept_owned_def go_ret_apply
      go_throw_apply split: res.splits prod.splits if_splits option.splits dest: api_get_nlb_reported)

lemma CreateNLB_address:
  assumes "CreateNLB mapping poll a n x = (Ret (i, p), y)"
  shows "\<exists>nlb ip. nlb_reported a nlb \<and> i = Res_Id nlb \<and> p = Some ip \<and>
    address_of (NLB_IsPrivate nlb) (NLB_IpAddresses nlb) ip"
proof -
  from assms obtain j nlb u v where g: "api (go_wrap ''failed to get apiserver lb after creation''
      (api_GetNetworkLoadBalancer a j)) u = (Ret nlb, v)"
    and ip: "getNetworkLoadbalancerIp nlb v = (Ret p, y)" and i: "i = Res_Id nlb"
    by (cases x) (auto simp: CreateNLB_def go_bind_apply get_scope_apply go_ret_apply go_throw_apply
        split: if_splits res.splits prod.splits sum.splits list.splits)
  from g have "nlb_reported a nlb"
    by (cases u) (auto simp: api_def split: prod.splits dest!: go_wrap_RetD intro: nlb_reportedI)
  with chooseIp_ret [OF ip [unfolded getNetworkLoadbalancerIp_def]] i show ?thesis by blast
qed

definition nlb_pending :: "SdkNLB \<Rightarrow> goerr option" where
  "nlb_pending nlb = (if NLB_LifecycleState nlb \<noteq> LBActive
     then Some (ErrNew (''network load balancer is in '' @ stateText (NLB_LifecycleState nlb) @
            '' state. Waiting for ACTIVE state.'')) else None)"

definition nlb_align :: "protocol_mapping \<Rightarrow> 'w nlb_poller \<Rightarrow> 'w NlbApi \<Rightarrow> ClusterScope \<Rightarrow> SdkNLB \<Rightarrow>
    ('w, unit) scope_go" where
  "nlb_align mapping poll a s nlb =
     go_bind (IsNLBEqual mapping s nlb (scope_NLBSpec s)) (\<lambda>eq.
     if eq then go_ret () else UpdateNLB mapping poll a (scope_NLBSpec s))"

lemma ReconcileApiServerNLB_eq:
  "ReconcileApiServerNLB mapping poll a = lb_reconcile (GetNetworkLoadBalancers a) nlb_pending
     getNetworkLoadbalancerIp (nlb_align mapping poll a) (\<lambda>s. CreateNLB mapping poll a (scope_NLBSpec s))"
proof -
  have "(if NLB_LifecycleState nlb \<noteq> LBActive
         then go_throw (ErrNew (''network load balancer is in '' @ stateText (NLB_LifecycleState nlb) @
                '' state. Waiting for ACTIVE state.''))
         else
           go_bind (getNetworkLoadbalancerIp nlb) (\<lambda>lbIP.
           go_bind (publish (Res_Id nlb) lbIP) (\<lambda>_.
           go_bind (IsNLBEqual mapping s nlb (scope_NLBSpec s)) (\<lambda>eq.
           if eq then go_ret () else UpdateNLB mapping poll a (scope_NLBSpec s))))) =
      (case nlb_pending nlb of
           Some e \<Rightarrow> go_throw e
         | None \<Rightarrow>
             go_bind (getNetworkLoadbalancerIp nlb) (\<lambda>lbIP.
             go_bind (publish (Res_Id nlb) lbIP) (\<lambda>_.
             nlb_align mapping poll a s nlb)))" for nlb s
    by (simp add: nlb_pending_def nlb_align_def)
  then show ?thesis by (simp only: ReconcileApiServerNLB_def lb_reconcile_def)
qed

interpretation nlb: apiserver_lb "GetNetworkLoadBalancers a" nlb_pending getNetworkLoadbalancerIp
    "nlb_align mapping poll a" "\<lambda>s. CreateNLB mapping poll a (scope_NLBSpec s)"
    "\<lambda>nlb. address_of (NLB_IsPrivate nlb) (NLB_IpAddresses nlb)" "nlb_reported a"
    "ReconcileApiServerNLB mapping poll a" for mapping and poll :: "'w nlb_poller" and a :: "'w NlbApi"
proof unfold_locales
  show "ReconcileApiServerNLB mapping poll a = lb_reconcile (GetNetworkLoadBalancers a) nlb_pending
     getNetworkLoadbalancerIp (nlb_align mapping poll a) (\<lambda>s. CreateNLB mapping poll a (scope_NLBSpec s))"
    by (rule ReconcileApiServerNLB_eq)
  show "keeps same_scope (nlb_align mapping poll a s nlb)" for s nlb
    unfolding nlb_align_def
    by (intro frame_intros UpdateNLB_scope IsNLBEqual_state reflp_same_scope transp_same_scope)
  show "keeps same_state (getNetworkLoadbalancerIp nlb)" for nlb
    unfolding getNetworkLoadbalancerIp_def by (intro frame_intros) simp_all
  show "\<exists>ip. p = Some ip \<and> address_of (NLB_IsPrivate nlb) (NLB_IpAddresses nlb) ip"
    if "getNetworkLoadbalancerIp nlb x = (Ret p, y)" for nlb p and x y :: "'w st"
    using that unfolding getNetworkLoadbalancerIp_def by (rule chooseIp_ret)
qed (fact GetNetworkLoadBalancers_scope CreateNLB_scope GetNetworkLoadBalancers_reported CreateNLB_address)+


text \<open>The control plane endpoint of a cluster with a network load balancer. When \<open>ReconcileApiServerNLB\<close> returns
  nil, the endpoint is an address of a network load balancer that the service has reported, with the port of the API
  server; the address is public unless the load balancer is private; its id is recorded and nothing else of the
  scope has changed.\<close>

theorem ReconcileApiServerNLB_publishes:
  assumes "ReconcileApiServerNLB mapping poll a (s, w) = (Ret (), t)"
  shows "\<exists>i u v nlb addr ip. api_GetNetworkLoadBalancer a i u = (Ret nlb, v) \<and>
      addr \<in> set (NLB_IpAddresses nlb) \<and> Ip_IpAddress addr = Some ip \<and>
      (ToBool (NLB_IsPrivate nlb) \<or> Ip_IsPublic addr = Some True) \<and>
      fst t = SetControlPlaneEndpoint \<lparr>APIEndpoint_Host = ip, APIEndpoint_Port = APIServerPort s\<rparr>
        (setLoadBalancerId (Res_Id nlb) s)"
  using nlb.reconcile_publishes [OF assms] unfolding nlb_reported_def address_of_def by blast

text \<open>While the load balancer that was found is not active, the result is an error and the scope stays as it is.\<close>

lemma ReconcileApiServerNLB_pending:
  assumes "GetNetworkLoadBalancers a (s, w) = (Ret (Some nlb), t)" "NLB_LifecycleState nlb \<noteq> LBActive"
  shows "\<exists>e. ReconcileApiServerNLB mapping poll a (s, w) = (Err e, t) \<and> fst t = s"
  using nlb.reconcile_pending [OF assms(1)] assms(2)
    keeps_same_scopeD [OF GetNetworkLoadBalancers_scope assms(1)] by (simp add: nlb_pending_def)

text \<open>A service with one network load balancer, whose configuration is the state.\<close>

definition sample_mapping :: protocol_mapping where
  "sample_mapping p = (if p = ''HTTP'' then Some HCHttp else if p = ''HTTPS'' then Some HCHttps
     else if p = ''TCP'' then Some HCTcp else if p = ''UDP'' then Some HCUdp else None)"

definition sample_nlb :: SdkNLB where
  "sample_nlb = \<lparr>Res_Id = Some slot_id, Res_DisplayName = Some ''old-name'',
     Res_FreeformTags = GetFreeFormTags sample_scope, NLB_LifecycleState = LBActive, NLB_IsPrivate = Some False,
     NLB_IpAddresses = [\<lparr>Ip_IpAddress = Some ''203.0.113.7'', Ip_IsPublic = Some True\<rparr>],
     NLB_BackendSets = [APIServerLBBackendSetName \<mapsto>
       \<lparr>NLBBackendSet_Name = Some APIServerLBBackendSetName, NLBBackendSet_HealthChecker = None,
        NLBBackendSet_Backends = []\<rparr>]\<rparr>"

definition set_hc :: "string \<Rightarrow> NLBHealthChecker \<Rightarrow> NLBBackendSet \<Rightarrow> SdkNLB \<Rightarrow> SdkNLB" where
  "set_hc bsn hc bs b = b\<lparr>NLB_BackendSets := (NLB_BackendSets b)(bsn \<mapsto> bs\<lparr>NLBBackendSet_HealthChecker := Some hc\<rparr>)\<rparr>"

definition sample_nlb_api :: "SdkNLB NlbApi" where
  "sample_nlb_api = \<lparr>api_ListNetworkLoadBalancers = (\<lambda>c n w. (Ret [w], w)),
     api_GetNetworkLoadBalancer = (\<lambda>i w. (if i = Some slot_id then Ret w else Err not_found_err, w)),
     api_CreateNetworkLoadBalancer = (\<lambda>d t. go_throw quota_err),
     api_UpdateNetworkLoadBalancer = (\<lambda>i n w. if i = Some slot_id then (Ret (Some ''wr''), w\<lparr>Res_DisplayName := Some n\<rparr>)
       else (Err not_found_err, w)),
     api_UpdateHealthChecker = (\<lambda>i bsn hc w. if i = Some slot_id then
         (case NLB_BackendSets w bsn of None \<Rightarrow> (Err not_found_err, w) | Some bs \<Rightarrow> (Ret (Some ''wr''), set_hc bsn hc bs w))
       else (Err not_found_err, w)),
     api_DeleteNetworkLoadBalancer = (\<lambda>i. go_ret None),
     api_GetNLBWorkRequest = (\<lambda>i. go_ret \<lparr>NLBWR_Status = WRSucceeded, NLBWR_CompartmentId = None\<rparr>),
     api_ListNLBWorkRequestErrors = (\<lambda>i c. go_ret []),
     api_CreateNLBBackend = (\<lambda>i n b t. go_ret None), api_DeleteNLBBackend = (\<lambda>i n b. go_ret None)\<rparr>"

section \<open>Convergence\<close>

text \<open>\<open>bytes.Equal\<close> aside, the comparison is equality.\<close>

lemma isHealthCheckerEqual_refl [simp]: "isHealthCheckerEqual x x"
  by (auto simp: isHealthCheckerEqual_def bytes_Equal_def split: option.split)

text \<open>What an update does to the configuration \<open>tbl\<close> the service holds; work requests only report.\<close>

definition lawful_nlb_updates :: "('w, SdkNLB) table \<Rightarrow> 'w NlbApi \<Rightarrow> bool" where
  "lawful_nlb_updates tbl a \<longleftrightarrow>
     (\<forall>i n w wr w'. api_UpdateNetworkLoadBalancer a i n w = (Ret wr, w') \<longrightarrow>
        (\<exists>k b. i = Some k \<and> tbl w k = Some b \<and> tbl w' = (tbl w)(k \<mapsto> b\<lparr>Res_DisplayName := Some n\<rparr>))) \<and>
     (\<forall>i bsn hc w wr w'. api_UpdateHealthChecker a i bsn hc w = (Ret wr, w') \<longrightarrow>
        (\<exists>k b bs. i = Some k \<and> tbl w k = Some b \<and> NLB_BackendSets b bsn = Some bs \<and>
           tbl w' = (tbl w)(k \<mapsto> set_hc bsn hc bs b))) \<and>
     (\<forall>i w. tbl (snd (api_GetNLBWorkRequest a i w)) = tbl w)"

lemma nlb_wait_keeps:
  assumes law: "lawful_nlb_updates tbl a" and poll: "lawful_poller poll"
    and run: "AwaitNLBWorkRequest poll a i w = (Ret wr, w')"
  shows "tbl w' = tbl w"
proof -
  have step: "tbl (fst y) = tbl (fst x)" if "nlbWorkRequestCond a i x = (Ret b, y)" for x y b
  proof -
    have get: "tbl (snd (api_GetNLBWorkRequest a i u)) = tbl u" for u using law by (simp add: lawful_nlb_updates_def)
    obtain r v where "api_GetNLBWorkRequest a i (fst x) = (r, v)" by (cases "api_GetNLBWorkRequest a i (fst x)")
    with get [of "fst x"] that show ?thesis
      by (cases x) (auto simp: nlbWorkRequestCond_def go_simps Let_def
          split: res.splits WorkRequestState.splits option.splits prod.splits)
  qed
  from run have "poll (nlbWorkRequestCond a i) (w, None) = (Ret (), (w', wr))"
    by (simp add: AwaitNLBWorkRequest_def with_wr_ret)
  with poll have "polled (nlbWorkRequestCond a i) (w, None) (w', wr)" by (simp add: lawful_poller_def)
  then have "tbl (fst (w', wr)) = tbl (fst (w, None :: NLBWorkRequest option))"
    by (induction rule: polled.induct) (auto dest: step)
  then show ?thesis by simp
qed

text \<open>An update of the network load balancer converges. If \<open>UpdateNLB\<close> returns nil for the desired state of the
  scope, then the load balancer with the recorded id, as the service holds it afterwards, is the one that was there
  with the desired name and health checker, and \<open>IsNLBEqual\<close> finds it equal to the desired state: the next
  reconciliation does not update it again.\<close>

theorem UpdateNLB_converges:
  assumes law: "lawful_nlb_updates tbl a" and poll: "lawful_poller poll"
    and run: "UpdateNLB mapping poll a d (s, w) = (Ret (), (s', w'))"
  shows "\<exists>k b0 b. LoadBalancer_LoadBalancerId (APIServerLBSpec s) = Some k \<and> tbl w k = Some b0 \<and>
    tbl w' = (tbl w)(k \<mapsto> b) \<and> Res_DisplayName b = Some (LoadBalancer_Name d) \<and>
    Res_FreeformTags b = Res_FreeformTags b0 \<and> IsNLBEqual mapping s b d (s', w') = (Ret True, (s', w'))"
proof -
  from run obtain wr w1 p w2 hc wr2 w3 p2 where
    u: "api_UpdateNetworkLoadBalancer a (LoadBalancer_LoadBalancerId (APIServerLBSpec s)) (LoadBalancer_Name d) w = (Ret wr, w1)"
    and aw: "AwaitNLBWorkRequest poll a wr w1 = (Ret p, w2)"
    and hc: "buildNLBHealthChecker mapping s (specHealthChecker d) = Inr hc"
    and h: "api_UpdateHealthChecker a (LoadBalancer_LoadBalancerId (APIServerLBSpec s)) APIServerLBBackendSetName hc w2 = (Ret wr2, w3)"
    and aw2: "AwaitNLBWorkRequest poll a wr2 w3 = (Ret p2, w')"
    by (auto simp: UpdateNLB_def Let_def go_bind_apply get_scope_apply go_ret_apply go_throw_apply api_def
        split: res.splits prod.splits sum.splits dest!: go_wrap_RetD)
  from law u obtain k b0 where k: "LoadBalancer_LoadBalancerId (APIServerLBSpec s) = Some k" "tbl w k = Some b0"
    "tbl w1 = (tbl w)(k \<mapsto> b0\<lparr>Res_DisplayName := Some (LoadBalancer_Name d)\<rparr>)"
    unfolding lawful_nlb_updates_def by blast
  have t2: "tbl w2 = tbl w1" "tbl w' = tbl w3" by (rule nlb_wait_keeps [OF law poll aw], rule nlb_wait_keeps [OF law poll aw2])
  from law h obtain k' b1 bs where k': "Some k = Some k'" "tbl w2 k' = Some b1"
    "NLB_BackendSets b1 APIServerLBBackendSetName = Some bs"
    "tbl w3 = (tbl w2)(k' \<mapsto> set_hc APIServerLBBackendSetName hc bs b1)"
    unfolding lawful_nlb_updates_def k(1) by blast
  let ?b = "set_hc APIServerLBBackendSetName hc bs b1"
  have b1: "b1 = b0\<lparr>Res_DisplayName := Some (LoadBalancer_Name d)\<rparr>" using k k' t2 by simp
  have "tbl w' = (tbl w)(k \<mapsto> ?b)" using k k' t2 by simp
  moreover have "IsNLBEqual mapping s ?b d (s', w') = (Ret True, (s', w'))"
    by (simp add: IsNLBEqual_def set_hc_def b1 hc go_simps)
  ultimately show ?thesis using k by (auto simp: b1 set_hc_def)
qed

definition nlb_scope :: ClusterScope where "nlb_scope = setLoadBalancerId (Some slot_id) sample_scope"

definition nlb_tbl :: "(SdkNLB, SdkNLB) table" where
  "nlb_tbl w k = (if k = slot_id then Some w else None)"

lemma sample_nlb_lawful: "lawful_nlb_updates nlb_tbl sample_nlb_api"
  by (auto simp: lawful_nlb_updates_def sample_nlb_api_def nlb_tbl_def fun_eq_iff go_simps split: option.splits if_splits)

definition sample_desired :: LoadBalancer where
  "sample_desired = (NetworkSpec_APIServerLB sample_network)\<lparr>LoadBalancer_Name := ''new-name''\<rparr>"

lemma sample_nlb_wait: "AwaitNLBWorkRequest (poll_n (Suc 0)) sample_nlb_api i w =
    (Ret (Some \<lparr>NLBWR_Status = WRSucceeded, NLBWR_CompartmentId = None\<rparr>), w)"
  by (simp add: AwaitNLBWorkRequest_def with_wr_def nlbWorkRequestCond_def sample_nlb_api_def go_simps)

lemma sample_nlb_update:
  assumes i: "LoadBalancer_LoadBalancerId (APIServerLBSpec s) = Some slot_id"
    and hc: "buildNLBHealthChecker sample_mapping s (specHealthChecker d) = Inr hc"
  shows "\<exists>w'. UpdateNLB sample_mapping (poll_n 1) sample_nlb_api d (s, sample_nlb) = (Ret (), (s, w'))"
proof -
  have upd: "api_UpdateNetworkLoadBalancer sample_nlb_api (Some slot_id) n w = (Ret (Some ''wr''), w\<lparr>Res_DisplayName := Some n\<rparr>)" for n w
    by (simp add: sample_nlb_api_def)
  have "\<exists>w'. api_UpdateHealthChecker sample_nlb_api (Some slot_id) APIServerLBBackendSetName hc
      (sample_nlb\<lparr>Res_DisplayName := Some (LoadBalancer_Name d)\<rparr>) = (Ret (Some ''wr''), w')"
    by (simp add: sample_nlb_api_def sample_nlb_def)
  then obtain w' where "api_UpdateHealthChecker sample_nlb_api (Some slot_id) APIServerLBBackendSetName hc
      (sample_nlb\<lparr>Res_DisplayName := Some (LoadBalancer_Name d)\<rparr>) = (Ret (Some ''wr''), w')" ..
  then show ?thesis by (simp add: UpdateNLB_def Let_def go_simps sample_nlb_wait i upd hc)
qed

lemma sample_nlb_build:
  assumes "APIServerPort s = 6443" "specHealthChecker d = specHealthChecker (NetworkSpec_APIServerLB sample_network)"
  shows "\<exists>hc. buildNLBHealthChecker sample_mapping s (specHealthChecker d) = Inr hc"
  using assms by (simp add: buildNLBHealthChecker_def sample_network_def sample_hc_def
      healthCheckProtocol_def trimmed_def or_default_def)

lemma nlb_scope_simps [simp]:
  "LoadBalancer_LoadBalancerId (APIServerLBSpec nlb_scope) = Some slot_id" "APIServerPort nlb_scope = 6443"
  using same_identityD(6) [OF same_identity_upd(1)] by (simp_all add: nlb_scope_def setLoadBalancerId_def)

lemma sample_update_run:
  "\<exists>w'. UpdateNLB sample_mapping (poll_n 1) sample_nlb_api sample_desired (nlb_scope, sample_nlb) = (Ret (), (nlb_scope, w'))"
proof -
  obtain hc where "buildNLBHealthChecker sample_mapping nlb_scope (specHealthChecker sample_desired) = Inr hc"
    using sample_nlb_build [of nlb_scope sample_desired] by (auto simp: sample_desired_def)
  from sample_nlb_update [OF _ this] show ?thesis by simp
qed

theorem UpdateNLB_converges_witness:
  "\<exists>b w'. snd (snd (UpdateNLB sample_mapping (poll_n 1) sample_nlb_api sample_desired (nlb_scope, sample_nlb))) = w' \<and>
    nlb_tbl w' slot_id = Some b \<and> Res_DisplayName b = Some ''new-name'' \<and>
    IsNLBEqual sample_mapping nlb_scope b sample_desired (nlb_scope, w') = (Ret True, (nlb_scope, w'))"
proof -
  from sample_update_run obtain w' where run: "UpdateNLB sample_mapping (poll_n 1) sample_nlb_api sample_desired
      (nlb_scope, sample_nlb) = (Ret (), (nlb_scope, w'))" by blast
  from UpdateNLB_converges [OF sample_nlb_lawful lawful_poll_n run] obtain k b where
    "LoadBalancer_LoadBalancerId (APIServerLBSpec nlb_scope) = Some k" "nlb_tbl w' = (nlb_tbl sample_nlb)(k \<mapsto> b)"
    "Res_DisplayName b = Some (LoadBalancer_Name sample_desired)"
    "IsNLBEqual sample_mapping nlb_scope b sample_desired (nlb_scope, w') = (Ret True, (nlb_scope, w'))" by blast
  with run show ?thesis by (simp add: nlb_scope_def setLoadBalancerId_def sample_desired_def)
qed

lemma sample_nlb_reconcile:
  "\<exists>w'. ReconcileApiServerNLB sample_mapping (poll_n 1) sample_nlb_api (sample_scope, sample_nlb) =
     (Ret (), (SetControlPlaneEndpoint \<lparr>APIEndpoint_Host = ''203.0.113.7'', APIEndpoint_Port = 6443\<rparr> nlb_scope, w'))"
proof -
  let ?s = "SetControlPlaneEndpoint \<lparr>APIEndpoint_Host = ''203.0.113.7'', APIEndpoint_Port = 6443\<rparr> nlb_scope"
  have port: "APIServerPort ?s = 6443" using same_identityD(6) [OF same_identity_upd(3)] by simp
  have get: "GetNetworkLoadBalancers sample_nlb_api (sample_scope, sample_nlb) = (Ret (Some sample_nlb), (sample_scope, sample_nlb))"
    by (simp add: GetNetworkLoadBalancers_def go_simps sample_nlb_api_def sample_network_def find_owned_def
      sample_nlb_def GetFreeFormTags_owned)
  have ip: "getNetworkLoadbalancerIp sample_nlb x = (Ret (Some ''203.0.113.7''), x)" for x :: "'s"
    by (simp add: getNetworkLoadbalancerIp_def chooseIp_def sample_nlb_def go_simps)
  have eq: "IsNLBEqual sample_mapping sample_scope sample_nlb (scope_NLBSpec sample_scope) x = (Ret False, x)" for x :: "'s"
    by (simp add: IsNLBEqual_def sample_nlb_def scope_NLBSpec_def GetControlPlaneLoadBalancerName_def sample_network_def go_simps)
  obtain hc where "buildNLBHealthChecker sample_mapping ?s (specHealthChecker (scope_NLBSpec sample_scope)) = Inr hc"
    using sample_nlb_build [of ?s "scope_NLBSpec sample_scope"] port by (auto simp: scope_NLBSpec_def)
  from sample_nlb_update [OF _ this] obtain w' where upd: "UpdateNLB sample_mapping (poll_n 1) sample_nlb_api
      (scope_NLBSpec sample_scope) (?s, sample_nlb) = (Ret (), (?s, w'))" by auto
  have st: "NLB_LifecycleState sample_nlb = LBActive" "Res_Id sample_nlb = Some slot_id" by (simp_all add: sample_nlb_def)
  have pub: "publish (Some slot_id) (Some ''203.0.113.7'') (sample_scope, w) = (Ret (), (?s, w))" for w :: 'w
    using nlb_scope_simps(2) by (simp add: publish_def go_simps nlb_scope_def)
  show ?thesis using upd
    by (simp add: ReconcileApiServerNLB_def go_simps get ip eq pub st nlb_scope_def [symmetric])
qed

theorem ReconcileApiServerNLB_publishes_witness:
  "\<exists>i u v nlb addr. api_GetNetworkLoadBalancer sample_nlb_api i u = (Ret nlb, v) \<and>
     addr \<in> set (NLB_IpAddresses nlb) \<and> (ToBool (NLB_IsPrivate nlb) \<or> Ip_IsPublic addr = Some True)"
proof -
  from sample_nlb_reconcile obtain w' where "ReconcileApiServerNLB sample_mapping (poll_n 1) sample_nlb_api (sample_scope, sample_nlb) =
     (Ret (), (SetControlPlaneEndpoint \<lparr>APIEndpoint_Host = ''203.0.113.7'', APIEndpoint_Port = 6443\<rparr> nlb_scope, w'))" ..
  from ReconcileApiServerNLB_publishes [OF this] show ?thesis by blast
qed

text \<open>Payloads of TCP and UDP health checks. Decoding a payload that was encoded in the standard base64 alphabet
  with padding gives back the bytes, also when the text is surrounded by blanks and line breaks.\<close>

theorem decodeHealthCheckerPayload_roundtrip:
  "decodeHealthCheckerPayload f (Some (replicate m CHR '' '' @ EncodeToString bs @ replicate n (CHR 0x0A))) = Inr (Some bs)"
proof -
  have "TrimSpace (replicate m CHR '' '' @ EncodeToString bs @ replicate n (CHR 0x0A)) = EncodeToString bs"
    by (subst TrimSpace_padded) (auto simp: is_space_def TrimSpace_encode)
  then show ?thesis by (simp add: decodeHealthCheckerPayload_def DecodeString_encode)
qed

end
