(* ===== verification/Cluster_Frames.thy ===== *)
theory Cluster_Frames
  imports VCN_Reconciler Gateways Route_Tables NSG_Reconciler Subnet_Reconciler DRG_Reconciler Network_Load_Balancer
begin

text \<open>
  No operation of the scope touches what belongs to the controller or identifies the cluster (\<open>same_id\<close>):
  name, tags, finalizers, deletion mark, readiness and conditions.
\<close>

lemma keeps_delete_found [frame_intros]:
  assumes "keeps same_id lookup" shows "keeps same_id (delete_found lookup del)"
  unfolding delete_found_def by (intro frame_intros keeps_api_same_id assms) simp_all

lemma keeps_find_or_create [frame_intros]:
  assumes "keeps same_id lookup" and "\<And>i s. same_identity s (setid i s)" and "keeps same_id create"
  shows "keeps same_id (find_or_create needed lookup setid create)"
  unfolding find_or_create_def by (intro frame_intros assms) simp_all

lemma keeps_get_scope_id [frame_intros]: "keeps same_id get_scope"
  by (rule keeps_scope) simp

lemma keeps_case_prod: "(\<And>x y. p = (x, y) \<Longrightarrow> keeps R (f x y)) \<Longrightarrow> keeps R (case p of (x, y) \<Rightarrow> f x y)"
  by (cases p) simp

lemmas id_intros = frame_intros keeps_case_prod keeps_api_same_id keeps_mod_scope reflp_same_id transp_same_id

lemma same_identity_upds [simp]:
  "same_identity s (updNsg i f s)" "same_identity s (updSubnet i g s)" "same_identity s (updDrg h s)"
  "same_identity s (setLoadBalancerId j s)" "same_identity s (setSecListId i j s)" "same_identity s (setSubnetId i j s)"
  by (simp_all add: updNsg_def updSubnet_def updDrg_def setLoadBalancerId_def setSecListId_def setSubnetId_def)

section \<open>Network resources\<close>

lemma ReconcileInternetGateway_id: "keeps same_id (ReconcileInternetGateway a)"
  unfolding ReconcileInternetGateway_def GetInternetGateway_def CreateInternetGateway_def
  by (intro id_intros) simp_all


lemma ReconcileNatGateway_id: "keeps same_id (ReconcileNatGateway a)"
  unfolding ReconcileNatGateway_def GetNatGateway_def CreateNatGateway_def
  by (intro id_intros) simp_all

lemma ReconcileServiceGateway_id: "keeps same_id (ReconcileServiceGateway a)"
  unfolding ReconcileServiceGateway_def GetServiceGateway_def CreateServiceGateway_def
  by (intro id_intros) (auto intro!: id_intros)

lemma gateway_deletes_id:
  "keeps same_id (DeleteInternetGateway ia)" "keeps same_id (DeleteNatGateway na)" "keeps same_id (DeleteServiceGateway sa)"
  unfolding DeleteInternetGateway_def DeleteNatGateway_def DeleteServiceGateway_def
    GetInternetGateway_def GetNatGateway_def GetServiceGateway_def
  by (intro id_intros; simp)+

lemma DeleteVCN_id: "keeps same_id (DeleteVCN a)"
  unfolding DeleteVCN_def by (intro id_intros keeps_GetVCN) simp_all

lemma route_tables_id: "keeps same_id (ReconcileRouteTable va a)" "keeps same_id (DeleteRouteTables a)"
proof -
  have set: "same_identity s (setRTStatus i t s)" for i t s by (simp add: setRTStatus_def)
  have get: "keeps same_id (getRouteTable a t)" for t
    unfolding getRouteTable_def by (intro id_intros) simp_all
  have create: "keeps same_id (CreateRouteTable va a t)" for t
    unfolding CreateRouteTable_def routeRulesFor_def by (intro id_intros) (auto intro!: id_intros)
  show "keeps same_id (ReconcileRouteTable va a)"
    unfolding ReconcileRouteTable_def reconcileRouteTable_def
    by (intro id_intros get create) (simp_all add: set)
  show "keeps same_id (DeleteRouteTables a)"
    unfolding DeleteRouteTables_def by (intro id_intros get) simp_all
qed

lemma security_lists_id:
  "keeps same_id (GetSecurityList a l)" "keeps same_id (CreateSecurityList a l)" "keeps same_id (UpdateSecurityList a l)"
  "keeps same_id (IsSecurityListEqual sl l)" "keeps same_id (DeleteSecurityLists a)"
proof -
  show get: "keeps same_id (GetSecurityList a l)" for l
    unfolding GetSecurityList_def by (intro id_intros) simp_all
  show "keeps same_id (CreateSecurityList a l)" unfolding CreateSecurityList_def by (intro id_intros) simp_all
  show "keeps same_id (UpdateSecurityList a l)" unfolding UpdateSecurityList_def by (intro id_intros)
  show "keeps same_id (IsSecurityListEqual sl l)" unfolding IsSecurityListEqual_def by (intro id_intros)
  show "keeps same_id (DeleteSecurityLists a)"
    unfolding DeleteSecurityLists_def by (intro id_intros get) simp_all
qed

lemma subnets_id: "keeps same_id (ReconcileSubnet va la a)" "keeps same_id (DeleteSubnets a)"
proof -
  have get: "keeps same_id (GetSubnet a n)" for n unfolding GetSubnet_def by (intro id_intros) simp_all
  have ip: "keeps same_id (ipv6SubnetCidr b h)" for b h
    unfolding ipv6SubnetCidr_def Let_def by (auto intro!: id_intros split: option.split list.split)
  have create: "keeps same_id (CreateSubnet va a n)" for n
    unfolding CreateSubnet_def Let_def by (intro id_intros ip) simp_all
  have upd: "keeps same_id (UpdateSubnet a n)" for n unfolding UpdateSubnet_def by (intro id_intros)
  show "keeps same_id (ReconcileSubnet va la a)"
    unfolding ReconcileSubnet_def reconcileSubnetAt_def reconcileFoundSubnet_def createMissingSubnet_def
      reconcileSecListOf_def currentSubnet_def
    by (intro id_intros get create upd security_lists_id) simp_all
  show "keeps same_id (DeleteSubnets a)"
    unfolding DeleteSubnets_def by (intro id_intros get) simp_all
qed


lemma nsgs_id: "keeps same_id (ReconcileNSG iterI iterE a)" "keeps same_id (DeleteNSGs a)"
proof -
  have get: "keeps same_id (GetNSG a n)" for n unfolding GetNSG_def by (intro id_intros) simp_all
  have create: "keeps same_id (CreateNSG a n)" for n unfolding CreateNSG_def by (intro id_intros) simp_all
  have eq: "keeps same_id (IsNSGEqual g n)" for g n unfolding IsNSGEqual_def by (intro id_intros)
  have upd: "keeps same_id (UpdateNSG a n)" for n unfolding UpdateNSG_def by (intro id_intros)
  have ref: "keeps same_id (getNsgIdFromName n l)" for n l
    unfolding getNsgIdFromName_def by (intro id_intros)
  have add: "keeps same_id (addIngressRule s r)" "keeps same_id (addEgressRule s e)" for s r e
    unfolding addIngressRule_def addEgressRule_def Let_def
    by (auto intro!: id_intros ref split: prod.split)
  have gen: "keeps same_id (generateAddSecurityRuleFromSpec s i e)" for s i e
    unfolding generateAddSecurityRuleFromSpec_def by (intro id_intros add)
  have addr: "keeps same_id (AddNSGSecurityRules a i ir er)" for i ir er
    unfolding AddNSGSecurityRules_def by (intro id_intros gen) simp_all
  have loop: "keeps same_id (specRulesLoop s rs acc)" for s rs acc
    by (induction s rs acc rule: specRulesLoop.induct) (auto intro!: id_intros split: RuleDirection.split)
  have spec: "keeps same_id (generateSpecFromSecurityRules s rs)" for s rs
    unfolding generateSpecFromSecurityRules_def by (rule loop)
  show "keeps same_id (ReconcileNSG iterI iterE a)"
    unfolding ReconcileNSG_def reconcileNSGAt_def reconcileNSGRulesAt_def UpdateNSGSecurityRulesIfNeeded_def Let_def
    by (intro id_intros get create eq upd addr spec) (auto intro!: id_intros addr)
  show "keeps same_id (DeleteNSGs a)"
    unfolding DeleteNSGs_def by (intro id_intros get) simp_all
qed


section \<open>Peering\<close>

lemma GetDRG_id: "keeps same_id (GetDRG a)"
  unfolding GetDRG_eq by (intro id_intros keeps_search_pages keeps_theDRG)

lemma ReconcileDRG_id: "keeps same_id (ReconcileDRG a)"
  unfolding ReconcileDRG_def createDRG_def GetDRGName_def
  by (intro id_intros GetDRG_id keeps_theDRG keeps_getDRG) simp_all

lemma DeleteDRG_id: "keeps same_id (DeleteDRG a)"
  unfolding DeleteDRG_def by (intro id_intros GetDRG_id keeps_getDRG)

lemma attachments_id: "keeps same_id (ReconcileDRGVCNAttachment a)" "keeps same_id (DeleteDRGVCNAttachment a)"
proof -
  have get: "keeps same_id (GetDRGAttachment a)"
    unfolding GetDRGAttachment_def
    by (intro id_intros keeps_getDRG) (auto intro!: id_intros split: list.split)
  show "keeps same_id (ReconcileDRGVCNAttachment a)"
    unfolding ReconcileDRGVCNAttachment_def by (intro id_intros get keeps_getDRG) simp_all
  show "keeps same_id (DeleteDRGVCNAttachment a)"
    unfolding DeleteDRGVCNAttachment_def by (intro id_intros get)
qed

text \<open>A poller only evaluates its condition: what the condition keeps, polling keeps.\<close>

definition frame_poller :: "'w st poller \<Rightarrow> bool" where
  "frame_poller poll \<longleftrightarrow> (\<forall>R cond. reflp R \<longrightarrow> transp R \<longrightarrow> keeps R cond \<longrightarrow> keeps R (poll cond))"

lemma frame_poll_n: "frame_poller (poll_n n :: 'w st poller)"
proof -
  have "keeps R (poll_n n cond)" if "reflp R" "transp R" "keeps R cond" for R and cond :: "('w st, bool) go"
    by (induction n) (auto intro!: frame_intros that)
  then show ?thesis by (simp add: frame_poller_def)
qed

lemma rpcs_id:
  fixes a :: "'w RpcApi"
  assumes "frame_poller poll"
  shows "keeps same_id (ReconcileDRGRPCAttachment poll GetOrBuildClient a)"
    and "keeps same_id (DeleteDRGRPCAttachment poll GetOrBuildClient a)"
proof -
  have poll: "keeps same_id (poll cond)" if "keeps same_id cond" for cond
    using assms that by (simp add: frame_poller_def)
  show "keeps same_id (ReconcileDRGRPCAttachment poll GetOrBuildClient a)"
  proof -
    have "keeps same_scope (poll cond)" if "keeps same_scope cond" for cond
      using assms that by (simp add: frame_poller_def)
    then have "keeps same_scope (ReconcileDRGRPCAttachment poll GetOrBuildClient a)" by (rule keeps_rpc_scope)
    then show ?thesis by (auto simp: keeps_def)
  qed
  have look: "keeps same_id (lookupRPC b d i)" for b :: "'w RpcApi" and d i
    unfolding lookupRPC_def rpcPage_def getRPC_def
    by (intro id_intros) (auto intro!: id_intros split: list.split)
  have cond: "keeps same_id (deletedCond b i)" for b :: "'w RpcApi" and i
    unfolding deletedCond_def getRPC_def by (intro id_intros)
  have del: "keeps same_id (deleteRPC poll b i)" for b i
    unfolding deleteRPC_def waitForRPCToBeDeleted_def by (intro id_intros poll cond)
  have "keeps same_id (deleteRPCs poll GetOrBuildClient a d rs)" for d rs
    by (induction rs) (auto intro!: id_intros look del)
  then show "keeps same_id (DeleteDRGRPCAttachment poll GetOrBuildClient a)"
    unfolding DeleteDRGRPCAttachment_def by (intro id_intros keeps_getDRG)
qed

section \<open>Load balancers\<close>

lemma same_scope_id: "keeps same_scope m \<Longrightarrow> keeps same_id m"
  by (auto simp: keeps_def)

lemma publish_id: "keeps same_id (publish i ip)"
  unfolding publish_def by (intro id_intros) simp_all

lemma lb_reconcile_id:
  assumes "keeps same_id lookup" "\<And>lb. keeps same_id (getip lb)" "\<And>s lb. keeps same_id (align s lb)"
    "\<And>s. keeps same_id (create s)"
  shows "keeps same_id (lb_reconcile lookup pending getip align create)"
  unfolding lb_reconcile_def by (intro id_intros publish_id assms)

lemma load_balancers_id:
  "keeps same_id (ReconcileApiServerLB lpoll la)" "keeps same_id (DeleteApiServerLB lpoll la)"
  "keeps same_id (ReconcileApiServerNLB mapping npoll na)" "keeps same_id (DeleteApiServerNLB npoll na)"
proof -
  have ip: "keeps same_id (getLoadbalancerIp b)" "keeps same_id (getNetworkLoadbalancerIp c)" for b c
    unfolding getLoadbalancerIp_def getNetworkLoadbalancerIp_def by (intro id_intros)+
  show "keeps same_id (ReconcileApiServerLB lpoll la)"
    unfolding ReconcileApiServerLB_eq
    by (intro lb_reconcile_id ip same_scope_id [OF GetLoadBalancers_scope] same_scope_id [OF lb.align_scope]
        same_scope_id [OF CreateLB_scope])
  show "keeps same_id (ReconcileApiServerNLB mapping npoll na)"
    unfolding ReconcileApiServerNLB_eq
    by (intro lb_reconcile_id ip same_scope_id [OF GetNetworkLoadBalancers_scope] same_scope_id [OF nlb.align_scope]
        same_scope_id [OF CreateNLB_scope])
  show "keeps same_id (DeleteApiServerLB lpoll la)" "keeps same_id (DeleteApiServerNLB npoll na)"
    unfolding DeleteApiServerLB_def DeleteApiServerNLB_def
    by (intro id_intros same_scope_id [OF GetLoadBalancers_scope] same_scope_id [OF GetNetworkLoadBalancers_scope])+
qed

section \<open>Region and failure domains\<close>

lemma SetRegionKey_id: "keeps same_id (SetRegionKey ic)"
  unfolding SetRegionKey_def by (intro id_intros) simp_all

lemma ReconcileFailureDomains_id: "keeps same_id (ReconcileFailureDomains iter ic)"
proof -
  have spec: "keeps same_id (setAvailabiltyDomainSpec ic ads)" for ads
    unfolding setAvailabiltyDomainSpec_def by (intro id_intros) simp_all
  have fd: "keeps same_id (setADFailureDomain k)" "keeps same_id (setFDFailureDomain k p)" for k p
    unfolding setADFailureDomain_def setFDFailureDomain_def
    by (auto intro!: id_intros split: option.split prod.split)
  show ?thesis
    unfolding ReconcileFailureDomains_def setFailureDomains_def
    by (intro id_intros spec fd) (auto intro!: id_intros fd split: list.split)
qed

end
