(* ===== verification/Cluster_Controller.thy ===== *)
theory Cluster_Controller
  imports Cluster_Frames
begin

text \<open>
  The controller of OCICluster objects (src/controllers/ocicluster_controller.go) over the interface
  \<open>ClusterScopeClient\<close> of the scope (src/cloud/scope/cluster_client.go): a record of programs, which
  \<open>clusterScopeClient\<close> fills with the operations of the cluster scope. The scope and the controller share the
  cluster object, so the controller runs over the scope's state and the events it has recorded. The helpers of
  controller-runtime and cluster-api (finalizers, conditions) are parameters.
\<close>

section \<open>Interfaces\<close>

record 'w ClusterScopeClient =
  sc_SetRegionKey :: "('w, unit) scope_go"
  sc_ReconcileDRG :: "('w, unit) scope_go"
  sc_ReconcileVCN :: "('w, unit) scope_go"
  sc_ReconcileInternetGateway :: "('w, unit) scope_go"
  sc_ReconcileNatGateway :: "('w, unit) scope_go"
  sc_ReconcileServiceGateway :: "('w, unit) scope_go"
  sc_ReconcileNSG :: "('w, unit) scope_go"
  sc_ReconcileRouteTable :: "('w, unit) scope_go"
  sc_ReconcileSubnet :: "('w, unit) scope_go"
  sc_ReconcileDRGVCNAttachment :: "('w, unit) scope_go"
  sc_ReconcileDRGRPCAttachment :: "('w, unit) scope_go"
  sc_ReconcileFailureDomains :: "('w, unit) scope_go"
  sc_ReconcileApiServerLB :: "('w, unit) scope_go"
  sc_ReconcileApiServerNLB :: "('w, unit) scope_go"
  sc_DeleteApiServerLB :: "('w, unit) scope_go"
  sc_DeleteApiServerNLB :: "('w, unit) scope_go"
  sc_DeleteDRGRPCAttachment :: "('w, unit) scope_go"
  sc_DeleteDRGVCNAttachment :: "('w, unit) scope_go"
  sc_DeleteNSGs :: "('w, unit) scope_go"
  sc_DeleteSubnets :: "('w, unit) scope_go"
  sc_DeleteRouteTables :: "('w, unit) scope_go"
  sc_DeleteSecurityLists :: "('w, unit) scope_go"
  sc_DeleteServiceGateway :: "('w, unit) scope_go"
  sc_DeleteNatGateway :: "('w, unit) scope_go"
  sc_DeleteInternetGateway :: "('w, unit) scope_go"
  sc_DeleteVCN :: "('w, unit) scope_go"
  sc_DeleteDRG :: "('w, unit) scope_go"

record KubeLib =
  kube_AddFinalizer :: "string \<Rightarrow> string list \<Rightarrow> string list"
  kube_RemoveFinalizer :: "string \<Rightarrow> string list \<Rightarrow> string list"
  kube_MarkTrue :: "string \<Rightarrow> Condition list \<Rightarrow> Condition list"
  kube_MarkFalse :: "string \<Rightarrow> string \<Rightarrow> Condition list \<Rightarrow> Condition list"

datatype EventType = EventTypeNormal | EventTypeWarning

record Event =
  Event_Type :: EventType
  Event_Reason :: string
  Event_Message :: string

type_synonym 'w ctrl = "'w st \<times> Event list"

abbreviation ClusterReadyCondition :: string where "ClusterReadyCondition \<equiv> ''ClusterReady''"

section \<open>Steps of the controller\<close>

definition get_cluster :: "('w ctrl, OCICluster) go" where
  "get_cluster = on_fst (go_bind get_scope (\<lambda>s. go_ret (CS_OCICluster s)))"

definition mod_cluster :: "(OCICluster \<Rightarrow> OCICluster) \<Rightarrow> ('w ctrl, unit) go" where
  "mod_cluster f = on_fst (mod_scope (\<lambda>s. s\<lparr>CS_OCICluster := f (CS_OCICluster s)\<rparr>))"

definition record_event :: "EventType \<Rightarrow> string \<Rightarrow> string \<Rightarrow> ('x \<times> Event list, unit) go" where
  "record_event t r m = go_modify (\<lambda>(x, ev). (x, ev @ [\<lparr>Event_Type = t, Event_Reason = r, Event_Message = m\<rparr>]))"

definition mod_conditions :: "(Condition list \<Rightarrow> Condition list) \<Rightarrow> ('w ctrl, unit) go" where
  "mod_conditions f = mod_cluster (\<lambda>c. c\<lparr>Cluster_Status :=
     (Cluster_Status c)\<lparr>Status_Conditions := f (Status_Conditions (Cluster_Status c))\<rparr>\<rparr>)"

definition mod_finalizers :: "(string list \<Rightarrow> string list) \<Rightarrow> ('w ctrl, unit) go" where
  "mod_finalizers f = mod_cluster (\<lambda>c. c\<lparr>Cluster_Finalizers := f (Cluster_Finalizers c)\<rparr>)"

definition set_ready :: "('w ctrl, unit) go" where
  "set_ready = mod_cluster (\<lambda>c. c\<lparr>Cluster_Status := (Cluster_Status c)\<lparr>Status_Ready := True\<rparr>\<rparr>)"

text \<open>A failed step: a warning event, the condition, and the wrapped error. The controllers of the self managed and of the managed
  cluster have the same steps; their errors name the \<open>kind\<close> of the object.\<close>

definition fail_step :: "KubeLib \<Rightarrow> string \<Rightarrow> string \<Rightarrow> string \<Rightarrow> string \<Rightarrow> goerr \<Rightarrow> ('w ctrl, unit) go" where
  "fail_step k kind eventMsg failReason failMsg err =
     go_bind (record_event EventTypeWarning ''ReconcileError'' (Error (ErrWrap eventMsg err))) (\<lambda>_.
     go_bind (mod_conditions (kube_MarkFalse k ClusterReadyCondition failReason)) (\<lambda>_.
     go_bind get_cluster (\<lambda>c.
     go_throw (ErrWrap (failMsg @ '' for '' @ kind @ '' '' @ Cluster_Namespace c @ ''/'' @ Cluster_Name c) err))))"

definition reconcileComponent ::
  "KubeLib \<Rightarrow> string \<Rightarrow> ('w, unit) scope_go \<Rightarrow> string \<Rightarrow> string \<Rightarrow> string \<Rightarrow> ('w ctrl, unit) go" where
  "reconcileComponent k kind reconciler componentName failReason readyEventtype =
     go_bind (go_try (on_fst reconciler)) (\<lambda>x. case x of
       Inl err \<Rightarrow> fail_step k kind (''failed to reconcile '' @ componentName) failReason
                   (''failed to reconcile '' @ componentName) err
     | Inr _ \<Rightarrow> record_event EventTypeNormal readyEventtype
                   (filter (\<lambda>c. c \<noteq> CHR '' '') componentName @ '' is in ready state''))"

definition skipApiserverManagement :: "OCICluster \<Rightarrow> bool" where
  "skipApiserverManagement o' =
     (Cluster_Annotations o' ''cluster.x-k8s.io/skip-apiserver-lb-management'' \<noteq> None)"

text \<open>The network components in the order of the code: program, name, reason of a failure, event.\<close>

definition networkComponents :: "'w ClusterScopeClient \<Rightarrow> (('w, unit) scope_go \<times> string \<times> string \<times> string) list" where
  "networkComponents c =
     [(sc_ReconcileDRG c, ''DRG'', ''DRGReconciliationFailed'', ''DRGReady''),
      (sc_ReconcileVCN c, ''VCN'', ''VcnReconciliationFailed'', ''VCNReady''),
      (sc_ReconcileInternetGateway c, ''Internet Gateway'', ''InternetGatewayReconciliationFailed'', ''InternetGatewayReady''),
      (sc_ReconcileNatGateway c, ''NAT Gateway'', ''NatGatewayReconciliationFailed'', ''NATReady''),
      (sc_ReconcileServiceGateway c, ''Service Gateway'', ''ServiceGatewayReconciliationFailed'', ''ServiceGatewayReady''),
      (sc_ReconcileNSG c, ''Network Security Group'', ''NSGReconciliationFailed'', ''NetworkSecurityReady''),
      (sc_ReconcileRouteTable c, ''Route Table'', ''RouteTableReconciliationFailed'', ''RouteTableReady''),
      (sc_ReconcileSubnet c, ''Subnet'', ''SubnetReconciliationFailed'', ''SubnetReady''),
      (sc_ReconcileDRGVCNAttachment c, ''DRGVCNAttachment'', ''DRGVCNAttachmentReconciliationFailed'', ''DRGVCNAttachmentEventReady''),
      (sc_ReconcileDRGRPCAttachment c, ''DRGRPCAttachment'', ''DRGRPCAttachmentReconciliationFailed'', ''DRGRPCAttachmentEventReady'')]"

text \<open>The body of \<open>reconcile\<close> between the finalizer and the readiness.\<close>

definition reconcileWork :: "KubeLib \<Rightarrow> 'w ClusterScopeClient \<Rightarrow> ('w ctrl, unit) go" where
  "reconcileWork k c =
     go_seq (go_bind get_cluster (\<lambda>cluster.
        if NetworkSpec_SkipNetworkManagement (Spec_NetworkSpec (Cluster_Spec cluster)) then go_ret ()
        else go_seq (on_fst (sc_SetRegionKey c))
          (go_for (networkComponents c) (\<lambda>(m, name, reason, ready). reconcileComponent k ''OCICluster'' m name reason ready))))
     (go_seq (reconcileComponent k ''OCICluster'' (sc_ReconcileFailureDomains c) ''Failure Domain''
        ''FailureDomainFailedReconciliationFailed'' ''FailureDomainsReady'')
     (go_bind get_cluster (\<lambda>cluster.
        if skipApiserverManagement cluster then go_ret ()
        else if LoadBalancer_LoadBalancerType (NetworkSpec_APIServerLB (Spec_NetworkSpec (Cluster_Spec cluster)))
             = LoadBalancerTypeLB
        then reconcileComponent k ''OCICluster'' (sc_ReconcileApiServerLB c) ''Api Server Loadbalancer''
          ''APIServerLoadBalancerReconciliationFailed'' ''APIServerLoadBalancerReady''
        else reconcileComponent k ''OCICluster'' (sc_ReconcileApiServerNLB c) ''Api Server Network Loadbalancer''
          ''APIServerLoadBalancerReconciliationFailed'' ''APIServerLoadBalancerReady'')))"

definition reconcile :: "KubeLib \<Rightarrow> 'w ClusterScopeClient \<Rightarrow> ('w ctrl, unit) go" where
  "reconcile k c =
     go_seq (mod_finalizers (kube_AddFinalizer k ClusterFinalizer))
     (go_seq (reconcileWork k c)
     (go_seq (mod_conditions (kube_MarkTrue k ClusterReadyCondition)) set_ready))"

text \<open>A deletion, with the texts of its failure.\<close>

definition deleteComponent :: "KubeLib \<Rightarrow> string \<Rightarrow> ('w, unit) scope_go \<Rightarrow> string \<Rightarrow> string \<Rightarrow> string \<Rightarrow> ('w ctrl, unit) go" where
  "deleteComponent k kind m eventMsg failReason failMsg =
     go_bind (go_try (on_fst m)) (\<lambda>x. case x of
       Inl err \<Rightarrow> fail_step k kind eventMsg failReason failMsg err
     | Inr _ \<Rightarrow> go_ret ())"

definition networkDeletions :: "'w ClusterScopeClient \<Rightarrow> (('w, unit) scope_go \<times> string \<times> string \<times> string) list" where
  "networkDeletions c =
     [(sc_DeleteDRGRPCAttachment c, ''failed to delete DRG RPC attachment'', ''DRGRPCAttachmentReconciliationFailed'',
         ''failed to delete DRG RPC Attachment ''),
      (sc_DeleteDRGVCNAttachment c, ''failed to delete DRG VCN attachment'', ''DRGVCNAttachmentReconciliationFailed'',
         ''failed to delete DRG VCN Attachment ''),
      (sc_DeleteNSGs c, ''failed to delete Network Security Group'', ''NSGReconciliationFailed'',
         ''failed to delete Network Security Groups''),
      (sc_DeleteSubnets c, ''failed to delete Subnet'', ''SubnetReconciliationFailed'', ''failed to delete subnet''),
      (sc_DeleteRouteTables c, ''failed to delete Route Table'', ''RouteTableReconciliationFailed'',
         ''failed to delete RouteTables''),
      (sc_DeleteSecurityLists c, ''failed to delete Security Lists'', ''SecurityListReconciliationFailed'',
         ''failed to delete SecurityLists''),
      (sc_DeleteServiceGateway c, ''failed to delete Service Gateway'', ''ServiceGatewayReconciliationFailed'',
         ''failed to delete ServiceGateway''),
      (sc_DeleteNatGateway c, ''failed to delete NAT Gateway'', ''NatGatewayReconciliationFailed'',
         ''failed to delete NatGateway''),
      (sc_DeleteInternetGateway c, ''failed to delete Internet Gateway'', ''InternetGatewayReconciliationFailed'',
         ''failed to delete InternetGateway''),
      (sc_DeleteVCN c, ''failed to delete VCN'', ''VcnReconciliationFailed'', ''failed to delete VCN''),
      (sc_DeleteDRG c, ''failed to delete DRG'', ''DRGReconciliationFailed'', ''failed to delete DRG'')]"

text \<open>The body of \<open>reconcileDelete\<close> up to the removal of the finalizer.\<close>

definition reconcileDeletions :: "KubeLib \<Rightarrow> 'w ClusterScopeClient \<Rightarrow> ('w ctrl, unit) go" where
  "reconcileDeletions k c =
     go_seq (go_bind get_cluster (\<lambda>cluster.
        if skipApiserverManagement cluster then go_ret ()
        else deleteComponent k ''OCICluster''
          (if LoadBalancer_LoadBalancerType (NetworkSpec_APIServerLB (Spec_NetworkSpec (Cluster_Spec cluster)))
              = LoadBalancerTypeLB
           then sc_DeleteApiServerLB c else sc_DeleteApiServerNLB c)
          ''failed to delete Api Server Loadbalancer'' ''APIServerLoadBalancerReconciliationFailed''
          ''failed to delete apiserver LB''))
     (go_bind get_cluster (\<lambda>cluster.
        if NetworkSpec_SkipNetworkManagement (Spec_NetworkSpec (Cluster_Spec cluster)) then go_ret ()
        else go_for (networkDeletions c) (\<lambda>(m, ev, reason, fail). deleteComponent k ''OCICluster'' m ev reason fail)))"

definition reconcileDelete :: "KubeLib \<Rightarrow> 'w ClusterScopeClient \<Rightarrow> ('w ctrl, unit) go" where
  "reconcileDelete k c =
     go_seq (reconcileDeletions k c) (mod_finalizers (kube_RemoveFinalizer k ClusterFinalizer))"

section \<open>The scope behind the interface\<close>

text \<open>The clients of the scope. \<open>polls\<close> is the number of times a poller evaluates its condition before it times
  out; the map orders are those of this run.\<close>

record 'w OCIClients =
  cl_Vcn :: "'w VcnApi"
  cl_Igw :: "'w IgwApi"
  cl_Nat :: "'w NatApi"
  cl_Sgw :: "'w SgwApi"
  cl_Rt :: "'w RtApi"
  cl_SecList :: "'w SecListApi"
  cl_Nsg :: "'w NsgApi"
  cl_Subnet :: "'w SubnetApi"
  cl_Drg :: "'w DrgApi"
  cl_Rpc :: "'w RpcApi"
  cl_GetOrBuildClient :: "string \<Rightarrow> ('w, 'w RpcApi) go"
  cl_Lb :: "'w LbApi"
  cl_Nlb :: "'w NlbApi"
  cl_Identity :: "'w IdentityApi"
  cl_protocols :: protocol_mapping
  cl_polls :: nat
  cl_ads :: "(string, OCIAvailabilityDomain) map_order"
  cl_ingress :: "(string, IngressSecurityRuleForNSG) map_order"
  cl_egress :: "(string, EgressSecurityRuleForNSG) map_order"

definition clusterScopeClient :: "'w OCIClients \<Rightarrow> 'w ClusterScopeClient" where
  "clusterScopeClient cl =
     \<lparr>sc_SetRegionKey = SetRegionKey (cl_Identity cl),
      sc_ReconcileDRG = ReconcileDRG (cl_Drg cl),
      sc_ReconcileVCN = ReconcileVCN (cl_Vcn cl),
      sc_ReconcileInternetGateway = ReconcileInternetGateway (cl_Igw cl),
      sc_ReconcileNatGateway = ReconcileNatGateway (cl_Nat cl),
      sc_ReconcileServiceGateway = ReconcileServiceGateway (cl_Sgw cl),
      sc_ReconcileNSG = ReconcileNSG (cl_ingress cl) (cl_egress cl) (cl_Nsg cl),
      sc_ReconcileRouteTable = ReconcileRouteTable (cl_Vcn cl) (cl_Rt cl),
      sc_ReconcileSubnet = ReconcileSubnet (cl_Vcn cl) (cl_SecList cl) (cl_Subnet cl),
      sc_ReconcileDRGVCNAttachment = ReconcileDRGVCNAttachment (cl_Drg cl),
      sc_ReconcileDRGRPCAttachment =
        ReconcileDRGRPCAttachment (poll_n (cl_polls cl)) (cl_GetOrBuildClient cl) (cl_Rpc cl),
      sc_ReconcileFailureDomains = ReconcileFailureDomains (cl_ads cl) (cl_Identity cl),
      sc_ReconcileApiServerLB = ReconcileApiServerLB (poll_n (cl_polls cl)) (cl_Lb cl),
      sc_ReconcileApiServerNLB = ReconcileApiServerNLB (cl_protocols cl) (poll_n (cl_polls cl)) (cl_Nlb cl),
      sc_DeleteApiServerLB = DeleteApiServerLB (poll_n (cl_polls cl)) (cl_Lb cl),
      sc_DeleteApiServerNLB = DeleteApiServerNLB (poll_n (cl_polls cl)) (cl_Nlb cl),
      sc_DeleteDRGRPCAttachment = DeleteDRGRPCAttachment (poll_n (cl_polls cl)) (cl_GetOrBuildClient cl) (cl_Rpc cl),
      sc_DeleteDRGVCNAttachment = DeleteDRGVCNAttachment (cl_Drg cl),
      sc_DeleteNSGs = DeleteNSGs (cl_Nsg cl),
      sc_DeleteSubnets = DeleteSubnets (cl_Subnet cl),
      sc_DeleteRouteTables = DeleteRouteTables (cl_Rt cl),
      sc_DeleteSecurityLists = DeleteSecurityLists (cl_SecList cl),
      sc_DeleteServiceGateway = DeleteServiceGateway (cl_Sgw cl),
      sc_DeleteNatGateway = DeleteNatGateway (cl_Nat cl),
      sc_DeleteInternetGateway = DeleteInternetGateway (cl_Igw cl),
      sc_DeleteVCN = DeleteVCN (cl_Vcn cl),
      sc_DeleteDRG = DeleteDRG (cl_Drg cl)\<rparr>"


section \<open>Frames of the controller\<close>

text \<open>What a step that returned a value, or that ended in any way, did to the state.\<close>

definition ret_keeps :: "('s \<Rightarrow> 's \<Rightarrow> bool) \<Rightarrow> ('s, 'a) go \<Rightarrow> bool" where
  "ret_keeps R m \<longleftrightarrow> (\<forall>s a t. m s = (Ret a, t) \<longrightarrow> R s t)"

lemma ret_keepsD: "ret_keeps R m \<Longrightarrow> m s = (Ret a, t) \<Longrightarrow> R s t"
  by (simp add: ret_keeps_def)

lemma keeps_ret_keeps: "keeps R m \<Longrightarrow> ret_keeps R m"
  by (auto simp: ret_keeps_def dest: keepsD)

lemma ret_keeps_bind:
  "transp R \<Longrightarrow> ret_keeps R m \<Longrightarrow> (\<And>a. ret_keeps R (f a)) \<Longrightarrow> ret_keeps R (go_bind m f)"
  unfolding ret_keeps_def by (fastforce simp: go_bind_apply split: res.splits prod.splits dest: transpD)

lemma ret_keeps_seq: "transp R \<Longrightarrow> ret_keeps R m \<Longrightarrow> ret_keeps R n \<Longrightarrow> ret_keeps R (go_seq m n)"
  unfolding go_seq_def by (rule ret_keeps_bind)

lemma ret_keeps_for:
  assumes "reflp R" and "transp R" and "\<And>x. x \<in> set xs \<Longrightarrow> ret_keeps R (body x)"
  shows "ret_keeps R (go_for xs body)"
  using assms(3)
proof (induction xs)
  case Nil
  show ?case using \<open>reflp R\<close> by (simp add: ret_keeps_def go_simps reflpD)
next
  case (Cons x xs)
  then show ?case by (auto intro: ret_keeps_bind [OF \<open>transp R\<close>])
qed

lemma keeps_on_fst: "keeps R m \<Longrightarrow> keeps (\<lambda>x y. R (fst x) (fst y)) (on_fst m)"
  by (auto simp: keeps_def on_fst_def split: prod.splits) (metis snd_conv)+

text \<open>\<open>step_frame\<close>: nothing that belongs to the controller changes but the conditions. \<open>quiet_frame\<close>: the conditions
  do not change either, and only normal events are recorded.\<close>

definition step_frame :: "'w ctrl \<Rightarrow> 'w ctrl \<Rightarrow> bool" where
  "step_frame x y \<longleftrightarrow> (let c = CS_OCICluster (fst (fst x)); d = CS_OCICluster (fst (fst y)) in
     Cluster_Finalizers d = Cluster_Finalizers c \<and> Cluster_Annotations d = Cluster_Annotations c \<and>
     Cluster_Deleted d = Cluster_Deleted c \<and> Cluster_Name d = Cluster_Name c \<and>
     Status_Ready (Cluster_Status d) = Status_Ready (Cluster_Status c) \<and>
     (\<exists>ev. snd y = snd x @ ev))"

definition quiet_frame :: "'w ctrl \<Rightarrow> 'w ctrl \<Rightarrow> bool" where
  "quiet_frame x y \<longleftrightarrow> step_frame x y \<and>
     Status_Conditions (Cluster_Status (CS_OCICluster (fst (fst y)))) =
       Status_Conditions (Cluster_Status (CS_OCICluster (fst (fst x)))) \<and>
     (\<exists>ev. snd y = snd x @ ev \<and> (\<forall>e \<in> set ev. Event_Type e = EventTypeNormal))"

lemma step_frame_po [simp]: "reflp step_frame" "transp step_frame"
  unfolding reflp_def transp_def step_frame_def Let_def by auto

lemma quiet_frame_trans: "quiet_frame x y \<Longrightarrow> quiet_frame y z \<Longrightarrow> quiet_frame x z"
  using transpD [OF step_frame_po(2), of x y z]
  by (auto simp: quiet_frame_def)

lemma quiet_frame_po [simp]: "reflp quiet_frame" "transp quiet_frame"
  using step_frame_po(1)
  by (simp add: reflp_def quiet_frame_def) (auto simp: transp_def intro: quiet_frame_trans)

lemma on_fst_quiet:
  fixes m :: "('w, 'a) scope_go"
  assumes "keeps same_id m" shows "keeps quiet_frame (on_fst m)"
proof (rule keepsI)
  fix x y :: "'w ctrl" and r assume run: "on_fst m x = (r, y)"
  obtain p ev where x: "x = (p, ev)" by (cases x)
  with run have "m p = (r, fst y)" "snd y = ev" by (auto simp: on_fst_def split: prod.splits)
  from keepsD [OF assms this(1)] \<open>snd y = ev\<close> show "quiet_frame x y"
    by (auto simp: quiet_frame_def step_frame_def same_identity_def accessor_defs Let_def x)
qed

lemma quiet_step: "keeps quiet_frame m \<Longrightarrow> keeps step_frame m"
  by (simp add: keeps_def quiet_frame_def)

lemma get_cluster_quiet: "keeps quiet_frame get_cluster"
  unfolding get_cluster_def by (intro on_fst_quiet id_intros)

lemma event_step: "keeps step_frame (record_event t r m)"
  by (auto simp: keeps_def record_event_def go_simps step_frame_def Let_def split: prod.split)

lemma event_quiet: "keeps quiet_frame (record_event EventTypeNormal r m)"
  by (auto simp: keeps_def record_event_def go_simps quiet_frame_def step_frame_def Let_def split: prod.split)

lemma conditions_step: "keeps step_frame (mod_conditions f)"
  by (auto simp: keeps_def mod_conditions_def mod_cluster_def on_fst_def mod_scope_def step_frame_def Let_def
      split: prod.splits)

lemma fail_step_frame: "keeps step_frame (fail_step k kind ev reason msg err)"
  unfolding fail_step_def
  by (intro frame_intros event_step conditions_step quiet_step [OF get_cluster_quiet] step_frame_po)

lemma fail_step_fails: "fail_step k kind ev reason msg err x \<noteq> (Ret a, y)"
  by (cases x) (auto simp: fail_step_def record_event_def mod_conditions_def mod_cluster_def get_cluster_def
      on_fst_def mod_scope_def get_scope_def go_simps split: prod.splits)

text \<open>A component that fails leaves the finalizers and the readiness alone; one that succeeds is quiet.\<close>

lemma component_step:
  assumes "keeps same_id m"
  shows "keeps step_frame (reconcileComponent k kind m name reason ready)"
    and "keeps step_frame (deleteComponent k kind m ev reason fail)"
  unfolding reconcileComponent_def deleteComponent_def
  by (intro frame_intros quiet_step [OF on_fst_quiet] fail_step_frame event_step step_frame_po assms)+

lemma component_quiet:
  assumes "keeps same_id m"
  shows "ret_keeps quiet_frame (reconcileComponent k kind m name reason ready)"
    and "ret_keeps quiet_frame (deleteComponent k kind m ev reason fail)"
proof -
  have t: "ret_keeps quiet_frame (go_try (on_fst m))"
    by (intro keeps_ret_keeps keeps_try on_fst_quiet assms)
  have f: "ret_keeps quiet_frame (fail_step k kind e r q err)" for e r q err
    by (auto simp: ret_keeps_def fail_step_fails)
  show "ret_keeps quiet_frame (reconcileComponent k kind m name reason ready)"
    unfolding reconcileComponent_def
    by (rule ret_keeps_bind [OF quiet_frame_po(2) t])
      (auto intro: f keeps_ret_keeps event_quiet split: sum.split)
  show "ret_keeps quiet_frame (deleteComponent k kind m ev reason fail)"
    unfolding deleteComponent_def
    by (rule ret_keeps_bind [OF quiet_frame_po(2) t])
      (auto intro: f keeps_ret_keeps keeps_pure(1) [OF quiet_frame_po(1)] split: sum.split)
qed


section \<open>What the controller relies on\<close>

definition scope_ops :: "'w ClusterScopeClient \<Rightarrow> ('w, unit) scope_go list" where
  "scope_ops c =
     [sc_SetRegionKey c, sc_ReconcileFailureDomains c, sc_ReconcileApiServerLB c, sc_ReconcileApiServerNLB c,
      sc_DeleteApiServerLB c, sc_DeleteApiServerNLB c] @
     map fst (networkComponents c) @ map fst (networkDeletions c)"

text \<open>The contract of the interface: no operation writes what belongs to the controller.\<close>

locale scope_client =
  fixes c :: "'w ClusterScopeClient"
  assumes op_id: "m \<in> set (scope_ops c) \<Longrightarrow> keeps same_id m"
begin

lemma single_ops:
  "keeps same_id (sc_SetRegionKey c)" "keeps same_id (sc_ReconcileFailureDomains c)"
  "keeps same_id (sc_ReconcileApiServerLB c)" "keeps same_id (sc_ReconcileApiServerNLB c)"
  "keeps same_id (sc_DeleteApiServerLB c)" "keeps same_id (sc_DeleteApiServerNLB c)"
  by (rule op_id, simp add: scope_ops_def)+

lemma network_op: "x \<in> set (networkComponents c) \<Longrightarrow> keeps same_id (fst x)"
  by (rule op_id) (auto simp: scope_ops_def)

lemma deletion_op: "x \<in> set (networkDeletions c) \<Longrightarrow> keeps same_id (fst x)"
  by (rule op_id) (auto simp: scope_ops_def)

lemma deletions_step: "keeps step_frame (reconcileDeletions k c)"
  unfolding reconcileDeletions_def
  by (intro frame_intros quiet_step [OF get_cluster_quiet] component_step step_frame_po)
    (auto intro!: component_step simp: single_ops dest!: deletion_op)

lemma work_step: "keeps step_frame (reconcileWork k c)"
  unfolding reconcileWork_def
  by (intro frame_intros quiet_step [OF get_cluster_quiet] component_step quiet_step [OF on_fst_quiet] step_frame_po)
    (auto intro!: component_step simp: single_ops dest!: network_op)

lemma work_quiet: "ret_keeps quiet_frame (reconcileWork k c)"
proof -
  note intros = ret_keeps_bind ret_keeps_seq ret_keeps_for component_quiet keeps_ret_keeps [OF get_cluster_quiet]
    keeps_ret_keeps [OF on_fst_quiet] quiet_frame_po keeps_ret_keeps [OF keeps_pure(1)]
  show ?thesis
    unfolding reconcileWork_def
    by (auto intro!: intros simp: single_ops dest!: network_op)
qed

end

lemma clusterScopeClient_ops:
  assumes "m \<in> set (scope_ops (clusterScopeClient cl))"
  shows "keeps same_id m"
  using assms
  by (auto simp: scope_ops_def networkComponents_def networkDeletions_def clusterScopeClient_def
      keeps_ReconcileVCN DeleteVCN_id gateway_deletes_id ReconcileInternetGateway_id ReconcileNatGateway_id
      ReconcileServiceGateway_id route_tables_id security_lists_id subnets_id nsgs_id ReconcileDRG_id DeleteDRG_id
      attachments_id rpcs_id frame_poll_n load_balancers_id SetRegionKey_id ReconcileFailureDomains_id)

interpretation scope: scope_client "clusterScopeClient cl" for cl :: "'w OCIClients"
  by unfold_locales (rule clusterScopeClient_ops)


section \<open>Finalizer and readiness\<close>

abbreviation finalizers_of :: "'w ctrl \<Rightarrow> string list" where
  "finalizers_of x \<equiv> Cluster_Finalizers (CS_OCICluster (fst (fst x)))"

abbreviation ready_of :: "'w ctrl \<Rightarrow> bool" where
  "ready_of x \<equiv> Status_Ready (Cluster_Status (CS_OCICluster (fst (fst x))))"

abbreviation conditions_of :: "'w ctrl \<Rightarrow> Condition list" where
  "conditions_of x \<equiv> Status_Conditions (Cluster_Status (CS_OCICluster (fst (fst x))))"

lemma mod_finalizers_run:
  obtains y where "mod_finalizers f x = (Ret (), y)" "finalizers_of y = f (finalizers_of x)"
    "ready_of y = ready_of x" "conditions_of y = conditions_of x" "snd y = snd x"
  by (rule that [of "snd (mod_finalizers f x)"])
    (auto simp: mod_finalizers_def mod_cluster_def on_fst_def mod_scope_def split: prod.splits)

lemma finish_run:
  obtains y where "go_seq (mod_conditions f) set_ready x = (Ret (), y)" "finalizers_of y = finalizers_of x"
    "ready_of y" "conditions_of y = f (conditions_of x)" "snd y = snd x"
  by (rule that [of "snd (go_seq (mod_conditions f) set_ready x)"])
    (auto simp: mod_conditions_def set_ready_def mod_cluster_def on_fst_def mod_scope_def go_simps split: prod.splits)

lemma step_frameD:
  assumes "step_frame x y" shows "finalizers_of y = finalizers_of x" "ready_of y = ready_of x"
  using assms by (simp_all add: step_frame_def Let_def)

lemma seq_cases:
  assumes "go_seq m n x = (r, y)"
  obtains (first) "m x = (r, y)" "\<And>a. r \<noteq> Ret a" | (second) u z where "m x = (Ret u, z)" "n z = (r, y)"
  using assms by (cases "m x") (auto simp: go_simps split: res.splits)

lemma seq_stopped: "m x = (r, y) \<Longrightarrow> go_seq m n x = (q, z) \<Longrightarrow> (\<And>a. r \<noteq> Ret a) \<Longrightarrow> z = y \<and> (\<forall>a. q \<noteq> Ret a)"
  by (auto simp: go_simps split: res.splits)

text \<open>Work, then the removal of the finalizer; work, then the readiness. Both controllers end in one of these ways.\<close>

lemma finalizer_last_outcome:
  assumes frame: "keeps step_frame m" and run: "go_seq m (mod_finalizers f) x = (r, y)"
  shows "(r = Ret () \<longrightarrow> finalizers_of y = f (finalizers_of x)) \<and> (r \<noteq> Ret () \<longrightarrow> finalizers_of y = finalizers_of x) \<and>
    ready_of y = ready_of x"
proof -
  obtain q z where d: "m x = (q, z)" by (cases "m x")
  note fr = step_frameD [OF keepsD [OF frame d]]
  show ?thesis
  proof (cases "\<exists>a. q = Ret a")
    case True
    obtain y' where "mod_finalizers f z = (Ret (), y')" "finalizers_of y' = f (finalizers_of z)" "ready_of y' = ready_of z"
      by (rule mod_finalizers_run)
    with True d run fr show ?thesis by (auto simp: go_seq_apply)
  next
    case False
    with seq_stopped [OF d run] fr show ?thesis by auto
  qed
qed

lemma ready_outcome:
  assumes frame: "keeps step_frame m" and quiet: "ret_keeps quiet_frame m"
    and run: "go_seq m (go_seq (mod_conditions f) set_ready) x = (r, y)"
  shows "finalizers_of y = finalizers_of x \<and>
    (r = Ret () \<longrightarrow> ready_of y \<and> conditions_of y = f (conditions_of x) \<and>
       (\<exists>ev. snd y = snd x @ ev \<and> (\<forall>e \<in> set ev. Event_Type e = EventTypeNormal))) \<and>
    (r \<noteq> Ret () \<longrightarrow> ready_of y = ready_of x)"
proof -
  obtain q z where d: "m x = (q, z)" by (cases "m x")
  note fr = step_frameD [OF keepsD [OF frame d]]
  show ?thesis
  proof (cases "\<exists>a. q = Ret a")
    case True
    then obtain a where q: "q = Ret a" ..
    obtain y' where e: "go_seq (mod_conditions f) set_ready z = (Ret (), y')" "finalizers_of y' = finalizers_of z" "ready_of y'"
        "conditions_of y' = f (conditions_of z)" "snd y' = snd z"
      by (rule finish_run)
    from run d q e(1) have "r = Ret ()" "y = y'" by (simp_all add: go_seq_apply [of m])
    moreover from ret_keepsD [OF quiet d [unfolded q]] have "quiet_frame x z" .
    ultimately show ?thesis using e fr by (auto simp: quiet_frame_def)
  next
    case False
    with seq_stopped [OF d run] fr show ?thesis by auto
  qed
qed

text \<open>Calls on the scope that return nil one after the other.\<close>

fun in_order :: "('s, unit) go list \<Rightarrow> 's \<Rightarrow> 's \<Rightarrow> bool" where
  "in_order [] s t \<longleftrightarrow> t = s"
| "in_order (m # ms) s t \<longleftrightarrow> (case m s of (Ret _, u) \<Rightarrow> in_order ms u t | _ \<Rightarrow> False)"

lemma in_order_Cons: "in_order (m # ms) s t \<longleftrightarrow> (\<exists>u. m s = (Ret (), u) \<and> in_order ms u t)"
  by (auto split: prod.splits res.splits)

text \<open>What the deletion of a cluster has to delete: the load balancer of the API server, unless the cluster is annotated to manage it itself, and the
  network from the peering down to the VCN and the DRG, unless the spec leaves the network to its user.\<close>

definition apiserver_deletions :: "'w ClusterScopeClient \<Rightarrow> OCICluster \<Rightarrow> ('w, unit) scope_go list" where
  "apiserver_deletions c cluster =
     (if skipApiserverManagement cluster then []
      else if LoadBalancer_LoadBalancerType (NetworkSpec_APIServerLB (Spec_NetworkSpec (Cluster_Spec cluster))) = LoadBalancerTypeLB
      then [sc_DeleteApiServerLB c] else [sc_DeleteApiServerNLB c])"

definition network_deletions :: "'w ClusterScopeClient \<Rightarrow> OCICluster \<Rightarrow> ('w, unit) scope_go list" where
  "network_deletions c cluster =
     (if NetworkSpec_SkipNetworkManagement (Spec_NetworkSpec (Cluster_Spec cluster)) then []
      else [sc_DeleteDRGRPCAttachment c, sc_DeleteDRGVCNAttachment c, sc_DeleteNSGs c, sc_DeleteSubnets c, sc_DeleteRouteTables c,
        sc_DeleteSecurityLists c, sc_DeleteServiceGateway c, sc_DeleteNatGateway c, sc_DeleteInternetGateway c, sc_DeleteVCN c,
        sc_DeleteDRG c])"

definition deletions_succeed :: "'w ClusterScopeClient \<Rightarrow> ClusterScope \<times> 'w \<Rightarrow> ClusterScope \<times> 'w \<Rightarrow> bool" where
  "deletions_succeed c s t \<longleftrightarrow> (\<exists>u. in_order (apiserver_deletions c (CS_OCICluster (fst s))) s u \<and>
     in_order (network_deletions c (CS_OCICluster (fst u))) u t)"

lemma deleteComponent_Ret:
  "deleteComponent k kind m ev reason fail (s, es) = (Ret (), y) \<longleftrightarrow> m s = (Ret (), fst y) \<and> snd y = es"
  by (cases "m s"; cases y; cases "fst (m s)")
    (auto simp: deleteComponent_def go_simps fail_step_fails split: res.splits)

lemma deleteComponent_then:
  "(\<exists>z. deleteComponent k kind m ev reason fail (s, es) = (Ret (), z) \<and> P z) \<longleftrightarrow> (\<exists>u. m s = (Ret (), u) \<and> P (u, es))"
proof
  assume "\<exists>z. deleteComponent k kind m ev reason fail (s, es) = (Ret (), z) \<and> P z"
  then obtain z where "deleteComponent k kind m ev reason fail (s, es) = (Ret (), z)" "P z" by blast
  then show "\<exists>u. m s = (Ret (), u) \<and> P (u, es)" by (cases z) (simp add: deleteComponent_Ret)
next
  assume "\<exists>u. m s = (Ret (), u) \<and> P (u, es)"
  then obtain u where "m s = (Ret (), u)" "P (u, es)" by blast
  then have "deleteComponent k kind m ev reason fail (s, es) = (Ret (), (u, es)) \<and> P (u, es)" by (simp add: deleteComponent_Ret)
  then show "\<exists>z. deleteComponent k kind m ev reason fail (s, es) = (Ret (), z) \<and> P z" ..
qed

lemma deleteComponents_Ret:
  "go_for xs (\<lambda>(m, ev, reason, fail). deleteComponent k kind m ev reason fail) (s, es) = (Ret (), y) \<longleftrightarrow>
     in_order (map fst xs) s (fst y) \<and> snd y = es"
proof (induction xs arbitrary: s)
  case Nil
  then show ?case by (cases y) (auto simp: go_simps)
next
  case (Cons x xs)
  obtain m ev reason fail where x: "x = (m, ev, reason, fail)" by (cases x)
  have "go_for (x # xs) (\<lambda>(m, ev, reason, fail). deleteComponent k kind m ev reason fail) (s, es) = (Ret (), y) \<longleftrightarrow>
      (\<exists>z. deleteComponent k kind m ev reason fail (s, es) = (Ret (), z) \<and>
        go_for xs (\<lambda>(m, ev, reason, fail). deleteComponent k kind m ev reason fail) z = (Ret (), y))"
    by (auto simp: x go_simps split: res.splits prod.splits)
  also have "\<dots> \<longleftrightarrow> (\<exists>u. m s = (Ret (), u) \<and> in_order (map fst xs) u (fst y) \<and> snd y = es)"
    by (simp only: deleteComponent_then Cons.IH)
  finally show ?case unfolding list.map x fst_conv in_order_Cons by blast
qed

context scope_client begin

lemma reconcileDeletions_Ret:
  "reconcileDeletions k c (s, es) = (Ret (), y) \<longleftrightarrow> deletions_succeed c s (fst y) \<and> snd y = es"
proof -
  have lb: "go_bind get_cluster (\<lambda>cluster.
        if skipApiserverManagement cluster then go_ret ()
        else deleteComponent k ''OCICluster''
          (if LoadBalancer_LoadBalancerType (NetworkSpec_APIServerLB (Spec_NetworkSpec (Cluster_Spec cluster)))
              = LoadBalancerTypeLB
           then sc_DeleteApiServerLB c else sc_DeleteApiServerNLB c)
          ''failed to delete Api Server Loadbalancer'' ''APIServerLoadBalancerReconciliationFailed''
          ''failed to delete apiserver LB'') (s, es) = (Ret (), z) \<longleftrightarrow>
      in_order (apiserver_deletions c (CS_OCICluster (fst s))) s (fst z) \<and> snd z = es" for z
    by (cases s; cases z) (auto simp: go_simps get_cluster_def apiserver_deletions_def deleteComponent_Ret in_order_Cons simp del: in_order.simps(2))
  have net: "go_bind get_cluster (\<lambda>cluster.
        if NetworkSpec_SkipNetworkManagement (Spec_NetworkSpec (Cluster_Spec cluster)) then go_ret ()
        else go_for (networkDeletions c) (\<lambda>(m, ev, reason, fail). deleteComponent k ''OCICluster'' m ev reason fail)) (u, es) = (Ret (), y) \<longleftrightarrow>
      in_order (network_deletions c (CS_OCICluster (fst u))) u (fst y) \<and> snd y = es" for u
  proof -
    have "map fst (networkDeletions c) = network_deletions c cluster"
      if "\<not> NetworkSpec_SkipNetworkManagement (Spec_NetworkSpec (Cluster_Spec cluster))" for cluster
      using that by (simp add: networkDeletions_def network_deletions_def)
    then show ?thesis
      by (cases u; cases y) (auto simp: go_bind_apply go_ret_apply get_cluster_def on_fst_apply get_scope_apply deleteComponents_Ret network_deletions_def)
  qed
  show ?thesis (is "?run = (Ret (), y) \<longleftrightarrow> _")
  proof
    assume "?run = (Ret (), y)"
    then show "deletions_succeed c s (fst y) \<and> snd y = es"
      unfolding reconcileDeletions_def deletions_succeed_def
      by (rule seq_cases) (use lb net in \<open>auto, metis prod.collapse\<close>)
  next
    assume "deletions_succeed c s (fst y) \<and> snd y = es"
    then obtain u where "in_order (apiserver_deletions c (CS_OCICluster (fst s))) s u"
      "in_order (network_deletions c (CS_OCICluster (fst u))) u (fst y)" "snd y = es"
      by (auto simp: deletions_succeed_def)
    with lb [of "(u, es)"] net [of u] show "?run = (Ret (), y)"
      unfolding reconcileDeletions_def go_seq_apply by simp
  qed
qed

lemma reconcileDelete_Ret:
  assumes run: "reconcileDelete k c x = (r, y)"
  shows "r = Ret () \<longleftrightarrow> (\<exists>t. deletions_succeed c (fst x) t)"
    and "r = Ret () \<Longrightarrow> \<exists>t. deletions_succeed c (fst x) t \<and> snd (fst y) = snd t \<and> snd y = snd x"
proof -
  obtain s es where x: "x = (s, es)" by (cases x)
  obtain q z where d: "reconcileDeletions k c (s, es) = (q, z)" by (cases "reconcileDeletions k c (s, es)")
  obtain y' where f: "mod_finalizers (kube_RemoveFinalizer k ClusterFinalizer) z = (Ret (), y')" "snd y' = snd z" "snd (fst y') = snd (fst z)"
    by (cases z; cases "fst z") (simp add: mod_finalizers_def mod_cluster_def go_simps)
  have ret: "r = Ret () \<longleftrightarrow> q = Ret ()" "q = Ret () \<Longrightarrow> y = y'"
    using run d f by (auto simp: x reconcileDelete_def go_seq_apply split: res.splits)
  from reconcileDeletions_Ret [of k s es z] d have "q = Ret () \<longleftrightarrow> deletions_succeed c s (fst z) \<and> snd z = es" by auto
  moreover have "q = Ret ()" if "deletions_succeed c s t" for t
    using that reconcileDeletions_Ret [of k s es "(t, es)"] d by auto
  ultimately show "r = Ret () \<longleftrightarrow> (\<exists>t. deletions_succeed c (fst x) t)"
    "r = Ret () \<Longrightarrow> \<exists>t. deletions_succeed c (fst x) t \<and> snd (fst y) = snd t \<and> snd y = snd x"
    unfolding x fst_conv snd_conv using ret f by metis+
qed

lemma reconcileDelete_outcome:
  assumes run: "reconcileDelete k c x = (r, y)"
  shows "(r = Ret () \<longrightarrow> finalizers_of y = kube_RemoveFinalizer k ClusterFinalizer (finalizers_of x)) \<and>
    (r \<noteq> Ret () \<longrightarrow> finalizers_of y = finalizers_of x) \<and> ready_of y = ready_of x"
  using finalizer_last_outcome [OF deletions_step run [unfolded reconcileDelete_def]] .

lemma reconcile_outcome:
  assumes run: "reconcile k c x = (r, y)"
  shows "finalizers_of y = kube_AddFinalizer k ClusterFinalizer (finalizers_of x) \<and>
    (r = Ret () \<longrightarrow> ready_of y \<and> conditions_of y = kube_MarkTrue k ClusterReadyCondition (conditions_of x) \<and>
       (\<exists>ev. snd y = snd x @ ev \<and> (\<forall>e \<in> set ev. Event_Type e = EventTypeNormal))) \<and>
    (r \<noteq> Ret () \<longrightarrow> ready_of y = ready_of x)"
proof -
  obtain x1 where f: "mod_finalizers (kube_AddFinalizer k ClusterFinalizer) x = (Ret (), x1)"
    and x1: "finalizers_of x1 = kube_AddFinalizer k ClusterFinalizer (finalizers_of x)" "ready_of x1 = ready_of x"
      "conditions_of x1 = conditions_of x" "snd x1 = snd x"
    by (rule mod_finalizers_run)
  have "go_seq (reconcileWork k c) (go_seq (mod_conditions (kube_MarkTrue k ClusterReadyCondition)) set_ready) x1 = (r, y)"
    using run f by (simp add: reconcile_def go_seq_apply)
  from ready_outcome [OF work_step work_quiet this] show ?thesis unfolding x1 .
qed

end

text \<open>C1. The finalizer goes last. \<open>reconcileDelete\<close> returns nil exactly when all deletions it has to make return nil one after the other: the
  load balancer of the API server, then peering, network security groups, subnets, route tables, security lists, gateways, the VCN and the DRG,
  less what the object leaves to its user. Then the finalizer has been removed from the cluster object, and the cloud is as the last deletion left
  it; if one of them ends in any other way (an error, a panic, no return), the finalizers are what they were, so the
  object stays until every deletion has succeeded. The readiness is never touched.\<close>

theorem reconcileDelete_finalizer_last:
  assumes "reconcileDelete k (clusterScopeClient cl) x = (r, y)"
  shows "(r = Ret () \<longleftrightarrow> (\<exists>t. deletions_succeed (clusterScopeClient cl) (fst x) t)) \<and>
    (r = Ret () \<longrightarrow> finalizers_of y = kube_RemoveFinalizer k ClusterFinalizer (finalizers_of x) \<and>
       (\<exists>t. deletions_succeed (clusterScopeClient cl) (fst x) t \<and> snd (fst y) = snd t)) \<and>
    (r \<noteq> Ret () \<longrightarrow> finalizers_of y = finalizers_of x) \<and> ready_of y = ready_of x"
  using scope.reconcileDelete_outcome [OF assms] scope.reconcileDelete_Ret [OF assms] by blast

text \<open>C6. Ready means reconciled. \<open>reconcile\<close> puts the finalizer on the object before anything else, whatever happens
  afterwards. It marks the cluster ready, and its condition true, exactly when it returns nil, and then no warning
  has been recorded and no component has touched the conditions; if it fails, the readiness is what it was.\<close>

theorem reconcile_ready:
  assumes "reconcile k (clusterScopeClient cl) x = (r, y)"
  shows "finalizers_of y = kube_AddFinalizer k ClusterFinalizer (finalizers_of x) \<and>
    (r = Ret () \<longrightarrow> ready_of y \<and> conditions_of y = kube_MarkTrue k ClusterReadyCondition (conditions_of x) \<and>
       (\<exists>ev. snd y = snd x @ ev \<and> (\<forall>e \<in> set ev. Event_Type e = EventTypeNormal))) \<and>
    (r \<noteq> Ret () \<longrightarrow> ready_of y = ready_of x)"
  by (rule scope.reconcile_outcome [OF assms])


text \<open>An empty tenancy: lists are empty, nothing is found, nothing can be created.\<close>

definition empty_clients :: "'w OCIClients" where
  "empty_clients =
     \<lparr>cl_Vcn = \<lparr>api_ListVcns = (\<lambda>c n. go_ret []), api_GetVcn = (\<lambda>i. go_throw not_found_err),
        api_CreateVcn = (\<lambda>d t. go_throw quota_err), api_UpdateVcn = (\<lambda>i n. go_throw not_found_err),
        api_DeleteVcn = (\<lambda>i. go_throw not_found_err)\<rparr>,
      cl_Igw = \<lparr>api_ListInternetGateways = (\<lambda>c v n. go_ret []), api_GetInternetGateway = (\<lambda>i. go_throw not_found_err),
        api_CreateInternetGateway = (\<lambda>d. go_throw quota_err), api_DeleteInternetGateway = (\<lambda>i. go_throw not_found_err)\<rparr>,
      cl_Nat = \<lparr>api_ListNatGateways = (\<lambda>c v n. go_ret []), api_GetNatGateway = (\<lambda>i. go_throw not_found_err),
        api_CreateNatGateway = (\<lambda>d. go_throw quota_err), api_UpdateNatGateway = (\<lambda>i t d. go_throw not_found_err),
        api_DeleteNatGateway = (\<lambda>i. go_throw not_found_err)\<rparr>,
      cl_Sgw = \<lparr>api_ListServiceGateways = (\<lambda>c v. go_ret []), api_GetServiceGateway = (\<lambda>i. go_throw not_found_err),
        api_CreateServiceGateway = (\<lambda>d. go_throw quota_err), api_DeleteServiceGateway = (\<lambda>i. go_throw not_found_err),
        api_ListServices = go_ret []\<rparr>,
      cl_Rt = \<lparr>api_ListRouteTables = (\<lambda>c v n. go_ret []), api_GetRouteTable = (\<lambda>i. go_throw not_found_err),
        api_CreateRouteTable = (\<lambda>d. go_throw quota_err), api_DeleteRouteTable = (\<lambda>i. go_throw not_found_err)\<rparr>,
      cl_SecList = \<lparr>api_ListSecurityLists = (\<lambda>c v n. go_ret []), api_GetSecurityList = (\<lambda>i. go_throw not_found_err),
        api_CreateSecurityList = (\<lambda>d. go_throw quota_err), api_UpdateSecurityList = (\<lambda>i d. go_throw not_found_err),
        api_DeleteSecurityList = (\<lambda>i. go_throw not_found_err)\<rparr>,
      cl_Nsg = \<lparr>api_ListNetworkSecurityGroups = (\<lambda>c v n. go_ret []),
        api_GetNetworkSecurityGroup = (\<lambda>i. go_throw not_found_err), api_CreateNetworkSecurityGroup = (\<lambda>d. go_throw quota_err),
        api_UpdateNetworkSecurityGroup = (\<lambda>i n. go_throw not_found_err),
        api_DeleteNetworkSecurityGroup = (\<lambda>i. go_throw not_found_err),
        api_ListNetworkSecurityGroupSecurityRules = (\<lambda>i. go_throw not_found_err),
        api_AddNetworkSecurityGroupSecurityRules = (\<lambda>i r. go_throw not_found_err),
        api_RemoveNetworkSecurityGroupSecurityRules = (\<lambda>i r. go_throw not_found_err)\<rparr>,
      cl_Subnet = \<lparr>api_ListSubnets = (\<lambda>c v n. go_ret []), api_GetSubnet = (\<lambda>i. go_throw not_found_err),
        api_CreateSubnet = (\<lambda>d. go_throw quota_err), api_UpdateSubnet = (\<lambda>i d. go_throw not_found_err),
        api_DeleteSubnet = (\<lambda>i. go_throw not_found_err)\<rparr>,
      cl_Drg = \<lparr>api_GetDrg = (\<lambda>i. go_throw not_found_err), api_ListDrgs = (\<lambda>c p. go_ret ([], None)),
        api_CreateDrg = (\<lambda>d t. go_throw quota_err), api_DeleteDrg = (\<lambda>i. go_throw not_found_err),
        api_GetDrgAttachment = (\<lambda>i. go_throw not_found_err), api_ListDrgAttachments = (\<lambda>r. go_ret []),
        api_CreateDrgAttachment = (\<lambda>d. go_throw quota_err), api_UpdateDrgAttachment = (\<lambda>i t d. go_throw not_found_err),
        api_DeleteDrgAttachment = (\<lambda>i. go_throw not_found_err)\<rparr>,
      cl_Rpc = \<lparr>api_GetRemotePeeringConnection = (\<lambda>i. go_throw not_found_err),
        api_ListRemotePeeringConnections = (\<lambda>d c p. go_ret ([], None)),
        api_CreateRemotePeeringConnection = (\<lambda>d. go_throw quota_err),
        api_UpdateRemotePeeringConnection = (\<lambda>i t d. go_throw not_found_err),
        api_DeleteRemotePeeringConnection = (\<lambda>i. go_throw not_found_err),
        api_ConnectRemotePeeringConnections = (\<lambda>r. go_throw not_found_err)\<rparr>,
      cl_GetOrBuildClient = (\<lambda>r. go_throw not_found_err),
      cl_Lb = \<lparr>api_ListLoadBalancers = (\<lambda>c n p. go_ret ([], None)), api_GetLoadBalancer = (\<lambda>i. go_throw not_found_err),
        api_CreateLoadBalancer = (\<lambda>d t. go_throw quota_err), api_UpdateLoadBalancer = (\<lambda>i d. go_throw not_found_err),
        api_DeleteLoadBalancer = (\<lambda>i. go_throw not_found_err), api_GetLBWorkRequest = (\<lambda>i. go_throw not_found_err),
        api_CreateLBBackend = (\<lambda>i n b t. go_throw not_found_err), api_DeleteLBBackend = (\<lambda>i n b. go_throw not_found_err)\<rparr>,
      cl_Nlb = \<lparr>api_ListNetworkLoadBalancers = (\<lambda>c n. go_ret []), api_GetNetworkLoadBalancer = (\<lambda>i. go_throw not_found_err),
        api_CreateNetworkLoadBalancer = (\<lambda>d t. go_throw quota_err),
        api_UpdateNetworkLoadBalancer = (\<lambda>i n. go_throw not_found_err),
        api_UpdateHealthChecker = (\<lambda>i n h. go_throw not_found_err),
        api_DeleteNetworkLoadBalancer = (\<lambda>i. go_throw not_found_err),
        api_GetNLBWorkRequest = (\<lambda>i. go_throw not_found_err), api_ListNLBWorkRequestErrors = (\<lambda>i c. go_ret []),
        api_CreateNLBBackend = (\<lambda>i n b t. go_throw not_found_err), api_DeleteNLBBackend = (\<lambda>i n b. go_throw not_found_err)\<rparr>,
      cl_Identity = \<lparr>api_ListAvailabilityDomains = (\<lambda>c. go_ret []), api_ListFaultDomains = (\<lambda>c a. go_ret []),
        api_ListRegions = go_ret [\<lparr>Region_Name = Some ''us-phoenix-1'', Region_Key = Some ''PHX''\<rparr>]\<rparr>,
      cl_protocols = sample_mapping, cl_polls = 1, cl_ads = (\<lambda>m. m), cl_ingress = (\<lambda>m. m), cl_egress = (\<lambda>m. m)\<rparr>"

text \<open>Finalizers as a set without duplicates, conditions as one entry per type: instances of the parameters.\<close>

definition sample_kube :: KubeLib where
  "sample_kube = \<lparr>kube_AddFinalizer = List.insert, kube_RemoveFinalizer = removeAll,
     kube_MarkTrue = (\<lambda>t cs. \<lparr>Condition_Type = t, Condition_Status = True, Condition_Severity = [], Condition_Reason = []\<rparr>
       # filter (\<lambda>c. Condition_Type c \<noteq> t) cs),
     kube_MarkFalse = (\<lambda>t r cs. \<lparr>Condition_Type = t, Condition_Status = False, Condition_Severity = ''Error'',
       Condition_Reason = r\<rparr> # filter (\<lambda>c. Condition_Type c \<noteq> t) cs)\<rparr>"

text \<open>A cluster whose network is managed elsewhere; its load balancer is not.\<close>

definition byo_scope :: ClusterScope where
  "byo_scope = sample_scope\<lparr>CS_OCICluster := sample_cluster\<lparr>Cluster_Finalizers := [ClusterFinalizer],
     Cluster_Spec := (Cluster_Spec sample_cluster)\<lparr>Spec_NetworkSpec :=
       sample_network\<lparr>NetworkSpec_SkipNetworkManagement := True\<rparr>\<rparr>\<rparr>\<rparr>"

lemma get_cluster_apply [go_simps]: "get_cluster ((s, w), ev) = (Ret (CS_OCICluster s), ((s, w), ev))"
  by (simp add: get_cluster_def go_simps)

lemma mod_cluster_apply [go_simps]:
  "mod_cluster f ((s, w), ev) = (Ret (), ((s\<lparr>CS_OCICluster := f (CS_OCICluster s)\<rparr>, w), ev))"
  by (simp add: mod_cluster_def go_simps)

lemma record_event_apply [go_simps]:
  "record_event t r m (x, ev) = (Ret (), (x, ev @ [\<lparr>Event_Type = t, Event_Reason = r, Event_Message = m\<rparr>]))"
  by (simp add: record_event_def go_simps)

lemma byo_simps [simp]:
  "CS_OCICluster byo_scope = sample_cluster\<lparr>Cluster_Finalizers := [ClusterFinalizer],
     Cluster_Spec := (Cluster_Spec sample_cluster)\<lparr>Spec_NetworkSpec :=
       sample_network\<lparr>NetworkSpec_SkipNetworkManagement := True\<rparr>\<rparr>\<rparr>"
  "GetNetworkSpec byo_scope = sample_network\<lparr>NetworkSpec_SkipNetworkManagement := True\<rparr>"
  "\<not> skipApiserverManagement (sample_cluster\<lparr>Cluster_Finalizers := fs, Cluster_Spec := sp\<rparr>)"
  by (simp_all add: byo_scope_def accessor_defs skipApiserverManagement_def sample_cluster_def)

lemma byo_delete_run:
  "reconcileDelete sample_kube (clusterScopeClient empty_clients) ((byo_scope, ()), []) =
     (Ret (), ((byo_scope\<lparr>CS_OCICluster := (CS_OCICluster byo_scope)\<lparr>Cluster_Finalizers := []\<rparr>\<rparr>, ()), []))"
proof -
  have "DeleteApiServerNLB p (cl_Nlb empty_clients) (byo_scope, ()) = (Ret (), (byo_scope, ()))" for p
    by (simp add: DeleteApiServerNLB_def delete_found_def GetNetworkLoadBalancers_def empty_clients_def go_simps
        sample_network_def find_owned_def)
  then show ?thesis
    by (simp add: reconcileDelete_def reconcileDeletions_def deleteComponent_def go_simps mod_finalizers_def
        sample_network_def clusterScopeClient_def sample_kube_def)
qed

theorem reconcileDelete_finalizer_last_witness:
  "fst (reconcileDelete sample_kube (clusterScopeClient empty_clients) ((byo_scope, ()), [])) = Ret () \<and>
   finalizers_of (snd (reconcileDelete sample_kube (clusterScopeClient empty_clients) ((byo_scope, ()), []))) = []"
  using reconcileDelete_finalizer_last [OF byo_delete_run]
  unfolding byo_delete_run by simp

lemma byo_reconcile_run:
  fixes w :: 'w
  assumes s: "CS_OCICluster s = (CS_OCICluster byo_scope)\<lparr>Cluster_Finalizers := fs\<rparr>" and fs: "List.insert ClusterFinalizer fs = [ClusterFinalizer]"
  shows "\<exists>e y. reconcile sample_kube (clusterScopeClient empty_clients) ((s, w), []) = (Err e, y)"
proof -
  let ?c = "empty_clients :: 'w OCIClients"
  let ?s = "s\<lparr>CS_OCICluster := CS_OCICluster byo_scope\<rparr>"
  have f: "mod_finalizers (kube_AddFinalizer sample_kube ClusterFinalizer) ((s, w), []) = (Ret (), ((?s, w), []))"
    by (simp add: mod_finalizers_def go_simps sample_kube_def s fs)
  have "\<exists>e y. ReconcileFailureDomains i (cl_Identity ?c) (?s, w) = (Err e, y)" for i
    by (simp add: ReconcileFailureDomains_def setFailureDomains_def setAvailabiltyDomainSpec_def empty_clients_def
        go_simps GetFailureDomains_def GetAvailabilityDomains_def sample_cluster_def)
  then obtain e y where "ReconcileFailureDomains (cl_ads ?c) (cl_Identity ?c) (?s, w) = (Err e, y)"
    by blast
  then have "\<exists>e y. reconcileComponent sample_kube ''OCICluster'' (ReconcileFailureDomains (cl_ads ?c) (cl_Identity ?c))
      n r v ((?s, w), []) = (Err e, y)" for n r v
    by (cases y) (simp add: reconcileComponent_def go_simps fail_step_def mod_conditions_def)
  then obtain e' y' where "reconcileComponent sample_kube ''OCICluster'' (ReconcileFailureDomains (cl_ads ?c) (cl_Identity ?c))
      ''Failure Domain'' ''FailureDomainFailedReconciliationFailed'' ''FailureDomainsReady'' ((?s, w), []) = (Err e', y')"
    by blast
  then show ?thesis
    by (simp add: reconcile_def reconcileWork_def go_seq_apply f go_bind_apply get_cluster_apply go_ret_apply
        clusterScopeClient_def)
qed

theorem reconcile_ready_witness:
  "\<exists>e y. reconcile sample_kube (clusterScopeClient empty_clients) ((byo_scope, ()), []) = (Err e, y) \<and>
    ClusterFinalizer \<in> set (finalizers_of y) \<and> \<not> ready_of y"
proof -
  obtain e y where run: "reconcile sample_kube (clusterScopeClient empty_clients) ((byo_scope, ()), []) = (Err e, y)"
    using byo_reconcile_run [of byo_scope "[ClusterFinalizer]" "()"] by auto
  from reconcile_ready [OF run] have "ClusterFinalizer \<in> set (finalizers_of y) \<and> \<not> ready_of y"
    by (simp add: sample_kube_def sample_cluster_def)
  with run show ?thesis by blast
qed

end
