(* ===== verification/Validation.thy ===== *)
theory Validation
  imports Network_Load_Balancer Go_Net
begin

text \<open>
  The validation of the spec (src/api/v1beta2/validator.go). A function returns the list of field errors, which is
  empty when the input is accepted. An error is its type, its field path and its detail; the offending value, which
  is there for display, is left out. The functions that follow a nil pointer of a list panic; since they
  have no effects, it does not matter when. The \<open>GetMappingHealthCheckProtocolsEnum\<close> of the SDK and the result of
  \<open>regexp.Compile\<close> (the text of its error, if any) are parameters.
\<close>

section \<open>Field errors\<close>

datatype Path_Element = Child string | Index nat

type_synonym field_path = "Path_Element list"

datatype ErrorType = ErrorTypeInvalid | ErrorTypeDuplicate

record FieldError =
  FE_Type :: ErrorType
  FE_Field :: field_path
  FE_Detail :: string

definition field_Invalid :: "field_path \<Rightarrow> string \<Rightarrow> FieldError" where
  "field_Invalid p d = \<lparr>FE_Type = ErrorTypeInvalid, FE_Field = p, FE_Detail = d\<rparr>"

definition field_Duplicate :: "field_path \<Rightarrow> FieldError" where
  "field_Duplicate p = \<lparr>FE_Type = ErrorTypeDuplicate, FE_Field = p, FE_Detail = []\<rparr>"

text \<open>\<open>if b { allErrs = append(allErrs, field.Invalid(p, ..., d)) }\<close>\<close>

definition invalid_if :: "bool \<Rightarrow> field_path \<Rightarrow> string \<Rightarrow> FieldError list" where
  "invalid_if b p d = (if b then [field_Invalid p d] else [])"

lemma invalid_if_Nil [simp]: "invalid_if b p d = [] \<longleftrightarrow> \<not> b"
  by (simp add: invalid_if_def)

lemma invalid_if_False [simp]: "invalid_if False p d = []"
  by simp

section \<open>The health checker\<close>

definition validatePayload :: "string \<Rightarrow> string option \<Rightarrow> field_path \<Rightarrow> FieldError list" where
  "validatePayload name value fldPath = (case value of
      None \<Rightarrow> []
    | Some v \<Rightarrow> (case DecodeString (TrimSpace v) of
        None \<Rightarrow> [field_Invalid (fldPath @ [Child name]) (name @ '' must be base64 encoded: '' @ Error corrupt_base64)]
      | Some decoded \<Rightarrow> invalid_if (length decoded > 1024) (fldPath @ [Child name])
          (name @ '' payload must not exceed 1024 bytes before base64 encoding'')))"

text \<open>The protocol that the checks after it use, and the error when the text names none.\<close>

definition validateProtocol ::
  "protocol_mapping \<Rightarrow> string option \<Rightarrow> field_path \<Rightarrow> HealthCheckProtocols \<times> FieldError list" where
  "validateProtocol mapping p fldPath = (case trimmed p of
      None \<Rightarrow> (HCHttps, [])
    | Some t \<Rightarrow> (case mapping (ToUpper t) of
        Some enum \<Rightarrow> (enum, [])
      | None \<Rightarrow> (HCHttps, [field_Invalid (fldPath @ [Child ''protocol''])
          ''protocol must be one of HTTP, HTTPS, TCP, or UDP''])))"

definition regexErrors :: "(string \<Rightarrow> string option) \<Rightarrow> string option \<Rightarrow> field_path \<Rightarrow> FieldError list" where
  "regexErrors regexp_Compile r fldPath = (case r of
      None \<Rightarrow> []
    | Some v \<Rightarrow> (case regexp_Compile v of
        None \<Rightarrow> []
      | Some err \<Rightarrow> [field_Invalid (fldPath @ [Child ''responseBodyRegex'']) (''invalid responseBodyRegex: '' @ err)]))"

definition validateHealthChecker ::
  "protocol_mapping \<Rightarrow> (string \<Rightarrow> string option) \<Rightarrow> HealthChecker \<Rightarrow> field_path \<Rightarrow> FieldError list" where
  "validateHealthChecker mapping regexp_Compile hc fldPath =
     (let (protocol, protocolErrs) = validateProtocol mapping (HealthChecker_Protocol hc) fldPath in
      protocolErrs @
      (case HealthChecker_Port hc of None \<Rightarrow> [] | Some v \<Rightarrow>
         invalid_if (v < 1 \<or> v > 65535) (fldPath @ [Child ''port'']) ''port must be between 1 and 65535'') @
      (case HealthChecker_IntervalInMillis hc of None \<Rightarrow> [] | Some v \<Rightarrow>
         invalid_if (v \<le> 0) (fldPath @ [Child ''intervalInMillis'']) ''intervalInMillis must be greater than 0'') @
      (case HealthChecker_TimeoutInMillis hc of None \<Rightarrow> [] | Some v \<Rightarrow>
         invalid_if (v \<le> 0) (fldPath @ [Child ''timeoutInMillis'']) ''timeoutInMillis must be greater than 0'') @
      (case HealthChecker_Retries hc of None \<Rightarrow> [] | Some v \<Rightarrow>
         invalid_if (v \<le> 0) (fldPath @ [Child ''retries'']) ''retries must be greater than 0'') @
      (case HealthChecker_UrlPath hc of None \<Rightarrow> [] | Some v \<Rightarrow>
         invalid_if (\<not> HasPrefix v ''/'') (fldPath @ [Child ''urlPath'']) (''urlPath must start with '' @ [CHR 0x27] @ ''/'' @ [CHR 0x27])) @
      (case HealthChecker_ReturnCode hc of None \<Rightarrow> [] | Some v \<Rightarrow>
         invalid_if (v < 100 \<or> v > 599) (fldPath @ [Child ''returnCode'']) ''returnCode must be between 100 and 599'') @
      (if protocol = HCHttp \<or> protocol = HCHttps then
         regexErrors regexp_Compile (HealthChecker_ResponseBodyRegex hc) fldPath @
         invalid_if (HealthChecker_RequestData hc \<noteq> None) (fldPath @ [Child ''requestData''])
           ''requestData is only supported for TCP/UDP health checks'' @
         invalid_if (HealthChecker_ResponseData hc \<noteq> None) (fldPath @ [Child ''responseData''])
           ''responseData is only supported for TCP/UDP health checks''
       else if protocol = HCTcp \<or> protocol = HCUdp then
         invalid_if (HealthChecker_UrlPath hc \<noteq> None) (fldPath @ [Child ''urlPath''])
           ''urlPath is only supported for HTTP and HTTPS health checks'' @
         invalid_if (HealthChecker_ReturnCode hc \<noteq> None) (fldPath @ [Child ''returnCode''])
           ''returnCode is only supported for HTTP and HTTPS health checks'' @
         invalid_if (HealthChecker_ResponseBodyRegex hc \<noteq> None) (fldPath @ [Child ''responseBodyRegex''])
           ''responseBodyRegex is only supported for HTTP and HTTPS health checks'' @
         invalid_if (protocol = HCUdp \<and> HealthChecker_RequestData hc = None) (fldPath @ [Child ''requestData''])
           ''requestData is required for UDP health checks'' @
         invalid_if (protocol = HCUdp \<and> HealthChecker_ResponseData hc = None) (fldPath @ [Child ''responseData''])
           ''responseData is required for UDP health checks'' @
         validatePayload ''requestData'' (HealthChecker_RequestData hc) fldPath @
         validatePayload ''responseData'' (HealthChecker_ResponseData hc) fldPath
       else []))"

section \<open>Texts\<close>

definition ValidOcid :: "string \<Rightarrow> bool" where
  "ValidOcid ocid \<longleftrightarrow> length ocid \<ge> 4 \<and> take 4 ocid = ''ocid''"

definition validShape :: "string \<Rightarrow> bool" where
  "validShape shape \<longleftrightarrow> length shape > 0"

text \<open>The class \<open>\s\<close> of the package \<open>regexp\<close>, which has no vertical tab.\<close>

definition invalidNameRegex :: "string \<Rightarrow> bool" where
  "invalidNameRegex s \<longleftrightarrow> list_ex (\<lambda>c. (of_char c :: nat) \<in> {9, 10, 12, 13, 32}) s"

definition ValidRegion :: "string \<Rightarrow> bool" where
  "ValidRegion stringRegion =
     (if stringRegion = [] then True else if invalidNameRegex stringRegion then False else True)"

definition name_char :: "char \<Rightarrow> bool" where
  "name_char c \<longleftrightarrow> is_digit c \<or> (97 \<le> (of_char c :: nat) \<and> (of_char c :: nat) \<le> 122)"

text \<open>\<open>^[a-z0-9][a-z0-9-]{0,42}[a-z0-9]$\<close>\<close>

definition clusterNameRegex :: "string \<Rightarrow> bool" where
  "clusterNameRegex s \<longleftrightarrow> 2 \<le> length s \<and> length s \<le> 44 \<and> name_char (hd s) \<and> name_char (last s) \<and>
     list_all (\<lambda>c. name_char c \<or> c = CHR ''-'') (butlast (tl s))"

definition ValidateClusterName :: "string \<Rightarrow> FieldError list" where
  "ValidateClusterName name = invalid_if (\<not> clusterNameRegex name) [Child ''metadata'', Child ''Name'']
     (''Cluster Name doesn't match regex '' @ ''^[a-z0-9][a-z0-9-]{0,42}[a-z0-9]$'' @
      '', can contain only lowercase alphanumeric characters and '-', must start/end with an alphanumeric character'')"

section \<open>Address blocks\<close>

text \<open>The network that \<open>net.ParseCIDR\<close> returns beside the address, and \<open>net.IPNet.Contains\<close>: the leading bits
  that the mask selects agree. An address in IPv4-mapped form is compared as an IPv4 address; a network in that form
  has a mask of 4 bytes, or one of 16 bytes whose first 12 are dropped. A nil address is in no network.\<close>

record IPNet =
  IPNet_IP :: "nat list"
  IPNet_V4Mask :: bool
  IPNet_Ones :: nat

definition ParseCIDRNet :: "string \<Rightarrow> IPNet option" where
  "ParseCIDRNet s = (case ParseCIDR s of
      None \<Rightarrow> None
    | Some ip \<Rightarrow> (case parseAddr (takeWhile (\<lambda>c. c \<noteq> CHR ''/'') s) of
        None \<Rightarrow> None
      | Some (v4, _) \<Rightarrow> Some \<lparr>IPNet_IP = ip, IPNet_V4Mask = v4,
          IPNet_Ones = nat (digits_val (tl (dropWhile (\<lambda>c. c \<noteq> CHR ''/'') s)))\<rparr>))"

definition ip_val :: "nat list \<Rightarrow> nat" where
  "ip_val gs = foldl (\<lambda>acc g. acc * 65536 + g) 0 gs"

definition isIPv4 :: "nat list \<Rightarrow> bool" where
  "isIPv4 gs \<longleftrightarrow> take 6 gs = [0, 0, 0, 0, 0, 65535]"

text \<open>The network number is masked, so a mapped network with a mask shorter than 96 bits is no IPv4 network.\<close>

definition netBits :: "IPNet \<Rightarrow> nat" where
  "netBits n = (if IPNet_V4Mask n \<or> (isIPv4 (IPNet_IP n) \<and> IPNet_Ones n \<ge> 96) then 32 else 128)"

definition netOnes :: "IPNet \<Rightarrow> nat" where
  "netOnes n = (if IPNet_V4Mask n then IPNet_Ones n
     else if isIPv4 (IPNet_IP n) \<and> IPNet_Ones n \<ge> 96 then IPNet_Ones n - 96 else IPNet_Ones n)"

definition net_addr :: "nat \<Rightarrow> nat list \<Rightarrow> nat" where
  "net_addr bits gs = ip_val gs mod 2 ^ bits"

definition IPNet_Contains :: "IPNet \<Rightarrow> nat list option \<Rightarrow> bool" where
  "IPNet_Contains n p = (case p of
      None \<Rightarrow> False
    | Some ip \<Rightarrow>
        (if isIPv4 ip then 32 else 128) = netBits n \<and>
        net_addr (netBits n) ip div 2 ^ (netBits n - netOnes n) =
        net_addr (netBits n) (IPNet_IP n) div 2 ^ (netBits n - netOnes n))"

definition validateVCNCIDR :: "string \<Rightarrow> field_path \<Rightarrow> FieldError list" where
  "validateVCNCIDR vncCIDR fldPath = invalid_if (ParseCIDR vncCIDR = None) fldPath ''invalid CIDR format''"

definition validateCIDR :: "string option \<Rightarrow> field_path \<Rightarrow> string \<Rightarrow> FieldError list" where
  "validateCIDR cidr fldPath errorMsg = invalid_if (ParseCIDR (DerefString cidr) = None) fldPath errorMsg"

definition validateSubnetCIDR :: "string \<Rightarrow> string \<Rightarrow> field_path \<Rightarrow> FieldError list" where
  "validateSubnetCIDR subnetCidr vcnCidr fldPath =
     (if length subnetCidr > 0 then
        let subnetCidrIP = ParseCIDR subnetCidr in
        invalid_if (subnetCidrIP = None) fldPath ''invalid CIDR format'' @
        (if length vcnCidr > 0 then
           invalid_if (\<not> (case ParseCIDRNet vcnCidr of None \<Rightarrow> False | Some n \<Rightarrow> IPNet_Contains n subnetCidrIP)) fldPath
             (''subnet CIDR not in VCN address space: '' @ vcnCidr)
         else [])
      else [])"

section \<open>Security rules of network security groups\<close>

definition validatePortRange :: "PortRange \<Rightarrow> field_path \<Rightarrow> string \<Rightarrow> string \<Rightarrow> FieldError list" where
  "validatePortRange portRange fldPath maxMsg minMsg =
     invalid_if (PortRange_Max portRange = None) fldPath maxMsg @
     invalid_if (PortRange_Min portRange = None) fldPath minMsg"

text \<open>The message formats, applied to the type of the rules.\<close>

definition ruleMsg :: "string \<Rightarrow> string \<Rightarrow> string" where
  "ruleMsg rulesType what = ''invalid '' @ rulesType @ '': '' @ what"

definition portRangeErrors :: "string \<Rightarrow> field_path \<Rightarrow> string \<Rightarrow> PortRange option \<Rightarrow> FieldError list" where
  "portRangeErrors rulesType fldPath what p = (case p of
      None \<Rightarrow> []
    | Some r \<Rightarrow> validatePortRange r fldPath
        (ruleMsg rulesType (what @ '' Max may not be empty'')) (ruleMsg rulesType (what @ '' Min may not be empty'')))"

definition udpErrors :: "string \<Rightarrow> field_path \<Rightarrow> UdpOptions option \<Rightarrow> FieldError list" where
  "udpErrors rulesType rulePath p = (case p of
      None \<Rightarrow> []
    | Some udpOptions \<Rightarrow>
        portRangeErrors rulesType (rulePath @ [Child ''udpOptions'', Child ''destinationPortRange''])
          ''UdpOptions DestinationPortRange'' (UdpOptions_DestinationPortRange udpOptions) @
        portRangeErrors rulesType (rulePath @ [Child ''udpOptions'', Child ''sourcePortRange''])
          ''UdpOptions SourcePortRange'' (UdpOptions_SourcePortRange udpOptions))"

definition tcpErrors :: "string \<Rightarrow> field_path \<Rightarrow> TcpOptions option \<Rightarrow> FieldError list" where
  "tcpErrors rulesType rulePath p = (case p of
      None \<Rightarrow> []
    | Some tcpOptions \<Rightarrow>
        portRangeErrors rulesType (rulePath @ [Child ''tcpOptions'', Child ''destinationPortRange''])
          ''TcpOptions DestinationPortRange'' (TcpOptions_DestinationPortRange tcpOptions) @
        portRangeErrors rulesType (rulePath @ [Child ''tcpOptions'', Child ''sourcePortRange''])
          ''TcpOptions SourcePortRange'' (TcpOptions_SourcePortRange tcpOptions))"

definition icmpErrors :: "string \<Rightarrow> field_path \<Rightarrow> IcmpOptions option \<Rightarrow> FieldError list" where
  "icmpErrors rulesType rulePath p = (case p of
      None \<Rightarrow> []
    | Some opts \<Rightarrow> invalid_if (IcmpOptions_Type opts = None) (rulePath @ [Child ''icmpOptions'', Child ''type''])
        (ruleMsg rulesType ''IcmpOptions Type may not be empty''))"

definition egressRuleErrors :: "field_path \<Rightarrow> EgressSecurityRuleForNSG \<Rightarrow> FieldError list" where
  "egressRuleErrors rulePath rule =
     udpErrors ''egressRules'' rulePath (Egress_UdpOptions rule) @
     tcpErrors ''egressRules'' rulePath (Egress_TcpOptions rule) @
     icmpErrors ''egressRules'' rulePath (Egress_IcmpOptions rule) @
     invalid_if (Egress_DestinationType rule \<noteq> ServiceCidrBlockType \<and> Egress_Destination rule = None)
       (rulePath @ [Child ''destination'']) (ruleMsg ''egressRules'' ''Destination may not be empty'') @
     invalid_if (Egress_Protocol rule = None) (rulePath @ [Child ''protocol''])
       (ruleMsg ''egressRules'' ''Protocol may not be empty'') @
     (if Egress_DestinationType rule = CidrBlockType \<and> Egress_Destination rule \<noteq> None
      then validateCIDR (Egress_Destination rule) (rulePath @ [Child ''destination''])
        (ruleMsg ''egressRules'' ''CIDR format'')
      else [])"

definition validateEgressSecurityRuleForNSG :: "EgressSecurityRuleForNSG list \<Rightarrow> field_path \<Rightarrow> FieldError list" where
  "validateEgressSecurityRuleForNSG egressRules fldPath =
     concat (map (\<lambda>(i, r). egressRuleErrors (fldPath @ [Index i]) r) (enumerate 0 egressRules))"

definition ingressRuleErrors :: "field_path \<Rightarrow> IngressSecurityRuleForNSG \<Rightarrow> FieldError list" where
  "ingressRuleErrors rulePath rule =
     udpErrors ''ingressRules'' rulePath (Ingress_UdpOptions rule) @
     tcpErrors ''ingressRules'' rulePath (Ingress_TcpOptions rule) @
     icmpErrors ''ingressRules'' rulePath (Ingress_IcmpOptions rule) @
     invalid_if (Ingress_SourceType rule \<noteq> ServiceCidrBlockType \<and> Ingress_Source rule = None)
       (rulePath @ [Child ''source'']) (ruleMsg ''ingressRules'' ''Source may not be empty'') @
     invalid_if (Ingress_Protocol rule = None) (rulePath @ [Child ''protocol''])
       (ruleMsg ''ingressRules'' ''Protocol may not be empty'') @
     (if Ingress_SourceType rule = CidrBlockType \<and> Ingress_Source rule \<noteq> None
      then validateCIDR (Ingress_Source rule) (rulePath @ [Child ''source''])
        (ruleMsg ''ingressRules'' ''CIDR format'')
      else [])"

definition validateIngressSecurityRuleForNSG :: "IngressSecurityRuleForNSG list \<Rightarrow> field_path \<Rightarrow> FieldError list" where
  "validateIngressSecurityRuleForNSG ingressRules fldPath =
     concat (map (\<lambda>(i, r). ingressRuleErrors (fldPath @ [Index i]) r) (enumerate 0 ingressRules))"

section \<open>Roles, subnets, groups\<close>

definition validateRole :: "Role list \<Rightarrow> Role \<Rightarrow> field_path \<Rightarrow> string \<Rightarrow> FieldError option" where
  "validateRole validRoles subnetRole fldPath errorMsg =
     (if list_ex (\<lambda>role. subnetRole = role) validRoles then None else Some (field_Invalid fldPath errorMsg))"

definition validateSubnetName :: "string \<Rightarrow> field_path \<Rightarrow> FieldError option" where
  "validateSubnetName name fldPath =
     (if length name > 0 \<and> (invalidNameRegex name \<or> name = []) then Some (field_Invalid fldPath ''subnet name invalid'')
      else None)"

definition opt_list :: "'a option \<Rightarrow> 'a list" where
  "opt_list p = (case p of None \<Rightarrow> [] | Some x \<Rightarrow> [x])"

lemma opt_list_Nil [simp]: "opt_list p = [] \<longleftrightarrow> p = None"
  by (simp add: opt_list_def split: option.split)

fun validateSubnetsLoop ::
  "Role list \<Rightarrow> string \<Rightarrow> field_path \<Rightarrow> nat \<Rightarrow> string set \<Rightarrow> Subnet list \<Rightarrow> FieldError list" where
  "validateSubnetsLoop validRoles vcnCidr fldPath i subnetNames [] = []"
| "validateSubnetsLoop validRoles vcnCidr fldPath i subnetNames (subnet # subnets) =
     opt_list (validateSubnetName (Subnet_Name subnet) (fldPath @ [Index i, Child ''name''])) @
     (if length (Subnet_Name subnet) > 0 \<and> Subnet_Name subnet \<in> subnetNames then [field_Duplicate fldPath] else []) @
     opt_list (validateRole validRoles (Subnet_Role subnet) (fldPath @ [Index i, Child ''role'']) ''subnet role invalid'') @
     validateSubnetCIDR (Subnet_CIDR subnet) vcnCidr (fldPath @ [Index i, Child ''cidr'']) @
     validateSubnetsLoop validRoles vcnCidr fldPath (Suc i)
       (if length (Subnet_Name subnet) > 0 then insert (Subnet_Name subnet) subnetNames else subnetNames) subnets"

definition validateSubnets :: "Role list \<Rightarrow> Subnet option list \<Rightarrow> VCN \<Rightarrow> field_path \<Rightarrow> FieldError list res" where
  "validateSubnets validRoles subnets vcn fldPath =
     (if None \<in> set subnets then Panic
      else Ret (validateSubnetsLoop validRoles (VCN_CIDR vcn) fldPath 0 {} (map the subnets)))"

definition nsgErrors :: "Role list \<Rightarrow> field_path \<Rightarrow> nat \<Rightarrow> NSG \<Rightarrow> FieldError list" where
  "nsgErrors validRoles fldPath i nsg =
     opt_list (validateRole validRoles (NSG_Role nsg) (fldPath @ [Index i, Child ''role'']) ''networkSecurityGroup role invalid'') @
     validateEgressSecurityRuleForNSG (NSG_EgressRules nsg) (fldPath @ [Index i, Child ''egressRules'']) @
     validateIngressSecurityRuleForNSG (NSG_IngressRules nsg) (fldPath @ [Index i, Child ''ingressRules''])"

definition validateNSGs :: "Role list \<Rightarrow> NSG option list \<Rightarrow> field_path \<Rightarrow> FieldError list res" where
  "validateNSGs validRoles networkSecurityGroups fldPath =
     (if None \<in> set networkSecurityGroups then Panic
      else Ret (concat (map (\<lambda>(i, nsg). nsgErrors validRoles fldPath i nsg) (enumerate 0 (map the networkSecurityGroups)))))"

section \<open>The network spec\<close>

text \<open>Concatenation of error lists either of which may panic.\<close>

definition res_append :: "'a list res \<Rightarrow> 'a list res \<Rightarrow> 'a list res" where
  "res_append x y = (case x of Ret a \<Rightarrow> (case y of Ret b \<Rightarrow> Ret (a @ b) | r \<Rightarrow> r) | r \<Rightarrow> r)"

lemma res_append_Nil: "res_append x y = Ret [] \<longleftrightarrow> x = Ret [] \<and> y = Ret []"
  by (auto simp: res_append_def split: res.splits)

lemma res_append_Ret [simp]: "res_append (Ret a) (Ret b) = Ret (a @ b)"
  by (simp add: res_append_def)

text \<open>\<open>old\<close> is not used by the function.\<close>

definition ValidateNetworkSpec ::
  "protocol_mapping \<Rightarrow> (string \<Rightarrow> string option) \<Rightarrow> Role list \<Rightarrow> NetworkSpec \<Rightarrow> field_path \<Rightarrow> FieldError list res" where
  "ValidateNetworkSpec mapping regexp_Compile validRoles networkSpec fldPath =
     (let vcn = NetworkSpec_Vcn networkSpec; lb = NetworkSpec_APIServerLB networkSpec in
      res_append (Ret (if length (VCN_CIDR vcn) > 0 then validateVCNCIDR (VCN_CIDR vcn) (fldPath @ [Child ''cidr'']) else []))
     (res_append (validateSubnets validRoles (VCN_Subnets vcn) vcn (fldPath @ [Child ''subnets'']))
     (res_append (validateNSGs validRoles (NetworkSecurityGroup_List (VCN_NetworkSecurityGroup vcn))
        (fldPath @ [Child ''networkSecurityGroups'']))
     (Ret (validateHealthChecker mapping regexp_Compile (specHealthChecker lb) (fldPath @ [Child ''apiServerLoadBalancer'',
         Child ''nlbSpec'', Child ''backendSetDetails'', Child ''healthChecker'']) @
       invalid_if (LoadBalancer_NetworkVisibility lb = LBNetworkVisibilityPublic \<and>
           list_ex (\<lambda>p. case p of None \<Rightarrow> False | Some subnet \<Rightarrow>
             Subnet_Role subnet = ControlPlaneEndpointRole \<and> Subnet_Type subnet = Private) (VCN_Subnets vcn))
         (fldPath @ [Child ''apiServerLoadBalancer'', Child ''networkVisibility''])
         (''cannot set networkVisibility to Public when the control-plane-endpoint subnet is Private; '' @
          ''OCI does not allow a public load balancer on a private subnet''))))))"


section \<open>Block volumes\<close>

record AutotunePolicy =
  AutotunePolicy_AutotuneType :: string
  AutotunePolicy_MaxVPUsPerGB :: "int option"

record BlockVolumeSpec =
  BlockVolumeSpec_CompartmentId :: "string option"
  BlockVolumeSpec_DisplayName :: "string option"
  BlockVolumeSpec_VpusPerGB :: "int option"
  BlockVolumeSpec_SizeInGBs :: "int option"
  BlockVolumeSpec_AutotunePolicies :: "AutotunePolicy list option"
  BlockVolumeSpec_VolumeType :: string

abbreviation IscsiType :: string where "IscsiType \<equiv> ''iscsi''"
abbreviation ParavirtualizedType :: string where "ParavirtualizedType \<equiv> ''paravirtualized''"

text \<open>The zero value; \<open>reflect.DeepEqual\<close> tells a nil slice from an empty one.\<close>

definition emptyBlockVolumeSpec :: BlockVolumeSpec where
  "emptyBlockVolumeSpec = \<lparr>BlockVolumeSpec_CompartmentId = None, BlockVolumeSpec_DisplayName = None,
     BlockVolumeSpec_VpusPerGB = None, BlockVolumeSpec_SizeInGBs = None, BlockVolumeSpec_AutotunePolicies = None,
     BlockVolumeSpec_VolumeType = []\<rparr>"

definition autotuneErrors :: "field_path \<Rightarrow> AutotunePolicy \<Rightarrow> FieldError list" where
  "autotuneErrors fldPath p =
     (let ty = AutotunePolicy_AutotuneType p; vpus = AutotunePolicy_MaxVPUsPerGB p in
      invalid_if (ty = ''PERFORMANCE_BASED'' \<and> vpus = None) fldPath
        ''MaxVPUsPerGB should be specified for AutotuneType of type PERFORMANCE_BASED'' @
      invalid_if (ty = ''DETACHED_VOLUME'' \<and> vpus \<noteq> None) fldPath
        ''MaxVPUsPerGB should not be specified for AutotuneType of type DETACHED_VOLUME'' @
      invalid_if (ty \<noteq> ''DETACHED_VOLUME'' \<and> ty \<noteq> ''PERFORMANCE_BASED'') fldPath
        ''AutotuneType of type unknown. Available types are PERFORMANCE_BASED or DETACHED_VOLUME'')"

definition ValidateBlockVolumeSpec :: "BlockVolumeSpec \<Rightarrow> field_path \<Rightarrow> FieldError list" where
  "ValidateBlockVolumeSpec spec fldPath =
     (if spec \<noteq> emptyBlockVolumeSpec then
        invalid_if (BlockVolumeSpec_DisplayName spec = None) fldPath ''DisplayName for BlockVolumeSpec not specified'' @
        (case BlockVolumeSpec_AutotunePolicies spec of
           Some (p # ps) \<Rightarrow> concat (map (autotuneErrors fldPath) (p # ps))
         | _ \<Rightarrow> [field_Invalid fldPath
             ''AutotunePolicies field in BlockVolumeSpec should be specified and have at least one autotunePolicy in it'']) @
        invalid_if (BlockVolumeSpec_VolumeType spec \<noteq> ParavirtualizedType \<and> BlockVolumeSpec_VolumeType spec \<noteq> IscsiType) fldPath
          ''VolumeType field of BlockVolumeSpec should be of type paravirtualized or iscsi''
      else [])"

section \<open>What is accepted\<close>

lemma concat_enumerate_Nil:
  "concat (map (\<lambda>(i, x). f i x) (enumerate n xs)) = [] \<longleftrightarrow> (\<forall>i < length xs. f (n + i) (xs ! i) = [])"
proof (induction xs arbitrary: n)
  case (Cons x xs)
  show ?case
    using Cons [of "Suc n"] by (simp add: All_less_Suc2 del: concat_eq_Nil_conv)
qed simp

lemma validateRole_None [simp]: "validateRole roles r p m = None \<longleftrightarrow> r \<in> set roles"
  by (auto simp: validateRole_def list_ex_iff)

lemma validateSubnetName_None [simp]: "validateSubnetName n p = None \<longleftrightarrow> \<not> invalidNameRegex n"
  by (auto simp: validateSubnetName_def invalidNameRegex_def)

text \<open>What the error list says of a subnet does not depend on where it is reported.\<close>

lemma validateSubnetCIDR_path:
  "validateSubnetCIDR c v p = [] \<longleftrightarrow> validateSubnetCIDR c v q = []"
  by (simp add: validateSubnetCIDR_def Let_def)

lemma validateSubnetsLoop_Nil:
  "validateSubnetsLoop roles v p i names ss = [] \<longleftrightarrow>
     distinct (filter (\<lambda>n. n \<noteq> []) (map Subnet_Name ss)) \<and>
     (\<forall>n \<in> set (map Subnet_Name ss). n \<noteq> [] \<longrightarrow> n \<notin> names) \<and>
     (\<forall>x \<in> set ss. \<not> invalidNameRegex (Subnet_Name x) \<and> Subnet_Role x \<in> set roles \<and>
        validateSubnetCIDR (Subnet_CIDR x) v [] = [])"
proof (induction ss arbitrary: i names)
  case (Cons x ss)
  show ?case
    using validateSubnetCIDR_path [of "Subnet_CIDR x" v "p @ [Index i, Child ''cidr'']" "[]"]
    by (auto simp: Cons.IH) (metis image_eqI)
qed simp

lemma None_notin_map_Some: "None \<notin> set ps \<longleftrightarrow> (\<exists>xs. ps = map Some xs)"
  by (metis (no_types, lifting) ex_map_conv imageE list.set_map not_None_eq option.distinct(1))

text \<open>The validation of the subnets accepts exactly the lists without nil entries in which the names that are
  given are distinct and without white space, every role is a valid one, and every address block that is given is
  well formed and starts inside the block of the VCN.\<close>

theorem validateSubnets_accepts_iff:
  "validateSubnets roles ps vcn p = Ret [] \<longleftrightarrow>
     (\<exists>ss. ps = map Some ss \<and> distinct (filter (\<lambda>n. n \<noteq> []) (map Subnet_Name ss)) \<and>
       (\<forall>x \<in> set ss. \<not> invalidNameRegex (Subnet_Name x) \<and> Subnet_Role x \<in> set roles \<and>
          validateSubnetCIDR (Subnet_CIDR x) (VCN_CIDR vcn) [] = []))"
proof (cases "None \<in> set ps")
  case True
  then show ?thesis by (auto simp: validateSubnets_def)
next
  case False
  then obtain ss where ps: "ps = map Some ss" by (auto simp: None_notin_map_Some)
  then have "map the ps = ss" by (simp add: comp_def)
  with False ps show ?thesis
    by (auto simp: validateSubnets_def validateSubnetsLoop_Nil inj_map_eq_map [OF inj_Some])
qed


subsection \<open>Containment of address blocks\<close>

lemma div_eq_interval: "x div m = y div m \<longleftrightarrow> y div m * m \<le> x \<and> x < y div m * m + m" if "m > 0" for x y m :: nat
proof
  assume "x div m = y div m"
  with that show "y div m * m \<le> x \<and> x < y div m * m + m"
    by (metis div_mult_mod_eq le_add1 mod_less_divisor nat_add_left_cancel_less)
next
  assume h: "y div m * m \<le> x \<and> x < y div m * m + m"
  then have "x = y div m * m + (x - y div m * m)" "x - y div m * m < m" by auto
  then show "x div m = y div m"
    by (metis add.commute div_mult_self3 div_less add_0 that neq0_conv)
qed

definition net_base :: "IPNet \<Rightarrow> nat" where
  "net_base n = net_addr (netBits n) (IPNet_IP n) div 2 ^ (netBits n - netOnes n) * 2 ^ (netBits n - netOnes n)"

definition net_size :: "IPNet \<Rightarrow> nat" where
  "net_size n = 2 ^ (netBits n - netOnes n)"

text \<open>Evaluation on IPv4 texts.\<close>

lemmas cidr4_eval = cidr_eval parseIPv4Fields_def parse_octet_def

lemma parse_default_cidrs:
  "ParseCIDR ''10.0.0.0/16'' = Some [0, 0, 0, 0, 0, 65535, 2560, 0]"
  "ParseCIDR ''10.0.0.8/29'' = Some [0, 0, 0, 0, 0, 65535, 2560, 8]"
  "ParseCIDR ''10.0.0.0/29'' = Some [0, 0, 0, 0, 0, 65535, 2560, 0]"
  "ParseCIDR ''10.0.64.0/20'' = Some [0, 0, 0, 0, 0, 65535, 2560, 16384]"
  "ParseCIDR ''10.0.0.32/27'' = Some [0, 0, 0, 0, 0, 65535, 2560, 32]"
  "ParseCIDR ''0.0.0.0/0'' = Some [0, 0, 0, 0, 0, 65535, 0, 0]"
  by (simp_all add: cidr4_eval)

lemma parse_default_net:
  "ParseCIDRNet ''10.0.0.0/16'' = Some \<lparr>IPNet_IP = [0, 0, 0, 0, 0, 65535, 2560, 0], IPNet_V4Mask = True, IPNet_Ones = 16\<rparr>"
  by (simp add: ParseCIDRNet_def parse_default_cidrs) (simp add: cidr4_eval)

lemmas net_eval = isIPv4_def netBits_def netOnes_def net_addr_def ip_val_def IPNet_Contains_def net_base_def net_size_def

text \<open>C37. What the check of a subnet's block compares. An empty text is accepted; any other must be well formed, and then, if the VCN has a
  block, that must be well formed and of the same address family, and the address as it is written in front of the slash, as a number, must
  lie in the interval of addresses of the VCN's block. This is all: the length of the subnet's prefix is not looked at. So \<open>10.1.0.0/8\<close>
  is accepted in the VCN \<open>10.1.0.0/16\<close>, although it is 256 times as large and starts outside of it.\<close>

theorem validateSubnetCIDR_interval:
  "(validateSubnetCIDR subnetCidr vcnCidr p = [] \<longleftrightarrow> subnetCidr = [] \<or>
     (\<exists>ip. ParseCIDR subnetCidr = Some ip \<and> (vcnCidr = [] \<or>
        (\<exists>n. ParseCIDRNet vcnCidr = Some n \<and> (if isIPv4 ip then 32 else 128) = netBits n \<and>
           net_base n \<le> net_addr (netBits n) ip \<and> net_addr (netBits n) ip < net_base n + net_size n)))) \<and>
   validateSubnetCIDR ''10.1.0.0/8'' ''10.1.0.0/16'' p = [] \<and>
   (\<exists>m n. ParseCIDRNet ''10.1.0.0/8'' = Some m \<and> ParseCIDRNet ''10.1.0.0/16'' = Some n \<and>
      net_base m < net_base n \<and> net_size m = 256 * net_size n)"
proof -
  have net: "ParseCIDRNet ''10.1.0.0/16'' = Some \<lparr>IPNet_IP = [0, 0, 0, 0, 0, 65535, 2561, 0], IPNet_V4Mask = True, IPNet_Ones = 16\<rparr>"
    "ParseCIDRNet ''10.1.0.0/8'' = Some \<lparr>IPNet_IP = [0, 0, 0, 0, 0, 65535, 2561, 0], IPNet_V4Mask = True, IPNet_Ones = 8\<rparr>"
    "ParseCIDR ''10.1.0.0/8'' = Some [0, 0, 0, 0, 0, 65535, 2561, 0]"
    by (simp_all add: ParseCIDRNet_def cidr4_eval)
  have "validateSubnetCIDR ''10.1.0.0/8'' ''10.1.0.0/16'' p = []"
    by (simp add: validateSubnetCIDR_def net net_eval)
  moreover have "\<exists>m n. ParseCIDRNet ''10.1.0.0/8'' = Some m \<and> ParseCIDRNet ''10.1.0.0/16'' = Some n \<and>
      net_base m < net_base n \<and> net_size m = 256 * net_size n"
    by (simp add: net net_eval)
  moreover have "validateSubnetCIDR subnetCidr vcnCidr p = [] \<longleftrightarrow> subnetCidr = [] \<or>
     (\<exists>ip. ParseCIDR subnetCidr = Some ip \<and> (vcnCidr = [] \<or>
        (\<exists>n. ParseCIDRNet vcnCidr = Some n \<and> (if isIPv4 ip then 32 else 128) = netBits n \<and>
           net_base n \<le> net_addr (netBits n) ip \<and> net_addr (netBits n) ip < net_base n + net_size n)))"
    by (auto simp: validateSubnetCIDR_def Let_def IPNet_Contains_def net_base_def net_size_def div_eq_interval
        split: option.splits if_splits)
  ultimately show ?thesis by blast
qed

subsection \<open>Subnets\<close>

definition accepted_subnet :: Subnet where
  "accepted_subnet = \<lparr>Subnet_Role = WorkerRole, Subnet_ID = None, Subnet_Name = ''worker'', Subnet_Skip = False,
     Subnet_CIDR = ''10.0.64.0/20'', Subnet_Type = Private, Subnet_SecurityList = None, Subnet_DnsLabel = None,
     Subnet_Ipv6CidrBlockHextet = None\<rparr>"

definition accepted_subnets :: "Subnet list" where
  "accepted_subnets = [accepted_subnet, accepted_subnet\<lparr>Subnet_Role := Custom, Subnet_Name := ''extra'', Subnet_CIDR := []\<rparr>]"

theorem validateSubnets_accepts_iff_witness:
  "validateSubnets OCIClusterSubnetRoles (map Some accepted_subnets) (sample_vcn\<lparr>VCN_CIDR := ''10.0.0.0/16''\<rparr>) [] = Ret []"
  by (subst validateSubnets_accepts_iff, rule exI [of _ accepted_subnets])
     (simp add: accepted_subnets_def accepted_subnet_def OCIClusterSubnetRoles_def invalidNameRegex_def
       validateSubnetCIDR_def parse_default_cidrs parse_default_net net_eval)

subsection \<open>Health checkers\<close>

lemma validateProtocol_ok:
  "snd (validateProtocol mapping p fldPath) = [] \<longleftrightarrow>
     healthCheckProtocol mapping p = Inr (fst (validateProtocol mapping p fldPath))"
  by (auto simp: validateProtocol_def healthCheckProtocol_def split: option.split)

lemma validatePayload_ok:
  "validatePayload name v p = [] \<Longrightarrow> \<exists>d. decodeHealthCheckerPayload name v = Inr d \<and>
     (\<forall>bs. d = Some bs \<longrightarrow> length bs \<le> 1024) \<and> (d = None \<longleftrightarrow> v = None)"
  by (auto simp: validatePayload_def decodeHealthCheckerPayload_def split: option.splits)

text \<open>The settings of a health checker that the service can take.\<close>

definition well_formed_checker :: "NLBHealthChecker \<Rightarrow> bool" where
  "well_formed_checker h \<longleftrightarrow>
     (\<exists>port. NHC_Port h = Some port \<and> 1 \<le> port \<and> port \<le> 65535) \<and>
     (\<exists>t. NHC_IntervalInMillis h = Some t \<and> 0 < t) \<and> (\<exists>t. NHC_TimeoutInMillis h = Some t \<and> 0 < t) \<and>
     (\<exists>n. NHC_Retries h = Some n \<and> 0 < n) \<and>
     (\<forall>c. NHC_ReturnCode h = Some c \<longrightarrow> 100 \<le> c \<and> c \<le> 599) \<and>
     (\<forall>u. NHC_UrlPath h = Some u \<longrightarrow> HasPrefix u ''/'') \<and>
     (NHC_Protocol h = HCUdp \<longrightarrow> NHC_RequestData h \<noteq> None \<and> NHC_ResponseData h \<noteq> None) \<and>
     (\<forall>bs. NHC_RequestData h = Some bs \<or> NHC_ResponseData h = Some bs \<longrightarrow> length bs \<le> 1024)"

lemma TrimSpace_slash: "HasPrefix u ''/'' \<Longrightarrow> HasPrefix (TrimSpace u) ''/''"
proof -
  assume u: "HasPrefix u ''/''"
  then obtain v where v: "u = CHR ''/'' # v" by (cases u) (auto simp: HasPrefix_def)
  have "\<not> is_space (CHR ''/'')" by (simp add: is_space_def)
  then have "TrimSpace u = CHR ''/'' # rev (dropWhile is_space (rev v))"
    by (simp add: TrimSpace_def v dropWhile_append3 dropWhile_append)
  then show ?thesis by (simp add: HasPrefix_def)
qed

text \<open>A health checker that passes the validation can be built: for an accepted spec and an API server port in
  range, \<open>buildNLBHealthChecker\<close>, which the reconciler of the network load balancer calls later, succeeds, and all
  settings of the result are in range, defaults included.\<close>

theorem validated_health_checker_builds:
  assumes "validateHealthChecker mapping compile hc p = []" and "1 \<le> APIServerPort s" and "APIServerPort s \<le> 65535"
  shows "\<exists>h. buildNLBHealthChecker mapping s hc = Inr h \<and> well_formed_checker h"
proof -
  obtain e where v: "validateProtocol mapping (HealthChecker_Protocol hc) p = (e, [])"
    using assms(1) by (cases "validateProtocol mapping (HealthChecker_Protocol hc) p") (simp add: validateHealthChecker_def)
  then have e: "healthCheckProtocol mapping (HealthChecker_Protocol hc) = Inr e"
    using validateProtocol_ok [of mapping "HealthChecker_Protocol hc" p] by simp
  let ?port = "or_default (HealthChecker_Port hc) (APIServerPort s)"
  note ok = assms(1) [unfolded validateHealthChecker_def v Let_def, simplified]
  have port: "1 \<le> ?port" "?port \<le> 65535"
    using ok assms(2,3) by (auto simp: or_default_def split: option.splits)
  have times: "0 < or_default (HealthChecker_IntervalInMillis hc) 10000" "0 < or_default (HealthChecker_TimeoutInMillis hc) 3000"
    "0 < or_default (HealthChecker_Retries hc) 3"
    using ok by (auto simp: or_default_def split: option.splits)
  consider (http) "e = HCHttp \<or> e = HCHttps" | (raw) "e = HCTcp \<or> e = HCUdp" | (other) t where "e = HCOther t"
    by (cases e) auto
  then show ?thesis
  proof cases
    case http
    have "HasPrefix (or_default (trimmed (HealthChecker_UrlPath hc)) ''/healthz'') ''/''"
      using ok by (auto simp: or_default_def trimmed_def HasPrefix_def [of "''/healthz''"] intro: TrimSpace_slash split: option.splits)
    moreover have "100 \<le> or_default (HealthChecker_ReturnCode hc) 200 \<and> or_default (HealthChecker_ReturnCode hc) 200 \<le> 599"
      using ok by (auto simp: or_default_def split: option.splits)
    ultimately show ?thesis
      using http ok port times by (auto simp: buildNLBHealthChecker_def e Let_def well_formed_checker_def)
  next
    case raw
    from ok raw have "validatePayload ''requestData'' (HealthChecker_RequestData hc) p = []"
      "validatePayload ''responseData'' (HealthChecker_ResponseData hc) p = []" by auto
    note this [THEN validatePayload_ok]
    then obtain d d' where
      d: "decodeHealthCheckerPayload ''requestData'' (HealthChecker_RequestData hc) = Inr d" "\<forall>bs. d = Some bs \<longrightarrow> length bs \<le> 1024"
      "decodeHealthCheckerPayload ''responseData'' (HealthChecker_ResponseData hc) = Inr d'" "\<forall>bs. d' = Some bs \<longrightarrow> length bs \<le> 1024"
      "d = None \<longleftrightarrow> HealthChecker_RequestData hc = None" "d' = None \<longleftrightarrow> HealthChecker_ResponseData hc = None"
      by (elim exE conjE) (rule that)
    have udp: "e = HCUdp \<longrightarrow> d \<noteq> None \<and> d' \<noteq> None" using d(5,6) ok raw by auto
    have none: "HealthChecker_UrlPath hc = None" "HealthChecker_ReturnCode hc = None" "HealthChecker_ResponseBodyRegex hc = None"
      using ok raw by auto
    have "\<not> (?port < 1 \<or> ?port > 65535)" "\<not> (e = HCHttp \<or> e = HCHttps)" using port raw by auto
    then obtain h where h: "buildNLBHealthChecker mapping s hc = Inr h" "NHC_Protocol h = e" "NHC_Port h = Some ?port"
      "NHC_IntervalInMillis h = Some (or_default (HealthChecker_IntervalInMillis hc) 10000)"
      "NHC_TimeoutInMillis h = Some (or_default (HealthChecker_TimeoutInMillis hc) 3000)"
      "NHC_Retries h = Some (or_default (HealthChecker_Retries hc) 3)" "NHC_UrlPath h = None" "NHC_ReturnCode h = None"
      "NHC_RequestData h = d" "NHC_ResponseData h = d'"
      using raw by (simp add: buildNLBHealthChecker_def e Let_def none d(1,3))
    with udp port times d(2,4) show ?thesis by (auto simp: well_formed_checker_def)
  next
    case other
    with ok port times show ?thesis by (auto simp: buildNLBHealthChecker_def e Let_def well_formed_checker_def)
  qed
qed

definition sample_udp_checker :: HealthChecker where
  "sample_udp_checker = sample_hc\<lparr>HealthChecker_Protocol := Some '' udp'', HealthChecker_Port := Some 8080,
     HealthChecker_RequestData := Some (EncodeToString ''ping''), HealthChecker_ResponseData := Some (EncodeToString ''pong'')\<rparr>"

lemma validatePayload_encode: "length bs \<le> 1024 \<Longrightarrow> validatePayload name (Some (EncodeToString bs)) p = []"
  by (simp add: validatePayload_def TrimSpace_encode DecodeString_encode)

lemma sample_udp_valid: "validateHealthChecker sample_mapping (\<lambda>_. None) sample_udp_checker [] = []"
proof -
  have "TrimSpace '' udp'' = ''udp''" by (simp add: TrimSpace_def is_space_def)
  moreover have "ToUpper ''udp'' = ''UDP''" by (simp add: ToUpper_def char_upper_def char_of_def bit_iff_odd)
  ultimately show ?thesis
    by (simp add: validateHealthChecker_def sample_udp_checker_def sample_hc_def validateProtocol_def trimmed_def
        sample_mapping_def validatePayload_encode del: EncodeToString.simps)
qed

theorem validated_health_checker_builds_witness:
  "\<exists>h. buildNLBHealthChecker sample_mapping sample_scope sample_udp_checker = Inr h \<and> well_formed_checker h"
  using validated_health_checker_builds [OF sample_udp_valid, of sample_scope] by simp


end
