(* ===== verification/Cluster_Webhook.thy ===== *)
theory Cluster_Webhook
  imports Validation
begin

text \<open>
  The admission webhook of the cluster object (src/api/v1beta2/ocicluster_webhook.go): the defaults that are written
  into a new or changed object, and the validation on creation and update. The object arrives with its static type,
  so the branch for an object of another kind is left out. The generated identifier, \<open>uuid.NewUUID\<close>, is a parameter.
  A comparison of a pointer with the address of a fresh variable (\<open>== common.String("")\<close>) is false.
\<close>

section \<open>Queries\<close>

definition webhook_Subnets :: "OCICluster \<Rightarrow> Subnet option list" where
  "webhook_Subnets c = VCN_Subnets (NetworkSpec_Vcn (Spec_NetworkSpec (Cluster_Spec c)))"

definition webhook_GetControlPlaneEndpointSubnet :: "OCICluster \<Rightarrow> Subnet option" where
  "webhook_GetControlPlaneEndpointSubnet c = subnet_with_role ControlPlaneEndpointRole (webhook_Subnets c)"

definition webhook_GetControlPlaneMachineSubnet :: "OCICluster \<Rightarrow> Subnet option" where
  "webhook_GetControlPlaneMachineSubnet c = subnet_with_role ControlPlaneRole (webhook_Subnets c)"

definition webhook_GetServiceLoadBalancerSubnet :: "OCICluster \<Rightarrow> Subnet option" where
  "webhook_GetServiceLoadBalancerSubnet c = subnet_with_role ServiceLoadBalancerRole (webhook_Subnets c)"

definition webhook_GetNodeSubnet :: "OCICluster \<Rightarrow> Subnet list" where
  "webhook_GetNodeSubnet c = concat (map (\<lambda>p. case p of
     Some x \<Rightarrow> (if Subnet_Role x = WorkerRole then [x] else []) | None \<Rightarrow> []) (webhook_Subnets c))"

definition webhook_IsNSGExitsByRole :: "NSG option list \<Rightarrow> Role \<Rightarrow> bool" where
  "webhook_IsNSGExitsByRole nsgs role \<longleftrightarrow> list_ex (\<lambda>p. case p of None \<Rightarrow> False | Some n \<Rightarrow> role = NSG_Role n) nsgs"

definition webhook_IsSecurityListExitsByRole :: "Subnet option list \<Rightarrow> Role \<Rightarrow> bool" where
  "webhook_IsSecurityListExitsByRole subnets role \<longleftrightarrow>
     list_ex (\<lambda>p. case p of None \<Rightarrow> False | Some x \<Rightarrow> role = Subnet_Role x \<and> Subnet_SecurityList x \<noteq> None) subnets"

section \<open>Default rules\<close>

abbreviation VcnDefaultCidr :: string where "VcnDefaultCidr \<equiv> ''10.0.0.0/16''"
abbreviation ControlPlaneEndpointDefaultName :: string where "ControlPlaneEndpointDefaultName \<equiv> ''control-plane-endpoint''"
abbreviation ControlPlaneDefaultName :: string where "ControlPlaneDefaultName \<equiv> ''control-plane''"
abbreviation WorkerDefaultName :: string where "WorkerDefaultName \<equiv> ''worker''"
abbreviation ServiceLBDefaultName :: string where "ServiceLBDefaultName \<equiv> ''service-lb''"
abbreviation anywhere :: string where "anywhere \<equiv> ''0.0.0.0/0''"

text \<open>A rule for a CIDR block with a description; the fields that a literal does not mention are nil.\<close>

definition ingressFrom :: "string \<Rightarrow> string \<Rightarrow> string \<Rightarrow> IngressSecurityRuleForNSG" where
  "ingressFrom description protocol source =
     \<lparr>Ingress_Protocol = Some protocol, Ingress_Source = Some source, Ingress_IcmpOptions = None,
      Ingress_IsStateless = None, Ingress_SourceType = CidrBlockType, Ingress_TcpOptions = None,
      Ingress_UdpOptions = None, Ingress_Description = Some description\<rparr>"

definition tcpPorts :: "int \<Rightarrow> int \<Rightarrow> TcpOptions" where
  "tcpPorts lo hi = \<lparr>TcpOptions_DestinationPortRange = Some \<lparr>PortRange_Max = Some hi, PortRange_Min = Some lo\<rparr>,
     TcpOptions_SourcePortRange = None\<rparr>"

definition tcpIngress :: "string \<Rightarrow> int \<Rightarrow> int \<Rightarrow> string \<Rightarrow> IngressSecurityRuleForNSG" where
  "tcpIngress description lo hi source =
     (ingressFrom description ''6'' source)\<lparr>Ingress_TcpOptions := Some (tcpPorts lo hi)\<rparr>"

definition pathDiscovery :: IngressSecurityRuleForNSG where
  "pathDiscovery = (ingressFrom ''Path discovery'' ''1'' VcnDefaultCidr)
     \<lparr>Ingress_IcmpOptions := Some \<lparr>IcmpOptions_Type = Some 3, IcmpOptions_Code = Some 4\<rparr>\<rparr>"

definition egressTo :: "string \<Rightarrow> string \<Rightarrow> TcpOptions option \<Rightarrow> string \<Rightarrow> EgressSecurityRuleForNSG" where
  "egressTo description protocol tcp destination =
     \<lparr>Egress_Destination = Some destination, Egress_Protocol = Some protocol, Egress_DestinationType = CidrBlockType,
      Egress_IcmpOptions = None, Egress_IsStateless = None, Egress_TcpOptions = tcp, Egress_UdpOptions = None,
      Egress_Description = Some description\<rparr>"

definition GetControlPlaneMachineDefaultIngressRules :: "IngressSecurityRuleForNSG list" where
  "GetControlPlaneMachineDefaultIngressRules =
     [tcpIngress ''Kubernetes API endpoint to Control Plane(apiserver port) communication'' 6443 6443
        ControlPlaneEndpointSubnetDefaultCIDR,
      tcpIngress ''Control plane node to Control Plane(apiserver port) communication'' 6443 6443
        ControlPlaneMachineSubnetDefaultCIDR,
      tcpIngress ''Worker Node to Control Plane(apiserver port) communication'' 6443 6443 WorkerSubnetDefaultCIDR,
      tcpIngress ''etcd client communication'' 2379 2379 ControlPlaneMachineSubnetDefaultCIDR,
      tcpIngress ''etcd peer'' 2380 2380 ControlPlaneMachineSubnetDefaultCIDR,
      tcpIngress ''Calico networking (BGP)'' 179 179 ControlPlaneMachineSubnetDefaultCIDR,
      tcpIngress ''Calico networking (BGP)'' 179 179 WorkerSubnetDefaultCIDR,
      ingressFrom ''Calico networking with IP-in-IP enabled'' ''4'' ControlPlaneMachineSubnetDefaultCIDR,
      ingressFrom ''Calico networking with IP-in-IP enabled'' ''4'' WorkerSubnetDefaultCIDR,
      pathDiscovery,
      tcpIngress ''Inbound SSH traffic to Control Plane'' 22 22 anywhere,
      tcpIngress ''Control Plane to Control Plane Kubelet Communication'' 10250 10250 ControlPlaneMachineSubnetDefaultCIDR]"

definition GetControlPlaneMachineDefaultEgressRules :: "EgressSecurityRuleForNSG list" where
  "GetControlPlaneMachineDefaultEgressRules = [egressTo ''Control Plane access to Internet'' ''all'' None anywhere]"

definition GetNodeDefaultIngressRules :: "IngressSecurityRuleForNSG list" where
  "GetNodeDefaultIngressRules =
     [tcpIngress ''Inbound SSH traffic to worker node'' 22 22 anywhere,
      pathDiscovery,
      tcpIngress ''Control Plane to worker node Kubelet Communication'' 10250 10250 ControlPlaneMachineSubnetDefaultCIDR,
      tcpIngress ''Worker node to worker node Kubelet Communication'' 10250 10250 WorkerSubnetDefaultCIDR,
      tcpIngress ''Calico networking (BGP)'' 179 179 ControlPlaneMachineSubnetDefaultCIDR,
      tcpIngress ''Calico networking (BGP)'' 179 179 WorkerSubnetDefaultCIDR,
      ingressFrom ''Calico networking with IP-in-IP enabled'' ''4'' ControlPlaneMachineSubnetDefaultCIDR,
      ingressFrom ''Calico networking with IP-in-IP enabled'' ''4'' WorkerSubnetDefaultCIDR,
      tcpIngress ''Worker node to default NodePort ingress communication'' 30000 32767 WorkerSubnetDefaultCIDR]"

definition GetNodeDefaultEgressRules :: "EgressSecurityRuleForNSG list" where
  "GetNodeDefaultEgressRules = [egressTo ''Worker node access to Internet'' ''all'' None anywhere]"

definition GetServiceLoadBalancerDefaultIngressRules :: "IngressSecurityRuleForNSG list" where
  "GetServiceLoadBalancerDefaultIngressRules =
     [pathDiscovery,
      tcpIngress ''Accept http traffic on port 80'' 80 80 anywhere,
      tcpIngress ''Accept https traffic on port 443'' 443 443 anywhere]"

definition GetServiceLoadBalancerDefaultEgressRules :: "EgressSecurityRuleForNSG list" where
  "GetServiceLoadBalancerDefaultEgressRules =
     [egressTo ''Service LoadBalancer to default NodePort egress communication'' ''6'' (Some (tcpPorts 30000 32767))
        WorkerSubnetDefaultCIDR]"

definition GetControlPlaneEndpointDefaultIngressRules :: "IngressSecurityRuleForNSG list" where
  "GetControlPlaneEndpointDefaultIngressRules =
     [tcpIngress ''External access to Kubernetes API endpoint'' 6443 6443 anywhere, pathDiscovery]"

definition GetControlPlaneEndpointDefaultEgressRules :: "EgressSecurityRuleForNSG list" where
  "GetControlPlaneEndpointDefaultEgressRules =
     [egressTo ''Kubernetes API traffic to Control Plane'' ''6'' (Some (tcpPorts 6443 6443)) ControlPlaneMachineSubnetDefaultCIDR]"

section \<open>Defaults\<close>

definition newSubnet :: "Role \<Rightarrow> string \<Rightarrow> string \<Rightarrow> SubnetType \<Rightarrow> Subnet" where
  "newSubnet role name cidr ty = \<lparr>Subnet_Role = role, Subnet_ID = None, Subnet_Name = name, Subnet_Skip = False,
     Subnet_CIDR = cidr, Subnet_Type = ty, Subnet_SecurityList = None, Subnet_DnsLabel = None,
     Subnet_Ipv6CidrBlockHextet = None\<rparr>"

definition defaultCIDR :: "string \<Rightarrow> Subnet \<Rightarrow> Subnet" where
  "defaultCIDR cidr x = (if Subnet_CIDR x = [] then x\<lparr>Subnet_CIDR := cidr\<rparr> else x)"

text \<open>The first subnet with a role, through the pointer that the query returns.\<close>

fun updFirstRole :: "Role \<Rightarrow> (Subnet \<Rightarrow> Subnet) \<Rightarrow> Subnet option list \<Rightarrow> Subnet option list" where
  "updFirstRole role f [] = []"
| "updFirstRole role f (None # ps) = None # updFirstRole role f ps"
| "updFirstRole role f (Some x # ps) = (if Subnet_Role x = role then Some (f x) # ps else Some x # updFirstRole role f ps)"

definition updAllRole :: "Role \<Rightarrow> (Subnet \<Rightarrow> Subnet) \<Rightarrow> Subnet option list \<Rightarrow> Subnet option list" where
  "updAllRole role f = map (map_option (\<lambda>x. if Subnet_Role x = role then f x else x))"

definition defaultSubnetOf :: "Role \<Rightarrow> string \<Rightarrow> string \<Rightarrow> SubnetType \<Rightarrow> Subnet option list \<Rightarrow> Subnet option list" where
  "defaultSubnetOf role name cidr ty ps =
     (if subnet_with_role role ps = None then ps @ [Some (newSubnet role name cidr ty)]
      else updFirstRole role (defaultCIDR cidr) ps)"

text \<open>The queries of \<open>SubnetSpec\<close> look at the list of the object, not at the list with the subnets appended so far; as
  each looks for another role, the answer is the same.\<close>

definition SubnetSpec :: "Subnet option list \<Rightarrow> Subnet option list" where
  "SubnetSpec subnets =
     (let s1 = defaultSubnetOf ControlPlaneEndpointRole ControlPlaneEndpointDefaultName ControlPlaneEndpointSubnetDefaultCIDR Public subnets;
          s2 = defaultSubnetOf ControlPlaneRole ControlPlaneDefaultName ControlPlaneMachineSubnetDefaultCIDR Private s1;
          s3 = defaultSubnetOf ServiceLoadBalancerRole ServiceLBDefaultName ServiceLoadBalancerDefaultCIDR Public s2
      in if subnet_with_role WorkerRole s3 = None
         then s3 @ [Some (newSubnet WorkerRole WorkerDefaultName WorkerSubnetDefaultCIDR Private)]
         else updAllRole WorkerRole (defaultCIDR WorkerSubnetDefaultCIDR) s3)"

definition newNSG :: "Role \<Rightarrow> string \<Rightarrow> IngressSecurityRuleForNSG list \<Rightarrow> EgressSecurityRuleForNSG list \<Rightarrow> NSG" where
  "newNSG role name ingress egress = \<lparr>NSG_ID = None, NSG_Name = name, NSG_Role = role, NSG_EgressRules = egress,
     NSG_IngressRules = ingress\<rparr>"

definition defaultNSGOf ::
  "NSG option list \<Rightarrow> Subnet option list \<Rightarrow> Role \<Rightarrow> string \<Rightarrow> IngressSecurityRuleForNSG list \<Rightarrow> EgressSecurityRuleForNSG list \<Rightarrow>
   NSG option list" where
  "defaultNSGOf nsgs subnets role name ingress egress =
     (if \<not> webhook_IsNSGExitsByRole nsgs role \<and> \<not> webhook_IsSecurityListExitsByRole subnets role
      then [Some (newNSG role name ingress egress)] else [])"

definition NSGSpec :: "NetworkSecurityGroup \<Rightarrow> Subnet option list \<Rightarrow> NSG option list" where
  "NSGSpec g subnets =
     (let nsgs = NetworkSecurityGroup_List g in
      if NetworkSecurityGroup_Skip g then nsgs
      else nsgs @
        defaultNSGOf nsgs subnets ControlPlaneEndpointRole ControlPlaneEndpointDefaultName
          GetControlPlaneEndpointDefaultIngressRules GetControlPlaneEndpointDefaultEgressRules @
        defaultNSGOf nsgs subnets ControlPlaneRole ControlPlaneDefaultName
          GetControlPlaneMachineDefaultIngressRules GetControlPlaneMachineDefaultEgressRules @
        defaultNSGOf nsgs subnets WorkerRole WorkerDefaultName GetNodeDefaultIngressRules GetNodeDefaultEgressRules @
        defaultNSGOf nsgs subnets ServiceLoadBalancerRole ServiceLBDefaultName
          GetServiceLoadBalancerDefaultIngressRules GetServiceLoadBalancerDefaultEgressRules)"

definition defaultVcn :: "VCN \<Rightarrow> VCN" where
  "defaultVcn v = (let subnets = SubnetSpec (VCN_Subnets v); g = VCN_NetworkSecurityGroup v in
     v\<lparr>VCN_Subnets := subnets,
       VCN_NetworkSecurityGroup := g\<lparr>NetworkSecurityGroup_List := NSGSpec g subnets\<rparr>\<rparr>)"

definition Default :: "string \<Rightarrow> OCICluster \<Rightarrow> OCICluster" where
  "Default NewUUID c =
     (let spec = Cluster_Spec c; n = Spec_NetworkSpec spec; lb = NetworkSpec_APIServerLB n;
          n1 = (if NetworkSpec_SkipNetworkManagement n then n else n\<lparr>NetworkSpec_Vcn := defaultVcn (NetworkSpec_Vcn n)\<rparr>);
          n2 = (if LoadBalancer_NetworkVisibility lb = []
                then n1\<lparr>NetworkSpec_APIServerLB := lb\<lparr>LoadBalancer_NetworkVisibility := LBNetworkVisibilityInherited\<rparr>\<rparr> else n1)
      in c\<lparr>Cluster_Spec := spec
           \<lparr>Spec_OCIResourceIdentifier := (if Spec_OCIResourceIdentifier spec = [] then NewUUID else Spec_OCIResourceIdentifier spec),
            Spec_NetworkSpec := n2\<rparr>\<rparr>)"

section \<open>Validation\<close>

datatype StatusError = NewInvalid string "FieldError list"

definition validate ::
  "protocol_mapping \<Rightarrow> (string \<Rightarrow> string option) \<Rightarrow> OCICluster \<Rightarrow> FieldError list res" where
  "validate mapping regexp_Compile c =
     (let spec = Cluster_Spec c in
      res_append (ValidateNetworkSpec mapping regexp_Compile OCIClusterSubnetRoles (Spec_NetworkSpec spec)
        [Child ''spec'', Child ''networkSpec''])
     (Ret (ValidateClusterName (Cluster_Name c) @
       invalid_if (length (Spec_CompartmentId spec) \<le> 0) [Child ''spec'', Child ''compartmentId''] ''field is required'' @
       invalid_if (length (Spec_CompartmentId spec) > 0 \<and> \<not> ValidOcid (Spec_CompartmentId spec))
         [Child ''spec'', Child ''compartmentId''] ''field is invalid'' @
       invalid_if (length (Spec_OCIResourceIdentifier spec) \<le> 0) [Child ''spec'', Child ''ociResourceIdentifier''] ''field is required'' @
       invalid_if (\<not> ValidRegion (Spec_Region spec)) [Child ''spec'', Child ''region'']
         ''field is invalid. See https://docs.oracle.com/en-us/iaas/Content/General/Concepts/regions.htm'')))"

text \<open>The rules about skipped resources, the same in both validations. \<open>subnet.ID != common.String("")\<close> compares
  pointers and holds for every subnet.\<close>

definition skippedSubnetErrors :: "Subnet \<Rightarrow> FieldError list" where
  "skippedSubnetErrors subnet =
     invalid_if (Subnet_Skip subnet \<and> Subnet_ID subnet = None) [Child ''spec'', Child ''subnet.ID''] ''field is required'' @
     invalid_if (\<not> Subnet_Skip subnet) [Child ''spec'', Child ''subnet.Skip'']
       ''field requires to be true if Subnet ID is specified''"

definition skipErrors :: "VCN \<Rightarrow> FieldError list res" where
  "skipErrors vcn =
     (let subnetErrors = (\<lambda>f. if None \<in> set (VCN_Subnets vcn) then Panic else Ret (concat (map f (map the (VCN_Subnets vcn)))));
          msg = ''field requires to be true when VCN is skipped'' in
      if VCN_Skip vcn then
        res_append (Ret (
          invalid_if (VCN_ID vcn = None) [Child ''spec'', Child ''NetworkSpec.Vcn.ID''] ''field is required'' @
          invalid_if (\<not> InternetGateway_Skip (VCN_InternetGateway vcn)) [Child ''spec'', Child ''NetworkSpec.Vcn.InternetGateway.Skip''] msg @
          invalid_if (\<not> ServiceGateway_Skip (VCN_ServiceGateway vcn)) [Child ''spec'', Child ''NetworkSpec.Vcn.ServiceGateway.Skip''] msg @
          invalid_if (\<not> NATGateway_Skip (VCN_NATGateway vcn)) [Child ''spec'', Child ''NetworkSpec.Vcn.NATGateway.Skip''] msg @
          invalid_if (\<not> RouteTable_Skip (VCN_RouteTable vcn)) [Child ''spec'', Child ''NetworkSpec.Vcn.RouteTable.Skip''] msg))
        (subnetErrors skippedSubnetErrors)
      else subnetErrors (\<lambda>subnet. invalid_if (Subnet_Skip subnet) [Child ''spec'', Child ''subnet.Skip'']
        ''field cannot be true when VCN is not skipped''))"

definition hextetAssigned :: "OCICluster \<Rightarrow> bool" where
  "hextetAssigned c =
     (case (webhook_GetControlPlaneEndpointSubnet c, webhook_GetControlPlaneMachineSubnet c, webhook_GetServiceLoadBalancerSubnet c) of
        (Some ep, Some cp, Some slb) \<Rightarrow>
          list_ex (\<lambda>h. h \<noteq> None)
            ([Subnet_Ipv6CidrBlockHextet ep, Subnet_Ipv6CidrBlockHextet cp, Subnet_Ipv6CidrBlockHextet slb] @
             (case webhook_GetNodeSubnet c of [] \<Rightarrow> [] | x # _ \<Rightarrow> [Subnet_Ipv6CidrBlockHextet x]))
      | _ \<Rightarrow> False)"

definition admission :: "OCICluster \<Rightarrow> FieldError list res \<Rightarrow> StatusError option res" where
  "admission c r = (case r of
      Ret allErrs \<Rightarrow> Ret (if length allErrs = 0 then None else Some (NewInvalid (Cluster_Name c) allErrs))
    | Err e \<Rightarrow> Err e | Panic \<Rightarrow> Panic | Diverge \<Rightarrow> Diverge)"

definition ValidateCreate ::
  "protocol_mapping \<Rightarrow> (string \<Rightarrow> string option) \<Rightarrow> OCICluster \<Rightarrow> StatusError option res" where
  "ValidateCreate mapping regexp_Compile c =
     (let vcn = NetworkSpec_Vcn (Spec_NetworkSpec (Cluster_Spec c)) in
      admission c (res_append (Ret (invalid_if (hextetAssigned c \<and> VCN_IsIpv6Enabled vcn = None)
          [Child ''spec'', Child ''NetworkSpec.Vcn.IsIpv6Enabled''] ''field needs to be true and not nil''))
        (res_append (skipErrors vcn) (validate mapping regexp_Compile c))))"

definition effectiveLBNetworkVisibility :: "LBNetworkVisibility \<Rightarrow> LBNetworkVisibility" where
  "effectiveLBNetworkVisibility visibility = (if visibility = [] then LBNetworkVisibilityInherited else visibility)"

definition lbVisibility :: "OCICluster \<Rightarrow> LBNetworkVisibility" where
  "lbVisibility c = LoadBalancer_NetworkVisibility (NetworkSpec_APIServerLB (Spec_NetworkSpec (Cluster_Spec c)))"

definition immutableErrors :: "OCIClusterSpec \<Rightarrow> OCIClusterSpec \<Rightarrow> LBNetworkVisibility \<Rightarrow> LBNetworkVisibility \<Rightarrow> FieldError list" where
  "immutableErrors old new oldVisibility newVisibility =
     invalid_if (Spec_Region new \<noteq> Spec_Region old) [Child ''spec'', Child ''region''] ''field is immutable'' @
     invalid_if (Spec_OCIResourceIdentifier new \<noteq> Spec_OCIResourceIdentifier old)
       [Child ''spec'', Child ''ociResourceIdentifier''] ''field is immutable'' @
     invalid_if (Spec_CompartmentId new \<noteq> Spec_CompartmentId old) [Child ''spec'', Child ''compartmentId''] ''field is immutable'' @
     invalid_if (newVisibility \<noteq> oldVisibility)
       [Child ''spec'', Child ''networkSpec'', Child ''apiServerLoadBalancer'', Child ''networkVisibility''] ''field is immutable''"

definition ValidateUpdate ::
  "protocol_mapping \<Rightarrow> (string \<Rightarrow> string option) \<Rightarrow> OCICluster \<Rightarrow> OCICluster \<Rightarrow> StatusError option res" where
  "ValidateUpdate mapping regexp_Compile oldCluster c =
     admission c (res_append (Ret (immutableErrors (Cluster_Spec oldCluster) (Cluster_Spec c)
          (effectiveLBNetworkVisibility (lbVisibility oldCluster)) (effectiveLBNetworkVisibility (lbVisibility c))))
        (res_append (skipErrors (NetworkSpec_Vcn (Spec_NetworkSpec (Cluster_Spec c)))) (validate mapping regexp_Compile c)))"

definition ValidateDelete :: "OCICluster \<Rightarrow> StatusError option res" where
  "ValidateDelete c = Ret None"

section \<open>Defaults are stable\<close>

lemma subnet_with_role_simps [simp]:
  "subnet_with_role r [] = None" "subnet_with_role r (None # ps) = subnet_with_role r ps"
  "subnet_with_role r (Some x # ps) = (if Subnet_Role x = r then Some x else subnet_with_role r ps)"
  by (simp_all add: subnet_with_role_def)

lemma subnet_with_role_append:
  "subnet_with_role r (ps @ qs) = (case subnet_with_role r ps of None \<Rightarrow> subnet_with_role r qs | Some x \<Rightarrow> Some x)"
  by (induction ps rule: updFirstRole.induct [of _ r id]) auto

lemma defaultCIDR_simps [simp]:
  "Subnet_Role (defaultCIDR c x) = Subnet_Role x" "cidr \<noteq> [] \<Longrightarrow> Subnet_CIDR (defaultCIDR cidr x) \<noteq> []"
  "Subnet_CIDR x \<noteq> [] \<Longrightarrow> defaultCIDR c x = x" "Subnet_SecurityList (defaultCIDR c x) = Subnet_SecurityList x"
  by (simp_all add: defaultCIDR_def)

lemma newSubnet_simps [simp]:
  "Subnet_Role (newSubnet r n c t) = r" "Subnet_CIDR (newSubnet r n c t) = c" "Subnet_Type (newSubnet r n c t) = t"
  "Subnet_Name (newSubnet r n c t) = n" "Subnet_Skip (newSubnet r n c t) = False" "Subnet_SecurityList (newSubnet r n c t) = None"
  by (simp_all add: newSubnet_def)

lemma updFirstRole_role:
  assumes "\<And>x. Subnet_Role (f x) = Subnet_Role x"
  shows "subnet_with_role r (updFirstRole r' f ps) =
    (if r = r' then map_option f (subnet_with_role r ps) else subnet_with_role r ps)"
proof (induction ps)
  case (Cons p ps)
  then show ?case by (cases p) (auto simp: assms)
qed simp

lemma updFirstRole_id:
  "subnet_with_role r ps = Some x \<Longrightarrow> f x = x \<Longrightarrow> updFirstRole r f ps = ps"
  by (induction ps rule: updFirstRole.induct [of _ r f]) auto

lemma updAllRole_role:
  assumes "\<And>x. Subnet_Role (f x) = Subnet_Role x"
  shows "subnet_with_role r (updAllRole r' f ps) =
    (if r = r' then map_option f (subnet_with_role r ps) else subnet_with_role r ps)"
  unfolding updAllRole_def
proof (induction ps)
  case (Cons p ps)
  then show ?case by (cases p) (auto simp: assms)
qed simp

lemma updAllRole_id:
  "(\<And>x. Some x \<in> set ps \<Longrightarrow> Subnet_Role x = r \<Longrightarrow> f x = x) \<Longrightarrow> updAllRole r f ps = ps"
  by (auto simp: updAllRole_def option.map_id0 intro!: map_idI split: option.split) (case_tac x; auto)

lemma updAllRole_mem:
  assumes "Some x \<in> set (updAllRole r f ps)" "Subnet_Role x = r"
  shows "\<exists>y. x = f y"
proof -
  from assms(1) obtain y where "y \<in> set ps" "Some x = map_option (\<lambda>x. if Subnet_Role x = r then f x else x) y"
    by (auto simp: updAllRole_def)
  with assms(2) show ?thesis by (cases y) (auto split: if_splits)
qed

text \<open>A role is covered when its first subnet has a block.\<close>

definition covered :: "Role \<Rightarrow> Subnet option list \<Rightarrow> bool" where
  "covered r ps \<longleftrightarrow> (\<exists>x. subnet_with_role r ps = Some x \<and> Subnet_CIDR x \<noteq> [])"

lemma defaultSubnetOf_covers: "cidr \<noteq> [] \<Longrightarrow> covered r (defaultSubnetOf r name cidr ty ps)"
  by (auto simp: covered_def defaultSubnetOf_def subnet_with_role_append updFirstRole_role)

lemma defaultSubnetOf_other:
  "r \<noteq> r' \<Longrightarrow> subnet_with_role r (defaultSubnetOf r' name cidr ty ps) = subnet_with_role r ps"
  by (auto simp: defaultSubnetOf_def subnet_with_role_append updFirstRole_role split: option.split)

lemma defaultSubnetOf_covered: "covered r ps \<Longrightarrow> defaultSubnetOf r name cidr ty ps = ps"
  by (auto simp: covered_def defaultSubnetOf_def intro: updFirstRole_id)

definition all_covered :: "Subnet option list \<Rightarrow> bool" where
  "all_covered ps \<longleftrightarrow> covered ControlPlaneEndpointRole ps \<and> covered ControlPlaneRole ps \<and> covered ServiceLoadBalancerRole ps \<and>
     subnet_with_role WorkerRole ps \<noteq> None \<and> (\<forall>x. Some x \<in> set ps \<longrightarrow> Subnet_Role x = WorkerRole \<longrightarrow> Subnet_CIDR x \<noteq> [])"

lemma SubnetSpec_fixpoint: "all_covered ps \<Longrightarrow> SubnetSpec ps = ps"
  by (auto simp: SubnetSpec_def all_covered_def defaultSubnetOf_covered intro!: updAllRole_id)

lemma SubnetSpec_covers: "all_covered (SubnetSpec ps)"
proof -
  let ?s3 = "defaultSubnetOf ServiceLoadBalancerRole ServiceLBDefaultName ServiceLoadBalancerDefaultCIDR Public
    (defaultSubnetOf ControlPlaneRole ControlPlaneDefaultName ControlPlaneMachineSubnetDefaultCIDR Private
    (defaultSubnetOf ControlPlaneEndpointRole ControlPlaneEndpointDefaultName ControlPlaneEndpointSubnetDefaultCIDR Public ps))"
  let ?w = "if subnet_with_role WorkerRole ?s3 = None
    then ?s3 @ [Some (newSubnet WorkerRole WorkerDefaultName WorkerSubnetDefaultCIDR Private)]
    else updAllRole WorkerRole (defaultCIDR WorkerSubnetDefaultCIDR) ?s3"
  have w: "SubnetSpec ps = ?w" unfolding SubnetSpec_def Let_def ..
  have c3: "covered ControlPlaneEndpointRole ?s3" "covered ControlPlaneRole ?s3" "covered ServiceLoadBalancerRole ?s3"
    using defaultSubnetOf_covers by (auto simp: covered_def defaultSubnetOf_other)
  then have "covered r ?w" if "covered r ?s3" "r \<noteq> WorkerRole" for r
    using that by (auto simp: covered_def subnet_with_role_append updAllRole_role split: option.split)
  with c3 have "covered ControlPlaneEndpointRole ?w" "covered ControlPlaneRole ?w" "covered ServiceLoadBalancerRole ?w" by auto
  moreover have "subnet_with_role WorkerRole ?w \<noteq> None"
    by (auto simp: subnet_with_role_append updAllRole_role split: option.split)
  moreover have "Some x \<in> set ?w \<Longrightarrow> Subnet_Role x = WorkerRole \<Longrightarrow> Subnet_CIDR x \<noteq> []" for x
    by (auto simp: subnet_with_role_None dest: updAllRole_mem split: if_splits)
  ultimately show ?thesis unfolding w all_covered_def by blast
qed


lemma NSGSpec_fixpoint:
  assumes "NetworkSecurityGroup_List h = NSGSpec g ps" "NetworkSecurityGroup_Skip h = NetworkSecurityGroup_Skip g"
  shows "NSGSpec h ps = NSGSpec g ps"
proof (cases "NetworkSecurityGroup_Skip g")
  case False
  have "defaultNSGOf (NSGSpec g ps) ps r name i e = []"
    if "r \<in> {ControlPlaneEndpointRole, ControlPlaneRole, WorkerRole, ServiceLoadBalancerRole}" for r name i e
    using that False
    by (auto simp: NSGSpec_def defaultNSGOf_def webhook_IsNSGExitsByRole_def newNSG_def Let_def)
  then show ?thesis using assms False by (simp add: NSGSpec_def [of h] Let_def)
qed (use assms in \<open>simp add: NSGSpec_def\<close>)

lemma defaultVcn_idem [simp]: "defaultVcn (defaultVcn v) = defaultVcn v"
proof -
  have sub: "VCN_Subnets (defaultVcn v) = SubnetSpec (VCN_Subnets v)" by (simp add: defaultVcn_def Let_def)
  have "SubnetSpec (SubnetSpec (VCN_Subnets v)) = SubnetSpec (VCN_Subnets v)"
    by (rule SubnetSpec_fixpoint [OF SubnetSpec_covers])
  moreover have "NSGSpec (VCN_NetworkSecurityGroup (defaultVcn v)) (SubnetSpec (VCN_Subnets v)) =
      NSGSpec (VCN_NetworkSecurityGroup v) (SubnetSpec (VCN_Subnets v))"
    by (rule NSGSpec_fixpoint) (simp_all add: defaultVcn_def Let_def)
  ultimately show ?thesis
    by (subst defaultVcn_def) (simp add: sub Let_def, simp add: defaultVcn_def Let_def)
qed

text \<open>Defaulting is stable: an object that has been through the webhook is left as it is when it comes back, as it
  does on every update, whatever subnets, groups and identifiers it had at first. The generated identifier is not empty.\<close>

theorem Default_idempotent:
  assumes "u \<noteq> []"
  shows "Default u' (Default u c) = Default u c"
  using assms by (simp add: Default_def Let_def)

theorem Default_idempotent_witness: "Default ''2'' (Default ''1'' sample_cluster) = Default ''1'' sample_cluster"
  by (rule Default_idempotent) simp


section \<open>What admission guarantees\<close>

lemma admission_None: "admission c r = Ret None \<longleftrightarrow> r = Ret []"
  by (auto simp: admission_def split: res.splits if_splits)

lemma skipErrors_Nil:
  "skipErrors vcn = Ret [] \<longleftrightarrow> None \<notin> set (VCN_Subnets vcn) \<and>
     (if VCN_Skip vcn
      then VCN_ID vcn \<noteq> None \<and> InternetGateway_Skip (VCN_InternetGateway vcn) \<and> ServiceGateway_Skip (VCN_ServiceGateway vcn) \<and>
        NATGateway_Skip (VCN_NATGateway vcn) \<and> RouteTable_Skip (VCN_RouteTable vcn) \<and>
        (\<forall>x. Some x \<in> set (VCN_Subnets vcn) \<longrightarrow> Subnet_Skip x \<and> Subnet_ID x \<noteq> None)
      else \<forall>x. Some x \<in> set (VCN_Subnets vcn) \<longrightarrow> \<not> Subnet_Skip x)"
proof (cases "None \<in> set (VCN_Subnets vcn)")
  case True
  then show ?thesis by (simp add: skipErrors_def Let_def res_append_Nil)
next
  case False
  then obtain ss where ss: "VCN_Subnets vcn = map Some ss" by (auto simp: None_notin_map_Some)
  then have "map the (VCN_Subnets vcn) = ss" by (simp add: comp_def)
  with False show ?thesis
    by (auto simp: skipErrors_def Let_def res_append_Nil skippedSubnetErrors_def ss)
qed

definition admitted :: "protocol_mapping \<Rightarrow> (string \<Rightarrow> string option) \<Rightarrow> OCICluster \<Rightarrow> bool" where
  "admitted mapping regexp_Compile c \<longleftrightarrow> ValidateCreate mapping regexp_Compile c = Ret None \<or>
     (\<exists>old. ValidateUpdate mapping regexp_Compile old c = Ret None)"

lemma admittedD:
  assumes "admitted mapping compile c"
  shows "skipErrors (NetworkSpec_Vcn (Spec_NetworkSpec (Cluster_Spec c))) = Ret []" "validate mapping compile c = Ret []"
  using assms by (auto simp: admitted_def ValidateCreate_def ValidateUpdate_def admission_None res_append_Nil Let_def)

text \<open>An admitted update keeps the ownership of the resources. If the webhook admits the change of an object, then
  a scope over the new object recognises exactly the resources of the old one as its own, works in the same
  compartment, and the effective visibility of the load balancer, which the cloud cannot change, stays the same.\<close>

theorem admitted_update_keeps_ownership:
  assumes "ValidateUpdate mapping regexp_Compile (CS_OCICluster s) c = Ret None"
  shows "IsResourceCreatedByClusterAPI (s\<lparr>CS_OCICluster := c\<rparr>) tags = IsResourceCreatedByClusterAPI s tags \<and>
    GetCompartmentId (s\<lparr>CS_OCICluster := c\<rparr>) = GetCompartmentId s \<and>
    effectiveLBNetworkVisibility (lbVisibility c) = effectiveLBNetworkVisibility (lbVisibility (CS_OCICluster s))"
  using assms
  by (auto simp: ValidateUpdate_def admission_None res_append_Nil immutableErrors_def IsResourceCreatedByClusterAPI_def
      accessor_defs)

lemma validateHealthChecker_path:
  "validateHealthChecker mapping compile hc p = [] \<longleftrightarrow> validateHealthChecker mapping compile hc q = []"
proof -
  have "fst (validateProtocol mapping v p) = fst (validateProtocol mapping v q)"
    "snd (validateProtocol mapping v p) = [] \<longleftrightarrow> snd (validateProtocol mapping v q) = []" for v
    by (simp_all add: validateProtocol_def split: option.split)
  moreover have "validatePayload n v p = [] \<longleftrightarrow> validatePayload n v q = []" for n v
    by (simp add: validatePayload_def split: option.split)
  moreover have "regexErrors compile v p = [] \<longleftrightarrow> regexErrors compile v q = []" for v
    by (simp add: regexErrors_def split: option.split)
  ultimately show ?thesis
    by (simp add: validateHealthChecker_def case_prod_beta Let_def split: option.split)
qed


subsection \<open>The defaults are admitted\<close>

lemmas rule_defs = udpErrors_def tcpErrors_def icmpErrors_def portRangeErrors_def validatePortRange_def validateCIDR_def DerefString_def

lemma default_rule_errors [simp]:
  "ingressRuleErrors p (ingressFrom d proto src) = [] \<longleftrightarrow> ParseCIDR src \<noteq> None"
  "ingressRuleErrors p (tcpIngress d lo hi src) = [] \<longleftrightarrow> ParseCIDR src \<noteq> None"
  "ingressRuleErrors p pathDiscovery = []"
  "egressRuleErrors p (egressTo d proto None dst) = [] \<longleftrightarrow> ParseCIDR dst \<noteq> None"
  "egressRuleErrors p (egressTo d proto (Some (tcpPorts lo hi)) dst) = [] \<longleftrightarrow> ParseCIDR dst \<noteq> None"
  by (simp_all add: ingressRuleErrors_def egressRuleErrors_def ingressFrom_def tcpIngress_def pathDiscovery_def egressTo_def
      tcpPorts_def rule_defs parse_default_cidrs)

lemmas default_rules = GetControlPlaneMachineDefaultIngressRules_def GetControlPlaneMachineDefaultEgressRules_def
  GetNodeDefaultIngressRules_def GetNodeDefaultEgressRules_def GetServiceLoadBalancerDefaultIngressRules_def
  GetServiceLoadBalancerDefaultEgressRules_def GetControlPlaneEndpointDefaultIngressRules_def
  GetControlPlaneEndpointDefaultEgressRules_def

lemma default_rules_valid:
  "validateIngressSecurityRuleForNSG GetControlPlaneMachineDefaultIngressRules p = []"
  "validateEgressSecurityRuleForNSG GetControlPlaneMachineDefaultEgressRules p = []"
  "validateIngressSecurityRuleForNSG GetNodeDefaultIngressRules p = []"
  "validateEgressSecurityRuleForNSG GetNodeDefaultEgressRules p = []"
  "validateIngressSecurityRuleForNSG GetServiceLoadBalancerDefaultIngressRules p = []"
  "validateEgressSecurityRuleForNSG GetServiceLoadBalancerDefaultEgressRules p = []"
  "validateIngressSecurityRuleForNSG GetControlPlaneEndpointDefaultIngressRules p = []"
  "validateEgressSecurityRuleForNSG GetControlPlaneEndpointDefaultEgressRules p = []"
  by (simp_all add: validateIngressSecurityRuleForNSG_def validateEgressSecurityRuleForNSG_def default_rules parse_default_cidrs)

definition default_subnets :: "Subnet list" where
  "default_subnets =
     [newSubnet ControlPlaneEndpointRole ControlPlaneEndpointDefaultName ControlPlaneEndpointSubnetDefaultCIDR Public,
      newSubnet ControlPlaneRole ControlPlaneDefaultName ControlPlaneMachineSubnetDefaultCIDR Private,
      newSubnet ServiceLoadBalancerRole ServiceLBDefaultName ServiceLoadBalancerDefaultCIDR Public,
      newSubnet WorkerRole WorkerDefaultName WorkerSubnetDefaultCIDR Private]"

lemma SubnetSpec_Nil: "SubnetSpec [] = map Some default_subnets"
  by (simp add: SubnetSpec_def defaultSubnetOf_def default_subnets_def Let_def)

lemma default_subnets_valid:
  assumes "cidr = [] \<or> cidr = VcnDefaultCidr"
  shows "validateSubnetsLoop OCIClusterSubnetRoles cidr p 0 {} default_subnets = []"
  using assms unfolding validateSubnetsLoop_Nil
  by (auto simp: default_subnets_def OCIClusterSubnetRoles_def invalidNameRegex_def validateSubnetCIDR_def
      parse_default_cidrs parse_default_net net_eval)

lemma default_nsgs_valid:
  "concat (map (\<lambda>(i, nsg). nsgErrors OCIClusterSubnetRoles p i nsg) (enumerate 0 (map the
     (NSGSpec \<lparr>NetworkSecurityGroup_Skip = b, NetworkSecurityGroup_List = []\<rparr> (map Some default_subnets))))) = []"
  by (simp add: NSGSpec_def defaultNSGOf_def webhook_IsNSGExitsByRole_def webhook_IsSecurityListExitsByRole_def
      default_subnets_def nsgErrors_def newNSG_def default_rules_valid OCIClusterSubnetRoles_def Let_def)


definition bare_network :: "VCN \<Rightarrow> bool" where
  "bare_network v \<longleftrightarrow> VCN_Subnets v = [] \<and> NetworkSecurityGroup_List (VCN_NetworkSecurityGroup v) = [] \<and> \<not> VCN_Skip v \<and>
     (VCN_CIDR v = [] \<or> VCN_CIDR v = VcnDefaultCidr)"

lemma defaultVcn_simps [simp]:
  "VCN_Skip (defaultVcn v) = VCN_Skip v" "VCN_CIDR (defaultVcn v) = VCN_CIDR v"
  "VCN_Subnets (defaultVcn v) = SubnetSpec (VCN_Subnets v)"
  "NetworkSecurityGroup_List (VCN_NetworkSecurityGroup (defaultVcn v)) = NSGSpec (VCN_NetworkSecurityGroup v) (SubnetSpec (VCN_Subnets v))"
  by (simp_all add: defaultVcn_def Let_def)

lemma bare_nsgs:
  assumes "bare_network v"
  shows "NSGSpec (VCN_NetworkSecurityGroup v) (map Some default_subnets) =
    NSGSpec \<lparr>NetworkSecurityGroup_Skip = NetworkSecurityGroup_Skip (VCN_NetworkSecurityGroup v), NetworkSecurityGroup_List = []\<rparr> (map Some default_subnets)"
  using assms by (simp add: bare_network_def NSGSpec_def)

lemma NSGSpec_no_nil: "None \<notin> set (NetworkSecurityGroup_List g) \<Longrightarrow> None \<notin> set (NSGSpec g ps)"
  by (auto simp: NSGSpec_def defaultNSGOf_def Let_def)

lemma default_network_valid:
  assumes bare: "bare_network v" and vcn: "NetworkSpec_Vcn n = v \<or> NetworkSpec_Vcn n = defaultVcn v"
    and hc: "validateHealthChecker mapping compile (specHealthChecker (NetworkSpec_APIServerLB n)) q = []"
  shows "ValidateNetworkSpec mapping compile OCIClusterSubnetRoles n p = Ret []"
proof -
  have cidr: "VCN_CIDR (NetworkSpec_Vcn n) = [] \<or> VCN_CIDR (NetworkSpec_Vcn n) = VcnDefaultCidr"
    using bare vcn by (auto simp: bare_network_def)
  have sub: "VCN_Subnets (NetworkSpec_Vcn n) = [] \<or> VCN_Subnets (NetworkSpec_Vcn n) = map Some default_subnets"
    using bare vcn by (auto simp: bare_network_def SubnetSpec_Nil)
  have "validateSubnets OCIClusterSubnetRoles (VCN_Subnets (NetworkSpec_Vcn n)) (NetworkSpec_Vcn n) p' = Ret []" for p'
    using sub default_subnets_valid [OF cidr] by (auto simp: validateSubnets_def comp_def)
  moreover have "validateNSGs OCIClusterSubnetRoles (NetworkSecurityGroup_List (VCN_NetworkSecurityGroup (NetworkSpec_Vcn n))) p' = Ret []" for p'
    using bare vcn default_nsgs_valid [of p' "NetworkSecurityGroup_Skip (VCN_NetworkSecurityGroup v)"] bare_nsgs [OF bare]
      NSGSpec_no_nil [of "VCN_NetworkSecurityGroup v" "map Some default_subnets"]
    by (auto simp: validateNSGs_def bare_network_def SubnetSpec_Nil)
  moreover have "\<not> list_ex (\<lambda>p. case p of None \<Rightarrow> False | Some subnet \<Rightarrow>
      Subnet_Role subnet = ControlPlaneEndpointRole \<and> Subnet_Type subnet = Private) (VCN_Subnets (NetworkSpec_Vcn n))"
    using sub by (auto simp: default_subnets_def)
  ultimately show ?thesis
    using cidr validateHealthChecker_path [THEN iffD1, OF hc]
    by (auto simp: ValidateNetworkSpec_def Let_def validateVCNCIDR_def parse_default_cidrs)
qed

lemma Default_valid:
  assumes bare: "bare_network (NetworkSpec_Vcn (Spec_NetworkSpec (Cluster_Spec c)))"
    and hc: "validateHealthChecker mapping compile (specHealthChecker (NetworkSpec_APIServerLB (Spec_NetworkSpec (Cluster_Spec c)))) [] = []"
    and name: "clusterNameRegex (Cluster_Name c)" and ocid: "ValidOcid (Spec_CompartmentId (Cluster_Spec c))"
    and region: "ValidRegion (Spec_Region (Cluster_Spec c))" and u: "u \<noteq> []"
  shows "\<not> hextetAssigned (Default u c)" "validate mapping compile (Default u c) = Ret []"
    "skipErrors (NetworkSpec_Vcn (Spec_NetworkSpec (Cluster_Spec (Default u c)))) = Ret []"
proof -
  let ?n = "Spec_NetworkSpec (Cluster_Spec (Default u c))" and ?v = "NetworkSpec_Vcn (Spec_NetworkSpec (Cluster_Spec c))"
  have vcn: "NetworkSpec_Vcn ?n = ?v \<or> NetworkSpec_Vcn ?n = defaultVcn ?v"
    and lb: "specHealthChecker (NetworkSpec_APIServerLB ?n) = specHealthChecker (NetworkSpec_APIServerLB (Spec_NetworkSpec (Cluster_Spec c)))"
    by (auto simp: Default_def Let_def)
  have sub: "webhook_Subnets (Default u c) = [] \<or> webhook_Subnets (Default u c) = map Some default_subnets"
    using vcn bare by (auto simp: webhook_Subnets_def bare_network_def SubnetSpec_Nil)
  show "\<not> hextetAssigned (Default u c)"
    using sub by (auto simp: hextetAssigned_def webhook_GetControlPlaneEndpointSubnet_def webhook_GetControlPlaneMachineSubnet_def
        webhook_GetServiceLoadBalancerSubnet_def webhook_GetNodeSubnet_def default_subnets_def newSubnet_def)
  show "skipErrors (NetworkSpec_Vcn ?n) = Ret []"
    using vcn bare by (auto simp: skipErrors_Nil bare_network_def SubnetSpec_Nil default_subnets_def)
  have "ValidateNetworkSpec mapping compile OCIClusterSubnetRoles ?n p = Ret []" for p
    using default_network_valid [OF bare vcn] hc by (simp add: lb)
  then show "validate mapping compile (Default u c) = Ret []"
    using name ocid region u
    by (auto simp: validate_def Let_def Default_def ValidateClusterName_def ValidOcid_def)
qed

text \<open>C30. The defaults are admitted. A cluster that leaves its network to the defaults (no subnets, no groups, no block or
  the default block for the VCN), with a valid name, compartment, region and health checker, passes the validation
  after it has been through the defaulting webhook: all default subnets lie in the VCN, all default rules are complete.\<close>

theorem Default_admitted:
  assumes bare: "bare_network (NetworkSpec_Vcn (Spec_NetworkSpec (Cluster_Spec c)))"
    and hc: "validateHealthChecker mapping compile (specHealthChecker (NetworkSpec_APIServerLB (Spec_NetworkSpec (Cluster_Spec c)))) [] = []"
    and name: "clusterNameRegex (Cluster_Name c)" and ocid: "ValidOcid (Spec_CompartmentId (Cluster_Spec c))"
    and region: "ValidRegion (Spec_Region (Cluster_Spec c))" and u: "u \<noteq> []"
  shows "ValidateCreate mapping compile (Default u c) = Ret None"
  using Default_valid [OF assms] by (simp add: ValidateCreate_def admission_None res_append_Nil Let_def)

definition new_cluster :: OCICluster where
  "new_cluster = sample_cluster\<lparr>Cluster_Spec := (Cluster_Spec sample_cluster)\<lparr>Spec_CompartmentId := ''ocid1.compartment''\<rparr>\<rparr>"

lemma new_cluster_hc:
  "validateHealthChecker mapping compile (specHealthChecker (NetworkSpec_APIServerLB (Spec_NetworkSpec (Cluster_Spec new_cluster)))) p = []"
  by (simp add: new_cluster_def sample_defs validateHealthChecker_def validateProtocol_def trimmed_def regexErrors_def)

theorem Default_admitted_witness: "ValidateCreate sample_mapping (\<lambda>_. None) (Default ''uuid'' new_cluster) = Ret None"
  by (rule Default_admitted [OF _ new_cluster_hc])
     (simp_all add: new_cluster_def sample_defs bare_network_def clusterNameRegex_def name_char_def is_digit_def ValidOcid_def
       ValidRegion_def invalidNameRegex_def)


lemmas new_cluster_eval = new_cluster_def sample_defs bare_network_def clusterNameRegex_def name_char_def is_digit_def ValidOcid_def
  ValidRegion_def invalidNameRegex_def

lemma new_cluster_valid:
  "validate sample_mapping (\<lambda>_. None) (Default ''uuid'' new_cluster) = Ret []"
  "skipErrors (NetworkSpec_Vcn (Spec_NetworkSpec (Cluster_Spec (Default ''uuid'' new_cluster)))) = Ret []"
proof -
  have "bare_network (NetworkSpec_Vcn (Spec_NetworkSpec (Cluster_Spec new_cluster)))" "clusterNameRegex (Cluster_Name new_cluster)"
    "ValidOcid (Spec_CompartmentId (Cluster_Spec new_cluster))" "ValidRegion (Spec_Region (Cluster_Spec new_cluster))"
    by (simp_all add: new_cluster_eval)
  from Default_valid [OF this(1) new_cluster_hc this(2-4)]
  show "validate sample_mapping (\<lambda>_. None) (Default ''uuid'' new_cluster) = Ret []"
    "skipErrors (NetworkSpec_Vcn (Spec_NetworkSpec (Cluster_Spec (Default ''uuid'' new_cluster)))) = Ret []" by simp_all
qed

lemma new_cluster_update:
  "ValidateUpdate sample_mapping (\<lambda>_. None) new_cluster (Default ''uuid'' new_cluster) = Ret None"
  using new_cluster_valid
  by (simp add: ValidateUpdate_def admission_None res_append_Nil)
     (simp add: immutableErrors_def Default_def Let_def new_cluster_def sample_defs lbVisibility_def effectiveLBNetworkVisibility_def)

theorem admitted_update_keeps_ownership_witness:
  "IsResourceCreatedByClusterAPI (sample_scope\<lparr>CS_OCICluster := Default ''uuid'' new_cluster\<rparr>) (GetFreeFormTags sample_scope) =
   IsResourceCreatedByClusterAPI (sample_scope\<lparr>CS_OCICluster := new_cluster\<rparr>) (GetFreeFormTags sample_scope)"
  using admitted_update_keeps_ownership [of sample_mapping "\<lambda>_. None" "sample_scope\<lparr>CS_OCICluster := new_cluster\<rparr>" "Default ''uuid'' new_cluster" "GetFreeFormTags sample_scope"]
  by (simp add: new_cluster_update)


end
