(* ===== verification/Machine_Types.thy ===== *)
theory Machine_Types
  imports Validation
begin

text \<open>
  The machine object (src/api/v1beta2/ocimachine_types.go and the machine part of types.go) and what the compute,
  block storage and work request services take and answer. As in \<open>OCI_SDK\<close>, a service is a record of operations over
  an arbitrary type of cloud states. The mappings of the SDK from text to its enumerations
  (\<open>GetMapping\<dots>Enum\<close>, whose second result the code ignores) are the record \<open>EnumMaps\<close>; \<open>strconv.ParseFloat\<close> is the
  record \<open>FloatParse\<close>: the text of the 32-bit number, and the integer part of the 64-bit number.
\<close>

section \<open>The machine object\<close>

record NetworkDetails =
  ND_SubnetId :: "string option"
  ND_AssignIpv6Ip :: bool
  ND_AssignPublicIp :: bool
  ND_SubnetName :: string
  ND_SkipSourceDestCheck :: "bool option"
  ND_NSGId :: "string option"
  ND_NSGIds :: "string list"
  ND_NsgNames :: "string list"
  ND_HostnameLabel :: "string option"
  ND_DisplayName :: "string option"
  ND_AssignPrivateDnsRecord :: "bool option"

record VnicAttachment =
  VA_VnicAttachmentId :: "string option"
  VA_AssignPublicIp :: bool
  VA_SubnetName :: string
  VA_DisplayName :: "string option"
  VA_NicIndex :: "int option"

record LaunchOptions =
  LO_BootVolumeType :: string
  LO_Firmware :: string
  LO_NetworkType :: string
  LO_RemoteDataVolumeType :: string
  LO_IsConsistentVolumeNamingEnabled :: "bool option"

record InstanceSourceViaImageConfig =
  ISVI_KmsKeyId :: "string option"
  ISVI_BootVolumeVpusPerGB :: "int option"

record VmPlatformConfig =
  VP_IsSecureBootEnabled :: "bool option"
  VP_IsTrustedPlatformModuleEnabled :: "bool option"
  VP_IsMeasuredBootEnabled :: "bool option"
  VP_IsMemoryEncryptionEnabled :: "bool option"

type_synonym IntelVmPlatformConfig = VmPlatformConfig
type_synonym AmdVmPlatformConfig = VmPlatformConfig
type_synonym IntelSkylakeBmPlatformConfig = VmPlatformConfig

record IntelIcelakeBmPlatformConfig = VmPlatformConfig +
  IC_IsSymmetricMultiThreadingEnabled :: "bool option"
  IC_IsInputOutputMemoryManagementUnitEnabled :: "bool option"
  IC_PercentageOfCoresEnabled :: "int option"
  IC_NumaNodesPerSocket :: string

record AmdRomeBmGpuPlatformConfig = VmPlatformConfig +
  AR_IsSymmetricMultiThreadingEnabled :: "bool option"
  AR_IsAccessControlServiceEnabled :: "bool option"
  AR_AreVirtualInstructionsEnabled :: "bool option"
  AR_IsInputOutputMemoryManagementUnitEnabled :: "bool option"
  AR_NumaNodesPerSocket :: string

record AmdRomeBmPlatformConfig = AmdRomeBmGpuPlatformConfig +
  AR_PercentageOfCoresEnabled :: "int option"

type_synonym AmdMilanBmPlatformConfig = AmdRomeBmPlatformConfig

record PlatformConfig =
  PC_PlatformConfigType :: string
  PC_AmdMilanBmPlatformConfig :: AmdMilanBmPlatformConfig
  PC_AmdRomeBmPlatformConfig :: AmdRomeBmPlatformConfig
  PC_IntelSkylakeBmPlatformConfig :: IntelSkylakeBmPlatformConfig
  PC_IntelIcelakeBmPlatformConfig :: IntelIcelakeBmPlatformConfig
  PC_AmdRomeBmGpuPlatformConfig :: AmdRomeBmGpuPlatformConfig
  PC_IntelVmPlatformConfig :: IntelVmPlatformConfig
  PC_AmdVmPlatformConfig :: AmdVmPlatformConfig

record InstanceOptions =
  IO_AreLegacyImdsEndpointsDisabled :: "bool option"

record LaunchInstanceAvailabilityConfig =
  AC_IsLiveMigrationPreferred :: "bool option"
  AC_RecoveryAction :: string

record TerminatePreemptionAction =
  TPA_PreserveBootVolume :: "bool option"

record PreemptibleInstanceConfig =
  PIC_TerminatePreemptionAction :: "TerminatePreemptionAction option"

record InstanceAgentPluginConfig =
  Plugin_Name :: "string option"
  Plugin_DesiredState :: string

record LaunchInstanceAgentConfig =
  Agent_IsMonitoringDisabled :: "bool option"
  Agent_IsManagementDisabled :: "bool option"
  Agent_AreAllPluginsDisabled :: "bool option"
  Agent_PluginsConfig :: "InstanceAgentPluginConfig list"

record ShapeConfig =
  ShapeConfig_Ocpus :: string
  ShapeConfig_MemoryInGBs :: string
  ShapeConfig_BaselineOcpuUtilization :: string
  ShapeConfig_Nvmes :: "int option"

record LaunchCreateVolumeFromAttributes =
  LCV_SizeInGBs :: "int option"
  LCV_CompartmentId :: "string option"
  LCV_DisplayName :: "string option"
  LCV_KmsKeyId :: "string option"
  LCV_VpusPerGB :: "int option"

record LaunchIscsiVolumeAttachment =
  LI_Device :: "string option"
  LI_DisplayName :: "string option"
  LI_IsReadOnly :: "bool option"
  LI_IsShareable :: "bool option"
  LI_VolumeId :: "string option"
  LI_LaunchCreateVolumeFromAttributes :: LaunchCreateVolumeFromAttributes
  LI_UseChap :: "bool option"
  LI_IsAgentAutoIscsiLoginEnabled :: "bool option"
  LI_EncryptionInTransitType :: string

record LaunchParavirtualizedVolumeAttachment =
  LP_Device :: "string option"
  LP_DisplayName :: "string option"
  LP_IsReadOnly :: "bool option"
  LP_IsShareable :: "bool option"
  LP_VolumeId :: "string option"
  LP_LaunchCreateVolumeFromAttributes :: LaunchCreateVolumeFromAttributes
  LP_IsPvEncryptionInTransitEnabled :: "bool option"

record LaunchVolumeAttachment =
  LVA_Type :: string
  LVA_IscsiAttachment :: LaunchIscsiVolumeAttachment
  LVA_ParavirtualizedAttachment :: LaunchParavirtualizedVolumeAttachment

text \<open>A JSON value of the extended metadata is its text.\<close>

record OCIMachineSpec =
  MSpec_InstanceId :: "string option"
  MSpec_ImageId :: string
  MSpec_CompartmentId :: string
  MSpec_Shape :: string
  MSpec_ComputeClusterId :: "string option"
  MSpec_IpxeScript :: "string option"
  MSpec_CapacityReservationId :: "string option"
  MSpec_ShapeConfig :: ShapeConfig
  MSpec_NetworkDetails :: NetworkDetails
  MSpec_VnicAttachments :: "VnicAttachment list"
  MSpec_LaunchOptions :: "LaunchOptions option"
  MSpec_InstanceOptions :: "InstanceOptions option"
  MSpec_AvailabilityConfig :: "LaunchInstanceAvailabilityConfig option"
  MSpec_PreemptibleInstanceConfig :: "PreemptibleInstanceConfig option"
  MSpec_AgentConfig :: "LaunchInstanceAgentConfig option"
  MSpec_InstanceSourceViaImageDetails :: "InstanceSourceViaImageConfig option"
  MSpec_PlatformConfig :: "PlatformConfig option"
  MSpec_DedicatedVmHostId :: "string option"
  MSpec_ProviderID :: "string option"
  MSpec_BlockVolumeSpec :: BlockVolumeSpec
  MSpec_IsPvEncryptionInTransitEnabled :: bool
  MSpec_BootVolumeSizeInGBs :: string
  MSpec_Metadata :: tags
  MSpec_ExtendedMetadata :: "(string \<times> string) list"
  MSpec_FreeformTags :: tags
  MSpec_DefinedTags :: "defined_tags option"
  MSpec_LaunchVolumeAttachment :: "LaunchVolumeAttachment list"
  MSpec_SubnetName :: string
  MSpec_PreserveBootVolume :: bool
  MSpec_PreserveDataVolumesCreatedAtLaunch :: bool

record MachineAddress =
  Address_Type :: string
  Address_Address :: string

abbreviation MachineInternalIP :: string where "MachineInternalIP \<equiv> ''InternalIP''"

record OCIMachineStatus =
  MStatus_Ready :: bool
  MStatus_Addresses :: "MachineAddress list"
  MStatus_FailureReason :: "string option"
  MStatus_FailureMessage :: "string option"
  MStatus_LaunchInstanceWorkRequestId :: string
  MStatus_CreateBackendWorkRequestId :: string
  MStatus_DeleteBackendWorkRequestId :: string
  MStatus_Conditions :: "Condition list"

record OCIMachine =
  OCIMachine_Name :: string
  OCIMachine_Namespace :: string
  OCIMachine_UID :: string
  OCIMachine_Finalizers :: "string list"
  OCIMachine_Deleted :: bool
  OCIMachine_Spec :: OCIMachineSpec
  OCIMachine_Status :: OCIMachineStatus

abbreviation MachineFinalizer :: string where "MachineFinalizer \<equiv> ''ocimachine.infrastructure.cluster.x-k8s.io''"
abbreviation DeleteMachineOnInstanceTermination :: string where
  "DeleteMachineOnInstanceTermination \<equiv> ''ociclusters.x-k8s.io/delete-machine-on-instance-termination''"

text \<open>What the provider reads of the owning Cluster API machine.\<close>

record Machine =
  Machine_Name :: string
  Machine_Namespace :: string
  Machine_Labels :: tags
  Machine_Annotations :: tags
  Machine_Deleted :: bool
  Machine_FailureDomain :: string
  Machine_DataSecretName :: "string option"

section \<open>The services\<close>

record EnumMaps =
  em_DesiredState :: "string \<Rightarrow> string"
  em_BootVolumeType :: "string \<Rightarrow> string"
  em_Firmware :: "string \<Rightarrow> string"
  em_NetworkType :: "string \<Rightarrow> string"
  em_RemoteDataVolumeType :: "string \<Rightarrow> string"
  em_RecoveryAction :: "string \<Rightarrow> string"
  em_AmdRomeBmGpuNuma :: "string \<Rightarrow> string"
  em_AmdRomeBmNuma :: "string \<Rightarrow> string"
  em_IntelIcelakeBmNuma :: "string \<Rightarrow> string"
  em_AmdMilanBmNuma :: "string \<Rightarrow> string"
  em_BaselineOcpuValues :: "string list"

record FloatParse =
  fp_Float32 :: "string \<Rightarrow> string option"
  fp_Int64OfFloat64 :: "string \<Rightarrow> int option"

datatype InstanceState = InstProvisioning | InstStarting | InstStopping | InstStopped | InstMoving | InstRunning
  | InstTerminating | InstTerminated | InstStateOther string

record Instance = SdkResource +
  Instance_AvailabilityDomain :: "string option"
  Instance_CompartmentId :: "string option"
  Instance_LifecycleState :: InstanceState

record InstanceSourceDetails =
  Source_ImageId :: string
  Source_BootVolumeSizeInGBs :: "int option"
  Source_KmsKeyId :: "string option"
  Source_BootVolumeVpusPerGB :: "int option"

record LaunchShapeConfig =
  LSC_Ocpus :: "string option"
  LSC_MemoryInGBs :: "string option"
  LSC_BaselineOcpuUtilization :: string

record CreateVnicDetails =
  CVnic_SubnetId :: "string option"
  CVnic_AssignIpv6Ip :: "bool option"
  CVnic_AssignPublicIp :: bool
  CVnic_FreeformTags :: tags
  CVnic_DefinedTags :: defined_tags
  CVnic_HostnameLabel :: "string option"
  CVnic_NsgIds :: "string list"
  CVnic_SkipSourceDestCheck :: "bool option"
  CVnic_AssignPrivateDnsRecord :: "bool option"
  CVnic_DisplayName :: "string option"

record SdkAgentConfig =
  SdkAgent_IsMonitoringDisabled :: "bool option"
  SdkAgent_IsManagementDisabled :: "bool option"
  SdkAgent_AreAllPluginsDisabled :: "bool option"
  SdkAgent_PluginsConfig :: "InstanceAgentPluginConfig list option"

datatype SdkPlatformConfig =
    SdkAmdRomeBmGpu AmdRomeBmGpuPlatformConfig
  | SdkAmdRomeBm AmdRomeBmPlatformConfig
  | SdkIntelIcelakeBm IntelIcelakeBmPlatformConfig
  | SdkAmdVm AmdVmPlatformConfig
  | SdkIntelVm IntelVmPlatformConfig
  | SdkIntelSkylakeBm IntelSkylakeBmPlatformConfig
  | SdkAmdMilanBm AmdMilanBmPlatformConfig

record AttachIScsi =
  AI_VolumeId :: "string option"
  AI_Device :: "string option"
  AI_DisplayName :: "string option"
  AI_IsShareable :: "bool option"
  AI_IsReadOnly :: "bool option"
  AI_UseChap :: "bool option"
  AI_IsAgentAutoIscsiLoginEnabled :: "bool option"
  AI_EncryptionInTransitType :: string
  AI_LaunchCreateVolumeDetails :: "LaunchCreateVolumeFromAttributes option"

record AttachParavirtualized =
  AP_VolumeId :: "string option"
  AP_Device :: "string option"
  AP_DisplayName :: "string option"
  AP_IsShareable :: "bool option"
  AP_IsReadOnly :: "bool option"
  AP_IsPvEncryptionInTransitEnabled :: "bool option"
  AP_LaunchCreateVolumeDetails :: "LaunchCreateVolumeFromAttributes option"

datatype LaunchAttachVolumeDetails = LaunchAttachIScsi AttachIScsi | LaunchAttachParavirtualized AttachParavirtualized

record LaunchInstanceDetails =
  LD_DisplayName :: string
  LD_SourceDetails :: InstanceSourceDetails
  LD_CreateVnicDetails :: CreateVnicDetails
  LD_ComputeClusterId :: "string option"
  LD_Metadata :: tags
  LD_ExtendedMetadata :: "(string \<times> string option) list"
  LD_Shape :: string
  LD_AvailabilityDomain :: string
  LD_CompartmentId :: string
  LD_IsPvEncryptionInTransitEnabled :: bool
  LD_FreeformTags :: tags
  LD_DefinedTags :: defined_tags
  LD_DedicatedVmHostId :: "string option"
  LD_ShapeConfig :: "LaunchShapeConfig option"
  LD_FaultDomain :: "string option"
  LD_CapacityReservationId :: "string option"
  LD_AgentConfig :: "SdkAgentConfig option"
  LD_LaunchOptions :: "LaunchOptions option"
  LD_InstanceOptions :: "InstanceOptions option"
  LD_AvailabilityConfig :: "LaunchInstanceAvailabilityConfig option"
  LD_PreemptibleInstanceConfig :: "PreemptibleInstanceConfig option"
  LD_PlatformConfig :: "SdkPlatformConfig option"
  LD_LaunchVolumeAttachments :: "LaunchAttachVolumeDetails list"

datatype VolumeAttachmentState = VolAttached | VolAttaching | VolAttachStateOther string

record VolumeAttachment =
  VolAtt_Id :: "string option"
  VolAtt_VolumeId :: "string option"
  VolAtt_LifecycleState :: VolumeAttachmentState

datatype VnicAttachmentState = VnicAttached | VnicAttachStateOther string

record SdkVnicAttachment =
  VnicAtt_Id :: "string option"
  VnicAtt_VnicId :: "string option"
  VnicAtt_DisplayName :: "string option"
  VnicAtt_LifecycleState :: VnicAttachmentState

record SdkVnic =
  Vnic_IsPrimary :: "bool option"
  Vnic_PrivateIp :: "string option"

record AttachVnicDetails =
  AVD_DisplayName :: "string option"
  AVD_NicIndex :: "int option"
  AVD_InstanceId :: "string option"
  AVD_CreateVnicDetails :: CreateVnicDetails

datatype AttachVolumeDetails = AttachIScsiVolume string "string option" | AttachParavirtualizedVolume string "string option"

record 'w ComputeApi =
  api_LaunchInstance :: "LaunchInstanceDetails \<Rightarrow> string \<Rightarrow> ('w, Instance) go"
  api_TerminateInstance :: "string option \<Rightarrow> bool \<Rightarrow> bool \<Rightarrow> ('w, unit) go"
  api_GetInstance :: "string option \<Rightarrow> ('w, Instance) go"
  api_ListInstances :: "string \<Rightarrow> string \<Rightarrow> string option \<Rightarrow> ('w, Instance list \<times> string option) go"
  api_AttachVnic :: "AttachVnicDetails \<Rightarrow> ('w, string option) go"
  api_ListVnicAttachments :: "string option \<Rightarrow> string \<Rightarrow> string option \<Rightarrow> ('w, SdkVnicAttachment list \<times> string option) go"
  api_GetVnic :: "string option \<Rightarrow> ('w, SdkVnic) go"
  api_ListVolumeAttachments :: "string option \<Rightarrow> string \<Rightarrow> string option \<Rightarrow> ('w, VolumeAttachment list \<times> string option) go"
  api_AttachVolume :: "AttachVolumeDetails \<Rightarrow> ('w, unit) go"
  api_DetachVolume :: "string option \<Rightarrow> ('w, unit) go"

datatype SdkAutotunePolicy = DetachedVolumeAutotunePolicy | PerformanceBasedAutotunePolicy "int option"

record SdkVolume = SdkResource +
  Volume_Available :: bool
  Volume_State :: string

record CreateVolumeDetails =
  CVol_AvailabilityDomain :: string
  CVol_CompartmentId :: string
  CVol_DisplayName :: string
  CVol_VpusPerGB :: "int option"
  CVol_SizeInGBs :: "int option"
  CVol_FreeformTags :: tags
  CVol_AutotunePolicies :: "SdkAutotunePolicy list"

record 'w VolumeApi =
  api_ListVolumes :: "string \<Rightarrow> string \<Rightarrow> string option \<Rightarrow> ('w, SdkVolume list \<times> string option) go"
  api_GetVolume :: "string \<Rightarrow> ('w, SdkVolume) go"
  api_CreateVolume :: "CreateVolumeDetails \<Rightarrow> string \<Rightarrow> ('w, unit) go"
  api_DeleteVolume :: "string option \<Rightarrow> ('w, unit) go"

record SdkWorkRequestSummary =
  WRS_Id :: "string option"
  WRS_Failed :: bool

record 'w WorkRequestApi =
  api_ListWorkRequests :: "string option \<Rightarrow> string option \<Rightarrow> ('w, SdkWorkRequestSummary list) go"
  api_ListWorkRequestErrors :: "string option \<Rightarrow> ('w, string option list) go"

text \<open>What the machine needs of Kubernetes: the data of the bootstrap secret, and the deletion of the machine.\<close>

record 'w MachineKube =
  kube_GetSecret :: "string \<Rightarrow> string \<Rightarrow> ('w, string \<rightharpoonup> string) go"
  kube_DeleteMachine :: "('w, unit) go"

end
