(* ===== verification/Template_Webhook.thy ===== *)
theory Template_Webhook
  imports Cluster_Webhook Machine_Types
begin

text \<open>
  The webhook of machine templates, the objects from which Cluster API makes the machines of a deployment
  (src/api/v1beta2/ocimachinetemplate_webhook.go), and which templates it admits.
\<close>

text \<open>\<open>Spec.Template.Spec\<close> is the spec of the machines made from the template.\<close>

record OCIMachineTemplate =
  Template_Name :: string
  Template_Spec :: OCIMachineSpec

definition template_validate :: "OCIMachineTemplate \<Rightarrow> FieldError list" where
  "template_validate m =
     (let spec = Template_Spec m; path = [Child ''spec'', Child ''template'', Child ''spec''] in
      invalid_if (length (MSpec_ImageId spec) > 0 \<and> \<not> ValidOcid (MSpec_ImageId spec)) (path @ [Child ''imageId'']) ''field is invalid'' @
      invalid_if (length (MSpec_CompartmentId spec) > 0 \<and> \<not> ValidOcid (MSpec_CompartmentId spec)) (path @ [Child ''compartmentId''])
        ''field is invalid'' @
      invalid_if (\<not> validShape (MSpec_Shape spec)) (path @ [Child ''shape'']) (''shape is invalid - '' @ MSpec_Shape spec) @
      ValidateBlockVolumeSpec (MSpec_BlockVolumeSpec spec) [Child ''spec'', Child ''blockvolumeSpec''])"

definition template_ValidateCreate :: "OCIMachineTemplate \<Rightarrow> StatusError option" where
  "template_ValidateCreate m =
     (let allErrs = template_validate m in if length allErrs = 0 then None else Some (NewInvalid (Template_Name m) allErrs))"

definition template_ValidateUpdate :: "OCIMachineTemplate \<Rightarrow> OCIMachineTemplate \<Rightarrow> StatusError option" where
  "template_ValidateUpdate old m =
     (let allErrs = template_validate m in if length allErrs = 0 then None else Some (NewInvalid (Template_Name m) allErrs))"

definition template_ValidateDelete :: "OCIMachineTemplate \<Rightarrow> StatusError option" where
  "template_ValidateDelete m = None"

text \<open>A template is admitted when its ids are empty or well formed, it has a shape, and a block volume it asks for has a name, policies and
  a known type of attachment. An update is judged by the new template alone.\<close>

lemma template_admitted_iff:
  "template_ValidateUpdate old m = None \<longleftrightarrow>
     MSpec_ImageId (Template_Spec m) \<in> {[]} \<union> Collect ValidOcid \<and> MSpec_CompartmentId (Template_Spec m) \<in> {[]} \<union> Collect ValidOcid \<and>
     MSpec_Shape (Template_Spec m) \<noteq> [] \<and> ValidateBlockVolumeSpec (MSpec_BlockVolumeSpec (Template_Spec m)) [Child ''spec'', Child ''blockvolumeSpec''] = []"
  "template_ValidateCreate m = template_ValidateUpdate old m"
  by (auto simp: template_ValidateUpdate_def template_ValidateCreate_def template_validate_def Let_def validShape_def)

lemma admitted_volume_named:
  assumes "template_ValidateCreate m = None" "MSpec_BlockVolumeSpec (Template_Spec m) \<noteq> emptyBlockVolumeSpec"
  shows "BlockVolumeSpec_DisplayName (MSpec_BlockVolumeSpec (Template_Spec m)) \<noteq> None \<and>
    BlockVolumeSpec_VolumeType (MSpec_BlockVolumeSpec (Template_Spec m)) \<in> {ParavirtualizedType, IscsiType}"
  using assms by (auto simp: template_ValidateCreate_def template_validate_def Let_def ValidateBlockVolumeSpec_def split: if_splits)

end
