(* ===== verification/Machine_Scope.thy ===== *)
theory Machine_Scope
  imports Machine_Types
begin

text \<open>
  The scope of a machine (src/cloud/scope/machine.go) with the reconcilers of its block volume and of its VNICs
  (block_volume_reconciler.go, vnic_reconciler.go) and the tag and metadata conversions of util.go. A program of the
  machine scope runs over the scope, whose machine object it updates in place, and the cloud. The accessor of the
  cluster object is the one of \<open>Cluster_Scope\<close>. The load balancer backends of a machine are in \<open>Machine_LB\<close>.
\<close>

section \<open>State\<close>

record MachineScope =
  MS_OCIClusterAccessor :: ClusterScope
  MS_Machine :: Machine
  MS_OCIMachine :: OCIMachine

type_synonym ('w, 'a) machine_go = "(MachineScope \<times> 'w, 'a) go"

text \<open>The clients of the scope. The block volume client may be nil. \<open>mc_RandInt\<close> is \<open>rand.Int(rand.Reader, \<dots>)\<close>,
  \<open>mc_JsonUnmarshal\<close> is \<open>json.Unmarshal\<close> into an \<open>interface{}\<close> (kept as the text of the value).\<close>

record 'w MachineClients =
  mc_Compute :: "'w ComputeApi"
  mc_BlockVolume :: "'w VolumeApi option"
  mc_WorkRequests :: "'w WorkRequestApi"
  mc_Lb :: "'w LbApi"
  mc_Nlb :: "'w NlbApi"
  mc_LbPoll :: "'w lb_poller"
  mc_NlbPoll :: "'w nlb_poller"
  mc_Kube :: "'w MachineKube"
  mc_RandInt :: "int \<Rightarrow> ('w, int) go"
  mc_Enum :: EnumMaps
  mc_Float :: FloatParse
  mc_JsonUnmarshal :: "string \<Rightarrow> goerr + string"

abbreviation machine_spec :: "MachineScope \<Rightarrow> OCIMachineSpec" where
  "machine_spec m \<equiv> OCIMachine_Spec (MS_OCIMachine m)"

abbreviation machine_status :: "MachineScope \<Rightarrow> OCIMachineStatus" where
  "machine_status m \<equiv> OCIMachine_Status (MS_OCIMachine m)"

definition upd_machine_spec :: "(OCIMachineSpec \<Rightarrow> OCIMachineSpec) \<Rightarrow> MachineScope \<Rightarrow> MachineScope" where
  "upd_machine_spec f m = m\<lparr>MS_OCIMachine := (MS_OCIMachine m)\<lparr>OCIMachine_Spec := f (machine_spec m)\<rparr>\<rparr>"

definition upd_machine_status :: "(OCIMachineStatus \<Rightarrow> OCIMachineStatus) \<Rightarrow> MachineScope \<Rightarrow> MachineScope" where
  "upd_machine_status f m = m\<lparr>MS_OCIMachine := (MS_OCIMachine m)\<lparr>OCIMachine_Status := f (machine_status m)\<rparr>\<rparr>"

text \<open>\<open>NewMachineScope\<close>; \<open>helper\<close> is the outcome of the construction of the patch helper.\<close>

definition NewMachineScope ::
  "Machine option \<Rightarrow> ClusterScope option \<Rightarrow> OCIMachine \<Rightarrow> goerr option \<Rightarrow> goerr + MachineScope" where
  "NewMachineScope machine accessor ociMachine helper = (case machine of
      None \<Rightarrow> Inl (ErrNew ''failed to generate new scope from nil Machine'')
    | Some mach \<Rightarrow> (case accessor of
        None \<Rightarrow> Inl (ErrNew ''failed to generate new scope from nil OCICluster'')
      | Some acc \<Rightarrow> (case helper of
          Some err \<Rightarrow> Inl (ErrWrap ''failed to init patch helper'' err)
        | None \<Rightarrow> Inr \<lparr>MS_OCIClusterAccessor = acc, MS_Machine = mach, MS_OCIMachine = ociMachine\<rparr>)))"

text \<open>\<open>errors.Wrapf(err, format, *id)\<close>: the pointer is followed only when there is an error.\<close>

definition wrap_with_id :: "string \<Rightarrow> string option \<Rightarrow> ('s, 'a) go \<Rightarrow> ('s, 'a) go" where
  "wrap_with_id msg i m = go_bind (go_try m) (\<lambda>x. case x of
      Inl err \<Rightarrow> go_bind (go_deref i) (\<lambda>v. go_throw (ErrWrap (msg @ v) err))
    | Inr a \<Rightarrow> go_ret a)"

section \<open>Queries over the objects\<close>

definition machine_Name :: "MachineScope \<Rightarrow> string" where
  "machine_Name m = OCIMachine_Name (MS_OCIMachine m)"

definition GetInstanceId :: "MachineScope \<Rightarrow> string option" where
  "GetInstanceId m = MSpec_InstanceId (machine_spec m)"

definition SetReady :: "MachineScope \<Rightarrow> MachineScope" where
  "SetReady = upd_machine_status (\<lambda>st. st\<lparr>MStatus_Ready := True\<rparr>)"

definition SetNotReady :: "MachineScope \<Rightarrow> MachineScope" where
  "SetNotReady = upd_machine_status (\<lambda>st. st\<lparr>MStatus_Ready := False\<rparr>)"

definition IsReady :: "MachineScope \<Rightarrow> bool" where
  "IsReady m = MStatus_Ready (machine_status m)"

definition SetFailureMessage :: "goerr \<Rightarrow> MachineScope \<Rightarrow> MachineScope" where
  "SetFailureMessage v = upd_machine_status (\<lambda>st. st\<lparr>MStatus_FailureMessage := Some (Error v)\<rparr>)"

definition SetFailureReason :: "string \<Rightarrow> MachineScope \<Rightarrow> MachineScope" where
  "SetFailureReason v = upd_machine_status (\<lambda>st. st\<lparr>MStatus_FailureReason := Some v\<rparr>)"

abbreviation MachineControlPlaneLabel :: string where "MachineControlPlaneLabel \<equiv> ''cluster.x-k8s.io/control-plane''"

definition IsControlPlane :: "MachineScope \<Rightarrow> bool" where
  "IsControlPlane m = (Machine_Labels (MS_Machine m) MachineControlPlaneLabel \<noteq> None)"

definition getCompartmentId :: "MachineScope \<Rightarrow> string" where
  "getCompartmentId m =
     (if MSpec_CompartmentId (machine_spec m) \<noteq> '''' then MSpec_CompartmentId (machine_spec m)
      else GetCompartmentId (MS_OCIClusterAccessor m))"

definition machine_subnets :: "MachineScope \<Rightarrow> Subnet list" where
  "machine_subnets m = ToSubnetSlice (VCN_Subnets (GetVcnSpec (MS_OCIClusterAccessor m)))"

definition machine_nsgs :: "MachineScope \<Rightarrow> NSG list" where
  "machine_nsgs m = ToNSGSlice (NetworkSecurityGroup_List (VCN_NetworkSecurityGroup (GetVcnSpec (MS_OCIClusterAccessor m))))"

text \<open>The loops that return the id of the first subnet with a property, and that collect the ids of groups.\<close>

definition first_subnet :: "(Subnet \<Rightarrow> bool) \<Rightarrow> MachineScope \<Rightarrow> Subnet option" where
  "first_subnet P m = find P (machine_subnets m)"

definition nsg_ids :: "(NSG \<Rightarrow> bool) \<Rightarrow> MachineScope \<Rightarrow> string list" where
  "nsg_ids P m = List.map_filter NSG_ID (filter P (machine_nsgs m))"

definition subnet_id :: "Subnet option \<Rightarrow> string option" where
  "subnet_id p = (case p of None \<Rightarrow> None | Some sn \<Rightarrow> Subnet_ID sn)"

definition getGetControlPlaneMachineSubnet :: "MachineScope \<Rightarrow> string option" where
  "getGetControlPlaneMachineSubnet m = subnet_id (first_subnet (\<lambda>sn. Subnet_Role sn = ControlPlaneRole) m)"

definition getGetControlPlaneMachineNSGs :: "MachineScope \<Rightarrow> string list" where
  "getGetControlPlaneMachineNSGs m = nsg_ids (\<lambda>n. NSG_Role n = ControlPlaneRole) m"

definition getMachineSubnet :: "MachineScope \<Rightarrow> string \<Rightarrow> goerr + string option" where
  "getMachineSubnet m name = (case first_subnet (\<lambda>sn. Subnet_Name sn = name) m of
      Some sn \<Rightarrow> Inr (Subnet_ID sn)
    | None \<Rightarrow> Inl (ErrNew (''Subnet with name '' @ name @ '' not found for cluster '' @ GetName (MS_OCIClusterAccessor m))))"

definition getWorkerMachineSubnet :: "MachineScope \<Rightarrow> string option" where
  "getWorkerMachineSubnet m = subnet_id (first_subnet (\<lambda>sn. Subnet_Role sn = WorkerRole \<and>
     (MSpec_SubnetName (machine_spec m) = '''' \<or> MSpec_SubnetName (machine_spec m) = Subnet_Name sn)) m)"

definition getWorkerMachineNSGs :: "MachineScope \<Rightarrow> string list" where
  "getWorkerMachineNSGs m =
     (let names = ND_NsgNames (MSpec_NetworkDetails (machine_spec m)) in
      if length names > 0 then concat (map (\<lambda>nsgName. nsg_ids (\<lambda>n. NSG_Name n = nsgName) m) names)
      else nsg_ids (\<lambda>n. NSG_Role n = WorkerRole) m)"

text \<open>The tags of a machine's resources: the ownership tags, then those of the cluster, then those of the machine, a
  later one replacing an earlier one with the same key.\<close>

definition getFreeFormTags :: "MachineScope \<Rightarrow> tags" where
  "getFreeFormTags m = BuildClusterTags (GetOCIResourceIdentifier (MS_OCIClusterAccessor m)) ++
     accessor_GetFreeformTags (MS_OCIClusterAccessor m) ++ MSpec_FreeformTags (machine_spec m)"

definition machine_IsResourceCreatedByClusterAPI :: "MachineScope \<Rightarrow> tags \<Rightarrow> bool" where
  "machine_IsResourceCreatedByClusterAPI m resourceFreeFormTags =
     (let tagsAddedByClusterAPI = BuildClusterTags (GetOCIResourceIdentifier (MS_OCIClusterAccessor m))
      in list_all (\<lambda>k. tag_at resourceFreeFormTags k = tag_at tagsAddedByClusterAPI k) cluster_tag_keys)"

definition ConvertMachineDefinedTags :: "defined_tags option \<Rightarrow> defined_tags" where
  "ConvertMachineDefinedTags machineDefinedTags = (case machineDefinedTags of None \<Rightarrow> Map.empty | Some t \<Rightarrow> t)"

text \<open>The metadata is a map; the list gives its entries in the order of the iteration.\<close>

fun ConvertMachineExtendedMetadata ::
  "(string \<Rightarrow> goerr + string) \<Rightarrow> (string \<times> string) list \<Rightarrow> goerr + (string \<times> string option) list" where
  "ConvertMachineExtendedMetadata unmarshal [] = Inr []"
| "ConvertMachineExtendedMetadata unmarshal ((k, raw) # entries) =
     (case (if length raw = 0 then Inr None else map_sum id Some (unmarshal raw)) of
        Inl err \<Rightarrow> Inl err
      | Inr v \<Rightarrow> map_sum id (\<lambda>vs. (k, v) # vs) (ConvertMachineExtendedMetadata unmarshal entries))"

definition GetMachineIPFromStatus :: "MachineScope \<Rightarrow> goerr + string" where
  "GetMachineIPFromStatus m =
     (let addresses = MStatus_Addresses (machine_status m) in
      if length addresses = 0 then Inl (ErrNew ''could not find machine IP Address in status object'')
      else case find (\<lambda>ip. Address_Type ip = MachineInternalIP) addresses of
        Some ip \<Rightarrow> Inr (Address_Address ip)
      | None \<Rightarrow> Inl (ErrNew ''could not find machine Internal IP Address in status object''))"

section \<open>Failure domains\<close>

definition faultDomainsForAvailabilityDomain :: "MachineScope \<Rightarrow> string \<Rightarrow> string list" where
  "faultDomainsForAvailabilityDomain m availabilityDomain =
     (case GetAvailabilityDomains (MS_OCIClusterAccessor m) of
        None \<Rightarrow> []
      | Some adMap \<Rightarrow> (case map_of adMap availabilityDomain of
          None \<Rightarrow> []
        | Some adEntry \<Rightarrow> AD_FaultDomains adEntry))"

definition buildFaultDomainRetryList :: "MachineScope \<Rightarrow> string \<Rightarrow> string \<Rightarrow> bool \<Rightarrow> string list" where
  "buildFaultDomainRetryList m availabilityDomain initialFaultDomain retry =
     (if \<not> retry \<or> availabilityDomain = '''' then [initialFaultDomain]
      else initialFaultDomain #
        filter (\<lambda>fd. fd \<noteq> initialFaultDomain) (faultDomainsForAvailabilityDomain m availabilityDomain))"

definition resolveAvailabilityAndFaultDomain :: "'w MachineClients \<Rightarrow> ('w, string \<times> string \<times> bool) machine_go" where
  "resolveAvailabilityAndFaultDomain c =
     go_bind get_scope (\<lambda>m.
     go_bind (if Machine_FailureDomain (MS_Machine m) = ''''
        then go_bind (api (mc_RandInt c 3)) (\<lambda>n. go_ret (Itoa (n + 1)))
        else go_ret (Machine_FailureDomain (MS_Machine m))) (\<lambda>failureDomainKey.
     case Atoi failureDomainKey of
       None \<Rightarrow> go_throw (ErrWrap ''invalid failure domain parameter, must be a valid integer''
                 (ErrNew (''strconv.Atoi: parsing '' @ failureDomainKey @ '': invalid syntax'')))
     | Some failureDomainIndex \<Rightarrow>
         if failureDomainIndex < 1 \<or> failureDomainIndex > 3
         then go_throw (ErrNew ''failure domain should be a value between 1 and 3'')
         else (case (case GetFailureDomains (MS_OCIClusterAccessor m) of None \<Rightarrow> None | Some fds \<Rightarrow> fds failureDomainKey) of
             None \<Rightarrow> go_throw (ErrNew ''failure domain not found in cluster failure domains'')
           | Some fdEntry \<Rightarrow>
               let availabilityDomain = tag_at (FD_Attributes fdEntry) AvailabilityDomainKey;
                   faultDomain = tag_at (FD_Attributes fdEntry) FaultDomainKey
               in go_ret (availabilityDomain, faultDomain, faultDomain \<noteq> ''''))))"

text \<open>One attempt: the fault domain goes into the details and into the retry token.\<close>

definition launchToken :: "string \<Rightarrow> string \<Rightarrow> string" where
  "launchToken baseRetryToken fd = (if fd \<noteq> '''' then baseRetryToken @ ''-'' @ fd else baseRetryToken)"

definition launchDetailsIn :: "LaunchInstanceDetails \<Rightarrow> string \<Rightarrow> LaunchInstanceDetails" where
  "launchDetailsIn baseDetails fd = (if fd \<noteq> '''' then baseDetails\<lparr>LD_FaultDomain := Some fd\<rparr> else baseDetails)"

fun launchLoop :: "'w ComputeApi \<Rightarrow> LaunchInstanceDetails \<Rightarrow> string \<Rightarrow> goerr option \<Rightarrow> string list \<Rightarrow>
    ('w, Instance option) go" where
  "launchLoop a baseDetails baseRetryToken lastErr [] = (case lastErr of
      None \<Rightarrow> go_ret None
    | Some err \<Rightarrow> go_throw (ErrWrap ''failed to launch instance after trying all fault domains'' err))"
| "launchLoop a baseDetails baseRetryToken lastErr (fd # fds) =
     go_bind (go_try (api_LaunchInstance a (launchDetailsIn baseDetails fd) (launchToken baseRetryToken fd))) (\<lambda>x. case x of
       Inr inst \<Rightarrow> go_ret (Some inst)
     | Inl err \<Rightarrow> if \<not> IsOutOfHostCapacity (Some err) then go_throw err
                  else launchLoop a baseDetails baseRetryToken (Some err) fds)"

definition launchInstanceWithFaultDomainRetry ::
  "'w MachineClients \<Rightarrow> LaunchInstanceDetails \<Rightarrow> string list \<Rightarrow> ('w, Instance option) machine_go" where
  "launchInstanceWithFaultDomainRetry c baseDetails faultDomains =
     go_bind get_scope (\<lambda>m.
     api (launchLoop (mc_Compute c) baseDetails (GetOPCRetryToken ''%s'' [OCIMachine_UID (MS_OCIMachine m)]) None faultDomains))"

section \<open>Launching in several fault domains\<close>

text \<open>A run of launch requests, one for each fault domain, that all fail because the domain is out of capacity.\<close>

inductive capacity_failures :: "'w ComputeApi \<Rightarrow> LaunchInstanceDetails \<Rightarrow> string \<Rightarrow> string list \<Rightarrow> 'w \<Rightarrow> 'w \<Rightarrow> bool"
  for a :: "'w ComputeApi" and d :: LaunchInstanceDetails and tok :: string where
  no_failure: "capacity_failures a d tok [] w w"
| failure: "capacity_failures a d tok (fd # fds) w w2"
  if "api_LaunchInstance a (launchDetailsIn d fd) (launchToken tok fd) w = (Err e, w1)"
    and "IsOutOfHostCapacity (Some e)" and "capacity_failures a d tok fds w1 w2"

inductive_simps capacity_failures_simps [simp]:
  "capacity_failures a d tok [] w w'" "capacity_failures a d tok (fd # fds) w w'"

text \<open>The three ways in which the loop ends, when the service answers every request.\<close>

definition launch_outcome ::
  "'w ComputeApi \<Rightarrow> LaunchInstanceDetails \<Rightarrow> string \<Rightarrow> string list \<Rightarrow> 'w \<Rightarrow> Instance option res \<Rightarrow> 'w \<Rightarrow> bool" where
  "launch_outcome a d tok fds w r w' \<longleftrightarrow>
     (\<exists>pre fd post w1. fds = pre @ fd # post \<and> capacity_failures a d tok pre w w1 \<and>
        (\<exists>inst. api_LaunchInstance a (launchDetailsIn d fd) (launchToken tok fd) w1 = (Ret inst, w') \<and> r = Ret (Some inst))) \<or>
     (\<exists>pre fd post w1. fds = pre @ fd # post \<and> capacity_failures a d tok pre w w1 \<and>
        (\<exists>e. api_LaunchInstance a (launchDetailsIn d fd) (launchToken tok fd) w1 = (Err e, w') \<and>
          \<not> IsOutOfHostCapacity (Some e) \<and> r = Err e)) \<or>
     (capacity_failures a d tok fds w w' \<and>
        (\<exists>e. IsOutOfHostCapacity (Some e) \<and>
          r = Err (ErrWrap ''failed to launch instance after trying all fault domains'' e)))"

lemma launch_outcome_Cons:
  assumes "api_LaunchInstance a (launchDetailsIn d fd) (launchToken tok fd) w = (Err e, w1)" and "IsOutOfHostCapacity (Some e)"
    and "launch_outcome a d tok fds w1 r w'"
  shows "launch_outcome a d tok (fd # fds) w r w'"
proof -
  have step: "capacity_failures a d tok (fd # pre) w w2" if "capacity_failures a d tok pre w1 w2" for pre w2
    using assms(1,2) that by auto
  from assms(3) show ?thesis unfolding launch_outcome_def
    by (elim disjE exE conjE) (metis step append_Cons)+
qed

lemma launchLoop_outcome:
  assumes ans: "\<And>d t. answers (api_LaunchInstance a d t)"
    and "launchLoop a d tok lastErr fds w = (r, w')" and "fds \<noteq> [] \<or> (\<exists>e. lastErr = Some e \<and> IsOutOfHostCapacity (Some e))"
  shows "launch_outcome a d tok fds w r w'"
  using assms(2,3)
proof (induction fds arbitrary: lastErr w)
  case Nil
  then show ?case by (auto simp: launch_outcome_def go_simps)
next
  case (Cons fd fds)
  obtain x w1 where x: "api_LaunchInstance a (launchDetailsIn d fd) (launchToken tok fd) w = (x, w1)"
    by (cases "api_LaunchInstance a (launchDetailsIn d fd) (launchToken tok fd) w")
  consider (ok) inst where "x = Ret inst" | (err) e where "x = Err e"
    using ans x unfolding answers_def by (metis fst_conv)
  then show ?case
  proof cases
    case ok
    with Cons.prems x have "r = Ret (Some inst)" "w' = w1" by (simp_all add: go_simps)
    moreover have "capacity_failures a d tok [] w w" by simp
    ultimately show ?thesis using x ok unfolding launch_outcome_def by blast
  next
    case err
    show ?thesis
    proof (cases "IsOutOfHostCapacity (Some e)")
      case True
      with Cons.prems x err have "launchLoop a d tok (Some e) fds w1 = (r, w')" by (simp add: go_simps)
      from Cons.IH [OF this] True have "launch_outcome a d tok fds w1 r w'" by blast
      with x err True show ?thesis by (auto intro: launch_outcome_Cons)
    next
      case False
      with Cons.prems x err have "r = Err e" "w' = w1" by (simp_all add: go_simps)
      moreover have "capacity_failures a d tok [] w w" by simp
      ultimately show ?thesis using x err False unfolding launch_outcome_def by blast
    qed
  qed
qed

lemma buildFaultDomainRetryList_not_Nil [simp]: "buildFaultDomainRetryList m ad fd retry \<noteq> []"
  by (simp add: buildFaultDomainRetryList_def)

text \<open>C34. The launch goes through the fault domains of the retry list in order. Either some request succeeds and its
  instance is returned, all requests before it having failed for want of capacity; or a request fails for another
  reason, and that error is returned with no further request; or all fault domains of the list are out of capacity, and
  the last such error is returned. The scope stays as it is.\<close>

theorem launch_in_fault_domains:
  assumes "\<And>d t. answers (api_LaunchInstance (mc_Compute c) d t)"
    and "launchInstanceWithFaultDomainRetry c d (buildFaultDomainRetryList m ad fd retry) (m, w) = (r, (m', w'))"
  shows "m' = m \<and> launch_outcome (mc_Compute c) d (GetOPCRetryToken ''%s'' [OCIMachine_UID (MS_OCIMachine m)])
    (buildFaultDomainRetryList m ad fd retry) w r w'"
proof -
  let ?tok = "GetOPCRetryToken ''%s'' [OCIMachine_UID (MS_OCIMachine m)]"
  have "m' = m" "launchLoop (mc_Compute c) d ?tok None (buildFaultDomainRetryList m ad fd retry) w = (r, w')"
    using assms(2) by (auto simp: launchInstanceWithFaultDomainRetry_def go_simps prod_eq_iff)
  with launchLoop_outcome [OF assms(1)] show ?thesis by simp
qed

lemma launchToken_inj: "launchToken tok f = launchToken tok g \<longleftrightarrow> f = g"
  by (auto simp: launchToken_def)

text \<open>The retry list of a machine with a fault domain starts with that fault domain and goes on with the others of
  the availability domain, each fault domain once. The retry tokens of the requests are different, so that none is taken for
  a repetition of another; and they respect the limit of the service as long as the uid of the machine and the
  name of the fault domain are short enough.\<close>

theorem retry_list_and_tokens:
  assumes "distinct (faultDomainsForAvailabilityDomain m ad)" and "ad \<noteq> ''''"
  shows "let fds = buildFaultDomainRetryList m ad fd True; tok = GetOPCRetryToken ''%s'' [uid] in
    distinct fds \<and> hd fds = fd \<and> set fds = insert fd (set (faultDomainsForAvailabilityDomain m ad)) \<and>
    distinct (map (launchToken tok) fds) \<and>
    (\<forall>f \<in> set fds. length uid + length f < MaxOPCRetryTokenBytes \<longrightarrow> length (launchToken tok f) \<le> MaxOPCRetryTokenBytes)"
proof -
  let ?fds = "buildFaultDomainRetryList m ad fd True" and ?tok = "GetOPCRetryToken ''%s'' [uid]"
  have "distinct ?fds" "hd ?fds = fd" "set ?fds = insert fd (set (faultDomainsForAvailabilityDomain m ad))"
    using assms by (auto simp: buildFaultDomainRetryList_def)
  moreover have "inj_on (launchToken ?tok) (set ?fds)" by (simp add: inj_on_def launchToken_inj)
  moreover have "length ?tok \<le> length uid" by (simp add: GetOPCRetryToken_def truncate_length)
  ultimately show ?thesis by (auto simp: Let_def distinct_map launchToken_def)
qed

section \<open>A machine for the witnesses\<close>

definition sample_machine_spec :: OCIMachineSpec where
  "sample_machine_spec = \<lparr>MSpec_InstanceId = None, MSpec_ImageId = ''ocid1.image'', MSpec_CompartmentId = '''',
     MSpec_Shape = ''VM.Standard.E4.Flex'', MSpec_ComputeClusterId = None, MSpec_IpxeScript = None,
     MSpec_CapacityReservationId = None,
     MSpec_ShapeConfig = \<lparr>ShapeConfig_Ocpus = '''', ShapeConfig_MemoryInGBs = '''', ShapeConfig_BaselineOcpuUtilization = '''',
       ShapeConfig_Nvmes = None\<rparr>,
     MSpec_NetworkDetails = \<lparr>ND_SubnetId = None, ND_AssignIpv6Ip = False, ND_AssignPublicIp = False, ND_SubnetName = '''',
       ND_SkipSourceDestCheck = None, ND_NSGId = None, ND_NSGIds = [], ND_NsgNames = [], ND_HostnameLabel = None,
       ND_DisplayName = None, ND_AssignPrivateDnsRecord = None\<rparr>,
     MSpec_VnicAttachments = [], MSpec_LaunchOptions = None, MSpec_InstanceOptions = None, MSpec_AvailabilityConfig = None,
     MSpec_PreemptibleInstanceConfig = None, MSpec_AgentConfig = None, MSpec_InstanceSourceViaImageDetails = None,
     MSpec_PlatformConfig = None, MSpec_DedicatedVmHostId = None, MSpec_ProviderID = None,
     MSpec_BlockVolumeSpec = emptyBlockVolumeSpec, MSpec_IsPvEncryptionInTransitEnabled = False,
     MSpec_BootVolumeSizeInGBs = '''', MSpec_Metadata = Map.empty, MSpec_ExtendedMetadata = [],
     MSpec_FreeformTags = Map.empty, MSpec_DefinedTags = None, MSpec_LaunchVolumeAttachment = [], MSpec_SubnetName = '''',
     MSpec_PreserveBootVolume = False, MSpec_PreserveDataVolumesCreatedAtLaunch = False\<rparr>"

definition sample_machine :: MachineScope where
  "sample_machine =
     \<lparr>MS_OCIClusterAccessor = SetAvailabilityDomains [(''AD-1'', \<lparr>AD_Name = ''AD-1'', AD_FaultDomains = [''FD-1'', ''FD-2'', ''FD-3'']\<rparr>)]
        sample_scope,
      MS_Machine = \<lparr>Machine_Name = ''m'', Machine_Namespace = ''ns'', Machine_Labels = Map.empty, Machine_Annotations = Map.empty,
        Machine_Deleted = False, Machine_FailureDomain = ''1'', Machine_DataSecretName = Some ''secret''\<rparr>,
      MS_OCIMachine = \<lparr>OCIMachine_Name = ''machine'', OCIMachine_Namespace = ''ns'', OCIMachine_UID = ''uid'',
        OCIMachine_Finalizers = [], OCIMachine_Deleted = False, OCIMachine_Spec = sample_machine_spec,
        OCIMachine_Status = \<lparr>MStatus_Ready = False, MStatus_Addresses = [], MStatus_FailureReason = None,
          MStatus_FailureMessage = None, MStatus_LaunchInstanceWorkRequestId = '''', MStatus_CreateBackendWorkRequestId = '''',
          MStatus_DeleteBackendWorkRequestId = '''', MStatus_Conditions = []\<rparr>\<rparr>\<rparr>"

lemma sample_fault_domains [simp]: "faultDomainsForAvailabilityDomain sample_machine ''AD-1'' = [''FD-1'', ''FD-2'', ''FD-3'']"
  by (simp add: faultDomainsForAvailabilityDomain_def sample_machine_def accessor_defs SetAvailabilityDomains_def)

lemma sample_retry_list: "buildFaultDomainRetryList sample_machine ''AD-1'' ''FD-2'' True = [''FD-2'', ''FD-1'', ''FD-3'']"
  by (simp add: buildFaultDomainRetryList_def)

theorem retry_list_and_tokens_witness:
  "distinct (map (launchToken (GetOPCRetryToken ''%s'' [''uid''])) [''FD-2'', ''FD-1'', ''FD-3''])"
  using retry_list_and_tokens [of sample_machine "''AD-1''" "''FD-2''" "''uid''"] unfolding sample_retry_list by (simp add: Let_def)


text \<open>A compute service whose state is the list of its instances. The fault domain FD-2 has no capacity; a launched
  instance has the retry token as its id and runs at once; termination takes effect at once. Other services answer that
  they know nothing.\<close>

definition no_capacity :: goerr where
  "no_capacity = ServiceErr 500 ''Out of host capacity.'' ''InternalError''"

definition launched :: "LaunchInstanceDetails \<Rightarrow> string \<Rightarrow> Instance" where
  "launched d tok = \<lparr>Res_Id = Some tok, Res_DisplayName = Some (LD_DisplayName d), Res_FreeformTags = LD_FreeformTags d,
     Instance_AvailabilityDomain = Some (LD_AvailabilityDomain d), Instance_CompartmentId = Some (LD_CompartmentId d),
     Instance_LifecycleState = InstRunning\<rparr>"

definition instance_at :: "Instance list \<Rightarrow> string \<Rightarrow> Instance option" where
  "instance_at w k = find (\<lambda>x. Res_Id x = Some k \<and> Res_DisplayName x \<noteq> None) w"

definition compute_list :: "Instance list ComputeApi" where
  "compute_list =
     \<lparr>api_LaunchInstance = (\<lambda>d tok w. if LD_FaultDomain d = Some ''FD-2'' then (Err no_capacity, w)
        else (Ret (launched d tok), launched d tok # w)),
      api_TerminateInstance = (\<lambda>i _ _ w. (Ret (), map (\<lambda>x. if Res_Id x = i then x\<lparr>Instance_LifecycleState := InstTerminated\<rparr> else x) w)),
      api_GetInstance = (\<lambda>i w. (case Option.bind i (instance_at w) of None \<Rightarrow> Err not_found_err | Some x \<Rightarrow> Ret x, w)),
      api_ListInstances = (\<lambda>n _ _ w. (Ret (filter (\<lambda>x. Res_DisplayName x = Some n \<and> Option.bind (Res_Id x) (instance_at w) = Some x) w, None), w)),
      api_AttachVnic = (\<lambda>_. go_throw not_found_err),
      api_ListVnicAttachments = (\<lambda>_ _ _. go_ret ([\<lparr>VnicAtt_Id = Some ''va'', VnicAtt_VnicId = Some ''vnic'', VnicAtt_DisplayName = None,
        VnicAtt_LifecycleState = VnicAttached\<rparr>], None)),
      api_GetVnic = (\<lambda>_. go_ret \<lparr>Vnic_IsPrimary = Some True, Vnic_PrivateIp = Some ''10.0.64.5''\<rparr>),
      api_ListVolumeAttachments = (\<lambda>_ _ _. go_ret ([], None)),
      api_AttachVolume = (\<lambda>_. go_throw not_found_err), api_DetachVolume = (\<lambda>_. go_throw not_found_err)\<rparr>"

definition sample_machine_clients :: "Instance list MachineClients" where
  "sample_machine_clients =
     \<lparr>mc_Compute = compute_list, mc_BlockVolume = None,
      mc_WorkRequests = \<lparr>api_ListWorkRequests = (\<lambda>_ _. go_ret []), api_ListWorkRequestErrors = (\<lambda>_. go_ret [])\<rparr>,
      mc_Lb = \<lparr>api_ListLoadBalancers = (\<lambda>_ _ _. go_ret ([], None)), api_GetLoadBalancer = (\<lambda>_. go_throw not_found_err),
        api_CreateLoadBalancer = (\<lambda>_ _. go_throw not_found_err), api_UpdateLoadBalancer = (\<lambda>_ _. go_throw not_found_err),
        api_DeleteLoadBalancer = (\<lambda>_. go_throw not_found_err), api_GetLBWorkRequest = (\<lambda>_. go_throw not_found_err),
        api_CreateLBBackend = (\<lambda>_ _ _ _. go_throw not_found_err), api_DeleteLBBackend = (\<lambda>_ _ _. go_throw not_found_err)\<rparr>,
      mc_Nlb = \<lparr>api_ListNetworkLoadBalancers = (\<lambda>_ _. go_ret []), api_GetNetworkLoadBalancer = (\<lambda>_. go_throw not_found_err),
        api_CreateNetworkLoadBalancer = (\<lambda>_ _. go_throw not_found_err),
        api_UpdateNetworkLoadBalancer = (\<lambda>_ _. go_throw not_found_err), api_UpdateHealthChecker = (\<lambda>_ _ _. go_throw not_found_err),
        api_DeleteNetworkLoadBalancer = (\<lambda>_. go_throw not_found_err), api_GetNLBWorkRequest = (\<lambda>_. go_throw not_found_err),
        api_ListNLBWorkRequestErrors = (\<lambda>_ _. go_ret []),
        api_CreateNLBBackend = (\<lambda>_ _ _ _. go_throw not_found_err), api_DeleteNLBBackend = (\<lambda>_ _ _. go_throw not_found_err)\<rparr>,
      mc_LbPoll = poll_n 3, mc_NlbPoll = poll_n 3,
      mc_Kube = \<lparr>kube_GetSecret = (\<lambda>_ _. go_ret [''value'' \<mapsto> ''cloud-init'']), kube_DeleteMachine = go_ret ()\<rparr>,
      mc_RandInt = (\<lambda>_. go_ret 0),
      mc_Enum = \<lparr>em_DesiredState = id, em_BootVolumeType = id, em_Firmware = id, em_NetworkType = id, em_RemoteDataVolumeType = id,
        em_RecoveryAction = id, em_AmdRomeBmGpuNuma = id, em_AmdRomeBmNuma = id, em_IntelIcelakeBmNuma = id,
        em_AmdMilanBmNuma = id, em_BaselineOcpuValues = []\<rparr>,
      mc_Float = \<lparr>fp_Float32 = Some, fp_Int64OfFloat64 = (\<lambda>_. Some 50)\<rparr>, mc_JsonUnmarshal = Inr\<rparr>"

lemma compute_list_answers: "answers (api_LaunchInstance compute_list d t)"
  by (simp add: answers_def compute_list_def)

lemma no_capacity_is: "IsOutOfHostCapacity (Some no_capacity)"
  by (simp add: IsOutOfHostCapacity_def no_capacity_def OutOfHostCapacityErr_def ToLower_def char_lower_def)

definition sample_launch :: LaunchInstanceDetails where
  "sample_launch = \<lparr>LD_DisplayName = ''machine'',
     LD_SourceDetails = \<lparr>Source_ImageId = ''ocid1.image'', Source_BootVolumeSizeInGBs = None, Source_KmsKeyId = None,
       Source_BootVolumeVpusPerGB = None\<rparr>,
     LD_CreateVnicDetails = \<lparr>CVnic_SubnetId = None, CVnic_AssignIpv6Ip = None, CVnic_AssignPublicIp = False,
       CVnic_FreeformTags = Map.empty, CVnic_DefinedTags = Map.empty, CVnic_HostnameLabel = None, CVnic_NsgIds = [],
       CVnic_SkipSourceDestCheck = None, CVnic_AssignPrivateDnsRecord = None, CVnic_DisplayName = None\<rparr>,
     LD_ComputeClusterId = None, LD_Metadata = Map.empty, LD_ExtendedMetadata = [], LD_Shape = '''', LD_AvailabilityDomain = ''AD-1'',
     LD_CompartmentId = ''comp'', LD_IsPvEncryptionInTransitEnabled = False, LD_FreeformTags = Map.empty,
     LD_DefinedTags = Map.empty, LD_DedicatedVmHostId = None, LD_ShapeConfig = None, LD_FaultDomain = Some ''FD-2'',
     LD_CapacityReservationId = None, LD_AgentConfig = None, LD_LaunchOptions = None, LD_InstanceOptions = None,
     LD_AvailabilityConfig = None, LD_PreemptibleInstanceConfig = None, LD_PlatformConfig = None, LD_LaunchVolumeAttachments = []\<rparr>"

definition sample_launched :: Instance where
  "sample_launched = launched (launchDetailsIn sample_launch ''FD-1'') ''uid-FD-1''"

lemma sample_launch_run:
  "launchInstanceWithFaultDomainRetry sample_machine_clients sample_launch [''FD-2'', ''FD-1'', ''FD-3''] (sample_machine, []) =
     (Ret (Some sample_launched), (sample_machine, [sample_launched]))"
  by (simp add: launchInstanceWithFaultDomainRetry_def go_simps sample_machine_clients_def compute_list_def launchDetailsIn_def
      launchToken_def no_capacity_is sample_launched_def GetOPCRetryToken_def truncateOPCRetryToken_def MaxOPCRetryTokenBytes_def)
     (simp add: sample_machine_def)

theorem launch_in_fault_domains_witness:
  "launch_outcome compute_list sample_launch (GetOPCRetryToken ''%s'' [OCIMachine_UID (MS_OCIMachine sample_machine)])
     [''FD-2'', ''FD-1'', ''FD-3''] [] (Ret (Some sample_launched)) [sample_launched]"
proof -
  have c: "mc_Compute sample_machine_clients = compute_list" by (simp add: sample_machine_clients_def)
  show ?thesis
    using launch_in_fault_domains [of sample_machine_clients sample_launch sample_machine "''AD-1''" "''FD-2''" True "[]"]
      sample_launch_run unfolding c sample_retry_list by (simp add: compute_list_answers)
qed


section \<open>Tags\<close>

text \<open>What the cluster object and the machine object say about the ownership tags wins over the ownership tags: the
  resources of a machine are recognised as the cluster's own exactly if neither object sets one of the two tags to
  another value.\<close>

lemma machine_tags_owned_iff:
  "machine_IsResourceCreatedByClusterAPI m (getFreeFormTags m) \<longleftrightarrow>
     list_all (\<lambda>k. case (accessor_GetFreeformTags (MS_OCIClusterAccessor m) ++ MSpec_FreeformTags (machine_spec m)) k of
         None \<Rightarrow> True
       | Some v \<Rightarrow> v = tag_at (BuildClusterTags (GetOCIResourceIdentifier (MS_OCIClusterAccessor m))) k) cluster_tag_keys"
proof -
  have "tag_at (B ++ U ++ V) k = tag_at B k \<longleftrightarrow> (case (U ++ V) k of None \<Rightarrow> True | Some v \<Rightarrow> v = tag_at B k)"
    if "k \<in> dom B" for B U V :: tags and k
    using that by (auto simp: tag_at_def map_add_def split: option.splits)
  then show ?thesis
    by (auto simp: machine_IsResourceCreatedByClusterAPI_def getFreeFormTags_def list_all_iff dom_BuildClusterTags Let_def)
qed

lemma machine_owned_eq:
  "machine_IsResourceCreatedByClusterAPI m = IsResourceCreatedByClusterAPI (MS_OCIClusterAccessor m)"
  by (rule ext) (simp add: machine_IsResourceCreatedByClusterAPI_def IsResourceCreatedByClusterAPI_def)


end
