(* ===== verification/Machine_Launch.thy ===== *)
theory Machine_Launch
  imports Machine_Scope
begin

text \<open>
  From the machine spec to the launch request (the \<open>get\<dots>\<close> methods at the end of src/cloud/scope/machine.go and the
  part of \<open>GetOrCreateMachine\<close> that fills \<open>launchDetails\<close>). The enumerations of the SDK are their texts.
\<close>

section \<open>Options of the launch\<close>

definition getAgentConfig :: "EnumMaps \<Rightarrow> MachineScope \<Rightarrow> SdkAgentConfig option" where
  "getAgentConfig em m = (case MSpec_AgentConfig (machine_spec m) of
      None \<Rightarrow> None
    | Some agentConfigSpec \<Rightarrow> Some
        \<lparr>SdkAgent_IsMonitoringDisabled = Agent_IsMonitoringDisabled agentConfigSpec,
         SdkAgent_IsManagementDisabled = Agent_IsManagementDisabled agentConfigSpec,
         SdkAgent_AreAllPluginsDisabled = Agent_AreAllPluginsDisabled agentConfigSpec,
         SdkAgent_PluginsConfig =
           (if length (Agent_PluginsConfig agentConfigSpec) > 0
            then Some (map (\<lambda>p. p\<lparr>Plugin_DesiredState := em_DesiredState em (Plugin_DesiredState p)\<rparr>)
                   (Agent_PluginsConfig agentConfigSpec))
            else None)\<rparr>)"

definition mapped_if_set :: "(string \<Rightarrow> string) \<Rightarrow> string \<Rightarrow> string" where
  "mapped_if_set f v = (if v \<noteq> '''' then f v else '''')"

definition getLaunchOptions :: "EnumMaps \<Rightarrow> MachineScope \<Rightarrow> LaunchOptions option" where
  "getLaunchOptions em m = map_option (\<lambda>spec.
     \<lparr>LO_BootVolumeType = mapped_if_set (em_BootVolumeType em) (LO_BootVolumeType spec),
      LO_Firmware = mapped_if_set (em_Firmware em) (LO_Firmware spec),
      LO_NetworkType = mapped_if_set (em_NetworkType em) (LO_NetworkType spec),
      LO_RemoteDataVolumeType = mapped_if_set (em_RemoteDataVolumeType em) (LO_RemoteDataVolumeType spec),
      LO_IsConsistentVolumeNamingEnabled = LO_IsConsistentVolumeNamingEnabled spec\<rparr>)
     (MSpec_LaunchOptions (machine_spec m))"

definition getInstanceOptions :: "MachineScope \<Rightarrow> InstanceOptions option" where
  "getInstanceOptions m = map_option
     (\<lambda>spec. \<lparr>IO_AreLegacyImdsEndpointsDisabled = IO_AreLegacyImdsEndpointsDisabled spec\<rparr>)
     (MSpec_InstanceOptions (machine_spec m))"

definition getAvailabilityConfig :: "EnumMaps \<Rightarrow> MachineScope \<Rightarrow> LaunchInstanceAvailabilityConfig option" where
  "getAvailabilityConfig em m = map_option
     (\<lambda>spec. \<lparr>AC_IsLiveMigrationPreferred = AC_IsLiveMigrationPreferred spec,
        AC_RecoveryAction = em_RecoveryAction em (AC_RecoveryAction spec)\<rparr>)
     (MSpec_AvailabilityConfig (machine_spec m))"

definition getPreemptibleInstanceConfig :: "MachineScope \<Rightarrow> PreemptibleInstanceConfig option" where
  "getPreemptibleInstanceConfig m = map_option
     (\<lambda>spec. \<lparr>PIC_TerminatePreemptionAction = map_option
        (\<lambda>act. \<lparr>TPA_PreserveBootVolume = TPA_PreserveBootVolume act\<rparr>) (PIC_TerminatePreemptionAction spec)\<rparr>)
     (MSpec_PreemptibleInstanceConfig (machine_spec m))"

abbreviation PlatformConfigTypeAmdRomeBmGpu :: string where "PlatformConfigTypeAmdRomeBmGpu \<equiv> ''AMD_ROME_BM_GPU''"
abbreviation PlatformConfigTypeAmdRomeBm :: string where "PlatformConfigTypeAmdRomeBm \<equiv> ''AMD_ROME_BM''"
abbreviation PlatformConfigTypeIntelIcelakeBm :: string where "PlatformConfigTypeIntelIcelakeBm \<equiv> ''INTEL_ICELAKE_BM''"
abbreviation PlatformConfigTypeAmdvm :: string where "PlatformConfigTypeAmdvm \<equiv> ''AMD_VM''"
abbreviation PlatformConfigTypeIntelVm :: string where "PlatformConfigTypeIntelVm \<equiv> ''INTEL_VM''"
abbreviation PlatformConfigTypeIntelSkylakeBm :: string where "PlatformConfigTypeIntelSkylakeBm \<equiv> ''INTEL_SKYLAKE_BM''"
abbreviation PlatformConfigTypeAmdMilanBm :: string where "PlatformConfigTypeAmdMilanBm \<equiv> ''AMD_MILAN_BM''"

text \<open>Every field of the configuration selected by the type is copied; the NUMA setting is mapped.\<close>

definition platformConfigOf :: "EnumMaps \<Rightarrow> PlatformConfig \<Rightarrow> SdkPlatformConfig option" where
  "platformConfigOf em pc =
     (let ty = PC_PlatformConfigType pc in
      if ty = PlatformConfigTypeAmdRomeBmGpu then
        Some (SdkAmdRomeBmGpu ((PC_AmdRomeBmGpuPlatformConfig pc)
          \<lparr>AR_NumaNodesPerSocket := em_AmdRomeBmGpuNuma em (AR_NumaNodesPerSocket (PC_AmdRomeBmGpuPlatformConfig pc))\<rparr>))
      else if ty = PlatformConfigTypeAmdRomeBm then
        Some (SdkAmdRomeBm ((PC_AmdRomeBmPlatformConfig pc)
          \<lparr>AR_NumaNodesPerSocket := em_AmdRomeBmNuma em (AR_NumaNodesPerSocket (PC_AmdRomeBmPlatformConfig pc))\<rparr>))
      else if ty = PlatformConfigTypeIntelIcelakeBm then
        Some (SdkIntelIcelakeBm ((PC_IntelIcelakeBmPlatformConfig pc)
          \<lparr>IC_NumaNodesPerSocket := em_IntelIcelakeBmNuma em (IC_NumaNodesPerSocket (PC_IntelIcelakeBmPlatformConfig pc))\<rparr>))
      else if ty = PlatformConfigTypeAmdvm then Some (SdkAmdVm (PC_AmdVmPlatformConfig pc))
      else if ty = PlatformConfigTypeIntelVm then Some (SdkIntelVm (PC_IntelVmPlatformConfig pc))
      else if ty = PlatformConfigTypeIntelSkylakeBm then Some (SdkIntelSkylakeBm (PC_IntelSkylakeBmPlatformConfig pc))
      else if ty = PlatformConfigTypeAmdMilanBm then
        Some (SdkAmdMilanBm ((PC_AmdMilanBmPlatformConfig pc)
          \<lparr>AR_NumaNodesPerSocket := em_AmdMilanBmNuma em (AR_NumaNodesPerSocket (PC_AmdMilanBmPlatformConfig pc))\<rparr>))
      else None)"

definition getPlatformConfig :: "EnumMaps \<Rightarrow> MachineScope \<Rightarrow> SdkPlatformConfig option" where
  "getPlatformConfig em m = Option.bind (MSpec_PlatformConfig (machine_spec m)) (platformConfigOf em)"

section \<open>Volumes attached at launch\<close>

definition getEncryptionType :: "string \<Rightarrow> string" where
  "getEncryptionType transitType =
     (if transitType = '''' then ''''
      else if transitType = ''NONE'' then ''NONE''
      else if transitType = ''BM_ENCRYPTION_IN_TRANSIT'' then ''BM_ENCRYPTION_IN_TRANSIT''
      else '''')"

definition getLaunchCreateVolumeDetails :: "LaunchCreateVolumeFromAttributes \<Rightarrow> LaunchCreateVolumeFromAttributes" where
  "getLaunchCreateVolumeDetails attributes =
     \<lparr>LCV_SizeInGBs = LCV_SizeInGBs attributes, LCV_CompartmentId = LCV_CompartmentId attributes,
      LCV_DisplayName = LCV_DisplayName attributes, LCV_KmsKeyId = LCV_KmsKeyId attributes,
      LCV_VpusPerGB = LCV_VpusPerGB attributes\<rparr>"

definition getIscsiVolumeAttachment :: "LaunchIscsiVolumeAttachment \<Rightarrow> AttachIScsi" where
  "getIscsiVolumeAttachment attachment =
     \<lparr>AI_VolumeId = LI_VolumeId attachment, AI_Device = LI_Device attachment, AI_DisplayName = LI_DisplayName attachment,
      AI_IsShareable = LI_IsShareable attachment, AI_IsReadOnly = LI_IsReadOnly attachment, AI_UseChap = LI_UseChap attachment,
      AI_IsAgentAutoIscsiLoginEnabled = LI_IsAgentAutoIscsiLoginEnabled attachment,
      AI_EncryptionInTransitType = getEncryptionType (LI_EncryptionInTransitType attachment),
      AI_LaunchCreateVolumeDetails =
        (if LI_VolumeId attachment \<noteq> None then None
         else Some (getLaunchCreateVolumeDetails (LI_LaunchCreateVolumeFromAttributes attachment)))\<rparr>"

definition getParavirtualizedVolumeAttachment :: "LaunchParavirtualizedVolumeAttachment \<Rightarrow> AttachParavirtualized" where
  "getParavirtualizedVolumeAttachment attachment =
     \<lparr>AP_VolumeId = LP_VolumeId attachment, AP_Device = LP_Device attachment, AP_DisplayName = LP_DisplayName attachment,
      AP_IsShareable = LP_IsShareable attachment, AP_IsReadOnly = LP_IsReadOnly attachment,
      AP_IsPvEncryptionInTransitEnabled = LP_IsPvEncryptionInTransitEnabled attachment,
      AP_LaunchCreateVolumeDetails =
        (if LP_VolumeId attachment \<noteq> None then None
         else Some (getLaunchCreateVolumeDetails (LP_LaunchCreateVolumeFromAttributes attachment)))\<rparr>"

definition launchVolumeOf :: "LaunchVolumeAttachment \<Rightarrow> LaunchAttachVolumeDetails list" where
  "launchVolumeOf attachment =
     (if LVA_Type attachment = IscsiType then [LaunchAttachIScsi (getIscsiVolumeAttachment (LVA_IscsiAttachment attachment))]
      else if LVA_Type attachment = ParavirtualizedType
      then [LaunchAttachParavirtualized (getParavirtualizedVolumeAttachment (LVA_ParavirtualizedAttachment attachment))]
      else [])"

definition getLaunchVolumeAttachments :: "MachineScope \<Rightarrow> LaunchAttachVolumeDetails list" where
  "getLaunchVolumeAttachments m = concat (map launchVolumeOf (MSpec_LaunchVolumeAttachment (machine_spec m)))"

section \<open>Shape and image\<close>

text \<open>The early return on an error of a pure function.\<close>

definition err_bind :: "goerr + 'a \<Rightarrow> ('a \<Rightarrow> goerr + 'b) \<Rightarrow> goerr + 'b" where
  "err_bind x f = (case x of Inl err \<Rightarrow> Inl err | Inr a \<Rightarrow> f a)"

definition emptyShapeConfig :: ShapeConfig where
  "emptyShapeConfig = \<lparr>ShapeConfig_Ocpus = '''', ShapeConfig_MemoryInGBs = '''', ShapeConfig_BaselineOcpuUtilization = '''',
     ShapeConfig_Nvmes = None\<rparr>"

definition emptyLaunchShapeConfig :: LaunchShapeConfig where
  "emptyLaunchShapeConfig = \<lparr>LSC_Ocpus = None, LSC_MemoryInGBs = None, LSC_BaselineOcpuUtilization = ''''\<rparr>"

definition parseSet :: "(string \<Rightarrow> 'n option) \<Rightarrow> string \<Rightarrow> string \<Rightarrow> goerr + 'n option" where
  "parseSet parse what s =
     (if s = '''' then Inr None
      else case parse s of
        None \<Rightarrow> Inl (ErrNew (what @ '' provided '' @ s @ '' is not a valid floating point''))
      | Some n \<Rightarrow> Inr (Some n))"

definition launchShapeConfig :: "EnumMaps \<Rightarrow> FloatParse \<Rightarrow> ShapeConfig \<Rightarrow> goerr + LaunchShapeConfig" where
  "launchShapeConfig em fp sc =
     (if sc = emptyShapeConfig then Inr emptyLaunchShapeConfig
      else err_bind (parseSet (fp_Float32 fp) ''ocpus'' (ShapeConfig_Ocpus sc)) (\<lambda>ocpus.
      err_bind (parseSet (fp_Float32 fp) ''memoryInGBs'' (ShapeConfig_MemoryInGBs sc)) (\<lambda>memoryInGBs.
      err_bind (if ShapeConfig_BaselineOcpuUtilization sc = '''' then Inr ''''
         else GetBaseLineOcpuOptimizationEnum (em_BaselineOcpuValues em) (ShapeConfig_BaselineOcpuUtilization sc)) (\<lambda>value.
      Inr \<lparr>LSC_Ocpus = ocpus, LSC_MemoryInGBs = memoryInGBs, LSC_BaselineOcpuUtilization = value\<rparr>))))"

definition sourceDetails :: "FloatParse \<Rightarrow> OCIMachineSpec \<Rightarrow> goerr + InstanceSourceDetails" where
  "sourceDetails fp spec =
     err_bind (parseSet (fp_Int64OfFloat64 fp) ''bootVolumeSizeInGBs'' (MSpec_BootVolumeSizeInGBs spec)) (\<lambda>size.
     Inr \<lparr>Source_ImageId = MSpec_ImageId spec, Source_BootVolumeSizeInGBs = size,
       Source_KmsKeyId = Option.bind (MSpec_InstanceSourceViaImageDetails spec) ISVI_KmsKeyId,
       Source_BootVolumeVpusPerGB = Option.bind (MSpec_InstanceSourceViaImageDetails spec) ISVI_BootVolumeVpusPerGB\<rparr>)"

section \<open>Placement in the network\<close>

definition launchSubnetId :: "MachineScope \<Rightarrow> string option" where
  "launchSubnetId m = (case ND_SubnetId (MSpec_NetworkDetails (machine_spec m)) of
      Some i \<Rightarrow> Some i
    | None \<Rightarrow> if IsControlPlane m then getGetControlPlaneMachineSubnet m else getWorkerMachineSubnet m)"

definition launchNsgIds :: "MachineScope \<Rightarrow> string list" where
  "launchNsgIds m =
     (let nd = MSpec_NetworkDetails (machine_spec m) in
      if length (ND_NSGIds nd) > 0 then ND_NSGIds nd
      else case ND_NSGId nd of
        Some i \<Rightarrow> [i]
      | None \<Rightarrow> if IsControlPlane m then getGetControlPlaneMachineNSGs m else getWorkerMachineNSGs m)"

section \<open>The launch request\<close>

definition launchDetails :: "EnumMaps \<Rightarrow> MachineScope \<Rightarrow> string \<Rightarrow> LaunchShapeConfig \<Rightarrow> InstanceSourceDetails \<Rightarrow>
    string \<Rightarrow> string \<Rightarrow> (string \<times> string option) list \<Rightarrow> LaunchInstanceDetails" where
  "launchDetails em m cloudInitData shapeConfig source availabilityDomain faultDomain extendedMetadata =
     (let spec = machine_spec m; nd = MSpec_NetworkDetails spec; tgs = getFreeFormTags m;
          definedTags = ConvertMachineDefinedTags (MSpec_DefinedTags spec) in
      \<lparr>LD_DisplayName = machine_Name m, LD_SourceDetails = source,
       LD_CreateVnicDetails = \<lparr>CVnic_SubnetId = launchSubnetId m, CVnic_AssignIpv6Ip = Some (ND_AssignIpv6Ip nd),
         CVnic_AssignPublicIp = ND_AssignPublicIp nd, CVnic_FreeformTags = tgs, CVnic_DefinedTags = definedTags,
         CVnic_HostnameLabel = ND_HostnameLabel nd, CVnic_NsgIds = launchNsgIds m,
         CVnic_SkipSourceDestCheck = ND_SkipSourceDestCheck nd,
         CVnic_AssignPrivateDnsRecord = ND_AssignPrivateDnsRecord nd, CVnic_DisplayName = ND_DisplayName nd\<rparr>,
       LD_ComputeClusterId = MSpec_ComputeClusterId spec,
       LD_Metadata = (MSpec_Metadata spec)(''user_data'' \<mapsto> EncodeToString cloudInitData),
       LD_ExtendedMetadata = extendedMetadata, LD_Shape = MSpec_Shape spec, LD_AvailabilityDomain = availabilityDomain,
       LD_CompartmentId = getCompartmentId m,
       LD_IsPvEncryptionInTransitEnabled = MSpec_IsPvEncryptionInTransitEnabled spec,
       LD_FreeformTags = tgs, LD_DefinedTags = definedTags, LD_DedicatedVmHostId = MSpec_DedicatedVmHostId spec,
       LD_ShapeConfig = (if shapeConfig \<noteq> emptyLaunchShapeConfig then Some shapeConfig else None),
       LD_FaultDomain = (if faultDomain \<noteq> '''' then Some faultDomain else None),
       LD_CapacityReservationId = MSpec_CapacityReservationId spec,
       LD_AgentConfig = getAgentConfig em m, LD_LaunchOptions = getLaunchOptions em m,
       LD_InstanceOptions = getInstanceOptions m, LD_AvailabilityConfig = getAvailabilityConfig em m,
       LD_PreemptibleInstanceConfig = getPreemptibleInstanceConfig m, LD_PlatformConfig = getPlatformConfig em m,
       LD_LaunchVolumeAttachments = getLaunchVolumeAttachments m\<rparr>)"

end
