(* ===== verification/Machine_Instances.thy ===== *)
theory Machine_Instances
  imports Machine_Launch
begin

text \<open>
  The operations of the machine scope on the cloud: finding, creating and terminating the instance
  (src/cloud/scope/machine.go), its block volume (block_volume_reconciler.go) and its additional VNICs
  (vnic_reconciler.go).
\<close>

definition lift_err :: "goerr + 'a \<Rightarrow> ('s, 'a) go" where
  "lift_err x = (case x of Inl err \<Rightarrow> go_throw err | Inr a \<Rightarrow> go_ret a)"

lemma lift_err_apply [go_simps]: "lift_err x s = (case x of Inl err \<Rightarrow> (Err err, s) | Inr a \<Rightarrow> (Ret a, s))"
  by (simp add: lift_err_def go_simps split: sum.split)

section \<open>The block volume\<close>

definition BlockVolumeSpecNotEmpty :: "MachineScope \<Rightarrow> bool" where
  "BlockVolumeSpecNotEmpty m = (MSpec_BlockVolumeSpec (machine_spec m) \<noteq> emptyBlockVolumeSpec)"

definition GetBlockVolumeCompartmentId :: "MachineScope \<Rightarrow> string" where
  "GetBlockVolumeCompartmentId m =
     (let compartmentId = ToString (BlockVolumeSpec_CompartmentId (MSpec_BlockVolumeSpec (machine_spec m))) in
      if compartmentId = '''' then getCompartmentId m else compartmentId)"

definition GetBlockVolumeDesiredName :: "MachineScope \<Rightarrow> string" where
  "GetBlockVolumeDesiredName m = ToString (BlockVolumeSpec_DisplayName (MSpec_BlockVolumeSpec (machine_spec m)))"

definition blockVolumeName :: "MachineScope \<Rightarrow> string" where
  "blockVolumeName m = machine_Name m @ ''-'' @ GetBlockVolumeDesiredName m"

text \<open>The scan of one page for a resource with the tags of the cluster.\<close>

definition scanOwned :: "MachineScope \<Rightarrow> 'r SdkResource_scheme list \<Rightarrow> ('s, 'r SdkResource_scheme option) go" where
  "scanOwned m items = go_ret (find (\<lambda>r. machine_IsResourceCreatedByClusterAPI m (Res_FreeformTags r)) items)"

definition GetBlockVolume :: "'w MachineClients \<Rightarrow> ('w, SdkVolume option) machine_go" where
  "GetBlockVolume c =
     go_bind get_scope (\<lambda>m.
     go_bind (go_deref (mc_BlockVolume c)) (\<lambda>v.
     search_pages (api_ListVolumes v (GetBlockVolumeCompartmentId m) (blockVolumeName m)) (scanOwned m)))"

definition GetBlockVolumeId :: "'w MachineClients \<Rightarrow> ('w, string) machine_go" where
  "GetBlockVolumeId c = go_bind (GetBlockVolume c) (\<lambda>volume. case volume of
      None \<Rightarrow> go_throw (ErrNew ''Volume not found'')
    | Some v \<Rightarrow> go_ret (ToString (Res_Id v)))"

definition ToOCIAutotunePolicy :: "MachineScope \<Rightarrow> SdkAutotunePolicy list" where
  "ToOCIAutotunePolicy m =
     (case BlockVolumeSpec_AutotunePolicies (MSpec_BlockVolumeSpec (machine_spec m)) of
        None \<Rightarrow> []
      | Some policies \<Rightarrow> concat (map (\<lambda>a.
          (if AutotunePolicy_AutotuneType a = ''DETACHED_VOLUME'' then [DetachedVolumeAutotunePolicy] else []) @
          (if AutotunePolicy_AutotuneType a = ''PERFORMANCE_BASED''
           then [PerformanceBasedAutotunePolicy (AutotunePolicy_MaxVPUsPerGB a)] else [])) policies))"

definition createVolumeDetails :: "MachineScope \<Rightarrow> string \<Rightarrow> CreateVolumeDetails" where
  "createVolumeDetails m instanceAD =
     (let spec = MSpec_BlockVolumeSpec (machine_spec m) in
      \<lparr>CVol_AvailabilityDomain = instanceAD, CVol_CompartmentId = GetBlockVolumeCompartmentId m,
       CVol_DisplayName = blockVolumeName m, CVol_VpusPerGB = BlockVolumeSpec_VpusPerGB spec,
       CVol_SizeInGBs = BlockVolumeSpec_SizeInGBs spec, CVol_FreeformTags = getFreeFormTags m,
       CVol_AutotunePolicies = ToOCIAutotunePolicy m\<rparr>)"

definition CreateBlockVolume :: "'w MachineClients \<Rightarrow> string \<Rightarrow> ('w, unit) machine_go" where
  "CreateBlockVolume c instanceAD =
     go_bind get_scope (\<lambda>m. case mc_BlockVolume c of
       None \<Rightarrow> go_throw (ErrNew ''BlockVolumeClient is nil - was not initialized properly'')
     | Some v \<Rightarrow> api (api_CreateVolume v (createVolumeDetails m instanceAD)
         (GetOPCRetryToken ''%s-%s'' [''create-bv'', OCIMachine_UID (MS_OCIMachine m)])))"

definition ReconcileBlockVolume :: "'w MachineClients \<Rightarrow> string \<Rightarrow> ('w, unit) machine_go" where
  "ReconcileBlockVolume c instanceAD =
     go_bind (GetBlockVolume c) (\<lambda>vol. if vol = None then CreateBlockVolume c instanceAD else go_ret ())"

definition DeleteBlockVolume :: "'w MachineClients \<Rightarrow> ('w, unit) machine_go" where
  "DeleteBlockVolume c = (case mc_BlockVolume c of
      None \<Rightarrow> go_ret ()
    | Some v \<Rightarrow> go_bind (GetBlockVolume c) (\<lambda>vol. case vol of
        None \<Rightarrow> go_ret ()
      | Some x \<Rightarrow> api (api_DeleteVolume v (Res_Id x))))"

subsection \<open>Attaching\<close>

definition listBlockVolumeAttachmentResponse ::
  "'w MachineClients \<Rightarrow> MachineScope \<Rightarrow> string option \<Rightarrow> string option \<Rightarrow> ('w, VolumeAttachment list \<times> string option) go" where
  "listBlockVolumeAttachmentResponse c m instanceId page =
     api_ListVolumeAttachments (mc_Compute c) instanceId (getCompartmentId m) page"

definition attachmentPage ::
  "'w MachineClients \<Rightarrow> MachineScope \<Rightarrow> string option \<Rightarrow> string option \<Rightarrow> ('w, VolumeAttachment list \<times> string option) go" where
  "attachmentPage c m instanceId page =
     wrap_with_id ''failed to list volume attachments for instance '' instanceId (listBlockVolumeAttachmentResponse c m instanceId page)"

definition is_attached :: "string \<Rightarrow> VolumeAttachment \<Rightarrow> bool" where
  "is_attached volumeId attachment \<longleftrightarrow>
     (VolAtt_LifecycleState attachment = VolAttached \<or> VolAtt_LifecycleState attachment = VolAttaching) \<and>
     ToString (VolAtt_VolumeId attachment) = volumeId"

definition hasSpecificBlockVolumeAttached ::
  "'w MachineClients \<Rightarrow> string option \<Rightarrow> string option \<Rightarrow> ('w, bool) machine_go" where
  "hasSpecificBlockVolumeAttached c instanceId volumeId =
     go_bind get_scope (\<lambda>m.
     go_bind (search_pages (attachmentPage c m instanceId)
       (\<lambda>items. go_ret (if list_ex (is_attached (ToString volumeId)) items then Some () else None))) (\<lambda>found.
     go_ret (found \<noteq> None)))"

definition attachBlockVolumeToInstance :: "'w MachineClients \<Rightarrow> Instance \<Rightarrow> ('w, unit) machine_go" where
  "attachBlockVolumeToInstance c instance' =
     go_bind (GetBlockVolumeId c) (\<lambda>bvId.
     if bvId = '''' then go_ret ()
     else
       go_bind (go_deref (mc_BlockVolume c)) (\<lambda>v.
       go_bind (api (api_GetVolume v bvId)) (\<lambda>volume.
       if \<not> Volume_Available volume
       then go_throw (ErrNew (''volume not available, state: '' @ Volume_State volume @ '' for '' @ bvId))
       else
         go_bind get_scope (\<lambda>m.
         let volumeType = BlockVolumeSpec_VolumeType (MSpec_BlockVolumeSpec (machine_spec m)) in
         go_bind (if volumeType = IscsiType then go_ret (AttachIScsiVolume bvId (Res_Id instance'))
            else if volumeType = ParavirtualizedType then go_ret (AttachParavirtualizedVolume bvId (Res_Id instance'))
            else go_throw (ErrNew ''Unknown attachment type in BlockVolumeSpec, not supported'')) (\<lambda>attachDetails.
         go_bind (go_wrap ''failed to attach block volume to instance'' (api (api_AttachVolume (mc_Compute c) attachDetails))) (\<lambda>_.
         go_bind (go_deref (Res_Id instance')) (\<lambda>_. go_ret ())))))))"

definition ensureBlockVolumeAttached :: "'w MachineClients \<Rightarrow> Instance \<Rightarrow> ('w, unit) machine_go" where
  "ensureBlockVolumeAttached c instance' =
     go_bind (GetBlockVolumeId c) (\<lambda>bvId.
     go_bind (hasSpecificBlockVolumeAttached c (Res_Id instance') (Some bvId)) (\<lambda>bvIsAttached.
     if \<not> bvIsAttached then attachBlockVolumeToInstance c instance' else go_ret ()))"

section \<open>Finding the instance\<close>

definition getMachineFromOCID :: "'w MachineClients \<Rightarrow> string option \<Rightarrow> ('w, Instance option) machine_go" where
  "getMachineFromOCID c instanceID = go_bind (api (api_GetInstance (mc_Compute c) instanceID)) (\<lambda>inst. go_ret (Some inst))"

text \<open>An empty page ends the search even if there is a next page.\<close>

definition instancePage :: "'w MachineClients \<Rightarrow> MachineScope \<Rightarrow> string \<Rightarrow> string option \<Rightarrow> ('w, Instance list \<times> string option) go" where
  "instancePage c m name page =
     go_bind (api_ListInstances (mc_Compute c) name (getCompartmentId m) page) (\<lambda>(items, opcNextPage).
     go_ret (items, if length items = 0 then None else opcNextPage))"

definition GetMachineByDisplayName :: "'w MachineClients \<Rightarrow> string \<Rightarrow> ('w, Instance option) machine_go" where
  "GetMachineByDisplayName c name =
     go_bind get_scope (\<lambda>m. search_pages (instancePage c m name) (scanOwned m))"

definition GetMachine :: "'w MachineClients \<Rightarrow> ('w, Instance option) machine_go" where
  "GetMachine c =
     go_bind get_scope (\<lambda>m.
     if GetInstanceId m \<noteq> None then getMachineFromOCID c (GetInstanceId m)
     else GetMachineByDisplayName c (machine_Name m))"

section \<open>Creating and terminating the instance\<close>

definition GetBootstrapData :: "'w MachineClients \<Rightarrow> ('w, string) machine_go" where
  "GetBootstrapData c =
     go_bind get_scope (\<lambda>m. case Machine_DataSecretName (MS_Machine m) of
       None \<Rightarrow> go_throw (ErrNew ''error retrieving bootstrap data: data secret name not available yet'')
     | Some name \<Rightarrow>
         go_bind (go_wrap (''failed to retrieve bootstrap data secret for OCIMachine '' @ Machine_Namespace (MS_Machine m) @
             ''/'' @ Machine_Name (MS_Machine m))
           (api (kube_GetSecret (mc_Kube c) (Machine_Namespace (MS_Machine m)) name))) (\<lambda>secret.
         case secret ''value'' of
           None \<Rightarrow> go_throw (ErrNew ''error retrieving bootstrap data: secret value key is missing'')
         | Some value \<Rightarrow> go_ret value))"

text \<open>The volume of the spec is created and attached, for a new instance as for one that was found.\<close>

definition ensureBlockVolume :: "'w MachineClients \<Rightarrow> string option \<Rightarrow> Instance \<Rightarrow> ('w, unit) machine_go" where
  "ensureBlockVolume c ad inst =
     go_bind get_scope (\<lambda>m.
     if BlockVolumeSpecNotEmpty m
     then go_bind (go_deref ad) (\<lambda>instanceAD.
       go_bind (ReconcileBlockVolume c instanceAD) (\<lambda>_. ensureBlockVolumeAttached c inst))
     else go_ret ())"

definition launchMachine :: "'w MachineClients \<Rightarrow> ('w, string \<times> Instance option) machine_go" where
  "launchMachine c =
     go_bind (GetBootstrapData c) (\<lambda>cloudInitData.
     go_bind get_scope (\<lambda>m.
     go_bind (lift_err (launchShapeConfig (mc_Enum c) (mc_Float c) (MSpec_ShapeConfig (machine_spec m)))) (\<lambda>shapeConfig.
     go_bind (lift_err (sourceDetails (mc_Float c) (machine_spec m))) (\<lambda>source.
     go_bind (resolveAvailabilityAndFaultDomain c) (\<lambda>(availabilityDomain, faultDomain, retry).
     go_bind (lift_err (ConvertMachineExtendedMetadata (mc_JsonUnmarshal c) (MSpec_ExtendedMetadata (machine_spec m)))) (\<lambda>extendedMetadata.
     go_bind (launchInstanceWithFaultDomainRetry c
       (launchDetails (mc_Enum c) m cloudInitData shapeConfig source availabilityDomain faultDomain extendedMetadata)
       (buildFaultDomainRetryList m availabilityDomain faultDomain retry)) (\<lambda>inst.
     go_ret (availabilityDomain, inst))))))))"

text \<open>On an error after the launch the code returns the instance beside the error; its caller looks at the error only.\<close>

definition GetOrCreateMachine :: "'w MachineClients \<Rightarrow> ('w, Instance option) machine_go" where
  "GetOrCreateMachine c =
     go_bind (GetMachine c) (\<lambda>found. case found of
       Some inst \<Rightarrow> go_bind (ensureBlockVolume c (Instance_AvailabilityDomain inst) inst) (\<lambda>_. go_ret (Some inst))
     | None \<Rightarrow>
         go_bind (launchMachine c) (\<lambda>(availabilityDomain, launched).
         go_bind get_scope (\<lambda>m.
         if BlockVolumeSpecNotEmpty m
         then go_bind (ReconcileBlockVolume c availabilityDomain) (\<lambda>_.
           go_bind (go_deref launched) (\<lambda>inst.
           go_bind (ensureBlockVolumeAttached c inst) (\<lambda>_. go_ret launched)))
         else go_ret launched)))"

text \<open>Before the instance is terminated the block volume is detached, page by page of the attachments.\<close>

definition detachIfVolume :: "'w MachineClients \<Rightarrow> VolumeAttachment \<Rightarrow> ('w, unit) machine_go" where
  "detachIfVolume c attachment =
     go_bind (GetBlockVolumeId c) (\<lambda>volumeId.
     if ToString (VolAtt_VolumeId attachment) = volumeId \<and> VolAtt_LifecycleState attachment = VolAttached
     then api (api_DetachVolume (mc_Compute c) (VolAtt_Id attachment)) else go_ret ())"

definition detachBlockVolumes :: "'w MachineClients \<Rightarrow> Instance \<Rightarrow> ('w, unit) machine_go" where
  "detachBlockVolumes c inst =
     go_bind get_scope (\<lambda>m.
     go_bind (search_pages (attachmentPage c m (Res_Id inst))
       (\<lambda>items. go_bind (go_for items (detachIfVolume c)) (\<lambda>_. go_ret (None :: unit option)))) (\<lambda>_. go_ret ()))"

definition DeleteMachine :: "'w MachineClients \<Rightarrow> Instance \<Rightarrow> ('w, unit) machine_go" where
  "DeleteMachine c inst =
     go_bind get_scope (\<lambda>m.
     go_bind (if BlockVolumeSpecNotEmpty m then detachBlockVolumes c inst else go_ret ()) (\<lambda>_.
     api (api_TerminateInstance (mc_Compute c) (Res_Id inst) (MSpec_PreserveBootVolume (machine_spec m))
       (MSpec_PreserveDataVolumesCreatedAtLaunch (machine_spec m)))))"

section \<open>The address of the instance\<close>

fun scanVnics :: "'w ComputeApi \<Rightarrow> SdkVnicAttachment list \<Rightarrow> (MachineScope \<times> 'w, string option option) go" where
  "scanVnics a [] = go_ret None"
| "scanVnics a (attachment # attachments) =
     (if VnicAtt_LifecycleState attachment \<noteq> VnicAttached \<or> VnicAtt_VnicId attachment = None
      then go_bind (go_deref (VnicAtt_Id attachment)) (\<lambda>_. scanVnics a attachments)
      else go_bind (api (api_GetVnic a (VnicAtt_VnicId attachment))) (\<lambda>vnic.
        if Vnic_IsPrimary vnic = Some True then go_ret (Some (Vnic_PrivateIp vnic)) else scanVnics a attachments))"

definition GetInstanceIp :: "'w MachineClients \<Rightarrow> ('w, string option) machine_go" where
  "GetInstanceIp c =
     go_bind get_scope (\<lambda>m.
     go_bind (search_pages (api_ListVnicAttachments (mc_Compute c) (GetInstanceId m) (getCompartmentId m))
       (scanVnics (mc_Compute c))) (\<lambda>found. case found of
       None \<Rightarrow> go_throw (ErrNew ''primary VNIC not found'')
     | Some ip \<Rightarrow> go_ret ip))"

section \<open>Additional VNICs\<close>

definition vnicAttachmentExists :: "'w MachineClients \<Rightarrow> VnicAttachment \<Rightarrow> ('w, bool) machine_go" where
  "vnicAttachmentExists c vnic =
     go_bind get_scope (\<lambda>m.
     go_bind (go_try (search_pages (api_ListVnicAttachments (mc_Compute c) (GetInstanceId m) (getCompartmentId m))
       (\<lambda>items. go_ret (if list_ex (\<lambda>a. DerefString (VnicAtt_DisplayName a) = DerefString (VA_DisplayName vnic)) items
          then Some () else None)))) (\<lambda>x. case x of
       Inl err \<Rightarrow> go_ret False
     | Inr found \<Rightarrow> go_ret (found \<noteq> None)))"

definition createVnicAttachment :: "'w MachineClients \<Rightarrow> VnicAttachment \<Rightarrow> ('w, string option) machine_go" where
  "createVnicAttachment c spec =
     go_bind get_scope (\<lambda>m.
     go_bind (if VA_SubnetName spec \<noteq> '''' then lift_err (getMachineSubnet m (VA_SubnetName spec))
        else go_ret (getWorkerMachineSubnet m)) (\<lambda>subnetId.
     let nd = MSpec_NetworkDetails (machine_spec m) in
     api (api_AttachVnic (mc_Compute c)
       \<lparr>AVD_DisplayName = VA_DisplayName spec,
        AVD_NicIndex = (if VA_NicIndex spec = None then Some 0 else VA_NicIndex spec),
        AVD_InstanceId = GetInstanceId m,
        AVD_CreateVnicDetails = \<lparr>CVnic_SubnetId = subnetId, CVnic_AssignIpv6Ip = None,
          CVnic_AssignPublicIp = VA_AssignPublicIp spec, CVnic_FreeformTags = getFreeFormTags m,
          CVnic_DefinedTags = ConvertMachineDefinedTags (MSpec_DefinedTags (machine_spec m)),
          CVnic_HostnameLabel = ND_HostnameLabel nd, CVnic_NsgIds = getWorkerMachineNSGs m,
          CVnic_SkipSourceDestCheck = ND_SkipSourceDestCheck nd,
          CVnic_AssignPrivateDnsRecord = ND_AssignPrivateDnsRecord nd, CVnic_DisplayName = VA_DisplayName spec\<rparr>\<rparr>)))"

definition setVnicAttachmentId :: "nat \<Rightarrow> string option \<Rightarrow> MachineScope \<Rightarrow> MachineScope" where
  "setVnicAttachmentId index vnicId = upd_machine_spec (\<lambda>sp. sp\<lparr>MSpec_VnicAttachments :=
     (MSpec_VnicAttachments sp)[index := (MSpec_VnicAttachments sp ! index)\<lparr>VA_VnicAttachmentId := vnicId\<rparr>]\<rparr>)"

definition reconcileVnicAt :: "'w MachineClients \<Rightarrow> nat \<times> VnicAttachment \<Rightarrow> ('w, unit) machine_go" where
  "reconcileVnicAt c = (\<lambda>(index, vnicAttachment).
     go_bind (vnicAttachmentExists c vnicAttachment) (\<lambda>exists.
     if exists then go_ret ()
     else go_bind (createVnicAttachment c vnicAttachment) (\<lambda>vnicId. mod_scope (setVnicAttachmentId index vnicId))))"

definition ReconcileVnicAttachments :: "'w MachineClients \<Rightarrow> ('w, unit) machine_go" where
  "ReconcileVnicAttachments c =
     go_bind get_scope (\<lambda>m.
     if IsControlPlane m then go_throw (ErrNew ''cannot attach multiple vnics to ControlPlane machines'')
     else go_for (enumerate 0 (MSpec_VnicAttachments (machine_spec m))) (reconcileVnicAt c))"

end
