(* ===== verification/Machine_LB.thy ===== *)
theory Machine_LB
  imports Machine_Instances
begin

text \<open>
  The backend of a control plane machine on the API server load balancer (\<open>ReconcileCreateInstanceOnLB\<close> and
  \<open>ReconcileDeleteInstanceOnLB\<close> of src/cloud/scope/machine.go). Reading the map of backend sets at an absent key gives
  an empty set without a name.
\<close>

section \<open>Operations\<close>

text \<open>\<open>url.QueryEscape\<close>: letters, digits and four marks stay, a space becomes a plus sign, every other byte is written
  in hexadecimal.\<close>

definition upper_hex :: "nat \<Rightarrow> char" where
  "upper_hex n = (''0123456789ABCDEF'' ! n)"

definition unreserved :: "char \<Rightarrow> bool" where
  "unreserved ch \<longleftrightarrow> is_digit ch \<or> (let n = (of_char ch :: nat) in (65 \<le> n \<and> n \<le> 90) \<or> (97 \<le> n \<and> n \<le> 122)) \<or>
     ch \<in> set ''-_.~''"

definition escape_char :: "char \<Rightarrow> string" where
  "escape_char ch = (if unreserved ch then [ch] else if ch = CHR '' '' then ''+''
     else [CHR ''%'', upper_hex ((of_char ch :: nat) div 16), upper_hex ((of_char ch :: nat) mod 16)])"

definition QueryEscape :: "string \<Rightarrow> string" where
  "QueryEscape str = concat (map escape_char str)"

definition containsBackend :: "SdkBackend list \<Rightarrow> string \<Rightarrow> bool" where
  "containsBackend backends backendName = list_ex (\<lambda>b. StringEquals (Backend_Name b) backendName) backends"

definition containsNLBBackend :: "NLBBackendSet \<Rightarrow> string \<Rightarrow> bool" where
  "containsNLBBackend backendSet backendName = containsBackend (NLBBackendSet_Backends backendSet) backendName"

definition containsLBBackend :: "LBBackendSet \<Rightarrow> string \<Rightarrow> bool" where
  "containsLBBackend backendSet backendName = containsBackend (LBBackendSet_Backends backendSet) backendName"

definition lbBackendSetAt :: "SdkLB \<Rightarrow> LBBackendSet" where
  "lbBackendSetAt lb = (case LB_BackendSets lb APIServerLBBackendSetName of
      None \<Rightarrow> \<lparr>LBBackendSet_Name = None, LBBackendSet_Backends = []\<rparr> | Some b \<Rightarrow> b)"

definition nlbBackendSetAt :: "SdkNLB \<Rightarrow> NLBBackendSet" where
  "nlbBackendSetAt lb = (case NLB_BackendSets lb APIServerLBBackendSetName of
      None \<Rightarrow> \<lparr>NLBBackendSet_Name = None, NLBBackendSet_HealthChecker = None, NLBBackendSet_Backends = []\<rparr> | Some b \<Rightarrow> b)"

definition endpointPort :: "MachineScope \<Rightarrow> int" where
  "endpointPort m = APIEndpoint_Port (GetControlPlaneEndpoint (MS_OCIClusterAccessor m))"

definition lbBackendName :: "MachineScope \<Rightarrow> string \<Rightarrow> string" where
  "lbBackendName m instanceIp = instanceIp @ '':'' @ Itoa (endpointPort m)"

definition apiServerLB :: "MachineScope \<Rightarrow> LoadBalancer" where
  "apiServerLB m = NetworkSpec_APIServerLB (GetNetworkSpec (MS_OCIClusterAccessor m))"

definition backendToken :: "MachineScope \<Rightarrow> string" where
  "backendToken m = GetOPCRetryToken ''%s-%s'' [''create-backend'', OCIMachine_UID (MS_OCIMachine m)]"

text \<open>The id of the work request is recorded in the status before the wait.\<close>

definition recordAndAwait ::
  "(string \<Rightarrow> OCIMachineStatus \<Rightarrow> OCIMachineStatus) \<Rightarrow> (string option \<Rightarrow> ('w, 'r) go) \<Rightarrow> string option \<Rightarrow> ('w, unit) machine_go" where
  "recordAndAwait setId await opcWorkRequestId =
     go_bind (go_deref opcWorkRequestId) (\<lambda>i.
     go_bind (mod_scope (upd_machine_status (setId i))) (\<lambda>_.
     go_bind (api (await opcWorkRequestId)) (\<lambda>_. go_ret ())))"

definition setCreateWr :: "string \<Rightarrow> OCIMachineStatus \<Rightarrow> OCIMachineStatus" where
  "setCreateWr i st = st\<lparr>MStatus_CreateBackendWorkRequestId := i\<rparr>"

definition setDeleteWr :: "string \<Rightarrow> OCIMachineStatus \<Rightarrow> OCIMachineStatus" where
  "setDeleteWr i st = st\<lparr>MStatus_DeleteBackendWorkRequestId := i\<rparr>"

definition createBackendOnLB :: "'w MachineClients \<Rightarrow> string \<Rightarrow> ('w, unit) machine_go" where
  "createBackendOnLB c instanceIp =
     go_bind get_scope (\<lambda>m.
     go_bind (api (api_GetLoadBalancer (mc_Lb c) (LoadBalancer_LoadBalancerId (apiServerLB m)))) (\<lambda>lb.
     let backendSet = lbBackendSetAt lb; backendName = lbBackendName m instanceIp in
     if containsLBBackend backendSet backendName then go_ret ()
     else
       go_bind (go_deref (LBBackendSet_Name backendSet)) (\<lambda>_.
       go_bind (api (api_CreateLBBackend (mc_Lb c) (LoadBalancer_LoadBalancerId (apiServerLB m)) (LBBackendSet_Name backendSet)
         \<lparr>Backend_Name = None, Backend_IpAddress = Some instanceIp, Backend_Port = Some (endpointPort m)\<rparr> (backendToken m)))
         (recordAndAwait setCreateWr (AwaitLBWorkRequest (mc_LbPoll c) (mc_Lb c))))))"

definition createBackendOnNLB :: "'w MachineClients \<Rightarrow> string \<Rightarrow> ('w, unit) machine_go" where
  "createBackendOnNLB c instanceIp =
     go_bind get_scope (\<lambda>m.
     go_bind (api (api_GetNetworkLoadBalancer (mc_Nlb c) (LoadBalancer_LoadBalancerId (apiServerLB m)))) (\<lambda>lb.
     let backendSet = nlbBackendSetAt lb in
     if containsNLBBackend backendSet (machine_Name m) then go_ret ()
     else
       go_bind (go_deref (NLBBackendSet_Name backendSet)) (\<lambda>_.
       go_bind (api (api_CreateNLBBackend (mc_Nlb c) (LoadBalancer_LoadBalancerId (apiServerLB m)) (NLBBackendSet_Name backendSet)
         \<lparr>Backend_Name = Some (machine_Name m), Backend_IpAddress = Some instanceIp, Backend_Port = Some (endpointPort m)\<rparr>
         (backendToken m)))
         (recordAndAwait setCreateWr (AwaitNLBWorkRequest (mc_NlbPoll c) (mc_Nlb c))))))"

definition ReconcileCreateInstanceOnLB :: "'w MachineClients \<Rightarrow> ('w, unit) machine_go" where
  "ReconcileCreateInstanceOnLB c =
     go_bind get_scope (\<lambda>m.
     go_bind (lift_err (GetMachineIPFromStatus m)) (\<lambda>instanceIp.
     if LoadBalancer_LoadBalancerType (apiServerLB m) = LoadBalancerTypeLB
     then createBackendOnLB c instanceIp else createBackendOnNLB c instanceIp))"

text \<open>A load balancer that is gone has no backend to delete; the log message follows the pointer to its id.\<close>

definition unless_gone :: "string option \<Rightarrow> ('s, 'a) go \<Rightarrow> ('a \<Rightarrow> ('s, unit) go) \<Rightarrow> ('s, unit) go" where
  "unless_gone i get' f = go_bind (go_try get') (\<lambda>x. case x of
      Inl err \<Rightarrow> if IsNotFound (Some err) then go_bind (go_deref i) (\<lambda>_. go_ret ()) else go_throw err
    | Inr lb \<Rightarrow> f lb)"

definition deleteBackendOnLB :: "'w MachineClients \<Rightarrow> ('w, unit) machine_go" where
  "deleteBackendOnLB c =
     go_bind get_scope (\<lambda>m.
     let loadbalancerId = LoadBalancer_LoadBalancerId (apiServerLB m) in
     unless_gone loadbalancerId (api (api_GetLoadBalancer (mc_Lb c) loadbalancerId)) (\<lambda>lb.
     let backendSet = lbBackendSetAt lb in
     if length (MStatus_Addresses (machine_status m)) \<le> 0 then go_ret ()
     else
       go_bind (lift_err (GetMachineIPFromStatus m)) (\<lambda>instanceIp.
       let backendName = lbBackendName m instanceIp in
       if containsLBBackend backendSet backendName
       then go_bind (go_deref (LBBackendSet_Name backendSet)) (\<lambda>_.
         go_bind (api (api_DeleteLBBackend (mc_Lb c) loadbalancerId (LBBackendSet_Name backendSet) (QueryEscape backendName)))
           (recordAndAwait setDeleteWr (AwaitLBWorkRequest (mc_LbPoll c) (mc_Lb c))))
       else go_ret ())))"

definition deleteBackendOnNLB :: "'w MachineClients \<Rightarrow> ('w, unit) machine_go" where
  "deleteBackendOnNLB c =
     go_bind get_scope (\<lambda>m.
     let loadbalancerId = LoadBalancer_LoadBalancerId (apiServerLB m) in
     unless_gone loadbalancerId (api (api_GetNetworkLoadBalancer (mc_Nlb c) loadbalancerId)) (\<lambda>lb.
     let backendSet = nlbBackendSetAt lb in
     if containsNLBBackend backendSet (machine_Name m)
     then go_bind (go_deref (NLBBackendSet_Name backendSet)) (\<lambda>_.
       go_bind (api (api_DeleteNLBBackend (mc_Nlb c) loadbalancerId (NLBBackendSet_Name backendSet) (machine_Name m)))
         (recordAndAwait setDeleteWr (AwaitNLBWorkRequest (mc_NlbPoll c) (mc_Nlb c))))
     else go_ret ()))"

definition ReconcileDeleteInstanceOnLB :: "'w MachineClients \<Rightarrow> ('w, unit) machine_go" where
  "ReconcileDeleteInstanceOnLB c =
     go_bind get_scope (\<lambda>m.
     if LoadBalancer_LoadBalancerType (apiServerLB m) = LoadBalancerTypeLB
     then deleteBackendOnLB c else deleteBackendOnNLB c)"

end
