(* ===== verification/Machine_Frames.thy ===== *)
theory Machine_Frames
  imports Machine_LB Cluster_Frames
begin

text \<open>
  What the operations of the machine scope leave alone. Only the ids of work requests and of VNIC attachments are
  written by them (\<open>same_machine\<close>); and a relation on the cloud that every request other than the launch and the
  termination of an instance keeps (the interface \<open>quiet_requests\<close>) is kept by the operations made of them.
\<close>

section \<open>Relations on scope and cloud\<close>

definition both :: "('s \<Rightarrow> 's \<Rightarrow> bool) \<Rightarrow> ('w \<Rightarrow> 'w \<Rightarrow> bool) \<Rightarrow> 's \<times> 'w \<Rightarrow> 's \<times> 'w \<Rightarrow> bool" where
  "both Rs Rw x y \<longleftrightarrow> Rs (fst x) (fst y) \<and> Rw (snd x) (snd y)"

lemma both_order [simp, intro]: "reflp Rs \<Longrightarrow> reflp Rw \<Longrightarrow> reflp (both Rs Rw)" "transp Rs \<Longrightarrow> transp Rw \<Longrightarrow> transp (both Rs Rw)"
  unfolding both_def reflp_def transp_def by blast+

lemma keeps_both_api [intro]: "reflp Rs \<Longrightarrow> keeps Rw op \<Longrightarrow> keeps (both Rs Rw) (api op)"
  by (auto simp: keeps_def both_def api_apply reflp_def)

lemma keeps_both_get [intro]: "reflp Rs \<Longrightarrow> reflp Rw \<Longrightarrow> keeps (both Rs Rw) get_scope"
  by (auto simp: keeps_def both_def get_scope_apply reflp_def)

lemma keeps_both_mod: "(\<And>s. Rs s (f s)) \<Longrightarrow> reflp Rw \<Longrightarrow> keeps (both Rs Rw) (mod_scope f)"
  by (auto simp: keeps_def both_def mod_scope_def reflp_def)

lemma both_refl: "reflp Rs \<Longrightarrow> reflp Rw \<Longrightarrow> both Rs Rw x x"
  by (simp add: both_def reflpD)

lemma keeps_deref_bind:
  "reflp R \<Longrightarrow> (\<And>v. p = Some v \<Longrightarrow> keeps R (f v)) \<Longrightarrow> keeps R (go_bind (go_deref p) f)"
  by (cases p) (auto simp: keeps_def go_simps reflp_def)

text \<open>The machine up to what the operations write.\<close>

definition forget :: "MachineScope \<Rightarrow> MachineScope" where
  "forget m = upd_machine_spec (\<lambda>sp. sp\<lparr>MSpec_VnicAttachments := []\<rparr>)
     (upd_machine_status (\<lambda>st. st\<lparr>MStatus_CreateBackendWorkRequestId := [], MStatus_DeleteBackendWorkRequestId := []\<rparr>) m)"

definition same_machine :: "MachineScope \<Rightarrow> MachineScope \<Rightarrow> bool" where
  "same_machine m m' \<longleftrightarrow> forget m' = forget m"

lemma same_machine_order [simp]: "reflp same_machine" "transp same_machine"
  by (auto simp: same_machine_def reflp_def transp_def)

lemma eq_order [simp]: "reflp ((=) :: 'a \<Rightarrow> 'a \<Rightarrow> bool)" "transp ((=) :: 'a \<Rightarrow> 'a \<Rightarrow> bool)"
  by (auto simp: reflp_def transp_def)

lemma forget_sel [simp]:
  "MS_Machine (forget m) = MS_Machine m" "MS_OCIClusterAccessor (forget m) = MS_OCIClusterAccessor m"
  "OCIMachine_Finalizers (MS_OCIMachine (forget m)) = OCIMachine_Finalizers (MS_OCIMachine m)"
  "OCIMachine_Name (MS_OCIMachine (forget m)) = OCIMachine_Name (MS_OCIMachine m)"
  "MSpec_InstanceId (machine_spec (forget m)) = MSpec_InstanceId (machine_spec m)"
  "MSpec_FreeformTags (machine_spec (forget m)) = MSpec_FreeformTags (machine_spec m)"
  "MSpec_BlockVolumeSpec (machine_spec (forget m)) = MSpec_BlockVolumeSpec (machine_spec m)"
  "MStatus_Ready (machine_status (forget m)) = MStatus_Ready (machine_status m)"
  "MStatus_Addresses (machine_status (forget m)) = MStatus_Addresses (machine_status m)"
  by (simp_all add: forget_def upd_machine_spec_def upd_machine_status_def)

lemma same_machineD:
  assumes "same_machine m m'"
  shows "MS_Machine m' = MS_Machine m" "MS_OCIClusterAccessor m' = MS_OCIClusterAccessor m"
    "OCIMachine_Finalizers (MS_OCIMachine m') = OCIMachine_Finalizers (MS_OCIMachine m)"
    "OCIMachine_Name (MS_OCIMachine m') = OCIMachine_Name (MS_OCIMachine m)"
    "MSpec_InstanceId (machine_spec m') = MSpec_InstanceId (machine_spec m)"
    "MSpec_FreeformTags (machine_spec m') = MSpec_FreeformTags (machine_spec m)"
    "MSpec_BlockVolumeSpec (machine_spec m') = MSpec_BlockVolumeSpec (machine_spec m)"
    "MStatus_Ready (machine_status m') = MStatus_Ready (machine_status m)"
    "MStatus_Addresses (machine_status m') = MStatus_Addresses (machine_status m)"
  using assms unfolding same_machine_def by (metis forget_sel)+

lemma same_machine_writes [simp]:
  "same_machine m (setVnicAttachmentId i v m)" "same_machine m (upd_machine_status (setCreateWr j) m)"
  "same_machine m (upd_machine_status (setDeleteWr j) m)"
  by (simp_all add: same_machine_def forget_def upd_machine_spec_def upd_machine_status_def setVnicAttachmentId_def
      setCreateWr_def setDeleteWr_def)

section \<open>The interface of the requests\<close>

locale quiet_requests =
  fixes c :: "'w MachineClients" and Rw :: "'w \<Rightarrow> 'w \<Rightarrow> bool"
  assumes order: "reflp Rw" "transp Rw"
    and compute: "keeps Rw (api_GetInstance (mc_Compute c) i)" "keeps Rw (api_ListInstances (mc_Compute c) n cid p)"
      "keeps Rw (api_AttachVnic (mc_Compute c) vd)" "keeps Rw (api_ListVnicAttachments (mc_Compute c) i cid p)"
      "keeps Rw (api_GetVnic (mc_Compute c) i)" "keeps Rw (api_ListVolumeAttachments (mc_Compute c) i cid p)"
      "keeps Rw (api_AttachVolume (mc_Compute c) ad)" "keeps Rw (api_DetachVolume (mc_Compute c) i)"
    and volume: "mc_BlockVolume c = Some v \<Longrightarrow> keeps Rw (api_ListVolumes v cid n p)"
      "mc_BlockVolume c = Some v \<Longrightarrow> keeps Rw (api_GetVolume v n)"
      "mc_BlockVolume c = Some v \<Longrightarrow> keeps Rw (api_CreateVolume v cd tok)"
      "mc_BlockVolume c = Some v \<Longrightarrow> keeps Rw (api_DeleteVolume v i)"
    and lb: "keeps Rw (api_GetLoadBalancer (mc_Lb c) i)" "keeps Rw (api_CreateLBBackend (mc_Lb c) i bs b tok)"
      "keeps Rw (api_DeleteLBBackend (mc_Lb c) i bs n)" "keeps Rw (AwaitLBWorkRequest (mc_LbPoll c) (mc_Lb c) i)"
    and nlb: "keeps Rw (api_GetNetworkLoadBalancer (mc_Nlb c) i)" "keeps Rw (api_CreateNLBBackend (mc_Nlb c) i bs b tok)"
      "keeps Rw (api_DeleteNLBBackend (mc_Nlb c) i bs n)" "keeps Rw (AwaitNLBWorkRequest (mc_NlbPoll c) (mc_Nlb c) i)"
    and other: "keeps Rw (api_ListWorkRequests (mc_WorkRequests c) i j)" "keeps Rw (api_ListWorkRequestErrors (mc_WorkRequests c) i)"
      "keeps Rw (kube_GetSecret (mc_Kube c) n n')" "keeps Rw (kube_DeleteMachine (mc_Kube c))" "keeps Rw (mc_RandInt c k)"
begin

lemmas requests = compute volume lb nlb other

lemmas quiet_intros = frame_intros keeps_case_prod keeps_search_pages keeps_both_api keeps_both_get keeps_both_mod
  both_refl both_order order requests

lemma keeps_wrap_with_id: "keeps Rw m \<Longrightarrow> keeps Rw (wrap_with_id msg i m)"
  unfolding wrap_with_id_def by (intro frame_intros order)

lemma keeps_lift_err: "reflp R \<Longrightarrow> keeps R (lift_err x)"
  unfolding lift_err_def by (intro frame_intros)

lemma keeps_scanOwned: "reflp R \<Longrightarrow> keeps R (scanOwned m items)"
  unfolding scanOwned_def by (intro frame_intros)

lemmas op_intros = quiet_intros keeps_wrap_with_id keeps_lift_err keeps_scanOwned

subsection \<open>Lookups leave the scope as it is\<close>

lemma GetBlockVolume_quiet: "reflp Rs \<Longrightarrow> transp Rs \<Longrightarrow> keeps (both Rs Rw) (GetBlockVolume c)"
  unfolding GetBlockVolume_def by (intro keeps_deref_bind op_intros)

lemma GetBlockVolumeId_quiet: "reflp Rs \<Longrightarrow> transp Rs \<Longrightarrow> keeps (both Rs Rw) (GetBlockVolumeId c)"
  unfolding GetBlockVolumeId_def by (intro op_intros GetBlockVolume_quiet)

lemma GetMachine_quiet: "reflp Rs \<Longrightarrow> transp Rs \<Longrightarrow> keeps (both Rs Rw) (GetMachine c)"
  unfolding GetMachine_def getMachineFromOCID_def GetMachineByDisplayName_def instancePage_def by (intro op_intros)

lemma attachmentPage_quiet: "keeps Rw (attachmentPage c m i p)"
  unfolding attachmentPage_def listBlockVolumeAttachmentResponse_def by (intro op_intros)

lemma GetInstanceIp_quiet:
  assumes "reflp Rs" "transp Rs" shows "keeps (both Rs Rw) (GetInstanceIp c)"
proof -
  have "keeps (both Rs Rw) (scanVnics (mc_Compute c) items)" for items
    by (induction items) (auto intro!: op_intros assms)
  then show ?thesis unfolding GetInstanceIp_def by (intro op_intros assms) 
qed

subsection \<open>Block volumes\<close>

lemma DeleteBlockVolume_quiet: "reflp Rs \<Longrightarrow> transp Rs \<Longrightarrow> keeps (both Rs Rw) (DeleteBlockVolume c)"
  unfolding DeleteBlockVolume_def by (auto intro!: op_intros GetBlockVolume_quiet split: option.split)

lemma ReconcileBlockVolume_quiet: "reflp Rs \<Longrightarrow> transp Rs \<Longrightarrow> keeps (both Rs Rw) (ReconcileBlockVolume c ad)"
  unfolding ReconcileBlockVolume_def CreateBlockVolume_def by (intro op_intros GetBlockVolume_quiet)

lemma ensureBlockVolumeAttached_quiet:
  assumes "reflp Rs" "transp Rs" shows "keeps (both Rs Rw) (ensureBlockVolumeAttached c inst)"
proof -
  have "keeps (both Rs Rw) (attachBlockVolumeToInstance c inst)"
    unfolding attachBlockVolumeToInstance_def Let_def by (intro keeps_deref_bind op_intros GetBlockVolumeId_quiet assms)
  moreover have "keeps (both Rs Rw) (hasSpecificBlockVolumeAttached c i v)" for i v
    unfolding hasSpecificBlockVolumeAttached_def by (intro op_intros attachmentPage_quiet assms)
  ultimately show ?thesis
    unfolding ensureBlockVolumeAttached_def by (intro op_intros GetBlockVolumeId_quiet assms)
qed

lemma ensureBlockVolume_quiet: "reflp Rs \<Longrightarrow> transp Rs \<Longrightarrow> keeps (both Rs Rw) (ensureBlockVolume c ad inst)"
  unfolding ensureBlockVolume_def by (intro op_intros ReconcileBlockVolume_quiet ensureBlockVolumeAttached_quiet)

lemma detachBlockVolumes_quiet: "reflp Rs \<Longrightarrow> transp Rs \<Longrightarrow> keeps (both Rs Rw) (detachBlockVolumes c inst)"
  unfolding detachBlockVolumes_def detachIfVolume_def by (intro op_intros GetBlockVolumeId_quiet attachmentPage_quiet)

subsection \<open>VNICs and backends write ids of work requests and attachments only\<close>

lemma ReconcileVnicAttachments_quiet: "keeps (both same_machine Rw) (ReconcileVnicAttachments c)"
  unfolding ReconcileVnicAttachments_def reconcileVnicAt_def createVnicAttachment_def vnicAttachmentExists_def Let_def
  by (intro op_intros) simp_all

lemma recordAndAwait_quiet:
  "(\<And>m i. same_machine m (upd_machine_status (setId i) m)) \<Longrightarrow> (\<And>i. keeps Rw (await i)) \<Longrightarrow>
   keeps (both same_machine Rw) (recordAndAwait setId await j)"
  unfolding recordAndAwait_def by (intro op_intros) simp_all

lemma ReconcileCreateInstanceOnLB_quiet: "keeps (both same_machine Rw) (ReconcileCreateInstanceOnLB c)"
  unfolding ReconcileCreateInstanceOnLB_def createBackendOnLB_def createBackendOnNLB_def Let_def
  by (intro op_intros recordAndAwait_quiet) simp_all

lemma ReconcileDeleteInstanceOnLB_quiet: "keeps (both same_machine Rw) (ReconcileDeleteInstanceOnLB c)"
  unfolding ReconcileDeleteInstanceOnLB_def deleteBackendOnLB_def deleteBackendOnNLB_def unless_gone_def Let_def
  by (intro op_intros recordAndAwait_quiet) simp_all

end

text \<open>Nothing at all is asked of the cloud by the relation that always holds: what is left is that the operations keep
  the scope, for every set of clients.\<close>

lemma keeps_True [simp]: "keeps (\<lambda>_ _. True) m"
  by (simp add: keeps_def)

interpretation any_cloud: quiet_requests c "\<lambda>_ _. True" for c :: "'w MachineClients"
  by unfold_locales (simp_all add: reflp_def transp_def)

end
