(* ===== verification/Machine_Controller.thy ===== *)
theory Machine_Controller
  imports Machine_Frames Cluster_Controller
begin

text \<open>
  The controller of OCIMachine objects (src/controllers/ocimachine_controller.go): \<open>reconcileNormal\<close> and
  \<open>reconcileDelete\<close> over the machine scope, whose state is followed by the events recorded so far. The result of a
  reconciliation is the time after which the object is queued again, in seconds; 0 stands for the empty result.
\<close>

type_synonym 'w mctrl = "(MachineScope \<times> 'w) \<times> Event list"

abbreviation InstanceReadyCondition :: string where "InstanceReadyCondition \<equiv> ''InstanceReady''"

definition get_machine :: "('w mctrl, MachineScope) go" where
  "get_machine = on_fst get_scope"

definition mod_machine :: "(MachineScope \<Rightarrow> MachineScope) \<Rightarrow> ('w mctrl, unit) go" where
  "mod_machine f = on_fst (mod_scope f)"

definition mod_machine_finalizers :: "(string list \<Rightarrow> string list) \<Rightarrow> ('w mctrl, unit) go" where
  "mod_machine_finalizers f = mod_machine (\<lambda>m. m\<lparr>MS_OCIMachine :=
     (MS_OCIMachine m)\<lparr>OCIMachine_Finalizers := f (OCIMachine_Finalizers (MS_OCIMachine m))\<rparr>\<rparr>)"

definition mark_machine :: "(Condition list \<Rightarrow> Condition list) \<Rightarrow> ('w mctrl, unit) go" where
  "mark_machine f = mod_machine (upd_machine_status (\<lambda>st. st\<lparr>MStatus_Conditions := f (MStatus_Conditions st)\<rparr>))"

definition mark_not_ready :: "KubeLib \<Rightarrow> string \<Rightarrow> ('w mctrl, unit) go" where
  "mark_not_ready k reason = mark_machine (kube_MarkFalse k InstanceReadyCondition reason)"

definition machine_id :: "MachineScope \<Rightarrow> string" where
  "machine_id m = OCIMachine_Namespace (MS_OCIMachine m) @ ''/'' @ OCIMachine_Name (MS_OCIMachine m)"

definition instanceStateText :: "InstanceState \<Rightarrow> string" where
  "instanceStateText st = (case st of
      InstProvisioning \<Rightarrow> ''PROVISIONING'' | InstStarting \<Rightarrow> ''STARTING'' | InstStopping \<Rightarrow> ''STOPPING''
    | InstStopped \<Rightarrow> ''STOPPED'' | InstMoving \<Rightarrow> ''MOVING'' | InstRunning \<Rightarrow> ''RUNNING''
    | InstTerminating \<Rightarrow> ''TERMINATING'' | InstTerminated \<Rightarrow> ''TERMINATED'' | InstStateOther txt \<Rightarrow> txt)"

text \<open>A failed step of the reconciliation: an event, the condition, and what \<open>handle\<close> does with the error.\<close>

definition orFail :: "KubeLib \<Rightarrow> string \<Rightarrow> string \<Rightarrow> (MachineScope \<Rightarrow> goerr \<Rightarrow> goerr) \<Rightarrow> ('w, 'a) machine_go \<Rightarrow> ('w mctrl, 'a) go" where
  "orFail k eventMsg reason handle op =
     go_bind (go_try (on_fst op)) (\<lambda>x. case x of
       Inr a \<Rightarrow> go_ret a
     | Inl err \<Rightarrow>
         go_bind (record_event EventTypeWarning ''ReconcileError'' (Error (ErrWrap eventMsg err))) (\<lambda>_.
         go_bind (mark_not_ready k reason) (\<lambda>_.
         go_bind get_machine (\<lambda>m. go_throw (handle m err)))))"

section \<open>Failed work requests\<close>

fun appendMessages :: "string \<Rightarrow> string option list \<Rightarrow> ('s, string) go" where
  "appendMessages final_error [] = go_ret final_error"
| "appendMessages final_error (msg # msgs) =
     go_bind (go_deref msg) (\<lambda>txt. appendMessages (final_error @ '' '' @ txt) msgs)"

fun failedWorkRequests :: "'w MachineClients \<Rightarrow> string \<Rightarrow> SdkWorkRequestSummary list \<Rightarrow> ('w mctrl, string) go" where
  "failedWorkRequests c final_error [] = go_ret final_error"
| "failedWorkRequests c final_error (wrqst # wrqsts) =
     (if WRS_Failed wrqst then
        go_bind (go_try (on_fst (api (api_ListWorkRequestErrors (mc_WorkRequests c) (WRS_Id wrqst))))) (\<lambda>x. case x of
          Inl err \<Rightarrow>
            go_bind (record_event EventTypeWarning ''ReconcileError''
              (Error (ErrWrap ''Failed to normal reconcile OCIMachine'' err))) (\<lambda>_.
            go_bind get_machine (\<lambda>m.
            go_throw (ErrWrap (''failed to normal reconcile OCI Machine '' @ machine_id m) err)))
        | Inr wr_errs \<Rightarrow>
            go_bind (go_deref (WRS_Id wrqst)) (\<lambda>i.
            go_bind (appendMessages (final_error @ '' Workrequest '' @ i @ '' failed.'') wr_errs) (\<lambda>txt.
            failedWorkRequests c txt wrqsts)))
      else failedWorkRequests c final_error wrqsts)"

definition recordErrorsOnFailedWorkRequest :: "'w MachineClients \<Rightarrow> Instance \<Rightarrow> ('w mctrl, int) go" where
  "recordErrorsOnFailedWorkRequest c inst =
     go_bind (go_try (on_fst (api (api_ListWorkRequests (mc_WorkRequests c) (Instance_CompartmentId inst) (Res_Id inst))))) (\<lambda>x.
     case x of
       Inl err \<Rightarrow>
         go_bind (record_event EventTypeWarning ''ReconcileError'' (Error (ErrWrap ''Failed to reconcile OCIMachine'' err))) (\<lambda>_.
         go_bind get_machine (\<lambda>m.
         go_throw (ErrWrap (''failed to list workrequests for OCI Machine '' @ machine_id m) err)))
     | Inr items \<Rightarrow>
         go_bind (failedWorkRequests c '''' items) (\<lambda>final_error.
         go_bind (record_event EventTypeWarning ''ReconcileError''
           (final_error @ ''. Instance  has invalid lifecycle state '' @ instanceStateText (Instance_LifecycleState inst))) (\<lambda>_.
         go_throw (ErrNew (''instance  has invalid lifecycle state '' @ instanceStateText (Instance_LifecycleState inst))))))"

section \<open>Reconciliation\<close>

definition deleteMachineOnTermination :: "MachineScope \<Rightarrow> bool" where
  "deleteMachineOnTermination m = (Machine_Annotations (MS_Machine m) DeleteMachineOnInstanceTermination \<noteq> None)"

text \<open>The address of the machine is looked up once.\<close>

definition ensureAddress :: "KubeLib \<Rightarrow> 'w MachineClients \<Rightarrow> ('w mctrl, unit) go" where
  "ensureAddress k c =
     go_bind get_machine (\<lambda>m.
     if length (MStatus_Addresses (machine_status m)) = 0
     then go_bind (orFail k ''failed to reconcile OCIMachine'' ''InstanceIPAddressNotFound'' (\<lambda>_ err. err) (GetInstanceIp c)) (\<lambda>ipAddress.
       go_bind (go_deref ipAddress) (\<lambda>ip.
       mod_machine (upd_machine_status (\<lambda>st. st\<lparr>MStatus_Addresses := [\<lparr>Address_Type = MachineInternalIP, Address_Address = ip\<rparr>]\<rparr>))))
     else go_ret ())"

definition ensureOnLB :: "KubeLib \<Rightarrow> 'w MachineClients \<Rightarrow> ('w mctrl, unit) go" where
  "ensureOnLB k c =
     go_bind get_machine (\<lambda>m.
     if IsControlPlane m
     then orFail k ''failed to reconcile OCIMachine'' ''BackendAdditionFailed'' (\<lambda>_ err. err) (ReconcileCreateInstanceOnLB c)
     else go_ret ())"

definition ensureVnics :: "KubeLib \<Rightarrow> 'w MachineClients \<Rightarrow> ('w mctrl, unit) go" where
  "ensureVnics k c =
     go_bind get_machine (\<lambda>m.
     if length (MSpec_VnicAttachments (machine_spec m)) > 0
     then go_bind (orFail k ''failed to reconcile OCIMachine'' ''VnicAttachmentFailed'' (\<lambda>_ err. err) (ReconcileVnicAttachments c)) (\<lambda>_.
       record_event EventTypeNormal ''VnicAttachmentReady'' ''VNICs have been attached to instance.'')
     else go_ret ())"

definition reconcileRunning :: "KubeLib \<Rightarrow> 'w MachineClients \<Rightarrow> ('w mctrl, int) go" where
  "reconcileRunning k c =
     go_seq (ensureAddress k c)
     (go_seq (ensureOnLB k c)
     (go_seq (ensureVnics k c)
     (go_seq (record_event EventTypeNormal ''InstanceReady'' ''Instance is in ready state'')
     (go_seq (mark_machine (kube_MarkTrue k InstanceReadyCondition))
     (go_seq (mod_machine SetReady)
     (go_bind get_machine (\<lambda>m. go_ret (if deleteMachineOnTermination m then 300 else 0))))))))"

definition reconcileUnexpected :: "KubeLib \<Rightarrow> 'w MachineClients \<Rightarrow> Instance \<Rightarrow> ('w mctrl, int) go" where
  "reconcileUnexpected k c inst =
     go_seq (mod_machine SetNotReady)
     (go_seq (mark_not_ready k ''InstanceProvisionFailed'')
     (go_seq (mod_machine (SetFailureReason ''CreateError''))
     (go_seq (mod_machine (SetFailureMessage (ErrNew (''Instance status '' @ [CHR 0x22] @
         instanceStateText (Instance_LifecycleState inst) @ [CHR 0x22] @ '' is unexpected''))))
     (recordErrorsOnFailedWorkRequest c inst))))"

definition reconcileInstance :: "KubeLib \<Rightarrow> 'w MachineClients \<Rightarrow> Instance \<Rightarrow> ('w mctrl, int) go" where
  "reconcileInstance k c inst =
     go_bind get_machine (\<lambda>m.
     case Instance_LifecycleState inst of
       InstProvisioning \<Rightarrow> go_seq (mark_not_ready k ''InstanceNotReady'') (go_ret 10)
     | InstStarting \<Rightarrow> go_seq (mark_not_ready k ''InstanceNotReady'') (go_ret 10)
     | InstStopping \<Rightarrow> go_seq (mod_machine SetNotReady) (go_seq (mark_not_ready k ''InstanceNotReady'') (go_ret 0))
     | InstStopped \<Rightarrow> go_seq (mod_machine SetNotReady) (go_seq (mark_not_ready k ''InstanceNotReady'') (go_ret 0))
     | InstMoving \<Rightarrow> go_seq (mod_machine SetNotReady) (go_seq (mark_not_ready k ''InstanceNotReady'') (go_ret 0))
     | InstRunning \<Rightarrow> reconcileRunning k c
     | InstTerminated \<Rightarrow>
         go_seq (if deleteMachineOnTermination m \<and> \<not> Machine_Deleted (MS_Machine m)
            then go_wrap (''failed to delete machine '' @ Machine_Namespace (MS_Machine m) @ ''/'' @ Machine_Name (MS_Machine m))
              (on_fst (api (kube_DeleteMachine (mc_Kube c))))
            else go_ret ()) (reconcileUnexpected k c inst)
     | _ \<Rightarrow> reconcileUnexpected k c inst)"

definition machine_reconcileNormal :: "KubeLib \<Rightarrow> 'w MachineClients \<Rightarrow> ('w mctrl, int) go" where
  "machine_reconcileNormal k c =
     go_seq (mod_machine_finalizers (kube_AddFinalizer k MachineFinalizer))
     (go_bind get_machine (\<lambda>m.
     if Machine_DataSecretName (MS_Machine m) = None
     then go_seq (record_event EventTypeNormal ''WaitingForBootstrapData'' ''Bootstrap data secret reference is not yet available'')
       (go_seq (mark_not_ready k ''WaitingForBootstrapData'') (go_ret 0))
     else
       go_bind (orFail k ''Failed to reconcile OCIMachine'' ''InstanceProvisionFailed''
         (\<lambda>m err. ErrWrap (''failed to reconcile OCI Machine '' @ machine_id m) err) (GetOrCreateMachine c)) (\<lambda>launched.
       go_bind (go_deref launched) (\<lambda>inst.
       go_bind (go_deref (Res_Id inst)) (\<lambda>i.
       go_seq (mod_machine (upd_machine_spec (\<lambda>sp. sp\<lparr>MSpec_InstanceId := Some i, MSpec_ProviderID := Some (GetProviderID i)\<rparr>)))
       (reconcileInstance k c inst))))))"

section \<open>Deletion\<close>

definition deleteInstanceFromControlPlaneLB :: "'w MachineClients \<Rightarrow> ('w mctrl, unit) go" where
  "deleteInstanceFromControlPlaneLB c =
     go_bind get_machine (\<lambda>m.
     if IsControlPlane m
     then go_bind (on_fst (ReconcileDeleteInstanceOnLB c)) (\<lambda>_.
       record_event EventTypeNormal ''OCIMachineRemovedFromLB'' ''Instance has been removed from the control plane LB'')
     else go_ret ())"

text \<open>The volume is deleted and then the finalizer removed; while the volume cannot be deleted the object is queued
  again and keeps its finalizer.\<close>

definition releaseMachine :: "KubeLib \<Rightarrow> 'w MachineClients \<Rightarrow> ('w mctrl, int) go \<Rightarrow> ('w mctrl, int) go" where
  "releaseMachine k c rest =
     go_bind get_machine (\<lambda>m.
     go_bind (go_try (if BlockVolumeSpecNotEmpty m then on_fst (DeleteBlockVolume c) else go_ret ())) (\<lambda>x. case x of
       Inl err \<Rightarrow> go_ret 5
     | Inr _ \<Rightarrow> go_seq (mod_machine_finalizers (kube_RemoveFinalizer k MachineFinalizer)) rest))"

definition terminateMachine :: "KubeLib \<Rightarrow> 'w MachineClients \<Rightarrow> Instance \<Rightarrow> ('w mctrl, int) go" where
  "terminateMachine k c inst =
     go_bind get_machine (\<lambda>m.
     if \<not> machine_IsResourceCreatedByClusterAPI m (Res_FreeformTags inst)
     then go_throw (ErrNew ''instance is not created by current cluster'')
     else
       go_seq (deleteInstanceFromControlPlaneLB c)
       (go_seq (go_wrap (''error deleting instance '' @ machine_Name m) (on_fst (DeleteMachine c inst)))
       (go_seq (mark_not_ready k ''InstanceTerminating'')
       (go_seq (record_event EventTypeNormal ''InstanceTerminating'' ''Terminating the instance'') (go_ret 30)))))"

text \<open>What follows the lookup of the instance.\<close>

definition deleteFound :: "KubeLib \<Rightarrow> 'w MachineClients \<Rightarrow> goerr + Instance option \<Rightarrow> ('w mctrl, int) go" where
  "deleteFound k c x = (case x of
       Inl err \<Rightarrow>
         if IsNotFound (Some err)
         then go_seq (deleteInstanceFromControlPlaneLB c)
           (go_seq (mark_not_ready k ''InstanceNotFound'') (releaseMachine k c (go_ret 0)))
         else go_throw err
     | Inr None \<Rightarrow> go_seq (mod_machine_finalizers (kube_RemoveFinalizer k MachineFinalizer)) (go_ret 0)
     | Inr (Some inst) \<Rightarrow>
         go_bind (go_deref (Res_Id inst)) (\<lambda>_.
         case Instance_LifecycleState inst of
           InstTerminating \<Rightarrow> go_ret 30
         | InstTerminated \<Rightarrow>
             go_seq (mark_not_ready k ''InstanceTerminated'')
               (releaseMachine k c (go_seq (record_event EventTypeNormal ''InstanceTerminated'' ''Deleted the instance'') (go_ret 0)))
         | _ \<Rightarrow> terminateMachine k c inst))"

definition machine_reconcileDelete :: "KubeLib \<Rightarrow> 'w MachineClients \<Rightarrow> ('w mctrl, int) go" where
  "machine_reconcileDelete k c = go_bind (go_try (on_fst (GetMachine c))) (deleteFound k c)"

section \<open>What the steps of the controller keep\<close>

text \<open>A relation between the scopes, of a machine or of a pool, and one between the clouds; the events are left open.\<close>

definition ctrl_rel :: "('s \<Rightarrow> 's \<Rightarrow> bool) \<Rightarrow> ('w \<Rightarrow> 'w \<Rightarrow> bool) \<Rightarrow> ('s \<times> 'w) \<times> 'e \<Rightarrow> ('s \<times> 'w) \<times> 'e \<Rightarrow> bool" where
  "ctrl_rel Rm Rw x y \<longleftrightarrow> both Rm Rw (fst x) (fst y)"

lemma ctrl_rel_order [simp, intro]:
  "reflp Rm \<Longrightarrow> reflp Rw \<Longrightarrow> reflp (ctrl_rel Rm Rw)" "transp Rm \<Longrightarrow> transp Rw \<Longrightarrow> transp (ctrl_rel Rm Rw)"
  unfolding ctrl_rel_def both_def reflp_def transp_def by blast+

lemma ctrl_on_fst: "keeps (both Rm Rw) m \<Longrightarrow> keeps (ctrl_rel Rm Rw) (on_fst m)"
  using keeps_on_fst [of "both Rm Rw" m] by (simp add: ctrl_rel_def [abs_def])

lemma ctrl_event: "reflp Rm \<Longrightarrow> reflp Rw \<Longrightarrow> keeps (ctrl_rel Rm Rw) (record_event t r txt)"
  by (auto simp: keeps_def record_event_def go_simps ctrl_rel_def both_def reflp_def split: prod.splits)

lemma ctrl_basic:
  assumes "reflp Rm" and "reflp Rw"
  shows "keeps (ctrl_rel Rm Rw) (record_event t r txt)" "keeps (ctrl_rel Rm Rw) get_machine"
  using assms by (auto simp: keeps_def record_event_def get_machine_def go_simps ctrl_rel_def both_def reflp_def
      on_fst_def get_scope_def split: prod.splits)

lemma ctrl_mod: "(\<And>m. Rm m (f m)) \<Longrightarrow> reflp Rw \<Longrightarrow> keeps (ctrl_rel Rm Rw) (mod_machine f)"
  by (auto simp: keeps_def mod_machine_def go_simps ctrl_rel_def both_def reflp_def on_fst_def mod_scope_def split: prod.splits)

lemma both_mono: "keeps (both Rm Rw) op \<Longrightarrow> (\<And>m m'. Rm m m' \<Longrightarrow> Rm' m m') \<Longrightarrow> keeps (both Rm' Rw) op"
  by (auto simp: keeps_def both_def)

text \<open>The relations of interest are coarser than \<open>same_machine\<close> and blind to the conditions: the finalizers, the
  readiness with the finalizers, or nothing of the scope.\<close>

definition same_finalizers :: "MachineScope \<Rightarrow> MachineScope \<Rightarrow> bool" where
  "same_finalizers m m' \<longleftrightarrow> OCIMachine_Finalizers (MS_OCIMachine m') = OCIMachine_Finalizers (MS_OCIMachine m) \<and>
     MS_Machine m' = MS_Machine m \<and> MS_OCIClusterAccessor m' = MS_OCIClusterAccessor m \<and>
     MSpec_BlockVolumeSpec (machine_spec m') = MSpec_BlockVolumeSpec (machine_spec m)"

definition same_ready :: "MachineScope \<Rightarrow> MachineScope \<Rightarrow> bool" where
  "same_ready m m' \<longleftrightarrow> MStatus_Ready (machine_status m') = MStatus_Ready (machine_status m) \<and>
     MSpec_InstanceId (machine_spec m') = MSpec_InstanceId (machine_spec m) \<and> MS_Machine m' = MS_Machine m \<and>
     (MStatus_Addresses (machine_status m) \<noteq> [] \<longrightarrow> MStatus_Addresses (machine_status m') \<noteq> [])"

lemma scope_orders [simp]: "reflp same_finalizers" "transp same_finalizers" "reflp same_ready" "transp same_ready"
  by (auto simp: same_finalizers_def same_ready_def reflp_def transp_def)

lemma same_machine_coarser:
  "same_machine m m' \<Longrightarrow> same_finalizers m m'" "same_machine m m' \<Longrightarrow> same_ready m m'"
  by (simp_all add: same_finalizers_def same_ready_def same_machineD)

lemma status_writes [simp]:
  "same_finalizers m (upd_machine_status f m)" "same_finalizers m (SetReady m)" "same_finalizers m (SetNotReady m)"
  "same_ready m (upd_machine_status (\<lambda>st. st\<lparr>MStatus_Conditions := g (MStatus_Conditions st)\<rparr>) m)"
  "same_ready m (SetFailureReason t m)" "same_ready m (SetFailureMessage e m)" "same_finalizers m (SetFailureReason t m)"
  "same_finalizers m (SetFailureMessage e m)"
  by (simp_all add: same_finalizers_def same_ready_def upd_machine_status_def SetReady_def SetNotReady_def SetFailureReason_def
      SetFailureMessage_def)

lemmas ctrl_intros = frame_intros ctrl_on_fst ctrl_basic ctrl_mod ctrl_rel_order scope_orders

context quiet_requests
begin

lemma mark_quiet: "(\<And>m. Rm m (upd_machine_status (\<lambda>st. st\<lparr>MStatus_Conditions := f (MStatus_Conditions st)\<rparr>) m)) \<Longrightarrow>
    keeps (ctrl_rel Rm Rw) (mark_machine f)"
  unfolding mark_machine_def by (intro ctrl_intros order)

lemma orFail_quiet:
  assumes "keeps (both Rm Rw) op" and "reflp Rm" and "transp Rm"
    and "\<And>f m. Rm m (upd_machine_status (\<lambda>st. st\<lparr>MStatus_Conditions := f (MStatus_Conditions st)\<rparr>) m)"
  shows "keeps (ctrl_rel Rm Rw) (orFail k ev reason handle op)"
  unfolding orFail_def mark_not_ready_def by (intro ctrl_intros mark_quiet assms order)

lemma deleteInstanceFromControlPlaneLB_quiet:
  assumes "\<And>m m'. same_machine m m' \<Longrightarrow> Rm m m'" and "reflp Rm" and "transp Rm"
  shows "keeps (ctrl_rel Rm Rw) (deleteInstanceFromControlPlaneLB c)"
  unfolding deleteInstanceFromControlPlaneLB_def
  by (intro ctrl_intros order both_mono [OF ReconcileDeleteInstanceOnLB_quiet] assms)

lemma recordErrors_quiet:
  assumes "reflp Rm" and "transp Rm"
  shows "keeps (ctrl_rel Rm Rw) (recordErrorsOnFailedWorkRequest c inst)"
proof -
  have msgs: "keeps (ctrl_rel Rm Rw) (appendMessages e ms)" for e ms
    by (induction ms arbitrary: e) (auto intro!: ctrl_intros assms order)
  have "keeps (ctrl_rel Rm Rw) (failedWorkRequests c e wrs)" for e wrs
    by (induction wrs arbitrary: e) (auto intro!: ctrl_intros keeps_both_api requests assms order msgs split: sum.split)
  then show ?thesis
    unfolding recordErrorsOnFailedWorkRequest_def by (intro ctrl_intros keeps_both_api requests assms order)
qed

lemma running_steps_quiet:
  "keeps (ctrl_rel same_ready Rw) (ensureAddress k c)" "keeps (ctrl_rel same_ready Rw) (ensureOnLB k c)"
  "keeps (ctrl_rel same_ready Rw) (ensureVnics k c)"
  unfolding ensureAddress_def ensureOnLB_def ensureVnics_def
  by (intro ctrl_intros order orFail_quiet GetInstanceIp_quiet both_mono [OF ReconcileCreateInstanceOnLB_quiet]
      both_mono [OF ReconcileVnicAttachments_quiet]; simp add: same_machine_coarser; simp add: same_ready_def upd_machine_status_def)+

lemma reconcileInstance_quiet: "keeps (ctrl_rel (\<lambda>_ _. True) Rw) (reconcileInstance k c inst)"
proof -
  have top: "reflp (\<lambda>_ _. True)" "transp (\<lambda>_ _. True)" by (simp_all add: reflp_def transp_def)
  have steps: "keeps (ctrl_rel (\<lambda>_ _. True) Rw) op" if "keeps (ctrl_rel Rm Rw) op" for Rm and op :: "('w mctrl, 'z) go"
    using that by (auto simp: keeps_def ctrl_rel_def both_def)
  have "keeps (ctrl_rel (\<lambda>_ _. True) Rw) (reconcileRunning k c)"
    unfolding reconcileRunning_def by (intro ctrl_intros top order mark_quiet steps [OF running_steps_quiet(1)]
        steps [OF running_steps_quiet(2)] steps [OF running_steps_quiet(3)] TrueI)
  moreover have un: "keeps (ctrl_rel (\<lambda>_ _. True) Rw) (reconcileUnexpected k c inst)"
    unfolding reconcileUnexpected_def mark_not_ready_def by (intro ctrl_intros top order mark_quiet recordErrors_quiet TrueI)
  ultimately show ?thesis
    unfolding reconcileInstance_def mark_not_ready_def
    by (auto intro!: ctrl_intros top order mark_quiet keeps_both_api requests split: InstanceState.split)
qed

end

end
