(* ===== verification/Machine_Deletion.thy ===== *)
theory Machine_Deletion
  imports Machine_Controller
begin

text \<open>
  The deletion of a machine (\<open>reconcileDelete\<close> of src/controllers/ocimachine_controller.go): when the finalizer goes, which
  instances can be terminated, and two ways in which the deletion falls short of its intention.
\<close>

lemmas delete_defs = machine_reconcileDelete_def deleteFound_def

section \<open>The finalizer\<close>

abbreviation finalizers_of :: "'w mctrl \<Rightarrow> string list" where
  "finalizers_of x \<equiv> OCIMachine_Finalizers (MS_OCIMachine (fst (fst x)))"

abbreviation fin_rel :: "'w mctrl \<Rightarrow> 'w mctrl \<Rightarrow> bool" where
  "fin_rel \<equiv> ctrl_rel same_finalizers (\<lambda>_ _. True)"

lemma fin_relD: "fin_rel x y \<Longrightarrow> finalizers_of y = finalizers_of x"
  by (simp add: ctrl_rel_def both_def same_finalizers_def)

lemma GetMachine_scope: "GetMachine c (m, w) = (x, y) \<Longrightarrow> fst y = m"
  using keepsD [OF any_cloud.GetMachine_quiet [OF eq_order], of c "(m, w)" x y] by (simp add: both_def)

lemma fin_keeps:
  "keeps fin_rel (mark_not_ready k reason)" "keeps fin_rel (deleteInstanceFromControlPlaneLB c)"
  "keeps fin_rel (on_fst (DeleteMachine c inst))" "keeps fin_rel (terminateMachine k c inst)"
proof -
  have top: "reflp (\<lambda>_ _ :: 'w. True)" "transp (\<lambda>_ _ :: 'w. True)" by (simp_all add: reflp_def transp_def)
  show mark: "keeps fin_rel (mark_not_ready k reason)" for reason
    unfolding mark_not_ready_def by (rule any_cloud.mark_quiet) simp
  show lb: "keeps fin_rel (deleteInstanceFromControlPlaneLB c)"
    by (rule any_cloud.deleteInstanceFromControlPlaneLB_quiet) (simp_all add: same_machine_coarser)
  show del: "keeps fin_rel (on_fst (DeleteMachine c inst))"
    unfolding DeleteMachine_def
    by (intro ctrl_intros any_cloud.detachBlockVolumes_quiet keeps_both_api keeps_both_get both_order top keeps_True)
  show "keeps fin_rel (terminateMachine k c inst)"
    unfolding terminateMachine_def by (intro ctrl_intros mark lb del top)
qed

text \<open>A program that keeps the finalizers leaves the question to what follows.\<close>

lemma seq_finalizers:
  assumes "go_seq p q x = (r, y)" and "keeps fin_rel p" and "finalizers_of y \<noteq> finalizers_of x"
  shows "\<exists>a z. p x = (Ret a, z) \<and> q z = (r, y) \<and> fin_rel x z"
proof -
  obtain a z where p: "p x = (a, z)" by (cases "p x")
  with assms(2) have xz: "fin_rel x z" by (rule keepsD)
  with assms(1,3) p fin_relD [OF xz] show ?thesis by (cases a) (auto simp: go_simps)
qed

text \<open>From one state to the next the volume of the spec has been deleted, if there is one, and nothing else was asked of the cloud.\<close>

definition volume_released :: "'w MachineClients \<Rightarrow> MachineScope \<times> 'w \<Rightarrow> 'w \<Rightarrow> bool" where
  "volume_released c s w' \<longleftrightarrow>
     (if BlockVolumeSpecNotEmpty (fst s) then fst (DeleteBlockVolume c s) = Ret () \<and> snd (snd (DeleteBlockVolume c s)) = w' else w' = snd s)"

lemma releaseMachine_finalizers:
  assumes run: "releaseMachine k c rest x = (r, y)" and "finalizers_of y \<noteq> finalizers_of x"
    and rest: "\<And>z. fst (rest z) = Ret 0" "\<And>z. fst (snd (rest z)) = fst z"
  shows "r = Ret 0 \<and> volume_released c (fst x) (snd (fst y))"
proof -
  obtain m w ev where x: "x = ((m, w), ev)" by (metis surj_pair)
  let ?v = "if BlockVolumeSpecNotEmpty m then on_fst (DeleteBlockVolume c) else go_ret ()"
  obtain a z where v: "?v x = (a, z)" by (cases "?v x")
  have fin: "keeps fin_rel ?v"
    by (auto intro!: ctrl_intros any_cloud.DeleteBlockVolume_quiet simp: reflp_def)
  from keepsD [OF this v] have xz: "finalizers_of z = finalizers_of x" by (rule fin_relD)
  from run v have a: "a = Ret ()"
    using assms(2) xz by (cases a) (auto simp: releaseMachine_def get_machine_def go_simps x)
  have "\<exists>z'. rest z' = (r, y) \<and> snd (fst z') = snd (fst z)"
    using run v a
    by (cases z; cases "fst z") (fastforce simp: releaseMachine_def get_machine_def go_simps x mod_machine_finalizers_def mod_machine_def)
  then have "r = Ret 0" "snd (fst y) = snd (fst z)" using rest by (metis fst_conv, metis snd_conv)
  moreover have "volume_released c (m, w) (snd (fst z))"
    using v a by (auto simp: volume_released_def x on_fst_apply go_ret_apply split: if_splits)
  ultimately show ?thesis by (simp add: x)
qed

text \<open>What the lookup has to say before the machine may go.\<close>

definition instance_gone :: "Instance option res \<Rightarrow> bool" where
  "instance_gone x = (case x of
      Err e \<Rightarrow> IsNotFound (Some e)
    | Ret None \<Rightarrow> True
    | Ret (Some inst) \<Rightarrow> Instance_LifecycleState inst = InstTerminated
    | _ \<Rightarrow> False)"

definition marked_not_ready :: "KubeLib \<Rightarrow> string \<Rightarrow> MachineScope \<Rightarrow> MachineScope" where
  "marked_not_ready k reason = upd_machine_status (\<lambda>st. st\<lparr>MStatus_Conditions := kube_MarkFalse k InstanceReadyCondition reason (MStatus_Conditions st)\<rparr>)"

lemma mark_not_ready_apply: "mark_not_ready k reason x = (Ret (), map_prod (map_prod (marked_not_ready k reason) id) id x)"
  by (cases x; cases "fst x") (auto simp: mark_not_ready_def mark_machine_def mod_machine_def marked_not_ready_def go_simps)

lemma deletion_branches:
  fixes x :: "'w mctrl"
  assumes run: "machine_reconcileDelete k c x = (r, y)" and ch: "finalizers_of y \<noteq> finalizers_of x"
    and get: "GetMachine c (fst x) = (a, t)"
  shows "r = Ret 0 \<and> instance_gone a \<and> (case a of
      Ret None \<Rightarrow> snd (fst y) = snd t
    | Ret (Some _) \<Rightarrow> volume_released c (map_prod (marked_not_ready k ''InstanceTerminated'') id t) (snd (fst y))
    | _ \<Rightarrow> \<exists>z. deleteInstanceFromControlPlaneLB c (t, snd x) = (Ret (), z) \<and>
        volume_released c (map_prod (marked_not_ready k ''InstanceNotFound'') id (fst z)) (snd (fst y)))"
proof -
  obtain m w ev where x: "x = ((m, w), ev)" by (metis surj_pair)
  obtain w1 where t: "t = (m, w1)" using GetMachine_scope [of c m w a t] get x by (cases t) auto
  let ?z = "((m, w1), ev)"
  have same: "finalizers_of ?z = finalizers_of x" by (simp add: x)
  have start: "on_fst (GetMachine c) x = (a, ?z)" using get by (simp add: x t go_simps)
  note rel = releaseMachine_finalizers [where c = c and k = k]
  show ?thesis
  proof (cases a)
    case (Err e)
    have nf: "IsNotFound (Some e)"
      using run start ch same by (cases "IsNotFound (Some e)") (auto simp: delete_defs go_simps Err)
    with run start Err have
      "go_seq (deleteInstanceFromControlPlaneLB c) (go_seq (mark_not_ready k ''InstanceNotFound'') (releaseMachine k c (go_ret 0))) ?z = (r, y)"
      by (simp add: delete_defs go_bind_apply go_try_apply)
    from seq_finalizers [OF this fin_keeps(2)] ch same obtain z1 where
      1: "go_seq (mark_not_ready k ''InstanceNotFound'') (releaseMachine k c (go_ret 0)) z1 = (r, y)" "fin_rel ?z z1"
      and lb: "deleteInstanceFromControlPlaneLB c ?z = (Ret (), z1)" by auto
    from seq_finalizers [OF 1(1) fin_keeps(1)] ch same fin_relD [OF 1(2)] obtain z2 where
      2: "releaseMachine k c (go_ret 0) z2 = (r, y)" "fin_rel z1 z2" "mark_not_ready k ''InstanceNotFound'' z1 = (Ret (), z2)" by auto
    have "r = Ret 0 \<and> volume_released c (fst z2) (snd (fst y))"
      using rel [OF 2(1)] ch same fin_relD [OF 1(2)] fin_relD [OF 2(2)] by (simp add: go_simps)
    with nf Err lb 2(3) show ?thesis by (auto simp: instance_gone_def x t mark_not_ready_apply)
  next
    case (Ret found)
    show ?thesis
    proof (cases found)
      case None
      with run start Ret show ?thesis
        by (auto simp: delete_defs go_simps instance_gone_def mod_machine_finalizers_def mod_machine_def t)
    next
      case (Some inst)
      from run start Ret Some ch same obtain i where i: "Res_Id inst = Some i"
        by (cases "Res_Id inst") (auto simp: delete_defs go_simps)
      show ?thesis
      proof (cases "Instance_LifecycleState inst = InstTerminated")
        case True
        let ?rest = "go_seq (record_event EventTypeNormal ''InstanceTerminated'' ''Deleted the instance'') (go_ret 0)"
        from run start Ret Some i True have
          "go_seq (mark_not_ready k ''InstanceTerminated'') (releaseMachine k c ?rest) ?z = (r, y)"
          by (simp add: delete_defs go_bind_apply go_try_apply go_deref_apply)
        from seq_finalizers [OF this fin_keeps(1)] ch same obtain z1 where
          1: "releaseMachine k c ?rest z1 = (r, y)" "fin_rel ?z z1" "mark_not_ready k ''InstanceTerminated'' ?z = (Ret (), z1)" by auto
        have "r = Ret 0 \<and> volume_released c (fst z1) (snd (fst y))"
          using rel [OF 1(1)] ch same fin_relD [OF 1(2)] by (simp add: go_simps record_event_def split: prod.splits)
        with True Ret Some 1(3) show ?thesis by (auto simp: instance_gone_def x t mark_not_ready_apply)
      next
        case False
        from keepsD [OF fin_keeps(4), of k c inst ?z r y] run start Ret Some i False have "finalizers_of y = finalizers_of ?z"
          by (auto simp: delete_defs go_bind_apply go_try_apply go_deref_apply go_ret_apply
              split: InstanceState.splits dest: fin_relD)
        with ch same show ?thesis by simp
      qed
    qed
  qed (use run start ch same in \<open>auto simp: delete_defs go_simps\<close>)
qed


text \<open>C8. The finalizer of a machine is removed only when its instance is gone. If the deletion changes the finalizers, it
  returns nil without asking for another round, and one of three things has happened. The lookup failed because the instance does
  not exist: then the machine has been taken off the load balancer (if it belongs to the control plane), and after that
  \<open>DeleteBlockVolume\<close> has succeeded (if the spec has a block volume). Or the lookup found the instance terminated: then
  \<open>DeleteBlockVolume\<close> has succeeded (if the spec has a block volume). Or the lookup found no instance at all: then no further request
  has been made, so that a block volume of the machine is left behind. The states in which these requests run are the ones that the
  run reaches: only the condition of the machine has been marked before the volume is deleted, and after it the cloud is not asked
  again.\<close>

theorem machine_finalizer_last:
  assumes run: "machine_reconcileDelete k c ((m, w), ev) = (r, ((m', w'), ev'))"
    and ch: "OCIMachine_Finalizers (MS_OCIMachine m') \<noteq> OCIMachine_Finalizers (MS_OCIMachine m)"
    and get: "GetMachine c (m, w) = (a, (m0, w0))"
  shows "r = Ret 0 \<and> (case a of
      Err e \<Rightarrow> IsNotFound (Some e) \<and>
        (\<exists>m1 w1 ev1. deleteInstanceFromControlPlaneLB c ((m, w0), ev) = (Ret (), ((m1, w1), ev1)) \<and>
          volume_released c (marked_not_ready k ''InstanceNotFound'' m1, w1) w')
    | Ret (Some inst) \<Rightarrow> Instance_LifecycleState inst = InstTerminated \<and>
        volume_released c (marked_not_ready k ''InstanceTerminated'' m, w0) w'
    | Ret None \<Rightarrow> w' = w0
    | _ \<Rightarrow> False)"
proof -
  have m0: "m0 = m" using GetMachine_scope [OF get] by simp
  note facts = deletion_branches [OF run, of a "(m, w0)", simplified, OF ch get [unfolded m0]]
  show ?thesis
  proof (cases a)
    case (Err e)
    with facts show ?thesis by (auto simp: instance_gone_def)
  next
    case (Ret found)
    with facts show ?thesis by (cases found) (simp_all add: instance_gone_def)
  qed (use facts in \<open>simp_all add: instance_gone_def\<close>)
qed

definition machine_kube :: KubeLib where
  "machine_kube = \<lparr>kube_AddFinalizer = (\<lambda>f fs. if f \<in> set fs then fs else fs @ [f]),
     kube_RemoveFinalizer = (\<lambda>f. filter (\<lambda>g. g \<noteq> f)), kube_MarkTrue = (\<lambda>_ cs. cs), kube_MarkFalse = (\<lambda>_ _ cs. cs)\<rparr>"

definition with_instance :: "string option \<Rightarrow> tags \<Rightarrow> MachineScope \<Rightarrow> MachineScope" where
  "with_instance i tgs m = m\<lparr>MS_OCIMachine := (MS_OCIMachine m)\<lparr>OCIMachine_Finalizers := [MachineFinalizer],
     OCIMachine_Spec := (machine_spec m)\<lparr>MSpec_InstanceId := i, MSpec_FreeformTags := tgs\<rparr>\<rparr>\<rparr>"

definition old_instance :: "tags \<Rightarrow> InstanceState \<Rightarrow> Instance" where
  "old_instance tgs st = \<lparr>Res_Id = Some ''uid-FD-1'', Res_DisplayName = Some ''machine'', Res_FreeformTags = tgs,
     Instance_AvailabilityDomain = Some ''AD-1'', Instance_CompartmentId = Some ''comp'', Instance_LifecycleState = st\<rparr>"

lemmas machine_eval = go_simps instance_at_def with_instance_def old_instance_def sample_machine_def sample_machine_clients_def compute_list_def
  sample_machine_spec_def machine_kube_def GetInstanceId_def get_machine_def mod_machine_def mark_machine_def mark_not_ready_def
  mod_machine_finalizers_def upd_machine_status_def upd_machine_spec_def record_event_def machine_Name_def

abbreviation terminated_machine :: MachineScope where
  "terminated_machine \<equiv> with_instance (Some ''uid-FD-1'') Map.empty sample_machine"

lemma GetMachine_sample:
  "GetMachine sample_machine_clients (with_instance (Some ''uid-FD-1'') tgs sample_machine, [old_instance tgs' st]) =
     (Ret (Some (old_instance tgs' st)), (with_instance (Some ''uid-FD-1'') tgs sample_machine, [old_instance tgs' st]))"
  by (simp add: GetMachine_def getMachineFromOCID_def machine_eval)

lemma sample_no_volume: "\<not> BlockVolumeSpecNotEmpty (with_instance i tgs sample_machine)"
  by (simp add: BlockVolumeSpecNotEmpty_def machine_eval)

lemma overridden_sample:
  "Res_FreeformTags (old_instance tgs st) = tgs"
  "Res_Id (old_instance tgs st) = Some ''uid-FD-1''" "Instance_LifecycleState (old_instance tgs st) = st"
  "MSpec_FreeformTags (machine_spec (with_instance i tgs m)) = tgs"
  by (simp_all add: old_instance_def with_instance_def)

text \<open>A machine with a block volume, and a service that finds the volume and deletes it.\<close>

definition volume_machine :: MachineScope where
  "volume_machine = upd_machine_spec (\<lambda>sp. sp\<lparr>MSpec_BlockVolumeSpec := emptyBlockVolumeSpec\<lparr>BlockVolumeSpec_DisplayName := Some ''data''\<rparr>\<rparr>) terminated_machine"

definition data_volume :: SdkVolume where
  "data_volume = \<lparr>Res_Id = Some ''vol'', Res_DisplayName = Some ''machine-data'', Res_FreeformTags = BuildClusterTags ''uid'',
     Volume_Available = True, Volume_State = ''AVAILABLE''\<rparr>"

definition volume_clients :: "Instance list MachineClients" where
  "volume_clients = sample_machine_clients\<lparr>mc_BlockVolume := Some
     \<lparr>api_ListVolumes = (\<lambda>_ name _. go_ret (if name = ''machine-data'' then [data_volume] else [], None)),
      api_GetVolume = (\<lambda>_. go_ret data_volume), api_CreateVolume = (\<lambda>_ _. go_throw quota_err),
      api_DeleteVolume = (\<lambda>i. if i = Some ''vol'' then go_ret () else go_throw not_found_err)\<rparr>\<rparr>"

lemma volume_owned: "machine_IsResourceCreatedByClusterAPI (marked_not_ready machine_kube reason volume_machine) (BuildClusterTags ''uid'')"
  by (simp add: machine_IsResourceCreatedByClusterAPI_def marked_not_ready_def volume_machine_def machine_eval SetAvailabilityDomains_def
      accessor_defs sample_defs list_all_iff)

lemma volume_sample:
  "BlockVolumeSpecNotEmpty (marked_not_ready machine_kube reason volume_machine)"
  "blockVolumeName (marked_not_ready machine_kube reason volume_machine) = ''machine-data''"
  by (simp_all add: BlockVolumeSpecNotEmpty_def blockVolumeName_def GetBlockVolumeDesiredName_def marked_not_ready_def volume_machine_def
      machine_eval emptyBlockVolumeSpec_def ToString_def)

lemma volume_deleted:
  "DeleteBlockVolume volume_clients (marked_not_ready machine_kube reason volume_machine, w) =
     (Ret (), (marked_not_ready machine_kube reason volume_machine, w))"
  by (simp add: DeleteBlockVolume_def GetBlockVolume_def volume_clients_def go_simps search_pages_def go_loop_unfold page_step_def
      volume_sample scanOwned_def data_volume_def volume_owned)

lemma marked_sample: "marked_not_ready machine_kube reason m = m"
  by (simp add: marked_not_ready_def machine_kube_def upd_machine_status_def)

lemma GetMachine_volume_sample:
  "GetMachine volume_clients (volume_machine, [old_instance tgs st]) = (Ret (Some (old_instance tgs st)), (volume_machine, [old_instance tgs st]))"
  by (simp add: GetMachine_def getMachineFromOCID_def volume_clients_def volume_machine_def machine_eval)

lemma sample_deletion:
  "machine_reconcileDelete machine_kube volume_clients ((volume_machine, [old_instance Map.empty InstTerminated]), []) =
     (Ret 0, ((volume_machine\<lparr>MS_OCIMachine := (MS_OCIMachine volume_machine)\<lparr>OCIMachine_Finalizers := []\<rparr>\<rparr>,
        [old_instance Map.empty InstTerminated]),
      [\<lparr>Event_Type = EventTypeNormal, Event_Reason = ''InstanceTerminated'', Event_Message = ''Deleted the instance''\<rparr>]))"
  by (simp add: delete_defs releaseMachine_def go_simps GetMachine_volume_sample get_machine_def mark_not_ready_apply marked_sample
      mod_machine_def mod_machine_finalizers_def record_event_def overridden_sample
      volume_deleted [unfolded marked_sample] volume_sample [unfolded marked_sample])
    (simp add: machine_kube_def volume_machine_def machine_eval)

theorem machine_finalizer_last_witness:
  "fst (DeleteBlockVolume volume_clients (marked_not_ready machine_kube ''InstanceTerminated'' volume_machine,
     [old_instance Map.empty InstTerminated])) = Ret ()"
proof -
  have "OCIMachine_Finalizers (MS_OCIMachine volume_machine) = [MachineFinalizer]"
    by (simp add: volume_machine_def machine_eval)
  then show ?thesis
    using machine_finalizer_last [OF sample_deletion _ GetMachine_volume_sample] volume_sample(1) by (simp add: volume_released_def)
qed


section \<open>Deletion and ownership\<close>

text \<open>Tags of the user can lock a machine. If the machine's own tags give the tag \<open>CreatedBy\<close> another value, the instance that
  was launched with the tags of the machine is not recognised as the cluster's own: every deletion ends with an error
  and neither the object nor the cloud changes, so that the machine can never be deleted. (The tags of a cluster
  resource are merged in the other order, where the ownership tags win.)\<close>

theorem overridden_tags_block_deletion:
  assumes "MSpec_FreeformTags (machine_spec m) CreatedBy = Some v" and "v \<noteq> OCIClusterAPIProvider"
    and "GetMachine c (m, w) = (Ret (Some inst), (m, w))" and "Res_FreeformTags inst = getFreeFormTags m" and "Res_Id inst = Some i"
    and "Instance_LifecycleState inst = InstRunning"
  shows "machine_reconcileDelete k c ((m, w), ev) = (Err (ErrNew ''instance is not created by current cluster''), ((m, w), ev))"
proof -
  have "\<not> machine_IsResourceCreatedByClusterAPI m (getFreeFormTags m)"
    using assms(1,2) by (simp add: machine_tags_owned_iff cluster_tag_keys_def BuildClusterTags_eq tag_at_def)
  with assms(3-) show ?thesis
    by (simp add: delete_defs terminateMachine_def go_simps get_machine_def)
qed

theorem overridden_tags_block_deletion_witness:
  "let m = with_instance (Some ''uid-FD-1'') [CreatedBy \<mapsto> ''team''] sample_machine; w = [old_instance (getFreeFormTags m) InstRunning] in
   machine_reconcileDelete machine_kube sample_machine_clients ((m, w), []) =
     (Err (ErrNew ''instance is not created by current cluster''), ((m, w), []))"
proof -
  have ne: "''team'' \<noteq> OCIClusterAPIProvider" by (simp add: OCIClusterAPIProvider_def)
  show ?thesis unfolding Let_def
    by (rule overridden_tags_block_deletion [OF _ ne GetMachine_sample]) (simp_all add: overridden_sample)
qed

text \<open>The backend of an instance that somebody else terminated stays on the load balancer: when the deletion finds the
  instance terminated (and there is no block volume), it removes the finalizer without a request to any load balancer, although
  the machine belongs to the control plane. Only the other two ways of losing an instance take it off the load balancer.\<close>

theorem terminated_keeps_backend:
  assumes "GetMachine c (m, w) = (Ret (Some inst), (m, w))" and "Res_Id inst = Some i"
    and "Instance_LifecycleState inst = InstTerminated" and "\<not> BlockVolumeSpecNotEmpty m" and "IsControlPlane m"
  shows "\<exists>m' ev'. machine_reconcileDelete k c ((m, w), ev) = (Ret 0, ((m', w), ev')) \<and> IsControlPlane m' \<and>
    OCIMachine_Finalizers (MS_OCIMachine m') = kube_RemoveFinalizer k MachineFinalizer (OCIMachine_Finalizers (MS_OCIMachine m))"
  using assms
  by (auto simp: delete_defs go_simps get_machine_def mark_not_ready_def mark_machine_def mod_machine_def
      releaseMachine_def mod_machine_finalizers_def record_event_def upd_machine_status_def BlockVolumeSpecNotEmpty_def IsControlPlane_def)

definition control_plane_machine :: MachineScope where
  "control_plane_machine = (let m = with_instance (Some ''uid-FD-1'') Map.empty sample_machine in
     m\<lparr>MS_Machine := (MS_Machine m)\<lparr>Machine_Labels := [MachineControlPlaneLabel \<mapsto> '''']\<rparr>\<rparr>)"

theorem terminated_keeps_backend_witness:
  "\<exists>m' ev'. machine_reconcileDelete machine_kube sample_machine_clients
      ((control_plane_machine, [old_instance Map.empty InstTerminated]), []) =
    (Ret 0, ((m', [old_instance Map.empty InstTerminated]), ev')) \<and> OCIMachine_Finalizers (MS_OCIMachine m') = []"
proof -
  have "GetMachine sample_machine_clients (control_plane_machine, [old_instance Map.empty InstTerminated]) =
      (Ret (Some (old_instance Map.empty InstTerminated)), (control_plane_machine, [old_instance Map.empty InstTerminated]))"
    by (simp add: GetMachine_def getMachineFromOCID_def control_plane_machine_def Let_def machine_eval)
  moreover have "\<not> BlockVolumeSpecNotEmpty control_plane_machine" "IsControlPlane control_plane_machine"
    "OCIMachine_Finalizers (MS_OCIMachine control_plane_machine) = [MachineFinalizer]"
    by (simp_all add: control_plane_machine_def BlockVolumeSpecNotEmpty_def IsControlPlane_def machine_eval Let_def)
  ultimately show ?thesis
    using terminated_keeps_backend [of sample_machine_clients control_plane_machine "[old_instance Map.empty InstTerminated]"
        "old_instance Map.empty InstTerminated" "''uid-FD-1''" machine_kube "[]"]
    by (auto simp: overridden_sample machine_kube_def)
qed

text \<open>The instances of the tenancy by their id. Termination touches the given instance only, lookups report what is in the
  table, and no other request changes it.\<close>

definition lawful_compute :: "('w \<Rightarrow> string \<Rightarrow> Instance option) \<Rightarrow> 'w MachineClients \<Rightarrow> bool" where
  "lawful_compute tbl c \<longleftrightarrow> keyed_by_id tbl \<and> quiet_requests c (\<lambda>w w'. tbl w' = tbl w) \<and>
     lawful_get tbl (api_GetInstance (mc_Compute c)) \<and> (\<forall>n cid. lawful_pages tbl (api_ListInstances (mc_Compute c) n cid)) \<and>
     (\<forall>i p q w k. i \<noteq> Some k \<longrightarrow> tbl (snd (api_TerminateInstance (mc_Compute c) i p q w)) k = tbl w k)"

lemma lawful_computeD:
  assumes "lawful_compute tbl c"
  shows "keyed_by_id tbl" "quiet_requests c (\<lambda>w w'. tbl w' = tbl w)" "lawful_get tbl (api_GetInstance (mc_Compute c))"
    "\<And>n cid. lawful_pages tbl (api_ListInstances (mc_Compute c) n cid)"
    "\<And>i p q w k. i \<noteq> Some k \<Longrightarrow> tbl (snd (api_TerminateInstance (mc_Compute c) i p q w)) k = tbl w k"
  using assms by (simp_all add: lawful_compute_def)

lemma lawful_pages_instancePage:
  assumes "lawful_pages tbl (api_ListInstances (mc_Compute c) n (getCompartmentId m))"
  shows "lawful_pages tbl (instancePage c m n)"
  unfolding lawful_pages_def
proof (intro allI conjI impI)
  fix p
  have ro: "read_only (api_ListInstances (mc_Compute c) n (getCompartmentId m) p)" using assms by (simp add: lawful_pages_def)
  have run: "\<exists>x. api_ListInstances (mc_Compute c) n (getCompartmentId m) p w = (x, w) \<and> ((\<exists>y. x = Ret y) \<or> (\<exists>e. x = Err e))" for w
    using ro unfolding read_only_def answers_def by (metis prod.collapse)
  show "read_only (instancePage c m n p)"
    unfolding read_only_def answers_def instancePage_def
  proof (intro conjI allI)
    fix w
    from run [of w] show "(\<exists>x. fst (go_bind (api_ListInstances (mc_Compute c) n (getCompartmentId m) p)
          (\<lambda>(items, np). go_ret (items, if length items = 0 then None else np)) w) = Ret x) \<or>
        (\<exists>e. fst (go_bind (api_ListInstances (mc_Compute c) n (getCompartmentId m) p)
          (\<lambda>(items, np). go_ret (items, if length items = 0 then None else np)) w) = Err e)"
      by (auto simp: go_simps split: prod.splits)
    from run [of w] show "snd (go_bind (api_ListInstances (mc_Compute c) n (getCompartmentId m) p)
          (\<lambda>(items, np). go_ret (items, if length items = 0 then None else np)) w) = w"
      by (auto simp: go_simps split: prod.splits)
  qed
  fix w rs np assume "fst (instancePage c m n p w) = Ret (rs, np)"
  with run [of w] obtain np' where "fst (api_ListInstances (mc_Compute c) n (getCompartmentId m) p w) = Ret (rs, np')"
    by (auto simp: instancePage_def go_simps split: prod.splits)
  then show "\<forall>r\<in>set rs. \<exists>k. tbl w k = Some r" using assms unfolding lawful_pages_def by blast
qed

lemma GetMachine_lawful:
  assumes law: "lawful_compute tbl c" and run: "GetMachine c (m, w) = (Ret (Some inst), (m', w'))"
  shows "\<exists>k. tbl w k = Some inst \<and> Res_Id inst = Some k"
proof (cases "GetInstanceId m")
  case None
  with run have "search_pages (instancePage c m (machine_Name m)) (scanOwned m) (m, w) = (Ret (Some inst), (m', w'))"
    by (simp add: GetMachine_def GetMachineByDisplayName_def go_simps)
  from lawful_search_pages [OF lawful_pages_instancePage [OF lawful_computeD(4) [OF law]] lawful_computeD(1) [OF law] _ _ this]
  show ?thesis
    by (auto simp: scanOwned_def go_simps keeps_def dest: find_Some_mem)
next
  case (Some i)
  with run obtain w1 where "api_GetInstance (mc_Compute c) (Some i) w = (Ret inst, w1)"
    by (auto simp: GetMachine_def getMachineFromOCID_def go_simps split: res.splits prod.splits)
      (metis prod.collapse)
  from lawful_getD [OF lawful_computeD(3) [OF law] this] show ?thesis
    using keyed_by_idD(1) [OF lawful_computeD(1) [OF law]] by blast
qed


text \<open>What is left of the deletion when an entry of the table is watched: only the termination of that very instance can
  change it.\<close>

lemma deleteFound_keeps:
  assumes law: "lawful_compute tbl c" and other: "\<And>inst. x = Inr (Some inst) \<Longrightarrow> Res_Id inst \<noteq> Some i"
  shows "keeps (ctrl_rel (\<lambda>_ _. True) (\<lambda>w w'. tbl w' i = tbl w i)) (deleteFound k c x)" (is "keeps ?C _")
proof -
  let ?T = "\<lambda>w w'. tbl w' i = tbl w i"
  note q = lawful_computeD(2) [OF law]
  have T: "reflp ?T" "transp ?T" and top: "reflp (\<lambda>_ _ :: MachineScope. True)" "transp (\<lambda>_ _ :: MachineScope. True)"
    by (simp_all add: reflp_def transp_def)
  note intros = ctrl_intros T top TrueI
  have weak: "keeps (both (\<lambda>_ _. True) ?T) op" if "keeps (both (\<lambda>_ _. True) (\<lambda>w w'. tbl w' = tbl w)) op"
    for op :: "(MachineScope \<times> 'a, 'z) go"
    using that by (auto simp: keeps_def both_def)
  have mark: "keeps ?C (mark_not_ready k reason)" for reason
    unfolding mark_not_ready_def mark_machine_def by (intro intros)
  have lb: "keeps ?C (deleteInstanceFromControlPlaneLB c)"
    using quiet_requests.deleteInstanceFromControlPlaneLB_quiet [OF q, of "\<lambda>_ _. True"] top
    by (auto simp: keeps_def ctrl_rel_def both_def)
  have rel: "keeps ?C (releaseMachine k c rest)" if "keeps ?C rest" for rest
    unfolding releaseMachine_def mod_machine_finalizers_def
    by (intro intros that weak [OF quiet_requests.DeleteBlockVolume_quiet [OF q top]])
  have del: "keeps ?C (on_fst (DeleteMachine c inst))" if "x = Inr (Some inst)" for inst
  proof -
    have "keeps ?T (api_TerminateInstance (mc_Compute c) (Res_Id inst) y z)" for y z
      using lawful_computeD(5) [OF law, of "Res_Id inst" i] other [OF that] by (simp add: keeps_def)
    then show ?thesis
      unfolding DeleteMachine_def
      by (intro intros keeps_both_api keeps_both_get both_order weak [OF quiet_requests.detachBlockVolumes_quiet [OF q top]])
  qed
  show ?thesis
    unfolding deleteFound_def terminateMachine_def mod_machine_finalizers_def
    by (auto intro!: intros mark lb rel del split: InstanceState.split)
qed

text \<open>C11. The deletion of a machine changes no instance but one with the tags of this cluster: whatever the deletion
  returns, an instance of the tenancy that is not as before carried the tags of the cluster.\<close>

theorem machine_deletion_only_owned:
  assumes law: "lawful_compute tbl c" and run: "machine_reconcileDelete k c ((m, w), ev) = (r, ((m', w'), ev'))"
    and changed: "tbl w' i \<noteq> tbl w i"
  shows "\<exists>inst. tbl w i = Some inst \<and> machine_IsResourceCreatedByClusterAPI m (Res_FreeformTags inst)"
proof -
  note q = lawful_computeD(2) [OF law]
  obtain a m1 w1 where get: "GetMachine c (m, w) = (a, (m1, w1))" by (metis surj_pair)
  from keepsD [OF quiet_requests.GetMachine_quiet [OF q eq_order] get] have m1: "m1 = m" and w1: "tbl w1 = tbl w"
    by (simp_all add: both_def)
  have start: "on_fst (GetMachine c) ((m, w), ev) = (a, ((m, w1), ev))" using get m1 by (simp add: go_simps)
  with run changed w1 obtain x where x: "deleteFound k c x ((m, w1), ev) = (r, ((m', w'), ev'))"
    and a: "(\<exists>e. x = Inl e) \<or> (\<exists>p. x = Inr p \<and> a = Ret p)"
    by (cases a) (auto simp: machine_reconcileDelete_def go_bind_apply go_try_apply)
  from keepsD [OF deleteFound_keeps [OF law] x] changed w1 obtain inst where
    inst: "x = Inr (Some inst)" "Res_Id inst = Some i" by (auto simp: ctrl_rel_def both_def)
  with a get m1 have "GetMachine c (m, w) = (Ret (Some inst), (m, w1))" by auto
  from GetMachine_lawful [OF law this] inst(2) have "tbl w i = Some inst" by auto
  moreover have "machine_IsResourceCreatedByClusterAPI m (Res_FreeformTags inst)"
  proof (rule ccontr)
    assume "\<not> machine_IsResourceCreatedByClusterAPI m (Res_FreeformTags inst)"
    then have ret: "terminateMachine k c inst ((m, w1), ev) = (Err (ErrNew ''instance is not created by current cluster''), ((m, w1), ev))"
      by (simp add: terminateMachine_def get_machine_def go_simps)
    let ?R = "\<lambda>w w'. tbl w' = tbl w"
    have R: "reflp ?R" "transp ?R" and top: "reflp (\<lambda>_ _ :: MachineScope. True)" "transp (\<lambda>_ _ :: MachineScope. True)"
      by (simp_all add: reflp_def transp_def)
    have "keeps (ctrl_rel (\<lambda>_ _. True) ?R) (go_seq (mark_not_ready k ''InstanceTerminated'')
        (releaseMachine k c (go_seq (record_event EventTypeNormal ''InstanceTerminated'' ''Deleted the instance'') (go_ret 0))))"
      unfolding releaseMachine_def mod_machine_finalizers_def mark_not_ready_def mark_machine_def
      by (intro ctrl_intros R top TrueI quiet_requests.DeleteBlockVolume_quiet [OF q])
    from keepsD [OF this, of "((m, w1), ev)" r "((m', w'), ev')"] x inst ret changed w1 show False
      by (auto simp: deleteFound_def go_bind_apply go_deref_apply go_ret_apply ctrl_rel_def both_def split: InstanceState.splits)
  qed
  ultimately show ?thesis by blast
qed


text \<open>The service of the witnesses satisfies the laws.\<close>

lemma instance_at_terminate:
  "i \<noteq> Some k \<Longrightarrow> instance_at (map (\<lambda>x. if Res_Id x = i then x\<lparr>Instance_LifecycleState := st\<rparr> else x) w) k = instance_at w k"
  by (induction w) (auto simp: instance_at_def)

lemma sample_awaits:
  "keeps R (AwaitLBWorkRequest (poll_n 3) (mc_Lb sample_machine_clients) i)"
  "keeps R (AwaitNLBWorkRequest (poll_n 3) (mc_Nlb sample_machine_clients) i)" if "reflp R"
  using that by (simp_all add: keeps_def AwaitLBWorkRequest_def AwaitNLBWorkRequest_def with_wr_def lbWorkRequestCond_def
      nlbWorkRequestCond_def sample_machine_clients_def go_simps eval_nat_numeral reflp_def)

lemma sample_quiet: "quiet_requests sample_machine_clients (\<lambda>w w'. instance_at w' = instance_at w)"
  by unfold_locales
    (simp_all add: reflp_def transp_def keeps_def sample_awaits [unfolded keeps_def] sample_machine_clients_def compute_list_def go_simps
      AwaitLBWorkRequest_def AwaitNLBWorkRequest_def with_wr_def lbWorkRequestCond_def nlbWorkRequestCond_def eval_nat_numeral)

lemma instance_at_SomeD: "instance_at w k = Some x \<Longrightarrow> Res_Id x = Some k \<and> Res_DisplayName x \<noteq> None"
  unfolding instance_at_def by (drule find_Some_mem) simp

lemma sample_compute_lawful: "lawful_compute instance_at sample_machine_clients"
  unfolding lawful_compute_def
proof (intro conjI allI impI)
  show "keyed_by_id instance_at" by (auto simp: keyed_by_id_def dest: instance_at_SomeD)
  show "quiet_requests sample_machine_clients (\<lambda>w w'. instance_at w' = instance_at w)" by (rule sample_quiet)
  show "lawful_get instance_at (api_GetInstance (mc_Compute sample_machine_clients))"
    by (auto simp: lawful_get_def read_only_def answers_def sample_machine_clients_def compute_list_def bind_eq_Some_conv split: option.splits)
  show "lawful_pages instance_at (api_ListInstances (mc_Compute sample_machine_clients) n cid)" for n cid
    by (auto simp: lawful_pages_def read_only_def answers_def sample_machine_clients_def compute_list_def bind_eq_Some_conv)
  show "instance_at (snd (api_TerminateInstance (mc_Compute sample_machine_clients) i p q w)) k = instance_at w k" if "i \<noteq> Some k" for i p q w k
    using instance_at_terminate [OF that] by (simp add: sample_machine_clients_def compute_list_def)
qed

definition owned_instance :: "InstanceState \<Rightarrow> Instance" where
  "owned_instance = old_instance (BuildClusterTags ''uid'')"

lemma sample_termination:
  "machine_reconcileDelete machine_kube sample_machine_clients ((terminated_machine, [owned_instance InstRunning]), []) =
     (Ret 30, ((terminated_machine, [owned_instance InstTerminated]),
      [\<lparr>Event_Type = EventTypeNormal, Event_Reason = ''InstanceTerminating'', Event_Message = ''Terminating the instance''\<rparr>]))"
proof -
  have own: "machine_IsResourceCreatedByClusterAPI terminated_machine (BuildClusterTags ''uid'')"
    by (simp add: machine_IsResourceCreatedByClusterAPI_def machine_eval SetAvailabilityDomains_def accessor_defs sample_defs list_all_iff)
  show ?thesis
    by (simp add: delete_defs go_simps owned_instance_def GetMachine_sample overridden_sample terminateMachine_def get_machine_def own
        deleteInstanceFromControlPlaneLB_def DeleteMachine_def sample_no_volume)
      (simp add: machine_eval IsControlPlane_def)
qed

theorem machine_deletion_only_owned_witness:
  "\<exists>inst. instance_at [owned_instance InstRunning] ''uid-FD-1'' = Some inst \<and>
     machine_IsResourceCreatedByClusterAPI terminated_machine (Res_FreeformTags inst)"
  by (rule machine_deletion_only_owned [OF sample_compute_lawful sample_termination])
    (simp add: instance_at_def owned_instance_def old_instance_def)


end
