(* ===== verification/Machine_Readiness.thy ===== *)
theory Machine_Readiness
  imports Machine_Deletion
begin

text \<open>
  The reconciliation of a machine (\<open>reconcileNormal\<close> of src/controllers/ocimachine_controller.go): when a machine becomes
  ready, and that a machine has at most one instance launched for it.
\<close>

section \<open>Readiness\<close>

abbreviation ready_rel :: "'w mctrl \<Rightarrow> 'w mctrl \<Rightarrow> bool" where
  "ready_rel \<equiv> ctrl_rel same_ready (\<lambda>_ _. True)"

abbreviation machine_ready_of :: "'w mctrl \<Rightarrow> bool" where
  "machine_ready_of x \<equiv> MStatus_Ready (machine_status (fst (fst x)))"

lemma seq_ready:
  assumes "go_seq p q x = (r, y)" and "keeps ready_rel p" and "machine_ready_of y" and "\<not> machine_ready_of x"
  shows "\<exists>a z. p x = (Ret a, z) \<and> q z = (r, y) \<and> same_ready (fst (fst x)) (fst (fst z))"
proof -
  obtain a z where p: "p x = (a, z)" by (cases "p x")
  with assms(2) have xz: "same_ready (fst (fst x)) (fst (fst z))" by (auto dest: keepsD simp: ctrl_rel_def both_def)
  with assms p show ?thesis by (cases a) (auto simp: go_simps same_ready_def)
qed

lemma orFail_Ret: "orFail k ev reason handle op x = (Ret a, z) \<Longrightarrow> op (fst x) = (Ret a, fst z)"
  by (cases x; cases "op (fst x)"; cases "fst (op (fst x))")
    (auto simp: orFail_def go_simps mark_not_ready_def mark_machine_def mod_machine_def get_machine_def record_event_def
      split: prod.splits)

lemma ensureAddress_Ret: "ensureAddress k c x = (Ret a, z) \<Longrightarrow> MStatus_Addresses (machine_status (fst (fst z))) \<noteq> []"
  by (cases x) (auto simp: ensureAddress_def get_machine_def go_simps mod_machine_def upd_machine_status_def
      split: if_splits res.splits prod.splits option.splits)

lemma ensureOnLB_Ret:
  "ensureOnLB k c x = (Ret a, z) \<Longrightarrow> IsControlPlane (fst (fst x)) \<Longrightarrow> \<exists>s t. ReconcileCreateInstanceOnLB c s = (Ret (), t)"
  by (cases x) (auto simp: ensureOnLB_def get_machine_def go_simps dest!: orFail_Ret, metis prod.collapse)

lemma running_ready:
  assumes run: "reconcileRunning k c x = (r, y)" and "machine_ready_of y" and "\<not> machine_ready_of x"
  shows "(\<exists>n. r = Ret n) \<and> MStatus_Addresses (machine_status (fst (fst y))) \<noteq> [] \<and>
    GetInstanceId (fst (fst y)) = GetInstanceId (fst (fst x)) \<and>
    (IsControlPlane (fst (fst x)) \<longrightarrow> (\<exists>s t. ReconcileCreateInstanceOnLB c s = (Ret (), t)))"
proof -
  let ?finish = "go_seq (record_event EventTypeNormal ''InstanceReady'' ''Instance is in ready state'')
     (go_seq (mark_machine (kube_MarkTrue k InstanceReadyCondition))
     (go_seq (mod_machine SetReady)
     (go_bind get_machine (\<lambda>m. go_ret (if deleteMachineOnTermination m then 300 else 0)))))"
  from seq_ready [OF run [unfolded reconcileRunning_def] any_cloud.running_steps_quiet(1) assms(2,3)] obtain a1 z1 where
    1: "ensureAddress k c x = (Ret a1, z1)" "go_seq (ensureOnLB k c) (go_seq (ensureVnics k c) ?finish) z1 = (r, y)"
      "same_ready (fst (fst x)) (fst (fst z1))" by blast
  with assms(3) have nr: "\<not> machine_ready_of z1" by (simp add: same_ready_def)
  from seq_ready [OF 1(2) any_cloud.running_steps_quiet(2) assms(2) nr] obtain a2 z2 where
    2: "ensureOnLB k c z1 = (Ret a2, z2)" "go_seq (ensureVnics k c) ?finish z2 = (r, y)" "same_ready (fst (fst z1)) (fst (fst z2))" by blast
  with nr have nr2: "\<not> machine_ready_of z2" by (simp add: same_ready_def)
  from seq_ready [OF 2(2) any_cloud.running_steps_quiet(3) assms(2) nr2] obtain a3 z3 where
    3: "?finish z3 = (r, y)" "same_ready (fst (fst z2)) (fst (fst z3))" by blast
  obtain m3 w3 ev3 where z3: "z3 = ((m3, w3), ev3)" by (metis surj_pair)
  have fin: "(\<exists>n. r = Ret n) \<and> machine_spec (fst (fst y)) = machine_spec m3 \<and>
      MStatus_Addresses (machine_status (fst (fst y))) = MStatus_Addresses (machine_status m3)"
    using 3(1) by (auto simp: z3 go_simps record_event_def mark_machine_def mod_machine_def get_machine_def SetReady_def
        upd_machine_status_def)
  have "MStatus_Addresses (machine_status m3) \<noteq> []"
    using ensureAddress_Ret [OF 1(1)] 2(3) 3(2) by (simp add: same_ready_def z3)
  moreover have "GetInstanceId m3 = GetInstanceId (fst (fst x))"
    using 1(3) 2(3) 3(2) by (simp add: same_ready_def z3 GetInstanceId_def)
  moreover have "IsControlPlane (fst (fst z1)) = IsControlPlane (fst (fst x))"
    using 1(3) by (simp add: same_ready_def IsControlPlane_def)
  ultimately show ?thesis using fin ensureOnLB_Ret [OF 2(1)] by (simp add: GetInstanceId_def)
qed

text \<open>An instance that is not running never makes a machine ready.\<close>

definition not_readier :: "MachineScope \<Rightarrow> MachineScope \<Rightarrow> bool" where
  "not_readier m m' \<longleftrightarrow> (MStatus_Ready (machine_status m') \<longrightarrow> MStatus_Ready (machine_status m))"

lemma not_readier_order [simp]: "reflp not_readier" "transp not_readier"
  by (auto simp: not_readier_def reflp_def transp_def)

lemma not_readier_writes [simp]:
  "not_readier m (SetNotReady m)" "not_readier m (SetFailureReason t m)" "not_readier m (SetFailureMessage e m)"
  "not_readier m (upd_machine_status (\<lambda>st. st\<lparr>MStatus_Conditions := g (MStatus_Conditions st)\<rparr>) m)"
  by (simp_all add: not_readier_def SetNotReady_def SetFailureReason_def SetFailureMessage_def upd_machine_status_def)

lemma not_running_not_ready:
  assumes "Instance_LifecycleState inst \<noteq> InstRunning"
  shows "keeps (ctrl_rel not_readier (\<lambda>_ _. True)) (reconcileInstance k c inst)"
proof -
  have top: "reflp (\<lambda>_ _ :: 'w. True)" "transp (\<lambda>_ _ :: 'w. True)" by (simp_all add: reflp_def transp_def)
  note intros = ctrl_intros top not_readier_order not_readier_writes
  have mark: "keeps (ctrl_rel not_readier (\<lambda>_ _. True)) (mark_not_ready k reason)" for reason
    unfolding mark_not_ready_def by (rule any_cloud.mark_quiet) simp
  have "keeps (ctrl_rel not_readier (\<lambda>_ _. True)) (reconcileUnexpected k c inst)"
    unfolding reconcileUnexpected_def by (intro intros mark any_cloud.recordErrors_quiet)
  then show ?thesis
    using assms unfolding reconcileInstance_def
    by (auto intro!: intros mark keeps_both_api split: InstanceState.split)
qed

lemma GetOrCreateMachine_scope: "GetOrCreateMachine c (m, w) = (x, y) \<Longrightarrow> fst y = m"
proof -
  assume run: "GetOrCreateMachine c (m, w) = (x, y)"
  have top: "reflp (\<lambda>_ _ :: 'w. True)" "transp (\<lambda>_ _ :: 'w. True)" by (simp_all add: reflp_def transp_def)
  note intros = any_cloud.op_intros eq_order top keeps_True any_cloud.ReconcileBlockVolume_quiet
    any_cloud.ensureBlockVolumeAttached_quiet any_cloud.ensureBlockVolume_quiet any_cloud.GetMachine_quiet
  have "keeps (both (=) (\<lambda>_ _. True)) (launchMachine c)"
    unfolding launchMachine_def GetBootstrapData_def resolveAvailabilityAndFaultDomain_def launchInstanceWithFaultDomainRetry_def Let_def
    by (intro intros)
  then have "keeps (both (=) (\<lambda>_ _. True)) (GetOrCreateMachine c)"
    unfolding GetOrCreateMachine_def by (intro intros)
  from keepsD [OF this run] show "fst y = m" by (simp add: both_def)
qed

text \<open>The steps before the state of the instance is looked at.\<close>

lemma reconcileNormal_start:
  fixes m :: MachineScope
  assumes run: "machine_reconcileNormal k c ((m, w), ev) = (r, y)" and sec: "Machine_DataSecretName (MS_Machine m) \<noteq> None"
  defines "m0 \<equiv> m\<lparr>MS_OCIMachine := (MS_OCIMachine m)\<lparr>OCIMachine_Finalizers := kube_AddFinalizer k MachineFinalizer (OCIMachine_Finalizers (MS_OCIMachine m))\<rparr>\<rparr>"
  obtains (launched) inst i w1 where "GetOrCreateMachine c (m0, w) = (Ret (Some inst), (m0, w1))" "Res_Id inst = Some i"
      "reconcileInstance k c inst ((upd_machine_spec (\<lambda>sp. sp\<lparr>MSpec_InstanceId := Some i, MSpec_ProviderID := Some (GetProviderID i)\<rparr>) m0, w1), ev) = (r, y)"
    | (failed) "\<nexists>n. r = Ret n" "same_ready m (fst (fst y))" "snd (fst y) = snd (snd (GetOrCreateMachine c (m0, w)))"
proof -
  from sec obtain sn where sn: "Machine_DataSecretName (MS_Machine m) = Some sn" by blast
  obtain a t where g: "GetOrCreateMachine c (m0, w) = (a, t)" by (cases "GetOrCreateMachine c (m0, w)")
  from GetOrCreateMachine_scope [OF g] obtain w1 where t: "t = (m0, w1)" by (cases t) auto
  have start: "machine_reconcileNormal k c ((m, w), ev) =
      go_bind (orFail k ''Failed to reconcile OCIMachine'' ''InstanceProvisionFailed''
         (\<lambda>m err. ErrWrap (''failed to reconcile OCI Machine '' @ machine_id m) err) (GetOrCreateMachine c)) (\<lambda>launched.
       go_bind (go_deref launched) (\<lambda>inst.
       go_bind (go_deref (Res_Id inst)) (\<lambda>i.
       go_seq (mod_machine (upd_machine_spec (\<lambda>sp. sp\<lparr>MSpec_InstanceId := Some i, MSpec_ProviderID := Some (GetProviderID i)\<rparr>)))
       (reconcileInstance k c inst)))) ((m0, w), ev)"
    by (simp add: sn machine_reconcileNormal_def go_seq_apply go_bind_apply [of get_machine] get_machine_def mod_machine_finalizers_def
        mod_machine_def go_simps(1-6) on_fst_apply mod_scope_apply get_scope_apply m0_def)
  have same: "same_ready m m0" by (simp add: m0_def same_ready_def)
  show ?thesis
  proof (cases a)
    case (Ret p)
    show ?thesis
    proof (cases "\<exists>inst i. p = Some inst \<and> Res_Id inst = Some i")
      case True
      then obtain inst i where "p = Some inst" "Res_Id inst = Some i" by blast
      moreover from this run start g t Ret have
        "reconcileInstance k c inst ((upd_machine_spec (\<lambda>sp. sp\<lparr>MSpec_InstanceId := Some i, MSpec_ProviderID := Some (GetProviderID i)\<rparr>) m0, w1), ev) = (r, y)"
        by (simp add: orFail_def go_simps mod_machine_def)
      ultimately show ?thesis using launched g t Ret by blast
    next
      case False
      with run start g t Ret have "r = Panic" "y = ((m0, w1), ev)"
        by (cases p; auto simp: orFail_def go_simps split: option.splits)+
      with failed same g t show ?thesis by simp
    qed
  next
    case (Err e)
    with run start g t have "\<nexists>n. r = Ret n" "snd (fst y) = w1" "same_ready m0 (fst (fst y))"
      by (auto simp: orFail_def go_simps mark_not_ready_def mark_machine_def mod_machine_def get_machine_def record_event_def)
    with failed same g t transpD [OF scope_orders(4) same] show ?thesis by auto
  next
    case Panic
    with run start g t have "r = Panic" "y = ((m0, w1), ev)" by (auto simp: orFail_def go_simps)
    with failed same g t show ?thesis by simp
  next
    case Diverge
    with run start g t have "r = Diverge" "y = ((m0, w1), ev)" by (auto simp: orFail_def go_simps)
    with failed same g t show ?thesis by simp
  qed
qed


lemma no_secret_not_ready:
  assumes "Machine_DataSecretName (MS_Machine m) = None" and "machine_reconcileNormal k c ((m, w), ev) = (r, y)"
  shows "r = Ret 0 \<and> same_ready m (fst (fst y)) \<and> snd (fst y) = w"
  using assms by (auto simp: machine_reconcileNormal_def go_simps mod_machine_finalizers_def mod_machine_def get_machine_def
      record_event_def mark_not_ready_def mark_machine_def upd_machine_status_def same_ready_def)

text \<open>C10. A machine becomes ready only with a running instance: when a reconciliation turns a machine ready, it returns nil, the
  instance that was found or launched is running, its id is the one that is recorded, the machine has an address, and if it
  belongs to the control plane the step that puts it on the load balancer has succeeded.\<close>

theorem machine_ready_when_running:
  assumes run: "machine_reconcileNormal k c ((m, w), ev) = (r, ((m', w'), ev'))"
    and "\<not> IsReady m" and "IsReady m'"
  shows "\<exists>inst n s t. r = Ret n \<and> GetOrCreateMachine c s = (Ret (Some inst), t) \<and> Instance_LifecycleState inst = InstRunning \<and>
    GetInstanceId m' = Res_Id inst \<and> GetInstanceId m' \<noteq> None \<and> MStatus_Addresses (machine_status m') \<noteq> [] \<and>
    (IsControlPlane m \<longrightarrow> (\<exists>s t. ReconcileCreateInstanceOnLB c s = (Ret (), t)))"
proof -
  have sec: "Machine_DataSecretName (MS_Machine m) \<noteq> None"
    using no_secret_not_ready [OF _ run] assms(2,3) by (auto simp: IsReady_def same_ready_def)
  show ?thesis
  proof (rule reconcileNormal_start [OF run sec])
    fix inst i w1
    let ?m0 = "m\<lparr>MS_OCIMachine := (MS_OCIMachine m)\<lparr>OCIMachine_Finalizers := kube_AddFinalizer k MachineFinalizer (OCIMachine_Finalizers (MS_OCIMachine m))\<rparr>\<rparr>"
    let ?m1 = "upd_machine_spec (\<lambda>sp. sp\<lparr>MSpec_InstanceId := Some i, MSpec_ProviderID := Some (GetProviderID i)\<rparr>) ?m0"
    assume g: "GetOrCreateMachine c (?m0, w) = (Ret (Some inst), (?m0, w1))" "Res_Id inst = Some i"
      and rec: "reconcileInstance k c inst ((?m1, w1), ev) = (r, ((m', w'), ev'))"
    have m1: "\<not> MStatus_Ready (machine_status ?m1)" "GetInstanceId ?m1 = Some i" "IsControlPlane ?m1 = IsControlPlane m"
      using assms(2) by (simp_all add: IsReady_def upd_machine_spec_def GetInstanceId_def IsControlPlane_def)
    have st: "Instance_LifecycleState inst = InstRunning"
      using keepsD [OF not_running_not_ready rec] assms(3) m1(1)
      by (cases "Instance_LifecycleState inst = InstRunning") (auto simp: ctrl_rel_def both_def not_readier_def IsReady_def)
    with rec have "reconcileRunning k c ((?m1, w1), ev) = (r, ((m', w'), ev'))"
      by (simp add: reconcileInstance_def go_bind_apply get_machine_def on_fst_apply get_scope_apply)
    from running_ready [OF this] assms(3) m1 obtain n where
      "r = Ret n" "MStatus_Addresses (machine_status m') \<noteq> []" "GetInstanceId m' = Some i"
      "IsControlPlane m \<longrightarrow> (\<exists>s t. ReconcileCreateInstanceOnLB c s = (Ret (), t))" by (auto simp: IsReady_def)
    with g st show ?thesis
      by (intro exI [of _ inst] exI [of _ n] exI [of _ "(?m0, w)"] exI [of _ "(?m0, w1)"]) simp
  qed (use assms(2,3) in \<open>auto simp: IsReady_def same_ready_def\<close>)
qed

section \<open>One instance for a machine\<close>

lemma recorded_no_launch:
  assumes "quiet_requests c Rw" and "GetInstanceId m \<noteq> None" and "GetOrCreateMachine c (m, w) = (x, (m', w'))"
  shows "Rw w w'"
proof -
  obtain a t where g: "GetMachine c (m, w) = (a, t)" by (cases "GetMachine c (m, w)")
  from keepsD [OF quiet_requests.GetMachine_quiet [OF assms(1) eq_order] g] have t: "fst t = m" "Rw w (snd t)" by (auto simp: both_def)
  have "a \<noteq> Ret None"
    using g assms(2) by (auto simp: GetMachine_def getMachineFromOCID_def go_simps split: res.splits prod.splits)
  then consider (found) inst where "a = Ret (Some inst)" | (other) "\<nexists>p. a = Ret p" by (cases a) auto
  then show ?thesis
  proof cases
    case found
    obtain b u where e: "ensureBlockVolume c (Instance_AvailabilityDomain inst) inst t = (b, u)"
      by (cases "ensureBlockVolume c (Instance_AvailabilityDomain inst) inst t")
    from keepsD [OF quiet_requests.ensureBlockVolume_quiet [OF assms(1) eq_order] e] have "Rw (snd t) (snd u)" by (simp add: both_def)
    moreover have "u = (m', w')"
      using assms(3) g found e by (cases b) (auto simp: GetOrCreateMachine_def go_simps)
    ultimately show ?thesis
      using t transpD [OF quiet_requests.order(2) [OF assms(1)]] by auto
  next
    case other
    then have "t = (m', w')" using assms(3) g by (cases a) (auto simp: GetOrCreateMachine_def go_simps)
    with t show ?thesis by simp
  qed
qed

definition id_kept :: "MachineScope \<Rightarrow> MachineScope \<Rightarrow> bool" where
  "id_kept m m' \<longleftrightarrow> (MSpec_InstanceId (machine_spec m) \<noteq> None \<longrightarrow> MSpec_InstanceId (machine_spec m') \<noteq> None)"

lemma reconcileInstance_id:
  "reconcileInstance k c inst ((m, w), ev) = (r, y) \<Longrightarrow> GetInstanceId m \<noteq> None \<Longrightarrow> GetInstanceId (fst (fst y)) \<noteq> None"
proof -
  let ?I = id_kept
  have I: "reflp ?I" "transp ?I" and top: "reflp (\<lambda>_ _ :: 'b. True)" "transp (\<lambda>_ _ :: 'b. True)"
    by (simp_all add: reflp_def transp_def id_kept_def)
  have st: "?I m (upd_machine_status f m)" "?I m (SetReady m)" "?I m (SetNotReady m)" "?I m (SetFailureReason t m)"
    "?I m (SetFailureMessage e m)" for m f t e
    by (simp_all add: id_kept_def upd_machine_status_def SetReady_def SetNotReady_def SetFailureReason_def SetFailureMessage_def)
  note intros = ctrl_intros I top st
  have mark: "keeps (ctrl_rel ?I (\<lambda>_ _. True)) (mark_machine f)" for f
    by (rule any_cloud.mark_quiet) (rule st)
  have steps: "keeps (ctrl_rel ?I (\<lambda>_ _. True)) op" if "keeps ready_rel op" for op :: "('b mctrl, unit) go"
    using that by (auto simp: keeps_def ctrl_rel_def both_def same_ready_def id_kept_def)
  have "keeps (ctrl_rel ?I (\<lambda>_ _. True)) (reconcileRunning k c)"
    unfolding reconcileRunning_def
    by (intro intros mark steps [OF any_cloud.running_steps_quiet(1)] steps [OF any_cloud.running_steps_quiet(2)]
        steps [OF any_cloud.running_steps_quiet(3)])
  moreover have "keeps (ctrl_rel ?I (\<lambda>_ _. True)) (reconcileUnexpected k c inst)"
    unfolding reconcileUnexpected_def mark_not_ready_def by (intro intros mark any_cloud.recordErrors_quiet)
  ultimately have "keeps (ctrl_rel ?I (\<lambda>_ _. True)) (reconcileInstance k c inst)"
    unfolding reconcileInstance_def mark_not_ready_def
    by (auto intro!: intros mark keeps_both_api split: InstanceState.split)
  then show "reconcileInstance k c inst ((m, w), ev) = (r, y) \<Longrightarrow> GetInstanceId m \<noteq> None \<Longrightarrow> GetInstanceId (fst (fst y)) \<noteq> None"
    by (drule keepsD) (auto simp: ctrl_rel_def both_def GetInstanceId_def id_kept_def)
qed

lemma reconcileNormal_records:
  assumes run: "machine_reconcileNormal k c ((m, w), ev) = (r, y)"
    and ok: "GetInstanceId m \<noteq> None \<or> (Machine_DataSecretName (MS_Machine m) \<noteq> None \<and> (\<exists>n. r = Ret n))"
  shows "GetInstanceId (fst (fst y)) \<noteq> None"
proof (cases "Machine_DataSecretName (MS_Machine m) = None")
  case True
  from no_secret_not_ready [OF this run] ok True show ?thesis by (simp add: same_ready_def GetInstanceId_def)
next
  case False
  show ?thesis
  proof (rule reconcileNormal_start [OF run False])
    fix inst i w'
    let ?m0 = "m\<lparr>MS_OCIMachine := (MS_OCIMachine m)\<lparr>OCIMachine_Finalizers := kube_AddFinalizer k MachineFinalizer (OCIMachine_Finalizers (MS_OCIMachine m))\<rparr>\<rparr>"
    assume "reconcileInstance k c inst ((upd_machine_spec (\<lambda>sp. sp\<lparr>MSpec_InstanceId := Some i, MSpec_ProviderID := Some (GetProviderID i)\<rparr>) ?m0, w'), ev) = (r, y)"
    from reconcileInstance_id [OF this] show ?thesis by (simp add: GetInstanceId_def upd_machine_spec_def)
  next
    assume "\<nexists>n. r = Ret n" "same_ready m (fst (fst y))"
    with ok show ?thesis by (auto simp: same_ready_def GetInstanceId_def)
  qed
qed

lemma recorded_reconcile:
  assumes law: "lawful_compute tbl c" and id: "GetInstanceId m \<noteq> None"
    and run: "machine_reconcileNormal k c ((m, w), ev) = (r, ((m', w'), ev'))"
  shows "tbl w' = tbl w"
proof (cases "Machine_DataSecretName (MS_Machine m) = None")
  case True
  from no_secret_not_ready [OF this run] show ?thesis by simp
next
  case False
  note q = lawful_computeD(2) [OF law]
  let ?m0 = "m\<lparr>MS_OCIMachine := (MS_OCIMachine m)\<lparr>OCIMachine_Finalizers := kube_AddFinalizer k MachineFinalizer (OCIMachine_Finalizers (MS_OCIMachine m))\<rparr>\<rparr>"
  have id0: "GetInstanceId ?m0 \<noteq> None" using id by (simp add: GetInstanceId_def)
  show ?thesis
  proof (rule reconcileNormal_start [OF run False])
    fix inst i v
    assume "GetOrCreateMachine c (?m0, w) = (Ret (Some inst), (?m0, v))"
      and rec: "reconcileInstance k c inst ((upd_machine_spec (\<lambda>sp. sp\<lparr>MSpec_InstanceId := Some i, MSpec_ProviderID := Some (GetProviderID i)\<rparr>) ?m0, v), ev) =
        (r, ((m', w'), ev'))"
    from recorded_no_launch [OF q id0 this(1)] keepsD [OF quiet_requests.reconcileInstance_quiet [OF q] rec] show ?thesis
      by (simp add: ctrl_rel_def both_def)
  next
    assume "snd (fst ((m', w'), ev')) = snd (snd (GetOrCreateMachine c (?m0, w)))"
    with recorded_no_launch [OF q id0, of w "fst (GetOrCreateMachine c (?m0, w))" "fst (snd (GetOrCreateMachine c (?m0, w)))" w']
    show ?thesis by simp
  qed
qed



section \<open>A machine that is launched\<close>

text \<open>The machine of the witnesses without an instance, in a failure domain whose fault domain is out of capacity.\<close>

definition new_machine :: MachineScope where
  "new_machine = sample_machine\<lparr>MS_OCIClusterAccessor := SetFailureDomain ''1''
     \<lparr>FD_ControlPlane = True, FD_Attributes = [AvailabilityDomainKey \<mapsto> ''AD-1'', FaultDomainKey \<mapsto> ''FD-2'']\<rparr>
     (MS_OCIClusterAccessor sample_machine)\<rparr>"

definition new_machine0 :: MachineScope where
  "new_machine0 = new_machine\<lparr>MS_OCIMachine := (MS_OCIMachine new_machine)\<lparr>OCIMachine_Finalizers := [MachineFinalizer]\<rparr>\<rparr>"

definition new_instance :: Instance where
  "new_instance = launched (launchDetailsIn (launchDetails (mc_Enum sample_machine_clients) new_machine0 ''cloud-init'' emptyLaunchShapeConfig
     \<lparr>Source_ImageId = ''ocid1.image'', Source_BootVolumeSizeInGBs = None, Source_KmsKeyId = None, Source_BootVolumeVpusPerGB = None\<rparr>
     ''AD-1'' ''FD-2'' []) ''FD-1'') ''uid-FD-1''"

lemma new_machine_sel:
  "machine_spec new_machine0 = sample_machine_spec" "MS_Machine new_machine0 = MS_Machine sample_machine"
  "machine_status new_machine0 = machine_status sample_machine" "OCIMachine_UID (MS_OCIMachine new_machine0) = ''uid''"
  "GetFailureDomains (MS_OCIClusterAccessor new_machine0) =
     Some [''1'' \<mapsto> \<lparr>FD_ControlPlane = True, FD_Attributes = [AvailabilityDomainKey \<mapsto> ''AD-1'', FaultDomainKey \<mapsto> ''FD-2'']\<rparr>]"
  "Machine_FailureDomain (MS_Machine sample_machine) = ''1''" "Machine_DataSecretName (MS_Machine sample_machine) = Some ''secret''"
  "machine_Name new_machine0 = ''machine''"
  by (simp_all add: new_machine0_def new_machine_def sample_machine_def SetFailureDomain_def GetFailureDomains_def Let_def
      machine_Name_def SetAvailabilityDomains_def accessor_defs sample_defs)

lemma new_machine_retry: "buildFaultDomainRetryList new_machine0 ''AD-1'' ''FD-2'' True = [''FD-2'', ''FD-1'', ''FD-3'']"
proof -
  have "faultDomainsForAvailabilityDomain new_machine0 ad = faultDomainsForAvailabilityDomain sample_machine ad" for ad
    by (simp add: faultDomainsForAvailabilityDomain_def new_machine0_def new_machine_def GetAvailabilityDomains_def SetFailureDomain_def Let_def)
  then show ?thesis by (simp add: buildFaultDomainRetryList_def)
qed

lemma spec_sel:
  "MSpec_InstanceId sample_machine_spec = None" "MSpec_ShapeConfig sample_machine_spec = emptyShapeConfig"
  "MSpec_BootVolumeSizeInGBs sample_machine_spec = ''''" "MSpec_ImageId sample_machine_spec = ''ocid1.image''"
  "MSpec_InstanceSourceViaImageDetails sample_machine_spec = None" "MSpec_ExtendedMetadata sample_machine_spec = []"
  "MSpec_BlockVolumeSpec sample_machine_spec = emptyBlockVolumeSpec" "MSpec_VnicAttachments sample_machine_spec = []"
  by (simp_all add: sample_machine_spec_def emptyShapeConfig_def)

lemma clients_sel:
  "mc_Compute sample_machine_clients = compute_list" "mc_RandInt sample_machine_clients n = go_ret 0"
  "mc_JsonUnmarshal sample_machine_clients = Inr"
  "kube_GetSecret (mc_Kube sample_machine_clients) ns nm = go_ret [''value'' \<mapsto> ''cloud-init'']"
  by (simp_all add: sample_machine_clients_def)

lemma new_machine_launch:
  "launchMachine sample_machine_clients (new_machine0, []) = (Ret (''AD-1'', Some new_instance), (new_machine0, [new_instance]))"
proof -
  have boot: "GetBootstrapData sample_machine_clients (new_machine0, []) = (Ret ''cloud-init'', (new_machine0, []))"
    by (simp add: GetBootstrapData_def go_simps new_machine_sel clients_sel)
  have fd: "resolveAvailabilityAndFaultDomain sample_machine_clients (new_machine0, []) = (Ret (''AD-1'', ''FD-2'', True), (new_machine0, []))"
    by (simp add: resolveAvailabilityAndFaultDomain_def go_simps new_machine_sel Atoi_def is_digit_def digits_val_def tag_at_def Let_def)
  let ?d = "launchDetails (mc_Enum sample_machine_clients) new_machine0 ''cloud-init'' emptyLaunchShapeConfig
     \<lparr>Source_ImageId = ''ocid1.image'', Source_BootVolumeSizeInGBs = None, Source_KmsKeyId = None, Source_BootVolumeVpusPerGB = None\<rparr>
     ''AD-1'' ''FD-2'' []"
  have "launchInstanceWithFaultDomainRetry sample_machine_clients ?d [''FD-2'', ''FD-1'', ''FD-3''] (new_machine0, []) =
      (Ret (Some new_instance), (new_machine0, [new_instance]))"
    by (simp add: launchInstanceWithFaultDomainRetry_def go_simps new_machine_sel clients_sel compute_list_def launchToken_def
        no_capacity_is GetOPCRetryToken_def truncateOPCRetryToken_def MaxOPCRetryTokenBytes_def new_instance_def)
      (simp add: launchDetailsIn_def)
  then show ?thesis
    by (simp add: launchMachine_def go_bind_apply boot fd get_scope_apply lift_err_apply new_machine_sel spec_sel launchShapeConfig_def
        sourceDetails_def parseSet_def err_bind_def new_machine_retry clients_sel go_ret_apply)
qed

lemma new_machine_created:
  "GetOrCreateMachine sample_machine_clients (new_machine0, []) = (Ret (Some new_instance), (new_machine0, [new_instance]))"
proof -
  have "GetMachine sample_machine_clients (new_machine0, []) = (Ret None, (new_machine0, []))"
    by (simp add: GetMachine_def GetInstanceId_def go_simps new_machine_sel spec_sel GetMachineByDisplayName_def search_pages_def
        go_loop_unfold page_step_def instancePage_def clients_sel compute_list_def scanOwned_def)
  then show ?thesis
    by (simp add: GetOrCreateMachine_def go_bind_apply new_machine_launch get_scope_apply BlockVolumeSpecNotEmpty_def new_machine_sel
        spec_sel go_ret_apply)
qed


definition ready_machine :: MachineScope where
  "ready_machine = SetReady (upd_machine_status (\<lambda>st. st\<lparr>MStatus_Addresses := [\<lparr>Address_Type = MachineInternalIP, Address_Address = ''10.0.64.5''\<rparr>]\<rparr>)
     (upd_machine_spec (\<lambda>sp. sp\<lparr>MSpec_InstanceId := Some ''uid-FD-1'', MSpec_ProviderID := Some ''oci://uid-FD-1''\<rparr>) new_machine0))"

definition ready_events :: "Event list" where
  "ready_events = [\<lparr>Event_Type = EventTypeNormal, Event_Reason = ''InstanceReady'', Event_Message = ''Instance is in ready state''\<rparr>]"

lemma new_machine_ready:
  "machine_reconcileNormal machine_kube sample_machine_clients ((new_machine, []), []) =
     (Ret 0, ((ready_machine, [new_instance]), ready_events))"
proof -
  let ?m1 = "upd_machine_spec (\<lambda>sp. sp\<lparr>MSpec_InstanceId := Some ''uid-FD-1'', MSpec_ProviderID := Some ''oci://uid-FD-1''\<rparr>) new_machine0"
  have m1: "machine_status ?m1 = machine_status sample_machine" "MS_Machine ?m1 = MS_Machine sample_machine"
    "machine_spec ?m1 = sample_machine_spec\<lparr>MSpec_InstanceId := Some ''uid-FD-1'', MSpec_ProviderID := Some ''oci://uid-FD-1''\<rparr>"
    by (simp_all add: upd_machine_spec_def new_machine_sel)
  have ip: "GetInstanceIp sample_machine_clients (?m1, [new_instance]) = (Ret (Some ''10.0.64.5''), (?m1, [new_instance]))"
    by (simp add: GetInstanceIp_def go_simps search_pages_def go_loop_unfold page_step_def clients_sel compute_list_def)
  have addr: "ensureAddress machine_kube sample_machine_clients ((?m1, [new_instance]), []) =
      (Ret (), ((upd_machine_status (\<lambda>st. st\<lparr>MStatus_Addresses := [\<lparr>Address_Type = MachineInternalIP, Address_Address = ''10.0.64.5''\<rparr>]\<rparr>) ?m1,
        [new_instance]), []))"
    using ip by (simp add: ensureAddress_def get_machine_def go_simps m1 orFail_def mod_machine_def)
      (simp add: sample_machine_def)
  let ?m2 = "upd_machine_status (\<lambda>st. st\<lparr>MStatus_Addresses := [\<lparr>Address_Type = MachineInternalIP, Address_Address = ''10.0.64.5''\<rparr>]\<rparr>) ?m1"
  have m2: "MS_Machine ?m2 = MS_Machine sample_machine" "machine_spec ?m2 = machine_spec ?m1" by (simp_all add: upd_machine_status_def m1)
  have mk: "upd_machine_status (\<lambda>st. st) m = m" for m
    by (simp add: upd_machine_status_def)
  have mkt: "kube_MarkTrue machine_kube t cs = cs" for t cs by (simp add: machine_kube_def)
  have labels: "Machine_Labels (MS_Machine sample_machine) = Map.empty" "Machine_Annotations (MS_Machine sample_machine) = Map.empty"
    by (simp_all add: sample_machine_def)
  have sr: "MS_Machine (SetReady m) = MS_Machine m" for m by (simp add: SetReady_def upd_machine_status_def)
  have "reconcileRunning machine_kube sample_machine_clients ((?m1, [new_instance]), []) =
      (Ret 0, ((SetReady ?m2, [new_instance]), ready_events))"
    by (simp add: reconcileRunning_def go_seq_apply addr ensureOnLB_def ensureVnics_def get_machine_def go_simps m2 m1 spec_sel
        IsControlPlane_def record_event_def mark_machine_def mod_machine_def mkt mk deleteMachineOnTermination_def ready_events_def labels sr)
  moreover have "Instance_LifecycleState new_instance = InstRunning" "Res_Id new_instance = Some ''uid-FD-1''"
    by (simp_all add: new_instance_def launched_def)
  moreover have "Machine_DataSecretName (MS_Machine new_machine) = Some ''secret''"
    "new_machine\<lparr>MS_OCIMachine := (MS_OCIMachine new_machine)\<lparr>OCIMachine_Finalizers := kube_AddFinalizer machine_kube MachineFinalizer
       (OCIMachine_Finalizers (MS_OCIMachine new_machine))\<rparr>\<rparr> = new_machine0"
    by (simp_all add: new_machine_def new_machine0_def machine_kube_def sample_machine_def)
  ultimately show ?thesis
    by (simp add: machine_reconcileNormal_def go_seq_apply go_bind_apply mod_machine_finalizers_def mod_machine_def get_machine_def on_fst_apply
        mod_scope_apply get_scope_apply orFail_def go_try_apply new_machine_created go_ret_apply go_deref_apply GetProviderID_def
        reconcileInstance_def ready_machine_def new_machine_sel)
qed

lemma ready_before_after: "\<not> IsReady new_machine" "IsReady ready_machine"
  by (simp_all add: IsReady_def new_machine_def sample_machine_def ready_machine_def SetReady_def upd_machine_status_def)

theorem machine_ready_when_running_witness:
  "\<exists>inst s t. GetOrCreateMachine sample_machine_clients s = (Ret (Some inst), t) \<and> Instance_LifecycleState inst = InstRunning \<and>
     GetInstanceId ready_machine = Res_Id inst \<and> MStatus_Addresses (machine_status ready_machine) \<noteq> []"
  using machine_ready_when_running [OF new_machine_ready ready_before_after] by blast



end
