(* ===== verification/Pool_Types.thy ===== *)
theory Pool_Types
  imports Machine_Launch
begin

text \<open>
  The pools of self managed machines: the object OCIMachinePool (src/exp/api/v1beta2/ocimachinepool_types.go), the machine
  objects of a pool (ocimachinepool_machine_types.go), and what the compute management service takes and answers. The
  structs of the SDK for an instance configuration have the fields of the launch structs of \<open>Machine_Types\<close>, whose records
  are used again where the fields are the same. A 32-bit float is its text, as there.
\<close>

section \<open>The objects\<close>

record PoolShapeConfig =
  PSC_Ocpus :: "string option"
  PSC_MemoryInGBs :: "string option"
  PSC_BaselineOcpuUtilization :: string
  PSC_Nvmes :: "int option"

record PoolImageConfig =
  PIm_ImageId :: "string option"
  PIm_KmsKeyId :: "string option"
  PIm_BootVolumeSizeInGBs :: "int option"
  PIm_BootVolumeVpusPerGB :: "int option"

record InstanceConfiguration =
  IConf_InstanceConfigurationId :: "string option"
  IConf_Shape :: "string option"
  IConf_ShapeConfig :: "PoolShapeConfig option"
  IConf_FreeformTags :: tags
  IConf_DefinedTags :: defined_tags
  IConf_InstanceVnicConfiguration :: "NetworkDetails option"
  IConf_PlatformConfig :: "PlatformConfig option"
  IConf_AgentConfig :: "LaunchInstanceAgentConfig option"
  IConf_PreemptibleInstanceConfig :: "PreemptibleInstanceConfig option"
  IConf_AvailabilityConfig :: "LaunchInstanceAvailabilityConfig option"
  IConf_DedicatedVmHostId :: "string option"
  IConf_LaunchOptions :: "LaunchOptions option"
  IConf_InstanceOptions :: "InstanceOptions option"
  IConf_IsPvEncryptionInTransitEnabled :: "bool option"
  IConf_InstanceSourceViaImageDetails :: "PoolImageConfig option"
  IConf_CapacityReservationId :: "string option"
  IConf_Metadata :: tags
  IConf_ExtendedMetadata :: "(string \<times> string) list"

record PlacementDetails =
  PD_AvailabilityDomain :: int
  PD_FaultDomains :: "string list"

record OCIMachinePoolSpec =
  PSpec_ProviderID :: "string option"
  PSpec_OCID :: "string option"
  PSpec_PlacementDetails :: "PlacementDetails list"
  PSpec_InstanceConfiguration :: InstanceConfiguration
  PSpec_ProviderIDList :: "string list"

record OCIMachinePoolStatus =
  PStatus_Ready :: bool
  PStatus_Replicas :: int
  PStatus_Conditions :: "Condition list"
  PStatus_FailureReason :: "string option"
  PStatus_FailureMessage :: "string option"
  PStatus_InfrastructureMachineKind :: string

record OCIMachinePool =
  Pool_Name :: string
  Pool_Namespace :: string
  Pool_Kind :: string
  Pool_UID :: string
  Pool_Annotations :: tags
  Pool_Finalizers :: "string list"
  Pool_Deleted :: bool
  Pool_Spec :: OCIMachinePoolSpec
  Pool_Status :: OCIMachinePoolStatus

abbreviation MachinePoolFinalizer :: string where
  "MachinePoolFinalizer \<equiv> ''ocimachinepool.infrastructure.cluster.x-k8s.io''"
abbreviation InstancePoolReadyCondition :: string where "InstancePoolReadyCondition \<equiv> ''InstancePoolReady''"
abbreviation InstancePoolNotFoundReason :: string where "InstancePoolNotFoundReason \<equiv> ''InstancePoolNotFound''"
abbreviation InstancePoolProvisionFailedReason :: string where
  "InstancePoolProvisionFailedReason \<equiv> ''InstancePoolProvisionFailed''"
abbreviation InstancePoolDeletionInProgress :: string where "InstancePoolDeletionInProgress \<equiv> ''InstancePoolDeletionInProgress''"
abbreviation InstancePoolNotReadyReason :: string where "InstancePoolNotReadyReason \<equiv> ''InstancePoolNotReady''"
abbreviation LaunchTemplateReadyCondition :: string where "LaunchTemplateReadyCondition \<equiv> ''LaunchTemplateReady''"
abbreviation LaunchTemplateCreateFailedReason :: string where
  "LaunchTemplateCreateFailedReason \<equiv> ''LaunchTemplateCreateFailed''"

text \<open>What the provider reads of the Cluster API objects. \<open>MP_ReplicasManagedExternally\<close> is what
  \<open>annotations.ReplicasManagedByExternalAutoscaler\<close> says of the machine pool.\<close>

record MachinePool =
  MP_Name :: string
  MP_Namespace :: string
  MP_Replicas :: "int option"
  MP_ReplicasManagedExternally :: bool
  MP_DataSecretName :: "string option"

record CapiCluster =
  Capi_Name :: string
  Capi_InfrastructureProvisioned :: "bool option"

abbreviation SelfManaged :: string where "SelfManaged \<equiv> ''SELF_MANAGED_TYPE''"
abbreviation Managed :: string where "Managed \<equiv> ''MANAGED_TYPE''"
abbreviation Virtual :: string where "Virtual \<equiv> ''VIRTUAL_TYPE''"

abbreviation MachinePoolMachineFinalizer :: string where
  "MachinePoolMachineFinalizer \<equiv> ''ocimachinepoolmachine.infrastructure.cluster.x-k8s.io''"

record OCIMachinePoolMachine =
  PM_Name :: string
  PM_Namespace :: string
  PM_GenerateName :: string
  PM_Labels :: tags
  PM_OwnerReference :: "(string \<times> string \<times> string) option"
  PM_Finalizers :: "string list"
  PM_OCID :: "string option"
  PM_ProviderID :: "string option"
  PM_InstanceName :: "string option"
  PM_MachineType :: string
  PM_Ready :: bool

section \<open>Instance configurations\<close>

record IcVnicDetails =
  ICV_AssignIpv6Ip :: "bool option"
  ICV_AssignPublicIp :: "bool option"
  ICV_AssignPrivateDnsRecord :: "bool option"
  ICV_FreeformTags :: tags
  ICV_DefinedTags :: defined_tags
  ICV_DisplayName :: "string option"
  ICV_HostnameLabel :: "string option"
  ICV_NsgIds :: "string list"
  ICV_PrivateIp :: "string option"
  ICV_SkipSourceDestCheck :: "bool option"
  ICV_SubnetId :: "string option"

record IcShapeConfig =
  ICS_Ocpus :: "string option"
  ICS_MemoryInGBs :: "string option"
  ICS_Vcpus :: "int option"
  ICS_Nvmes :: "int option"
  ICS_BaselineOcpuUtilization :: string

text \<open>The interfaces \<open>PlatformConfig\<close> and \<open>SourceDetails\<close> of the SDK: the types the provider names, and any other type by
  its name.\<close>

datatype IcPlatformConfig = IcPlatform SdkPlatformConfig | IcPlatformOther string

datatype IcSourceDetails = IcViaImage PoolImageConfig | IcSourceOther string

record IcLaunchDetails =
  ICL_CapacityReservationId :: "string option"
  ICL_CompartmentId :: "string option"
  ICL_DisplayName :: "string option"
  ICL_CreateVnicDetails :: "IcVnicDetails option"
  ICL_FreeformTags :: tags
  ICL_DefinedTags :: defined_tags
  ICL_Metadata :: tags
  ICL_ExtendedMetadata :: "string \<rightharpoonup> string option"
  ICL_Shape :: "string option"
  ICL_ShapeConfig :: "IcShapeConfig option"
  ICL_PlatformConfig :: "IcPlatformConfig option"
  ICL_SourceDetails :: "IcSourceDetails option"
  ICL_DedicatedVmHostId :: "string option"
  ICL_LaunchOptions :: "LaunchOptions option"
  ICL_AgentConfig :: "SdkAgentConfig option"
  ICL_IsPvEncryptionInTransitEnabled :: "bool option"
  ICL_InstanceOptions :: "InstanceOptions option"
  ICL_AvailabilityConfig :: "LaunchInstanceAvailabilityConfig option"
  ICL_PreemptibleInstanceConfig :: "PreemptibleInstanceConfig option"

text \<open>The details of an instance configuration are launch details, or something else.\<close>

datatype InstanceDetails = ComputeInstanceDetails (LaunchDetails: "IcLaunchDetails option") | OtherInstanceDetails string

record SdkInstanceConfiguration = SdkResource +
  SIC_InstanceDetails :: InstanceDetails

record CreateInstanceConfigurationDetails =
  CIC_CompartmentId :: string
  CIC_DisplayName :: string
  CIC_FreeformTags :: tags
  CIC_DefinedTags :: defined_tags
  CIC_InstanceDetails :: InstanceDetails

section \<open>Instance pools\<close>

datatype InstancePoolState = PoolProvisioning | PoolStarting | PoolScaling | PoolRunning | PoolTerminating | PoolTerminated
  | PoolStateOther string

record PoolPlacement =
  PP_AvailabilityDomain :: "string option"
  PP_PrimarySubnetId :: "string option"
  PP_FaultDomains :: "string list"

record SdkInstancePool = SdkResource +
  SIP_InstanceConfigurationId :: "string option"
  SIP_Size :: "int option"
  SIP_LifecycleState :: InstancePoolState
  SIP_PlacementConfigurations :: "PoolPlacement list"

record CreateInstancePoolDetails =
  CIP_CompartmentId :: string
  CIP_InstanceConfigurationId :: "string option"
  CIP_Size :: int
  CIP_DisplayName :: string
  CIP_PlacementConfigurations :: "PoolPlacement list"
  CIP_FreeformTags :: tags

record UpdateInstancePoolDetails =
  UIP_InstanceConfigurationId :: "string option"
  UIP_FreeformTags :: tags
  UIP_Size :: "int option"
  UIP_PlacementConfigurations :: "PoolPlacement list option"

record InstanceSummary =
  ISum_Id :: "string option"
  ISum_DisplayName :: "string option"
  ISum_State :: "string option"

record 'w ComputeManagementApi =
  api_GetInstanceConfiguration :: "string option \<Rightarrow> ('w, SdkInstanceConfiguration) go"
  api_ListInstanceConfigurations :: "string \<Rightarrow> string option \<Rightarrow> ('w, SdkResource list \<times> string option) go"
  api_CreateInstanceConfiguration :: "CreateInstanceConfigurationDetails \<Rightarrow> ('w, SdkInstanceConfiguration) go"
  api_DeleteInstanceConfiguration :: "string option \<Rightarrow> ('w, unit) go"
  api_GetInstancePool :: "string option \<Rightarrow> ('w, SdkInstancePool) go"
  api_ListInstancePools :: "string \<Rightarrow> string \<Rightarrow> string option \<Rightarrow> ('w, SdkResource list \<times> string option) go"
  api_CreateInstancePool :: "CreateInstancePoolDetails \<Rightarrow> ('w, SdkInstancePool) go"
  api_UpdateInstancePool :: "string option \<Rightarrow> UpdateInstancePoolDetails \<Rightarrow> ('w, SdkInstancePool) go"
  api_TerminateInstancePool :: "string option \<Rightarrow> ('w, unit) go"
  api_ListInstancePoolInstances :: "string \<Rightarrow> string option \<Rightarrow> string option \<Rightarrow> ('w, InstanceSummary list \<times> string option) go"

text \<open>What a pool needs of Kubernetes: the bootstrap secret, the patches of the pool object and of the owner, the machine
  objects of the pool in a namespace with the labels of a cluster and of a machine pool, and the owner of such an object.
  \<open>pk_NotFound\<close> is \<open>apierrors.IsNotFound\<close>, \<open>pk_FormatValue\<close> is \<open>format.MustFormatValue\<close>, \<open>pk_NewHelper\<close> the construction of
  a patch helper. A patch receives the object as it is now.\<close>

record 'w PoolKube =
  pk_GetSecret :: "string \<Rightarrow> string \<Rightarrow> ('w, string \<rightharpoonup> string) go"
  pk_PatchPool :: "OCIMachinePool \<Rightarrow> ('w, unit) go"
  pk_NewHelper :: "('w, unit) go"
  pk_PatchMachinePool :: "MachinePool \<Rightarrow> ('w, unit) go"
  pk_ListPoolMachines :: "string \<Rightarrow> tags \<Rightarrow> ('w, OCIMachinePoolMachine list) go"
  pk_CreatePoolMachine :: "OCIMachinePoolMachine \<Rightarrow> ('w, unit) go"
  pk_PatchPoolMachine :: "OCIMachinePoolMachine \<Rightarrow> ('w, unit) go"
  pk_GetOwnerMachine :: "OCIMachinePoolMachine \<Rightarrow> ('w, Machine option) go"
  pk_DeleteMachine :: "Machine \<Rightarrow> ('w, unit) go"
  pk_NotFound :: "goerr \<Rightarrow> bool"
  pk_FormatValue :: "string \<Rightarrow> string"

end
