(* ===== verification/Instance_Config_Hash.thy ===== *)
theory Instance_Config_Hash
  imports Pool_Types Go_Net Go_Base64 "HOL-Library.Char_ord" "HOL-Library.List_Lexorder" "HOL-Library.Product_Lexorder"
    "HOL-Library.Multiset"
begin

text \<open>
  The hashes that decide whether the instance configuration of a pool has to be replaced
  (src/cloud/hash/instanceconfighash.go). The actual launch details are projected onto the fields that the desired ones set;
  the projections are marshalled and hashed. Marshalling and SHA-256 are parameters: \<open>marshal\<close> is \<open>json.Marshal\<close> on the
  projection, \<open>sha256\<close> the hexadecimal digest. \<open>nil\<close> is \<open>None\<close>; a map that the code replaces by \<open>nil\<close> when it is empty is
  an optional map. Strings are ordered byte by byte, as Go does.
\<close>

section \<open>What is compared\<close>

record comparableCreateVnicDetails =
  CmpV_AssignIPv6IP :: "bool option"
  CmpV_AssignPublicIP :: "bool option"
  CmpV_AssignPrivateDNSRecord :: "bool option"
  CmpV_FreeformTags :: "tags option"
  CmpV_DefinedTags :: "defined_tags option"
  CmpV_HostnameLabel :: "string option"
  CmpV_NSGIDs :: "string list option"
  CmpV_PrivateIP :: "string option"
  CmpV_SkipSourceDestCheck :: "bool option"
  CmpV_SubnetID :: "string option"

record comparableShapeConfig =
  CmpS_OCPUs :: "string option"
  CmpS_MemoryInGBs :: "string option"
  CmpS_VCPUs :: "int option"
  CmpS_NVMEs :: "int option"
  CmpS_BaselineOCPUUtilization :: string

record comparablePlatformConfig =
  CmpP_Type :: string
  CmpP_IsSecureBootEnabled :: "bool option"
  CmpP_IsTrustedPlatformModuleEnabled :: "bool option"
  CmpP_IsMeasuredBootEnabled :: "bool option"
  CmpP_IsMemoryEncryptionEnabled :: "bool option"
  CmpP_IsSymmetricMultiThreadingEnabled :: "bool option"
  CmpP_IsAccessControlServiceEnabled :: "bool option"
  CmpP_AreVirtualInstructionsEnabled :: "bool option"
  CmpP_IsInputOutputMemoryManagementUnitEnabled :: "bool option"
  CmpP_PercentageOfCoresEnabled :: "int option"
  CmpP_NumaNodesPerSocket :: string

record comparableSourceDetails =
  CmpI_SourceType :: string
  CmpI_ImageID :: "string option"
  CmpI_KMSKeyID :: "string option"
  CmpI_BootVolumeSizeInGBs :: "int option"
  CmpI_BootVolumeVPUsPerGB :: "int option"

record comparableLaunchOptions =
  CmpL_BootVolumeType :: string
  CmpL_Firmware :: string
  CmpL_NetworkType :: string
  CmpL_RemoteDataVolumeType :: string
  CmpL_IsConsistentVolumeNamingEnabled :: "bool option"

record comparablePluginConfig =
  CmpPl_Name :: "string option"
  CmpPl_DesiredState :: string

record comparableAgentConfig =
  CmpA_IsMonitoringDisabled :: "bool option"
  CmpA_IsManagementDisabled :: "bool option"
  CmpA_AreAllPluginsDisabled :: "bool option"
  CmpA_PluginsConfig :: "comparablePluginConfig list option"

record comparableInstanceOptions =
  CmpO_AreLegacyIMDSEndpointsDisabled :: "bool option"

record comparableAvailabilityConfig =
  CmpAv_IsLiveMigrationPreferred :: "bool option"
  CmpAv_RecoveryAction :: string

record comparablePreemptibleInstanceConfig =
  CmpPr_PreserveBootVolume :: "bool option"

record comparableLaunchDetails =
  Cmp_CapacityReservationID :: "string option"
  Cmp_CompartmentID :: "string option"
  Cmp_CreateVnicDetails :: "comparableCreateVnicDetails option"
  Cmp_FreeformTags :: "tags option"
  Cmp_DefinedTags :: "defined_tags option"
  Cmp_Metadata :: "tags option"
  Cmp_ExtendedMetadata :: "(string \<rightharpoonup> string option) option"
  Cmp_Shape :: "string option"
  Cmp_ShapeConfig :: "comparableShapeConfig option"
  Cmp_PlatformConfig :: "comparablePlatformConfig option"
  Cmp_SourceDetails :: "comparableSourceDetails option"
  Cmp_DedicatedVMHostID :: "string option"
  Cmp_LaunchOptions :: "comparableLaunchOptions option"
  Cmp_AgentConfig :: "comparableAgentConfig option"
  Cmp_IsPVEncryptionInTransitEnabled :: "bool option"
  Cmp_InstanceOptions :: "comparableInstanceOptions option"
  Cmp_AvailabilityConfig :: "comparableAvailabilityConfig option"
  Cmp_PreemptibleInstanceConfig :: "comparablePreemptibleInstanceConfig option"

section \<open>Picking what the desired details set\<close>

definition pickString :: "string option \<Rightarrow> string option \<Rightarrow> string option" where
  "pickString actual mask' = (if mask' = None then None else actual)"

definition pickBool :: "bool option \<Rightarrow> bool option \<Rightarrow> bool option" where
  "pickBool actual mask' = (if mask' = None then None else actual)"

definition pickDefaultFalseBool :: "bool option \<Rightarrow> bool option \<Rightarrow> bool option" where
  "pickDefaultFalseBool actual mask' =
     (if mask' = None then None else if actual = None \<or> \<not> the actual then None else actual)"

definition pickFloat32 :: "string option \<Rightarrow> string option \<Rightarrow> string option" where
  "pickFloat32 actual mask' = (if mask' = None then None else actual)"

definition pickInt :: "int option \<Rightarrow> int option \<Rightarrow> int option" where
  "pickInt actual mask' = (if mask' = None then None else actual)"

definition pickInt64 :: "int option \<Rightarrow> int option \<Rightarrow> int option" where
  "pickInt64 actual mask' = (if mask' = None then None else actual)"

definition pickEnum :: "string \<Rightarrow> string \<Rightarrow> string" where
  "pickEnum actual mask' = (if mask' = '''' then '''' else actual)"

definition pickStrings :: "string list \<Rightarrow> string list \<Rightarrow> string list option" where
  "pickStrings actual mask' =
     (if length mask' = 0 then None else if length actual = 0 then None else Some actual)"

definition pickMetadata :: "tags \<Rightarrow> tags \<Rightarrow> tags option" where
  "pickMetadata actual mask' =
     (if mask' = Map.empty then None
      else let result = (\<lambda>key. if mask' key \<noteq> None then actual key else None)
        in if result = Map.empty then None else Some result)"

definition pickExtendedMetadata ::
  "(string \<rightharpoonup> string option) \<Rightarrow> (string \<rightharpoonup> string option) \<Rightarrow> (string \<rightharpoonup> string option) option" where
  "pickExtendedMetadata actual mask' = (if actual = Map.empty then None else Some actual)"

definition normalizeMetadata :: "tags option \<Rightarrow> tags option" where
  "normalizeMetadata md = (case md of
      None \<Rightarrow> None
    | Some m \<Rightarrow> let output = (\<lambda>k. if k = ''user_data'' then None else m k)
        in if output = Map.empty then None else Some output)"

definition normalizeFreeformTags :: "tags \<Rightarrow> tags option" where
  "normalizeFreeformTags tgs = (if tgs = Map.empty then None else Some tgs)"

definition normalizeDefinedTags :: "defined_tags \<Rightarrow> defined_tags option" where
  "normalizeDefinedTags tgs =
     (if tgs = Map.empty then None
      else let output = (\<lambda>namespace. case tgs namespace of
          None \<Rightarrow> None
        | Some values \<Rightarrow> if values = Map.empty then None else Some values)
        in if output = Map.empty then None else Some output)"

text \<open>\<open>if reflect.DeepEqual(result, &T{}) { return nil }; return result\<close>\<close>

definition nonzero :: "'a \<Rightarrow> 'a \<Rightarrow> 'a option" where
  "nonzero zero result = (if result = zero then None else Some result)"

section \<open>Projections\<close>

definition zero_comparableCreateVnicDetails :: comparableCreateVnicDetails where
  "zero_comparableCreateVnicDetails =
     \<lparr>CmpV_AssignIPv6IP = None, CmpV_AssignPublicIP = None, CmpV_AssignPrivateDNSRecord = None, CmpV_FreeformTags = None,
      CmpV_DefinedTags = None, CmpV_HostnameLabel = None, CmpV_NSGIDs = None, CmpV_PrivateIP = None,
      CmpV_SkipSourceDestCheck = None, CmpV_SubnetID = None\<rparr>"

definition projectCreateVnicDetails :: "IcVnicDetails option \<Rightarrow> IcVnicDetails option \<Rightarrow> comparableCreateVnicDetails option" where
  "projectCreateVnicDetails in' mask' = (case (in', mask') of
      (Some a, Some m) \<Rightarrow> nonzero zero_comparableCreateVnicDetails
        \<lparr>CmpV_AssignIPv6IP = pickDefaultFalseBool (ICV_AssignIpv6Ip a) (ICV_AssignIpv6Ip m),
         CmpV_AssignPublicIP = pickDefaultFalseBool (ICV_AssignPublicIp a) (ICV_AssignPublicIp m),
         CmpV_AssignPrivateDNSRecord = pickBool (ICV_AssignPrivateDnsRecord a) (ICV_AssignPrivateDnsRecord m),
         CmpV_FreeformTags = normalizeFreeformTags (ICV_FreeformTags a),
         CmpV_DefinedTags = normalizeDefinedTags (ICV_DefinedTags a),
         CmpV_HostnameLabel = pickString (ICV_HostnameLabel a) (ICV_HostnameLabel m),
         CmpV_NSGIDs = map_option sort (pickStrings (ICV_NsgIds a) (ICV_NsgIds m)),
         CmpV_PrivateIP = pickString (ICV_PrivateIp a) (ICV_PrivateIp m),
         CmpV_SkipSourceDestCheck = pickDefaultFalseBool (ICV_SkipSourceDestCheck a) (ICV_SkipSourceDestCheck m),
         CmpV_SubnetID = pickString (ICV_SubnetId a) (ICV_SubnetId m)\<rparr>
    | _ \<Rightarrow> None)"

definition zero_comparableShapeConfig :: comparableShapeConfig where
  "zero_comparableShapeConfig = \<lparr>CmpS_OCPUs = None, CmpS_MemoryInGBs = None, CmpS_VCPUs = None, CmpS_NVMEs = None,
     CmpS_BaselineOCPUUtilization = ''''\<rparr>"

definition projectShapeConfig :: "IcShapeConfig option \<Rightarrow> IcShapeConfig option \<Rightarrow> comparableShapeConfig option" where
  "projectShapeConfig in' mask' = (case (in', mask') of
      (Some a, Some m) \<Rightarrow> nonzero zero_comparableShapeConfig
        \<lparr>CmpS_OCPUs = pickFloat32 (ICS_Ocpus a) (ICS_Ocpus m),
         CmpS_MemoryInGBs = pickFloat32 (ICS_MemoryInGBs a) (ICS_MemoryInGBs m),
         CmpS_VCPUs = pickInt (ICS_Vcpus a) (ICS_Vcpus m),
         CmpS_NVMEs = pickInt (ICS_Nvmes a) (ICS_Nvmes m),
         CmpS_BaselineOCPUUtilization = pickEnum (ICS_BaselineOcpuUtilization a) (ICS_BaselineOcpuUtilization m)\<rparr>
    | _ \<Rightarrow> None)"

text \<open>The projection of a platform configuration starts from the four settings that all the types have.\<close>

definition projectVmPlatform ::
  "string \<Rightarrow> 'z VmPlatformConfig_scheme \<Rightarrow> 'z VmPlatformConfig_scheme \<Rightarrow> comparablePlatformConfig" where
  "projectVmPlatform ty actual desired =
     \<lparr>CmpP_Type = ty,
      CmpP_IsSecureBootEnabled = pickDefaultFalseBool (VP_IsSecureBootEnabled actual) (VP_IsSecureBootEnabled desired),
      CmpP_IsTrustedPlatformModuleEnabled =
        pickDefaultFalseBool (VP_IsTrustedPlatformModuleEnabled actual) (VP_IsTrustedPlatformModuleEnabled desired),
      CmpP_IsMeasuredBootEnabled = pickDefaultFalseBool (VP_IsMeasuredBootEnabled actual) (VP_IsMeasuredBootEnabled desired),
      CmpP_IsMemoryEncryptionEnabled =
        pickDefaultFalseBool (VP_IsMemoryEncryptionEnabled actual) (VP_IsMemoryEncryptionEnabled desired),
      CmpP_IsSymmetricMultiThreadingEnabled = None, CmpP_IsAccessControlServiceEnabled = None,
      CmpP_AreVirtualInstructionsEnabled = None, CmpP_IsInputOutputMemoryManagementUnitEnabled = None,
      CmpP_PercentageOfCoresEnabled = None, CmpP_NumaNodesPerSocket = ''''\<rparr>"

definition projectRomePlatform :: "string \<Rightarrow> 'z AmdRomeBmGpuPlatformConfig_scheme \<Rightarrow> 'z AmdRomeBmGpuPlatformConfig_scheme \<Rightarrow>
    comparablePlatformConfig" where
  "projectRomePlatform ty actual desired = (projectVmPlatform ty actual desired)
     \<lparr>CmpP_IsSymmetricMultiThreadingEnabled :=
        pickDefaultFalseBool (AR_IsSymmetricMultiThreadingEnabled actual) (AR_IsSymmetricMultiThreadingEnabled desired),
      CmpP_IsAccessControlServiceEnabled :=
        pickDefaultFalseBool (AR_IsAccessControlServiceEnabled actual) (AR_IsAccessControlServiceEnabled desired),
      CmpP_AreVirtualInstructionsEnabled :=
        pickDefaultFalseBool (AR_AreVirtualInstructionsEnabled actual) (AR_AreVirtualInstructionsEnabled desired),
      CmpP_IsInputOutputMemoryManagementUnitEnabled :=
        pickDefaultFalseBool (AR_IsInputOutputMemoryManagementUnitEnabled actual)
          (AR_IsInputOutputMemoryManagementUnitEnabled desired),
      CmpP_NumaNodesPerSocket := pickEnum (AR_NumaNodesPerSocket actual) (AR_NumaNodesPerSocket desired)\<rparr>"

definition projectRomeBmPlatform :: "string \<Rightarrow> AmdRomeBmPlatformConfig \<Rightarrow> AmdRomeBmPlatformConfig \<Rightarrow> comparablePlatformConfig" where
  "projectRomeBmPlatform ty actual desired = (projectRomePlatform ty actual desired)
     \<lparr>CmpP_PercentageOfCoresEnabled := pickInt (AR_PercentageOfCoresEnabled actual) (AR_PercentageOfCoresEnabled desired)\<rparr>"

definition projectIcelakePlatform ::
  "string \<Rightarrow> IntelIcelakeBmPlatformConfig \<Rightarrow> IntelIcelakeBmPlatformConfig \<Rightarrow> comparablePlatformConfig" where
  "projectIcelakePlatform ty actual desired = (projectVmPlatform ty actual desired)
     \<lparr>CmpP_IsSymmetricMultiThreadingEnabled :=
        pickDefaultFalseBool (IC_IsSymmetricMultiThreadingEnabled actual) (IC_IsSymmetricMultiThreadingEnabled desired),
      CmpP_IsInputOutputMemoryManagementUnitEnabled :=
        pickDefaultFalseBool (IC_IsInputOutputMemoryManagementUnitEnabled actual)
          (IC_IsInputOutputMemoryManagementUnitEnabled desired),
      CmpP_PercentageOfCoresEnabled := pickInt (IC_PercentageOfCoresEnabled actual) (IC_PercentageOfCoresEnabled desired),
      CmpP_NumaNodesPerSocket := pickEnum (IC_NumaNodesPerSocket actual) (IC_NumaNodesPerSocket desired)\<rparr>"

text \<open>\<open>fmt.Sprintf("%T", in)\<close>\<close>

fun platformTypeName :: "SdkPlatformConfig \<Rightarrow> string" where
  "platformTypeName (SdkAmdRomeBmGpu _) = ''AmdRomeBmGpuPlatformConfig''"
| "platformTypeName (SdkAmdRomeBm _) = ''AmdRomeBmPlatformConfig''"
| "platformTypeName (SdkIntelIcelakeBm _) = ''IntelIcelakeBmPlatformConfig''"
| "platformTypeName (SdkAmdVm _) = ''AmdVmPlatformConfig''"
| "platformTypeName (SdkIntelVm _) = ''IntelVmPlatformConfig''"
| "platformTypeName (SdkIntelSkylakeBm _) = ''IntelSkylakeBmPlatformConfig''"
| "platformTypeName (SdkAmdMilanBm _) = ''AmdMilanBmPlatformConfig''"

fun platformDynamicType :: "IcPlatformConfig \<Rightarrow> string" where
  "platformDynamicType (IcPlatform p) = ''core.'' @ platformTypeName p"
| "platformDynamicType (IcPlatformOther ty) = ''core.'' @ ty"

definition otherPlatform :: "IcPlatformConfig \<Rightarrow> comparablePlatformConfig" where
  "otherPlatform in' = \<lparr>CmpP_Type = platformDynamicType in', CmpP_IsSecureBootEnabled = None,
     CmpP_IsTrustedPlatformModuleEnabled = None, CmpP_IsMeasuredBootEnabled = None, CmpP_IsMemoryEncryptionEnabled = None,
     CmpP_IsSymmetricMultiThreadingEnabled = None, CmpP_IsAccessControlServiceEnabled = None,
     CmpP_AreVirtualInstructionsEnabled = None, CmpP_IsInputOutputMemoryManagementUnitEnabled = None,
     CmpP_PercentageOfCoresEnabled = None, CmpP_NumaNodesPerSocket = ''''\<rparr>"

fun projectSamePlatform :: "SdkPlatformConfig \<Rightarrow> SdkPlatformConfig \<Rightarrow> comparablePlatformConfig option" where
  "projectSamePlatform (SdkAmdRomeBmGpu d) (SdkAmdRomeBmGpu a) = Some (projectRomePlatform ''AmdRomeBmGpuPlatformConfig'' a d)"
| "projectSamePlatform (SdkAmdRomeBm d) (SdkAmdRomeBm a) = Some (projectRomeBmPlatform ''AmdRomeBmPlatformConfig'' a d)"
| "projectSamePlatform (SdkIntelIcelakeBm d) (SdkIntelIcelakeBm a) =
     Some (projectIcelakePlatform ''IntelIcelakeBmPlatformConfig'' a d)"
| "projectSamePlatform (SdkAmdVm d) (SdkAmdVm a) = Some (projectVmPlatform ''AmdVmPlatformConfig'' a d)"
| "projectSamePlatform (SdkIntelVm d) (SdkIntelVm a) = Some (projectVmPlatform ''IntelVmPlatformConfig'' a d)"
| "projectSamePlatform (SdkIntelSkylakeBm d) (SdkIntelSkylakeBm a) =
     Some (projectVmPlatform ''IntelSkylakeBmPlatformConfig'' a d)"
| "projectSamePlatform (SdkAmdMilanBm d) (SdkAmdMilanBm a) = Some (projectRomeBmPlatform ''AmdMilanBmPlatformConfig'' a d)"
| "projectSamePlatform _ _ = None"

definition projectPlatformConfig :: "IcPlatformConfig option \<Rightarrow> IcPlatformConfig option \<Rightarrow> comparablePlatformConfig option" where
  "projectPlatformConfig in' mask' = (case (in', mask') of
      (Some actual, Some (IcPlatform desired)) \<Rightarrow> (case actual of
          IcPlatformOther _ \<Rightarrow> Some (otherPlatform actual)
        | IcPlatform a \<Rightarrow> (case projectSamePlatform desired a of
            Some result \<Rightarrow> Some result
          | None \<Rightarrow> Some (otherPlatform actual)))
    | _ \<Rightarrow> None)"

definition projectSourceDetails :: "IcSourceDetails option \<Rightarrow> IcSourceDetails option \<Rightarrow> comparableSourceDetails option" where
  "projectSourceDetails in' mask' = (case (in', mask') of
      (Some (IcViaImage actual), Some (IcViaImage desired)) \<Rightarrow> nonzero
        \<lparr>CmpI_SourceType = '''', CmpI_ImageID = None, CmpI_KMSKeyID = None, CmpI_BootVolumeSizeInGBs = None,
         CmpI_BootVolumeVPUsPerGB = None\<rparr>
        \<lparr>CmpI_SourceType = ''image'',
         CmpI_ImageID = pickString (PIm_ImageId actual) (PIm_ImageId desired),
         CmpI_KMSKeyID = pickString (PIm_KmsKeyId actual) (PIm_KmsKeyId desired),
         CmpI_BootVolumeSizeInGBs = pickInt64 (PIm_BootVolumeSizeInGBs actual) (PIm_BootVolumeSizeInGBs desired),
         CmpI_BootVolumeVPUsPerGB = pickInt64 (PIm_BootVolumeVpusPerGB actual) (PIm_BootVolumeVpusPerGB desired)\<rparr>
    | (Some (IcSourceOther ty), Some (IcViaImage desired)) \<Rightarrow> Some
        \<lparr>CmpI_SourceType = ''core.'' @ ty, CmpI_ImageID = None, CmpI_KMSKeyID = None, CmpI_BootVolumeSizeInGBs = None,
         CmpI_BootVolumeVPUsPerGB = None\<rparr>
    | _ \<Rightarrow> None)"

definition zero_comparableLaunchOptions :: comparableLaunchOptions where
  "zero_comparableLaunchOptions = \<lparr>CmpL_BootVolumeType = '''', CmpL_Firmware = '''', CmpL_NetworkType = '''',
     CmpL_RemoteDataVolumeType = '''', CmpL_IsConsistentVolumeNamingEnabled = None\<rparr>"

definition projectLaunchOptions :: "LaunchOptions option \<Rightarrow> LaunchOptions option \<Rightarrow> comparableLaunchOptions option" where
  "projectLaunchOptions in' mask' = (case (in', mask') of
      (Some a, Some m) \<Rightarrow> nonzero zero_comparableLaunchOptions
        \<lparr>CmpL_BootVolumeType = pickEnum (LO_BootVolumeType a) (LO_BootVolumeType m),
         CmpL_Firmware = pickEnum (LO_Firmware a) (LO_Firmware m),
         CmpL_NetworkType = pickEnum (LO_NetworkType a) (LO_NetworkType m),
         CmpL_RemoteDataVolumeType = pickEnum (LO_RemoteDataVolumeType a) (LO_RemoteDataVolumeType m),
         CmpL_IsConsistentVolumeNamingEnabled =
           pickDefaultFalseBool (LO_IsConsistentVolumeNamingEnabled a) (LO_IsConsistentVolumeNamingEnabled m)\<rparr>
    | _ \<Rightarrow> None)"

text \<open>The plugins of the actual details are all compared as soon as the desired ones name one. \<open>sort.Slice\<close> leaves the order
  of plugins with the same name and state open; they differ at most by a missing and an empty name.\<close>

definition pluginKey :: "comparablePluginConfig \<Rightarrow> string \<times> string" where
  "pluginKey p = (ToString (CmpPl_Name p), CmpPl_DesiredState p)"

definition comparablePlugins :: "InstanceAgentPluginConfig list \<Rightarrow> comparablePluginConfig list" where
  "comparablePlugins ps = sort_key pluginKey
     (map (\<lambda>p. \<lparr>CmpPl_Name = Plugin_Name p, CmpPl_DesiredState = Plugin_DesiredState p\<rparr>) ps)"

definition pluginSlice :: "SdkAgentConfig \<Rightarrow> InstanceAgentPluginConfig list" where
  "pluginSlice a = (case SdkAgent_PluginsConfig a of None \<Rightarrow> [] | Some ps \<Rightarrow> ps)"

definition zero_comparableAgentConfig :: comparableAgentConfig where
  "zero_comparableAgentConfig = \<lparr>CmpA_IsMonitoringDisabled = None, CmpA_IsManagementDisabled = None,
     CmpA_AreAllPluginsDisabled = None, CmpA_PluginsConfig = None\<rparr>"

definition projectAgentConfig :: "SdkAgentConfig option \<Rightarrow> SdkAgentConfig option \<Rightarrow> comparableAgentConfig option" where
  "projectAgentConfig in' mask' = (case (in', mask') of
      (Some a, Some m) \<Rightarrow> nonzero zero_comparableAgentConfig
        \<lparr>CmpA_IsMonitoringDisabled = pickDefaultFalseBool (SdkAgent_IsMonitoringDisabled a) (SdkAgent_IsMonitoringDisabled m),
         CmpA_IsManagementDisabled = pickDefaultFalseBool (SdkAgent_IsManagementDisabled a) (SdkAgent_IsManagementDisabled m),
         CmpA_AreAllPluginsDisabled = pickDefaultFalseBool (SdkAgent_AreAllPluginsDisabled a) (SdkAgent_AreAllPluginsDisabled m),
         CmpA_PluginsConfig =
           (if length (pluginSlice m) > 0
            then (let plugins = comparablePlugins (pluginSlice a) in if length plugins = 0 then None else Some plugins)
            else None)\<rparr>
    | _ \<Rightarrow> None)"

definition projectInstanceOptions :: "InstanceOptions option \<Rightarrow> InstanceOptions option \<Rightarrow> comparableInstanceOptions option" where
  "projectInstanceOptions in' mask' = (case (in', mask') of
      (Some a, Some m) \<Rightarrow> nonzero \<lparr>CmpO_AreLegacyIMDSEndpointsDisabled = None\<rparr>
        \<lparr>CmpO_AreLegacyIMDSEndpointsDisabled =
           pickDefaultFalseBool (IO_AreLegacyImdsEndpointsDisabled a) (IO_AreLegacyImdsEndpointsDisabled m)\<rparr>
    | _ \<Rightarrow> None)"

definition projectAvailabilityConfig ::
  "LaunchInstanceAvailabilityConfig option \<Rightarrow> LaunchInstanceAvailabilityConfig option \<Rightarrow> comparableAvailabilityConfig option" where
  "projectAvailabilityConfig in' mask' = (case (in', mask') of
      (Some a, Some m) \<Rightarrow> nonzero \<lparr>CmpAv_IsLiveMigrationPreferred = None, CmpAv_RecoveryAction = ''''\<rparr>
        \<lparr>CmpAv_IsLiveMigrationPreferred = pickBool (AC_IsLiveMigrationPreferred a) (AC_IsLiveMigrationPreferred m),
         CmpAv_RecoveryAction = pickEnum (AC_RecoveryAction a) (AC_RecoveryAction m)\<rparr>
    | _ \<Rightarrow> None)"

definition projectPreemptibleInstanceConfig ::
  "PreemptibleInstanceConfig option \<Rightarrow> PreemptibleInstanceConfig option \<Rightarrow> comparablePreemptibleInstanceConfig option" where
  "projectPreemptibleInstanceConfig in' mask' = (case (in', mask') of
      (Some a, Some m) \<Rightarrow> (case (PIC_TerminatePreemptionAction m, PIC_TerminatePreemptionAction a) of
          (Some desiredAction, Some actualAction) \<Rightarrow> nonzero \<lparr>CmpPr_PreserveBootVolume = None\<rparr>
            \<lparr>CmpPr_PreserveBootVolume =
               pickDefaultFalseBool (TPA_PreserveBootVolume actualAction) (TPA_PreserveBootVolume desiredAction)\<rparr>
        | _ \<Rightarrow> None)
    | _ \<Rightarrow> None)"

definition projectLaunchDetails :: "IcLaunchDetails option \<Rightarrow> IcLaunchDetails option \<Rightarrow> comparableLaunchDetails option" where
  "projectLaunchDetails in' mask' = (case in' of
      None \<Rightarrow> None
    | Some a \<Rightarrow> (let m = (case mask' of None \<Rightarrow> a | Some d \<Rightarrow> d) in Some
        \<lparr>Cmp_CapacityReservationID = pickString (ICL_CapacityReservationId a) (ICL_CapacityReservationId m),
         Cmp_CompartmentID = pickString (ICL_CompartmentId a) (ICL_CompartmentId m),
         Cmp_CreateVnicDetails = projectCreateVnicDetails (ICL_CreateVnicDetails a) (ICL_CreateVnicDetails m),
         Cmp_FreeformTags = normalizeFreeformTags (ICL_FreeformTags a),
         Cmp_DefinedTags = normalizeDefinedTags (ICL_DefinedTags a),
         Cmp_Metadata = normalizeMetadata (pickMetadata (ICL_Metadata a) (ICL_Metadata m)),
         Cmp_ExtendedMetadata = pickExtendedMetadata (ICL_ExtendedMetadata a) (ICL_ExtendedMetadata m),
         Cmp_Shape = pickString (ICL_Shape a) (ICL_Shape m),
         Cmp_ShapeConfig = projectShapeConfig (ICL_ShapeConfig a) (ICL_ShapeConfig m),
         Cmp_PlatformConfig = projectPlatformConfig (ICL_PlatformConfig a) (ICL_PlatformConfig m),
         Cmp_SourceDetails = projectSourceDetails (ICL_SourceDetails a) (ICL_SourceDetails m),
         Cmp_DedicatedVMHostID = pickString (ICL_DedicatedVmHostId a) (ICL_DedicatedVmHostId m),
         Cmp_LaunchOptions = projectLaunchOptions (ICL_LaunchOptions a) (ICL_LaunchOptions m),
         Cmp_AgentConfig = projectAgentConfig (ICL_AgentConfig a) (ICL_AgentConfig m),
         Cmp_IsPVEncryptionInTransitEnabled =
           pickDefaultFalseBool (ICL_IsPvEncryptionInTransitEnabled a) (ICL_IsPvEncryptionInTransitEnabled m),
         Cmp_InstanceOptions = projectInstanceOptions (ICL_InstanceOptions a) (ICL_InstanceOptions m),
         Cmp_AvailabilityConfig = projectAvailabilityConfig (ICL_AvailabilityConfig a) (ICL_AvailabilityConfig m),
         Cmp_PreemptibleInstanceConfig =
           projectPreemptibleInstanceConfig (ICL_PreemptibleInstanceConfig a) (ICL_PreemptibleInstanceConfig m)\<rparr>))"

section \<open>Hashes\<close>

record HashLib =
  hl_Marshal :: "comparableLaunchDetails option \<Rightarrow> goerr + string"
  hl_Sha256 :: "string \<Rightarrow> string"

definition computeProjectedHash :: "HashLib \<Rightarrow> comparableLaunchDetails option \<Rightarrow> goerr + string" where
  "computeProjectedHash h projected = (case hl_Marshal h projected of
      Inl err \<Rightarrow> Inl (ErrWrap ''marshal normalized launch details'' err)
    | Inr b \<Rightarrow> Inr (hl_Sha256 h b))"

definition ComputeHash :: "HashLib \<Rightarrow> IcLaunchDetails option \<Rightarrow> goerr + string" where
  "ComputeHash h ld = computeProjectedHash h (projectLaunchDetails ld ld)"

definition ComputeComparableHash :: "HashLib \<Rightarrow> IcLaunchDetails option \<Rightarrow> IcLaunchDetails option \<Rightarrow> goerr + string" where
  "ComputeComparableHash h actual desired = computeProjectedHash h (projectLaunchDetails actual desired)"

definition ComputeUserDataHash :: "HashLib \<Rightarrow> tags \<Rightarrow> string" where
  "ComputeUserDataHash h metadata = (case metadata ''user_data'' of None \<Rightarrow> '''' | Some ud \<Rightarrow> hl_Sha256 h ud)"

section \<open>User data without the discovery token\<close>

definition is_blank :: "char \<Rightarrow> bool" where
  "is_blank c \<longleftrightarrow> c = CHR '' '' \<or> c = CHR 0x09"

definition leadingIndentWidth :: "string \<Rightarrow> nat" where
  "leadingIndentWidth s = length s - length (dropWhile is_blank s)"

text \<open>The loop over the lines; an indentation that is not set is \<open>None\<close> where the code has -1.\<close>

definition leaveSection :: "nat \<Rightarrow> nat option \<Rightarrow> nat option" where
  "leaveSection indent opened = (case opened of Some i \<Rightarrow> if indent \<le> i then None else Some i | None \<Rightarrow> None)"

definition redactLine :: "nat option \<Rightarrow> nat option \<Rightarrow> string \<Rightarrow> string \<times> nat option \<times> nat option" where
  "redactLine discoveryIndent bootstrapTokenIndent line =
     (let trimmed = TrimSpace line in
      if trimmed = '''' \<or> HasPrefix trimmed ''#'' then (line, discoveryIndent, bootstrapTokenIndent)
      else
        let indent = leadingIndentWidth line;
            bt = leaveSection indent bootstrapTokenIndent;
            di = leaveSection indent discoveryIndent in
        if trimmed = ''discovery:'' then (line, Some indent, bt)
        else if di \<noteq> None \<and> indent > the di \<and> trimmed = ''bootstrapToken:'' then (line, di, Some indent)
        else if bt \<noteq> None \<and> indent > the bt \<and> HasPrefix trimmed ''token:''
        then (take indent line @ ''token: <redacted>'', di, bt)
        else (line, di, bt))"

fun redactTokens :: "nat option \<Rightarrow> nat option \<Rightarrow> string list \<Rightarrow> string list" where
  "redactTokens discoveryIndent bootstrapTokenIndent [] = []"
| "redactTokens discoveryIndent bootstrapTokenIndent (line # lines) =
     (case redactLine discoveryIndent bootstrapTokenIndent line of
        (out, di, bt) \<Rightarrow> out # redactTokens di bt lines)"

abbreviation newline :: char where "newline \<equiv> CHR 0x0A"

definition normalizeKubeadmDiscoveryBootstrapToken :: "string \<Rightarrow> string" where
  "normalizeKubeadmDiscoveryBootstrapToken cloudInitData =
     Join (redactTokens None None (Split newline cloudInitData)) [newline]"

definition normalizeUserDataForHash :: "string \<Rightarrow> string" where
  "normalizeUserDataForHash userData = (case DecodeString userData of
      None \<Rightarrow> userData
    | Some normalized \<Rightarrow>
        if \<not> Contains normalized ''kind: JoinConfiguration'' \<or> \<not> Contains normalized ''bootstrapToken:'' then normalized
        else normalizeKubeadmDiscoveryBootstrapToken normalized)"

definition ComputeUserDataHashIgnoringKubeadmToken :: "HashLib \<Rightarrow> tags \<Rightarrow> string" where
  "ComputeUserDataHashIgnoringKubeadmToken h metadata = (case metadata ''user_data'' of
      None \<Rightarrow> ''''
    | Some ud \<Rightarrow> hl_Sha256 h (normalizeUserDataForHash ud))"


section \<open>When the hashes agree\<close>

text \<open>What it means that actual launch details implement the desired ones. A plain field that the desired details set has the
  desired value in the actual ones; a boolean flag that they set has the desired value, an absent flag of the actual details counting as
  false; a desired struct is compared with the actual one field by field, an absent actual struct counting as the empty one, so that a
  struct all of whose flags are false or absent (a preemptible configuration that does not preserve the boot volume) also
  matches its absence; the platform configuration and the image source have to be of the same kind; the security groups and the
  plugins, where the desired details have any, agree up to order. The freeform tags and the extended metadata are equal on both sides, and so are the
  defined tags up to namespaces without tags. Of the metadata the keys of the desired details are compared, \<open>user_data\<close> aside, which has
  a hash of its own. The display names of the instance and of the VNIC are not compared. Whatever else the desired details leave
  open may have any value: these are the defaults that the service fills in.\<close>

definition same_where_set :: "'a option \<Rightarrow> 'a option \<Rightarrow> bool" where
  "same_where_set desired actual \<longleftrightarrow> desired = None \<or> actual = desired"

definition same_flag :: "bool option \<Rightarrow> bool option \<Rightarrow> bool" where
  "same_flag desired actual \<longleftrightarrow> desired = None \<or> ToBool actual = ToBool desired"

definition same_enum :: "string \<Rightarrow> string \<Rightarrow> bool" where
  "same_enum desired actual \<longleftrightarrow> desired = '''' \<or> actual = desired"

definition used_namespaces :: "defined_tags \<Rightarrow> defined_tags" where
  "used_namespaces tgs = (\<lambda>ns. case tgs ns of None \<Rightarrow> None | Some vs \<Rightarrow> if vs = Map.empty then None else Some vs)"

text \<open>A struct is compared where the desired one is present.\<close>

definition struct_matches :: "'a \<Rightarrow> ('a \<Rightarrow> 'a \<Rightarrow> bool) \<Rightarrow> 'a option \<Rightarrow> 'a option \<Rightarrow> bool" where
  "struct_matches zero P desired actual = (case desired of
      None \<Rightarrow> True
    | Some d \<Rightarrow> P d (case actual of None \<Rightarrow> zero | Some a \<Rightarrow> a))"

definition vnic_matches :: "IcVnicDetails \<Rightarrow> IcVnicDetails \<Rightarrow> bool" where
  "vnic_matches d a \<longleftrightarrow>
     same_flag (ICV_AssignIpv6Ip d) (ICV_AssignIpv6Ip a) \<and> same_flag (ICV_AssignPublicIp d) (ICV_AssignPublicIp a) \<and>
     same_where_set (ICV_AssignPrivateDnsRecord d) (ICV_AssignPrivateDnsRecord a) \<and>
     ICV_FreeformTags a = ICV_FreeformTags d \<and>
     used_namespaces (ICV_DefinedTags a) = used_namespaces (ICV_DefinedTags d) \<and>
     same_where_set (ICV_HostnameLabel d) (ICV_HostnameLabel a) \<and>
     (ICV_NsgIds d = [] \<or> mset (ICV_NsgIds a) = mset (ICV_NsgIds d)) \<and>
     same_where_set (ICV_PrivateIp d) (ICV_PrivateIp a) \<and>
     same_flag (ICV_SkipSourceDestCheck d) (ICV_SkipSourceDestCheck a) \<and>
     same_where_set (ICV_SubnetId d) (ICV_SubnetId a)"

definition zero_IcVnicDetails :: IcVnicDetails where
  "zero_IcVnicDetails = \<lparr>ICV_AssignIpv6Ip = None, ICV_AssignPublicIp = None, ICV_AssignPrivateDnsRecord = None,
     ICV_FreeformTags = Map.empty, ICV_DefinedTags = Map.empty, ICV_DisplayName = None, ICV_HostnameLabel = None,
     ICV_NsgIds = [], ICV_PrivateIp = None, ICV_SkipSourceDestCheck = None, ICV_SubnetId = None\<rparr>"

definition shape_matches :: "IcShapeConfig \<Rightarrow> IcShapeConfig \<Rightarrow> bool" where
  "shape_matches d a \<longleftrightarrow>
     same_where_set (ICS_Ocpus d) (ICS_Ocpus a) \<and> same_where_set (ICS_MemoryInGBs d) (ICS_MemoryInGBs a) \<and>
     same_where_set (ICS_Vcpus d) (ICS_Vcpus a) \<and> same_where_set (ICS_Nvmes d) (ICS_Nvmes a) \<and>
     same_enum (ICS_BaselineOcpuUtilization d) (ICS_BaselineOcpuUtilization a)"

definition zero_IcShapeConfig :: IcShapeConfig where
  "zero_IcShapeConfig = \<lparr>ICS_Ocpus = None, ICS_MemoryInGBs = None, ICS_Vcpus = None, ICS_Nvmes = None,
     ICS_BaselineOcpuUtilization = ''''\<rparr>"

definition options_match :: "LaunchOptions \<Rightarrow> LaunchOptions \<Rightarrow> bool" where
  "options_match d a \<longleftrightarrow>
     same_enum (LO_BootVolumeType d) (LO_BootVolumeType a) \<and> same_enum (LO_Firmware d) (LO_Firmware a) \<and>
     same_enum (LO_NetworkType d) (LO_NetworkType a) \<and> same_enum (LO_RemoteDataVolumeType d) (LO_RemoteDataVolumeType a) \<and>
     same_flag (LO_IsConsistentVolumeNamingEnabled d) (LO_IsConsistentVolumeNamingEnabled a)"

definition zero_LaunchOptions :: LaunchOptions where
  "zero_LaunchOptions = \<lparr>LO_BootVolumeType = '''', LO_Firmware = '''', LO_NetworkType = '''', LO_RemoteDataVolumeType = '''',
     LO_IsConsistentVolumeNamingEnabled = None\<rparr>"

definition agent_matches :: "SdkAgentConfig \<Rightarrow> SdkAgentConfig \<Rightarrow> bool" where
  "agent_matches d a \<longleftrightarrow>
     same_flag (SdkAgent_IsMonitoringDisabled d) (SdkAgent_IsMonitoringDisabled a) \<and>
     same_flag (SdkAgent_IsManagementDisabled d) (SdkAgent_IsManagementDisabled a) \<and>
     same_flag (SdkAgent_AreAllPluginsDisabled d) (SdkAgent_AreAllPluginsDisabled a) \<and>
     (pluginSlice d = [] \<or> comparablePlugins (pluginSlice a) = comparablePlugins (pluginSlice d))"

definition zero_SdkAgentConfig :: SdkAgentConfig where
  "zero_SdkAgentConfig = \<lparr>SdkAgent_IsMonitoringDisabled = None, SdkAgent_IsManagementDisabled = None,
     SdkAgent_AreAllPluginsDisabled = None, SdkAgent_PluginsConfig = None\<rparr>"

definition instance_options_match :: "InstanceOptions \<Rightarrow> InstanceOptions \<Rightarrow> bool" where
  "instance_options_match d a \<longleftrightarrow> same_flag (IO_AreLegacyImdsEndpointsDisabled d) (IO_AreLegacyImdsEndpointsDisabled a)"

definition availability_matches :: "LaunchInstanceAvailabilityConfig \<Rightarrow> LaunchInstanceAvailabilityConfig \<Rightarrow> bool" where
  "availability_matches d a \<longleftrightarrow> same_where_set (AC_IsLiveMigrationPreferred d) (AC_IsLiveMigrationPreferred a) \<and>
     same_enum (AC_RecoveryAction d) (AC_RecoveryAction a)"

definition preemption_matches :: "PreemptibleInstanceConfig option \<Rightarrow> PreemptibleInstanceConfig option \<Rightarrow> bool" where
  "preemption_matches desired actual = (case Option.bind desired PIC_TerminatePreemptionAction of
      None \<Rightarrow> True
    | Some d \<Rightarrow> same_flag (TPA_PreserveBootVolume d)
        (Option.bind (Option.bind actual PIC_TerminatePreemptionAction) TPA_PreserveBootVolume))"

definition vm_matches :: "'z VmPlatformConfig_scheme \<Rightarrow> 'z VmPlatformConfig_scheme \<Rightarrow> bool" where
  "vm_matches d a \<longleftrightarrow>
     same_flag (VP_IsSecureBootEnabled d) (VP_IsSecureBootEnabled a) \<and>
     same_flag (VP_IsTrustedPlatformModuleEnabled d) (VP_IsTrustedPlatformModuleEnabled a) \<and>
     same_flag (VP_IsMeasuredBootEnabled d) (VP_IsMeasuredBootEnabled a) \<and>
     same_flag (VP_IsMemoryEncryptionEnabled d) (VP_IsMemoryEncryptionEnabled a)"

definition rome_matches :: "'z AmdRomeBmGpuPlatformConfig_scheme \<Rightarrow> 'z AmdRomeBmGpuPlatformConfig_scheme \<Rightarrow> bool" where
  "rome_matches d a \<longleftrightarrow> vm_matches d a \<and>
     same_flag (AR_IsSymmetricMultiThreadingEnabled d) (AR_IsSymmetricMultiThreadingEnabled a) \<and>
     same_flag (AR_IsAccessControlServiceEnabled d) (AR_IsAccessControlServiceEnabled a) \<and>
     same_flag (AR_AreVirtualInstructionsEnabled d) (AR_AreVirtualInstructionsEnabled a) \<and>
     same_flag (AR_IsInputOutputMemoryManagementUnitEnabled d) (AR_IsInputOutputMemoryManagementUnitEnabled a) \<and>
     same_enum (AR_NumaNodesPerSocket d) (AR_NumaNodesPerSocket a)"

definition rome_bm_matches :: "AmdRomeBmPlatformConfig \<Rightarrow> AmdRomeBmPlatformConfig \<Rightarrow> bool" where
  "rome_bm_matches d a \<longleftrightarrow> rome_matches d a \<and> same_where_set (AR_PercentageOfCoresEnabled d) (AR_PercentageOfCoresEnabled a)"

definition icelake_matches :: "IntelIcelakeBmPlatformConfig \<Rightarrow> IntelIcelakeBmPlatformConfig \<Rightarrow> bool" where
  "icelake_matches d a \<longleftrightarrow> vm_matches d a \<and>
     same_flag (IC_IsSymmetricMultiThreadingEnabled d) (IC_IsSymmetricMultiThreadingEnabled a) \<and>
     same_flag (IC_IsInputOutputMemoryManagementUnitEnabled d) (IC_IsInputOutputMemoryManagementUnitEnabled a) \<and>
     same_where_set (IC_PercentageOfCoresEnabled d) (IC_PercentageOfCoresEnabled a) \<and>
     same_enum (IC_NumaNodesPerSocket d) (IC_NumaNodesPerSocket a)"

fun sdk_platform_matches :: "SdkPlatformConfig \<Rightarrow> SdkPlatformConfig \<Rightarrow> bool" where
  "sdk_platform_matches (SdkAmdRomeBmGpu d) (SdkAmdRomeBmGpu a) = rome_matches d a"
| "sdk_platform_matches (SdkAmdRomeBm d) (SdkAmdRomeBm a) = rome_bm_matches d a"
| "sdk_platform_matches (SdkIntelIcelakeBm d) (SdkIntelIcelakeBm a) = icelake_matches d a"
| "sdk_platform_matches (SdkAmdVm d) (SdkAmdVm a) = vm_matches d a"
| "sdk_platform_matches (SdkIntelVm d) (SdkIntelVm a) = vm_matches d a"
| "sdk_platform_matches (SdkIntelSkylakeBm d) (SdkIntelSkylakeBm a) = vm_matches d a"
| "sdk_platform_matches (SdkAmdMilanBm d) (SdkAmdMilanBm a) = rome_bm_matches d a"
| "sdk_platform_matches _ _ = False"

definition platform_matches :: "IcPlatformConfig option \<Rightarrow> IcPlatformConfig option \<Rightarrow> bool" where
  "platform_matches desired actual = (case desired of
      Some (IcPlatform d) \<Rightarrow> (case actual of Some (IcPlatform a) \<Rightarrow> sdk_platform_matches d a | _ \<Rightarrow> False)
    | _ \<Rightarrow> True)"

definition image_matches :: "PoolImageConfig \<Rightarrow> PoolImageConfig \<Rightarrow> bool" where
  "image_matches d a \<longleftrightarrow> same_where_set (PIm_ImageId d) (PIm_ImageId a) \<and> same_where_set (PIm_KmsKeyId d) (PIm_KmsKeyId a) \<and>
     same_where_set (PIm_BootVolumeSizeInGBs d) (PIm_BootVolumeSizeInGBs a) \<and>
     same_where_set (PIm_BootVolumeVpusPerGB d) (PIm_BootVolumeVpusPerGB a)"

definition source_matches :: "IcSourceDetails option \<Rightarrow> IcSourceDetails option \<Rightarrow> bool" where
  "source_matches desired actual = (case desired of
      Some (IcViaImage d) \<Rightarrow> (case actual of Some (IcViaImage a) \<Rightarrow> image_matches d a | _ \<Rightarrow> False)
    | _ \<Rightarrow> True)"

definition launch_matches :: "IcLaunchDetails \<Rightarrow> IcLaunchDetails \<Rightarrow> bool" where
  "launch_matches d a \<longleftrightarrow>
     same_where_set (ICL_CapacityReservationId d) (ICL_CapacityReservationId a) \<and>
     same_where_set (ICL_CompartmentId d) (ICL_CompartmentId a) \<and>
     struct_matches zero_IcVnicDetails vnic_matches (ICL_CreateVnicDetails d) (ICL_CreateVnicDetails a) \<and>
     ICL_FreeformTags a = ICL_FreeformTags d \<and>
     used_namespaces (ICL_DefinedTags a) = used_namespaces (ICL_DefinedTags d) \<and>
     (\<forall>k. k \<noteq> ''user_data'' \<longrightarrow> same_where_set (ICL_Metadata d k) (ICL_Metadata a k)) \<and>
     ICL_ExtendedMetadata a = ICL_ExtendedMetadata d \<and>
     same_where_set (ICL_Shape d) (ICL_Shape a) \<and>
     struct_matches zero_IcShapeConfig shape_matches (ICL_ShapeConfig d) (ICL_ShapeConfig a) \<and>
     platform_matches (ICL_PlatformConfig d) (ICL_PlatformConfig a) \<and>
     source_matches (ICL_SourceDetails d) (ICL_SourceDetails a) \<and>
     same_where_set (ICL_DedicatedVmHostId d) (ICL_DedicatedVmHostId a) \<and>
     struct_matches zero_LaunchOptions options_match (ICL_LaunchOptions d) (ICL_LaunchOptions a) \<and>
     struct_matches zero_SdkAgentConfig agent_matches (ICL_AgentConfig d) (ICL_AgentConfig a) \<and>
     same_flag (ICL_IsPvEncryptionInTransitEnabled d) (ICL_IsPvEncryptionInTransitEnabled a) \<and>
     struct_matches \<lparr>IO_AreLegacyImdsEndpointsDisabled = None\<rparr> instance_options_match
       (ICL_InstanceOptions d) (ICL_InstanceOptions a) \<and>
     struct_matches \<lparr>AC_IsLiveMigrationPreferred = None, AC_RecoveryAction = ''''\<rparr> availability_matches
       (ICL_AvailabilityConfig d) (ICL_AvailabilityConfig a) \<and>
     preemption_matches (ICL_PreemptibleInstanceConfig d) (ICL_PreemptibleInstanceConfig a)"

subsection \<open>Field by field\<close>

lemma nonzero_eq: "nonzero z x = nonzero z y \<longleftrightarrow> x = y" and nonzero_None: "None = nonzero z y \<longleftrightarrow> y = z"
  by (auto simp: nonzero_def)

lemma pick_eq_iff:
  "pickString a m = pickString m m \<longleftrightarrow> same_where_set m a"
  "pickBool b n = pickBool n n \<longleftrightarrow> same_where_set n b"
  "pickFloat32 a m = pickFloat32 m m \<longleftrightarrow> same_where_set m a"
  "pickInt i j = pickInt j j \<longleftrightarrow> same_where_set j i"
  "pickInt64 i j = pickInt64 j j \<longleftrightarrow> same_where_set j i"
  "pickDefaultFalseBool b n = pickDefaultFalseBool n n \<longleftrightarrow> same_flag n b"
  "pickEnum e f = pickEnum f f \<longleftrightarrow> same_enum f e"
  by (auto simp: pickString_def pickBool_def pickFloat32_def pickInt_def pickInt64_def pickDefaultFalseBool_def
      pickEnum_def same_where_set_def same_flag_def same_enum_def ToBool_def split: option.splits)

text \<open>Picking from the empty struct gives the empty struct.\<close>

lemma pick_zero:
  "pickString None m = None" "pickBool None n = None" "pickFloat32 None m = None" "pickInt None j = None"
  "pickInt64 None j = None" "pickDefaultFalseBool None n = None" "pickEnum '''' f = ''''"
  by (simp_all add: pickString_def pickBool_def pickFloat32_def pickInt_def pickInt64_def pickDefaultFalseBool_def pickEnum_def)

lemma normalizeFreeformTags_eq: "normalizeFreeformTags = nonzero Map.empty"
  by (rule ext) (simp add: normalizeFreeformTags_def nonzero_def)

lemma normalizeDefinedTags_eq: "normalizeDefinedTags t = nonzero Map.empty (used_namespaces t)"
  by (auto simp: normalizeDefinedTags_def nonzero_def used_namespaces_def Let_def)

lemma normalizeMetadata_pick:
  "normalizeMetadata (pickMetadata a m) =
   nonzero Map.empty (\<lambda>k. if k = ''user_data'' \<or> m k = None then None else a k)"
proof -
  have eq: "(\<lambda>k. if k = ''user_data'' then None else if m k \<noteq> None then a k else None) =
      (\<lambda>k. if k = ''user_data'' \<or> m k = None then None else a k)" by auto
  show ?thesis
  proof (cases "(\<lambda>k. if m k \<noteq> None then a k else None) = Map.empty")
    case True
    then have "(\<lambda>k. if k = ''user_data'' \<or> m k = None then None else a k) = Map.empty"
      unfolding fun_eq_iff by (metis option.exhaust)
    with True show ?thesis by (auto simp: normalizeMetadata_def pickMetadata_def nonzero_def)
  next
    case False
    then have "m \<noteq> Map.empty" by auto
    with False show ?thesis
      by (simp add: normalizeMetadata_def pickMetadata_def nonzero_def Let_def eq del: not_None_eq)
  qed
qed

lemma metadata_eq_iff:
  "normalizeMetadata (pickMetadata a m) = normalizeMetadata (pickMetadata m m) \<longleftrightarrow>
   (\<forall>k. k \<noteq> ''user_data'' \<longrightarrow> same_where_set (m k) (a k))"
  unfolding normalizeMetadata_pick nonzero_eq same_where_set_def fun_eq_iff by auto

lemma metadata_user_data: "normalizeMetadata (pickMetadata (a(''user_data'' := u)) m) = normalizeMetadata (pickMetadata a m)"
  unfolding normalizeMetadata_pick by (auto simp: fun_eq_iff intro!: arg_cong [where f = "nonzero _"])

lemma nsgs_eq_iff:
  "map_option sort (pickStrings a m) = map_option sort (pickStrings m m) \<longleftrightarrow> m = [] \<or> mset a = mset m"
  by (auto simp: pickStrings_def) (metis mset_sort, metis properties_for_sort sorted_sort mset_sort)

lemma comparablePlugins_Nil [simp]: "comparablePlugins [] = []" "comparablePlugins ps = [] \<longleftrightarrow> ps = []"
    "[] = comparablePlugins ps \<longleftrightarrow> ps = []"
  by (auto simp: comparablePlugins_def) (metis length_0_conv length_map length_sort)+


subsection \<open>Struct by struct\<close>

lemmas zero_structs = zero_comparableCreateVnicDetails_def zero_comparableShapeConfig_def zero_comparableLaunchOptions_def
  zero_comparableAgentConfig_def zero_IcVnicDetails_def zero_IcShapeConfig_def zero_LaunchOptions_def zero_SdkAgentConfig_def

lemma used_namespaces_empty [simp]: "used_namespaces Map.empty = Map.empty"
  by (simp add: used_namespaces_def)

text \<open>A projection that compares a struct by picking its fields is the same for the actual and the desired struct exactly
  when the fields match.\<close>

lemma project_struct_iff:
  assumes proj: "\<And>a m. project (Some a) (Some m) = nonzero z (pick a m)"
    and none: "\<And>x. project x None = None" "\<And>m. project None (Some m) = None"
    and eq: "\<And>a m. pick a m = pick m m \<longleftrightarrow> P m a" and zero: "\<And>m. pick zero m = z"
  shows "project a m = project m m \<longleftrightarrow> struct_matches zero P m a"
proof (cases m)
  case (Some d)
  show ?thesis
  proof (cases a)
    case None
    from eq [of zero d] zero have "z = pick d d \<longleftrightarrow> P d zero" by simp
    then show ?thesis by (auto simp: Some None none proj nonzero_None struct_matches_def)
  qed (simp add: Some proj nonzero_eq eq struct_matches_def)
qed (simp add: none struct_matches_def)

lemma vnic_project_iff:
  "projectCreateVnicDetails a m = projectCreateVnicDetails m m \<longleftrightarrow> struct_matches zero_IcVnicDetails vnic_matches m a"
proof (rule project_struct_iff [where z = zero_comparableCreateVnicDetails and pick = "\<lambda>a m.
        \<lparr>CmpV_AssignIPv6IP = pickDefaultFalseBool (ICV_AssignIpv6Ip a) (ICV_AssignIpv6Ip m),
         CmpV_AssignPublicIP = pickDefaultFalseBool (ICV_AssignPublicIp a) (ICV_AssignPublicIp m),
         CmpV_AssignPrivateDNSRecord = pickBool (ICV_AssignPrivateDnsRecord a) (ICV_AssignPrivateDnsRecord m),
         CmpV_FreeformTags = normalizeFreeformTags (ICV_FreeformTags a),
         CmpV_DefinedTags = normalizeDefinedTags (ICV_DefinedTags a),
         CmpV_HostnameLabel = pickString (ICV_HostnameLabel a) (ICV_HostnameLabel m),
         CmpV_NSGIDs = map_option sort (pickStrings (ICV_NsgIds a) (ICV_NsgIds m)),
         CmpV_PrivateIP = pickString (ICV_PrivateIp a) (ICV_PrivateIp m),
         CmpV_SkipSourceDestCheck = pickDefaultFalseBool (ICV_SkipSourceDestCheck a) (ICV_SkipSourceDestCheck m),
         CmpV_SubnetID = pickString (ICV_SubnetId a) (ICV_SubnetId m)\<rparr>"], goal_cases)
  case (4 a m)
  show ?case
    by (simp add: pick_eq_iff nsgs_eq_iff normalizeFreeformTags_eq normalizeDefinedTags_eq nonzero_eq vnic_matches_def)
next
  case (5 m)
  show ?case
    by (simp add: zero_structs pick_zero normalizeFreeformTags_eq normalizeDefinedTags_eq nonzero_def pickStrings_def)
qed (simp_all add: projectCreateVnicDetails_def split: option.split)

lemma shape_project_iff:
  "projectShapeConfig a m = projectShapeConfig m m \<longleftrightarrow> struct_matches zero_IcShapeConfig shape_matches m a"
  by (rule project_struct_iff [where pick = "\<lambda>a m.
        \<lparr>CmpS_OCPUs = pickFloat32 (ICS_Ocpus a) (ICS_Ocpus m),
         CmpS_MemoryInGBs = pickFloat32 (ICS_MemoryInGBs a) (ICS_MemoryInGBs m),
         CmpS_VCPUs = pickInt (ICS_Vcpus a) (ICS_Vcpus m), CmpS_NVMEs = pickInt (ICS_Nvmes a) (ICS_Nvmes m),
         CmpS_BaselineOCPUUtilization = pickEnum (ICS_BaselineOcpuUtilization a) (ICS_BaselineOcpuUtilization m)\<rparr>"])
    (auto simp: projectShapeConfig_def pick_eq_iff shape_matches_def zero_structs pick_zero split: option.splits)

lemma options_project_iff:
  "projectLaunchOptions a m = projectLaunchOptions m m \<longleftrightarrow> struct_matches zero_LaunchOptions options_match m a"
  by (rule project_struct_iff [where pick = "\<lambda>a m.
        \<lparr>CmpL_BootVolumeType = pickEnum (LO_BootVolumeType a) (LO_BootVolumeType m),
         CmpL_Firmware = pickEnum (LO_Firmware a) (LO_Firmware m),
         CmpL_NetworkType = pickEnum (LO_NetworkType a) (LO_NetworkType m),
         CmpL_RemoteDataVolumeType = pickEnum (LO_RemoteDataVolumeType a) (LO_RemoteDataVolumeType m),
         CmpL_IsConsistentVolumeNamingEnabled =
           pickDefaultFalseBool (LO_IsConsistentVolumeNamingEnabled a) (LO_IsConsistentVolumeNamingEnabled m)\<rparr>"])
    (auto simp: projectLaunchOptions_def pick_eq_iff options_match_def zero_structs pick_zero split: option.splits)

lemma agent_project_iff:
  "projectAgentConfig a m = projectAgentConfig m m \<longleftrightarrow> struct_matches zero_SdkAgentConfig agent_matches m a"
  by (rule project_struct_iff [where pick = "\<lambda>a m.
        \<lparr>CmpA_IsMonitoringDisabled = pickDefaultFalseBool (SdkAgent_IsMonitoringDisabled a) (SdkAgent_IsMonitoringDisabled m),
         CmpA_IsManagementDisabled = pickDefaultFalseBool (SdkAgent_IsManagementDisabled a) (SdkAgent_IsManagementDisabled m),
         CmpA_AreAllPluginsDisabled = pickDefaultFalseBool (SdkAgent_AreAllPluginsDisabled a) (SdkAgent_AreAllPluginsDisabled m),
         CmpA_PluginsConfig =
           (if length (pluginSlice m) > 0
            then (let plugins = comparablePlugins (pluginSlice a) in if length plugins = 0 then None else Some plugins)
            else None)\<rparr>"])
    (auto simp: projectAgentConfig_def pick_eq_iff agent_matches_def zero_structs pick_zero pluginSlice_def Let_def
      split: option.splits)

lemma instance_options_project_iff:
  "projectInstanceOptions a m = projectInstanceOptions m m \<longleftrightarrow>
   struct_matches \<lparr>IO_AreLegacyImdsEndpointsDisabled = None\<rparr> instance_options_match m a"
  by (rule project_struct_iff [where pick = "\<lambda>a m. \<lparr>CmpO_AreLegacyIMDSEndpointsDisabled =
        pickDefaultFalseBool (IO_AreLegacyImdsEndpointsDisabled a) (IO_AreLegacyImdsEndpointsDisabled m)\<rparr>"])
    (auto simp: projectInstanceOptions_def pick_eq_iff instance_options_match_def pick_zero split: option.splits)

lemma availability_project_iff:
  "projectAvailabilityConfig a m = projectAvailabilityConfig m m \<longleftrightarrow>
   struct_matches \<lparr>AC_IsLiveMigrationPreferred = None, AC_RecoveryAction = ''''\<rparr> availability_matches m a"
  by (rule project_struct_iff [where pick = "\<lambda>a m.
        \<lparr>CmpAv_IsLiveMigrationPreferred = pickBool (AC_IsLiveMigrationPreferred a) (AC_IsLiveMigrationPreferred m),
         CmpAv_RecoveryAction = pickEnum (AC_RecoveryAction a) (AC_RecoveryAction m)\<rparr>"])
    (auto simp: projectAvailabilityConfig_def pick_eq_iff availability_matches_def pick_zero split: option.splits)

lemma preemption_project_iff:
  "projectPreemptibleInstanceConfig a m = projectPreemptibleInstanceConfig m m \<longleftrightarrow> preemption_matches m a"
  by (auto simp: projectPreemptibleInstanceConfig_def preemption_matches_def nonzero_def pickDefaultFalseBool_def
      same_flag_def ToBool_def split: option.splits)

lemma source_project_iff: "projectSourceDetails a m = projectSourceDetails m m \<longleftrightarrow> source_matches m a"
  by (auto simp: projectSourceDetails_def source_matches_def image_matches_def nonzero_def pick_eq_iff
      split: option.splits IcSourceDetails.splits)

lemma vm_project_iff: "projectVmPlatform ty a d = projectVmPlatform ty d d \<longleftrightarrow> vm_matches d a"
  by (simp add: projectVmPlatform_def vm_matches_def pick_eq_iff)

lemma rome_project_iff: "projectRomePlatform ty a d = projectRomePlatform ty d d \<longleftrightarrow> rome_matches d a"
  by (simp add: projectRomePlatform_def projectVmPlatform_def rome_matches_def vm_matches_def pick_eq_iff)

lemma rome_bm_project_iff: "projectRomeBmPlatform ty a d = projectRomeBmPlatform ty d d \<longleftrightarrow> rome_bm_matches d a"
  by (auto simp add: projectRomeBmPlatform_def projectRomePlatform_def projectVmPlatform_def rome_bm_matches_def
      rome_matches_def vm_matches_def pick_eq_iff)

lemma icelake_project_iff: "projectIcelakePlatform ty a d = projectIcelakePlatform ty d d \<longleftrightarrow> icelake_matches d a"
  by (auto simp add: projectIcelakePlatform_def projectVmPlatform_def icelake_matches_def vm_matches_def pick_eq_iff)

lemmas platform_project_iffs = vm_project_iff rome_project_iff rome_bm_project_iff icelake_project_iff

lemma otherPlatform_type: "CmpP_Type (otherPlatform p) \<noteq> platformTypeName q"
  by (cases p; cases q) (simp_all add: otherPlatform_def)

lemma samePlatform_type: "projectSamePlatform d a = Some r \<Longrightarrow> CmpP_Type r = platformTypeName d"
  by (cases d; cases a)
    (auto simp: projectVmPlatform_def projectRomePlatform_def projectRomeBmPlatform_def projectIcelakePlatform_def)

lemma samePlatform_iff: "projectSamePlatform d a = projectSamePlatform d d \<longleftrightarrow> sdk_platform_matches d a"
  by (cases d; cases a) (simp_all add: platform_project_iffs)

lemma samePlatform_self: "\<exists>r. projectSamePlatform d d = Some r"
  by (cases d) simp_all

lemma platform_project_iff: "projectPlatformConfig a m = projectPlatformConfig m m \<longleftrightarrow> platform_matches m a"
proof (cases "\<exists>d. m = Some (IcPlatform d)")
  case True
  then obtain d where m: "m = Some (IcPlatform d)" by blast
  obtain r where r: "projectSamePlatform d d = Some r" using samePlatform_self by blast
  from samePlatform_type [OF r] otherPlatform_type have ne: "otherPlatform p \<noteq> r" for p by metis
  have same: "sdk_platform_matches d x \<longleftrightarrow> projectSamePlatform d x = Some r" for x
    using samePlatform_iff [of d x] r by simp
  have "projectPlatformConfig a m = Some r \<longleftrightarrow> platform_matches m a"
    using ne
    by (auto simp: same projectPlatformConfig_def platform_matches_def m split: option.splits IcPlatformConfig.splits)
  with m r show ?thesis by (simp add: projectPlatformConfig_def)
qed (auto simp: projectPlatformConfig_def platform_matches_def split: option.splits IcPlatformConfig.splits)

lemma launch_project_iff:
  "projectLaunchDetails (Some actual) (Some desired) = projectLaunchDetails (Some desired) (Some desired) \<longleftrightarrow>
   launch_matches desired actual"
  by (simp add: projectLaunchDetails_def launch_matches_def pick_eq_iff metadata_eq_iff normalizeFreeformTags_eq
      normalizeDefinedTags_eq nonzero_eq pickExtendedMetadata_def vnic_project_iff shape_project_iff platform_project_iff
      source_project_iff options_project_iff agent_project_iff instance_options_project_iff availability_project_iff
      preemption_project_iff)


section \<open>Rotation of the discovery token\<close>

lemma Contains_append: "Contains (p @ sub @ q) sub"
proof (induction p)
  case Nil
  show ?case
  proof (cases "sub @ q")
    case (Cons c cs)
    then have "take (length sub) (c # cs) = sub" by (metis append_eq_conv_conj)
    with Cons show ?thesis by simp
  qed simp
qed simp

lemma Join_infix: "l \<in> set ls \<Longrightarrow> \<exists>p q. Join ls sep = p @ l @ q"
proof (induction ls sep rule: Join.induct)
  case (2 w sep)
  then have "Join [w] sep = [] @ l @ []" by simp
  then show ?case by blast
next
  case (3 w v ws sep)
  then show ?case
  proof (cases "l = w")
    case False
    with 3 obtain p q where "Join (v # ws) sep = p @ l @ q" by auto
    then have "Join (w # v # ws) sep = (w @ sep @ p) @ l @ q" by simp
    then show ?thesis by blast
  qed (auto intro: exI [of _ "[]"])
qed auto

lemma blank_is_space: "is_blank c \<Longrightarrow> is_space c"
  by (auto simp: is_blank_def is_space_def)

lemma TrimSpace_prefix:
  assumes "list_all is_blank i" "p \<noteq> []" "\<not> is_space (hd p)" "\<not> is_space (last p)"
  shows "\<exists>r. TrimSpace (i @ p @ q) = p @ r \<and> (q = [] \<longrightarrow> r = [])"
proof -
  from assms(1) have "\<forall>c \<in> set i. is_space c" by (auto simp: list_all_iff blank_is_space)
  then have "dropWhile is_space (i @ p @ q) = dropWhile is_space (p @ q)" by (simp add: dropWhile_append2)
  also have "\<dots> = p @ q" using assms(2,3) by (cases p) auto
  finally have 1: "dropWhile is_space (i @ p @ q) = p @ q" .
  have 2: "dropWhile is_space (rev p) = rev p"
    using assms(2,4) by (cases p rule: rev_cases) simp_all
  show ?thesis
  proof (cases "\<forall>c \<in> set q. is_space c")
    case True
    then have "dropWhile is_space (rev q @ rev p) = dropWhile is_space (rev p)" by (intro dropWhile_append2) simp
    with 2 have "dropWhile is_space (rev q @ rev p) = rev p" by simp
    with 1 show ?thesis by (simp add: TrimSpace_def)
  next
    case False
    then have "dropWhile is_space (rev q @ rev p) = dropWhile is_space (rev q) @ rev p"
      by (metis dropWhile_append1 set_rev)
    with 1 False show ?thesis by (auto simp: TrimSpace_def)
  qed
qed

lemma leadingIndentWidth_append:
  "list_all is_blank i \<Longrightarrow> p \<noteq> [] \<Longrightarrow> \<not> is_blank (hd p) \<Longrightarrow> leadingIndentWidth (i @ p) = length i"
proof -
  assume "list_all is_blank i" "p \<noteq> []" "\<not> is_blank (hd p)"
  then have "dropWhile is_blank (i @ p) = p"
    by (cases p) (simp_all add: dropWhile_append2 list_all_iff)
  then show ?thesis by (simp add: leadingIndentWidth_def)
qed

text \<open>What the loop does with the lines that follow depends on the lines so far only through the open sections.\<close>

lemma redactTokens_append:
  "\<exists>d b. \<forall>rest. redactTokens di bt (ls @ rest) = redactTokens di bt ls @ redactTokens d b rest"
proof (induction ls arbitrary: di bt)
  case Nil
  show ?case by (rule exI [of _ di], rule exI [of _ bt]) simp
next
  case (Cons l ls)
  obtain out d' b' where step: "redactLine di bt l = (out, d', b')" by (cases "redactLine di bt l")
  obtain d b where "\<And>rest. redactTokens d' b' (ls @ rest) = redactTokens d' b' ls @ redactTokens d b rest"
    using Cons.IH by blast
  with step have "\<forall>rest. redactTokens di bt ((l # ls) @ rest) = redactTokens di bt (l # ls) @ redactTokens d b rest" by simp
  then show ?case by blast
qed

lemma redactLine_discovery:
  assumes "list_all is_blank i"
  shows "redactLine di bt (i @ ''discovery:'') = (i @ ''discovery:'', Some (length i), leaveSection (length i) bt)"
proof -
  have "TrimSpace (i @ ''discovery:'') = ''discovery:''"
    using TrimSpace_prefix [OF assms, of "''discovery:''" "[]"] by (auto simp: is_space_def)
  moreover have "leadingIndentWidth (i @ ''discovery:'') = length i"
    by (rule leadingIndentWidth_append [OF assms]) (simp_all add: is_blank_def)
  ultimately show ?thesis by (simp add: redactLine_def HasPrefix_def Let_def)
qed

lemma redactLine_bootstrapToken:
  assumes "list_all is_blank i" "n < length i"
  shows "redactLine (Some n) bt (i @ ''bootstrapToken:'') = (i @ ''bootstrapToken:'', Some n, Some (length i))"
proof -
  have "TrimSpace (i @ ''bootstrapToken:'') = ''bootstrapToken:''"
    using TrimSpace_prefix [OF assms(1), of "''bootstrapToken:''" "[]"] by (auto simp: is_space_def)
  moreover have "leadingIndentWidth (i @ ''bootstrapToken:'') = length i"
    by (rule leadingIndentWidth_append [OF assms(1)]) (simp_all add: is_blank_def)
  ultimately show ?thesis using assms(2) by (simp add: redactLine_def HasPrefix_def leaveSection_def)
qed

lemma redactLine_token:
  assumes "list_all is_blank i" "n < k" "k < length i"
  shows "redactLine (Some n) (Some k) (i @ ''token: '' @ t) = (i @ ''token: <redacted>'', Some n, Some k)"
proof -
  obtain r where r: "TrimSpace (i @ ''token: '' @ t) = ''token:'' @ r"
    using TrimSpace_prefix [OF assms(1), of "''token:''" "'' '' @ t"] by (auto simp: is_space_def)
  have "leadingIndentWidth (i @ ''token: '' @ t) = length i"
    by (rule leadingIndentWidth_append [OF assms(1)]) (simp_all add: is_blank_def)
  with r assms(2,3) show ?thesis by (simp add: redactLine_def leaveSection_def HasPrefix_def)
qed

text \<open>A line inside the section: blank, a comment, or indented deeper and not the head of another section.\<close>

definition inside_section :: "nat \<Rightarrow> string \<Rightarrow> bool" where
  "inside_section k line \<longleftrightarrow> TrimSpace line = '''' \<or> HasPrefix (TrimSpace line) ''#'' \<or>
     k < leadingIndentWidth line \<and> TrimSpace line \<noteq> ''discovery:'' \<and> TrimSpace line \<noteq> ''bootstrapToken:''"

lemma redactLine_inside:
  "n < k \<Longrightarrow> inside_section k l \<Longrightarrow> \<exists>out. redactLine (Some n) (Some k) l = (out, Some n, Some k)"
  by (auto simp: inside_section_def redactLine_def Let_def leaveSection_def)

lemma redactTokens_inside:
  assumes "n < k" "\<forall>l \<in> set ls. inside_section k l"
  shows "redactTokens (Some n) (Some k) (ls @ rest) =
    redactTokens (Some n) (Some k) ls @ redactTokens (Some n) (Some k) rest"
  using assms(2) by (induction ls) (use redactLine_inside [OF assms(1)] in fastforce)+

text \<open>Cloud-init data with a kubeadm join configuration: lines \<open>pre\<close>, the discovery section with the bootstrap token
  section in it, lines \<open>mid\<close> of that section, the token, and lines \<open>after\<close>.\<close>

definition join_lines :: "string list \<Rightarrow> string \<Rightarrow> string \<Rightarrow> string list \<Rightarrow> string \<Rightarrow> string list \<Rightarrow> string \<Rightarrow> string list" where
  "join_lines pre i1 i2 mid i3 after token =
     pre @ (i1 @ ''discovery:'') # (i2 @ ''bootstrapToken:'') # mid @ (i3 @ ''token: '' @ token) # after"

lemma blank_lines: "list_all is_blank i \<Longrightarrow> newline \<notin> set i"
  by (induction i) (auto simp: is_blank_def)

lemma redactTokens_join:
  assumes "list_all is_blank i1" "list_all is_blank i2" "list_all is_blank i3" "length i1 < length i2" "length i2 < length i3"
    and "\<forall>l \<in> set mid. inside_section (length i2) l"
  shows "redactTokens None None (join_lines pre i1 i2 mid i3 after t) =
    redactTokens None None (join_lines pre i1 i2 mid i3 after t')"
proof -
  obtain d b where pre: "\<And>rest. redactTokens None None (pre @ rest) = redactTokens None None pre @ redactTokens d b rest"
    using redactTokens_append by blast
  show ?thesis
    by (simp add: join_lines_def pre redactLine_discovery [OF assms(1)] redactLine_bootstrapToken [OF assms(2,4)]
        redactTokens_inside [OF assms(4,6)] redactLine_token [OF assms(3,4,5), simplified])
qed

text \<open>Rotating the kubeadm discovery token of a join configuration does not change the hash of the user data that
  ignores the token: the two documents are the same after normalisation, whatever stands around the token.\<close>

theorem token_rotation_ignored:
  assumes "list_all is_blank i1" "list_all is_blank i2" "list_all is_blank i3" "length i1 < length i2" "length i2 < length i3"
    and mid: "\<forall>l \<in> set mid. inside_section (length i2) l" and kind: "''kind: JoinConfiguration'' \<in> set pre"
    and lines: "\<forall>l \<in> set (pre @ mid @ after). newline \<notin> set l" and "newline \<notin> set t" "newline \<notin> set t'"
  shows "ComputeUserDataHashIgnoringKubeadmToken h
      [''user_data'' \<mapsto> EncodeToString (Join (join_lines pre i1 i2 mid i3 after t) [newline])] =
    ComputeUserDataHashIgnoringKubeadmToken h
      [''user_data'' \<mapsto> EncodeToString (Join (join_lines pre i1 i2 mid i3 after t') [newline])]"
proof -
  have norm: "normalizeUserDataForHash (EncodeToString (Join (join_lines pre i1 i2 mid i3 after s) [newline])) =
      Join (redactTokens None None (join_lines pre i1 i2 mid i3 after s)) [newline]" if "newline \<notin> set s" for s
  proof -
    let ?ls = "join_lines pre i1 i2 mid i3 after s"
    from lines blank_lines [OF assms(1)] blank_lines [OF assms(2)] blank_lines [OF assms(3)] that
    have "\<forall>l \<in> set ?ls. newline \<notin> set l" by (simp add: join_lines_def ball_Un)
    then have split: "Split newline (Join ?ls [newline]) = ?ls" by (intro Split_Join) (auto simp: join_lines_def)
    have "''kind: JoinConfiguration'' \<in> set ?ls" "i2 @ ''bootstrapToken:'' \<in> set ?ls"
      using kind unfolding join_lines_def by simp_all
    then have 1: "Contains (Join ?ls [newline]) ''kind: JoinConfiguration''"
      and 2: "Contains (Join ?ls [newline]) ''bootstrapToken:''"
      using Join_infix Contains_append by (metis, metis append.assoc)
    from 1 2 split show ?thesis
      by (simp add: normalizeUserDataForHash_def DecodeString_encode normalizeKubeadmDiscoveryBootstrapToken_def)
  qed
  from redactTokens_join [OF assms(1-5) mid, of pre after t t'] norm assms(9,10) show ?thesis
    by (simp add: ComputeUserDataHashIgnoringKubeadmToken_def)
qed

theorem token_rotation_ignored_witness:
  "ComputeUserDataHashIgnoringKubeadmToken \<lparr>hl_Marshal = (\<lambda>_. Inr ''''), hl_Sha256 = id\<rparr> [''user_data'' \<mapsto> EncodeToString (Join
      (join_lines [''kind: JoinConfiguration''] '''' ''  '' [''    apiServerEndpoint: 10.0.0.7:6443''] ''    '' []
        ''abcdef.0123456789abcdef'') [newline])] =
   ComputeUserDataHashIgnoringKubeadmToken \<lparr>hl_Marshal = (\<lambda>_. Inr ''''), hl_Sha256 = id\<rparr> [''user_data'' \<mapsto> EncodeToString (Join
      (join_lines [''kind: JoinConfiguration''] '''' ''  '' [''    apiServerEndpoint: 10.0.0.7:6443''] ''    '' []
        ''fedcba.fedcba9876543210'') [newline])]"
  by (rule token_rotation_ignored)
    (simp_all add: is_blank_def inside_section_def TrimSpace_def is_space_def leadingIndentWidth_def)

end
