(* ===== verification/Pool_Scope.thy ===== *)
theory Pool_Scope
  imports Instance_Config_Hash Machine_Instances Cluster_Controller
begin

text \<open>
  The scope of a pool of self managed machines (src/cloud/scope/machine_pool.go): its state, the queries over it, and the
  launch details of the instance configuration that it wants. The scope is followed by the cloud and by the events recorded
  so far. The accessor of the cluster object is the one of \<open>Cluster_Scope\<close>.
\<close>

section \<open>State\<close>

record MachinePoolScope =
  PS_Cluster :: CapiCluster
  PS_MachinePool :: MachinePool
  PS_OCIClusterAccessor :: ClusterScope
  PS_OCIMachinePool :: OCIMachinePool

type_synonym 'w pctrl = "(MachinePoolScope \<times> 'w) \<times> Event list"
type_synonym ('w, 'a) pool_go = "('w pctrl, 'a) go"

text \<open>The clients of the scope. \<open>pc_Enum\<close> are the mappings to the enumerations of an instance configuration.\<close>

record 'w PoolClients =
  pc_ComputeManagement :: "'w ComputeManagementApi"
  pc_Kube :: "'w PoolKube"
  pc_Lib :: KubeLib
  pc_MarkUnknown :: "string \<Rightarrow> string \<Rightarrow> Condition list \<Rightarrow> Condition list"
  pc_Enum :: EnumMaps
  pc_Float :: FloatParse
  pc_JsonUnmarshal :: "string \<Rightarrow> goerr + string"
  pc_Hash :: HashLib

abbreviation pool_spec :: "MachinePoolScope \<Rightarrow> OCIMachinePoolSpec" where
  "pool_spec m \<equiv> Pool_Spec (PS_OCIMachinePool m)"

abbreviation pool_status :: "MachinePoolScope \<Rightarrow> OCIMachinePoolStatus" where
  "pool_status m \<equiv> Pool_Status (PS_OCIMachinePool m)"

abbreviation pool_config :: "MachinePoolScope \<Rightarrow> InstanceConfiguration" where
  "pool_config m \<equiv> PSpec_InstanceConfiguration (pool_spec m)"

definition get_pool :: "('w, MachinePoolScope) pool_go" where
  "get_pool = on_fst get_scope"

definition mod_pool :: "(MachinePoolScope \<Rightarrow> MachinePoolScope) \<Rightarrow> ('w, unit) pool_go" where
  "mod_pool f = on_fst (mod_scope f)"

definition pool_call :: "('w, 'a) go \<Rightarrow> ('w, 'a) pool_go" where
  "pool_call m = on_fst (api m)"

definition upd_pool :: "(OCIMachinePool \<Rightarrow> OCIMachinePool) \<Rightarrow> MachinePoolScope \<Rightarrow> MachinePoolScope" where
  "upd_pool f m = m\<lparr>PS_OCIMachinePool := f (PS_OCIMachinePool m)\<rparr>"

definition upd_pool_spec :: "(OCIMachinePoolSpec \<Rightarrow> OCIMachinePoolSpec) \<Rightarrow> MachinePoolScope \<Rightarrow> MachinePoolScope" where
  "upd_pool_spec f = upd_pool (\<lambda>p. p\<lparr>Pool_Spec := f (Pool_Spec p)\<rparr>)"

definition upd_pool_status :: "(OCIMachinePoolStatus \<Rightarrow> OCIMachinePoolStatus) \<Rightarrow> MachinePoolScope \<Rightarrow> MachinePoolScope" where
  "upd_pool_status f = upd_pool (\<lambda>p. p\<lparr>Pool_Status := f (Pool_Status p)\<rparr>)"

definition mark_pool :: "(Condition list \<Rightarrow> Condition list) \<Rightarrow> ('w, unit) pool_go" where
  "mark_pool f = mod_pool (upd_pool_status (\<lambda>st. st\<lparr>PStatus_Conditions := f (PStatus_Conditions st)\<rparr>))"

text \<open>\<open>NewMachinePoolScope\<close>; \<open>helper\<close> is the outcome of the construction of the patch helper.\<close>

definition NewMachinePoolScope :: "CapiCluster \<Rightarrow> MachinePool option \<Rightarrow> ClusterScope option \<Rightarrow> OCIMachinePool \<Rightarrow>
    goerr option \<Rightarrow> goerr + MachinePoolScope" where
  "NewMachinePoolScope cluster machinePool accessor ociMachinePool helper = (case machinePool of
      None \<Rightarrow> Inl (ErrNew ''failed to generate new scope from nil MachinePool'')
    | Some mp \<Rightarrow> (case accessor of
        None \<Rightarrow> Inl (ErrNew ''failed to generate new scope from nil OCICluster'')
      | Some acc \<Rightarrow> (case helper of
          Some err \<Rightarrow> Inl (ErrWrap ''failed to init patch helper'' err)
        | None \<Rightarrow> Inr (upd_pool_status (\<lambda>st. st\<lparr>PStatus_InfrastructureMachineKind := ''OCIMachinePoolMachine''\<rparr>)
            \<lparr>PS_Cluster = cluster, PS_MachinePool = mp, PS_OCIClusterAccessor = acc, PS_OCIMachinePool = ociMachinePool\<rparr>))))"

section \<open>Annotations and status\<close>

abbreviation InstanceConfigurationHashAnnotation :: string where
  "InstanceConfigurationHashAnnotation \<equiv> ''oci.oraclecloud.com/instance-configuration-hash''"
abbreviation BootstrapDataHashAnnotation :: string where
  "BootstrapDataHashAnnotation \<equiv> ''oci.oraclecloud.com/bootstrap-data-hash''"

definition set_annotation :: "string \<Rightarrow> string \<Rightarrow> MachinePoolScope \<Rightarrow> MachinePoolScope" where
  "set_annotation key h = upd_pool (\<lambda>p. p\<lparr>Pool_Annotations := (Pool_Annotations p)(key \<mapsto> h)\<rparr>)"

definition getInstanceConfigurationHashAnnotation :: "MachinePoolScope \<Rightarrow> string" where
  "getInstanceConfigurationHashAnnotation m = tag_at (Pool_Annotations (PS_OCIMachinePool m)) InstanceConfigurationHashAnnotation"

definition setInstanceConfigurationHashAnnotation :: "string \<Rightarrow> MachinePoolScope \<Rightarrow> MachinePoolScope" where
  "setInstanceConfigurationHashAnnotation = set_annotation InstanceConfigurationHashAnnotation"

definition getBootstrapDataHashAnnotation :: "MachinePoolScope \<Rightarrow> string" where
  "getBootstrapDataHashAnnotation m = tag_at (Pool_Annotations (PS_OCIMachinePool m)) BootstrapDataHashAnnotation"

definition setBootstrapDataHashAnnotation :: "string \<Rightarrow> MachinePoolScope \<Rightarrow> MachinePoolScope" where
  "setBootstrapDataHashAnnotation = set_annotation BootstrapDataHashAnnotation"

definition pool_HasFailed :: "MachinePoolScope \<Rightarrow> bool" where
  "pool_HasFailed m \<longleftrightarrow> PStatus_FailureReason (pool_status m) \<noteq> None \<or> PStatus_FailureMessage (pool_status m) \<noteq> None"

definition GetInstanceConfigurationId :: "MachinePoolScope \<Rightarrow> string option" where
  "GetInstanceConfigurationId m = IConf_InstanceConfigurationId (pool_config m)"

definition SetInstanceConfigurationIdStatus :: "string \<Rightarrow> MachinePoolScope \<Rightarrow> MachinePoolScope" where
  "SetInstanceConfigurationIdStatus i = upd_pool_spec (\<lambda>sp. sp\<lparr>PSpec_InstanceConfiguration :=
     (PSpec_InstanceConfiguration sp)\<lparr>IConf_InstanceConfigurationId := Some i\<rparr>\<rparr>)"

definition pool_SetFailureMessage :: "goerr \<Rightarrow> MachinePoolScope \<Rightarrow> MachinePoolScope" where
  "pool_SetFailureMessage v = upd_pool_status (\<lambda>st. st\<lparr>PStatus_FailureMessage := Some (Error v)\<rparr>)"

definition pool_SetFailureReason :: "string \<Rightarrow> MachinePoolScope \<Rightarrow> MachinePoolScope" where
  "pool_SetFailureReason v = upd_pool_status (\<lambda>st. st\<lparr>PStatus_FailureReason := Some v\<rparr>)"

definition pool_SetReady :: "MachinePoolScope \<Rightarrow> MachinePoolScope" where
  "pool_SetReady = upd_pool_status (\<lambda>st. st\<lparr>PStatus_Ready := True\<rparr>)"

definition SetReplicaCount :: "int \<Rightarrow> MachinePoolScope \<Rightarrow> MachinePoolScope" where
  "SetReplicaCount cnt = upd_pool_status (\<lambda>st. st\<lparr>PStatus_Replicas := cnt\<rparr>)"

definition PatchObject :: "'w PoolClients \<Rightarrow> ('w, unit) pool_go" where
  "PatchObject c = go_bind get_pool (\<lambda>m. pool_call (pk_PatchPool (pc_Kube c) (PS_OCIMachinePool m)))"

section \<open>Queries over the cluster\<close>

definition pool_subnets :: "MachinePoolScope \<Rightarrow> Subnet list" where
  "pool_subnets m = ToSubnetSlice (VCN_Subnets (GetVcnSpec (PS_OCIClusterAccessor m)))"

definition pool_nsgs :: "MachinePoolScope \<Rightarrow> NSG list" where
  "pool_nsgs m = ToNSGSlice (NetworkSecurityGroup_List (VCN_NetworkSecurityGroup (GetVcnSpec (PS_OCIClusterAccessor m))))"

definition GetWorkerMachineSubnet :: "MachinePoolScope \<Rightarrow> string option" where
  "GetWorkerMachineSubnet m = (case find (\<lambda>subnet. Subnet_Role subnet = WorkerRole) (pool_subnets m) of
      None \<Rightarrow> None
    | Some subnet \<Rightarrow> Subnet_ID subnet)"

definition GetWorkerMachineNSG :: "MachinePoolScope \<Rightarrow> string option" where
  "GetWorkerMachineNSG m = (case find (\<lambda>nsg. NSG_Role nsg = WorkerRole) (pool_nsgs m) of
      None \<Rightarrow> None
    | Some nsg \<Rightarrow> NSG_ID nsg)"

definition pool_getWorkerMachineNSGs :: "MachinePoolScope \<Rightarrow> string list" where
  "pool_getWorkerMachineNSGs m =
     (let byRole = map (\<lambda>nsg. ToString (NSG_ID nsg)) (filter (\<lambda>nsg. NSG_Role nsg = WorkerRole) (pool_nsgs m)) in
      case IConf_InstanceVnicConfiguration (pool_config m) of
        None \<Rightarrow> byRole
      | Some nd \<Rightarrow>
          if length (ND_NsgNames nd) > 0
          then concat (map (\<lambda>nsgName. map (\<lambda>nsg. ToString (NSG_ID nsg)) (filter (\<lambda>nsg. NSG_Name nsg = nsgName) (pool_nsgs m)))
            (ND_NsgNames nd))
          else byRole)"

definition pool_IsResourceCreatedByClusterAPI :: "MachinePoolScope \<Rightarrow> tags \<Rightarrow> bool" where
  "pool_IsResourceCreatedByClusterAPI m resourceFreeFormTags =
     (let tagsAddedByClusterAPI = BuildClusterTags (GetOCIResourceIdentifier (PS_OCIClusterAccessor m))
      in list_all (\<lambda>k. tag_at resourceFreeFormTags k = tag_at tagsAddedByClusterAPI k) cluster_tag_keys)"

definition pool_GetFreeFormTags :: "MachinePoolScope \<Rightarrow> tags" where
  "pool_GetFreeFormTags m = accessor_GetFreeformTags (PS_OCIClusterAccessor m) ++ IConf_FreeformTags (pool_config m) ++
     BuildClusterTags (GetOCIResourceIdentifier (PS_OCIClusterAccessor m))"

definition pool_getDefinedTags :: "MachinePoolScope \<Rightarrow> defined_tags" where
  "pool_getDefinedTags m =
     (let cluster = (case accessor_GetDefinedTags (PS_OCIClusterAccessor m) of None \<Rightarrow> Map.empty | Some t \<Rightarrow> t) in
      (\<lambda>ns. case IConf_DefinedTags (pool_config m) ns of
          None \<Rightarrow> cluster ns
        | Some mapNs \<Rightarrow> Some (case cluster ns of None \<Rightarrow> mapNs | Some values \<Rightarrow> values ++ mapNs)))"

section \<open>Placement\<close>

definition placementIn :: "MachinePoolScope \<Rightarrow> OCIAvailabilityDomain \<Rightarrow> string list \<Rightarrow> PoolPlacement" where
  "placementIn m ad faultDomains = \<lparr>PP_AvailabilityDomain = Some (AD_Name ad), PP_PrimarySubnetId = GetWorkerMachineSubnet m,
     PP_FaultDomains = faultDomains\<rparr>"

text \<open>The availability domains are a map; the list gives its entries in the order of the iteration.\<close>

definition BuildInstancePoolPlacement :: "MachinePoolScope \<Rightarrow> goerr + PoolPlacement list" where
  "BuildInstancePoolPlacement s =
     (let ads = (case GetAvailabilityDomains (PS_OCIClusterAccessor s) of None \<Rightarrow> [] | Some l \<Rightarrow> map snd l);
          specPlacementDetails = PSpec_PlacementDetails (pool_spec s) in
      if length specPlacementDetails > length ads
      then Inl (ErrNew (''Cluster has '' @ Itoa (int (length ads)) @ '' ADs specified and the machine pools spec has '' @
        Itoa (int (length specPlacementDetails))))
      else
        let placements = concat (map (\<lambda>ad. concat (map (\<lambda>specPlacement.
              if HasSuffix (AD_Name ad) (Itoa (PD_AvailabilityDomain specPlacement))
              then [placementIn s ad (if length (PD_FaultDomains specPlacement) > 0
                then PD_FaultDomains specPlacement else AD_FaultDomains ad)]
              else []) specPlacementDetails)) ads)
        in Inr (if length placements \<le> 0 then map (\<lambda>ad. placementIn s ad (AD_FaultDomains ad)) ads else placements))"

definition buildUpdateInstancePoolPlacement :: "MachinePoolScope \<Rightarrow> goerr + PoolPlacement list" where
  "buildUpdateInstancePoolPlacement s = (case BuildInstancePoolPlacement s of
      Inl err \<Rightarrow> Inl err
    | Inr createPlacements \<Rightarrow> Inr (map (\<lambda>placement.
        \<lparr>PP_AvailabilityDomain = PP_AvailabilityDomain placement, PP_PrimarySubnetId = PP_PrimarySubnetId placement,
         PP_FaultDomains = PP_FaultDomains placement\<rparr>) createPlacements))"

section \<open>Launch details\<close>

definition pool_GetBootstrapData :: "'w PoolClients \<Rightarrow> ('w, string) pool_go" where
  "pool_GetBootstrapData c =
     go_bind get_pool (\<lambda>m. case MP_DataSecretName (PS_MachinePool m) of
       None \<Rightarrow> go_throw (ErrNew ''error retrieving bootstrap data: linked MachinePool's bootstrap.dataSecretName is nil'')
     | Some name \<Rightarrow>
         go_bind (go_wrap (''failed to retrieve bootstrap data secret for OCIMachinePool '' @ MP_Namespace (PS_MachinePool m) @
             ''/'' @ MP_Name (PS_MachinePool m))
           (pool_call (pk_GetSecret (pc_Kube c) (MP_Namespace (PS_MachinePool m)) name))) (\<lambda>data.
         case data ''value'' of
           None \<Rightarrow> go_throw (ErrNew ''error retrieving bootstrap data: secret value key is missing'')
         | Some v \<Rightarrow> go_ret v))"

definition parseFloatOf :: "(string \<Rightarrow> 'n option) \<Rightarrow> string \<Rightarrow> string option \<Rightarrow> goerr + 'n option" where
  "parseFloatOf parse what p = (case p of
      None \<Rightarrow> Inr None
    | Some s \<Rightarrow> (case parse s of
        None \<Rightarrow> Inl (ErrNew (what @ '' provided '' @ s @ '' is not a valid floating point''))
      | Some n \<Rightarrow> Inr (Some n)))"

definition buildInstanceConfigurationShapeConfig :: "EnumMaps \<Rightarrow> FloatParse \<Rightarrow> MachinePoolScope \<Rightarrow> goerr + IcShapeConfig" where
  "buildInstanceConfigurationShapeConfig em fp m = (case IConf_ShapeConfig (pool_config m) of
      None \<Rightarrow> Inr zero_IcShapeConfig
    | Some sc \<Rightarrow>
        err_bind (parseFloatOf (fp_Float32 fp) ''ocpus'' (PSC_Ocpus sc)) (\<lambda>ocpus.
        err_bind (parseFloatOf (fp_Float32 fp) ''memoryInGBs'' (PSC_MemoryInGBs sc)) (\<lambda>memoryInGBs.
        err_bind (if PSC_BaselineOcpuUtilization sc \<noteq> ''''
          then GetInstanceConfigBaseLineOcpuOptimizationEnum (em_BaselineOcpuValues em) (PSC_BaselineOcpuUtilization sc)
          else Inr '''') (\<lambda>value.
        Inr \<lparr>ICS_Ocpus = ocpus, ICS_MemoryInGBs = memoryInGBs, ICS_Vcpus = None, ICS_Nvmes = PSC_Nvmes sc,
          ICS_BaselineOcpuUtilization = value\<rparr>))))"

definition pool_getAgentConfig :: "EnumMaps \<Rightarrow> MachinePoolScope \<Rightarrow> SdkAgentConfig option" where
  "pool_getAgentConfig em m = map_option (\<lambda>spec.
     \<lparr>SdkAgent_IsMonitoringDisabled = Agent_IsMonitoringDisabled spec,
      SdkAgent_IsManagementDisabled = Agent_IsManagementDisabled spec,
      SdkAgent_AreAllPluginsDisabled = Agent_AreAllPluginsDisabled spec,
      SdkAgent_PluginsConfig =
        (if length (Agent_PluginsConfig spec) > 0
         then Some (map (\<lambda>p. \<lparr>Plugin_Name = Plugin_Name p, Plugin_DesiredState = em_DesiredState em (Plugin_DesiredState p)\<rparr>)
           (Agent_PluginsConfig spec))
         else None)\<rparr>) (IConf_AgentConfig (pool_config m))"

definition pool_getLaunchOptions :: "EnumMaps \<Rightarrow> MachinePoolScope \<Rightarrow> LaunchOptions option" where
  "pool_getLaunchOptions em m = map_option (\<lambda>spec.
     \<lparr>LO_BootVolumeType = mapped_if_set (em_BootVolumeType em) (LO_BootVolumeType spec),
      LO_Firmware = mapped_if_set (em_Firmware em) (LO_Firmware spec),
      LO_NetworkType = mapped_if_set (em_NetworkType em) (LO_NetworkType spec),
      LO_RemoteDataVolumeType = mapped_if_set (em_RemoteDataVolumeType em) (LO_RemoteDataVolumeType spec),
      LO_IsConsistentVolumeNamingEnabled = LO_IsConsistentVolumeNamingEnabled spec\<rparr>)
     (IConf_LaunchOptions (pool_config m))"

definition pool_getInstanceOptions :: "MachinePoolScope \<Rightarrow> InstanceOptions option" where
  "pool_getInstanceOptions m = map_option
     (\<lambda>spec. \<lparr>IO_AreLegacyImdsEndpointsDisabled = IO_AreLegacyImdsEndpointsDisabled spec\<rparr>)
     (IConf_InstanceOptions (pool_config m))"

definition getInstanceConfigurationInstanceSourceViaImageDetail :: "MachinePoolScope \<Rightarrow> PoolImageConfig" where
  "getInstanceConfigurationInstanceSourceViaImageDetail m = (case IConf_InstanceSourceViaImageDetails (pool_config m) of
      Some sourceConfig \<Rightarrow> \<lparr>PIm_ImageId = PIm_ImageId sourceConfig, PIm_KmsKeyId = PIm_KmsKeyId sourceConfig,
        PIm_BootVolumeSizeInGBs = PIm_BootVolumeSizeInGBs sourceConfig,
        PIm_BootVolumeVpusPerGB = PIm_BootVolumeVpusPerGB sourceConfig\<rparr>
    | None \<Rightarrow> \<lparr>PIm_ImageId = None, PIm_KmsKeyId = None, PIm_BootVolumeSizeInGBs = None, PIm_BootVolumeVpusPerGB = None\<rparr>)"

definition pool_getAvailabilityConfig :: "EnumMaps \<Rightarrow> MachinePoolScope \<Rightarrow> LaunchInstanceAvailabilityConfig option" where
  "pool_getAvailabilityConfig em m = map_option
     (\<lambda>spec. \<lparr>AC_IsLiveMigrationPreferred = AC_IsLiveMigrationPreferred spec,
        AC_RecoveryAction = em_RecoveryAction em (AC_RecoveryAction spec)\<rparr>)
     (IConf_AvailabilityConfig (pool_config m))"

definition pool_getPreemptibleInstanceConfig :: "MachinePoolScope \<Rightarrow> PreemptibleInstanceConfig option" where
  "pool_getPreemptibleInstanceConfig m = map_option
     (\<lambda>spec. \<lparr>PIC_TerminatePreemptionAction = map_option
        (\<lambda>act. \<lparr>TPA_PreserveBootVolume = TPA_PreserveBootVolume act\<rparr>) (PIC_TerminatePreemptionAction spec)\<rparr>)
     (IConf_PreemptibleInstanceConfig (pool_config m))"

definition pool_getPlatformConfig :: "EnumMaps \<Rightarrow> MachinePoolScope \<Rightarrow> IcPlatformConfig option" where
  "pool_getPlatformConfig em m =
     map_option IcPlatform (Option.bind (IConf_PlatformConfig (pool_config m)) (platformConfigOf em))"

definition getVnicDetails :: "MachinePoolScope \<Rightarrow> tags \<Rightarrow> defined_tags \<Rightarrow> IcVnicDetails" where
  "getVnicDetails m freeFormTags definedTags =
     (let base = \<lparr>ICV_AssignIpv6Ip = None, ICV_AssignPublicIp = None, ICV_AssignPrivateDnsRecord = None,
            ICV_FreeformTags = freeFormTags, ICV_DefinedTags = definedTags, ICV_DisplayName = None, ICV_HostnameLabel = None,
            ICV_NsgIds = pool_getWorkerMachineNSGs m, ICV_PrivateIp = None, ICV_SkipSourceDestCheck = None,
            ICV_SubnetId = GetWorkerMachineSubnet m\<rparr> in
      case IConf_InstanceVnicConfiguration (pool_config m) of
        None \<Rightarrow> base
      | Some nd \<Rightarrow> base
          \<lparr>ICV_AssignIpv6Ip := Some (ND_AssignIpv6Ip nd), ICV_AssignPublicIp := Some (ND_AssignPublicIp nd),
           ICV_SubnetId := (if ND_SubnetId nd \<noteq> None then ND_SubnetId nd else ICV_SubnetId base),
           ICV_NsgIds := (if length (ND_NSGIds nd) > 0 then ND_NSGIds nd
             else case ND_NSGId nd of Some i \<Rightarrow> [i] | None \<Rightarrow> ICV_NsgIds base),
           ICV_HostnameLabel := ND_HostnameLabel nd, ICV_SkipSourceDestCheck := ND_SkipSourceDestCheck nd,
           ICV_AssignPrivateDnsRecord := ND_AssignPrivateDnsRecord nd, ICV_DisplayName := ND_DisplayName nd\<rparr>)"

text \<open>The launch details without the shape configuration, from the bootstrap data, the extended metadata and the shape.\<close>

definition poolLaunchDetails :: "EnumMaps \<Rightarrow> MachinePoolScope \<Rightarrow> tags \<Rightarrow> defined_tags \<Rightarrow> string \<Rightarrow>
    (string \<times> string option) list \<Rightarrow> string \<Rightarrow> IcLaunchDetails" where
  "poolLaunchDetails em m freeFormTags definedTags cloudInitData extendedMetadata shape =
     \<lparr>ICL_CapacityReservationId = IConf_CapacityReservationId (pool_config m),
      ICL_CompartmentId = Some (GetCompartmentId (PS_OCIClusterAccessor m)),
      ICL_DisplayName = Some (Pool_Name (PS_OCIMachinePool m)),
      ICL_CreateVnicDetails = Some (getVnicDetails m freeFormTags definedTags),
      ICL_FreeformTags = freeFormTags, ICL_DefinedTags = definedTags,
      ICL_Metadata = (IConf_Metadata (pool_config m))(''user_data'' \<mapsto> EncodeToString cloudInitData),
      ICL_ExtendedMetadata = map_of extendedMetadata, ICL_Shape = Some shape, ICL_ShapeConfig = None,
      ICL_PlatformConfig = pool_getPlatformConfig em m,
      ICL_SourceDetails = Some (IcViaImage (getInstanceConfigurationInstanceSourceViaImageDetail m)),
      ICL_DedicatedVmHostId = IConf_DedicatedVmHostId (pool_config m),
      ICL_LaunchOptions = pool_getLaunchOptions em m, ICL_AgentConfig = pool_getAgentConfig em m,
      ICL_IsPvEncryptionInTransitEnabled = IConf_IsPvEncryptionInTransitEnabled (pool_config m),
      ICL_InstanceOptions = pool_getInstanceOptions m, ICL_AvailabilityConfig = pool_getAvailabilityConfig em m,
      ICL_PreemptibleInstanceConfig = pool_getPreemptibleInstanceConfig m\<rparr>"

definition getLaunchInstanceDetails :: "'w PoolClients \<Rightarrow> tags \<Rightarrow> defined_tags \<Rightarrow> ('w, IcLaunchDetails) pool_go" where
  "getLaunchInstanceDetails c freeFormTags definedTags =
     go_bind get_pool (\<lambda>m.
     go_bind (pool_GetBootstrapData c) (\<lambda>cloudInitData.
     go_bind (lift_err (ConvertMachineExtendedMetadata (pc_JsonUnmarshal c) (IConf_ExtendedMetadata (pool_config m)))) (\<lambda>ext.
     go_bind (go_deref (IConf_Shape (pool_config m))) (\<lambda>shape.
     let launchDetails = poolLaunchDetails (pc_Enum c) m freeFormTags definedTags cloudInitData ext shape in
     case buildInstanceConfigurationShapeConfig (pc_Enum c) (pc_Float c) m of
       Inl err \<Rightarrow>
         go_seq (mark_pool (kube_MarkFalse (pc_Lib c) LaunchTemplateReadyCondition LaunchTemplateCreateFailedReason)) (go_throw err)
     | Inr shapeConfig \<Rightarrow>
         go_ret (if shapeConfig \<noteq> zero_IcShapeConfig then launchDetails\<lparr>ICL_ShapeConfig := Some shapeConfig\<rparr>
           else launchDetails)))))"

end
