(* ===== verification/Pool_Machines.thy ===== *)
theory Pool_Machines
  imports Pool_Types Instance_Config_Hash Resource_Contract
begin

text \<open>
  The machine objects of a pool (\<open>CreateMachinePoolMachinesIfNotExists\<close> and \<open>DeleteOrphanedMachinePoolMachines\<close> of
  src/cloud/util/util.go, shared by the three kinds of pools). The state is what Kubernetes holds, behind the requests of
  \<open>PoolKube\<close>.
\<close>

record MachineParams =
  Params_MachinePool :: MachinePool
  Params_Cluster :: CapiCluster
  Params_InfraMachinePoolName :: string
  Params_InfraMachinePoolKind :: string
  Params_InfraMachinePoolUID :: string
  Params_Namespace :: string
  Params_SpecInfraMachines :: "OCIMachinePoolMachine list"

abbreviation ClusterNameLabel :: string where "ClusterNameLabel \<equiv> ''cluster.x-k8s.io/cluster-name''"
abbreviation MachinePoolNameLabel :: string where "MachinePoolNameLabel \<equiv> ''cluster.x-k8s.io/pool-name''"

definition poolMachineLabels :: "'w PoolKube \<Rightarrow> MachineParams \<Rightarrow> tags" where
  "poolMachineLabels k params = [ClusterNameLabel \<mapsto> Capi_Name (Params_Cluster params),
     MachinePoolNameLabel \<mapsto> pk_FormatValue k (MP_Name (Params_MachinePool params))]"

definition getMachinepoolMachines :: "'w PoolKube \<Rightarrow> MachineParams \<Rightarrow> ('w, OCIMachinePoolMachine list) go" where
  "getMachinepoolMachines k params = pk_ListPoolMachines k (Params_Namespace params) (poolMachineLabels k params)"

text \<open>The index of the existing machines by the id of the instance, a later one replacing an earlier one; a machine without
  an id is a nil dereference.\<close>

fun machinesByOCID :: "(string \<rightharpoonup> OCIMachinePoolMachine) \<Rightarrow> OCIMachinePoolMachine list \<Rightarrow>
    ('w, string \<rightharpoonup> OCIMachinePoolMachine) go" where
  "machinesByOCID index [] = go_ret index"
| "machinesByOCID index (machine # items) =
     go_bind (go_deref (PM_OCID machine)) (\<lambda>i. machinesByOCID (index(i \<mapsto> machine)) items)"

definition newPoolMachine :: "'w PoolKube \<Rightarrow> MachineParams \<Rightarrow> OCIMachinePoolMachine \<Rightarrow> OCIMachinePoolMachine" where
  "newPoolMachine k params specMachine =
     \<lparr>PM_Name = '''', PM_Namespace = Params_Namespace params, PM_GenerateName = MP_Name (Params_MachinePool params),
      PM_Labels = poolMachineLabels k params,
      PM_OwnerReference = Some (Params_InfraMachinePoolKind params, Params_InfraMachinePoolName params,
        Params_InfraMachinePoolUID params),
      PM_Finalizers = [MachinePoolMachineFinalizer],
      PM_OCID = PM_OCID specMachine, PM_ProviderID = PM_ProviderID specMachine, PM_InstanceName = PM_InstanceName specMachine,
      PM_MachineType = PM_MachineType specMachine, PM_Ready = PM_Ready specMachine\<rparr>"

definition ensurePoolMachine :: "'w PoolKube \<Rightarrow> MachineParams \<Rightarrow> (string \<rightharpoonup> OCIMachinePoolMachine) \<Rightarrow>
    OCIMachinePoolMachine \<Rightarrow> ('w, unit) go" where
  "ensurePoolMachine k params index specMachine = (case PM_OCID specMachine of
      None \<Rightarrow> go_ret ()
    | Some i \<Rightarrow> (case index i of
        Some actualMachine \<Rightarrow>
          if PM_Ready specMachine \<noteq> PM_Ready actualMachine
          then go_seq (pk_NewHelper k) (pk_PatchPoolMachine k (actualMachine\<lparr>PM_Ready := True\<rparr>))
          else go_ret ()
      | None \<Rightarrow> go_wrap ''failed to create machine'' (pk_CreatePoolMachine k (newPoolMachine k params specMachine))))"

definition CreateMachinePoolMachinesIfNotExists :: "'w PoolKube \<Rightarrow> MachineParams \<Rightarrow> ('w, unit) go" where
  "CreateMachinePoolMachinesIfNotExists k params =
     go_bind (getMachinepoolMachines k params) (\<lambda>items.
     go_bind (machinesByOCID Map.empty items) (\<lambda>index.
     go_for (Params_SpecInfraMachines params) (ensurePoolMachine k params index)))"

definition specOCIDs :: "MachineParams \<Rightarrow> string list" where
  "specOCIDs params = List.map_filter PM_OCID (Params_SpecInfraMachines params)"

definition poolMachineId :: "OCIMachinePoolMachine \<Rightarrow> string" where
  "poolMachineId pm = PM_Namespace pm @ ''/'' @ PM_Name pm"

definition deleteIfOrphaned :: "'w PoolKube \<Rightarrow> string list \<Rightarrow> OCIMachinePoolMachine \<Rightarrow> ('w, unit) go" where
  "deleteIfOrphaned k instanceSpecSet pm = (case PM_OCID pm of
      None \<Rightarrow> go_ret ()
    | Some i \<Rightarrow>
        if i \<in> set instanceSpecSet then go_ret ()
        else go_bind (go_try (pk_GetOwnerMachine k pm)) (\<lambda>x. case x of
          Inl err \<Rightarrow>
            if pk_NotFound k err then go_ret ()
            else go_throw (ErrWrap (''failed to get owner Machine for machinepool machine '' @ poolMachineId pm) err)
        | Inr None \<Rightarrow> go_throw (ErrNew (''Machinepool '' @ poolMachineId pm @
            '' has no parent Machine, will reattempt deletion once parent Machine is present''))
        | Inr (Some machine) \<Rightarrow>
            go_wrap (''failed to delete machinepool machine '' @ Machine_Namespace machine @ ''/'' @ Machine_Name machine)
              (pk_DeleteMachine k machine)))"

definition DeleteOrphanedMachinePoolMachines :: "'w PoolKube \<Rightarrow> MachineParams \<Rightarrow> ('w, unit) go" where
  "DeleteOrphanedMachinePoolMachines k params =
     go_bind (getMachinepoolMachines k params) (\<lambda>items.
     go_for items (deleteIfOrphaned k (specOCIDs params)))"

end
