(* ===== verification/Machine_Pool.thy ===== *)
theory Machine_Pool
  imports Pool_Scope Pool_Machines
begin

text \<open>
  The operations of the scope of a pool (src/cloud/scope/machine_pool.go): the instances of the pool, the instance
  configuration with its hashes and the removal of old ones, and the instance pool itself.
\<close>

section \<open>Collecting pages\<close>

definition collect_pages :: "(string option \<Rightarrow> ('s, 'i list \<times> string option) go) \<Rightarrow> ('i list \<Rightarrow> ('s, 'r list) go) \<Rightarrow>
    ('s, 'r list) go" where
  "collect_pages listop scan = go_loop (\<lambda>(page, acc).
     go_bind (listop page) (\<lambda>(items, opcNextPage).
     go_bind (scan items) (\<lambda>rs. case opcNextPage of
       None \<Rightarrow> go_ret (Inr (acc @ rs))
     | Some p \<Rightarrow> go_ret (Inl (Some p, acc @ rs))))) (None, [])"

section \<open>Instances\<close>

definition ListMachinePoolInstances :: "'w PoolClients \<Rightarrow> ('w, InstanceSummary list) pool_go" where
  "ListMachinePoolInstances c =
     go_bind get_pool (\<lambda>m. case PSpec_OCID (pool_spec m) of
       None \<Rightarrow> go_throw (ErrNew ''OCIMachinePool OCID can't be empty'')
     | Some poolOcid \<Rightarrow> collect_pages (\<lambda>page. pool_call (api_ListInstancePoolInstances (pc_ComputeManagement c)
         (GetCompartmentId (PS_OCIClusterAccessor m)) (Some poolOcid) page)) go_ret)"

text \<open>\<open>strings.EqualFold\<close> on the ASCII states of the service.\<close>

definition EqualFold :: "string \<Rightarrow> string \<Rightarrow> bool" where
  "EqualFold a b \<longleftrightarrow> ToLower a = ToLower b"

definition poolMachineOf :: "InstanceSummary \<Rightarrow> ('s, OCIMachinePoolMachine list) go" where
  "poolMachineOf instance' =
     go_bind (go_deref (ISum_State instance')) (\<lambda>state.
     if EqualFold state ''TERMINATED'' then go_ret []
     else
       go_bind (go_deref (ISum_DisplayName instance')) (\<lambda>name.
       go_bind (go_deref (ISum_Id instance')) (\<lambda>i.
       go_ret [\<lparr>PM_Name = name, PM_Namespace = '''', PM_GenerateName = '''', PM_Labels = Map.empty, PM_OwnerReference = None,
         PM_Finalizers = [], PM_OCID = ISum_Id instance', PM_ProviderID = Some (GetProviderID i),
         PM_InstanceName = ISum_DisplayName instance', PM_MachineType = SelfManaged,
         PM_Ready = EqualFold state ''RUNNING''\<rparr>])))"

definition SetListandSetMachinePoolInstances :: "'w PoolClients \<Rightarrow> ('w, OCIMachinePoolMachine list) pool_go" where
  "SetListandSetMachinePoolInstances c =
     go_bind (ListMachinePoolInstances c) (\<lambda>summaries.
     go_bind (go_map summaries poolMachineOf) (\<lambda>machines. go_ret (concat machines)))"

text \<open>\<open>int32(x)\<close>\<close>

definition int32_of :: "int \<Rightarrow> int" where
  "int32_of x = (x + 2 ^ 31) mod 2 ^ 32 - 2 ^ 31"

definition SyncReplicasFromInstancePool :: "'w PoolClients \<Rightarrow> SdkInstancePool option \<Rightarrow> ('w, unit) pool_go" where
  "SyncReplicasFromInstancePool c instancePool =
     go_bind get_pool (\<lambda>m.
     if \<not> MP_ReplicasManagedExternally (PS_MachinePool m) then go_ret ()
     else case Option.bind instancePool SIP_Size of
       None \<Rightarrow> go_ret ()
     | Some sz \<Rightarrow>
         let observedReplicas = int32_of sz in
         if MP_Replicas (PS_MachinePool m) = Some observedReplicas then go_ret ()
         else
           go_seq (go_wrap ''failed to init machinepool patch helper'' (pool_call (pk_NewHelper (pc_Kube c))))
           (go_seq (mod_pool (\<lambda>m. m\<lparr>PS_MachinePool := (PS_MachinePool m)\<lparr>MP_Replicas := Some observedReplicas\<rparr>\<rparr>))
           (go_bind get_pool (\<lambda>m.
             go_wrap ''failed to patch machinepool replicas from observed instance pool size''
               (pool_call (pk_PatchMachinePool (pc_Kube c) (PS_MachinePool m)))))))"

section \<open>Instance configurations\<close>

definition getInstanceConfigurationFromOCID :: "'w PoolClients \<Rightarrow> string option \<Rightarrow> ('w, SdkInstanceConfiguration) pool_go" where
  "getInstanceConfigurationFromOCID c instanceConfigurationId =
     pool_call (api_GetInstanceConfiguration (pc_ComputeManagement c) instanceConfigurationId)"

text \<open>One entry of a page of the list, kept or not.\<close>

definition ownConfigurationId :: "MachinePoolScope \<Rightarrow> string \<Rightarrow> SdkResource \<Rightarrow> ('s, string option list) go" where
  "ownConfigurationId m displayName r =
     go_bind (go_deref (Res_DisplayName r)) (\<lambda>name.
     go_ret (if HasPrefix name displayName \<and> pool_IsResourceCreatedByClusterAPI m (Res_FreeformTags r) then [Res_Id r] else []))"

definition getInstanceConfigurationsFromDisplayNameSortedTimeCreateDescending ::
  "'w PoolClients \<Rightarrow> string \<Rightarrow> ('w, string option list) pool_go" where
  "getInstanceConfigurationsFromDisplayNameSortedTimeCreateDescending c displayName =
     go_bind get_pool (\<lambda>m.
     collect_pages
       (\<lambda>page. go_wrap ''failed to query InstanceConfiguration by name'' (pool_call
          (api_ListInstanceConfigurations (pc_ComputeManagement c) (GetCompartmentId (PS_OCIClusterAccessor m)) page)))
       (\<lambda>items. go_bind (go_map items (ownConfigurationId m displayName)) (\<lambda>ids. go_ret (concat ids))))"

definition GetInstanceConfiguration :: "'w PoolClients \<Rightarrow> ('w, SdkInstanceConfiguration option) pool_go" where
  "GetInstanceConfiguration c =
     go_bind get_pool (\<lambda>m. case GetInstanceConfigurationId m of
       Some i \<Rightarrow> go_bind (getInstanceConfigurationFromOCID c (Some i)) (\<lambda>ic. go_ret (Some ic))
     | None \<Rightarrow>
         go_bind (getInstanceConfigurationsFromDisplayNameSortedTimeCreateDescending c (Pool_Name (PS_OCIMachinePool m))) (\<lambda>ids.
         case ids of
           [] \<Rightarrow> go_ret None
         | i # _ \<Rightarrow> go_bind (getInstanceConfigurationFromOCID c i) (\<lambda>ic. go_ret (Some ic))))"

definition deleteOldConfiguration :: "'w PoolClients \<Rightarrow> string \<Rightarrow> string option \<Rightarrow> ('w, unit) pool_go" where
  "deleteOldConfiguration c keep i =
     (if ToString i = keep then go_ret ()
      else go_bind (go_try (pool_call (api_DeleteInstanceConfiguration (pc_ComputeManagement c) i))) (\<lambda>x. case x of
        Inr _ \<Rightarrow> go_ret ()
      | Inl err \<Rightarrow>
          go_seq (record_event EventTypeWarning ''CleanupInstanceConfigurationFailed''
            (''Failed to delete old instance configuration '' @ [CHR 0x22] @ ToString i @ [CHR 0x22] @ '': '' @ Error err))
          (go_throw (ErrWrap ''failed to delete expired instance configuration'' err))))"

definition CleanupInstanceConfiguration :: "'w PoolClients \<Rightarrow> SdkInstancePool option \<Rightarrow> ('w, unit) pool_go" where
  "CleanupInstanceConfiguration c instancePool =
     go_bind get_pool (\<lambda>m.
     go_bind (getInstanceConfigurationsFromDisplayNameSortedTimeCreateDescending c (Pool_Name (PS_OCIMachinePool m))) (\<lambda>ids.
     if length ids = 0 then go_ret ()
     else
       let keepID = (case Option.bind instancePool SIP_InstanceConfigurationId of
             Some i \<Rightarrow> Some i
           | None \<Rightarrow> GetInstanceConfigurationId m);
           keep = ToString keepID
       in go_for ids (deleteOldConfiguration c keep)))"

definition createInstanceConfigurationDetails ::
  "MachinePoolScope \<Rightarrow> IcLaunchDetails \<Rightarrow> tags \<Rightarrow> defined_tags \<Rightarrow> string \<Rightarrow> CreateInstanceConfigurationDetails" where
  "createInstanceConfigurationDetails m launch freeFormTags definedTags desiredHash =
     (let suffix = (if length desiredHash > 10 then take 10 desiredHash else desiredHash) in
      \<lparr>CIC_CompartmentId = GetCompartmentId (PS_OCIClusterAccessor m),
       CIC_DisplayName = Pool_Name (PS_OCIMachinePool m) @ ''-'' @ suffix,
       CIC_FreeformTags = freeFormTags, CIC_DefinedTags = definedTags,
       CIC_InstanceDetails = ComputeInstanceDetails (Some launch)\<rparr>)"

definition createInstanceConfiguration ::
  "'w PoolClients \<Rightarrow> IcLaunchDetails \<Rightarrow> tags \<Rightarrow> defined_tags \<Rightarrow> string \<Rightarrow> ('w, unit) pool_go" where
  "createInstanceConfiguration c launch freeFormTags definedTags desiredHash =
     go_bind get_pool (\<lambda>m.
     go_bind (go_try (pool_call (api_CreateInstanceConfiguration (pc_ComputeManagement c)
       (createInstanceConfigurationDetails m launch freeFormTags definedTags desiredHash)))) (\<lambda>x. case x of
       Inl err \<Rightarrow>
         go_seq (mark_pool (kube_MarkFalse (pc_Lib c) LaunchTemplateReadyCondition LaunchTemplateCreateFailedReason)) (go_throw err)
     | Inr resp \<Rightarrow> go_bind (go_deref (Res_Id resp)) (\<lambda>i. mod_pool (SetInstanceConfigurationIdStatus i))))"

text \<open>Creation of a configuration with the annotations, their patch, and the removal of the old configurations, whose
  failure is only logged.\<close>

definition replaceInstanceConfiguration ::
  "'w PoolClients \<Rightarrow> IcLaunchDetails \<Rightarrow> tags \<Rightarrow> defined_tags \<Rightarrow> string \<Rightarrow> string \<Rightarrow> ('w, unit) pool_go" where
  "replaceInstanceConfiguration c desiredLaunch freeFormTags definedTags desiredConfigHash desiredBootstrapHash =
     go_seq (createInstanceConfiguration c desiredLaunch freeFormTags definedTags desiredConfigHash)
     (go_seq (mod_pool (setInstanceConfigurationHashAnnotation desiredConfigHash))
     (go_seq (mod_pool (setBootstrapDataHashAnnotation desiredBootstrapHash))
     (go_seq (PatchObject c)
     (go_bind (go_try (CleanupInstanceConfiguration c None)) (\<lambda>_. go_ret ())))))"

text \<open>The annotations that are missing are filled in from the actual configuration.\<close>

definition backfillAnnotations :: "'w PoolClients \<Rightarrow> string \<Rightarrow> string \<Rightarrow> ('w, unit) pool_go" where
  "backfillAnnotations c actualConfigHash actualBootstrapHash =
     go_bind get_pool (\<lambda>m.
     let noConfig = (getInstanceConfigurationHashAnnotation m = '''');
         noBootstrap = (getBootstrapDataHashAnnotation m = '''') in
     go_seq (if noConfig then mod_pool (setInstanceConfigurationHashAnnotation actualConfigHash) else go_ret ())
     (go_seq (if noBootstrap then mod_pool (setBootstrapDataHashAnnotation actualBootstrapHash) else go_ret ())
     (if noConfig \<or> noBootstrap then PatchObject c else go_ret ())))"

definition refreshAnnotations :: "'w PoolClients \<Rightarrow> string \<Rightarrow> string \<Rightarrow> string \<Rightarrow> string \<Rightarrow> ('w, unit) pool_go" where
  "refreshAnnotations c storedConfigHash storedBootstrapHash actualConfigHash actualBootstrapHash =
     go_seq (if storedConfigHash \<noteq> actualConfigHash
       then mod_pool (setInstanceConfigurationHashAnnotation actualConfigHash) else go_ret ())
     (go_seq (if storedBootstrapHash \<noteq> actualBootstrapHash
       then mod_pool (setBootstrapDataHashAnnotation actualBootstrapHash) else go_ret ())
     (if storedConfigHash \<noteq> actualConfigHash \<or> storedBootstrapHash \<noteq> actualBootstrapHash then PatchObject c else go_ret ()))"

definition ReconcileInstanceConfiguration :: "'w PoolClients \<Rightarrow> ('w, unit) pool_go" where
  "ReconcileInstanceConfiguration c =
     go_bind (GetInstanceConfiguration c) (\<lambda>instanceConfiguration.
     go_bind get_pool (\<lambda>m.
     let freeFormTags = pool_GetFreeFormTags m; definedTags = pool_getDefinedTags m in
     go_bind (getLaunchInstanceDetails c freeFormTags definedTags) (\<lambda>desiredLaunch.
     go_bind (go_wrap ''compute desired instance config hash'' (lift_err (ComputeHash (pc_Hash c) (Some desiredLaunch))))
       (\<lambda>desiredConfigHash.
     let desiredBootstrapHash = ComputeUserDataHash (pc_Hash c) (ICL_Metadata desiredLaunch) in
     case instanceConfiguration of
       None \<Rightarrow> replaceInstanceConfiguration c desiredLaunch freeFormTags definedTags desiredConfigHash desiredBootstrapHash
     | Some ic \<Rightarrow> (case SIC_InstanceDetails ic of
         OtherInstanceDetails _ \<Rightarrow> go_ret ()
       | ComputeInstanceDetails actualLaunch \<Rightarrow>
           go_bind (go_wrap ''compute actual instance config hash''
             (lift_err (ComputeComparableHash (pc_Hash c) actualLaunch (Some desiredLaunch)))) (\<lambda>actualConfigHash.
           go_bind (go_deref actualLaunch) (\<lambda>actual.
           let actualBootstrapHash = ComputeUserDataHash (pc_Hash c) (ICL_Metadata actual) in
           go_seq (backfillAnnotations c actualConfigHash actualBootstrapHash)
           (go_bind get_pool (\<lambda>m.
           let storedConfigHash = getInstanceConfigurationHashAnnotation m;
               storedBootstrapHash = getBootstrapDataHashAnnotation m in
           if desiredConfigHash = actualConfigHash \<and> desiredBootstrapHash = actualBootstrapHash
           then refreshAnnotations c storedConfigHash storedBootstrapHash actualConfigHash actualBootstrapHash
           else replaceInstanceConfiguration c desiredLaunch freeFormTags definedTags desiredConfigHash
             desiredBootstrapHash)))))))))"

section \<open>The instance pool\<close>

definition ListInstancePoolSummaries :: "'w PoolClients \<Rightarrow> string \<Rightarrow> string \<Rightarrow> ('w, SdkResource list) pool_go" where
  "ListInstancePoolSummaries c compartmentId displayName =
     collect_pages (\<lambda>page. go_wrap ''failed to query OCIMachinePool by name'' (pool_call
       (api_ListInstancePools (pc_ComputeManagement c) compartmentId displayName page))) go_ret"

text \<open>The last check wraps an error that is nil, so that the result is neither a pool nor an error.\<close>

definition FindInstancePool :: "'w PoolClients \<Rightarrow> ('w, SdkInstancePool option) pool_go" where
  "FindInstancePool c =
     go_bind get_pool (\<lambda>m. case PSpec_OCID (pool_spec m) of
       Some i \<Rightarrow> go_bind (pool_call (api_GetInstancePool (pc_ComputeManagement c) (Some i))) (\<lambda>p. go_ret (Some p))
     | None \<Rightarrow>
         go_bind (ListInstancePoolSummaries c (GetCompartmentId (PS_OCIClusterAccessor m)) (Pool_Name (PS_OCIMachinePool m)))
           (\<lambda>summaries.
         case find (\<lambda>summary. pool_IsResourceCreatedByClusterAPI m (Res_FreeformTags summary)) summaries of
           None \<Rightarrow> go_ret None
         | Some summary \<Rightarrow>
             go_bind (wrap_with_id ''failed to query OCIMachinePool with id '' (Res_Id summary)
               (pool_call (api_GetInstancePool (pc_ComputeManagement c) (Res_Id summary)))) (\<lambda>pool.
             if \<not> pool_IsResourceCreatedByClusterAPI m (Res_FreeformTags pool) then go_ret None
             else go_ret (Some pool))))"

definition CreateInstancePool :: "'w PoolClients \<Rightarrow> ('w, SdkInstancePool) pool_go" where
  "CreateInstancePool c =
     go_bind get_pool (\<lambda>m.
     if GetInstanceConfigurationId m = None then go_throw (ErrNew ''OCIMachinePool has no InstanceConfigurationId'')
     else
       go_bind (go_wrap ''unable to build instance pool placements'' (lift_err (BuildInstancePoolPlacement m))) (\<lambda>placements.
       let replicas = (case MP_Replicas (PS_MachinePool m) of Some r \<Rightarrow> r | None \<Rightarrow> 1) in
       go_wrap ''failed to create OCIMachinePool'' (pool_call (api_CreateInstancePool (pc_ComputeManagement c)
         \<lparr>CIP_CompartmentId = GetCompartmentId (PS_OCIClusterAccessor m),
          CIP_InstanceConfigurationId = GetInstanceConfigurationId m, CIP_Size = replicas,
          CIP_DisplayName = Pool_Name (PS_OCIMachinePool m), CIP_PlacementConfigurations = placements,
          CIP_FreeformTags = pool_GetFreeFormTags m\<rparr>))))"

fun indexPlacements :: "(string \<rightharpoonup> PoolPlacement) \<Rightarrow> PoolPlacement list \<Rightarrow> (string \<rightharpoonup> PoolPlacement) option" where
  "indexPlacements actualByAvailabilityDomain [] = Some actualByAvailabilityDomain"
| "indexPlacements actualByAvailabilityDomain (placement # placements) = (case PP_AvailabilityDomain placement of
      None \<Rightarrow> None
    | Some availabilityDomain \<Rightarrow>
        if actualByAvailabilityDomain availabilityDomain \<noteq> None then None
        else indexPlacements (actualByAvailabilityDomain(availabilityDomain \<mapsto> placement)) placements)"

definition instancePoolPlacementNeedsUpdate :: "PoolPlacement list \<Rightarrow> PoolPlacement list \<Rightarrow> bool" where
  "instancePoolPlacementNeedsUpdate actual desired =
     (if length actual \<noteq> length desired then True
      else case indexPlacements Map.empty actual of
        None \<Rightarrow> True
      | Some actualByAvailabilityDomain \<Rightarrow> list_ex (\<lambda>desiredPlacement. case PP_AvailabilityDomain desiredPlacement of
          None \<Rightarrow> True
        | Some ad \<Rightarrow> (case actualByAvailabilityDomain ad of
            None \<Rightarrow> True
          | Some actualPlacement \<Rightarrow>
              PP_PrimarySubnetId actualPlacement \<noteq> PP_PrimarySubnetId desiredPlacement \<or>
              \<not> sameStringSet (PP_FaultDomains actualPlacement) (PP_FaultDomains desiredPlacement))) desired)"

definition instancePoolNeedsUpdates :: "MachinePoolScope \<Rightarrow> SdkInstancePool \<Rightarrow> bool \<Rightarrow> bool" where
  "instancePoolNeedsUpdates m instancePool placementNeedsUpdate =
     (let machinePoolReplicas = (case MP_Replicas (PS_MachinePool m) of Some r \<Rightarrow> r | None \<Rightarrow> 0);
          instancePoolSize = (case SIP_Size instancePool of Some n \<Rightarrow> n | None \<Rightarrow> 0) in
      if \<not> MP_ReplicasManagedExternally (PS_MachinePool m) \<and> machinePoolReplicas \<noteq> instancePoolSize then True
      else if GetInstanceConfigurationId m \<noteq> SIP_InstanceConfigurationId instancePool then True
      else placementNeedsUpdate)"

definition updateInstancePoolDetails :: "MachinePoolScope \<Rightarrow> PoolPlacement list \<Rightarrow> bool \<Rightarrow> UpdateInstancePoolDetails" where
  "updateInstancePoolDetails m placementConfigurations placementNeedsUpdate =
     (let replicas = (case MP_Replicas (PS_MachinePool m) of Some r \<Rightarrow> r | None \<Rightarrow> 0) in
      \<lparr>UIP_InstanceConfigurationId = GetInstanceConfigurationId m, UIP_FreeformTags = pool_GetFreeFormTags m,
       UIP_Size = (if \<not> MP_ReplicasManagedExternally (PS_MachinePool m) then Some replicas else None),
       UIP_PlacementConfigurations = (if placementNeedsUpdate then Some placementConfigurations else None)\<rparr>)"

definition UpdatePool :: "'w PoolClients \<Rightarrow> SdkInstancePool \<Rightarrow> ('w, SdkInstancePool) pool_go" where
  "UpdatePool c instancePool =
     go_bind get_pool (\<lambda>m.
     go_bind (if length (PSpec_PlacementDetails (pool_spec m)) > 0
       then go_wrap ''unable to build instance pool placements'' (lift_err (buildUpdateInstancePoolPlacement m))
       else go_ret []) (\<lambda>placementConfigurations.
     let placementNeedsUpdate = (length (PSpec_PlacementDetails (pool_spec m)) > 0 \<and>
           instancePoolPlacementNeedsUpdate (SIP_PlacementConfigurations instancePool) placementConfigurations) in
     if instancePoolNeedsUpdates m instancePool placementNeedsUpdate
     then go_wrap ''unable to update instance pool'' (pool_call (api_UpdateInstancePool (pc_ComputeManagement c)
       (Res_Id instancePool) (updateInstancePoolDetails m placementConfigurations placementNeedsUpdate)))
     else go_ret instancePool))"

definition TerminateInstancePool :: "'w PoolClients \<Rightarrow> SdkInstancePool \<Rightarrow> ('w, unit) pool_go" where
  "TerminateInstancePool c instancePool = pool_call (api_TerminateInstancePool (pc_ComputeManagement c) (Res_Id instancePool))"

end
