(* ===== verification/Pool_Controller.thy ===== *)
theory Pool_Controller
  imports Machine_Pool
begin

text \<open>
  The controller of OCIMachinePool objects (src/exp/controllers/ocimachinepool_controller.go): \<open>reconcileNormal\<close>,
  \<open>reconcileDelete\<close> and \<open>reconcileMachines\<close>. The result of a reconciliation is the time after which the object is queued
  again, in seconds; 0 stands for the empty result. Pointers that the code prints into the text of an event are left out.
\<close>

definition mark_pool_false :: "'w PoolClients \<Rightarrow> string \<Rightarrow> string \<Rightarrow> ('w, unit) pool_go" where
  "mark_pool_false c condition reason = mark_pool (kube_MarkFalse (pc_Lib c) condition reason)"

definition mod_pool_finalizers :: "(string list \<Rightarrow> string list) \<Rightarrow> ('w, unit) pool_go" where
  "mod_pool_finalizers f = mod_pool (upd_pool (\<lambda>p. p\<lparr>Pool_Finalizers := f (Pool_Finalizers p)\<rparr>))"

section \<open>Machines of the pool\<close>

definition poolMachineParams :: "MachinePoolScope \<Rightarrow> OCIMachinePoolMachine list \<Rightarrow> MachineParams" where
  "poolMachineParams m specInfraMachines =
     \<lparr>Params_MachinePool = PS_MachinePool m, Params_Cluster = PS_Cluster m,
      Params_InfraMachinePoolName = Pool_Name (PS_OCIMachinePool m), Params_InfraMachinePoolKind = Pool_Kind (PS_OCIMachinePool m),
      Params_InfraMachinePoolUID = Pool_UID (PS_OCIMachinePool m), Params_Namespace = Pool_Namespace (PS_OCIMachinePool m),
      Params_SpecInfraMachines = specInfraMachines\<rparr>"

definition reconcileMachines :: "'w PoolClients \<Rightarrow> OCIMachinePoolMachine list \<Rightarrow> ('w, unit) pool_go" where
  "reconcileMachines c specInfraMachines =
     go_bind get_pool (\<lambda>m.
     let params = poolMachineParams m specInfraMachines in
     go_bind (go_try (pool_call (CreateMachinePoolMachinesIfNotExists (pc_Kube c) params))) (\<lambda>x. case x of
       Inl err \<Rightarrow>
         go_seq (record_event EventTypeWarning ''FailedToCreateNewMachines'' (Error err))
         (go_seq (mark_pool_false c ''Ready'' ''FailedToCreateNewMachines'')
         (go_throw (ErrWrap ''failed to create missing machines'' err)))
     | Inr _ \<Rightarrow>
         go_bind (go_try (pool_call (DeleteOrphanedMachinePoolMachines (pc_Kube c) params))) (\<lambda>y. case y of
           Inl err \<Rightarrow>
             go_seq (mark_pool_false c ''Ready'' ''FailedToDeleteOrphanedMachines'')
             (go_throw (ErrWrap ''failed to delete orphaned machines'' err))
         | Inr _ \<Rightarrow> go_ret ())))"

section \<open>Reconciliation\<close>

text \<open>The provider ids of the machines that are ready.\<close>

definition readyProviderID :: "OCIMachinePoolMachine \<Rightarrow> ('s, string list) go" where
  "readyProviderID machine =
     (if PM_Ready machine then go_bind (go_deref (PM_ProviderID machine)) (\<lambda>i. go_ret [i]) else go_ret [])"

definition updatePoolOrFail :: "'w PoolClients \<Rightarrow> SdkInstancePool \<Rightarrow> ('w, SdkInstancePool) pool_go" where
  "updatePoolOrFail c instancePool =
     go_bind (go_try (UpdatePool c instancePool)) (\<lambda>x. case x of
       Inr p \<Rightarrow> go_ret p
     | Inl err \<Rightarrow>
         go_seq (record_event EventTypeWarning ''FailedUpdate'' (''Failed to update instance pool: '' @ Error err)) (go_throw err))"

definition reconcileRunningPool :: "'w PoolClients \<Rightarrow> SdkInstancePool \<Rightarrow> ('w, int) pool_go" where
  "reconcileRunningPool c instancePool =
     go_seq (record_event EventTypeNormal ''InstancePoolReady'' ''Instance pool is in ready state'')
     (go_seq (mark_pool (kube_MarkTrue (pc_Lib c) InstancePoolReadyCondition))
     (go_bind (SetListandSetMachinePoolInstances c) (\<lambda>machines.
     go_bind (go_map machines readyProviderID) (\<lambda>ids.
     let providerIDList = concat ids in
     go_seq (mod_pool (upd_pool_spec (\<lambda>sp. sp\<lparr>PSpec_ProviderIDList := providerIDList\<rparr>)))
     (go_seq (reconcileMachines c machines)
     (go_seq (SyncReplicasFromInstancePool c (Some instancePool))
     (go_bind (updatePoolOrFail c instancePool) (\<lambda>updated.
     go_seq (CleanupInstanceConfiguration c (Some updated))
     (go_seq (mod_pool (SetReplicaCount (int32_of (int (length providerIDList)))))
     (go_seq (mod_pool pool_SetReady)
     (go_ret 300)))))))))))"

definition poolStateText :: "InstancePoolState \<Rightarrow> string" where
  "poolStateText st = (case st of
      PoolProvisioning \<Rightarrow> ''PROVISIONING'' | PoolStarting \<Rightarrow> ''STARTING'' | PoolScaling \<Rightarrow> ''SCALING''
    | PoolRunning \<Rightarrow> ''RUNNING'' | PoolTerminating \<Rightarrow> ''TERMINATING'' | PoolTerminated \<Rightarrow> ''TERMINATED'' | PoolStateOther txt \<Rightarrow> txt)"

abbreviation CreateError :: string where "CreateError \<equiv> ''CreateError''"

definition reconcileUnexpectedPool :: "'w PoolClients \<Rightarrow> SdkInstancePool \<Rightarrow> ('w, int) pool_go" where
  "reconcileUnexpectedPool c instancePool =
     (let state = poolStateText (SIP_LifecycleState instancePool) in
      go_seq (mark_pool_false c InstancePoolReadyCondition InstancePoolProvisionFailedReason)
      (go_seq (mod_pool (pool_SetFailureReason CreateError))
      (go_seq (mod_pool (pool_SetFailureMessage (ErrNew (''Instance Pool status '' @ [CHR 0x22] @ state @ [CHR 0x22] @ '' is unexpected''))))
      (go_seq (record_event EventTypeWarning ''ReconcileError'' (''Instance pool has invalid lifecycle state '' @ state))
      (go_throw (ErrNew (''instance pool has invalid lifecycle state '' @ state)))))))"

definition reconcileFoundPool :: "'w PoolClients \<Rightarrow> SdkInstancePool \<Rightarrow> ('w, int) pool_go" where
  "reconcileFoundPool c instancePool =
     go_bind (go_deref (Res_Id instancePool)) (\<lambda>i.
     go_seq (mod_pool (upd_pool_spec (\<lambda>sp. sp\<lparr>PSpec_ProviderID := Some (''oci://'' @ i), PSpec_OCID := Res_Id instancePool\<rparr>)))
     (if SIP_LifecycleState instancePool \<in> {PoolProvisioning, PoolStarting, PoolScaling}
      then go_seq (mark_pool_false c InstancePoolReadyCondition InstancePoolNotReadyReason) (go_ret 10)
      else if SIP_LifecycleState instancePool = PoolRunning then reconcileRunningPool c instancePool
      else reconcileUnexpectedPool c instancePool))"

definition createMissingPool :: "'w PoolClients \<Rightarrow> ('w, int) pool_go" where
  "createMissingPool c =
     go_bind (go_try (CreateInstancePool c)) (\<lambda>x. case x of
       Inl err \<Rightarrow>
         go_seq (record_event EventTypeWarning ''ReconcileError'' (Error err))
         (go_seq (mark_pool_false c InstancePoolReadyCondition InstancePoolProvisionFailedReason) (go_throw err))
     | Inr _ \<Rightarrow>
         go_bind get_pool (\<lambda>m.
         go_seq (record_event EventTypeNormal ''InstancePoolCreated''
           (''Created new Instance Pool: '' @ Pool_Name (PS_OCIMachinePool m))) (go_ret 0)))"

text \<open>The search for the pool, the configuration, and then the pool itself.\<close>

definition reconcilePoolResources :: "'w PoolClients \<Rightarrow> ('w, int) pool_go" where
  "reconcilePoolResources c =
     go_bind (go_try (FindInstancePool c)) (\<lambda>x. case x of
       Inl err \<Rightarrow>
         go_seq (record_event EventTypeWarning ''ReconcileError'' (Error err))
         (go_seq (mark_pool (pc_MarkUnknown c InstancePoolReadyCondition InstancePoolNotFoundReason)) (go_throw err))
     | Inr instancePool \<Rightarrow>
         go_bind (go_try (ReconcileInstanceConfiguration c)) (\<lambda>y. case y of
           Inl err \<Rightarrow>
             go_seq (record_event EventTypeWarning ''FailedLaunchTemplateReconcile''
               (''Failed to reconcile launch template: '' @ Error err)) (go_throw err)
         | Inr _ \<Rightarrow>
             go_seq (mark_pool (kube_MarkTrue (pc_Lib c) LaunchTemplateReadyCondition))
             (case instancePool of
                None \<Rightarrow> createMissingPool c
              | Some p \<Rightarrow> reconcileFoundPool c p)))"

definition pool_reconcileNormal :: "'w PoolClients \<Rightarrow> ('w, int) pool_go" where
  "pool_reconcileNormal c =
     go_bind get_pool (\<lambda>m.
     if pool_HasFailed m then go_ret 0
     else
       go_seq (mod_pool_finalizers (kube_AddFinalizer (pc_Lib c) MachinePoolFinalizer))
       (go_seq (PatchObject c)
       (if \<not> ToBool (Capi_InfrastructureProvisioned (PS_Cluster m)) then go_ret 0
        else if MP_DataSecretName (PS_MachinePool m) = None
        then go_seq (record_event EventTypeNormal ''WaitingForBootstrapData'' ''Bootstrap data secret reference is not yet available'')
          (go_seq (mark_pool_false c InstancePoolReadyCondition ''WaitingForBootstrapData'') (go_ret 0))
        else reconcilePoolResources c)))"

section \<open>Deletion\<close>

text \<open>The end of the deletion, reached when the pool is gone: the configurations, then the finalizer.\<close>

definition removePoolFinalizer :: "'w PoolClients \<Rightarrow> ('w, int) pool_go" where
  "removePoolFinalizer c = go_seq (mod_pool_finalizers (kube_RemoveFinalizer (pc_Lib c) MachinePoolFinalizer)) (go_ret 0)"

definition deleteCurrentConfiguration :: "'w PoolClients \<Rightarrow> goerr + SdkInstanceConfiguration option \<Rightarrow> ('w, int) pool_go" where
  "deleteCurrentConfiguration c x = (case x of
      Inl err \<Rightarrow> if \<not> IsNotFound (Some err) then go_throw err else removePoolFinalizer c
    | Inr None \<Rightarrow> removePoolFinalizer c
    | Inr (Some ic) \<Rightarrow>
        go_bind (go_deref (Res_Id ic)) (\<lambda>_.
        go_bind (go_try (pool_call (api_DeleteInstanceConfiguration (pc_ComputeManagement c) (Res_Id ic)))) (\<lambda>y. case y of
          Inl err \<Rightarrow>
            go_seq (record_event EventTypeWarning ''FailedDelete'' (''Failed to delete instance configuration: '' @ Error err))
            (go_throw (ErrWrap ''failed to delete instance configuration'' err))
        | Inr _ \<Rightarrow> removePoolFinalizer c)))"

definition deleteConfigurations :: "'w PoolClients \<Rightarrow> ('w, int) pool_go" where
  "deleteConfigurations c =
     go_seq (CleanupInstanceConfiguration c None)
     (go_bind (go_try (GetInstanceConfiguration c)) (deleteCurrentConfiguration c))"

definition set_pool_not_ready :: "('w, unit) pool_go" where
  "set_pool_not_ready = mod_pool (upd_pool_status (\<lambda>st. st\<lparr>PStatus_Ready := False\<rparr>))"

definition deletePoolNotFound :: "'w PoolClients \<Rightarrow> ('w, int) pool_go" where
  "deletePoolNotFound c =
     go_seq set_pool_not_ready
     (go_seq (mark_pool_false c InstancePoolReadyCondition InstancePoolNotFoundReason)
     (go_seq (record_event EventTypeNormal InstancePoolNotFoundReason ''Unable to find matching instance pool'')
     (deleteConfigurations c)))"

definition deletePoolFound :: "'w PoolClients \<Rightarrow> SdkInstancePool \<Rightarrow> ('w, int) pool_go" where
  "deletePoolFound c instancePool =
     (if SIP_LifecycleState instancePool = PoolTerminating then go_ret 30
      else if SIP_LifecycleState instancePool = PoolTerminated
      then go_seq set_pool_not_ready
        (go_seq (mark_pool_false c InstancePoolReadyCondition InstancePoolDeletionInProgress)
        (go_seq (record_event EventTypeWarning ''DeletionInProgress'' ''Instance Pool deletion in progress'')
        (deleteConfigurations c)))
      else go_bind (go_try (TerminateInstancePool c instancePool)) (\<lambda>x. case x of
          Inl err \<Rightarrow>
            go_seq (record_event EventTypeWarning ''FailedDelete'' (''Failed to delete instance pool: '' @ Error err))
            (go_throw (ErrWrap ''failed to delete instance pool'' err))
        | Inr _ \<Rightarrow> go_ret 30))"

definition pool_reconcileDelete :: "'w PoolClients \<Rightarrow> ('w, int) pool_go" where
  "pool_reconcileDelete c =
     go_bind (go_try (FindInstancePool c)) (\<lambda>x. case x of
       Inl err \<Rightarrow> if \<not> IsNotFound (Some err) then go_throw err else deletePoolNotFound c
     | Inr None \<Rightarrow> deletePoolNotFound c
     | Inr (Some instancePool) \<Rightarrow> deletePoolFound c instancePool)"

end
