(* ===== verification/Controller_State.thy ===== *)
theory Controller_State
  imports Machine_Controller
begin

text \<open>
  The state of a controller over any scope: the scope, the cloud, and the events recorded so far. Reading and writing the
  scope and calling a client are the same for every scope. The lemmas say how a change that is observed at the end of a
  program leads back to the step that made it.
\<close>

section \<open>State\<close>

type_synonym ('s, 'w) ctl = "('s \<times> 'w) \<times> Event list"
type_synonym ('s, 'w, 'a) ctl_go = "(('s, 'w) ctl, 'a) go"

definition ctl_get :: "('s, 'w, 's) ctl_go" where
  "ctl_get = on_fst get_scope"

definition ctl_mod :: "('s \<Rightarrow> 's) \<Rightarrow> ('s, 'w, unit) ctl_go" where
  "ctl_mod f = on_fst (mod_scope f)"

definition ctl_call :: "('w, 'a) go \<Rightarrow> ('s, 'w, 'a) ctl_go" where
  "ctl_call m = on_fst (api m)"

abbreviation ctl_scope :: "('s, 'w) ctl \<Rightarrow> 's" where "ctl_scope x \<equiv> fst (fst x)"
abbreviation ctl_cloud :: "('s, 'w) ctl \<Rightarrow> 'w" where "ctl_cloud x \<equiv> snd (fst x)"

lemma ctl_get_apply [go_simps]: "ctl_get x = (Ret (fst (fst x)), x)"
  by (cases x) (auto simp: ctl_get_def go_simps split: prod.splits)

lemma ctl_mod_apply [go_simps]: "ctl_mod f x = (Ret (), ((f (fst (fst x)), snd (fst x)), snd x))"
  by (cases x) (auto simp: ctl_mod_def go_simps mod_scope_def on_fst_def split: prod.splits)

lemma ctl_call_apply [go_simps]:
  "ctl_call m x = (fst (m (snd (fst x))), ((fst (fst x), snd (m (snd (fst x)))), snd x))"
  by (cases x) (auto simp: ctl_call_def on_fst_def api_def split: prod.splits)

lemma ctl_get_keeps: "reflp Rm \<Longrightarrow> reflp Rw \<Longrightarrow> keeps (ctrl_rel Rm Rw) ctl_get"
  by (auto simp: keeps_def go_simps ctrl_rel_def both_def reflp_def)

lemma ctl_mod_keeps: "(\<And>m. Rm m (f m)) \<Longrightarrow> reflp Rw \<Longrightarrow> keeps (ctrl_rel Rm Rw) (ctl_mod f)"
  by (auto simp: keeps_def go_simps ctrl_rel_def both_def reflp_def)

lemma ctl_call_keeps: "reflp Rm \<Longrightarrow> keeps Rw m \<Longrightarrow> keeps (ctrl_rel Rm Rw) (ctl_call m)"
  by (auto simp: keeps_def go_simps ctrl_rel_def both_def reflp_def)

lemmas ctl_intros = frame_intros ctrl_event ctrl_rel_order ctl_get_keeps ctl_mod_keeps ctl_call_keeps keeps_case_prod

section \<open>Loops\<close>

text \<open>A loop whose rounds are followed by the rounds of another one.\<close>

lemma loop_follows:
  fixes body :: "'l \<Rightarrow> ('s, 'l + 'b) go" and body' :: "'k \<Rightarrow> ('u, 'k + 'c) go"
  assumes step: "\<And>l s x t k u. R l s k u \<Longrightarrow> body l s = (Ret x, t) \<Longrightarrow>
      \<exists>y u'. body' k u = (Ret y, u') \<and> rel_sum (\<lambda>l' k'. R l' t k' u') (\<lambda>b b'. Q b t b' u') x y"
    and run: "go_loop body l s = (Ret b, t)" and init: "R l s k u"
  shows "\<exists>b' u'. go_loop body' k u = (Ret b', u') \<and> Q b t b' u'"
proof -
  have "c = body \<longrightarrow> (\<forall>k u b. R m q k u \<longrightarrow> fst r = Ret b \<longrightarrow> (\<exists>b' u'. loop_opt body' k u = Some (Ret b', u') \<and> Q b (snd r) b' u'))"
    if "loop_opt c m q = Some r" for c m q r
  proof (rule loop_opt.raw_induct [where P = "\<lambda>c m q r. c = body \<longrightarrow> (\<forall>k u b. R m q k u \<longrightarrow> fst r = Ret b \<longrightarrow>
      (\<exists>b' u'. loop_opt body' k u = Some (Ret b', u') \<and> Q b (snd r) b' u'))", OF _ that])
    fix f and c :: "'l \<Rightarrow> ('s, 'l + 'b) go" and m q r
    assume IH: "\<And>c m q r. f c m q = Some r \<Longrightarrow> c = body \<longrightarrow> (\<forall>k u b. R m q k u \<longrightarrow> fst r = Ret b \<longrightarrow>
        (\<exists>b' u'. loop_opt body' k u = Some (Ret b', u') \<and> Q b (snd r) b' u'))"
      and eq: "(case c m q of
        (Ret (Inl l'), t) \<Rightarrow> f c l' t
      | (Ret (Inr c), t) \<Rightarrow> Some (Ret c, t)
      | (Err e, t) \<Rightarrow> Some (Err e, t)
      | (Panic, t) \<Rightarrow> Some (Panic, t)
      | (Diverge, t) \<Rightarrow> Some (Diverge, t)) = Some r"
    show "c = body \<longrightarrow> (\<forall>k u b. R m q k u \<longrightarrow> fst r = Ret b \<longrightarrow>
        (\<exists>b' u'. loop_opt body' k u = Some (Ret b', u') \<and> Q b (snd r) b' u'))"
    proof (intro impI allI)
      fix k u b assume c: "c = body" and rel: "R m q k u" and ret: "fst r = Ret b"
      from eq ret obtain x t where cx: "c m q = (Ret x, t)" by (cases "c m q"; cases "fst (c m q)") auto
      from step [OF rel cx [unfolded c]] obtain y u' where y: "body' k u = (Ret y, u')"
        and xy: "rel_sum (\<lambda>l' k'. R l' t k' u') (\<lambda>b b'. Q b t b' u') x y" by blast
      show "\<exists>b' u'. loop_opt body' k u = Some (Ret b', u') \<and> Q b (snd r) b' u'"
      proof (cases x)
        case (Inl l')
        with xy obtain k' where k': "y = Inl k'" "R l' t k' u'" by (cases y) auto
        from eq cx Inl have "f c l' t = Some r" by simp
        from IH [OF this] c k'(2) ret y k'(1) show ?thesis by (subst loop_opt.simps) auto
      next
        case (Inr d)
        with xy obtain d' where d': "y = Inr d'" "Q d t d' u'" by (cases y) auto
        from eq cx Inr ret d' y show ?thesis by (subst loop_opt.simps) auto
      qed
    qed
  qed
  then show ?thesis using run init by (fastforce simp: go_loop_def split: option.splits)
qed

lemma go_map_ret:
  assumes "\<And>i x b y. f i x = (Ret b, y) \<Longrightarrow> b = g i \<and> y = x"
  shows "go_map is f x = (Ret bs, y) \<Longrightarrow> bs = map g is \<and> y = x"
proof (induction "is" arbitrary: x bs)
  case (Cons i "is")
  from Cons.prems obtain b z cs where "f i x = (Ret b, z)" "go_map is f z = (Ret cs, y)" "bs = b # cs"
    by (auto simp: go_simps split: res.splits prod.splits)
  with assms [of i x b z] Cons.IH [of x cs] show ?case by simp
qed (simp add: go_simps)

section \<open>Observing a change\<close>

text \<open>A program that keeps what is observed leaves a change to what follows it.\<close>

abbreviation (input) keeping :: "('s \<Rightarrow> 'o) \<Rightarrow> 's \<Rightarrow> 's \<Rightarrow> bool" where
  "keeping f \<equiv> (\<lambda>x y. f y = f x)"

lemma bind_observed:
  assumes "go_bind p q x = (r, y)" and "keeps (keeping f) p" and "f y \<noteq> f x"
  shows "\<exists>a z. p x = (Ret a, z) \<and> q a z = (r, y) \<and> f z = f x"
proof -
  obtain a z where p: "p x = (a, z)" by (cases "p x")
  with assms(2) have "f z = f x" by (rule keepsD)
  with assms(1,3) p show ?thesis by (cases a) (auto simp: go_simps)
qed

lemma seq_observed:
  "go_seq p q x = (r, y) \<Longrightarrow> keeps (keeping f) p \<Longrightarrow> f y \<noteq> f x \<Longrightarrow> \<exists>a z. p x = (Ret a, z) \<and> q z = (r, y) \<and> f z = f x"
  unfolding go_seq_def by (rule bind_observed)

lemma try_Ret: "go_try p x = (Ret s, z) \<Longrightarrow> (\<exists>a. s = Inr a \<and> p x = (Ret a, z)) \<or> (\<exists>e. s = Inl e \<and> p x = (Err e, z))"
  by (auto simp: go_simps split: res.splits prod.splits)

lemma try_observed:
  assumes run: "go_bind (go_try p) (\<lambda>s. case s of Inl e \<Rightarrow> g e | Inr a \<Rightarrow> h a) x = (r, y)" and p: "keeps (keeping f) p"
    and g: "\<And>e. keeps (keeping f) (g e)" and ne: "f y \<noteq> f x"
  shows "\<exists>a z. p x = (Ret a, z) \<and> h a z = (r, y) \<and> f z = f x"
proof -
  from bind_observed [OF run keeps_try [OF p] ne] obtain s z where
    s: "go_try p x = (Ret s, z)" "(case s of Inl e \<Rightarrow> g e | Inr a \<Rightarrow> h a) z = (r, y)" and f: "f z = f x" by blast
  from s(2) f ne keepsD [OF g] obtain a where "s = Inr a" by (cases s) force+
  with s f try_Ret [OF s(1)] show ?thesis by auto
qed

lemma keeping_order: "reflp (keeping f)" "transp (keeping f)"
  by (simp_all add: reflp_def transp_def)

end
