(* ===== verification/Pool_Samples.thy ===== *)
theory Pool_Samples
  imports Pool_Controller Controller_State
begin

text \<open>
  A pool and a cloud for it, as instances of the parameters: the state of the cloud is the list of its instance
  configurations and the list of its instance pools. A configuration is stored as it was asked for; a new pool runs at once
  and termination takes effect at once. The secret and the machine objects of Kubernetes do not change.
\<close>

type_synonym pool_world = "SdkInstanceConfiguration list \<times> SdkInstancePool list"

definition config_at :: "pool_world \<Rightarrow> string \<Rightarrow> SdkInstanceConfiguration option" where
  "config_at w k = find (\<lambda>ic. Res_Id ic = Some k \<and> Res_DisplayName ic \<noteq> None) (fst w)"

definition world_pool_at :: "pool_world \<Rightarrow> string \<Rightarrow> SdkInstancePool option" where
  "world_pool_at w k = find (\<lambda>p. Res_Id p = Some k \<and> Res_DisplayName p \<noteq> None) (snd w)"

definition stored_configuration :: "pool_world \<Rightarrow> CreateInstanceConfigurationDetails \<Rightarrow> SdkInstanceConfiguration" where
  "stored_configuration w d = \<lparr>Res_Id = Some (''ic-'' @ replicate (length (fst w)) CHR ''I''), Res_DisplayName = Some (CIC_DisplayName d),
     Res_FreeformTags = CIC_FreeformTags d, SIC_InstanceDetails = CIC_InstanceDetails d\<rparr>"

definition stored_pool :: "pool_world \<Rightarrow> CreateInstancePoolDetails \<Rightarrow> SdkInstancePool" where
  "stored_pool w d = \<lparr>Res_Id = Some (''ip-'' @ replicate (length (snd w)) CHR ''I''), Res_DisplayName = Some (CIP_DisplayName d),
     Res_FreeformTags = CIP_FreeformTags d, SIP_InstanceConfigurationId = CIP_InstanceConfigurationId d,
     SIP_Size = Some (CIP_Size d), SIP_LifecycleState = PoolRunning,
     SIP_PlacementConfigurations = CIP_PlacementConfigurations d\<rparr>"

definition updated_pool :: "UpdateInstancePoolDetails \<Rightarrow> SdkInstancePool \<Rightarrow> SdkInstancePool" where
  "updated_pool d p = p\<lparr>SIP_InstanceConfigurationId := UIP_InstanceConfigurationId d,
     SIP_Size := (case UIP_Size d of Some n \<Rightarrow> Some n | None \<Rightarrow> SIP_Size p),
     SIP_PlacementConfigurations := (case UIP_PlacementConfigurations d of Some l \<Rightarrow> l | None \<Rightarrow> SIP_PlacementConfigurations p)\<rparr>"

definition pool_compute :: "pool_world ComputeManagementApi" where
  "pool_compute =
     \<lparr>api_GetInstanceConfiguration = (\<lambda>i w. (case Option.bind i (config_at w) of None \<Rightarrow> Err not_found_err | Some ic \<Rightarrow> Ret ic, w)),
      api_ListInstanceConfigurations = (\<lambda>_ _ w. (Ret (map SdkResource.truncate
        (filter (\<lambda>ic. Option.bind (Res_Id ic) (config_at w) = Some ic) (fst w)), None), w)),
      api_CreateInstanceConfiguration = (\<lambda>d w. (Ret (stored_configuration w d), (stored_configuration w d # fst w, snd w))),
      api_DeleteInstanceConfiguration = (\<lambda>i w. case i of
          None \<Rightarrow> (Err not_found_err, w)
        | Some k \<Rightarrow> (Ret (), (filter (\<lambda>ic. Res_Id ic \<noteq> Some k) (fst w), snd w))),
      api_GetInstancePool = (\<lambda>i w. (case Option.bind i (world_pool_at w) of None \<Rightarrow> Err not_found_err | Some p \<Rightarrow> Ret p, w)),
      api_ListInstancePools = (\<lambda>_ nm _ w. (Ret (map SdkResource.truncate (filter (\<lambda>p. Res_DisplayName p = Some nm) (snd w)), None), w)),
      api_CreateInstancePool = (\<lambda>d w. (Ret (stored_pool w d), (fst w, stored_pool w d # snd w))),
      api_UpdateInstancePool = (\<lambda>i d w. case Option.bind i (world_pool_at w) of
          None \<Rightarrow> (Err not_found_err, w)
        | Some p \<Rightarrow> (Ret (updated_pool d p), (fst w, map (\<lambda>q. if Res_Id q = i then updated_pool d p else q) (snd w)))),
      api_TerminateInstancePool = (\<lambda>i w. (Ret (), (fst w,
        map (\<lambda>p. if Res_Id p = i then p\<lparr>SIP_LifecycleState := PoolTerminated\<rparr> else p) (snd w)))),
      api_ListInstancePoolInstances = (\<lambda>_ _ _. go_ret ([], None))\<rparr>"

definition pool_kube :: "'w PoolKube" where
  "pool_kube = \<lparr>pk_GetSecret = (\<lambda>_ _. go_ret [''value'' \<mapsto> ''cloud-init'']), pk_PatchPool = (\<lambda>_. go_ret ()), pk_NewHelper = go_ret (),
     pk_PatchMachinePool = (\<lambda>_. go_ret ()), pk_ListPoolMachines = (\<lambda>_ _. go_ret []), pk_CreatePoolMachine = (\<lambda>_. go_ret ()),
     pk_PatchPoolMachine = (\<lambda>_. go_ret ()), pk_GetOwnerMachine = (\<lambda>_. go_ret None), pk_DeleteMachine = (\<lambda>_. go_ret ()),
     pk_NotFound = (\<lambda>_. False), pk_FormatValue = id\<rparr>"

definition sample_pool_clients :: "pool_world PoolClients" where
  "sample_pool_clients = \<lparr>pc_ComputeManagement = pool_compute, pc_Kube = pool_kube, pc_Lib = sample_kube,
     pc_MarkUnknown = (\<lambda>_ _ cs. cs),
     pc_Enum = \<lparr>em_DesiredState = id, em_BootVolumeType = id, em_Firmware = id, em_NetworkType = id, em_RemoteDataVolumeType = id,
        em_RecoveryAction = id, em_AmdRomeBmGpuNuma = id, em_AmdRomeBmNuma = id, em_IntelIcelakeBmNuma = id,
        em_AmdMilanBmNuma = id, em_BaselineOcpuValues = []\<rparr>,
     pc_Float = \<lparr>fp_Float32 = Some, fp_Int64OfFloat64 = (\<lambda>_. Some 50)\<rparr>, pc_JsonUnmarshal = Inr,
     pc_Hash = \<lparr>hl_Marshal = (\<lambda>_. Inr ''json''), hl_Sha256 = (\<lambda>b. CHR ''h'' # b)\<rparr>\<rparr>"

definition sample_pool_config :: InstanceConfiguration where
  "sample_pool_config = \<lparr>IConf_InstanceConfigurationId = None, IConf_Shape = Some ''VM.Standard.E4.Flex'', IConf_ShapeConfig = None,
     IConf_FreeformTags = Map.empty, IConf_DefinedTags = Map.empty, IConf_InstanceVnicConfiguration = None, IConf_PlatformConfig = None,
     IConf_AgentConfig = None, IConf_PreemptibleInstanceConfig = None, IConf_AvailabilityConfig = None,
     IConf_DedicatedVmHostId = None, IConf_LaunchOptions = None, IConf_InstanceOptions = None,
     IConf_IsPvEncryptionInTransitEnabled = None, IConf_InstanceSourceViaImageDetails = None, IConf_CapacityReservationId = None,
     IConf_Metadata = Map.empty, IConf_ExtendedMetadata = []\<rparr>"

definition sample_pool :: MachinePoolScope where
  "sample_pool =
     \<lparr>PS_Cluster = \<lparr>Capi_Name = ''prod'', Capi_InfrastructureProvisioned = Some True\<rparr>,
      PS_MachinePool = \<lparr>MP_Name = ''workers'', MP_Namespace = ''ns'', MP_Replicas = Some 3, MP_ReplicasManagedExternally = False,
        MP_DataSecretName = Some ''secret''\<rparr>,
      PS_OCIClusterAccessor = SetAvailabilityDomains [(''AD-1'', \<lparr>AD_Name = ''AD-1'', AD_FaultDomains = [''FD-1'', ''FD-2'']\<rparr>)]
        sample_scope,
      PS_OCIMachinePool = \<lparr>Pool_Name = ''workers'', Pool_Namespace = ''ns'', Pool_Kind = ''OCIMachinePool'', Pool_UID = ''u'',
        Pool_Annotations = Map.empty, Pool_Finalizers = [MachinePoolFinalizer], Pool_Deleted = False,
        Pool_Spec = \<lparr>PSpec_ProviderID = None, PSpec_OCID = None, PSpec_PlacementDetails = [],
          PSpec_InstanceConfiguration = sample_pool_config, PSpec_ProviderIDList = []\<rparr>,
        Pool_Status = \<lparr>PStatus_Ready = False, PStatus_Replicas = 0, PStatus_Conditions = [], PStatus_FailureReason = None,
          PStatus_FailureMessage = None, PStatus_InfrastructureMachineKind = ''OCIMachinePoolMachine''\<rparr>\<rparr>\<rparr>"

lemma sample_pool_simps [simp]:
  "PS_MachinePool sample_pool = \<lparr>MP_Name = ''workers'', MP_Namespace = ''ns'', MP_Replicas = Some 3, MP_ReplicasManagedExternally = False,
     MP_DataSecretName = Some ''secret''\<rparr>"
  "Pool_Name (PS_OCIMachinePool sample_pool) = ''workers''" "PSpec_OCID (pool_spec sample_pool) = None"
  "Pool_Annotations (PS_OCIMachinePool sample_pool) = Map.empty" "Pool_Finalizers (PS_OCIMachinePool sample_pool) = [MachinePoolFinalizer]"
  "pool_config sample_pool = sample_pool_config" "GetInstanceConfigurationId sample_pool = None"
  by (simp_all add: sample_pool_def sample_pool_config_def GetInstanceConfigurationId_def)

lemma sample_pool_clients_simps [simp]:
  "pc_ComputeManagement sample_pool_clients = pool_compute" "pc_Kube sample_pool_clients = pool_kube"
  "pc_Lib sample_pool_clients = sample_kube" "pc_Hash sample_pool_clients = \<lparr>hl_Marshal = (\<lambda>_. Inr ''json''), hl_Sha256 = (\<lambda>b. CHR ''h'' # b)\<rparr>"
  by (simp_all add: sample_pool_clients_def)

lemma pool_compute_simps [go_simps]:
  "api_GetInstanceConfiguration pool_compute i w = (case Option.bind i (config_at w) of None \<Rightarrow> Err not_found_err | Some ic \<Rightarrow> Ret ic, w)"
  "api_ListInstanceConfigurations pool_compute cid page w = (Ret (map SdkResource.truncate
     (filter (\<lambda>ic. Option.bind (Res_Id ic) (config_at w) = Some ic) (fst w)), None), w)"
  "api_CreateInstanceConfiguration pool_compute d w = (Ret (stored_configuration w d), (stored_configuration w d # fst w, snd w))"
  "api_DeleteInstanceConfiguration pool_compute i w = (case i of
       None \<Rightarrow> (Err not_found_err, w)
     | Some k \<Rightarrow> (Ret (), (filter (\<lambda>ic. Res_Id ic \<noteq> Some k) (fst w), snd w)))"
  "api_GetInstancePool pool_compute i w = (case Option.bind i (world_pool_at w) of None \<Rightarrow> Err not_found_err | Some p \<Rightarrow> Ret p, w)"
  "api_ListInstancePools pool_compute cid nm page w =
     (Ret (map SdkResource.truncate (filter (\<lambda>p. Res_DisplayName p = Some nm) (snd w)), None), w)"
  by (simp_all add: pool_compute_def)

lemma collect_one_page: "listop None x = (Ret (items, None), y) \<Longrightarrow> collect_pages listop scan x = scan items y"
  unfolding collect_pages_def by (subst go_loop_unfold) (auto simp: go_simps split: res.splits prod.splits)

end
