(* ===== verification/Pool_Frames.thy ===== *)
theory Pool_Frames
  imports Pool_Samples
begin

text \<open>
  What the operations of the pool scope leave alone. The interface \<open>pool_queries\<close> asks of a relation on the cloud that the
  requests which only read keep it; the lookups made of them keep it too, and do not write to the scope.
\<close>

section \<open>Combinators\<close>

lemma get_pool_apply [go_simps]: "get_pool x = (Ret (fst (fst x)), x)"
  by (cases x) (auto simp: get_pool_def go_simps split: prod.splits)

lemma mod_pool_apply [go_simps]: "mod_pool f x = (Ret (), ((f (fst (fst x)), snd (fst x)), snd x))"
  by (cases x) (auto simp: mod_pool_def go_simps mod_scope_def on_fst_def split: prod.splits)

lemma pool_call_apply [go_simps]:
  "pool_call m x = (fst (m (snd (fst x))), ((fst (fst x), snd (m (snd (fst x)))), snd x))"
  by (cases x) (auto simp: pool_call_def on_fst_def api_def split: prod.splits)

lemma pool_get_keeps: "reflp Rm \<Longrightarrow> reflp Rw \<Longrightarrow> keeps (ctrl_rel Rm Rw) get_pool"
  by (auto simp: keeps_def go_simps ctrl_rel_def both_def reflp_def)

lemma pool_mod_keeps: "(\<And>m. Rm m (f m)) \<Longrightarrow> reflp Rw \<Longrightarrow> keeps (ctrl_rel Rm Rw) (mod_pool f)"
  by (auto simp: keeps_def go_simps ctrl_rel_def both_def reflp_def)

lemma pool_call_keeps: "reflp Rm \<Longrightarrow> keeps Rw m \<Longrightarrow> keeps (ctrl_rel Rm Rw) (pool_call m)"
  by (auto simp: keeps_def go_simps ctrl_rel_def both_def reflp_def)

lemma ctrl_mono:
  "keeps (ctrl_rel Rm Rw) op \<Longrightarrow> (\<And>m m'. Rm m m' \<Longrightarrow> Rm' m m') \<Longrightarrow> (\<And>w w'. Rw w w' \<Longrightarrow> Rw' w w') \<Longrightarrow> keeps (ctrl_rel Rm' Rw') op"
  by (auto simp: keeps_def ctrl_rel_def both_def)

lemma lift_err_keeps: "reflp R \<Longrightarrow> keeps R (lift_err x)"
  by (auto simp: keeps_def go_simps reflp_def split: sum.split)

lemma wrap_with_id_keeps: "reflp R \<Longrightarrow> transp R \<Longrightarrow> keeps R m \<Longrightarrow> keeps R (wrap_with_id msg i m)"
  unfolding wrap_with_id_def by (intro frame_intros)

lemma keeps_collect_pages:
  assumes "reflp R" "transp R" "\<And>p. keeps R (listop p)" "\<And>items. keeps R (scan items)"
  shows "keeps R (collect_pages listop scan)"
  unfolding collect_pages_def by (auto intro!: frame_intros assms split: prod.split)

lemmas pool_intros = frame_intros ctrl_event ctrl_rel_order pool_get_keeps pool_mod_keeps pool_call_keeps lift_err_keeps
  wrap_with_id_keeps keeps_collect_pages keeps_case_prod

section \<open>Lookups\<close>

text \<open>A program that writes neither to the scope nor to the events.\<close>

definition pool_quiet :: "('w \<Rightarrow> 'w \<Rightarrow> bool) \<Rightarrow> 'w pctrl \<Rightarrow> 'w pctrl \<Rightarrow> bool" where
  "pool_quiet Rw x y \<longleftrightarrow> fst (fst y) = fst (fst x) \<and> snd y = snd x \<and> Rw (snd (fst x)) (snd (fst y))"

lemma pool_quiet_order: "reflp Rw \<Longrightarrow> reflp (pool_quiet Rw)" "transp Rw \<Longrightarrow> transp (pool_quiet Rw)"
  by (simp_all add: pool_quiet_def reflp_def transp_def)

lemma pool_quiet_get: "reflp Rw \<Longrightarrow> keeps (pool_quiet Rw) get_pool"
  by (auto simp: keeps_def go_simps pool_quiet_def reflp_def)

lemma pool_quiet_call: "keeps Rw m \<Longrightarrow> keeps (pool_quiet Rw) (pool_call m)"
  by (auto simp: keeps_def go_simps pool_quiet_def)

lemma quiet_scope: "keeps (pool_quiet Rw) op \<Longrightarrow> keeps (ctrl_rel (=) Rw) op"
  by (simp add: keeps_def pool_quiet_def ctrl_rel_def both_def)

lemmas quiet_intros = frame_intros pool_quiet_order pool_quiet_get pool_quiet_call lift_err_keeps wrap_with_id_keeps
  keeps_collect_pages keeps_case_prod

locale pool_queries =
  fixes c :: "'w PoolClients" and Rw :: "'w \<Rightarrow> 'w \<Rightarrow> bool"
  assumes order: "reflp Rw" "transp Rw"
    and queries: "keeps Rw (api_GetInstanceConfiguration (pc_ComputeManagement c) i)"
      "keeps Rw (api_ListInstanceConfigurations (pc_ComputeManagement c) cid page)"
      "keeps Rw (api_GetInstancePool (pc_ComputeManagement c) i)"
      "keeps Rw (api_ListInstancePools (pc_ComputeManagement c) cid nm page)"
      "keeps Rw (pk_GetSecret (pc_Kube c) ns nm)"
begin

lemma ids_keeps:
  "keeps (pool_quiet Rw) (getInstanceConfigurationsFromDisplayNameSortedTimeCreateDescending c nm)"
  unfolding getInstanceConfigurationsFromDisplayNameSortedTimeCreateDescending_def ownConfigurationId_def
  by (intro quiet_intros order queries)

lemma GetInstanceConfiguration_keeps: "keeps (pool_quiet Rw) (GetInstanceConfiguration c)"
  unfolding GetInstanceConfiguration_def getInstanceConfigurationFromOCID_def
  by (auto intro!: quiet_intros order queries ids_keeps split: list.split)

lemma FindInstancePool_keeps: "keeps (pool_quiet Rw) (FindInstancePool c)"
  unfolding FindInstancePool_def ListInstancePoolSummaries_def by (intro quiet_intros order queries)

lemma GetBootstrapData_keeps: "keeps (pool_quiet Rw) (pool_GetBootstrapData c)"
  unfolding pool_GetBootstrapData_def by (intro quiet_intros order queries)

text \<open>The removal of old configurations writes nothing to the scope.\<close>

lemma Cleanup_keeps:
  assumes "\<And>i. keeps Rw (api_DeleteInstanceConfiguration (pc_ComputeManagement c) i)"
  shows "keeps (ctrl_rel (=) Rw) (CleanupInstanceConfiguration c p)"
  unfolding CleanupInstanceConfiguration_def deleteOldConfiguration_def Let_def
  by (intro pool_intros order quiet_scope [OF ids_keeps] eq_order assms)

end

lemma keeps_any: "keeps (\<lambda>_ _. True) m"
  by (simp add: keeps_def)

lemma any_order [simp]: "reflp (\<lambda>_ _. True)" "transp (\<lambda>_ _. True)"
  by (simp_all add: reflp_def transp_def)

interpretation any_pool: pool_queries c "\<lambda>_ _. True" for c :: "'w PoolClients"
  by unfold_locales (simp_all add: keeps_any)

lemmas pool_scope_kept = quiet_scope [OF any_pool.GetInstanceConfiguration_keeps] quiet_scope [OF any_pool.FindInstancePool_keeps]
  any_pool.Cleanup_keeps [OF keeps_any]

lemma pool_scope_eq:
  "GetInstanceConfiguration c x = (g, y) \<Longrightarrow> fst (fst y) = fst (fst x)"
  "FindInstancePool c x = (f, z) \<Longrightarrow> fst (fst z) = fst (fst x)"
  "CleanupInstanceConfiguration c p x = (u, v) \<Longrightarrow> fst (fst v) = fst (fst x)"
  by (auto dest!: keepsD [OF pool_scope_kept(1)] keepsD [OF pool_scope_kept(2)] keepsD [OF pool_scope_kept(3)]
      simp: ctrl_rel_def both_def)

section \<open>The finalizer of a pool\<close>

abbreviation pool_finalizers :: "'w pctrl \<Rightarrow> string list" where
  "pool_finalizers x \<equiv> Pool_Finalizers (PS_OCIMachinePool (fst (fst x)))"

lemma scope_keeping: "keeps (ctrl_rel (=) Rw) op \<Longrightarrow> keeps (keeping (\<lambda>x. g (fst (fst x)))) op"
  by (simp add: keeps_def ctrl_rel_def both_def)

lemma pool_finalizers_kept:
  "keeps (keeping pool_finalizers) (record_event t reason msg)" "keeps (keeping pool_finalizers) (pool_call m)"
  "keeps (keeping pool_finalizers) (mark_pool_false c cond reason)" "keeps (keeping pool_finalizers) set_pool_not_ready"
  by (auto simp: keeps_def record_event_def mark_pool_false_def mark_pool_def set_pool_not_ready_def go_simps
        upd_pool_status_def upd_pool_def split: prod.split)

lemma pool_finalizers_lookups:
  "keeps (keeping pool_finalizers) (FindInstancePool c)" "keeps (keeping pool_finalizers) (GetInstanceConfiguration c)"
  "keeps (keeping pool_finalizers) (CleanupInstanceConfiguration c p)"
  by (rule scope_keeping [OF pool_scope_kept(2)] scope_keeping [OF pool_scope_kept(1)] scope_keeping [OF pool_scope_kept(3)])+

text \<open>What the lookup reports when the pool is gone.\<close>

definition pool_gone :: "SdkInstancePool option res \<Rightarrow> bool" where
  "pool_gone x = (case x of
      Ret None \<Rightarrow> True
    | Ret (Some p) \<Rightarrow> SIP_LifecycleState p = PoolTerminated
    | Err err \<Rightarrow> IsNotFound (Some err)
    | _ \<Rightarrow> False)"

text \<open>From the cloud \<open>w\<close> to the cloud \<open>w'\<close> the configurations of the pool are removed: the old ones, and then the current
  one, unless there is none.\<close>

definition configurations_removed :: "'w PoolClients \<Rightarrow> 'w \<Rightarrow> 'w \<Rightarrow> bool" where
  "configurations_removed c w w' \<longleftrightarrow> (\<exists>z z1 z2 g. snd (fst z) = w \<and> CleanupInstanceConfiguration c None z = (Ret (), z1) \<and>
     GetInstanceConfiguration c z1 = (g, z2) \<and>
     ((g = Ret None \<or> (\<exists>err. g = Err err \<and> IsNotFound (Some err))) \<and> w' = snd (fst z2) \<or>
      (\<exists>ic. g = Ret (Some ic) \<and> api_DeleteInstanceConfiguration (pc_ComputeManagement c) (Res_Id ic) (snd (fst z2)) = (Ret (), w'))))"

lemma removePoolFinalizer_run:
  "removePoolFinalizer c z = (r, y) \<Longrightarrow>
   r = Ret 0 \<and> snd (fst y) = snd (fst z) \<and>
   pool_finalizers y = kube_RemoveFinalizer (pc_Lib c) MachinePoolFinalizer (pool_finalizers z)"
  by (auto simp: removePoolFinalizer_def mod_pool_finalizers_def go_simps upd_pool_def)

lemma deleteCurrentConfiguration_finalizers:
  assumes run: "deleteCurrentConfiguration c s x = (r, y)" and ne: "pool_finalizers y \<noteq> pool_finalizers x"
  shows "(r = Ret 0 \<and> pool_finalizers y = kube_RemoveFinalizer (pc_Lib c) MachinePoolFinalizer (pool_finalizers x)) \<and>
    ((s = Inr None \<or> (\<exists>err. s = Inl err \<and> IsNotFound (Some err))) \<and> snd (fst y) = snd (fst x) \<or>
     (\<exists>ic. s = Inr (Some ic) \<and>
        api_DeleteInstanceConfiguration (pc_ComputeManagement c) (Res_Id ic) (snd (fst x)) = (Ret (), snd (fst y))))"
proof (cases "\<exists>ic. s = Inr (Some ic)")
  case True
  then obtain ic where s: "s = Inr (Some ic)" by blast
  from run s ne obtain i where i: "Res_Id ic = Some i"
    by (cases "Res_Id ic") (auto simp: deleteCurrentConfiguration_def go_bind_apply go_deref_apply)
  have fails: "keeps (keeping pool_finalizers) (go_seq (record_event t rs msg) (go_throw e) :: ('a, int) pool_go)" for t rs msg e
    by (intro keeps_seq keeps_pure pool_finalizers_kept keeping_order)
  from run i have "go_bind (go_try (pool_call (api_DeleteInstanceConfiguration (pc_ComputeManagement c) (Res_Id ic)))) (\<lambda>y.
      case y of
        Inl err \<Rightarrow>
          go_seq (record_event EventTypeWarning ''FailedDelete'' (''Failed to delete instance configuration: '' @ Error err))
          (go_throw (ErrWrap ''failed to delete instance configuration'' err))
      | Inr _ \<Rightarrow> removePoolFinalizer c) x = (r, y)"
    by (simp only: deleteCurrentConfiguration_def s sum.case option.case go_deref_def go_bind_ret)
  from try_observed [OF this pool_finalizers_kept(2) fails ne] obtain a z where
    del: "pool_call (api_DeleteInstanceConfiguration (pc_ComputeManagement c) (Res_Id ic)) x = (Ret a, z)"
    and fin: "removePoolFinalizer c z = (r, y)" "pool_finalizers z = pool_finalizers x" by blast
  from del have "api_DeleteInstanceConfiguration (pc_ComputeManagement c) (Res_Id ic) (snd (fst x)) = (Ret (), snd (fst z))"
    by (auto simp: go_simps prod_eq_iff)
  with removePoolFinalizer_run [OF fin(1)] fin(2) s show ?thesis by (intro conjI) (simp, simp, auto)
next
  case False
  with run ne show ?thesis
    using removePoolFinalizer_run [of c x r y]
    by (auto simp: deleteCurrentConfiguration_def go_throw_apply split: sum.splits option.splits if_splits)
qed

lemma deleteConfigurations_finalizers:
  assumes run: "deleteConfigurations c x = (r, y)" and ne: "pool_finalizers y \<noteq> pool_finalizers x"
  shows "r = Ret 0 \<and> configurations_removed c (snd (fst x)) (snd (fst y)) \<and>
    pool_finalizers y = kube_RemoveFinalizer (pc_Lib c) MachinePoolFinalizer (pool_finalizers x)"
proof -
  from seq_observed [OF run [unfolded deleteConfigurations_def] pool_finalizers_lookups(3) ne] obtain z1 where
    cl: "CleanupInstanceConfiguration c None x = (Ret (), z1)" and f1: "pool_finalizers z1 = pool_finalizers x"
    and rest: "go_bind (go_try (GetInstanceConfiguration c)) (deleteCurrentConfiguration c) z1 = (r, y)" by (metis (full_types) old.unit.exhaust)
  from bind_observed [OF rest keeps_try [OF pool_finalizers_lookups(2)]] ne f1 obtain s z2 where
    ge: "go_try (GetInstanceConfiguration c) z1 = (Ret s, z2)" and f2: "pool_finalizers z2 = pool_finalizers x"
    and k: "deleteCurrentConfiguration c s z2 = (r, y)" by metis
  from ne f2 have "pool_finalizers y \<noteq> pool_finalizers z2" by simp
  from deleteCurrentConfiguration_finalizers [OF k this] f2
  have fin: "r = Ret 0" "pool_finalizers y = kube_RemoveFinalizer (pc_Lib c) MachinePoolFinalizer (pool_finalizers x)"
    and s: "(s = Inr None \<or> (\<exists>err. s = Inl err \<and> IsNotFound (Some err))) \<and> snd (fst y) = snd (fst z2) \<or>
     (\<exists>ic. s = Inr (Some ic) \<and>
        api_DeleteInstanceConfiguration (pc_ComputeManagement c) (Res_Id ic) (snd (fst z2)) = (Ret (), snd (fst y)))" by auto
  from try_Ret [OF ge] s obtain g where "GetInstanceConfiguration c z1 = (g, z2)"
    "(g = Ret None \<or> (\<exists>err. g = Err err \<and> IsNotFound (Some err))) \<and> snd (fst y) = snd (fst z2) \<or>
      (\<exists>ic. g = Ret (Some ic) \<and>
        api_DeleteInstanceConfiguration (pc_ComputeManagement c) (Res_Id ic) (snd (fst z2)) = (Ret (), snd (fst y)))" by auto
  with cl have "configurations_removed c (snd (fst x)) (snd (fst y))" unfolding configurations_removed_def by blast
  with fin show ?thesis by simp
qed

lemma deletePoolFound_kept:
  "SIP_LifecycleState p \<noteq> PoolTerminated \<Longrightarrow> keeps (keeping pool_finalizers) (deletePoolFound c p)"
  unfolding deletePoolFound_def TerminateInstancePool_def
  by (simp only: if_False, intro frame_intros keeping_order pool_finalizers_kept)

text \<open>The end of the deletion starts in the cloud that the lookup left, with the finalizers as they were.\<close>

lemma deletion_tail:
  assumes "go_seq set_pool_not_ready (go_seq (mark_pool_false c cond reason) (go_seq (record_event t rs msg) k)) z = (r, y)"
  shows "\<exists>z'. k z' = (r, y) \<and> pool_finalizers z' = pool_finalizers z \<and> snd (fst z') = snd (fst z)"
  using assms
  by (auto simp: set_pool_not_ready_def mark_pool_false_def mark_pool_def record_event_def go_simps upd_pool_status_def upd_pool_def
      split: prod.splits)

text \<open>C12. The deletion of a pool removes the finalizer only at its very end: the lookup has reported that the instance pool
  is gone or terminated, the old instance configurations of the pool have been deleted without an error from the cloud that
  the lookup left, and so has the current one, unless there is none. In every other case the finalizers are what they were.\<close>

theorem pool_finalizer_last:
  assumes run: "pool_reconcileDelete c x = (r, y)" and ne: "pool_finalizers y \<noteq> pool_finalizers x"
  shows "r = Ret 0 \<and> pool_gone (fst (FindInstancePool c x)) \<and>
    configurations_removed c (snd (fst (snd (FindInstancePool c x)))) (snd (fst y)) \<and>
    pool_finalizers y = kube_RemoveFinalizer (pc_Lib c) MachinePoolFinalizer (pool_finalizers x)"
proof -
  from bind_observed [OF run [unfolded pool_reconcileDelete_def] keeps_try [OF pool_finalizers_lookups(1)] ne] obtain s z where
    find: "go_try (FindInstancePool c) x = (Ret s, z)" and f: "pool_finalizers z = pool_finalizers x"
    and k: "(case s of Inl err \<Rightarrow> if \<not> IsNotFound (Some err) then go_throw err else deletePoolNotFound c
       | Inr None \<Rightarrow> deletePoolNotFound c | Inr (Some p) \<Rightarrow> deletePoolFound c p) z = (r, y)" by blast
  from ne f have n: "pool_finalizers y \<noteq> pool_finalizers z" by simp
  let ?tail = "\<exists>z'. deleteConfigurations c z' = (r, y) \<and> pool_finalizers z' = pool_finalizers z \<and> snd (fst z') = snd (fst z)"
  have "snd (FindInstancePool c x) = z \<and> pool_gone (fst (FindInstancePool c x)) \<and> ?tail"
  proof (cases s)
    case (Inl e)
    with try_Ret [OF find] have "FindInstancePool c x = (Err e, z)" by auto
    with k Inl n deletion_tail [of c _ _ _ _ _ "deleteConfigurations c" z r y] show ?thesis
      by (auto simp: go_throw_apply pool_gone_def deletePoolNotFound_def split: if_splits)
  next
    case (Inr q)
    with try_Ret [OF find] have q: "FindInstancePool c x = (Ret q, z)" by auto
    show ?thesis
    proof (cases q)
      case None
      with k Inr q deletion_tail [of c _ _ _ _ _ "deleteConfigurations c" z r y] show ?thesis
        by (auto simp: pool_gone_def deletePoolNotFound_def)
    next
      case (Some p)
      from k Inr Some have found: "deletePoolFound c p z = (r, y)" by simp
      with n have st: "SIP_LifecycleState p = PoolTerminated" using keepsD [OF deletePoolFound_kept found] by blast
      with found deletion_tail [of c _ _ _ _ _ "deleteConfigurations c" z r y] have ?tail
        by (simp only: deletePoolFound_def InstancePoolState.distinct simp_thms if_False if_True)
      with q Some st show ?thesis by (simp add: pool_gone_def)
    qed
  qed
  then obtain z' where d: "deleteConfigurations c z' = (r, y)" and z': "pool_finalizers z' = pool_finalizers z" "snd (fst z') = snd (fst z)"
    and g: "snd (FindInstancePool c x) = z" "pool_gone (fst (FindInstancePool c x))" by blast
  from n z' have "pool_finalizers y \<noteq> pool_finalizers z'" by simp
  from deleteConfigurations_finalizers [OF d this] z' f g show ?thesis by simp
qed

lemma sample_pool_delete:
  "pool_reconcileDelete sample_pool_clients ((sample_pool, ([], [])), []) = (r, y) \<Longrightarrow> pool_finalizers y = []"
  by (auto simp: pool_reconcileDelete_def FindInstancePool_def ListInstancePoolSummaries_def go_simps deletePoolNotFound_def set_pool_not_ready_def
      deleteConfigurations_def CleanupInstanceConfiguration_def GetInstanceConfiguration_def deleteCurrentConfiguration_def
      getInstanceConfigurationsFromDisplayNameSortedTimeCreateDescending_def removePoolFinalizer_def mod_pool_finalizers_def
      mark_pool_false_def mark_pool_def record_event_def upd_pool_status_def upd_pool_def collect_one_page
      sample_kube_def GetInstanceConfigurationId_def sample_pool_config_def)

theorem pool_finalizer_last_witness:
  "configurations_removed sample_pool_clients (snd (fst (snd (FindInstancePool sample_pool_clients ((sample_pool, ([], [])), [])))))
     (snd (fst (snd (pool_reconcileDelete sample_pool_clients ((sample_pool, ([], [])), [])))))"
  using pool_finalizer_last [OF prod.collapse [symmetric], of sample_pool_clients "((sample_pool, ([], [])), [])"]
    sample_pool_delete [OF prod.collapse [symmetric]] by simp

end
