(* ===== verification/Pool_Configurations.thy ===== *)
theory Pool_Configurations
  imports Pool_Frames
begin

text \<open>
  The life of the instance configurations of a pool: which ones a removal deletes, that a reconciliation which returned is
  settled, and when the deletion of a pool completes. The configurations in the cloud are a table from ids to
  configurations, as the resources of \<open>Resource_Contract\<close>; the laws say what the compute management service and the
  Kubernetes client promise about it.
\<close>

section \<open>Listing\<close>

abbreviation pool_cloud :: "'w pctrl \<Rightarrow> 'w" where
  "pool_cloud x \<equiv> snd (fst x)"

lemma collect_pages_follows:
  assumes list: "\<And>p x v y. outer p x = (Ret v, y) \<Longrightarrow> inner p (pool_cloud x) = (Ret v, pool_cloud y)"
    and scan: "\<And>items x rs y. scan items x = (Ret rs, y) \<Longrightarrow> rs = concat (map f items) \<and> y = x"
    and run: "collect_pages outer scan x = (Ret rs, y)"
  shows "\<exists>items. collect_pages inner go_ret (pool_cloud x) = (Ret items, pool_cloud y) \<and> rs = concat (map f items)"
proof -
  let ?round = "\<lambda>list sc (page, acc). go_bind (list page) (\<lambda>(items, opcNextPage). go_bind (sc items) (\<lambda>rs. case opcNextPage of
        None \<Rightarrow> go_ret (Inr (acc @ rs)) | Some p \<Rightarrow> go_ret (Inl (Some p, acc @ rs))))"
  let ?R = "\<lambda>l s k u. fst k = fst l \<and> snd l = concat (map f (snd k)) \<and> u = pool_cloud s"
  let ?Q = "\<lambda>b t b' u'. b = concat (map f b') \<and> u' = pool_cloud t"
  have "\<exists>z u'. ?round inner go_ret k u = (Ret z, u') \<and> rel_sum (\<lambda>l' k'. ?R l' t k' u') (\<lambda>b b'. ?Q b t b' u') v z"
    if rel: "?R l s k u" and round: "?round outer scan l s = (Ret v, t)" for l s v t k u
  proof -
    obtain page acc where l: "l = (page, acc)" by (cases l)
    from round l obtain items np s1 where o: "outer page s = (Ret (items, np), s1)"
      by (auto simp: go_simps split: res.splits prod.splits)
    from round l o obtain rs where sc: "scan items s1 = (Ret rs, t)"
      by (auto simp: go_simps split: res.splits prod.splits option.splits)
    from scan [OF sc] list [OF o] round l o sc rel show ?thesis
      by (cases k) (auto simp: go_simps split: option.splits)
  qed
  note step = this
  have "\<exists>b' u'. go_loop (?round inner go_ret) (None, []) (pool_cloud x) = (Ret b', u') \<and> ?Q rs y b' u'"
    by (rule loop_follows [where R = ?R and Q = ?Q, OF step run [unfolded collect_pages_def]]) simp_all
  then show ?thesis unfolding collect_pages_def by auto
qed

text \<open>Following the pages to the end gives the resources of the table.\<close>

definition lists_all :: "('w, 'r) table \<Rightarrow> (string option \<Rightarrow> ('w, 'r list \<times> string option) go) \<Rightarrow> bool" where
  "lists_all tbl listop \<longleftrightarrow> (\<forall>w rs w'. collect_pages listop go_ret w = (Ret rs, w') \<longrightarrow> set rs = ran (tbl w) \<and> w' = w)"

definition summaries :: "('w, SdkInstanceConfiguration) table \<Rightarrow> ('w, SdkResource) table" where
  "summaries conf w k = map_option SdkResource.truncate (conf w k)"

text \<open>The configurations that are listed for the pool: of this cluster, with a name that starts with the name of the pool.\<close>

definition listed_for :: "MachinePoolScope \<Rightarrow> string \<Rightarrow> 'z SdkResource_scheme \<Rightarrow> bool" where
  "listed_for m prefix r \<longleftrightarrow> (\<exists>name. Res_DisplayName r = Some name \<and> HasPrefix name prefix) \<and>
     pool_IsResourceCreatedByClusterAPI m (Res_FreeformTags r)"

lemma own_run:
  "ownConfigurationId m prefix r x = (Ret ids, y) \<Longrightarrow> ids = (if listed_for m prefix r then [Res_Id r] else []) \<and> y = x"
  by (auto simp: ownConfigurationId_def listed_for_def go_simps split: option.splits)

lemma ids_follow:
  assumes "getInstanceConfigurationsFromDisplayNameSortedTimeCreateDescending c prefix x = (Ret ids, y)"
  shows "\<exists>rs. collect_pages (api_ListInstanceConfigurations (pc_ComputeManagement c)
      (GetCompartmentId (PS_OCIClusterAccessor (fst (fst x))))) go_ret (pool_cloud x) = (Ret rs, pool_cloud y) \<and>
    ids = map Res_Id (filter (listed_for (fst (fst x)) prefix) rs)"
proof -
  let ?m = "fst (fst x)"
  let ?f = "\<lambda>r. if listed_for ?m prefix r then [Res_Id r] else []"
  have scan: "go_bind (go_map items (ownConfigurationId ?m prefix)) (\<lambda>ids. go_ret (concat ids)) z = (Ret rs, z') \<Longrightarrow>
      rs = concat (map ?f items) \<and> z' = z" for items z rs z'
    using go_map_ret [of "ownConfigurationId ?m prefix" ?f items z, OF own_run]
    by (auto simp: go_simps split: res.splits prod.splits)
  have f: "concat (map ?f rs) = map Res_Id (filter (listed_for ?m prefix) rs)" for rs by (induction rs) auto
  let ?list = "api_ListInstanceConfigurations (pc_ComputeManagement c) (GetCompartmentId (PS_OCIClusterAccessor ?m))"
  have list: "go_wrap msg (pool_call (?list p)) z = (Ret v, z') \<Longrightarrow> ?list p (pool_cloud z) = (Ret v, pool_cloud z')" for msg p z v z'
    by (cases "?list p (pool_cloud z)"; cases "fst (?list p (pool_cloud z))") (auto simp: go_simps)
  from assms have "collect_pages (\<lambda>p. go_wrap ''failed to query InstanceConfiguration by name'' (pool_call (?list p)))
      (\<lambda>items. go_bind (go_map items (ownConfigurationId ?m prefix)) (\<lambda>ids. go_ret (concat ids))) x = (Ret ids, y)"
    by (simp add: getInstanceConfigurationsFromDisplayNameSortedTimeCreateDescending_def go_bind_apply get_pool_apply)
  then have "\<exists>rs. collect_pages ?list go_ret (pool_cloud x) = (Ret rs, pool_cloud y) \<and> ids = concat (map ?f rs)"
    by (rule collect_pages_follows [rotated 2]) (fact list, fact scan)
  then show ?thesis by (simp only: f)
qed

lemma ids_exact:
  assumes run: "getInstanceConfigurationsFromDisplayNameSortedTimeCreateDescending c prefix x = (Ret ids, y)"
    and list: "lists_all (summaries conf) (api_ListInstanceConfigurations (pc_ComputeManagement c)
        (GetCompartmentId (PS_OCIClusterAccessor (fst (fst x)))))"
    and key: "keyed_by_id conf"
  shows "Some k \<in> set ids \<longleftrightarrow> (\<exists>ic. conf (pool_cloud x) k = Some ic \<and> listed_for (fst (fst x)) prefix ic)" and "pool_cloud y = pool_cloud x"
proof -
  from ids_follow [OF run] list obtain rs where
    ids: "ids = map Res_Id (filter (listed_for (fst (fst x)) prefix) rs)" and rs: "set rs = ran (summaries conf (pool_cloud x))"
    and "pool_cloud y = pool_cloud x" unfolding lists_all_def by blast
  then show "pool_cloud y = pool_cloud x" by simp
  have sel: "Res_Id (SdkResource.truncate ic) = Res_Id ic" "listed_for m p (SdkResource.truncate ic) = listed_for m p ic" for ic :: SdkInstanceConfiguration and m p
    by (simp_all add: SdkResource.truncate_def listed_for_def)
  have "Some k \<in> set ids \<longleftrightarrow> (\<exists>j ic. conf (pool_cloud x) j = Some ic \<and> Res_Id ic = Some k \<and> listed_for (fst (fst x)) prefix ic)"
    unfolding ids set_map set_filter rs ran_def summaries_def by (force simp: sel image_iff)
  then show "Some k \<in> set ids \<longleftrightarrow> (\<exists>ic. conf (pool_cloud x) k = Some ic \<and> listed_for (fst (fst x)) prefix ic)"
    using key unfolding keyed_by_id_def by fastforce
qed

section \<open>Removal of old configurations\<close>

text \<open>The configuration that a removal keeps: the one of the pool, or else the one that is recorded.\<close>

definition kept_configuration :: "MachinePoolScope \<Rightarrow> SdkInstancePool option \<Rightarrow> string" where
  "kept_configuration m p = ToString (case Option.bind p SIP_InstanceConfigurationId of
      Some i \<Rightarrow> Some i
    | None \<Rightarrow> GetInstanceConfigurationId m)"

definition old_configuration :: "('w, SdkInstanceConfiguration) table \<Rightarrow> MachinePoolScope \<Rightarrow> SdkInstancePool option \<Rightarrow> 'w \<Rightarrow> string \<Rightarrow> bool" where
  "old_configuration conf m p w k \<longleftrightarrow> k \<noteq> kept_configuration m p \<and>
     (\<exists>ic. conf w k = Some ic \<and> listed_for m (Pool_Name (PS_OCIMachinePool m)) ic)"

lemma deleteOld_run:
  assumes "lawful_delete conf (api_DeleteInstanceConfiguration (pc_ComputeManagement c))"
    and "deleteOldConfiguration c keep i x = (r, y)"
  shows "conf (pool_cloud y) k = conf (pool_cloud x) k \<or> i = Some k \<and> k \<noteq> keep \<and> conf (pool_cloud y) k = None"
    and "r = Ret () \<Longrightarrow> i = Some k \<Longrightarrow> k \<noteq> keep \<Longrightarrow> conf (pool_cloud y) k = None"
proof -
  obtain d w where d: "api_DeleteInstanceConfiguration (pc_ComputeManagement c) i (pool_cloud x) = (d, w)"
    by (cases "api_DeleteInstanceConfiguration (pc_ComputeManagement c) i (pool_cloud x)")
  with assms(1) have law: "d \<noteq> Ret () \<and> conf w = conf (pool_cloud x) \<or> (\<exists>k. i = Some k \<and> conf w = (conf (pool_cloud x))(k := None))"
    unfolding lawful_delete_def by blast
  from assms(2) d have y: "ToString i = keep \<and> y = x \<or> ToString i \<noteq> keep \<and> pool_cloud y = w \<and> (r = Ret () \<longrightarrow> d = Ret ())"
    by (cases d) (auto simp: deleteOldConfiguration_def go_simps record_event_def split: if_splits)
  from y law show "conf (pool_cloud y) k = conf (pool_cloud x) k \<or> i = Some k \<and> k \<noteq> keep \<and> conf (pool_cloud y) k = None"
    by (auto simp: ToString_def split: if_splits)
  from y law show "r = Ret () \<Longrightarrow> i = Some k \<Longrightarrow> k \<noteq> keep \<Longrightarrow> conf (pool_cloud y) k = None"
    by (auto simp: ToString_def)
qed

lemma deleteOlds_run:
  assumes law: "lawful_delete conf (api_DeleteInstanceConfiguration (pc_ComputeManagement c))"
  shows "go_for ids (deleteOldConfiguration c keep) x = (r, y) \<Longrightarrow>
    (conf (pool_cloud y) k = conf (pool_cloud x) k \<or> Some k \<in> set ids \<and> k \<noteq> keep \<and> conf (pool_cloud y) k = None) \<and>
    (r = Ret () \<longrightarrow> Some k \<in> set ids \<longrightarrow> k \<noteq> keep \<longrightarrow> conf (pool_cloud y) k = None)"
proof (induction ids arbitrary: x)
  case (Cons i ids)
  obtain d z where d: "deleteOldConfiguration c keep i x = (d, z)" by (cases "deleteOldConfiguration c keep i x")
  note del = deleteOld_run [OF law d, of k]
  show ?case
  proof (cases "d = Ret ()")
    case True
    with Cons.prems d have "go_for ids (deleteOldConfiguration c keep) z = (r, y)" by (simp add: go_simps)
    from Cons.IH [OF this] del True show ?thesis by (metis list.set_intros(1,2) set_ConsD)
  next
    case False
    with Cons.prems d have "y = z" "r \<noteq> Ret ()" by (cases d; simp add: go_simps)+
    with del show ?thesis by auto
  qed
qed (simp add: go_simps)

lemma for_unless_empty: "(if length xs = 0 then go_ret () else go_for xs body) = go_for xs body"
  by (cases xs) simp_all

lemma Cleanup_lists:
  "CleanupInstanceConfiguration c p x =
     go_bind (getInstanceConfigurationsFromDisplayNameSortedTimeCreateDescending c (Pool_Name (PS_OCIMachinePool (fst (fst x)))))
       (\<lambda>ids. go_for ids (deleteOldConfiguration c (kept_configuration (fst (fst x)) p))) x"
  unfolding CleanupInstanceConfiguration_def kept_configuration_def Let_def for_unless_empty
  by (simp only: go_bind_apply get_pool_apply prod.case res.case)

lemma ids_quiet:
  assumes "\<And>cid page. read_only (api_ListInstanceConfigurations (pc_ComputeManagement c) cid page)"
  shows "keeps same_state (getInstanceConfigurationsFromDisplayNameSortedTimeCreateDescending c prefix)"
proof -
  have "keeps (pool_quiet same_state) (getInstanceConfigurationsFromDisplayNameSortedTimeCreateDescending c prefix)"
    unfolding getInstanceConfigurationsFromDisplayNameSortedTimeCreateDescending_def ownConfigurationId_def
    using assms by (intro quiet_intros) (auto simp: read_only_def keeps_def)
  then show ?thesis by (auto simp: keeps_def pool_quiet_def prod_eq_iff)
qed

text \<open>C14. The removal of old configurations, over a service whose list is complete and whose deletions do what they report:
  whatever it returns, it changes the table of configurations only by removing configurations of this cluster whose name
  starts with the name of the pool, and never the one of the pool (or the recorded one when the pool has none). When it
  returns without an error, all of those are gone.\<close>

theorem CleanupInstanceConfiguration_exact:
  assumes list: "lists_all (summaries conf) (api_ListInstanceConfigurations (pc_ComputeManagement c)
      (GetCompartmentId (PS_OCIClusterAccessor (fst (fst x)))))" and key: "keyed_by_id conf"
    and del: "lawful_delete conf (api_DeleteInstanceConfiguration (pc_ComputeManagement c))"
    and ro: "\<And>cid page. read_only (api_ListInstanceConfigurations (pc_ComputeManagement c) cid page)"
    and run: "CleanupInstanceConfiguration c p x = (r, y)"
  shows "(\<forall>k. conf (pool_cloud y) k \<noteq> conf (pool_cloud x) k \<longrightarrow>
      conf (pool_cloud y) k = None \<and> old_configuration conf (fst (fst x)) p (pool_cloud x) k) \<and>
    (r = Ret () \<longrightarrow> (\<forall>k. old_configuration conf (fst (fst x)) p (pool_cloud x) k \<longrightarrow> conf (pool_cloud y) k = None))"
proof -
  let ?ids = "getInstanceConfigurationsFromDisplayNameSortedTimeCreateDescending c (Pool_Name (PS_OCIMachinePool (fst (fst x))))"
  obtain a z where ids: "?ids x = (a, z)" by (cases "?ids x")
  show ?thesis
  proof (cases a)
    case (Ret l)
    with ids ids_exact [OF _ list key] have z: "pool_cloud z = pool_cloud x"
      and l: "Some k \<in> set l \<longleftrightarrow> (\<exists>ic. conf (pool_cloud x) k = Some ic \<and> listed_for (fst (fst x)) (Pool_Name (PS_OCIMachinePool (fst (fst x)))) ic)"
      for k by blast+
    from run ids Ret have "go_for l (deleteOldConfiguration c (kept_configuration (fst (fst x)) p)) z = (r, y)"
      by (simp add: Cleanup_lists go_bind_apply)
    from deleteOlds_run [OF del this] show ?thesis unfolding old_configuration_def l z by blast
  qed (use run ids keepsD [OF ids_quiet [OF ro] ids] in \<open>auto simp: Cleanup_lists go_bind_apply\<close>)
qed

section \<open>A settled configuration\<close>

text \<open>The requests that only read, and the laws of the configurations: what is in the table can be read, a new
  configuration has every value that was asked for (the service may add defaults to it), and the patches of the pool object
  and the reading of the secret do not touch the table. The bootstrap secret does not change meanwhile, and a hash is never
  the empty text.\<close>

definition reading_queries :: "'w PoolClients \<Rightarrow> bool" where
  "reading_queries c \<longleftrightarrow>
     (\<forall>i. read_only (api_GetInstanceConfiguration (pc_ComputeManagement c) i)) \<and>
     (\<forall>cid page. read_only (api_ListInstanceConfigurations (pc_ComputeManagement c) cid page)) \<and>
     (\<forall>i. read_only (api_GetInstancePool (pc_ComputeManagement c) i)) \<and>
     (\<forall>cid nm page. read_only (api_ListInstancePools (pc_ComputeManagement c) cid nm page)) \<and>
     (\<forall>ns nm. read_only (pk_GetSecret (pc_Kube c) ns nm))"

definition stored_as :: "InstanceDetails \<Rightarrow> InstanceDetails \<Rightarrow> bool" where
  "stored_as asked kept \<longleftrightarrow> (\<forall>desired. asked = ComputeInstanceDetails (Some desired) \<longrightarrow>
     (\<exists>stored. kept = ComputeInstanceDetails (Some stored) \<and> launch_matches desired stored \<and>
        ICL_Metadata stored ''user_data'' = ICL_Metadata desired ''user_data''))"

definition lawful_configurations :: "('w, SdkInstanceConfiguration) table \<Rightarrow> 'w PoolClients \<Rightarrow> bool" where
  "lawful_configurations conf c \<longleftrightarrow> reading_queries c \<and> keyed_by_id conf \<and>
     lawful_get conf (api_GetInstanceConfiguration (pc_ComputeManagement c)) \<and>
     (\<forall>w k ic. conf w k = Some ic \<longrightarrow> api_GetInstanceConfiguration (pc_ComputeManagement c) (Some k) w = (Ret ic, w)) \<and>
     lawful_delete conf (api_DeleteInstanceConfiguration (pc_ComputeManagement c)) \<and>
     (\<forall>d w ic w'. api_CreateInstanceConfiguration (pc_ComputeManagement c) d w = (Ret ic, w') \<longrightarrow>
        (\<exists>k. conf w' = (conf w)(k \<mapsto> ic) \<and> Res_Id ic = Some k \<and> stored_as (CIC_InstanceDetails d) (SIC_InstanceDetails ic))) \<and>
     (\<forall>p w. conf (snd (pk_PatchPool (pc_Kube c) p w)) = conf w) \<and>
     (\<forall>ns nm w w'. fst (pk_GetSecret (pc_Kube c) ns nm w) = fst (pk_GetSecret (pc_Kube c) ns nm w')) \<and>
     (\<forall>b. hl_Sha256 (pc_Hash c) b \<noteq> '''')"

lemma lawfulD:
  assumes "lawful_configurations conf c"
  shows "reading_queries c" "keyed_by_id conf"
    "lawful_delete conf (api_DeleteInstanceConfiguration (pc_ComputeManagement c))"
    "conf w k = Some ic \<Longrightarrow> api_GetInstanceConfiguration (pc_ComputeManagement c) (Some k) w = (Ret ic, w)"
    "api_CreateInstanceConfiguration (pc_ComputeManagement c) d w = (Ret ic, w') \<Longrightarrow>
      \<exists>k. conf w' = (conf w)(k \<mapsto> ic) \<and> Res_Id ic = Some k \<and> stored_as (CIC_InstanceDetails d) (SIC_InstanceDetails ic)"
    "conf (snd (pk_PatchPool (pc_Kube c) p w)) = conf w" "hl_Sha256 (pc_Hash c) b \<noteq> ''''"
    "lawful_get conf (api_GetInstanceConfiguration (pc_ComputeManagement c))"
    and secret_same: "fst (pk_GetSecret (pc_Kube c) ns nm w) = fst (pk_GetSecret (pc_Kube c) ns nm w')"
  using assms unfolding lawful_configurations_def by blast+

lemma read_only_keeps: "read_only m \<Longrightarrow> keeps same_state m"
  by (simp add: read_only_def keeps_def)

lemma reading_pool_queries: "reading_queries c \<Longrightarrow> pool_queries c same_state"
  by unfold_locales (auto simp: reading_queries_def intro: read_only_keeps)

lemma quiet_same: "keeps (pool_quiet same_state) m \<Longrightarrow> m x = (r, y) \<Longrightarrow> y = x"
  by (drule keepsD) (auto simp: pool_quiet_def prod_eq_iff)

lemmas lookups_quiet = quiet_same [OF pool_queries.GetInstanceConfiguration_keeps [OF reading_pool_queries]]
  quiet_same [OF pool_queries.GetBootstrapData_keeps [OF reading_pool_queries]]

text \<open>The scopes that ask for the same launch details: they differ in the recorded id, the annotations and the status only.\<close>

definition same_launch :: "MachinePoolScope \<Rightarrow> MachinePoolScope \<Rightarrow> bool" where
  "same_launch m m' \<longleftrightarrow> PS_MachinePool m' = PS_MachinePool m \<and> PS_OCIClusterAccessor m' = PS_OCIClusterAccessor m \<and>
     Pool_Name (PS_OCIMachinePool m') = Pool_Name (PS_OCIMachinePool m) \<and>
     (pool_config m')\<lparr>IConf_InstanceConfigurationId := None\<rparr> = (pool_config m)\<lparr>IConf_InstanceConfigurationId := None\<rparr>"

lemma same_launch_refl [simp]: "same_launch m m"
  by (simp add: same_launch_def)

lemma same_launch_config:
  assumes "same_launch m m'"
  shows "IConf_Shape (pool_config m') = IConf_Shape (pool_config m)"
    "IConf_ShapeConfig (pool_config m') = IConf_ShapeConfig (pool_config m)"
    "IConf_FreeformTags (pool_config m') = IConf_FreeformTags (pool_config m)"
    "IConf_DefinedTags (pool_config m') = IConf_DefinedTags (pool_config m)"
    "IConf_InstanceVnicConfiguration (pool_config m') = IConf_InstanceVnicConfiguration (pool_config m)"
    "IConf_PlatformConfig (pool_config m') = IConf_PlatformConfig (pool_config m)"
    "IConf_AgentConfig (pool_config m') = IConf_AgentConfig (pool_config m)"
    "IConf_PreemptibleInstanceConfig (pool_config m') = IConf_PreemptibleInstanceConfig (pool_config m)"
    "IConf_AvailabilityConfig (pool_config m') = IConf_AvailabilityConfig (pool_config m)"
    "IConf_DedicatedVmHostId (pool_config m') = IConf_DedicatedVmHostId (pool_config m)"
    "IConf_LaunchOptions (pool_config m') = IConf_LaunchOptions (pool_config m)"
    "IConf_InstanceOptions (pool_config m') = IConf_InstanceOptions (pool_config m)"
    "IConf_IsPvEncryptionInTransitEnabled (pool_config m') = IConf_IsPvEncryptionInTransitEnabled (pool_config m)"
    "IConf_InstanceSourceViaImageDetails (pool_config m') = IConf_InstanceSourceViaImageDetails (pool_config m)"
    "IConf_CapacityReservationId (pool_config m') = IConf_CapacityReservationId (pool_config m)"
    "IConf_Metadata (pool_config m') = IConf_Metadata (pool_config m)"
    "IConf_ExtendedMetadata (pool_config m') = IConf_ExtendedMetadata (pool_config m)"
    "PS_MachinePool m' = PS_MachinePool m" "PS_OCIClusterAccessor m' = PS_OCIClusterAccessor m"
    "Pool_Name (PS_OCIMachinePool m') = Pool_Name (PS_OCIMachinePool m)"
  using assms unfolding same_launch_def
  by (cases "pool_config m"; cases "pool_config m'"; simp)+

lemma same_launch_queries:
  assumes "same_launch m m'"
  shows "pool_subnets m' = pool_subnets m" "pool_nsgs m' = pool_nsgs m" "pool_GetFreeFormTags m' = pool_GetFreeFormTags m"
    "pool_getDefinedTags m' = pool_getDefinedTags m" "GetWorkerMachineSubnet m' = GetWorkerMachineSubnet m"
    "buildInstanceConfigurationShapeConfig em fp m' = buildInstanceConfigurationShapeConfig em fp m"
    "pool_getWorkerMachineNSGs m' = pool_getWorkerMachineNSGs m"
  unfolding pool_getWorkerMachineNSGs_def GetWorkerMachineSubnet_def pool_subnets_def pool_nsgs_def pool_GetFreeFormTags_def
    pool_getDefinedTags_def buildInstanceConfigurationShapeConfig_def same_launch_config [OF assms] by simp_all

lemma same_launch_details:
  assumes "same_launch m m'"
  shows "poolLaunchDetails em m' ff dt ud ext shape = poolLaunchDetails em m ff dt ud ext shape"
  unfolding poolLaunchDetails_def getVnicDetails_def pool_getPlatformConfig_def pool_getLaunchOptions_def
    getInstanceConfigurationInstanceSourceViaImageDetail_def pool_getAgentConfig_def pool_getInstanceOptions_def
    pool_getAvailabilityConfig_def pool_getPreemptibleInstanceConfig_def same_launch_config [OF assms]
    same_launch_queries [OF assms] ..

lemma GetBootstrapData_stable:
  assumes law: "lawful_configurations conf c" and run: "pool_GetBootstrapData c x = (Ret d, x)"
    and same: "PS_MachinePool (fst (fst y)) = PS_MachinePool (fst (fst x))"
  shows "pool_GetBootstrapData c y = (Ret d, y)"
proof -
  from run obtain name where name: "MP_DataSecretName (PS_MachinePool (fst (fst x))) = Some name"
    by (auto simp: pool_GetBootstrapData_def go_simps split: option.splits)
  let ?get = "pk_GetSecret (pc_Kube c) (MP_Namespace (PS_MachinePool (fst (fst x)))) name"
  from run name obtain data where "fst (?get (pool_cloud x)) = Ret data" "data ''value'' = Some d"
    by (cases "fst (?get (pool_cloud x))") (auto simp: pool_GetBootstrapData_def go_simps split: option.splits)
  moreover have "snd (?get (pool_cloud y)) = pool_cloud y"
    using lawfulD(1) [OF law] by (simp add: reading_queries_def read_only_def)
  moreover have "fst (?get (pool_cloud y)) = fst (?get (pool_cloud x))" by (rule secret_same [OF law])
  ultimately show ?thesis using name same by (simp add: pool_GetBootstrapData_def go_simps)
qed

lemma launch_run:
  assumes law: "lawful_configurations conf c" and run: "getLaunchInstanceDetails c ff dt x = (Ret d, x')"
  shows "x' = x" and "same_launch (fst (fst x)) (fst (fst y)) \<Longrightarrow> getLaunchInstanceDetails c ff dt y = (Ret d, y)"
    and "\<exists>ud. ICL_Metadata d ''user_data'' = Some ud"
proof -
  have rq: "reading_queries c" by (rule lawfulD(1) [OF law])
  obtain b z where b: "pool_GetBootstrapData c x = (b, z)" by (cases "pool_GetBootstrapData c x")
  with lookups_quiet(2) [OF rq] have z: "z = x" by blast
  note eval = getLaunchInstanceDetails_def go_simps lift_err_def mark_pool_def Let_def
  from run b z obtain ud where ud: "b = Ret ud" by (cases b) (simp_all add: eval)
  with run b z obtain ext where
    ext: "ConvertMachineExtendedMetadata (pc_JsonUnmarshal c) (IConf_ExtendedMetadata (pool_config (fst (fst x)))) = Inr ext"
    by (cases "ConvertMachineExtendedMetadata (pc_JsonUnmarshal c) (IConf_ExtendedMetadata (pool_config (fst (fst x))))")
      (simp_all add: eval)
  with run b z ud obtain shape where shape: "IConf_Shape (pool_config (fst (fst x))) = Some shape"
    by (cases "IConf_Shape (pool_config (fst (fst x)))") (simp_all add: eval)
  with run b z ud ext obtain sc where sc: "buildInstanceConfigurationShapeConfig (pc_Enum c) (pc_Float c) (fst (fst x)) = Inr sc"
    by (cases "buildInstanceConfigurationShapeConfig (pc_Enum c) (pc_Float c) (fst (fst x))") (simp_all add: eval)
  with run b z ud ext shape have d: "d = (if sc \<noteq> zero_IcShapeConfig then (poolLaunchDetails (pc_Enum c) (fst (fst x)) ff dt ud ext shape)
        \<lparr>ICL_ShapeConfig := Some sc\<rparr> else poolLaunchDetails (pc_Enum c) (fst (fst x)) ff dt ud ext shape)"
    and "x' = x" by (simp_all add: eval)
  then show "x' = x" by simp
  show "\<exists>ud. ICL_Metadata d ''user_data'' = Some ud" unfolding d by (simp add: poolLaunchDetails_def)
  assume same: "same_launch (fst (fst x)) (fst (fst y))"
  from GetBootstrapData_stable [OF law _ same_launch_config(18) [OF same]] b ud z
  have "pool_GetBootstrapData c y = (Ret ud, y)" by blast
  then show "getLaunchInstanceDetails c ff dt y = (Ret d, y)"
    unfolding d using ext shape sc
    by (simp add: getLaunchInstanceDetails_def go_simps same_launch_config [OF same] same_launch_queries [OF same]
        same_launch_details [OF same])
qed

text \<open>The state that a reconciliation leaves: the recorded configuration has what is asked for, and the annotations are
  its hashes.\<close>

definition configuration_settled :: "('w, SdkInstanceConfiguration) table \<Rightarrow> 'w PoolClients \<Rightarrow> 'w pctrl \<Rightarrow> bool" where
  "configuration_settled conf c x \<longleftrightarrow> (let m = fst (fst x) in
     \<exists>i ic stored d h. GetInstanceConfigurationId m = Some i \<and> conf (pool_cloud x) i = Some ic \<and>
       SIC_InstanceDetails ic = ComputeInstanceDetails (Some stored) \<and>
       getLaunchInstanceDetails c (pool_GetFreeFormTags m) (pool_getDefinedTags m) x = (Ret d, x) \<and>
       ComputeHash (pc_Hash c) (Some d) = Inr h \<and> ComputeComparableHash (pc_Hash c) (Some stored) (Some d) = Inr h \<and>
       ComputeUserDataHash (pc_Hash c) (ICL_Metadata stored) = ComputeUserDataHash (pc_Hash c) (ICL_Metadata d) \<and>
       getInstanceConfigurationHashAnnotation m = h \<and>
       getBootstrapDataHashAnnotation m = ComputeUserDataHash (pc_Hash c) (ICL_Metadata d))"

lemma hashes_set:
  assumes "lawful_configurations conf c"
  shows "ComputeHash (pc_Hash c) d = Inr h \<Longrightarrow> h \<noteq> ''''" and "ComputeComparableHash (pc_Hash c) a d = Inr h \<Longrightarrow> h \<noteq> ''''"
    and "md ''user_data'' = Some ud \<Longrightarrow> ComputeUserDataHash (pc_Hash c) md \<noteq> ''''"
  by (auto simp: ComputeHash_def ComputeComparableHash_def computeProjectedHash_def ComputeUserDataHash_def
      lawfulD(7) [OF assms] split: sum.splits)

lemma settled_run:
  assumes law: "lawful_configurations conf c" and settled: "configuration_settled conf c x"
  shows "ReconcileInstanceConfiguration c x = (Ret (), x)"
proof -
  let ?m = "fst (fst x)"
  from settled obtain i ic stored d h where i: "GetInstanceConfigurationId ?m = Some i" "conf (pool_cloud x) i = Some ic"
      "SIC_InstanceDetails ic = ComputeInstanceDetails (Some stored)"
    and d: "getLaunchInstanceDetails c (pool_GetFreeFormTags ?m) (pool_getDefinedTags ?m) x = (Ret d, x)"
    and h: "ComputeHash (pc_Hash c) (Some d) = Inr h" "ComputeComparableHash (pc_Hash c) (Some stored) (Some d) = Inr h"
    and ud: "ComputeUserDataHash (pc_Hash c) (ICL_Metadata stored) = ComputeUserDataHash (pc_Hash c) (ICL_Metadata d)"
    and ann: "getInstanceConfigurationHashAnnotation ?m = h"
      "getBootstrapDataHashAnnotation ?m = ComputeUserDataHash (pc_Hash c) (ICL_Metadata d)"
    unfolding configuration_settled_def Let_def by blast
  have get: "GetInstanceConfiguration c x = (Ret (Some ic), x)"
    using i(1) lawfulD(4) [OF law i(2)] by (simp add: GetInstanceConfiguration_def getInstanceConfigurationFromOCID_def go_simps)
  from launch_run(3) [OF law d] hashes_set(3) [OF law] hashes_set(1) [OF law h(1)]
  have ne: "h \<noteq> ''''" "ComputeUserDataHash (pc_Hash c) (ICL_Metadata d) \<noteq> ''''" by blast+
  show ?thesis
    using ne
    by (simp add: ReconcileInstanceConfiguration_def go_simps get d h ud ann i(3) lift_err_def backfillAnnotations_def
        refreshAnnotations_def Let_def)
qed

lemma Cleanup_kept:
  assumes law: "lawful_configurations conf c" and run: "CleanupInstanceConfiguration c p x = (r, y)"
  shows "conf (pool_cloud y) (kept_configuration (fst (fst x)) p) = conf (pool_cloud x) (kept_configuration (fst (fst x)) p)"
    and "fst (fst y) = fst (fst x)"
proof -
  let ?ids = "getInstanceConfigurationsFromDisplayNameSortedTimeCreateDescending c (Pool_Name (PS_OCIMachinePool (fst (fst x))))"
  obtain a z where ids: "?ids x = (a, z)" by (cases "?ids x")
  from lawfulD(1) [OF law] have "read_only (api_ListInstanceConfigurations (pc_ComputeManagement c) cid page)" for cid page
    by (simp add: reading_queries_def)
  from keepsD [OF ids_quiet [OF this] ids] have z: "z = x" .
  show "conf (pool_cloud y) (kept_configuration (fst (fst x)) p) = conf (pool_cloud x) (kept_configuration (fst (fst x)) p)"
  proof (cases a)
    case (Ret l)
    with run ids z have "go_for l (deleteOldConfiguration c (kept_configuration (fst (fst x)) p)) x = (r, y)"
      by (simp add: Cleanup_lists go_bind_apply)
    from deleteOlds_run [OF lawfulD(3) [OF law] this, of "kept_configuration (fst (fst x)) p"] show ?thesis by blast
  qed (use run ids z in \<open>auto simp: Cleanup_lists go_bind_apply\<close>)
  show "fst (fst y) = fst (fst x)" by (rule pool_scope_eq(3) [OF run])
qed

lemma annotations_set [simp]:
  "getInstanceConfigurationHashAnnotation (setInstanceConfigurationHashAnnotation h m) = h"
  "getBootstrapDataHashAnnotation (setBootstrapDataHashAnnotation h m) = h"
  "getInstanceConfigurationHashAnnotation (setBootstrapDataHashAnnotation h m) = getInstanceConfigurationHashAnnotation m"
  "getBootstrapDataHashAnnotation (setInstanceConfigurationHashAnnotation h m) = getBootstrapDataHashAnnotation m"
  "GetInstanceConfigurationId (setInstanceConfigurationHashAnnotation h m) = GetInstanceConfigurationId m"
  "GetInstanceConfigurationId (setBootstrapDataHashAnnotation h m) = GetInstanceConfigurationId m"
  "GetInstanceConfigurationId (SetInstanceConfigurationIdStatus i m) = Some i"
  by (simp_all add: getInstanceConfigurationHashAnnotation_def setInstanceConfigurationHashAnnotation_def
      getBootstrapDataHashAnnotation_def setBootstrapDataHashAnnotation_def set_annotation_def upd_pool_def tag_at_def
      GetInstanceConfigurationId_def SetInstanceConfigurationIdStatus_def upd_pool_spec_def)

lemma same_launch_set [simp]:
  "same_launch m (setInstanceConfigurationHashAnnotation h m') = same_launch m m'"
  "same_launch m (setBootstrapDataHashAnnotation h m') = same_launch m m'"
  "same_launch m (SetInstanceConfigurationIdStatus i m') = same_launch m m'"
  by (simp_all add: same_launch_def setInstanceConfigurationHashAnnotation_def setBootstrapDataHashAnnotation_def
      set_annotation_def upd_pool_def SetInstanceConfigurationIdStatus_def upd_pool_spec_def)

text \<open>The scope after a replacement.\<close>

lemma replace_settles:
  assumes law: "lawful_configurations conf c" and d: "getLaunchInstanceDetails c (pool_GetFreeFormTags (fst (fst x)))
      (pool_getDefinedTags (fst (fst x))) x = (Ret d, x)" and h: "ComputeHash (pc_Hash c) (Some d) = Inr h"
    and run: "replaceInstanceConfiguration c d ff dt h (ComputeUserDataHash (pc_Hash c) (ICL_Metadata d)) x = (Ret (), y)"
  shows "configuration_settled conf c y"
proof -
  let ?m = "fst (fst x)"
  let ?details = "createInstanceConfigurationDetails ?m d ff dt h"
  obtain cr w1 where cr: "api_CreateInstanceConfiguration (pc_ComputeManagement c) ?details (pool_cloud x) = (cr, w1)"
    by (cases "api_CreateInstanceConfiguration (pc_ComputeManagement c) ?details (pool_cloud x)")
  with run obtain ic where ic: "cr = Ret ic"
    by (cases cr) (simp_all add: replaceInstanceConfiguration_def createInstanceConfiguration_def go_simps mark_pool_def)
  from lawfulD(5) [OF law cr [unfolded ic]] obtain k where k: "conf w1 = (conf (pool_cloud x))(k \<mapsto> ic)" "Res_Id ic = Some k"
    and st: "stored_as (CIC_InstanceDetails ?details) (SIC_InstanceDetails ic)" by blast
  let ?m1 = "setBootstrapDataHashAnnotation (ComputeUserDataHash (pc_Hash c) (ICL_Metadata d))
      (setInstanceConfigurationHashAnnotation h (SetInstanceConfigurationIdStatus k ?m))"
  let ?patch = "pk_PatchPool (pc_Kube c) (PS_OCIMachinePool ?m1)"
  let ?z = "((?m1, snd (?patch w1)), snd x)"
  from run cr ic k(2) obtain u where u: "go_try (CleanupInstanceConfiguration c None) ?z = (Ret u, y)"
    by (cases "fst (?patch w1)"; cases "go_try (CleanupInstanceConfiguration c None) ?z"; cases "fst (go_try (CleanupInstanceConfiguration c None) ?z)")
      (simp_all add: replaceInstanceConfiguration_def createInstanceConfiguration_def PatchObject_def go_bind_apply go_seq_apply
        get_pool_apply mod_pool_apply pool_call_apply go_try_apply go_deref_apply go_ret_apply)
  from try_Ret [OF u] obtain r where "CleanupInstanceConfiguration c None ?z = (r, y)" by blast
  note cl = Cleanup_kept [OF law this, unfolded fst_conv snd_conv]
  have "kept_configuration ?m1 None = k" by (simp add: kept_configuration_def ToString_def)
  with cl(1) lawfulD(6) [OF law] k(1) have conf: "conf (pool_cloud y) k = Some ic" by simp
  have same: "same_launch ?m ?m1" by simp
  from st obtain stored where stored: "SIC_InstanceDetails ic = ComputeInstanceDetails (Some stored)" "launch_matches d stored"
      "ICL_Metadata stored ''user_data'' = ICL_Metadata d ''user_data''"
    by (auto simp: stored_as_def createInstanceConfigurationDetails_def)
  from stored(2) h have "ComputeComparableHash (pc_Hash c) (Some stored) (Some d) = Inr h"
    unfolding ComputeComparableHash_def ComputeHash_def launch_project_iff [symmetric] by simp
  moreover have "getLaunchInstanceDetails c (pool_GetFreeFormTags ?m1) (pool_getDefinedTags ?m1) y = (Ret d, y)"
    using launch_run(2) [OF law d, of y] cl(2) same by (simp add: same_launch_queries [OF same])
  moreover have "ComputeUserDataHash (pc_Hash c) (ICL_Metadata stored) = ComputeUserDataHash (pc_Hash c) (ICL_Metadata d)"
    using stored(3) by (simp add: ComputeUserDataHash_def)
  ultimately show ?thesis
    using conf stored(1) h unfolding configuration_settled_def cl(2) Let_def by auto
qed

text \<open>The run of a reconciliation up to the comparison.\<close>

lemma reconcile_start:
  assumes law: "lawful_configurations conf c" and run: "ReconcileInstanceConfiguration c x = (Ret (), y)"
  obtains ico d h where "GetInstanceConfiguration c x = (Ret ico, x)" and "getLaunchInstanceDetails c (pool_GetFreeFormTags (fst (fst x)))
      (pool_getDefinedTags (fst (fst x))) x = (Ret d, x)" and "ComputeHash (pc_Hash c) (Some d) = Inr h"
proof -
  obtain g z where g: "GetInstanceConfiguration c x = (g, z)" by (cases "GetInstanceConfiguration c x")
  with lookups_quiet(1) [OF lawfulD(1) [OF law]] have z: "z = x" by blast
  from run g obtain ico where ico: "g = Ret ico" by (cases g) (simp_all add: ReconcileInstanceConfiguration_def go_simps)
  let ?launch = "getLaunchInstanceDetails c (pool_GetFreeFormTags (fst (fst x))) (pool_getDefinedTags (fst (fst x)))"
  obtain l z' where l: "?launch x = (l, z')" by (cases "?launch x")
  with run g z ico obtain d where d: "l = Ret d"
    by (cases l) (simp_all add: ReconcileInstanceConfiguration_def go_simps Let_def)
  with l launch_run(1) [OF law] have "z' = x" by blast
  with run g z ico l d obtain h where "ComputeHash (pc_Hash c) (Some d) = Inr h"
    by (cases "ComputeHash (pc_Hash c) (Some d)") (simp_all add: ReconcileInstanceConfiguration_def go_simps Let_def lift_err_def)
  with g z ico l d \<open>z' = x\<close> that show thesis by blast
qed

text \<open>The annotations are brought to the hashes of the configuration that is kept; nothing else of the scope changes.\<close>

lemma PatchObject_run:
  assumes law: "lawful_configurations conf c" and "PatchObject c x = (r, y)"
  shows "fst (fst y) = fst (fst x)" "conf (pool_cloud y) = conf (pool_cloud x)"
  using assms(2) lawfulD(6) [OF law] by (auto simp: PatchObject_def go_simps)

definition annotation_run :: "('w, SdkInstanceConfiguration) table \<Rightarrow> 'w pctrl \<Rightarrow> 'w pctrl \<Rightarrow> bool" where
  "annotation_run conf x y \<longleftrightarrow> same_launch (fst (fst x)) (fst (fst y)) \<and> conf (pool_cloud y) = conf (pool_cloud x) \<and>
     GetInstanceConfigurationId (fst (fst y)) = GetInstanceConfigurationId (fst (fst x))"

lemma refresh_run:
  assumes law: "lawful_configurations conf c" and run: "refreshAnnotations c (getInstanceConfigurationHashAnnotation (fst (fst x)))
      (getBootstrapDataHashAnnotation (fst (fst x))) h b x = (Ret (), y)"
  shows "annotation_run conf x y \<and> getInstanceConfigurationHashAnnotation (fst (fst y)) = h \<and>
    getBootstrapDataHashAnnotation (fst (fst y)) = b"
  using run PatchObject_run [OF law]
  by (auto simp: refreshAnnotations_def go_simps annotation_run_def split: if_splits)

lemma backfill_run:
  assumes law: "lawful_configurations conf c" and run: "backfillAnnotations c h b x = (Ret (), y)"
  shows "annotation_run conf x y"
  using run PatchObject_run [OF law]
  by (auto simp: backfillAnnotations_def go_simps annotation_run_def Let_def split: if_splits)

lemma keep_settles:
  assumes law: "lawful_configurations conf c" and get: "GetInstanceConfiguration c x = (Ret (Some ic), x)"
    and id: "GetInstanceConfigurationId (fst (fst x)) = Some i" and ic: "SIC_InstanceDetails ic = ComputeInstanceDetails (Some stored)"
    and d: "getLaunchInstanceDetails c (pool_GetFreeFormTags (fst (fst x))) (pool_getDefinedTags (fst (fst x))) x = (Ret d, x)"
    and h: "ComputeHash (pc_Hash c) (Some d) = Inr h" "ComputeComparableHash (pc_Hash c) (Some stored) (Some d) = Inr h"
    and ud: "ComputeUserDataHash (pc_Hash c) (ICL_Metadata stored) = ComputeUserDataHash (pc_Hash c) (ICL_Metadata d)"
    and ann: "annotation_run conf x y" "getInstanceConfigurationHashAnnotation (fst (fst y)) = h"
      "getBootstrapDataHashAnnotation (fst (fst y)) = ComputeUserDataHash (pc_Hash c) (ICL_Metadata d)"
  shows "configuration_settled conf c y"
proof -
  from get id have "fst (api_GetInstanceConfiguration (pc_ComputeManagement c) (Some i) (pool_cloud x)) = Ret ic"
    by (cases "fst (api_GetInstanceConfiguration (pc_ComputeManagement c) (Some i) (pool_cloud x))")
      (simp_all add: GetInstanceConfiguration_def getInstanceConfigurationFromOCID_def go_simps)
  with lawfulD(8) [OF law] have "conf (pool_cloud x) i = Some ic" unfolding lawful_get_def by blast
  with ann(1) id have "conf (pool_cloud y) i = Some ic" "GetInstanceConfigurationId (fst (fst y)) = Some i"
    and same: "same_launch (fst (fst x)) (fst (fst y))" by (simp_all add: annotation_run_def)
  moreover have "getLaunchInstanceDetails c (pool_GetFreeFormTags (fst (fst y))) (pool_getDefinedTags (fst (fst y))) y = (Ret d, y)"
    using launch_run(2) [OF law d same] by (simp add: same_launch_queries [OF same])
  ultimately show ?thesis using ic h ud ann(2,3) unfolding configuration_settled_def Let_def by blast
qed

lemma annotation_run_trans: "annotation_run conf x y \<Longrightarrow> annotation_run conf y z \<Longrightarrow> annotation_run conf x z"
  by (auto simp: annotation_run_def same_launch_def)

lemma found_settles:
  assumes law: "lawful_configurations conf c" and run: "ReconcileInstanceConfiguration c x = (Ret (), y)"
    and g: "GetInstanceConfiguration c x = (Ret (Some ic), x)"
    and d: "getLaunchInstanceDetails c (pool_GetFreeFormTags (fst (fst x))) (pool_getDefinedTags (fst (fst x))) x = (Ret d, x)"
    and h: "ComputeHash (pc_Hash c) (Some d) = Inr h" and det: "SIC_InstanceDetails ic = ComputeInstanceDetails actualLaunch"
    and id: "GetInstanceConfigurationId (fst (fst y)) \<noteq> None"
  shows "ReconcileInstanceConfiguration c y = (Ret (), y)"
proof -
  let ?m = "fst (fst x)"
  note start = ReconcileInstanceConfiguration_def go_simps Let_def lift_err_def g d h
  from run det obtain h' where h': "ComputeComparableHash (pc_Hash c) actualLaunch (Some d) = Inr h'"
    by (cases "ComputeComparableHash (pc_Hash c) actualLaunch (Some d)") (simp_all add: start)
  with run det obtain stored where stored: "actualLaunch = Some stored"
    by (cases actualLaunch) (simp_all add: start)
  let ?b = "ComputeUserDataHash (pc_Hash c) (ICL_Metadata stored)" and ?b' = "ComputeUserDataHash (pc_Hash c) (ICL_Metadata d)"
  obtain u z where bf: "backfillAnnotations c h' ?b x = (u, z)" by (cases "backfillAnnotations c h' ?b x")
  with run det h' stored have u: "u = Ret ()" by (cases u) (simp_all add: start)
  note filled = backfill_run [OF law bf [unfolded u]]
  show ?thesis
  proof (cases "h = h' \<and> ?b' = ?b")
    case True
    with run det h' stored bf u have "refreshAnnotations c (getInstanceConfigurationHashAnnotation (fst (fst z)))
        (getBootstrapDataHashAnnotation (fst (fst z))) h' ?b z = (Ret (), y)" by (simp add: start)
    note fresh = refresh_run [OF law this]
    from id fresh filled obtain i where "GetInstanceConfigurationId ?m = Some i" by (auto simp: annotation_run_def)
    from keep_settles [OF law g this _ d h] det stored h' True fresh
      annotation_run_trans [OF filled] show ?thesis by (intro settled_run [OF law]) simp
  next
    case False
    with run det h' stored bf u have "replaceInstanceConfiguration c d (pool_GetFreeFormTags ?m)
        (pool_getDefinedTags ?m) h ?b' z = (Ret (), y)" by (auto simp: start)
    moreover from filled have same: "same_launch ?m (fst (fst z))" by (simp add: annotation_run_def)
    ultimately show ?thesis
      using replace_settles [OF law _ h, of z] launch_run(2) [OF law d same] settled_run [OF law]
      by (simp add: same_launch_queries [OF same])
  qed
qed

text \<open>C13. A reconciliation of the instance configuration that returned, with an id recorded, is settled: a second one makes
  no request that writes, and leaves scope, cloud and events as they are. This is so although the configurations which the
  service returns have defaults that were not asked for.\<close>

theorem ReconcileInstanceConfiguration_settles:
  assumes law: "lawful_configurations conf c" and run: "ReconcileInstanceConfiguration c x = (Ret (), y)"
    and id: "GetInstanceConfigurationId (fst (fst y)) \<noteq> None"
  shows "ReconcileInstanceConfiguration c y = (Ret (), y)"
proof -
  let ?m = "fst (fst x)"
  from reconcile_start [OF law run] obtain ico d h where g: "GetInstanceConfiguration c x = (Ret ico, x)"
    and d: "getLaunchInstanceDetails c (pool_GetFreeFormTags ?m) (pool_getDefinedTags ?m) x = (Ret d, x)"
    and h: "ComputeHash (pc_Hash c) (Some d) = Inr h" .
  note start = ReconcileInstanceConfiguration_def go_simps Let_def lift_err_def g d h
  show ?thesis
  proof (cases ico)
    case None
    with run have "replaceInstanceConfiguration c d (pool_GetFreeFormTags ?m) (pool_getDefinedTags ?m) h
        (ComputeUserDataHash (pc_Hash c) (ICL_Metadata d)) x = (Ret (), y)" by (simp add: start)
    from settled_run [OF law replace_settles [OF law d h this]] show ?thesis .
  next
    case (Some ic)
    show ?thesis
    proof (cases "SIC_InstanceDetails ic")
      case (OtherInstanceDetails t)
      with run Some have "y = x" by (simp add: start)
      with run show ?thesis by simp
    next
      case (ComputeInstanceDetails actualLaunch)
      from found_settles [OF law run g [unfolded Some] d h this id] show ?thesis .
    qed
  qed
qed

section \<open>The sample cloud\<close>

lemma config_at_keyed: "keyed_by_id config_at"
  by (auto simp: keyed_by_id_def config_at_def dest!: find_Some_mem)

lemma config_at_delete: "lawful_delete config_at (api_DeleteInstanceConfiguration pool_compute)"
proof -
  have "find (\<lambda>ic. Res_Id ic = Some j \<and> Res_DisplayName ic \<noteq> None) (filter (\<lambda>ic. Res_Id ic \<noteq> Some k) l) =
      (if j = k then None else find (\<lambda>ic. Res_Id ic = Some j \<and> Res_DisplayName ic \<noteq> None) l)" for j k and l :: "SdkInstanceConfiguration list"
    by (induction l) auto
  then have "config_at (filter (\<lambda>ic. Res_Id ic \<noteq> Some k) l, ps) = (config_at (l, ps))(k := None)" for k l ps
    by (auto simp: config_at_def)
  then show ?thesis by (auto simp: lawful_delete_def answers_def go_simps split: option.splits)
qed

lemma config_at_mem: "config_at w k = Some ic \<Longrightarrow> ic \<in> set (fst w) \<and> Res_Id ic = Some k"
  by (auto simp: config_at_def dest!: find_Some_mem)

lemma config_at_lists: "lists_all (summaries config_at) (api_ListInstanceConfigurations pool_compute cid)"
proof -
  have "set (map SdkResource.truncate (filter (\<lambda>ic. Option.bind (Res_Id ic) (config_at w) = Some ic) (fst w))) =
      ran (summaries config_at w)" (is "?l = ?r") for w
  proof
    show "?l \<subseteq> ?r" by (auto simp: ran_def summaries_def bind_eq_Some_conv)
    show "?r \<subseteq> ?l"
    proof
      fix r assume "r \<in> ?r"
      then obtain k ic where k: "config_at w k = Some ic" "r = SdkResource.truncate ic" by (auto simp: ran_def summaries_def)
      with config_at_mem [OF k(1)] show "r \<in> ?l" by simp
    qed
  qed
  then show ?thesis by (simp add: lists_all_def collect_one_page go_simps del: split_paired_All)
qed

lemma launch_matches_refl: "launch_matches d d"
  unfolding launch_project_iff [symmetric] ..

lemma sample_pool_lawful: "lawful_configurations config_at sample_pool_clients"
proof -
  have "config_at (stored_configuration w d # fst w, snd w) = (config_at w)(the (Res_Id (stored_configuration w d)) \<mapsto> stored_configuration w d)"
    for w d by (rule ext) (simp add: config_at_def stored_configuration_def)
  then have "\<exists>k. config_at (stored_configuration w d # fst w, snd w) = (config_at w)(k \<mapsto> stored_configuration w d) \<and>
      Res_Id (stored_configuration w d) = Some k \<and> stored_as (CIC_InstanceDetails d) (SIC_InstanceDetails (stored_configuration w d))" for w d
    by (auto simp: stored_configuration_def stored_as_def launch_matches_refl)
  then show ?thesis
    unfolding lawful_configurations_def
    by (auto simp: reading_queries_def read_only_def answers_def lawful_get_def go_simps pool_kube_def config_at_keyed
          config_at_delete bind_eq_Some_conv
        split: option.splits)
qed

text \<open>Two configurations of the pool; the second one is recorded.\<close>

definition sample_configuration :: "string \<Rightarrow> string \<Rightarrow> SdkInstanceConfiguration" where
  "sample_configuration i name = \<lparr>Res_Id = Some i, Res_DisplayName = Some name, Res_FreeformTags = BuildClusterTags ''uid'',
     SIC_InstanceDetails = ComputeInstanceDetails None\<rparr>"

abbreviation two_configurations :: pool_world where
  "two_configurations \<equiv> ([sample_configuration ''ic-1'' ''workers-1'', sample_configuration ''ic-2'' ''workers-2''], [])"

lemma sample_pool_owns:
  "pool_IsResourceCreatedByClusterAPI (SetInstanceConfigurationIdStatus i sample_pool) (BuildClusterTags ''uid'')"
  by (simp add: pool_IsResourceCreatedByClusterAPI_def SetInstanceConfigurationIdStatus_def upd_pool_spec_def upd_pool_def
      sample_pool_def GetOCIResourceIdentifier_def SetAvailabilityDomains_def sample_defs upd_Spec_def list_all_iff)

theorem CleanupInstanceConfiguration_exact_witness:
  "config_at (snd (fst (snd (CleanupInstanceConfiguration sample_pool_clients None
     ((SetInstanceConfigurationIdStatus ''ic-2'' sample_pool, two_configurations), []))))) ''ic-1'' = None"
proof -
  let ?m = "SetInstanceConfigurationIdStatus ''ic-2'' sample_pool" and ?w = two_configurations
  let ?x = "((?m, ?w), [])"
  have name: "Pool_Name (PS_OCIMachinePool ?m) = ''workers''"
    by (simp add: SetInstanceConfigurationIdStatus_def upd_pool_spec_def upd_pool_def)
  have old: "old_configuration config_at ?m None ?w ''ic-1''"
    using sample_pool_owns [of "''ic-2''"]
    by (simp add: old_configuration_def kept_configuration_def config_at_def sample_configuration_def listed_for_def name
        HasPrefix_def ToString_def)
  have "fst (CleanupInstanceConfiguration sample_pool_clients None ?x) = Ret ()"
    using sample_pool_owns [of "''ic-2''"]
    by (simp add: Cleanup_lists getInstanceConfigurationsFromDisplayNameSortedTimeCreateDescending_def go_simps collect_one_page
        ownConfigurationId_def deleteOldConfiguration_def config_at_def sample_configuration_def name HasPrefix_def ToString_def
        kept_configuration_def SdkResource.truncate_def)
  with old CleanupInstanceConfiguration_exact [where conf = config_at and c = sample_pool_clients and p = None and x = ?x,
      OF _ config_at_keyed _ _ prod.collapse [symmetric]] config_at_lists config_at_delete
  show ?thesis by (simp add: read_only_def answers_def go_simps)
qed

lemma sample_configuration_run:
  "\<exists>y. ReconcileInstanceConfiguration sample_pool_clients ((sample_pool, ([], [])), []) = (Ret (), y) \<and>
     GetInstanceConfigurationId (fst (fst y)) = Some ''ic-''"
proof -
  let ?x = "((sample_pool, ([], [])), [])"
  have "\<exists>d. getLaunchInstanceDetails sample_pool_clients ff dt ?x = (Ret d, ?x)" for ff dt
    by (simp add: getLaunchInstanceDetails_def pool_GetBootstrapData_def go_simps pool_kube_def lift_err_def sample_pool_config_def
        buildInstanceConfigurationShapeConfig_def Let_def sample_pool_clients_def)
  then obtain d where d: "getLaunchInstanceDetails sample_pool_clients (pool_GetFreeFormTags sample_pool) (pool_getDefinedTags sample_pool) ?x =
      (Ret d, ?x)" by blast
  have none: "GetInstanceConfiguration sample_pool_clients ?x = (Ret None, ?x)"
    by (simp add: GetInstanceConfiguration_def getInstanceConfigurationsFromDisplayNameSortedTimeCreateDescending_def go_simps
        collect_one_page)
  show ?thesis
    by (simp add: ReconcileInstanceConfiguration_def go_simps none d Let_def lift_err_def ComputeHash_def computeProjectedHash_def
        replaceInstanceConfiguration_def createInstanceConfiguration_def stored_configuration_def PatchObject_def pool_kube_def
        Cleanup_lists getInstanceConfigurationsFromDisplayNameSortedTimeCreateDescending_def collect_one_page config_at_def
        ownConfigurationId_def SdkResource.truncate_def deleteOldConfiguration_def kept_configuration_def ToString_def)
qed

theorem ReconcileInstanceConfiguration_settles_witness:
  "\<exists>y. ReconcileInstanceConfiguration sample_pool_clients ((sample_pool, ([], [])), []) = (Ret (), y) \<and>
     ReconcileInstanceConfiguration sample_pool_clients y = (Ret (), y)"
  using sample_configuration_run ReconcileInstanceConfiguration_settles [OF sample_pool_lawful] by fastforce

end
