(* ===== verification/Pool_Updates.thy ===== *)
theory Pool_Updates
  imports Pool_Configurations
begin

text \<open>
  The update and the creation of the instance pool, the machine objects of the pool, and the end of its deletion.
\<close>

section \<open>Updates\<close>

text \<open>Placements that name pairwise different availability domains.\<close>

definition separate_placements :: "PoolPlacement list \<Rightarrow> bool" where
  "separate_placements l \<longleftrightarrow> (\<forall>p \<in> set l. PP_AvailabilityDomain p \<noteq> None) \<and> distinct (map PP_AvailabilityDomain l)"

lemma indexPlacements_separate:
  assumes "separate_placements l" and "\<forall>p \<in> set l. \<forall>ad. PP_AvailabilityDomain p = Some ad \<longrightarrow> m ad = None"
  shows "\<exists>m'. indexPlacements m l = Some m' \<and> (\<forall>p \<in> set l. \<forall>ad. PP_AvailabilityDomain p = Some ad \<longrightarrow> m' ad = Some p) \<and>
    (\<forall>ad. Some ad \<notin> PP_AvailabilityDomain ` set l \<longrightarrow> m' ad = m ad)"
  using assms
proof (induction l arbitrary: m)
  case (Cons p l)
  from Cons.prems obtain ad where ad: "PP_AvailabilityDomain p = Some ad" and new: "Some ad \<notin> PP_AvailabilityDomain ` set l"
    by (auto simp: separate_placements_def)
  from Cons.prems have "separate_placements l" by (simp add: separate_placements_def)
  moreover have "\<forall>q \<in> set l. \<forall>b. PP_AvailabilityDomain q = Some b \<longrightarrow> (m(ad \<mapsto> p)) b = None"
    using Cons.prems(2) new by (auto intro: rev_image_eqI)
  ultimately obtain m' where "indexPlacements (m(ad \<mapsto> p)) l = Some m'"
    "\<forall>q \<in> set l. \<forall>b. PP_AvailabilityDomain q = Some b \<longrightarrow> m' b = Some q"
    "\<forall>b. Some b \<notin> PP_AvailabilityDomain ` set l \<longrightarrow> m' b = (m(ad \<mapsto> p)) b" using Cons.IH by blast
  with ad new Cons.prems(2) show ?case by auto
qed simp

lemma sameStringSet_refl: "sameStringSet a a"
  by (simp add: sameStringSet_def decLoop_iff foldl_incCount)

lemma placement_settled:
  assumes "separate_placements l"
  shows "\<not> instancePoolPlacementNeedsUpdate l l"
proof -
  from indexPlacements_separate [OF assms, of Map.empty] obtain m' where m': "indexPlacements Map.empty l = Some m'"
    "\<forall>p \<in> set l. \<forall>ad. PP_AvailabilityDomain p = Some ad \<longrightarrow> m' ad = Some p" by auto
  with assms show ?thesis
    by (fastforce simp: instancePoolPlacementNeedsUpdate_def list_ex_iff separate_placements_def sameStringSet_refl)
qed

text \<open>An update of a pool of the table answers the pool with what was asked for; what the request leaves out stays as it is.\<close>

definition lawful_pool_update :: "('w, SdkInstancePool) table \<Rightarrow> 'w PoolClients \<Rightarrow> bool" where
  "lawful_pool_update pools c \<longleftrightarrow> (\<forall>i d w p' w'. api_UpdateInstancePool (pc_ComputeManagement c) i d w = (Ret p', w') \<longrightarrow>
     (\<exists>k p. i = Some k \<and> pools w k = Some p \<and> pools w' = (pools w)(k \<mapsto> p') \<and> Res_Id p' = Some k \<and>
        SIP_InstanceConfigurationId p' = UIP_InstanceConfigurationId d \<and>
        SIP_Size p' = (case UIP_Size d of Some n \<Rightarrow> Some n | None \<Rightarrow> SIP_Size p) \<and>
        SIP_PlacementConfigurations p' = (case UIP_PlacementConfigurations d of Some l \<Rightarrow> l | None \<Rightarrow> SIP_PlacementConfigurations p)))"

text \<open>The placements that the pool asks for.\<close>

definition desired_placements :: "MachinePoolScope \<Rightarrow> PoolPlacement list" where
  "desired_placements m = (case buildUpdateInstancePoolPlacement m of Inl _ \<Rightarrow> [] | Inr l \<Rightarrow> l)"

abbreviation placement_update :: "MachinePoolScope \<Rightarrow> SdkInstancePool \<Rightarrow> bool" where
  "placement_update m p \<equiv> PSpec_PlacementDetails (pool_spec m) \<noteq> [] \<and>
     instancePoolPlacementNeedsUpdate (SIP_PlacementConfigurations p) (desired_placements m)"

lemma placements_built:
  assumes "UpdatePool c p x = (Ret p', y)"
  shows "PSpec_PlacementDetails (pool_spec (fst (fst x))) = [] \<or> (\<exists>l. buildUpdateInstancePoolPlacement (fst (fst x)) = Inr l)"
  using assms
  by (cases "PSpec_PlacementDetails (pool_spec (fst (fst x))) = []"; cases "buildUpdateInstancePoolPlacement (fst (fst x))")
    (simp_all add: UpdatePool_def go_simps lift_err_def)

lemma UpdatePool_run:
  assumes "UpdatePool c p x = (Ret p', y)"
  shows "if instancePoolNeedsUpdates (fst (fst x)) p (placement_update (fst (fst x)) p)
    then \<exists>l. (PSpec_PlacementDetails (pool_spec (fst (fst x))) \<noteq> [] \<longrightarrow> l = desired_placements (fst (fst x))) \<and>
      api_UpdateInstancePool (pc_ComputeManagement c) (Res_Id p)
        (updateInstancePoolDetails (fst (fst x)) l (placement_update (fst (fst x)) p)) (pool_cloud x) = (Ret p', pool_cloud y) \<and>
      fst (fst y) = fst (fst x) \<and> snd y = snd x
    else p' = p \<and> y = x"
  using placements_built [OF assms] assms
  by (elim disjE exE) (auto simp: UpdatePool_def go_simps lift_err_def Let_def desired_placements_def prod_eq_iff split: if_splits res.splits)

lemma UpdatePool_same:
  assumes "UpdatePool c p x = (Ret p', y)" and "fst (fst z) = fst (fst x)"
    and "\<not> instancePoolNeedsUpdates (fst (fst x)) q (placement_update (fst (fst x)) q)"
  shows "UpdatePool c q z = (Ret q, z)"
  using placements_built [OF assms(1)] assms(2,3)
  by (elim disjE exE) (auto simp: UpdatePool_def go_simps lift_err_def Let_def desired_placements_def)

text \<open>An update of the pool is settled by one request: when the placements that are asked for are in different
  availability domains, the pool that an update returned needs no further update, so that a second call makes no request.
  This covers a pool whose size is managed outside, a pool without placement details, and one that was up to date.\<close>

theorem UpdatePool_settles:
  assumes law: "lawful_pool_update pools c" and stored: "Res_Id p = Some k" "pools (pool_cloud x) k = Some p"
    and sep: "separate_placements (desired_placements (fst (fst x)))" and run: "UpdatePool c p x = (Ret p', y)"
  shows "UpdatePool c p' y = (Ret p', y)"
proof (cases "instancePoolNeedsUpdates (fst (fst x)) p (placement_update (fst (fst x)) p)")
  case False
  with UpdatePool_run [OF run] run show ?thesis by simp
next
  case True
  let ?m = "fst (fst x)"
  from UpdatePool_run [OF run] True obtain l where
    l: "PSpec_PlacementDetails (pool_spec ?m) \<noteq> [] \<longrightarrow> l = desired_placements ?m"
    and upd: "api_UpdateInstancePool (pc_ComputeManagement c) (Res_Id p)
        (updateInstancePoolDetails ?m l (placement_update ?m p)) (pool_cloud x) = (Ret p', pool_cloud y)"
    and y: "fst (fst y) = ?m" by auto
  note p' = law [unfolded lawful_pool_update_def, rule_format, OF upd]
  from p' stored have conf: "SIP_InstanceConfigurationId p' = GetInstanceConfigurationId ?m"
    and sz: "MP_ReplicasManagedExternally (PS_MachinePool ?m) \<or>
      SIP_Size p' = Some (case MP_Replicas (PS_MachinePool ?m) of Some r \<Rightarrow> r | None \<Rightarrow> 0)"
    and pl: "SIP_PlacementConfigurations p' = (if placement_update ?m p then l else SIP_PlacementConfigurations p)"
    by (auto simp: updateInstancePoolDetails_def Let_def)
  from pl l placement_settled [OF sep] have "\<not> placement_update ?m p'" by auto
  with conf sz have "\<not> instancePoolNeedsUpdates ?m p' (placement_update ?m p')" by (auto simp: instancePoolNeedsUpdates_def)
  from UpdatePool_same [OF run y this] show ?thesis .
qed

lemma sample_pool_update: "lawful_pool_update world_pool_at sample_pool_clients"
proof -
  have keep: "Res_Id (updated_pool d p) = Res_Id p" "Res_DisplayName (updated_pool d p) = Res_DisplayName p" for d p
    by (simp_all add: updated_pool_def)
  have at: "world_pool_at (w1, map (\<lambda>q. if Res_Id q = Some k then updated_pool d p else q) l) = (world_pool_at (w1, l))(k \<mapsto> updated_pool d p)"
    if "world_pool_at (w1, l) k = Some p" for w1 l k p d
  proof -
    from that have p: "Res_Id p = Some k" "Res_DisplayName p \<noteq> None" by (auto simp: world_pool_at_def dest!: find_Some_mem)
    have other: "find (\<lambda>q. Res_Id q = Some j \<and> Res_DisplayName q \<noteq> None) (map (\<lambda>q. if Res_Id q = Some k then updated_pool d p else q) l) =
        find (\<lambda>q. Res_Id q = Some j \<and> Res_DisplayName q \<noteq> None) l" if "j \<noteq> k" for j
      using that p by (induction l) (auto simp: keep)
    have "find (\<lambda>q. Res_Id q = Some k \<and> Res_DisplayName q \<noteq> None) (map (\<lambda>q. if Res_Id q = Some k then updated_pool d p else q) l) =
        Some (updated_pool d p)"
      using that p unfolding world_pool_at_def by (induction l) (auto simp: keep split: if_splits)
    with other show ?thesis by (auto simp: world_pool_at_def)
  qed
  show ?thesis
    unfolding lawful_pool_update_def
    by (auto simp: pool_compute_def bind_eq_Some_conv at keep updated_pool_def split: option.splits)
      (auto simp: world_pool_at_def dest!: find_Some_mem)
qed

definition small_pool :: SdkInstancePool where
  "small_pool = \<lparr>Res_Id = Some ''ip-1'', Res_DisplayName = Some ''workers'', Res_FreeformTags = Map.empty,
     SIP_InstanceConfigurationId = None, SIP_Size = Some 1, SIP_LifecycleState = PoolRunning, SIP_PlacementConfigurations = []\<rparr>"

theorem UpdatePool_settles_witness:
  "\<exists>p' y. UpdatePool sample_pool_clients small_pool ((sample_pool, ([], [small_pool])), []) = (Ret p', y) \<and> SIP_Size p' = Some 3 \<and>
     UpdatePool sample_pool_clients p' y = (Ret p', y)"
proof -
  let ?x = "((sample_pool, ([], [small_pool])), [])"
  have none: "PSpec_PlacementDetails (pool_spec sample_pool) = []" by (simp add: sample_pool_def)
  then have run: "\<exists>p' y. UpdatePool sample_pool_clients small_pool ?x = (Ret p', y) \<and> SIP_Size p' = Some 3"
    by (simp add: UpdatePool_def go_simps instancePoolNeedsUpdates_def small_pool_def pool_compute_def world_pool_at_def updated_pool_def
        updateInstancePoolDetails_def)
  have "BuildInstancePoolPlacement sample_pool = Inr [placementIn sample_pool \<lparr>AD_Name = ''AD-1'', AD_FaultDomains = [''FD-1'', ''FD-2'']\<rparr>
      [''FD-1'', ''FD-2'']]"
    using none by (simp add: BuildInstancePoolPlacement_def) (simp add: sample_pool_def accessor_defs SetAvailabilityDomains_def upd_Spec_def)
  then have "separate_placements (desired_placements sample_pool)"
    by (simp add: desired_placements_def buildUpdateInstancePoolPlacement_def separate_placements_def placementIn_def)
  moreover have "Res_Id small_pool = Some ''ip-1''" "world_pool_at ([], [small_pool]) ''ip-1'' = Some small_pool"
    by (simp_all add: small_pool_def world_pool_at_def)
  ultimately show ?thesis using UpdatePool_settles [OF sample_pool_update, of small_pool "''ip-1''" ?x] run by fastforce
qed

section \<open>A configuration found by its name\<close>

text \<open>Every patch of the pool object is answered with success.\<close>

definition patches_succeed :: "'w PoolClients \<Rightarrow> bool" where
  "patches_succeed c \<longleftrightarrow> (\<forall>p w. fst (pk_PatchPool (pc_Kube c) p w) = Ret ())"

lemma PatchObject_returns: "patches_succeed c \<Longrightarrow> \<exists>y. PatchObject c x = (Ret (), y)"
  by (auto simp: PatchObject_def go_simps patches_succeed_def)

lemma annotations_return:
  assumes "patches_succeed c"
  shows "\<exists>y. backfillAnnotations c h b x = (Ret (), y)" and "\<exists>y. refreshAnnotations c sh sb h b x = (Ret (), y)"
  using PatchObject_returns [OF assms]
  by (auto simp: backfillAnnotations_def refreshAnnotations_def go_simps Let_def simp del: split_paired_Ex)

lemma FindInstancePool_quiet: "reading_queries c \<Longrightarrow> FindInstancePool c x = (r, y) \<Longrightarrow> y = x"
  by (rule quiet_same [OF pool_queries.FindInstancePool_keeps [OF reading_pool_queries]])

text \<open>A configuration of the pool that has what is asked for, and whose id is not recorded: it is found by its name.\<close>

definition configuration_unrecorded :: "'w PoolClients \<Rightarrow> 'w pctrl \<Rightarrow> bool" where
  "configuration_unrecorded c x \<longleftrightarrow> (let m = fst (fst x) in GetInstanceConfigurationId m = None \<and>
     (\<exists>ic stored d h. GetInstanceConfiguration c x = (Ret (Some ic), x) \<and>
        SIC_InstanceDetails ic = ComputeInstanceDetails (Some stored) \<and>
        getLaunchInstanceDetails c (pool_GetFreeFormTags m) (pool_getDefinedTags m) x = (Ret d, x) \<and>
        ComputeHash (pc_Hash c) (Some d) = Inr h \<and> launch_matches d stored \<and>
        ICL_Metadata stored ''user_data'' = ICL_Metadata d ''user_data''))"

lemma unrecorded_run:
  assumes law: "lawful_configurations conf c" and patch: "patches_succeed c" and un: "configuration_unrecorded c x"
  shows "\<exists>y. ReconcileInstanceConfiguration c x = (Ret (), y) \<and> annotation_run conf x y"
proof -
  let ?m = "fst (fst x)"
  from un obtain ic stored d h where g: "GetInstanceConfiguration c x = (Ret (Some ic), x)"
    and det: "SIC_InstanceDetails ic = ComputeInstanceDetails (Some stored)"
    and d: "getLaunchInstanceDetails c (pool_GetFreeFormTags ?m) (pool_getDefinedTags ?m) x = (Ret d, x)"
    and h: "ComputeHash (pc_Hash c) (Some d) = Inr h" and m: "launch_matches d stored"
    and ud: "ICL_Metadata stored ''user_data'' = ICL_Metadata d ''user_data''"
    unfolding configuration_unrecorded_def Let_def by blast
  from m h have h': "ComputeComparableHash (pc_Hash c) (Some stored) (Some d) = Inr h"
    unfolding ComputeComparableHash_def ComputeHash_def launch_project_iff [symmetric] by simp
  let ?b = "ComputeUserDataHash (pc_Hash c) (ICL_Metadata stored)"
  from ud have b: "?b = ComputeUserDataHash (pc_Hash c) (ICL_Metadata d)" by (simp add: ComputeUserDataHash_def)
  from annotations_return(1) [OF patch] obtain z where z: "backfillAnnotations c h ?b x = (Ret (), z)" by blast
  from annotations_return(2) [OF patch] obtain y where y: "refreshAnnotations c (getInstanceConfigurationHashAnnotation (fst (fst z)))
      (getBootstrapDataHashAnnotation (fst (fst z))) h ?b z = (Ret (), y)" by blast
  have "ReconcileInstanceConfiguration c x = (Ret (), y)"
    using z y by (simp add: ReconcileInstanceConfiguration_def go_simps Let_def lift_err_def g d h h' det b)
  with annotation_run_trans [OF backfill_run [OF law z]] refresh_run [OF law y] show ?thesis by blast
qed

text \<open>When the configuration of the pool exists and has what is asked for but its id is not recorded (the object lost
  it, or the patch after the creation failed), the pool is never created: the configuration is found by its name and left
  alone, its id is not recorded, and the creation of the pool fails for want of the id. The next reconciliation starts from
  the same situation.\<close>

theorem unrecorded_configuration_blocks_pool:
  assumes law: "lawful_configurations conf c" and patch: "patches_succeed c" and un: "configuration_unrecorded c x"
    and none: "fst (FindInstancePool c x) = Ret None"
  shows "\<exists>y. reconcilePoolResources c x = (Err (ErrNew ''OCIMachinePool has no InstanceConfigurationId''), y) \<and>
    GetInstanceConfigurationId (fst (fst y)) = None \<and> conf (pool_cloud y) = conf (pool_cloud x)"
proof -
  have find: "FindInstancePool c x = (Ret None, x)"
    using none FindInstancePool_quiet [OF lawfulD(1) [OF law], of x] by (cases "FindInstancePool c x") auto
  from unrecorded_run [OF law patch un] obtain z where run: "ReconcileInstanceConfiguration c x = (Ret (), z)"
    and z: "annotation_run conf x z" by blast
  from un have none: "GetInstanceConfigurationId (fst (fst x)) = None" by (simp add: configuration_unrecorded_def Let_def)
  with z have id: "GetInstanceConfigurationId (fst (fst z)) = None" "conf (pool_cloud z) = conf (pool_cloud x)"
    by (simp_all add: annotation_run_def)
  have keep: "GetInstanceConfigurationId (upd_pool_status f m) = GetInstanceConfigurationId m" for f m
    by (simp add: GetInstanceConfigurationId_def upd_pool_status_def upd_pool_def)
  show ?thesis
    by (cases z) (use id in \<open>auto simp: reconcilePoolResources_def go_simps find run mark_pool_def createMissingPool_def CreateInstancePool_def
        keep record_event_def mark_pool_false_def split: prod.splits\<close>)
qed

text \<open>The sample pool with its configuration in the cloud and no id recorded.\<close>

definition sample_details :: IcLaunchDetails where
  "sample_details = poolLaunchDetails (pc_Enum sample_pool_clients) sample_pool (pool_GetFreeFormTags sample_pool)
     (pool_getDefinedTags sample_pool) ''cloud-init'' [] ''VM.Standard.E4.Flex''"

definition left_configuration :: SdkInstanceConfiguration where
  "left_configuration = (sample_configuration ''ic-1'' ''workers-1'')\<lparr>SIC_InstanceDetails := ComputeInstanceDetails (Some sample_details)\<rparr>"

lemma sample_unrecorded: "configuration_unrecorded sample_pool_clients ((sample_pool, ([left_configuration], [])), [])"
proof -
  let ?x = "((sample_pool, ([left_configuration], [])), [])"
  have own: "pool_IsResourceCreatedByClusterAPI sample_pool (BuildClusterTags ''uid'')"
    by (simp add: pool_IsResourceCreatedByClusterAPI_def sample_pool_def GetOCIResourceIdentifier_def SetAvailabilityDomains_def
        sample_defs upd_Spec_def list_all_iff)
  have at: "config_at ([left_configuration], []) ''ic-1'' = Some left_configuration" "Res_Id left_configuration = Some ''ic-1''"
    "Res_DisplayName left_configuration = Some ''workers-1''" "Res_FreeformTags left_configuration = BuildClusterTags ''uid''"
    by (simp_all add: config_at_def left_configuration_def sample_configuration_def)
  have "getLaunchInstanceDetails sample_pool_clients (pool_GetFreeFormTags sample_pool) (pool_getDefinedTags sample_pool) ?x = (Ret sample_details, ?x)"
    by (simp add: getLaunchInstanceDetails_def pool_GetBootstrapData_def go_simps pool_kube_def lift_err_def sample_pool_config_def
        buildInstanceConfigurationShapeConfig_def Let_def sample_details_def)
  moreover have "GetInstanceConfiguration sample_pool_clients ?x = (Ret (Some left_configuration), ?x)"
    using own at by (simp add: GetInstanceConfiguration_def getInstanceConfigurationsFromDisplayNameSortedTimeCreateDescending_def go_simps
        collect_one_page ownConfigurationId_def SdkResource.truncate_def HasPrefix_def getInstanceConfigurationFromOCID_def)
  moreover have "SIC_InstanceDetails left_configuration = ComputeInstanceDetails (Some sample_details)"
    by (simp add: left_configuration_def)
  ultimately show ?thesis
    by (simp add: configuration_unrecorded_def launch_matches_refl ComputeHash_def computeProjectedHash_def)
qed

theorem unrecorded_configuration_blocks_pool_witness:
  "\<exists>y. reconcilePoolResources sample_pool_clients ((sample_pool, ([left_configuration], [])), []) =
     (Err (ErrNew ''OCIMachinePool has no InstanceConfigurationId''), y)"
proof -
  let ?x = "((sample_pool, ([left_configuration], [])), [])"
  have "fst (FindInstancePool sample_pool_clients ?x) = Ret None"
    by (simp add: FindInstancePool_def ListInstancePoolSummaries_def go_simps collect_one_page)
  moreover have "patches_succeed sample_pool_clients" by (simp add: patches_succeed_def pool_kube_def go_simps)
  ultimately show ?thesis using unrecorded_configuration_blocks_pool [OF sample_pool_lawful _ sample_unrecorded] by blast
qed

section \<open>Machine objects\<close>

text \<open>The machine objects of Kubernetes are a set. A list request answers the objects of the namespace with the labels; a
  creation adds the object under a new name; a patch leaves the ids, namespaces and labels as they are. A failed creation
  adds nothing.\<close>

definition selected :: "string \<Rightarrow> tags \<Rightarrow> OCIMachinePoolMachine \<Rightarrow> bool" where
  "selected ns labels pm \<longleftrightarrow> PM_Namespace pm = ns \<and> labels \<subseteq>\<^sub>m PM_Labels pm"

abbreviation pm_key :: "OCIMachinePoolMachine \<Rightarrow> string option \<times> string \<times> tags" where
  "pm_key pm \<equiv> (PM_OCID pm, PM_Namespace pm, PM_Labels pm)"

definition lawful_machine_objects :: "('w \<Rightarrow> OCIMachinePoolMachine set) \<Rightarrow> 'w PoolKube \<Rightarrow> bool" where
  "lawful_machine_objects objs k \<longleftrightarrow>
     (\<forall>ns labels w items w'. pk_ListPoolMachines k ns labels w = (Ret items, w') \<longrightarrow>
        w' = w \<and> set items = {pm \<in> objs w. selected ns labels pm}) \<and>
     (\<forall>pm w w'. pk_CreatePoolMachine k pm w = (Ret (), w') \<longrightarrow> (\<exists>name. objs w' = insert (pm\<lparr>PM_Name := name\<rparr>) (objs w))) \<and>
     (\<forall>pm w. pm_key ` objs (snd (pk_PatchPoolMachine k pm w)) = pm_key ` objs w) \<and>
     (\<forall>w. objs (snd (pk_NewHelper k w)) = objs w)"

lemma machine_objectsD:
  assumes "lawful_machine_objects objs k"
  shows "pk_ListPoolMachines k ns labels w = (Ret items, w') \<Longrightarrow> w' = w \<and> set items = {pm \<in> objs w. selected ns labels pm}"
    and "pk_CreatePoolMachine k pm w = (Ret (), w') \<Longrightarrow> \<exists>name. objs w' = insert (pm\<lparr>PM_Name := name\<rparr>) (objs w)"
    and "pm_key ` objs (snd (pk_PatchPoolMachine k pm w)) = pm_key ` objs w" and "objs (snd (pk_NewHelper k w)) = objs w"
proof -
  note law = assms [unfolded lawful_machine_objects_def]
  note parts = law [THEN conjunct1, rule_format] law [THEN conjunct2, THEN conjunct1, rule_format]
    law [THEN conjunct2, THEN conjunct2, THEN conjunct1, rule_format] law [THEN conjunct2, THEN conjunct2, THEN conjunct2, rule_format]
  show "pk_ListPoolMachines k ns labels w = (Ret items, w') \<Longrightarrow> w' = w \<and> set items = {pm \<in> objs w. selected ns labels pm}"
    by (rule parts(1))
  show "pk_CreatePoolMachine k pm w = (Ret (), w') \<Longrightarrow> \<exists>name. objs w' = insert (pm\<lparr>PM_Name := name\<rparr>) (objs w)" by (rule parts(2))
  show "pm_key ` objs (snd (pk_PatchPoolMachine k pm w)) = pm_key ` objs w" by (rule parts(3))
  show "objs (snd (pk_NewHelper k w)) = objs w" by (rule parts(4))
qed

text \<open>An object with the id, among the objects of the pool.\<close>

definition has_machine :: "('w \<Rightarrow> OCIMachinePoolMachine set) \<Rightarrow> string \<Rightarrow> tags \<Rightarrow> 'w \<Rightarrow> string \<Rightarrow> bool" where
  "has_machine objs ns labels w i \<longleftrightarrow> (\<exists>pm \<in> objs w. PM_OCID pm = Some i \<and> selected ns labels pm)"

lemma has_machine_key:
  assumes "pm_key ` objs w \<subseteq> pm_key ` objs w'" and "has_machine objs ns labels w i"
  shows "has_machine objs ns labels w' i"
proof -
  from assms(2) obtain pm where pm: "pm \<in> objs w" "PM_OCID pm = Some i" "selected ns labels pm" by (auto simp: has_machine_def)
  with assms(1) obtain pm' where "pm' \<in> objs w'" "pm_key pm' = pm_key pm" by (metis (no_types, lifting) imageE image_eqI subsetD)
  with pm show ?thesis by (auto simp: has_machine_def selected_def)
qed

lemma ensure_grows:
  assumes law: "lawful_machine_objects objs k" and run: "ensurePoolMachine k params index sm w = (Ret (), w')"
  shows "pm_key ` objs w \<subseteq> pm_key ` objs w'"
proof -
  have helper: "objs v = objs w" if "pk_NewHelper k w = (r, v)" for r v
    using machine_objectsD(4) [OF law, of w] that by simp
  have patch: "pm_key ` objs v' = pm_key ` objs v" if "pk_PatchPoolMachine k pm v = (r, v')" for pm r v v'
    using machine_objectsD(3) [OF law, of pm v] that by simp
  show ?thesis
  proof (cases "PM_OCID sm")
    case None
    with run show ?thesis by (simp add: ensurePoolMachine_def go_simps)
  next
    case (Some i)
    show ?thesis
    proof (cases "index i")
      case None
      with run Some have "pk_CreatePoolMachine k (newPoolMachine k params sm) w = (Ret (), w')"
        by (auto simp: ensurePoolMachine_def go_simps split: res.splits prod.splits)
      from machine_objectsD(2) [OF law this] show ?thesis by auto
    next
      case (Some a)
      show ?thesis
      proof (cases "PM_Ready sm = PM_Ready a")
        case True
        with run Some \<open>PM_OCID sm = Some i\<close> show ?thesis by (simp add: ensurePoolMachine_def go_simps)
      next
        case False
        with run Some \<open>PM_OCID sm = Some i\<close> obtain v where "pk_NewHelper k w = (Ret (), v)"
          "pk_PatchPoolMachine k (a\<lparr>PM_Ready := True\<rparr>) v = (Ret (), w')"
          by (auto simp: ensurePoolMachine_def go_simps split: res.splits prod.splits)
        with helper patch show ?thesis by simp
      qed
    qed
  qed
qed

lemma ensure_covers:
  assumes law: "lawful_machine_objects objs k" and run: "ensurePoolMachine k params index sm w = (Ret (), w')"
    and id: "PM_OCID sm = Some i"
    and old: "index i \<noteq> None \<Longrightarrow> has_machine objs (Params_Namespace params) (poolMachineLabels k params) w i"
  shows "has_machine objs (Params_Namespace params) (poolMachineLabels k params) w' i"
proof (cases "index i")
  case None
  with run id have "pk_CreatePoolMachine k (newPoolMachine k params sm) w = (Ret (), w')"
    by (auto simp: ensurePoolMachine_def go_simps split: res.splits prod.splits)
  from machine_objectsD(2) [OF law this] obtain name where
    "objs w' = insert ((newPoolMachine k params sm)\<lparr>PM_Name := name\<rparr>) (objs w)" by blast
  with id show ?thesis by (auto simp: has_machine_def selected_def newPoolMachine_def)
next
  case (Some a)
  with old has_machine_key [of objs, OF ensure_grows [OF law run]] show ?thesis by simp
qed

lemma machinesByOCID_run:
  "machinesByOCID index items w = (Ret index', w') \<Longrightarrow>
   w' = w \<and> (\<forall>i. index' i \<noteq> None \<longrightarrow> index i \<noteq> None \<or> (\<exists>pm \<in> set items. PM_OCID pm = Some i))"
proof (induction items arbitrary: index)
  case (Cons pm items)
  from Cons.prems obtain i where i: "PM_OCID pm = Some i" by (auto simp: go_simps split: option.splits)
  with Cons.prems have "machinesByOCID (index(i \<mapsto> pm)) items w = (Ret index', w')" by (simp add: go_simps)
  from Cons.IH [OF this] i show ?case by (auto split: if_splits)
qed (simp add: go_simps)

lemma ensure_all:
  assumes law: "lawful_machine_objects objs k"
  shows "go_for sms (ensurePoolMachine k params index) w = (Ret (), w') \<Longrightarrow>
    (\<forall>i. index i \<noteq> None \<longrightarrow> has_machine objs (Params_Namespace params) (poolMachineLabels k params) w i) \<Longrightarrow>
    pm_key ` objs w \<subseteq> pm_key ` objs w' \<and>
    (\<forall>sm \<in> set sms. \<forall>i. PM_OCID sm = Some i \<longrightarrow> has_machine objs (Params_Namespace params) (poolMachineLabels k params) w' i)"
proof (induction sms arbitrary: w)
  case (Cons sm sms)
  from Cons.prems(1) obtain w1 where step: "ensurePoolMachine k params index sm w = (Ret (), w1)"
    and rest: "go_for sms (ensurePoolMachine k params index) w1 = (Ret (), w')"
    by (auto simp: go_simps split: res.splits prod.splits)
  note grow = ensure_grows [OF law step]
  have "\<forall>i. index i \<noteq> None \<longrightarrow> has_machine objs (Params_Namespace params) (poolMachineLabels k params) w1 i"
    using Cons.prems(2) has_machine_key [of objs, OF grow] by blast
  note IH = Cons.IH [OF rest this]
  have "has_machine objs (Params_Namespace params) (poolMachineLabels k params) w1 i" if "PM_OCID sm = Some i" for i
    using ensure_covers [OF law step that] Cons.prems(2) by blast
  with has_machine_key [of objs w1 w'] IH grow show ?case by (auto simp: subset_trans)
qed (simp add: go_simps)

text \<open>C17. When the creation of the machine objects of a pool returns without an error, every instance of the pool that has
  an id has a machine object, in the namespace of the pool and with the labels of the cluster and of the machine pool. No
  machine object lost its id, namespace or labels.\<close>

theorem every_instance_has_machine:
  assumes law: "lawful_machine_objects objs k" and run: "CreateMachinePoolMachinesIfNotExists k params w = (Ret (), w')"
  shows "pm_key ` objs w \<subseteq> pm_key ` objs w' \<and> (\<forall>sm \<in> set (Params_SpecInfraMachines params). \<forall>i. PM_OCID sm = Some i \<longrightarrow>
    has_machine objs (Params_Namespace params) (poolMachineLabels k params) w' i)"
proof -
  from run obtain items w1 where l: "getMachinepoolMachines k params w = (Ret items, w1)"
    by (auto simp: CreateMachinePoolMachinesIfNotExists_def go_simps split: res.splits prod.splits)
  from machine_objectsD(1) [OF law l [unfolded getMachinepoolMachines_def]]
  have items: "w1 = w" "set items = {pm \<in> objs w. selected (Params_Namespace params) (poolMachineLabels k params) pm}" by simp_all
  from run l obtain index w2 where idx: "machinesByOCID Map.empty items w1 = (Ret index, w2)"
    and rest: "go_for (Params_SpecInfraMachines params) (ensurePoolMachine k params index) w2 = (Ret (), w')"
    by (auto simp: CreateMachinePoolMachinesIfNotExists_def go_simps split: res.splits prod.splits)
  from machinesByOCID_run [OF idx] items have "w2 = w"
    and "\<forall>i. index i \<noteq> None \<longrightarrow> has_machine objs (Params_Namespace params) (poolMachineLabels k params) w i"
    by (auto simp: has_machine_def)
  with ensure_all [OF law] rest show ?thesis by blast
qed

text \<open>Kubernetes as the set of its machine objects, and an instance without an object.\<close>

definition object_kube :: "OCIMachinePoolMachine set PoolKube" where
  "object_kube = pool_kube\<lparr>pk_ListPoolMachines := (\<lambda>ns labels w. if w = {} then (Ret [], w) else (Err not_found_err, w)),
     pk_CreatePoolMachine := (\<lambda>pm w. (Ret (), insert (pm\<lparr>PM_Name := ''workers-1''\<rparr>) w))\<rparr>"

lemma object_kube_lawful: "lawful_machine_objects id object_kube"
  by (auto simp: lawful_machine_objects_def object_kube_def pool_kube_def go_simps split: if_splits)

definition new_instance :: OCIMachinePoolMachine where
  "new_instance = \<lparr>PM_Name = ''inst'', PM_Namespace = '''', PM_GenerateName = '''', PM_Labels = Map.empty, PM_OwnerReference = None,
     PM_Finalizers = [], PM_OCID = Some ''ocid1.inst'', PM_ProviderID = Some ''oci://ocid1.inst'', PM_InstanceName = Some ''inst'',
     PM_MachineType = SelfManaged, PM_Ready = True\<rparr>"

theorem every_instance_has_machine_witness:
  "has_machine id ''ns'' (poolMachineLabels object_kube (poolMachineParams sample_pool [new_instance]))
     (snd (CreateMachinePoolMachinesIfNotExists object_kube (poolMachineParams sample_pool [new_instance]) {})) ''ocid1.inst''"
proof -
  let ?p = "poolMachineParams sample_pool [new_instance]"
  have "fst (CreateMachinePoolMachinesIfNotExists object_kube ?p {}) = Ret ()"
    by (simp add: CreateMachinePoolMachinesIfNotExists_def getMachinepoolMachines_def go_simps object_kube_def ensurePoolMachine_def
        poolMachineParams_def new_instance_def)
  then have "CreateMachinePoolMachinesIfNotExists object_kube ?p {} = (Ret (), snd (CreateMachinePoolMachinesIfNotExists object_kube ?p {}))"
    by (simp add: prod_eq_iff)
  from every_instance_has_machine [OF object_kube_lawful this] show ?thesis
    by (simp add: poolMachineParams_def new_instance_def) (simp add: sample_pool_def)
qed

section \<open>The end of a deletion\<close>

text \<open>The configurations of the compartment, and which of them an instance pool uses. The service answers: following the pages of the list leads to
  an end and gives every configuration once; a get finds what is there and reports what is not as not found; a deletion removes
  a configuration that is not used, and refuses one that is. Which configurations are used does not depend on these requests.\<close>

definition configuration_service ::
  "string \<Rightarrow> ('w, SdkInstanceConfiguration) table \<Rightarrow> ('w \<Rightarrow> string set) \<Rightarrow> 'w PoolClients \<Rightarrow> bool" where
  "configuration_service cid conf used c \<longleftrightarrow> reading_queries c \<and> keyed_by_id conf \<and>
     (\<forall>w. \<exists>rs. collect_pages (api_ListInstanceConfigurations (pc_ComputeManagement c) cid) go_ret w = (Ret rs, w) \<and>
        set rs = ran (summaries conf w) \<and> distinct (map Res_Id rs)) \<and>
     (\<forall>p w items np w'. api_ListInstanceConfigurations (pc_ComputeManagement c) cid p w = (Ret (items, np), w') \<longrightarrow>
        set items \<subseteq> ran (summaries conf w)) \<and>
     (\<forall>w k. case conf w k of
        Some ic \<Rightarrow> api_GetInstanceConfiguration (pc_ComputeManagement c) (Some k) w = (Ret ic, w)
      | None \<Rightarrow> \<exists>e. api_GetInstanceConfiguration (pc_ComputeManagement c) (Some k) w = (Err e, w) \<and> IsNotFound (Some e)) \<and>
     (\<forall>w k. conf w k \<noteq> None \<longrightarrow>
        (if k \<in> used w then \<exists>e w'. api_DeleteInstanceConfiguration (pc_ComputeManagement c) (Some k) w = (Err e, w')
         else \<exists>w'. api_DeleteInstanceConfiguration (pc_ComputeManagement c) (Some k) w = (Ret (), w') \<and>
           conf w' = (conf w)(k := None) \<and> used w' = used w))"

lemma configuration_serviceD:
  assumes "configuration_service cid conf used c"
  shows "reading_queries c" "keyed_by_id conf"
    "\<exists>rs. collect_pages (api_ListInstanceConfigurations (pc_ComputeManagement c) cid) go_ret w = (Ret rs, w) \<and>
        set rs = ran (summaries conf w) \<and> distinct (map Res_Id rs)"
    "api_ListInstanceConfigurations (pc_ComputeManagement c) cid p w = (Ret (items, np), w') \<Longrightarrow> set items \<subseteq> ran (summaries conf w)"
    "conf w k = Some ic \<Longrightarrow> api_GetInstanceConfiguration (pc_ComputeManagement c) (Some k) w = (Ret ic, w)"
    "conf w k = None \<Longrightarrow> \<exists>e. api_GetInstanceConfiguration (pc_ComputeManagement c) (Some k) w = (Err e, w) \<and> IsNotFound (Some e)"
    "conf w k \<noteq> None \<Longrightarrow> k \<in> used w \<Longrightarrow> \<exists>e w'. api_DeleteInstanceConfiguration (pc_ComputeManagement c) (Some k) w = (Err e, w')"
    "conf w k \<noteq> None \<Longrightarrow> k \<notin> used w \<Longrightarrow> \<exists>w'. api_DeleteInstanceConfiguration (pc_ComputeManagement c) (Some k) w = (Ret (), w') \<and>
       conf w' = (conf w)(k := None) \<and> used w' = used w"
proof -
  note all = assms [unfolded configuration_service_def]
  from all show "reading_queries c" "keyed_by_id conf"
    "\<exists>rs. collect_pages (api_ListInstanceConfigurations (pc_ComputeManagement c) cid) go_ret w = (Ret rs, w) \<and>
        set rs = ran (summaries conf w) \<and> distinct (map Res_Id rs)"
    "api_ListInstanceConfigurations (pc_ComputeManagement c) cid p w = (Ret (items, np), w') \<Longrightarrow> set items \<subseteq> ran (summaries conf w)"
    by blast+
  from all have "case conf w k of
        Some ic \<Rightarrow> api_GetInstanceConfiguration (pc_ComputeManagement c) (Some k) w = (Ret ic, w)
      | None \<Rightarrow> \<exists>e. api_GetInstanceConfiguration (pc_ComputeManagement c) (Some k) w = (Err e, w) \<and> IsNotFound (Some e)" by blast
  then show "conf w k = Some ic \<Longrightarrow> api_GetInstanceConfiguration (pc_ComputeManagement c) (Some k) w = (Ret ic, w)"
    "conf w k = None \<Longrightarrow> \<exists>e. api_GetInstanceConfiguration (pc_ComputeManagement c) (Some k) w = (Err e, w) \<and> IsNotFound (Some e)"
    by simp_all
  from all have "conf w k \<noteq> None \<longrightarrow>
        (if k \<in> used w then \<exists>e w'. api_DeleteInstanceConfiguration (pc_ComputeManagement c) (Some k) w = (Err e, w')
         else \<exists>w'. api_DeleteInstanceConfiguration (pc_ComputeManagement c) (Some k) w = (Ret (), w') \<and>
           conf w' = (conf w)(k := None) \<and> used w' = used w)" by blast
  then show "conf w k \<noteq> None \<Longrightarrow> k \<in> used w \<Longrightarrow> \<exists>e w'. api_DeleteInstanceConfiguration (pc_ComputeManagement c) (Some k) w = (Err e, w')"
    "conf w k \<noteq> None \<Longrightarrow> k \<notin> used w \<Longrightarrow> \<exists>w'. api_DeleteInstanceConfiguration (pc_ComputeManagement c) (Some k) w = (Ret (), w') \<and>
       conf w' = (conf w)(k := None) \<and> used w' = used w"
    by simp_all
qed

text \<open>What the deletion of a pool has to delete: the configurations of this cluster whose name starts with the name of the pool, and
  the recorded one.\<close>

definition pool_configurations :: "('w, SdkInstanceConfiguration) table \<Rightarrow> MachinePoolScope \<Rightarrow> 'w \<Rightarrow> string set" where
  "pool_configurations conf m w = {k. \<exists>ic. conf w k = Some ic \<and>
     (listed_for m (Pool_Name (PS_OCIMachinePool m)) ic \<or> GetInstanceConfigurationId m = Some k)}"

lemma collect_pages_lifts:
  assumes list: "\<And>p x v w. inner p (pool_cloud x) = (Ret v, w) \<Longrightarrow> \<exists>y. outer p x = (Ret v, y) \<and> pool_cloud y = w"
    and scan: "\<And>p w items np w' x. inner p w = (Ret (items, np), w') \<Longrightarrow> \<exists>rs. scan items x = (Ret rs, x)"
    and run: "collect_pages inner go_ret (pool_cloud x) = (Ret items, w)"
  shows "\<exists>rs y. collect_pages outer scan x = (Ret rs, y)"
proof -
  let ?round = "\<lambda>list sc (page, acc). go_bind (list page) (\<lambda>(items, opcNextPage). go_bind (sc items) (\<lambda>rs. case opcNextPage of
        None \<Rightarrow> go_ret (Inr (acc @ rs)) | Some p \<Rightarrow> go_ret (Inl (Some p, acc @ rs))))"
  let ?R = "\<lambda>l s k u. fst k = fst l \<and> s = pool_cloud u"
  have "\<exists>z u'. ?round outer scan k u = (Ret z, u') \<and> rel_sum (\<lambda>l' k'. ?R l' t k' u') (\<lambda>b b'. True) v z"
    if rel: "?R l s k u" and round: "?round inner go_ret l s = (Ret v, t)" for l s v t k u
  proof -
    obtain page acc acc' where l: "l = (page, acc)" "k = (page, acc')" using rel by (cases l; cases k) auto
    from round l obtain items np where i: "inner page s = (Ret (items, np), t)"
      by (auto simp: go_simps split: res.splits prod.splits option.splits)
    with list [of page u "(items, np)" t] rel obtain u1 where o: "outer page u = (Ret (items, np), u1)" "pool_cloud u1 = t" by auto
    from scan [OF i] obtain rs where "scan items u1 = (Ret rs, u1)" by blast
    with round l i o show ?thesis by (auto simp: go_simps split: option.splits simp del: split_paired_Ex)
  qed
  note step = this
  have "\<exists>b' u'. go_loop (?round outer scan) (None, []) x = (Ret b', u') \<and> True"
    by (rule loop_follows [where R = ?R and Q = "\<lambda>_ _ _ _. True", OF step run [unfolded collect_pages_def]]) simp_all
  then show ?thesis unfolding collect_pages_def by auto
qed

lemma listed_ids:
  assumes ok: "configuration_service (GetCompartmentId (PS_OCIClusterAccessor (fst (fst x)))) conf used c"
  shows "\<exists>ks. getInstanceConfigurationsFromDisplayNameSortedTimeCreateDescending c prefix x = (Ret (map Some ks), x) \<and> distinct ks \<and>
    set ks = {k. \<exists>ic. conf (pool_cloud x) k = Some ic \<and> listed_for (fst (fst x)) prefix ic}"
proof -
  let ?m = "fst (fst x)" and ?ids = "getInstanceConfigurationsFromDisplayNameSortedTimeCreateDescending c prefix"
  let ?list = "api_ListInstanceConfigurations (pc_ComputeManagement c) (GetCompartmentId (PS_OCIClusterAccessor ?m))"
  note D = configuration_serviceD [OF ok]
  from D(3) obtain rs where run: "collect_pages ?list go_ret (pool_cloud x) = (Ret rs, pool_cloud x)"
    and rs: "set rs = ran (summaries conf (pool_cloud x))" "distinct (map Res_Id rs)" by blast
  have named: "Res_DisplayName r \<noteq> None" "\<exists>k ic. conf w k = Some ic \<and> Res_Id r = Some k \<and> r = SdkResource.truncate ic" if "r \<in> ran (summaries conf w)" for r w
    using that D(2) by (auto simp: ran_def summaries_def keyed_by_id_def SdkResource.truncate_def)
  have own: "ownConfigurationId ?m prefix r z = (Ret (if listed_for ?m prefix r then [Res_Id r] else []), z)"
    if "Res_DisplayName r \<noteq> None" for r z using that by (auto simp: ownConfigurationId_def listed_for_def go_simps)
  have scan: "\<exists>ids. go_bind (go_map items (ownConfigurationId ?m prefix)) (\<lambda>ids. go_ret (concat ids)) z = (Ret ids, z)"
    if "?list p v = (Ret (items, np), v')" for p v items np v' z
    using go_map_pure [of items "ownConfigurationId ?m prefix" z, OF own] named(1) D(4) [OF that] by (fastforce simp: go_simps)
  have list: "\<exists>y. go_wrap ''failed to query InstanceConfiguration by name'' (pool_call (?list p)) z = (Ret v, y) \<and> pool_cloud y = w"
    if "?list p (pool_cloud z) = (Ret v, w)" for p z v w using that by (simp add: go_simps)
  have "\<exists>ids y. collect_pages (\<lambda>p. go_wrap ''failed to query InstanceConfiguration by name'' (pool_call (?list p)))
      (\<lambda>items. go_bind (go_map items (ownConfigurationId ?m prefix)) (\<lambda>ids. go_ret (concat ids))) x = (Ret ids, y)"
    by (rule collect_pages_lifts [where inner = ?list, OF list scan run])
  then obtain ids y where ids: "?ids x = (Ret ids, y)"
    by (simp only: getInstanceConfigurationsFromDisplayNameSortedTimeCreateDescending_def go_bind_apply get_pool_apply prod.case res.case)
      blast
  have y: "y = x" by (rule quiet_same [OF pool_queries.ids_keeps [OF reading_pool_queries [OF D(1)]] ids])
  from ids_follow [OF ids] run have i: "ids = map Res_Id (filter (listed_for ?m prefix) rs)" by auto
  have all: "lists_all (summaries conf) ?list"
    unfolding lists_all_def using D(3) by (metis Pair_inject res.inject(1))
  define ks where "ks = map (the \<circ> Res_Id) (filter (listed_for ?m prefix) rs)"
  have sel: "listed_for ?m prefix (SdkResource.truncate ic) = listed_for ?m prefix ic" for ic :: SdkInstanceConfiguration
    by (simp add: SdkResource.truncate_def listed_for_def)
  have ids_ks: "ids = map Some ks" unfolding i ks_def using named(2) rs(1) by (fastforce simp: list.map_comp)
  moreover from rs(2) have "distinct (map Some ks)" unfolding ids_ks [symmetric] i by (rule distinct_map_filter)
  then have "distinct ks" by (simp add: distinct_map)
  moreover have "k \<in> set ks \<longleftrightarrow> (\<exists>ic. conf (pool_cloud x) k = Some ic \<and> listed_for ?m prefix ic)" for k
  proof -
    have "k \<in> set ks \<longleftrightarrow> Some k \<in> set ids" by (auto simp: ids_ks)
    also have "\<dots> \<longleftrightarrow> (\<exists>ic. conf (pool_cloud x) k = Some ic \<and> listed_for ?m prefix ic)"
      by (rule ids_exact(1) [OF ids all D(2)])
    finally show ?thesis .
  qed
  ultimately show ?thesis using ids y by blast
qed

lemma deleteOlds_service:
  assumes ok: "configuration_service cid conf used c" and "distinct ks" and "\<forall>k \<in> set ks. conf (pool_cloud z) k \<noteq> None"
  shows "\<exists>r y. go_for (map Some ks) (deleteOldConfiguration c keep) z = (r, y) \<and> fst (fst y) = fst (fst z) \<and>
    (if (set ks - {keep}) \<inter> used (pool_cloud z) = {}
     then r = Ret () \<and> conf (pool_cloud y) = (\<lambda>k. if k \<in> set ks - {keep} then None else conf (pool_cloud z) k) \<and>
       used (pool_cloud y) = used (pool_cloud z)
     else \<exists>e. r = Err e)"
  using assms(2,3)
proof (induction ks arbitrary: z)
  case (Cons k ks)
  note D = configuration_serviceD [OF ok]
  show ?case
  proof (cases "k = keep")
    case True
    with Cons.prems have "deleteOldConfiguration c keep (Some k) z = (Ret (), z)" "set (k # ks) - {keep} = set ks - {keep}"
      by (auto simp: deleteOldConfiguration_def go_simps ToString_def)
    moreover from Cons.IH [of z] Cons.prems obtain r y where "go_for (map Some ks) (deleteOldConfiguration c keep) z = (r, y)"
      "fst (fst y) = fst (fst z)"
      "if (set ks - {keep}) \<inter> used (pool_cloud z) = {}
       then r = Ret () \<and> conf (pool_cloud y) = (\<lambda>k. if k \<in> set ks - {keep} then None else conf (pool_cloud z) k) \<and>
         used (pool_cloud y) = used (pool_cloud z)
       else \<exists>e. r = Err e" unfolding distinct.simps list.set ball_simps by blast
    ultimately show ?thesis by (intro exI [of _ r] exI [of _ y]) (simp add: go_simps)
  next
    case False
    from Cons.prems have here: "conf (pool_cloud z) k \<noteq> None" by simp
    show ?thesis
    proof (cases "k \<in> used (pool_cloud z)")
      case True
      from D(7) [OF here True] obtain e w where "api_DeleteInstanceConfiguration (pc_ComputeManagement c) (Some k) (pool_cloud z) = (Err e, w)" by blast
      with False True show ?thesis
        by (auto simp: deleteOldConfiguration_def go_simps ToString_def record_event_def)
    next
      case unused: False
      from D(8) [OF here unused] obtain w where
        del: "api_DeleteInstanceConfiguration (pc_ComputeManagement c) (Some k) (pool_cloud z) = (Ret (), w)"
        and w: "conf w = (conf (pool_cloud z))(k := None)" "used w = used (pool_cloud z)" by blast
      let ?z = "((fst (fst z), w), snd z)"
      from del False have step: "deleteOldConfiguration c keep (Some k) z = (Ret (), ?z)"
        by (simp add: deleteOldConfiguration_def go_simps ToString_def)
      have "\<forall>j \<in> set ks. conf (pool_cloud ?z) j \<noteq> None" using Cons.prems w(1) by auto
      from Cons.IH [OF _ this, unfolded fst_conv snd_conv w(2)] Cons.prems(1) obtain r y where
        rest: "go_for (map Some ks) (deleteOldConfiguration c keep) ?z = (r, y)" "fst (fst y) = fst (fst z)"
        and out: "if (set ks - {keep}) \<inter> used (pool_cloud z) = {}
          then r = Ret () \<and> conf (pool_cloud y) = (\<lambda>j. if j \<in> set ks - {keep} then None else conf w j) \<and> used (pool_cloud y) = used (pool_cloud z)
          else \<exists>e. r = Err e" unfolding distinct.simps by blast
      have "(set (k # ks) - {keep}) \<inter> used (pool_cloud z) = (set ks - {keep}) \<inter> used (pool_cloud z)" using unused by auto
      moreover have "(\<lambda>j. if j \<in> set ks - {keep} then None else conf w j) = (\<lambda>j. if j \<in> set (k # ks) - {keep} then None else conf (pool_cloud z) j)"
        using False by (auto simp: w(1))
      ultimately show ?thesis using step rest out by (simp add: go_simps)
    qed
  qed
qed (simp add: go_simps)

text \<open>The configuration that the clean-up leaves is deleted after it.\<close>

lemma current_configuration:
  assumes ok: "configuration_service (GetCompartmentId (PS_OCIClusterAccessor (fst (fst x)))) conf used c"
    and left: "pool_configurations conf (fst (fst x)) (pool_cloud x) \<subseteq> {kept_configuration (fst (fst x)) None}"
  shows "\<exists>g. GetInstanceConfiguration c x = (g, x) \<and>
    (case conf (pool_cloud x) (kept_configuration (fst (fst x)) None) of
       Some ic \<Rightarrow> if kept_configuration (fst (fst x)) None \<in> pool_configurations conf (fst (fst x)) (pool_cloud x)
         then g = Ret (Some ic) else g = Ret None \<or> (\<exists>e. g = Err e \<and> IsNotFound (Some e))
     | None \<Rightarrow> g = Ret None \<or> (\<exists>e. g = Err e \<and> IsNotFound (Some e)))"
proof (cases "GetInstanceConfigurationId (fst (fst x))")
  case (Some i)
  note D = configuration_serviceD [OF ok]
  have k: "kept_configuration (fst (fst x)) None = i" by (simp add: kept_configuration_def Some ToString_def)
  show ?thesis
  proof (cases "conf (pool_cloud x) i")
    case None
    from D(6) [OF this] None Some show ?thesis
      by (auto simp: GetInstanceConfiguration_def getInstanceConfigurationFromOCID_def go_simps k)
  next
    case (Some ic)
    with D(5) [OF this] \<open>GetInstanceConfigurationId (fst (fst x)) = Some i\<close> show ?thesis
      by (auto simp: GetInstanceConfiguration_def getInstanceConfigurationFromOCID_def go_simps k pool_configurations_def)
  qed
next
  case None
  note D = configuration_serviceD [OF ok]
  have k: "kept_configuration (fst (fst x)) None = ''''" by (simp add: kept_configuration_def None ToString_def)
  let ?S = "pool_configurations conf (fst (fst x)) (pool_cloud x)"
  from listed_ids [OF ok, of "Pool_Name (PS_OCIMachinePool (fst (fst x)))"] obtain ks where
    ids: "getInstanceConfigurationsFromDisplayNameSortedTimeCreateDescending c (Pool_Name (PS_OCIMachinePool (fst (fst x)))) x = (Ret (map Some ks), x)"
    and ks: "set ks = ?S" by (auto simp: pool_configurations_def None)
  show ?thesis
  proof (cases ks)
    case Nil
    with ids ks None show ?thesis
      by (auto simp: GetInstanceConfiguration_def go_bind_apply get_pool_apply go_ret_apply split: option.split)
  next
    case (Cons j js)
    with ks left k have j: "j = ''''" "j \<in> ?S" by auto
    then obtain ic where ic: "conf (pool_cloud x) '''' = Some ic" by (auto simp: pool_configurations_def)
    with D(5) [OF ic] ids Cons None j show ?thesis
      by (auto simp: GetInstanceConfiguration_def getInstanceConfigurationFromOCID_def go_bind_apply get_pool_apply go_ret_apply go_simps k)
  qed
qed

lemma current_deleted:
  fixes y :: "'w pctrl"
  assumes ok: "configuration_service (GetCompartmentId (PS_OCIClusterAccessor (fst (fst y)))) conf used c"
  defines "keep \<equiv> kept_configuration (fst (fst y)) None" and "S \<equiv> pool_configurations conf (fst (fst y)) (pool_cloud y)"
  assumes left: "S \<subseteq> {keep}"
  shows "\<exists>r v. go_bind (go_try (GetInstanceConfiguration c)) (deleteCurrentConfiguration c) y = (r, v) \<and>
    (if S \<inter> used (pool_cloud y) = {}
     then r = Ret 0 \<and> pool_finalizers v = kube_RemoveFinalizer (pc_Lib c) MachinePoolFinalizer (pool_finalizers y) \<and>
       conf (pool_cloud v) = (\<lambda>k. if k \<in> S then None else conf (pool_cloud y) k)
     else (\<exists>e. r = Err e) \<and> pool_finalizers v = pool_finalizers y)"
proof -
  note D = configuration_serviceD [OF ok]
  from current_configuration [OF ok left [unfolded S_def keep_def], folded S_def keep_def] obtain g where
    g: "GetInstanceConfiguration c y = (g, y)"
    and cg: "case conf (pool_cloud y) keep of
       Some ic \<Rightarrow> if keep \<in> S then g = Ret (Some ic) else g = Ret None \<or> (\<exists>e. g = Err e \<and> IsNotFound (Some e))
     | None \<Rightarrow> g = Ret None \<or> (\<exists>e. g = Err e \<and> IsNotFound (Some e))" by blast
  have rem: "\<exists>v. removePoolFinalizer c u = (Ret 0, v) \<and> pool_cloud v = pool_cloud u \<and>
      pool_finalizers v = kube_RemoveFinalizer (pc_Lib c) MachinePoolFinalizer (pool_finalizers u)" for u
    using removePoolFinalizer_run [of c u] by (cases "removePoolFinalizer c u") simp
  show ?thesis
  proof (cases "keep \<in> S")
    case False
    with left have "S = {}" by auto
    moreover from False cg have "g = Ret None \<or> (\<exists>e. g = Err e \<and> IsNotFound (Some e))" by (auto split: option.splits)
    ultimately show ?thesis using rem [of y] g
      by (auto simp: go_bind_apply go_try_apply deleteCurrentConfiguration_def)
  next
    case here: True
    then obtain ic where ic: "conf (pool_cloud y) keep = Some ic" by (auto simp: S_def pool_configurations_def)
    with cg here have gi: "g = Ret (Some ic)" by simp
    have S: "S = {keep}" and id: "Res_Id ic = Some keep" using here left D(2) ic by (auto simp: keyed_by_id_def)
    show ?thesis
    proof (cases "keep \<in> used (pool_cloud y)")
      case True
      with D(7) [of "pool_cloud y" keep] ic obtain e w where
        "api_DeleteInstanceConfiguration (pc_ComputeManagement c) (Some keep) (pool_cloud y) = (Err e, w)" by auto
      with S True g gi id show ?thesis
        by (auto simp: go_bind_apply go_try_apply deleteCurrentConfiguration_def go_simps record_event_def)
    next
      case False
      with D(8) [of "pool_cloud y" keep] ic obtain w where
        del: "api_DeleteInstanceConfiguration (pc_ComputeManagement c) (Some keep) (pool_cloud y) = (Ret (), w)"
        and w: "conf w = (conf (pool_cloud y))(keep := None)" by auto
      from rem [of "((fst (fst y), w), snd y)"] obtain v where
        v: "removePoolFinalizer c ((fst (fst y), w), snd y) = (Ret 0, v)" "pool_cloud v = w"
        "pool_finalizers v = kube_RemoveFinalizer (pc_Lib c) MachinePoolFinalizer (pool_finalizers y)" by auto
      have "go_bind (go_try (GetInstanceConfiguration c)) (deleteCurrentConfiguration c) y = (Ret 0, v)"
        using g gi id del v(1) by (simp add: go_bind_apply go_try_apply deleteCurrentConfiguration_def go_simps)
      moreover have "conf w = (\<lambda>k. if k \<in> S then None else conf (pool_cloud y) k)" by (auto simp: w S)
      ultimately show ?thesis using v False S by auto
    qed
  qed
qed

lemma deleteConfigurations_service:
  fixes x :: "'w pctrl"
  assumes ok: "configuration_service (GetCompartmentId (PS_OCIClusterAccessor (fst (fst x)))) conf used c"
  defines "S \<equiv> pool_configurations conf (fst (fst x)) (pool_cloud x)"
  shows "\<exists>r y. deleteConfigurations c x = (r, y) \<and>
    (if S \<inter> used (pool_cloud x) = {}
     then r = Ret 0 \<and> pool_finalizers y = kube_RemoveFinalizer (pc_Lib c) MachinePoolFinalizer (pool_finalizers x) \<and>
       conf (pool_cloud y) = (\<lambda>k. if k \<in> S then None else conf (pool_cloud x) k)
     else (\<exists>e. r = Err e) \<and> pool_finalizers y = pool_finalizers x)"
proof -
  let ?m = "fst (fst x)" and ?w = "pool_cloud x"
  let ?keep = "kept_configuration ?m None"
  from listed_ids [OF ok, of "Pool_Name (PS_OCIMachinePool ?m)"] obtain ks where
    ids: "getInstanceConfigurationsFromDisplayNameSortedTimeCreateDescending c (Pool_Name (PS_OCIMachinePool ?m)) x = (Ret (map Some ks), x)"
    and ks: "distinct ks" "set ks = {k. \<exists>ic. conf ?w k = Some ic \<and> listed_for ?m (Pool_Name (PS_OCIMachinePool ?m)) ic}" by blast
  have olds: "set ks - {?keep} = S - {?keep}"
    unfolding S_def pool_configurations_def ks(2) by (auto simp: kept_configuration_def ToString_def)
  have "\<forall>k \<in> set ks. conf ?w k \<noteq> None" using ks(2) by auto
  from deleteOlds_service [OF ok ks(1) this, of ?keep, unfolded olds] obtain r y where
    go: "go_for (map Some ks) (deleteOldConfiguration c ?keep) x = (r, y)" and y: "fst (fst y) = ?m"
    and out: "if (S - {?keep}) \<inter> used ?w = {} then r = Ret () \<and> conf (pool_cloud y) = (\<lambda>k. if k \<in> S - {?keep} then None else conf ?w k) \<and>
        used (pool_cloud y) = used ?w else \<exists>e. r = Err e" by blast
  have cl: "CleanupInstanceConfiguration c None x = (r, y)" using go ids by (simp add: Cleanup_lists go_bind_apply)
  show ?thesis
  proof (cases "(S - {?keep}) \<inter> used ?w = {}")
    case False
    with out obtain e where "r = Err e" by auto
    moreover from False have "S \<inter> used ?w \<noteq> {}" by auto
    ultimately show ?thesis using cl y by (auto simp: deleteConfigurations_def go_seq_apply)
  next
    case True
    with out have r: "r = Ret ()" and cy: "conf (pool_cloud y) = (\<lambda>k. if k \<in> S - {?keep} then None else conf ?w k)"
      and uy: "used (pool_cloud y) = used ?w" by auto
    have Sy: "pool_configurations conf ?m (pool_cloud y) = S \<inter> {?keep}"
      unfolding S_def pool_configurations_def cy by auto
    from cl r have run: "deleteConfigurations c x = go_bind (go_try (GetInstanceConfiguration c)) (deleteCurrentConfiguration c) y"
      by (simp add: deleteConfigurations_def go_seq_apply)
    have last: "S \<inter> {?keep} \<inter> used ?w = {} \<longleftrightarrow> S \<inter> used ?w = {}"
      "(\<lambda>k. if k \<in> S \<inter> {?keep} then None else conf (pool_cloud y) k) = (\<lambda>k. if k \<in> S then None else conf ?w k)"
      using True by (auto simp: cy)
    from current_deleted [of y conf used c, unfolded y, OF ok, unfolded Sy uy last] show ?thesis unfolding run by blast
  qed
qed

text \<open>C16. How the deletion of a pool ends, over a service that lists, finds and deletes instance configurations and refuses to delete one that an
  instance pool uses. Once the lookup reports that the instance pool is gone or terminated, the next reconciliation decides: if none of the
  configurations of the pool (those of this cluster in the compartment whose name starts with the name of the pool, and the recorded one)
  is used by an instance pool, all of them and no others are deleted, the finalizer is removed and no further round is asked for; if one
  of them is used, the reconciliation ends with an error and the finalizer stays. The second case is not only a matter of time: the
  configurations of another pool whose name extends the name of this one are among those of the pool.\<close>

theorem pool_deletion_completes:
  assumes ok: "configuration_service (GetCompartmentId (PS_OCIClusterAccessor (fst (fst x)))) conf used c"
    and gone: "pool_gone (fst (FindInstancePool c x))"
  shows "\<exists>r y. pool_reconcileDelete c x = (r, y) \<and>
    (let S = pool_configurations conf (fst (fst x)) (pool_cloud x) in
     if S \<inter> used (pool_cloud x) = {}
     then r = Ret 0 \<and> pool_finalizers y = kube_RemoveFinalizer (pc_Lib c) MachinePoolFinalizer (pool_finalizers x) \<and>
       conf (pool_cloud y) = (\<lambda>k. if k \<in> S then None else conf (pool_cloud x) k)
     else (\<exists>e. r = Err e) \<and> pool_finalizers y = pool_finalizers x)"
proof -
  let ?P = "\<lambda>r y. (let S = pool_configurations conf (fst (fst x)) (pool_cloud x) in
     if S \<inter> used (pool_cloud x) = {}
     then r = Ret 0 \<and> pool_finalizers y = kube_RemoveFinalizer (pc_Lib c) MachinePoolFinalizer (pool_finalizers x) \<and>
       conf (pool_cloud y) = (\<lambda>k. if k \<in> S then None else conf (pool_cloud x) k)
     else (\<exists>e. r = Err e) \<and> pool_finalizers y = pool_finalizers x)"
  obtain f z where f: "FindInstancePool c x = (f, z)" by (cases "FindInstancePool c x")
  have z: "z = x"
    by (rule quiet_same [OF pool_queries.FindInstancePool_keeps [OF reading_pool_queries [OF configuration_serviceD(1) [OF ok]]] f])
  have tail: "\<exists>r y. go_seq set_pool_not_ready (go_seq (mark_pool_false c cond reason) (go_seq (record_event t rs msg)
      (deleteConfigurations c))) x = (r, y) \<and> ?P r y" for cond reason t rs msg
  proof -
    obtain x' where x': "go_seq set_pool_not_ready (go_seq (mark_pool_false c cond reason) (go_seq (record_event t rs msg)
        (deleteConfigurations c))) x = deleteConfigurations c x'" "pool_finalizers x' = pool_finalizers x" "pool_cloud x' = pool_cloud x"
      "pool_configurations conf (fst (fst x')) (pool_cloud x) = pool_configurations conf (fst (fst x)) (pool_cloud x)"
      "PS_OCIClusterAccessor (fst (fst x')) = PS_OCIClusterAccessor (fst (fst x))"
      by (cases x) (auto simp: set_pool_not_ready_def mark_pool_false_def mark_pool_def record_event_def go_simps
          upd_pool_status_def upd_pool_def pool_configurations_def listed_for_def GetInstanceConfigurationId_def pool_IsResourceCreatedByClusterAPI_def)
    from deleteConfigurations_service [of x' conf used c, unfolded x'(2-5), OF ok] show ?thesis unfolding x'(1) Let_def .
  qed
  show ?thesis
  proof (cases f)
    case (Ret q)
    with gone f z tail show ?thesis
      by (cases q) (auto simp: pool_gone_def pool_reconcileDelete_def go_bind_apply go_try_apply deletePoolNotFound_def
          deletePoolFound_def simp del: split_paired_Ex)
  next
    case (Err e)
    with gone f z tail show ?thesis
      by (auto simp: pool_gone_def pool_reconcileDelete_def go_bind_apply go_try_apply deletePoolNotFound_def simp del: split_paired_Ex)
  qed (use gone f in \<open>simp_all add: pool_gone_def\<close>)
qed

text \<open>A service with the configurations and pools of \<open>pool_world\<close> that refuses to delete the configuration of a pool which is not terminated.\<close>

definition used_configurations :: "pool_world \<Rightarrow> string set" where
  "used_configurations w = {k. \<exists>p \<in> set (snd w). SIP_LifecycleState p \<noteq> PoolTerminated \<and> SIP_InstanceConfigurationId p = Some k}"

definition guarded_clients :: "pool_world PoolClients" where
  "guarded_clients = sample_pool_clients\<lparr>pc_ComputeManagement := pool_compute
     \<lparr>api_ListInstanceConfigurations := (\<lambda>_ _ w. (Ret (map SdkResource.truncate (remdups
        (filter (\<lambda>ic. Option.bind (Res_Id ic) (config_at w) = Some ic) (fst w))), None), w)),
      api_DeleteInstanceConfiguration := (\<lambda>i w. case Option.bind i (config_at w) of
          None \<Rightarrow> (Err not_found_err, w)
        | Some ic \<Rightarrow> if the i \<in> used_configurations w then (Err quota_err, w)
            else (Ret (), (filter (\<lambda>ic. Res_Id ic \<noteq> i) (fst w), snd w)))\<rparr>\<rparr>"

lemma config_at_SomeD: "config_at w k = Some ic \<Longrightarrow> ic \<in> set (fst w) \<and> Res_Id ic = Some k \<and> Res_DisplayName ic \<noteq> None"
  unfolding config_at_def by (drule find_Some_mem) auto

lemma config_at_removed: "config_at (filter (\<lambda>ic. Res_Id ic \<noteq> Some k) l, ps) = (config_at (l, ps))(k := None)"
proof
  fix j show "config_at (filter (\<lambda>ic. Res_Id ic \<noteq> Some k) l, ps) j = ((config_at (l, ps))(k := None)) j"
    by (induction l) (auto simp: config_at_def)
qed

lemma guarded_simps [go_simps]:
  "api_GetInstanceConfiguration (pc_ComputeManagement guarded_clients) i w =
     (case Option.bind i (config_at w) of None \<Rightarrow> Err not_found_err | Some ic \<Rightarrow> Ret ic, w)"
  "api_ListInstanceConfigurations (pc_ComputeManagement guarded_clients) cid page w = (Ret (map SdkResource.truncate (remdups
     (filter (\<lambda>ic. Option.bind (Res_Id ic) (config_at w) = Some ic) (fst w))), None), w)"
  "api_GetInstancePool (pc_ComputeManagement guarded_clients) i w =
     (case Option.bind i (world_pool_at w) of None \<Rightarrow> Err not_found_err | Some p \<Rightarrow> Ret p, w)"
  "api_ListInstancePools (pc_ComputeManagement guarded_clients) cid nm page w =
     (Ret (map SdkResource.truncate (filter (\<lambda>p. Res_DisplayName p = Some nm) (snd w)), None), w)"
  "api_DeleteInstanceConfiguration (pc_ComputeManagement guarded_clients) (Some k) w = (case config_at w k of
       None \<Rightarrow> (Err not_found_err, w)
     | Some ic \<Rightarrow> if k \<in> used_configurations w then (Err quota_err, w) else (Ret (), (filter (\<lambda>ic. Res_Id ic \<noteq> Some k) (fst w), snd w)))"
  "pk_GetSecret (pc_Kube guarded_clients) ns nm w = (Ret [''value'' \<mapsto> ''cloud-init''], w)" "pc_Lib guarded_clients = sample_kube"
  by (simp_all add: guarded_clients_def pool_compute_def pool_kube_def go_ret_apply)

lemma listed_configurations:
  "set (filter (\<lambda>ic. Option.bind (Res_Id ic) (config_at w) = Some ic) (fst w)) = ran (config_at w)"
  by (auto simp: ran_def bind_eq_Some_conv dest: config_at_SomeD)

lemma truncate_ran: "SdkResource.truncate ` ran (config_at w) = ran (summaries config_at w)"
  by (auto simp: ran_def summaries_def image_iff)

lemma guarded_service: "configuration_service cid config_at used_configurations guarded_clients"
  unfolding configuration_service_def
proof (intro conjI allI impI)
  show "reading_queries guarded_clients"
    by (auto simp: reading_queries_def read_only_def answers_def go_simps split: option.splits)
  show "keyed_by_id config_at" by (auto simp: keyed_by_id_def dest: config_at_SomeD)
  show "\<exists>rs. collect_pages (api_ListInstanceConfigurations (pc_ComputeManagement guarded_clients) cid) go_ret w = (Ret rs, w) \<and>
      set rs = ran (summaries config_at w) \<and> distinct (map Res_Id rs)" for w
  proof -
    let ?l = "remdups (filter (\<lambda>ic. Option.bind (Res_Id ic) (config_at w) = Some ic) (fst w))"
    have "inj_on Res_Id (set ?l)"
      unfolding set_remdups listed_configurations by (auto simp: inj_on_def ran_def) (metis config_at_SomeD option.inject)
    then have "distinct (map (Res_Id \<circ> SdkResource.truncate) ?l)"
      by (auto simp: distinct_map inj_on_def SdkResource.truncate_def)
    moreover have "set (map SdkResource.truncate ?l) = ran (summaries config_at w)"
      unfolding set_map set_remdups listed_configurations by (rule truncate_ran)
    ultimately show ?thesis
      by (intro exI [of _ "map SdkResource.truncate ?l"]) (simp add: collect_one_page [OF guarded_simps(2)] go_ret_apply)
  qed
  show "set items \<subseteq> ran (summaries config_at w)"
    if "api_ListInstanceConfigurations (pc_ComputeManagement guarded_clients) cid p w = (Ret (items, np), w')" for p w items np w'
    using that listed_configurations [of w] truncate_ran [of w] by (auto simp: go_simps)
  show "case config_at w k of
      Some ic \<Rightarrow> api_GetInstanceConfiguration (pc_ComputeManagement guarded_clients) (Some k) w = (Ret ic, w)
    | None \<Rightarrow> \<exists>e. api_GetInstanceConfiguration (pc_ComputeManagement guarded_clients) (Some k) w = (Err e, w) \<and> IsNotFound (Some e)" for w k
    by (simp add: go_simps not_found_err_def IsNotFound_def split: option.split)
  show "if k \<in> used_configurations w then \<exists>e w'. api_DeleteInstanceConfiguration (pc_ComputeManagement guarded_clients) (Some k) w = (Err e, w')
      else \<exists>w'. api_DeleteInstanceConfiguration (pc_ComputeManagement guarded_clients) (Some k) w = (Ret (), w') \<and>
        config_at w' = (config_at w)(k := None) \<and> used_configurations w' = used_configurations w" if "config_at w k \<noteq> None" for w k
    using that by (cases w) (auto simp: go_simps config_at_removed used_configurations_def)
qed

text \<open>Two configurations of the pool \<open>workers\<close>; and the same ones when the second belongs to the running pool \<open>workers-2\<close>.\<close>

definition shared_configurations :: pool_world where
  "shared_configurations = (fst two_configurations, [\<lparr>Res_Id = Some ''ip'', Res_DisplayName = Some ''workers-2'', Res_FreeformTags = BuildClusterTags ''uid'',
     SIP_InstanceConfigurationId = Some ''ic-2'', SIP_Size = Some 1, SIP_LifecycleState = PoolRunning, SIP_PlacementConfigurations = []\<rparr>])"

theorem pool_deletion_completes_witness:
  "(\<exists>y. pool_reconcileDelete guarded_clients ((sample_pool, two_configurations), []) = (Ret 0, y) \<and> pool_finalizers y = []) \<and>
   (\<exists>e y. pool_reconcileDelete guarded_clients ((sample_pool, shared_configurations), []) = (Err e, y) \<and> pool_finalizers y = [MachinePoolFinalizer])"
proof
  have gone: "pool_gone (fst (FindInstancePool guarded_clients ((sample_pool, w), [])))"
    if "\<forall>p \<in> set (snd w). Res_DisplayName p \<noteq> Some ''workers''" for w
    using that by (simp add: FindInstancePool_def ListInstancePoolSummaries_def go_simps collect_one_page pool_gone_def filter_empty_conv)
  have own: "pool_IsResourceCreatedByClusterAPI sample_pool (BuildClusterTags ''uid'')"
    by (simp add: pool_IsResourceCreatedByClusterAPI_def sample_pool_def GetOCIResourceIdentifier_def SetAvailabilityDomains_def sample_defs
        upd_Spec_def list_all_iff)
  have "used_configurations two_configurations = {}" by (simp add: used_configurations_def)
  then show "\<exists>y. pool_reconcileDelete guarded_clients ((sample_pool, two_configurations), []) = (Ret 0, y) \<and> pool_finalizers y = []"
    using pool_deletion_completes [OF guarded_service gone, of two_configurations] by (auto simp: go_simps sample_kube_def simp del: split_paired_Ex)
  have "''ic-2'' \<in> pool_configurations config_at sample_pool shared_configurations \<inter> used_configurations shared_configurations"
    using own by (simp add: pool_configurations_def shared_configurations_def used_configurations_def config_at_def sample_configuration_def
        listed_for_def HasPrefix_def)
  then have "pool_configurations config_at sample_pool shared_configurations \<inter> used_configurations shared_configurations \<noteq> {}" by blast
  then show "\<exists>e y. pool_reconcileDelete guarded_clients ((sample_pool, shared_configurations), []) = (Err e, y) \<and> pool_finalizers y = [MachinePoolFinalizer]"
    using pool_deletion_completes [OF guarded_service gone, of shared_configurations]
    by (auto simp: shared_configurations_def simp del: split_paired_Ex)
qed

end
