(* ===== verification/OKE_Types.thy ===== *)
theory OKE_Types
  imports Controller_State
begin

text \<open>
  The managed control plane: the object OCIManagedControlPlane (src/api/v1beta2/ocimanagedcontrolplane_types.go), and what
  the container engine service and Kubernetes take and answer. A slice is a list where no code tells nil from an empty one;
  the configurations of an addon are compared by \<open>reflect.DeepEqual\<close>, which does, so nil is \<open>None\<close> there.
\<close>

section \<open>The object\<close>

abbreviation ControlPlaneFinalizer :: string where
  "ControlPlaneFinalizer \<equiv> ''ocimanagedcontrolplane.infrastructure.cluster.x-k8s.io''"
abbreviation BasicClusterType :: string where "BasicClusterType \<equiv> ''BASIC_CLUSTER''"
abbreviation EnhancedClusterType :: string where "EnhancedClusterType \<equiv> ''ENHANCED_CLUSTER''"
abbreviation VCNNativeCNI :: string where "VCNNativeCNI \<equiv> ''OCI_VCN_IP_NATIVE''"
abbreviation FlannelCNI :: string where "FlannelCNI \<equiv> ''FLANNEL_OVERLAY''"
abbreviation ControlPlaneReadyCondition :: string where "ControlPlaneReadyCondition \<equiv> ''ControlPlaneReady''"
abbreviation ControlPlaneProvisionFailedReason :: string where
  "ControlPlaneProvisionFailedReason \<equiv> ''ControlPlaneProvisionFailed''"
abbreviation ControlPlaneNotReadyReason :: string where "ControlPlaneNotReadyReason \<equiv> ''ControlPlaneNotReady''"
abbreviation ControlPlaneDeletionInProgress :: string where
  "ControlPlaneDeletionInProgress \<equiv> ''ControlPlaneDeletionInProgress''"
abbreviation ControlPlaneNotFoundReason :: string where "ControlPlaneNotFoundReason \<equiv> ''ControlPlaneNotFound''"
abbreviation ControlPlaneDeletedReason :: string where "ControlPlaneDeletedReason \<equiv> ''ControlPlaneDeleted''"

record ImagePolicyConfig =
  IP_IsPolicyEnabled :: "bool option"
  IP_KeyDetails :: "string option list"

record AddOnOptions =
  AO_IsKubernetesDashboardEnabled :: "bool option"
  AO_IsTillerEnabled :: "bool option"

record AdmissionControllerOptions =
  AC_IsPodSecurityPolicyEnabled :: "bool option"

record OpenIDConnectDiscovery =
  OD_IsOpenIdConnectDiscoveryEnabled :: "bool option"

record KeyValue =
  KV_Key :: "string option"
  KV_Value :: "string option"

record OpenIDConnectTokenAuthenticationConfig =
  OT_CaCertificate :: "string option"
  OT_ClientId :: "string option"
  OT_GroupsClaim :: "string option"
  OT_GroupsPrefix :: "string option"
  OT_IsOpenIdConnectAuthEnabled :: bool
  OT_IssuerUrl :: "string option"
  OT_RequiredClaims :: "KeyValue list"
  OT_SigningAlgorithms :: "string list"
  OT_UsernameClaim :: "string option"
  OT_UsernamePrefix :: "string option"

record ClusterOptions =
  CO_AddOnOptions :: "AddOnOptions option"
  CO_AdmissionControllerOptions :: "AdmissionControllerOptions option"
  CO_OpenIdConnectDiscovery :: "OpenIDConnectDiscovery option"
  CO_OpenIdConnectTokenAuthenticationConfig :: "OpenIDConnectTokenAuthenticationConfig option"

record AddonConfiguration =
  AConf_Key :: "string option"
  AConf_Value :: "string option"

record Addon =
  Addon_Name :: "string option"
  Addon_Version :: "string option"
  Addon_Configurations :: "AddonConfiguration list option"

record OCIManagedControlPlaneSpec =
  CPSpec_ID :: "string option"
  CPSpec_ClusterPodNetworkOptions :: "string list"
  CPSpec_ImagePolicyConfig :: "ImagePolicyConfig option"
  CPSpec_ClusterOption :: ClusterOptions
  CPSpec_ClusterType :: string
  CPSpec_KmsKeyId :: "string option"
  CPSpec_ControlPlaneEndpoint :: APIEndpoint
  CPSpec_Addons :: "Addon list"
  CPSpec_Version :: "string option"

record AddonError =
  AErr_Code :: "string option"
  AErr_Message :: "string option"
  AErr_Status :: "string option"

record AddonStatus =
  AStat_CurrentlyInstalledVersion :: "string option"
  AStat_AddonError :: "AddonError option"
  AStat_LifecycleState :: "string option"

text \<open>The map from the name of an addon to its status is an association list with distinct names; the order of a loop over
  it is a parameter of the loop.\<close>

record OCIManagedControlPlaneStatus =
  CPStatus_Ready :: bool
  CPStatus_Conditions :: "Condition list"
  CPStatus_Version :: "string option"
  CPStatus_AddonStatus :: "(string \<times> AddonStatus) list"
  CPStatus_Initialized :: bool

record OCIManagedControlPlane =
  CP_Name :: string
  CP_Namespace :: string
  CP_UID :: string
  CP_Finalizers :: "string list"
  CP_Spec :: OCIManagedControlPlaneSpec
  CP_Status :: OCIManagedControlPlaneStatus

definition SetAddonStatus :: "string \<Rightarrow> AddonStatus \<Rightarrow> OCIManagedControlPlane \<Rightarrow> OCIManagedControlPlane" where
  "SetAddonStatus name status c = c\<lparr>CP_Status := (CP_Status c)
     \<lparr>CPStatus_AddonStatus := AList.update name status (CPStatus_AddonStatus (CP_Status c))\<rparr>\<rparr>"

definition RemoveAddonStatus :: "string \<Rightarrow> OCIManagedControlPlane \<Rightarrow> OCIManagedControlPlane" where
  "RemoveAddonStatus name c = c\<lparr>CP_Status := (CP_Status c)
     \<lparr>CPStatus_AddonStatus := AList.delete name (CPStatus_AddonStatus (CP_Status c))\<rparr>\<rparr>"

section \<open>The container engine service\<close>

abbreviation ClusterTypeBasicCluster :: string where "ClusterTypeBasicCluster \<equiv> ''BASIC_CLUSTER''"
abbreviation ClusterTypeEnhancedCluster :: string where "ClusterTypeEnhancedCluster \<equiv> ''ENHANCED_CLUSTER''"

datatype PodNetworkOption = FlannelOverlayPodNetwork | OciVcnIpNativePodNetwork | OtherPodNetwork string

text \<open>The SDK has structs with the fields of the ones above; only the flag of the token authentication is a pointer.\<close>

record SdkOidcConfig =
  SOT_IsOpenIdConnectAuthEnabled :: "bool option"
  SOT_IssuerUrl :: "string option"
  SOT_ClientId :: "string option"
  SOT_UsernameClaim :: "string option"
  SOT_UsernamePrefix :: "string option"
  SOT_GroupsClaim :: "string option"
  SOT_GroupsPrefix :: "string option"
  SOT_RequiredClaims :: "KeyValue list"
  SOT_CaCertificate :: "string option"
  SOT_SigningAlgorithms :: "string list"

record KubernetesNetworkConfig =
  KN_PodsCidr :: "string option"
  KN_ServicesCidr :: "string option"

record UpdateClusterOptionsDetails =
  UO_AdmissionControllerOptions :: "AdmissionControllerOptions option"
  UO_OpenIdConnectDiscovery :: "OpenIDConnectDiscovery option"
  UO_OpenIdConnectTokenAuthenticationConfig :: "SdkOidcConfig option"

record ClusterCreateOptions = UpdateClusterOptionsDetails +
  ClO_ServiceLbSubnetIds :: "string list"
  ClO_PersistentVolumeConfig :: "(tags \<times> defined_tags) option"
  ClO_ServiceLbConfig :: "(tags \<times> defined_tags) option"
  ClO_KubernetesNetworkConfig :: "KubernetesNetworkConfig option"
  ClO_AddOns :: "AddOnOptions option"

record ClusterEndpoints =
  EP_PublicEndpoint :: "string option"
  EP_PrivateEndpoint :: "string option"

datatype OkeClusterState = OkeCreating | OkeUpdating | OkeActive | OkeDeleting | OkeDeleted | OkeStateOther string

record OkeCluster =
  OKE_Id :: "string option"
  OKE_Name :: "string option"
  OKE_KubernetesVersion :: "string option"
  OKE_KmsKeyId :: "string option"
  OKE_FreeformTags :: tags
  OKE_DefinedTags :: "defined_tags option"
  OKE_Options :: "ClusterCreateOptions option"
  OKE_ImagePolicyConfig :: "ImagePolicyConfig option"
  OKE_ClusterPodNetworkOptions :: "PodNetworkOption list"
  OKE_Endpoints :: "ClusterEndpoints option"
  OKE_LifecycleState :: OkeClusterState
  OKE_Type :: string

record ClusterSummary =
  CSum_Id :: "string option"
  CSum_FreeformTags :: tags

record EndpointConfigDetails =
  EC_SubnetId :: "string option"
  EC_NsgIds :: "string list"
  EC_IsPublicIpEnabled :: bool

record UpdateClusterDetails =
  UC_Name :: string
  UC_KubernetesVersion :: "string option"
  UC_Options :: UpdateClusterOptionsDetails
  UC_FreeformTags :: tags
  UC_DefinedTags :: defined_tags
  UC_ImagePolicyConfig :: "ImagePolicyConfig option"
  UC_Type :: string

record CreateClusterDetails =
  CC_Name :: string
  CC_CompartmentId :: string
  CC_VcnId :: "string option"
  CC_KubernetesVersion :: "string option"
  CC_FreeformTags :: tags
  CC_DefinedTags :: defined_tags
  CC_Options :: ClusterCreateOptions
  CC_EndpointConfig :: EndpointConfigDetails
  CC_ClusterPodNetworkOptions :: "PodNetworkOption list"
  CC_KmsKeyId :: "string option"
  CC_Type :: string
  CC_ImagePolicyConfig :: "ImagePolicyConfig option"

record WorkRequestResource =
  WRR_EntityType :: "string option"
  WRR_Identifier :: "string option"

record OkeWorkRequest =
  OWR_Resources :: "WorkRequestResource list"
  OWR_OpcRequestId :: "string option"

abbreviation AddonStateCreating :: string where "AddonStateCreating \<equiv> ''CREATING''"
abbreviation AddonStateUpdating :: string where "AddonStateUpdating \<equiv> ''UPDATING''"
abbreviation AddonStateFailed :: string where "AddonStateFailed \<equiv> ''FAILED''"
abbreviation AddonStateNeedsAttention :: string where "AddonStateNeedsAttention \<equiv> ''NEEDS_ATTENTION''"
abbreviation AddonStateDeleting :: string where "AddonStateDeleting \<equiv> ''DELETING''"
abbreviation AddonStateDeleted :: string where "AddonStateDeleted \<equiv> ''DELETED''"

record SdkAddon =
  SA_Name :: "string option"
  SA_Version :: "string option"
  SA_CurrentInstalledVersion :: "string option"
  SA_Configurations :: "AddonConfiguration list"
  SA_AddonError :: "AddonError option"
  SA_LifecycleState :: string

record AddonDetails =
  AD_Version :: "string option"
  AD_Configurations :: "AddonConfiguration list"

text \<open>The requests on clusters and addons. The content of a kubeconfig is the text that \<open>io.ReadAll\<close> reads.\<close>

record 'w ContainerEngineApi =
  api_CreateCluster :: "CreateClusterDetails \<Rightarrow> string \<Rightarrow> ('w, string option) go"
  api_GetOkeWorkRequest :: "string option \<Rightarrow> ('w, OkeWorkRequest) go"
  api_GetCluster :: "string option \<Rightarrow> ('w, OkeCluster) go"
  api_ListClusters :: "string \<Rightarrow> string \<Rightarrow> string option \<Rightarrow> ('w, ClusterSummary list \<times> string option) go"
  api_UpdateCluster :: "string option \<Rightarrow> UpdateClusterDetails \<Rightarrow> ('w, unit) go"
  api_DeleteCluster :: "string option \<Rightarrow> ('w, unit) go"
  api_CreateKubeconfig :: "string option \<Rightarrow> ('w, string) go"
  api_GetAddon :: "string option \<Rightarrow> string option \<Rightarrow> ('w, SdkAddon) go"
  api_InstallAddon :: "string option \<Rightarrow> string option \<Rightarrow> AddonDetails \<Rightarrow> ('w, unit) go"
  api_UpdateAddon :: "string option \<Rightarrow> string option \<Rightarrow> AddonDetails \<Rightarrow> ('w, unit) go"
  api_DisableAddon :: "string option \<Rightarrow> string option \<Rightarrow> bool \<Rightarrow> ('w, unit) go"
  api_GenerateToken :: "string \<Rightarrow> ('w, string) go"

section \<open>Kubeconfigs and secrets\<close>

text \<open>What the provider reads and writes of \<open>api.Config\<close>; a nil map is \<open>None\<close>, \<open>KC_Other\<close> and \<open>KA_Other\<close> are the fields it
  does not touch.\<close>

record KubeCluster =
  KCl_Server :: string
  KCl_CertificateAuthorityData :: string

record KubeContext =
  KCx_Cluster :: string
  KCx_AuthInfo :: string

record KubeAuthInfo =
  KA_Token :: string
  KA_Other :: string

record KubeConfig =
  KC_APIVersion :: string
  KC_Clusters :: "(string \<rightharpoonup> KubeCluster) option"
  KC_Contexts :: "(string \<rightharpoonup> KubeContext) option"
  KC_AuthInfos :: "(string \<rightharpoonup> KubeAuthInfo) option"
  KC_CurrentContext :: string
  KC_Other :: string

text \<open>Reading a map at a key: nil for a nil map.\<close>

definition map_at :: "('k \<rightharpoonup> 'v) option \<Rightarrow> 'k \<Rightarrow> 'v option" where
  "map_at m k = (case m of None \<Rightarrow> None | Some f \<Rightarrow> f k)"

definition is_zero_config :: "KubeConfig \<Rightarrow> bool" where
  "is_zero_config c \<longleftrightarrow> KC_APIVersion c = [] \<and> Option.is_none (KC_Clusters c) \<and> Option.is_none (KC_Contexts c) \<and>
     Option.is_none (KC_AuthInfos c) \<and> KC_CurrentContext c = [] \<and> KC_Other c = []"

record Secret =
  Secret_Name :: string
  Secret_Namespace :: string
  Secret_Labels :: tags
  Secret_Owner :: "(string \<times> string \<times> string) option"
  Secret_Data :: "string \<rightharpoonup> string"

abbreviation KubeconfigDataName :: string where "KubeconfigDataName \<equiv> ''value''"

text \<open>The tools of client-go and Cluster API: \<open>kt_RawConfig\<close> is \<open>NewClientConfigFromBytes\<close> followed by \<open>RawConfig\<close>,
  \<open>kt_Load\<close> and \<open>kt_Write\<close> are those of clientcmd, \<open>kt_GenerateSecretWithOwner\<close> builds the kubeconfig secret of a cluster
  (namespace and name), \<open>kt_Version\<close> is the version of the scheme.\<close>

record KubeTools =
  kt_RawConfig :: "string \<Rightarrow> goerr + KubeConfig"
  kt_Load :: "string \<Rightarrow> goerr + KubeConfig"
  kt_Write :: "KubeConfig \<Rightarrow> goerr + string"
  kt_GenerateSecretWithOwner :: "string \<Rightarrow> string \<Rightarrow> string \<Rightarrow> string \<times> string \<times> string \<Rightarrow> Secret"
  kt_Version :: string

text \<open>The Kubernetes client: secrets by namespace and name; \<open>sk_GetKubeconfigSecret\<close> is \<open>secret.GetFromNamespacedName\<close>
  for the kubeconfig of a cluster.\<close>

record 'w SecretKube =
  sk_GetKubeconfigSecret :: "string \<Rightarrow> string \<Rightarrow> ('w, Secret) go"
  sk_GetSecret :: "string \<Rightarrow> string \<Rightarrow> ('w, Secret) go"
  sk_CreateSecret :: "Secret \<Rightarrow> ('w, unit) go"
  sk_UpdateSecret :: "Secret \<Rightarrow> ('w, unit) go"
  sk_NotFound :: "goerr \<Rightarrow> bool"

section \<open>Facts\<close>

lemma addon_status_simps [simp]:
  "CP_Spec (SetAddonStatus n st c) = CP_Spec c" "CP_Finalizers (SetAddonStatus n st c) = CP_Finalizers c"
  "CP_Spec (RemoveAddonStatus n c) = CP_Spec c" "CP_Finalizers (RemoveAddonStatus n c) = CP_Finalizers c"
  "map_of (CPStatus_AddonStatus (CP_Status (SetAddonStatus n st c))) = (map_of (CPStatus_AddonStatus (CP_Status c)))(n \<mapsto> st)"
  "map_of (CPStatus_AddonStatus (CP_Status (RemoveAddonStatus n c))) = (map_of (CPStatus_AddonStatus (CP_Status c)))(n := None)"
  by (simp_all add: SetAddonStatus_def RemoveAddonStatus_def update_conv' delete_conv')

end
