(* ===== verification/Control_Plane_Scope.thy ===== *)
theory Control_Plane_Scope
  imports OKE_Types Pool_Types Go_Base64
begin

text \<open>
  The scope of a managed control plane (src/cloud/scope/managed_control_plane.go): the lookup and the creation of the OKE
  cluster, the comparison of the spec with the cluster and its update, the secrets, and the addons. The accessor of the
  managed cluster object has the fields of the self managed one, so it is the scope of \<open>Cluster_Scope\<close>. The tags that
  \<open>getFreeFormTags\<close> adds to the map of the accessor are the ones every reader of that map adds again.
\<close>

section \<open>State\<close>

text \<open>What is read of the Cluster object.\<close>

record CapiNetwork = CapiCluster +
  Capi_Namespace :: string
  Capi_PodsCIDRBlocks :: "string list"
  Capi_ServicesCIDRBlocks :: "string list"

record ManagedControlPlaneScope =
  MCP_Cluster :: CapiNetwork
  MCP_OCIManagedControlPlane :: OCIManagedControlPlane
  MCP_OCIClusterAccessor :: ClusterScope

type_synonym ('w, 'a) cp_go = "(ManagedControlPlaneScope, 'w, 'a) ctl_go"

record 'w ControlPlaneClients =
  cpc_ContainerEngine :: "'w ContainerEngineApi"
  cpc_Kube :: "'w SecretKube"
  cpc_Tools :: KubeTools
  cpc_Lib :: KubeLib

abbreviation cp_object :: "ManagedControlPlaneScope \<Rightarrow> OCIManagedControlPlane" where
  "cp_object m \<equiv> MCP_OCIManagedControlPlane m"

abbreviation cp_spec :: "ManagedControlPlaneScope \<Rightarrow> OCIManagedControlPlaneSpec" where
  "cp_spec m \<equiv> CP_Spec (cp_object m)"

definition upd_cp :: "(OCIManagedControlPlane \<Rightarrow> OCIManagedControlPlane) \<Rightarrow> ManagedControlPlaneScope \<Rightarrow> ManagedControlPlaneScope" where
  "upd_cp f m = m\<lparr>MCP_OCIManagedControlPlane := f (cp_object m)\<rparr>"

definition upd_cp_spec :: "(OCIManagedControlPlaneSpec \<Rightarrow> OCIManagedControlPlaneSpec) \<Rightarrow>
    ManagedControlPlaneScope \<Rightarrow> ManagedControlPlaneScope" where
  "upd_cp_spec f = upd_cp (\<lambda>p. p\<lparr>CP_Spec := f (CP_Spec p)\<rparr>)"

definition upd_cp_status :: "(OCIManagedControlPlaneStatus \<Rightarrow> OCIManagedControlPlaneStatus) \<Rightarrow>
    ManagedControlPlaneScope \<Rightarrow> ManagedControlPlaneScope" where
  "upd_cp_status f = upd_cp (\<lambda>p. p\<lparr>CP_Status := f (CP_Status p)\<rparr>)"

definition cp_engine :: "'w ControlPlaneClients \<Rightarrow> ('w ContainerEngineApi \<Rightarrow> ('w, 'a) go) \<Rightarrow> ('w, 'a) cp_go" where
  "cp_engine c f = ctl_call (f (cpc_ContainerEngine c))"

definition go_res :: "goerr + 'a \<Rightarrow> ('s, 'a) go" where
  "go_res x = (case x of Inl err \<Rightarrow> go_throw err | Inr a \<Rightarrow> go_ret a)"

text \<open>\<open>fmt.Errorf\<close> with \<open>%w\<close>: an error with the text of both that \<open>errors.Cause\<close> does not look into.\<close>

definition go_errorf :: "string \<Rightarrow> ('s, 'a) go \<Rightarrow> ('s, 'a) go" where
  "go_errorf msg m = go_bind (go_try m) (\<lambda>x. case x of Inl err \<Rightarrow> go_throw (ErrNew (msg @ '': '' @ Error err)) | Inr a \<Rightarrow> go_ret a)"

definition NewManagedControlPlaneScope :: "CapiNetwork option \<Rightarrow> ClusterScope option \<Rightarrow> OCIManagedControlPlane \<Rightarrow>
    goerr + ManagedControlPlaneScope" where
  "NewManagedControlPlaneScope cluster accessor controlPlane = (case cluster of
      None \<Rightarrow> Inl (ErrNew ''failed to generate new scope from nil Cluster'')
    | Some cl \<Rightarrow> (case accessor of
        None \<Rightarrow> Inl (ErrNew ''failed to generate new scope from nil OCIClusterAccessor'')
      | Some acc \<Rightarrow> Inr \<lparr>MCP_Cluster = cl, MCP_OCIManagedControlPlane = controlPlane, MCP_OCIClusterAccessor = acc\<rparr>))"

section \<open>Queries\<close>

definition cp_GetClusterName :: "ManagedControlPlaneScope \<Rightarrow> string" where
  "cp_GetClusterName m = CP_Name (cp_object m)"

definition cp_isResourceCreatedByClusterAPI :: "ManagedControlPlaneScope \<Rightarrow> tags \<Rightarrow> bool" where
  "cp_isResourceCreatedByClusterAPI m resourceFreeFormTags =
     (let tagsAddedByClusterAPI = BuildClusterTags (GetOCIResourceIdentifier (MCP_OCIClusterAccessor m))
      in list_all (\<lambda>k. tag_at resourceFreeFormTags k = tag_at tagsAddedByClusterAPI k) cluster_tag_keys)"

definition cp_getDefinedTags :: "ManagedControlPlaneScope \<Rightarrow> defined_tags" where
  "cp_getDefinedTags m = (case accessor_GetDefinedTags (MCP_OCIClusterAccessor m) of None \<Rightarrow> Map.empty | Some t \<Rightarrow> t)"

definition cp_getFreeFormTags :: "ManagedControlPlaneScope \<Rightarrow> tags" where
  "cp_getFreeFormTags m = accessor_GetFreeformTags (MCP_OCIClusterAccessor m) ++
     BuildClusterTags (GetOCIResourceIdentifier (MCP_OCIClusterAccessor m))"

definition cp_subnets :: "ManagedControlPlaneScope \<Rightarrow> Subnet list" where
  "cp_subnets m = ToSubnetSlice (VCN_Subnets (GetVcnSpec (MCP_OCIClusterAccessor m)))"

definition cp_nsgs :: "ManagedControlPlaneScope \<Rightarrow> NSG list" where
  "cp_nsgs m = ToNSGSlice (NetworkSecurityGroup_List (VCN_NetworkSecurityGroup (GetVcnSpec (MCP_OCIClusterAccessor m))))"

definition getServiceLbSubnets :: "ManagedControlPlaneScope \<Rightarrow> string list" where
  "getServiceLbSubnets m = map (\<lambda>subnet. ToString (Subnet_ID subnet))
     (filter (\<lambda>subnet. Subnet_Role subnet = ServiceLoadBalancerRole) (cp_subnets m))"

definition getControlPlaneEndpointSubnet :: "ManagedControlPlaneScope \<Rightarrow> string option" where
  "getControlPlaneEndpointSubnet m = (case find (\<lambda>subnet. Subnet_Role subnet = ControlPlaneEndpointRole) (cp_subnets m) of
      None \<Rightarrow> None
    | Some subnet \<Rightarrow> Subnet_ID subnet)"

definition getControlPlaneEndpointNSGList :: "ManagedControlPlaneScope \<Rightarrow> ('s, string list) go" where
  "getControlPlaneEndpointNSGList m =
     go_map (filter (\<lambda>nsg. NSG_Role nsg = ControlPlaneEndpointRole) (cp_nsgs m)) (\<lambda>nsg. go_deref (NSG_ID nsg))"

definition IsControlPlaneEndpointSubnetPublic :: "ManagedControlPlaneScope \<Rightarrow> bool" where
  "IsControlPlaneEndpointSubnetPublic m =
     list_ex (\<lambda>subnet. Subnet_Role subnet = ControlPlaneEndpointRole \<and> Subnet_Type subnet = Public) (cp_subnets m)"

definition getOKEClusterTypeFromSpecType :: "OCIManagedControlPlaneSpec \<Rightarrow> string" where
  "getOKEClusterTypeFromSpecType spec =
     (if CPSpec_ClusterType spec = BasicClusterType then ClusterTypeBasicCluster
      else if CPSpec_ClusterType spec = EnhancedClusterType then ClusterTypeEnhancedCluster
      else '''')"

definition getKubeConfigUserName :: "string \<Rightarrow> bool \<Rightarrow> string" where
  "getKubeConfigUserName clusterName isUser = (if isUser then clusterName @ ''-user'' else clusterName @ ''-capi-admin'')"

text \<open>The conversion of the token authentication to the struct of the SDK, which the creation and the update share.\<close>

definition sdk_oidc :: "OpenIDConnectTokenAuthenticationConfig \<Rightarrow> SdkOidcConfig" where
  "sdk_oidc oidc = \<lparr>SOT_IsOpenIdConnectAuthEnabled = Some (OT_IsOpenIdConnectAuthEnabled oidc),
     SOT_IssuerUrl = OT_IssuerUrl oidc, SOT_ClientId = OT_ClientId oidc, SOT_UsernameClaim = OT_UsernameClaim oidc,
     SOT_UsernamePrefix = OT_UsernamePrefix oidc, SOT_GroupsClaim = OT_GroupsClaim oidc, SOT_GroupsPrefix = OT_GroupsPrefix oidc,
     SOT_RequiredClaims = OT_RequiredClaims oidc, SOT_CaCertificate = OT_CaCertificate oidc,
     SOT_SigningAlgorithms = OT_SigningAlgorithms oidc\<rparr>"

text \<open>\<open>getKeyDetails\<close> dereferences the image policy; both callers have checked it.\<close>

definition getKeyDetails :: "ImagePolicyConfig \<Rightarrow> string option list" where
  "getKeyDetails config = IP_KeyDetails config"

section \<open>Lookup\<close>

definition getOKEClusterFromOCID :: "'w ControlPlaneClients \<Rightarrow> string option \<Rightarrow> ('w, OkeCluster) cp_go" where
  "getOKEClusterFromOCID c clusterID = cp_engine c (\<lambda>a. api_GetCluster a clusterID)"

text \<open>One page: an empty page ends the search, a cluster with the tags of this one is fetched by its id.\<close>

definition okeClusterPage :: "'w ControlPlaneClients \<Rightarrow> ManagedControlPlaneScope \<Rightarrow> string \<Rightarrow> string option \<Rightarrow>
    ('w, string option + OkeCluster option) cp_go" where
  "okeClusterPage c m name page =
     go_bind (cp_engine c (\<lambda>a. api_ListClusters a name (GetCompartmentId (MCP_OCIClusterAccessor m)) page)) (\<lambda>(items, opcNextPage).
     if items = [] then go_ret (Inr None)
     else case find (\<lambda>cl. cp_isResourceCreatedByClusterAPI m (CSum_FreeformTags cl)) items of
       Some cl \<Rightarrow> go_bind (getOKEClusterFromOCID c (CSum_Id cl)) (\<lambda>cluster. go_ret (Inr (Some cluster)))
     | None \<Rightarrow> (case opcNextPage of None \<Rightarrow> go_ret (Inr None) | Some p \<Rightarrow> go_ret (Inl (Some p))))"

definition getOKEClusterByDisplayName :: "'w ControlPlaneClients \<Rightarrow> string \<Rightarrow> ('w, OkeCluster option) cp_go" where
  "getOKEClusterByDisplayName c name = go_bind ctl_get (\<lambda>m. go_loop (okeClusterPage c m name) None)"

definition GetOKECluster :: "'w ControlPlaneClients \<Rightarrow> ('w, OkeCluster option) cp_go" where
  "GetOKECluster c =
     go_bind ctl_get (\<lambda>m. case CPSpec_ID (cp_spec m) of
       Some i \<Rightarrow> go_bind (getOKEClusterFromOCID c (Some i)) (\<lambda>cluster. go_ret (Some cluster))
     | None \<Rightarrow> getOKEClusterByDisplayName c (cp_GetClusterName m))"

definition DeleteOKECluster :: "'w ControlPlaneClients \<Rightarrow> OkeCluster \<Rightarrow> ('w, unit) cp_go" where
  "DeleteOKECluster c cluster = cp_engine c (\<lambda>a. api_DeleteCluster a (OKE_Id cluster))"

section \<open>Creation\<close>

definition podNetworkOptions :: "string list \<Rightarrow> PodNetworkOption list" where
  "podNetworkOptions options = concat (map (\<lambda>cniType.
     if cniType = FlannelCNI then [FlannelOverlayPodNetwork]
     else if cniType = VCNNativeCNI then [OciVcnIpNativePodNetwork] else []) options)"

text \<open>The network configuration is made only if there is something to set.\<close>

definition kubernetesNetworkConfig :: "CapiNetwork \<Rightarrow> KubernetesNetworkConfig option" where
  "kubernetesNetworkConfig cl =
     (if Capi_PodsCIDRBlocks cl \<noteq> [] \<or> Capi_ServicesCIDRBlocks cl \<noteq> []
      then Some \<lparr>KN_PodsCidr = (case Capi_PodsCIDRBlocks cl of [] \<Rightarrow> None | x # _ \<Rightarrow> Some x),
        KN_ServicesCidr = (case Capi_ServicesCIDRBlocks cl of [] \<Rightarrow> None | x # _ \<Rightarrow> Some x)\<rparr>
      else None)"

definition okeCreateOptions :: "ManagedControlPlaneScope \<Rightarrow> ClusterCreateOptions" where
  "okeCreateOptions m = (let co = CPSpec_ClusterOption (cp_spec m) in
     \<lparr>UO_AdmissionControllerOptions = CO_AdmissionControllerOptions co,
      UO_OpenIdConnectDiscovery = CO_OpenIdConnectDiscovery co,
      UO_OpenIdConnectTokenAuthenticationConfig = map_option sdk_oidc (CO_OpenIdConnectTokenAuthenticationConfig co),
      ClO_ServiceLbSubnetIds = getServiceLbSubnets m,
      ClO_PersistentVolumeConfig = Some (cp_getFreeFormTags m, cp_getDefinedTags m),
      ClO_ServiceLbConfig = Some (cp_getFreeFormTags m, cp_getDefinedTags m),
      ClO_KubernetesNetworkConfig = kubernetesNetworkConfig (MCP_Cluster m),
      ClO_AddOns = CO_AddOnOptions co\<rparr>)"

definition okePolicyConfig :: "OCIManagedControlPlaneSpec \<Rightarrow> ImagePolicyConfig option" where
  "okePolicyConfig spec = map_option (\<lambda>ip. \<lparr>IP_IsPolicyEnabled = IP_IsPolicyEnabled ip, IP_KeyDetails = getKeyDetails ip\<rparr>)
     (CPSpec_ImagePolicyConfig spec)"

definition createClusterDetails :: "ManagedControlPlaneScope \<Rightarrow> string list \<Rightarrow> CreateClusterDetails" where
  "createClusterDetails m nsgIds = (let spec = cp_spec m; acc = MCP_OCIClusterAccessor m in
     \<lparr>CC_Name = cp_GetClusterName m, CC_CompartmentId = GetCompartmentId acc, CC_VcnId = VCN_ID (GetVcnSpec acc),
      CC_KubernetesVersion = CPSpec_Version spec, CC_FreeformTags = cp_getFreeFormTags m, CC_DefinedTags = cp_getDefinedTags m,
      CC_Options = okeCreateOptions m,
      CC_EndpointConfig = \<lparr>EC_SubnetId = getControlPlaneEndpointSubnet m, EC_NsgIds = nsgIds,
        EC_IsPublicIpEnabled = IsControlPlaneEndpointSubnetPublic m\<rparr>,
      CC_ClusterPodNetworkOptions = podNetworkOptions (CPSpec_ClusterPodNetworkOptions spec),
      CC_KmsKeyId = CPSpec_KmsKeyId spec, CC_Type = getOKEClusterTypeFromSpecType spec,
      CC_ImagePolicyConfig = okePolicyConfig spec\<rparr>)"

text \<open>The id of the cluster in the work request: the last resource of that type wins.\<close>

definition createdClusterId :: "WorkRequestResource list \<Rightarrow> string option" where
  "createdClusterId resources = foldl (\<lambda>i r. if StringEquals (WRR_EntityType r) ''cluster'' then WRR_Identifier r else i) None resources"

definition setClusterId :: "string option \<Rightarrow> ('w, unit) cp_go" where
  "setClusterId i = ctl_mod (upd_cp_spec (\<lambda>sp. sp\<lparr>CPSpec_ID := i\<rparr>))"

definition createControlPlane :: "'w ControlPlaneClients \<Rightarrow> ('w, OkeCluster) cp_go" where
  "createControlPlane c =
     go_bind ctl_get (\<lambda>m.
     go_bind (getControlPlaneEndpointNSGList m) (\<lambda>nsgIds.
     go_bind (cp_engine c (\<lambda>a. api_CreateCluster a (createClusterDetails m nsgIds)
       (GetOPCRetryToken ''%s-%s'' [''create-oke'', GetOCIResourceIdentifier (MCP_OCIClusterAccessor m)]))) (\<lambda>workRequestId.
     go_bind (cp_engine c (\<lambda>a. api_GetOkeWorkRequest a workRequestId)) (\<lambda>wr.
     case createdClusterId (OWR_Resources wr) of
       None \<Rightarrow> go_bind (go_deref (OWR_OpcRequestId wr)) (\<lambda>req. go_throw (ErrNew
         (''oke cluster ws not created with the request, please create a support ticket with opc-request-id '' @ req)))
     | Some i \<Rightarrow> go_seq (setClusterId (Some i)) (getOKEClusterFromOCID c (Some i))))))"

definition GetOrCreateControlPlane :: "'w ControlPlaneClients \<Rightarrow> ('w, OkeCluster) cp_go" where
  "GetOrCreateControlPlane c =
     go_bind (GetOKECluster c) (\<lambda>found. case found of
       Some cluster \<Rightarrow> go_seq (setClusterId (OKE_Id cluster)) (go_ret cluster)
     | None \<Rightarrow> createControlPlane c)"

end
