(* ===== verification/Control_Plane_Update.thy ===== *)
theory Control_Plane_Update
  imports Control_Plane_Scope
begin

text \<open>
  The update of a managed control plane and its addons (src/cloud/scope/managed_control_plane.go). The spec with the
  defaults of the service filled in is compared with the spec that describes the cluster; tags are compared apart.
\<close>

section \<open>The spec that is wanted and the one that is found\<close>

definition setControlPlaneSpecDefaults :: "OCIManagedControlPlaneSpec \<Rightarrow> OCIManagedControlPlaneSpec" where
  "setControlPlaneSpecDefaults spec = (let co = CPSpec_ClusterOption spec in
     spec\<lparr>CPSpec_ControlPlaneEndpoint := \<lparr>APIEndpoint_Host = '''', APIEndpoint_Port = 0\<rparr>,
       CPSpec_ClusterType := (if CPSpec_ClusterType spec = '''' then BasicClusterType else CPSpec_ClusterType spec),
       CPSpec_Addons := [],
       CPSpec_ImagePolicyConfig := (case CPSpec_ImagePolicyConfig spec of
           None \<Rightarrow> Some \<lparr>IP_IsPolicyEnabled = Some False, IP_KeyDetails = []\<rparr>
         | Some ip \<Rightarrow> Some ip),
       CPSpec_ClusterOption := co
         \<lparr>CO_AdmissionControllerOptions := (case CO_AdmissionControllerOptions co of
             None \<Rightarrow> Some \<lparr>AC_IsPodSecurityPolicyEnabled = Some False\<rparr>
           | Some ac \<Rightarrow> Some ac),
          CO_AddOnOptions := (case CO_AddOnOptions co of
             None \<Rightarrow> Some \<lparr>AO_IsKubernetesDashboardEnabled = Some False, AO_IsTillerEnabled = Some False\<rparr>
           | Some ao \<Rightarrow> Some ao)\<rparr>\<rparr>)"

definition cniType :: "PodNetworkOption \<Rightarrow> string" where
  "cniType option = (case option of OciVcnIpNativePodNetwork \<Rightarrow> VCNNativeCNI | _ \<Rightarrow> FlannelCNI)"

text \<open>The token authentication of the cluster; the flag is dereferenced.\<close>

definition actualOidc :: "SdkOidcConfig \<Rightarrow> ('s, OpenIDConnectTokenAuthenticationConfig) go" where
  "actualOidc oidc =
     go_bind (go_deref (SOT_IsOpenIdConnectAuthEnabled oidc)) (\<lambda>enabled.
     go_ret \<lparr>OT_CaCertificate = SOT_CaCertificate oidc, OT_ClientId = SOT_ClientId oidc, OT_GroupsClaim = SOT_GroupsClaim oidc,
       OT_GroupsPrefix = SOT_GroupsPrefix oidc, OT_IsOpenIdConnectAuthEnabled = enabled, OT_IssuerUrl = SOT_IssuerUrl oidc,
       OT_RequiredClaims = SOT_RequiredClaims oidc, OT_SigningAlgorithms = SOT_SigningAlgorithms oidc,
       OT_UsernameClaim = SOT_UsernameClaim oidc, OT_UsernamePrefix = SOT_UsernamePrefix oidc\<rparr>)"

definition actualOptions :: "ClusterCreateOptions option \<Rightarrow> ('s, ClusterOptions) go" where
  "actualOptions options = (case options of
      None \<Rightarrow> go_ret \<lparr>CO_AddOnOptions = None, CO_AdmissionControllerOptions = None, CO_OpenIdConnectDiscovery = None,
        CO_OpenIdConnectTokenAuthenticationConfig = None\<rparr>
    | Some opts \<Rightarrow>
        go_bind (case UO_OpenIdConnectTokenAuthenticationConfig opts of
            None \<Rightarrow> go_ret None
          | Some oidc \<Rightarrow> go_bind (actualOidc oidc) (\<lambda>config. go_ret (Some config))) (\<lambda>oidc.
        go_ret \<lparr>CO_AddOnOptions = ClO_AddOns opts, CO_AdmissionControllerOptions = UO_AdmissionControllerOptions opts,
          CO_OpenIdConnectDiscovery = UO_OpenIdConnectDiscovery opts, CO_OpenIdConnectTokenAuthenticationConfig = oidc\<rparr>))"

definition actualClusterType :: "string \<Rightarrow> string" where
  "actualClusterType t = (if t = '''' then '''' else if t = ClusterTypeEnhancedCluster then EnhancedClusterType else BasicClusterType)"

definition getSpecFromActual :: "OkeCluster \<Rightarrow> ('s, OCIManagedControlPlaneSpec) go" where
  "getSpecFromActual cluster =
     go_bind (actualOptions (OKE_Options cluster)) (\<lambda>options.
     go_ret \<lparr>CPSpec_ID = OKE_Id cluster,
       CPSpec_ClusterPodNetworkOptions = map cniType (OKE_ClusterPodNetworkOptions cluster),
       CPSpec_ImagePolicyConfig = OKE_ImagePolicyConfig cluster, CPSpec_ClusterOption = options,
       CPSpec_ClusterType = actualClusterType (OKE_Type cluster), CPSpec_KmsKeyId = OKE_KmsKeyId cluster,
       CPSpec_ControlPlaneEndpoint = \<lparr>APIEndpoint_Host = '''', APIEndpoint_Port = 0\<rparr>, CPSpec_Addons = [],
       CPSpec_Version = OKE_KubernetesVersion cluster\<rparr>)"

text \<open>\<open>cmp.Equal\<close> with \<open>EquateEmpty\<close>: pointers are followed, and a nil slice is an empty one.\<close>

definition equate_empty :: "OCIManagedControlPlaneSpec \<Rightarrow> OCIManagedControlPlaneSpec" where
  "equate_empty spec = spec\<lparr>CPSpec_Addons := map (\<lambda>a. a\<lparr>Addon_Configurations :=
     Some (case Addon_Configurations a of None \<Rightarrow> [] | Some cs \<Rightarrow> cs)\<rparr>) (CPSpec_Addons spec)\<rparr>"

definition compareSpecs :: "OCIManagedControlPlaneSpec \<Rightarrow> OCIManagedControlPlaneSpec \<Rightarrow> bool" where
  "compareSpecs spec1 spec2 \<longleftrightarrow> equate_empty spec1 = equate_empty spec2"

definition hasClusterTagChanges :: "ManagedControlPlaneScope \<Rightarrow> OkeCluster \<Rightarrow> bool" where
  "hasClusterTagChanges m okeCluster \<longleftrightarrow>
     cp_getFreeFormTags m \<noteq> OKE_FreeformTags okeCluster \<or>
     cp_getDefinedTags m \<noteq> (case OKE_DefinedTags okeCluster of None \<Rightarrow> Map.empty | Some t \<Rightarrow> t)"

section \<open>Update\<close>

definition updateOptions :: "OCIManagedControlPlaneSpec \<Rightarrow> UpdateClusterOptionsDetails" where
  "updateOptions spec = (let co = CPSpec_ClusterOption spec in
     \<lparr>UO_AdmissionControllerOptions = CO_AdmissionControllerOptions co,
      UO_OpenIdConnectDiscovery = CO_OpenIdConnectDiscovery co,
      UO_OpenIdConnectTokenAuthenticationConfig = map_option sdk_oidc (CO_OpenIdConnectTokenAuthenticationConfig co)\<rparr>)"

definition updateClusterDetails :: "ManagedControlPlaneScope \<Rightarrow> UpdateClusterDetails" where
  "updateClusterDetails m = \<lparr>UC_Name = cp_GetClusterName m, UC_KubernetesVersion = CPSpec_Version (cp_spec m),
     UC_Options = updateOptions (cp_spec m), UC_FreeformTags = cp_getFreeFormTags m, UC_DefinedTags = cp_getDefinedTags m,
     UC_ImagePolicyConfig = okePolicyConfig (cp_spec m), UC_Type = getOKEClusterTypeFromSpecType (cp_spec m)\<rparr>"

definition UpdateControlPlane :: "'w ControlPlaneClients \<Rightarrow> OkeCluster \<Rightarrow> ('w, bool) cp_go" where
  "UpdateControlPlane c okeCluster =
     go_bind ctl_get (\<lambda>m.
     let spec = setControlPlaneSpecDefaults (cp_spec m) in
     go_bind (getSpecFromActual okeCluster) (\<lambda>actual.
     if hasClusterTagChanges m okeCluster \<or> \<not> compareSpecs spec actual
     then go_seq (go_wrap ''failed to update cluster''
         (cp_engine c (\<lambda>a. api_UpdateCluster a (OKE_Id okeCluster) (updateClusterDetails m))))
       (go_ret True)
     else go_ret False))"

section \<open>Addons\<close>

text \<open>\<open>getActualAddonConfigurations\<close> answers nil for no configurations. A nil list of a request is the empty one.\<close>

definition getAddonConfigurations :: "AddonConfiguration list option \<Rightarrow> AddonConfiguration list" where
  "getAddonConfigurations configurations = (case configurations of None \<Rightarrow> [] | Some cs \<Rightarrow> cs)"

definition getActualAddonConfigurations :: "AddonConfiguration list \<Rightarrow> AddonConfiguration list option" where
  "getActualAddonConfigurations cs = (if cs = [] then None else Some cs)"

definition getAddon :: "Addon list \<Rightarrow> string \<Rightarrow> Addon option" where
  "getAddon addons name = find (\<lambda>addon. StringEquals (Addon_Name addon) name) addons"

definition addonStatus :: "SdkAddon \<Rightarrow> AddonStatus" where
  "addonStatus addon = \<lparr>AStat_CurrentlyInstalledVersion = SA_CurrentInstalledVersion addon,
     AStat_AddonError = SA_AddonError addon, AStat_LifecycleState = Some (SA_LifecycleState addon)\<rparr>"

definition addonDetails :: "Addon \<Rightarrow> AddonDetails" where
  "addonDetails addon = \<lparr>AD_Version = Addon_Version addon, AD_Configurations = getAddonConfigurations (Addon_Configurations addon)\<rparr>"

definition addonChanged :: "SdkAddon \<Rightarrow> Addon \<Rightarrow> bool" where
  "addonChanged addon addonInSpec \<longleftrightarrow> SA_LifecycleState addon = AddonStateNeedsAttention \<or>
     Addon_Version addonInSpec \<noteq> SA_Version addon \<or>
     getActualAddonConfigurations (SA_Configurations addon) \<noteq> Addon_Configurations addonInSpec"

definition handleExistingAddon :: "'w ControlPlaneClients \<Rightarrow> OkeCluster \<Rightarrow> SdkAddon \<Rightarrow> Addon \<Rightarrow> ('w, unit) cp_go" where
  "handleExistingAddon c okeCluster addon addonInSpec =
     go_bind (go_deref (SA_Name addon)) (\<lambda>_.
     if \<not> (SA_LifecycleState addon = AddonStateUpdating \<or> SA_LifecycleState addon = AddonStateFailed) \<and> addonChanged addon addonInSpec
     then cp_engine c (\<lambda>a. api_UpdateAddon a (OKE_Id okeCluster) (SA_Name addon) (addonDetails addonInSpec))
     else go_ret ())"

definition mod_addon_status :: "(OCIManagedControlPlane \<Rightarrow> OCIManagedControlPlane) \<Rightarrow> ('w, unit) cp_go" where
  "mod_addon_status f = ctl_mod (upd_cp f)"

definition installAddon :: "'w ControlPlaneClients \<Rightarrow> OkeCluster \<Rightarrow> Addon \<Rightarrow> ('w, unit) cp_go" where
  "installAddon c okeCluster addon =
     go_bind (go_deref (Addon_Name addon)) (\<lambda>name.
     go_seq (cp_engine c (\<lambda>a. api_InstallAddon a (OKE_Id okeCluster) (Addon_Name addon) (addonDetails addon)))
     (mod_addon_status (SetAddonStatus name
       \<lparr>AStat_CurrentlyInstalledVersion = None, AStat_AddonError = None, AStat_LifecycleState = Some AddonStateCreating\<rparr>)))"

definition reconcileAddon :: "'w ControlPlaneClients \<Rightarrow> OkeCluster \<Rightarrow> Addon \<Rightarrow> ('w, unit) cp_go" where
  "reconcileAddon c okeCluster addon =
     go_bind (go_try (cp_engine c (\<lambda>a. api_GetAddon a (OKE_Id okeCluster) (Addon_Name addon)))) (\<lambda>x. case x of
       Inl err \<Rightarrow> if IsNotFound (Some err) then installAddon c okeCluster addon else go_throw err
     | Inr found \<Rightarrow>
         go_bind (go_deref (Addon_Name addon)) (\<lambda>name.
         go_seq (mod_addon_status (SetAddonStatus name (addonStatus found)))
         (handleExistingAddon c okeCluster found addon)))"

definition handleDeletedAddon :: "'w ControlPlaneClients \<Rightarrow> OkeCluster \<Rightarrow> string \<Rightarrow> ('w, unit) cp_go" where
  "handleDeletedAddon c okeCluster addonName =
     go_bind (go_try (cp_engine c (\<lambda>a. api_GetAddon a (OKE_Id okeCluster) (Some addonName)))) (\<lambda>x. case x of
       Inl err \<Rightarrow> if IsNotFound (Some err) then mod_addon_status (RemoveAddonStatus addonName) else go_throw err
     | Inr found \<Rightarrow>
         if SA_LifecycleState found = AddonStateDeleting then go_ret ()
         else if SA_LifecycleState found = AddonStateDeleted then mod_addon_status (RemoveAddonStatus addonName)
         else cp_engine c (\<lambda>a. api_DisableAddon a (OKE_Id okeCluster) (Some addonName) True))"

text \<open>\<open>iter\<close> is the order in which this run ranges over the names in the status.\<close>

definition ReconcileAddons :: "(string list \<Rightarrow> string list) \<Rightarrow> 'w ControlPlaneClients \<Rightarrow> OkeCluster \<Rightarrow> ('w, unit) cp_go" where
  "ReconcileAddons iter c okeCluster =
     go_bind ctl_get (\<lambda>m.
     let addonSpec = CPSpec_Addons (cp_spec m) in
     go_seq (go_for addonSpec (reconcileAddon c okeCluster))
     (go_bind ctl_get (\<lambda>m'.
     go_for (iter (map fst (CPStatus_AddonStatus (CP_Status (cp_object m'))))) (\<lambda>k.
       if getAddon addonSpec k = None then handleDeletedAddon c okeCluster k else go_ret ()))))"

end
