(* ===== verification/Control_Plane_Settling.thy ===== *)
theory Control_Plane_Settling
  imports Control_Plane_Update
begin

text \<open>
  When the update of a managed control plane comes to rest: the comparison of \<open>UpdateControlPlane\<close> against a cluster that has
  taken the update, and the addons.
\<close>

section \<open>The cluster after an update\<close>

text \<open>A field of a request that is given replaces the one of the cluster.\<close>

definition given :: "'a option \<Rightarrow> 'a option \<Rightarrow> 'a option" where
  "given new old = (case new of None \<Rightarrow> old | Some v \<Rightarrow> Some v)"

lemma given_simps [simp]: "given None old = old" "given (Some v) old = Some v"
  by (simp_all add: given_def)

definition no_options :: ClusterCreateOptions where
  "no_options = \<lparr>UO_AdmissionControllerOptions = None, UO_OpenIdConnectDiscovery = None,
     UO_OpenIdConnectTokenAuthenticationConfig = None, ClO_ServiceLbSubnetIds = [], ClO_PersistentVolumeConfig = None,
     ClO_ServiceLbConfig = None, ClO_KubernetesNetworkConfig = None, ClO_AddOns = None\<rparr>"

definition cluster_options :: "OkeCluster \<Rightarrow> ClusterCreateOptions" where
  "cluster_options cl = (case OKE_Options cl of None \<Rightarrow> no_options | Some o' \<Rightarrow> o')"

text \<open>What the documentation of \<open>UpdateCluster\<close> promises of the cluster afterwards, for the fields that the source reads: those the request gives are replaced,
  those it leaves out or cannot carry are kept.\<close>

definition takes_update :: "UpdateClusterDetails \<Rightarrow> OkeCluster \<Rightarrow> OkeCluster \<Rightarrow> bool" where
  "takes_update d cl cl' \<longleftrightarrow> (let o' = cluster_options cl; u = UC_Options d in
     OKE_Id cl' = OKE_Id cl \<and> OKE_KmsKeyId cl' = OKE_KmsKeyId cl \<and> OKE_ClusterPodNetworkOptions cl' = OKE_ClusterPodNetworkOptions cl \<and>
     OKE_KubernetesVersion cl' = given (UC_KubernetesVersion d) (OKE_KubernetesVersion cl) \<and>
     OKE_FreeformTags cl' = UC_FreeformTags d \<and> OKE_DefinedTags cl' = Some (UC_DefinedTags d) \<and>
     OKE_ImagePolicyConfig cl' = given (UC_ImagePolicyConfig d) (OKE_ImagePolicyConfig cl) \<and>
     OKE_Type cl' = (if UC_Type d = '''' then OKE_Type cl else UC_Type d) \<and>
     (\<exists>n. OKE_Options cl' = Some n \<and> ClO_AddOns n = ClO_AddOns o' \<and>
        UO_AdmissionControllerOptions n = given (UO_AdmissionControllerOptions u) (UO_AdmissionControllerOptions o') \<and>
        UO_OpenIdConnectDiscovery n = given (UO_OpenIdConnectDiscovery u) (UO_OpenIdConnectDiscovery o') \<and>
        UO_OpenIdConnectTokenAuthenticationConfig n =
          given (UO_OpenIdConnectTokenAuthenticationConfig u) (UO_OpenIdConnectTokenAuthenticationConfig o')))"

text \<open>The part of the spec that no update request carries, or that is not given, has to agree with the cluster already.\<close>

definition rest_agrees :: "OCIManagedControlPlaneSpec \<Rightarrow> OkeCluster \<Rightarrow> bool" where
  "rest_agrees spec cl \<longleftrightarrow> (let co = CPSpec_ClusterOption spec; o' = cluster_options cl in
     CPSpec_ID spec = OKE_Id cl \<and> CPSpec_KmsKeyId spec = OKE_KmsKeyId cl \<and>
     CPSpec_ClusterPodNetworkOptions spec = map cniType (OKE_ClusterPodNetworkOptions cl) \<and>
     ClO_AddOns o' = (case CO_AddOnOptions co of
         None \<Rightarrow> Some \<lparr>AO_IsKubernetesDashboardEnabled = Some False, AO_IsTillerEnabled = Some False\<rparr>
       | Some ao \<Rightarrow> Some ao) \<and>
     (CPSpec_Version spec = None \<longrightarrow> OKE_KubernetesVersion cl = None) \<and>
     (CPSpec_ImagePolicyConfig spec = None \<longrightarrow>
        OKE_ImagePolicyConfig cl = Some \<lparr>IP_IsPolicyEnabled = Some False, IP_KeyDetails = []\<rparr>) \<and>
     (CO_AdmissionControllerOptions co = None \<longrightarrow>
        UO_AdmissionControllerOptions o' = Some \<lparr>AC_IsPodSecurityPolicyEnabled = Some False\<rparr>) \<and>
     (CO_OpenIdConnectDiscovery co = None \<longrightarrow> UO_OpenIdConnectDiscovery o' = None) \<and>
     (CO_OpenIdConnectTokenAuthenticationConfig co = None \<longrightarrow> UO_OpenIdConnectTokenAuthenticationConfig o' = None) \<and>
     (if CPSpec_ClusterType spec = '''' then OKE_Type cl \<noteq> '''' \<and> OKE_Type cl \<noteq> EnhancedClusterType
      else CPSpec_ClusterType spec \<in> {BasicClusterType, EnhancedClusterType}))"

lemma given_eq:
  "given new old = new \<longleftrightarrow> (new = None \<longrightarrow> old = None)"
  "given new old = Some (case new of None \<Rightarrow> d | Some v \<Rightarrow> v) \<longleftrightarrow> (new = None \<longrightarrow> old = Some d)"
  by (cases new; simp)+

lemma actualOidc_sdk: "actualOidc (sdk_oidc oidc) = go_ret oidc"
  by (cases oidc) (simp add: actualOidc_def sdk_oidc_def go_deref_def)

text \<open>Options are read as \<open>co\<close> when each of them is.\<close>

definition reads_oidc :: "SdkOidcConfig option \<Rightarrow> OpenIDConnectTokenAuthenticationConfig option \<Rightarrow> 's \<Rightarrow> bool" where
  "reads_oidc o' config x \<longleftrightarrow> (case o' of
      None \<Rightarrow> config = None
    | Some oidc \<Rightarrow> \<exists>oc. actualOidc oidc x = (Ret oc, x) \<and> config = Some oc)"

lemma actualOptions_eq:
  "actualOptions (Some opts) x = (Ret co, x) \<longleftrightarrow>
     ClO_AddOns opts = CO_AddOnOptions co \<and> UO_AdmissionControllerOptions opts = CO_AdmissionControllerOptions co \<and>
     UO_OpenIdConnectDiscovery opts = CO_OpenIdConnectDiscovery co \<and>
     reads_oidc (UO_OpenIdConnectTokenAuthenticationConfig opts) (CO_OpenIdConnectTokenAuthenticationConfig co) x"
  by (cases co) (auto simp: actualOptions_def actualOidc_def reads_oidc_def go_simps split: option.splits)

lemma oidc_settles:
  "reads_oidc (given (map_option sdk_oidc new) old) new x \<longleftrightarrow> (new = None \<longrightarrow> old = None)"
  by (cases new; cases old) (simp_all add: actualOidc_sdk reads_oidc_def go_ret_apply)

lemma wanted_options:
  "CPSpec_ClusterOption (setControlPlaneSpecDefaults spec) = (CPSpec_ClusterOption spec)
     \<lparr>CO_AdmissionControllerOptions := Some (case CO_AdmissionControllerOptions (CPSpec_ClusterOption spec) of
         None \<Rightarrow> \<lparr>AC_IsPodSecurityPolicyEnabled = Some False\<rparr> | Some ac \<Rightarrow> ac),
      CO_AddOnOptions := Some (case CO_AddOnOptions (CPSpec_ClusterOption spec) of
         None \<Rightarrow> \<lparr>AO_IsKubernetesDashboardEnabled = Some False, AO_IsTillerEnabled = Some False\<rparr> | Some ao \<Rightarrow> ao)\<rparr>"
  by (simp add: setControlPlaneSpecDefaults_def Let_def split: option.split)

text \<open>The options of the cluster after the update are the ones wanted exactly when those that are not sent agree.\<close>

lemma options_settle:
  assumes "takes_update (updateClusterDetails m) cl cl'"
  shows "actualOptions (OKE_Options cl') x =
     (Ret (CPSpec_ClusterOption (setControlPlaneSpecDefaults (cp_spec m))), x) \<longleftrightarrow>
   (let co = CPSpec_ClusterOption (cp_spec m); o' = cluster_options cl in
     ClO_AddOns o' = (case CO_AddOnOptions co of
         None \<Rightarrow> Some \<lparr>AO_IsKubernetesDashboardEnabled = Some False, AO_IsTillerEnabled = Some False\<rparr>
       | Some ao \<Rightarrow> Some ao) \<and>
     (CO_AdmissionControllerOptions co = None \<longrightarrow>
        UO_AdmissionControllerOptions o' = Some \<lparr>AC_IsPodSecurityPolicyEnabled = Some False\<rparr>) \<and>
     (CO_OpenIdConnectDiscovery co = None \<longrightarrow> UO_OpenIdConnectDiscovery o' = None) \<and>
     (CO_OpenIdConnectTokenAuthenticationConfig co = None \<longrightarrow> UO_OpenIdConnectTokenAuthenticationConfig o' = None))"
proof -
  obtain co where co: "CPSpec_ClusterOption (cp_spec m) = co" by simp
  obtain o' where o': "cluster_options cl = o'" by simp
  obtain n where oke: "OKE_Options cl' = Some n" "ClO_AddOns n = ClO_AddOns o'"
      "UO_AdmissionControllerOptions n = given (CO_AdmissionControllerOptions co) (UO_AdmissionControllerOptions o')"
      "UO_OpenIdConnectDiscovery n = given (CO_OpenIdConnectDiscovery co) (UO_OpenIdConnectDiscovery o')"
      "UO_OpenIdConnectTokenAuthenticationConfig n =
         given (map_option sdk_oidc (CO_OpenIdConnectTokenAuthenticationConfig co)) (UO_OpenIdConnectTokenAuthenticationConfig o')"
    using assms by (auto simp: takes_update_def updateClusterDetails_def updateOptions_def Let_def co o')
  show ?thesis
    unfolding oke(1) wanted_options co o' Let_def actualOptions_eq oke(2-5)
    by (cases "CO_AddOnOptions co") (auto simp: given_eq oidc_settles)
qed

text \<open>Without addons, which neither side has, the comparison is equality, and the spec of the cluster is equal to another when
  every field is.\<close>

lemma compare_no_addons: "CPSpec_Addons s = [] \<Longrightarrow> CPSpec_Addons t = [] \<Longrightarrow> compareSpecs s t \<longleftrightarrow> s = t"
  by (cases s; cases t) (simp add: compareSpecs_def equate_empty_def)

lemma wanted_fields:
  "CPSpec_Addons (setControlPlaneSpecDefaults spec) = []" "CPSpec_ID (setControlPlaneSpecDefaults spec) = CPSpec_ID spec"
  "CPSpec_ControlPlaneEndpoint (setControlPlaneSpecDefaults spec) = \<lparr>APIEndpoint_Host = '''', APIEndpoint_Port = 0\<rparr>"
  "CPSpec_ClusterPodNetworkOptions (setControlPlaneSpecDefaults spec) = CPSpec_ClusterPodNetworkOptions spec"
  "CPSpec_KmsKeyId (setControlPlaneSpecDefaults spec) = CPSpec_KmsKeyId spec"
  "CPSpec_Version (setControlPlaneSpecDefaults spec) = CPSpec_Version spec"
  "CPSpec_ClusterType (setControlPlaneSpecDefaults spec) = (if CPSpec_ClusterType spec = '''' then BasicClusterType else CPSpec_ClusterType spec)"
  "CPSpec_ImagePolicyConfig (setControlPlaneSpecDefaults spec) = Some (case CPSpec_ImagePolicyConfig spec of
     None \<Rightarrow> \<lparr>IP_IsPolicyEnabled = Some False, IP_KeyDetails = []\<rparr> | Some ip \<Rightarrow> ip)"
  by (simp_all add: setControlPlaneSpecDefaults_def Let_def split: option.split)

lemma spec_from_actual_eq:
  "getSpecFromActual cl x = (Ret s, x) \<longleftrightarrow> actualOptions (OKE_Options cl) x = (Ret (CPSpec_ClusterOption s), x) \<and>
     CPSpec_ID s = OKE_Id cl \<and> CPSpec_ClusterPodNetworkOptions s = map cniType (OKE_ClusterPodNetworkOptions cl) \<and>
     OKE_ImagePolicyConfig cl = CPSpec_ImagePolicyConfig s \<and> actualClusterType (OKE_Type cl) = CPSpec_ClusterType s \<and>
     CPSpec_KmsKeyId s = OKE_KmsKeyId cl \<and> CPSpec_ControlPlaneEndpoint s = \<lparr>APIEndpoint_Host = '''', APIEndpoint_Port = 0\<rparr> \<and>
     CPSpec_Addons s = [] \<and> OKE_KubernetesVersion cl = CPSpec_Version s"
  by (cases s) (auto simp: getSpecFromActual_def go_simps split: res.splits prod.splits)

lemma spec_from_actual_run: "getSpecFromActual cl x = (Ret s, y) \<Longrightarrow> CPSpec_Addons s = [] \<and> y = x"
  by (auto simp: getSpecFromActual_def actualOptions_def actualOidc_def go_simps split: res.splits prod.splits option.splits)

lemma policy_settles: "okePolicyConfig spec = CPSpec_ImagePolicyConfig spec"
  by (cases "CPSpec_ImagePolicyConfig spec") (simp_all add: okePolicyConfig_def getKeyDetails_def)

lemma type_settles:
  "actualClusterType (if getOKEClusterTypeFromSpecType spec = '''' then t else getOKEClusterTypeFromSpecType spec) =
     (if CPSpec_ClusterType spec = '''' then BasicClusterType else CPSpec_ClusterType spec) \<longleftrightarrow>
   (if CPSpec_ClusterType spec = '''' then t \<noteq> '''' \<and> t \<noteq> EnhancedClusterType
    else CPSpec_ClusterType spec \<in> {BasicClusterType, EnhancedClusterType})"
  by (auto simp: getOKEClusterTypeFromSpecType_def actualClusterType_def)

text \<open>C21. The update of a control plane comes to rest exactly when the fields that no update request carries agree with the
  cluster. Let the cluster have taken the update that \<open>UpdateControlPlane\<close> sends, the way the service documents it (\<open>takes_update\<close>). Then the
  next pass sends nothing and changes nothing exactly if \<open>rest_agrees\<close>: the id, the encryption key, the pod networks
  and the options of the old addons of the spec are those of the cluster; the version, the image policy, the admission controller options
  and the OIDC settings, where the spec leaves them out, have their default in the cluster (for the version and the OIDC settings: none); and the type is
  one that the provider knows, or is left out for a cluster that has a type and is not an enhanced one.\<close>

theorem UpdateControlPlane_settles_iff:
  fixes c :: "'w ControlPlaneClients"
  assumes upd: "takes_update (updateClusterDetails m) cl cl'"
  shows "UpdateControlPlane c cl' ((m, w), ev) = (Ret False, ((m, w), ev)) \<longleftrightarrow> rest_agrees (cp_spec m) cl"
proof -
  let ?s = "cp_spec m" and ?x = "((m, w), ev)"
  from upd have fields: "OKE_Id cl' = OKE_Id cl" "OKE_KmsKeyId cl' = OKE_KmsKeyId cl"
    "OKE_ClusterPodNetworkOptions cl' = OKE_ClusterPodNetworkOptions cl"
    "OKE_KubernetesVersion cl' = given (CPSpec_Version ?s) (OKE_KubernetesVersion cl)"
    "OKE_ImagePolicyConfig cl' = given (CPSpec_ImagePolicyConfig ?s) (OKE_ImagePolicyConfig cl)"
    "OKE_Type cl' = (if getOKEClusterTypeFromSpecType ?s = '''' then OKE_Type cl else getOKEClusterTypeFromSpecType ?s)"
    "\<not> hasClusterTagChanges m cl'"
    by (simp_all add: takes_update_def updateClusterDetails_def Let_def hasClusterTagChanges_def policy_settles)
  have "UpdateControlPlane c cl' ?x = (Ret False, ?x) \<longleftrightarrow> getSpecFromActual cl' ?x = (Ret (setControlPlaneSpecDefaults ?s), ?x)"
    using fields(7) compare_no_addons [OF wanted_fields(1) [of ?s]]
    by (auto simp: UpdateControlPlane_def go_simps Let_def dest: spec_from_actual_run split: res.splits prod.splits if_splits)
  also have "\<dots> \<longleftrightarrow> rest_agrees ?s cl"
    unfolding spec_from_actual_eq options_settle [OF upd] fields wanted_fields type_settles given_eq rest_agrees_def Let_def by auto
  finally show ?thesis .
qed

end
