(* ===== verification/Control_Plane_Secrets.thy ===== *)
theory Control_Plane_Secrets
  imports Control_Plane_Scope
begin

text \<open>
  The secrets of a managed control plane (src/cloud/scope/managed_control_plane.go): the kubeconfig that Cluster API uses,
  and the script that boots self managed nodes.
\<close>

section \<open>Strings\<close>

text \<open>\<open>strings.Replace(s, old, new, 1)\<close> for an \<open>old\<close> that is not empty.\<close>

fun ReplaceFirst :: "string \<Rightarrow> string \<Rightarrow> string \<Rightarrow> string" where
  "ReplaceFirst [] old new = []"
| "ReplaceFirst (x # xs) old new =
     (if HasPrefix (x # xs) old then new @ drop (length old) (x # xs) else x # ReplaceFirst xs old new)"

definition OKEInitScript :: string where
  "OKEInitScript = ''#!/usr/bin/env bash'' @ [CHR 0x0A] @ ''bash /etc/oke/oke-install.sh '' @ [CHR 0x5C, CHR 0x0A] @
     ''  --apiserver-endpoint '' @ [CHR 0x22] @ ''CLUSTER_ENDPOINT'' @ [CHR 0x22] @ '' '' @ [CHR 0x5C, CHR 0x0A] @
     ''  --kubelet-ca-cert '' @ [CHR 0x22] @ ''BASE_64_CA'' @ [CHR 0x22]"

section \<open>The kubeconfig of the cluster\<close>

text \<open>The kubeconfig that the service creates, read by clientcmd. The error that is wrapped when the configuration is empty,
  or has no current context or cluster, is nil, and wrapping nil gives nil: the callers end without an error there, which
  is \<open>None\<close> here.\<close>

definition fetchRawConfig :: "'w ControlPlaneClients \<Rightarrow> OkeCluster \<Rightarrow> ('w, KubeConfig option) cp_go" where
  "fetchRawConfig c okeCluster =
     go_bind (cp_engine c (\<lambda>a. api_CreateKubeconfig a (OKE_Id okeCluster))) (\<lambda>body.
     go_bind (go_res (kt_RawConfig (cpc_Tools c) body)) (\<lambda>rawConfig.
     go_ret (if is_zero_config rawConfig then None else Some rawConfig)))"

definition currentKubeCluster :: "KubeConfig \<Rightarrow> (KubeContext \<times> KubeCluster) option" where
  "currentKubeCluster rawConfig = (case map_at (KC_Contexts rawConfig) (KC_CurrentContext rawConfig) of
      None \<Rightarrow> None
    | Some cx \<Rightarrow> (case map_at (KC_Clusters rawConfig) (KCx_Cluster cx) of
        None \<Rightarrow> None
      | Some cl \<Rightarrow> Some (cx, cl)))"

definition createBaseKubeConfig :: "'w ControlPlaneClients \<Rightarrow> string \<Rightarrow> KubeCluster \<Rightarrow> string \<Rightarrow> string \<Rightarrow> KubeConfig" where
  "createBaseKubeConfig c userName kubeconfigCluster clusterName contextName =
     \<lparr>KC_APIVersion = kt_Version (cpc_Tools c),
      KC_Clusters = Some [clusterName \<mapsto> \<lparr>KCl_Server = KCl_Server kubeconfigCluster,
        KCl_CertificateAuthorityData = KCl_CertificateAuthorityData kubeconfigCluster\<rparr>],
      KC_Contexts = Some [contextName \<mapsto> \<lparr>KCx_Cluster = clusterName, KCx_AuthInfo = userName\<rparr>],
      KC_AuthInfos = None, KC_CurrentContext = contextName, KC_Other = ''''\<rparr>"

definition controllerOwnerRef :: "ManagedControlPlaneScope \<Rightarrow> string \<times> string \<times> string" where
  "controllerOwnerRef m = (''OCIManagedControlPlane'', CP_Name (cp_object m), CP_UID (cp_object m))"

definition generateToken :: "'w ControlPlaneClients \<Rightarrow> string \<Rightarrow> ('w, string) cp_go" where
  "generateToken c i = go_errorf ''generating presigned token'' (cp_engine c (\<lambda>a. api_GenerateToken a i))"

definition serializeConfig :: "'w ControlPlaneClients \<Rightarrow> KubeConfig \<Rightarrow> ('w, string) cp_go" where
  "serializeConfig c cfg = go_wrap ''failed to serialize config to yaml'' (go_res (kt_Write (cpc_Tools c) cfg))"

definition storeKubeConfig :: "'w ControlPlaneClients \<Rightarrow> OkeCluster \<Rightarrow> string \<Rightarrow> KubeConfig \<Rightarrow> ('w, unit) cp_go" where
  "storeKubeConfig c okeCluster userName rawConfig = (case currentKubeCluster rawConfig of
      None \<Rightarrow> go_ret ()
    | Some (cx, cl) \<Rightarrow>
        go_bind (go_deref (OKE_Id okeCluster)) (\<lambda>i.
        go_bind (generateToken c i) (\<lambda>token.
        go_bind (serializeConfig c ((createBaseKubeConfig c userName cl (KCx_Cluster cx) (KC_CurrentContext rawConfig))
          \<lparr>KC_AuthInfos := Some [userName \<mapsto> \<lparr>KA_Token = token, KA_Other = ''''\<rparr>]\<rparr>)) (\<lambda>out.
        go_bind ctl_get (\<lambda>m.
        go_wrap ''failed to create kubeconfig secret'' (ctl_call (sk_CreateSecret (cpc_Kube c)
          (kt_GenerateSecretWithOwner (cpc_Tools c) (Capi_Namespace (MCP_Cluster m)) (Capi_Name (MCP_Cluster m)) out
            (controllerOwnerRef m)))))))))"

definition createCAPIKubeconfigSecret :: "'w ControlPlaneClients \<Rightarrow> OkeCluster \<Rightarrow> ('w, unit) cp_go" where
  "createCAPIKubeconfigSecret c okeCluster =
     go_bind (fetchRawConfig c okeCluster) (\<lambda>raw. case raw of
       None \<Rightarrow> go_ret ()
     | Some rawConfig \<Rightarrow>
         go_bind (go_deref (OKE_Name okeCluster)) (\<lambda>name.
         storeKubeConfig c okeCluster (getKubeConfigUserName name False) rawConfig))"

text \<open>A new token for the user of the provider in the secret that exists.\<close>

definition setToken :: "string \<Rightarrow> string \<Rightarrow> KubeConfig \<Rightarrow> KubeConfig option" where
  "setToken userName token cfg = (case KC_AuthInfos cfg of
      None \<Rightarrow> None
    | Some infos \<Rightarrow> (case infos userName of
        None \<Rightarrow> None
      | Some authInfo \<Rightarrow> Some (cfg\<lparr>KC_AuthInfos := Some (infos(userName \<mapsto> authInfo\<lparr>KA_Token := token\<rparr>))\<rparr>)))"

definition updateCAPIKubeconfigSecret :: "'w ControlPlaneClients \<Rightarrow> Secret \<Rightarrow> OkeCluster \<Rightarrow> ('w, unit) cp_go" where
  "updateCAPIKubeconfigSecret c configSecret okeCluster = (case Secret_Data configSecret KubeconfigDataName of
      None \<Rightarrow> go_throw (ErrNew (''missing key '' @ [CHR 0x22] @ KubeconfigDataName @ [CHR 0x22] @ '' in secret data''))
    | Some data \<Rightarrow>
        go_bind (go_wrap ''failed to convert kubeconfig Secret into a clientcmdapi.Config'' (go_res (kt_Load (cpc_Tools c) data))) (\<lambda>config.
        go_bind (go_deref (OKE_Id okeCluster)) (\<lambda>i.
        go_bind (generateToken c i) (\<lambda>token.
        go_bind (go_deref (OKE_Name okeCluster)) (\<lambda>name.
        let userName = getKubeConfigUserName name False in
        case setToken userName token config of
          None \<Rightarrow> go_throw (ErrNew (''user '' @ userName @ '' not found in config''))
        | Some cfg \<Rightarrow>
            go_bind (serializeConfig c cfg) (\<lambda>out.
            go_errorf ''updating kubeconfig secret'' (ctl_call (sk_UpdateSecret (cpc_Kube c)
              (configSecret\<lparr>Secret_Data := (Secret_Data configSecret)(KubeconfigDataName \<mapsto> out)\<rparr>)))))))))"

definition reconcileKubeconfigSecret :: "'w ControlPlaneClients \<Rightarrow> OkeCluster \<Rightarrow> goerr + Secret \<Rightarrow> ('w, unit) cp_go" where
  "reconcileKubeconfigSecret c okeCluster x = (case x of
      Inl err \<Rightarrow>
        if \<not> sk_NotFound (cpc_Kube c) err then go_throw (ErrWrap ''failed to get kubeconfig secret'' err)
        else go_errorf ''creating kubeconfig secret'' (createCAPIKubeconfigSecret c okeCluster)
    | Inr configSecret \<Rightarrow> go_errorf ''updating kubeconfig secret'' (updateCAPIKubeconfigSecret c configSecret okeCluster))"

definition ReconcileKubeconfig :: "'w ControlPlaneClients \<Rightarrow> OkeCluster \<Rightarrow> ('w, unit) cp_go" where
  "ReconcileKubeconfig c okeCluster =
     go_bind ctl_get (\<lambda>m.
     go_bind (go_try (ctl_call (sk_GetKubeconfigSecret (cpc_Kube c) (Capi_Namespace (MCP_Cluster m)) (Capi_Name (MCP_Cluster m))))) (\<lambda>x.
     go_seq (reconcileKubeconfigSecret c okeCluster x)
     (ctl_mod (upd_cp_status (\<lambda>st. st\<lparr>CPStatus_Initialized := True\<rparr>)))))"

section \<open>The script of self managed nodes\<close>

definition bootstrapScript :: "string \<Rightarrow> KubeCluster \<Rightarrow> string" where
  "bootstrapScript privateEndpoint cl =
     (let certData = EncodeToString (KCl_CertificateAuthorityData cl);
          endpoint = hd (Split (CHR '':'') privateEndpoint);
          initStr = ReplaceFirst OKEInitScript ''BASE_64_CA'' certData
      in ReplaceFirst initStr ''CLUSTER_ENDPOINT'' endpoint)"

definition bootstrapSecretName :: "ManagedControlPlaneScope \<Rightarrow> string" where
  "bootstrapSecretName m = Capi_Name (MCP_Cluster m) @ ''-self-managed''"

definition bootstrapSecret :: "ManagedControlPlaneScope \<Rightarrow> string \<Rightarrow> Secret" where
  "bootstrapSecret m initStr = \<lparr>Secret_Name = bootstrapSecretName m, Secret_Namespace = Capi_Namespace (MCP_Cluster m),
     Secret_Labels = [''cluster.x-k8s.io/cluster-name'' \<mapsto> Capi_Name (MCP_Cluster m)],
     Secret_Owner = Some (controllerOwnerRef m), Secret_Data = [KubeconfigDataName \<mapsto> initStr]\<rparr>"

definition createBootstrapSecret :: "'w ControlPlaneClients \<Rightarrow> ManagedControlPlaneScope \<Rightarrow> OkeCluster \<Rightarrow> ('w, unit) cp_go" where
  "createBootstrapSecret c m okeCluster =
     go_bind (fetchRawConfig c okeCluster) (\<lambda>raw. case Option.bind raw currentKubeCluster of
       None \<Rightarrow> go_ret ()
     | Some (cx, cl) \<Rightarrow>
         go_bind (go_deref (OKE_Endpoints okeCluster)) (\<lambda>ep.
         go_bind (go_deref (EP_PrivateEndpoint ep)) (\<lambda>privateEndpoint.
         go_wrap ''failed to create kubeconfig secret''
           (ctl_call (sk_CreateSecret (cpc_Kube c) (bootstrapSecret m (bootstrapScript privateEndpoint cl)))))))"

definition ReconcileBootstrapSecret :: "'w ControlPlaneClients \<Rightarrow> OkeCluster \<Rightarrow> ('w, unit) cp_go" where
  "ReconcileBootstrapSecret c okeCluster =
     go_bind ctl_get (\<lambda>m.
     go_bind (go_try (ctl_call (sk_GetSecret (cpc_Kube c) (Capi_Namespace (MCP_Cluster m)) (bootstrapSecretName m)))) (\<lambda>x. case x of
       Inr _ \<Rightarrow> go_ret ()
     | Inl err \<Rightarrow>
         if \<not> sk_NotFound (cpc_Kube c) err then go_throw (ErrWrap ''failed to get kubeconfig secret'' err)
         else createBootstrapSecret c m okeCluster))"

end
