(* ===== verification/Control_Plane_Controller.thy ===== *)
theory Control_Plane_Controller
  imports Control_Plane_Secrets Control_Plane_Update
begin

text \<open>
  The controller of OCIManagedControlPlane objects (src/controllers/ocimanagedcluster_controlplane_controller.go):
  \<open>reconcile\<close> and \<open>reconcileDelete\<close>. The result is the time after which the object is queued again, in seconds; 0 stands for
  the empty result.
\<close>

definition mark_cp :: "(Condition list \<Rightarrow> Condition list) \<Rightarrow> ('w, unit) cp_go" where
  "mark_cp f = ctl_mod (upd_cp_status (\<lambda>st. st\<lparr>CPStatus_Conditions := f (CPStatus_Conditions st)\<rparr>))"

definition mod_cp_finalizers :: "(string list \<Rightarrow> string list) \<Rightarrow> ('w, unit) cp_go" where
  "mod_cp_finalizers f = ctl_mod (upd_cp (\<lambda>p. p\<lparr>CP_Finalizers := f (CP_Finalizers p)\<rparr>))"

section \<open>Reconciliation\<close>

definition okeStateText :: "OkeClusterState \<Rightarrow> string" where
  "okeStateText st = (case st of OkeCreating \<Rightarrow> ''CREATING'' | OkeUpdating \<Rightarrow> ''UPDATING'' | OkeActive \<Rightarrow> ''ACTIVE''
    | OkeDeleting \<Rightarrow> ''DELETING'' | OkeDeleted \<Rightarrow> ''DELETED'' | OkeStateOther txt \<Rightarrow> txt)"

definition publishEndpoint :: "OkeCluster \<Rightarrow> ('w, unit) cp_go" where
  "publishEndpoint oke =
     go_bind ctl_get (\<lambda>m.
     go_bind (go_deref (OKE_Endpoints oke)) (\<lambda>ep.
     go_bind (go_deref (if IsControlPlaneEndpointSubnetPublic m then EP_PublicEndpoint ep else EP_PrivateEndpoint ep)) (\<lambda>host.
     ctl_mod (upd_cp_spec (\<lambda>sp. sp\<lparr>CPSpec_ControlPlaneEndpoint := \<lparr>APIEndpoint_Host = host, APIEndpoint_Port = 6443\<rparr>\<rparr>)))))"

definition reconcileActive :: "(string list \<Rightarrow> string list) \<Rightarrow> 'w ControlPlaneClients \<Rightarrow> OkeCluster \<Rightarrow> ('w, int) cp_go" where
  "reconcileActive iter c oke =
     go_seq (publishEndpoint oke)
     (go_seq (ctl_mod (upd_cp_status (\<lambda>st. st\<lparr>CPStatus_Version := OKE_KubernetesVersion oke\<rparr>)))
     (go_seq (record_event EventTypeNormal ''ControlPlaneReady'' ''Managed control plane is in ready state'')
     (go_seq (mark_cp (kube_MarkTrue (cpc_Lib c) ControlPlaneReadyCondition))
     (go_seq (ctl_mod (upd_cp_status (\<lambda>st. st\<lparr>CPStatus_Ready := True\<rparr>)))
     (go_seq (ReconcileKubeconfig c oke)
     (go_seq (ReconcileBootstrapSecret c oke)
     (go_bind (UpdateControlPlane c oke) (\<lambda>isUpdated.
     if isUpdated then go_ret 30
     else go_seq (ReconcileAddons iter c oke) (go_ret 180)))))))))"

definition reconcileOkeState :: "(string list \<Rightarrow> string list) \<Rightarrow> 'w ControlPlaneClients \<Rightarrow> OkeCluster \<Rightarrow> ('w, int) cp_go" where
  "reconcileOkeState iter c oke = (case OKE_LifecycleState oke of
      OkeCreating \<Rightarrow> go_seq (mark_cp (kube_MarkFalse (cpc_Lib c) ControlPlaneReadyCondition ControlPlaneNotReadyReason)) (go_ret 30)
    | OkeUpdating \<Rightarrow>
        go_seq (record_event EventTypeNormal ''ControlPlaneUpdating'' ''Managed control plane is in updating state'')
        (go_seq (mark_cp (kube_MarkTrue (cpc_Lib c) ControlPlaneReadyCondition)) (go_ret 30))
    | OkeActive \<Rightarrow> reconcileActive iter c oke
    | st \<Rightarrow>
        go_seq (mark_cp (kube_MarkFalse (cpc_Lib c) ControlPlaneReadyCondition ControlPlaneProvisionFailedReason))
        (go_seq (record_event EventTypeWarning ''ReconcileError''
          (''Managed control plane has invalid lifecycle state '' @ okeStateText st))
        (go_throw (ErrNew (''Control plane has invalid lifecycle state '' @ okeStateText st)))))"

definition cp_reconcile :: "(string list \<Rightarrow> string list) \<Rightarrow> 'w ControlPlaneClients \<Rightarrow> ('w, int) cp_go" where
  "cp_reconcile iter c =
     go_seq (mod_cp_finalizers (kube_AddFinalizer (cpc_Lib c) ControlPlaneFinalizer))
     (go_bind (go_try (GetOrCreateControlPlane c)) (\<lambda>x. case x of
       Inr oke \<Rightarrow> reconcileOkeState iter c oke
     | Inl err \<Rightarrow>
         go_seq (record_event EventTypeWarning ''ReconcileError''
           (Error (ErrWrap ''Failed to reconcile OCIManagedcontrolPlane'' err)))
         (go_bind ctl_get (\<lambda>m. go_throw (ErrWrap (''failed to reconcile OCI Managed Control Plane '' @
           CP_Namespace (cp_object m) @ ''/'' @ cp_GetClusterName m) err)))))"

section \<open>Deletion\<close>

definition set_cp_not_ready :: "('w, unit) cp_go" where
  "set_cp_not_ready = ctl_mod (upd_cp_status (\<lambda>st. st\<lparr>CPStatus_Ready := False\<rparr>))"

definition removeControlPlaneFinalizer :: "'w ControlPlaneClients \<Rightarrow> ('w, unit) cp_go" where
  "removeControlPlaneFinalizer c = mod_cp_finalizers (kube_RemoveFinalizer (cpc_Lib c) ControlPlaneFinalizer)"

definition deleteFoundControlPlane :: "'w ControlPlaneClients \<Rightarrow> OkeCluster \<Rightarrow> ('w, int) cp_go" where
  "deleteFoundControlPlane c cluster = (case OKE_LifecycleState cluster of
      OkeDeleting \<Rightarrow>
        go_seq set_cp_not_ready
        (go_seq (mark_cp (kube_MarkFalse (cpc_Lib c) ControlPlaneReadyCondition ControlPlaneDeletionInProgress))
        (go_seq (record_event EventTypeWarning ''DeletionInProgress'' ''Managed control plane deletion in progress'') (go_ret 30)))
    | OkeDeleted \<Rightarrow>
        go_seq (mark_cp (kube_MarkFalse (cpc_Lib c) ControlPlaneReadyCondition ControlPlaneDeletedReason))
        (go_seq (removeControlPlaneFinalizer c) (go_ret 0))
    | _ \<Rightarrow>
        go_bind ctl_get (\<lambda>m.
        go_seq (go_wrap (''error deleting cluster '' @ cp_GetClusterName m) (DeleteOKECluster c cluster))
        (go_seq (mark_cp (kube_MarkFalse (cpc_Lib c) ControlPlaneReadyCondition ControlPlaneDeletionInProgress)) (go_ret 30))))"

definition cp_reconcileDelete :: "'w ControlPlaneClients \<Rightarrow> ('w, int) cp_go" where
  "cp_reconcileDelete c =
     go_bind (go_try (GetOKECluster c)) (\<lambda>x. case x of
       Inl err \<Rightarrow>
         if IsNotFound (Some err)
         then go_seq (removeControlPlaneFinalizer c)
           (go_seq (mark_cp (kube_MarkTrue (cpc_Lib c) ControlPlaneNotFoundReason))
           (go_seq set_cp_not_ready (go_ret 0)))
         else go_throw err
     | Inr None \<Rightarrow> go_seq (removeControlPlaneFinalizer c) (go_ret 0)
     | Inr (Some cluster) \<Rightarrow> deleteFoundControlPlane c cluster)"

end
