(* ===== verification/Control_Plane_Samples.thy ===== *)
theory Control_Plane_Samples
  imports Control_Plane_Settling Control_Plane_Controller
begin

text \<open>
  A managed control plane and a cloud for it, as instances of the parameters: the state of the cloud is the list of its
  clusters, the list of the addons of the one cluster, and the secrets of Kubernetes. A new cluster and a new addon are active at
  once, and a deletion takes effect at once.
\<close>

type_synonym oke_world = "OkeCluster list \<times> SdkAddon list \<times> Secret list"

definition world_cluster_at :: "oke_world \<Rightarrow> string \<Rightarrow> OkeCluster option" where
  "world_cluster_at w k = find (\<lambda>cl. OKE_Id cl = Some k) (fst w)"

definition addon_at :: "oke_world \<Rightarrow> string \<Rightarrow> SdkAddon option" where
  "addon_at w n = find (\<lambda>a. SA_Name a = Some n) (fst (snd w))"

definition stored_cluster :: "CreateClusterDetails \<Rightarrow> OkeCluster" where
  "stored_cluster d = \<lparr>OKE_Id = Some ''oke-1'', OKE_Name = Some (CC_Name d), OKE_KubernetesVersion = CC_KubernetesVersion d,
     OKE_KmsKeyId = CC_KmsKeyId d, OKE_FreeformTags = CC_FreeformTags d, OKE_DefinedTags = Some (CC_DefinedTags d),
     OKE_Options = Some (CC_Options d), OKE_ImagePolicyConfig = CC_ImagePolicyConfig d,
     OKE_ClusterPodNetworkOptions = CC_ClusterPodNetworkOptions d,
     OKE_Endpoints = Some \<lparr>EP_PublicEndpoint = Some ''192.0.2.1'', EP_PrivateEndpoint = Some ''10.0.0.2:6443''\<rparr>,
     OKE_LifecycleState = OkeActive, OKE_Type = CC_Type d\<rparr>"

definition updated_cluster :: "UpdateClusterDetails \<Rightarrow> OkeCluster \<Rightarrow> OkeCluster" where
  "updated_cluster d cl = (let o' = cluster_options cl; u = UC_Options d in
     cl\<lparr>OKE_Name := Some (UC_Name d), OKE_KubernetesVersion := given (UC_KubernetesVersion d) (OKE_KubernetesVersion cl),
       OKE_FreeformTags := UC_FreeformTags d, OKE_DefinedTags := Some (UC_DefinedTags d),
       OKE_ImagePolicyConfig := given (UC_ImagePolicyConfig d) (OKE_ImagePolicyConfig cl),
       OKE_Type := (if UC_Type d = '''' then OKE_Type cl else UC_Type d),
       OKE_Options := Some (o'
         \<lparr>UO_AdmissionControllerOptions := given (UO_AdmissionControllerOptions u) (UO_AdmissionControllerOptions o'),
          UO_OpenIdConnectDiscovery := given (UO_OpenIdConnectDiscovery u) (UO_OpenIdConnectDiscovery o'),
          UO_OpenIdConnectTokenAuthenticationConfig :=
            given (UO_OpenIdConnectTokenAuthenticationConfig u) (UO_OpenIdConnectTokenAuthenticationConfig o')\<rparr>)\<rparr>)"

lemma updated_cluster_takes: "takes_update d cl (updated_cluster d cl)"
  by (simp add: takes_update_def updated_cluster_def Let_def)

definition stored_addon :: "string \<Rightarrow> AddonDetails \<Rightarrow> SdkAddon" where
  "stored_addon n d = \<lparr>SA_Name = Some n, SA_Version = AD_Version d, SA_CurrentInstalledVersion = AD_Version d,
     SA_Configurations = AD_Configurations d, SA_AddonError = None, SA_LifecycleState = ''ACTIVE''\<rparr>"

definition put_addon :: "string option \<Rightarrow> AddonDetails \<Rightarrow> (oke_world, unit) go" where
  "put_addon name d w = (case name of
      None \<Rightarrow> (Err (ErrNew ''no name''), w)
    | Some n \<Rightarrow> (Ret (), (fst w, stored_addon n d # filter (\<lambda>a. SA_Name a \<noteq> Some n) (fst (snd w)), snd (snd w))))"

definition drop_addon :: "string option \<Rightarrow> (oke_world, unit) go" where
  "drop_addon name w = (case name of
      None \<Rightarrow> (Err (ErrNew ''no name''), w)
    | Some n \<Rightarrow> (Ret (), (fst w, filter (\<lambda>a. SA_Name a \<noteq> Some n) (fst (snd w)), snd (snd w))))"

definition oke_engine :: "oke_world ContainerEngineApi" where
  "oke_engine =
     \<lparr>api_CreateCluster = (\<lambda>d _ w. (Ret (Some ''wr''), (stored_cluster d # fst w, snd w))),
      api_GetOkeWorkRequest = (\<lambda>_. go_ret \<lparr>OWR_Resources = [\<lparr>WRR_EntityType = Some ''cluster'', WRR_Identifier = Some ''oke-1''\<rparr>],
        OWR_OpcRequestId = Some ''req''\<rparr>),
      api_GetCluster = (\<lambda>i w. (case Option.bind i (world_cluster_at w) of None \<Rightarrow> Err not_found_err | Some cl \<Rightarrow> Ret cl, w)),
      api_ListClusters = (\<lambda>name _ _ w. (Ret (map (\<lambda>cl. \<lparr>CSum_Id = OKE_Id cl, CSum_FreeformTags = OKE_FreeformTags cl\<rparr>)
        (filter (\<lambda>cl. OKE_Name cl = Some name) (fst w)), None), w)),
      api_UpdateCluster = (\<lambda>i d w. (Ret (), (map (\<lambda>cl. if OKE_Id cl = i then updated_cluster d cl else cl) (fst w), snd w))),
      api_DeleteCluster = (\<lambda>i w. (Ret (), (map (\<lambda>cl. if OKE_Id cl = i then cl\<lparr>OKE_LifecycleState := OkeDeleted\<rparr> else cl) (fst w), snd w))),
      api_CreateKubeconfig = (\<lambda>_. go_ret ''kubeconfig''),
      api_GetAddon = (\<lambda>_ name w. (case Option.bind name (addon_at w) of None \<Rightarrow> Err not_found_err | Some a \<Rightarrow> Ret a, w)),
      api_InstallAddon = (\<lambda>_. put_addon), api_UpdateAddon = (\<lambda>_. put_addon), api_DisableAddon = (\<lambda>_ name _. drop_addon name),
      api_GenerateToken = (\<lambda>_. go_ret ''token'')\<rparr>"

definition secret_at :: "oke_world \<Rightarrow> string \<Rightarrow> string \<Rightarrow> Secret option" where
  "secret_at w ns n = find (\<lambda>s. Secret_Namespace s = ns \<and> Secret_Name s = n) (snd (snd w))"

definition oke_secrets :: "oke_world SecretKube" where
  "oke_secrets =
     \<lparr>sk_GetKubeconfigSecret = (\<lambda>ns n w. (case secret_at w ns (n @ ''-kubeconfig'') of None \<Rightarrow> Err not_found_err | Some s \<Rightarrow> Ret s, w)),
      sk_GetSecret = (\<lambda>ns n w. (case secret_at w ns n of None \<Rightarrow> Err not_found_err | Some s \<Rightarrow> Ret s, w)),
      sk_CreateSecret = (\<lambda>s w. (Ret (), (fst w, fst (snd w), s # snd (snd w)))),
      sk_UpdateSecret = (\<lambda>s w. (Ret (), (fst w, fst (snd w), map (\<lambda>t. if Secret_Name t = Secret_Name s then s else t) (snd (snd w))))),
      sk_NotFound = (\<lambda>e. e = not_found_err)\<rparr>"

definition sample_config :: KubeConfig where
  "sample_config = \<lparr>KC_APIVersion = ''v1'', KC_Clusters = Some [''cl'' \<mapsto> \<lparr>KCl_Server = ''https://10.0.0.2:6443'', KCl_CertificateAuthorityData = ''ca''\<rparr>],
     KC_Contexts = Some [''cx'' \<mapsto> \<lparr>KCx_Cluster = ''cl'', KCx_AuthInfo = ''user''\<rparr>], KC_AuthInfos = Some Map.empty,
     KC_CurrentContext = ''cx'', KC_Other = ''''\<rparr>"

definition sample_tools :: KubeTools where
  "sample_tools = \<lparr>kt_RawConfig = (\<lambda>_. Inr sample_config), kt_Load = (\<lambda>_. Inr sample_config), kt_Write = (\<lambda>_. Inr ''yaml''),
     kt_GenerateSecretWithOwner = (\<lambda>ns n data owner. \<lparr>Secret_Name = n @ ''-kubeconfig'', Secret_Namespace = ns, Secret_Labels = Map.empty,
       Secret_Owner = Some owner, Secret_Data = [KubeconfigDataName \<mapsto> data]\<rparr>),
     kt_Version = ''__internal''\<rparr>"

definition sample_cp_clients :: "oke_world ControlPlaneClients" where
  "sample_cp_clients = \<lparr>cpc_ContainerEngine = oke_engine, cpc_Kube = oke_secrets, cpc_Tools = sample_tools, cpc_Lib = sample_kube\<rparr>"

definition sample_addon :: Addon where
  "sample_addon = \<lparr>Addon_Name = Some ''CoreDNS'', Addon_Version = Some ''v1'', Addon_Configurations = None\<rparr>"

definition sample_control_plane :: OCIManagedControlPlane where
  "sample_control_plane = \<lparr>CP_Name = ''prod'', CP_Namespace = ''ns'', CP_UID = ''u'', CP_Finalizers = [ControlPlaneFinalizer],
     CP_Spec = \<lparr>CPSpec_ID = None, CPSpec_ClusterPodNetworkOptions = [FlannelCNI], CPSpec_ImagePolicyConfig = None,
       CPSpec_ClusterOption = \<lparr>CO_AddOnOptions = None, CO_AdmissionControllerOptions = None, CO_OpenIdConnectDiscovery = None,
         CO_OpenIdConnectTokenAuthenticationConfig = None\<rparr>,
       CPSpec_ClusterType = EnhancedClusterType, CPSpec_KmsKeyId = None,
       CPSpec_ControlPlaneEndpoint = \<lparr>APIEndpoint_Host = '''', APIEndpoint_Port = 0\<rparr>, CPSpec_Addons = [sample_addon],
       CPSpec_Version = Some ''v1.30.1''\<rparr>,
     CP_Status = \<lparr>CPStatus_Ready = False, CPStatus_Conditions = [], CPStatus_Version = None,
       CPStatus_AddonStatus = [(''Old'', \<lparr>AStat_CurrentlyInstalledVersion = None, AStat_AddonError = None, AStat_LifecycleState = None\<rparr>)],
       CPStatus_Initialized = False\<rparr>\<rparr>"

definition sample_cp :: ManagedControlPlaneScope where
  "sample_cp = \<lparr>MCP_Cluster = \<lparr>Capi_Name = ''prod'', Capi_InfrastructureProvisioned = Some True, Capi_Namespace = ''ns'',
       Capi_PodsCIDRBlocks = [], Capi_ServicesCIDRBlocks = []\<rparr>,
     MCP_OCIManagedControlPlane = sample_control_plane, MCP_OCIClusterAccessor = sample_scope\<rparr>"

lemma sample_cp_simps [simp]:
  "cp_object sample_cp = sample_control_plane" "MCP_OCIClusterAccessor sample_cp = sample_scope"
  "CPSpec_Addons (CP_Spec sample_control_plane) = [sample_addon]" "CPSpec_ID (CP_Spec sample_control_plane) = None"
  "Addon_Name sample_addon = Some ''CoreDNS''" "CP_Finalizers sample_control_plane = [ControlPlaneFinalizer]"
  by (simp_all add: sample_cp_def sample_control_plane_def sample_addon_def)

lemma sample_cp_clients_simps [simp]:
  "cpc_ContainerEngine sample_cp_clients = oke_engine" "cpc_Kube sample_cp_clients = oke_secrets"
  "cpc_Tools sample_cp_clients = sample_tools" "cpc_Lib sample_cp_clients = sample_kube"
  by (simp_all add: sample_cp_clients_def)

lemma oke_engine_simps [go_simps]:
  "api_GetCluster oke_engine i w = (case Option.bind i (world_cluster_at w) of None \<Rightarrow> Err not_found_err | Some cl \<Rightarrow> Ret cl, w)"
  "api_ListClusters oke_engine nm cid page w = (Ret (map (\<lambda>cl. \<lparr>CSum_Id = OKE_Id cl, CSum_FreeformTags = OKE_FreeformTags cl\<rparr>)
     (filter (\<lambda>cl. OKE_Name cl = Some nm) (fst w)), None), w)"
  "api_GetAddon oke_engine i name w = (case Option.bind name (addon_at w) of None \<Rightarrow> Err not_found_err | Some a \<Rightarrow> Ret a, w)"
  "api_InstallAddon oke_engine i name d w = put_addon name d w" "api_UpdateAddon oke_engine i name d w = put_addon name d w"
  "api_DisableAddon oke_engine i name b w = drop_addon name w"
  by (simp_all add: oke_engine_def)

text \<open>A cluster with the id and the pod network of the spec and with the defaults of the service settles after its update; with another key it does not.\<close>

definition settled_cp :: ManagedControlPlaneScope where
  "settled_cp = upd_cp_spec (\<lambda>sp. sp\<lparr>CPSpec_ID := Some ''oke-1''\<rparr>) sample_cp"

definition plain_cluster :: "string option \<Rightarrow> OkeCluster" where
  "plain_cluster key = \<lparr>OKE_Id = Some ''oke-1'', OKE_Name = Some ''prod'', OKE_KubernetesVersion = Some ''v1.29.1'', OKE_KmsKeyId = key,
     OKE_FreeformTags = Map.empty, OKE_DefinedTags = None,
     OKE_Options = Some (no_options\<lparr>UO_AdmissionControllerOptions := Some \<lparr>AC_IsPodSecurityPolicyEnabled = Some False\<rparr>,
       ClO_AddOns := Some \<lparr>AO_IsKubernetesDashboardEnabled = Some False, AO_IsTillerEnabled = Some False\<rparr>\<rparr>),
     OKE_ImagePolicyConfig = Some \<lparr>IP_IsPolicyEnabled = Some False, IP_KeyDetails = []\<rparr>, OKE_ClusterPodNetworkOptions = [FlannelOverlayPodNetwork],
     OKE_Endpoints = None, OKE_LifecycleState = OkeActive, OKE_Type = EnhancedClusterType\<rparr>"

theorem UpdateControlPlane_settles_iff_witness:
  "UpdateControlPlane sample_cp_clients (updated_cluster (updateClusterDetails settled_cp) (plain_cluster None)) ((settled_cp, ([], [], [])), []) =
     (Ret False, ((settled_cp, ([], [], [])), [])) \<and>
   UpdateControlPlane sample_cp_clients (updated_cluster (updateClusterDetails settled_cp) (plain_cluster (Some ''key''))) ((settled_cp, ([], [], [])), []) \<noteq>
     (Ret False, ((settled_cp, ([], [], [])), []))"
  unfolding UpdateControlPlane_settles_iff [OF updated_cluster_takes]
  by (simp add: rest_agrees_def settled_cp_def upd_cp_spec_def sample_cp_def sample_control_plane_def plain_cluster_def cluster_options_def
      no_options_def Let_def cniType_def upd_cp_def)

end
