(* ===== verification/Control_Plane_Addons.thy ===== *)
theory Control_Plane_Addons
  imports Control_Plane_Samples
begin

text \<open>
  The addons of a managed control plane: which of them \<open>ReconcileAddons\<close> installs, updates, disables and forgets.
\<close>

section \<open>The service\<close>

text \<open>The addons of the cluster with the id \<open>i\<close> are a table by name. An addon departs while its state is \<open>DELETING\<close> or \<open>DELETED\<close>; it
  has left when it departs or is not there. A request that fails changes nothing, one that succeeds changes the addon that it names only: after
  an installation it is there and does not depart, an update keeps it and does not make it depart, and an addon that has been
  disabled with its removal asked for (\<open>IsRemoveExistingAddOn\<close>) is gone or departs. Nothing is said of the state after a disabling that leaves the
  addon in place.\<close>

definition addon_departing :: "SdkAddon option \<Rightarrow> bool" where
  "addon_departing a = (case a of None \<Rightarrow> False | Some a' \<Rightarrow> SA_LifecycleState a' \<in> {AddonStateDeleting, AddonStateDeleted})"

definition addon_leaving :: "SdkAddon option \<Rightarrow> bool" where
  "addon_leaving a \<longleftrightarrow> a = None \<or> addon_departing a"

definition changes_addon ::
  "('w, SdkAddon) table \<Rightarrow> string option \<Rightarrow> (SdkAddon option \<Rightarrow> SdkAddon option \<Rightarrow> bool) \<Rightarrow> ('w, unit) go \<Rightarrow> bool" where
  "changes_addon tbl name P m \<longleftrightarrow> answers m \<and> (\<forall>w.
     (\<forall>n. name \<noteq> Some n \<longrightarrow> tbl (snd (m w)) n = tbl w n) \<and>
     (fst (m w) \<noteq> Ret () \<longrightarrow> tbl (snd (m w)) = tbl w) \<and>
     (fst (m w) = Ret () \<longrightarrow> (\<exists>n. name = Some n \<and> P (tbl w n) (tbl (snd (m w)) n))))"

abbreviation installed_addon :: "SdkAddon option \<Rightarrow> SdkAddon option \<Rightarrow> bool" where
  "installed_addon \<equiv> \<lambda>_ after. \<not> addon_leaving after"

abbreviation updated_addon :: "SdkAddon option \<Rightarrow> SdkAddon option \<Rightarrow> bool" where
  "updated_addon \<equiv> \<lambda>before after. after \<noteq> None \<and> (\<not> addon_departing before \<longrightarrow> \<not> addon_departing after)"

definition lawful_addons :: "('w, SdkAddon) table \<Rightarrow> string option \<Rightarrow> 'w ContainerEngineApi \<Rightarrow> bool" where
  "lawful_addons tbl i a \<longleftrightarrow>
     (\<forall>name. read_only (api_GetAddon a i name)) \<and>
     (\<forall>n w ad. fst (api_GetAddon a i (Some n) w) = Ret ad \<longrightarrow> tbl w n = Some ad) \<and>
     (\<forall>n w e. fst (api_GetAddon a i (Some n) w) = Err e \<longrightarrow> IsNotFound (Some e) \<longrightarrow> tbl w n = None) \<and>
     (\<forall>w n ad. tbl w n = Some ad \<longrightarrow> SA_Name ad = Some n) \<and>
     (\<forall>name d. changes_addon tbl name installed_addon (api_InstallAddon a i name d)) \<and>
     (\<forall>name d. changes_addon tbl name updated_addon (api_UpdateAddon a i name d)) \<and>
     (\<forall>name. changes_addon tbl name (\<lambda>_. addon_leaving) (api_DisableAddon a i name True))"

lemma lawful_addonsD:
  assumes "lawful_addons tbl i a"
  shows "read_only (api_GetAddon a i name)"
    "fst (api_GetAddon a i (Some n) w) = Ret ad \<Longrightarrow> tbl w n = Some ad"
    "fst (api_GetAddon a i (Some n) w) = Err e \<Longrightarrow> IsNotFound (Some e) \<Longrightarrow> tbl w n = None"
    "tbl w n = Some ad \<Longrightarrow> SA_Name ad = Some n"
    "changes_addon tbl name installed_addon (api_InstallAddon a i name d)"
    "changes_addon tbl name updated_addon (api_UpdateAddon a i name d)"
    "changes_addon tbl name (\<lambda>_. addon_leaving) (api_DisableAddon a i name True)"
  using assms unfolding lawful_addons_def by blast+

lemma changes_addonD:
  assumes "changes_addon tbl name P m"
  shows "name \<noteq> Some n \<Longrightarrow> tbl (snd (m w)) n = tbl w n" "fst (m w) \<noteq> Ret () \<Longrightarrow> tbl (snd (m w)) n = tbl w n"
    "fst (m w) = Ret () \<Longrightarrow> name = Some n \<Longrightarrow> P (tbl w n) (tbl (snd (m w)) n)"
    "fst (m w) = Ret () \<Longrightarrow> \<exists>n. name = Some n"
  using assms unfolding changes_addon_def by fastforce+

section \<open>One addon\<close>

abbreviation addon_names :: "ManagedControlPlaneScope \<Rightarrow> string option set" where
  "addon_names m \<equiv> Addon_Name ` set (CPSpec_Addons (cp_spec m))"

abbreviation addon_statuses :: "ManagedControlPlaneScope \<Rightarrow> string \<Rightarrow> AddonStatus option" where
  "addon_statuses m \<equiv> map_of (CPStatus_AddonStatus (CP_Status (cp_object m)))"

text \<open>From \<open>x\<close> to \<open>y\<close> only the addons that \<open>S\<close> names have changed, and none of the spec has gone.\<close>

definition addons_step :: "('w, SdkAddon) table \<Rightarrow> string set \<Rightarrow> (ManagedControlPlaneScope, 'w) ctl \<Rightarrow>
    (ManagedControlPlaneScope, 'w) ctl \<Rightarrow> bool" where
  "addons_step tbl S x y \<longleftrightarrow> cp_spec (ctl_scope y) = cp_spec (ctl_scope x) \<and> (\<forall>n. n \<notin> S \<longrightarrow>
     tbl (ctl_cloud y) n = tbl (ctl_cloud x) n \<and> addon_statuses (ctl_scope y) n = addon_statuses (ctl_scope x) n)"

lemma addons_step_order: "reflp (addons_step tbl S)" "transp (addons_step tbl S)"
  by (auto simp: addons_step_def reflp_def transp_def)

lemma addons_step_mono: "S \<subseteq> T \<Longrightarrow> addons_step tbl S x y \<Longrightarrow> addons_step tbl T x y"
  unfolding addons_step_def by blast

lemma cp_engine_apply [go_simps]:
  "cp_engine c f x = (fst (f (cpc_ContainerEngine c) (ctl_cloud x)), ((ctl_scope x, snd (f (cpc_ContainerEngine c) (ctl_cloud x))), snd x))"
  by (simp add: cp_engine_def ctl_call_apply)

lemma upd_cp_simps [simp]: "cp_object (upd_cp f m) = f (cp_object m)"
  by (simp add: upd_cp_def)

text \<open>An addon of the spec: nothing that is there goes away or starts to depart, and after a success it is there and has a status.\<close>

definition addon_kept :: "('w, SdkAddon) table \<Rightarrow> (ManagedControlPlaneScope, 'w) ctl \<Rightarrow> (ManagedControlPlaneScope, 'w) ctl \<Rightarrow> bool" where
  "addon_kept tbl x y \<longleftrightarrow> (\<forall>n. (tbl (ctl_cloud x) n \<noteq> None \<longrightarrow> tbl (ctl_cloud y) n \<noteq> None) \<and>
     (\<not> addon_departing (tbl (ctl_cloud x) n) \<longrightarrow> \<not> addon_departing (tbl (ctl_cloud y) n)) \<and>
     (addon_statuses (ctl_scope x) n \<noteq> None \<longrightarrow> addon_statuses (ctl_scope y) n \<noteq> None))"

lemma addon_kept_order: "reflp (addon_kept tbl)" "transp (addon_kept tbl)"
  by (auto simp: addon_kept_def reflp_def transp_def)

text \<open>A request on one addon, as a step of the scope.\<close>

lemma change_run:
  assumes chg: "changes_addon tbl name P (f (cpc_ContainerEngine c))" and run: "cp_engine c f x = (r, y)"
  shows "addons_step tbl {n. name = Some n} x y" and "r \<noteq> Ret () \<Longrightarrow> tbl (ctl_cloud y) n = tbl (ctl_cloud x) n"
    and "r = Ret () \<Longrightarrow> name = Some n \<Longrightarrow> P (tbl (ctl_cloud x) n) (tbl (ctl_cloud y) n)" and "ctl_scope y = ctl_scope x"
  using run changes_addonD [OF chg] by (auto simp: go_simps addons_step_def)

lemma get_run:
  assumes law: "lawful_addons tbl (OKE_Id oke) (cpc_ContainerEngine c)"
    and run: "cp_engine c (\<lambda>a. api_GetAddon a (OKE_Id oke) name) x = (r, y)"
  shows "y = x" and "r = Ret ad \<Longrightarrow> name = Some n \<Longrightarrow> tbl (ctl_cloud x) n = Some ad"
    and "r = Err e \<Longrightarrow> IsNotFound (Some e) \<Longrightarrow> name = Some n \<Longrightarrow> tbl (ctl_cloud x) n = None"
  using run lawful_addonsD(1-3) [OF law] by (auto simp: go_simps read_only_def prod_eq_iff)

lemma status_run:
  "mod_addon_status (SetAddonStatus n st) x = (r, y) \<Longrightarrow>
     r = Ret () \<and> ctl_cloud y = ctl_cloud x \<and> cp_spec (ctl_scope y) = cp_spec (ctl_scope x) \<and>
     addon_statuses (ctl_scope y) = (addon_statuses (ctl_scope x))(n \<mapsto> st)"
  "mod_addon_status (RemoveAddonStatus n) x = (r, y) \<Longrightarrow>
     r = Ret () \<and> ctl_cloud y = ctl_cloud x \<and> cp_spec (ctl_scope y) = cp_spec (ctl_scope x) \<and>
     addon_statuses (ctl_scope y) = (addon_statuses (ctl_scope x))(n := None)"
  by (auto simp: mod_addon_status_def go_simps)

definition addon_done :: "('w, SdkAddon) table \<Rightarrow> Addon \<Rightarrow> (ManagedControlPlaneScope, 'w) ctl \<Rightarrow> bool" where
  "addon_done tbl a y \<longleftrightarrow> (\<exists>n. Addon_Name a = Some n \<and> tbl (ctl_cloud y) n \<noteq> None \<and> addon_statuses (ctl_scope y) n \<noteq> None)"

lemma install_run:
  assumes law: "lawful_addons tbl (OKE_Id oke) (cpc_ContainerEngine c)" and run: "installAddon c oke a x = (r, y)"
  shows "addons_step tbl {n. Addon_Name a = Some n} x y \<and> addon_kept tbl x y \<and> (r = Ret () \<longrightarrow> addon_done tbl a y)"
proof (cases "Addon_Name a")
  case None
  with run show ?thesis by (simp add: installAddon_def go_simps addons_step_def addon_kept_def)
next
  case (Some n)
  let ?p = "cp_engine c (\<lambda>a'. api_InstallAddon a' (OKE_Id oke) (Addon_Name a) (addonDetails a))"
  obtain q z where p: "?p x = (q, z)" by (cases "?p x")
  note chg = change_run [OF lawful_addonsD(5) [OF law] p]
  show ?thesis
  proof (cases "q = Ret ()")
    case True
    with run p Some obtain st where "mod_addon_status (SetAddonStatus n st) z = (r, y)" by (auto simp: installAddon_def go_bind_apply go_seq_apply go_deref_apply)
    from status_run(1) [OF this] chg(1,4) chg(3) [OF True Some] Some show ?thesis
      unfolding addons_step_def addon_kept_def addon_done_def addon_leaving_def by auto
  next
    case False
    with run p Some have "y = z" "r \<noteq> Ret ()" by (auto simp: installAddon_def go_bind_apply go_seq_apply go_deref_apply split: res.splits)
    with chg(1,2,4) False show ?thesis unfolding addon_kept_def by auto
  qed
qed

lemma existing_run:
  assumes law: "lawful_addons tbl (OKE_Id oke) (cpc_ContainerEngine c)" and run: "handleExistingAddon c oke ad a x = (r, y)"
    and ad: "tbl (ctl_cloud x) n = Some ad"
  shows "addons_step tbl {n} x y \<and> addon_kept tbl x y \<and> tbl (ctl_cloud y) n \<noteq> None"
proof -
  let ?p = "cp_engine c (\<lambda>a'. api_UpdateAddon a' (OKE_Id oke) (SA_Name ad) (addonDetails a))"
  obtain q z where p: "?p x = (q, z)" by (cases "?p x")
  from lawful_addonsD(4) [OF law ad] have n: "SA_Name ad = Some n" .
  note chg = change_run [OF lawful_addonsD(6) [OF law] p]
  have *: "tbl (ctl_cloud z) n \<noteq> None" "\<not> addon_departing (tbl (ctl_cloud x) n) \<longrightarrow> \<not> addon_departing (tbl (ctl_cloud z) n)"
    using chg(2,3) [of n] n ad by (cases "q = Ret ()"; auto)+
  from run p n have "y = x \<or> y = z" by (auto simp: handleExistingAddon_def go_bind_apply go_deref_apply go_ret_apply split: if_splits)
  with chg(1,4) * ad n show ?thesis unfolding addons_step_def addon_kept_def by (auto; metis)
qed

lemma reconcileAddon_run:
  assumes law: "lawful_addons tbl (OKE_Id oke) (cpc_ContainerEngine c)" and run: "reconcileAddon c oke a x = (r, y)"
  shows "addons_step tbl {n. Addon_Name a = Some n} x y \<and> addon_kept tbl x y \<and> (r = Ret () \<longrightarrow> addon_done tbl a y)"
proof -
  let ?g = "cp_engine c (\<lambda>a'. api_GetAddon a' (OKE_Id oke) (Addon_Name a))"
  obtain q z where g: "?g x = (q, z)" by (cases "?g x")
  note get = get_run [OF law g]
  show ?thesis
  proof (cases q)
    case (Err e)
    with run g get(1) install_run [OF law, of a x r y] show ?thesis
      by (auto simp: reconcileAddon_def go_bind_apply go_try_apply go_throw_apply addons_step_def addon_kept_def split: if_splits)
  next
    case (Ret ad)
    show ?thesis
    proof (cases "Addon_Name a")
      case None
      with run g get(1) Ret show ?thesis
        by (auto simp: reconcileAddon_def go_bind_apply go_try_apply go_deref_apply addons_step_def addon_kept_def)
    next
      case (Some n)
      with run g get(1) Ret obtain u where
        u: "mod_addon_status (SetAddonStatus n (addonStatus ad)) x = (Ret (), u)" and ex: "handleExistingAddon c oke ad a u = (r, y)"
        by (auto simp: reconcileAddon_def go_bind_apply go_try_apply go_deref_apply go_seq_apply mod_addon_status_def ctl_mod_apply)
      from status_run(1) [OF u] get(2) [OF Ret Some] have "tbl (ctl_cloud u) n = Some ad" by simp
      from existing_run [OF law ex this] status_run(1) [OF u] Some show ?thesis
        unfolding addons_step_def addon_kept_def addon_done_def by auto
    qed
  qed (use run g get(1) in \<open>auto simp: reconcileAddon_def go_bind_apply go_try_apply addons_step_def addon_kept_def\<close>)
qed

text \<open>An addon that is there is updated unless it is being updated, has failed, or (in any other state but \<open>NEEDS_ATTENTION\<close>) has the version and configuration
  of the spec. Otherwise it is left as it is, also when it departs.\<close>

definition addon_update_due :: "SdkAddon \<Rightarrow> Addon \<Rightarrow> bool" where
  "addon_update_due ad a \<longleftrightarrow> \<not> (SA_LifecycleState ad = AddonStateUpdating \<or> SA_LifecycleState ad = AddonStateFailed) \<and> addonChanged ad a"

lemma reconcileAddon_leaves:
  assumes law: "lawful_addons tbl (OKE_Id oke) (cpc_ContainerEngine c)" and run: "reconcileAddon c oke a x = (r, y)"
    and ad: "tbl (ctl_cloud x) n = Some ad" and same: "Addon_Name a = Some n \<Longrightarrow> \<not> addon_update_due ad a"
  shows "tbl (ctl_cloud y) n = Some ad"
proof (cases "Addon_Name a = Some n")
  case False
  with reconcileAddon_run [OF law run] ad show ?thesis by (simp add: addons_step_def)
next
  case True
  let ?g = "cp_engine c (\<lambda>a'. api_GetAddon a' (OKE_Id oke) (Addon_Name a))"
  obtain q z where g: "?g x = (q, z)" by (cases "?g x")
  note get = get_run [OF law g]
  show ?thesis
  proof (cases q)
    case (Err e)
    with get(3) [OF Err _ True] ad have "\<not> IsNotFound (Some e)" by auto
    with run g get(1) Err ad show ?thesis by (simp add: reconcileAddon_def go_bind_apply go_try_apply go_throw_apply)
  next
    case (Ret found)
    with get(2) [OF Ret True] ad have "found = ad" by simp
    with run g get(1) Ret True same ad lawful_addonsD(4) [OF law ad] show ?thesis
      by (auto simp: reconcileAddon_def handleExistingAddon_def addon_update_due_def mod_addon_status_def go_simps)
  qed (use run g get(1) ad in \<open>auto simp: reconcileAddon_def go_bind_apply go_try_apply\<close>)
qed

text \<open>An addon that is not in the spec any more: it is forgotten only when it is gone, and after a success it is gone or on
  its way out.\<close>

lemma deleted_run:
  assumes law: "lawful_addons tbl (OKE_Id oke) (cpc_ContainerEngine c)" and run: "handleDeletedAddon c oke n x = (r, y)"
  shows "addons_step tbl {n} x y \<and> (r = Ret () \<longrightarrow> addon_leaving (tbl (ctl_cloud y) n)) \<and>
    (addon_leaving (tbl (ctl_cloud x) n) \<longrightarrow> addon_leaving (tbl (ctl_cloud y) n)) \<and>
    (addon_statuses (ctl_scope y) n = addon_statuses (ctl_scope x) n \<or>
     addon_statuses (ctl_scope y) n = None \<and> addon_leaving (tbl (ctl_cloud y) n))"
proof -
  let ?g = "cp_engine c (\<lambda>a'. api_GetAddon a' (OKE_Id oke) (Some n))"
  let ?d = "cp_engine c (\<lambda>a'. api_DisableAddon a' (OKE_Id oke) (Some n) True)"
  obtain q z where g: "?g x = (q, z)" by (cases "?g x")
  obtain q' v where d: "?d x = (q', v)" by (cases "?d x")
  obtain u where u: "mod_addon_status (RemoveAddonStatus n) x = (Ret (), u)" by (simp add: mod_addon_status_def ctl_mod_apply)
  note get = get_run [OF law g] and dis = change_run [OF lawful_addonsD(7) [OF law] d] and rem = status_run(2) [OF u]
  have gone: ?thesis if "y = u" "addon_leaving (tbl (ctl_cloud x) n)"
    using that rem unfolding addons_step_def by auto
  show ?thesis
  proof (cases q)
    case (Err e)
    show ?thesis
    proof (cases "IsNotFound (Some e)")
      case True
      with run g get(1) Err u have "y = u" by (simp add: handleDeletedAddon_def go_bind_apply go_try_apply)
      moreover from get(3) [OF Err True] have "addon_leaving (tbl (ctl_cloud x) n)" by (simp add: addon_leaving_def)
      ultimately show ?thesis by (rule gone)
    next
      case False
      with run g get(1) Err show ?thesis
        by (auto simp: handleDeletedAddon_def go_bind_apply go_try_apply go_throw_apply addons_step_def)
    qed
  next
    case (Ret ad)
    with get(2) have ad: "tbl (ctl_cloud x) n = Some ad" by simp
    consider "SA_LifecycleState ad = AddonStateDeleting" "y = x" | "SA_LifecycleState ad = AddonStateDeleted" "y = u"
      | "y = v" "r = q'" "\<not> addon_leaving (tbl (ctl_cloud x) n)"
      using run g get(1) Ret u d ad
      by (auto simp: handleDeletedAddon_def go_bind_apply go_try_apply go_ret_apply addon_leaving_def addon_departing_def split: if_splits)
    then show ?thesis
    proof cases
      case 1
      with ad show ?thesis by (simp add: addons_step_def addon_leaving_def addon_departing_def)
    next
      case 2
      with ad have "addon_leaving (tbl (ctl_cloud x) n)" by (simp add: addon_leaving_def addon_departing_def)
      with 2(2) show ?thesis by (rule gone)
    next
      case 3
      with dis(1) dis(3) [of n] dis(4) show ?thesis by simp
    qed
  qed (use run g get(1) in \<open>auto simp: handleDeletedAddon_def go_bind_apply go_try_apply addons_step_def\<close>)
qed

section \<open>All addons\<close>

lemma for_each_done:
  assumes R: "reflp R" "transp R" and step: "\<And>a s r t. a \<in> set xs \<Longrightarrow> body a s = (r, t) \<Longrightarrow> R s t"
    and q: "\<And>a s t. a \<in> set xs \<Longrightarrow> body a s = (Ret (), t) \<Longrightarrow> Q a t" and stays: "\<And>a s t. Q a s \<Longrightarrow> R s t \<Longrightarrow> Q a t"
    and run: "go_for xs body s = (Ret (), t)"
  shows "\<forall>a \<in> set xs. Q a t"
  using step q run
proof (induction xs arbitrary: s)
  case (Cons a xs)
  from Cons.prems(3) obtain u where u: "body a s = (Ret (), u)" "go_for xs body u = (Ret (), t)"
    by (auto simp: go_simps split: res.splits prod.splits)
  have "keeps R (go_for xs body)"
    by (intro keeps_for R keepsI, rule Cons.prems(1)) simp_all
  then have "R u t" using u(2) by (rule keepsD)
  moreover have "Q a u" using Cons.prems(2) u(1) by simp
  ultimately have "Q a t" by (rule stays [rotated])
  moreover have "\<forall>b \<in> set xs. Q b t" by (rule Cons.IH [OF Cons.prems(1) Cons.prems(2) u(2)]) simp_all
  ultimately show ?case by simp
qed simp

lemma getAddon_None: "getAddon addons n = None \<longleftrightarrow> Some n \<notin> Addon_Name ` set addons"
  by (auto simp: getAddon_def find_None_iff StringEquals_def image_iff split: option.splits)

lemma installs_run:
  assumes law: "lawful_addons tbl (OKE_Id oke) (cpc_ContainerEngine c)"
    and run: "go_for addons (reconcileAddon c oke) x = (r, y)"
  shows "addons_step tbl {n. Some n \<in> Addon_Name ` set addons} x y \<and> addon_kept tbl x y \<and>
    (r = Ret () \<longrightarrow> (\<forall>a \<in> set addons. addon_done tbl a y))"
proof -
  let ?S = "{n. Some n \<in> Addon_Name ` set addons}"
  let ?R = "\<lambda>x y. addons_step tbl ?S x y \<and> addon_kept tbl x y"
  have R: "reflp ?R" "transp ?R"
    using addons_step_order [of tbl ?S] addon_kept_order [of tbl] unfolding reflp_def transp_def by blast+
  have step: "?R s t" if a: "a \<in> set addons" and b: "reconcileAddon c oke a s = (q, t)" for a s q t
  proof -
    have "{n. Addon_Name a = Some n} \<subseteq> ?S" using a by force
    with reconcileAddon_run [OF law b] show ?thesis by (auto intro: addons_step_mono)
  qed
  have fin: "addon_done tbl a t" if "reconcileAddon c oke a s = (Ret (), t)" for a s t
    using reconcileAddon_run [OF law that] by simp
  have "keeps ?R (go_for addons (reconcileAddon c oke))" using step by (intro keeps_for R keepsI) blast
  then have "?R x y" using run by (rule keepsD)
  moreover have "\<forall>a \<in> set addons. addon_done tbl a y" if "r = Ret ()"
    by (rule for_each_done [OF R step fin _ run [unfolded that]]) (auto simp: addon_done_def addon_kept_def)
  ultimately show ?thesis by blast
qed

lemma installs_leave:
  assumes law: "lawful_addons tbl (OKE_Id oke) (cpc_ContainerEngine c)"
    and run: "go_for addons (reconcileAddon c oke) x = (r, y)"
    and ad: "tbl (ctl_cloud x) n = Some ad" and same: "\<forall>a \<in> set addons. Addon_Name a = Some n \<longrightarrow> \<not> addon_update_due ad a"
  shows "tbl (ctl_cloud y) n = Some ad"
proof -
  let ?R = "\<lambda>x y. tbl (ctl_cloud x) n = Some ad \<longrightarrow> tbl (ctl_cloud y) n = Some ad"
  have "reflp ?R" "transp ?R" by (auto simp: reflp_def transp_def)
  moreover have "?R s t" if "a \<in> set addons" "reconcileAddon c oke a s = (q, t)" for a s q t
    using reconcileAddon_leaves [OF law that(2)] that(1) same by blast
  ultimately have "keeps ?R (go_for addons (reconcileAddon c oke))" by (intro keeps_for keepsI) blast+
  from keepsD [OF this run] ad show ?thesis by blast
qed

definition removals :: "('w, SdkAddon) table \<Rightarrow> string set \<Rightarrow> (ManagedControlPlaneScope, 'w) ctl \<Rightarrow>
    (ManagedControlPlaneScope, 'w) ctl \<Rightarrow> bool" where
  "removals tbl T x y \<longleftrightarrow> addons_step tbl T x y \<and> (\<forall>n \<in> T.
     (addon_leaving (tbl (ctl_cloud x) n) \<longrightarrow> addon_leaving (tbl (ctl_cloud y) n)) \<and>
     (addon_statuses (ctl_scope y) n = addon_statuses (ctl_scope x) n \<or>
      addon_statuses (ctl_scope y) n = None \<and> addon_leaving (tbl (ctl_cloud y) n)))"

lemma removals_order: "reflp (removals tbl T)" "transp (removals tbl T)"
proof -
  show "reflp (removals tbl T)" by (simp add: removals_def addons_step_def reflp_def)
  show "transp (removals tbl T)"
  proof (rule transpI)
    fix x y z assume a: "removals tbl T x y" and b: "removals tbl T y z"
    have "addons_step tbl T x z" using a b addons_step_order(2) [of tbl T] unfolding removals_def transp_def by blast
    moreover have "addon_statuses (ctl_scope z) n = addon_statuses (ctl_scope x) n \<or>
        addon_statuses (ctl_scope z) n = None \<and> addon_leaving (tbl (ctl_cloud z) n)" if "n \<in> T" for n
      using a b that unfolding removals_def
      by (cases "addon_statuses (ctl_scope z) n = addon_statuses (ctl_scope y) n") (auto simp del: not_None_eq)
    ultimately show "removals tbl T x z" using a b unfolding removals_def by simp
  qed
qed

lemma removals_run:
  assumes law: "lawful_addons tbl (OKE_Id oke) (cpc_ContainerEngine c)"
    and run: "go_for ks (\<lambda>k. if getAddon addons k = None then handleDeletedAddon c oke k else go_ret ()) x = (r, y)"
  shows "removals tbl {k \<in> set ks. getAddon addons k = None} x y \<and>
    (r = Ret () \<longrightarrow> (\<forall>k \<in> set ks. getAddon addons k = None \<longrightarrow> addon_leaving (tbl (ctl_cloud y) k)))"
proof -
  let ?T = "{k \<in> set ks. getAddon addons k = None}"
  let ?b = "\<lambda>k. if getAddon addons k = None then handleDeletedAddon c oke k else go_ret ()"
  have step: "removals tbl ?T s t" if k: "k \<in> set ks" and b: "?b k s = (q, t)" for k s q t
  proof (cases "getAddon addons k = None")
    case True
    with b have "handleDeletedAddon c oke k s = (q, t)" by simp
    note del = deleted_run [OF law this]
    from del k True have "addons_step tbl ?T s t" by (intro addons_step_mono [of "{k}" ?T]) simp_all
    moreover have "tbl (ctl_cloud t) n = tbl (ctl_cloud s) n" "addon_statuses (ctl_scope t) n = addon_statuses (ctl_scope s) n"
      if "n \<noteq> k" for n
      using del that unfolding addons_step_def by simp_all
    ultimately show ?thesis using del unfolding removals_def by metis
  next
    case False
    with b have "t = s" by (simp add: go_ret_apply)
    then show ?thesis using reflpD [OF removals_order(1)] by simp
  qed
  have fin: "getAddon addons k = None \<longrightarrow> addon_leaving (tbl (ctl_cloud t) k)" if "?b k s = (Ret (), t)" for k s t
    using that deleted_run [OF law, of k s "Ret ()" t] by (auto split: if_splits)
  have "keeps (removals tbl ?T) (go_for ks ?b)" using step by (intro keeps_for removals_order keepsI) blast
  then have "removals tbl ?T x y" using run by (rule keepsD)
  moreover have "\<forall>k \<in> set ks. getAddon addons k = None \<longrightarrow> addon_leaving (tbl (ctl_cloud y) k)" if "r = Ret ()"
    by (rule for_each_done [OF removals_order step fin _ run [unfolded that]]) (auto simp: removals_def addons_step_def)
  ultimately show ?thesis by blast
qed

text \<open>C18. \<open>ReconcileAddons\<close> acts on the addons of the spec and on those that it has installed before. Whatever the outcome: an
  addon that is neither in the spec nor in the status is not touched; one of the spec does not go away, and does not depart (\<open>DELETING\<close> or \<open>DELETED\<close>)
  unless it departed before; one of the spec for which no update is due (it is being updated, has failed, or has the version and configuration of the
  spec and does not need attention) stays exactly as it is, also when it is departing, so that an addon which is put back into the spec while it is
  being deleted is not installed again in this round; the status of an addon is dropped only when it is not in the spec and
  is gone or departs. After a success every addon of the spec is there and has a status, and it does not depart unless it departed before; every other
  addon with a status is gone or departs. The order of the loop over the status does not matter. The service is assumed to change
  with a request only the addon that it names and only on success: an installed addon is there and does not depart, an updated one is there and does not begin to depart, one disabled
  with its removal is gone or departs.\<close>

theorem ReconcileAddons_exact:
  assumes law: "lawful_addons tbl (OKE_Id oke) (cpc_ContainerEngine c)" and iter: "\<And>ks. set (iter ks) = set ks"
    and run: "ReconcileAddons iter c oke ((m, w), ev) = (r, ((m', w'), ev'))"
  shows "(\<forall>n. Some n \<notin> addon_names m \<and> addon_statuses m n = None \<longrightarrow> tbl w' n = tbl w n) \<and>
    (\<forall>n. Some n \<in> addon_names m \<longrightarrow> (tbl w n \<noteq> None \<longrightarrow> tbl w' n \<noteq> None) \<and> (addon_departing (tbl w' n) \<longrightarrow> addon_departing (tbl w n))) \<and>
    (\<forall>n ad. Some n \<in> addon_names m \<and> tbl w n = Some ad \<and>
      (\<forall>a \<in> set (CPSpec_Addons (cp_spec m)). Addon_Name a = Some n \<longrightarrow> \<not> addon_update_due ad a) \<longrightarrow> tbl w' n = Some ad) \<and>
    (\<forall>n. addon_statuses m n \<noteq> None \<and> addon_statuses m' n = None \<longrightarrow> Some n \<notin> addon_names m \<and> addon_leaving (tbl w' n)) \<and>
    (r = Ret () \<longrightarrow>
      (\<forall>n. Some n \<in> addon_names m \<longrightarrow> tbl w' n \<noteq> None \<and> addon_statuses m' n \<noteq> None) \<and>
      (\<forall>n. Some n \<notin> addon_names m \<and> addon_statuses m n \<noteq> None \<longrightarrow> addon_leaving (tbl w' n)))"
proof -
  let ?x = "((m, w), ev)" and ?y = "((m', w'), ev')" and ?addons = "CPSpec_Addons (cp_spec m)"
  let ?names = "\<lambda>z. map fst (CPStatus_AddonStatus (CP_Status (cp_object (ctl_scope z))))"
  obtain q z where z: "go_for ?addons (reconcileAddon c oke) ?x = (q, z)" by (cases "go_for ?addons (reconcileAddon c oke) ?x")
  note first = installs_run [OF law z]
  have left: "tbl (ctl_cloud z) n = Some ad"
    if "tbl w n = Some ad" "\<forall>a \<in> set ?addons. Addon_Name a = Some n \<longrightarrow> \<not> addon_update_due ad a" for n ad
    using installs_leave [OF law z, of n ad] that by simp
  have dom: "k \<in> set (iter (?names z)) \<longleftrightarrow> addon_statuses (ctl_scope z) k \<noteq> None" for k
    by (simp only: iter set_map map_of_eq_None_iff simp_thms)
  show ?thesis
  proof (cases "q = Ret ()")
    case False
    with run z have "?y = z" "r \<noteq> Ret ()" by (auto simp: ReconcileAddons_def Let_def go_bind_apply go_seq_apply ctl_get_apply split: res.splits)
    then have z': "ctl_cloud z = w'" "ctl_scope z = m'" by auto
    have A: "tbl w' n = tbl w n" "addon_statuses m' n = addon_statuses m n" if "Some n \<notin> addon_names m" for n
      using first that unfolding addons_step_def z' by auto
    have K: "tbl w n \<noteq> None \<longrightarrow> tbl w' n \<noteq> None" "addon_departing (tbl w' n) \<longrightarrow> addon_departing (tbl w n)"
      "addon_statuses m n \<noteq> None \<longrightarrow> addon_statuses m' n \<noteq> None" for n
      using first unfolding addon_kept_def z' by auto
    from A K left [unfolded z'] \<open>r \<noteq> Ret ()\<close> show ?thesis by (intro conjI allI impI) metis+
  next
    case True
    with run z have "go_for (iter (?names z)) (\<lambda>k. if getAddon ?addons k = None then handleDeletedAddon c oke k else go_ret ()) z = (r, ?y)"
      by (simp add: ReconcileAddons_def Let_def go_bind_apply go_seq_apply ctl_get_apply)
    note second = removals_run [OF law this, unfolded getAddon_None dom]
    have A: "tbl (ctl_cloud z) n = tbl w n" "addon_statuses (ctl_scope z) n = addon_statuses m n" if "Some n \<notin> addon_names m" for n
      using first that unfolding addons_step_def by auto
    have C: "tbl (ctl_cloud z) n \<noteq> None" "addon_statuses (ctl_scope z) n \<noteq> None" if "Some n \<in> addon_names m" for n
      using first True that unfolding addon_done_def by auto
    have D: "tbl w' n = tbl (ctl_cloud z) n" "addon_statuses m' n = addon_statuses (ctl_scope z) n"
      if "Some n \<in> addon_names m \<or> addon_statuses (ctl_scope z) n = None" for n
      using second that unfolding removals_def addons_step_def by auto
    have E: "addon_statuses m' n = addon_statuses (ctl_scope z) n \<or> addon_statuses m' n = None \<and> addon_leaving (tbl w' n)"
      "r = Ret () \<Longrightarrow> addon_leaving (tbl w' n)" if "Some n \<notin> addon_names m" "addon_statuses (ctl_scope z) n \<noteq> None" for n
      using second that dom unfolding removals_def by (auto simp del: not_None_eq)
    have F: "addon_departing (tbl (ctl_cloud z) n) \<longrightarrow> addon_departing (tbl w n)" for n
      using first unfolding addon_kept_def by auto
    from A C D E F left show ?thesis by (intro conjI allI impI) metis+
  qed
qed

lemma find_filter_other: "k \<noteq> n \<Longrightarrow> find (\<lambda>a. SA_Name a = Some k) (filter (\<lambda>a. SA_Name a \<noteq> Some n) as) = find (\<lambda>a. SA_Name a = Some k) as"
  by (induction as) auto

lemma find_filter_same: "find (\<lambda>a. SA_Name a = Some n) (filter (\<lambda>a. SA_Name a \<noteq> Some n) as) = None"
  by (simp add: find_None_iff)

lemma put_addon_changes:
  "changes_addon addon_at name installed_addon (put_addon name d)" "changes_addon addon_at name updated_addon (put_addon name d)"
  by (auto simp: changes_addon_def answers_def put_addon_def addon_at_def stored_addon_def addon_leaving_def addon_departing_def find_filter_other
      split: option.splits)

lemma drop_addon_changes: "changes_addon addon_at name (\<lambda>_. addon_leaving) (drop_addon name)"
  by (auto simp: changes_addon_def answers_def drop_addon_def addon_at_def addon_leaving_def find_filter_other find_filter_same
      split: option.splits)

lemma oke_engine_lawful: "lawful_addons addon_at i oke_engine"
  unfolding lawful_addons_def oke_engine_simps [abs_def]
  by (auto simp: read_only_def answers_def not_found_err_def put_addon_changes [simplified] drop_addon_changes addon_at_def
      dest!: find_Some_mem split: option.splits)

text \<open>A cloud with an addon that was installed before and one that somebody else has installed.\<close>

definition addons_before :: "(ManagedControlPlaneScope, oke_world) ctl" where
  "addons_before = ((sample_cp, ([], map (\<lambda>n. stored_addon n \<lparr>AD_Version = None, AD_Configurations = []\<rparr>) [''Old'', ''Mine''], [])), [])"

definition addons_run :: "unit res \<times> (ManagedControlPlaneScope, oke_world) ctl" where
  "addons_run = ReconcileAddons rev sample_cp_clients (stored_cluster (createClusterDetails sample_cp [])) addons_before"

lemma addons_run_returns: "fst addons_run = Ret ()"
  by (simp add: addons_run_def addons_before_def ReconcileAddons_def reconcileAddon_def installAddon_def handleDeletedAddon_def
      go_simps mod_addon_status_def put_addon_def drop_addon_def addon_at_def stored_addon_def getAddon_def StringEquals_def upd_cp_def
      SetAddonStatus_def sample_control_plane_def IsNotFound_service not_found_err_def)

theorem ReconcileAddons_exact_witness:
  "addon_at (ctl_cloud (snd addons_run)) ''CoreDNS'' \<noteq> None \<and> addon_leaving (addon_at (ctl_cloud (snd addons_run)) ''Old'') \<and>
   addon_at (ctl_cloud (snd addons_run)) ''Mine'' = addon_at (ctl_cloud addons_before) ''Mine''"
proof -
  obtain r m' w' ev' where run: "addons_run = (r, ((m', w'), ev'))" by (metis prod.exhaust)
  have law: "lawful_addons addon_at i (cpc_ContainerEngine sample_cp_clients)" for i by (simp add: oke_engine_lawful)
  have "\<And>ks. set (rev ks) = set ks" by simp
  note all = ReconcileAddons_exact [OF law this run [unfolded addons_run_def addons_before_def]]
  have st: "addon_statuses sample_cp ''Old'' \<noteq> None" "addon_statuses sample_cp ''Mine'' = None"
    by (simp_all add: sample_control_plane_def)
  have "r = Ret ()" using addons_run_returns unfolding run by simp
  with all have "addon_at w' ''CoreDNS'' \<noteq> None" "addon_statuses sample_cp ''Old'' \<noteq> None \<longrightarrow> addon_leaving (addon_at w' ''Old'')"
    "addon_statuses sample_cp ''Mine'' = None \<longrightarrow> addon_at w' ''Mine'' = addon_at (ctl_cloud addons_before) ''Mine''"
    by (simp_all only: addons_before_def fst_conv snd_conv) auto
  with st show ?thesis unfolding run by simp
qed

end
