(* ===== verification/Control_Plane_Properties.thy ===== *)
theory Control_Plane_Properties
  imports Control_Plane_Addons
begin

text \<open>
  Properties of the controller of managed control planes: when the finalizer goes, when an endpoint is published, and the
  kubeconfig that is left out without an error.
\<close>

section \<open>What the operations leave alone\<close>

lemma go_res_keeps: "reflp R \<Longrightarrow> keeps R (go_res x)"
  by (auto simp: keeps_def go_res_def go_simps reflp_def split: sum.split)

lemma go_errorf_keeps: "reflp R \<Longrightarrow> transp R \<Longrightarrow> keeps R m \<Longrightarrow> keeps R (go_errorf msg m)"
  unfolding go_errorf_def by (intro frame_intros)

text \<open>A property of the object that no change of the status, of the id and of the addons touches.\<close>

lemma cp_call_keeps: "keeps (keeping (\<lambda>x. g (ctl_scope x))) (ctl_call m)" "keeps (keeping (\<lambda>x. g (ctl_scope x))) (cp_engine c f)"
  "keeps (keeping (\<lambda>x. g (ctl_scope x))) ctl_get" "keeps (keeping (\<lambda>x. g (ctl_scope x))) (record_event t reason msg)"
  by (auto simp: keeps_def go_simps record_event_def split: prod.split)

lemma cp_mod_keeps: "(\<And>m. g (f m) = g m) \<Longrightarrow> keeps (keeping (\<lambda>x. g (ctl_scope x))) (ctl_mod f)"
  by (simp add: keeps_def go_simps)

lemmas cp_intros = frame_intros keeping_order cp_call_keeps go_res_keeps go_errorf_keeps keeps_case_prod

lemma lookup_keeps:
  "keeps (keeping (\<lambda>x. g (ctl_scope x))) (getOKEClusterFromOCID c i)" "keeps (keeping (\<lambda>x. g (ctl_scope x))) (GetOKECluster c)"
  unfolding GetOKECluster_def getOKEClusterByDisplayName_def okeClusterPage_def getOKEClusterFromOCID_def
  by (intro cp_intros)+

section \<open>The finalizer\<close>

abbreviation cp_finalizers :: "(ManagedControlPlaneScope, 'w) ctl \<Rightarrow> string list" where
  "cp_finalizers x \<equiv> CP_Finalizers (cp_object (ctl_scope x))"

text \<open>The clusters of the service by id: a get reports what is stored, and requests that only look change nothing.\<close>

definition lawful_clusters :: "('w, OkeCluster) table \<Rightarrow> 'w ContainerEngineApi \<Rightarrow> bool" where
  "lawful_clusters tbl a \<longleftrightarrow> (\<forall>i. read_only (api_GetCluster a i)) \<and> (\<forall>n cid p. read_only (api_ListClusters a n cid p)) \<and>
     (\<forall>k w cl. fst (api_GetCluster a (Some k) w) = Ret cl \<longrightarrow> tbl w k = Some cl) \<and>
     (\<forall>k w e. fst (api_GetCluster a (Some k) w) = Err e \<longrightarrow> IsNotFound (Some e) \<longrightarrow> tbl w k = None)"

lemma lawful_clustersD:
  assumes "lawful_clusters tbl a"
  shows "read_only (api_GetCluster a i)" "read_only (api_ListClusters a n cid p)"
    "fst (api_GetCluster a (Some k) w) = Ret cl \<Longrightarrow> tbl w k = Some cl"
    "fst (api_GetCluster a (Some k) w) = Err e \<Longrightarrow> IsNotFound (Some e) \<Longrightarrow> tbl w k = None"
  using assms unfolding lawful_clusters_def by blast+

definition cluster_gone :: "OkeCluster option res \<Rightarrow> bool" where
  "cluster_gone x = (case x of
      Ret None \<Rightarrow> True
    | Ret (Some cl) \<Rightarrow> OKE_LifecycleState cl = OkeDeleted
    | Err err \<Rightarrow> IsNotFound (Some err)
    | _ \<Rightarrow> False)"

lemma cp_finalizers_kept:
  "keeps (keeping cp_finalizers) (mark_cp f)" "keeps (keeping cp_finalizers) set_cp_not_ready"
  unfolding mark_cp_def set_cp_not_ready_def
  by (rule cp_mod_keeps [where g = "\<lambda>m. CP_Finalizers (cp_object m)"]; simp add: upd_cp_status_def upd_cp_def)+

lemma delete_found_kept:
  assumes "OKE_LifecycleState cl \<noteq> OkeDeleted"
  shows "keeps (keeping cp_finalizers) (deleteFoundControlPlane c cl)"
proof -
  note kept = cp_call_keeps [where g = "\<lambda>m. CP_Finalizers (cp_object m)"]
  have *: "keeps (keeping cp_finalizers) (go_bind ctl_get (\<lambda>m. go_seq (go_wrap (msg m) (DeleteOKECluster c cl))
      (go_seq (mark_cp f) (go_ret 30))))" for msg and f :: "Condition list \<Rightarrow> Condition list"
    unfolding DeleteOKECluster_def by (intro frame_intros keeping_order kept cp_finalizers_kept)
  show ?thesis
  proof (cases "OKE_LifecycleState cl")
    case OkeDeleting
    then show ?thesis unfolding deleteFoundControlPlane_def OkeDeleting OkeClusterState.case
      by (intro frame_intros keeping_order kept cp_finalizers_kept)
  qed (use assms * in \<open>simp_all add: deleteFoundControlPlane_def\<close>)
qed

text \<open>What happens after the lookup: either the finalizers stay, or the cluster was reported gone.\<close>

lemma deletion_outcome:
  assumes "(case s of
         Inl err \<Rightarrow> if IsNotFound (Some err)
           then go_seq (removeControlPlaneFinalizer c) (go_seq (mark_cp (kube_MarkTrue (cpc_Lib c) ControlPlaneNotFoundReason))
             (go_seq set_cp_not_ready (go_ret 0)))
           else go_throw err
       | Inr None \<Rightarrow> go_seq (removeControlPlaneFinalizer c) (go_ret 0)
       | Inr (Some cl) \<Rightarrow> deleteFoundControlPlane c cl) z = (r, y)" (is "?k z = _")
    and ne: "cp_finalizers y \<noteq> cp_finalizers z"
  shows "cluster_gone (case s of Inl e \<Rightarrow> Err e | Inr a \<Rightarrow> Ret a) \<and> r = Ret 0 \<and> ctl_cloud y = ctl_cloud z \<and>
      cp_finalizers y = kube_RemoveFinalizer (cpc_Lib c) ControlPlaneFinalizer (cp_finalizers z)"
proof (cases s)
  case (Inl e)
  with assms show ?thesis
    by (auto simp: cluster_gone_def go_throw_apply go_seq_apply removeControlPlaneFinalizer_def mod_cp_finalizers_def mark_cp_def
        set_cp_not_ready_def ctl_mod_apply go_ret_apply upd_cp_status_def upd_cp_def split: if_splits)
next
  case (Inr a)
  show ?thesis
  proof (cases a)
    case None
    with assms Inr show ?thesis
      by (auto simp: cluster_gone_def go_seq_apply removeControlPlaneFinalizer_def mod_cp_finalizers_def ctl_mod_apply go_ret_apply upd_cp_def)
  next
    case (Some cl)
    from assms(1) Inr Some have found: "deleteFoundControlPlane c cl z = (r, y)" by simp
    with ne have st: "OKE_LifecycleState cl = OkeDeleted" using keepsD [OF delete_found_kept found] by blast
    with found Inr Some show ?thesis
      by (auto simp: deleteFoundControlPlane_def cluster_gone_def go_seq_apply removeControlPlaneFinalizer_def mod_cp_finalizers_def
          mark_cp_def ctl_mod_apply go_ret_apply upd_cp_status_def upd_cp_def)
  qed
qed

lemma lookup_quiet:
  assumes law: "lawful_clusters tbl (cpc_ContainerEngine c)" and run: "GetOKECluster c x = (g, z)"
  shows "z = x"
proof -
  have call: "keeps same_state (cp_engine c f)" if "read_only (f (cpc_ContainerEngine c))" for f :: "'a ContainerEngineApi \<Rightarrow> ('a, 'b) go"
    using that by (auto simp: keeps_def go_simps read_only_def)
  have get: "keeps same_state ctl_get" by (simp add: keeps_def go_simps)
  have "keeps same_state (GetOKECluster c)"
    unfolding GetOKECluster_def getOKEClusterByDisplayName_def okeClusterPage_def getOKEClusterFromOCID_def
    by (intro frame_intros keeps_case_prod call get lawful_clustersD [OF law] reflp_same_state transp_same_state)
  then show ?thesis using run by (rule keepsD)
qed

text \<open>C19. The finalizer of a managed control plane goes last. When the deletion changes the finalizers, it has removed exactly
  its own, has asked for nothing to be deleted, and the lookup has reported that there is no cluster or that the cluster is deleted;
  if the id of the cluster is recorded in the spec, the service does not have it any more, or has it as deleted.\<close>

theorem control_plane_finalizer_last:
  assumes law: "lawful_clusters tbl (cpc_ContainerEngine c)"
    and run: "cp_reconcileDelete c x = (r, y)" and ne: "cp_finalizers y \<noteq> cp_finalizers x"
  shows "r = Ret 0 \<and> cp_finalizers y = kube_RemoveFinalizer (cpc_Lib c) ControlPlaneFinalizer (cp_finalizers x) \<and>
    ctl_cloud y = ctl_cloud x \<and> cluster_gone (fst (GetOKECluster c x)) \<and>
    (\<forall>k. CPSpec_ID (cp_spec (ctl_scope x)) = Some k \<longrightarrow>
      tbl (ctl_cloud y) k = None \<or> (\<exists>cl. tbl (ctl_cloud y) k = Some cl \<and> OKE_LifecycleState cl = OkeDeleted))"
proof -
  note kept = lookup_keeps(2) [where g = "\<lambda>m. CP_Finalizers (cp_object m)"]
  from bind_observed [OF run [unfolded cp_reconcileDelete_def] keeps_try [OF kept] ne] obtain s z where
    look: "go_try (GetOKECluster c) x = (Ret s, z)" and f: "cp_finalizers z = cp_finalizers x"
    and k: "(case s of
         Inl err \<Rightarrow> if IsNotFound (Some err)
           then go_seq (removeControlPlaneFinalizer c) (go_seq (mark_cp (kube_MarkTrue (cpc_Lib c) ControlPlaneNotFoundReason))
             (go_seq set_cp_not_ready (go_ret 0)))
           else go_throw err
       | Inr None \<Rightarrow> go_seq (removeControlPlaneFinalizer c) (go_ret 0)
       | Inr (Some cl) \<Rightarrow> deleteFoundControlPlane c cl) z = (r, y)" by blast
  obtain g z' where g: "GetOKECluster c x = (g, z')" by (cases "GetOKECluster c x")
  with look have z': "z' = z" and s: "g = (case s of Inl e \<Rightarrow> Err e | Inr a \<Rightarrow> Ret a)" by (auto simp: go_try_apply split: res.splits)
  from lookup_quiet [OF law g] z' have z: "z = x" by simp
  have "cluster_gone g \<and> r = Ret 0 \<and> ctl_cloud y = ctl_cloud x \<and>
      cp_finalizers y = kube_RemoveFinalizer (cpc_Lib c) ControlPlaneFinalizer (cp_finalizers x)"
    using deletion_outcome [OF k] ne unfolding z s by simp
  moreover have "tbl (ctl_cloud x) k = None \<or> (\<exists>cl. tbl (ctl_cloud x) k = Some cl \<and> OKE_LifecycleState cl = OkeDeleted)"
    if "cluster_gone g" "CPSpec_ID (cp_spec (ctl_scope x)) = Some k" for k
    using that g lawful_clustersD(3,4) [OF law, of k "ctl_cloud x"]
    by (auto simp: GetOKECluster_def getOKEClusterFromOCID_def go_simps cluster_gone_def split: res.splits)
  ultimately show ?thesis using g by auto
qed

lemma oke_engine_clusters: "lawful_clusters world_cluster_at oke_engine"
  unfolding lawful_clusters_def oke_engine_simps [abs_def] by (auto simp: read_only_def answers_def split: option.splits)

definition gone_before :: "(ManagedControlPlaneScope, oke_world) ctl" where
  "gone_before = ((upd_cp_spec (\<lambda>sp. sp\<lparr>CPSpec_ID := Some ''oke-1''\<rparr>) sample_cp, ([], [], [])), [])"

lemma gone_run: "cp_finalizers (snd (cp_reconcileDelete sample_cp_clients gone_before)) = [] \<and> cp_finalizers gone_before = [ControlPlaneFinalizer]"
  by (simp add: gone_before_def cp_reconcileDelete_def GetOKECluster_def getOKEClusterFromOCID_def go_simps world_cluster_at_def
      removeControlPlaneFinalizer_def mod_cp_finalizers_def mark_cp_def set_cp_not_ready_def upd_cp_status_def upd_cp_spec_def upd_cp_def
      sample_kube_def IsNotFound_service not_found_err_def)

theorem control_plane_finalizer_last_witness:
  "fst (cp_reconcileDelete sample_cp_clients gone_before) = Ret 0 \<and>
   cluster_gone (fst (GetOKECluster sample_cp_clients gone_before))"
  using control_plane_finalizer_last [OF _ prod.collapse [symmetric], of world_cluster_at sample_cp_clients gone_before]
    gone_run oke_engine_clusters by simp

section \<open>The endpoint\<close>

text \<open>What a client of the cluster sees: whether the control plane is ready and initialized, and its endpoint.\<close>

definition cp_visible :: "ManagedControlPlaneScope \<Rightarrow> bool \<times> bool \<times> APIEndpoint" where
  "cp_visible m = (CPStatus_Ready (CP_Status (cp_object m)), CPStatus_Initialized (CP_Status (cp_object m)), CPSpec_ControlPlaneEndpoint (cp_spec m))"

lemma visible_kept:
  "keeps (keeping (\<lambda>x. cp_visible (ctl_scope x))) (mod_cp_finalizers f)" "keeps (keeping (\<lambda>x. cp_visible (ctl_scope x))) (mark_cp g)"
  "keeps (keeping (\<lambda>x. cp_visible (ctl_scope x))) (setClusterId i)"
  unfolding mod_cp_finalizers_def mark_cp_def setClusterId_def
  by (rule cp_mod_keeps; simp add: cp_visible_def upd_cp_status_def upd_cp_spec_def upd_cp_def)+

lemma create_kept: "keeps (keeping (\<lambda>x. cp_visible (ctl_scope x))) (GetOrCreateControlPlane c)"
  unfolding GetOrCreateControlPlane_def createControlPlane_def getControlPlaneEndpointNSGList_def
  by (intro cp_intros lookup_keeps visible_kept)

lemma accessor_kept:
  "keeps (keeping (\<lambda>x. MCP_OCIClusterAccessor (ctl_scope x))) (setClusterId i)"
  "keeps (keeping (\<lambda>x. MCP_OCIClusterAccessor (ctl_scope x))) (mod_cp_finalizers f)"
  "keeps (keeping (\<lambda>x. MCP_OCIClusterAccessor (ctl_scope x))) (GetOrCreateControlPlane c)"
proof -
  show set: "keeps (keeping (\<lambda>x. MCP_OCIClusterAccessor (ctl_scope x))) (setClusterId i)" for i
    unfolding setClusterId_def by (rule cp_mod_keeps) (simp add: upd_cp_spec_def upd_cp_def)
  show "keeps (keeping (\<lambda>x. MCP_OCIClusterAccessor (ctl_scope x))) (mod_cp_finalizers f)"
    unfolding mod_cp_finalizers_def by (rule cp_mod_keeps) (simp add: upd_cp_def)
  show "keeps (keeping (\<lambda>x. MCP_OCIClusterAccessor (ctl_scope x))) (GetOrCreateControlPlane c)"
    unfolding GetOrCreateControlPlane_def createControlPlane_def getControlPlaneEndpointNSGList_def
    by (intro cp_intros lookup_keeps set)
qed

text \<open>The endpoint stays once it is published.\<close>

abbreviation cp_endpoint :: "(ManagedControlPlaneScope, 'w) ctl \<Rightarrow> APIEndpoint" where
  "cp_endpoint x \<equiv> CPSpec_ControlPlaneEndpoint (cp_spec (ctl_scope x))"

lemma endpoint_kept:
  "keeps (keeping cp_endpoint) (mark_cp g)" "keeps (keeping cp_endpoint) (mod_addon_status (SetAddonStatus n st))"
  "keeps (keeping cp_endpoint) (mod_addon_status (RemoveAddonStatus n))"
  "keeps (keeping cp_endpoint) (ctl_mod (upd_cp_status f))"
  unfolding mark_cp_def mod_addon_status_def
  by (rule cp_mod_keeps [where g = "\<lambda>m. CPSpec_ControlPlaneEndpoint (cp_spec m)"]; simp add: upd_cp_status_def upd_cp_def)+

lemma tail_keeps:
  fixes c :: "'w ControlPlaneClients"
  shows "keeps (keeping cp_endpoint) (ReconcileKubeconfig c oke)" "keeps (keeping cp_endpoint) (ReconcileBootstrapSecret c oke)"
    "keeps (keeping cp_endpoint) (UpdateControlPlane c oke)" "keeps (keeping cp_endpoint) (ReconcileAddons iter c oke)"
proof -
  note kept = cp_call_keeps [where g = "\<lambda>m. CPSpec_ControlPlaneEndpoint (cp_spec m)"]
  note intros = frame_intros keeping_order kept go_res_keeps go_errorf_keeps keeps_case_prod endpoint_kept
  show "keeps (keeping cp_endpoint) (ReconcileKubeconfig c oke)"
    unfolding ReconcileKubeconfig_def reconcileKubeconfigSecret_def createCAPIKubeconfigSecret_def updateCAPIKubeconfigSecret_def
      fetchRawConfig_def storeKubeConfig_def generateToken_def serializeConfig_def Let_def
    by (intro intros)
  show "keeps (keeping cp_endpoint) (ReconcileBootstrapSecret c oke)"
    unfolding ReconcileBootstrapSecret_def createBootstrapSecret_def fetchRawConfig_def by (intro intros)
  show "keeps (keeping cp_endpoint) (UpdateControlPlane c oke)"
    unfolding UpdateControlPlane_def getSpecFromActual_def actualOptions_def actualOidc_def Let_def by (intro intros)
  show "keeps (keeping cp_endpoint) (ReconcileAddons iter c oke)"
    unfolding ReconcileAddons_def reconcileAddon_def installAddon_def handleExistingAddon_def handleDeletedAddon_def Let_def
    by (intro intros)
qed

text \<open>Everything after the publication of the endpoint.\<close>

definition after_endpoint :: "(string list \<Rightarrow> string list) \<Rightarrow> 'w ControlPlaneClients \<Rightarrow> OkeCluster \<Rightarrow> ('w, int) cp_go" where
  "after_endpoint iter c oke =
     go_seq (ctl_mod (upd_cp_status (\<lambda>st. st\<lparr>CPStatus_Version := OKE_KubernetesVersion oke\<rparr>)))
     (go_seq (record_event EventTypeNormal ''ControlPlaneReady'' ''Managed control plane is in ready state'')
     (go_seq (mark_cp (kube_MarkTrue (cpc_Lib c) ControlPlaneReadyCondition))
     (go_seq (ctl_mod (upd_cp_status (\<lambda>st. st\<lparr>CPStatus_Ready := True\<rparr>)))
     (go_seq (ReconcileKubeconfig c oke)
     (go_seq (ReconcileBootstrapSecret c oke)
     (go_bind (UpdateControlPlane c oke) (\<lambda>isUpdated.
     if isUpdated then go_ret 30
     else go_seq (ReconcileAddons iter c oke) (go_ret 180))))))))"

lemma after_endpoint_keeps: "keeps (keeping cp_endpoint) (after_endpoint iter c oke)"
  unfolding after_endpoint_def
  by (intro frame_intros keeping_order cp_call_keeps [where g = "\<lambda>m. CPSpec_ControlPlaneEndpoint (cp_spec m)"] endpoint_kept tail_keeps)

lemma publish_run:
  assumes "publishEndpoint oke z = (q, u)"
  shows "(q = Panic \<and> u = z) \<or> (\<exists>ep host. OKE_Endpoints oke = Some ep \<and>
    (if IsControlPlaneEndpointSubnetPublic (ctl_scope z) then EP_PublicEndpoint ep else EP_PrivateEndpoint ep) = Some host \<and>
    q = Ret () \<and> cp_endpoint u = \<lparr>APIEndpoint_Host = host, APIEndpoint_Port = 6443\<rparr>)"
  using assms by (auto simp: publishEndpoint_def go_simps upd_cp_spec_def upd_cp_def split: option.splits)

lemma active_visible:
  assumes run: "reconcileOkeState iter c oke z = (r, y)" and ne: "cp_visible (ctl_scope y) \<noteq> cp_visible (ctl_scope z)"
  shows "OKE_LifecycleState oke = OkeActive \<and> (\<exists>ep host. OKE_Endpoints oke = Some ep \<and>
    (if IsControlPlaneEndpointSubnetPublic (ctl_scope z) then EP_PublicEndpoint ep else EP_PrivateEndpoint ep) = Some host \<and>
    cp_endpoint y = \<lparr>APIEndpoint_Host = host, APIEndpoint_Port = 6443\<rparr>)"
proof (cases "OKE_LifecycleState oke = OkeActive")
  case True
  obtain q u where p: "publishEndpoint oke z = (q, u)" by (cases "publishEndpoint oke z")
  from run True have act: "go_seq (publishEndpoint oke) (after_endpoint iter c oke) z = (r, y)"
    by (simp add: reconcileOkeState_def reconcileActive_def after_endpoint_def)
  from publish_run [OF p] act p ne obtain ep host where e: "OKE_Endpoints oke = Some ep"
    "(if IsControlPlaneEndpointSubnetPublic (ctl_scope z) then EP_PublicEndpoint ep else EP_PrivateEndpoint ep) = Some host"
    "cp_endpoint u = \<lparr>APIEndpoint_Host = host, APIEndpoint_Port = 6443\<rparr>" and rest: "after_endpoint iter c oke u = (r, y)"
    by (auto simp: go_seq_apply)
  from keepsD [OF after_endpoint_keeps rest] e True show ?thesis by auto
next
  case False
  have "keeps (keeping (\<lambda>x. cp_visible (ctl_scope x))) (reconcileOkeState iter c oke)"
    using False unfolding reconcileOkeState_def
    by (cases "OKE_LifecycleState oke") (simp_all only: OkeClusterState.case, simp_all add: frame_intros keeping_order visible_kept cp_call_keeps)
  from keepsD [OF this run] ne show ?thesis by simp
qed

text \<open>C20. A managed control plane becomes visible only with the endpoint of a cluster that is active. If a run of \<open>reconcile\<close> (the pass
  for an object that is not being deleted; the deletion sets the readiness to false by itself) changes the readiness, the initialization or the
  endpoint, then the cluster that it found or created is active, and the endpoint that is published is its public address
  when the endpoint subnet is public and its private address otherwise, with the port 6443.\<close>

theorem control_plane_endpoint_of_active:
  assumes run: "cp_reconcile iter c x = (r, y)" and ne: "cp_visible (ctl_scope y) \<noteq> cp_visible (ctl_scope x)"
  shows "\<exists>oke z ep host. GetOrCreateControlPlane c (snd (mod_cp_finalizers (kube_AddFinalizer (cpc_Lib c) ControlPlaneFinalizer) x)) = (Ret oke, z) \<and>
    OKE_LifecycleState oke = OkeActive \<and> OKE_Endpoints oke = Some ep \<and>
    (if IsControlPlaneEndpointSubnetPublic (ctl_scope x) then EP_PublicEndpoint ep else EP_PrivateEndpoint ep) = Some host \<and>
    cp_endpoint y = \<lparr>APIEndpoint_Host = host, APIEndpoint_Port = 6443\<rparr>"
proof -
  let ?fin = "mod_cp_finalizers (kube_AddFinalizer (cpc_Lib c) ControlPlaneFinalizer)"
  from seq_observed [OF run [unfolded cp_reconcile_def] visible_kept(1) ne] obtain a u where
    u: "?fin x = (Ret a, u)" "cp_visible (ctl_scope u) = cp_visible (ctl_scope x)"
    and rest: "go_bind (go_try (GetOrCreateControlPlane c)) (\<lambda>x. case x of
       Inr oke \<Rightarrow> reconcileOkeState iter c oke
     | Inl err \<Rightarrow>
         go_seq (record_event EventTypeWarning ''ReconcileError''
           (Error (ErrWrap ''Failed to reconcile OCIManagedcontrolPlane'' err)))
         (go_bind ctl_get (\<lambda>m. go_throw (ErrWrap (''failed to reconcile OCI Managed Control Plane '' @
           CP_Namespace (cp_object m) @ ''/'' @ cp_GetClusterName m) err)))) u = (r, y)" by blast
  from ne u(2) have n: "cp_visible (ctl_scope y) \<noteq> cp_visible (ctl_scope u)" by simp
  have fails: "keeps (keeping (\<lambda>x. cp_visible (ctl_scope x))) (go_seq (record_event t rs msg) (go_bind ctl_get (\<lambda>m. go_throw (e m))) :: ('a, int) cp_go)"
    for t rs msg e by (intro cp_intros)
  from try_observed [OF rest create_kept fails n] obtain oke z where
    z: "GetOrCreateControlPlane c u = (Ret oke, z)" "reconcileOkeState iter c oke z = (r, y)"
    "cp_visible (ctl_scope z) = cp_visible (ctl_scope u)" by blast
  from n z(3) have "cp_visible (ctl_scope y) \<noteq> cp_visible (ctl_scope z)" by simp
  moreover have "MCP_OCIClusterAccessor (ctl_scope z) = MCP_OCIClusterAccessor (ctl_scope x)"
    using keepsD [OF accessor_kept(3) z(1)] keepsD [OF accessor_kept(2) u(1)] by simp
  then have "IsControlPlaneEndpointSubnetPublic (ctl_scope z) = IsControlPlaneEndpointSubnetPublic (ctl_scope x)"
    by (simp add: IsControlPlaneEndpointSubnetPublic_def cp_subnets_def)
  ultimately show ?thesis using active_visible [OF z(2)] z(1) u(1) by fastforce
qed

definition active_cluster :: OkeCluster where
  "active_cluster = stored_cluster (createClusterDetails sample_cp [])"

definition active_before :: "(ManagedControlPlaneScope, oke_world) ctl" where
  "active_before = ((upd_cp_spec (\<lambda>sp. sp\<lparr>CPSpec_ID := Some ''oke-1''\<rparr>) sample_cp, ([active_cluster], [], [])), [])"

lemma active_cluster_simps [simp]:
  "OKE_Id active_cluster = Some ''oke-1''" "OKE_LifecycleState active_cluster = OkeActive"
  "OKE_Endpoints active_cluster = Some \<lparr>EP_PublicEndpoint = Some ''192.0.2.1'', EP_PrivateEndpoint = Some ''10.0.0.2:6443''\<rparr>"
  by (simp_all add: active_cluster_def stored_cluster_def)

lemma active_found:
  "GetOrCreateControlPlane sample_cp_clients (snd (mod_cp_finalizers f active_before)) =
     (Ret active_cluster, snd (mod_cp_finalizers f active_before))"
  by (simp add: active_before_def GetOrCreateControlPlane_def GetOKECluster_def getOKEClusterFromOCID_def setClusterId_def
      mod_cp_finalizers_def go_simps world_cluster_at_def upd_cp_spec_def upd_cp_def)

lemma active_run:
  "cp_endpoint (snd (cp_reconcile rev sample_cp_clients active_before)) \<noteq> cp_endpoint active_before"
proof -
  let ?fin = "mod_cp_finalizers (kube_AddFinalizer (cpc_Lib sample_cp_clients) ControlPlaneFinalizer)"
  let ?z = "snd (?fin active_before)"
  have "fst (?fin active_before) = Ret ()" by (simp add: mod_cp_finalizers_def ctl_mod_apply)
  then have "cp_reconcile rev sample_cp_clients active_before = reconcileOkeState rev sample_cp_clients active_cluster ?z"
    using active_found [of "kube_AddFinalizer (cpc_Lib sample_cp_clients) ControlPlaneFinalizer"]
    by (cases "?fin active_before") (simp add: cp_reconcile_def go_seq_apply go_bind_apply go_try_apply)
  moreover have "reconcileOkeState rev sample_cp_clients active_cluster =
      go_seq (publishEndpoint active_cluster) (after_endpoint rev sample_cp_clients active_cluster)"
    by (simp add: reconcileOkeState_def reconcileActive_def after_endpoint_def)
  ultimately have run: "cp_reconcile rev sample_cp_clients active_before =
      go_seq (publishEndpoint active_cluster) (after_endpoint rev sample_cp_clients active_cluster) ?z" by simp
  obtain q u where p: "publishEndpoint active_cluster ?z = (q, u)" by (cases "publishEndpoint active_cluster ?z")
  with publish_run [OF p] have u: "q = Ret ()" "APIEndpoint_Port (cp_endpoint u) = 6443"
    by (auto simp: publishEndpoint_def go_simps split: if_splits)
  with p run have "cp_reconcile rev sample_cp_clients active_before = after_endpoint rev sample_cp_clients active_cluster u"
    by (simp add: go_seq_apply)
  with keepsD [OF after_endpoint_keeps prod.collapse [symmetric], of rev sample_cp_clients active_cluster u] u(2)
  show ?thesis by (auto simp: active_before_def upd_cp_spec_def upd_cp_def sample_control_plane_def)
qed

theorem control_plane_endpoint_of_active_witness:
  "\<exists>host. cp_endpoint (snd (cp_reconcile rev sample_cp_clients active_before)) = \<lparr>APIEndpoint_Host = host, APIEndpoint_Port = 6443\<rparr>"
  using control_plane_endpoint_of_active [OF prod.collapse [symmetric], of rev sample_cp_clients active_before] active_run
  by (auto simp: cp_visible_def)

section \<open>The kubeconfig\<close>

text \<open>C38. A kubeconfig without a current context is not reported. If the secret does not exist and the kubeconfig of the service
  names no cluster for its current context, then \<open>ReconcileKubeconfig\<close> returns nil and marks the control plane as initialized, and
  the only requests it has made are the two that read: no secret has been created. The error that the code means to return wraps
  a nil error, which is nil.\<close>

theorem missing_context_not_reported:
  assumes "sk_GetKubeconfigSecret (cpc_Kube c) (Capi_Namespace (MCP_Cluster m)) (Capi_Name (MCP_Cluster m)) w = (Err e, w1)"
    and "sk_NotFound (cpc_Kube c) e" and "api_CreateKubeconfig (cpc_ContainerEngine c) (OKE_Id oke) w1 = (Ret body, w2)"
    and "kt_RawConfig (cpc_Tools c) body = Inr raw" and "currentKubeCluster raw = None" and "OKE_Name oke \<noteq> None"
  shows "ReconcileKubeconfig c oke ((m, w), ev) =
    (Ret (), ((upd_cp_status (\<lambda>st. st\<lparr>CPStatus_Initialized := True\<rparr>) m, w2), ev))"
  using assms
  by (auto simp: ReconcileKubeconfig_def reconcileKubeconfigSecret_def createCAPIKubeconfigSecret_def fetchRawConfig_def storeKubeConfig_def
      go_errorf_def go_res_def go_simps)

theorem missing_context_not_reported_witness:
  "let tools = sample_tools\<lparr>kt_RawConfig := \<lambda>_. Inr (sample_config\<lparr>KC_CurrentContext := ''other''\<rparr>)\<rparr>
   in ReconcileKubeconfig (sample_cp_clients\<lparr>cpc_Tools := tools\<rparr>) active_cluster ((sample_cp, ([], [], [])), []) =
     (Ret (), ((upd_cp_status (\<lambda>st. st\<lparr>CPStatus_Initialized := True\<rparr>) sample_cp, ([], [], [])), []))"
  unfolding Let_def
  by (rule missing_context_not_reported [where e = not_found_err and ?w1.0 = "([], [], [])" and body = "''kubeconfig''"
      and raw = "sample_config\<lparr>KC_CurrentContext := ''other''\<rparr>"])
    (simp_all add: oke_secrets_def secret_at_def oke_engine_def go_ret_apply sample_config_def currentKubeCluster_def map_at_def
      active_cluster_def stored_cluster_def)

end
