(* ===== verification/Managed_Cluster.thy ===== *)
theory Managed_Cluster
  imports Control_Plane_Samples
begin

text \<open>
  The controller of OCIManagedCluster objects (src/controllers/ocimanagedcluster_controller.go). The object has the fields and
  its accessor (src/cloud/scope/oci_managed_cluster.go) the methods of the self managed cluster, so the scope and its
  operations are shared: the controller calls them through the same interface \<open>ClusterScopeClient\<close>. It reconciles the network
  without a load balancer; the endpoint is the one of the control plane object, which another controller publishes.
\<close>

type_synonym OCIManagedCluster = OCICluster

abbreviation ManagedClusterFinalizer :: string where
  "ManagedClusterFinalizer \<equiv> ''ocimanagedcluster.infrastructure.cluster.x-k8s.io''"

text \<open>What the controller reads of the owning cluster, and the get of the control plane object.\<close>

record OwnerCluster =
  Owner_Namespace :: string
  Owner_ControlPlaneRefName :: string

type_synonym 'w get_control_plane = "string \<Rightarrow> string \<Rightarrow> ('w, OCIManagedControlPlane) go"

section \<open>The operations of the controller\<close>

definition managed_reconcileWork :: "KubeLib \<Rightarrow> 'w ClusterScopeClient \<Rightarrow> ('w ctrl, unit) go" where
  "managed_reconcileWork k c =
     go_seq (go_bind get_cluster (\<lambda>ociManagedCluster.
        if NetworkSpec_SkipNetworkManagement (Spec_NetworkSpec (Cluster_Spec ociManagedCluster)) then go_ret ()
        else go_seq (on_fst (sc_SetRegionKey c))
          (go_for (networkComponents c) (\<lambda>(m, name, reason, ready). reconcileComponent k ''OCIManagedCluster'' m name reason ready))))
     (reconcileComponent k ''OCIManagedCluster'' (sc_ReconcileFailureDomains c) ''Failure Domain''
        ''FailureDomainFailedReconciliationFailed'' ''FailureDomainsReady'')"

definition copyEndpoint :: "OCIManagedControlPlane \<Rightarrow> ('w ctrl, unit) go" where
  "copyEndpoint controlPlane =
     (if CPStatus_Ready (CP_Status controlPlane)
      then mod_cluster (\<lambda>c. c\<lparr>Cluster_Spec := (Cluster_Spec c)\<lparr>Spec_ControlPlaneEndpoint :=
        CPSpec_ControlPlaneEndpoint (CP_Spec controlPlane)\<rparr>\<rparr>)
      else go_ret ())"

definition managed_reconcile ::
  "KubeLib \<Rightarrow> 'w get_control_plane \<Rightarrow> OwnerCluster \<Rightarrow> 'w ClusterScopeClient \<Rightarrow> ('w ctrl, unit) go" where
  "managed_reconcile k get cluster c =
     go_seq (mod_finalizers (kube_AddFinalizer k ManagedClusterFinalizer))
     (go_bind (go_wrap ''failed to get control plane ref''
        (on_fst (api (get (Owner_Namespace cluster) (Owner_ControlPlaneRefName cluster))))) (\<lambda>controlPlane.
     go_seq (managed_reconcileWork k c)
     (go_seq (go_seq (mod_conditions (kube_MarkTrue k ClusterReadyCondition)) set_ready)
       (copyEndpoint controlPlane))))"

definition managed_reconcileDelete :: "KubeLib \<Rightarrow> 'w ClusterScopeClient \<Rightarrow> ('w ctrl, unit) go" where
  "managed_reconcileDelete k c =
     go_seq (go_bind get_cluster (\<lambda>cluster.
        if NetworkSpec_SkipNetworkManagement (Spec_NetworkSpec (Cluster_Spec cluster)) then go_ret ()
        else go_for (networkDeletions c) (\<lambda>(m, ev, reason, fail). deleteComponent k ''OCIManagedCluster'' m ev reason fail)))
     (mod_finalizers (kube_RemoveFinalizer k ManagedClusterFinalizer))"

section \<open>Finalizer and readiness\<close>

lemma go_seq_assoc: "go_seq m (go_seq n p) = go_seq (go_seq m n) p"
  by (rule ext) (simp add: go_seq_apply split: res.split prod.split)

lemma mod_finalizers_apply:
  "mod_finalizers f ((s, w), ev) = (Ret (), ((s\<lparr>CS_OCICluster := (CS_OCICluster s)\<lparr>Cluster_Finalizers := f (Cluster_Finalizers (CS_OCICluster s))\<rparr>\<rparr>, w), ev))"
  by (simp add: mod_finalizers_def mod_cluster_apply)

abbreviation endpoint_of :: "'w ctrl \<Rightarrow> APIEndpoint" where
  "endpoint_of x \<equiv> Spec_ControlPlaneEndpoint (Cluster_Spec (CS_OCICluster (fst (fst x))))"

lemma copyEndpoint_run:
  obtains y where "copyEndpoint cp x = (Ret (), y)" "finalizers_of y = finalizers_of x" "ready_of y = ready_of x"
    "conditions_of y = conditions_of x" "snd y = snd x"
    "endpoint_of y = (if CPStatus_Ready (CP_Status cp) then CPSpec_ControlPlaneEndpoint (CP_Spec cp) else endpoint_of x)"
  by (rule that [of "snd (copyEndpoint cp x)"]; cases x; cases "fst x")
    (auto simp: copyEndpoint_def mod_cluster_apply go_ret_apply)

context scope_client begin

lemma managed_work_step: "keeps step_frame (managed_reconcileWork k c)"
  unfolding managed_reconcileWork_def
  by (intro frame_intros quiet_step [OF get_cluster_quiet] component_step quiet_step [OF on_fst_quiet] step_frame_po)
    (auto intro!: component_step simp: single_ops dest!: network_op)

lemma managed_work_quiet: "ret_keeps quiet_frame (managed_reconcileWork k c)"
proof -
  note intros = ret_keeps_bind ret_keeps_seq ret_keeps_for component_quiet keeps_ret_keeps [OF get_cluster_quiet]
    keeps_ret_keeps [OF on_fst_quiet] quiet_frame_po keeps_ret_keeps [OF keeps_pure(1)]
  show ?thesis
    unfolding managed_reconcileWork_def
    by (auto intro!: intros simp: single_ops dest!: network_op)
qed

lemma managed_deletions_step:
  "keeps step_frame (go_bind get_cluster (\<lambda>cluster.
     if NetworkSpec_SkipNetworkManagement (Spec_NetworkSpec (Cluster_Spec cluster)) then go_ret ()
     else go_for (networkDeletions c) (\<lambda>(m, ev, reason, fail). deleteComponent k kind m ev reason fail)))"
  by (intro frame_intros quiet_step [OF get_cluster_quiet] component_step step_frame_po)
    (auto intro!: component_step dest!: deletion_op)

text \<open>The deletion of a managed cluster takes the finalizer away at the end and only then, as for the self managed one.\<close>

lemma managed_reconcileDelete_outcome:
  assumes run: "managed_reconcileDelete k c x = (r, y)"
  shows "(r = Ret () \<longrightarrow> finalizers_of y = kube_RemoveFinalizer k ManagedClusterFinalizer (finalizers_of x)) \<and>
    (r \<noteq> Ret () \<longrightarrow> finalizers_of y = finalizers_of x) \<and> ready_of y = ready_of x"
  using finalizer_last_outcome [OF managed_deletions_step run [unfolded managed_reconcileDelete_def]] .

lemma managed_finish_outcome:
  assumes run: "go_seq (managed_reconcileWork k c)
      (go_seq (go_seq (mod_conditions (kube_MarkTrue k ClusterReadyCondition)) set_ready) (copyEndpoint cp)) x = (r, y)"
  shows "finalizers_of y = finalizers_of x \<and>
    (r = Ret () \<longrightarrow> ready_of y \<and> conditions_of y = kube_MarkTrue k ClusterReadyCondition (conditions_of x) \<and>
       (\<exists>ev. snd y = snd x @ ev \<and> (\<forall>e \<in> set ev. Event_Type e = EventTypeNormal)) \<and>
       (CPStatus_Ready (CP_Status cp) \<longrightarrow> endpoint_of y = CPSpec_ControlPlaneEndpoint (CP_Spec cp))) \<and>
    (r \<noteq> Ret () \<longrightarrow> ready_of y = ready_of x)"
proof -
  let ?m = "go_seq (managed_reconcileWork k c) (go_seq (mod_conditions (kube_MarkTrue k ClusterReadyCondition)) set_ready)"
  obtain q z where d: "?m x = (q, z)" by (cases "?m x")
  note out = ready_outcome [OF managed_work_step managed_work_quiet d]
  from run have run': "go_seq ?m (copyEndpoint cp) x = (r, y)" unfolding go_seq_assoc .
  show ?thesis
  proof (cases "\<exists>a. q = Ret a")
    case True
    obtain y' where e: "copyEndpoint cp z = (Ret (), y')" "finalizers_of y' = finalizers_of z" "ready_of y' = ready_of z"
      "conditions_of y' = conditions_of z" "snd y' = snd z"
      "endpoint_of y' = (if CPStatus_Ready (CP_Status cp) then CPSpec_ControlPlaneEndpoint (CP_Spec cp) else endpoint_of z)"
      by (rule copyEndpoint_run)
    from True have q: "q = Ret ()" by simp
    from run' d q e(1) have "r = Ret ()" "y = y'" by (simp_all add: go_seq_apply [of ?m])
    with out q e show ?thesis by auto
  next
    case False
    with seq_stopped [OF d run'] out show ?thesis by auto
  qed
qed

lemma managed_reconcile_outcome:
  assumes run: "managed_reconcile k get cluster c x = (r, y)"
  shows "finalizers_of y = kube_AddFinalizer k ManagedClusterFinalizer (finalizers_of x) \<and>
    (r = Ret () \<longrightarrow> ready_of y \<and> conditions_of y = kube_MarkTrue k ClusterReadyCondition (conditions_of x) \<and>
       (\<exists>ev. snd y = snd x @ ev \<and> (\<forall>e \<in> set ev. Event_Type e = EventTypeNormal)) \<and>
       (\<exists>cp. fst (get (Owner_Namespace cluster) (Owner_ControlPlaneRefName cluster) (snd (fst x))) = Ret cp \<and>
         (CPStatus_Ready (CP_Status cp) \<longrightarrow> endpoint_of y = CPSpec_ControlPlaneEndpoint (CP_Spec cp)))) \<and>
    (r \<noteq> Ret () \<longrightarrow> ready_of y = ready_of x)"
proof -
  obtain s w ev where x: "x = ((s, w), ev)" by (cases x; cases "fst x") auto
  let ?s = "s\<lparr>CS_OCICluster := (CS_OCICluster s)\<lparr>Cluster_Finalizers := kube_AddFinalizer k ManagedClusterFinalizer (finalizers_of x)\<rparr>\<rparr>"
  let ?get = "get (Owner_Namespace cluster) (Owner_ControlPlaneRefName cluster)"
  obtain q w1 where g: "?get w = (q, w1)" by (cases "?get w")
  show ?thesis
  proof (cases q)
    case (Ret cp)
    from run g Ret have "go_seq (managed_reconcileWork k c)
        (go_seq (go_seq (mod_conditions (kube_MarkTrue k ClusterReadyCondition)) set_ready) (copyEndpoint cp)) ((?s, w1), ev) = (r, y)"
      by (simp add: managed_reconcile_def x go_seq_apply [of "mod_finalizers f" for f] mod_finalizers_apply
          go_bind_apply go_wrap_apply on_fst_def api_def)
    from managed_finish_outcome [OF this] g Ret x show ?thesis by auto
  qed (use run g x in \<open>auto simp: managed_reconcile_def go_seq_apply [of "mod_finalizers f" for f] mod_finalizers_apply
          go_bind_apply go_wrap_apply on_fst_def api_def\<close>)
qed

end

text \<open>C22. A managed cluster becomes ready with the endpoint of its control plane. \<open>reconcile\<close> puts the finalizer on the object before
  anything else. It marks the cluster ready exactly when it returns nil, and then no warning has been recorded, the control plane
  object was found, and if that is ready the endpoint of the cluster is the one of the control plane; if it fails, the
  readiness is what it was.\<close>

theorem managed_cluster_ready:
  assumes "managed_reconcile k get cluster (clusterScopeClient cl) x = (r, y)"
  shows "finalizers_of y = kube_AddFinalizer k ManagedClusterFinalizer (finalizers_of x) \<and>
    (r = Ret () \<longrightarrow> ready_of y \<and> conditions_of y = kube_MarkTrue k ClusterReadyCondition (conditions_of x) \<and>
       (\<exists>ev. snd y = snd x @ ev \<and> (\<forall>e \<in> set ev. Event_Type e = EventTypeNormal)) \<and>
       (\<exists>cp. fst (get (Owner_Namespace cluster) (Owner_ControlPlaneRefName cluster) (snd (fst x))) = Ret cp \<and>
         (CPStatus_Ready (CP_Status cp) \<longrightarrow> endpoint_of y = CPSpec_ControlPlaneEndpoint (CP_Spec cp)))) \<and>
    (r \<noteq> Ret () \<longrightarrow> ready_of y = ready_of x)"
  by (rule scope.managed_reconcile_outcome [OF assms])

text \<open>A cluster over a network that is managed elsewhere, whose failure domains are known, and a control plane that is ready.\<close>

definition managed_scope :: ClusterScope where
  "managed_scope = byo_scope\<lparr>CS_OCICluster := (CS_OCICluster byo_scope)\<lparr>Cluster_Status :=
     (Cluster_Status (CS_OCICluster byo_scope))\<lparr>Status_FailureDomains := Some Map.empty\<rparr>\<rparr>\<rparr>"

definition ready_control_plane :: OCIManagedControlPlane where
  "ready_control_plane = (cp_object sample_cp)\<lparr>CP_Status := (CP_Status (cp_object sample_cp))\<lparr>CPStatus_Ready := True\<rparr>,
     CP_Spec := (CP_Spec (cp_object sample_cp))\<lparr>CPSpec_ControlPlaneEndpoint := \<lparr>APIEndpoint_Host = ''10.0.0.9'', APIEndpoint_Port = 6443\<rparr>\<rparr>\<rparr>"

definition sample_owner :: OwnerCluster where
  "sample_owner = \<lparr>Owner_Namespace = ''default'', Owner_ControlPlaneRefName = ''demo''\<rparr>"

lemma managed_sample_run:
  "fst (managed_reconcile sample_kube (\<lambda>ns name. go_ret ready_control_plane) sample_owner (clusterScopeClient empty_clients)
     ((managed_scope, ()), [])) = Ret ()"
  by (simp add: managed_reconcile_def managed_reconcileWork_def reconcileComponent_def clusterScopeClient_def ReconcileFailureDomains_def
      GetFailureDomains_def copyEndpoint_def mod_finalizers_def mod_conditions_def set_ready_def managed_scope_def go_simps
      ready_control_plane_def)

theorem managed_cluster_ready_witness:
  "endpoint_of (snd (managed_reconcile sample_kube (\<lambda>ns name. go_ret ready_control_plane) sample_owner (clusterScopeClient empty_clients)
     ((managed_scope, ()), []))) = \<lparr>APIEndpoint_Host = ''10.0.0.9'', APIEndpoint_Port = 6443\<rparr>"
  using managed_cluster_ready [OF prod.collapse [symmetric], of sample_kube "\<lambda>ns name. go_ret ready_control_plane" sample_owner empty_clients
      "((managed_scope, ()), [])"] managed_sample_run
  by (auto simp: go_ret_apply ready_control_plane_def)

end
