(* ===== verification/Node_Pool_Types.thy ===== *)
theory Node_Pool_Types
  imports OKE_Types Pool_Types
begin

text \<open>
  Node pools of managed clusters: the object OCIManagedMachinePool (src/exp/api/v1beta2/ocimanagedmachinepool_types.go) and
  what the container engine service takes and answers. The provider compares the spec with the pool by
  \<open>reflect.DeepEqual\<close>, which tells a nil slice from an empty one, so the slices of the spec are options; a pointer is an
  option as everywhere, and a 32-bit float is its text.
\<close>

type_synonym 'a slice = "'a list option"

text \<open>A nil slice has no elements.\<close>

abbreviation slice_list :: "'a slice \<Rightarrow> 'a list" where
  "slice_list xs \<equiv> (case xs of None \<Rightarrow> [] | Some ys \<Rightarrow> ys)"

section \<open>The object\<close>

record VcnIpNativePodNetworkOptions =
  VPN_MaxPodsPerNode :: "int option"
  VPN_NSGNames :: "string slice"
  VPN_SubnetNames :: "string slice"

record NodePoolPodNetworkOptionDetails =
  PNO_CniType :: string
  PNO_VcnIpNativePodNetworkOptions :: VcnIpNativePodNetworkOptions

record PlacementConfig =
  PlC_AvailabilityDomain :: "string option"
  PlC_CapacityReservationId :: "string option"
  PlC_FaultDomains :: "string slice"
  PlC_SubnetName :: "string option"

record NodePoolNodeConfig =
  NPC_IsPvEncryptionInTransitEnabled :: "bool option"
  NPC_KmsKeyId :: "string option"
  NPC_PlacementConfigs :: "PlacementConfig slice"
  NPC_NsgNames :: "string slice"
  NPC_NodePoolPodNetworkOptionDetails :: "NodePoolPodNetworkOptionDetails option"

record NodeEvictionNodePoolSettings =
  NES_EvictionGraceDuration :: "string option"
  NES_IsForceDeleteAfterGraceDuration :: "bool option"

record NodeShapeConfig =
  NSC_MemoryInGBs :: "string option"
  NSC_Ocpus :: "string option"

record NodeSourceViaImage =
  NSI_BootVolumeSizeInGBs :: "int option"
  NSI_ImageId :: "string option"

record NodePoolCyclingDetails =
  NCD_IsNodeCyclingEnabled :: "bool option"
  NCD_MaximumSurge :: "string option"
  NCD_MaximumUnavailable :: "string option"

record OCIManagedMachinePoolSpec =
  NPS_ProviderID :: "string option"
  NPS_Version :: "string option"
  NPS_ID :: "string option"
  NPS_NodePoolNodeConfig :: "NodePoolNodeConfig option"
  NPS_NodeEvictionNodePoolSettings :: "NodeEvictionNodePoolSettings option"
  NPS_NodeShape :: string
  NPS_NodeShapeConfig :: "NodeShapeConfig option"
  NPS_NodeSourceViaImage :: "NodeSourceViaImage option"
  NPS_SshPublicKey :: string
  NPS_NodeMetadata :: "tags option"
  NPS_InitialNodeLabels :: "KeyValue slice"
  NPS_NodePoolCyclingDetails :: "NodePoolCyclingDetails option"
  NPS_ProviderIDList :: "string slice"

record OCIManagedMachinePoolStatus =
  NPSt_Ready :: bool
  NPSt_Conditions :: "Condition list"
  NPSt_NodepoolLifecycleState :: string
  NPSt_Replicas :: int
  NPSt_FailureReason :: "string option"
  NPSt_FailureMessages :: "string list"
  NPSt_InfrastructureMachineKind :: string

record OCIManagedMachinePool =
  NP_Name :: string
  NP_Namespace :: string
  NP_Kind :: string
  NP_UID :: string
  NP_Finalizers :: "string list"
  NP_Spec :: OCIManagedMachinePoolSpec
  NP_Status :: OCIManagedMachinePoolStatus

abbreviation ManagedMachinePoolFinalizer :: string where
  "ManagedMachinePoolFinalizer \<equiv> ''ocimanagedmachinepool.infrastructure.cluster.x-k8s.io''"
abbreviation NodePoolReadyCondition :: string where "NodePoolReadyCondition \<equiv> ''NodePoolReady''"
abbreviation NodePoolNotFoundReason :: string where "NodePoolNotFoundReason \<equiv> ''NodePoolNotFound''"
abbreviation NodePoolProvisionFailedReason :: string where "NodePoolProvisionFailedReason \<equiv> ''NodePoolProvisionFailed''"
abbreviation NodePoolDeletionInProgress :: string where "NodePoolDeletionInProgress \<equiv> ''NodePoolDeletionInProgress''"
abbreviation NodePoolNotReadyReason :: string where "NodePoolNotReadyReason \<equiv> ''NodePoolNotReady''"
abbreviation NodePoolDeletedReason :: string where "NodePoolDeletedReason \<equiv> ''NodePoolDeleted''"

section \<open>The service\<close>

datatype NodePoolState = NodePoolCreating | NodePoolActive | NodePoolUpdating | NodePoolDeleting | NodePoolDeleted
  | NodePoolStateOther string

datatype NodeState = NodeActive | NodeDeleted | NodeFailing | NodeStateOther string

record OkeNode =
  Node_Id :: "string option"
  Node_Name :: "string option"
  Node_LifecycleState :: NodeState
  Node_Error :: "string option option"

text \<open>The options for the network of the pods: those with the addresses of the VCN, the overlay, or another type.\<close>

datatype SdkPodNetwork =
    NativePodNetwork (PodSubnetIds: "string slice") (PodNsgIds: "string slice") (MaxPods: "int option")
  | FlannelPodNetwork
  | PodNetworkOther string

record SdkPlacement =
  SPl_AvailabilityDomain :: "string option"
  SPl_SubnetId :: "string option"
  SPl_FaultDomains :: "string slice"
  SPl_CapacityReservationId :: "string option"

record SdkNodeConfig =
  SNC_Size :: "int option"
  SNC_NsgIds :: "string slice"
  SNC_PlacementConfigs :: "SdkPlacement slice"
  SNC_IsPvEncryptionInTransitEnabled :: "bool option"
  SNC_KmsKeyId :: "string option"
  SNC_PodNetwork :: "SdkPodNetwork option"
  SNC_FreeformTags :: "tags option"
  SNC_DefinedTags :: "defined_tags option"

record SdkNodeShape =
  SNS_Ocpus :: "string option"
  SNS_MemoryInGBs :: "string option"

datatype SdkNodeSource = NodeSourceImage NodeSourceViaImage | NodeSourceOther string

record OkeNodePool =
  SNP_Id :: "string option"
  SNP_Name :: "string option"
  SNP_KubernetesVersion :: "string option"
  SNP_NodeShape :: "string option"
  SNP_NodeShapeConfig :: "SdkNodeShape option"
  SNP_NodeSourceDetails :: "SdkNodeSource option"
  SNP_NodeConfigDetails :: "SdkNodeConfig option"
  SNP_NodeMetadata :: "tags option"
  SNP_InitialNodeLabels :: "KeyValue list"
  SNP_SshPublicKey :: "string option"
  SNP_NodeEvictionNodePoolSettings :: "NodeEvictionNodePoolSettings option"
  SNP_NodePoolCyclingDetails :: "NodePoolCyclingDetails option"
  SNP_FreeformTags :: tags
  SNP_Nodes :: "OkeNode list"
  SNP_LifecycleState :: NodePoolState
  SNP_LifecycleDetails :: "string option"

record NodePoolSummary =
  NSum_Id :: "string option"
  NSum_FreeformTags :: tags

text \<open>The details that an update sends; a creation sends the compartment, the cluster and the tags with them.\<close>

record UpdateNodePoolDetails =
  UNP_Name :: string
  UNP_KubernetesVersion :: "string option"
  UNP_NodeShape :: string
  UNP_NodeShapeConfig :: SdkNodeShape
  UNP_NodeSourceDetails :: NodeSourceViaImage
  UNP_SshPublicKey :: string
  UNP_NodeConfigDetails :: SdkNodeConfig
  UNP_NodeMetadata :: "tags option"
  UNP_NodeEvictionNodePoolSettings :: "NodeEvictionNodePoolSettings option"
  UNP_NodePoolCyclingDetails :: "NodePoolCyclingDetails option"
  UNP_InitialNodeLabels :: "KeyValue list"

record CreateNodePoolDetails = UpdateNodePoolDetails +
  CNP_CompartmentId :: string
  CNP_ClusterId :: "string option"
  CNP_FreeformTags :: tags
  CNP_DefinedTags :: defined_tags

datatype NodeSourceOption = ImageOption (SourceName: "string option") (SourceImageId: "string option") | SourceOptionOther string

record 'w NodePoolApi =
  api_GetNodePool :: "string option \<Rightarrow> ('w, OkeNodePool) go"
  api_ListNodePools :: "string \<Rightarrow> string option \<Rightarrow> string \<Rightarrow> string option \<Rightarrow> ('w, NodePoolSummary list \<times> string option) go"
  api_CreateNodePool :: "CreateNodePoolDetails \<Rightarrow> ('w, string option) go"
  api_UpdateNodePool :: "string option \<Rightarrow> UpdateNodePoolDetails \<Rightarrow> ('w, unit) go"
  api_DeleteNodePool :: "string option \<Rightarrow> ('w, unit) go"
  api_GetNodePoolOptions :: "string \<Rightarrow> string \<Rightarrow> ('w, NodeSourceOption list) go"
  api_GetNodePoolWorkRequest :: "string option \<Rightarrow> ('w, OkeWorkRequest) go"

end
