(* ===== verification/Node_Pool_Scope.thy ===== *)
theory Node_Pool_Scope
  imports Node_Pool_Types Controller_State Control_Plane_Scope Machine_Pool "HOL-Library.Char_ord" "HOL-Library.List_Lexorder"
begin

text \<open>
  The scope of a managed machine pool (src/cloud/scope/managed_machine_pool.go): the search for the node pool, the image of
  its nodes, the creation, and the comparison of the spec with the pool that decides about an update. The managed cluster
  has the fields of the self managed one, so it is an \<open>OCICluster\<close>. The clients carry the order of Go's maps in this run and the
  order in which \<open>sort.Slice\<close> leaves slices that are too long for insertion.
\<close>

section \<open>State\<close>

record ManagedMachinePoolScope =
  MMP_Cluster :: CapiCluster
  MMP_MachinePool :: MachinePool
  MMP_OCIManagedCluster :: OCICluster
  MMP_OCIManagedControlPlane :: OCIManagedControlPlane
  MMP_OCIManagedMachinePool :: OCIManagedMachinePool

type_synonym ('w, 'a) np_go = "(ManagedMachinePoolScope, 'w, 'a) ctl_go"

record 'w NodePoolClients =
  npc_Engine :: "'w NodePoolApi"
  npc_Kube :: "'w PoolKube"
  npc_Lib :: KubeLib
  npc_MarkUnknown :: "string \<Rightarrow> string \<Rightarrow> Condition list \<Rightarrow> Condition list"
  npc_Float :: FloatParse
  npc_ads :: "(string, OCIAvailabilityDomain) map_order"
  npc_sort :: "PlacementConfig list \<Rightarrow> PlacementConfig list"

abbreviation np_spec :: "ManagedMachinePoolScope \<Rightarrow> OCIManagedMachinePoolSpec" where
  "np_spec m \<equiv> NP_Spec (MMP_OCIManagedMachinePool m)"

abbreviation np_cluster_spec :: "ManagedMachinePoolScope \<Rightarrow> OCIClusterSpec" where
  "np_cluster_spec m \<equiv> Cluster_Spec (MMP_OCIManagedCluster m)"

abbreviation np_vcn :: "ManagedMachinePoolScope \<Rightarrow> VCN" where
  "np_vcn m \<equiv> NetworkSpec_Vcn (Spec_NetworkSpec (np_cluster_spec m))"

definition upd_np :: "(OCIManagedMachinePool \<Rightarrow> OCIManagedMachinePool) \<Rightarrow> ManagedMachinePoolScope \<Rightarrow> ManagedMachinePoolScope" where
  "upd_np f m = m\<lparr>MMP_OCIManagedMachinePool := f (MMP_OCIManagedMachinePool m)\<rparr>"

definition upd_np_spec :: "(OCIManagedMachinePoolSpec \<Rightarrow> OCIManagedMachinePoolSpec) \<Rightarrow>
    ManagedMachinePoolScope \<Rightarrow> ManagedMachinePoolScope" where
  "upd_np_spec f = upd_np (\<lambda>p. p\<lparr>NP_Spec := f (NP_Spec p)\<rparr>)"

definition upd_np_status :: "(OCIManagedMachinePoolStatus \<Rightarrow> OCIManagedMachinePoolStatus) \<Rightarrow>
    ManagedMachinePoolScope \<Rightarrow> ManagedMachinePoolScope" where
  "upd_np_status f = upd_np (\<lambda>p. p\<lparr>NP_Status := f (NP_Status p)\<rparr>)"

definition np_engine :: "'w NodePoolClients \<Rightarrow> ('w NodePoolApi \<Rightarrow> ('w, 'a) go) \<Rightarrow> ('w, 'a) np_go" where
  "np_engine c f = ctl_call (f (npc_Engine c))"

definition NewManagedMachinePoolScope :: "CapiCluster \<Rightarrow> MachinePool option \<Rightarrow> OCICluster option \<Rightarrow> OCIManagedControlPlane \<Rightarrow>
    OCIManagedMachinePool \<Rightarrow> goerr option \<Rightarrow> goerr + ManagedMachinePoolScope" where
  "NewManagedMachinePoolScope cluster machinePool managedCluster controlPlane pool helper = (case machinePool of
      None \<Rightarrow> Inl (ErrNew ''failed to generate new scope from nil MachinePool'')
    | Some mp \<Rightarrow> (case managedCluster of
        None \<Rightarrow> Inl (ErrNew ''failed to generate new scope from nil OCIManagedCluster'')
      | Some mc \<Rightarrow> (case helper of
          Some err \<Rightarrow> Inl (ErrWrap ''failed to init patch helper'' err)
        | None \<Rightarrow> Inr (upd_np_status (\<lambda>st. st\<lparr>NPSt_InfrastructureMachineKind := ''OCIMachinePoolMachine''\<rparr>)
            \<lparr>MMP_Cluster = cluster, MMP_MachinePool = mp, MMP_OCIManagedCluster = mc, MMP_OCIManagedControlPlane = controlPlane,
             MMP_OCIManagedMachinePool = pool\<rparr>))))"

definition np_SetReplicaCount :: "int \<Rightarrow> ManagedMachinePoolScope \<Rightarrow> ManagedMachinePoolScope" where
  "np_SetReplicaCount cnt = upd_np_status (\<lambda>st. st\<lparr>NPSt_Replicas := cnt\<rparr>)"

text \<open>The ids of the active nodes.\<close>

definition activeNodeIds :: "OkeNode list \<Rightarrow> string list" where
  "activeNodeIds nodes = List.map_filter (\<lambda>n. if Node_LifecycleState n = NodeActive then Node_Id n else None) nodes"

definition np_SetListandSetMachinePoolInstances :: "OkeNodePool \<Rightarrow> ('w, int) np_go" where
  "np_SetListandSetMachinePoolInstances nodePool = (let providerIDList = activeNodeIds (SNP_Nodes nodePool) in
     go_seq (ctl_mod (upd_np_spec (\<lambda>sp. sp\<lparr>NPS_ProviderIDList := Some providerIDList\<rparr>)))
       (go_ret (int32_of (int (length providerIDList)))))"

section \<open>Queries\<close>

definition np_IsResourceCreatedByClusterAPI :: "ManagedMachinePoolScope \<Rightarrow> tags \<Rightarrow> bool" where
  "np_IsResourceCreatedByClusterAPI m resourceFreeFormTags =
     (let tagsAddedByClusterAPI = BuildClusterTags (Spec_OCIResourceIdentifier (np_cluster_spec m))
      in list_all (\<lambda>k. tag_at resourceFreeFormTags k = tag_at tagsAddedByClusterAPI k) cluster_tag_keys)"

definition getNodePoolName :: "ManagedMachinePoolScope \<Rightarrow> string" where
  "getNodePoolName m = NP_Name (MMP_OCIManagedMachinePool m)"

definition np_getDefinedTags :: "ManagedMachinePoolScope \<Rightarrow> defined_tags" where
  "np_getDefinedTags m = (case Spec_DefinedTags (np_cluster_spec m) of None \<Rightarrow> Map.empty | Some t \<Rightarrow> t)"

text \<open>The tags of the user are added to those of the provider, and win.\<close>

definition np_getFreeFormTags :: "ManagedMachinePoolScope \<Rightarrow> tags" where
  "np_getFreeFormTags m = BuildClusterTags (Spec_OCIResourceIdentifier (np_cluster_spec m)) ++ Spec_FreeformTags (np_cluster_spec m)"

definition np_subnets :: "ManagedMachinePoolScope \<Rightarrow> Subnet list" where
  "np_subnets m = ToSubnetSlice (VCN_Subnets (np_vcn m))"

definition np_nsgs :: "ManagedMachinePoolScope \<Rightarrow> NSG list" where
  "np_nsgs m = ToNSGSlice (NetworkSecurityGroup_List (VCN_NetworkSecurityGroup (np_vcn m)))"

definition np_GetWorkerMachineSubnet :: "ManagedMachinePoolScope \<Rightarrow> string option" where
  "np_GetWorkerMachineSubnet m = Option.bind (find (\<lambda>subnet. Subnet_Role subnet = WorkerRole) (np_subnets m)) Subnet_ID"

definition getWorkerMachineSubnets :: "ManagedMachinePoolScope \<Rightarrow> string list" where
  "getWorkerMachineSubnets m = map Subnet_Name (filter (\<lambda>subnet. Subnet_Role subnet = WorkerRole) (np_subnets m))"

text \<open>The ids of the groups with a name, in the order of the names.\<close>

definition nsgIdsByName :: "ManagedMachinePoolScope \<Rightarrow> string list \<Rightarrow> string list" where
  "nsgIdsByName m names = concat (map (\<lambda>nsgName.
     List.map_filter (\<lambda>nsg. if NSG_Name nsg = nsgName then NSG_ID nsg else None) (np_nsgs m)) names)"

definition getWorkerMachineNSGs :: "ManagedMachinePoolScope \<Rightarrow> NodePoolNodeConfig \<Rightarrow> string list" where
  "getWorkerMachineNSGs m config = (let specNsgNames = slice_list (NPC_NsgNames config) in
     if specNsgNames \<noteq> [] then nsgIdsByName m specNsgNames
     else List.map_filter (\<lambda>nsg. if NSG_Role nsg = WorkerRole then NSG_ID nsg else None) (np_nsgs m))"

definition getWorkerMachineNSGList :: "ManagedMachinePoolScope \<Rightarrow> string list" where
  "getWorkerMachineNSGList m = map NSG_Name (filter (\<lambda>nsg. NSG_Role nsg = WorkerRole) (np_nsgs m))"

definition getPodSubnets :: "ManagedMachinePoolScope \<Rightarrow> string list \<Rightarrow> string list" where
  "getPodSubnets m subnets = concat (map (\<lambda>subnetName.
     map (\<lambda>subnet. ToString (Subnet_ID subnet)) (filter (\<lambda>subnet. Subnet_Name subnet = subnetName) (np_subnets m))) subnets)"

definition getPodNSGs :: "ManagedMachinePoolScope \<Rightarrow> string list \<Rightarrow> string list" where
  "getPodNSGs m nsgs = nsgIdsByName m nsgs"

definition np_getWorkerMachineSubnet :: "ManagedMachinePoolScope \<Rightarrow> string option \<Rightarrow> string option" where
  "np_getWorkerMachineSubnet m name =
     Option.bind (find (\<lambda>subnet. Subnet_ID subnet \<noteq> None \<and> Subnet_Name subnet = ToString name) (np_subnets m)) Subnet_ID"

fun buildPlacementConfig :: "ManagedMachinePoolScope \<Rightarrow> PlacementConfig list \<Rightarrow> goerr + SdkPlacement list" where
  "buildPlacementConfig m [] = Inr []"
| "buildPlacementConfig m (config # configs) = (case np_getWorkerMachineSubnet m (PlC_SubnetName config) of
      None \<Rightarrow> Inl (ErrNew (''worker subnet '' @ ToString (PlC_SubnetName config) @ '' is not present in placementConfigs spec''))
    | Some subnetId \<Rightarrow> (case buildPlacementConfig m configs of
        Inl err \<Rightarrow> Inl err
      | Inr placements \<Rightarrow> Inr (\<lparr>SPl_AvailabilityDomain = PlC_AvailabilityDomain config, SPl_SubnetId = Some subnetId,
          SPl_FaultDomains = PlC_FaultDomains config, SPl_CapacityReservationId = PlC_CapacityReservationId config\<rparr> # placements)))"

text \<open>The labels are copied one by one into an empty slice.\<close>

definition getInitialNodeKeyValuePairs :: "ManagedMachinePoolScope \<Rightarrow> KeyValue list" where
  "getInitialNodeKeyValuePairs m = slice_list (NPS_InitialNodeLabels (np_spec m))"

section \<open>Search\<close>

definition getOKENodePoolFromOCID :: "'w NodePoolClients \<Rightarrow> string option \<Rightarrow> ('w, OkeNodePool) np_go" where
  "getOKENodePoolFromOCID c nodePoolId = np_engine c (\<lambda>a. api_GetNodePool a nodePoolId)"

definition nodePoolPage :: "'w NodePoolClients \<Rightarrow> ManagedMachinePoolScope \<Rightarrow> string option \<Rightarrow>
    ('w, string option + OkeNodePool option) np_go" where
  "nodePoolPage c m page =
     go_bind (np_engine c (\<lambda>a. api_ListNodePools a (Spec_CompartmentId (np_cluster_spec m))
       (CPSpec_ID (CP_Spec (MMP_OCIManagedControlPlane m))) (getNodePoolName m) page)) (\<lambda>(items, opcNextPage).
     case find (\<lambda>i. np_IsResourceCreatedByClusterAPI m (NSum_FreeformTags i)) items of
       Some i \<Rightarrow> go_bind (getOKENodePoolFromOCID c (NSum_Id i)) (\<lambda>pool. go_ret (Inr (Some pool)))
     | None \<Rightarrow> (case opcNextPage of None \<Rightarrow> go_ret (Inr None) | Some p \<Rightarrow> go_ret (Inl (Some p))))"

definition FindNodePool :: "'w NodePoolClients \<Rightarrow> ('w, OkeNodePool option) np_go" where
  "FindNodePool c =
     go_bind ctl_get (\<lambda>m. case NPS_ID (np_spec m) of
       Some i \<Rightarrow> go_bind (np_engine c (\<lambda>a. api_GetNodePool a (Some i))) (\<lambda>pool.
         if np_IsResourceCreatedByClusterAPI m (SNP_FreeformTags pool) then go_ret (Some pool)
         else go_throw (ErrNew ''cluster api tags have been modified out of context''))
     | None \<Rightarrow> go_loop (nodePoolPage c m) None)"

definition DeleteNodePool :: "'w NodePoolClients \<Rightarrow> OkeNodePool \<Rightarrow> ('w, unit) np_go" where
  "DeleteNodePool c nodePool = np_engine c (\<lambda>a. api_DeleteNodePool a (SNP_Id nodePool))"

section \<open>The image\<close>

definition isValidImage :: "string \<Rightarrow> bool" where
  "isValidImage sourceName \<longleftrightarrow> \<not> Contains sourceName ''GPU''"

text \<open>A match of the regular expression \<open>Standard\.A\d+\<close> anywhere in the shape.\<close>

fun armShapeMatch :: "string \<Rightarrow> bool" where
  "armShapeMatch [] = False"
| "armShapeMatch (x # xs) =
     ((HasPrefix (x # xs) ''Standard.A'' \<and> (case drop 10 (x # xs) of [] \<Rightarrow> False | d # _ \<Rightarrow> CHR ''0'' \<le> d \<and> d \<le> CHR ''9''))
      \<or> armShapeMatch xs)"

definition versionSegment :: "string \<Rightarrow> string" where
  "versionSegment specVersion = ''-OKE-'' @ drop 1 specVersion @ ''-''"

definition imageFits :: "string \<Rightarrow> string \<Rightarrow> string \<Rightarrow> bool" where
  "imageFits shape specVersion sourceName \<longleftrightarrow>
     isValidImage sourceName \<and> \<not> (Contains sourceName ''aarch64'' \<and> \<not> armShapeMatch shape) \<and>
     Contains sourceName (versionSegment specVersion)"

fun lookupImage :: "string \<Rightarrow> string \<Rightarrow> NodeSourceOption list \<Rightarrow> ('s, string option) go" where
  "lookupImage shape specVersion [] = go_ret None"
| "lookupImage shape specVersion (SourceOptionOther _ # sources) = lookupImage shape specVersion sources"
| "lookupImage shape specVersion (ImageOption name imageId # sources) =
     go_bind (go_deref name) (\<lambda>sourceName.
     if imageFits shape specVersion sourceName
     then go_bind (go_deref imageId) (\<lambda>i. go_ret (Some i))
     else lookupImage shape specVersion sources)"

definition setImage :: "string option \<Rightarrow> OCIManagedMachinePoolSpec \<Rightarrow> OCIManagedMachinePoolSpec" where
  "setImage i sp = sp\<lparr>NPS_NodeSourceViaImage := map_option (\<lambda>src. src\<lparr>NSI_ImageId := i\<rparr>) (NPS_NodeSourceViaImage sp)\<rparr>"

definition initImageSource :: "OCIManagedMachinePoolSpec \<Rightarrow> OCIManagedMachinePoolSpec" where
  "initImageSource sp = (case NPS_NodeSourceViaImage sp of
      None \<Rightarrow> sp\<lparr>NPS_NodeSourceViaImage := Some \<lparr>NSI_BootVolumeSizeInGBs = None, NSI_ImageId = None\<rparr>\<rparr>
    | Some _ \<Rightarrow> sp)"

definition setNodepoolImageId :: "'w NodePoolClients \<Rightarrow> ('w, unit) np_go" where
  "setNodepoolImageId c =
     go_seq (ctl_mod (upd_np_spec initImageSource))
     (go_bind ctl_get (\<lambda>m.
     if ToString (Option.bind (NPS_NodeSourceViaImage (np_spec m)) NSI_ImageId) \<noteq> '''' then go_ret ()
     else
       go_bind (np_engine c (\<lambda>a. api_GetNodePoolOptions a ''all'' (Spec_CompartmentId (np_cluster_spec m)))) (\<lambda>sources.
       case NPS_Version (np_spec m) of
         None \<Rightarrow> go_throw (ErrNew ''invalid/nil kubernetes version is set in OCIManagedMachinePool Spec'')
       | Some specVersion \<Rightarrow>
           if specVersion = '''' then go_throw (ErrNew ''invalid/nil kubernetes version is set in OCIManagedMachinePool Spec'')
           else
             go_bind (lookupImage (NPS_NodeShape (np_spec m)) specVersion sources) (\<lambda>image. case image of
               Some i \<Rightarrow> ctl_mod (upd_np_spec (setImage (Some i)))
             | None \<Rightarrow> go_throw (ErrNew ''could not lookup nodepool image id from nodepool options'')))))"

end
