(* ===== verification/Node_Pool_Update.thy ===== *)
theory Node_Pool_Update
  imports Node_Pool_Scope
begin

text \<open>
  Creation of a node pool, and the comparison of the spec with the pool that decides about an update (\<open>CreateNodePool\<close>,
  \<open>UpdateNodePool\<close>, \<open>setMachinePoolSpecDefaults\<close>, \<open>getSpecFromAPIObject\<close> of src/cloud/scope/managed_machine_pool.go).
\<close>

section \<open>Parts of the requests\<close>

text \<open>Both requests parse the shape in the same way.\<close>

definition parseShapeNumber :: "FloatParse \<Rightarrow> string \<Rightarrow> string option \<Rightarrow> goerr + string option" where
  "parseShapeNumber fl what txt = (case txt of
      None \<Rightarrow> Inr None
    | Some s \<Rightarrow> (case fp_Float32 fl s of
        None \<Rightarrow> Inl (ErrNew (what @ '' provided '' @ s @ '' is not a valid floating point''))
      | Some f \<Rightarrow> Inr (Some f)))"

definition nodeShapeDetails :: "FloatParse \<Rightarrow> NodeShapeConfig option \<Rightarrow> ('s, SdkNodeShape) go" where
  "nodeShapeDetails fl config = (case config of
      None \<Rightarrow> go_ret \<lparr>SNS_Ocpus = None, SNS_MemoryInGBs = None\<rparr>
    | Some sc \<Rightarrow>
        go_bind (go_res (parseShapeNumber fl ''ocpus'' (NSC_Ocpus sc))) (\<lambda>ocpus.
        go_bind (go_res (parseShapeNumber fl ''memoryInGBs'' (NSC_MemoryInGBs sc))) (\<lambda>memory.
        go_ret \<lparr>SNS_Ocpus = ocpus, SNS_MemoryInGBs = memory\<rparr>)))"

definition podNetworkDetails :: "ManagedMachinePoolScope \<Rightarrow> NodePoolPodNetworkOptionDetails option \<Rightarrow> SdkPodNetwork option" where
  "podNetworkDetails m options = (case options of
      None \<Rightarrow> None
    | Some po \<Rightarrow>
        if PNO_CniType po = VCNNativeCNI then
          let native = PNO_VcnIpNativePodNetworkOptions po in
          Some (NativePodNetwork (Some (getPodSubnets m (slice_list (VPN_SubnetNames native))))
            (Some (getPodNSGs m (slice_list (VPN_NSGNames native)))) (VPN_MaxPodsPerNode native))
        else if PNO_CniType po = FlannelCNI then Some FlannelPodNetwork
        else None)"

section \<open>Creation\<close>

definition upd_node_config :: "(NodePoolNodeConfig \<Rightarrow> NodePoolNodeConfig) \<Rightarrow> ManagedMachinePoolScope \<Rightarrow> ManagedMachinePoolScope" where
  "upd_node_config f = upd_np_spec (\<lambda>sp. sp\<lparr>NPS_NodePoolNodeConfig := map_option f (NPS_NodePoolNodeConfig sp)\<rparr>)"

definition empty_node_config :: NodePoolNodeConfig where
  "empty_node_config = \<lparr>NPC_IsPvEncryptionInTransitEnabled = None, NPC_KmsKeyId = None, NPC_PlacementConfigs = None,
     NPC_NsgNames = None, NPC_NodePoolPodNetworkOptionDetails = None\<rparr>"

definition initNodeConfig :: "OCIManagedMachinePoolSpec \<Rightarrow> OCIManagedMachinePoolSpec" where
  "initNodeConfig sp = (case NPS_NodePoolNodeConfig sp of
      None \<Rightarrow> sp\<lparr>NPS_NodePoolNodeConfig := Some empty_node_config\<rparr>
    | Some _ \<Rightarrow> sp)"

text \<open>The default: every availability domain, in the first worker subnet.\<close>

definition defaultPlacements :: "(string, OCIAvailabilityDomain) map_order \<Rightarrow> ManagedMachinePoolScope \<Rightarrow> string \<Rightarrow> PlacementConfig list" where
  "defaultPlacements iter m subnet = map (\<lambda>(k, v).
     \<lparr>PlC_AvailabilityDomain = Some k, PlC_CapacityReservationId = None,
      PlC_FaultDomains = (if AD_FaultDomains v = [] then None else Some (AD_FaultDomains v)), PlC_SubnetName = Some subnet\<rparr>)
     (iter (slice_list (Spec_AvailabilityDomains (np_cluster_spec m))))"

definition setPlacementDefaults :: "'w NodePoolClients \<Rightarrow> ('w, PlacementConfig list) np_go" where
  "setPlacementDefaults c =
     go_seq (ctl_mod (upd_np_spec initNodeConfig))
     (go_bind ctl_get (\<lambda>m.
     go_bind (go_deref (NPS_NodePoolNodeConfig (np_spec m))) (\<lambda>config.
     go_bind
       (if slice_list (NPC_PlacementConfigs config) \<noteq> [] then go_ret (slice_list (NPC_PlacementConfigs config))
        else (case getWorkerMachineSubnets m of
            [] \<Rightarrow> go_throw (ErrNew ''worker subnets are not specified'')
          | subnet # _ \<Rightarrow>
              let placementConfigs = defaultPlacements (npc_ads c) m subnet in
              go_seq (ctl_mod (upd_node_config (\<lambda>nc. nc\<lparr>NPC_PlacementConfigs := Some placementConfigs\<rparr>)))
                (go_ret placementConfigs))) (\<lambda>placementConfigs.
     go_seq
       (if slice_list (NPC_NsgNames config) = []
        then ctl_mod (upd_node_config (\<lambda>nc. nc\<lparr>NPC_NsgNames := Some (getWorkerMachineNSGList m)\<rparr>))
        else go_ret ())
       (go_ret placementConfigs)))))"

definition createNodePoolDetails :: "ManagedMachinePoolScope \<Rightarrow> SdkNodeConfig \<Rightarrow> SdkNodeShape \<Rightarrow> NodeSourceViaImage \<Rightarrow> CreateNodePoolDetails" where
  "createNodePoolDetails m nodeConfig shape source = (let sp = np_spec m in
     \<lparr>UNP_Name = getNodePoolName m, UNP_KubernetesVersion = NPS_Version sp, UNP_NodeShape = NPS_NodeShape sp,
      UNP_NodeShapeConfig = shape, UNP_NodeSourceDetails = source, UNP_SshPublicKey = NPS_SshPublicKey sp,
      UNP_NodeConfigDetails = nodeConfig, UNP_NodeMetadata = NPS_NodeMetadata sp,
      UNP_NodeEvictionNodePoolSettings = NPS_NodeEvictionNodePoolSettings sp,
      UNP_NodePoolCyclingDetails = NPS_NodePoolCyclingDetails sp,
      UNP_InitialNodeLabels = getInitialNodeKeyValuePairs m,
      CNP_CompartmentId = Spec_CompartmentId (np_cluster_spec m), CNP_ClusterId = CPSpec_ID (CP_Spec (MMP_OCIManagedControlPlane m)),
      CNP_FreeformTags = np_getFreeFormTags m, CNP_DefinedTags = np_getDefinedTags m\<rparr>)"

definition createNodeConfig :: "ManagedMachinePoolScope \<Rightarrow> NodePoolNodeConfig \<Rightarrow> int \<Rightarrow> SdkPlacement list \<Rightarrow> SdkNodeConfig" where
  "createNodeConfig m config replicas placements =
     \<lparr>SNC_Size = Some replicas, SNC_NsgIds = Some (getWorkerMachineNSGs m config), SNC_PlacementConfigs = Some placements,
      SNC_IsPvEncryptionInTransitEnabled = NPC_IsPvEncryptionInTransitEnabled config, SNC_KmsKeyId = NPC_KmsKeyId config,
      SNC_PodNetwork = podNetworkDetails m (NPC_NodePoolPodNetworkOptionDetails config),
      SNC_FreeformTags = Some (np_getFreeFormTags m), SNC_DefinedTags = Some (np_getDefinedTags m)\<rparr>"

text \<open>The id of the pool in the work request: the last resource of that type wins.\<close>

definition createdNodePoolId :: "WorkRequestResource list \<Rightarrow> string option" where
  "createdNodePoolId resources = foldl (\<lambda>i r. if ToString (WRR_EntityType r) = ''nodepool'' then WRR_Identifier r else i) None resources"

definition awaitNodePool :: "'w NodePoolClients \<Rightarrow> CreateNodePoolDetails \<Rightarrow> ('w, OkeNodePool) np_go" where
  "awaitNodePool c details =
     go_bind (go_wrap ''failed to create OCIManagedMachinePool'' (np_engine c (\<lambda>a. api_CreateNodePool a details))) (\<lambda>workRequestId.
     go_bind (np_engine c (\<lambda>a. api_GetNodePoolWorkRequest a workRequestId)) (\<lambda>wr.
     case createdNodePoolId (OWR_Resources wr) of
       None \<Rightarrow> go_bind (go_deref (OWR_OpcRequestId wr)) (\<lambda>req. go_throw (ErrNew
         (''node pool ws not created with the request, please create a support ticket with opc-request-id '' @ req)))
     | Some i \<Rightarrow> go_seq (ctl_mod (upd_np_spec (\<lambda>sp. sp\<lparr>NPS_ID := Some i\<rparr>))) (getOKENodePoolFromOCID c (Some i))))"

definition CreateNodePool :: "'w NodePoolClients \<Rightarrow> ('w, OkeNodePool) np_go" where
  "CreateNodePool c =
     go_bind (setPlacementDefaults c) (\<lambda>placementConfigs.
     go_bind ctl_get (\<lambda>m.
     go_bind (go_res (buildPlacementConfig m placementConfigs)) (\<lambda>placements.
     go_bind (go_deref (MP_Replicas (MMP_MachinePool m))) (\<lambda>replicas.
     go_bind (go_deref (NPS_NodePoolNodeConfig (np_spec m))) (\<lambda>config.
     go_bind (nodeShapeDetails (npc_Float c) (NPS_NodeShapeConfig (np_spec m))) (\<lambda>shape.
     go_seq (setNodepoolImageId c)
     (go_bind ctl_get (\<lambda>n.
     go_bind (go_deref (NPS_NodeSourceViaImage (np_spec n))) (\<lambda>source.
     awaitNodePool c (createNodePoolDetails n (createNodeConfig m config replicas placements) shape source))))))))))"

section \<open>The pool as a spec\<close>

text \<open>\<open>sort.Slice\<close> by availability domain: it dereferences the domain of every element as soon as there are two. Up to twelve
  elements are sorted by insertion, which keeps the order of equal ones; the order in which longer slices end up is \<open>order\<close>.\<close>

definition sortByDomain :: "(PlacementConfig list \<Rightarrow> PlacementConfig list) \<Rightarrow> PlacementConfig list \<Rightarrow> ('s, PlacementConfig list) go" where
  "sortByDomain order configs =
     (if length configs \<ge> 2 \<and> list_ex (\<lambda>p. Option.is_none (PlC_AvailabilityDomain p)) configs then go_panic
      else go_ret (if length configs \<le> 12 then sort_key (\<lambda>p. ToString (PlC_AvailabilityDomain p)) configs else order configs))"

definition defaultMaxPods :: "NodePoolPodNetworkOptionDetails \<Rightarrow> NodePoolPodNetworkOptionDetails" where
  "defaultMaxPods po = (let native = PNO_VcnIpNativePodNetworkOptions po in
     if PNO_CniType po = VCNNativeCNI \<and> Option.is_none (VPN_MaxPodsPerNode native)
     then po\<lparr>PNO_VcnIpNativePodNetworkOptions := native\<lparr>VPN_MaxPodsPerNode := Some 31\<rparr>\<rparr> else po)"

definition setMachinePoolSpecDefaults :: "(PlacementConfig list \<Rightarrow> PlacementConfig list) \<Rightarrow> OCIManagedMachinePoolSpec \<Rightarrow> ('s, OCIManagedMachinePoolSpec) go" where
  "setMachinePoolSpecDefaults order spec =
     go_bind (go_deref (NPS_NodePoolNodeConfig spec)) (\<lambda>config.
     go_bind (case NPC_PlacementConfigs config of
         None \<Rightarrow> go_ret None
       | Some configs \<Rightarrow> go_bind (sortByDomain order configs) (\<lambda>sorted. go_ret (Some sorted))) (\<lambda>placements.
     go_ret (spec\<lparr>NPS_ProviderIDList := None, NPS_ProviderID := None,
       NPS_NodePoolNodeConfig := Some (config\<lparr>NPC_PlacementConfigs := placements,
         NPC_NodePoolPodNetworkOptionDetails := map_option defaultMaxPods (NPC_NodePoolPodNetworkOptionDetails config)\<rparr>)\<rparr>)))"

definition getInitialNodeLabels :: "KeyValue list \<Rightarrow> KeyValue slice" where
  "getInitialNodeLabels labels = (if labels = [] then None else Some labels)"

definition buildPlacementConfigFromActual :: "ManagedMachinePoolScope \<Rightarrow> SdkPlacement list \<Rightarrow> PlacementConfig list" where
  "buildPlacementConfigFromActual m actualConfigs = map (\<lambda>config.
     \<lparr>PlC_AvailabilityDomain = SPl_AvailabilityDomain config, PlC_CapacityReservationId = SPl_CapacityReservationId config,
      PlC_FaultDomains = SPl_FaultDomains config,
      PlC_SubnetName = Some (GetSubnetNameFromId (SPl_SubnetId config) (VCN_Subnets (np_vcn m)))\<rparr>) actualConfigs"

definition nsgNamesSlice :: "ManagedMachinePoolScope \<Rightarrow> string slice \<Rightarrow> string slice" where
  "nsgNamesSlice m ids = (let xs = slice_list ids in
     if xs = [] then None else Some (GetNsgNamesFromId xs (NetworkSecurityGroup_List (VCN_NetworkSecurityGroup (np_vcn m)))))"

definition podNetworkFromActual :: "ManagedMachinePoolScope \<Rightarrow> SdkPodNetwork option \<Rightarrow> NodePoolPodNetworkOptionDetails" where
  "podNetworkFromActual m details = (case details of
      Some (NativePodNetwork subnets nsgs maxPods) \<Rightarrow>
        \<lparr>PNO_CniType = VCNNativeCNI, PNO_VcnIpNativePodNetworkOptions =
          \<lparr>VPN_MaxPodsPerNode = maxPods, VPN_NSGNames = nsgNamesSlice m nsgs,
           VPN_SubnetNames = Some (GetSubnetNamesFromId (slice_list subnets) (VCN_Subnets (np_vcn m)))\<rparr>\<rparr>
    | _ \<Rightarrow> \<lparr>PNO_CniType = FlannelCNI, PNO_VcnIpNativePodNetworkOptions =
          \<lparr>VPN_MaxPodsPerNode = None, VPN_NSGNames = None, VPN_SubnetNames = None\<rparr>\<rparr>)"

definition nodeConfigFromActual :: "(PlacementConfig list \<Rightarrow> PlacementConfig list) \<Rightarrow> ManagedMachinePoolScope \<Rightarrow> SdkNodeConfig option \<Rightarrow> ('s, NodePoolNodeConfig) go" where
  "nodeConfigFromActual order m details = (case details of
      None \<Rightarrow> go_ret empty_node_config
    | Some d \<Rightarrow>
        go_bind (sortByDomain order (buildPlacementConfigFromActual m (slice_list (SNC_PlacementConfigs d)))) (\<lambda>configs.
        go_ret \<lparr>NPC_IsPvEncryptionInTransitEnabled = SNC_IsPvEncryptionInTransitEnabled d, NPC_KmsKeyId = SNC_KmsKeyId d,
          NPC_PlacementConfigs = Some configs, NPC_NsgNames = nsgNamesSlice m (SNC_NsgIds d),
          NPC_NodePoolPodNetworkOptionDetails = Some (podNetworkFromActual m (SNC_PodNetwork d))\<rparr>))"

definition getSpecFromAPIObject :: "(PlacementConfig list \<Rightarrow> PlacementConfig list) \<Rightarrow> ManagedMachinePoolScope \<Rightarrow> OkeNodePool \<Rightarrow> ('s, OCIManagedMachinePoolSpec) go" where
  "getSpecFromAPIObject order m pool =
     go_bind (nodeConfigFromActual order m (SNP_NodeConfigDetails pool)) (\<lambda>config.
     go_bind (go_deref (SNP_NodeShape pool)) (\<lambda>shape.
     go_ret \<lparr>NPS_ProviderID = None, NPS_Version = SNP_KubernetesVersion pool, NPS_ID = SNP_Id pool,
       NPS_NodePoolNodeConfig = Some config,
       NPS_NodeEvictionNodePoolSettings = SNP_NodeEvictionNodePoolSettings pool,
       NPS_NodeShape = shape,
       NPS_NodeShapeConfig = map_option (\<lambda>s. \<lparr>NSC_MemoryInGBs = SNS_MemoryInGBs s, NSC_Ocpus = SNS_Ocpus s\<rparr>) (SNP_NodeShapeConfig pool),
       NPS_NodeSourceViaImage = (case SNP_NodeSourceDetails pool of Some (NodeSourceImage src) \<Rightarrow> Some src | _ \<Rightarrow> None),
       NPS_SshPublicKey = ToString (SNP_SshPublicKey pool),
       NPS_NodeMetadata = SNP_NodeMetadata pool,
       NPS_InitialNodeLabels = getInitialNodeLabels (SNP_InitialNodeLabels pool),
       NPS_NodePoolCyclingDetails = SNP_NodePoolCyclingDetails pool,
       NPS_ProviderIDList = None\<rparr>))"

section \<open>Update\<close>

definition sizeUpdateRequired :: "ManagedMachinePoolScope \<Rightarrow> OkeNodePool \<Rightarrow> ('s, bool) go" where
  "sizeUpdateRequired m pool =
     (if MP_ReplicasManagedExternally (MMP_MachinePool m) then go_ret False
      else go_bind (go_deref (MP_Replicas (MMP_MachinePool m))) (\<lambda>replicas.
        go_bind (go_deref (SNP_NodeConfigDetails pool)) (\<lambda>details.
        go_bind (go_deref (SNC_Size details)) (\<lambda>size. go_ret (replicas \<noteq> int32_of size)))))"

text \<open>The name is looked at only when the specs agree.\<close>

definition poolDiffers :: "ManagedMachinePoolScope \<Rightarrow> OCIManagedMachinePoolSpec \<Rightarrow> OCIManagedMachinePoolSpec \<Rightarrow> OkeNodePool \<Rightarrow>
    bool \<Rightarrow> ('s, bool) go" where
  "poolDiffers m spec actual pool sizeUpdate =
     (if spec \<noteq> actual then go_ret True
      else go_bind (go_deref (SNP_Name pool)) (\<lambda>name. go_ret (getNodePoolName m \<noteq> name \<or> sizeUpdate)))"

definition changedPlacements :: "ManagedMachinePoolScope \<Rightarrow> NodePoolNodeConfig \<Rightarrow> NodePoolNodeConfig \<Rightarrow> ('s, SdkPlacement slice) go" where
  "changedPlacements m config actual =
     (if NPC_PlacementConfigs config \<noteq> NPC_PlacementConfigs actual
      then go_bind (go_res (buildPlacementConfig m (slice_list (NPC_PlacementConfigs config)))) (\<lambda>placements. go_ret (Some placements))
      else go_ret None)"

definition updateNodePoolDetails :: "ManagedMachinePoolScope \<Rightarrow> OCIManagedMachinePoolSpec \<Rightarrow> SdkNodeConfig \<Rightarrow> SdkNodeShape \<Rightarrow>
    NodeSourceViaImage \<Rightarrow> UpdateNodePoolDetails" where
  "updateNodePoolDetails m spec nodeConfig shape source =
     \<lparr>UNP_Name = getNodePoolName m, UNP_KubernetesVersion = NPS_Version (np_spec m), UNP_NodeShape = NPS_NodeShape (np_spec m),
      UNP_NodeShapeConfig = shape, UNP_NodeSourceDetails = source, UNP_SshPublicKey = NPS_SshPublicKey (np_spec m),
      UNP_NodeConfigDetails = nodeConfig, UNP_NodeMetadata = NPS_NodeMetadata spec,
      UNP_NodeEvictionNodePoolSettings = NPS_NodeEvictionNodePoolSettings spec,
      UNP_NodePoolCyclingDetails = (if slice_list (SNC_PlacementConfigs nodeConfig) = [] then NPS_NodePoolCyclingDetails spec else None),
      UNP_InitialNodeLabels = getInitialNodeKeyValuePairs m\<rparr>"

definition sendNodePoolUpdate :: "'w NodePoolClients \<Rightarrow> OCIManagedMachinePoolSpec \<Rightarrow> OCIManagedMachinePoolSpec \<Rightarrow> OkeNodePool \<Rightarrow>
    bool \<Rightarrow> ('w, unit) np_go" where
  "sendNodePoolUpdate c spec actual pool sizeUpdate =
     go_bind ctl_get (\<lambda>m.
     go_bind (go_deref (NPS_NodePoolNodeConfig (np_spec m))) (\<lambda>ownConfig.
     go_bind (go_deref (NPS_NodePoolNodeConfig spec)) (\<lambda>config.
     go_bind (go_deref (NPS_NodePoolNodeConfig actual)) (\<lambda>actualConfig.
     go_bind (changedPlacements m config actualConfig) (\<lambda>placements.
     go_bind (if sizeUpdate then go_bind (go_deref (MP_Replicas (MMP_MachinePool m))) (\<lambda>r. go_ret (Some r)) else go_ret None) (\<lambda>size.
     go_bind (nodeShapeDetails (npc_Float c) (NPS_NodeShapeConfig spec)) (\<lambda>shape.
     go_seq (setNodepoolImageId c)
     (go_bind ctl_get (\<lambda>n.
     go_bind (go_deref (NPS_NodeSourceViaImage (np_spec n))) (\<lambda>ownSource.
     go_bind (go_deref (NPS_NodeSourceViaImage spec)) (\<lambda>specSource.
     go_wrap ''failed to update Node Pool'' (np_engine c (\<lambda>a. api_UpdateNodePool a (SNP_Id pool)
       (updateNodePoolDetails n spec
         \<lparr>SNC_Size = size, SNC_NsgIds = Some (getWorkerMachineNSGs m ownConfig), SNC_PlacementConfigs = placements,
          SNC_IsPvEncryptionInTransitEnabled = NPC_IsPvEncryptionInTransitEnabled config, SNC_KmsKeyId = NPC_KmsKeyId config,
          SNC_PodNetwork = podNetworkDetails m (NPC_NodePoolPodNetworkOptionDetails config),
          SNC_FreeformTags = None, SNC_DefinedTags = None\<rparr>
         shape (specSource\<lparr>NSI_ImageId := NSI_ImageId ownSource\<rparr>)))))))))))))))"

definition UpdateNodePool :: "'w NodePoolClients \<Rightarrow> OkeNodePool \<Rightarrow> ('w, bool) np_go" where
  "UpdateNodePool c pool =
     go_bind ctl_get (\<lambda>m.
     go_bind (setMachinePoolSpecDefaults (npc_sort c) (np_spec m)) (\<lambda>spec.
     go_bind (sizeUpdateRequired m pool) (\<lambda>nodePoolSizeUpdateRequired.
     go_bind (getSpecFromAPIObject (npc_sort c) m pool) (\<lambda>actual.
     go_bind (poolDiffers m spec actual pool nodePoolSizeUpdateRequired) (\<lambda>differs.
     if differs then go_seq (sendNodePoolUpdate c spec actual pool nodePoolSizeUpdateRequired) (go_ret True)
     else go_ret False)))))"

end
