(* ===== verification/Node_Pool_Controller.thy ===== *)
theory Node_Pool_Controller
  imports Node_Pool_Update Pool_Machines
begin

text \<open>
  The controller of OCIManagedMachinePool objects (src/exp/controllers/ocimanaged_machinepool_controller.go):
  \<open>reconcileNormal\<close>, \<open>reconcileManagedMachines\<close> and \<open>reconcileDelete\<close>. The result is the time after which the object is
  queued again, in seconds; 0 stands for the empty result.
\<close>

definition mark_np :: "(Condition list \<Rightarrow> Condition list) \<Rightarrow> ('w, unit) np_go" where
  "mark_np f = ctl_mod (upd_np_status (\<lambda>st. st\<lparr>NPSt_Conditions := f (NPSt_Conditions st)\<rparr>))"

definition mark_np_false :: "'w NodePoolClients \<Rightarrow> string \<Rightarrow> string \<Rightarrow> ('w, unit) np_go" where
  "mark_np_false c condition reason = mark_np (kube_MarkFalse (npc_Lib c) condition reason)"

definition mod_np_finalizers :: "(string list \<Rightarrow> string list) \<Rightarrow> ('w, unit) np_go" where
  "mod_np_finalizers f = ctl_mod (upd_np (\<lambda>p. p\<lparr>NP_Finalizers := f (NP_Finalizers p)\<rparr>))"

definition set_np_ready :: "bool \<Rightarrow> ('w, unit) np_go" where
  "set_np_ready b = ctl_mod (upd_np_status (\<lambda>st. st\<lparr>NPSt_Ready := b\<rparr>))"

definition nodePoolStateText :: "NodePoolState \<Rightarrow> string" where
  "nodePoolStateText st = (case st of NodePoolCreating \<Rightarrow> ''CREATING'' | NodePoolActive \<Rightarrow> ''ACTIVE''
    | NodePoolUpdating \<Rightarrow> ''UPDATING'' | NodePoolDeleting \<Rightarrow> ''DELETING'' | NodePoolDeleted \<Rightarrow> ''DELETED'' | NodePoolStateOther txt \<Rightarrow> txt)"

definition set_np_state :: "NodePoolState \<Rightarrow> ('w, unit) np_go" where
  "set_np_state st = ctl_mod (upd_np_status (\<lambda>s. s\<lparr>NPSt_NodepoolLifecycleState := nodePoolStateText st\<rparr>))"

section \<open>Machines of the pool\<close>

definition nodeMachine :: "OkeNode \<Rightarrow> ('s, OCIMachinePoolMachine list) go" where
  "nodeMachine node =
     (if Node_LifecycleState node \<in> {NodeDeleted, NodeFailing} then go_ret []
      else go_bind (go_deref (Node_Name node)) (\<lambda>name.
        go_ret [\<lparr>PM_Name = name, PM_Namespace = '''', PM_GenerateName = '''', PM_Labels = Map.empty, PM_OwnerReference = None,
          PM_Finalizers = [], PM_OCID = Node_Id node, PM_ProviderID = Node_Id node, PM_InstanceName = Node_Name node,
          PM_MachineType = Managed, PM_Ready = (Node_LifecycleState node = NodeActive)\<rparr>]))"

definition nodeMachineParams :: "ManagedMachinePoolScope \<Rightarrow> OCIMachinePoolMachine list \<Rightarrow> MachineParams" where
  "nodeMachineParams m specInfraMachines = (let p = MMP_OCIManagedMachinePool m in
     \<lparr>Params_MachinePool = MMP_MachinePool m, Params_Cluster = MMP_Cluster m,
      Params_InfraMachinePoolName = NP_Name p, Params_InfraMachinePoolKind = NP_Kind p, Params_InfraMachinePoolUID = NP_UID p,
      Params_Namespace = NP_Namespace p, Params_SpecInfraMachines = specInfraMachines\<rparr>)"

definition reconcileManagedMachines :: "'w NodePoolClients \<Rightarrow> OkeNodePool \<Rightarrow> ('w, unit) np_go" where
  "reconcileManagedMachines c nodePool =
     go_bind (go_map (SNP_Nodes nodePool) nodeMachine) (\<lambda>machines.
     go_bind ctl_get (\<lambda>m.
     let params = nodeMachineParams m (concat machines) in
     go_bind (go_try (ctl_call (CreateMachinePoolMachinesIfNotExists (npc_Kube c) params))) (\<lambda>x. case x of
       Inl err \<Rightarrow>
         go_seq (record_event EventTypeWarning ''FailedToCreateNewMachines'' (Error err))
         (go_seq (mark_np_false c ''Ready'' ''FailedToCreateNewMachines'')
         (go_throw (ErrWrap ''failed to create missing machines'' err)))
     | Inr _ \<Rightarrow>
         go_bind (go_try (ctl_call (DeleteOrphanedMachinePoolMachines (npc_Kube c) params))) (\<lambda>y. case y of
           Inl err \<Rightarrow>
             go_seq (mark_np_false c ''Ready'' ''FailedToDeleteOrphanedMachines'')
             (go_throw (ErrWrap ''failed to delete orphaned machines'' err))
         | Inr _ \<Rightarrow> go_ret ()))))"

section \<open>Reconciliation\<close>

text \<open>The messages of the nodes that report an error; a message that is missing is a nil dereference.\<close>

definition nodeFailures :: "OkeNode list \<Rightarrow> ('s, string list) go" where
  "nodeFailures nodes = go_map (List.map_filter Node_Error nodes) go_deref"

definition recordNodePool :: "OkeNodePool \<Rightarrow> ('w, unit) np_go" where
  "recordNodePool nodePool =
     go_bind (go_deref (SNP_Id nodePool)) (\<lambda>i.
     go_seq (ctl_mod (upd_np_spec (\<lambda>sp. sp\<lparr>NPS_ProviderID := Some (''oci://'' @ i), NPS_ID := SNP_Id nodePool\<rparr>)))
     (go_bind (nodeFailures (SNP_Nodes nodePool)) (\<lambda>failureMessages.
     go_seq (if failureMessages \<noteq> [] then ctl_mod (upd_np_status (\<lambda>st. st\<lparr>NPSt_FailureMessages := failureMessages\<rparr>)) else go_ret ())
     (set_np_state (SNP_LifecycleState nodePool)))))"

definition updateNodePoolOrFail :: "'w NodePoolClients \<Rightarrow> OkeNodePool \<Rightarrow> ('w, bool) np_go" where
  "updateNodePoolOrFail c nodePool =
     go_bind (go_try (UpdateNodePool c nodePool)) (\<lambda>x. case x of
       Inr isUpdated \<Rightarrow> go_ret isUpdated
     | Inl err \<Rightarrow> go_seq (record_event EventTypeWarning ''ReconcileError'' (Error err)) (go_throw err))"

definition reconcileActiveNodePool :: "'w NodePoolClients \<Rightarrow> OkeNodePool \<Rightarrow> ('w, int) np_go" where
  "reconcileActiveNodePool c nodePool =
     go_bind (np_SetListandSetMachinePoolInstances nodePool) (\<lambda>instanceCount.
     go_seq (ctl_mod (np_SetReplicaCount instanceCount))
     (go_seq (set_np_ready True)
     (go_seq (record_event EventTypeNormal ''NodePoolReady'' ''Node pool is in ready state'')
     (go_seq (mark_np (kube_MarkTrue (npc_Lib c) NodePoolReadyCondition))
     (go_bind (updateNodePoolOrFail c nodePool) (\<lambda>isUpdated.
     if isUpdated then go_ret 30
     else go_seq (reconcileManagedMachines c nodePool) (go_ret 300)))))))"

text \<open>The message of the source ends with the address of the string with the details of the state, which is left out.\<close>

definition reconcileUnexpectedNodePool :: "'w NodePoolClients \<Rightarrow> OkeNodePool \<Rightarrow> ('w, int) np_go" where
  "reconcileUnexpectedNodePool c nodePool =
     (let state = nodePoolStateText (SNP_LifecycleState nodePool); err = ErrNew (''Node Pool status '' @ state @ '' is unexpected'') in
      go_seq (ctl_mod (upd_np_status (\<lambda>st. st\<lparr>NPSt_FailureMessages := NPSt_FailureMessages st @ [Error err]\<rparr>)))
      (go_seq (mark_np_false c NodePoolReadyCondition NodePoolProvisionFailedReason)
      (go_seq (record_event EventTypeWarning ''ReconcileError'' (''Node pool has invalid lifecycle state '' @ state))
      (go_throw err))))"

definition reconcileFoundNodePool :: "'w NodePoolClients \<Rightarrow> OkeNodePool \<Rightarrow> ('w, int) np_go" where
  "reconcileFoundNodePool c nodePool =
     go_seq (recordNodePool nodePool)
     (case SNP_LifecycleState nodePool of
        NodePoolCreating \<Rightarrow>
          go_seq (reconcileManagedMachines c nodePool)
          (go_seq (mark_np_false c NodePoolReadyCondition NodePoolNotReadyReason) (go_ret 30))
      | NodePoolUpdating \<Rightarrow> go_seq (reconcileManagedMachines c nodePool) (go_ret 30)
      | NodePoolActive \<Rightarrow> reconcileActiveNodePool c nodePool
      | _ \<Rightarrow> reconcileUnexpectedNodePool c nodePool)"

definition createMissingNodePool :: "'w NodePoolClients \<Rightarrow> ('w, OkeNodePool) np_go" where
  "createMissingNodePool c =
     go_bind (go_try (CreateNodePool c)) (\<lambda>x. case x of
       Inl err \<Rightarrow>
         go_seq (record_event EventTypeWarning ''ReconcileError'' (Error err))
         (go_seq (mark_np_false c NodePoolReadyCondition NodePoolProvisionFailedReason) (go_throw err))
     | Inr nodePool \<Rightarrow>
         go_bind ctl_get (\<lambda>m.
         go_seq (record_event EventTypeNormal ''NodePool'' (''Created new Node Pool: '' @ NP_Name (MMP_OCIManagedMachinePool m)))
           (go_ret nodePool)))"

definition findOrCreateNodePool :: "'w NodePoolClients \<Rightarrow> ('w, OkeNodePool) np_go" where
  "findOrCreateNodePool c =
     go_bind (go_try (FindNodePool c)) (\<lambda>x. case x of
       Inl err \<Rightarrow>
         go_seq (record_event EventTypeWarning ''ReconcileError'' (Error err))
         (go_seq (mark_np (npc_MarkUnknown c NodePoolReadyCondition NodePoolNotFoundReason)) (go_throw err))
     | Inr None \<Rightarrow> createMissingNodePool c
     | Inr (Some nodePool) \<Rightarrow> go_ret nodePool)"

definition np_reconcileNormal :: "'w NodePoolClients \<Rightarrow> ('w, int) np_go" where
  "np_reconcileNormal c =
     go_seq (mod_np_finalizers (kube_AddFinalizer (npc_Lib c) ManagedMachinePoolFinalizer))
     (go_bind ctl_get (\<lambda>m.
     if \<not> ToBool (Capi_InfrastructureProvisioned (MMP_Cluster m)) then go_ret 0
     else if \<not> CPStatus_Ready (CP_Status (MMP_OCIManagedControlPlane m)) then go_ret 0
     else go_bind (findOrCreateNodePool c) (reconcileFoundNodePool c)))"

section \<open>Deletion\<close>

definition removeNodePoolFinalizer :: "'w NodePoolClients \<Rightarrow> ('w, unit) np_go" where
  "removeNodePoolFinalizer c = mod_np_finalizers (kube_RemoveFinalizer (npc_Lib c) ManagedMachinePoolFinalizer)"

definition deleteFoundNodePool :: "'w NodePoolClients \<Rightarrow> OkeNodePool \<Rightarrow> ('w, int) np_go" where
  "deleteFoundNodePool c nodePool =
     go_seq (set_np_state (SNP_LifecycleState nodePool))
     (case SNP_LifecycleState nodePool of
        NodePoolDeleting \<Rightarrow>
          go_seq (set_np_ready False)
          (go_seq (mark_np_false c NodePoolReadyCondition NodePoolDeletionInProgress)
          (go_seq (record_event EventTypeWarning ''DeletionInProgress'' ''Node Pool deletion in progress'') (go_ret 30)))
      | NodePoolDeleted \<Rightarrow>
          go_seq (removeNodePoolFinalizer c)
          (go_seq (mark_np_false c NodePoolReadyCondition NodePoolDeletedReason) (go_ret 0))
      | _ \<Rightarrow>
          go_seq (DeleteNodePool c nodePool)
          (go_seq (set_np_ready False)
          (go_seq (mark_np_false c NodePoolReadyCondition NodePoolDeletionInProgress) (go_ret 30))))"

definition np_reconcileDelete :: "'w NodePoolClients \<Rightarrow> ('w, int) np_go" where
  "np_reconcileDelete c =
     go_bind (go_try (FindNodePool c)) (\<lambda>x. case x of
       Inl err \<Rightarrow>
         if IsNotFound (Some err)
         then go_seq (removeNodePoolFinalizer c)
           (go_seq (mark_np (kube_MarkTrue (npc_Lib c) NodePoolNotFoundReason)) (go_seq (set_np_ready False) (go_ret 0)))
         else go_throw err
     | Inr None \<Rightarrow>
         go_seq (removeNodePoolFinalizer c)
         (go_seq (mark_np_false c NodePoolReadyCondition NodePoolDeletedReason) (go_ret 0))
     | Inr (Some nodePool) \<Rightarrow> deleteFoundNodePool c nodePool)"

end
