(* ===== verification/Node_Pool_Samples.thy ===== *)
theory Node_Pool_Samples
  imports Node_Pool_Controller Pool_Samples Control_Plane_Samples
begin

text \<open>
  A managed machine pool and a service for it, as instances of the parameters: the state of the cloud is the list of its node pools. A
  new pool is active at once and is reported the way it was asked for; a deletion takes effect at once.
\<close>

section \<open>A pool as the service reports it\<close>

text \<open>A concrete service reports what it was asked for; where the number of pods per node was left open, it reports 31.\<close>

definition sample_pods_of :: "SdkPodNetwork \<Rightarrow> SdkPodNetwork" where
  "sample_pods_of p = (case p of NativePodNetwork subnets nsgs None \<Rightarrow> NativePodNetwork subnets nsgs (Some 31) | _ \<Rightarrow> p)"

definition sample_pool_of :: "string option \<Rightarrow> OkeNode list \<Rightarrow> NodePoolState \<Rightarrow> CreateNodePoolDetails \<Rightarrow> OkeNodePool" where
  "sample_pool_of i nodes st d = (let nc = UNP_NodeConfigDetails d in
     \<lparr>SNP_Id = i, SNP_Name = Some (UNP_Name d), SNP_KubernetesVersion = UNP_KubernetesVersion d, SNP_NodeShape = Some (UNP_NodeShape d),
      SNP_NodeShapeConfig = Some (UNP_NodeShapeConfig d), SNP_NodeSourceDetails = Some (NodeSourceImage (UNP_NodeSourceDetails d)),
      SNP_NodeConfigDetails = Some (nc\<lparr>SNC_PodNetwork := map_option sample_pods_of (SNC_PodNetwork nc)\<rparr>),
      SNP_NodeMetadata = UNP_NodeMetadata d, SNP_InitialNodeLabels = UNP_InitialNodeLabels d, SNP_SshPublicKey = Some (UNP_SshPublicKey d),
      SNP_NodeEvictionNodePoolSettings = UNP_NodeEvictionNodePoolSettings d,
      SNP_NodePoolCyclingDetails = UNP_NodePoolCyclingDetails d, SNP_FreeformTags = CNP_FreeformTags d, SNP_Nodes = nodes,
      SNP_LifecycleState = st, SNP_LifecycleDetails = None\<rparr>)"

section \<open>The service\<close>

definition node_pool_at :: "OkeNodePool list \<Rightarrow> string \<Rightarrow> OkeNodePool option" where
  "node_pool_at w k = find (\<lambda>p. SNP_Id p = Some k) w"

definition np_service :: "NodeSourceOption list \<Rightarrow> OkeNodePool list NodePoolApi" where
  "np_service sources =
     \<lparr>api_GetNodePool = (\<lambda>i w. (case Option.bind i (node_pool_at w) of None \<Rightarrow> Err not_found_err | Some p \<Rightarrow> Ret p, w)),
      api_ListNodePools = (\<lambda>_ _ name _ w. (Ret (map (\<lambda>p. \<lparr>NSum_Id = SNP_Id p, NSum_FreeformTags = SNP_FreeformTags p\<rparr>)
        (filter (\<lambda>p. SNP_Name p = Some name) w), None), w)),
      api_CreateNodePool = (\<lambda>d w. (Ret (Some ''wr''), sample_pool_of (Some ''np-1'') [] NodePoolActive d # w)),
      api_UpdateNodePool = (\<lambda>_ _. go_ret ()),
      api_DeleteNodePool = (\<lambda>i w. (Ret (), map (\<lambda>p. if SNP_Id p = i then p\<lparr>SNP_LifecycleState := NodePoolDeleted\<rparr> else p) w)),
      api_GetNodePoolOptions = (\<lambda>_ _. go_ret sources),
      api_GetNodePoolWorkRequest = (\<lambda>_. go_ret \<lparr>OWR_Resources = [\<lparr>WRR_EntityType = Some ''nodepool'', WRR_Identifier = Some ''np-1''\<rparr>],
        OWR_OpcRequestId = Some ''req''\<rparr>)\<rparr>"

definition sample_sources :: "NodeSourceOption list" where
  "sample_sources = [SourceOptionOther ''other'', ImageOption (Some ''Oracle-Linux-8.6-GPU-OKE-1.25.4-543'') (Some ''gpu''),
     ImageOption (Some ''Oracle-Linux-8.6-OKE-1.25.4-543'') (Some ''x86''),
     ImageOption (Some ''Oracle-Linux-8.6-aarch64-OKE-1.25.4-543'') (Some ''arm'')]"

definition sample_np_clients :: "OkeNodePool list NodePoolClients" where
  "sample_np_clients = \<lparr>npc_Engine = np_service sample_sources, npc_Kube = pool_kube, npc_Lib = sample_kube, npc_MarkUnknown = (\<lambda>_ _ cs. cs),
     npc_Float = \<lparr>fp_Float32 = Some, fp_Int64OfFloat64 = (\<lambda>_. None)\<rparr>, npc_ads = (\<lambda>m. m), npc_sort = sort_key (\<lambda>p. ToString (PlC_AvailabilityDomain p))\<rparr>"

section \<open>The pool\<close>

definition named_subnet :: "Role \<Rightarrow> string \<Rightarrow> string \<Rightarrow> Subnet" where
  "named_subnet role n i = \<lparr>Subnet_Role = role, Subnet_ID = Some i, Subnet_Name = n, Subnet_Skip = False, Subnet_CIDR = [],
     Subnet_Type = Private, Subnet_SecurityList = None, Subnet_DnsLabel = None, Subnet_Ipv6CidrBlockHextet = None\<rparr>"

definition named_nsg :: "Role \<Rightarrow> string \<Rightarrow> string \<Rightarrow> NSG" where
  "named_nsg role n i = \<lparr>NSG_ID = Some i, NSG_Name = n, NSG_Role = role, NSG_EgressRules = [], NSG_IngressRules = []\<rparr>"

definition np_network :: OCICluster where
  "np_network = sample_cluster\<lparr>Cluster_Spec := (Cluster_Spec sample_cluster)\<lparr>Spec_NetworkSpec :=
     sample_network\<lparr>NetworkSpec_Vcn := (NetworkSpec_Vcn sample_network)
       \<lparr>VCN_Subnets := [Some (named_subnet WorkerRole ''worker'' ''sn-w''), Some (named_subnet PodRole ''pod'' ''sn-p'')],
        VCN_NetworkSecurityGroup := (VCN_NetworkSecurityGroup (NetworkSpec_Vcn sample_network))
          \<lparr>NetworkSecurityGroup_List := [Some (named_nsg WorkerRole ''worker'' ''nsg-w''), Some (named_nsg PodRole ''pod'' ''nsg-p'')]\<rparr>\<rparr>\<rparr>\<rparr>\<rparr>"

definition sample_node_config :: NodePoolNodeConfig where
  "sample_node_config = \<lparr>NPC_IsPvEncryptionInTransitEnabled = None, NPC_KmsKeyId = None,
     NPC_PlacementConfigs = Some [\<lparr>PlC_AvailabilityDomain = Some ''AD-1'', PlC_CapacityReservationId = None, PlC_FaultDomains = None,
       PlC_SubnetName = Some ''worker''\<rparr>],
     NPC_NsgNames = Some [''worker''],
     NPC_NodePoolPodNetworkOptionDetails = Some \<lparr>PNO_CniType = VCNNativeCNI, PNO_VcnIpNativePodNetworkOptions =
       \<lparr>VPN_MaxPodsPerNode = None, VPN_NSGNames = Some [''pod''], VPN_SubnetNames = Some [''pod'']\<rparr>\<rparr>\<rparr>"

definition sample_np :: ManagedMachinePoolScope where
  "sample_np =
     \<lparr>MMP_Cluster = \<lparr>Capi_Name = ''prod'', Capi_InfrastructureProvisioned = Some True\<rparr>,
      MMP_MachinePool = \<lparr>MP_Name = ''workers'', MP_Namespace = ''ns'', MP_Replicas = Some 3, MP_ReplicasManagedExternally = False,
        MP_DataSecretName = None\<rparr>,
      MMP_OCIManagedCluster = np_network,
      MMP_OCIManagedControlPlane = cp_object sample_cp,
      MMP_OCIManagedMachinePool = \<lparr>NP_Name = ''workers'', NP_Namespace = ''ns'', NP_Kind = ''OCIManagedMachinePool'', NP_UID = ''u'',
        NP_Finalizers = [ManagedMachinePoolFinalizer],
        NP_Spec = \<lparr>NPS_ProviderID = Some ''oci://np-1'', NPS_Version = Some ''v1.25.4'', NPS_ID = Some ''np-1'',
          NPS_NodePoolNodeConfig = Some sample_node_config, NPS_NodeEvictionNodePoolSettings = None, NPS_NodeShape = ''VM.Standard.A1.Flex'',
          NPS_NodeShapeConfig = Some \<lparr>NSC_MemoryInGBs = Some ''16'', NSC_Ocpus = Some ''2''\<rparr>,
          NPS_NodeSourceViaImage = Some \<lparr>NSI_BootVolumeSizeInGBs = None, NSI_ImageId = Some ''image''\<rparr>,
          NPS_SshPublicKey = [], NPS_NodeMetadata = None, NPS_InitialNodeLabels = None, NPS_NodePoolCyclingDetails = None,
          NPS_ProviderIDList = None\<rparr>,
        NP_Status = \<lparr>NPSt_Ready = False, NPSt_Conditions = [], NPSt_NodepoolLifecycleState = [], NPSt_Replicas = 0,
          NPSt_FailureReason = None, NPSt_FailureMessages = [], NPSt_InfrastructureMachineKind = ''OCIMachinePoolMachine''\<rparr>\<rparr>\<rparr>"

lemma sample_np_simps:
  "np_subnets sample_np = [named_subnet WorkerRole ''worker'' ''sn-w'', named_subnet PodRole ''pod'' ''sn-p'']"
  "np_nsgs sample_np = [named_nsg WorkerRole ''worker'' ''nsg-w'', named_nsg PodRole ''pod'' ''nsg-p'']"
  "NPS_NodePoolNodeConfig (np_spec sample_np) = Some sample_node_config" "NPS_ID (np_spec sample_np) = Some ''np-1''"
  "NPS_NodeShapeConfig (np_spec sample_np) = Some \<lparr>NSC_MemoryInGBs = Some ''16'', NSC_Ocpus = Some ''2''\<rparr>"
  "NPS_NodeSourceViaImage (np_spec sample_np) = Some \<lparr>NSI_BootVolumeSizeInGBs = None, NSI_ImageId = Some ''image''\<rparr>"
  "NPS_InitialNodeLabels (np_spec sample_np) = None" "MP_Replicas (MMP_MachinePool sample_np) = Some 3"
  "NPS_Version (np_spec sample_np) = Some ''v1.25.4''" "NPS_NodeShape (np_spec sample_np) = ''VM.Standard.A1.Flex''"
  "NP_Finalizers (MMP_OCIManagedMachinePool sample_np) = [ManagedMachinePoolFinalizer]"
  "Subnet_Name (named_subnet role n i) = n" "Subnet_ID (named_subnet role n i) = Some i"
  "NSG_Name (named_nsg role n i) = n" "NSG_ID (named_nsg role n i) = Some i"
  by (simp_all add: sample_np_def np_subnets_def np_nsgs_def np_network_def ToSubnetSlice_def ToNSGSlice_def named_subnet_def named_nsg_def)

end
