(* ===== verification/Guarded_Deletion.thy ===== *)
theory Guarded_Deletion
  imports Controller_State
begin

text \<open>
  The deletion that the controllers of OKE resources share, as a locale: the resource is looked up; only when the lookup reports
  that it is gone (an error of the kind "not found", no result, or a resource in its final state) may what is observed of the
  object, its finalizers, change.
\<close>

definition reported_gone :: "('r \<Rightarrow> bool) \<Rightarrow> 'r option res \<Rightarrow> bool" where
  "reported_gone gone x = (case x of
      Ret None \<Rightarrow> True
    | Ret (Some p) \<Rightarrow> gone p
    | Err err \<Rightarrow> IsNotFound (Some err)
    | _ \<Rightarrow> False)"

lemma reported_gone_simps [simp]:
  "reported_gone gone (Ret None)" "reported_gone gone (Ret (Some p)) = gone p" "reported_gone gone (Err err) = IsNotFound (Some err)"
  by (simp_all add: reported_gone_def)

locale guarded_deletion =
  fixes lookup :: "('x, 'r option) go" and fin :: "'x \<Rightarrow> 'f" and gone :: "'r \<Rightarrow> bool"
    and missing :: "('x, 'a) go" and none :: "('x, 'a) go" and found :: "'r \<Rightarrow> ('x, 'a) go" and delete :: "('x, 'a) go"
  assumes delete_eq: "delete = go_bind (go_try lookup) (\<lambda>s. case s of
        Inl err \<Rightarrow> if IsNotFound (Some err) then missing else go_throw err
      | Inr None \<Rightarrow> none
      | Inr (Some p) \<Rightarrow> found p)"
    and lookup_fin: "keeps (keeping fin) lookup"
    and found_fin: "\<not> gone p \<Longrightarrow> keeps (keeping fin) (found p)"
begin

lemma change_needs_gone:
  assumes run: "delete x = (r, y)" and ne: "fin y \<noteq> fin x"
  shows "\<exists>g z. lookup x = (g, z) \<and> reported_gone gone g \<and> fin z = fin x \<and>
    ((\<exists>e. g = Err e) \<and> missing z = (r, y) \<or> g = Ret None \<and> none z = (r, y) \<or> (\<exists>p. g = Ret (Some p) \<and> found p z = (r, y)))"
proof -
  from bind_observed [OF run [unfolded delete_eq] keeps_try [OF lookup_fin] ne] obtain s z where
    look: "go_try lookup x = (Ret s, z)" and fin: "fin z = fin x"
    and k: "(case s of Inl err \<Rightarrow> if IsNotFound (Some err) then missing else go_throw err
      | Inr None \<Rightarrow> none | Inr (Some p) \<Rightarrow> found p) z = (r, y)" by blast
  from try_Ret [OF look] consider (err) e where "s = Inl e" "lookup x = (Err e, z)"
    | (none) "s = Inr None" "lookup x = (Ret None, z)" | (some) p where "s = Inr (Some p)" "lookup x = (Ret (Some p), z)"
    by (metis not_None_eq)
  then show ?thesis
  proof cases
    case err
    with k fin ne show ?thesis by (auto simp: go_throw_apply split: if_splits)
  next
    case none
    with k fin show ?thesis by auto
  next
    case some
    with k have run': "found p z = (r, y)" by simp
    then have "gone p" using keepsD [OF found_fin [of p] run'] fin ne by metis
    with some run' fin show ?thesis by auto
  qed
qed

end

end
