(* ===== verification/Node_Pool_Frames.thy ===== *)
theory Node_Pool_Frames
  imports Node_Pool_Samples Guarded_Deletion
begin

text \<open>
  Deletion of node pools: what the operations of the controller leave alone, and when its finalizer goes.
\<close>

lemma np_call_keeps:
  "keeps (keeping (\<lambda>x. g (ctl_scope x))) (ctl_call m)" "keeps (keeping (\<lambda>x. g (ctl_scope x))) (np_engine c f)"
  "keeps (keeping (\<lambda>x. g (ctl_scope x))) ctl_get" "keeps (keeping (\<lambda>x. g (ctl_scope x))) (record_event t reason msg)"
  by (auto simp: keeps_def go_simps np_engine_def record_event_def split: prod.split)

lemma np_mod_keeps: "(\<And>m. g (f m) = g m) \<Longrightarrow> keeps (keeping (\<lambda>x. g (ctl_scope x))) (ctl_mod f)"
  by (simp add: keeps_def go_simps)

lemma FindNodePool_keeps: "keeps (keeping (\<lambda>x. g (ctl_scope x))) (FindNodePool c)"
  unfolding FindNodePool_def nodePoolPage_def getOKENodePoolFromOCID_def
  by (intro frame_intros keeping_order keeps_case_prod np_call_keeps)

abbreviation np_finalizers :: "(ManagedMachinePoolScope, 'w) ctl \<Rightarrow> string list" where
  "np_finalizers x \<equiv> NP_Finalizers (MMP_OCIManagedMachinePool (ctl_scope x))"

lemma np_finalizers_kept:
  "keeps (keeping np_finalizers) (mark_np f)" "keeps (keeping np_finalizers) (mark_np_false c cond reason)"
  "keeps (keeping np_finalizers) (set_np_ready b)" "keeps (keeping np_finalizers) (set_np_state st)"
  unfolding mark_np_false_def mark_np_def set_np_ready_def set_np_state_def
  by (rule np_mod_keeps [where g = "\<lambda>m. NP_Finalizers (MMP_OCIManagedMachinePool m)"]; simp add: upd_np_status_def upd_np_def)+

lemma deleteFoundNodePool_kept:
  assumes "SNP_LifecycleState p \<noteq> NodePoolDeleted"
  shows "keeps (keeping np_finalizers) (deleteFoundNodePool c p)"
proof -
  note kept = frame_intros keeping_order np_finalizers_kept np_call_keeps [where g = "\<lambda>m. NP_Finalizers (MMP_OCIManagedMachinePool m)"]
  show ?thesis
    using assms unfolding deleteFoundNodePool_def DeleteNodePool_def
    by (cases "SNP_LifecycleState p"; simp only: NodePoolState.case simp_thms; (intro kept)?)
qed

interpretation np: guarded_deletion "FindNodePool c" np_finalizers "\<lambda>p. SNP_LifecycleState p = NodePoolDeleted"
    "go_seq (removeNodePoolFinalizer c)
       (go_seq (mark_np (kube_MarkTrue (npc_Lib c) NodePoolNotFoundReason)) (go_seq (set_np_ready False) (go_ret 0)))"
    "go_seq (removeNodePoolFinalizer c) (go_seq (mark_np_false c NodePoolReadyCondition NodePoolDeletedReason) (go_ret 0))"
    "deleteFoundNodePool c" "np_reconcileDelete c" for c
proof
  show "keeps (keeping np_finalizers) (FindNodePool c)"
    by (rule FindNodePool_keeps [where g = "\<lambda>m. NP_Finalizers (MMP_OCIManagedMachinePool m)"])
qed (simp_all add: np_reconcileDelete_def deleteFoundNodePool_kept)

lemma final_steps:
  "go_seq (removeNodePoolFinalizer c) (go_seq (mark_np f) (go_seq (set_np_ready b) (go_ret i))) z = (r, y) \<Longrightarrow>
    r = Ret i \<and> np_finalizers y = kube_RemoveFinalizer (npc_Lib c) ManagedMachinePoolFinalizer (np_finalizers z) \<and> ctl_cloud y = ctl_cloud z"
  "go_seq (removeNodePoolFinalizer c) (go_seq (mark_np_false c cond reason) (go_ret i)) z = (r, y) \<Longrightarrow>
    r = Ret i \<and> np_finalizers y = kube_RemoveFinalizer (npc_Lib c) ManagedMachinePoolFinalizer (np_finalizers z) \<and> ctl_cloud y = ctl_cloud z"
  by (auto simp: removeNodePoolFinalizer_def mod_np_finalizers_def mark_np_false_def mark_np_def set_np_ready_def upd_np_status_def upd_np_def go_simps)

lemma deleted_steps:
  "deleteFoundNodePool c p z = (r, y) \<Longrightarrow> SNP_LifecycleState p = NodePoolDeleted \<Longrightarrow>
    r = Ret 0 \<and> np_finalizers y = kube_RemoveFinalizer (npc_Lib c) ManagedMachinePoolFinalizer (np_finalizers z) \<and> ctl_cloud y = ctl_cloud z"
  by (auto simp: deleteFoundNodePool_def removeNodePoolFinalizer_def mod_np_finalizers_def mark_np_false_def mark_np_def set_np_state_def
      upd_np_status_def upd_np_def go_simps)

text \<open>The node pools of the service by id: a get reports what is stored, and requests that only look change nothing.\<close>

definition lawful_node_pools :: "('w, OkeNodePool) table \<Rightarrow> 'w NodePoolApi \<Rightarrow> bool" where
  "lawful_node_pools tbl a \<longleftrightarrow> (\<forall>i. read_only (api_GetNodePool a i)) \<and> (\<forall>cid k n p. read_only (api_ListNodePools a cid k n p)) \<and>
     (\<forall>k w pool. fst (api_GetNodePool a (Some k) w) = Ret pool \<longrightarrow> tbl w k = Some pool) \<and>
     (\<forall>k w e. fst (api_GetNodePool a (Some k) w) = Err e \<longrightarrow> IsNotFound (Some e) \<longrightarrow> tbl w k = None)"

lemma lawful_node_poolsD:
  assumes "lawful_node_pools tbl a"
  shows "read_only (api_GetNodePool a i)" "read_only (api_ListNodePools a cid k' n p)"
    "fst (api_GetNodePool a (Some k) w) = Ret pool \<Longrightarrow> tbl w k = Some pool"
    "fst (api_GetNodePool a (Some k) w) = Err e \<Longrightarrow> IsNotFound (Some e) \<Longrightarrow> tbl w k = None"
  using assms unfolding lawful_node_pools_def by blast+

lemma ctl_read_only:
  "read_only m \<Longrightarrow> keeps same_state (ctl_call m)" "keeps same_state ctl_get"
  by (auto simp: keeps_def go_simps read_only_def)

lemma FindNodePool_quiet:
  assumes "lawful_node_pools tbl (npc_Engine c)" shows "keeps same_state (FindNodePool c)"
  unfolding FindNodePool_def nodePoolPage_def getOKENodePoolFromOCID_def np_engine_def
  by (intro frame_intros keeps_case_prod ctl_read_only lawful_node_poolsD [OF assms] reflp_same_state transp_same_state)

text \<open>C24. The finalizer of a managed machine pool goes last. When the deletion changes the finalizers, it has removed exactly its
  own and has asked for nothing to be deleted, and the search has reported that there is no node pool, or that it is deleted; if the
  id of the pool is recorded in the spec, the service does not have it any more, or has it as deleted.\<close>

theorem node_pool_finalizer_last:
  assumes law: "lawful_node_pools tbl (npc_Engine c)"
    and run: "np_reconcileDelete c x = (r, y)" and ne: "np_finalizers y \<noteq> np_finalizers x"
  shows "r = Ret 0 \<and> np_finalizers y = kube_RemoveFinalizer (npc_Lib c) ManagedMachinePoolFinalizer (np_finalizers x) \<and>
    ctl_cloud y = ctl_cloud x \<and> reported_gone (\<lambda>p. SNP_LifecycleState p = NodePoolDeleted) (fst (FindNodePool c x)) \<and>
    (\<forall>k. NPS_ID (np_spec (ctl_scope x)) = Some k \<longrightarrow>
      tbl (ctl_cloud y) k = None \<or> (\<exists>p. tbl (ctl_cloud y) k = Some p \<and> SNP_LifecycleState p = NodePoolDeleted))"
proof -
  from np.change_needs_gone [OF run ne] obtain g z where g: "FindNodePool c x = (g, z)"
    and gone: "reported_gone (\<lambda>p. SNP_LifecycleState p = NodePoolDeleted) g"
    and k: "(\<exists>e. g = Err e) \<and> go_seq (removeNodePoolFinalizer c)
         (go_seq (mark_np (kube_MarkTrue (npc_Lib c) NodePoolNotFoundReason)) (go_seq (set_np_ready False) (go_ret 0))) z = (r, y) \<or>
       g = Ret None \<and> go_seq (removeNodePoolFinalizer c) (go_seq (mark_np_false c NodePoolReadyCondition NodePoolDeletedReason) (go_ret 0)) z = (r, y) \<or>
       (\<exists>p. g = Ret (Some p) \<and> deleteFoundNodePool c p z = (r, y))" by blast
  from keepsD [OF FindNodePool_quiet [OF law] g] have z: "z = x" .
  have "r = Ret 0 \<and> np_finalizers y = kube_RemoveFinalizer (npc_Lib c) ManagedMachinePoolFinalizer (np_finalizers x) \<and> ctl_cloud y = ctl_cloud x"
    using k gone unfolding z
    by (elim disjE exE conjE) (drule final_steps(1), simp, drule final_steps(2), simp, drule deleted_steps, simp_all)
  moreover have "tbl (ctl_cloud x) k = None \<or> (\<exists>p. tbl (ctl_cloud x) k = Some p \<and> SNP_LifecycleState p = NodePoolDeleted)"
    if "NPS_ID (np_spec (ctl_scope x)) = Some k" for k
    using that g gone lawful_node_poolsD(3,4) [OF law, of k "ctl_cloud x"]
    by (auto simp: FindNodePool_def np_engine_def go_simps reported_gone_def IsNotFound_def ErrNotFound_def Let_def split: res.splits if_splits)
  ultimately show ?thesis using g gone by auto
qed

lemma np_service_lawful: "lawful_node_pools node_pool_at (np_service sources)"
  by (auto simp: lawful_node_pools_def np_service_def read_only_def answers_def split: option.splits)

lemma gone_pool_run:
  "np_finalizers (snd (np_reconcileDelete sample_np_clients ((sample_np, []), []))) = []"
  by (simp add: np_reconcileDelete_def FindNodePool_def np_engine_def sample_np_clients_def np_service_def node_pool_at_def sample_np_simps go_simps
      removeNodePoolFinalizer_def mod_np_finalizers_def mark_np_def set_np_ready_def upd_np_status_def upd_np_def sample_kube_def
      IsNotFound_service not_found_err_def)

theorem node_pool_finalizer_last_witness:
  "fst (np_reconcileDelete sample_np_clients ((sample_np, []), [])) = Ret 0 \<and>
   reported_gone (\<lambda>p. SNP_LifecycleState p = NodePoolDeleted) (fst (FindNodePool sample_np_clients ((sample_np, []), [])))"
  using node_pool_finalizer_last [OF _ prod.collapse [symmetric], of node_pool_at sample_np_clients "((sample_np, []), [])"]
    gone_pool_run np_service_lawful [of sample_sources]
  by (simp add: sample_np_simps) (simp add: sample_np_clients_def)

end
