(* ===== verification/Node_Pool_Settling.thy ===== *)
theory Node_Pool_Settling
  imports Node_Pool_Samples
begin

text \<open>
  The image of the nodes, what an update never sends together, and the round trip from the spec through the creation of a pool
  back to the spec.
\<close>

section \<open>The image\<close>

text \<open>Every image of the service has a name and an id.\<close>

definition named_source :: "NodeSourceOption \<Rightarrow> bool" where
  "named_source s = (case s of ImageOption (Some _) (Some _) \<Rightarrow> True | ImageOption _ _ \<Rightarrow> False | SourceOptionOther _ \<Rightarrow> True)"

text \<open>The images that suit a shape and a version: not for GPUs, with the version in the name, and for ARM processors only if the
  shape has them.\<close>

definition suitable :: "string \<Rightarrow> string \<Rightarrow> string \<Rightarrow> bool" where
  "suitable shape v n \<longleftrightarrow> \<not> Contains n ''GPU'' \<and> Contains n (''-OKE-'' @ drop 1 v @ ''-'') \<and> (Contains n ''aarch64'' \<longrightarrow> armShapeMatch shape)"

definition offers :: "NodeSourceOption list \<Rightarrow> string \<Rightarrow> string \<Rightarrow> bool" where
  "offers sources shape v \<longleftrightarrow> (\<exists>n i. ImageOption (Some n) (Some i) \<in> set sources \<and> suitable shape v n)"

lemma imageFits_suitable: "imageFits shape v n \<longleftrightarrow> suitable shape v n"
  by (auto simp: imageFits_def isValidImage_def versionSegment_def suitable_def)

lemma offers_simps [simp]:
  "\<not> offers [] shape v" "offers (SourceOptionOther k # sources) shape v \<longleftrightarrow> offers sources shape v"
  "offers (ImageOption (Some n) (Some i) # sources) shape v \<longleftrightarrow> suitable shape v n \<or> offers sources shape v"
  by (auto simp: offers_def)

lemma lookupImage_first:
  assumes "list_all named_source sources" "offers sources shape v"
  obtains earlier n i later where "lookupImage shape v sources x = (Ret (Some i), x)"
    "sources = earlier @ ImageOption (Some n) (Some i) # later" "suitable shape v n" "\<not> offers earlier shape v"
  using assms
proof (induction sources arbitrary: thesis)
  case (Cons source sources)
  show ?case
  proof (cases "offers [source] shape v")
    case True
    with Cons.prems(2) obtain n i where "source = ImageOption (Some n) (Some i)" "suitable shape v n"
      by (cases source) (auto simp: named_source_def split: option.splits)
    with Cons.prems(1) [of i "[]" n sources] show ?thesis by (simp add: go_simps imageFits_suitable)
  next
    case False
    with Cons.prems(2,3) have "list_all named_source sources" "offers sources shape v" by (auto simp: offers_def)
    then obtain earlier n i later where rest: "lookupImage shape v sources x = (Ret (Some i), x)"
        "sources = earlier @ ImageOption (Some n) (Some i) # later" "suitable shape v n" "\<not> offers earlier shape v"
      by (rule Cons.IH [rotated])
    with False Cons.prems(2) have "lookupImage shape v (source # sources) x = (Ret (Some i), x)" "\<not> offers (source # earlier) shape v"
      by (cases source; auto simp: named_source_def go_simps imageFits_suitable split: option.splits)+
    with rest Cons.prems(1) [of i "source # earlier" n later] show ?thesis by simp
  qed
qed simp

lemma lookupImage_none:
  "list_all named_source sources \<Longrightarrow> \<not> offers sources shape v \<Longrightarrow> lookupImage shape v sources x = (Ret None, x)"
  by (induction shape v sources rule: lookupImage.induct)
    (auto simp: go_simps named_source_def imageFits_suitable split: option.splits)

abbreviation np_image :: "(ManagedMachinePoolScope, 'w) ctl \<Rightarrow> string option" where
  "np_image x \<equiv> Option.bind (NPS_NodeSourceViaImage (np_spec (ctl_scope x))) NSI_ImageId"

lemma init_image_simps [simp]:
  "Option.bind (NPS_NodeSourceViaImage (initImageSource sp)) NSI_ImageId = Option.bind (NPS_NodeSourceViaImage sp) NSI_ImageId"
  "NPS_Version (initImageSource sp) = NPS_Version sp" "NPS_NodeShape (initImageSource sp) = NPS_NodeShape sp"
  "Option.bind (NPS_NodeSourceViaImage (setImage (Some i) (initImageSource sp))) NSI_ImageId = Some i"
  by (simp_all add: initImageSource_def setImage_def split: option.split)

lemma upd_np_spec_simps [simp]:
  "np_spec (upd_np_spec f m) = f (np_spec m)" "MMP_OCIManagedCluster (upd_np_spec f m) = MMP_OCIManagedCluster m"
  "MMP_MachinePool (upd_np_spec f m) = MMP_MachinePool m"
  by (simp_all add: upd_np_spec_def upd_np_def)

text \<open>C27. The image of the nodes. If the spec names no image, one is found exactly when the service offers an image that is not for
  GPUs, is for the Kubernetes version of the spec, and is for ARM processors only if the shape is; the image that is set is the first
  of this kind in the list. Nothing requires an image for ARM processors when the shape is.\<close>

theorem node_image_exact:
  assumes unset: "ToString (np_image x) = ''''" and v: "NPS_Version (np_spec (ctl_scope x)) = Some v" "v \<noteq> ''''"
    and shape: "NPS_NodeShape (np_spec (ctl_scope x)) = shape"
    and opts: "fst (api_GetNodePoolOptions (npc_Engine c) ''all'' (Spec_CompartmentId (np_cluster_spec (ctl_scope x))) (ctl_cloud x)) = Ret sources"
    and named: "list_all named_source sources"
  shows "(fst (setNodepoolImageId c x) = Ret () \<longleftrightarrow> offers sources shape v) \<and>
    (offers sources shape v \<longrightarrow> (\<exists>earlier n i later. np_image (snd (setNodepoolImageId c x)) = Some i \<and>
        sources = earlier @ ImageOption (Some n) (Some i) # later \<and> suitable shape v n \<and> \<not> offers earlier shape v))"
proof -
  obtain m w ev where x: "x = ((m, w), ev)" by (cases x; cases "fst x") auto
  obtain w1 where o: "api_GetNodePoolOptions (npc_Engine c) ''all'' (Spec_CompartmentId (np_cluster_spec m)) w = (Ret sources, w1)"
    using opts unfolding x by (metis fst_conv prod.collapse snd_conv)
  let ?m = "upd_np_spec initImageSource m"
  have run: "setNodepoolImageId c x = go_bind (lookupImage shape v sources) (\<lambda>image. case image of
       Some i \<Rightarrow> ctl_mod (upd_np_spec (setImage (Some i)))
     | None \<Rightarrow> go_throw (ErrNew ''could not lookup nodepool image id from nodepool options'')) ((?m, w1), ev)"
    using unset v o shape unfolding x
    by (simp add: setNodepoolImageId_def go_seq_apply ctl_mod_apply go_bind_apply [of ctl_get] ctl_get_apply
        np_engine_def go_bind_apply [of "ctl_call q" for q] ctl_call_apply)
  show ?thesis
  proof (cases "offers sources shape v")
    case True
    obtain earlier n i later where "lookupImage shape v sources ((?m, w1), ev) = (Ret (Some i), ((?m, w1), ev))"
      and first: "sources = earlier @ ImageOption (Some n) (Some i) # later" "suitable shape v n" "\<not> offers earlier shape v"
      by (rule lookupImage_first [OF named True])
    then have "fst (setNodepoolImageId c x) = Ret ()" "np_image (snd (setNodepoolImageId c x)) = Some i"
      by (simp_all add: run go_bind_apply ctl_mod_apply)
    with True first show ?thesis by blast
  next
    case False
    with lookupImage_none [OF named False, of "((?m, w1), ev)"] show ?thesis
      unfolding run by (simp add: go_bind_apply go_throw_apply)
  qed
qed

theorem node_image_exact_witness:
  "fst (setNodepoolImageId sample_np_clients ((upd_np_spec (setImage None) sample_np, []), [])) = Ret ()"
proof -
  let ?x = "((upd_np_spec (setImage None) sample_np, []), [])"
  have x: "ToString (np_image ?x) = ''''" "NPS_Version (np_spec (ctl_scope ?x)) = Some ''v1.25.4''" "''v1.25.4'' \<noteq> ''''"
    and o: "fst (api_GetNodePoolOptions (npc_Engine sample_np_clients) ''all'' (Spec_CompartmentId (np_cluster_spec (ctl_scope ?x))) (ctl_cloud ?x)) = Ret sample_sources"
      "list_all named_source sample_sources"
    by (simp_all add: setImage_def sample_np_simps ToString_def sample_np_clients_def np_service_def go_ret_apply named_source_def sample_sources_def)
  note exact = node_image_exact [OF x refl o]
  have "offers sample_sources shape ''v1.25.4''" for shape
    unfolding offers_def
    by (rule exI [of _ "''Oracle-Linux-8.6-OKE-1.25.4-543''"], rule exI [of _ "''x86''"]) (simp add: sample_sources_def suitable_def)
  with exact show ?thesis by simp
qed

text \<open>The image that is taken for a shape with ARM processors can be one for others: the first that fits the version.\<close>

lemma arm_shape_other_image: "lookupImage ''VM.Standard.A1.Flex'' ''v1.25.4'' sample_sources x = (Ret (Some ''x86''), x)"
  by (simp add: sample_sources_def go_simps imageFits_def isValidImage_def versionSegment_def)

section \<open>What an update sends\<close>

text \<open>The service refuses placements together with the settings for recycling nodes.\<close>

definition both_sent :: "UpdateNodePoolDetails \<Rightarrow> bool" where
  "both_sent d \<longleftrightarrow> slice_list (SNC_PlacementConfigs (UNP_NodeConfigDetails d)) \<noteq> [] \<and> UNP_NodePoolCyclingDetails d \<noteq> None"

lemma not_both_sent [simp]: "\<not> both_sent (updateNodePoolDetails m spec config shape source)"
  by (simp add: both_sent_def updateNodePoolDetails_def)

text \<open>C26. An update never sends placements together with the settings for recycling nodes: whatever the service does with such a
  request, \<open>UpdateNodePool\<close> does not notice.\<close>

theorem placements_and_cycling_exclusive:
  "UpdateNodePool (c\<lparr>npc_Engine := (npc_Engine c)\<lparr>api_UpdateNodePool := (\<lambda>i d. if both_sent d then refused i d
     else api_UpdateNodePool (npc_Engine c) i d)\<rparr>\<rparr>) pool x = UpdateNodePool c pool x"
proof -
  let ?c = "c\<lparr>npc_Engine := (npc_Engine c)\<lparr>api_UpdateNodePool := (\<lambda>i d. if both_sent d then refused i d
     else api_UpdateNodePool (npc_Engine c) i d)\<rparr>\<rparr>"
  have "setNodepoolImageId ?c = setNodepoolImageId c" by (simp add: setNodepoolImageId_def np_engine_def cong del: if_weak_cong)
  then have "sendNodePoolUpdate ?c = sendNodePoolUpdate c"
    by (intro ext) (simp add: sendNodePoolUpdate_def np_engine_def)
  moreover have "npc_sort ?c = npc_sort c" by simp
  ultimately show ?thesis by (simp only: UpdateNodePool_def)
qed

end
