(* ===== verification/Node_Pool_Roundtrip.thy ===== *)
theory Node_Pool_Roundtrip
  imports Node_Pool_Settling
begin

text \<open>
  A node pool that has been created is not updated: the spec, sent to the service and read back, compares equal. Names become ids in
  the request and ids become names in the comparison, so the subnets and security groups must be told apart by both.
\<close>

section \<open>Names and ids\<close>

text \<open>A list of resources in which every name and every id occurs once.\<close>

definition unambiguous :: "('a \<Rightarrow> string) \<Rightarrow> ('a \<Rightarrow> string option) \<Rightarrow> 'a list \<Rightarrow> bool" where
  "unambiguous nm idf xs \<longleftrightarrow> distinct (map nm xs) \<and> distinct (map idf xs) \<and> list_all (\<lambda>x. idf x \<noteq> None) xs"

lemma unambiguous_id:
  assumes "unambiguous nm idf xs" and mem: "x \<in> set xs" "y \<in> set xs" and eq: "ToString (idf x) = ToString (idf y)"
  shows "x = y"
proof -
  from assms(1) have inj: "inj_on idf (set xs)" and "idf x \<noteq> None" "idf y \<noteq> None"
    using mem by (auto simp: unambiguous_def distinct_map list_all_iff)
  with eq have "idf x = idf y" by (auto simp: ToString_def)
  with inj mem show ?thesis by (blast dest: inj_onD)
qed

lemma unambiguous_name: "unambiguous nm idf xs \<Longrightarrow> x \<in> set xs \<Longrightarrow> y \<in> set xs \<Longrightarrow> nm x = nm y \<Longrightarrow> x = y"
  by (auto simp: unambiguous_def distinct_map inj_on_def)

lemma filter_unique: "distinct xs \<Longrightarrow> x \<in> set xs \<Longrightarrow> (\<And>y. y \<in> set xs \<Longrightarrow> P y \<longleftrightarrow> y = x) \<Longrightarrow> filter P xs = [x]"
  by (induction xs) (auto simp: filter_empty_conv)

lemma unambiguous_filter:
  assumes "unambiguous nm idf xs" and "x \<in> set xs"
  shows "filter (\<lambda>y. nm y = nm x) xs = [x]" "filter (\<lambda>y. ToString (idf x) = ToString (idf y)) xs = [x]"
  using assms by (auto intro!: filter_unique simp: unambiguous_def distinct_map dest: unambiguous_name [OF assms(1)] unambiguous_id [OF assms(1)])

text \<open>From names to ids and back.\<close>

lemma names_roundtrip:
  assumes amb: "unambiguous nm idf xs" and names: "set names \<subseteq> nm ` set xs"
  shows "concat (map (\<lambda>i. map nm (filter (\<lambda>x. i = ToString (idf x)) xs))
    (concat (map (\<lambda>n. map (\<lambda>x. ToString (idf x)) (filter (\<lambda>x. nm x = n) xs)) names))) = names"
  using names
proof (induction names)
  case (Cons n names)
  then obtain x where "x \<in> set xs" "nm x = n" by auto
  with Cons unambiguous_filter [OF amb, of x] show ?case by simp
qed simp

lemma map_filter_ids: "list_all (\<lambda>x. idf x \<noteq> None) xs \<Longrightarrow>
    List.map_filter (\<lambda>x. if P x then idf x else None) xs = map (\<lambda>x. ToString (idf x)) (filter P xs)"
  by (induction xs) (auto simp: List.map_filter_simps ToString_def)

definition clear_names :: "ManagedMachinePoolScope \<Rightarrow> bool" where
  "clear_names m \<longleftrightarrow> unambiguous Subnet_Name Subnet_ID (np_subnets m) \<and> unambiguous NSG_Name NSG_ID (np_nsgs m)"

lemma nsgs_roundtrip:
  assumes "clear_names m" and "set names \<subseteq> NSG_Name ` set (np_nsgs m)" and "names \<noteq> []"
  shows "nsgNamesSlice m (Some (nsgIdsByName m names)) = Some names"
proof -
  from assms(1) have amb: "unambiguous NSG_Name NSG_ID (np_nsgs m)" by (simp add: clear_names_def)
  then have ids: "nsgIdsByName m names = concat (map (\<lambda>n. map (\<lambda>x. ToString (NSG_ID x)) (filter (\<lambda>x. NSG_Name x = n) (np_nsgs m))) names)"
    by (simp add: nsgIdsByName_def unambiguous_def map_filter_ids)
  note roundtrip = names_roundtrip [OF amb assms(2), folded ids]
  from roundtrip assms(3) have "nsgIdsByName m names \<noteq> []" by auto
  with roundtrip show ?thesis by (simp add: nsgNamesSlice_def GetNsgNamesFromId_def np_nsgs_def)
qed

lemma pod_subnets_roundtrip:
  assumes "clear_names m" and "set names \<subseteq> Subnet_Name ` set (np_subnets m)"
  shows "GetSubnetNamesFromId (getPodSubnets m names) (VCN_Subnets (np_vcn m)) = names"
  using names_roundtrip [of Subnet_Name Subnet_ID "np_subnets m" names] assms
  by (simp add: GetSubnetNamesFromId_def getPodSubnets_def clear_names_def np_subnets_def)

lemma worker_subnet_roundtrip:
  assumes "clear_names m" and found: "np_getWorkerMachineSubnet m (Some n) = Some i"
  shows "GetSubnetNameFromId (Some i) (VCN_Subnets (np_vcn m)) = n"
proof -
  from assms(1) have amb: "unambiguous Subnet_Name Subnet_ID (np_subnets m)" by (simp add: clear_names_def)
  from found obtain s where s: "s \<in> set (np_subnets m)" "Subnet_Name s = n" "Subnet_ID s = Some i"
    by (auto simp: np_getWorkerMachineSubnet_def ToString_def bind_eq_Some_conv find_Some_iff) (metis nth_mem)
  from s have "\<exists>t. find (\<lambda>x. ToString (Some i) = ToString (Subnet_ID x)) (np_subnets m) = Some t"
    by (cases "find (\<lambda>x. ToString (Some i) = ToString (Subnet_ID x)) (np_subnets m)") (auto simp: find_None_iff)
  then obtain t where t: "find (\<lambda>x. ToString (Some i) = ToString (Subnet_ID x)) (np_subnets m) = Some t" ..
  then have "t \<in> set (np_subnets m)" "ToString (Subnet_ID s) = ToString (Subnet_ID t)" by (auto simp: find_Some_iff s(3))
  with unambiguous_id [OF amb s(1)] have "t = s" by metis
  with t s(2) show ?thesis by (simp add: GetSubnetNameFromId_def np_subnets_def)
qed

lemma placements_roundtrip:
  assumes "clear_names m"
  shows "buildPlacementConfig m configs = Inr placements \<Longrightarrow> list_all (\<lambda>p. PlC_SubnetName p \<noteq> None) configs \<Longrightarrow>
    buildPlacementConfigFromActual m placements = configs"
proof (induction configs arbitrary: placements)
  case (Cons config configs)
  then obtain n where n: "PlC_SubnetName config = Some n" by auto
  from Cons.prems n obtain i ps where i: "np_getWorkerMachineSubnet m (Some n) = Some i" and ps: "buildPlacementConfig m configs = Inr ps"
    and placements: "placements = \<lparr>SPl_AvailabilityDomain = PlC_AvailabilityDomain config, SPl_SubnetId = Some i,
      SPl_FaultDomains = PlC_FaultDomains config, SPl_CapacityReservationId = PlC_CapacityReservationId config\<rparr> # ps"
    by (auto split: option.splits sum.splits)
  from worker_subnet_roundtrip [OF assms i] Cons.IH [OF ps] Cons.prems n placements show ?case
    by (simp add: buildPlacementConfigFromActual_def)
qed (simp add: buildPlacementConfigFromActual_def)

section \<open>Specs that are complete\<close>

text \<open>A spec that leaves nothing to the service: placements in subnets of the cluster, groups and pod networks of the cluster, a
  shape whose numbers are written the way they are printed, and an image.\<close>

definition complete_pods :: "ManagedMachinePoolScope \<Rightarrow> NodePoolPodNetworkOptionDetails \<Rightarrow> bool" where
  "complete_pods m po \<longleftrightarrow> (let native = PNO_VcnIpNativePodNetworkOptions po in
     PNO_CniType po = VCNNativeCNI \<and>
       (\<exists>subnets. VPN_SubnetNames native = Some subnets \<and> set subnets \<subseteq> Subnet_Name ` set (np_subnets m)) \<and>
       (\<exists>nsgs. VPN_NSGNames native = Some nsgs \<and> nsgs \<noteq> [] \<and> set nsgs \<subseteq> NSG_Name ` set (np_nsgs m)) \<or>
     PNO_CniType po = FlannelCNI \<and> native = \<lparr>VPN_MaxPodsPerNode = None, VPN_NSGNames = None, VPN_SubnetNames = None\<rparr>)"

definition complete_config :: "ManagedMachinePoolScope \<Rightarrow> NodePoolNodeConfig \<Rightarrow> bool" where
  "complete_config m config \<longleftrightarrow>
     (\<exists>configs. NPC_PlacementConfigs config = Some configs \<and>
        list_all (\<lambda>p. PlC_SubnetName p \<noteq> None \<and> PlC_AvailabilityDomain p \<noteq> None) configs) \<and>
     (\<exists>nsgs. NPC_NsgNames config = Some nsgs \<and> nsgs \<noteq> [] \<and> set nsgs \<subseteq> NSG_Name ` set (np_nsgs m)) \<and>
     (\<exists>po. NPC_NodePoolPodNetworkOptionDetails config = Some po \<and> complete_pods m po)"

definition printed_shape :: "FloatParse \<Rightarrow> NodeShapeConfig \<Rightarrow> bool" where
  "printed_shape fl sc \<longleftrightarrow> list_all (\<lambda>t. case t of None \<Rightarrow> True | Some s \<Rightarrow> fp_Float32 fl s = Some s) [NSC_Ocpus sc, NSC_MemoryInGBs sc]"

lemma printed_shape_run:
  assumes "printed_shape fl sc" and "nodeShapeDetails fl (Some sc) x = (Ret shape, y)"
  shows "shape = \<lparr>SNS_Ocpus = NSC_Ocpus sc, SNS_MemoryInGBs = NSC_MemoryInGBs sc\<rparr>"
  using assms by (auto simp: printed_shape_def nodeShapeDetails_def parseShapeNumber_def go_res_def go_simps split: option.splits)

section \<open>What the service reports\<close>

text \<open>A pool that carries the values of a request, in the fields that the source reads. The service fills in one default: where the number of pods per
  node was left open it reports 31 (so the comment in \<open>setMachinePoolSpecDefaults\<close>).\<close>

definition pods_reported :: "SdkPodNetwork option \<Rightarrow> SdkPodNetwork option \<Rightarrow> bool" where
  "pods_reported asked told \<longleftrightarrow> (case asked of
      Some (NativePodNetwork subnets nsgs maxPods) \<Rightarrow>
        told = Some (NativePodNetwork subnets nsgs (Some (case maxPods of None \<Rightarrow> 31 | Some n \<Rightarrow> n)))
    | _ \<Rightarrow> told = asked)"

definition node_config_reported :: "SdkNodeConfig \<Rightarrow> SdkNodeConfig \<Rightarrow> bool" where
  "node_config_reported asked told \<longleftrightarrow> SNC_Size told = SNC_Size asked \<and> SNC_NsgIds told = SNC_NsgIds asked \<and>
     SNC_PlacementConfigs told = SNC_PlacementConfigs asked \<and>
     SNC_IsPvEncryptionInTransitEnabled told = SNC_IsPvEncryptionInTransitEnabled asked \<and> SNC_KmsKeyId told = SNC_KmsKeyId asked \<and>
     pods_reported (SNC_PodNetwork asked) (SNC_PodNetwork told)"

definition pool_reported :: "CreateNodePoolDetails \<Rightarrow> OkeNodePool \<Rightarrow> bool" where
  "pool_reported d pool \<longleftrightarrow> SNP_Name pool = Some (UNP_Name d) \<and> SNP_KubernetesVersion pool = UNP_KubernetesVersion d \<and>
     SNP_NodeShape pool = Some (UNP_NodeShape d) \<and> SNP_NodeShapeConfig pool = Some (UNP_NodeShapeConfig d) \<and>
     SNP_NodeSourceDetails pool = Some (NodeSourceImage (UNP_NodeSourceDetails d)) \<and> SNP_NodeMetadata pool = UNP_NodeMetadata d \<and>
     SNP_InitialNodeLabels pool = UNP_InitialNodeLabels d \<and> SNP_SshPublicKey pool = Some (UNP_SshPublicKey d) \<and>
     SNP_NodeEvictionNodePoolSettings pool = UNP_NodeEvictionNodePoolSettings d \<and>
     SNP_NodePoolCyclingDetails pool = UNP_NodePoolCyclingDetails d \<and>
     (\<exists>nc. SNP_NodeConfigDetails pool = Some nc \<and> node_config_reported (UNP_NodeConfigDetails d) nc)"

lemma pods_roundtrip:
  assumes "clear_names m" and "complete_pods m po" and "pods_reported (podNetworkDetails m (Some po)) told"
  shows "podNetworkFromActual m told = defaultMaxPods po"
proof (cases "PNO_CniType po = VCNNativeCNI")
  case True
  with assms(2) obtain subnets nsgs where
    s: "VPN_SubnetNames (PNO_VcnIpNativePodNetworkOptions po) = Some subnets" "set subnets \<subseteq> Subnet_Name ` set (np_subnets m)" and
    n: "VPN_NSGNames (PNO_VcnIpNativePodNetworkOptions po) = Some nsgs" "nsgs \<noteq> []" "set nsgs \<subseteq> NSG_Name ` set (np_nsgs m)"
    by (auto simp: complete_pods_def Let_def)
  from pod_subnets_roundtrip [OF assms(1) s(2)] nsgs_roundtrip [OF assms(1) n(3,2)] True s(1) n(1) assms(3) show ?thesis
    by (cases po; cases "PNO_VcnIpNativePodNetworkOptions po")
      (auto simp: podNetworkDetails_def podNetworkFromActual_def pods_reported_def defaultMaxPods_def getPodNSGs_def Let_def split: option.splits)
next
  case False
  with assms(2,3) show ?thesis
    by (cases po) (auto simp: complete_pods_def podNetworkDetails_def podNetworkFromActual_def pods_reported_def defaultMaxPods_def Let_def)
qed

lemma sortByDomain_run:
  "list_all (\<lambda>p. PlC_AvailabilityDomain p \<noteq> None) configs \<Longrightarrow> sortByDomain order configs x =
    (Ret (if length configs \<le> 12 then sort_key (\<lambda>p. ToString (PlC_AvailabilityDomain p)) configs else order configs), x)"
  by (auto simp: sortByDomain_def go_simps list_ex_iff list_all_iff Option.is_none_def)

lemma config_roundtrip:
  assumes names: "clear_names m" and complete: "complete_config m config"
    and build: "buildPlacementConfig m (slice_list (NPC_PlacementConfigs config)) = Inr placements"
    and told: "node_config_reported (createNodeConfig m config r placements) nc"
  shows "\<exists>sorted. sortByDomain order (slice_list (NPC_PlacementConfigs config)) x = (Ret sorted, x) \<and>
    nodeConfigFromActual order m (Some nc) y =
    (Ret (config\<lparr>NPC_PlacementConfigs := Some sorted,
       NPC_NodePoolPodNetworkOptionDetails := map_option defaultMaxPods (NPC_NodePoolPodNetworkOptionDetails config)\<rparr>), y)"
proof -
  from complete obtain configs nsgs po where
    c: "NPC_PlacementConfigs config = Some configs" "list_all (\<lambda>p. PlC_SubnetName p \<noteq> None) configs"
      "list_all (\<lambda>p. PlC_AvailabilityDomain p \<noteq> None) configs" and
    n: "NPC_NsgNames config = Some nsgs" "nsgs \<noteq> []" "set nsgs \<subseteq> NSG_Name ` set (np_nsgs m)" and
    p: "NPC_NodePoolPodNetworkOptionDetails config = Some po" "complete_pods m po"
    unfolding complete_config_def by (auto simp: list_all_iff)
  have pods: "podNetworkFromActual m (SNC_PodNetwork nc) = defaultMaxPods po"
    using told p(1) by (intro pods_roundtrip [OF names p(2)]) (simp add: node_config_reported_def createNodeConfig_def)
  from placements_roundtrip [OF names _ c(2), of placements] build c(1,3) n p nsgs_roundtrip [OF names n(3,2)] pods told
  show ?thesis
    by (cases config) (auto simp: nodeConfigFromActual_def node_config_reported_def createNodeConfig_def go_bind_apply go_ret_apply
      getWorkerMachineNSGs_def sortByDomain_run)
qed

lemma int32_of_id: "- (2 ^ 31) \<le> r \<Longrightarrow> r < 2 ^ 31 \<Longrightarrow> int32_of r = r"
  by (simp add: int32_of_def)

text \<open>C25. A node pool that has been created is left alone. Let the names and ids of the cluster's subnets and security groups be unambiguous, and let
  the spec of the pool leave nothing open: placements with domain and subnet, security groups and a pod network of the
  cluster, a shape configuration with numbers written the way they are printed, an image, labels that are not an empty list, and replicas
  in the range of the request. Let the pool that the service reports carry the recorded id and the values of the request that \<open>CreateNodePool\<close>
  sends for this spec. Then \<open>UpdateNodePool\<close> makes no request, changes nothing and says so: the
  ids of the request lead back to the names of the spec, and the defaults of the service are those the comparison assumes.\<close>

theorem created_pool_not_updated:
  assumes names: "clear_names m"
    and config: "NPS_NodePoolNodeConfig (np_spec m) = Some config" "complete_config m config"
      "buildPlacementConfig m (slice_list (NPC_PlacementConfigs config)) = Inr placements"
    and shape: "NPS_NodeShapeConfig (np_spec m) = Some sc" "printed_shape (npc_Float c) sc"
      "fst (nodeShapeDetails (npc_Float c) (Some sc) ((m, w), ev)) = Ret shape"
    and source: "NPS_NodeSourceViaImage (np_spec m) = Some source"
    and labels: "NPS_InitialNodeLabels (np_spec m) \<noteq> Some []"
    and replicas: "MP_Replicas (MMP_MachinePool m) = Some r" "- (2 ^ 31) \<le> r" "r < 2 ^ 31"
    and pool: "SNP_Id pool = NPS_ID (np_spec m)"
      "pool_reported (createNodePoolDetails m (createNodeConfig m config r placements) shape source) pool"
  shows "UpdateNodePool c pool ((m, w), ev) = (Ret False, ((m, w), ev))"
proof -
  let ?x = "((m, w), ev)"
  from pool(2) obtain nc where nc: "SNP_NodeConfigDetails pool = Some nc"
    and told: "node_config_reported (createNodeConfig m config r placements) nc"
    by (auto simp: pool_reported_def createNodePoolDetails_def Let_def)
  obtain sorted where sorted: "sortByDomain (npc_sort c) (slice_list (NPC_PlacementConfigs config)) ?x = (Ret sorted, ?x)"
    and actual: "nodeConfigFromActual (npc_sort c) m (SNP_NodeConfigDetails pool) ?x =
      (Ret (config\<lparr>NPC_PlacementConfigs := Some sorted,
         NPC_NodePoolPodNetworkOptionDetails := map_option defaultMaxPods (NPC_NodePoolPodNetworkOptionDetails config)\<rparr>), ?x)"
    using config_roundtrip [OF names config(2,3) told, of "npc_sort c" ?x ?x] by (auto simp: nc)
  from printed_shape_run [OF shape(2)] shape(3) have
    printed: "shape = \<lparr>SNS_Ocpus = NSC_Ocpus sc, SNS_MemoryInGBs = NSC_MemoryInGBs sc\<rparr>" by (metis prod.collapse)
  from config(2) obtain configs where configs: "NPC_PlacementConfigs config = Some configs" by (auto simp: complete_config_def)
  let ?spec = "(np_spec m)\<lparr>NPS_ProviderIDList := None, NPS_ProviderID := None,
       NPS_NodePoolNodeConfig := Some (config\<lparr>NPC_PlacementConfigs := Some sorted,
         NPC_NodePoolPodNetworkOptionDetails := map_option defaultMaxPods (NPC_NodePoolPodNetworkOptionDetails config)\<rparr>)\<rparr>"
  have "setMachinePoolSpecDefaults (npc_sort c) (np_spec m) ?x = (Ret ?spec, ?x)"
    using config(1) sorted configs by (simp add: setMachinePoolSpecDefaults_def go_simps)
  moreover have "getSpecFromAPIObject (npc_sort c) m pool ?x = (Ret ?spec, ?x)"
    using actual shape(1) source labels pool
    by (cases "np_spec m")
      (auto simp: getSpecFromAPIObject_def go_bind_apply go_ret_apply go_deref_apply pool_reported_def createNodePoolDetails_def Let_def
        printed ToString_def getInitialNodeLabels_def getInitialNodeKeyValuePairs_def split: option.splits)
  moreover have "sizeUpdateRequired m pool ?x = (Ret False, ?x)"
    using replicas told by (simp add: sizeUpdateRequired_def go_simps nc node_config_reported_def createNodeConfig_def int32_of_id)
  moreover have "SNP_Name pool = Some (getNodePoolName m)"
    using pool(2) by (simp add: pool_reported_def createNodePoolDetails_def Let_def)
  ultimately show ?thesis
    by (simp add: UpdateNodePool_def go_bind_apply ctl_get_apply poolDiffers_def go_deref_apply go_ret_apply)
qed

text \<open>Without a shape configuration in the spec the comparison fails for every pool that is reported with one, on every round.\<close>

lemma missing_shape_differs:
  assumes "NPS_NodeShapeConfig (np_spec m) = None" "SNP_NodeShapeConfig pool \<noteq> None"
    and "setMachinePoolSpecDefaults order (np_spec m) x = (Ret spec, y)" "getSpecFromAPIObject order m pool x' = (Ret actual, y')"
  shows "poolDiffers m spec actual pool sizeUpdate z = (Ret True, z)"
proof -
  have "NPS_NodeShapeConfig spec = None" "NPS_NodeShapeConfig actual \<noteq> None"
    using assms by (auto simp: setMachinePoolSpecDefaults_def getSpecFromAPIObject_def go_bind_apply go_deref_apply go_ret_apply
        split: res.splits option.splits prod.splits)
  then show ?thesis by (auto simp: poolDiffers_def go_ret_apply)
qed

lemma sample_names: "clear_names sample_np" and sample_complete: "complete_config sample_np sample_node_config"
  and sample_placed: "buildPlacementConfig sample_np (slice_list (NPC_PlacementConfigs sample_node_config)) =
    Inr [\<lparr>SPl_AvailabilityDomain = Some ''AD-1'', SPl_SubnetId = Some ''sn-w'', SPl_FaultDomains = None, SPl_CapacityReservationId = None\<rparr>]"
  by (simp_all add: clear_names_def unambiguous_def complete_config_def complete_pods_def Let_def sample_np_simps sample_node_config_def
      np_getWorkerMachineSubnet_def ToString_def)

lemma sample_pool_reported: "pool_reported d (sample_pool_of i nodes st d)"
  by (auto simp: pool_reported_def sample_pool_of_def node_config_reported_def pods_reported_def sample_pods_of_def Let_def
      split: option.split SdkPodNetwork.split)

theorem created_pool_not_updated_witness:
  "UpdateNodePool sample_np_clients (sample_pool_of (Some ''np-1'') [] NodePoolActive
      (createNodePoolDetails sample_np (createNodeConfig sample_np sample_node_config 3
        [\<lparr>SPl_AvailabilityDomain = Some ''AD-1'', SPl_SubnetId = Some ''sn-w'', SPl_FaultDomains = None, SPl_CapacityReservationId = None\<rparr>])
        \<lparr>SNS_Ocpus = Some ''2'', SNS_MemoryInGBs = Some ''16''\<rparr> \<lparr>NSI_BootVolumeSizeInGBs = None, NSI_ImageId = Some ''image''\<rparr>))
    ((sample_np, []), []) = (Ret False, ((sample_np, []), []))"
proof -
  note unchanged = created_pool_not_updated [OF sample_names _ sample_complete sample_placed,
        where sc = "\<lparr>NSC_MemoryInGBs = Some ''16'', NSC_Ocpus = Some ''2''\<rparr>" and r = 3 and c = sample_np_clients and w = "[]" and ev = "[]"
        and shape = "\<lparr>SNS_Ocpus = Some ''2'', SNS_MemoryInGBs = Some ''16''\<rparr>"
        and source = "\<lparr>NSI_BootVolumeSizeInGBs = None, NSI_ImageId = Some ''image''\<rparr>", OF _ _ _ _ _ _ _ _ _ _ sample_pool_reported]
  show ?thesis
    by (rule unchanged) (simp_all add: sample_np_simps sample_np_clients_def printed_shape_def nodeShapeDetails_def parseShapeNumber_def go_res_def
      go_simps sample_pool_of_def Let_def)
qed

end
