(* ===== verification/Node_Pool_Webhook.thy ===== *)
theory Node_Pool_Webhook
  imports Node_Pool_Samples Cluster_Webhook
begin

text \<open>
  The webhook of managed machine pools (src/exp/api/v1beta2/ocimanagedmachinepool_webhook.go): defaults and validation. The
  semantic version of Cluster API (\<open>version.KubeSemver\<close>) is a parameter. The object arrives with its static type.
\<close>

abbreviation PodDefaultName :: string where "PodDefaultName \<equiv> ''pod''"

definition defaultPodNetwork :: NodePoolPodNetworkOptionDetails where
  "defaultPodNetwork = \<lparr>PNO_CniType = VCNNativeCNI, PNO_VcnIpNativePodNetworkOptions =
     \<lparr>VPN_MaxPodsPerNode = None, VPN_NSGNames = Some [PodDefaultName], VPN_SubnetNames = Some [PodDefaultName]\<rparr>\<rparr>"

definition np_Default :: "OCIManagedMachinePool \<Rightarrow> OCIManagedMachinePool" where
  "np_Default m = (let config = (case NPS_NodePoolNodeConfig (NP_Spec m) of None \<Rightarrow> empty_node_config | Some nc \<Rightarrow> nc);
       pods = (case NPC_NodePoolPodNetworkOptionDetails config of None \<Rightarrow> defaultPodNetwork | Some po \<Rightarrow> po) in
     m\<lparr>NP_Spec := (NP_Spec m)\<lparr>NPS_NodePoolNodeConfig := Some (config\<lparr>NPC_NodePoolPodNetworkOptionDetails := Some pods\<rparr>)\<rparr>\<rparr>)"

definition validateVersion :: "(string \<Rightarrow> bool) \<Rightarrow> OCIManagedMachinePool \<Rightarrow> FieldError list \<Rightarrow> FieldError list" where
  "validateVersion kubeSemver m allErrs = (case NPS_Version (NP_Spec m) of
      None \<Rightarrow> allErrs @ [field_Invalid [Child ''spec'', Child ''version''] ''field is required'']
    | Some v \<Rightarrow> if kubeSemver v then allErrs
        else allErrs @ [field_Invalid [Child ''spec'', Child ''version''] ''must be a valid semantic version''])"

definition np_ValidateCreate :: "(string \<Rightarrow> bool) \<Rightarrow> OCIManagedMachinePool \<Rightarrow> StatusError option" where
  "np_ValidateCreate kubeSemver m =
     (let allErrs = validateVersion kubeSemver m
        (if length (NP_Name m) > 31 then [field_Invalid [Child ''Name''] ''Name cannot be more than 31 characters''] else []) in
      if length allErrs = 0 then None else Some (NewInvalid (NP_Name m) allErrs))"

definition getImageId :: "OCIManagedMachinePool \<Rightarrow> string option" where
  "getImageId m = Option.bind (NPS_NodeSourceViaImage (NP_Spec m)) NSI_ImageId"

text \<open>The verb \<open>%q\<close>: \<open>strconv.Quote\<close> on text, byte by byte. Bytes from 128 on belong to runes; those of printable runes stay as they are.\<close>

definition hex_pair :: "nat \<Rightarrow> string" where
  "hex_pair n = map (\<lambda>d. ''0123456789abcdef'' ! d) [n div 16 mod 16, n mod 16]"

definition quote_byte :: "char \<Rightarrow> string" where
  "quote_byte c = (let n = of_char c :: nat; esc = CHR 0x5C in
     if n = 34 \<or> n = 92 then [esc, c]
     else if n = 7 then [esc, CHR ''a''] else if n = 8 then [esc, CHR ''b''] else if n = 12 then [esc, CHR ''f'']
     else if n = 10 then [esc, CHR ''n''] else if n = 13 then [esc, CHR ''r''] else if n = 9 then [esc, CHR ''t'']
     else if n = 11 then [esc, CHR ''v''] else if n < 32 \<or> n = 127 then [esc, CHR ''x''] @ hex_pair n else [c])"

definition Quote :: "string \<Rightarrow> string" where
  "Quote s = [CHR 0x22] @ concat (map quote_byte s) @ [CHR 0x22]"

text \<open>The warning is built before the errors are looked at, and prints both versions.\<close>

definition imageWarnings :: "OCIManagedMachinePool \<Rightarrow> OCIManagedMachinePool \<Rightarrow> string list res" where
  "imageWarnings old m =
     (if NPS_Version (NP_Spec m) \<noteq> NPS_Version (NP_Spec old) \<and> getImageId m \<noteq> None \<and> getImageId m = getImageId old
      then (case (NPS_Version (NP_Spec old), NPS_Version (NP_Spec m)) of
          (Some v, Some v') \<Rightarrow> Ret [''Kubernetes version was updated from '' @ Quote v @ '' to '' @ Quote v' @
            '' without changing the imageId. If you are not using a custom multi-version image, this may cause nodepool creation to fail.'']
        | _ \<Rightarrow> Panic)
      else Ret [])"

definition np_ValidateUpdate :: "(string \<Rightarrow> bool) \<Rightarrow> OCIManagedMachinePool \<Rightarrow> OCIManagedMachinePool \<Rightarrow> (string list \<times> StatusError option) res" where
  "np_ValidateUpdate kubeSemver old m = (let allErrs = validateVersion kubeSemver m [] in
     case imageWarnings old m of
       Ret warnings \<Rightarrow> Ret (warnings, if length allErrs > 0 then Some (NewInvalid (NP_Name m) allErrs) else None)
     | Err e \<Rightarrow> Err e | Panic \<Rightarrow> Panic | Diverge \<Rightarrow> Diverge)"

definition np_ValidateDelete :: "OCIManagedMachinePool \<Rightarrow> StatusError option" where
  "np_ValidateDelete m = None"

section \<open>What admission gives the controller\<close>

text \<open>C33. Admission of a managed machine pool. An object that has been defaulted and accepted has a version that is not empty (the
  pattern for semantic versions does not match the empty text), a node configuration, and in it pod network options: those of the user, or else the
  native network with the subnet and the security group for pods. So, if its placements name their availability domains, the defaults for the
  comparison with the node pool can be computed without a nil dereference; they keep the kind of pod network and its subnets and groups, and
  set a number of pods per node where a native network has none.\<close>

theorem admitted_pool_comparable:
  assumes semver: "\<not> kubeSemver ''''"
    and valid: "np_ValidateCreate kubeSemver (np_Default p) = None"
    and placed: "\<And>config. NPS_NodePoolNodeConfig (NP_Spec p) = Some config \<Longrightarrow>
      list_all (\<lambda>pl. PlC_AvailabilityDomain pl \<noteq> None) (slice_list (NPC_PlacementConfigs config))"
  shows "(\<exists>v. NPS_Version (NP_Spec (np_Default p)) = Some v \<and> v \<noteq> '''') \<and>
    (\<exists>config po spec config' po'. NPS_NodePoolNodeConfig (NP_Spec (np_Default p)) = Some config \<and>
       NPC_NodePoolPodNetworkOptionDetails config = Some po \<and>
       po = (case Option.bind (NPS_NodePoolNodeConfig (NP_Spec p)) NPC_NodePoolPodNetworkOptionDetails of
         Some own \<Rightarrow> own
       | None \<Rightarrow> \<lparr>PNO_CniType = VCNNativeCNI, PNO_VcnIpNativePodNetworkOptions =
           \<lparr>VPN_MaxPodsPerNode = None, VPN_NSGNames = Some [''pod''], VPN_SubnetNames = Some [''pod'']\<rparr>\<rparr>) \<and>
       setMachinePoolSpecDefaults order (NP_Spec (np_Default p)) x = (Ret spec, x) \<and>
       NPS_NodePoolNodeConfig spec = Some config' \<and> NPC_NodePoolPodNetworkOptionDetails config' = Some po' \<and>
       PNO_CniType po' = PNO_CniType po \<and>
       VPN_SubnetNames (PNO_VcnIpNativePodNetworkOptions po') = VPN_SubnetNames (PNO_VcnIpNativePodNetworkOptions po) \<and>
       VPN_NSGNames (PNO_VcnIpNativePodNetworkOptions po') = VPN_NSGNames (PNO_VcnIpNativePodNetworkOptions po) \<and>
       (PNO_CniType po = VCNNativeCNI \<longrightarrow> VPN_MaxPodsPerNode (PNO_VcnIpNativePodNetworkOptions po') \<noteq> None))"
proof (intro conjI)
  show "\<exists>v. NPS_Version (NP_Spec (np_Default p)) = Some v \<and> v \<noteq> ''''"
    using valid semver by (auto simp: np_ValidateCreate_def validateVersion_def Let_def split: option.splits if_splits)
  define own where "own = (case Option.bind (NPS_NodePoolNodeConfig (NP_Spec p)) NPC_NodePoolPodNetworkOptionDetails of
      Some own \<Rightarrow> own | None \<Rightarrow> defaultPodNetwork)"
  obtain config where c: "NPS_NodePoolNodeConfig (NP_Spec (np_Default p)) = Some config"
    "list_all (\<lambda>pl. PlC_AvailabilityDomain pl \<noteq> None) (slice_list (NPC_PlacementConfigs config))"
    "NPC_NodePoolPodNetworkOptionDetails config = Some own"
    using placed by (cases "NPS_NodePoolNodeConfig (NP_Spec p)") (auto simp: np_Default_def Let_def empty_node_config_def own_def split: option.splits)
  from c(2) have "\<exists>sorted. (case NPC_PlacementConfigs config of None \<Rightarrow> go_ret None
      | Some configs \<Rightarrow> go_bind (sortByDomain order configs) (\<lambda>sorted. go_ret (Some sorted))) x = (Ret sorted, x)"
    by (auto simp: sortByDomain_def go_simps list_ex_iff list_all_iff Option.is_none_def split: option.splits)
  then obtain sorted where s: "(case NPC_PlacementConfigs config of None \<Rightarrow> go_ret None
      | Some configs \<Rightarrow> go_bind (sortByDomain order configs) (\<lambda>sorted. go_ret (Some sorted))) x = (Ret sorted, x)" ..
  let ?config = "config\<lparr>NPC_PlacementConfigs := sorted, NPC_NodePoolPodNetworkOptionDetails := Some (defaultMaxPods own)\<rparr>"
  let ?spec = "(NP_Spec (np_Default p))\<lparr>NPS_ProviderIDList := None, NPS_ProviderID := None, NPS_NodePoolNodeConfig := Some ?config\<rparr>"
  have d: "setMachinePoolSpecDefaults order (NP_Spec (np_Default p)) x = (Ret ?spec, x)"
    using c(1,3) s by (simp add: setMachinePoolSpecDefaults_def go_bind_apply go_deref_apply go_ret_apply)
  show "\<exists>config po spec config' po'. NPS_NodePoolNodeConfig (NP_Spec (np_Default p)) = Some config \<and>
       NPC_NodePoolPodNetworkOptionDetails config = Some po \<and>
       po = (case Option.bind (NPS_NodePoolNodeConfig (NP_Spec p)) NPC_NodePoolPodNetworkOptionDetails of
         Some own \<Rightarrow> own
       | None \<Rightarrow> \<lparr>PNO_CniType = VCNNativeCNI, PNO_VcnIpNativePodNetworkOptions =
           \<lparr>VPN_MaxPodsPerNode = None, VPN_NSGNames = Some [''pod''], VPN_SubnetNames = Some [''pod'']\<rparr>\<rparr>) \<and>
       setMachinePoolSpecDefaults order (NP_Spec (np_Default p)) x = (Ret spec, x) \<and>
       NPS_NodePoolNodeConfig spec = Some config' \<and> NPC_NodePoolPodNetworkOptionDetails config' = Some po' \<and>
       PNO_CniType po' = PNO_CniType po \<and>
       VPN_SubnetNames (PNO_VcnIpNativePodNetworkOptions po') = VPN_SubnetNames (PNO_VcnIpNativePodNetworkOptions po) \<and>
       VPN_NSGNames (PNO_VcnIpNativePodNetworkOptions po') = VPN_NSGNames (PNO_VcnIpNativePodNetworkOptions po) \<and>
       (PNO_CniType po = VCNNativeCNI \<longrightarrow> VPN_MaxPodsPerNode (PNO_VcnIpNativePodNetworkOptions po') \<noteq> None)"
    using c(1,3) d
    by (intro exI [of _ config] exI [of _ own] exI [of _ ?spec] exI [of _ ?config] exI [of _ "defaultMaxPods own"])
      (auto simp: own_def [unfolded defaultPodNetwork_def] defaultMaxPods_def Let_def Option.is_none_def split: option.splits)
qed

theorem admitted_pool_comparable_witness:
  "\<exists>spec. setMachinePoolSpecDefaults (\<lambda>xs. xs) (NP_Spec (np_Default (MMP_OCIManagedMachinePool sample_np))) () = (Ret spec, ())"
proof -
  let ?p = "MMP_OCIManagedMachinePool sample_np"
  have "np_ValidateCreate (\<lambda>v. v \<noteq> '''') (np_Default ?p) = None"
    by (simp add: np_ValidateCreate_def validateVersion_def np_Default_def sample_np_def Let_def)
  moreover have "list_all (\<lambda>pl. PlC_AvailabilityDomain pl \<noteq> None) (slice_list (NPC_PlacementConfigs config))"
    if "NPS_NodePoolNodeConfig (NP_Spec ?p) = Some config" for config
    using that by (auto simp: sample_np_simps sample_node_config_def)
  ultimately show ?thesis
    using admitted_pool_comparable [of "\<lambda>v. v \<noteq> ''''" ?p "\<lambda>xs. xs" "()"] by blast
qed

text \<open>C40. Removing the version of a managed machine pool. The validation of an update panics exactly when the version changes, one of
  the versions is missing, and the image stays the same: the warning about the image prints both versions before the error about
  the missing version is reported. In all other cases the update is rejected exactly if the new version is missing or not a
  semantic version.\<close>

theorem update_validation_panics:
  "(np_ValidateUpdate kubeSemver old m = Panic \<longleftrightarrow>
      NPS_Version (NP_Spec m) \<noteq> NPS_Version (NP_Spec old) \<and> (NPS_Version (NP_Spec m) = None \<or> NPS_Version (NP_Spec old) = None) \<and>
      getImageId m \<noteq> None \<and> getImageId m = getImageId old) \<and>
   (\<forall>warnings err. np_ValidateUpdate kubeSemver old m = Ret (warnings, err) \<longrightarrow>
      (err = None \<longleftrightarrow> (\<exists>v. NPS_Version (NP_Spec m) = Some v \<and> kubeSemver v)))"
  by (cases "NPS_Version (NP_Spec m)"; cases "NPS_Version (NP_Spec old)"; cases "getImageId m")
    (auto simp: np_ValidateUpdate_def imageWarnings_def validateVersion_def Let_def)

theorem update_validation_panics_witness:
  "np_ValidateUpdate (\<lambda>v. v \<noteq> '''') (MMP_OCIManagedMachinePool sample_np)
     ((MMP_OCIManagedMachinePool sample_np)\<lparr>NP_Spec := (np_spec sample_np)\<lparr>NPS_Version := None\<rparr>\<rparr>) = Panic"
  using update_validation_panics [of "\<lambda>v. v \<noteq> ''''" "MMP_OCIManagedMachinePool sample_np"
      "(MMP_OCIManagedMachinePool sample_np)\<lparr>NP_Spec := (np_spec sample_np)\<lparr>NPS_Version := None\<rparr>\<rparr>"]
  by (simp add: getImageId_def sample_np_simps)

end
