(* ===== verification/Virtual_Pool.thy ===== *)
theory Virtual_Pool
  imports Node_Pool_Types Control_Plane_Scope Machine_Pool
begin

text \<open>
  Virtual node pools: the object OCIVirtualMachinePool (src/exp/api/v1beta2/ocivirtualmachinepool_types.go) with its webhook
  (ocivirtualmachinepool_webhook.go), and its scope (src/cloud/scope/virtual_machine_pool.go). Slices of the spec are options, as in
  \<open>Node_Pool_Types\<close>, because the spec is compared by \<open>reflect.DeepEqual\<close>.
\<close>

section \<open>The object\<close>

record VirtualNodepoolPlacementConfig =
  VPlC_AvailabilityDomain :: "string option"
  VPlC_FaultDomains :: "string slice"
  VPlC_SubnetName :: "string option"

record PodConfig =
  PC_NsgNames :: "string slice"
  PC_Shape :: "string option"
  PC_SubnetName :: "string option"

record Taint =
  Taint_Key :: "string option"
  Taint_Value :: "string option"
  Taint_Effect :: "string option"

record OCIVirtualMachinePoolSpec =
  VPS_ProviderID :: "string option"
  VPS_ID :: "string option"
  VPS_PlacementConfigs :: "VirtualNodepoolPlacementConfig slice"
  VPS_NsgNames :: "string slice"
  VPS_PodConfiguration :: PodConfig
  VPS_Taints :: "Taint slice"
  VPS_InitialVirtualNodeLabels :: "KeyValue slice"
  VPS_ProviderIDList :: "string slice"

record OCIVirtualMachinePoolStatus =
  VPSt_Ready :: bool
  VPSt_Conditions :: "Condition list"
  VPSt_Replicas :: int
  VPSt_NodepoolLifecycleState :: string
  VPSt_FailureReason :: "string option"
  VPSt_FailureMessages :: "string list"
  VPSt_InfrastructureMachineKind :: string

record OCIVirtualMachinePool =
  VP_Name :: string
  VP_Namespace :: string
  VP_Kind :: string
  VP_UID :: string
  VP_Finalizers :: "string list"
  VP_Spec :: OCIVirtualMachinePoolSpec
  VP_Status :: OCIVirtualMachinePoolStatus

abbreviation VirtualMachinePoolFinalizer :: string where
  "VirtualMachinePoolFinalizer \<equiv> ''ocivirtualmachinepool.infrastructure.cluster.x-k8s.io''"

text \<open>The defaults of the webhook; validation accepts everything.\<close>

definition vp_Default :: "OCIVirtualMachinePool \<Rightarrow> OCIVirtualMachinePool" where
  "vp_Default m = (let pc = VPS_PodConfiguration (VP_Spec m) in
     m\<lparr>VP_Spec := (VP_Spec m)\<lparr>VPS_PodConfiguration :=
       \<lparr>PC_NsgNames = (case PC_NsgNames pc of None \<Rightarrow> Some [''pod''] | Some ns \<Rightarrow> Some ns),
        PC_Shape = (case PC_Shape pc of None \<Rightarrow> Some ''Pod.Standard.E4.Flex'' | Some s \<Rightarrow> Some s),
        PC_SubnetName = (case PC_SubnetName pc of None \<Rightarrow> Some ''pod'' | Some s \<Rightarrow> Some s)\<rparr>\<rparr>\<rparr>)"

section \<open>The service\<close>

datatype VirtualNodeState = VirtualNodeActive | VirtualNodeDeleted | VirtualNodeFailed | VirtualNodeStateOther string

record VirtualNode =
  VNode_Id :: "string option"
  VNode_DisplayName :: "string option"
  VNode_LifecycleState :: VirtualNodeState

record VirtualPlacement =
  VPl_AvailabilityDomain :: "string option"
  VPl_SubnetId :: "string option"
  VPl_FaultDomain :: "string slice"

record SdkPodConfiguration =
  SPC_SubnetId :: "string option"
  SPC_Shape :: "string option"
  SPC_NsgIds :: "string slice"

text \<open>The states of a virtual node pool are those of a node pool.\<close>

record VirtualNodePool =
  VNP_Id :: "string option"
  VNP_DisplayName :: "string option"
  VNP_Size :: "int option"
  VNP_PlacementConfigurations :: "VirtualPlacement list"
  VNP_NsgIds :: "string slice"
  VNP_InitialVirtualNodeLabels :: "KeyValue list"
  VNP_PodConfiguration :: "SdkPodConfiguration option"
  VNP_Taints :: "Taint list"
  VNP_FreeformTags :: tags
  VNP_LifecycleState :: NodePoolState

record UpdateVirtualNodePoolDetails =
  UVP_Size :: int
  UVP_DisplayName :: string
  UVP_PlacementConfigurations :: "VirtualPlacement list"
  UVP_NsgIds :: "string list"
  UVP_InitialVirtualNodeLabels :: "KeyValue list"
  UVP_PodConfiguration :: SdkPodConfiguration
  UVP_Taints :: "Taint list"

record CreateVirtualNodePoolDetails = UpdateVirtualNodePoolDetails +
  CVP_CompartmentId :: string
  CVP_ClusterId :: "string option"
  CVP_FreeformTags :: tags
  CVP_DefinedTags :: defined_tags
  CVP_VirtualNodeTags :: "tags \<times> defined_tags"

record 'w VirtualPoolApi =
  api_GetVirtualNodePool :: "string option \<Rightarrow> ('w, VirtualNodePool) go"
  api_ListVirtualNodePools :: "string \<Rightarrow> string option \<Rightarrow> string \<Rightarrow> string option \<Rightarrow> ('w, NodePoolSummary list \<times> string option) go"
  api_CreateVirtualNodePool :: "CreateVirtualNodePoolDetails \<Rightarrow> ('w, string option) go"
  api_UpdateVirtualNodePool :: "string option \<Rightarrow> UpdateVirtualNodePoolDetails \<Rightarrow> ('w, unit) go"
  api_DeleteVirtualNodePool :: "string option \<Rightarrow> ('w, unit) go"
  api_ListVirtualNodes :: "string option \<Rightarrow> string option \<Rightarrow> ('w, VirtualNode list \<times> string option) go"
  api_GetVirtualPoolWorkRequest :: "string option \<Rightarrow> ('w, OkeWorkRequest) go"

section \<open>State\<close>

record VirtualMachinePoolScope =
  VMP_Cluster :: CapiCluster
  VMP_MachinePool :: MachinePool
  VMP_OCIManagedCluster :: OCICluster
  VMP_OCIManagedControlPlane :: OCIManagedControlPlane
  VMP_OCIVirtualMachinePool :: OCIVirtualMachinePool

type_synonym ('w, 'a) vp_go = "(VirtualMachinePoolScope, 'w, 'a) ctl_go"

record 'w VirtualPoolClients =
  vpc_Engine :: "'w VirtualPoolApi"
  vpc_Kube :: "'w PoolKube"
  vpc_Lib :: KubeLib
  vpc_MarkUnknown :: "string \<Rightarrow> string \<Rightarrow> Condition list \<Rightarrow> Condition list"
  vpc_ads :: "(string, OCIAvailabilityDomain) map_order"

abbreviation vp_spec :: "VirtualMachinePoolScope \<Rightarrow> OCIVirtualMachinePoolSpec" where
  "vp_spec m \<equiv> VP_Spec (VMP_OCIVirtualMachinePool m)"

abbreviation vp_cluster_spec :: "VirtualMachinePoolScope \<Rightarrow> OCIClusterSpec" where
  "vp_cluster_spec m \<equiv> Cluster_Spec (VMP_OCIManagedCluster m)"

abbreviation vp_vcn :: "VirtualMachinePoolScope \<Rightarrow> VCN" where
  "vp_vcn m \<equiv> NetworkSpec_Vcn (Spec_NetworkSpec (vp_cluster_spec m))"

definition upd_vp :: "(OCIVirtualMachinePool \<Rightarrow> OCIVirtualMachinePool) \<Rightarrow> VirtualMachinePoolScope \<Rightarrow> VirtualMachinePoolScope" where
  "upd_vp f m = m\<lparr>VMP_OCIVirtualMachinePool := f (VMP_OCIVirtualMachinePool m)\<rparr>"

definition upd_vp_spec :: "(OCIVirtualMachinePoolSpec \<Rightarrow> OCIVirtualMachinePoolSpec) \<Rightarrow>
    VirtualMachinePoolScope \<Rightarrow> VirtualMachinePoolScope" where
  "upd_vp_spec f = upd_vp (\<lambda>p. p\<lparr>VP_Spec := f (VP_Spec p)\<rparr>)"

definition upd_vp_status :: "(OCIVirtualMachinePoolStatus \<Rightarrow> OCIVirtualMachinePoolStatus) \<Rightarrow>
    VirtualMachinePoolScope \<Rightarrow> VirtualMachinePoolScope" where
  "upd_vp_status f = upd_vp (\<lambda>p. p\<lparr>VP_Status := f (VP_Status p)\<rparr>)"

definition vp_engine :: "'w VirtualPoolClients \<Rightarrow> ('w VirtualPoolApi \<Rightarrow> ('w, 'a) go) \<Rightarrow> ('w, 'a) vp_go" where
  "vp_engine c f = ctl_call (f (vpc_Engine c))"

definition NewVirtualMachinePoolScope :: "CapiCluster \<Rightarrow> MachinePool option \<Rightarrow> OCICluster option \<Rightarrow> OCIManagedControlPlane \<Rightarrow>
    OCIVirtualMachinePool \<Rightarrow> goerr option \<Rightarrow> goerr + VirtualMachinePoolScope" where
  "NewVirtualMachinePoolScope cluster machinePool managedCluster controlPlane pool helper = (case machinePool of
      None \<Rightarrow> Inl (ErrNew ''failed to generate new scope from nil MachinePool'')
    | Some mp \<Rightarrow> (case managedCluster of
        None \<Rightarrow> Inl (ErrNew ''failed to generate new scope from nil OCIManagedCluster'')
      | Some mc \<Rightarrow> (case helper of
          Some err \<Rightarrow> Inl (ErrWrap ''failed to init patch helper'' err)
        | None \<Rightarrow> Inr (upd_vp_status (\<lambda>st. st\<lparr>VPSt_InfrastructureMachineKind := ''OCIMachinePoolMachine''\<rparr>)
            \<lparr>VMP_Cluster = cluster, VMP_MachinePool = mp, VMP_OCIManagedCluster = mc, VMP_OCIManagedControlPlane = controlPlane,
             VMP_OCIVirtualMachinePool = pool\<rparr>))))"

definition vp_SetReplicaCount :: "int \<Rightarrow> VirtualMachinePoolScope \<Rightarrow> VirtualMachinePoolScope" where
  "vp_SetReplicaCount cnt = upd_vp_status (\<lambda>st. st\<lparr>VPSt_Replicas := cnt\<rparr>)"

section \<open>Queries\<close>

definition vp_IsResourceCreatedByClusterAPI :: "VirtualMachinePoolScope \<Rightarrow> tags \<Rightarrow> bool" where
  "vp_IsResourceCreatedByClusterAPI m resourceFreeFormTags =
     (let tagsAddedByClusterAPI = BuildClusterTags (Spec_OCIResourceIdentifier (vp_cluster_spec m))
      in list_all (\<lambda>k. tag_at resourceFreeFormTags k = tag_at tagsAddedByClusterAPI k) cluster_tag_keys)"

definition vp_getNodePoolName :: "VirtualMachinePoolScope \<Rightarrow> string" where
  "vp_getNodePoolName m = VP_Name (VMP_OCIVirtualMachinePool m)"

definition vp_getDefinedTags :: "VirtualMachinePoolScope \<Rightarrow> defined_tags" where
  "vp_getDefinedTags m = (case Spec_DefinedTags (vp_cluster_spec m) of None \<Rightarrow> Map.empty | Some t \<Rightarrow> t)"

definition vp_getFreeFormTags :: "VirtualMachinePoolScope \<Rightarrow> tags" where
  "vp_getFreeFormTags m = BuildClusterTags (Spec_OCIResourceIdentifier (vp_cluster_spec m)) ++ Spec_FreeformTags (vp_cluster_spec m)"

definition vp_subnets :: "VirtualMachinePoolScope \<Rightarrow> Subnet list" where
  "vp_subnets m = ToSubnetSlice (VCN_Subnets (vp_vcn m))"

definition vp_nsgs :: "VirtualMachinePoolScope \<Rightarrow> NSG list" where
  "vp_nsgs m = ToNSGSlice (NetworkSecurityGroup_List (VCN_NetworkSecurityGroup (vp_vcn m)))"

definition vp_GetWorkerMachineSubnet :: "VirtualMachinePoolScope \<Rightarrow> string option" where
  "vp_GetWorkerMachineSubnet m = Option.bind (find (\<lambda>subnet. Subnet_Role subnet = WorkerRole) (vp_subnets m)) Subnet_ID"

definition vp_getWorkerMachineSubnets :: "VirtualMachinePoolScope \<Rightarrow> string list" where
  "vp_getWorkerMachineSubnets m = map Subnet_Name (filter (\<lambda>subnet. Subnet_Role subnet = WorkerRole) (vp_subnets m))"

definition vp_getPodNSGs :: "VirtualMachinePoolScope \<Rightarrow> string list \<Rightarrow> string list" where
  "vp_getPodNSGs m nsgs = concat (map (\<lambda>nsgName.
     map (\<lambda>nsg. ToString (NSG_ID nsg)) (filter (\<lambda>nsg. NSG_Name nsg = nsgName) (vp_nsgs m))) nsgs)"

definition vp_getWorkerMachineNSGs :: "VirtualMachinePoolScope \<Rightarrow> string list" where
  "vp_getWorkerMachineNSGs m = (let specNsgNames = slice_list (VPS_NsgNames (vp_spec m)) in
     if specNsgNames \<noteq> [] then vp_getPodNSGs m specNsgNames
     else map (\<lambda>nsg. ToString (NSG_ID nsg)) (filter (\<lambda>nsg. NSG_Role nsg = WorkerRole) (vp_nsgs m)))"

definition vp_getWorkerMachineNSGList :: "VirtualMachinePoolScope \<Rightarrow> string list" where
  "vp_getWorkerMachineNSGList m = map NSG_Name (filter (\<lambda>nsg. NSG_Role nsg = WorkerRole) (vp_nsgs m))"

text \<open>A missing name is a nil dereference as soon as there is a subnet to compare it with.\<close>

fun subnetByName :: "Subnet list \<Rightarrow> string option \<Rightarrow> ('s, string option) go" where
  "subnetByName [] name = go_ret None"
| "subnetByName (subnet # subnets) name = go_bind (go_deref name) (\<lambda>n.
     if Subnet_Name subnet = n then go_ret (Subnet_ID subnet) else subnetByName subnets name)"

definition getSubnet :: "VirtualMachinePoolScope \<Rightarrow> string option \<Rightarrow> ('s, string option) go" where
  "getSubnet m name = subnetByName (vp_subnets m) name"

definition vp_buildPlacementConfig :: "VirtualMachinePoolScope \<Rightarrow> VirtualNodepoolPlacementConfig list \<Rightarrow> ('s, VirtualPlacement list) go" where
  "vp_buildPlacementConfig m configs = go_map configs (\<lambda>config.
     go_bind (getSubnet m (VPlC_SubnetName config)) (\<lambda>subnetId. case subnetId of
       None \<Rightarrow> go_bind (go_deref (VPlC_SubnetName config)) (\<lambda>n.
         go_throw (ErrNew (''worker subnet with name '' @ n @ '' is not present in spec'')))
     | Some i \<Rightarrow> go_ret \<lparr>VPl_AvailabilityDomain = VPlC_AvailabilityDomain config, VPl_SubnetId = Some i,
         VPl_FaultDomain = VPlC_FaultDomains config\<rparr>))"

definition vp_getInitialNodeKeyValuePairs :: "VirtualMachinePoolScope \<Rightarrow> KeyValue list" where
  "vp_getInitialNodeKeyValuePairs m = slice_list (VPS_InitialVirtualNodeLabels (vp_spec m))"

definition vp_getTaints :: "VirtualMachinePoolScope \<Rightarrow> Taint list" where
  "vp_getTaints m = slice_list (VPS_Taints (vp_spec m))"

definition getPodConfiguration :: "VirtualMachinePoolScope \<Rightarrow> ('s, SdkPodConfiguration) go" where
  "getPodConfiguration m = (let podConfig = VPS_PodConfiguration (vp_spec m) in
     go_bind (getSubnet m (PC_SubnetName podConfig)) (\<lambda>subnetId.
     go_ret \<lparr>SPC_SubnetId = subnetId, SPC_Shape = PC_Shape podConfig, SPC_NsgIds = Some (vp_getPodNSGs m (slice_list (PC_NsgNames podConfig)))\<rparr>))"

section \<open>Search and nodes\<close>

definition getOKEVirtualNodePoolFromOCID :: "'w VirtualPoolClients \<Rightarrow> string option \<Rightarrow> ('w, VirtualNodePool) vp_go" where
  "getOKEVirtualNodePoolFromOCID c nodePoolId = vp_engine c (\<lambda>a. api_GetVirtualNodePool a nodePoolId)"

definition virtualPoolPage :: "'w VirtualPoolClients \<Rightarrow> VirtualMachinePoolScope \<Rightarrow> string option \<Rightarrow>
    ('w, string option + VirtualNodePool option) vp_go" where
  "virtualPoolPage c m page =
     go_bind (vp_engine c (\<lambda>a. api_ListVirtualNodePools a (Spec_CompartmentId (vp_cluster_spec m))
       (CPSpec_ID (CP_Spec (VMP_OCIManagedControlPlane m))) (vp_getNodePoolName m) page)) (\<lambda>(summaries, opcNextPage).
     case find (\<lambda>i. vp_IsResourceCreatedByClusterAPI m (NSum_FreeformTags i)) summaries of
       Some i \<Rightarrow> go_bind (getOKEVirtualNodePoolFromOCID c (NSum_Id i)) (\<lambda>pool. go_ret (Inr (Some pool)))
     | None \<Rightarrow> (case opcNextPage of None \<Rightarrow> go_ret (Inr None) | Some p \<Rightarrow> go_ret (Inl (Some p))))"

definition FindVirtualNodePool :: "'w VirtualPoolClients \<Rightarrow> ('w, VirtualNodePool option) vp_go" where
  "FindVirtualNodePool c =
     go_bind ctl_get (\<lambda>m. case VPS_ID (vp_spec m) of
       Some i \<Rightarrow> go_bind (vp_engine c (\<lambda>a. api_GetVirtualNodePool a (Some i))) (\<lambda>pool.
         if vp_IsResourceCreatedByClusterAPI m (VNP_FreeformTags pool) then go_ret (Some pool)
         else go_throw (ErrNew ''cluster api tags have been modified out of context''))
     | None \<Rightarrow> go_loop (virtualPoolPage c m) None)"

definition DeleteVirtualNodePool :: "'w VirtualPoolClients \<Rightarrow> VirtualNodePool \<Rightarrow> ('w, unit) vp_go" where
  "DeleteVirtualNodePool c nodePool = vp_engine c (\<lambda>a. api_DeleteVirtualNodePool a (VNP_Id nodePool))"

definition virtualMachine :: "VirtualNode \<Rightarrow> ('s, OCIMachinePoolMachine list) go" where
  "virtualMachine node =
     (if VNode_LifecycleState node \<in> {VirtualNodeDeleted, VirtualNodeFailed} then go_ret []
      else go_bind (go_deref (VNode_DisplayName node)) (\<lambda>name.
        go_ret [\<lparr>PM_Name = name, PM_Namespace = '''', PM_GenerateName = '''', PM_Labels = Map.empty, PM_OwnerReference = None,
          PM_Finalizers = [], PM_OCID = VNode_Id node, PM_ProviderID = VNode_Id node, PM_InstanceName = VNode_DisplayName node,
          PM_MachineType = Virtual, PM_Ready = (VNode_LifecycleState node = VirtualNodeActive)\<rparr>]))"

definition virtualNodePage :: "'w VirtualPoolClients \<Rightarrow> VirtualNodePool \<Rightarrow> string option \<times> OCIMachinePoolMachine list \<Rightarrow>
    ('w, string option \<times> OCIMachinePoolMachine list + OCIMachinePoolMachine list) vp_go" where
  "virtualNodePage c nodePool = (\<lambda>(page, machines).
     go_bind (vp_engine c (\<lambda>a. api_ListVirtualNodes a (VNP_Id nodePool) page)) (\<lambda>(nodes, opcNextPage).
     go_bind (go_map nodes virtualMachine) (\<lambda>new.
     case opcNextPage of
       None \<Rightarrow> go_ret (Inr (machines @ concat new))
     | Some p \<Rightarrow> go_ret (Inl (Some p, machines @ concat new)))))"

definition ListandSetMachinePoolInstances :: "'w VirtualPoolClients \<Rightarrow> VirtualNodePool \<Rightarrow> ('w, OCIMachinePoolMachine list) vp_go" where
  "ListandSetMachinePoolInstances c nodePool = go_loop (virtualNodePage c nodePool) (None, [])"

section \<open>Creation\<close>

definition vp_defaultPlacements :: "(string, OCIAvailabilityDomain) map_order \<Rightarrow> VirtualMachinePoolScope \<Rightarrow> string \<Rightarrow>
    VirtualNodepoolPlacementConfig list" where
  "vp_defaultPlacements iter m subnet = map (\<lambda>(k, v).
     \<lparr>VPlC_AvailabilityDomain = Some k,
      VPlC_FaultDomains = (if AD_FaultDomains v = [] then None else Some (AD_FaultDomains v)), VPlC_SubnetName = Some subnet\<rparr>)
     (iter (slice_list (Spec_AvailabilityDomains (vp_cluster_spec m))))"

definition setVirtualPlacements :: "'w VirtualPoolClients \<Rightarrow> ('w, unit) vp_go" where
  "setVirtualPlacements c =
     go_bind ctl_get (\<lambda>m.
     if slice_list (VPS_PlacementConfigs (vp_spec m)) \<noteq> [] then go_ret ()
     else (case vp_getWorkerMachineSubnets m of
         [] \<Rightarrow> go_throw (ErrNew ''worker subnets are not specified'')
       | subnet # _ \<Rightarrow> ctl_mod (upd_vp_spec (\<lambda>sp. sp\<lparr>VPS_PlacementConfigs := Some (vp_defaultPlacements (vpc_ads c) m subnet)\<rparr>))))"

definition setVirtualNsgs :: "('w, unit) vp_go" where
  "setVirtualNsgs =
     go_bind ctl_get (\<lambda>m.
     if slice_list (VPS_NsgNames (vp_spec m)) = []
     then ctl_mod (upd_vp_spec (\<lambda>sp. sp\<lparr>VPS_NsgNames := Some (vp_getWorkerMachineNSGList m)\<rparr>))
     else go_ret ())"

text \<open>The details that creation and update share.\<close>

definition virtualPoolDetails :: "VirtualMachinePoolScope \<Rightarrow> ('s, UpdateVirtualNodePoolDetails) go" where
  "virtualPoolDetails m =
     go_bind (vp_buildPlacementConfig m (slice_list (VPS_PlacementConfigs (vp_spec m)))) (\<lambda>placements.
     go_bind (getPodConfiguration m) (\<lambda>pods.
     go_bind (go_deref (MP_Replicas (VMP_MachinePool m))) (\<lambda>replicas.
     go_ret \<lparr>UVP_Size = replicas, UVP_DisplayName = vp_getNodePoolName m, UVP_PlacementConfigurations = placements,
       UVP_NsgIds = vp_getWorkerMachineNSGs m, UVP_InitialVirtualNodeLabels = vp_getInitialNodeKeyValuePairs m,
       UVP_PodConfiguration = pods, UVP_Taints = vp_getTaints m\<rparr>)))"

definition createdVirtualPoolId :: "WorkRequestResource list \<Rightarrow> string option" where
  "createdVirtualPoolId resources =
     foldl (\<lambda>i r. if StringEquals (WRR_EntityType r) ''VirtualNodePool'' then WRR_Identifier r else i) None resources"

definition awaitVirtualPool :: "'w VirtualPoolClients \<Rightarrow> CreateVirtualNodePoolDetails \<Rightarrow> ('w, VirtualNodePool) vp_go" where
  "awaitVirtualPool c details =
     go_bind (go_wrap ''failed to create OCIVirtualMachinePool'' (vp_engine c (\<lambda>a. api_CreateVirtualNodePool a details))) (\<lambda>workRequestId.
     go_bind (vp_engine c (\<lambda>a. api_GetVirtualPoolWorkRequest a workRequestId)) (\<lambda>wr.
     case createdVirtualPoolId (OWR_Resources wr) of
       None \<Rightarrow> go_bind (go_deref (OWR_OpcRequestId wr)) (\<lambda>req. go_throw (ErrNew
         (''node pool ws not created with the request, please create a support ticket with opc-request-id '' @ req)))
     | Some i \<Rightarrow> go_seq (ctl_mod (upd_vp_spec (\<lambda>sp. sp\<lparr>VPS_ID := Some i\<rparr>))) (getOKEVirtualNodePoolFromOCID c (Some i))))"

definition createVirtualPoolDetails :: "VirtualMachinePoolScope \<Rightarrow> UpdateVirtualNodePoolDetails \<Rightarrow> CreateVirtualNodePoolDetails" where
  "createVirtualPoolDetails m d =
     \<lparr>UVP_Size = UVP_Size d, UVP_DisplayName = UVP_DisplayName d, UVP_PlacementConfigurations = UVP_PlacementConfigurations d,
      UVP_NsgIds = UVP_NsgIds d, UVP_InitialVirtualNodeLabels = UVP_InitialVirtualNodeLabels d,
      UVP_PodConfiguration = UVP_PodConfiguration d, UVP_Taints = UVP_Taints d,
      CVP_CompartmentId = Spec_CompartmentId (vp_cluster_spec m), CVP_ClusterId = CPSpec_ID (CP_Spec (VMP_OCIManagedControlPlane m)),
      CVP_FreeformTags = vp_getFreeFormTags m, CVP_DefinedTags = vp_getDefinedTags m,
      CVP_VirtualNodeTags = (vp_getFreeFormTags m, vp_getDefinedTags m)\<rparr>"

definition CreateVirtualNodePool :: "'w VirtualPoolClients \<Rightarrow> ('w, VirtualNodePool) vp_go" where
  "CreateVirtualNodePool c =
     go_seq (setVirtualPlacements c)
     (go_seq setVirtualNsgs
     (go_bind ctl_get (\<lambda>m.
     go_bind (virtualPoolDetails m) (\<lambda>d. awaitVirtualPool c (createVirtualPoolDetails m d)))))"

section \<open>Update\<close>

definition setVirtualMachinePoolSpecDefaults :: "OCIVirtualMachinePoolSpec \<Rightarrow> OCIVirtualMachinePoolSpec" where
  "setVirtualMachinePoolSpecDefaults spec = spec\<lparr>VPS_ProviderIDList := None, VPS_ProviderID := None\<rparr>"

definition getInitialVirtualNodeLabels :: "KeyValue list \<Rightarrow> KeyValue slice" where
  "getInitialVirtualNodeLabels labels = (if labels = [] then None else Some labels)"

definition getTaints :: "Taint list \<Rightarrow> Taint slice" where
  "getTaints taints = (if taints = [] then None else Some taints)"

definition vp_nsgNames :: "VirtualMachinePoolScope \<Rightarrow> string slice \<Rightarrow> string slice" where
  "vp_nsgNames m ids = (let xs = slice_list ids in
     if xs = [] then None else Some (GetNsgNamesFromId xs (NetworkSecurityGroup_List (VCN_NetworkSecurityGroup (vp_vcn m)))))"

definition vp_buildPlacementConfigFromActual :: "VirtualMachinePoolScope \<Rightarrow> VirtualPlacement list \<Rightarrow> VirtualNodepoolPlacementConfig list" where
  "vp_buildPlacementConfigFromActual m actualConfigs = map (\<lambda>config.
     \<lparr>VPlC_AvailabilityDomain = VPl_AvailabilityDomain config, VPlC_FaultDomains = VPl_FaultDomain config,
      VPlC_SubnetName = Some (GetSubnetNameFromId (VPl_SubnetId config) (VCN_Subnets (vp_vcn m)))\<rparr>) actualConfigs"

definition vp_getSpecFromAPIObject :: "VirtualMachinePoolScope \<Rightarrow> VirtualNodePool \<Rightarrow> OCIVirtualMachinePoolSpec" where
  "vp_getSpecFromAPIObject m pool =
     \<lparr>VPS_ProviderID = None, VPS_ID = VNP_Id pool,
      VPS_PlacementConfigs = Some (vp_buildPlacementConfigFromActual m (VNP_PlacementConfigurations pool)),
      VPS_NsgNames = vp_nsgNames m (VNP_NsgIds pool),
      VPS_PodConfiguration = (case VNP_PodConfiguration pool of
          None \<Rightarrow> \<lparr>PC_NsgNames = None, PC_Shape = None, PC_SubnetName = None\<rparr>
        | Some pc \<Rightarrow> \<lparr>PC_NsgNames = vp_nsgNames m (SPC_NsgIds pc), PC_Shape = SPC_Shape pc,
            PC_SubnetName = Some (GetSubnetNameFromId (SPC_SubnetId pc) (VCN_Subnets (vp_vcn m)))\<rparr>),
      VPS_Taints = getTaints (VNP_Taints pool),
      VPS_InitialVirtualNodeLabels = getInitialVirtualNodeLabels (VNP_InitialVirtualNodeLabels pool),
      VPS_ProviderIDList = None\<rparr>"

definition vp_sizeUpdateRequired :: "VirtualMachinePoolScope \<Rightarrow> VirtualNodePool \<Rightarrow> ('s, bool) go" where
  "vp_sizeUpdateRequired m pool =
     (if MP_ReplicasManagedExternally (VMP_MachinePool m) then go_ret False
      else go_bind (go_deref (MP_Replicas (VMP_MachinePool m))) (\<lambda>replicas.
        go_bind (go_deref (VNP_Size pool)) (\<lambda>size. go_ret (replicas \<noteq> int32_of size))))"

definition virtualPoolDiffers :: "VirtualMachinePoolScope \<Rightarrow> VirtualNodePool \<Rightarrow> bool \<Rightarrow> ('s, bool) go" where
  "virtualPoolDiffers m pool sizeUpdate =
     (if setVirtualMachinePoolSpecDefaults (vp_spec m) \<noteq> vp_getSpecFromAPIObject m pool then go_ret True
      else go_bind (go_deref (VNP_DisplayName pool)) (\<lambda>name. go_ret (vp_getNodePoolName m \<noteq> name \<or> sizeUpdate)))"

definition UpdateVirtualNodePool :: "'w VirtualPoolClients \<Rightarrow> VirtualNodePool \<Rightarrow> ('w, bool) vp_go" where
  "UpdateVirtualNodePool c pool =
     go_bind ctl_get (\<lambda>m.
     go_bind (vp_sizeUpdateRequired m pool) (\<lambda>sizeUpdate.
     go_bind (virtualPoolDiffers m pool sizeUpdate) (\<lambda>differs.
     if differs
     then go_seq setVirtualNsgs
       (go_bind ctl_get (\<lambda>n.
       go_bind (virtualPoolDetails n) (\<lambda>d.
       go_seq (go_wrap ''failed to update Virtual Node Pool'' (vp_engine c (\<lambda>a. api_UpdateVirtualNodePool a (VNP_Id pool) d)))
         (go_ret True))))
     else go_ret False)))"

end
