(* ===== verification/Virtual_Pool_Controller.thy ===== *)
theory Virtual_Pool_Controller
  imports Virtual_Pool Pool_Controller Guarded_Deletion Control_Plane_Samples Node_Pool_Samples
begin

text \<open>
  The controller of OCIVirtualMachinePool objects (src/exp/controllers/ocivirtual_machinepool_controller.go): \<open>reconcileNormal\<close>,
  \<open>reconcileVirtualMachines\<close> and \<open>reconcileDelete\<close>, and two properties: when the finalizer goes, and what an update does to a size
  that is managed elsewhere. The result is the time after which the object is queued again, in seconds.
\<close>

abbreviation VirtualNodePoolReadyCondition :: string where "VirtualNodePoolReadyCondition \<equiv> ''VirtualNodePoolReady''"
abbreviation VirtualNodePoolNotFoundReason :: string where "VirtualNodePoolNotFoundReason \<equiv> ''VirtualNodePoolNotFound''"
abbreviation VirtualNodePoolProvisionFailedReason :: string where
  "VirtualNodePoolProvisionFailedReason \<equiv> ''VirtualNodePoolProvisionFailed''"
abbreviation VirtualNodePoolDeletionInProgress :: string where
  "VirtualNodePoolDeletionInProgress \<equiv> ''VirtualNodePoolDeletionInProgress''"
abbreviation VirtualNodePoolNotReadyReason :: string where "VirtualNodePoolNotReadyReason \<equiv> ''VirtualNodePoolNotReady''"
abbreviation VirtualNodePoolDeletedReason :: string where "VirtualNodePoolDeletedReason \<equiv> ''VirtualNodePoolDeleted''"

definition mark_vp :: "(Condition list \<Rightarrow> Condition list) \<Rightarrow> ('w, unit) vp_go" where
  "mark_vp f = ctl_mod (upd_vp_status (\<lambda>st. st\<lparr>VPSt_Conditions := f (VPSt_Conditions st)\<rparr>))"

definition mark_vp_false :: "'w VirtualPoolClients \<Rightarrow> string \<Rightarrow> string \<Rightarrow> ('w, unit) vp_go" where
  "mark_vp_false c condition reason = mark_vp (kube_MarkFalse (vpc_Lib c) condition reason)"

definition mod_vp_finalizers :: "(string list \<Rightarrow> string list) \<Rightarrow> ('w, unit) vp_go" where
  "mod_vp_finalizers f = ctl_mod (upd_vp (\<lambda>p. p\<lparr>VP_Finalizers := f (VP_Finalizers p)\<rparr>))"

definition set_vp_ready :: "bool \<Rightarrow> ('w, unit) vp_go" where
  "set_vp_ready b = ctl_mod (upd_vp_status (\<lambda>st. st\<lparr>VPSt_Ready := b\<rparr>))"

definition set_vp_state :: "NodePoolState \<Rightarrow> ('w, unit) vp_go" where
  "set_vp_state st = ctl_mod (upd_vp_status (\<lambda>s. s\<lparr>VPSt_NodepoolLifecycleState := nodePoolStateText st\<rparr>))"

section \<open>Reconciliation\<close>

definition virtualMachineParams :: "VirtualMachinePoolScope \<Rightarrow> OCIMachinePoolMachine list \<Rightarrow> MachineParams" where
  "virtualMachineParams m specInfraMachines = (let p = VMP_OCIVirtualMachinePool m in
     \<lparr>Params_MachinePool = VMP_MachinePool m, Params_Cluster = VMP_Cluster m,
      Params_InfraMachinePoolName = VP_Name p, Params_InfraMachinePoolKind = VP_Kind p, Params_InfraMachinePoolUID = VP_UID p,
      Params_Namespace = VP_Namespace p, Params_SpecInfraMachines = specInfraMachines\<rparr>)"

definition machineStep :: "'w VirtualPoolClients \<Rightarrow> ('w, unit) go \<Rightarrow> string \<Rightarrow> string \<Rightarrow> ('w, unit) vp_go" where
  "machineStep c m reason msg =
     go_bind (go_try (ctl_call m)) (\<lambda>x. case x of
       Inl err \<Rightarrow>
         go_seq (record_event EventTypeWarning reason (Error err))
         (go_seq (mark_vp_false c ''Ready'' reason) (go_throw (ErrWrap msg err)))
     | Inr _ \<Rightarrow> go_ret ())"

definition reconcileVirtualMachines :: "'w VirtualPoolClients \<Rightarrow> OCIMachinePoolMachine list \<Rightarrow> ('w, unit) vp_go" where
  "reconcileVirtualMachines c specInfraMachines =
     go_bind ctl_get (\<lambda>m.
     let params = virtualMachineParams m specInfraMachines in
     go_seq (machineStep c (CreateMachinePoolMachinesIfNotExists (vpc_Kube c) params) ''FailedToCreateNewMachines''
         ''failed to create missing machines'')
       (machineStep c (DeleteOrphanedMachinePoolMachines (vpc_Kube c) params) ''FailedToDeleteOrphanedMachines''
         ''failed to delete orphaned machines''))"

definition reconcileActiveVirtualPool :: "'w VirtualPoolClients \<Rightarrow> VirtualNodePool \<Rightarrow> ('w, int) vp_go" where
  "reconcileActiveVirtualPool c nodePool =
     go_bind (ListandSetMachinePoolInstances c nodePool) (\<lambda>machines.
     go_bind (go_map machines readyProviderID) (\<lambda>ids.
     let providerIDList = concat ids in
     go_seq (ctl_mod (upd_vp_spec (\<lambda>sp. sp\<lparr>VPS_ProviderIDList := Some providerIDList\<rparr>)))
     (go_seq (ctl_mod (vp_SetReplicaCount (int32_of (int (length providerIDList)))))
     (go_seq (reconcileVirtualMachines c machines)
     (go_seq (set_vp_ready True)
     (go_seq (record_event EventTypeNormal ''VirtualNodePoolReady'' ''Node pool is in ready state'')
     (go_seq (mark_vp (kube_MarkTrue (vpc_Lib c) VirtualNodePoolReadyCondition))
     (go_bind (UpdateVirtualNodePool c nodePool) (\<lambda>isUpdated.
     go_ret (if isUpdated then 30 else 300))))))))))"

text \<open>The message of the source ends with the address of the string with the details of the state, which is left out.\<close>

definition reconcileUnexpectedVirtualPool :: "'w VirtualPoolClients \<Rightarrow> VirtualNodePool \<Rightarrow> ('w, int) vp_go" where
  "reconcileUnexpectedVirtualPool c nodePool =
     (let state = nodePoolStateText (VNP_LifecycleState nodePool); err = ErrNew (''Virtual Node Pool status '' @ state @ '' is unexpected'') in
      go_seq (ctl_mod (upd_vp_status (\<lambda>st. st\<lparr>VPSt_FailureMessages := VPSt_FailureMessages st @ [Error err]\<rparr>)))
      (go_seq (mark_vp_false c VirtualNodePoolReadyCondition VirtualNodePoolProvisionFailedReason)
      (go_seq (record_event EventTypeWarning ''ReconcileError'' (''Virtual Node pool has invalid lifecycle state '' @ state))
      (go_throw err))))"

definition reconcileFoundVirtualPool :: "'w VirtualPoolClients \<Rightarrow> VirtualNodePool \<Rightarrow> ('w, int) vp_go" where
  "reconcileFoundVirtualPool c nodePool =
     go_bind (go_deref (VNP_Id nodePool)) (\<lambda>i.
     go_seq (ctl_mod (upd_vp_spec (\<lambda>sp. sp\<lparr>VPS_ProviderID := Some (''oci://'' @ i), VPS_ID := VNP_Id nodePool\<rparr>)))
     (go_seq (set_vp_state (VNP_LifecycleState nodePool))
     (case VNP_LifecycleState nodePool of
        NodePoolCreating \<Rightarrow> go_seq (mark_vp_false c VirtualNodePoolReadyCondition VirtualNodePoolNotReadyReason) (go_ret 30)
      | NodePoolUpdating \<Rightarrow> go_ret 30
      | NodePoolActive \<Rightarrow> reconcileActiveVirtualPool c nodePool
      | _ \<Rightarrow> reconcileUnexpectedVirtualPool c nodePool)))"

definition createMissingVirtualPool :: "'w VirtualPoolClients \<Rightarrow> ('w, VirtualNodePool) vp_go" where
  "createMissingVirtualPool c =
     go_bind (go_try (CreateVirtualNodePool c)) (\<lambda>x. case x of
       Inl err \<Rightarrow>
         go_seq (record_event EventTypeWarning ''ReconcileError'' (Error err))
         (go_seq (mark_vp_false c VirtualNodePoolReadyCondition VirtualNodePoolProvisionFailedReason) (go_throw err))
     | Inr nodePool \<Rightarrow>
         go_bind ctl_get (\<lambda>m.
         go_seq (record_event EventTypeNormal ''VirtualNodePool''
           (''Created new Virtual Node Pool: '' @ VP_Name (VMP_OCIVirtualMachinePool m))) (go_ret nodePool)))"

definition findOrCreateVirtualPool :: "'w VirtualPoolClients \<Rightarrow> ('w, VirtualNodePool) vp_go" where
  "findOrCreateVirtualPool c =
     go_bind (go_try (FindVirtualNodePool c)) (\<lambda>x. case x of
       Inl err \<Rightarrow>
         go_seq (record_event EventTypeWarning ''ReconcileError'' (Error err))
         (go_seq (mark_vp (vpc_MarkUnknown c VirtualNodePoolReadyCondition VirtualNodePoolNotFoundReason)) (go_throw err))
     | Inr None \<Rightarrow> createMissingVirtualPool c
     | Inr (Some nodePool) \<Rightarrow> go_ret nodePool)"

definition vp_reconcileNormal :: "'w VirtualPoolClients \<Rightarrow> ('w, int) vp_go" where
  "vp_reconcileNormal c =
     go_seq (mod_vp_finalizers (kube_AddFinalizer (vpc_Lib c) VirtualMachinePoolFinalizer))
     (go_bind ctl_get (\<lambda>m.
     if \<not> ToBool (Capi_InfrastructureProvisioned (VMP_Cluster m)) then go_ret 0
     else if \<not> CPStatus_Ready (CP_Status (VMP_OCIManagedControlPlane m)) then go_ret 0
     else go_bind (findOrCreateVirtualPool c) (reconcileFoundVirtualPool c)))"

section \<open>Deletion\<close>

definition removeVirtualPoolFinalizer :: "'w VirtualPoolClients \<Rightarrow> ('w, unit) vp_go" where
  "removeVirtualPoolFinalizer c = mod_vp_finalizers (kube_RemoveFinalizer (vpc_Lib c) VirtualMachinePoolFinalizer)"

definition deleteFoundVirtualPool :: "'w VirtualPoolClients \<Rightarrow> VirtualNodePool \<Rightarrow> ('w, int) vp_go" where
  "deleteFoundVirtualPool c nodePool =
     go_seq (set_vp_state (VNP_LifecycleState nodePool))
     (case VNP_LifecycleState nodePool of
        NodePoolDeleting \<Rightarrow>
          go_seq (set_vp_ready False)
          (go_seq (mark_vp_false c VirtualNodePoolReadyCondition VirtualNodePoolDeletionInProgress)
          (go_seq (record_event EventTypeWarning ''DeletionInProgress'' ''Virtual Node Pool deletion in progress'') (go_ret 30)))
      | NodePoolDeleted \<Rightarrow>
          go_seq (removeVirtualPoolFinalizer c)
          (go_seq (mark_vp_false c VirtualNodePoolReadyCondition VirtualNodePoolDeletedReason) (go_ret 0))
      | _ \<Rightarrow>
          go_seq (DeleteVirtualNodePool c nodePool)
          (go_seq (set_vp_ready False)
          (go_seq (mark_vp_false c VirtualNodePoolReadyCondition VirtualNodePoolDeletionInProgress) (go_ret 30))))"

definition vp_reconcileDelete :: "'w VirtualPoolClients \<Rightarrow> ('w, int) vp_go" where
  "vp_reconcileDelete c =
     go_bind (go_try (FindVirtualNodePool c)) (\<lambda>x. case x of
       Inl err \<Rightarrow>
         if IsNotFound (Some err)
         then go_seq (removeVirtualPoolFinalizer c)
           (go_seq (mark_vp (kube_MarkTrue (vpc_Lib c) VirtualNodePoolNotFoundReason)) (go_seq (set_vp_ready False) (go_ret 0)))
         else go_throw err
     | Inr None \<Rightarrow>
         go_seq (removeVirtualPoolFinalizer c)
         (go_seq (mark_vp_false c VirtualNodePoolReadyCondition VirtualNodePoolDeletedReason) (go_ret 0))
     | Inr (Some nodePool) \<Rightarrow> deleteFoundVirtualPool c nodePool)"

section \<open>The finalizer\<close>

lemma vp_call_keeps:
  "keeps (keeping (\<lambda>x. g (ctl_scope x))) (vp_engine c f)" "keeps (keeping (\<lambda>x. g (ctl_scope x))) ctl_get"
  "keeps (keeping (\<lambda>x. g (ctl_scope x))) (record_event t reason msg)"
  by (auto simp: keeps_def go_simps vp_engine_def record_event_def split: prod.split)

abbreviation vp_finalizers :: "(VirtualMachinePoolScope, 'w) ctl \<Rightarrow> string list" where
  "vp_finalizers x \<equiv> VP_Finalizers (VMP_OCIVirtualMachinePool (ctl_scope x))"

lemma FindVirtualNodePool_keeps: "keeps (keeping vp_finalizers) (FindVirtualNodePool c)"
  unfolding FindVirtualNodePool_def virtualPoolPage_def getOKEVirtualNodePoolFromOCID_def
  by (intro frame_intros keeping_order keeps_case_prod vp_call_keeps [where g = "\<lambda>m. VP_Finalizers (VMP_OCIVirtualMachinePool m)"])

lemma vp_finalizers_kept:
  "keeps (keeping vp_finalizers) (mark_vp f)" "keeps (keeping vp_finalizers) (mark_vp_false c cond reason)"
  "keeps (keeping vp_finalizers) (set_vp_ready b)" "keeps (keeping vp_finalizers) (set_vp_state st)"
  by (simp_all add: keeps_def mark_vp_false_def mark_vp_def set_vp_ready_def set_vp_state_def upd_vp_status_def upd_vp_def go_simps)

lemma deleteFoundVirtualPool_kept:
  assumes "VNP_LifecycleState p \<noteq> NodePoolDeleted"
  shows "keeps (keeping vp_finalizers) (deleteFoundVirtualPool c p)"
proof -
  note kept = frame_intros keeping_order vp_finalizers_kept vp_call_keeps [where g = "\<lambda>m. VP_Finalizers (VMP_OCIVirtualMachinePool m)"]
  show ?thesis
    using assms unfolding deleteFoundVirtualPool_def DeleteVirtualNodePool_def
    by (cases "VNP_LifecycleState p"; simp only: NodePoolState.case simp_thms; (intro kept)?)
qed

interpretation vp: guarded_deletion "FindVirtualNodePool c" vp_finalizers "\<lambda>p. VNP_LifecycleState p = NodePoolDeleted"
    "go_seq (removeVirtualPoolFinalizer c)
       (go_seq (mark_vp (kube_MarkTrue (vpc_Lib c) VirtualNodePoolNotFoundReason)) (go_seq (set_vp_ready False) (go_ret 0)))"
    "go_seq (removeVirtualPoolFinalizer c) (go_seq (mark_vp_false c VirtualNodePoolReadyCondition VirtualNodePoolDeletedReason) (go_ret 0))"
    "deleteFoundVirtualPool c" "vp_reconcileDelete c" for c
  by unfold_locales (simp_all add: vp_reconcileDelete_def deleteFoundVirtualPool_kept FindVirtualNodePool_keeps)

text \<open>The finalizer of a virtual pool goes only when the search has reported that the pool is gone.\<close>

lemma virtual_pool_finalizer_last:
  assumes "vp_reconcileDelete c x = (r, y)" and "vp_finalizers y \<noteq> vp_finalizers x"
  shows "reported_gone (\<lambda>p. VNP_LifecycleState p = NodePoolDeleted) (fst (FindVirtualNodePool c x))"
  using vp.change_needs_gone [OF assms] by (metis fst_conv)

section \<open>A size that is managed elsewhere\<close>

lemma virtualPoolDetails_run:
  "virtualPoolDetails m x = (Ret d, y) \<Longrightarrow> MP_Replicas (VMP_MachinePool m) = Some (UVP_Size d)"
  by (auto simp: virtualPoolDetails_def go_simps split: res.splits prod.splits option.splits)

lemma virtual_details_quiet:
  "keeps same_state (getSubnet m name)" "keeps same_state (virtualPoolDetails m)" "keeps same_state (vp_sizeUpdateRequired m pool)"
  "keeps same_state (virtualPoolDiffers m pool b)"
proof -
  have *: "keeps same_state (subnetByName subnets name)" for subnets name
    by (induction subnets) (auto intro!: frame_intros)
  then show sub: "keeps same_state (getSubnet m name)" for name by (simp add: getSubnet_def)
  show "keeps same_state (virtualPoolDetails m)"
    unfolding virtualPoolDetails_def vp_buildPlacementConfig_def getPodConfiguration_def Let_def
    by (intro frame_intros sub reflp_same_state transp_same_state)
  show "keeps same_state (vp_sizeUpdateRequired m pool)" "keeps same_state (virtualPoolDiffers m pool b)"
    unfolding vp_sizeUpdateRequired_def virtualPoolDiffers_def by (intro frame_intros reflp_same_state transp_same_state)+
qed

lemma setVirtualNsgs_run: "\<exists>n. setVirtualNsgs ((m, w), ev) = (Ret (), ((n, w), ev)) \<and> VMP_MachinePool n = VMP_MachinePool m"
  by (auto simp: setVirtualNsgs_def go_simps upd_vp_spec_def upd_vp_def)

text \<open>C39. An update of a virtual pool overwrites a size that is managed elsewhere. Whenever \<open>UpdateVirtualNodePool\<close> reports an update,
  it has sent exactly one, and the size in it is the number of replicas of the machine pool. This is so even if the replicas
  are managed by an external autoscaler, in which case the size of the pool is not even looked at.\<close>

theorem virtual_pool_size_overwritten:
  assumes run: "UpdateVirtualNodePool c pool x = (Ret True, y)"
  shows "\<exists>d. MP_Replicas (VMP_MachinePool (ctl_scope x)) = Some (UVP_Size d) \<and>
    api_UpdateVirtualNodePool (vpc_Engine c) (VNP_Id pool) d (ctl_cloud x) = (Ret (), ctl_cloud y)"
proof -
  obtain m w ev where x: "x = ((m, w), ev)" by (cases x; cases "fst x") auto
  obtain s x1 where s: "vp_sizeUpdateRequired m pool x = (s, x1)" by (cases "vp_sizeUpdateRequired m pool x")
  from keepsD [OF virtual_details_quiet(3) s] have x1: "x1 = x" .
  from run s x x1 obtain b where b: "s = Ret b" by (cases s) (auto simp: UpdateVirtualNodePool_def go_simps)
  obtain t x2 where t: "virtualPoolDiffers m pool b x = (t, x2)" by (cases "virtualPoolDiffers m pool b x")
  from keepsD [OF virtual_details_quiet(4) t] have x2: "x2 = x" .
  obtain n where n: "setVirtualNsgs x = (Ret (), ((n, w), ev))" "VMP_MachinePool n = VMP_MachinePool m"
    unfolding x using setVirtualNsgs_run [of m w ev] by blast
  have "t = Ret True"
    using run s t x x1 x2 b by (cases t) (auto simp: UpdateVirtualNodePool_def go_bind_apply ctl_get_apply go_ret_apply split: if_splits)
  with run s t x x1 x2 b n have rest: "go_bind (virtualPoolDetails n) (\<lambda>d.
      go_seq (go_wrap ''failed to update Virtual Node Pool'' (vp_engine c (\<lambda>a. api_UpdateVirtualNodePool a (VNP_Id pool) d))) (go_ret True))
      ((n, w), ev) = (Ret True, y)"
    by (simp add: UpdateVirtualNodePool_def go_bind_apply [of ctl_get] ctl_get_apply go_bind_apply [of "vp_sizeUpdateRequired m pool"]
        go_bind_apply [of "virtualPoolDiffers m pool b"] go_seq_apply [of setVirtualNsgs])
  obtain q z where q: "virtualPoolDetails n ((n, w), ev) = (q, z)" by (cases "virtualPoolDetails n ((n, w), ev)")
  from keepsD [OF virtual_details_quiet(2) q] have z: "z = ((n, w), ev)" .
  from rest q obtain d where d: "q = Ret d" by (cases q) (auto simp: go_bind_apply)
  from virtualPoolDetails_run [OF q [unfolded d]] n(2) x have "MP_Replicas (VMP_MachinePool (ctl_scope x)) = Some (UVP_Size d)" by simp
  moreover from rest q d z have "api_UpdateVirtualNodePool (vpc_Engine c) (VNP_Id pool) d w = (Ret (), ctl_cloud y)"
    by (cases "api_UpdateVirtualNodePool (vpc_Engine c) (VNP_Id pool) d w"; cases "fst (api_UpdateVirtualNodePool (vpc_Engine c) (VNP_Id pool) d w)")
      (auto simp: go_bind_apply [of "virtualPoolDetails n"] go_seq_apply go_wrap_apply vp_engine_def ctl_call_apply go_ret_apply)
  ultimately show ?thesis using x by auto
qed

text \<open>A pool of three replicas under an autoscaler, which has scaled it to seven; a taint has been added.\<close>

definition sample_vp :: VirtualMachinePoolScope where
  "sample_vp =
     \<lparr>VMP_Cluster = MMP_Cluster sample_np,
      VMP_MachinePool = (MMP_MachinePool sample_np)\<lparr>MP_ReplicasManagedExternally := True\<rparr>,
      VMP_OCIManagedCluster = np_network, VMP_OCIManagedControlPlane = cp_object sample_cp,
      VMP_OCIVirtualMachinePool = \<lparr>VP_Name = ''virtual'', VP_Namespace = ''ns'', VP_Kind = ''OCIVirtualMachinePool'', VP_UID = ''u'',
        VP_Finalizers = [VirtualMachinePoolFinalizer],
        VP_Spec = \<lparr>VPS_ProviderID = None, VPS_ID = Some ''vnp-1'', VPS_PlacementConfigs = Some [], VPS_NsgNames = Some [''worker''],
          VPS_PodConfiguration = \<lparr>PC_NsgNames = Some [''pod''], PC_Shape = Some ''Pod.Standard.E4.Flex'', PC_SubnetName = Some ''pod''\<rparr>,
          VPS_Taints = Some [\<lparr>Taint_Key = Some ''k'', Taint_Value = Some ''v'', Taint_Effect = Some ''NoSchedule''\<rparr>],
          VPS_InitialVirtualNodeLabels = None, VPS_ProviderIDList = None\<rparr>,
        VP_Status = \<lparr>VPSt_Ready = False, VPSt_Conditions = [], VPSt_Replicas = 0, VPSt_NodepoolLifecycleState = [],
          VPSt_FailureReason = None, VPSt_FailureMessages = [], VPSt_InfrastructureMachineKind = ''OCIMachinePoolMachine''\<rparr>\<rparr>\<rparr>"

definition scaled_pool :: VirtualNodePool where
  "scaled_pool = \<lparr>VNP_Id = Some ''vnp-1'', VNP_DisplayName = Some ''virtual'', VNP_Size = Some 7, VNP_PlacementConfigurations = [],
     VNP_NsgIds = Some [''nsg-w''], VNP_InitialVirtualNodeLabels = [],
     VNP_PodConfiguration = Some \<lparr>SPC_SubnetId = Some ''sn-p'', SPC_Shape = Some ''Pod.Standard.E4.Flex'', SPC_NsgIds = Some [''nsg-p'']\<rparr>,
     VNP_Taints = [], VNP_FreeformTags = Map.empty, VNP_LifecycleState = NodePoolActive\<rparr>"

definition sample_vp_clients :: "UpdateVirtualNodePoolDetails list VirtualPoolClients" where
  "sample_vp_clients =
     \<lparr>vpc_Engine = \<lparr>api_GetVirtualNodePool = (\<lambda>_. go_ret scaled_pool), api_ListVirtualNodePools = (\<lambda>_ _ _ _. go_ret ([], None)),
        api_CreateVirtualNodePool = (\<lambda>_. go_ret None), api_UpdateVirtualNodePool = (\<lambda>_ d w. (Ret (), d # w)),
        api_DeleteVirtualNodePool = (\<lambda>_. go_ret ()), api_ListVirtualNodes = (\<lambda>_ _. go_ret ([], None)),
        api_GetVirtualPoolWorkRequest = (\<lambda>_. go_ret \<lparr>OWR_Resources = [], OWR_OpcRequestId = None\<rparr>)\<rparr>,
      vpc_Kube = pool_kube, vpc_Lib = sample_kube, vpc_MarkUnknown = (\<lambda>_ _ cs. cs), vpc_ads = (\<lambda>m. m)\<rparr>"

lemma sample_vp_run: "fst (UpdateVirtualNodePool sample_vp_clients scaled_pool ((sample_vp, []), [])) = Ret True"
proof -
  have "setVirtualMachinePoolSpecDefaults (vp_spec sample_vp) \<noteq> vp_getSpecFromAPIObject sample_vp scaled_pool"
    by (simp add: setVirtualMachinePoolSpecDefaults_def vp_getSpecFromAPIObject_def sample_vp_def scaled_pool_def getTaints_def)
  then show ?thesis
    by (simp add: UpdateVirtualNodePool_def vp_sizeUpdateRequired_def virtualPoolDiffers_def setVirtualNsgs_def virtualPoolDetails_def
        vp_buildPlacementConfig_def getPodConfiguration_def getSubnet_def vp_engine_def go_simps Let_def)
      (simp add: sample_vp_def sample_np_simps sample_vp_clients_def vp_subnets_def np_network_def ToSubnetSlice_def go_simps)
qed

theorem virtual_pool_size_overwritten_witness:
  "\<exists>d. UVP_Size d = 3 \<and> ctl_cloud (snd (UpdateVirtualNodePool sample_vp_clients scaled_pool ((sample_vp, []), []))) = [d] \<and>
    VNP_Size scaled_pool = Some 7 \<and> MP_ReplicasManagedExternally (VMP_MachinePool sample_vp)"
proof -
  from sample_vp_run obtain y where y: "UpdateVirtualNodePool sample_vp_clients scaled_pool ((sample_vp, []), []) = (Ret True, y)"
    by (metis prod.collapse)
  from virtual_pool_size_overwritten [OF y] y show ?thesis
    by (auto simp: sample_vp_def sample_np_simps sample_vp_clients_def scaled_pool_def)
qed

end
