(* ===== verification/Managed_Webhook.thy ===== *)
theory Managed_Webhook
  imports Managed_Cluster Node_Pool_Webhook
begin

text \<open>
  The webhooks of managed clusters and their control planes (src/api/v1beta2/ocimanagedcluster_webhook.go,
  ocimanagedcontrolplane_webhook.go): the network that is filled in for an object without one, with the rules OKE needs, and
  what is rejected. The branch for an object of another kind is left out, as in \<open>Cluster_Webhook\<close>.
\<close>

section \<open>Default rules\<close>

abbreviation PodDefaultCIDR :: string where "PodDefaultCIDR \<equiv> ''10.0.128.0/18''"

definition pathDiscoveryFrom :: "string \<Rightarrow> IngressSecurityRuleForNSG" where
  "pathDiscoveryFrom source = (ingressFrom ''Path Discovery.'' ''1'' source)
     \<lparr>Ingress_IcmpOptions := Some \<lparr>IcmpOptions_Type = Some 3, IcmpOptions_Code = Some 4\<rparr>\<rparr>"

definition pathDiscoveryTo :: "string \<Rightarrow> EgressSecurityRuleForNSG" where
  "pathDiscoveryTo destination = (egressTo ''Path Discovery.'' ''1'' None destination)
     \<lparr>Egress_IcmpOptions := Some \<lparr>IcmpOptions_Type = Some 3, IcmpOptions_Code = Some 4\<rparr>\<rparr>"

text \<open>A rule for the services of the region: the destination is filled in by the reconciliation of the group.\<close>

definition egressToServices :: "string \<Rightarrow> string \<Rightarrow> EgressSecurityRuleForNSG" where
  "egressToServices description protocol = (egressTo description protocol None [])
     \<lparr>Egress_Destination := None, Egress_DestinationType := ServiceCidrBlockType\<rparr>"

definition pathDiscoveryToServices :: EgressSecurityRuleForNSG where
  "pathDiscoveryToServices = (egressToServices ''Path Discovery.'' ''1'')
     \<lparr>Egress_IcmpOptions := Some \<lparr>IcmpOptions_Type = Some 3, IcmpOptions_Code = Some 4\<rparr>\<rparr>"

definition managed_GetControlPlaneEndpointDefaultIngressRules :: "IngressSecurityRuleForNSG list" where
  "managed_GetControlPlaneEndpointDefaultIngressRules =
     [tcpIngress ''Kubernetes worker to Kubernetes API endpoint communication.'' 6443 6443 WorkerSubnetDefaultCIDR,
      tcpIngress ''Kubernetes worker to Kubernetes API endpoint communication.'' 12250 12250 WorkerSubnetDefaultCIDR,
      pathDiscoveryFrom WorkerSubnetDefaultCIDR,
      tcpIngress ''Pod to Kubernetes API endpoint communication (when using VCN-native pod networking).'' 6443 6443 PodDefaultCIDR,
      tcpIngress ''Pod to Kubernetes API endpoint communication (when using VCN-native pod networking).'' 12250 12250 PodDefaultCIDR,
      tcpIngress ''External access to Kubernetes API endpoint.'' 6443 6443 anywhere]"

definition managed_GetControlPlaneEndpointDefaultEgressRules :: "EgressSecurityRuleForNSG list" where
  "managed_GetControlPlaneEndpointDefaultEgressRules =
     [egressToServices ''Allow Kubernetes API endpoint to communicate with OKE.'' ''6'',
      pathDiscoveryToServices,
      egressTo ''Allow Kubernetes API endpoint to communicate with worker nodes.'' ''6'' (Some (tcpPorts 10250 10250)) WorkerSubnetDefaultCIDR,
      pathDiscoveryTo WorkerSubnetDefaultCIDR,
      egressTo ''Allow Kubernetes API endpoint to communicate with pods (when using VCN-native pod networking).'' ''all'' None PodDefaultCIDR]"

definition managed_GetWorkerDefaultIngressRules :: "IngressSecurityRuleForNSG list" where
  "managed_GetWorkerDefaultIngressRules =
     [tcpIngress ''Allow Kubernetes API endpoint to communicate with worker nodes.'' 10250 10250 ControlPlaneEndpointSubnetDefaultCIDR,
      pathDiscoveryFrom anywhere,
      tcpIngress ''Load Balancer to Worker nodes node ports.'' 30000 32767 ServiceLoadBalancerDefaultCIDR]"

definition managed_GetWorkerDefaultEgressRules :: "EgressSecurityRuleForNSG list" where
  "managed_GetWorkerDefaultEgressRules =
     [egressToServices ''Allow worker nodes to communicate with OKE.'' ''6'',
      egressTo ''Allow worker nodes to access pods.'' ''all'' None PodDefaultCIDR,
      pathDiscoveryTo anywhere,
      egressTo ''Kubernetes worker to Kubernetes API endpoint communication.'' ''6'' (Some (tcpPorts 6443 6443)) ControlPlaneEndpointSubnetDefaultCIDR,
      egressTo ''Kubernetes worker to Kubernetes API endpoint communication.'' ''6'' (Some (tcpPorts 12250 12250)) ControlPlaneEndpointSubnetDefaultCIDR]"

definition managed_GetPodDefaultIngressRules :: "IngressSecurityRuleForNSG list" where
  "managed_GetPodDefaultIngressRules =
     [ingressFrom ''Allow worker nodes to access pods.'' ''all'' WorkerSubnetDefaultCIDR,
      ingressFrom ''Allow Kubernetes API endpoint to communicate with pods.'' ''all'' ControlPlaneEndpointSubnetDefaultCIDR,
      ingressFrom ''Allow pods to communicate with other pods.'' ''all'' PodDefaultCIDR]"

definition managed_GetPodDefaultEgressRules :: "EgressSecurityRuleForNSG list" where
  "managed_GetPodDefaultEgressRules =
     [egressToServices ''Allow worker nodes to communicate with OCI Services.'' ''6'',
      pathDiscoveryToServices,
      egressTo ''Allow pods to communicate with other pods.'' ''all'' None PodDefaultCIDR,
      egressTo ''Pod to Kubernetes API endpoint communication (when using VCN-native pod networking).'' ''6'' (Some (tcpPorts 6443 6443)) ControlPlaneEndpointSubnetDefaultCIDR,
      egressTo ''Pod to Kubernetes API endpoint communication (when using VCN-native pod networking).'' ''6'' (Some (tcpPorts 12250 12250)) ControlPlaneEndpointSubnetDefaultCIDR]"

definition managed_GetLBServiceDefaultIngressRules :: "IngressSecurityRuleForNSG list" where
  "managed_GetLBServiceDefaultIngressRules =
     [tcpIngress ''Accept http traffic on port 80'' 80 80 anywhere,
      tcpIngress ''Accept https traffic on port 443'' 443 443 anywhere]"

definition managed_GetLBServiceDefaultEgressRules :: "EgressSecurityRuleForNSG list" where
  "managed_GetLBServiceDefaultEgressRules =
     [egressTo ''Load Balancer to Worker nodes node ports.'' ''6'' (Some (tcpPorts 30000 32767)) WorkerSubnetDefaultCIDR]"

section \<open>Defaults\<close>

definition managed_subnets :: "Subnet list" where
  "managed_subnets =
     [newSubnet ControlPlaneEndpointRole ControlPlaneEndpointDefaultName ControlPlaneEndpointSubnetDefaultCIDR Public,
      newSubnet ServiceLoadBalancerRole ServiceLBDefaultName ServiceLoadBalancerDefaultCIDR Public,
      newSubnet WorkerRole WorkerDefaultName WorkerSubnetDefaultCIDR Private,
      newSubnet PodRole PodDefaultName PodDefaultCIDR Private]"

definition managed_nsgs :: "NSG list" where
  "managed_nsgs =
     [newNSG ControlPlaneEndpointRole ControlPlaneEndpointDefaultName
        managed_GetControlPlaneEndpointDefaultIngressRules managed_GetControlPlaneEndpointDefaultEgressRules,
      newNSG WorkerRole WorkerDefaultName managed_GetWorkerDefaultIngressRules managed_GetWorkerDefaultEgressRules,
      newNSG ServiceLoadBalancerRole ServiceLBDefaultName managed_GetLBServiceDefaultIngressRules managed_GetLBServiceDefaultEgressRules,
      newNSG PodRole PodDefaultName managed_GetPodDefaultIngressRules managed_GetPodDefaultEgressRules]"

definition managed_defaultVcn :: "VCN \<Rightarrow> VCN" where
  "managed_defaultVcn v = (let g = VCN_NetworkSecurityGroup v in
     v\<lparr>VCN_Subnets := (if length (VCN_Subnets v) = 0 then map Some managed_subnets else VCN_Subnets v),
       VCN_NetworkSecurityGroup := (if length (NetworkSecurityGroup_List g) = 0 \<and> \<not> NetworkSecurityGroup_Skip g
         then g\<lparr>NetworkSecurityGroup_List := map Some managed_nsgs\<rparr> else g),
       VCN_CIDR := (if VCN_CIDR v = [] then VcnDefaultCidr else VCN_CIDR v)\<rparr>)"

definition managed_Default :: "string \<Rightarrow> OCIManagedCluster \<Rightarrow> OCIManagedCluster" where
  "managed_Default NewUUID c =
     (let spec = Cluster_Spec c; n = Spec_NetworkSpec spec in
      c\<lparr>Cluster_Spec := spec
        \<lparr>Spec_OCIResourceIdentifier := (if Spec_OCIResourceIdentifier spec = [] then NewUUID else Spec_OCIResourceIdentifier spec),
         Spec_NetworkSpec := (if NetworkSpec_SkipNetworkManagement n then n
           else n\<lparr>NetworkSpec_Vcn := managed_defaultVcn (NetworkSpec_Vcn n)\<rparr>)\<rparr>\<rparr>)"

section \<open>Validation\<close>

text \<open>The zero value of the details of a backend set.\<close>

definition zeroBackendSetDetails :: BackendSetDetails where
  "zeroBackendSetDetails = \<lparr>BackendSetDetails_IsPreserveSource = None, BackendSetDetails_IsFailOpen = None,
     BackendSetDetails_IsInstantFailoverEnabled = None, BackendSetDetails_HealthChecker = \<lparr>HealthChecker_Protocol = None, HealthChecker_Port = None, HealthChecker_IntervalInMillis = None,
       HealthChecker_TimeoutInMillis = None, HealthChecker_Retries = None,
       HealthChecker_UrlPath = None, HealthChecker_ReturnCode = None, HealthChecker_ResponseBodyRegex = None,
       HealthChecker_RequestData = None, HealthChecker_ResponseData = None\<rparr>\<rparr>"

definition isAPIServerLoadBalancerConfigured :: "LoadBalancer \<Rightarrow> bool" where
  "isAPIServerLoadBalancerConfigured lb \<longleftrightarrow>
     LoadBalancer_Name lb \<noteq> [] \<or> LoadBalancer_LoadBalancerId lb \<noteq> None \<or> LoadBalancer_LoadBalancerType lb \<noteq> [] \<or>
     length (NLBSpec_ReservedIpIds (LoadBalancer_NLBSpec lb)) > 0 \<or>
     NLBSpec_BackendSetDetails (LoadBalancer_NLBSpec lb) \<noteq> zeroBackendSetDetails"

definition managed_validate ::
  "protocol_mapping \<Rightarrow> (string \<Rightarrow> string option) \<Rightarrow> OCIManagedCluster \<Rightarrow> FieldError list res" where
  "managed_validate mapping regexp_Compile c =
     (let spec = Cluster_Spec c; lb = NetworkSpec_APIServerLB (Spec_NetworkSpec spec); visibility = LoadBalancer_NetworkVisibility lb in
      res_append (ValidateNetworkSpec mapping regexp_Compile OCIManagedClusterSubnetRoles (Spec_NetworkSpec spec)
        [Child ''spec'', Child ''networkSpec''])
     (Ret (ValidateClusterName (Cluster_Name c) @
       invalid_if (length (Spec_CompartmentId spec) \<le> 0) [Child ''spec'', Child ''compartmentId''] ''field is required'' @
       invalid_if (length (Spec_CompartmentId spec) > 0 \<and> \<not> ValidOcid (Spec_CompartmentId spec))
         [Child ''spec'', Child ''compartmentId''] ''field is invalid'' @
       invalid_if (length (Spec_OCIResourceIdentifier spec) \<le> 0) [Child ''spec'', Child ''ociResourceIdentifier''] ''field is required'' @
       invalid_if (\<not> ValidRegion (Spec_Region spec)) [Child ''spec'', Child ''region'']
         ''field is invalid. See https://docs.oracle.com/en-us/iaas/Content/General/Concepts/regions.htm'' @
       invalid_if (isAPIServerLoadBalancerConfigured lb) [Child ''spec'', Child ''networkSpec'', Child ''apiServerLoadBalancer'']
         ''loadbalancer cannot be configured for managed clusters; the API server endpoint is managed by OCI'' @
       invalid_if (visibility = LBNetworkVisibilityPublic \<or> visibility = LBNetworkVisibilityPrivate)
         [Child ''spec'', Child ''networkSpec'', Child ''apiServerLoadBalancer'', Child ''networkVisibility'']
         ''networkVisibility is not supported for managed clusters; the API server endpoint is managed by OCI'')))"

definition managed_ValidateCreate ::
  "protocol_mapping \<Rightarrow> (string \<Rightarrow> string option) \<Rightarrow> OCIManagedCluster \<Rightarrow> StatusError option res" where
  "managed_ValidateCreate mapping regexp_Compile c = admission c (managed_validate mapping regexp_Compile c)"

definition managed_ValidateUpdate ::
  "protocol_mapping \<Rightarrow> (string \<Rightarrow> string option) \<Rightarrow> OCIManagedCluster \<Rightarrow> OCIManagedCluster \<Rightarrow> StatusError option res" where
  "managed_ValidateUpdate mapping regexp_Compile oldCluster c =
     (let old = Cluster_Spec oldCluster; new = Cluster_Spec c in
      admission c (res_append (Ret (
        invalid_if (Spec_Region new \<noteq> Spec_Region old) [Child ''spec'', Child ''region''] ''field is immutable'' @
        invalid_if (Spec_OCIResourceIdentifier new \<noteq> Spec_OCIResourceIdentifier old)
          [Child ''spec'', Child ''ociResourceIdentifier''] ''field is immutable'' @
        invalid_if (Spec_CompartmentId new \<noteq> Spec_CompartmentId old) [Child ''spec'', Child ''compartmentId''] ''field is immutable''))
        (managed_validate mapping regexp_Compile c)))"

definition managed_ValidateDelete :: "OCIManagedCluster \<Rightarrow> StatusError option res" where
  "managed_ValidateDelete c = Ret None"

section \<open>The webhook of control planes\<close>

definition cp_Default :: "OCIManagedControlPlane \<Rightarrow> OCIManagedControlPlane" where
  "cp_Default c =
     (if length (CPSpec_ClusterPodNetworkOptions (CP_Spec c)) = 0
      then c\<lparr>CP_Spec := (CP_Spec c)\<lparr>CPSpec_ClusterPodNetworkOptions := [VCNNativeCNI]\<rparr>\<rparr> else c)"

definition oidcErrors :: "OCIManagedControlPlaneSpec \<Rightarrow> FieldError list" where
  "oidcErrors spec = (case CO_OpenIdConnectTokenAuthenticationConfig (CPSpec_ClusterOption spec) of
      None \<Rightarrow> []
    | Some oidc \<Rightarrow>
        if \<not> OT_IsOpenIdConnectAuthEnabled oidc then []
        else invalid_if (CPSpec_ClusterType spec \<noteq> EnhancedClusterType) [Child ''ClusterType'']
            ''ClusterType needs to be set to ENHANCED_CLUSTER for OpenIdConnectTokenAuthenticationConfig to be enabled.'' @
          invalid_if (OT_ClientId oidc = None) [Child ''ClientId''] ''ClientId cannot be empty when OpenIdConnectAuth is enabled.'' @
          invalid_if (OT_IssuerUrl oidc = None) [Child ''IssuerUrl ''] ''IssuerUrl cannot be empty when OpenIdConnectAuth is enabled.'')"

definition cp_ValidateCreate :: "OCIManagedControlPlane \<Rightarrow> StatusError option" where
  "cp_ValidateCreate c =
     (let allErrs = invalid_if (length (CP_Name c) > 31) [Child ''Name''] ''Name cannot be more than 31 characters'' @ oidcErrors (CP_Spec c)
      in if length allErrs = 0 then None else Some (NewInvalid (CP_Name c) allErrs))"

definition cp_ValidateUpdate :: "OCIManagedControlPlane \<Rightarrow> OCIManagedControlPlane \<Rightarrow> StatusError option" where
  "cp_ValidateUpdate old c = None"

definition cp_ValidateDelete :: "OCIManagedControlPlane \<Rightarrow> StatusError option" where
  "cp_ValidateDelete c = None"

section \<open>The defaults fit together\<close>

lemma managed_rule_errors [simp]:
  "ingressRuleErrors p (pathDiscoveryFrom src) = [] \<longleftrightarrow> ParseCIDR src \<noteq> None"
  "egressRuleErrors p (pathDiscoveryTo dst) = [] \<longleftrightarrow> ParseCIDR dst \<noteq> None"
  "egressRuleErrors p (egressToServices d proto) = []" "egressRuleErrors p pathDiscoveryToServices = []"
  by (simp_all add: ingressRuleErrors_def egressRuleErrors_def ingressFrom_def egressTo_def pathDiscoveryFrom_def pathDiscoveryTo_def
      egressToServices_def pathDiscoveryToServices_def rule_defs)

lemma parse_pod_cidr: "ParseCIDR PodDefaultCIDR = Some [0, 0, 0, 0, 0, 65535, 2560, 32768]"
  by (simp add: cidr4_eval)

lemmas managed_rules = managed_GetControlPlaneEndpointDefaultIngressRules_def managed_GetControlPlaneEndpointDefaultEgressRules_def
  managed_GetWorkerDefaultIngressRules_def managed_GetWorkerDefaultEgressRules_def managed_GetPodDefaultIngressRules_def
  managed_GetPodDefaultEgressRules_def managed_GetLBServiceDefaultIngressRules_def managed_GetLBServiceDefaultEgressRules_def

lemma managed_rules_valid:
  "validateIngressSecurityRuleForNSG managed_GetControlPlaneEndpointDefaultIngressRules p = []"
  "validateEgressSecurityRuleForNSG managed_GetControlPlaneEndpointDefaultEgressRules p = []"
  "validateIngressSecurityRuleForNSG managed_GetWorkerDefaultIngressRules p = []"
  "validateEgressSecurityRuleForNSG managed_GetWorkerDefaultEgressRules p = []"
  "validateIngressSecurityRuleForNSG managed_GetPodDefaultIngressRules p = []"
  "validateEgressSecurityRuleForNSG managed_GetPodDefaultEgressRules p = []"
  "validateIngressSecurityRuleForNSG managed_GetLBServiceDefaultIngressRules p = []"
  "validateEgressSecurityRuleForNSG managed_GetLBServiceDefaultEgressRules p = []"
  by (simp_all add: validateIngressSecurityRuleForNSG_def validateEgressSecurityRuleForNSG_def managed_rules parse_default_cidrs parse_pod_cidr)

lemma managed_subnets_valid: "validateSubnetsLoop OCIManagedClusterSubnetRoles VcnDefaultCidr p 0 {} managed_subnets = []"
  unfolding validateSubnetsLoop_Nil
  by (auto simp: managed_subnets_def OCIManagedClusterSubnetRoles_def invalidNameRegex_def validateSubnetCIDR_def
      parse_default_cidrs parse_pod_cidr parse_default_net net_eval)

lemma managed_nsgs_valid:
  "concat (map (\<lambda>(i, nsg). nsgErrors OCIManagedClusterSubnetRoles p i nsg) (enumerate 0 managed_nsgs)) = []"
  by (simp add: managed_nsgs_def nsgErrors_def newNSG_def managed_rules_valid OCIManagedClusterSubnetRoles_def)

text \<open>An object that leaves the network to the webhook and the load balancer to the service.\<close>

definition plain_managed :: "OCIManagedCluster \<Rightarrow> bool" where
  "plain_managed c \<longleftrightarrow> (let n = Spec_NetworkSpec (Cluster_Spec c); lb = NetworkSpec_APIServerLB n in
     bare_network (NetworkSpec_Vcn n) \<and> \<not> NetworkSpec_SkipNetworkManagement n \<and>
     \<not> NetworkSecurityGroup_Skip (VCN_NetworkSecurityGroup (NetworkSpec_Vcn n)) \<and> \<not> isAPIServerLoadBalancerConfigured lb \<and>
     LoadBalancer_NetworkVisibility lb \<noteq> LBNetworkVisibilityPublic \<and> LoadBalancer_NetworkVisibility lb \<noteq> LBNetworkVisibilityPrivate)"

lemma plain_vcn:
  assumes "plain_managed c"
  shows "webhook_Subnets (managed_Default u c) = map Some managed_subnets"
    "NetworkSecurityGroup_List (VCN_NetworkSecurityGroup (NetworkSpec_Vcn (Spec_NetworkSpec (Cluster_Spec (managed_Default u c))))) = map Some managed_nsgs"
    "VCN_CIDR (NetworkSpec_Vcn (Spec_NetworkSpec (Cluster_Spec (managed_Default u c)))) = VcnDefaultCidr"
    "NetworkSpec_APIServerLB (Spec_NetworkSpec (Cluster_Spec (managed_Default u c))) = NetworkSpec_APIServerLB (Spec_NetworkSpec (Cluster_Spec c))"
  using assms by (auto simp: plain_managed_def Let_def managed_Default_def managed_defaultVcn_def bare_network_def webhook_Subnets_def)

lemma zero_health_checker:
  "\<not> isAPIServerLoadBalancerConfigured lb \<Longrightarrow> validateHealthChecker mapping compile (specHealthChecker lb) p = []"
  by (simp add: isAPIServerLoadBalancerConfigured_def zeroBackendSetDetails_def validateHealthChecker_def validateProtocol_def trimmed_def
      regexErrors_def validatePayload_def)

lemma managed_network_valid:
  assumes "plain_managed c"
  shows "ValidateNetworkSpec mapping compile OCIManagedClusterSubnetRoles (Spec_NetworkSpec (Cluster_Spec (managed_Default u c))) p = Ret []"
proof -
  let ?n = "Spec_NetworkSpec (Cluster_Spec (managed_Default u c))"
  note vcn = plain_vcn [OF assms, of u, unfolded webhook_Subnets_def]
  have "validateSubnets OCIManagedClusterSubnetRoles (VCN_Subnets (NetworkSpec_Vcn ?n)) (NetworkSpec_Vcn ?n) q = Ret []"
    "validateNSGs OCIManagedClusterSubnetRoles (NetworkSecurityGroup_List (VCN_NetworkSecurityGroup (NetworkSpec_Vcn ?n))) q = Ret []"
    "validateHealthChecker mapping compile (specHealthChecker (NetworkSpec_APIServerLB ?n)) q = []" for q
    using managed_subnets_valid managed_nsgs_valid zero_health_checker assms unfolding vcn plain_managed_def
    by (auto simp: validateSubnets_def validateNSGs_def comp_def vcn Let_def)
  moreover have "LoadBalancer_NetworkVisibility (NetworkSpec_APIServerLB ?n) \<noteq> LBNetworkVisibilityPublic"
    using assms by (simp add: vcn plain_managed_def Let_def)
  ultimately show ?thesis
    by (simp add: ValidateNetworkSpec_def Let_def validateVCNCIDR_def vcn(3) parse_default_cidrs)
qed

text \<open>C31. The defaults of a managed cluster and of its node pools fit together. A managed cluster that leaves its network to the
  webhook and configures no load balancer, with a valid name, compartment and region, is admitted after the defaulting. A node pool
  without a configuration gets pod subnets and groups by name, and a subnet and a group with this name and the role of pods are
  among those the cluster got.\<close>

theorem managed_defaults_fit:
  assumes plain: "plain_managed c"
    and name: "clusterNameRegex (Cluster_Name c)" and ocid: "ValidOcid (Spec_CompartmentId (Cluster_Spec c))"
    and region: "ValidRegion (Spec_Region (Cluster_Spec c))" and u: "u \<noteq> []"
    and pool: "NPS_NodePoolNodeConfig (NP_Spec pool) = None"
  shows "managed_ValidateCreate mapping compile (managed_Default u c) = Ret None \<and>
    (\<exists>config po. NPS_NodePoolNodeConfig (NP_Spec (np_Default pool)) = Some config \<and> NPC_NodePoolPodNetworkOptionDetails config = Some po \<and>
       (\<forall>n \<in> set (slice_list (VPN_SubnetNames (PNO_VcnIpNativePodNetworkOptions po))).
          \<exists>s. Some s \<in> set (webhook_Subnets (managed_Default u c)) \<and> Subnet_Name s = n \<and> Subnet_Role s = PodRole) \<and>
       (\<forall>n \<in> set (slice_list (VPN_NSGNames (PNO_VcnIpNativePodNetworkOptions po))).
          \<exists>g. Some g \<in> set (NetworkSecurityGroup_List (VCN_NetworkSecurityGroup (NetworkSpec_Vcn (Spec_NetworkSpec (Cluster_Spec (managed_Default u c)))))) \<and>
            NSG_Name g = n \<and> NSG_Role g = PodRole))"
proof -
  have spec: "Spec_CompartmentId (Cluster_Spec (managed_Default u c)) = Spec_CompartmentId (Cluster_Spec c)"
      "Spec_Region (Cluster_Spec (managed_Default u c)) = Spec_Region (Cluster_Spec c)" "Cluster_Name (managed_Default u c) = Cluster_Name c"
      "Spec_OCIResourceIdentifier (Cluster_Spec (managed_Default u c)) \<noteq> []"
    using u by (simp_all add: managed_Default_def Let_def)
  have "managed_ValidateCreate mapping compile (managed_Default u c) = Ret None"
    using managed_network_valid [OF plain] plain name ocid region spec
    by (auto simp: managed_ValidateCreate_def managed_validate_def admission_None res_append_Nil Let_def ValidateClusterName_def
        ValidOcid_def plain_vcn(4) [OF plain] plain_managed_def)
  moreover have "\<exists>s. s \<in> set managed_subnets \<and> Subnet_Name s = PodDefaultName \<and> Subnet_Role s = PodRole"
    by (rule exI [of _ "newSubnet PodRole PodDefaultName PodDefaultCIDR Private"]) (simp add: managed_subnets_def)
  moreover have "\<exists>g. g \<in> set managed_nsgs \<and> NSG_Name g = PodDefaultName \<and> NSG_Role g = PodRole"
    by (rule exI [of _ "newNSG PodRole PodDefaultName managed_GetPodDefaultIngressRules managed_GetPodDefaultEgressRules"])
      (simp add: managed_nsgs_def, simp add: newNSG_def)
  ultimately show ?thesis
    using pool by (simp add: plain_vcn [OF plain] np_Default_def defaultPodNetwork_def empty_node_config_def Let_def image_iff)
qed

definition new_managed :: OCIManagedCluster where
  "new_managed = (let spec = Cluster_Spec new_cluster; n = Spec_NetworkSpec spec; lb = NetworkSpec_APIServerLB n in
     new_cluster\<lparr>Cluster_Spec := spec\<lparr>Spec_NetworkSpec := n\<lparr>NetworkSpec_SkipNetworkManagement := False,
       NetworkSpec_APIServerLB := \<lparr>LoadBalancer_Name = [], LoadBalancer_LoadBalancerId = None, LoadBalancer_LoadBalancerType = [],
         LoadBalancer_NLBSpec = \<lparr>NLBSpec_BackendSetDetails = zeroBackendSetDetails, NLBSpec_ReservedIpIds = []\<rparr>,
         LoadBalancer_NetworkVisibility = []\<rparr>\<rparr>\<rparr>\<rparr>)"

theorem managed_defaults_fit_witness: "managed_ValidateCreate sample_mapping (\<lambda>_. None) (managed_Default ''uuid'' new_managed) = Ret None"
proof -
  let ?p = "(MMP_OCIManagedMachinePool sample_np)\<lparr>NP_Spec := (np_spec sample_np)\<lparr>NPS_NodePoolNodeConfig := None\<rparr>\<rparr>"
  have "plain_managed new_managed" "clusterNameRegex (Cluster_Name new_managed)" "ValidOcid (Spec_CompartmentId (Cluster_Spec new_managed))"
      "ValidRegion (Spec_Region (Cluster_Spec new_managed))"
    by (simp_all add: plain_managed_def new_managed_def Let_def new_cluster_eval isAPIServerLoadBalancerConfigured_def)
  from managed_defaults_fit [OF this, of "''uuid''" ?p] show ?thesis by simp
qed

end
