(* ===== verification/Client_Provider.thy ===== *)
theory Client_Provider
  imports Machine_Instances Go_Base64
begin

text \<open>
  The provider of SDK clients (src/cloud/scope/clients.go): clients are built once per region with the credentials of the
  provider and kept. What the SDK does is a parameter: a constructor answers an error or the host it uses for a region. A
  client is the record of what the source sets on it. A provider is changed through its pointer; here the changed provider is returned.
\<close>

section \<open>Clients\<close>

record SecretReference =
  SRef_Namespace :: string
  SRef_Name :: string

record ClientOverrides =
  Ovr_CertOverride :: "SecretReference option"
  Ovr_ComputeClientUrl :: "string option"
  Ovr_ComputeManagementClientUrl :: "string option"
  Ovr_VCNClientUrl :: "string option"
  Ovr_LoadBalancerClientUrl :: "string option"
  Ovr_NetworkLoadBalancerClientUrl :: "string option"
  Ovr_IdentityClientUrl :: "string option"
  Ovr_ContainerEngineClientUrl :: "string option"
  Ovr_WorkrequestClientUrl :: "string option"

datatype Service = VirtualNetwork | NetworkLoadBalancers | LoadBalancers | IdentityService | Compute | Blockstorage
  | ComputeManagement | ContainerEngine | WorkRequests | BaseService

text \<open>A client of the SDK: the service, the credentials, the region, the host, and whether requests pass through the
  metrics of the provider and carry its headers.\<close>

record 'auth SdkClient =
  Sdk_Service :: Service
  Sdk_Auth :: 'auth
  Sdk_Region :: "string option"
  Sdk_Host :: string
  Sdk_Instrumented :: bool

record 'auth SdkClients =
  ComputeClient :: "'auth SdkClient"
  BlockVolumeClient :: "'auth SdkClient"
  ComputeManagementClient :: "'auth SdkClient"
  VCNClient :: "'auth SdkClient"
  NetworkLoadBalancerClient :: "'auth SdkClient"
  LoadBalancerClient :: "'auth SdkClient"
  IdentityClient :: "'auth SdkClient"
  ContainerEngineClient :: "'auth SdkClient"
  WorkRequestsClient :: "'auth SdkClient"
  BaseClient :: "'auth SdkClient"

text \<open>The SDK: the constructor of a client, which gives the host for every region, and the region of the credentials.\<close>

record 'auth Sdk =
  sdk_NewClient :: "Service \<Rightarrow> 'auth \<Rightarrow> goerr + (string \<Rightarrow> string)"
  sdk_Region :: "'auth \<Rightarrow> goerr + string"

record 'auth ClientProvider =
  CProv_ociClients :: "string \<rightharpoonup> 'auth SdkClients"
  CProv_ociAuthConfigProvider :: 'auth
  CProv_ociClientOverrides :: "ClientOverrides option"
  CProv_certOverride :: "string list option"

record 'auth ClientProviderParams =
  Params_OciAuthConfigProvider :: "'auth option"
  Params_ClientOverrides :: "ClientOverrides option"
  Params_CertOverride :: "string list option"

section \<open>Operations\<close>

definition NewClientProvider :: "'auth ClientProviderParams \<Rightarrow> goerr + 'auth ClientProvider" where
  "NewClientProvider params = (case Params_OciAuthConfigProvider params of
      None \<Rightarrow> Inl (ErrNew ''ConfigurationProvider can not be nil'')
    | Some auth \<Rightarrow> Inr \<lparr>CProv_ociClients = Map.empty, CProv_ociAuthConfigProvider = auth,
        CProv_ociClientOverrides = Params_ClientOverrides params, CProv_certOverride = Params_CertOverride params\<rparr>)"

text \<open>The method reads a field of its receiver: on a nil pointer it panics.\<close>

definition GetAuthProvider :: "'auth ClientProvider option \<Rightarrow> ('s, 'auth) go" where
  "GetAuthProvider c = go_bind (go_deref c) (\<lambda>p. go_ret (CProv_ociAuthConfigProvider p))"

definition provider_GetRegion :: "'auth Sdk \<Rightarrow> 'auth ClientProvider \<Rightarrow> goerr + string" where
  "provider_GetRegion sdk c = sdk_Region sdk (CProv_ociAuthConfigProvider c)"

text \<open>The common body of the constructors of clients; \<open>url\<close> selects the override of the host.\<close>

definition regionalClient ::
  "'auth Sdk \<Rightarrow> 'auth ClientProvider \<Rightarrow> string \<Rightarrow> Service \<Rightarrow> (ClientOverrides \<Rightarrow> string option) \<Rightarrow> goerr + 'auth SdkClient" where
  "regionalClient sdk c region service url = (case sdk_NewClient sdk service (CProv_ociAuthConfigProvider c) of
      Inl err \<Rightarrow> Inl err
    | Inr host \<Rightarrow> Inr \<lparr>Sdk_Service = service, Sdk_Auth = CProv_ociAuthConfigProvider c, Sdk_Region = Some region,
        Sdk_Host = (case Option.bind (CProv_ociClientOverrides c) url of Some u \<Rightarrow> u | None \<Rightarrow> host region), Sdk_Instrumented = True\<rparr>)"

definition createVcnClient :: "'auth Sdk \<Rightarrow> 'auth ClientProvider \<Rightarrow> string \<Rightarrow> goerr + 'auth SdkClient" where
  "createVcnClient sdk c region = regionalClient sdk c region VirtualNetwork Ovr_VCNClientUrl"

definition createNLbClient :: "'auth Sdk \<Rightarrow> 'auth ClientProvider \<Rightarrow> string \<Rightarrow> goerr + 'auth SdkClient" where
  "createNLbClient sdk c region = regionalClient sdk c region NetworkLoadBalancers Ovr_NetworkLoadBalancerClientUrl"

definition createLBClient :: "'auth Sdk \<Rightarrow> 'auth ClientProvider \<Rightarrow> string \<Rightarrow> goerr + 'auth SdkClient" where
  "createLBClient sdk c region = regionalClient sdk c region LoadBalancers Ovr_LoadBalancerClientUrl"

definition createIdentityClient :: "'auth Sdk \<Rightarrow> 'auth ClientProvider \<Rightarrow> string \<Rightarrow> goerr + 'auth SdkClient" where
  "createIdentityClient sdk c region = regionalClient sdk c region IdentityService Ovr_IdentityClientUrl"

definition createComputeClient :: "'auth Sdk \<Rightarrow> 'auth ClientProvider \<Rightarrow> string \<Rightarrow> goerr + 'auth SdkClient" where
  "createComputeClient sdk c region = regionalClient sdk c region Compute Ovr_ComputeClientUrl"

definition createBlockVolumeClient :: "'auth Sdk \<Rightarrow> 'auth ClientProvider \<Rightarrow> string \<Rightarrow> goerr + 'auth SdkClient" where
  "createBlockVolumeClient sdk c region = regionalClient sdk c region Blockstorage (\<lambda>_. None)"

definition createComputeManagementClient :: "'auth Sdk \<Rightarrow> 'auth ClientProvider \<Rightarrow> string \<Rightarrow> goerr + 'auth SdkClient" where
  "createComputeManagementClient sdk c region = regionalClient sdk c region ComputeManagement Ovr_ComputeManagementClientUrl"

definition createContainerEngineClient :: "'auth Sdk \<Rightarrow> 'auth ClientProvider \<Rightarrow> string \<Rightarrow> goerr + 'auth SdkClient" where
  "createContainerEngineClient sdk c region = regionalClient sdk c region ContainerEngine Ovr_ContainerEngineClientUrl"

definition createWorkrequestsClient :: "'auth Sdk \<Rightarrow> 'auth ClientProvider \<Rightarrow> string \<Rightarrow> goerr + 'auth SdkClient" where
  "createWorkrequestsClient sdk c region = regionalClient sdk c region WorkRequests Ovr_WorkrequestClientUrl"

text \<open>\<open>NewBaseClient\<close> (src/cloud/services/base/client.go) takes the region of the credentials, not the one of the cluster.\<close>

definition NewBaseClient :: "'auth Sdk \<Rightarrow> 'auth \<Rightarrow> goerr + 'auth SdkClient" where
  "NewBaseClient sdk auth = (case sdk_Region sdk auth of
      Inl _ \<Rightarrow> Inl (ErrNew ''more than one resources are affected by the work request to create the cluster'')
    | Inr region \<Rightarrow> (case sdk_NewClient sdk BaseService auth of
          Inl err \<Rightarrow> Inl err
        | Inr host \<Rightarrow> Inr \<lparr>Sdk_Service = BaseService, Sdk_Auth = auth, Sdk_Region = Some region, Sdk_Host = host region,
            Sdk_Instrumented = False\<rparr>))"

definition createBaseClient :: "'auth Sdk \<Rightarrow> 'auth ClientProvider \<Rightarrow> string \<Rightarrow> goerr + 'auth SdkClient" where
  "createBaseClient sdk c region = NewBaseClient sdk (CProv_ociAuthConfigProvider c)"

definition createClients :: "'auth Sdk \<Rightarrow> 'auth ClientProvider \<Rightarrow> string \<Rightarrow> goerr + 'auth SdkClients" where
  "createClients sdk c region =
     err_bind (createVcnClient sdk c region) (\<lambda>vcn.
     err_bind (createNLbClient sdk c region) (\<lambda>nlb.
     err_bind (createLBClient sdk c region) (\<lambda>lb.
     err_bind (createIdentityClient sdk c region) (\<lambda>identity.
     err_bind (createComputeClient sdk c region) (\<lambda>compute.
     err_bind (createBlockVolumeClient sdk c region) (\<lambda>volume.
     err_bind (createComputeManagementClient sdk c region) (\<lambda>management.
     err_bind (createContainerEngineClient sdk c region) (\<lambda>engine.
     err_bind (createWorkrequestsClient sdk c region) (\<lambda>wr.
     err_bind (createBaseClient sdk c region) (\<lambda>base.
     Inr \<lparr>ComputeClient = compute, BlockVolumeClient = volume, ComputeManagementClient = management, VCNClient = vcn,
       NetworkLoadBalancerClient = nlb, LoadBalancerClient = lb, IdentityClient = identity, ContainerEngineClient = engine,
       WorkRequestsClient = wr, BaseClient = base\<rparr>))))))))))"

text \<open>The map of clients is never nil after \<open>NewClientProvider\<close>. The locks of the source only order the calls.\<close>

definition GetOrBuildClient :: "'auth Sdk \<Rightarrow> string \<Rightarrow> 'auth ClientProvider \<Rightarrow> goerr + ('auth SdkClients \<times> 'auth ClientProvider)" where
  "GetOrBuildClient sdk region c =
     (if length region \<le> 0 then Inl (ErrNew ''ClientProvider.GetOrBuildClient region can not be empty'')
      else case CProv_ociClients c region of
        Some clients \<Rightarrow> Inr (clients, c)
      | None \<Rightarrow> (case createClients sdk c region of
            Inl err \<Rightarrow> Inl err
          | Inr clients \<Rightarrow> Inr (clients, c\<lparr>CProv_ociClients := (CProv_ociClients c)(region \<mapsto> clients)\<rparr>)))"

section \<open>The header of requests\<close>

abbreviation capociUserAgentToken :: string where "capociUserAgentToken \<equiv> ''Oracle-ClusterAPI''"

text \<open>\<open>strings.Fields\<close>: the maximal runs of characters that are not white space.\<close>

function Fields :: "string \<Rightarrow> string list" where
  "Fields s = (let t = dropWhile is_space s in if t = [] then []
     else takeWhile (\<lambda>c. \<not> is_space c) t # Fields (dropWhile (\<lambda>c. \<not> is_space c) t))"
  by pat_completeness auto
termination
proof (relation "measure length")
  fix s t :: string assume t: "t = dropWhile is_space s" "t \<noteq> []"
  then have "\<not> is_space (hd t)" by (simp add: hd_dropWhile)
  with t(2) have "length (dropWhile (\<lambda>c. \<not> is_space c) t) < length t"
    by (cases t) (simp_all add: le_imp_less_Suc length_dropWhile_le)
  also have "length t \<le> length s" unfolding t by (rule length_dropWhile_le)
  finally show "(dropWhile (\<lambda>c. \<not> is_space c) t, s) \<in> measure length" by simp
qed simp

declare Fields.simps [simp del]

definition appendUserAgentToken :: "string \<Rightarrow> string \<Rightarrow> string" where
  "appendUserAgentToken existing token =
     (if token \<in> set (Fields existing) then TrimSpace existing
      else if existing = [] then token
      else TrimSpace existing @ '' '' @ token)"

lemma Fields_spaces: "\<forall>c \<in> set ws. is_space c \<Longrightarrow> Fields (ws @ s) = Fields s"
  by (subst (1 2) Fields.simps) simp

lemma Fields_split: "is_space x \<Longrightarrow> Fields (s @ x # t) = Fields s @ Fields t"
proof (induction s rule: Fields.induct)
  case (1 s)
  show ?case
  proof (cases "\<forall>c \<in> set s. is_space c")
    case True
    then have "dropWhile is_space s = []" by (simp add: dropWhile_eq_Nil_conv)
    then have "Fields s = []" by (subst Fields.simps) simp
    with True 1(2) Fields_spaces [of "s @ [x]" t] show ?thesis by simp
  next
    case False
    let ?t = "dropWhile is_space s" and ?f = "\<lambda>c. \<not> is_space c"
    from False have ne: "?t \<noteq> []" and "dropWhile is_space (s @ x # t) = ?t @ x # t"
      by (auto simp: dropWhile_eq_Nil_conv dropWhile_append)
    moreover from 1(2) have "takeWhile ?f (u @ x # t) = takeWhile ?f u" "dropWhile ?f (u @ x # t) = dropWhile ?f u @ x # t" for u
      by (induction u) simp_all
    ultimately show ?thesis
      using 1(1) [OF refl ne 1(2)] by (subst (1 2) Fields.simps) (auto simp: Let_def)
  qed
qed

lemma Fields_word: "t \<noteq> [] \<Longrightarrow> \<forall>c \<in> set t. \<not> is_space c \<Longrightarrow> Fields t = [t]"
proof -
  assume t: "t \<noteq> []" "\<forall>c \<in> set t. \<not> is_space c"
  then have "dropWhile is_space t = t" "takeWhile (\<lambda>c. \<not> is_space c) t = t" "dropWhile (\<lambda>c. \<not> is_space c) t = []"
    by (cases t; simp)+
  moreover have "Fields [] = []" by (subst Fields.simps) simp
  ultimately show "Fields t = [t]" using t(1) by (subst Fields.simps) (simp only: Let_def if_False)
qed

lemma TrimSpace_split: obtains ws us where "s = ws @ TrimSpace s @ us" "\<forall>c \<in> set ws. is_space c" "\<forall>c \<in> set us. is_space c"
proof
  let ?d = "dropWhile is_space s"
  show "s = takeWhile is_space s @ TrimSpace s @ rev (takeWhile is_space (rev ?d))"
    unfolding TrimSpace_def by (metis append_Nil2 rev_append rev_rev_ident takeWhile_dropWhile_id)
qed (auto dest: set_takeWhileD)

lemma Fields_TrimSpace: "Fields (TrimSpace s) = Fields s"
proof -
  obtain ws us where s: "s = ws @ TrimSpace s @ us" "\<forall>c \<in> set ws. is_space c" "\<forall>c \<in> set us. is_space c" by (rule TrimSpace_split)
  have "Fields [] = []" by (subst Fields.simps) simp
  then have "Fields (u @ us) = Fields u" for u
    using s(3) Fields_spaces [of "tl us" "[]"] Fields_split [of "hd us" u "tl us"] by (cases us) simp_all
  then show ?thesis using s(1,2) Fields_spaces by metis
qed

lemma TrimSpace_idem: "TrimSpace (TrimSpace s) = TrimSpace s"
  using TrimSpace_padded by (metis TrimSpace_split)

text \<open>The token is in the header of a request that passes the interceptor, and is not added again when the request is retried.\<close>

lemma user_agent_once:
  assumes "t \<noteq> []" "\<forall>c \<in> set t. \<not> is_space c"
  shows "t \<in> set (Fields (appendUserAgentToken e t))"
    "appendUserAgentToken (appendUserAgentToken e t) t = TrimSpace (appendUserAgentToken e t)"
proof -
  have "Fields (TrimSpace e @ '' '' @ t) = Fields e @ [t]"
    using Fields_split [of "CHR '' ''" "TrimSpace e" t] Fields_word [OF assms] Fields_TrimSpace by (simp add: is_space_def)
  then show mem: "t \<in> set (Fields (appendUserAgentToken e t))"
    using Fields_word [OF assms] by (simp add: appendUserAgentToken_def Fields_TrimSpace)
  show "appendUserAgentToken (appendUserAgentToken e t) t = TrimSpace (appendUserAgentToken e t)"
    using mem by (subst appendUserAgentToken_def) simp
qed

section \<open>The cache\<close>

text \<open>What is kept for a region is what would be built for it.\<close>

definition cache_sound :: "'auth Sdk \<Rightarrow> 'auth ClientProvider \<Rightarrow> bool" where
  "cache_sound sdk c \<longleftrightarrow> (\<forall>region clients. CProv_ociClients c region = Some clients \<longrightarrow> createClients sdk c region = Inr clients)"

lemma createClients_cong:
  assumes "CProv_ociAuthConfigProvider d = CProv_ociAuthConfigProvider c" "CProv_ociClientOverrides d = CProv_ociClientOverrides c"
  shows "createClients sdk d region = createClients sdk c region"
  unfolding createClients_def regionalClient_def createVcnClient_def createNLbClient_def createLBClient_def
      createIdentityClient_def createComputeClient_def createBlockVolumeClient_def createComputeManagementClient_def
      createContainerEngineClient_def createWorkrequestsClient_def createBaseClient_def assms ..

definition regional_clients :: "'auth SdkClients \<Rightarrow> 'auth SdkClient list" where
  "regional_clients x = [ComputeClient x, BlockVolumeClient x, ComputeManagementClient x, VCNClient x, NetworkLoadBalancerClient x,
     LoadBalancerClient x, IdentityClient x, ContainerEngineClient x, WorkRequestsClient x]"

lemma regionalClient_region:
  "regionalClient sdk c region service url = Inr k \<Longrightarrow> Sdk_Region k = Some region \<and> Sdk_Auth k = CProv_ociAuthConfigProvider c \<and> Sdk_Instrumented k"
  by (auto simp: regionalClient_def split: sum.splits)

lemma createClients_region:
  assumes "createClients sdk c region = Inr clients"
  shows "list_all (\<lambda>k. Sdk_Region k = Some region \<and> Sdk_Auth k = CProv_ociAuthConfigProvider c \<and> Sdk_Instrumented k) (regional_clients clients)"
  using assms
  by (auto simp: createClients_def err_bind_def regional_clients_def createVcnClient_def createNLbClient_def createLBClient_def
      createIdentityClient_def createComputeClient_def createBlockVolumeClient_def createComputeManagementClient_def
      createContainerEngineClient_def createWorkrequestsClient_def dest!: regionalClient_region split: sum.splits)

lemma new_provider_sound: "NewClientProvider params = Inr c \<Longrightarrow> cache_sound sdk c"
  by (auto simp: NewClientProvider_def cache_sound_def split: option.splits)

lemma GetOrBuildClient_built:
  assumes "GetOrBuildClient sdk region c = Inr (clients, c')" "cache_sound sdk c" "region \<noteq> []"
  shows "createClients sdk c region = Inr clients \<and> CProv_ociAuthConfigProvider c' = CProv_ociAuthConfigProvider c \<and>
    CProv_ociClientOverrides c' = CProv_ociClientOverrides c"
  using assms by (auto simp: GetOrBuildClient_def cache_sound_def split: option.splits sum.splits)

text \<open>C32. The cache of clients is not noticed. With a cache that holds what would be built, \<open>GetOrBuildClient\<close> answers for every
  region what building the clients answers, the clients have that region and the credentials of the provider, the cache stays
  as it should be, and asking again gives the same clients and changes nothing.\<close>

theorem client_cache_transparent:
  assumes "cache_sound sdk c" "region \<noteq> []"
  shows "case GetOrBuildClient sdk region c of
      Inl err \<Rightarrow> createClients sdk c region = Inl err
    | Inr (clients, c') \<Rightarrow> createClients sdk c region = Inr clients \<and> cache_sound sdk c' \<and>
        CProv_ociAuthConfigProvider c' = CProv_ociAuthConfigProvider c \<and> GetOrBuildClient sdk region c' = Inr (clients, c') \<and>
        list_all (\<lambda>k. Sdk_Region k = Some region \<and> Sdk_Auth k = CProv_ociAuthConfigProvider c \<and> Sdk_Instrumented k) (regional_clients clients)"
proof (cases "CProv_ociClients c region")
  case (Some clients)
  with assms show ?thesis by (auto simp: GetOrBuildClient_def cache_sound_def intro: createClients_region)
next
  case None
  have "createClients sdk (c\<lparr>CProv_ociClients := m\<rparr>) r = createClients sdk c r" for m r by (rule createClients_cong) simp_all
  with None assms show ?thesis
    by (auto simp: GetOrBuildClient_def cache_sound_def intro: createClients_region split: sum.splits)
qed

definition sample_sdk :: "string Sdk" where
  "sample_sdk = \<lparr>sdk_NewClient = (\<lambda>s a. Inr (\<lambda>r. ''host.'' @ r)), sdk_Region = (\<lambda>a. Inr ''us-ashburn-1'')\<rparr>"

definition sample_provider :: "string ClientProvider" where
  "sample_provider = \<lparr>CProv_ociClients = Map.empty, CProv_ociAuthConfigProvider = ''key'', CProv_ociClientOverrides = None, CProv_certOverride = None\<rparr>"

theorem client_cache_transparent_witness:
  "\<exists>clients c. GetOrBuildClient sample_sdk ''us-phoenix-1'' sample_provider = Inr (clients, c) \<and> GetOrBuildClient sample_sdk ''us-phoenix-1'' c = Inr (clients, c)"
proof -
  have "cache_sound sample_sdk sample_provider" by (simp add: cache_sound_def sample_provider_def)
  from client_cache_transparent [OF this, of "''us-phoenix-1''"]
  have "case GetOrBuildClient sample_sdk ''us-phoenix-1'' sample_provider of
      Inl err \<Rightarrow> createClients sample_sdk sample_provider ''us-phoenix-1'' = Inl err
    | Inr (clients, c) \<Rightarrow> GetOrBuildClient sample_sdk ''us-phoenix-1'' c = Inr (clients, c)" by (auto split: sum.splits)
  moreover have "createClients sample_sdk sample_provider region \<noteq> Inl e" for region e
    by (simp add: createClients_def err_bind_def createVcnClient_def createNLbClient_def createLBClient_def
      createIdentityClient_def createComputeClient_def createBlockVolumeClient_def createComputeManagementClient_def
      createContainerEngineClient_def createWorkrequestsClient_def createBaseClient_def NewBaseClient_def regionalClient_def sample_sdk_def)
  ultimately show ?thesis by (cases "GetOrBuildClient sample_sdk ''us-phoenix-1'' sample_provider") (auto dest: sym)
qed

text \<open>The certificates that override those of the clients are stored and never used: the clients do not depend on them.\<close>

lemma cert_override_ignored: "createClients sdk (c\<lparr>CProv_certOverride := pool\<rparr>) region = createClients sdk c region"
  by (rule createClients_cong) simp_all

end
