(* ===== verification/Client_Setup.thy ===== *)
theory Client_Setup
  imports Client_Provider Cluster_Controller
begin

text \<open>
  The clients of a cluster (the first half of src/cloud/util/util.go): which identity is used, whether the namespace of the cluster may
  use it, the certificates, and the region. The state is that of the process (its environment and the region it has looked up)
  and the world. The Kubernetes client, the selectors of labels and the constructors of credentials are parameters. A pool of
  certificates is the list of the texts it was built from.
\<close>

section \<open>Identities\<close>

abbreviation UserPrincipal :: string where "UserPrincipal \<equiv> ''UserPrincipal''"
abbreviation InstancePrincipal :: string where "InstancePrincipal \<equiv> ''InstancePrincipal''"
abbreviation WorkloadPrincipal :: string where "WorkloadPrincipal \<equiv> ''Workload''"
abbreviation NamespaceNotAllowedByIdentity :: string where "NamespaceNotAllowedByIdentity \<equiv> ''NamespaceNotAllowedByIdentity''"

text \<open>\<open>reflect.DeepEqual\<close> tells a nil list of namespaces from an empty one.\<close>

record 'sel AllowedNamespaces =
  AN_NamespaceList :: "string list option"
  AN_Selector :: "'sel option"

record 'sel OCIClusterIdentitySpec =
  Ident_Type :: string
  Ident_PrincipalSecret :: SecretReference
  Ident_AllowedNamespaces :: "'sel AllowedNamespaces option"

record Process =
  Proc_Env :: "string \<rightharpoonup> string"
  Proc_currentRegion :: "string option"

record ('w, 'sel, 'q) IdentityKube =
  ik_GetIdentity :: "string \<Rightarrow> string \<Rightarrow> ('w, 'sel OCIClusterIdentitySpec) go"
  ik_GetSecret :: "string \<Rightarrow> string \<Rightarrow> ('w, string \<rightharpoonup> string) go"
  ik_ListNamespaces :: "'q \<Rightarrow> ('w, string list) go"
  ik_LabelSelectorAsSelector :: "'sel option \<Rightarrow> goerr + 'q"
  ik_SelectorEmpty :: "'q \<Rightarrow> bool"

text \<open>The constructors of credentials; the one for workloads reads the environment.\<close>

record ('w, 'auth) AuthLib =
  auth_NewRawConfigurationProvider :: "string \<Rightarrow> string \<Rightarrow> string \<Rightarrow> string \<Rightarrow> string \<Rightarrow> string \<Rightarrow> 'auth"
  auth_InstancePrincipalConfigurationProvider :: "('w, 'auth) go"
  auth_OkeWorkloadIdentityConfigurationProvider :: "(string \<rightharpoonup> string) \<Rightarrow> ('w, 'auth) go"
  auth_VersionEnvVar :: string
  auth_Version2_2 :: string
  auth_RegionEnvVar :: string
  auth_getRegionInfo :: "('w, string) go"
  auth_Sdk :: "'auth Sdk"

text \<open>The part of the interface \<open>OCIClusterAccessor\<close> that is used here.\<close>

record 'w IdentityAccessor =
  acc_NameSpace :: string
  acc_Region :: string
  acc_ClientOverrides :: "ClientOverrides option"
  acc_IdentityRef :: "SecretReference option"
  acc_MarkConditionFalse :: "string \<Rightarrow> string \<Rightarrow> ('w, unit) go"

type_synonym ('w, 'a) proc_go = "(Process \<times> 'w, 'a) go"

section \<open>Operations\<close>

definition refNamespace :: "string \<Rightarrow> SecretReference \<Rightarrow> string" where
  "refNamespace ociClusterNamespace ref = (if SRef_Namespace ref = [] then ociClusterNamespace else SRef_Namespace ref)"

definition GetClusterIdentityFromRef ::
  "('w, 'sel, 'q) IdentityKube \<Rightarrow> string \<Rightarrow> SecretReference option \<Rightarrow> ('w, 'sel OCIClusterIdentitySpec option) go" where
  "GetClusterIdentityFromRef k ociClusterNamespace ref = (case ref of
      Some ref \<Rightarrow> go_bind (ik_GetIdentity k (refNamespace ociClusterNamespace ref) (SRef_Name ref)) (\<lambda>i. go_ret (Some i))
    | None \<Rightarrow> go_ret None)"

definition getOCIClientCertFromSecret ::
  "('w, 'sel, 'q) IdentityKube \<Rightarrow> string \<Rightarrow> ClientOverrides option \<Rightarrow> ('w, string \<rightharpoonup> string) go" where
  "getOCIClientCertFromSecret k ociClusterNamespace overrides = (case Option.bind overrides Ovr_CertOverride of
      Some ref \<Rightarrow> ik_GetSecret k (refNamespace ociClusterNamespace ref) (SRef_Name ref)
    | None \<Rightarrow> go_throw (ErrNew ''OCI Client Cert not found''))"

definition getOCIClientCertPool ::
  "('w, 'sel, 'q) IdentityKube \<Rightarrow> string \<Rightarrow> ClientOverrides option \<Rightarrow> ('w, string list option) go" where
  "getOCIClientCertPool k namespace clientOverrides =
     (if Option.bind clientOverrides Ovr_CertOverride \<noteq> None then
        go_bind (go_wrap ''Unable to fetch CertOverrideSecret'' (getOCIClientCertFromSecret k namespace clientOverrides)) (\<lambda>data.
        case data ''cert'' of
          Some cert \<Rightarrow> go_ret (Some [cert])
        | None \<Rightarrow> go_throw (ErrNew (''Cert Secret didn'' @ [CHR 0x27] @ ''t contain '' @ [CHR 0x27] @ ''cert'' @ [CHR 0x27] @ '' data'')))
      else go_ret None)"

text \<open>The end of each branch: the certificates and the provider.\<close>

definition providerWith ::
  "('w, 'sel, 'q) IdentityKube \<Rightarrow> string \<Rightarrow> ClientOverrides option \<Rightarrow> 'auth \<Rightarrow> ('w, 'auth ClientProvider) proc_go" where
  "providerWith k namespace clientOverrides provider =
     go_bind (api (getOCIClientCertPool k namespace clientOverrides)) (\<lambda>pool.
     lift_err (NewClientProvider \<lparr>Params_OciAuthConfigProvider = Some provider, Params_ClientOverrides = clientOverrides,
       Params_CertOverride = pool\<rparr>))"

definition secretText :: "(string \<rightharpoonup> string) \<Rightarrow> string \<Rightarrow> string" where
  "secretText data key = (case data key of Some v \<Rightarrow> v | None \<Rightarrow> [])"

definition userPrincipal ::
  "('w, 'sel, 'q) IdentityKube \<Rightarrow> ('w, 'auth) AuthLib \<Rightarrow> string \<Rightarrow> SecretReference \<Rightarrow> ('w, 'auth) proc_go" where
  "userPrincipal k lib defaultRegion secretRef =
     go_bind (go_wrap ''Unable to fetch ClientSecret'' (api (ik_GetSecret k (SRef_Namespace secretRef) (SRef_Name secretRef)))) (\<lambda>data.
     let region = (if secretText data ''region'' = [] then defaultRegion else secretText data ''region'') in
     go_ret (auth_NewRawConfigurationProvider lib (secretText data ''tenancy'') (secretText data ''user'') region
       (secretText data ''fingerprint'') (secretText data ''key'') (secretText data ''passphrase'')))"

definition mod_process :: "(Process \<Rightarrow> Process) \<Rightarrow> ('w, unit) proc_go" where
  "mod_process f = (\<lambda>(p, w). (Ret (), (f p, w)))"

definition get_process :: "('w, Process) proc_go" where
  "get_process = (\<lambda>(p, w). (Ret p, (p, w)))"

definition setEnvUnset :: "string \<Rightarrow> string \<Rightarrow> Process \<Rightarrow> Process" where
  "setEnvUnset key v p = (if Proc_Env p key = None then p\<lparr>Proc_Env := (Proc_Env p)(key \<mapsto> v)\<rparr> else p)"

text \<open>The region of the process is looked up once and kept.\<close>

definition lookupRegion :: "('w, 'auth) AuthLib \<Rightarrow> ('w, string) proc_go" where
  "lookupRegion lib = go_bind get_process (\<lambda>p. case Proc_currentRegion p of
      Some r \<Rightarrow> go_ret r
    | None \<Rightarrow> go_bind (api (auth_getRegionInfo lib)) (\<lambda>r.
        go_seq (mod_process (\<lambda>p. p\<lparr>Proc_currentRegion := Some r\<rparr>)) (go_ret r)))"

definition workloadPrincipal :: "('w, 'auth) AuthLib \<Rightarrow> ('w, 'auth) proc_go" where
  "workloadPrincipal lib =
     go_seq (mod_process (setEnvUnset (auth_VersionEnvVar lib) (auth_Version2_2 lib)))
     (go_seq (go_bind get_process (\<lambda>p.
        if Proc_Env p (auth_RegionEnvVar lib) = None
        then go_bind (lookupRegion lib) (\<lambda>r. mod_process (\<lambda>p. p\<lparr>Proc_Env := (Proc_Env p)(auth_RegionEnvVar lib \<mapsto> r)\<rparr>))
        else go_ret ()))
     (go_bind get_process (\<lambda>p. api (auth_OkeWorkloadIdentityConfigurationProvider lib (Proc_Env p)))))"

definition zeroIdentitySpec :: "'sel OCIClusterIdentitySpec" where
  "zeroIdentitySpec = \<lparr>Ident_Type = [], Ident_PrincipalSecret = \<lparr>SRef_Namespace = [], SRef_Name = []\<rparr>, Ident_AllowedNamespaces = None\<rparr>"

definition GetOrBuildClientFromIdentity ::
  "('w, 'sel, 'q) IdentityKube \<Rightarrow> ('w, 'auth) AuthLib \<Rightarrow> 'sel OCIClusterIdentitySpec \<Rightarrow> string \<Rightarrow> ClientOverrides option \<Rightarrow> string \<Rightarrow>
   ('w, 'auth ClientProvider) proc_go" where
  "GetOrBuildClientFromIdentity k lib identity defaultRegion clientOverrides namespace =
     (if identity \<noteq> zeroIdentitySpec \<and> Ident_Type identity = UserPrincipal
      then go_bind (userPrincipal k lib defaultRegion (Ident_PrincipalSecret identity)) (providerWith k namespace clientOverrides)
      else if Ident_Type identity = InstancePrincipal
      then go_bind (api (auth_InstancePrincipalConfigurationProvider lib)) (providerWith k namespace clientOverrides)
      else if Ident_Type identity = WorkloadPrincipal
      then go_bind (workloadPrincipal lib) (providerWith k namespace clientOverrides)
      else go_throw (ErrNew (''invalid oci principal format type: '' @ Ident_Type identity)))"

definition IsClusterNamespaceAllowed ::
  "('w, 'sel, 'q) IdentityKube \<Rightarrow> 'sel AllowedNamespaces option \<Rightarrow> string \<Rightarrow> ('w, bool) go" where
  "IsClusterNamespaceAllowed k allowedNamespaces namespace = (case allowedNamespaces of
      None \<Rightarrow> go_ret False
    | Some allowed \<Rightarrow>
        if AN_NamespaceList allowed = None \<and> AN_Selector allowed = None then go_ret True
        else if namespace \<in> set (case AN_NamespaceList allowed of Some ns \<Rightarrow> ns | None \<Rightarrow> []) then go_ret True
        else case ik_LabelSelectorAsSelector k (AN_Selector allowed) of
            Inl _ \<Rightarrow> go_ret False
          | Inr selector \<Rightarrow>
              if ik_SelectorEmpty k selector then go_ret False
              else go_bind (go_try (ik_ListNamespaces k selector)) (\<lambda>x. case x of
                  Inl _ \<Rightarrow> go_ret False
                | Inr names \<Rightarrow> go_ret (namespace \<in> set names)))"

text \<open>A reference that leads to no identity would be a nil dereference.\<close>

definition CreateClientProviderFromClusterIdentity ::
  "('w, 'sel, 'q) IdentityKube \<Rightarrow> ('w, 'auth) AuthLib \<Rightarrow> string \<Rightarrow> string \<Rightarrow> 'w IdentityAccessor \<Rightarrow> SecretReference option \<Rightarrow>
   ('w, 'auth ClientProvider) proc_go" where
  "CreateClientProviderFromClusterIdentity k lib namespace defaultRegion acc identityRef =
     go_bind (api (GetClusterIdentityFromRef k namespace identityRef)) (\<lambda>p.
     go_bind (go_deref p) (\<lambda>identity.
     go_bind (api (IsClusterNamespaceAllowed k (Ident_AllowedNamespaces identity) namespace)) (\<lambda>allowed.
     if \<not> allowed then
       go_seq (api (acc_MarkConditionFalse acc ClusterReadyCondition NamespaceNotAllowedByIdentity))
         (go_throw (ErrNew (''OCIClusterIdentity list of allowed namespaces doesn'' @ [CHR 0x27] @ ''t include current cluster namespace '' @ namespace)))
     else GetOrBuildClientFromIdentity k lib identity defaultRegion (acc_ClientOverrides acc) namespace)))"

text \<open>The provider and the region before the cluster has its say.\<close>

definition chooseProvider ::
  "('w, 'sel, 'q) IdentityKube \<Rightarrow> ('w, 'auth) AuthLib \<Rightarrow> string \<Rightarrow> 'w IdentityAccessor \<Rightarrow> 'auth ClientProvider option \<Rightarrow>
   ('w, 'auth ClientProvider option \<times> string) proc_go" where
  "chooseProvider k lib defaultRegion acc defaultClientProvider =
     (if acc_IdentityRef acc \<noteq> None then
        go_bind (CreateClientProviderFromClusterIdentity k lib (acc_NameSpace acc) defaultRegion acc (acc_IdentityRef acc)) (\<lambda>clientProvider.
        go_bind (lift_err (provider_GetRegion (auth_Sdk lib) clientProvider)) (\<lambda>region. go_ret (Some clientProvider, region)))
      else if acc_ClientOverrides acc \<noteq> None then
        go_bind (api (getOCIClientCertPool k (acc_NameSpace acc) (acc_ClientOverrides acc))) (\<lambda>pool.
        go_bind (GetAuthProvider defaultClientProvider) (\<lambda>auth.
        go_bind (lift_err (NewClientProvider \<lparr>Params_OciAuthConfigProvider = Some auth, Params_ClientOverrides = acc_ClientOverrides acc,
          Params_CertOverride = pool\<rparr>)) (\<lambda>clientProvider. go_ret (Some clientProvider, defaultRegion))))
      else go_ret (defaultClientProvider, defaultRegion))"

definition InitClientsAndRegion ::
  "('w, 'sel, 'q) IdentityKube \<Rightarrow> ('w, 'auth) AuthLib \<Rightarrow> string \<Rightarrow> 'w IdentityAccessor \<Rightarrow> 'auth ClientProvider option \<Rightarrow>
   ('w, 'auth ClientProvider \<times> string \<times> 'auth SdkClients) proc_go" where
  "InitClientsAndRegion k lib defaultRegion acc defaultClientProvider =
     go_bind (chooseProvider k lib defaultRegion acc defaultClientProvider) (\<lambda>(p, r).
     case p of
       None \<Rightarrow> go_throw (ErrNew (''OCI authentication credentials could not be retrieved from pod or cluster level,'' @
         ''please install Cluster API Provider for OCI with OCI authentication credentials or set Cluster Identity in the OCICluster''))
     | Some clientProvider \<Rightarrow>
         let clusterRegion = (if length (acc_Region acc) > 0 then acc_Region acc else r) in
         if length clusterRegion \<le> 0 then go_throw (ErrNew ''OCI Region could not be identified for the cluster'')
         else go_bind (lift_err (GetOrBuildClient (auth_Sdk lib) clusterRegion clientProvider)) (\<lambda>(clients, clientProvider).
           go_ret (clientProvider, clusterRegion, clients)))"

section \<open>Who may use an identity, and where\<close>

text \<open>Which namespaces an identity admits, when the selected namespaces are the given ones.\<close>

definition admits :: "'sel AllowedNamespaces option \<Rightarrow> string list \<Rightarrow> string \<Rightarrow> bool" where
  "admits allowed selected namespace \<longleftrightarrow> (\<exists>a. allowed = Some a \<and>
     (AN_NamespaceList a = None \<and> AN_Selector a = None \<or>
      (\<exists>ns. AN_NamespaceList a = Some ns \<and> namespace \<in> set ns) \<or> namespace \<in> set selected))"

definition selectedNamespaces :: "('w, 'sel, 'q) IdentityKube \<Rightarrow> 'sel AllowedNamespaces option \<Rightarrow> 'w \<Rightarrow> string list" where
  "selectedNamespaces k allowed w = (case allowed of None \<Rightarrow> [] | Some a \<Rightarrow>
     (case ik_LabelSelectorAsSelector k (AN_Selector a) of Inl _ \<Rightarrow> [] | Inr q \<Rightarrow>
        if ik_SelectorEmpty k q then [] else case fst (ik_ListNamespaces k q w) of Ret names \<Rightarrow> names | _ \<Rightarrow> []))"

lemma IsClusterNamespaceAllowed_iff:
  assumes "IsClusterNamespaceAllowed k allowed namespace w = (Ret b, w')"
  shows "b \<longleftrightarrow> admits allowed (selectedNamespaces k allowed w) namespace"
  using assms
  by (auto simp: IsClusterNamespaceAllowed_def admits_def selectedNamespaces_def go_simps split: option.splits sum.splits if_splits res.splits prod.splits)

lemma api_RetD: "api m (p, w) = (Ret a, y) \<Longrightarrow> \<exists>w'. m w = (Ret a, w') \<and> y = (p, w')"
  by (auto simp: api_def split: prod.splits)

lemma lift_err_RetD: "lift_err x y = (Ret a, z) \<Longrightarrow> x = Inr a \<and> z = y"
  by (auto simp: lift_err_def go_simps split: sum.splits)

lemma bind_RetD: "go_bind m f x = (Ret b, z) \<Longrightarrow> \<exists>a y. m x = (Ret a, y) \<and> f a y = (Ret b, z)"
  by (auto simp: go_bind_apply split: prod.splits res.splits)

lemma seq_RetD: "go_seq m n x = (Ret b, z) \<Longrightarrow> \<exists>a y. m x = (Ret a, y) \<and> n y = (Ret b, z)"
  by (auto simp: go_seq_apply split: prod.splits res.splits)

lemma deref_RetD: "go_deref q x = (Ret a, y) \<Longrightarrow> q = Some a \<and> y = x"
  by (cases q) (auto simp: go_deref_def go_panic_apply go_ret_apply)

lemmas ran = bind_RetD seq_RetD deref_RetD api_RetD lift_err_RetD

lemma new_provider:
  "NewClientProvider ps = Inr c \<Longrightarrow> Params_OciAuthConfigProvider ps = Some (CProv_ociAuthConfigProvider c) \<and> CProv_ociClients c = Map.empty"
  by (auto simp: NewClientProvider_def split: option.splits)

lemma providerWith_fresh:
  "providerWith k namespace ov auth x = (Ret c, y) \<Longrightarrow> CProv_ociAuthConfigProvider c = auth \<and> CProv_ociClients c = Map.empty"
  by (auto simp: providerWith_def dest!: ran new_provider)

lemma identity_provider_fresh:
  "GetOrBuildClientFromIdentity k lib identity r ov namespace x = (Ret c, y) \<Longrightarrow> CProv_ociClients c = Map.empty"
  by (auto simp: GetOrBuildClientFromIdentity_def go_throw_apply dest!: ran providerWith_fresh split: if_splits)

lemma identity_allowed:
  assumes "CreateClientProviderFromClusterIdentity k lib namespace r acc (Some ref) (p, w) = (Ret c, y)"
  shows "\<exists>identity w1. ik_GetIdentity k (refNamespace namespace ref) (SRef_Name ref) w = (Ret identity, w1) \<and>
    admits (Ident_AllowedNamespaces identity) (selectedNamespaces k (Ident_AllowedNamespaces identity) w1) namespace \<and>
    CProv_ociClients c = Map.empty"
  using assms unfolding CreateClientProviderFromClusterIdentity_def GetClusterIdentityFromRef_def
  by (auto simp: go_ret_apply go_throw_apply dest!: ran identity_provider_fresh dest: IsClusterNamespaceAllowed_iff split: if_splits)

text \<open>C23. The credentials and the region of a cluster. When \<open>InitClientsAndRegion\<close> succeeds, the region is the one of the spec if
  there is one, else the one of the identity if the cluster names one, else the default, and is not empty; the clients are those for this region
  and the credentials of the provider that is returned. If the cluster names an identity, this identity admits the namespace of the
  cluster; if not, the credentials are those of the default provider.\<close>

theorem clients_of_admitting_identity:
  assumes run: "InitClientsAndRegion k lib defaultRegion acc defaultProvider (p, w) = (Ret (provider, region, clients), y)"
    and sound: "\<And>d. defaultProvider = Some d \<Longrightarrow> cache_sound (auth_Sdk lib) d"
  shows "region \<noteq> [] \<and> createClients (auth_Sdk lib) provider region = Inr clients \<and>
    (acc_Region acc \<noteq> [] \<longrightarrow> region = acc_Region acc) \<and>
    (case acc_IdentityRef acc of
       None \<Rightarrow> (acc_Region acc = [] \<longrightarrow> region = defaultRegion) \<and>
         (\<exists>d. defaultProvider = Some d \<and> CProv_ociAuthConfigProvider provider = CProv_ociAuthConfigProvider d)
     | Some ref \<Rightarrow> (acc_Region acc = [] \<longrightarrow> sdk_Region (auth_Sdk lib) (CProv_ociAuthConfigProvider provider) = Inr region) \<and>
         (\<exists>identity w1. ik_GetIdentity k (refNamespace (acc_NameSpace acc) ref) (SRef_Name ref) w = (Ret identity, w1) \<and>
            admits (Ident_AllowedNamespaces identity) (selectedNamespaces k (Ident_AllowedNamespaces identity) w1) (acc_NameSpace acc)))"
proof -
  obtain c r z where choose: "chooseProvider k lib defaultRegion acc defaultProvider (p, w) = (Ret (Some c, r), z)"
    and reg: "region = (if acc_Region acc \<noteq> [] then acc_Region acc else r)" "region \<noteq> []"
    and build: "GetOrBuildClient (auth_Sdk lib) region c = Inr (clients, provider)"
    using run unfolding InitClientsAndRegion_def
    by (auto simp: go_ret_apply go_throw_apply Let_def dest!: ran split: option.splits if_splits)
  have "cache_sound (auth_Sdk lib) c"
    using choose sound unfolding chooseProvider_def cache_sound_def
    by (auto simp: go_ret_apply dest!: ran identity_allowed new_provider split: if_splits)
  from GetOrBuildClient_built [OF build this reg(2)]
  have built: "createClients (auth_Sdk lib) c region = Inr clients" and same: "CProv_ociAuthConfigProvider provider = CProv_ociAuthConfigProvider c"
    "CProv_ociClientOverrides provider = CProv_ociClientOverrides c"
    by simp_all
  with built same have "createClients (auth_Sdk lib) provider region = Inr clients" using createClients_cong by metis
  moreover have "case acc_IdentityRef acc of
       None \<Rightarrow> r = defaultRegion \<and> (\<exists>d. defaultProvider = Some d \<and> CProv_ociAuthConfigProvider c = CProv_ociAuthConfigProvider d)
     | Some ref \<Rightarrow> sdk_Region (auth_Sdk lib) (CProv_ociAuthConfigProvider c) = Inr r \<and>
         (\<exists>identity w1. ik_GetIdentity k (refNamespace (acc_NameSpace acc) ref) (SRef_Name ref) w = (Ret identity, w1) \<and>
            admits (Ident_AllowedNamespaces identity) (selectedNamespaces k (Ident_AllowedNamespaces identity) w1) (acc_NameSpace acc))"
    using choose unfolding chooseProvider_def
    by (auto simp: go_ret_apply provider_GetRegion_def GetAuthProvider_def dest!: ran identity_allowed new_provider
        split: option.splits if_splits)
  ultimately show ?thesis using reg same by (auto split: option.splits)
qed

text \<open>An identity for two namespaces and a cluster in one of them, with its own region.\<close>

definition sample_identity :: "unit OCIClusterIdentitySpec" where
  "sample_identity = \<lparr>Ident_Type = InstancePrincipal, Ident_PrincipalSecret = \<lparr>SRef_Namespace = [], SRef_Name = []\<rparr>,
     Ident_AllowedNamespaces = Some \<lparr>AN_NamespaceList = Some [''prod'', ''test''], AN_Selector = None\<rparr>\<rparr>"

definition sample_ik :: "('w, unit, unit) IdentityKube" where
  "sample_ik = \<lparr>ik_GetIdentity = (\<lambda>ns name. go_ret sample_identity), ik_GetSecret = (\<lambda>ns name. go_ret Map.empty),
     ik_ListNamespaces = (\<lambda>q. go_ret []), ik_LabelSelectorAsSelector = (\<lambda>s. Inr ()), ik_SelectorEmpty = (\<lambda>q. True)\<rparr>"

definition sample_auth :: "('w, string) AuthLib" where
  "sample_auth = \<lparr>auth_NewRawConfigurationProvider = (\<lambda>tenancy user region fingerprint key passphrase. user),
     auth_InstancePrincipalConfigurationProvider = go_ret ''instance'',
     auth_OkeWorkloadIdentityConfigurationProvider = (\<lambda>env. go_ret ''workload''),
     auth_VersionEnvVar = ''VERSION'', auth_Version2_2 = ''2.2'', auth_RegionEnvVar = ''REGION'',
     auth_getRegionInfo = go_ret ''us-ashburn-1'', auth_Sdk = sample_sdk\<rparr>"

definition sample_accessor :: "string \<Rightarrow> 'w IdentityAccessor" where
  "sample_accessor ns = \<lparr>acc_NameSpace = ns, acc_Region = [], acc_ClientOverrides = None,
     acc_IdentityRef = Some \<lparr>SRef_Namespace = [], SRef_Name = ''shared''\<rparr>, acc_MarkConditionFalse = (\<lambda>t reason. go_ret ())\<rparr>"

abbreviation sample_process :: Process where
  "sample_process \<equiv> \<lparr>Proc_Env = Map.empty, Proc_currentRegion = None\<rparr>"

lemmas client_setup_eval = InitClientsAndRegion_def chooseProvider_def CreateClientProviderFromClusterIdentity_def
  GetClusterIdentityFromRef_def IsClusterNamespaceAllowed_def GetOrBuildClientFromIdentity_def providerWith_def getOCIClientCertPool_def
  NewClientProvider_def provider_GetRegion_def lift_err_def go_simps sample_accessor_def sample_ik_def sample_identity_def sample_auth_def
  zeroIdentitySpec_def

lemma sample_clients_run:
  "\<exists>provider clients. InitClientsAndRegion sample_ik sample_auth [] (sample_accessor ''prod'') None (sample_process, w) =
     (Ret (provider, ''us-ashburn-1'', clients), (sample_process, w))"
  by (simp add: client_setup_eval GetOrBuildClient_def createClients_def err_bind_def createVcnClient_def createNLbClient_def createLBClient_def
      createIdentityClient_def createComputeClient_def createBlockVolumeClient_def createComputeManagementClient_def
      createContainerEngineClient_def createWorkrequestsClient_def createBaseClient_def NewBaseClient_def regionalClient_def sample_sdk_def)

theorem clients_of_admitting_identity_witness:
  "\<exists>provider clients. InitClientsAndRegion sample_ik sample_auth [] (sample_accessor ''prod'') None (sample_process, ()) =
     (Ret (provider, ''us-ashburn-1'', clients), (sample_process, ())) \<and> createClients sample_sdk provider ''us-ashburn-1'' = Inr clients"
proof -
  obtain provider clients where run: "InitClientsAndRegion sample_ik sample_auth [] (sample_accessor ''prod'') None (sample_process, ()) =
     (Ret (provider, ''us-ashburn-1'', clients), (sample_process, ()))" using sample_clients_run [of "()"] by blast
  from clients_of_admitting_identity [OF this] have "createClients sample_sdk provider ''us-ashburn-1'' = Inr clients"
    by (simp add: sample_auth_def)
  with run show ?thesis by blast
qed

text \<open>A cluster in another namespace gets an error and no client.\<close>

lemma other_namespace_rejected:
  "\<exists>e y. InitClientsAndRegion sample_ik sample_auth [] (sample_accessor ''dev'') None (sample_process, ()) = (Err e, y)"
  by (simp add: client_setup_eval)

text \<open>A cluster with overrides and no identity, in a provider that was installed without credentials, does not get the error about
  missing credentials: the method of the default provider is called on a nil pointer.\<close>

lemma overrides_without_credentials_panic:
  assumes "acc_IdentityRef acc = None" "acc_ClientOverrides acc = Some ov" "Ovr_CertOverride ov = None"
  shows "InitClientsAndRegion k lib defaultRegion acc None x = (Panic, x)"
  using assms by (cases x) (simp add: InitClientsAndRegion_def chooseProvider_def getOCIClientCertPool_def GetAuthProvider_def go_simps)

end
