(* ===== verification/Reconcile_Entry.thy ===== *)
theory Reconcile_Entry
  imports Client_Setup Managed_Cluster Machine_Controller Pool_Controller Node_Pool_Controller Virtual_Pool_Controller
begin

text \<open>
  The method \<open>Reconcile\<close> of every controller: fetch the object and its owner, leave paused objects alone, set up the clients,
  build the scope, reconcile or delete, and write the object back on every exit. The state is that of the process, the world, and the
  recorded events; the method of the controller runs on the scope it is given. The result is the time after which the object is
  queued again, in seconds. The manager that calls \<open>Reconcile\<close> and its watches are not modelled.
\<close>

section \<open>What all controllers do\<close>

type_synonym 'w entry = "(Process \<times> 'w) \<times> Event list"
type_synonym ('w, 'a) entry_go = "('w entry, 'a) go"

definition entry_call :: "('w, 'a) go \<Rightarrow> ('w, 'a) entry_go" where
  "entry_call m = on_fst (api m)"

text \<open>The object Cluster of Cluster API, as far as the controllers read it.\<close>

record CapiClusterObject =
  CCO_Network :: CapiNetwork
  CCO_InfrastructureRefKind :: string
  CCO_InfrastructureRefName :: string
  CCO_ControlPlaneRefName :: string
  CCO_ApiServerPort :: int

abbreviation cco_namespace :: "CapiClusterObject \<Rightarrow> string" where "cco_namespace c \<equiv> Capi_Namespace (CCO_Network c)"
abbreviation cco_cluster :: "CapiClusterObject \<Rightarrow> CapiCluster" where "cco_cluster c \<equiv> CapiCluster.truncate (CCO_Network c)"

text \<open>The Kubernetes client for the objects of a controller. \<open>ok_Get\<close> also tells whether the deletion timestamp is set;
  \<open>ok_NewHelper\<close> is the error of the patch helper, which compares the object with the one it was made for.\<close>

record ('w, 'o) ObjectKube =
  ok_Get :: "string \<Rightarrow> string \<Rightarrow> ('w, 'o \<times> bool) go"
  ok_IsNotFound :: "goerr \<Rightarrow> bool"
  ok_IsPaused :: "CapiClusterObject \<Rightarrow> 'o \<Rightarrow> bool"
  ok_NewHelper :: "'o \<Rightarrow> goerr option"
  ok_SetSummary :: "'o \<Rightarrow> 'o"
  ok_Patch :: "'o \<Rightarrow> 'o \<Rightarrow> ('w, unit) go"

record ('w, 'sel, 'q, 'auth) ClientEnv =
  ce_Identity :: "('w, 'sel, 'q) IdentityKube"
  ce_Auth :: "('w, 'auth) AuthLib"
  ce_Region :: string
  ce_ClientProvider :: "'auth ClientProvider option"
  ce_Accessor :: "OCICluster \<Rightarrow> 'w IdentityAccessor"
  ce_GetOCICluster :: "string \<Rightarrow> string \<Rightarrow> ('w, OCICluster) go"
  ce_GetOCIManagedCluster :: "string \<Rightarrow> string \<Rightarrow> ('w, OCIManagedCluster) go"
  ce_GetControlPlane :: "string \<Rightarrow> string \<Rightarrow> ('w, OCIManagedControlPlane) go"

definition fetchObject :: "('w, 'o) ObjectKube \<Rightarrow> string \<Rightarrow> string \<Rightarrow> ('o \<Rightarrow> bool \<Rightarrow> ('w, int) entry_go) \<Rightarrow> ('w, int) entry_go" where
  "fetchObject k namespace name rest =
     go_bind (go_try (entry_call (ok_Get k namespace name))) (\<lambda>x. case x of
       Inl err \<Rightarrow> if ok_IsNotFound k err then go_ret 0 else go_throw err
     | Inr (obj, deleted) \<Rightarrow> rest obj deleted)"

definition ownedBy :: "('w, 'c option) go \<Rightarrow> ('c \<Rightarrow> ('w, int) entry_go) \<Rightarrow> ('w, int) entry_go" where
  "ownedBy getOwner rest =
     go_bind (entry_call getOwner) (\<lambda>owner. case owner of
       None \<Rightarrow> go_seq (record_event EventTypeNormal ''OwnerRefNotSet'' ''Cluster Controller has not yet set OwnerRef'') (go_ret 0)
     | Some owner \<Rightarrow> rest owner)"

text \<open>\<open>defer\<close>: the object is written back after the method has returned or panicked; an error of the patch is reported only if the method
  returned nil.\<close>

definition deferred :: "'a res \<Rightarrow> unit res \<Rightarrow> 'a res" where
  "deferred r q = (case q of
      Ret _ \<Rightarrow> r
    | Err e \<Rightarrow> (case r of Ret _ \<Rightarrow> Err e | _ \<Rightarrow> r)
    | Panic \<Rightarrow> Panic | Diverge \<Rightarrow> Diverge)"

definition withScope :: "'s \<Rightarrow> ('s \<Rightarrow> ('w, unit) go) \<Rightarrow> ('s, 'w, 'a) ctl_go \<Rightarrow> ('w, 'a) entry_go" where
  "withScope s close m = (\<lambda>((p, w), ev). case m ((s, w), ev) of
      (Diverge, ((_, w1), ev1)) \<Rightarrow> (Diverge, ((p, w1), ev1))
    | (r, ((s1, w1), ev1)) \<Rightarrow> (case close s1 w1 of (q, w2) \<Rightarrow> (deferred r q, ((p, w2), ev1))))"

text \<open>A call on the scope before the patch is deferred.\<close>

definition scopeCall :: "'s \<Rightarrow> ('s \<times> 'w, unit) go \<Rightarrow> ('w, 's) entry_go" where
  "scopeCall s m = (\<lambda>((p, w), ev). case m (s, w) of (r, (s1, w1)) \<Rightarrow>
     ((case r of Ret _ \<Rightarrow> Ret s1 | Err e \<Rightarrow> Err e | Panic \<Rightarrow> Panic | Diverge \<Rightarrow> Diverge), ((p, w1), ev)))"

definition initClients :: "('w, 'sel, 'q, 'auth) ClientEnv \<Rightarrow> OCICluster \<Rightarrow> ('w, string \<times> 'auth SdkClients) entry_go" where
  "initClients ce ociCluster =
     go_bind (on_fst (InitClientsAndRegion (ce_Identity ce) (ce_Auth ce) (ce_Region ce) (ce_Accessor ce ociCluster) (ce_ClientProvider ce)))
       (\<lambda>(provider, region, clients). go_ret (region, clients))"

definition newHelper :: "('w, 'o) ObjectKube \<Rightarrow> 'o \<Rightarrow> ('w, unit) entry_go" where
  "newHelper k obj = (case ok_NewHelper k obj of None \<Rightarrow> go_ret () | Some err \<Rightarrow> go_throw (ErrWrap ''failed to init patch helper'' err))"

definition pausedEvent :: "('w, int) entry_go" where
  "pausedEvent = go_seq (record_event EventTypeNormal ''ClusterPaused'' ''Cluster is paused'') (go_ret 0)"

section \<open>Clusters\<close>

definition OCICluster_Reconcile ::
  "('w, 'sel, 'q, 'auth) ClientEnv \<Rightarrow> ('w, OCICluster) ObjectKube \<Rightarrow> KubeLib \<Rightarrow> (OCICluster \<Rightarrow> ('w, CapiClusterObject option) go) \<Rightarrow>
   ('auth SdkClients \<Rightarrow> 'w OCIClients) \<Rightarrow> string \<Rightarrow> string \<Rightarrow> ('w, int) entry_go" where
  "OCICluster_Reconcile ce k lib GetOwnerCluster connect namespace name =
     fetchObject k namespace name (\<lambda>ociCluster deleted.
     ownedBy (GetOwnerCluster ociCluster) (\<lambda>cluster.
     if ok_IsPaused k cluster ociCluster then pausedEvent
     else go_bind (initClients ce ociCluster) (\<lambda>(clusterRegion, clients).
       go_seq (newHelper k ociCluster)
       (go_bind (lift_err (NewClusterScope (Some (CCO_ApiServerPort cluster)) (Some ociCluster) clusterRegion [])) (\<lambda>clusterScope.
       let c = clusterScopeClient (connect clients) in
       withScope clusterScope (\<lambda>s. ok_Patch k ociCluster (ok_SetSummary k (CS_OCICluster s)))
         (go_seq (if deleted then reconcileDelete lib c else reconcile lib c) (go_ret 0)))))))"

definition OCIManagedCluster_Reconcile ::
  "('w, 'sel, 'q, 'auth) ClientEnv \<Rightarrow> ('w, OCIManagedCluster) ObjectKube \<Rightarrow> KubeLib \<Rightarrow> (OCIManagedCluster \<Rightarrow> ('w, CapiClusterObject option) go) \<Rightarrow>
   ('auth SdkClients \<Rightarrow> 'w OCIClients) \<Rightarrow> string \<Rightarrow> string \<Rightarrow> ('w, int) entry_go" where
  "OCIManagedCluster_Reconcile ce k lib GetOwnerCluster connect namespace name =
     fetchObject k namespace name (\<lambda>ociCluster deleted.
     ownedBy (GetOwnerCluster ociCluster) (\<lambda>cluster.
     if ok_IsPaused k cluster ociCluster then pausedEvent
     else go_bind (initClients ce ociCluster) (\<lambda>(clusterRegion, clients).
       go_seq (newHelper k ociCluster)
       (go_bind (lift_err (NewClusterScope (Some (CCO_ApiServerPort cluster)) (Some ociCluster) clusterRegion [])) (\<lambda>clusterScope.
       let c = clusterScopeClient (connect clients) in
       go_bind (scopeCall clusterScope (sc_SetRegionKey c)) (\<lambda>clusterScope.
       withScope clusterScope (\<lambda>s. ok_Patch k ociCluster (ok_SetSummary k (CS_OCICluster s)))
         (go_seq (if deleted then managed_reconcileDelete lib c
            else managed_reconcile lib (ce_GetControlPlane ce)
              \<lparr>Owner_Namespace = cco_namespace cluster, Owner_ControlPlaneRefName = CCO_ControlPlaneRefName cluster\<rparr> c) (go_ret 0))))))))"

section \<open>Control planes\<close>

definition unavailable :: "('w, int) entry_go" where
  "unavailable = go_seq (record_event EventTypeWarning ''ClusterNotAvailable'' ''Cluster is not available yet'') (go_ret 0)"

text \<open>A request whose error ends the reconciliation with an event.\<close>

definition orElse :: "('w, 'a) go \<Rightarrow> ('w, int) entry_go \<Rightarrow> ('a \<Rightarrow> ('w, int) entry_go) \<Rightarrow> ('w, int) entry_go" where
  "orElse m other rest = go_bind (go_try (entry_call m)) (\<lambda>x. case x of Inl _ \<Rightarrow> other | Inr a \<Rightarrow> rest a)"

definition accessorOf :: "CapiClusterObject \<Rightarrow> OCICluster \<Rightarrow> ClusterScope" where
  "accessorOf cluster ociCluster = \<lparr>CS_OCICluster = ociCluster, CS_RegionIdentifier = [], CS_RegionKey = [],
     CS_ClusterNetworkAPIServerPort = CCO_ApiServerPort cluster\<rparr>"

definition ControlPlane_Reconcile ::
  "('w, 'sel, 'q, 'auth) ClientEnv \<Rightarrow> ('w, OCIManagedControlPlane) ObjectKube \<Rightarrow> ('w, OCIManagedCluster) ObjectKube \<Rightarrow>
   (string list \<Rightarrow> string list) \<Rightarrow> (OCIManagedControlPlane \<Rightarrow> ('w, CapiClusterObject option) go) \<Rightarrow>
   ('auth SdkClients \<Rightarrow> 'w ControlPlaneClients) \<Rightarrow> string \<Rightarrow> string \<Rightarrow> ('w, int) entry_go" where
  "ControlPlane_Reconcile ce k ck order GetOwnerCluster connect namespace name =
     fetchObject k namespace name (\<lambda>controlPlane deleted.
     ownedBy (GetOwnerCluster controlPlane) (\<lambda>cluster.
     if ok_IsPaused k cluster controlPlane then pausedEvent
     else orElse (ce_GetOCIManagedCluster ce (cco_namespace cluster) (CCO_InfrastructureRefName cluster)) unavailable (\<lambda>ociManagedCluster.
       if \<not> Status_Ready (Cluster_Status ociManagedCluster)
       then go_seq (record_event EventTypeWarning ''ClusterInfrastructureNotReady'' ''Cluster infrastructure is not ready'') (go_ret 0)
       else if ok_IsPaused ck cluster ociManagedCluster then pausedEvent
       else go_bind (initClients ce ociManagedCluster) (\<lambda>(clusterRegion, clients).
         go_seq (newHelper k controlPlane)
         (case NewManagedControlPlaneScope (Some (CCO_Network cluster))
             (Some ((accessorOf cluster ociManagedCluster)\<lparr>CS_RegionIdentifier := clusterRegion\<rparr>)) controlPlane of
            Inl err \<Rightarrow> withScope controlPlane (\<lambda>cp. ok_Patch k controlPlane (ok_SetSummary k cp)) (go_throw err)
          | Inr controlPlaneScope \<Rightarrow>
              withScope controlPlaneScope (\<lambda>s. ok_Patch k controlPlane (ok_SetSummary k (cp_object s)))
                (if deleted then cp_reconcileDelete (connect clients) else cp_reconcile order (connect clients)))))))"

section \<open>Machines\<close>

definition metadataCluster :: "string \<Rightarrow> ('w, CapiClusterObject) go \<Rightarrow> (CapiClusterObject \<Rightarrow> ('w, int) entry_go) \<Rightarrow> ('w, int) entry_go" where
  "metadataCluster msg m = orElse m (go_seq (record_event EventTypeWarning ''ClusterDoesNotExist'' msg) (go_ret 0))"

text \<open>The cluster of a machine or a pool of machines is of either kind; \<open>wait\<close> is the time to queue again when it is not there.\<close>

definition infrastructureCluster ::
  "('w, 'sel, 'q, 'auth) ClientEnv \<Rightarrow> int \<Rightarrow> CapiClusterObject \<Rightarrow> (OCICluster \<Rightarrow> ('w, int) entry_go) \<Rightarrow> ('w, int) entry_go" where
  "infrastructureCluster ce wait cluster rest =
     (let notYet = go_seq (record_event EventTypeWarning ''ClusterNotAvailable'' ''Cluster is not available yet'') (go_ret wait);
          kind = CCO_InfrastructureRefKind cluster;
          msg = ''Infrastructure Cluster Type '' @ kind @ '' is not supported'' in
      if kind = ''OCICluster'' then orElse (ce_GetOCICluster ce (cco_namespace cluster) (CCO_InfrastructureRefName cluster)) notYet rest
      else if kind = ''OCIManagedCluster''
      then orElse (ce_GetOCIManagedCluster ce (cco_namespace cluster) (CCO_InfrastructureRefName cluster)) notYet rest
      else go_seq (record_event EventTypeWarning ''InfrastructureClusterTypeNotSupported'' msg) (go_throw (ErrNew msg)))"

text \<open>\<open>errors.Errorf("failed to create scope: %+v", err)\<close>; the verb prints the message and the stack, which is left out.\<close>

definition scopeOr :: "goerr + 's \<Rightarrow> ('w, 's) entry_go" where
  "scopeOr x = (case x of Inl err \<Rightarrow> go_throw (ErrNew (''failed to create scope: '' @ Error err)) | Inr s \<Rightarrow> go_ret s)"

definition OCIMachine_Reconcile ::
  "('w, 'sel, 'q, 'auth) ClientEnv \<Rightarrow> ('w, OCIMachine) ObjectKube \<Rightarrow> KubeLib \<Rightarrow> (OCIMachine \<Rightarrow> ('w, Machine option) go) \<Rightarrow>
   (OCIMachine \<Rightarrow> ('w, CapiClusterObject) go) \<Rightarrow> ('auth SdkClients \<Rightarrow> 'w MachineClients) \<Rightarrow> string \<Rightarrow> string \<Rightarrow> ('w, int) entry_go" where
  "OCIMachine_Reconcile ce k lib GetOwnerMachine GetClusterFromMetadata connect namespace name =
     fetchObject k namespace name (\<lambda>ociMachine deleted.
     ownedBy (GetOwnerMachine ociMachine) (\<lambda>machine.
     metadataCluster ''Machine is missing cluster label or cluster does not exist'' (GetClusterFromMetadata ociMachine) (\<lambda>cluster.
     if ok_IsPaused k cluster ociMachine then go_ret 0
     else infrastructureCluster ce 10 cluster (\<lambda>ociCluster.
       go_bind (initClients ce ociCluster) (\<lambda>(_, clients).
       go_bind (scopeOr (NewMachineScope (Some machine) (Some (accessorOf cluster ociCluster)) ociMachine (ok_NewHelper k ociMachine))) (\<lambda>machineScope.
       withScope machineScope (\<lambda>s. ok_Patch k ociMachine (ok_SetSummary k (MS_OCIMachine s)))
         (if deleted then machine_reconcileDelete lib (connect clients) else machine_reconcileNormal lib (connect clients))))))))"

section \<open>Pools\<close>

record OwnerReference =
  ORef_Kind :: string
  ORef_APIVersion :: string
  ORef_Name :: string

record 'w OwnerKube =
  owk_ParseGroup :: "string \<Rightarrow> goerr + string"
  owk_Group :: string
  owk_GetMachinePool :: "string \<Rightarrow> string \<Rightarrow> ('w, MachinePool) go"

definition getMachinePoolByName :: "'w OwnerKube \<Rightarrow> string \<Rightarrow> string \<Rightarrow> ('w, MachinePool option) go" where
  "getMachinePoolByName ow namespace name = go_bind (owk_GetMachinePool ow namespace name) (\<lambda>m. go_ret (Some m))"

fun getOwnerMachinePool :: "'w OwnerKube \<Rightarrow> string \<Rightarrow> OwnerReference list \<Rightarrow> ('w, MachinePool option) go" where
  "getOwnerMachinePool ow namespace [] = go_ret None"
| "getOwnerMachinePool ow namespace (ref # refs) =
     (if ORef_Kind ref \<noteq> ''MachinePool'' then getOwnerMachinePool ow namespace refs
      else case owk_ParseGroup ow (ORef_APIVersion ref) of
        Inl err \<Rightarrow> go_throw err
      | Inr gv \<Rightarrow> if gv = owk_Group ow then getMachinePoolByName ow namespace (ORef_Name ref)
          else getOwnerMachinePool ow namespace refs)"

definition OCIMachinePool_Reconcile ::
  "('w, 'sel, 'q, 'auth) ClientEnv \<Rightarrow> ('w, OCIMachinePool) ObjectKube \<Rightarrow> 'w OwnerKube \<Rightarrow> (OCIMachinePool \<Rightarrow> OwnerReference list) \<Rightarrow>
   (OCIMachinePool \<Rightarrow> ('w, CapiClusterObject) go) \<Rightarrow> ('auth SdkClients \<Rightarrow> 'w PoolClients) \<Rightarrow> string \<Rightarrow> string \<Rightarrow> ('w, int) entry_go" where
  "OCIMachinePool_Reconcile ce k ok owners GetClusterFromMetadata connect namespace name =
     fetchObject k namespace name (\<lambda>ociMachinePool deleted.
     ownedBy (getOwnerMachinePool ok namespace (owners ociMachinePool)) (\<lambda>machinePool.
     metadataCluster ''MachinePool is missing cluster label or cluster does not exist'' (GetClusterFromMetadata ociMachinePool) (\<lambda>cluster.
     if ok_IsPaused k cluster ociMachinePool then go_ret 0
     else infrastructureCluster ce 0 cluster (\<lambda>ociCluster.
       go_bind (initClients ce ociCluster) (\<lambda>(_, clients).
       go_bind (scopeOr (NewMachinePoolScope (cco_cluster cluster) (Some machinePool) (Some (accessorOf cluster ociCluster)) ociMachinePool
         (ok_NewHelper k ociMachinePool))) (\<lambda>machinePoolScope.
       withScope machinePoolScope (\<lambda>s. ok_Patch k ociMachinePool (PS_OCIMachinePool s))
         (if deleted then pool_reconcileDelete (connect clients) else pool_reconcileNormal (connect clients))))))))"

text \<open>The common beginning for pools of managed clusters.\<close>

definition managedPoolEntry ::
  "('w, 'sel, 'q, 'auth) ClientEnv \<Rightarrow> ('w, 'o) ObjectKube \<Rightarrow> ('w, MachinePool option) go \<Rightarrow> ('w, CapiClusterObject) go \<Rightarrow> 'o \<Rightarrow>
   (MachinePool \<Rightarrow> CapiClusterObject \<Rightarrow> OCIManagedCluster \<Rightarrow> OCIManagedControlPlane \<Rightarrow> 'auth SdkClients \<Rightarrow> ('w, int) entry_go) \<Rightarrow> ('w, int) entry_go" where
  "managedPoolEntry ce k getOwner getCluster obj rest =
     ownedBy getOwner (\<lambda>machinePool.
     metadataCluster ''MachinePool is missing cluster label or cluster does not exist'' getCluster (\<lambda>cluster.
     if ok_IsPaused k cluster obj then go_ret 0
     else orElse (ce_GetOCIManagedCluster ce (cco_namespace cluster) (CCO_InfrastructureRefName cluster)) unavailable (\<lambda>ociManagedCluster.
       go_bind (initClients ce ociManagedCluster) (\<lambda>(_, clients).
       go_bind (go_wrap ''failed to get control plane ref''
         (entry_call (ce_GetControlPlane ce (cco_namespace cluster) (CCO_ControlPlaneRefName cluster)))) (\<lambda>controlPlane.
       rest machinePool cluster ociManagedCluster controlPlane clients)))))"

definition OCIManagedMachinePool_Reconcile ::
  "('w, 'sel, 'q, 'auth) ClientEnv \<Rightarrow> ('w, OCIManagedMachinePool) ObjectKube \<Rightarrow> 'w OwnerKube \<Rightarrow> (OCIManagedMachinePool \<Rightarrow> OwnerReference list) \<Rightarrow>
   (OCIManagedMachinePool \<Rightarrow> ('w, CapiClusterObject) go) \<Rightarrow> ('auth SdkClients \<Rightarrow> 'w NodePoolClients) \<Rightarrow> string \<Rightarrow> string \<Rightarrow> ('w, int) entry_go" where
  "OCIManagedMachinePool_Reconcile ce k ok owners GetClusterFromMetadata connect namespace name =
     fetchObject k namespace name (\<lambda>pool deleted.
     managedPoolEntry ce k (getOwnerMachinePool ok namespace (owners pool)) (GetClusterFromMetadata pool) pool
       (\<lambda>machinePool cluster ociManagedCluster controlPlane clients.
       go_bind (scopeOr (NewManagedMachinePoolScope (cco_cluster cluster) (Some machinePool) (Some ociManagedCluster) controlPlane pool
         (ok_NewHelper k pool))) (\<lambda>machinePoolScope.
       withScope machinePoolScope (\<lambda>s. ok_Patch k pool (MMP_OCIManagedMachinePool s))
         (if deleted then np_reconcileDelete (connect clients) else np_reconcileNormal (connect clients)))))"

definition OCIVirtualMachinePool_Reconcile ::
  "('w, 'sel, 'q, 'auth) ClientEnv \<Rightarrow> ('w, OCIVirtualMachinePool) ObjectKube \<Rightarrow> 'w OwnerKube \<Rightarrow> (OCIVirtualMachinePool \<Rightarrow> OwnerReference list) \<Rightarrow>
   (OCIVirtualMachinePool \<Rightarrow> ('w, CapiClusterObject) go) \<Rightarrow> ('auth SdkClients \<Rightarrow> 'w VirtualPoolClients) \<Rightarrow> string \<Rightarrow> string \<Rightarrow> ('w, int) entry_go" where
  "OCIVirtualMachinePool_Reconcile ce k ok owners GetClusterFromMetadata connect namespace name =
     fetchObject k namespace name (\<lambda>pool deleted.
     managedPoolEntry ce k (getOwnerMachinePool ok namespace (owners pool)) (GetClusterFromMetadata pool) pool
       (\<lambda>machinePool cluster ociManagedCluster controlPlane clients.
       go_bind (scopeOr (NewVirtualMachinePoolScope (cco_cluster cluster) (Some machinePool) (Some ociManagedCluster) controlPlane pool
         (ok_NewHelper k pool))) (\<lambda>machinePoolScope.
       withScope machinePoolScope (\<lambda>s. ok_Patch k pool (VMP_OCIVirtualMachinePool s))
         (if deleted then vp_reconcileDelete (connect clients) else vp_reconcileNormal (connect clients)))))"

text \<open>The machine of a pool only loses its finalizer. The error of the patch helper is ignored, and the helper is nil then.\<close>

definition OCIMachinePoolMachine_Reconcile ::
  "('w, OCIMachinePoolMachine) ObjectKube \<Rightarrow> KubeLib \<Rightarrow> string \<Rightarrow> string \<Rightarrow> ('w, int) entry_go" where
  "OCIMachinePoolMachine_Reconcile k lib namespace name =
     fetchObject k namespace name (\<lambda>m deleted.
     withScope m (\<lambda>m'. if ok_NewHelper k m = None then ok_Patch k m m' else go_panic)
       (go_seq (if deleted then ctl_mod (\<lambda>m. m\<lparr>PM_Finalizers := kube_RemoveFinalizer lib MachinePoolMachineFinalizer (PM_Finalizers m)\<rparr>)
          else go_ret ()) (go_ret 0)))"

end
