(* ===== verification/Reconcile_Properties.thy ===== *)
theory Reconcile_Properties
  imports Reconcile_Entry
begin

text \<open>
  What a whole reconciliation of a cluster asks of the Kubernetes API at its end: the object is patched on every exit, also after an
  error, and the patch takes the finalizer away only after all deletions have succeeded. And what a control plane under deletion waits for.
\<close>

section \<open>Leaving the scope\<close>

lemma deferred_Ret_iff: "deferred r q = Ret a \<longleftrightarrow> r = Ret a \<and> q = Ret ()"
  by (auto simp: deferred_def split: res.splits)

lemma withScope_run:
  assumes "withScope s close m ((p, w), ev) = (r, ((p', w'), ev'))" "r \<noteq> Diverge"
  obtains r1 s1 w1 q where "m ((s, w), ev) = (r1, ((s1, w1), ev'))" "close s1 w1 = (q, w')" "r = deferred r1 q"
proof -
  obtain r1 s1 w1 ev1 where m: "m ((s, w), ev) = (r1, ((s1, w1), ev1))" by (metis prod.collapse)
  obtain q w2 where q: "close s1 w1 = (q, w2)" by fastforce
  from assms m q have "ev1 = ev'" "w2 = w'" "r = deferred r1 q"
    by (auto simp: withScope_def split: res.splits)
  with m q that show thesis by blast
qed

lemma OCICluster_Reconcile_run:
  assumes "ok_Get k ns name w = (Ret (obj, deleted), w1)" "GetOwnerCluster obj w1 = (Ret (Some cluster), w2)" "\<not> ok_IsPaused k cluster obj"
    and "initClients ce obj ((p, w2), ev) = (Ret (region, clients), ((p3, w3), ev3))" "ok_NewHelper k obj = None"
  shows "OCICluster_Reconcile ce k lib GetOwnerCluster connect ns name ((p, w), ev) =
    withScope \<lparr>CS_OCICluster = obj, CS_RegionIdentifier = region, CS_RegionKey = [], CS_ClusterNetworkAPIServerPort = CCO_ApiServerPort cluster\<rparr>
      (\<lambda>s. ok_Patch k obj (ok_SetSummary k (CS_OCICluster s)))
      (go_seq (if deleted then reconcileDelete lib (clusterScopeClient (connect clients)) else reconcile lib (clusterScopeClient (connect clients)))
        (go_ret 0)) ((p3, w3), ev3)"
  using assms by (simp add: OCICluster_Reconcile_def fetchObject_def ownedBy_def entry_call_def newHelper_def NewClusterScope_def go_simps)

text \<open>The work between the fetch and the patch.\<close>

definition cluster_work :: "KubeLib \<Rightarrow> 'w ClusterScopeClient \<Rightarrow> bool \<Rightarrow> ('w ctrl, unit) go" where
  "cluster_work lib c deleted = (if deleted then reconcileDelete lib c else reconcile lib c)"

lemma cluster_work_outcome:
  assumes run: "cluster_work lib (clusterScopeClient cl) deleted x = (r, y)"
  shows "finalizers_of y = (if \<not> deleted then kube_AddFinalizer lib ClusterFinalizer (finalizers_of x)
      else if r = Ret () then kube_RemoveFinalizer lib ClusterFinalizer (finalizers_of x) else finalizers_of x) \<and>
    ready_of y = (if \<not> deleted \<and> r = Ret () then True else ready_of x) \<and>
    (deleted \<longrightarrow> (r = Ret () \<longleftrightarrow> (\<exists>t. deletions_succeed (clusterScopeClient cl) (fst x) t)))"
proof (cases deleted)
  case True
  with run have "reconcileDelete lib (clusterScopeClient cl) x = (r, y)" by (simp add: cluster_work_def)
  from scope.reconcileDelete_outcome [OF this] scope.reconcileDelete_Ret(1) [OF this] True show ?thesis by auto
next
  case False
  with run have "reconcile lib (clusterScopeClient cl) x = (r, y)" by (simp add: cluster_work_def)
  from scope.reconcile_outcome [OF this] False show ?thesis by auto
qed

text \<open>C7. What a reconciliation of a cluster writes back. Let the object be found and be owned by a cluster that is not paused, the
  clients be set up and the patch helper be made. Then \<open>Reconcile\<close>, unless it never returns, runs the deletion or the reconciliation
  of the cluster (the work) and ends with a patch whose base is the fetched object, also when the work has failed or panicked; no request
  follows the patch. If the cluster is not being deleted, the object given to the patch carries the finalizer, and it is marked ready
  when the work succeeded and otherwise as ready as the fetched object was. If it is being deleted, the finalizer is taken from the object given to
  the patch exactly when every deletion of the cluster has succeeded, and the readiness is the fetched one. \<open>Reconcile\<close> returns
  nil exactly when both the work and the patch succeeded, and never asks for another round. The status summary that the patch
  computes is assumed to touch neither the finalizers nor the readiness.\<close>

theorem cluster_finalizer_persisted:
  fixes s :: ClusterScope
  assumes get: "ok_Get k ns name w = (Ret (obj, deleted), w1)"
    and owner: "GetOwnerCluster obj w1 = (Ret (Some cluster), w2)" "\<not> ok_IsPaused k cluster obj"
    and clients: "initClients ce obj ((p, w2), ev) = (Ret (region, clients), ((p3, w3), ev3))"
    and helper: "ok_NewHelper k obj = None"
    and scope: "s = \<lparr>CS_OCICluster = obj, CS_RegionIdentifier = region, CS_RegionKey = [], CS_ClusterNetworkAPIServerPort = CCO_ApiServerPort cluster\<rparr>"
    and work: "cluster_work lib (clusterScopeClient (connect clients)) deleted ((s, w3), ev3) = (r1, ((s1, v), ev1))"
    and patch: "ok_Patch k obj (ok_SetSummary k (CS_OCICluster s1)) v = (q, v1)"
    and summary: "\<And>c. Cluster_Finalizers (ok_SetSummary k c) = Cluster_Finalizers c"
      "\<And>c. Status_Ready (Cluster_Status (ok_SetSummary k c)) = Status_Ready (Cluster_Status c)"
    and run: "OCICluster_Reconcile ce k lib GetOwnerCluster connect ns name ((p, w), ev) = (r, ((p', w'), ev'))" "r \<noteq> Diverge"
  shows "w' = v1 \<and> (r = Ret 0 \<longleftrightarrow> r1 = Ret () \<and> q = Ret ()) \<and> (\<forall>a. r = Ret a \<longrightarrow> a = 0) \<and>
    (let obj' = ok_SetSummary k (CS_OCICluster s1) in
      Cluster_Finalizers obj' = (if \<not> deleted then kube_AddFinalizer lib ClusterFinalizer (Cluster_Finalizers obj)
        else if \<exists>t. deletions_succeed (clusterScopeClient (connect clients)) (s, w3) t
        then kube_RemoveFinalizer lib ClusterFinalizer (Cluster_Finalizers obj) else Cluster_Finalizers obj) \<and>
      Status_Ready (Cluster_Status obj') = (if \<not> deleted \<and> r1 = Ret () then True else Status_Ready (Cluster_Status obj)))"
proof -
  have all: "go_seq (cluster_work lib (clusterScopeClient (connect clients)) deleted) (go_ret (0 :: int)) ((s, w3), ev3) =
      (case r1 of Ret _ \<Rightarrow> Ret 0 | Err e \<Rightarrow> Err e | Panic \<Rightarrow> Panic | Diverge \<Rightarrow> Diverge, ((s1, v), ev1))" (is "_ = (?r, _)")
    using work by (simp add: go_seq_apply go_ret_apply split: res.split)
  from run(1) have ws: "withScope s (\<lambda>s. ok_Patch k obj (ok_SetSummary k (CS_OCICluster s)))
      (go_seq (cluster_work lib (clusterScopeClient (connect clients)) deleted) (go_ret 0)) ((p3, w3), ev3) = (r, ((p', w'), ev'))"
    unfolding OCICluster_Reconcile_run [where GetOwnerCluster = GetOwnerCluster, OF get owner clients helper] scope cluster_work_def .
  from withScope_run [OF this run(2)] all patch have w': "w' = v1" and r: "r = deferred ?r q" by (metis Pair_inject)+
  have fin: "Cluster_Finalizers (CS_OCICluster s1) = (if \<not> deleted then kube_AddFinalizer lib ClusterFinalizer (Cluster_Finalizers obj)
        else if \<exists>t. deletions_succeed (clusterScopeClient (connect clients)) (s, w3) t
        then kube_RemoveFinalizer lib ClusterFinalizer (Cluster_Finalizers obj) else Cluster_Finalizers obj)"
    and ready: "Status_Ready (Cluster_Status (CS_OCICluster s1)) = (if \<not> deleted \<and> r1 = Ret () then True else Status_Ready (Cluster_Status obj))"
    using cluster_work_outcome [OF work] by (auto simp: scope)
  have "r = Ret a \<longleftrightarrow> a = 0 \<and> r1 = Ret () \<and> q = Ret ()" for a
    unfolding r deferred_Ret_iff by (auto split: res.splits)
  with w' fin ready summary show ?thesis by (auto simp: Let_def)
qed

text \<open>A world with one object, which the patch replaces. The tenancy is empty, so the reconciliation fails in the second step, and the patch carries
  the finalizer nevertheless.\<close>

definition fresh_cluster :: OCICluster where
  "fresh_cluster = (CS_OCICluster byo_scope)\<lparr>Cluster_Finalizers := []\<rparr>"

definition sample_capi :: CapiClusterObject where
  "sample_capi = \<lparr>CCO_Network = \<lparr>Capi_Name = ''c'', Capi_InfrastructureProvisioned = None, Capi_Namespace = ''prod'', Capi_PodsCIDRBlocks = [],
     Capi_ServicesCIDRBlocks = []\<rparr>, CCO_InfrastructureRefKind = ''OCICluster'', CCO_InfrastructureRefName = ''c'', CCO_ControlPlaneRefName = [],
     CCO_ApiServerPort = 6443\<rparr>"

definition one_object :: "(OCICluster option, OCICluster) ObjectKube" where
  "one_object = \<lparr>ok_Get = (\<lambda>ns name w. case w of None \<Rightarrow> (Err not_found_err, w) | Some c \<Rightarrow> (Ret (c, False), w)),
     ok_IsNotFound = (\<lambda>e. e = not_found_err), ok_IsPaused = (\<lambda>c obj. False), ok_NewHelper = (\<lambda>obj. None), ok_SetSummary = id,
     ok_Patch = (\<lambda>old new w. (Ret (), Some new))\<rparr>"

definition sample_env :: "(OCICluster option, unit, unit, string) ClientEnv" where
  "sample_env = \<lparr>ce_Identity = sample_ik, ce_Auth = sample_auth, ce_Region = [], ce_ClientProvider = None,
     ce_Accessor = (\<lambda>c. sample_accessor ''prod''), ce_GetOCICluster = (\<lambda>ns name. go_throw not_found_err),
     ce_GetOCIManagedCluster = (\<lambda>ns name. go_throw not_found_err), ce_GetControlPlane = (\<lambda>ns name. go_throw not_found_err)\<rparr>"

lemma sample_init:
  "\<exists>clients. initClients sample_env c ((sample_process, w), []) = (Ret (''us-ashburn-1'', clients), ((sample_process, w), []))"
  using sample_clients_run [of w] by (auto simp: initClients_def sample_env_def go_simps)

lemma one_object_get: "ok_Get one_object ns name (Some c) = (Ret (c, False), Some c)"
  by (simp add: one_object_def)

theorem cluster_finalizer_persisted_witness:
  "\<exists>e y c. OCICluster_Reconcile sample_env one_object sample_kube (\<lambda>_. go_ret (Some sample_capi)) (\<lambda>_. empty_clients) ''prod'' ''c''
      ((sample_process, Some fresh_cluster), []) = (Err e, y) \<and> snd (fst y) = Some c \<and> Cluster_Finalizers c = [ClusterFinalizer]"
proof -
  obtain clients where init: "initClients sample_env fresh_cluster ((sample_process, Some fresh_cluster), []) =
    (Ret (''us-ashburn-1'', clients), ((sample_process, Some fresh_cluster), []))" using sample_init by blast
  have owner: "(\<lambda>_. go_ret (Some sample_capi)) fresh_cluster (Some fresh_cluster) = (Ret (Some sample_capi), Some fresh_cluster)"
    by (simp add: go_ret_apply)
  have laws: "\<not> ok_IsPaused one_object sample_capi fresh_cluster" "ok_NewHelper one_object fresh_cluster = None"
    "ok_Patch one_object old new v = (Ret (), Some new)" "ok_SetSummary one_object = id" for old new v
    by (auto simp: one_object_def)
  let ?s = "\<lparr>CS_OCICluster = fresh_cluster, CS_RegionIdentifier = ''us-ashburn-1'', CS_RegionKey = [],
        CS_ClusterNetworkAPIServerPort = CCO_ApiServerPort sample_capi\<rparr>"
  obtain e s1 w1 ev1 where rec: "reconcile sample_kube (clusterScopeClient empty_clients) ((?s, Some fresh_cluster), []) = (Err e, ((s1, w1), ev1))"
    using byo_reconcile_run [of ?s "[]" "Some fresh_cluster", OF _ insert_Nil] by (auto simp: fresh_cluster_def)
  then have work: "cluster_work sample_kube (clusterScopeClient ((\<lambda>_. empty_clients) clients)) False ((?s, Some fresh_cluster), []) = (Err e, ((s1, w1), ev1))"
    by (simp add: cluster_work_def)
  from rec obtain p' w' ev' where run: "OCICluster_Reconcile sample_env one_object sample_kube (\<lambda>_. go_ret (Some sample_capi)) (\<lambda>_. empty_clients) ''prod'' ''c''
      ((sample_process, Some fresh_cluster), []) = (Err e, ((p', w'), ev'))"
    unfolding OCICluster_Reconcile_run [where GetOwnerCluster = "\<lambda>_. go_ret (Some sample_capi)", OF one_object_get owner laws(1) init laws(2)]
    by (auto simp: withScope_def go_seq_apply one_object_def deferred_def)
  have summary: "Cluster_Finalizers (ok_SetSummary one_object c) = Cluster_Finalizers c"
    "Status_Ready (Cluster_Status (ok_SetSummary one_object c)) = Status_Ready (Cluster_Status c)" for c
    by (simp_all add: laws(4))
  from cluster_finalizer_persisted [where GetOwnerCluster = "\<lambda>_. go_ret (Some sample_capi)" and connect = "\<lambda>_. empty_clients",
      OF one_object_get owner laws(1) init laws(2) refl work laws(3) summary run]
  have "w' = Some (CS_OCICluster s1)" "Cluster_Finalizers (CS_OCICluster s1) = kube_AddFinalizer sample_kube ClusterFinalizer (Cluster_Finalizers fresh_cluster)"
    by (simp_all add: laws(4) Let_def)
  with run show ?thesis
    by (intro exI [of _ e] exI [of _ "((p', w'), ev')"] exI [of _ "CS_OCICluster s1"]) (simp add: sample_kube_def fresh_cluster_def)
qed

text \<open>A control plane whose managed cluster is missing, or not ready, is left as it is also when it is being deleted: nothing is deleted,
  the finalizer stays, and no other round is asked for.\<close>

lemma deletion_waits_for_cluster:
  assumes "ok_Get k ns name w = (Ret (cp, True), w1)" "GetOwnerCluster cp w1 = (Ret (Some cluster), w2)" "\<not> ok_IsPaused k cluster cp"
    and "ce_GetOCIManagedCluster ce (cco_namespace cluster) (CCO_InfrastructureRefName cluster) w2 = (q, w3)"
    and "(\<exists>e. q = Err e) \<or> (\<exists>c. q = Ret c \<and> \<not> Status_Ready (Cluster_Status c))"
  shows "\<exists>e. ControlPlane_Reconcile ce k ck order GetOwnerCluster connect ns name ((p, w), ev) = (Ret 0, ((p, w3), ev @ [e])) \<and>
    Event_Type e = EventTypeWarning"
  using assms by (auto simp: ControlPlane_Reconcile_def fetchObject_def ownedBy_def orElse_def unavailable_def entry_call_def go_simps)

end
