(* ===== verification/Spec2Isabelle.thy ===== *)
theory Spec2Isabelle
  imports Cluster_Controller Cluster_Webhook Template_Webhook Machine_Readiness Pool_Updates Control_Plane_Properties
    Managed_Cluster Node_Pool_Frames Node_Pool_Roundtrip Node_Pool_Webhook Virtual_Pool_Controller Managed_Webhook Reconcile_Properties
begin

text \<open>
  \<^bold>\<open>A verification of the reconciliation of clusters, machines, machine pools and managed control planes in cluster-api-provider-oci.\<close>

  The program is a Kubernetes controller. It reads an \<open>OCICluster\<close> object, whose spec describes a network
  (a VCN with gateways, route tables, subnets, security lists, network security groups, peering and a load
  balancer), and brings the resources of the Oracle cloud in line with it; when the object is deleted it removes
  the resources again. Every resource is looked up by its recorded id or by its name, must carry the tags of
  this cluster to be touched, is created or updated when needed, and its id is written back into the spec. An
  \<open>OCIMachine\<close> object describes an instance of that cluster: it is launched in the network, with its volume and VNICs, put
  on the load balancer if it belongs to the control plane, and terminated when the object is deleted. An \<open>OCIMachinePool\<close> object describes a pool of such instances. A managed cluster leaves
  the control plane to the container engine service (OKE): \<open>OCIManagedCluster\<close> describes the network, \<open>OCIManagedControlPlane\<close> the
  cluster of the service with its addons and the secrets to reach it, \<open>OCIManagedMachinePool\<close> and \<open>OCIVirtualMachinePool\<close> its
  pools of nodes. Webhooks fill in defaults and reject objects that make no sense before they reach the controllers.

  \<^bold>\<open>How the code is modelled.\<close>
  A method of \<open>ClusterScope\<close> is a function on a pair of the scope (the record \<open>ClusterScope\<close>, which holds the
  object with its spec and status) and the state of the cloud, of an arbitrary type; a method of \<open>MachineScope\<close> likewise. It returns the new pair
  and a result: \<open>Ret\<close> a value, \<open>Err\<close> an error, \<open>Panic\<close> (a nil dereference or an index out of range), or
  \<open>Diverge\<close> (the call does not return). The OCI client is a record of functions on the cloud state that a
  method takes as an argument, so that nothing is said about the cloud but what a theorem assumes: the laws
  \<open>lawful_\<dots>\<close> say what the documented API promises (a get returns what is stored under the id, a create stores
  a new entry with the given tags and answers with it, a delete removes the entry or fails, a failing request
  changes nothing). The SDK, the client of Kubernetes and its helpers (conditions, finalizers) and the poller of apimachinery are
  arguments in the same way. A Go pointer is an \<open>option\<close>, \<open>nil\<close> is \<open>None\<close>; logging is left out.

  \<^bold>\<open>The theories.\<close>
  \<^item> \<open>Go_Prelude\<close>: results, the monad of methods, loops over slices, strings and maps of Go, and the relation
    \<open>keeps\<close> (a method relates the state before and after by a reflexive and transitive relation), with the
    collections the component proofs use. \<open>Go_Net\<close> and \<open>Go_Base64\<close> model the parts of the standard library for
    IP addresses and base64 that the sources call.
  \<^item> \<open>API_Types\<close> (src/api/v1beta2/types.go, ocicluster_types.go): the spec and status as records.
  \<^item> \<open>OCI_SDK\<close>: the resources and requests of the SDK that the sources use, the client records and the laws.
  \<^item> \<open>OCI_Util\<close>, \<open>Work_Requests\<close> (src/cloud/ociutil): tags, retry tokens, errors, polling of work requests.
  \<^item> \<open>Cluster_Scope\<close>, \<open>Subnet_Spec\<close> (src/cloud/scope/cluster.go, oci_selfmanaged_cluster.go, subnet_reconciler.go,
    util.go): the scope, its accessor, failure domains, and the queries over the network spec.
  \<^item> \<open>Resource_Contract\<close>, \<open>Slot_Cloud\<close>, \<open>Paged_Lookup\<close>: the contracts all reconcilers share, as locales: a lookup
    by id or by name that accepts only owned resources, a lookup over pages, the creation of a tagged resource,
    and a deletion that follows a lookup; and a small concrete cloud for the witnesses. Every reconciler
    interprets them with its own operations.
  \<^item> \<open>VCN_Reconciler\<close>, \<open>Gateways\<close>, \<open>Route_Tables\<close>, \<open>Security_Rules\<close>, \<open>NSG_Reconciler\<close>, \<open>Subnet_Reconciler\<close>,
    \<open>DRG_Reconciler\<close>, \<open>Load_Balancer\<close>, \<open>Network_Load_Balancer\<close>: one theory for each \<open>\<dots>_reconciler.go\<close> file of
    src/cloud/scope (the three gateways share one, as do the three files on peering).
  \<^item> \<open>Cluster_Frames\<close>: what no method of the scope changes (finalizers, conditions, readiness, identity).
  \<^item> \<open>Cluster_Controller\<close> (src/controllers/ocicluster_controller.go): \<open>reconcile\<close> and \<open>reconcileDelete\<close>, which call
    the scope through the interface \<open>ClusterScopeClient\<close>, here a record and a locale with its laws.
  \<^item> \<open>Validation\<close> (src/api/v1beta2/validator.go) and \<open>Cluster_Webhook\<close> (ocicluster_webhook.go): the checks of the network
    spec, and the defaulting and admission of \<open>OCICluster\<close> objects.
  \<^item> \<open>Machine_Types\<close> (src/api/v1beta2/ocimachine_types.go, types.go), \<open>Machine_Scope\<close>, \<open>Machine_Launch\<close>, \<open>Machine_Instances\<close>,
    \<open>Machine_LB\<close> (src/cloud/scope/machine.go, block_volume_reconciler.go, vnic_reconciler.go): the machine object, the
    queries over it and the retries over fault domains, the launch request, the operations on instances, volumes
    and VNICs, and the backends on the load balancer.
  \<^item> \<open>Machine_Frames\<close>: what the operations of the machine scope leave alone; its locale \<open>quiet_requests\<close> is the interface of the
    services: a relation on the cloud that all requests keep except the launch and the termination of instances.
  \<^item> \<open>Machine_Controller\<close> (src/controllers/ocimachine_controller.go): \<open>reconcileNormal\<close> and \<open>reconcileDelete\<close>;
    \<open>Machine_Deletion\<close> and \<open>Machine_Readiness\<close> hold their properties.
  \<^item> \<open>Controller_State\<close>: the state of a controller over any scope (the scope, the cloud and the recorded events), how its
    methods read and change it, and what a method that observes a change keeps.
  \<^item> \<open>Pool_Types\<close> (src/exp/api/v1beta2/ocimachinepool_types.go, ocimachinepool_machine_types.go), \<open>Instance_Config_Hash\<close>
    (src/cloud/hash/instanceconfighash.go), \<open>Pool_Scope\<close> and \<open>Machine_Pool\<close> (src/cloud/scope/machine_pool.go),
    \<open>Pool_Machines\<close> (the machine objects of src/cloud/util/util.go), \<open>Pool_Controller\<close>
    (src/exp/controllers/ocimachinepool_controller.go): pools of self managed machines. Their state is the scope of the
    pool, the cloud and the events. \<open>Pool_Frames\<close> says what the operations leave alone (its locale \<open>pool_queries\<close> is the
    interface of the requests that only read) and holds the property of the finalizer; \<open>Pool_Configurations\<close> and
    \<open>Pool_Updates\<close> hold the properties of the configurations, the pool and its machine objects; \<open>Pool_Samples\<close> is a
    concrete cloud for the witnesses.
  \<^item> \<open>OKE_Types\<close> (src/api/v1beta2/ocimanagedcontrolplane_types.go), \<open>Control_Plane_Scope\<close>, \<open>Control_Plane_Secrets\<close>,
    \<open>Control_Plane_Update\<close> (src/cloud/scope/managed_control_plane.go: lookup and creation of the cluster of the service, the
    secrets with the kubeconfig and the bootstrap script, comparison, update and addons), \<open>Control_Plane_Controller\<close>
    (src/controllers/ocimanagedcluster_controlplane_controller.go). \<open>Control_Plane_Settling\<close>, \<open>Control_Plane_Addons\<close> and
    \<open>Control_Plane_Properties\<close> hold their properties, \<open>Control_Plane_Samples\<close> a concrete service.
  \<^item> \<open>Managed_Cluster\<close> (src/controllers/ocimanagedcluster_controller.go): the network of a managed cluster, over the same
    interface \<open>ClusterScopeClient\<close> and the same locale as the self managed one.
  \<^item> \<open>Node_Pool_Types\<close> (src/exp/api/v1beta2/ocimanagedmachinepool_types.go), \<open>Node_Pool_Scope\<close>, \<open>Node_Pool_Update\<close>
    (src/cloud/scope/managed_machine_pool.go), \<open>Node_Pool_Controller\<close> (src/exp/controllers/ocimanaged_machinepool_controller.go),
    \<open>Node_Pool_Webhook\<close> (ocimanagedmachinepool_webhook.go): node pools. \<open>Node_Pool_Settling\<close>, \<open>Node_Pool_Roundtrip\<close> and
    \<open>Node_Pool_Frames\<close> hold their properties, \<open>Node_Pool_Samples\<close> a concrete service.
  \<^item> \<open>Virtual_Pool\<close> (src/cloud/scope/virtual_machine_pool.go, ocivirtualmachinepool_types.go and _webhook.go) and
    \<open>Virtual_Pool_Controller\<close> (src/exp/controllers/ocivirtual_machinepool_controller.go): virtual node pools.
  \<^item> \<open>Guarded_Deletion\<close>: the deletion both kinds of node pools share, as a locale: a search, and what it reported when the
    deletion changed the finalizers. Both controllers interpret it.
  \<^item> \<open>Managed_Webhook\<close> (src/api/v1beta2/ocimanagedcluster_webhook.go, ocimanagedcontrolplane_webhook.go) and
    \<open>Template_Webhook\<close> (ocimachinetemplate_webhook.go): the default network of managed clusters with its security rules, and the
    admission of managed clusters, control planes and machine templates.
  \<^item> \<open>Client_Provider\<close> (src/cloud/scope/clients.go): the clients of the SDK, one set for each region, and the header of their
    requests; \<open>Client_Setup\<close> (the first half of src/cloud/util/util.go): credentials and region of a cluster, from the
    identity it names or from the installation. Environment variables and the region that is remembered are the record \<open>Process\<close>.
  \<^item> \<open>Reconcile_Entry\<close>: the method \<open>Reconcile\<close> of all controllers under src/controllers and src/exp/controllers, from the
    fetch of the object to the deferred patch; \<open>Reconcile_Properties\<close>: what a whole reconciliation asks of the API at its end.

  \<^bold>\<open>What is proved.\<close>
  Reconciliation is idempotent and records resources that exist and are owned; deletion touches nothing but
  resources of this cluster and undoes reconciliation; updates of rules (of groups whose rules fit into one page of the list), security lists
  and load balancers converge to the spec; comparisons are exact; the endpoint that is published belongs to a load balancer that
  the service reported; the finalizer is removed exactly when every deletion has succeeded; lookups over pages
  end. Objects that pass the webhook keep their owner, a network of the user's own stays untouched, and what the webhook accepts
  the reconciler can build. A machine whose instance is recorded gets no second one, becomes ready only when that runs, and loses its
  finalizer only when the instance is gone; a launch goes through the fault domains as long as capacity is missing. Where the code deviates from its intention the theorem states what it does (a wrong skip flag, a silent
  success without a gateway, a lookup that never ends, an adopted security list that is never recorded, tags that
  make a machine undeletable, a backend that is left on the load balancer, a volume that is left behind, a configuration found by name that blocks the
  creation of its pool, a subnet larger than its VCN). When the hashes of launch details agree is characterised field by field, a reconciled instance
  configuration stays as it is, old configurations are removed and the one in use is not, every instance of a pool gets its
  machine object, and the deletion of a pool ends exactly when no instance pool uses one of its configurations. A managed control plane publishes
  the endpoint of an active cluster, settles exactly when the spec and the cluster differ only in what an update can change, acts on
  the addons of the spec and those it has installed only, and loses its finalizer when the cluster is gone. A node pool that was created from a complete spec reads back as its
  spec, so it is not updated; its image is the first that suits; what the service refuses in one request is never sent in one; an
  admitted pool can be compared. The default network of a managed cluster is admitted and has what the pools of nodes refer to by name.
  The clients a cluster gets are those of an identity that admits its namespace, for the region the spec asks for, whether
  they come out of the cache or not; and every exit of a reconciliation ends with a patch that carries the finalizer. The theorems on errors say what happens when a kubeconfig has no context, when a virtual
  pool is scaled from outside, and when the version of a pool is removed.

  What a service does is never a definition of the model: beside the laws \<open>lawful_\<dots>\<close>, the theorems that follow a request to a later answer take the answer as a
  variable and assume of it what the API documents (\<open>takes_update\<close> for the cluster after an update, \<open>pool_reported\<close> for a node pool after its creation,
  \<open>configuration_service\<close> for instance configurations that may be in use). Concrete services appear in the witnesses only.

  \<^bold>\<open>Bounds.\<close>
  Loops over slices are structural recursion. Loops over pages are \<open>partial_function (option)\<close>: a loop that does
  not end is the result \<open>Diverge\<close>, and that it ends is a theorem. Polling is a parameter; the law of the poller
  says that it calls its condition until that is done, fails, or the time is up.

  \<^bold>\<open>Not modelled.\<close>
  The conversion between API versions and generated code, which copy fields; the configuration file and the flags of the
  process, the constructors of clients and credentials inside the SDK, the token request of src/cloud/services/base and the metrics
  (input and output); the watches of the controllers and the manager that queues their requests (\<open>SetupWithManager\<close>). Concurrent reconciliations of
  one process share only the cache of clients, whose locks order the calls.
\<close>

section \<open>Properties that span components\<close>

text \<open>A scope over an admitted object whose VCN is to be left alone.\<close>

lemma admitted_skip:
  assumes "admitted mapping regexp_Compile (CS_OCICluster s)" and "VCN_Skip (GetVcnSpec s)"
  shows "InternetGateway_Skip (VCN_InternetGateway (GetVcnSpec s))" "ServiceGateway_Skip (VCN_ServiceGateway (GetVcnSpec s))"
    "NATGateway_Skip (VCN_NATGateway (GetVcnSpec s))" "RouteTable_Skip (VCN_RouteTable (GetVcnSpec s))"
    "p \<in> set (GetSubnetsSpec s) \<Longrightarrow> \<exists>x. p = Some x \<and> Subnet_Skip x"
  using admittedD(1) [OF assms(1)] assms(2)
  by (auto simp: skipErrors_Nil accessor_defs GetSubnetsSpec_def) (metis not_None_eq)

lemma go_for_skip: "(\<And>x. x \<in> set xs \<Longrightarrow> body x st = (Ret (), st)) \<Longrightarrow> go_for xs body st = (Ret (), st)"
  by (induction xs) (simp_all add: go_simps)

text \<open>C29. A network that belongs to the user stays untouched. If the webhook has admitted an object whose VCN is to be
  skipped, then reconciling and deleting the VCN, its gateways, its route tables and its subnets return nil without a
  single request and leave the scope as it is. This also covers the internet gateway, whose deletion looks at the flag
  of the route table: the webhook has made sure that both flags are set.\<close>

theorem admitted_skipped_network_untouched:
  assumes adm: "admitted mapping regexp_Compile (CS_OCICluster s)" and skip: "VCN_Skip (GetVcnSpec s)"
  shows "ReconcileVCN va (s, w) = (Ret (), (s, w)) \<and> DeleteVCN va (s, w) = (Ret (), (s, w)) \<and>
    ReconcileInternetGateway ia (s, w) = (Ret (), (s, w)) \<and> DeleteInternetGateway ia (s, w) = (Ret (), (s, w)) \<and>
    ReconcileNatGateway na (s, w) = (Ret (), (s, w)) \<and> DeleteNatGateway na (s, w) = (Ret (), (s, w)) \<and>
    ReconcileServiceGateway ga (s, w) = (Ret (), (s, w)) \<and> DeleteServiceGateway ga (s, w) = (Ret (), (s, w)) \<and>
    ReconcileRouteTable va ra (s, w) = (Ret (), (s, w)) \<and> DeleteRouteTables ra (s, w) = (Ret (), (s, w)) \<and>
    ReconcileSubnet va la sa (s, w) = (Ret (), (s, w)) \<and> DeleteSubnets sa (s, w) = (Ret (), (s, w))"
proof -
  note flags = admitted_skip [OF adm skip]
  have "reconcileSubnetAt va la sa i (s, w) = (Ret (), (s, w))" if "i < length (GetSubnetsSpec s)" for i
    using flags(5) [OF nth_mem [OF that]] by (auto simp: reconcileSubnetAt_def go_simps)
  then have "ReconcileSubnet va la sa (s, w) = (Ret (), (s, w))" "DeleteSubnets sa (s, w) = (Ret (), (s, w))"
    by (auto simp: ReconcileSubnet_def DeleteSubnets_def go_simps intro!: go_for_skip dest: flags(5))
  with flags skip show ?thesis
    by (simp add: ReconcileVCN_def DeleteVCN_def ReconcileInternetGateway_def DeleteInternetGateway_def ReconcileNatGateway_def
        DeleteNatGateway_def ReconcileServiceGateway_def DeleteServiceGateway_def ReconcileRouteTable_def DeleteRouteTables_def go_simps)
qed

definition own_network :: OCICluster where
  "own_network = (let spec = Cluster_Spec new_cluster; v = sample_vcn
     \<lparr>VCN_ID := Some ''ocid1.vcn'', VCN_Skip := True,
      VCN_Subnets := [Some (accepted_subnet\<lparr>Subnet_ID := Some ''ocid1.subnet'', Subnet_Skip := True\<rparr>)],
      VCN_InternetGateway := \<lparr>InternetGateway_Skip = True, InternetGateway_Id = None\<rparr>,
      VCN_NATGateway := \<lparr>NATGateway_Skip = True, NATGateway_Id = None\<rparr>,
      VCN_ServiceGateway := \<lparr>ServiceGateway_Skip = True, ServiceGateway_Id = None\<rparr>,
      VCN_RouteTable := \<lparr>RouteTable_Skip = True, RouteTable_PrivateRouteTableId = None, RouteTable_PublicRouteTableId = None\<rparr>\<rparr>
     in new_cluster\<lparr>Cluster_Spec := spec\<lparr>Spec_NetworkSpec := (Spec_NetworkSpec spec)\<lparr>NetworkSpec_Vcn := v\<rparr>\<rparr>\<rparr>)"

definition own_scope :: ClusterScope where "own_scope = sample_scope\<lparr>CS_OCICluster := own_network\<rparr>"

lemma own_network_simps:
  "GetVcnSpec own_scope = NetworkSpec_Vcn (Spec_NetworkSpec (Cluster_Spec own_network))" "CS_OCICluster own_scope = own_network"
  "VCN_Skip (NetworkSpec_Vcn (Spec_NetworkSpec (Cluster_Spec own_network)))"
  by (simp_all add: own_scope_def own_network_def accessor_defs Let_def)

lemma own_network_admitted: "admitted sample_mapping (\<lambda>_. None) own_network"
proof -
  have "skipErrors (NetworkSpec_Vcn (Spec_NetworkSpec (Cluster_Spec own_network))) = Ret []"
    by (simp add: skipErrors_Nil own_network_def Let_def)
  moreover have "\<not> hextetAssigned own_network"
    by (simp add: hextetAssigned_def webhook_GetControlPlaneEndpointSubnet_def webhook_Subnets_def own_network_def
        accepted_subnet_def Let_def)
  moreover have "validateSubnets OCIClusterSubnetRoles (webhook_Subnets own_network)
      (NetworkSpec_Vcn (Spec_NetworkSpec (Cluster_Spec own_network))) p = Ret []" for p
    by (simp add: validateSubnets_def webhook_Subnets_def own_network_def Let_def accepted_subnet_def invalidNameRegex_def
        OCIClusterSubnetRoles_def validateSubnetCIDR_def parse_default_cidrs validateSubnetName_def validateRole_def opt_list_def)
  moreover have "validateHealthChecker sample_mapping (\<lambda>_. None)
      (specHealthChecker (NetworkSpec_APIServerLB (Spec_NetworkSpec (Cluster_Spec own_network)))) p = []" for p
    using new_cluster_hc by (simp add: own_network_def Let_def)
  ultimately have "validate sample_mapping (\<lambda>_. None) own_network = Ret []"
    by (simp add: validate_def ValidateNetworkSpec_def Let_def webhook_Subnets_def)
       (simp add: own_network_def Let_def validateNSGs_def ValidateClusterName_def new_cluster_eval)
  with \<open>skipErrors _ = _\<close> \<open>\<not> hextetAssigned _\<close> show ?thesis
    by (simp add: admitted_def ValidateCreate_def admission_None res_append_Nil Let_def)
qed

theorem admitted_skipped_network_untouched_witness:
  "DeleteInternetGateway (cl_Igw empty_clients) (own_scope, ()) = (Ret (), (own_scope, ()))"
  using admitted_skipped_network_untouched [of sample_mapping "\<lambda>_. None" own_scope _ "()" "cl_Igw empty_clients"] own_network_admitted
  by (simp add: own_network_simps)

end
